(* ===== verification/Kumolo_Prelude.thy ===== *)
theory Kumolo_Prelude
  imports Main "HOL-Library.Word" "HOL-Library.AList" "HOL-Library.List_Lexorder" "HOL-Library.Char_ord"
begin

text \<open>
  The shared base of the development: the names of the machine types, the fact collections
  the component theories add to, and the list and search routines of the Go standard library
  that the services call (the marker scan \<open>for i, x := range xs\<close> and \<open>sort.Search\<close>),
  with the lemmas on them that the component proofs use.

  Go strings are byte strings, modelled by \<^typ>\<open>string\<close> (a list of 8-bit characters);
  \<open>len\<close> is \<^const>\<open>length\<close> and the order of \<open>sort.Strings\<close> is the lexicographic order on
  bytes, which is the order that \<open>HOL-Library.List_Lexorder\<close> and \<open>HOL-Library.Char_ord\<close>
  put on \<^typ>\<open>string\<close>.
\<close>

type_synonym u8 = "8 word"
type_synonym bytes = "u8 list"

text \<open>A Go \<open>map[string]string\<close> in one of its iteration orders: the keys are distinct.\<close>

type_synonym smap = "(string \<times> string) list"

abbreviation smap_wf :: "smap \<Rightarrow> bool" where
  "smap_wf m \<equiv> distinct (map fst m)"

named_theorems go_simps \<open>evaluation rules for the Go library routines\<close>
named_theorems fs_simps \<open>how file operations change what a path holds\<close>
named_theorems kms_defs \<open>definitions of the KMS storage operations\<close>
named_theorems kms_handler_defs \<open>definitions of the KMS request handlers\<close>

section \<open>Bytes and characters\<close>

definition byte_of_char :: "char \<Rightarrow> u8" where
  "byte_of_char c = of_nat (of_char c)"

definition char_of_byte :: "u8 \<Rightarrow> char" where
  "char_of_byte b = char_of (unat b)"

definition string_of_bytes :: "bytes \<Rightarrow> string" where
  "string_of_bytes bs = map char_of_byte bs"

definition bytes_of_string :: "string \<Rightarrow> bytes" where
  "bytes_of_string s = map byte_of_char s"

lemma unat_byte_of_char [simp]: "unat (byte_of_char c) = of_char c"
proof -
  have "of_char c < (256::nat)" by simp
  then show ?thesis by (simp add: byte_of_char_def unat_of_nat)
qed

lemma char_of_byte_of_char [simp]: "char_of_byte (byte_of_char c) = c"
  by (simp add: char_of_byte_def)

lemma string_of_bytes_of_string [simp]: "string_of_bytes (bytes_of_string s) = s"
  by (induction s) (simp_all add: string_of_bytes_def bytes_of_string_def)

lemma length_bytes_of_string [simp]: "length (bytes_of_string s) = length s"
  by (simp add: bytes_of_string_def)

lemma length_string_of_bytes [simp]: "length (string_of_bytes s) = length s"
  by (simp add: string_of_bytes_def)

section \<open>Scanning a list for the first match\<close>

text \<open>\<open>for i, x := range xs { if p(x) { start = i; break } }\<close>: the index of the first match.\<close>

fun find_index :: "('a \<Rightarrow> bool) \<Rightarrow> 'a list \<Rightarrow> nat option" where
  "find_index p [] = None"
| "find_index p (x # xs) = (if p x then Some 0 else map_option Suc (find_index p xs))"

lemma find_index_None: "find_index p xs = None \<longleftrightarrow> (\<forall>x\<in>set xs. \<not> p x)"
  by (induction xs) auto

lemma find_index_Some:
  "find_index p xs = Some i \<Longrightarrow> i < length xs \<and> p (xs ! i) \<and> (\<forall>j<i. \<not> p (xs ! j))"
proof (induction xs arbitrary: i)
  case Nil
  then show ?case by simp
next
  case (Cons x xs)
  show ?case
  proof (cases "p x")
    case True
    with Cons.prems show ?thesis by simp
  next
    case False
    with Cons.prems obtain k where "find_index p xs = Some k" "i = Suc k" by auto
    with Cons.IH[of k] False show ?thesis by (auto simp: less_Suc_eq_0_disj)
  qed
qed

lemma find_index_key:
  assumes "distinct (map f xs)" and "i < length xs"
  shows "find_index (\<lambda>x. f x = f (xs ! i)) xs = Some i"
  using assms
proof (induction xs arbitrary: i)
  case Nil
  then show ?case by simp
next
  case (Cons x xs)
  show ?case
  proof (cases i)
    case 0
    then show ?thesis by simp
  next
    case (Suc k)
    with Cons.prems have k: "k < length xs" by simp
    with Cons.prems have "f x \<noteq> f (xs ! k)" by (metis distinct.simps(2) length_map list.simps(9) nth_map nth_mem)
    with Cons.IH[of k] Cons.prems k Suc show ?thesis by simp
  qed
qed

section \<open>Binary search (sort.Search)\<close>

text \<open>
  \<^verbatim>\<open>
  i, j := 0, n
  for i < j {
      h := int(uint(i+j) >> 1)
      if !f(h) { i = h + 1 } else { j = h }
  }
  return i
  \<close>
\<close>

function sort_search_loop :: "(nat \<Rightarrow> bool) \<Rightarrow> nat \<Rightarrow> nat \<Rightarrow> nat" where
  "sort_search_loop f i j =
     (if i < j
      then let h = (i + j) div 2
           in if \<not> f h then sort_search_loop f (h + 1) j else sort_search_loop f i h
      else i)"
  by pat_completeness auto
termination
  by (relation "measure (\<lambda>(f, i, j). j - i)") (auto simp: Let_def)

declare sort_search_loop.simps [simp del]

definition sort_Search :: "nat \<Rightarrow> (nat \<Rightarrow> bool) \<Rightarrow> nat" where
  "sort_Search n f = sort_search_loop f 0 n"

lemma sort_search_loop_spec:
  assumes "\<And>a b. a \<le> b \<Longrightarrow> b < n \<Longrightarrow> f a \<Longrightarrow> f b" and "i \<le> j" and "j \<le> n" and "\<forall>k<i. \<not> f k" and "\<forall>k. j \<le> k \<and> k < n \<longrightarrow> f k"
  shows "i \<le> sort_search_loop f i j \<and> sort_search_loop f i j \<le> j
       \<and> (\<forall>k < sort_search_loop f i j. \<not> f k)
       \<and> (\<forall>k. sort_search_loop f i j \<le> k \<and> k < n \<longrightarrow> f k)"
  using assms
proof (induction f i j rule: sort_search_loop.induct)
  case (1 f i j)
  show ?case
  proof (cases "i < j")
    case False
    then have "sort_search_loop f i j = i" by (simp add: sort_search_loop.simps[of f i j])
    moreover have "i = j" using False "1.prems"(2) by simp
    ultimately show ?thesis using "1.prems"(4,5) by simp
  next
    case True
    define h where "h = (i + j) div 2"
    have hb: "i \<le> h" "h < j" using True by (auto simp: h_def)
    show ?thesis
    proof (cases "f h")
      case True
      have eq: "sort_search_loop f i j = sort_search_loop f i h"
        using \<open>i < j\<close> True by (simp add: sort_search_loop.simps[of f i j] Let_def flip: h_def)
      have up: "\<forall>k. h \<le> k \<and> k < n \<longrightarrow> f k" using "1.prems"(1) True by blast
      have hn: "h \<le> n" using hb "1.prems"(3) by simp
      have "i \<le> sort_search_loop f i h \<and> sort_search_loop f i h \<le> h
          \<and> (\<forall>k < sort_search_loop f i h. \<not> f k)
          \<and> (\<forall>k. sort_search_loop f i h \<le> k \<and> k < n \<longrightarrow> f k)"
        using "1.IH"(2)[OF \<open>i < j\<close> h_def] True "1.prems"(1,4) hb(1) hn up by simp
      with eq hb(2) show ?thesis by auto
    next
      case False
      have eq: "sort_search_loop f i j = sort_search_loop f (h + 1) j"
        using \<open>i < j\<close> False by (simp add: sort_search_loop.simps[of f i j] Let_def flip: h_def)
      have "h < n" using hb(2) "1.prems"(3) by simp
      then have low: "\<forall>k < h + 1. \<not> f k" using "1.prems"(1)[of _ h] False by (metis less_Suc_eq_le Suc_eq_plus1)
      have "h + 1 \<le> sort_search_loop f (h + 1) j \<and> sort_search_loop f (h + 1) j \<le> j
          \<and> (\<forall>k < sort_search_loop f (h + 1) j. \<not> f k)
          \<and> (\<forall>k. sort_search_loop f (h + 1) j \<le> k \<and> k < n \<longrightarrow> f k)"
        using "1.IH"(1)[OF \<open>i < j\<close> h_def] False "1.prems"(1,3,5) hb(2) low by simp
      with eq hb(1) show ?thesis by auto
    qed
  qed
qed

lemma sort_Search_sorted:
  fixes m :: "'b :: linorder"
  assumes "sorted (map g xs)"
  defines "r \<equiv> sort_Search (length xs) (\<lambda>i. m \<le> g (xs ! i))"
  shows "r \<le> length xs" and "\<And>k. k < r \<Longrightarrow> g (xs ! k) < m"
    and "\<And>k. r \<le> k \<Longrightarrow> k < length xs \<Longrightarrow> m \<le> g (xs ! k)"
proof -
  let ?f = "\<lambda>i. m \<le> g (xs ! i)"
  have mono: "?f b" if "a \<le> b" "b < length xs" "?f a" for a b
    using assms(1) that sorted_nth_mono[of "map g xs" a b] by simp
  have spec: "r \<le> length xs \<and> (\<forall>k < r. \<not> ?f k) \<and> (\<forall>k. r \<le> k \<and> k < length xs \<longrightarrow> ?f k)"
  proof -
    have "0 \<le> sort_search_loop ?f 0 (length xs) \<and> sort_search_loop ?f 0 (length xs) \<le> length xs
       \<and> (\<forall>k < sort_search_loop ?f 0 (length xs). \<not> ?f k)
       \<and> (\<forall>k. sort_search_loop ?f 0 (length xs) \<le> k \<and> k < length xs \<longrightarrow> ?f k)"
      by (rule sort_search_loop_spec[where f = ?f and n = "length xs"], erule (2) mono) auto
    then show ?thesis unfolding r_def sort_Search_def by (intro conjI; elim conjE)
  qed
  then show "r \<le> length xs" by simp
  fix k
  show "k < r \<Longrightarrow> g (xs ! k) < m" using spec by (auto simp: not_le)
  show "r \<le> k \<Longrightarrow> k < length xs \<Longrightarrow> m \<le> g (xs ! k)" using spec by auto
qed

section \<open>Association lists\<close>

lemma map_of_update [simp]: "map_of (AList.update k v al) = (map_of al)(k \<mapsto> v)"
  by (rule update_conv')

lemma map_of_delete [simp]: "map_of (AList.delete k al) = (map_of al)(k := None)"
  by (rule delete_conv')

lemma set_update_distinct:
  assumes "distinct (map fst al)"
  shows "set (AList.update k v al) = insert (k, v) {p \<in> set al. fst p \<noteq> k}"
proof -
  have d: "distinct (map fst (AList.update k v al))" using assms by (rule distinct_update)
  have "(a, b) \<in> set (AList.update k v al) \<longleftrightarrow> (a, b) \<in> insert (k, v) {p \<in> set al. fst p \<noteq> k}" for a b
    using map_of_eq_Some_iff[OF d, of a b] map_of_eq_Some_iff[OF assms, of a b] by (cases "a = k") auto
  then show ?thesis by auto
qed

lemma set_delete: "set (AList.delete k al) = {p \<in> set al. fst p \<noteq> k}"
  by (auto simp: AList.delete_eq)

lemma map_of_sort_key_fst:
  "distinct (map fst m) \<Longrightarrow> map_of (sort_key fst m) = map_of m"
  by (rule map_of_inject_set[THEN iffD2]) (simp_all add: distinct_map)

end
