(* ===== verification/Go_Json.thy ===== *)
theory Go_Json
  imports Go_Strings
begin

text \<open>
  The string encoder of \<open>encoding/json\<close> (\<open>json.Marshal\<close> with HTML escaping, as Go 1.22 and later
  write it), on byte strings: well-formed UTF-8 sequences are copied, the characters that JSON or
  HTML give a meaning are escaped, and every byte that does not start a well-formed sequence is
  replaced by the escape of U+FFFD. Decoding what the encoder wrote gives the string back exactly
  when it was well-formed.
\<close>

definition cont_byte :: "nat \<Rightarrow> bool" where
  "cont_byte n \<longleftrightarrow> 128 \<le> n \<and> n \<le> 191"

text \<open>\<open>utf8.DecodeRuneInString\<close>: the length of the sequence at the front, 0 for an invalid one.\<close>

definition second_ok :: "nat \<Rightarrow> nat \<Rightarrow> bool" where
  "second_ok b0 n \<longleftrightarrow>
     (if b0 = 224 then 160 \<le> n \<and> n \<le> 191
      else if b0 = 237 then 128 \<le> n \<and> n \<le> 159
      else if b0 = 240 then 144 \<le> n \<and> n \<le> 191
      else if b0 = 244 then 128 \<le> n \<and> n \<le> 143
      else cont_byte n)"

definition utf8_size :: "string \<Rightarrow> nat" where
  "utf8_size s =
     (case map of_char s of
        [] \<Rightarrow> 0
      | b0 # r \<Rightarrow>
          if b0 < 128 then 1
          else if 194 \<le> b0 \<and> b0 \<le> 223 then
            (case r of b1 # _ \<Rightarrow> if cont_byte b1 then 2 else 0 | _ \<Rightarrow> 0)
          else if 224 \<le> b0 \<and> b0 \<le> 239 then
            (case r of b1 # b2 # _ \<Rightarrow> if second_ok b0 b1 \<and> cont_byte b2 then 3 else 0 | _ \<Rightarrow> 0)
          else if 240 \<le> b0 \<and> b0 \<le> 244 then
            (case r of b1 # b2 # b3 # _ \<Rightarrow>
                if second_ok b0 b1 \<and> cont_byte b2 \<and> cont_byte b3 then 4 else 0 | _ \<Rightarrow> 0)
          else 0)"

lemma utf8_size_le: "utf8_size s \<le> length s"
  by (auto simp: utf8_size_def split: list.splits)

lemma second_ok_high: "second_ok b0 n \<Longrightarrow> 128 \<le> n"
  by (auto simp: second_ok_def cont_byte_def split: if_splits)

lemma utf8_size_high:
  "1 < utf8_size s \<Longrightarrow> c \<in> set (take (utf8_size s) s) \<Longrightarrow> 128 \<le> (of_char c :: nat)"
  by (auto simp: utf8_size_def cont_byte_def dest: second_ok_high split: list.splits if_splits)

lemma utf8_size_one: "utf8_size (c # cs) = 1 \<Longrightarrow> (of_char c :: nat) < 128"
  by (auto simp: utf8_size_def split: list.splits if_splits)

function valid_utf8 :: "string \<Rightarrow> bool" where
  "valid_utf8 s =
     (if s = [] then True else if utf8_size s = 0 then False else valid_utf8 (drop (utf8_size s) s))"
  by pat_completeness auto
termination by (relation "measure length") auto

declare valid_utf8.simps [simp del]

definition json_ascii :: "char \<Rightarrow> string" where
  "json_ascii c =
     (if c = CHR 0x22 \<or> c = CHR 0x5C then [CHR 0x5C, c]
      else if c = CHR 0x08 then [CHR 0x5C, CHR ''b'']
      else if c = CHR 0x0C then [CHR 0x5C, CHR ''f'']
      else if c = CHR 0x0A then [CHR 0x5C, CHR ''n'']
      else if c = CHR 0x0D then [CHR 0x5C, CHR ''r'']
      else if c = CHR 0x09 then [CHR 0x5C, CHR ''t'']
      else if (of_char c :: nat) < 32 \<or> c = CHR ''<'' \<or> c = CHR ''>'' \<or> c = CHR ''&''
        then [CHR 0x5C, CHR ''u'', CHR ''0'', CHR ''0'', hexdig (of_char c div 16), hexdig (of_char c mod 16)]
      else [c])"

definition line_sep :: string where "line_sep = [CHR 0xE2, CHR 0x80, CHR 0xA8]"
definition para_sep :: string where "para_sep = [CHR 0xE2, CHR 0x80, CHR 0xA9]"

text \<open>The text between the quotes.\<close>

function json_body :: "string \<Rightarrow> string" where
  "json_body s =
     (if s = [] then []
      else let n = utf8_size s
           in if n = 0 then CHR 0x5C # ''ufffd'' @ json_body (tl s)
              else if n = 1 then json_ascii (hd s) @ json_body (tl s)
              else if take n s = line_sep then CHR 0x5C # ''u2028'' @ json_body (drop n s)
              else if take n s = para_sep then CHR 0x5C # ''u2029'' @ json_body (drop n s)
              else take n s @ json_body (drop n s))"
  by pat_completeness auto
termination by (relation "measure length") auto

declare json_body.simps [simp del]

definition json_string :: "string \<Rightarrow> string" where
  "json_string s = CHR 0x22 # json_body s @ [CHR 0x22]"

section \<open>Decoding\<close>

definition unhex_lower :: "char \<Rightarrow> nat" where
  "unhex_lower c = (let n = of_char c in if n < 58 then n - 48 else n - 87)"

definition json_unescape :: "string \<Rightarrow> string" where
  "json_unescape ds =
     (if ds = ''2028'' then line_sep else if ds = ''2029'' then para_sep
      else [char_of (16 * unhex_lower (ds ! 2) + unhex_lower (ds ! 3))])"

definition json_simple :: "char \<Rightarrow> char" where
  "json_simple e =
     (if e = CHR ''b'' then CHR 0x08 else if e = CHR ''f'' then CHR 0x0C else if e = CHR ''n'' then CHR 0x0A
      else if e = CHR ''r'' then CHR 0x0D else if e = CHR ''t'' then CHR 0x09 else e)"

text \<open>Reads up to the closing quote; gives the string and what follows it.\<close>

fun unquote :: "string \<Rightarrow> (string \<times> string) option" where
  "unquote [] = None"
| "unquote (c # cs) =
     (if c = CHR 0x22 then Some ([], cs)
      else if c = CHR 0x5C then
        (case cs of
           [] \<Rightarrow> None
         | e # r \<Rightarrow>
             if e = CHR ''u'' then map_option (apfst ((@) (json_unescape (take 4 r)))) (unquote (drop 4 r))
             else map_option (apfst ((#) (json_simple e))) (unquote r))
      else map_option (apfst ((#) c)) (unquote cs))"

definition prepend :: "string \<Rightarrow> (string \<times> string) option \<Rightarrow> (string \<times> string) option" where
  "prepend w r = (case r of None \<Rightarrow> None | Some (a, b) \<Rightarrow> Some (w @ a, b))"

lemma prepend_map: "map_option (apfst ((@) w)) r = prepend w r" "map_option (apfst ((#) c)) r = prepend [c] r"
  by (cases r; auto simp: prepend_def)+

lemma prepend_simps [simp]: "prepend [] r = r" "prepend v (prepend w r) = prepend (v @ w) r"
  "prepend w (Some (a, b)) = Some (w @ a, b)"
  by (auto simp: prepend_def split: option.splits)

lemma unquote_prepend:
  "unquote (CHR 0x22 # cs) = Some ([], cs)"
  "e \<noteq> CHR ''u'' \<Longrightarrow> unquote (CHR 0x5C # e # r) = prepend [json_simple e] (unquote r)"
  "unquote (CHR 0x5C # CHR ''u'' # r) = prepend (json_unescape (take 4 r)) (unquote (drop 4 r))"
  "c \<noteq> CHR 0x22 \<Longrightarrow> c \<noteq> CHR 0x5C \<Longrightarrow> unquote (c # cs) = prepend [c] (unquote cs)"
  by (simp_all add: prepend_map)

declare unquote.simps(2) [simp del]

lemma unquote_plain:
  "(\<And>c. c \<in> set w \<Longrightarrow> 128 \<le> (of_char c :: nat)) \<Longrightarrow> unquote (w @ t) = prepend w (unquote t)"
proof (induction w)
  case Nil
  then show ?case by simp
next
  case (Cons c w)
  from Cons.prems[of c] have "c \<noteq> CHR 0x22" "c \<noteq> CHR 0x5C" by auto
  moreover have "unquote (w @ t) = prepend w (unquote t)" by (rule Cons.IH) (use Cons.prems in auto)
  ultimately show ?case by (simp add: unquote_prepend(4))
qed

lemma unhex_lower_hexdig: "n < 16 \<Longrightarrow> unhex_lower (hexdig n) = n"
  by (auto simp: unhex_lower_def of_char_hexdig Let_def)

lemma json_unescape_ascii:
  assumes "(of_char c :: nat) < 128"
  shows "json_unescape [CHR ''0'', CHR ''0'', hexdig (of_char c div 16), hexdig (of_char c mod 16)] = [c]"
proof -
  have "(of_char c :: nat) div 16 < 16" using assms by simp
  then show ?thesis by (simp add: json_unescape_def unhex_lower_hexdig)
qed

lemma unquote_ascii:
  assumes "(of_char c :: nat) < 128"
  shows "unquote (json_ascii c @ t) = prepend [c] (unquote t)"
  using json_unescape_ascii[OF assms] by (auto simp: json_ascii_def json_simple_def unquote_prepend)

lemma unquote_body: "valid_utf8 s \<Longrightarrow> unquote (json_body s @ CHR 0x22 # t) = Some (s, t)"
proof (induction s rule: json_body.induct)
  case (1 s)
  show ?case
  proof (cases "s = []")
    case True
    then show ?thesis by (simp add: json_body.simps[of "[]"] unquote_prepend)
  next
    case False
    define n where "n = utf8_size s"
    from "1.prems" False have n0: "0 < n" and vd: "valid_utf8 (drop n s)"
      by (auto simp: valid_utf8.simps[of s] n_def split: if_splits)
    show ?thesis
    proof (cases "n = 1")
      case True
      obtain c cs where s: "s = c # cs" using False by (cases s) auto
      have ih: "unquote (json_body cs @ CHR 0x22 # t) = Some (cs, t)"
        using "1.IH"(2)[OF False n_def] True vd s by simp
      have "(of_char c :: nat) < 128" using utf8_size_one[of c cs] True s n_def by simp
      moreover have "json_body s = json_ascii c @ json_body cs"
        using s True n_def by (simp add: json_body.simps[of "c # cs"] Let_def)
      ultimately show ?thesis using s ih unquote_ascii[of c "json_body cs @ CHR 0x22 # t"] by simp
    next
      case False
      with n0 have n1: "1 < n" by simp
      have split: "s = take n s @ drop n s" by simp
      have ih: "unquote (json_body (drop n s) @ CHR 0x22 # t) = Some (drop n s, t)"
        if "take n s = line_sep \<or> take n s = para_sep \<or> (take n s \<noteq> line_sep \<and> take n s \<noteq> para_sep)"
        using "1.IH"(3-5)[OF \<open>s \<noteq> []\<close> n_def] n1 vd by (cases "take n s = line_sep"; cases "take n s = para_sep") auto
      consider "take n s = line_sep" | "take n s = para_sep" "take n s \<noteq> line_sep"
        | "take n s \<noteq> line_sep" "take n s \<noteq> para_sep" by blast
      then show ?thesis
      proof cases
        case 1
        then have "json_body s = CHR 0x5C # ''u2028'' @ json_body (drop n s)"
          using \<open>s \<noteq> []\<close> n1 by (simp add: json_body.simps[of s] Let_def flip: n_def)
        then show ?thesis using ih 1 split by (simp add: json_unescape_def unquote_prepend)
      next
        case 2
        then have "json_body s = CHR 0x5C # ''u2029'' @ json_body (drop n s)"
          using \<open>s \<noteq> []\<close> n1 by (simp add: json_body.simps[of s] Let_def flip: n_def)
        then show ?thesis using ih 2 split by (simp add: json_unescape_def unquote_prepend)
      next
        case 3
        then have "json_body s = take n s @ json_body (drop n s)"
          using \<open>s \<noteq> []\<close> n1 by (simp add: json_body.simps[of s] Let_def flip: n_def)
        moreover have "\<And>c. c \<in> set (take n s) \<Longrightarrow> 128 \<le> (of_char c :: nat)"
          using utf8_size_high[of s] n1 unfolding n_def by blast
        ultimately show ?thesis
          using ih 3 unquote_plain[of "take n s" "json_body (drop n s) @ CHR 0x22 # t"] by simp
      qed
    qed
  qed
qed

lemma unquote_json_string:
  "valid_utf8 s \<Longrightarrow> unquote (tl (json_string s) @ t) = Some (s, t)"
  by (simp add: json_string_def unquote_body)

section \<open>Arrays of string pairs\<close>

definition json_pair :: "string \<times> string \<Rightarrow> string" where
  "json_pair p = ''['' @ json_string (fst p) @ '','' @ json_string (snd p) @ '']''"

fun json_rest :: "(string \<times> string) list \<Rightarrow> string" where
  "json_rest [] = '']''"
| "json_rest (p # ps) = '','' @ json_pair p @ json_rest ps"

text \<open>\<open>json.Marshal\<close> of a \<open>[][2]string\<close>\<close>

definition json_pairs :: "(string \<times> string) list \<Rightarrow> string" where
  "json_pairs ps = (case ps of [] \<Rightarrow> ''[]'' | p # r \<Rightarrow> ''['' @ json_pair p @ json_rest r)"

abbreviation valid_pair :: "string \<times> string \<Rightarrow> bool" where
  "valid_pair p \<equiv> valid_utf8 (fst p) \<and> valid_utf8 (snd p)"

lemma json_string_inj:
  assumes "valid_utf8 s" and "valid_utf8 s'" and "json_string s @ t = json_string s' @ t'"
  shows "s = s' \<and> t = t'"
proof -
  have "unquote (tl (json_string s) @ t) = unquote (tl (json_string s') @ t')"
    using assms(3) by (simp add: json_string_def)
  then show ?thesis using unquote_json_string[OF assms(1)] unquote_json_string[OF assms(2)] by simp
qed

lemma json_pair_inj:
  assumes "valid_pair p" and "valid_pair q" and "json_pair p @ t = json_pair q @ t'"
  shows "p = q \<and> t = t'"
proof -
  let ?v = "\<lambda>p t. '','' @ json_string (snd p) @ '']'' @ t"
  have "json_string (fst p) @ ?v p t = json_string (fst q) @ ?v q t'"
    using assms(3) by (simp add: json_pair_def)
  then have "fst p = fst q \<and> ?v p t = ?v q t'"
    using json_string_inj[of "fst p" "fst q" "?v p t" "?v q t'"] assms(1,2) by blast
  moreover from this have "json_string (snd p) @ '']'' @ t = json_string (snd q) @ '']'' @ t'" by simp
  then have "snd p = snd q \<and> '']'' @ t = '']'' @ t'"
    using json_string_inj[of "snd p" "snd q" "'']'' @ t" "'']'' @ t'"] assms(1,2) by blast
  ultimately show ?thesis by (simp add: prod_eq_iff)
qed

lemma json_rest_inj:
  "(\<forall>p\<in>set ps. valid_pair p) \<Longrightarrow> (\<forall>p\<in>set qs. valid_pair p) \<Longrightarrow> json_rest ps = json_rest qs \<Longrightarrow> ps = qs"
proof (induction ps arbitrary: qs)
  case Nil
  then show ?case by (cases qs) auto
next
  case (Cons p ps)
  then obtain q qs' where qs: "qs = q # qs'" by (cases qs) auto
  have e: "json_pair p @ json_rest ps = json_pair q @ json_rest qs'" using Cons.prems(3) qs by simp
  have pq: "p = q \<and> json_rest ps = json_rest qs'"
    by (rule json_pair_inj[OF _ _ e]) (use Cons.prems(1,2) qs in simp_all)
  have "ps = qs'" by (rule Cons.IH) (use Cons.prems(1,2) qs pq in simp_all)
  with pq qs show ?case by simp
qed

lemma json_pairs_Cons: "json_pairs (p # ps) = ''['' @ tl (json_rest (p # ps))"
  by (simp add: json_pairs_def)

lemma json_pairs_Nil_iff: "json_pairs ps = json_pairs [] \<longleftrightarrow> ps = []"
proof (cases ps)
  case (Cons p r)
  have "json_pairs ps ! 1 = CHR ''[''" unfolding Cons json_pairs_def list.case json_pair_def by simp
  moreover have "json_pairs [] ! 1 = CHR '']''" unfolding json_pairs_def by simp
  moreover have "CHR ''['' \<noteq> CHR '']''" by simp
  ultimately have "json_pairs ps \<noteq> json_pairs []" by metis
  with Cons show ?thesis by simp
qed simp

lemma json_pairs_inj:
  assumes "\<forall>p\<in>set ps. valid_pair p" and "\<forall>p\<in>set qs. valid_pair p" and "json_pairs ps = json_pairs qs"
  shows "ps = qs"
proof (cases ps)
  case Nil
  then have "qs = []" using assms(3) json_pairs_Nil_iff[of qs] by simp
  with Nil show ?thesis by simp
next
  case (Cons p ps')
  moreover obtain q qs' where qs: "qs = q # qs'"
    using assms(3) Cons json_pairs_Nil_iff[of ps] by (cases qs) auto
  ultimately have "json_rest ps = json_rest qs" using assms(3) by (simp add: json_pairs_Cons)
  then show ?thesis by (rule json_rest_inj[OF assms(1,2)])
qed

end
