(* ===== verification/Go_Value.thy ===== *)
theory Go_Value
  imports Go_Json
begin

text \<open>
  Values of Go's type \<open>any\<close> as \<open>encoding/json\<close> decodes them, and \<open>json.Marshal\<close> on them. A
  \<open>map[string]any\<close> is an association list in one of its iteration orders; \<open>json.Marshal\<close> sorts the
  keys, so the text does not depend on the order. A number that was decoded to a \<open>float64\<close> is kept
  as the text that the encoder writes for it: the services never compute with such a number.

  The main result is that two values have the same text exactly when they are equal up to the
  order of their maps. The services compare values by their JSON text in many places.
\<close>

datatype gany =
    GNil
  | GBool bool
  | GNum string
  | GStr string
  | GSlice "gany list"
  | GMap "(string \<times> gany) list"

type_synonym gmap = "(string \<times> gany) list"

text \<open>Type assertions with the comma-ok form: \<open>m, ok := v.(map[string]any)\<close> and the like.\<close>

definition as_map :: "gany \<Rightarrow> gmap option" where
  "as_map v = (case v of GMap m \<Rightarrow> Some m | _ \<Rightarrow> None)"

definition as_str :: "gany \<Rightarrow> string option" where
  "as_str v = (case v of GStr s \<Rightarrow> Some s | _ \<Rightarrow> None)"

definition as_slice :: "gany \<Rightarrow> gany list option" where
  "as_slice v = (case v of GSlice xs \<Rightarrow> Some xs | _ \<Rightarrow> None)"

text \<open>\<open>m[k]\<close> without the comma-ok form: a missing key reads as nil.\<close>

definition get0 :: "gmap \<Rightarrow> string \<Rightarrow> gany" where
  "get0 m k = (case map_of m k of None \<Rightarrow> GNil | Some v \<Rightarrow> v)"

text \<open>\<open>s, ok := m[k].(string)\<close> and \<open>xs, ok := m[k].([]any)\<close>\<close>

definition str_at :: "gmap \<Rightarrow> string \<Rightarrow> string option" where
  "str_at m k = as_str (get0 m k)"

definition slice_at :: "gmap \<Rightarrow> string \<Rightarrow> gany list option" where
  "slice_at m k = as_slice (get0 m k)"

lemma as_simps [simp]:
  "as_map (GMap m) = Some m" "as_str (GStr s) = Some s" "as_slice (GSlice xs) = Some xs"
  "as_map GNil = None" "as_str GNil = None" "as_slice GNil = None"
  by (simp_all add: as_map_def as_str_def as_slice_def)

lemma as_Some [simp]:
  "as_map v = Some m \<longleftrightarrow> v = GMap m" "as_str v = Some s \<longleftrightarrow> v = GStr s" "as_slice v = Some xs \<longleftrightarrow> v = GSlice xs"
  by (auto simp: as_map_def as_str_def as_slice_def split: gany.splits)

section \<open>json.Marshal\<close>

fun json_commas :: "string list \<Rightarrow> string" where
  "json_commas [] = []"
| "json_commas [s] = s"
| "json_commas (s # t # ss) = s @ '','' @ json_commas (t # ss)"

text \<open>The text of a value whose maps are listed in the order in which they are written.\<close>

primrec json_text :: "gany \<Rightarrow> string" where
  "json_text GNil = ''null''"
| "json_text (GBool b) = (if b then ''true'' else ''false'')"
| "json_text (GNum s) = s"
| "json_text (GStr s) = json_string s"
| "json_text (GSlice xs) = ''['' @ json_commas (map json_text xs) @ '']''"
| "json_text (GMap m) =
     ''{'' @ json_commas (map (\<lambda>(k, t). json_string k @ '':'' @ t) (map (map_prod id json_text) m)) @ ''}''"

text \<open>Every map in the order of its sorted keys.\<close>

primrec canon :: "gany \<Rightarrow> gany" where
  "canon GNil = GNil"
| "canon (GBool b) = GBool b"
| "canon (GNum s) = GNum s"
| "canon (GStr s) = GStr s"
| "canon (GSlice xs) = GSlice (map canon xs)"
| "canon (GMap m) = GMap (sort_key fst (map (map_prod id canon) m))"

definition json_Marshal :: "gany \<Rightarrow> string" where
  "json_Marshal v = json_text (canon v)"

text \<open>\<open>string(aj) == string(bj)\<close> for the texts of two values\<close>

definition json_same :: "gany \<Rightarrow> gany \<Rightarrow> bool" where
  "json_same a b \<longleftrightarrow> json_Marshal a = json_Marshal b"

section \<open>Decoded values\<close>

text \<open>
  What the decoder produces: valid UTF-8 strings (it replaces other bytes), distinct keys, and
  numbers as the encoder writes them.
\<close>

definition num_char :: "char \<Rightarrow> bool" where
  "num_char c \<longleftrightarrow> c \<in> set ''0123456789+-.eE''"

definition num_text :: "string \<Rightarrow> bool" where
  "num_text s \<longleftrightarrow> s \<noteq> [] \<and> list_all num_char s \<and> hd s \<noteq> CHR ''e''"

primrec gany_ok :: "gany \<Rightarrow> bool" where
  "gany_ok GNil = True"
| "gany_ok (GBool b) = True"
| "gany_ok (GNum s) = num_text s"
| "gany_ok (GStr s) = valid_utf8 s"
| "gany_ok (GSlice xs) = list_all id (map gany_ok xs)"
| "gany_ok (GMap m) = (distinct (map fst m) \<and> list_all (\<lambda>(k, b). valid_utf8 k \<and> b) (map (map_prod id gany_ok) m))"

lemma gany_ok_Slice: "gany_ok (GSlice xs) \<longleftrightarrow> (\<forall>x\<in>set xs. gany_ok x)"
  by (auto simp: list_all_iff)

lemma gany_ok_Map: "gany_ok (GMap m) \<longleftrightarrow> distinct (map fst m) \<and> (\<forall>(k, v)\<in>set m. valid_utf8 k \<and> gany_ok v)"
  by (auto simp: list_all_iff)

declare gany_ok.simps(5,6) [simp del]
lemmas [simp] = gany_ok_Slice gany_ok_Map

lemma gany_ok_canon: "gany_ok v \<Longrightarrow> gany_ok (canon v)"
proof (induction v)
  case (GMap m)
  have "map fst (map (map_prod id canon) m) = map fst m" by simp
  with GMap.prems have "distinct (map fst (sort_key fst (map (map_prod id canon) m)))"
    by (metis distinct_map distinct_sort gany_ok_Map set_sort)
  moreover have "valid_utf8 k \<and> gany_ok w" if kw: "(k, w) \<in> set (sort_key fst (map (map_prod id canon) m))" for k w
  proof -
    from kw obtain v where v: "(k, v) \<in> set m" "w = canon v" by auto
    with GMap.prems GMap.IH[OF v(1), of v] show ?thesis by (auto simp: prod_set_simps)
  qed
  ultimately show ?case unfolding canon.simps gany_ok_Map by blast
qed (auto simp: list_all_iff)

section \<open>The text determines the value\<close>

text \<open>What may follow a value inside a text: not a character of a number.\<close>

definition ends :: "string \<Rightarrow> bool" where
  "ends t \<longleftrightarrow> (case t of [] \<Rightarrow> True | c # _ \<Rightarrow> \<not> num_char c)"

lemma ends_simps [simp]:
  "ends []" "ends (CHR '','' # t)" "ends (CHR '']'' # t)" "ends (CHR ''}'' # t)"
  by (simp_all add: ends_def num_char_def)

lemma num_text_inj:
  assumes "list_all num_char s" "list_all num_char s'" "ends t" "ends t'" "s @ t = s' @ t'"
  shows "s = s' \<and> t = t'"
proof -
  have split: "s = takeWhile num_char (s @ t) \<and> t = dropWhile num_char (s @ t)"
    if "list_all num_char s" "ends t" for s t
    using that by (cases t) (auto simp: list_all_iff ends_def takeWhile_eq_all_conv[THEN iffD2] dropWhile_eq_Nil_conv[THEN iffD2])
  show ?thesis using split[OF assms(1,3)] split[OF assms(2,4)] assms(5) by metis
qed

text \<open>The kind of a value is seen in the first character of its text.\<close>

definition kind_of :: "gany \<Rightarrow> nat" where
  "kind_of v = (case v of GNil \<Rightarrow> 0 | GBool b \<Rightarrow> (if b then 1 else 2) | GNum s \<Rightarrow> 3 | GStr s \<Rightarrow> 4
                | GSlice xs \<Rightarrow> 5 | GMap m \<Rightarrow> 6)"

definition kind_char :: "char \<Rightarrow> nat" where
  "kind_char c = (if c = CHR ''n'' then 0 else if c = CHR ''t'' then 1 else if c = CHR ''f'' then 2
     else if c = CHR 0x22 then 4 else if c = CHR ''['' then 5 else if c = CHR ''{'' then 6 else 3)"

lemma kind_char_text: "gany_ok v \<Longrightarrow> \<exists>c s. json_text v = c # s \<and> kind_char c = kind_of v"
proof (cases v)
  case (GNum s)
  assume "gany_ok v"
  with GNum obtain c r where "s = c # r" "num_char c" by (cases s) (auto simp: num_text_def)
  then show ?thesis using GNum by (auto simp: kind_char_def kind_of_def num_char_def)
qed (auto simp: kind_char_def kind_of_def json_string_def)

lemma same_kind:
  "gany_ok v \<Longrightarrow> gany_ok w \<Longrightarrow> json_text v @ t = json_text w @ t' \<Longrightarrow> kind_of v = kind_of w"
  using kind_char_text[of v] kind_char_text[of w] by auto

lemma text_not_close: "gany_ok v \<Longrightarrow> json_text v \<noteq> [] \<and> hd (json_text v) \<noteq> CHR '']''"
  using kind_char_text[of v] by (cases v) (auto simp: kind_char_def num_text_def num_char_def json_string_def)

text \<open>A list of texts between commas is determined when each text is.\<close>

lemma json_commas_inj:
  assumes "\<And>x y u u'. x \<in> set xs \<Longrightarrow> y \<in> set ys \<Longrightarrow> ends u \<Longrightarrow> ends u' \<Longrightarrow> f x @ u = g y @ u' \<Longrightarrow> h x = k y \<and> u = u'"
    and "\<And>x. x \<in> set xs \<Longrightarrow> f x \<noteq> [] \<and> hd (f x) \<noteq> e" and "\<And>y. y \<in> set ys \<Longrightarrow> g y \<noteq> [] \<and> hd (g y) \<noteq> e"
    and "e \<in> {CHR '']'', CHR ''}''}"
    and "json_commas (map f xs) @ e # t = json_commas (map g ys) @ e # t'"
  shows "map h xs = map k ys \<and> t = t'"
  using assms
proof (induction xs arbitrary: ys)
  case Nil
  show ?case
  proof (cases ys)
    case (Cons y ys')
    with Nil.prems(3)[of y] obtain c r where "g y = c # r" "c \<noteq> e" by (cases "g y") auto
    then have "hd (json_commas (map g ys) @ e # t') = c" by (cases ys') (simp_all add: Cons)
    moreover have "hd (json_commas (map g ys) @ e # t') = e" using Nil.prems(5) by (metis append_Nil json_commas.simps(1) list.map(1) list.sel(1))
    ultimately show ?thesis using \<open>c \<noteq> e\<close> by simp
  qed (use Nil in simp)
next
  case (Cons x xs)
  obtain y ys' where ys: "ys = y # ys'"
    using Cons.prems(2)[of x] Cons.prems(5) by (cases ys; cases "f x"; cases xs) auto
  define u where "u = (if xs = [] then e # t else '','' @ json_commas (map f xs) @ e # t)"
  define u' where "u' = (if ys' = [] then e # t' else '','' @ json_commas (map g ys') @ e # t')"
  have l: "json_commas (map f (x # xs)) @ e # t = f x @ u" by (cases xs) (auto simp: u_def)
  have r: "json_commas (map g ys) @ e # t' = g y @ u'" by (cases ys') (auto simp: u'_def ys)
  have ends: "ends u" "ends u'" using Cons.prems(4) by (auto simp: u_def u'_def)
  have "h x = k y" and eq: "u = u'" using Cons.prems(1)[of x y u u'] Cons.prems(5) l r ends ys by auto
  have e: "e \<noteq> CHR '',''" using Cons.prems(4) by auto
  show ?case
  proof (cases "xs = []")
    case True
    then have "ys' = []" using eq e by (auto simp: u_def u'_def split: if_splits)
    with True eq \<open>h x = k y\<close> show ?thesis by (simp add: u_def u'_def ys)
  next
    case False
    then have "ys' \<noteq> []" using eq e by (auto simp: u_def u'_def split: if_splits)
    with False eq have "json_commas (map f xs) @ e # t = json_commas (map g ys') @ e # t'"
      by (simp add: u_def u'_def)
    from Cons.IH[OF _ _ _ Cons.prems(4) this] Cons.prems(1-3) \<open>h x = k y\<close> show ?thesis by (auto simp: ys)
  qed
qed

lemma gany_ok_elem: "gany_ok (GMap m) \<Longrightarrow> p \<in> set m \<Longrightarrow> valid_utf8 (fst p) \<and> gany_ok (snd p)"
  by (cases p) auto

lemma json_text_inj:
  "gany_ok v \<Longrightarrow> gany_ok w \<Longrightarrow> ends t \<Longrightarrow> ends t' \<Longrightarrow> json_text v @ t = json_text w @ t' \<Longrightarrow> v = w \<and> t = t'"
proof (induction v arbitrary: w t t')
  case (GNum s)
  then obtain s' where w: "w = GNum s'"
    using same_kind[OF GNum.prems(1,2,5)] by (cases w) (auto simp: kind_of_def split: if_splits)
  with GNum num_text_inj[of s s' t t'] show ?case by (auto simp: num_text_def)
next
  case (GStr s)
  then obtain s' where w: "w = GStr s'"
    using same_kind[OF GStr.prems(1,2,5)] by (cases w) (auto simp: kind_of_def split: if_splits)
  with GStr json_string_inj[of s s' t t'] show ?case by auto
next
  case (GSlice xs)
  then obtain ys where w: "w = GSlice ys"
    using same_kind[OF GSlice.prems(1,2,5)] by (cases w) (auto simp: kind_of_def split: if_splits)
  have "map id xs = map id ys \<and> t = t'"
  proof (rule json_commas_inj[where e = "CHR '']''" and f = json_text and g = json_text])
    show "json_commas (map json_text xs) @ CHR '']'' # t = json_commas (map json_text ys) @ CHR '']'' # t'"
      using GSlice.prems(5) w by simp
  qed (use GSlice w text_not_close in auto)
  then show ?case using w by simp
next
  case (GMap m)
  then obtain m' where w: "w = GMap m'"
    using same_kind[OF GMap.prems(1,2,5)] by (cases w) (auto simp: kind_of_def split: if_splits)
  let ?f = "\<lambda>p. json_string (fst p) @ '':'' @ json_text (snd p)"
  have tx: "json_text (GMap n) = ''{'' @ json_commas (map ?f n) @ ''}''" for n
    by (simp add: comp_def case_prod_beta)
  have "map id m = map id m' \<and> t = t'"
  proof (rule json_commas_inj[where e = "CHR ''}''" and f = ?f and g = ?f])
    show "json_commas (map ?f m) @ CHR ''}'' # t = json_commas (map ?f m') @ CHR ''}'' # t'"
      using GMap.prems(5) unfolding w tx by simp
    fix p q u u'
    assume p: "p \<in> set m" and q: "q \<in> set m'" and e: "ends u" "ends u'" and eq: "?f p @ u = ?f q @ u'"
    have v: "valid_utf8 (fst p)" "gany_ok (snd p)" "valid_utf8 (fst q)" "gany_ok (snd q)"
      using gany_ok_elem GMap.prems(1,2) p q w by auto
    have "fst p = fst q" "json_text (snd p) @ u = json_text (snd q) @ u'"
      using json_string_inj[OF v(1,3), of "'':'' @ json_text (snd p) @ u" "'':'' @ json_text (snd q) @ u'"] eq by auto
    with GMap.IH[OF p _ v(2,4) e] show "id p = id q \<and> u = u'" by (cases p; cases q) (auto simp: prod_set_simps)
  qed (auto simp: json_string_def)
  then show ?case using w by simp
next
  case GNil
  then have "w = GNil" using same_kind[OF GNil.prems(1,2,5)] by (cases w) (auto simp: kind_of_def split: if_splits)
  with GNil.prems(5) show ?case by simp
next
  case (GBool b)
  then have "w = GBool b" using same_kind[OF GBool.prems(1,2,5)] by (cases w) (auto simp: kind_of_def split: if_splits)
  with GBool.prems(5) show ?case by simp
qed

text \<open>Texts are equal exactly when the values are equal up to the order of their maps.\<close>

lemma json_same_iff: "gany_ok a \<Longrightarrow> gany_ok b \<Longrightarrow> json_same a b \<longleftrightarrow> canon a = canon b"
  using json_text_inj[of "canon a" "canon b" "[]" "[]"] gany_ok_canon
  by (auto simp: json_same_def json_Marshal_def)

lemma json_same_refl [simp]: "json_same a a"
  by (simp add: json_same_def)

lemma canon_str [simp]: "canon v = GStr s \<longleftrightarrow> v = GStr s"
  by (cases v) auto

end
