(* ===== verification/Go_Float.thy ===== *)
theory Go_Float
  imports Go_Strings
begin

text \<open>
  The part of \<open>float64\<close> that DynamoDB numbers use: \<open>strconv.ParseFloat\<close>, the order, addition and
  \<open>strconv.FormatFloat(_, 'f', -1, 64)\<close>. A finite number is kept as a sign, an integer mantissa and
  a power of two; conversions and sums round the exact value to the nearest number of 53 bits
  (ties to even, exponent at least -1074), as IEEE 754 and \<open>strconv\<close> do.
\<close>

datatype float64 = FNaN | FInf bool | FNum bool int int

section \<open>Rounding\<close>

function bits :: "int \<Rightarrow> int" where
  "bits n = (if n \<le> 0 then 0 else 1 + bits (n div 2))"
  by pat_completeness auto
termination by (relation "measure nat") auto

declare bits.simps [simp del]

text \<open>\<open>p / (q * 2 ^ e)\<close> as a fraction\<close>

definition scale2 :: "int \<Rightarrow> int \<Rightarrow> int \<Rightarrow> int \<times> int" where
  "scale2 p q e = (if 0 \<le> e then (p, q * 2 ^ nat e) else (p * 2 ^ nat (- e), q))"

definition div_even :: "int \<Rightarrow> int \<Rightarrow> int" where
  "div_even a b = (let n = a div b; r = a mod b in if 2 * r > b \<or> (2 * r = b \<and> odd n) then n + 1 else n)"

text \<open>The number nearest to \<open>p / q\<close>, for \<open>0 \<le> p\<close> and \<open>0 < q\<close>; too large a number becomes an infinity.\<close>

definition round64 :: "bool \<Rightarrow> int \<Rightarrow> int \<Rightarrow> float64" where
  "round64 neg p q =
     (if p = 0 then FNum neg 0 0
      else let e1 = bits p - bits q - 53;
               (a1, b1) = scale2 p q (e1 + 53);
               e = max (if a1 < b1 then e1 else e1 + 1) (-1074);
               (a, b) = scale2 p q e;
               n = div_even a b
           in if bits n + e > 1024 then FInf neg else FNum neg n e)"

section \<open>Order and sum\<close>

definition scaled :: "int \<Rightarrow> int \<Rightarrow> int \<Rightarrow> int" where
  "scaled m e k = m * 2 ^ nat (e - k)"

definition with_sign :: "bool \<Rightarrow> int \<Rightarrow> int" where
  "with_sign neg i = (if neg then - i else i)"

fun flt :: "float64 \<Rightarrow> float64 \<Rightarrow> bool" where
  "flt (FNum s m e) (FNum s' m' e') =
     (with_sign s (scaled m e (min e e')) < with_sign s' (scaled m' e' (min e e')))"
| "flt (FInf s) (FInf s') = (s \<and> \<not> s')"
| "flt (FInf s) (FNum _ _ _) = s"
| "flt (FNum _ _ _) (FInf s) = (\<not> s)"
| "flt _ _ = False"

fun fadd :: "float64 \<Rightarrow> float64 \<Rightarrow> float64" where
  "fadd (FNum s m e) (FNum s' m' e') =
     (if m = 0 \<and> m' = 0 then FNum (s \<and> s') 0 0
      else let k = min e e';
               i = with_sign s (scaled m e k) + with_sign s' (scaled m' e' k);
               (p, q) = scale2 \<bar>i\<bar> 1 (- k)
           in if i = 0 then FNum False 0 0 else round64 (i < 0) p q)"
| "fadd (FInf s) (FInf s') = (if s = s' then FInf s else FNaN)"
| "fadd (FInf s) (FNum _ _ _) = FInf s"
| "fadd (FNum _ _ _) (FInf s) = FInf s"
| "fadd _ _ = FNaN"

section \<open>strconv.ParseFloat\<close>

definition lower :: "char \<Rightarrow> char" where
  "lower c = (let n = of_char c in if 65 \<le> n \<and> n \<le> (90::nat) then char_of (n + 32) else c)"

definition upper :: "char \<Rightarrow> char" where
  "upper c = (let n = of_char c in if 97 \<le> n \<and> n \<le> (122::nat) then char_of (n - 32) else c)"

definition is_digit :: "char \<Rightarrow> bool" where
  "is_digit c \<longleftrightarrow> 48 \<le> (of_char c :: nat) \<and> (of_char c :: nat) \<le> 57"

definition digit_val :: "char \<Rightarrow> int" where
  "digit_val c = (if is_digit c then int (of_char c) - 48 else int (of_char (lower c)) - 87)"

definition is_base_digit :: "bool \<Rightarrow> char \<Rightarrow> bool" where
  "is_base_digit hx c \<longleftrightarrow> is_digit c \<or> (hx \<and> lower c \<in> set ''abcdef'')"

text \<open>The mantissa loop: the digits without underscores and points, how many stand after the
  point, whether a point and a digit were seen, and what is left.\<close>

fun read_mant :: "bool \<Rightarrow> int \<Rightarrow> int \<Rightarrow> bool \<Rightarrow> bool \<Rightarrow> string \<Rightarrow> int \<times> int \<times> bool \<times> string" where
  "read_mant hx m f dot dig [] = (m, f, dig, [])"
| "read_mant hx m f dot dig (c # cs) =
     (if c = CHR ''_'' then read_mant hx m f dot dig cs
      else if c = CHR ''.'' then (if dot then (m, f, dig, c # cs) else read_mant hx m f True dig cs)
      else if is_base_digit hx c
      then read_mant hx (m * (if hx then 16 else 10) + digit_val c) (if dot then f + 1 else f) dot True cs
      else (m, f, dig, c # cs))"

fun read_exp :: "int \<Rightarrow> string \<Rightarrow> int \<times> string" where
  "read_exp e [] = (e, [])"
| "read_exp e (c # cs) =
     (if c = CHR ''_'' then read_exp e cs
      else if is_digit c then read_exp (if e < 10000 then e * 10 + digit_val c else e) cs
      else (e, c # cs))"

text \<open>\<open>underscoreOK\<close>: an underscore stands between digits, or after a base prefix.\<close>

fun underscores :: "bool \<Rightarrow> char \<Rightarrow> string \<Rightarrow> bool" where
  "underscores hx saw [] = (saw \<noteq> CHR ''_'')"
| "underscores hx saw (c # cs) =
     (if is_base_digit hx c then underscores hx (CHR ''0'') cs
      else if c = CHR ''_'' then saw = CHR ''0'' \<and> underscores hx (CHR ''_'') cs
      else saw \<noteq> CHR ''_'' \<and> underscores hx (CHR ''!'') cs)"

definition unsign :: "string \<Rightarrow> bool \<times> string" where
  "unsign s = (case s of c # cs \<Rightarrow> if c = CHR ''-'' then (True, cs) else if c = CHR ''+'' then (False, cs) else (False, s)
               | [] \<Rightarrow> (False, []))"

definition underscoreOK :: "string \<Rightarrow> bool" where
  "underscoreOK s =
     (let t = snd (unsign s)
      in case t of
           a # b # r \<Rightarrow> if a = CHR ''0'' \<and> lower b \<in> set ''box'' then underscores (lower b = CHR ''x'') (CHR ''0'') r
                      else underscores False (CHR ''^'') t
         | _ \<Rightarrow> underscores False (CHR ''^'') t)"

definition special_float :: "string \<Rightarrow> float64 option" where
  "special_float s =
     (let (neg, t) = unsign s; u = map lower t
      in if u = ''inf'' \<or> u = ''infinity'' then Some (FInf neg)
         else if map lower s = ''nan'' then Some FNaN else None)"

definition exact_float :: "bool \<Rightarrow> bool \<Rightarrow> int \<Rightarrow> int \<Rightarrow> int \<Rightarrow> float64" where
  "exact_float hx neg m f e =
     (if hx then (let k = e - 4 * f in if 0 \<le> k then round64 neg (m * 2 ^ nat k) 1 else round64 neg m (2 ^ nat (- k)))
      else (let k = e - f in if 0 \<le> k then round64 neg (m * 10 ^ nat k) 1 else round64 neg m (10 ^ nat (- k))))"

text \<open>\<open>None\<close> is a syntax error.\<close>

definition readFloat :: "string \<Rightarrow> float64 option" where
  "readFloat s =
     (let (neg, t) = unsign s;
          hx = (case t of a # b # _ # _ \<Rightarrow> a = CHR ''0'' \<and> lower b = CHR ''x'' | _ \<Rightarrow> False);
          (m, f, dig, r) = read_mant hx 0 0 False False (if hx then drop 2 t else t)
      in if \<not> dig then None
         else case r of
             [] \<Rightarrow> if hx \<or> (CHR ''_'' \<in> set s \<and> \<not> underscoreOK s) then None else Some (exact_float hx neg m f 0)
           | c # r' \<Rightarrow>
               if lower c \<noteq> (if hx then CHR ''p'' else CHR ''e'') then None
               else let (eneg, u) = unsign r'
                    in case u of
                         [] \<Rightarrow> None
                       | d # _ \<Rightarrow>
                           if \<not> is_digit d then None
                           else let (e, rest) = read_exp 0 u
                                in if rest \<noteq> [] \<or> (CHR ''_'' \<in> set s \<and> \<not> underscoreOK s) then None
                                   else Some (exact_float hx neg m f (with_sign eneg e)))"

text \<open>The value and whether an error is reported: a syntax error comes with zero, a range error
  with an infinity.\<close>

definition strconv_ParseFloat :: "string \<Rightarrow> float64 \<times> bool" where
  "strconv_ParseFloat s =
     (case special_float s of
        Some x \<Rightarrow> (x, False)
      | None \<Rightarrow> (case readFloat s of
                   None \<Rightarrow> (FNum False 0 0, True)
                 | Some x \<Rightarrow> (x, case x of FInf _ \<Rightarrow> True | _ \<Rightarrow> False)))"

section \<open>strconv.FormatFloat(x, 'f', -1, 64)\<close>

text \<open>The decimal exponent: \<open>10 ^ (E - 1) \<le> p / q < 10 ^ E\<close>. The exponent of a nonzero number is
  above -330, so 400 steps are enough for a number below 1.\<close>

fun small_exp :: "nat \<Rightarrow> int \<Rightarrow> int \<Rightarrow> int" where
  "small_exp 0 p q = 0"
| "small_exp (Suc n) p q = (if q \<le> p * 10 then 0 else small_exp n (p * 10) q - 1)"

function dec_str :: "int \<Rightarrow> string" where
  "dec_str n = (if n < 10 then [char_of (48 + nat n)] else dec_str (n div 10) @ [char_of (48 + nat (n mod 10))])"
  by pat_completeness auto
termination by (relation "measure nat") auto

declare dec_str.simps [simp del]

definition dec_exp :: "int \<Rightarrow> int \<Rightarrow> int" where
  "dec_exp p q = (if q \<le> p then int (length (dec_str (p div q))) else small_exp 400 p q)"

definition dec_float :: "int \<Rightarrow> int \<Rightarrow> float64" where
  "dec_float n k = (if 0 \<le> k then round64 False (n * 10 ^ nat k) 1 else round64 False n (10 ^ nat (- k)))"

definition feq :: "float64 \<Rightarrow> float64 \<Rightarrow> bool" where
  "feq x y \<longleftrightarrow> \<not> flt x y \<and> \<not> flt y x"

text \<open>The shortest decimal of at most 17 digits that reads back as the number: \<open>n * 10 ^ k\<close>.\<close>

fun shortest :: "nat \<Rightarrow> int \<Rightarrow> int \<Rightarrow> int \<Rightarrow> float64 \<Rightarrow> int \<times> int" where
  "shortest 0 d p q x = (0, 0)"
| "shortest (Suc left) d p q x =
     (let k = dec_exp p q - d;
          (a, b) = (if 0 \<le> k then (p, q * 10 ^ nat k) else (p * 10 ^ nat (- k), q));
          lo = a div b; hi = lo + 1;
          lo_ok = feq (dec_float lo k) x; hi_ok = feq (dec_float hi k) x
      in if a mod b = 0 \<and> lo_ok then (lo, k)
         else if lo_ok \<and> hi_ok then (div_even a b, k)
         else if lo_ok then (lo, k)
         else if hi_ok then (hi, k)
         else shortest left (d + 1) p q x)"

definition pad_left :: "nat \<Rightarrow> string \<Rightarrow> string" where
  "pad_left n s = replicate (n - length s) (CHR ''0'') @ s"

definition format_dec :: "int \<Rightarrow> int \<Rightarrow> string" where
  "format_dec n k =
     (if 0 \<le> k then dec_str (n * 10 ^ nat k)
      else dec_str (n div 10 ^ nat (- k)) @ ''.'' @ pad_left (nat (- k)) (dec_str (n mod 10 ^ nat (- k))))"

fun strconv_FormatFloat :: "float64 \<Rightarrow> string" where
  "strconv_FormatFloat FNaN = ''NaN''"
| "strconv_FormatFloat (FInf neg) = (if neg then ''-Inf'' else ''+Inf'')"
| "strconv_FormatFloat (FNum neg m e) =
     (if neg then ''-'' else [])
     @ (if m = 0 then ''0''
        else let p = (if 0 \<le> e then m * 2 ^ nat e else m); q = (if 0 \<le> e then 1 else 2 ^ nat (- e));
                 (n, k) = shortest 17 1 p q (FNum False m e)
             in format_dec n k)"

section \<open>The order\<close>

text \<open>Numbers may be compared at any common power of two below both exponents.\<close>

lemma scaled_shift: "k' \<le> k \<Longrightarrow> k \<le> e \<Longrightarrow> scaled m e k' = scaled m e k * 2 ^ nat (k - k')"
proof -
  assume "k' \<le> k" "k \<le> e"
  then have "nat (e - k') = nat (e - k) + nat (k - k')" by simp
  then show ?thesis by (simp add: scaled_def power_add)
qed

lemma with_sign_mult: "with_sign s (a * b) = with_sign s a * b"
  by (simp add: with_sign_def)

lemma flt_scaled:
  assumes "k \<le> e" and "k \<le> e'"
  shows "flt (FNum s m e) (FNum s' m' e') \<longleftrightarrow> with_sign s (scaled m e k) < with_sign s' (scaled m' e' k)"
  using assms by (simp add: scaled_shift[of k "min e e'"] with_sign_mult)

lemma flt_irrefl [simp]: "\<not> flt x x"
  by (cases x) simp_all

lemma flt_trans:
  assumes "flt x y" and "flt y z"
  shows "flt x z"
proof -
  consider (num) s m e s' m' e' s'' m'' e'' where "x = FNum s m e" "y = FNum s' m' e'" "z = FNum s'' m'' e''"
    | (inf) "\<exists>b. x = FInf b \<or> y = FInf b \<or> z = FInf b" | (nan) "x = FNaN \<or> y = FNaN \<or> z = FNaN"
    by (cases x; cases y; cases z) auto
  then show ?thesis
  proof cases
    case num
    let ?k = "min e (min e' e'')"
    have "?k \<le> e" "?k \<le> e'" "?k \<le> e''" by auto
    with assms show ?thesis unfolding num by (simp only: flt_scaled[of ?k])
  next
    case inf
    with assms show ?thesis by (cases x; cases y; cases z) auto
  next
    case nan
    with assms show ?thesis by (cases x; cases y; cases z) auto
  qed
qed

lemma flt_between:
  assumes "flt x z" and "y \<noteq> FNaN"
  shows "flt x y \<or> flt y z"
proof -
  consider (num) s m e s' m' e' s'' m'' e'' where "x = FNum s m e" "y = FNum s' m' e'" "z = FNum s'' m'' e''"
    | (inf) "\<exists>b. x = FInf b \<or> y = FInf b \<or> z = FInf b" | (nan) "x = FNaN \<or> z = FNaN"
    using assms(2) by (cases x; cases y; cases z) auto
  then show ?thesis
  proof cases
    case num
    let ?k = "min e (min e' e'')"
    have "?k \<le> e" "?k \<le> e'" "?k \<le> e''" by auto
    with assms(1) show ?thesis unfolding num by (simp only: flt_scaled[of ?k]) linarith
  next
    case inf
    with assms show ?thesis by (cases x; cases y; cases z) auto
  next
    case nan
    with assms show ?thesis by (cases x; cases z) auto
  qed
qed

section \<open>Integers of 53 bits are exact\<close>

lemma bits_bounds: "0 < n \<Longrightarrow> 0 < bits n \<and> 2 ^ nat (bits n - 1) \<le> n \<and> n < 2 ^ nat (bits n)"
proof (induction n rule: bits.induct)
  case (1 n)
  show ?case
  proof (cases "n = 1")
    case True
    then show ?thesis by (simp add: bits.simps[of 1] bits.simps[of 0])
  next
    case False
    then have IH: "0 < bits (n div 2)" "2 ^ nat (bits (n div 2) - 1) \<le> n div 2" "n div 2 < 2 ^ nat (bits (n div 2))"
      using 1 by auto
    have b: "bits n = 1 + bits (n div 2)" using 1(2) by (simp add: bits.simps[of n])
    have "nat (bits n - 1) = Suc (nat (bits (n div 2) - 1))" "nat (bits n) = Suc (nat (bits (n div 2)))"
      using IH(1) by (auto simp: b)
    then show ?thesis using IH by (simp add: b) linarith
  qed
qed

lemma bits_le: "0 < n \<Longrightarrow> n < 2 ^ k \<Longrightarrow> bits n \<le> int k"
proof -
  assume "0 < n" "n < 2 ^ k"
  with bits_bounds[of n] have "(2::int) ^ nat (bits n - 1) < 2 ^ k" by linarith
  then have "nat (bits n - 1) < k" using power_less_imp_less_exp[of "2::int"] by simp
  then show ?thesis by simp
qed

lemma bits_eq:
  assumes "2 ^ nat (k - 1) \<le> n" and "n < 2 ^ nat k" and "0 < k"
  shows "bits n = k"
proof -
  have n: "0 < n" using assms(1) by (smt (verit) zero_less_power)
  have "(2::int) ^ nat (k - 1) < 2 ^ nat (bits n)" "(2::int) ^ nat (bits n - 1) < 2 ^ nat k"
    using bits_bounds[OF n] assms by linarith+
  then have "nat (k - 1) < nat (bits n)" "nat (bits n - 1) < nat k"
    using power_less_imp_less_exp[of "2::int"] by simp_all
  then show ?thesis by simp
qed

lemma round64_int:
  assumes "0 < p" and "p < 2 ^ 53"
  shows "\<exists>m e. round64 neg p 1 = FNum neg m e \<and> e \<le> 0 \<and> m = p * 2 ^ nat (- e)"
proof -
  define k where "k = bits p"
  have k: "0 < k" "2 ^ nat (k - 1) \<le> p" "p < 2 ^ nat k" "k \<le> 53"
    using bits_bounds[OF assms(1)] bits_le[OF assms] by (auto simp: k_def)
  have one: "bits 1 = 1" by (simp add: bits.simps[of 1] bits.simps[of 0])
  have e1: "k - 1 - 53 + 53 = k - 1" by simp
  define e where "e = k - 53"
  have e: "max (if p < 2 ^ nat (k - 1) then k - 1 - 53 else k - 1 - 53 + 1) (-1074) = e" "e \<le> 0"
    using k by (auto simp: e_def)
  let ?m = "p * 2 ^ nat (- e)"
  have pe: "nat k + nat (- e) = 53" using k e(2) by (simp add: e_def)
  have "bits ?m \<le> 53"
  proof (rule bits_le[of _ 53, simplified])
    have "?m < 2 ^ nat k * 2 ^ nat (- e)" using k(3) by simp
    then show "?m < 9007199254740992" using pe by (simp flip: power_add)
  qed (use assms in simp)
  moreover have "div_even ?m 1 = ?m" by (simp add: div_even_def)
  moreover have "scale2 p 1 e = (?m, 1)" using e(2) by (auto simp: scale2_def)
  moreover have "scale2 p 1 (k - 1) = (p, 2 ^ nat (k - 1))" using k(1) by (simp add: scale2_def)
  ultimately have "round64 neg p 1 = FNum neg ?m e"
    using assms(1) e unfolding round64_def Let_def k_def[symmetric] one e1 by (simp add: Let_def)
  then show ?thesis using e(2) by blast
qed

text \<open>What a decimal integer reads as.\<close>

lemma is_digit_char: "(n::nat) < 10 \<Longrightarrow> is_digit (char_of (48 + n))"
  by (simp add: is_digit_def)

lemma read_mant_digits:
  "list_all is_digit s \<Longrightarrow> read_mant False m 0 False dig (s @ t)
    = read_mant False (foldl (\<lambda>a c. a * 10 + digit_val c) m s) 0 False (dig \<or> s \<noteq> []) t"
proof (induction s arbitrary: m dig)
  case (Cons c s)
  moreover have "c \<noteq> CHR ''_''" "c \<noteq> CHR ''.''" using Cons.prems by (auto simp: is_digit_def)
  ultimately show ?case by (simp add: is_base_digit_def)
qed simp

lemma digits_nat_str: "list_all is_digit (nat_str n) \<and> foldl (\<lambda>a c. a * 10 + digit_val c) 0 (nat_str n) = int n"
proof (induction n rule: nat_str.induct)
  case (1 n)
  show ?case
  proof (cases "n < 10")
    case True
    then show ?thesis by (simp add: nat_str.simps[of n] is_digit_def digit_val_def)
  next
    case False
    with 1 have IH: "list_all is_digit (nat_str (n div 10))"
      "foldl (\<lambda>a c. a * 10 + digit_val c) 0 (nat_str (n div 10)) = int (n div 10)" by auto
    have "is_digit (char_of (48 + n mod 10))" "digit_val (char_of (48 + n mod 10)) = int (n mod 10)"
      using is_digit_char[of "n mod 10"] by (simp_all add: digit_val_def)
    moreover have "int (n div 10) * 10 + int (n mod 10) = int n" using div_mult_mod_eq[of n 10] by (metis of_nat_add of_nat_mult of_nat_numeral)
    ultimately show ?thesis using False IH by (simp add: nat_str.simps[of n])
  qed
qed

lemma parse_nat_digits:
  assumes "s = nat_str n" and "0 < n" and "n < 2 ^ 53"
  shows "\<exists>m e. strconv_ParseFloat ((if neg then ''-'' else []) @ s) = (FNum neg m e, False) \<and> e \<le> 0 \<and> m = int n * 2 ^ nat (- e)"
proof -
  have d: "list_all is_digit s" "foldl (\<lambda>a c. a * 10 + digit_val c) 0 s = int n"
    using digits_nat_str[of n] assms(1) by auto
  have "s \<noteq> []" unfolding assms(1) by (rule nat_str_not_Nil)
  then obtain c cs where s: "s = c # cs" by (cases s) auto
  have c: "is_digit c" using d(1) s by simp
  have chars: "c \<noteq> CHR ''-''" "c \<noteq> CHR ''+''" "lower c \<noteq> CHR ''i''" "lower c \<noteq> CHR ''n''" "lower CHR ''-'' \<noteq> CHR ''n''"
    using c by (auto simp: is_digit_def lower_def Let_def)
  let ?t = "(if neg then ''-'' else []) @ s"
  have us: "unsign ?t = (neg, s)" using chars s by (auto simp: unsign_def)
  have sp: "special_float ?t = None" using us chars s by (auto simp: special_float_def)
  have nx: "(case s of a # b # _ # _ \<Rightarrow> a = CHR ''0'' \<and> lower b = CHR ''x'' | _ \<Rightarrow> False) = False"
    using d(1) s by (auto simp: is_digit_def lower_def Let_def split: list.splits)
  have nu: "CHR ''_'' \<notin> set ?t" using d(1) by (auto simp: list_all_iff is_digit_def)
  have "read_mant False 0 0 False False s = (int n, 0, True, [])"
    using read_mant_digits[OF d(1), of 0 False "[]"] d(2) s by simp
  then have "readFloat ?t = Some (round64 neg (int n) 1)"
    using nu by (simp add: readFloat_def us nx exact_float_def del: set_append)
  moreover obtain m e where "round64 neg (int n) 1 = FNum neg m e" "e \<le> 0" "m = int n * 2 ^ nat (- e)"
    using round64_int[of "int n" neg] assms(2,3) by auto
  ultimately show ?thesis by (simp add: strconv_ParseFloat_def sp)
qed

lemma nat_str_0: "nat_str 0 = ''0''"
  by code_simp

text \<open>The number that a decimal integer of at most 53 bits reads as has that value exactly.\<close>

lemma parse_int:
  assumes "\<bar>i\<bar> < 2 ^ 53"
  shows "\<exists>s m e. strconv_ParseFloat (strconv_Itoa i) = (FNum s m e, False) \<and> e \<le> 0 \<and> with_sign s m = i * 2 ^ nat (- e)"
proof (cases "i = 0")
  case True
  have "strconv_ParseFloat ''0'' = (FNum False 0 0, False)" by code_simp
  then show ?thesis using True by (auto simp: strconv_Itoa_def nat_str_0 with_sign_def)
next
  case False
  then obtain m e where "strconv_ParseFloat ((if i < 0 then ''-'' else []) @ nat_str (nat \<bar>i\<bar>)) = (FNum (i < 0) m e, False)"
    "e \<le> 0" "m = \<bar>i\<bar> * 2 ^ nat (- e)"
    using parse_nat_digits[OF refl, of "nat \<bar>i\<bar>" "i < 0"] assms by (auto simp: nat_less_iff)
  then show ?thesis by (auto simp: strconv_Itoa_def with_sign_def abs_if split: if_splits)
qed

lemma flt_parse_int:
  assumes "\<bar>i\<bar> < 2 ^ 53" and "\<bar>j\<bar> < 2 ^ 53"
  shows "flt (fst (strconv_ParseFloat (strconv_Itoa i))) (fst (strconv_ParseFloat (strconv_Itoa j))) \<longleftrightarrow> i < j"
proof -
  obtain s m e s' m' e' where p: "strconv_ParseFloat (strconv_Itoa i) = (FNum s m e, False)" "e \<le> 0"
    "with_sign s m = i * 2 ^ nat (- e)"
    "strconv_ParseFloat (strconv_Itoa j) = (FNum s' m' e', False)" "e' \<le> 0" "with_sign s' m' = j * 2 ^ nat (- e')"
    using parse_int[OF assms(1)] parse_int[OF assms(2)] by blast
  let ?k = "min e e'"
  have sc: "with_sign s (scaled m e ?k) = x * 2 ^ nat (- ?k)" if "with_sign s m = x * 2 ^ nat (- e)" "e \<le> 0" "?k \<le> e"
    for s m e x
  proof -
    have "nat (- ?k) = nat (- e) + nat (e - ?k)" using that by simp
    then show ?thesis using that by (simp add: scaled_def with_sign_mult power_add)
  qed
  show ?thesis unfolding p(1,4) fst_conv
    by (simp only: flt_scaled[of ?k] min.cobounded1 min.cobounded2 sc[OF p(3,2)] sc[OF p(6,5)]) simp
qed

end
