(* ===== verification/Go_Result.thy ===== *)
theory Go_Result
  imports Go_Value Go_Float
begin

text \<open>
  The outcome of a Go function that returns a value and an error, or panics. A panic is a failed
  type assertion or an index out of range; the HTTP server recovers from it and drops the
  connection. The string routines here are those that the expression parsers of DynamoDB add to
  the ones of \<open>Go_Strings\<close>; letters are upper- and lower-cased byte by byte, as Go does for ASCII
  text.
\<close>

datatype ('e, 'a) res = Ok 'a | Err 'e | Panic

definition andThen :: "('e, 'a) res \<Rightarrow> ('a \<Rightarrow> ('e, 'b) res) \<Rightarrow> ('e, 'b) res" where
  "andThen r f = (case r of Ok x \<Rightarrow> f x | Err e \<Rightarrow> Err e | Panic \<Rightarrow> Panic)"

lemma andThen_simps [simp]:
  "andThen (Ok x) f = f x" "andThen (Err e) f = Err e" "andThen Panic f = Panic"
  by (simp_all add: andThen_def)

lemma andThen_cong [fundef_cong]:
  "r = r' \<Longrightarrow> (\<And>x. r' = Ok x \<Longrightarrow> f x = g x) \<Longrightarrow> andThen r f = andThen r' g"
  by (cases r') auto

lemma andThen_Ok: "andThen r f = Ok y \<longleftrightarrow> (\<exists>x. r = Ok x \<and> f x = Ok y)"
  by (cases r) auto

lemma andThen_Panic: "andThen r f = Panic \<longleftrightarrow> r = Panic \<or> (\<exists>x. r = Ok x \<and> f x = Panic)"
  by (cases r) auto

definition mapErr :: "('e \<Rightarrow> 'f) \<Rightarrow> ('e, 'a) res \<Rightarrow> ('f, 'a) res" where
  "mapErr h r = (case r of Ok x \<Rightarrow> Ok x | Err e \<Rightarrow> Err (h e) | Panic \<Rightarrow> Panic)"

lemma mapErr_simps [simp]:
  "mapErr h (Ok x) = Ok x" "mapErr h (Err e) = Err (h e)" "mapErr h Panic = Panic"
  by (simp_all add: mapErr_def)

lemma mapErr_Ok [simp]: "mapErr h r = Ok x \<longleftrightarrow> r = Ok x" "mapErr h r = Panic \<longleftrightarrow> r = Panic"
  by (cases r; simp)+

definition mapOk :: "('a \<Rightarrow> 'b) \<Rightarrow> ('e, 'a) res \<Rightarrow> ('e, 'b) res" where
  "mapOk f r = andThen r (\<lambda>x. Ok (f x))"

lemma mapOk_simps [simp]:
  "mapOk f (Ok x) = Ok (f x)" "mapOk f (Err e) = Err e" "mapOk f Panic = Panic"
  by (simp_all add: mapOk_def)

lemma mapOk_Ok: "mapOk f r = Ok y \<longleftrightarrow> (\<exists>x. r = Ok x \<and> y = f x)" "mapOk f r = Panic \<longleftrightarrow> r = Panic"
  by (cases r; auto)+

text \<open>A loop that applies a fallible step to every element and stops at the first failure.\<close>

fun mapRes :: "('a \<Rightarrow> ('e, 'b) res) \<Rightarrow> 'a list \<Rightarrow> ('e, 'b list) res" where
  "mapRes f [] = Ok []"
| "mapRes f (x # xs) = andThen (f x) (\<lambda>y. andThen (mapRes f xs) (\<lambda>ys. Ok (y # ys)))"

fun foldRes :: "('s \<Rightarrow> 'a \<Rightarrow> ('e, 's) res) \<Rightarrow> 's \<Rightarrow> 'a list \<Rightarrow> ('e, 's) res" where
  "foldRes f s [] = Ok s"
| "foldRes f s (x # xs) = andThen (f s x) (\<lambda>s'. foldRes f s' xs)"

lemma mapRes_Ok: "mapRes f xs = Ok ys \<longleftrightarrow> list_all2 (\<lambda>x y. f x = Ok y) xs ys"
  by (induction xs arbitrary: ys) (auto simp: andThen_Ok list_all2_Cons1)

lemma mapRes_Panic: "mapRes f xs = Panic \<Longrightarrow> \<exists>x\<in>set xs. f x = Panic"
  by (induction xs) (auto simp: andThen_Panic)

lemma foldRes_append: "foldRes f s (xs @ ys) = andThen (foldRes f s xs) (\<lambda>s'. foldRes f s' ys)"
proof (induction xs arbitrary: s)
  case (Cons x xs)
  then show ?case by (cases "f s x") auto
qed simp

section \<open>More string routines\<close>

definition strings_ToUpper :: "string \<Rightarrow> string" where
  "strings_ToUpper s = map upper s"

definition strings_ToLower :: "string \<Rightarrow> string" where
  "strings_ToLower s = map lower s"

definition is_space :: "char \<Rightarrow> bool" where
  "is_space c \<longleftrightarrow> c \<in> {CHR 0x09, CHR 0x0A, CHR 0x0B, CHR 0x0C, CHR 0x0D, CHR '' ''}"

definition strings_TrimSpace :: "string \<Rightarrow> string" where
  "strings_TrimSpace s = rev (dropWhile is_space (rev (dropWhile is_space s)))"

text \<open>\<open>strings.Split\<close> at a separator of one character\<close>

fun split_char :: "char \<Rightarrow> string \<Rightarrow> string list" where
  "split_char d [] = [[]]"
| "split_char d (c # cs) =
     (if c = d then [] # split_char d cs
      else case split_char d cs of [] \<Rightarrow> [[c]] | w # ws \<Rightarrow> (c # w) # ws)"

text \<open>\<open>strings.Fields\<close>\<close>

definition strings_Fields :: "string \<Rightarrow> string list" where
  "strings_Fields s = filter (\<lambda>w. w \<noteq> []) (split_char (CHR '' '') (map (\<lambda>c. if is_space c then CHR '' '' else c) s))"

text \<open>\<open>strings.Index\<close>; -1 is \<open>None\<close>\<close>

definition strings_Index :: "string \<Rightarrow> string \<Rightarrow> nat option" where
  "strings_Index s sep = map_option (\<lambda>(a, b). length a) (cut sep s)"

definition strings_TrimPrefix :: "string \<Rightarrow> string \<Rightarrow> string" where
  "strings_TrimPrefix s p = (if has_prefix p s then drop (length p) s else s)"

definition strings_TrimSuffix :: "string \<Rightarrow> string \<Rightarrow> string" where
  "strings_TrimSuffix s p = (if has_prefix (rev p) (rev s) then take (length s - length p) s else s)"

definition has_suffix :: "string \<Rightarrow> string \<Rightarrow> bool" where
  "has_suffix p s \<longleftrightarrow> has_prefix (rev p) (rev s)"

text \<open>\<open>strings.Compare\<close>\<close>

definition strings_Compare :: "string \<Rightarrow> string \<Rightarrow> int" where
  "strings_Compare a b = (if a < b then -1 else if a = b then 0 else 1)"

end
