(* ===== verification/Ddb_Value.thy ===== *)
theory Ddb_Value
  imports Go_Result
begin

text \<open>
  DynamoDB typed values (\<open>{"S": ...}\<close>, \<open>{"N": ...}\<close>, ...) and the order on them
  (\<open>internal/dynamodb/storage_query.go\<close>), and the size that \<open>size()\<close> computes
  (\<open>internal/dynamodb/expression.go\<close>). The code keeps them as \<open>any\<close> and asserts the shape where it
  uses it.
\<close>

section \<open>Comparison\<close>

datatype cmp_error = InvalidTypedValue | MismatchS | MismatchN

definition dynamoValueCmp :: "gany \<Rightarrow> gany \<Rightarrow> cmp_error + int" where
  "dynamoValueCmp a b =
     (case (as_map a, as_map b) of
        (Some am, Some bm) \<Rightarrow>
          (case str_at am ''S'' of
             Some as \<Rightarrow>
               (case str_at bm ''S'' of
                  None \<Rightarrow> Inl MismatchS
                | Some bs \<Rightarrow> Inr (strings_Compare as bs))
           | None \<Rightarrow>
               (case str_at am ''N'' of
                  Some an \<Rightarrow>
                    (case str_at bm ''N'' of
                       None \<Rightarrow> Inl MismatchN
                     | Some bn \<Rightarrow>
                         let af = fst (strconv_ParseFloat an); bf = fst (strconv_ParseFloat bn)
                         in Inr (if flt af bf then -1 else if flt bf af then 1 else 0))
                | None \<Rightarrow> Inr (strings_Compare (json_Marshal a) (json_Marshal b))))
      | _ \<Rightarrow> Inl InvalidTypedValue)"

section \<open>Size\<close>

definition b64_char :: "char \<Rightarrow> bool" where
  "b64_char c \<longleftrightarrow> is_alnum c \<or> c = CHR ''+'' \<or> c = CHR ''/''"

fun b64_groups :: "string \<Rightarrow> nat option" where
  "b64_groups [] = Some 0"
| "b64_groups (a # b # c # d # r) =
     (if b64_char a \<and> b64_char b \<and> b64_char c \<and> b64_char d then map_option ((+) 3) (b64_groups r)
      else if r = [] \<and> b64_char a \<and> b64_char b \<and> b64_char c \<and> d = CHR ''='' then Some 2
      else if r = [] \<and> b64_char a \<and> b64_char b \<and> c = CHR ''='' \<and> d = CHR ''='' then Some 1
      else None)"
| "b64_groups _ = None"

text \<open>The length of what \<open>base64.StdEncoding.DecodeString\<close> returns; line breaks are skipped.\<close>

definition b64_len :: "string \<Rightarrow> nat option" where
  "b64_len s = b64_groups (filter (\<lambda>c. c \<noteq> CHR 0x0A \<and> c \<noteq> CHR 0x0D) s)"

text \<open>\<open>None\<close> is the error for an unsupported type.\<close>

definition dynamoAttrSize :: "gany \<Rightarrow> nat option" where
  "dynamoAttrSize val =
     (case as_map val of
        None \<Rightarrow> Some 0
      | Some m \<Rightarrow>
          (case str_at m ''S'' of Some s \<Rightarrow> Some (length s) | None \<Rightarrow>
          (case str_at m ''N'' of Some n \<Rightarrow> Some (length n) | None \<Rightarrow>
          (case str_at m ''B'' of Some b \<Rightarrow> Some (case b64_len b of None \<Rightarrow> 0 | Some n \<Rightarrow> n) | None \<Rightarrow>
          (case find (\<lambda>k. slice_at m k \<noteq> None) [''SS'', ''NS'', ''BS'', ''L''] of
             Some k \<Rightarrow> map_option length (slice_at m k)
           | None \<Rightarrow> map_option length (as_map (get0 m ''M'')))))))"

section \<open>The order\<close>

text \<open>
  Strings, and numbers that are not NaN, are each totally preordered by the comparison; the code
  sorts by it.
\<close>

abbreviation tS :: "string \<Rightarrow> gany" where "tS s \<equiv> GMap [(''S'', GStr s)]"
abbreviation tN :: "string \<Rightarrow> gany" where "tN s \<equiv> GMap [(''N'', GStr s)]"

lemma typed_fields [simp]:
  "str_at [(k, GStr s)] k' = (if k = k' then Some s else None)"
  by (simp add: str_at_def get0_def)

lemma cmp_S [simp]: "dynamoValueCmp (tS a) (tS b) = Inr (strings_Compare a b)"
  by (simp add: dynamoValueCmp_def Let_def)

lemma cmp_N: "dynamoValueCmp (tN a) (tN b) =
   Inr (let af = fst (strconv_ParseFloat a); bf = fst (strconv_ParseFloat b)
        in if flt af bf then -1 else if flt bf af then 1 else 0)"
  by (simp add: dynamoValueCmp_def Let_def)

lemma cmp_int:
  assumes "\<bar>i\<bar> < 2 ^ 53" and "\<bar>j\<bar> < 2 ^ 53"
  shows "dynamoValueCmp (tN (strconv_Itoa i)) (tN (strconv_Itoa j)) = Inr (sgn (i - j))"
  using flt_parse_int[OF assms] flt_parse_int[OF assms(2,1)] by (auto simp: cmp_N Let_def sgn_if)

end
