(* ===== verification/Ddb_Expr.thy ===== *)
theory Ddb_Expr
  imports Ddb_Value
begin

text \<open>
  Filter and condition expressions (\<open>internal/dynamodb/expression.go\<close>): the tokenizer, the syntax
  tree, the recursive-descent parser and the evaluator.

  The parser's position is the list of tokens that are left; reading past the end is a panic. Its
  functions call each other on what an earlier call left over. Each such call is made under the
  test that the rest is shorter, which makes the definitions total; \<open>Ddb_Expr_Theorems\<close> shows that
  the test never fails.
\<close>

section \<open>Tokens\<close>

datatype tokenKind = tokEOF | tokIdent | tokNameRef | tokValRef | tokLParen | tokRParen | tokComma
  | tokEQ | tokNEQ | tokLT | tokLTE | tokGT | tokGTE | tokDot | tokListIdx

record exprToken =
  kind :: tokenKind
  val :: string

abbreviation tok :: "tokenKind \<Rightarrow> string \<Rightarrow> exprToken" where
  "tok k v \<equiv> \<lparr>kind = k, val = v\<rparr>"

datatype expr_error =
    InvalidNamePlaceholder nat
  | InvalidValuePlaceholder nat
  | InvalidListIndex nat
  | UnexpectedChar char nat
  | ExpectedToken tokenKind string
  | ExpectedPath string
  | ExpectedNameAfterDot string
  | NestingExceeded
  | ExpectedOperand string
  | ExpectedAnd string
  | TooManyInValues nat
  | ExpectedComparison string
  | UnexpectedToken string
  | NamesMissing string
  | ValuesMissing string
  | SizeUnsupported
  | UnknownOperator string
  | NamesWithoutExpr
  | ValuesWithoutExpr
  | NamesUnused string
  | ValuesUnused string
  | InvalidProjection string

definition isExprLetter :: "char \<Rightarrow> bool" where
  "isExprLetter c \<longleftrightarrow> (let n = of_char c in (97 \<le> n \<and> n \<le> (122::nat)) \<or> (65 \<le> n \<and> n \<le> 90)) \<or> c = CHR ''_''"

definition isExprDigit :: "char \<Rightarrow> bool" where
  "isExprDigit c \<longleftrightarrow> is_digit c"

definition isExprWord :: "char \<Rightarrow> bool" where
  "isExprWord c \<longleftrightarrow> isExprLetter c \<or> isExprDigit c"

text \<open>The loop at position \<open>i\<close>, on the text that is left.\<close>

function tokenize_at :: "nat \<Rightarrow> string \<Rightarrow> (expr_error, exprToken list) res" where
  "tokenize_at i [] = Ok [tok tokEOF '''']"
| "tokenize_at i (c # cs) =
     (if c \<in> {CHR '' '', CHR 0x09, CHR 0x0A, CHR 0x0D} then tokenize_at (i + 1) cs
      else if c = CHR ''('' then mapOk ((#) (tok tokLParen ''('')) (tokenize_at (i + 1) cs)
      else if c = CHR '')'' then mapOk ((#) (tok tokRParen '')'')) (tokenize_at (i + 1) cs)
      else if c = CHR '','' then mapOk ((#) (tok tokComma '','')) (tokenize_at (i + 1) cs)
      else if c = CHR ''='' then mapOk ((#) (tok tokEQ ''='')) (tokenize_at (i + 1) cs)
      else if c = CHR ''<'' then
        (if has_prefix ''>'' cs then mapOk ((#) (tok tokNEQ ''<>'')) (tokenize_at (i + 2) (drop 1 cs))
         else if has_prefix ''='' cs then mapOk ((#) (tok tokLTE ''<='')) (tokenize_at (i + 2) (drop 1 cs))
         else mapOk ((#) (tok tokLT ''<'')) (tokenize_at (i + 1) cs))
      else if c = CHR ''>'' then
        (if has_prefix ''='' cs then mapOk ((#) (tok tokGTE ''>='')) (tokenize_at (i + 2) (drop 1 cs))
         else mapOk ((#) (tok tokGT ''>'')) (tokenize_at (i + 1) cs))
      else if c = CHR ''#'' then
        (let w = takeWhile isExprWord cs
         in if w = [] then Err (InvalidNamePlaceholder i)
            else mapOk ((#) (tok tokNameRef (c # w))) (tokenize_at (i + 1 + length w) (drop (length w) cs)))
      else if c = CHR '':'' then
        (let w = takeWhile isExprWord cs
         in if w = [] then Err (InvalidValuePlaceholder i)
            else mapOk ((#) (tok tokValRef (c # w))) (tokenize_at (i + 1 + length w) (drop (length w) cs)))
      else if c = CHR ''.'' then mapOk ((#) (tok tokDot ''.'')) (tokenize_at (i + 1) cs)
      else if c = CHR ''['' then
        (let w = takeWhile isExprDigit cs
         in if w = [] \<or> \<not> has_prefix '']'' (drop (length w) cs) then Err (InvalidListIndex i)
            else mapOk ((#) (tok tokListIdx w)) (tokenize_at (i + 2 + length w) (drop (length w + 1) cs)))
      else if isExprLetter c then
        (let w = takeWhile isExprWord cs
         in mapOk ((#) (tok tokIdent (c # w))) (tokenize_at (i + 1 + length w) (drop (length w) cs)))
      else Err (UnexpectedChar c i))"
  by pat_completeness auto
termination by (relation "measure (length \<circ> snd)") auto

declare tokenize_at.simps(2) [simp del]

definition tokenizeExpr :: "string \<Rightarrow> (expr_error, exprToken list) res" where
  "tokenizeExpr expr = tokenize_at 0 expr"

section \<open>Operands\<close>

text \<open>A step of a document path: an attribute name, or an index when the name is empty.\<close>

record projSegment =
  attr :: string
  index :: int

datatype exprOperand =
    nameRefOperand string
  | valRefOperand string
  | plainOperand string
  | sizeOperand exprOperand
  | pathOperand "projSegment list"

text \<open>\<open>val.(map[string]any)\<close> without the comma-ok form\<close>

definition must_map :: "gany \<Rightarrow> ('e, gmap) res" where
  "must_map v = (case as_map v of Some m \<Rightarrow> Ok m | None \<Rightarrow> Panic)"

definition must_slice :: "gany \<Rightarrow> ('e, gany list) res" where
  "must_slice v = (case as_slice v of Some xs \<Rightarrow> Ok xs | None \<Rightarrow> Panic)"

definition lookupName :: "smap \<Rightarrow> string \<Rightarrow> (expr_error, string) res" where
  "lookupName names r = (case map_of names r of None \<Rightarrow> Err (NamesMissing r) | Some a \<Rightarrow> Ok a)"

definition resolveSegName :: "smap \<Rightarrow> string \<Rightarrow> (expr_error, string) res" where
  "resolveSegName names a = (if has_prefix ''#'' a then lookupName names a else Ok a)"

text \<open>The walk of \<open>pathOperand.resolve\<close> below the first segment. A negative index is an
  out-of-range panic; the parser never makes one.\<close>

fun walkSegs :: "smap \<Rightarrow> projSegment list \<Rightarrow> gany \<Rightarrow> (expr_error, gany) res" where
  "walkSegs names [] v = Ok v"
| "walkSegs names (seg # segs) v =
     andThen (must_map v) (\<lambda>m.
       if attr seg \<noteq> '''' then
         (case map_of m ''M'' of
            None \<Rightarrow> Ok GNil
          | Some mRaw \<Rightarrow>
              andThen (must_map mRaw) (\<lambda>mMap.
                andThen (resolveSegName names (attr seg)) (\<lambda>a.
                  case map_of mMap a of None \<Rightarrow> Ok GNil | Some w \<Rightarrow> walkSegs names segs w)))
       else
         (case map_of m ''L'' of
            None \<Rightarrow> Ok GNil
          | Some lRaw \<Rightarrow>
              andThen (must_slice lRaw) (\<lambda>l.
                if index seg \<ge> int (length l) then Ok GNil
                else if index seg < 0 then Panic
                else walkSegs names segs (l ! nat (index seg)))))"

fun resolve :: "exprOperand \<Rightarrow> gmap \<Rightarrow> smap \<Rightarrow> gmap \<Rightarrow> (expr_error, gany) res" where
  "resolve (nameRefOperand r) item names vals = mapOk (get0 item) (lookupName names r)"
| "resolve (valRefOperand r) item names vals = Ok (get0 vals r)"
| "resolve (plainOperand a) item names vals = Ok (get0 item a)"
| "resolve (sizeOperand p) item names vals =
     andThen (resolve p item names vals) (\<lambda>v.
       if v = GNil then Ok GNil
       else case dynamoAttrSize v of
              None \<Rightarrow> Err SizeUnsupported
            | Some n \<Rightarrow> Ok (GMap [(''N'', GStr (strconv_Itoa (int n)))]))"
| "resolve (pathOperand segs) item names vals =
     (case segs of
        [] \<Rightarrow> Panic
      | seg # rest \<Rightarrow>
          andThen (resolveSegName names (attr seg)) (\<lambda>a.
            case map_of item a of None \<Rightarrow> Ok GNil | Some v \<Rightarrow> walkSegs names rest v))"

section \<open>Conditions\<close>

datatype condNode =
    andCondNode condNode condNode
  | orCondNode condNode condNode
  | notCondNode condNode
  | cmpCondNode exprOperand string exprOperand
  | attrExistsCondNode exprOperand bool
  | beginsWithCondNode exprOperand exprOperand
  | containsCondNode exprOperand exprOperand
  | betweenCondNode exprOperand exprOperand exprOperand
  | inCondNode exprOperand "exprOperand list"

definition cmpOp :: "string \<Rightarrow> gany \<Rightarrow> gany \<Rightarrow> (expr_error, bool) res" where
  "cmpOp op lv rv =
     (if op = ''='' then Ok (json_same lv rv)
      else if op = ''<>'' then Ok (\<not> json_same lv rv)
      else case dynamoValueCmp lv rv of
             Inl _ \<Rightarrow> Ok False
           | Inr c \<Rightarrow>
               if op = ''<'' then Ok (c < 0) else if op = ''<='' then Ok (c \<le> 0)
               else if op = ''>'' then Ok (c > 0) else if op = ''>='' then Ok (c \<ge> 0)
               else Err (UnknownOperator op))"

definition beginsWith :: "gany \<Rightarrow> gany \<Rightarrow> bool" where
  "beginsWith pathVal prefixVal =
     (case (as_map pathVal, as_map prefixVal) of
        (Some pm, Some fm) \<Rightarrow>
          (case (str_at pm ''S'', str_at fm ''S'') of (Some a, Some b) \<Rightarrow> has_prefix b a | _ \<Rightarrow> False)
      | _ \<Rightarrow> False)"

definition containsVal :: "gany \<Rightarrow> gany \<Rightarrow> bool" where
  "containsVal pathVal searchVal =
     (case (as_map pathVal, as_map searchVal) of
        (Some pm, Some sm) \<Rightarrow>
          (case str_at pm ''S'' of
             Some as \<Rightarrow> (case str_at sm ''S'' of Some bs \<Rightarrow> strings_Contains as bs | None \<Rightarrow> False)
           | None \<Rightarrow>
               (case slice_at pm ''L'' of
                  Some al \<Rightarrow> list_ex (\<lambda>e. json_same e searchVal) al
                | None \<Rightarrow> False))
      | _ \<Rightarrow> False)"

definition betweenVals :: "gany \<Rightarrow> gany \<Rightarrow> gany \<Rightarrow> bool" where
  "betweenVals a lo hi =
     (case (dynamoValueCmp a lo, dynamoValueCmp a hi) of
        (Inr c1, Inr c2) \<Rightarrow> c1 \<ge> 0 \<and> c2 \<le> 0 | _ \<Rightarrow> False)"

fun eval :: "condNode \<Rightarrow> gmap \<Rightarrow> smap \<Rightarrow> gmap \<Rightarrow> (expr_error, bool) res" where
  "eval (andCondNode l r) item names vals =
     andThen (eval l item names vals) (\<lambda>b. if \<not> b then Ok False else eval r item names vals)"
| "eval (orCondNode l r) item names vals =
     andThen (eval l item names vals) (\<lambda>b. if b then Ok True else eval r item names vals)"
| "eval (notCondNode c) item names vals = mapOk Not (eval c item names vals)"
| "eval (cmpCondNode l op r) item names vals =
     andThen (resolve l item names vals) (\<lambda>lv. andThen (resolve r item names vals) (\<lambda>rv. cmpOp op lv rv))"
| "eval (attrExistsCondNode p negate) item names vals =
     mapOk (\<lambda>v. if negate then v = GNil else v \<noteq> GNil) (resolve p item names vals)"
| "eval (beginsWithCondNode p q) item names vals =
     andThen (resolve p item names vals) (\<lambda>pv. mapOk (beginsWith pv) (resolve q item names vals))"
| "eval (containsCondNode p q) item names vals =
     andThen (resolve p item names vals) (\<lambda>pv. mapOk (containsVal pv) (resolve q item names vals))"
| "eval (betweenCondNode a lo hi) item names vals =
     andThen (resolve a item names vals) (\<lambda>av. andThen (resolve lo item names vals) (\<lambda>lv.
       mapOk (betweenVals av lv) (resolve hi item names vals)))"
| "eval (inCondNode a xs) item names vals =
     andThen (resolve a item names vals) (\<lambda>av.
       mapOk (list_ex (json_same av)) (mapRes (\<lambda>x. resolve x item names vals) xs))"

section \<open>The parser\<close>

definition peek :: "exprToken list \<Rightarrow> (expr_error, exprToken) res" where
  "peek ts = (case ts of [] \<Rightarrow> Panic | t # _ \<Rightarrow> Ok t)"

definition consume :: "exprToken list \<Rightarrow> (expr_error, exprToken \<times> exprToken list) res" where
  "consume ts = (case ts of [] \<Rightarrow> Panic | t # r \<Rightarrow> Ok (t, r))"

definition expectKind :: "tokenKind \<Rightarrow> exprToken list \<Rightarrow> (expr_error, exprToken list) res" where
  "expectKind k ts = andThen (consume ts) (\<lambda>(t, r). if kind t \<noteq> k then Err (ExpectedToken k (val t)) else Ok r)"

definition is_kw :: "string \<Rightarrow> exprToken \<Rightarrow> bool" where
  "is_kw up t \<longleftrightarrow> kind t = tokIdent \<and> strings_ToUpper (val t) = up"

definition isKeyword :: "string \<Rightarrow> exprToken list \<Rightarrow> (expr_error, bool) res" where
  "isKeyword up ts = mapOk (is_kw up) (peek ts)"

text \<open>\<open>n, _ := strconv.Atoi(idxTok.val)\<close> on decimal digits: out of range gives the largest integer.\<close>

definition atoi_digits :: "string \<Rightarrow> int" where
  "atoi_digits s = (case strconv_Atoi s of Some i \<Rightarrow> i | None \<Rightarrow> 2 ^ 63 - 1)"

definition seg_attr :: "string \<Rightarrow> projSegment" where
  "seg_attr a = \<lparr>attr = a, index = 0\<rparr>"

definition seg_index :: "int \<Rightarrow> projSegment" where
  "seg_index i = \<lparr>attr = '''', index = i\<rparr>"

text \<open>The loop of \<open>parseAttrPath\<close>\<close>

fun pathLoop :: "projSegment list \<Rightarrow> exprToken list \<Rightarrow> (expr_error, projSegment list \<times> exprToken list) res" where
  "pathLoop segs [] = Panic"
| "pathLoop segs (t # ts) =
     (if kind t = tokDot then
        (case ts of
           [] \<Rightarrow> Panic
         | next # rest \<Rightarrow>
             if kind next \<noteq> tokNameRef \<and> kind next \<noteq> tokIdent then Err (ExpectedNameAfterDot (val next))
             else pathLoop (segs @ [seg_attr (val next)]) rest)
      else if kind t = tokListIdx then pathLoop (segs @ [seg_index (atoi_digits (val t))]) ts
      else Ok (segs, t # ts))"

definition operandOf :: "projSegment list \<Rightarrow> exprOperand" where
  "operandOf segs =
     (if length segs = 1 then
        (if has_prefix ''#'' (attr (hd segs)) then nameRefOperand (attr (hd segs)) else plainOperand (attr (hd segs)))
      else pathOperand segs)"

definition parseAttrPath :: "exprToken list \<Rightarrow> (expr_error, exprOperand \<times> exprToken list) res" where
  "parseAttrPath ts =
     andThen (consume ts) (\<lambda>(t, r).
       if kind t \<noteq> tokNameRef \<and> kind t \<noteq> tokIdent then Err (ExpectedPath (val t))
       else andThen (pathLoop [seg_attr (val t)] r) (\<lambda>(segs, r').
         if length segs - 1 > 32 then Err NestingExceeded else Ok (operandOf segs, r')))"

definition parseSizeFunc :: "exprToken list \<Rightarrow> (expr_error, exprOperand \<times> exprToken list) res" where
  "parseSizeFunc ts =
     andThen (consume ts) (\<lambda>(_, r0).
     andThen (expectKind tokLParen r0) (\<lambda>r1.
     andThen (parseAttrPath r1) (\<lambda>(path, r2).
     andThen (expectKind tokRParen r2) (\<lambda>r3. Ok (sizeOperand path, r3)))))"

definition parseOperand :: "exprToken list \<Rightarrow> (expr_error, exprOperand \<times> exprToken list) res" where
  "parseOperand ts =
     andThen (isKeyword ''SIZE'' ts) (\<lambda>size.
       if size then parseSizeFunc ts
       else andThen (consume ts) (\<lambda>(t, r).
         if kind t = tokValRef then Ok (valRefOperand (val t), r)
         else if kind t = tokNameRef \<or> kind t = tokIdent then parseAttrPath ts
         else Err (ExpectedOperand (val t))))"

definition parseAttrExistsFunc :: "bool \<Rightarrow> exprToken list \<Rightarrow> (expr_error, condNode \<times> exprToken list) res" where
  "parseAttrExistsFunc negate ts =
     andThen (consume ts) (\<lambda>(_, r0).
     andThen (expectKind tokLParen r0) (\<lambda>r1.
     andThen (parseAttrPath r1) (\<lambda>(op, r2).
     andThen (expectKind tokRParen r2) (\<lambda>r3. Ok (attrExistsCondNode op negate, r3)))))"

text \<open>\<open>parseBeginsWithFunc\<close> and \<open>parseContainsFunc\<close> differ in the node they make.\<close>

definition parsePairFunc :: "(exprOperand \<Rightarrow> exprOperand \<Rightarrow> condNode) \<Rightarrow> exprToken list
    \<Rightarrow> (expr_error, condNode \<times> exprToken list) res" where
  "parsePairFunc mk ts =
     andThen (consume ts) (\<lambda>(_, r0).
     andThen (expectKind tokLParen r0) (\<lambda>r1.
     andThen (parseAttrPath r1) (\<lambda>(path, r2).
     andThen (expectKind tokComma r2) (\<lambda>r3.
     andThen (parseOperand r3) (\<lambda>(v, r4).
     andThen (expectKind tokRParen r4) (\<lambda>r5. Ok (mk path v, r5)))))))"

definition parseBeginsWithFunc :: "exprToken list \<Rightarrow> (expr_error, condNode \<times> exprToken list) res" where
  "parseBeginsWithFunc = parsePairFunc beginsWithCondNode"

definition parseContainsFunc :: "exprToken list \<Rightarrow> (expr_error, condNode \<times> exprToken list) res" where
  "parseContainsFunc = parsePairFunc containsCondNode"

text \<open>The values of \<open>IN (v1, v2, ...)\<close> after the first one.\<close>

function inLoop :: "exprOperand list \<Rightarrow> exprToken list \<Rightarrow> (expr_error, exprOperand list \<times> exprToken list) res" where
  "inLoop vs ts =
     andThen (peek ts) (\<lambda>t.
       if kind t \<noteq> tokComma then Ok (vs, ts)
       else andThen (parseOperand (tl ts)) (\<lambda>(v, r).
         if length vs + 1 > 100 then Err (TooManyInValues (length vs + 1))
         else if length r < length ts then inLoop (vs @ [v]) r else Panic))"
  by pat_completeness auto
termination by (relation "measure (length \<circ> snd)") auto

declare inLoop.simps [simp del]

definition cmpOpOf :: "tokenKind \<Rightarrow> string option" where
  "cmpOpOf k = (case k of tokEQ \<Rightarrow> Some ''='' | tokNEQ \<Rightarrow> Some ''<>'' | tokLT \<Rightarrow> Some ''<'' | tokLTE \<Rightarrow> Some ''<=''
     | tokGT \<Rightarrow> Some ''>'' | tokGTE \<Rightarrow> Some ''>='' | _ \<Rightarrow> None)"

definition parseBetween :: "exprOperand \<Rightarrow> exprToken list \<Rightarrow> (expr_error, condNode \<times> exprToken list) res" where
  "parseBetween left ts =
     andThen (parseOperand ts) (\<lambda>(lo, r1).
     andThen (consume r1) (\<lambda>(t, r2).
       if \<not> is_kw ''AND'' t then Err (ExpectedAnd (val t))
       else andThen (parseOperand r2) (\<lambda>(hi, r3). Ok (betweenCondNode left lo hi, r3))))"

definition parseIn :: "exprOperand \<Rightarrow> exprToken list \<Rightarrow> (expr_error, condNode \<times> exprToken list) res" where
  "parseIn left ts =
     andThen (expectKind tokLParen ts) (\<lambda>r1.
     andThen (parseOperand r1) (\<lambda>(v, r2).
     andThen (inLoop [v] r2) (\<lambda>(vs, r3).
     andThen (expectKind tokRParen r3) (\<lambda>r4. Ok (inCondNode left vs, r4)))))"

text \<open>What follows the left side of a comparison.\<close>

definition parseRelation :: "exprOperand \<Rightarrow> exprToken list \<Rightarrow> (expr_error, condNode \<times> exprToken list) res" where
  "parseRelation left ts =
     andThen (consume ts) (\<lambda>(t, r).
       if is_kw ''BETWEEN'' t then parseBetween left r
       else if is_kw ''IN'' t then parseIn left r
       else case cmpOpOf (kind t) of
              None \<Rightarrow> Err (ExpectedComparison (val t))
            | Some op \<Rightarrow> andThen (parseOperand r) (\<lambda>(right, r'). Ok (cmpCondNode left op right, r')))"

definition parseComparison :: "exprToken list \<Rightarrow> (expr_error, condNode \<times> exprToken list) res" where
  "parseComparison ts =
     andThen (isKeyword ''SIZE'' ts) (\<lambda>size.
     andThen (if size then parseSizeFunc ts else parseAttrPath ts) (\<lambda>(left, r). parseRelation left r))"

definition funcOf :: "exprToken \<Rightarrow> (exprToken list \<Rightarrow> (expr_error, condNode \<times> exprToken list) res)" where
  "funcOf t =
     (if kind t \<noteq> tokIdent then parseComparison
      else if strings_ToLower (val t) = ''attribute_exists'' then parseAttrExistsFunc False
      else if strings_ToLower (val t) = ''attribute_not_exists'' then parseAttrExistsFunc True
      else if strings_ToLower (val t) = ''begins_with'' then parseBeginsWithFunc
      else if strings_ToLower (val t) = ''contains'' then parseContainsFunc
      else parseComparison)"

function parseOr :: "exprToken list \<Rightarrow> (expr_error, condNode \<times> exprToken list) res"
  and orLoop :: "condNode \<Rightarrow> exprToken list \<Rightarrow> (expr_error, condNode \<times> exprToken list) res"
  and parseAnd :: "exprToken list \<Rightarrow> (expr_error, condNode \<times> exprToken list) res"
  and andLoop :: "condNode \<Rightarrow> exprToken list \<Rightarrow> (expr_error, condNode \<times> exprToken list) res"
  and parseNot :: "exprToken list \<Rightarrow> (expr_error, condNode \<times> exprToken list) res"
  and parsePrimary :: "exprToken list \<Rightarrow> (expr_error, condNode \<times> exprToken list) res"
where
  "parseOr ts =
     andThen (parseAnd ts) (\<lambda>(left, r). if length r < length ts then orLoop left r else Panic)"
| "orLoop left ts =
     (case ts of
        [] \<Rightarrow> Panic
      | t # r \<Rightarrow>
          if is_kw ''OR'' t then
            andThen (parseAnd r) (\<lambda>(right, r').
              if length r' < length ts then orLoop (orCondNode left right) r' else Panic)
          else Ok (left, ts))"
| "parseAnd ts =
     andThen (parseNot ts) (\<lambda>(left, r). if length r < length ts then andLoop left r else Panic)"
| "andLoop left ts =
     (case ts of
        [] \<Rightarrow> Panic
      | t # r \<Rightarrow>
          if is_kw ''AND'' t then
            andThen (parseNot r) (\<lambda>(right, r').
              if length r' < length ts then andLoop (andCondNode left right) r' else Panic)
          else Ok (left, ts))"
| "parseNot ts =
     (case ts of
        [] \<Rightarrow> Panic
      | t # r \<Rightarrow>
          if is_kw ''NOT'' t then andThen (parsePrimary r) (\<lambda>(c, r'). Ok (notCondNode c, r'))
          else parsePrimary ts)"
| "parsePrimary ts =
     (case ts of
        [] \<Rightarrow> Panic
      | t # r \<Rightarrow>
          if kind t = tokLParen then
            andThen (parseOr r) (\<lambda>(c, r1). andThen (expectKind tokRParen r1) (\<lambda>r2. Ok (c, r2)))
          else funcOf t ts)"
  by pat_completeness auto
termination
  by (relation "measures [\<lambda>x. case x of Inl (Inl a) \<Rightarrow> length a | Inl (Inr (Inl b)) \<Rightarrow> length (snd b) | Inl (Inr (Inr a)) \<Rightarrow> length a
                 | Inr (Inl b) \<Rightarrow> length (snd b) | Inr (Inr (Inl a)) \<Rightarrow> length a | Inr (Inr (Inr a)) \<Rightarrow> length a,
      \<lambda>x. case x of Inl (Inl a) \<Rightarrow> 5 | Inl (Inr (Inl b)) \<Rightarrow> 4 | Inl (Inr (Inr a)) \<Rightarrow> 3
                 | Inr (Inl b) \<Rightarrow> 2 | Inr (Inr (Inl a)) \<Rightarrow> 1 | Inr (Inr (Inr a)) \<Rightarrow> (0::nat)]") auto

declare parseOr.simps [simp del] orLoop.simps [simp del] parseAnd.simps [simp del] andLoop.simps [simp del]
  parseNot.simps [simp del] parsePrimary.simps [simp del]

definition parseFilterExpr :: "string \<Rightarrow> (expr_error, condNode) res" where
  "parseFilterExpr expr =
     andThen (tokenizeExpr expr) (\<lambda>toks.
     andThen (parseOr toks) (\<lambda>(node, r).
     andThen (peek r) (\<lambda>t. if kind t \<noteq> tokEOF then Err (UnexpectedToken (val t)) else Ok node)))"

section \<open>References\<close>

definition missingRef :: "smap \<Rightarrow> gmap \<Rightarrow> exprToken \<Rightarrow> expr_error option" where
  "missingRef names vals t =
     (if kind t = tokValRef \<and> map_of vals (val t) = None then Some (ValuesMissing (val t))
      else if kind t = tokNameRef \<and> map_of names (val t) = None then Some (NamesMissing (val t))
      else None)"

fun firstMissing :: "smap \<Rightarrow> gmap \<Rightarrow> exprToken list \<Rightarrow> (expr_error, unit) res" where
  "firstMissing names vals [] = Ok ()"
| "firstMissing names vals (t # ts) =
     (case missingRef names vals t of Some e \<Rightarrow> Err e | None \<Rightarrow> firstMissing names vals ts)"

text \<open>\<open>toks, _ := tokenizeExpr(expr)\<close>: a failure leaves no tokens to check.\<close>

definition validateExprRefs :: "string \<Rightarrow> smap \<Rightarrow> gmap \<Rightarrow> (expr_error, unit) res" where
  "validateExprRefs expr names vals =
     (case tokenizeExpr expr of Ok toks \<Rightarrow> firstMissing names vals toks | Err _ \<Rightarrow> Ok () | Panic \<Rightarrow> Panic)"

function refsInExpr :: "string \<Rightarrow> string list \<times> string list" where
  "refsInExpr [] = ([], [])"
| "refsInExpr (c # cs) =
     (let w = takeWhile isExprWord cs
      in if c = CHR ''#'' then apfst ((@) (if w = [] then [] else [c # w])) (refsInExpr (drop (length w) cs))
         else if c = CHR '':'' then apsnd ((@) (if w = [] then [] else [c # w])) (refsInExpr (drop (length w) cs))
         else refsInExpr cs)"
  by pat_completeness auto
termination by (relation "measure length") auto

definition validateUnusedExprRefs :: "smap \<Rightarrow> gmap \<Rightarrow> string list \<Rightarrow> (expr_error, unit) res" where
  "validateUnusedExprRefs names vals exprs =
     (if list_all (\<lambda>e. e = '''') exprs then
        (if names \<noteq> [] then Err NamesWithoutExpr else if vals \<noteq> [] then Err ValuesWithoutExpr else Ok ())
      else
        let usedNames = concat (map (fst \<circ> refsInExpr) exprs); usedVals = concat (map (snd \<circ> refsInExpr) exprs)
        in case find (\<lambda>k. k \<notin> set usedNames) (map fst names) of
             Some k \<Rightarrow> Err (NamesUnused k)
           | None \<Rightarrow> (case find (\<lambda>k. k \<notin> set usedVals) (map fst vals) of
                        Some k \<Rightarrow> Err (ValuesUnused k) | None \<Rightarrow> Ok ()))"

definition evalFilterExpr :: "string \<Rightarrow> gmap \<Rightarrow> smap \<Rightarrow> gmap \<Rightarrow> (expr_error, bool) res" where
  "evalFilterExpr expr item names vals =
     andThen (parseFilterExpr expr) (\<lambda>node.
     andThen (validateExprRefs expr names vals) (\<lambda>_. eval node item names vals))"

fun filterItems :: "condNode \<Rightarrow> smap \<Rightarrow> gmap \<Rightarrow> gmap list \<Rightarrow> (expr_error, gmap list) res" where
  "filterItems node names vals [] = Ok []"
| "filterItems node names vals (item # items) =
     andThen (eval node item names vals) (\<lambda>b.
       mapOk (\<lambda>r. if b then item # r else r) (filterItems node names vals items))"

definition applyFilterExpression :: "gmap list \<Rightarrow> string \<Rightarrow> smap \<Rightarrow> gmap \<Rightarrow> (expr_error, gmap list) res" where
  "applyFilterExpression items filterExpr names vals =
     (if filterExpr = '''' then Ok items
      else andThen (parseFilterExpr filterExpr) (\<lambda>node.
           andThen (validateExprRefs filterExpr names vals) (\<lambda>_. filterItems node names vals items)))"

end
