(* ===== verification/Ddb_Projection.thy ===== *)
theory Ddb_Projection
  imports Ddb_Expr
begin

text \<open>
  Document paths written as text (\<open>parseProjPath\<close> and \<open>parseUpdatePath\<close>) and projection expressions
  (\<open>internal/dynamodb/expression.go\<close>): a projection is parsed into a tree of the wanted paths, and the
  tree is applied to an item.
\<close>

section \<open>Paths\<close>

datatype path_error =
    PathEmptyPart string
  | PathNameExpected string
  | PathNameMissing string
  | PathUnexpected string string
  | PathMissingBracket string
  | PathBadIndex string string
  | PathTooDeep

text \<open>\<open>resolveAttrName\<close>\<close>

definition resolveAttrName :: "string \<Rightarrow> smap \<Rightarrow> (path_error, string) res" where
  "resolveAttrName ref names =
     (if \<not> has_prefix ''#'' ref then Ok ref
      else case map_of names ref of None \<Rightarrow> Err (PathNameMissing ref) | Some a \<Rightarrow> Ok a)"

text \<open>The loop over \<open>[n][m]...\<close>\<close>

function parseIndexes :: "string \<Rightarrow> string \<Rightarrow> (path_error, projSegment list) res" where
  "parseIndexes token rest =
     (if rest = [] then Ok []
      else if hd rest \<noteq> CHR ''['' then Err (PathUnexpected token rest)
      else case strings_Index rest '']'' of
             None \<Rightarrow> Err (PathMissingBracket token)
           | Some rb \<Rightarrow>
               let idxStr = take (rb - 1) (drop 1 rest)
               in case strconv_Atoi idxStr of
                    None \<Rightarrow> Err (PathBadIndex idxStr token)
                  | Some n \<Rightarrow>
                      if n < 0 then Err (PathBadIndex idxStr token)
                      else mapOk ((#) (seg_index n)) (parseIndexes token (drop (rb + 1) rest)))"
  by pat_completeness auto
termination by (relation "measure (length \<circ> snd)") auto

declare parseIndexes.simps [simp del]

definition parsePart :: "string \<Rightarrow> smap \<Rightarrow> string \<Rightarrow> (path_error, projSegment list) res" where
  "parsePart token names part0 =
     (let part = strings_TrimSpace part0
      in if part = '''' then Err (PathEmptyPart token)
         else case strings_Index part ''['' of
                Some 0 \<Rightarrow> Err (PathNameExpected token)
              | Some lb \<Rightarrow>
                  andThen (resolveAttrName (take lb part) names) (\<lambda>name.
                    mapOk ((#) (seg_attr name)) (parseIndexes token (drop lb part)))
              | None \<Rightarrow> mapOk (\<lambda>name. [seg_attr name]) (resolveAttrName part names))"

definition parseProjPath :: "string \<Rightarrow> smap \<Rightarrow> (path_error, projSegment list) res" where
  "parseProjPath token names = mapOk concat (mapRes (parsePart token names) (split_char (CHR ''.'') token))"

definition parseUpdatePath :: "string \<Rightarrow> smap \<Rightarrow> (path_error, projSegment list) res" where
  "parseUpdatePath token names =
     andThen (mapOk concat (mapRes (parsePart token names) (split_char (CHR ''.'') token))) (\<lambda>segs.
       if length segs - 1 > 32 then Err PathTooDeep else Ok segs)"

section \<open>Projection trees\<close>

datatype projNode = ProjNode (isLeaf: bool) (children: "(string \<times> projNode) list") (listIdxs: "(int \<times> projNode) list")

abbreviation emptyProj :: projNode where
  "emptyProj \<equiv> ProjNode False [] []"

definition childOr :: "('k \<times> projNode) list \<Rightarrow> 'k \<Rightarrow> projNode" where
  "childOr m k = (case map_of m k of None \<Rightarrow> emptyProj | Some c \<Rightarrow> c)"

fun addPath :: "projNode \<Rightarrow> projSegment list \<Rightarrow> projNode" where
  "addPath (ProjNode leaf ch li) segs =
     (if leaf then ProjNode leaf ch li
      else case segs of
             [] \<Rightarrow> ProjNode True [] []
           | seg # rest \<Rightarrow>
               if attr seg \<noteq> ''''
               then ProjNode leaf (AList.update (attr seg) (addPath (childOr ch (attr seg)) rest) ch) li
               else ProjNode leaf ch (AList.update (index seg) (addPath (childOr li (index seg)) rest) li))"

definition projectFields :: "(string \<times> (gany \<Rightarrow> gany)) list \<Rightarrow> gmap \<Rightarrow> gmap" where
  "projectFields ch m = List.map_filter (\<lambda>(a, f). map_option (\<lambda>v. (a, f v)) (map_of m a)) ch"

text \<open>An index is never negative: \<open>parseIndexes\<close> rejects it.\<close>

definition projectElems :: "(int \<times> (gany \<Rightarrow> gany)) list \<Rightarrow> gany list \<Rightarrow> gany list" where
  "projectElems li l = map (\<lambda>(i, f). f (l ! nat i)) (filter (\<lambda>(i, f). i < int (length l)) (sort_key fst li))"

primrec projectValue :: "projNode \<Rightarrow> gany \<Rightarrow> gany" where
  "projectValue (ProjNode leaf ch li) =
     (let fch = map (map_prod id projectValue) ch; fli = map (map_prod id projectValue) li
      in (\<lambda>v. if fch = [] \<and> fli = [] then v
              else case as_map v of
                     None \<Rightarrow> v
                   | Some valMap \<Rightarrow>
                       if fch \<noteq> [] then
                         (case map_of valMap ''M'' of
                            None \<Rightarrow> v
                          | Some mRaw \<Rightarrow> (case as_map mRaw of None \<Rightarrow> v | Some mMap \<Rightarrow> GMap [(''M'', GMap (projectFields fch mMap))]))
                       else
                         (case map_of valMap ''L'' of
                            None \<Rightarrow> v
                          | Some lRaw \<Rightarrow> (case as_slice lRaw of None \<Rightarrow> v | Some l \<Rightarrow> GMap [(''L'', GSlice (projectElems fli l))]))))"

definition addProjTok :: "smap \<Rightarrow> projNode \<Rightarrow> string \<Rightarrow> (path_error, projNode) res" where
  "addProjTok names root tok0 =
     (let t = strings_TrimSpace tok0 in if t = '''' then Ok root else mapOk (addPath root) (parseProjPath t names))"

definition parseProjectionExpression :: "string \<Rightarrow> smap \<Rightarrow> (path_error, projNode) res" where
  "parseProjectionExpression expr names = foldRes (addProjTok names) emptyProj (split_char (CHR '','') expr)"

definition applyProj :: "projNode \<Rightarrow> gmap \<Rightarrow> gmap" where
  "applyProj root item = projectFields (map (map_prod id projectValue) (children root)) item"

definition applyProjection :: "gmap \<Rightarrow> string \<Rightarrow> smap \<Rightarrow> (path_error, gmap) res" where
  "applyProjection item projExpr names =
     (if projExpr = '''' then Ok item
      else mapOk (\<lambda>root. applyProj root item) (parseProjectionExpression projExpr names))"

definition applyProjectionToItems :: "gmap list \<Rightarrow> string \<Rightarrow> smap \<Rightarrow> (path_error, gmap list) res" where
  "applyProjectionToItems items projExpr names =
     (if projExpr = '''' then Ok items
      else mapOk (\<lambda>root. map (applyProj root) items) (parseProjectionExpression projExpr names))"

end
