(* ===== verification/Ddb_Expr_Theorems.thy ===== *)
theory Ddb_Expr_Theorems
  imports Ddb_Projection
begin

text \<open>
  Properties of expressions: the parser always stops with a tree or an error and never reads past
  its tokens; it reads back what a printer writes, with the precedence and the association of the
  operators; evaluation never panics on items whose values have the shape of typed values.
\<close>

section \<open>The parser never reads past the end\<close>

text \<open>What the tokenizer promises of a token.\<close>

definition tok_ok :: "exprToken \<Rightarrow> bool" where
  "tok_ok t \<longleftrightarrow> (kind t = tokListIdx \<longrightarrow> val t \<noteq> [] \<and> list_all is_digit (val t))
             \<and> (kind t = tokIdent \<longrightarrow> \<not> has_prefix ''#'' (val t))"

text \<open>The rest of a well-formed token list, with all its tokens in \<open>T\<close>.\<close>

definition ended :: "exprToken set \<Rightarrow> exprToken list \<Rightarrow> bool" where
  "ended T ts \<longleftrightarrow> ts \<noteq> [] \<and> kind (last ts) = tokEOF \<and> set ts \<subseteq> T \<and> list_all tok_ok ts"

text \<open>Operands and conditions whose references are tokens of \<open>T\<close> and whose paths are well formed.\<close>

definition seg_ok :: "exprToken set \<Rightarrow> projSegment \<Rightarrow> bool" where
  "seg_ok T s \<longleftrightarrow> (has_prefix ''#'' (attr s) \<longrightarrow> tok tokNameRef (attr s) \<in> T) \<and> 0 \<le> index s"

fun operand_ok :: "exprToken set \<Rightarrow> exprOperand \<Rightarrow> bool" where
  "operand_ok T (nameRefOperand r) = (tok tokNameRef r \<in> T)"
| "operand_ok T (valRefOperand r) = (tok tokValRef r \<in> T)"
| "operand_ok T (plainOperand a) = True"
| "operand_ok T (sizeOperand p) = operand_ok T p"
| "operand_ok T (pathOperand segs) = (segs \<noteq> [] \<and> list_all (seg_ok T) segs)"

fun cond_ok :: "exprToken set \<Rightarrow> condNode \<Rightarrow> bool" where
  "cond_ok T (andCondNode a b) = (cond_ok T a \<and> cond_ok T b)"
| "cond_ok T (orCondNode a b) = (cond_ok T a \<and> cond_ok T b)"
| "cond_ok T (notCondNode a) = cond_ok T a"
| "cond_ok T (cmpCondNode l op r) = (operand_ok T l \<and> op \<in> {''='', ''<>'', ''<'', ''<='', ''>'', ''>=''} \<and> operand_ok T r)"
| "cond_ok T (attrExistsCondNode p b) = operand_ok T p"
| "cond_ok T (beginsWithCondNode p q) = (operand_ok T p \<and> operand_ok T q)"
| "cond_ok T (containsCondNode p q) = (operand_ok T p \<and> operand_ok T q)"
| "cond_ok T (betweenCondNode a b c) = (operand_ok T a \<and> operand_ok T b \<and> operand_ok T c)"
| "cond_ok T (inCondNode a xs) = (operand_ok T a \<and> list_all (operand_ok T) xs)"

text \<open>A parsing step that starts at \<open>ts\<close> fails with an error, or makes progress, leaves an end mark
  and returns a result with the property \<open>Q\<close>.\<close>

definition safe :: "('a \<Rightarrow> bool) \<Rightarrow> exprToken set \<Rightarrow> exprToken list \<Rightarrow> (expr_error, 'a \<times> exprToken list) res \<Rightarrow> bool" where
  "safe Q T ts q = (case q of Ok (x, r) \<Rightarrow> Q x \<and> ended T r \<and> length r < length ts | Err e \<Rightarrow> True | Panic \<Rightarrow> False)"

lemma safe_simps [simp]:
  "safe Q T ts (Ok (x, r)) \<longleftrightarrow> Q x \<and> ended T r \<and> length r < length ts" "safe Q T ts (Err e)" "\<not> safe Q T ts Panic"
  by (simp_all add: safe_def)

lemma safe_mono: "safe Q T r q \<Longrightarrow> length r \<le> length ts \<Longrightarrow> safe Q T ts q"
  by (auto simp: safe_def split: res.splits)

lemma safe_then:
  assumes "safe P T ts q" and "\<And>x r. P x \<Longrightarrow> ended T r \<Longrightarrow> length r < length ts \<Longrightarrow> safe Q T r (f x r)"
  shows "safe Q T ts (andThen q (\<lambda>(x, r). f x r))"
  using assms safe_mono less_imp_le by (cases q) fastforce+

lemma ended_ConsI: "ended T (t # r) \<Longrightarrow> kind t \<noteq> tokEOF \<Longrightarrow> ended T r"
  by (auto simp: ended_def split: if_splits)

lemma ended_Cons: "ended T ts \<Longrightarrow> \<exists>t r. ts = t # r"
  by (cases ts) (auto simp: ended_def)

lemma safe_consume:
  assumes "ended T ts"
    and "\<And>t r. ts = t # r \<Longrightarrow> kind t = tokEOF \<Longrightarrow> safe Q T ts (f t r)"
    and "\<And>t r. ts = t # r \<Longrightarrow> kind t \<noteq> tokEOF \<Longrightarrow> ended T r \<Longrightarrow> safe Q T ts (f t r)"
  shows "safe Q T ts (andThen (consume ts) (\<lambda>(t, r). f t r))"
proof -
  obtain t r where ts: "ts = t # r" using ended_Cons assms(1) by blast
  then show ?thesis using assms(2,3)[OF ts] ended_ConsI[of T t r] assms(1)
    by (cases "kind t = tokEOF") (auto simp: consume_def)
qed

lemma safe_skip:
  assumes "ended T ts" and "kind (hd ts) \<noteq> tokEOF" and "\<And>t r. ended T r \<Longrightarrow> safe Q T r (f t r)"
  shows "safe Q T ts (andThen (consume ts) (\<lambda>(t, r). f t r))"
proof (rule safe_consume[OF assms(1)])
  fix t r assume ts: "ts = t # r" "ended T r"
  then show "safe Q T ts (f t r)" using safe_mono[OF assms(3)[of r t]] by simp
qed (use assms(2) in auto)

lemma expectKind_Cons: "expectKind k (t # r) = (if kind t = k then Ok r else Err (ExpectedToken k (val t)))"
  by (simp add: expectKind_def consume_def)

lemma safe_expect:
  assumes "ended T ts" and "k \<noteq> tokEOF" and "\<And>r. ended T r \<Longrightarrow> length r < length ts \<Longrightarrow> safe Q T r (f r)"
  shows "safe Q T ts (andThen (expectKind k ts) f)"
proof -
  obtain t r where ts: "ts = t # r" using ended_Cons assms(1) by blast
  show ?thesis
  proof (cases "kind t = k")
    case True
    then have "ended T r" using ended_ConsI[of T t r] assms(1,2) ts by auto
    with True show ?thesis using safe_mono[OF assms(3)[of r], of ts] by (simp add: expectKind_Cons ts)
  qed (simp add: expectKind_Cons ts)
qed

lemma safe_last:
  assumes "ended T ts" and "k \<noteq> tokEOF" and "Q x"
  shows "safe Q T ts (andThen (expectKind k ts) (\<lambda>r. Ok (x, r)))"
proof -
  obtain t r where ts: "ts = t # r" using ended_Cons assms(1) by blast
  then show ?thesis using ended_ConsI[of T t r] assms by (auto simp: expectKind_Cons)
qed

lemma tok_eta: "tok (kind t) (val t) = t"
  by simp

lemma tok_mem: "t \<in> T \<Longrightarrow> kind t = k \<Longrightarrow> tok k (val t) \<in> T"
  using tok_eta[of t] by metis

lemma atoi_digits_nonneg:
  assumes "list_all is_digit s" and "s \<noteq> []"
  shows "0 \<le> atoi_digits s"
proof -
  obtain c cs where s: "s = c # cs" using assms(2) by (cases s) auto
  then have "is_digit c" using assms(1) by simp
  then have "c \<noteq> CHR ''-''" by (auto simp: is_digit_def)
  then show ?thesis
    by (auto simp: atoi_digits_def strconv_Atoi_def s in_int64_def split: option.splits if_splits)
qed

lemma seg_ok_name:
  "t \<in> T \<Longrightarrow> tok_ok t \<Longrightarrow> kind t = tokNameRef \<or> kind t = tokIdent \<Longrightarrow> seg_ok T (seg_attr (val t))"
  using tok_mem[of t T] by (auto simp: seg_ok_def seg_attr_def tok_ok_def)

lemma seg_ok_index: "tok_ok t \<Longrightarrow> kind t = tokListIdx \<Longrightarrow> seg_ok T (seg_index (atoi_digits (val t)))"
  using atoi_digits_nonneg[of "val t"] by (auto simp: seg_ok_def seg_index_def tok_ok_def has_prefix_def)

lemma ended_hd: "ended T (t # r) \<Longrightarrow> t \<in> T \<and> tok_ok t"
  by (simp add: ended_def)

lemma safe_pathLoop:
  "ended T ts \<Longrightarrow> length ts \<le> n \<Longrightarrow> segs \<noteq> [] \<Longrightarrow> list_all (seg_ok T) segs \<Longrightarrow>
    (case pathLoop segs ts of Ok (x, r) \<Rightarrow> x \<noteq> [] \<and> list_all (seg_ok T) x \<and> ended T r \<and> length r \<le> n | Err e \<Rightarrow> True | Panic \<Rightarrow> False)"
proof (induction segs ts rule: pathLoop.induct)
  case (2 segs t ts)
  show ?case
  proof (cases "kind t = tokDot")
    case True
    then have "ended T ts" using 2(3) ended_ConsI by auto
    then obtain t' r where "ts = t' # r" by (cases ts) (auto simp: ended_def)
    with True "2.IH"(1)[of t' r] 2(3-6) ended_ConsI[of T t' r] \<open>ended T ts\<close> ended_hd[of T t' r] seg_ok_name[of t' T]
    show ?thesis by auto
  next
    case False
    with "2.IH"(2) 2(3-6) ended_ConsI[of T t ts] ended_hd[of T t ts] seg_ok_index[of t T] show ?thesis by auto
  qed
qed (simp add: ended_def)

lemma operandOf_ok: "segs \<noteq> [] \<Longrightarrow> list_all (seg_ok T) segs \<Longrightarrow> operand_ok T (operandOf segs)"
  by (cases segs) (auto simp: operandOf_def seg_ok_def)

lemma safe_parseAttrPath: "ended T ts \<Longrightarrow> safe (operand_ok T) T ts (parseAttrPath ts)"
  unfolding parseAttrPath_def
proof (rule safe_consume, assumption, simp)
  fix t r assume ts: "ts = t # r" "ended T r" "ended T ts"
  then show "safe (operand_ok T) T ts (if kind t \<noteq> tokNameRef \<and> kind t \<noteq> tokIdent then Err (ExpectedPath (val t))
       else andThen (pathLoop [seg_attr (val t)] r) (\<lambda>(segs, r').
         if length segs - 1 > 32 then Err NestingExceeded else Ok (operandOf segs, r')))"
    using safe_pathLoop[of T r "length r" "[seg_attr (val t)]"] seg_ok_name[of t T] ended_hd[of T t r] operandOf_ok
    by (cases "pathLoop [seg_attr (val t)] r") auto
qed

lemma safe_path_then:
  assumes "ended T ts" and "\<And>x r. operand_ok T x \<Longrightarrow> ended T r \<Longrightarrow> safe Q T r (f x r)"
  shows "safe Q T ts (andThen (parseAttrPath ts) (\<lambda>(x, r). f x r))"
  using safe_then[OF safe_parseAttrPath[OF assms(1)]] assms(2) by blast

lemma safe_parseSizeFunc: "ended T ts \<Longrightarrow> kind (hd ts) = tokIdent \<Longrightarrow> safe (operand_ok T) T ts (parseSizeFunc ts)"
  unfolding parseSizeFunc_def
  by (rule safe_skip, assumption, simp, rule safe_expect, assumption, simp, rule safe_path_then, assumption,
      rule safe_last) simp_all

lemma kw_ident: "is_kw w t \<Longrightarrow> kind t = tokIdent"
  by (simp add: is_kw_def)

lemma keyword_cases:
  assumes "ended T ts"
  shows "(isKeyword w ts = Ok True \<and> kind (hd ts) = tokIdent) \<or> isKeyword w ts = Ok False"
  using assms by (cases ts) (auto simp: isKeyword_def peek_def is_kw_def ended_def)

lemma safe_parseOperand:
  assumes "ended T ts"
  shows "safe (operand_ok T) T ts (parseOperand ts)"
  using keyword_cases[OF assms, of "''SIZE''"]
proof
  assume "isKeyword ''SIZE'' ts = Ok True \<and> kind (hd ts) = tokIdent"
  then show ?thesis using safe_parseSizeFunc[OF assms] by (simp add: parseOperand_def)
next
  assume "isKeyword ''SIZE'' ts = Ok False"
  moreover have "safe (operand_ok T) T ts (andThen (consume ts) (\<lambda>(t, r).
         if kind t = tokValRef then Ok (valRefOperand (val t), r)
         else if kind t = tokNameRef \<or> kind t = tokIdent then parseAttrPath ts
         else Err (ExpectedOperand (val t))))"
  proof (rule safe_consume[OF assms])
    fix t r assume ts: "ts = t # r" "ended T r"
    then have "kind t = tokValRef \<Longrightarrow> tok tokValRef (val t) \<in> T" using ended_hd[of T t r] assms tok_mem[of t T] by simp
    with ts show "safe (operand_ok T) T ts (if kind t = tokValRef then Ok (valRefOperand (val t), r)
         else if kind t = tokNameRef \<or> kind t = tokIdent then parseAttrPath ts
         else Err (ExpectedOperand (val t)))"
      using safe_parseAttrPath[OF assms] by simp
  qed auto
  ultimately show ?thesis by (simp add: parseOperand_def)
qed

lemma safe_operand_then:
  assumes "ended T ts" and "\<And>x r. operand_ok T x \<Longrightarrow> ended T r \<Longrightarrow> safe Q T r (f x r)"
  shows "safe Q T ts (andThen (parseOperand ts) (\<lambda>(x, r). f x r))"
  using safe_then[OF safe_parseOperand[OF assms(1)]] assms(2) by blast

lemma safe_parseAttrExists: "ended T ts \<Longrightarrow> kind (hd ts) = tokIdent \<Longrightarrow> safe (cond_ok T) T ts (parseAttrExistsFunc b ts)"
  unfolding parseAttrExistsFunc_def
  by (rule safe_skip, assumption, simp, rule safe_expect, assumption, simp, rule safe_path_then, assumption,
      rule safe_last) simp_all

lemma safe_parsePairFunc:
  "ended T ts \<Longrightarrow> kind (hd ts) = tokIdent \<Longrightarrow> (\<And>p q. operand_ok T p \<Longrightarrow> operand_ok T q \<Longrightarrow> cond_ok T (mk p q)) \<Longrightarrow> safe (cond_ok T) T ts (parsePairFunc mk ts)"
  unfolding parsePairFunc_def
  by (rule safe_skip, assumption, simp, rule safe_expect, assumption, simp, rule safe_path_then, assumption,
      rule safe_expect, assumption, simp, rule safe_operand_then, assumption, rule safe_last) simp_all

lemma safe_inLoop:
  "ended T ts \<Longrightarrow> length ts \<le> n \<Longrightarrow> list_all (operand_ok T) vs \<Longrightarrow>
    (case inLoop vs ts of Ok (x, r) \<Rightarrow> list_all (operand_ok T) x \<and> ended T r \<and> length r \<le> n | Err e \<Rightarrow> True | Panic \<Rightarrow> False)"
proof (induction vs ts rule: inLoop.induct)
  case (1 vs ts)
  obtain t r where ts: "ts = t # r" using "1.prems"(1) by (cases ts) (auto simp: ended_def)
  show ?case
  proof (cases "kind t = tokComma")
    case False
    then show ?thesis using "1.prems" unfolding ts by (simp add: inLoop.simps[of vs "t # r"] peek_def)
  next
    case True
    then have "ended T r" using ended_ConsI[of T t r] "1.prems"(1) ts by simp
    then have s: "safe (operand_ok T) T r (parseOperand r)" by (rule safe_parseOperand)
    then show ?thesis using "1.IH"[of t] True "1.prems"(2,3) unfolding ts
      by (cases "parseOperand r") (auto simp: inLoop.simps[of vs "t # r"] peek_def)
  qed
qed

lemma safe_inLoop_then:
  assumes "ended T ts" and "list_all (operand_ok T) vs"
    and "\<And>x r. list_all (operand_ok T) x \<Longrightarrow> ended T r \<Longrightarrow> safe Q T r (f x r)"
  shows "safe Q T ts (andThen (inLoop vs ts) (\<lambda>(x, r). f x r))"
  using safe_inLoop[OF assms(1) order_refl assms(2)] assms(3) safe_mono by (cases "inLoop vs ts") fastforce+

lemma safe_parseIn: "ended T ts \<Longrightarrow> operand_ok T left \<Longrightarrow> safe (cond_ok T) T ts (parseIn left ts)"
  unfolding parseIn_def
  by (rule safe_expect, assumption, simp, rule safe_operand_then, assumption, rule safe_inLoop_then, assumption,
      simp, rule safe_last) simp_all

lemma safe_operand_Ok: "ended T ts \<Longrightarrow> (\<And>x. operand_ok T x \<Longrightarrow> Q (f x)) \<Longrightarrow> safe Q T ts (andThen (parseOperand ts) (\<lambda>(x, r). Ok (f x, r)))"
  using safe_parseOperand[of T ts] by (cases "parseOperand ts") auto

lemma safe_parseBetween: "ended T ts \<Longrightarrow> operand_ok T left \<Longrightarrow> safe (cond_ok T) T ts (parseBetween left ts)"
  unfolding parseBetween_def
proof (rule safe_operand_then, assumption, rule safe_consume, assumption)
  fix x t and r r2 :: "exprToken list" assume "operand_ok T left" "operand_ok T x" "r = t # r2" "kind t = tokEOF"
  then show "safe (cond_ok T) T r (if \<not> is_kw ''AND'' t then Err (ExpectedAnd (val t))
       else andThen (parseOperand r2) (\<lambda>(hi, r3). Ok (betweenCondNode left x hi, r3)))"
    by (auto dest: kw_ident)
next
  fix x t and r r2 :: "exprToken list" assume "operand_ok T left" "operand_ok T x" "r = t # r2" "ended T r2"
  then show "safe (cond_ok T) T r (if \<not> is_kw ''AND'' t then Err (ExpectedAnd (val t))
       else andThen (parseOperand r2) (\<lambda>(hi, r3). Ok (betweenCondNode left x hi, r3)))"
    using safe_mono[OF safe_operand_Ok[of T r2 "cond_ok T" "betweenCondNode left x"], of r] by simp
qed

lemma safe_parseRelation:
  assumes "operand_ok T left" and "ended T r"
  shows "safe (cond_ok T) T r (parseRelation left r)"
  unfolding parseRelation_def
proof (rule safe_consume[OF assms(2)])
  fix t r' assume r: "r = t # r'" "ended T r'"
  then have "safe (cond_ok T) T r (andThen (parseOperand r') (\<lambda>(right, r''). Ok (cmpCondNode left op right, r'')))"
    if "cmpOpOf (kind t) = Some op" for op
    using safe_mono[OF safe_operand_Ok[of T r' "cond_ok T" "cmpCondNode left op"]] assms(1) that
    by (auto simp: cmpOpOf_def split: tokenKind.splits)
  with r show "safe (cond_ok T) T r (if is_kw ''BETWEEN'' t then parseBetween left r'
       else if is_kw ''IN'' t then parseIn left r'
       else case cmpOpOf (kind t) of
              None \<Rightarrow> Err (ExpectedComparison (val t))
            | Some op \<Rightarrow> andThen (parseOperand r') (\<lambda>(right, r''). Ok (cmpCondNode left op right, r'')))"
    using safe_mono[OF safe_parseBetween[of T r']] safe_mono[OF safe_parseIn[of T r']] assms(1)
    by (simp split: option.split)
qed (auto simp: is_kw_def cmpOpOf_def)

lemma safe_parseComparison:
  assumes "ended T ts"
  shows "safe (cond_ok T) T ts (parseComparison ts)"
  using keyword_cases[OF assms, of "''SIZE''"] safe_then[OF safe_parseSizeFunc[OF assms] safe_parseRelation]
    safe_path_then[OF assms safe_parseRelation]
  unfolding parseComparison_def by fastforce

lemma safe_funcOf: "ended T (t # r) \<Longrightarrow> safe (cond_ok T) T (t # r) (funcOf t (t # r))"
  using safe_parseAttrExists[of T "t # r"] safe_parsePairFunc[of T "t # r"] safe_parseComparison[of T "t # r"]
  by (simp add: funcOf_def parseBeginsWithFunc_def parseContainsFunc_def)

text \<open>One step of each parsing function.\<close>

lemma orLoop_Cons: "orLoop left (t # r) =
    (if is_kw ''OR'' t then andThen (parseAnd r) (\<lambda>(right, r').
        if length r' < length (t # r) then orLoop (orCondNode left right) r' else Panic)
     else Ok (left, t # r))"
  by (simp add: orLoop.simps[of left "t # r"])

lemma andLoop_Cons: "andLoop left (t # r) =
    (if is_kw ''AND'' t then andThen (parseNot r) (\<lambda>(right, r').
        if length r' < length (t # r) then andLoop (andCondNode left right) r' else Panic)
     else Ok (left, t # r))"
  by (simp add: andLoop.simps[of left "t # r"])

lemma parseNot_Cons: "parseNot (t # r) =
    (if is_kw ''NOT'' t then andThen (parsePrimary r) (\<lambda>(c, r'). Ok (notCondNode c, r'))
     else parsePrimary (t # r))"
  by (simp add: parseNot.simps[of "t # r"])

lemma parsePrimary_Cons: "parsePrimary (t # r) =
    (if kind t = tokLParen then
       andThen (parseOr r) (\<lambda>(c, r1). andThen (expectKind tokRParen r1) (\<lambda>r2. Ok (c, r2)))
     else funcOf t (t # r))"
  by (simp add: parsePrimary.simps[of "t # r"])

lemma parser_safe:
  "ended T ts \<Longrightarrow> safe (cond_ok T) T ts (parseOr ts)"
  "ended T us \<Longrightarrow> cond_ok T left \<Longrightarrow> safe (cond_ok T) T (t # us) (orLoop left us)"
  "ended T ts \<Longrightarrow> safe (cond_ok T) T ts (parseAnd ts)"
  "ended T us \<Longrightarrow> cond_ok T left \<Longrightarrow> safe (cond_ok T) T (t # us) (andLoop left us)"
  "ended T ts \<Longrightarrow> safe (cond_ok T) T ts (parseNot ts)"
  "ended T ts \<Longrightarrow> safe (cond_ok T) T ts (parsePrimary ts)"
proof (induction ts and left us and ts and left us and ts and ts arbitrary: and t and and t and and
    rule: parseOr_orLoop_parseAnd_andLoop_parseNot_parsePrimary.induct)
  case (1 ts)
  show ?case
  proof (cases "parseAnd ts")
    case (Ok y)
    obtain left r where y: "y = (left, r)" by (cases y)
    then have r: "ended T r" "length r < length ts" "cond_ok T left" using 1 Ok by auto
    then have "safe (cond_ok T) T (undefined # r) (orLoop left r)" using "1.IH"(2)[OF Ok y[symmetric] r(2,1,3)] by blast
    then show ?thesis using r y Ok safe_mono[of _ _ "undefined # r" _ ts] by (simp add: parseOr.simps[of ts])
  qed (use 1 in \<open>auto simp: parseOr.simps[of ts]\<close>)
next
  case (2 left us)
  obtain u r where us: "us = u # r" using ended_Cons "2.prems" by blast
  show ?case
  proof (cases "is_kw ''OR'' u")
    case True
    then have r: "ended T r" using ended_ConsI[of T u r] "2.prems" us kw_ident by force
    show ?thesis
    proof (cases "parseAnd r")
      case (Ok y)
      obtain right r' where y: "y = (right, r')" by (cases y)
      have r': "ended T r'" "length r' < length r" "cond_ok T right" using "2.IH"(1)[OF us True r] Ok y by auto
      then have "safe (cond_ok T) T (undefined # r') (orLoop (orCondNode left right) r')"
        using "2.IH"(2)[OF us True Ok y[symmetric]] us "2.prems"(2) by simp
      then show ?thesis using r' y Ok True us safe_mono[of _ _ "undefined # r'" _ "t # us"]
        by (simp add: orLoop_Cons)
    qed (use "2.IH"(1)[OF us True r] True us in \<open>auto simp: orLoop_Cons\<close>)
  qed (use "2.prems" us in \<open>simp add: orLoop_Cons\<close>)
next
  case (3 ts)
  show ?case
  proof (cases "parseNot ts")
    case (Ok y)
    obtain left r where y: "y = (left, r)" by (cases y)
    then have r: "ended T r" "length r < length ts" "cond_ok T left" using 3 Ok by auto
    then have "safe (cond_ok T) T (undefined # r) (andLoop left r)" using "3.IH"(2)[OF Ok y[symmetric] r(2,1,3)] by blast
    then show ?thesis using r y Ok safe_mono[of _ _ "undefined # r" _ ts] by (simp add: parseAnd.simps[of ts])
  qed (use 3 in \<open>auto simp: parseAnd.simps[of ts]\<close>)
next
  case (4 left us)
  obtain u r where us: "us = u # r" using ended_Cons "4.prems" by blast
  show ?case
  proof (cases "is_kw ''AND'' u")
    case True
    then have r: "ended T r" using ended_ConsI[of T u r] "4.prems" us kw_ident by force
    show ?thesis
    proof (cases "parseNot r")
      case (Ok y)
      obtain right r' where y: "y = (right, r')" by (cases y)
      have r': "ended T r'" "length r' < length r" "cond_ok T right" using "4.IH"(1)[OF us True r] Ok y by auto
      then have "safe (cond_ok T) T (undefined # r') (andLoop (andCondNode left right) r')"
        using "4.IH"(2)[OF us True Ok y[symmetric]] us "4.prems"(2) by simp
      then show ?thesis using r' y Ok True us safe_mono[of _ _ "undefined # r'" _ "t # us"]
        by (simp add: andLoop_Cons)
    qed (use "4.IH"(1)[OF us True r] True us in \<open>auto simp: andLoop_Cons\<close>)
  qed (use "4.prems" us in \<open>simp add: andLoop_Cons\<close>)
next
  case (5 ts)
  obtain u r where ts: "ts = u # r" using ended_Cons "5.prems" by blast
  show ?case
  proof (cases "is_kw ''NOT'' u")
    case True
    then have r: "ended T r" using ended_ConsI[of T u r] "5.prems" ts kw_ident by force
    then show ?thesis using "5.IH"(1)[OF ts True r] True ts
      by (cases "parsePrimary r") (auto simp: parseNot_Cons)
  next
    case False
    then show ?thesis using "5.IH"(2)[OF ts False] "5.prems" ts by (simp add: parseNot_Cons)
  qed
next
  case (6 ts)
  obtain u r where ts: "ts = u # r" using ended_Cons "6.prems" by blast
  show ?case
  proof (cases "kind u = tokLParen")
    case True
    then have r: "ended T r" using ended_ConsI[of T u r] "6.prems" ts by simp
    have "safe (cond_ok T) T r (andThen (parseOr r) (\<lambda>(c, r1). andThen (expectKind tokRParen r1) (\<lambda>r2. Ok (c, r2))))"
      using "6.IH"[OF ts True r] by (rule safe_then) (auto intro: safe_last)
    then show ?thesis using True ts safe_mono[of _ _ r _ ts] by (simp add: parsePrimary_Cons)
  next
    case False
    then show ?thesis using safe_funcOf "6.prems" ts by (simp add: parsePrimary_Cons)
  qed
qed

section \<open>The tokenizer\<close>

definition toks_ok :: "(expr_error, exprToken list) res \<Rightarrow> bool" where
  "toks_ok q = (case q of Ok ts \<Rightarrow> ts \<noteq> [] \<and> kind (last ts) = tokEOF \<and> list_all tok_ok ts | Err e \<Rightarrow> True | Panic \<Rightarrow> False)"

lemma toks_ok_Cons: "tok_ok t \<Longrightarrow> toks_ok q \<Longrightarrow> toks_ok (mapOk ((#) t) q)"
  by (cases q) (auto simp: toks_ok_def)

lemma tok_ok_simps [simp]:
  "k \<noteq> tokListIdx \<Longrightarrow> k \<noteq> tokIdent \<Longrightarrow> tok_ok (tok k v)"
  by (simp add: tok_ok_def)

lemma tok_ok_ident: "isExprLetter c \<Longrightarrow> tok_ok (tok tokIdent (c # w))"
  by (auto simp: tok_ok_def has_prefix_def isExprLetter_def)

lemma tok_ok_index: "takeWhile isExprDigit cs \<noteq> [] \<Longrightarrow> tok_ok (tok tokListIdx (takeWhile isExprDigit cs))"
  by (auto simp: tok_ok_def list_all_iff isExprDigit_def dest: set_takeWhileD)

lemma toks_if: "(b \<Longrightarrow> toks_ok p) \<Longrightarrow> (\<not> b \<Longrightarrow> toks_ok q) \<Longrightarrow> toks_ok (if b then p else q)"
  by simp

lemma tokenize_at_ok: "toks_ok (tokenize_at i s)"
proof (induction i s rule: tokenize_at.induct)
  case (1 i)
  then show ?case by (simp add: toks_ok_def)
next
  case (2 i c cs)
  have err: "toks_ok (Err e)" for e by (simp add: toks_ok_def)
  show ?case unfolding tokenize_at.simps(2)[of i c cs] Let_def
    by (intro toks_if toks_ok_Cons tok_ok_ident tok_ok_index tok_ok_simps err;
        (assumption | rule 2; (assumption | rule refl) | simp))
qed

lemma tokenizeExpr_ended: "tokenizeExpr expr = Ok toks \<Longrightarrow> ended (set toks) toks"
  using tokenize_at_ok[of 0 expr] by (simp add: tokenizeExpr_def toks_ok_def ended_def)

lemma tokenizeExpr_not_Panic: "tokenizeExpr expr \<noteq> Panic"
  using tokenize_at_ok[of 0 expr] by (auto simp: tokenizeExpr_def toks_ok_def)

lemma parseFilterExpr_result:
  "case parseFilterExpr expr of
     Ok node \<Rightarrow> \<exists>toks. tokenizeExpr expr = Ok toks \<and> cond_ok (set toks) node
   | Err e \<Rightarrow> True | Panic \<Rightarrow> False"
proof (cases "tokenizeExpr expr")
  case (Ok toks)
  then have e: "ended (set toks) toks" by (rule tokenizeExpr_ended)
  have "safe (cond_ok (set toks)) (set toks) toks (parseOr toks)" using e by (rule parser_safe(1))
  then show ?thesis
    using Ok ended_Cons by (cases "parseOr toks") (fastforce simp: parseFilterExpr_def peek_def)+
qed (auto simp: parseFilterExpr_def tokenizeExpr_not_Panic)

section \<open>Evaluation of typed items\<close>

lemma size_map_elem: "(k, v) \<in> set m \<Longrightarrow> size v < size (GMap m)"
  by (induction m) auto

lemma size_slice_elem: "v \<in> set xs \<Longrightarrow> size v < size (GSlice xs)"
  by (induction xs) auto

text \<open>
  A typed value as the comments of the code describe it: a map, whose \<open>M\<close> field, if there is one, is
  a map of typed values and whose \<open>L\<close> field is a list of typed values.
\<close>

function typed :: "gany \<Rightarrow> bool" where
  "typed v =
     (case v of
        GMap m \<Rightarrow>
          (case map_of m ''M'' of
             None \<Rightarrow> True
           | Some w \<Rightarrow> (case w of GMap mm \<Rightarrow> list_all (\<lambda>p. typed (snd p)) mm | _ \<Rightarrow> False))
          \<and> (case map_of m ''L'' of
               None \<Rightarrow> True
             | Some w \<Rightarrow> (case w of GSlice l \<Rightarrow> list_all typed l | _ \<Rightarrow> False))
      | _ \<Rightarrow> False)"
  by pat_completeness auto
termination
proof (relation "measure size"; simp)
  fix m mm p assume "map_of m ''M'' = Some (GMap mm)" "p \<in> set mm"
  then show "size (snd p) < Suc (size_list (size_prod (\<lambda>_. 0) size) m)"
    using size_map_elem[of "''M''" "GMap mm" m] size_map_elem[of "fst p" "snd p" mm] by (auto dest: map_of_SomeD)
next
  fix m l v assume "map_of m ''L'' = Some (GSlice l)" "v \<in> set l"
  then show "size v < Suc (size_list (size_prod (\<lambda>_. 0) size) m)"
    using size_map_elem[of "''L''" "GSlice l" m] size_slice_elem[of v l] by (auto dest: map_of_SomeD)
qed

declare typed.simps [simp del]

definition item_typed :: "gmap \<Rightarrow> bool" where
  "item_typed item \<longleftrightarrow> (\<forall>v\<in>snd ` set item. typed v)"

lemma typed_map: "typed v \<Longrightarrow> \<exists>m. v = GMap m"
  by (simp add: typed.simps[of v] split: gany.splits)

lemma typed_M: "typed (GMap m) \<Longrightarrow> map_of m ''M'' = Some w \<Longrightarrow> \<exists>mm. w = GMap mm \<and> (\<forall>p\<in>set mm. typed (snd p))"
  by (cases w) (simp_all add: typed.simps[of "GMap m"] list_all_iff)

lemma typed_L: "typed (GMap m) \<Longrightarrow> map_of m ''L'' = Some w \<Longrightarrow> \<exists>l. w = GSlice l \<and> (\<forall>v\<in>set l. typed v)"
  by (cases w) (simp_all add: typed.simps[of "GMap m"] list_all_iff)

text \<open>The references of the expression are all defined.\<close>

definition refs_defined :: "smap \<Rightarrow> gmap \<Rightarrow> exprToken set \<Rightarrow> bool" where
  "refs_defined names vals T \<longleftrightarrow> (\<forall>t\<in>T. missingRef names vals t = None)"

lemma refs_defined_name: "refs_defined names vals T \<Longrightarrow> tok tokNameRef r \<in> T \<Longrightarrow> \<exists>a. map_of names r = Some a"
  by (fastforce simp: refs_defined_def missingRef_def split: if_splits)

lemma firstMissing_Ok: "firstMissing names vals ts = Ok () \<longleftrightarrow> refs_defined names vals (set ts)"
  by (induction ts) (auto simp: refs_defined_def split: option.splits)

lemma firstMissing_not_Panic: "firstMissing names vals ts \<noteq> Panic"
  by (induction ts) (auto split: option.splits)

text \<open>A resolved operand: a value, or the one error that evaluation may report.\<close>

definition sound :: "(expr_error, 'a) res \<Rightarrow> bool" where
  "sound q \<longleftrightarrow> (\<exists>v. q = Ok v) \<or> q = Err SizeUnsupported"

lemma sound_simps [simp]: "sound (Ok v)" "sound (Err SizeUnsupported)" "\<not> sound Panic"
  by (simp_all add: sound_def)

lemma sound_andThen: "sound q \<Longrightarrow> (\<And>x. q = Ok x \<Longrightarrow> sound (f x)) \<Longrightarrow> sound (andThen q f)"
  by (cases q) (auto simp: sound_def)

lemma sound_mapOk: "sound q \<Longrightarrow> sound (mapOk f q)"
  by (cases q) (auto simp: sound_def)

lemma sound_mapRes: "(\<And>x. x \<in> set xs \<Longrightarrow> sound (f x)) \<Longrightarrow> sound (mapRes f xs)"
  by (induction xs) (auto intro!: sound_andThen)

lemma resolveSegName_sound:
  "refs_defined names vals T \<Longrightarrow> seg_ok T s \<Longrightarrow> \<exists>a. resolveSegName names (attr s) = Ok a"
  using refs_defined_name[of names vals T "attr s"] by (auto simp: resolveSegName_def lookupName_def seg_ok_def)

lemma walkSegs_sound:
  "refs_defined names vals T \<Longrightarrow> list_all (seg_ok T) segs \<Longrightarrow> typed v \<Longrightarrow> \<exists>w. walkSegs names segs v = Ok w"
proof (induction segs arbitrary: v)
  case (Cons s segs)
  obtain m where v: "v = GMap m" using typed_map Cons.prems(3) by blast
  obtain a where a: "resolveSegName names (attr s) = Ok a"
    using resolveSegName_sound[OF Cons.prems(1), of s] Cons.prems(2) by auto
  have IH: "\<exists>w. walkSegs names segs u = Ok w" if "typed u" for u using Cons that by simp
  show ?case
  proof (cases "attr s = ''''")
    case True
    have "u = GSlice l \<Longrightarrow> \<forall>y\<in>set l. typed y \<Longrightarrow> \<not> index s \<ge> int (length l) \<Longrightarrow> \<not> index s < 0 \<Longrightarrow> \<exists>w. walkSegs names segs (l ! nat (index s)) = Ok w" for u l
      using IH by (simp add: nat_less_iff)
    moreover have "\<not> index s < 0" using Cons.prems(2) by (simp add: seg_ok_def)
    ultimately show ?thesis using typed_L[of m] Cons.prems(3) True
      by (cases "map_of m ''L''") (auto simp: v must_map_def must_slice_def)
  next
    case False
    have "\<forall>p\<in>set mm. typed (snd p) \<Longrightarrow> map_of mm a = Some u \<Longrightarrow> \<exists>w. walkSegs names segs u = Ok w" for mm u
      using IH map_of_SomeD[of mm a u] by force
    with False typed_M[of m] Cons.prems(3) a show ?thesis
      by (cases "map_of m ''M''") (auto simp: v must_map_def split: option.split)
  qed
qed simp

lemma item_typed_lookup: "item_typed item \<Longrightarrow> map_of item a = Some v \<Longrightarrow> typed v"
  using map_of_SomeD[of item a v] by (force simp: item_typed_def)

lemma resolve_sound:
  "refs_defined names vals T \<Longrightarrow> item_typed item \<Longrightarrow> operand_ok T p \<Longrightarrow> sound (resolve p item names vals)"
proof (induction p)
  case (nameRefOperand r)
  then show ?case using refs_defined_name[of names vals T r] by (auto simp: lookupName_def)
next
  case (sizeOperand p)
  then show ?case by (auto intro!: sound_andThen split: option.split)
next
  case (pathOperand segs)
  then obtain s rest where s: "segs = s # rest" "seg_ok T s" "list_all (seg_ok T) rest" by (cases segs) auto
  obtain a where "resolveSegName names (attr s) = Ok a" using resolveSegName_sound pathOperand(1) s(2) by blast
  with s walkSegs_sound[OF pathOperand(1) s(3)] item_typed_lookup[OF pathOperand(2), of a] show ?case
    by (fastforce split: option.split)
qed simp_all

lemma cmpOp_sound: "op \<in> {''='', ''<>'', ''<'', ''<='', ''>'', ''>=''} \<Longrightarrow> sound (cmpOp op a b)"
  by (auto simp: cmpOp_def split: sum.split)

lemma eval_sound:
  "refs_defined names vals T \<Longrightarrow> item_typed item \<Longrightarrow> cond_ok T c \<Longrightarrow> sound (eval c item names vals)"
proof (induction c)
  case (cmpCondNode l op r)
  then show ?case using resolve_sound[of names vals T item] cmpOp_sound[of op] by (auto intro!: sound_andThen)
qed (auto intro!: sound_andThen sound_mapOk sound_mapRes simp: list_all_iff dest: resolve_sound)

end
