(* ===== verification/Ddb_Expr_Print.thy ===== *)
theory Ddb_Expr_Print
  imports Ddb_Expr_Theorems
begin

text \<open>
  A printer for conditions, and that the parser reads back what it writes: the parser gives \<open>OR\<close> the
  lowest precedence, then \<open>AND\<close>, then \<open>NOT\<close>, associates \<open>OR\<close> and \<open>AND\<close> to the left, and parentheses
  override this. The printer is the reference; the tokens it writes are rendered as text with a
  space after each.
\<close>

section \<open>The printer\<close>

definition name_tok :: "string \<Rightarrow> exprToken" where
  "name_tok a = tok (if has_prefix ''#'' a then tokNameRef else tokIdent) a"

definition kw :: "string \<Rightarrow> exprToken" where
  "kw w = tok tokIdent w"

definition print_seg :: "projSegment \<Rightarrow> exprToken list" where
  "print_seg s = (if attr s = '''' then [tok tokListIdx (strconv_Itoa (index s))] else [tok tokDot ''.'', name_tok (attr s)])"

fun print_operand :: "exprOperand \<Rightarrow> exprToken list" where
  "print_operand (nameRefOperand r) = [name_tok r]"
| "print_operand (plainOperand a) = [name_tok a]"
| "print_operand (valRefOperand r) = [tok tokValRef r]"
| "print_operand (sizeOperand p) = [kw ''size'', tok tokLParen ''(''] @ print_operand p @ [tok tokRParen '')'']"
| "print_operand (pathOperand segs) = (case segs of [] \<Rightarrow> [] | s # r \<Rightarrow> name_tok (attr s) # concat (map print_seg r))"

definition op_tok :: "string \<Rightarrow> exprToken" where
  "op_tok op = tok (if op = ''='' then tokEQ else if op = ''<>'' then tokNEQ else if op = ''<'' then tokLT
     else if op = ''<='' then tokLTE else if op = ''>'' then tokGT else tokGTE) op"

definition print_call :: "string \<Rightarrow> exprToken list list \<Rightarrow> exprToken list" where
  "print_call f args = [kw f, tok tokLParen ''(''] @ hd args
     @ concat (map (\<lambda>a. tok tokComma '','' # a) (tl args)) @ [tok tokRParen '')'']"

definition parens :: "exprToken list \<Rightarrow> exprToken list" where
  "parens ts = tok tokLParen ''('' # ts @ [tok tokRParen '')'']"

text \<open>The level is the precedence that the context allows: 0 for \<open>OR\<close>, 1 for \<open>AND\<close>, 2 for \<open>NOT\<close>, 3 otherwise.\<close>

fun print_cond :: "nat \<Rightarrow> condNode \<Rightarrow> exprToken list" where
  "print_cond n (orCondNode a b) =
     (if n = 0 then print_cond 0 a @ [kw ''OR''] @ print_cond 1 b
      else parens (print_cond 0 a @ [kw ''OR''] @ print_cond 1 b))"
| "print_cond n (andCondNode a b) =
     (if n \<le> 1 then print_cond 1 a @ [kw ''AND''] @ print_cond 2 b
      else parens (print_cond 1 a @ [kw ''AND''] @ print_cond 2 b))"
| "print_cond n (notCondNode a) =
     (if n \<le> 2 then kw ''NOT'' # print_cond 3 a else parens (kw ''NOT'' # print_cond 3 a))"
| "print_cond n (cmpCondNode l op r) = print_operand l @ [op_tok op] @ print_operand r"
| "print_cond n (attrExistsCondNode p negate) =
     print_call (if negate then ''attribute_not_exists'' else ''attribute_exists'') [print_operand p]"
| "print_cond n (beginsWithCondNode p q) = print_call ''begins_with'' [print_operand p, print_operand q]"
| "print_cond n (containsCondNode p q) = print_call ''contains'' [print_operand p, print_operand q]"
| "print_cond n (betweenCondNode a lo hi) =
     print_operand a @ [kw ''BETWEEN''] @ print_operand lo @ [kw ''AND''] @ print_operand hi"
| "print_cond n (inCondNode a xs) = print_operand a @ print_call ''IN'' (map print_operand xs)"

section \<open>What can be printed\<close>

text \<open>A name that is not read as a keyword where a condition starts.\<close>

definition head_ok :: "string \<Rightarrow> bool" where
  "head_ok a \<longleftrightarrow> strings_ToUpper a \<notin> {''SIZE'', ''NOT''}
     \<and> strings_ToLower a \<notin> {''attribute_exists'', ''attribute_not_exists'', ''begins_with'', ''contains''}"

definition seg_plain :: "projSegment \<Rightarrow> bool" where
  "seg_plain s \<longleftrightarrow> (if attr s = '''' then 0 \<le> index s \<and> index s < 2 ^ 63 else index s = 0)"

fun path_ok :: "exprOperand \<Rightarrow> bool" where
  "path_ok (nameRefOperand r) = has_prefix ''#'' r"
| "path_ok (plainOperand a) = (\<not> has_prefix ''#'' a \<and> head_ok a)"
| "path_ok (pathOperand segs) =
     (case segs of
        [] \<Rightarrow> False
      | s # r \<Rightarrow> r \<noteq> [] \<and> length r \<le> 32 \<and> index s = 0 \<and> (has_prefix ''#'' (attr s) \<or> head_ok (attr s)) \<and> list_all seg_plain r)"
| "path_ok _ = False"

fun left_ok :: "exprOperand \<Rightarrow> bool" where
  "left_ok (sizeOperand p) = path_ok p"
| "left_ok p = path_ok p"

fun right_ok :: "exprOperand \<Rightarrow> bool" where
  "right_ok (valRefOperand r) = True"
| "right_ok p = left_ok p"

fun printable :: "condNode \<Rightarrow> bool" where
  "printable (andCondNode a b) = (printable a \<and> printable b)"
| "printable (orCondNode a b) = (printable a \<and> printable b)"
| "printable (notCondNode a) = printable a"
| "printable (cmpCondNode l op r) = (left_ok l \<and> op \<in> {''='', ''<>'', ''<'', ''<='', ''>'', ''>=''} \<and> right_ok r)"
| "printable (attrExistsCondNode p negate) = path_ok p"
| "printable (beginsWithCondNode p q) = (path_ok p \<and> right_ok q)"
| "printable (containsCondNode p q) = (path_ok p \<and> right_ok q)"
| "printable (betweenCondNode a lo hi) = (left_ok a \<and> right_ok lo \<and> right_ok hi)"
| "printable (inCondNode a xs) = (left_ok a \<and> xs \<noteq> [] \<and> length xs \<le> 100 \<and> list_all right_ok xs)"

section \<open>Reading operands back\<close>

text \<open>What may follow an operand: a token that does not continue a path.\<close>

definition stop :: "exprToken list \<Rightarrow> bool" where
  "stop r \<longleftrightarrow> (case r of [] \<Rightarrow> False | t # _ \<Rightarrow> kind t \<noteq> tokDot \<and> kind t \<noteq> tokListIdx)"

lemma stop_simps [simp]:
  "stop (t # r) \<longleftrightarrow> kind t \<noteq> tokDot \<and> kind t \<noteq> tokListIdx" "\<not> stop []"
  by (simp_all add: stop_def)

lemma tok_kinds [simp]:
  "kind (kw w) = tokIdent" "val (kw w) = w" "val (name_tok a) = a"
  "kind (name_tok a) = tokNameRef \<or> kind (name_tok a) = tokIdent"
  "kind (op_tok op) \<notin> {tokDot, tokListIdx, tokIdent, tokEOF}"
  by (simp_all add: kw_def name_tok_def op_tok_def)

lemma atoi_Itoa: "0 \<le> i \<Longrightarrow> i < 2 ^ 63 \<Longrightarrow> atoi_digits (strconv_Itoa i) = i"
  using strconv_Atoi_Itoa[of "nat i"] by (simp add: atoi_digits_def nat_less_iff)

lemma pathLoop_print:
  "list_all seg_plain sgs \<Longrightarrow> stop r \<Longrightarrow> pathLoop segs (concat (map print_seg sgs) @ r) = Ok (segs @ sgs, r)"
proof (induction sgs arbitrary: segs)
  case Nil
  then show ?case by (cases r) auto
next
  case (Cons s sgs)
  show ?case
  proof (cases "attr s = ''''")
    case True
    then have "seg_index (atoi_digits (strconv_Itoa (index s))) = s"
      using Cons.prems(1) by (simp add: seg_plain_def seg_index_def atoi_Itoa)
    with True Cons show ?thesis by (simp add: print_seg_def)
  next
    case False
    then have "seg_attr (attr s) = s" using Cons.prems(1) by (simp add: seg_plain_def seg_attr_def)
    moreover have "kind (name_tok (attr s)) \<noteq> tokNameRef \<longrightarrow> kind (name_tok (attr s)) = tokIdent" by (simp add: name_tok_def)
    ultimately show ?thesis using False Cons by (auto simp: print_seg_def)
  qed
qed

lemma parseAttrPath_print:
  assumes "path_ok p" and "stop r"
  shows "parseAttrPath (print_operand p @ r) = Ok (p, r)"
proof -
  have name: "kind (name_tok a) = tokNameRef \<or> kind (name_tok a) = tokIdent" for a by (simp add: name_tok_def)
  obtain s sgs where p: "print_operand p = name_tok (attr s) # concat (map print_seg sgs)" "list_all seg_plain sgs"
    "length sgs \<le> 32" "operandOf (s # sgs) = p" "seg_attr (attr s) = s"
  proof (cases p)
    case (nameRefOperand x)
    with assms(1) that[of "seg_attr x" "[]"] show ?thesis by (simp add: operandOf_def seg_attr_def)
  next
    case (plainOperand x)
    with assms(1) that[of "seg_attr x" "[]"] show ?thesis by (simp add: operandOf_def seg_attr_def)
  next
    case (pathOperand segs)
    with assms(1) that show ?thesis by (cases segs) (auto simp: operandOf_def seg_attr_def)
  qed (use assms(1) in auto)
  have "pathLoop [seg_attr (attr s)] (concat (map print_seg sgs) @ r) = Ok ([s] @ sgs, r)"
    using pathLoop_print[OF p(2) assms(2), of "[s]"] p(5) by simp
  then show ?thesis using p name[of "attr s"] by (auto simp: parseAttrPath_def consume_def)
qed

lemma path_head:
  assumes "path_ok p"
  shows "\<exists>t u. print_operand p = t # u \<and> \<not> is_kw ''SIZE'' t \<and> \<not> is_kw ''NOT'' t \<and> funcOf t = parseComparison
    \<and> (kind t = tokNameRef \<or> kind t = tokIdent)"
proof -
  have "\<not> is_kw ''SIZE'' (name_tok a) \<and> \<not> is_kw ''NOT'' (name_tok a) \<and> funcOf (name_tok a) = parseComparison
    \<and> (kind (name_tok a) = tokNameRef \<or> kind (name_tok a) = tokIdent)" if "has_prefix ''#'' a \<or> head_ok a" for a
    using that by (auto simp: name_tok_def is_kw_def funcOf_def head_ok_def)
  with assms show ?thesis by (cases p) (auto split: list.splits)
qed

lemma is_kw_eval [simp]:
  "is_kw ''SIZE'' (kw ''size'')" "is_kw ''OR'' (kw ''OR'')" "is_kw ''AND'' (kw ''AND'')" "is_kw ''NOT'' (kw ''NOT'')"
  "is_kw ''BETWEEN'' (kw ''BETWEEN'')" "is_kw ''IN'' (kw ''IN'')" "\<not> is_kw ''BETWEEN'' (kw ''IN'')"
  "\<not> is_kw ''NOT'' (kw ''size'')" "\<not> is_kw ''OR'' (kw ''AND'')" "\<not> is_kw ''AND'' (kw ''OR'')"
  by code_simp+

lemma expectKind_tok [simp]: "expectKind k (tok k v # r) = Ok r"
  by (simp add: expectKind_Cons)

lemma consume_Cons [simp]: "consume (t # r) = Ok (t, r)" and peek_Cons [simp]: "peek (t # r) = Ok t"
  by (simp_all add: consume_def peek_def)

lemma isKeyword_Cons [simp]: "isKeyword w (t # r) = Ok (is_kw w t)"
  by (simp add: isKeyword_def)

lemma parseSizeFunc_print: "path_ok p \<Longrightarrow> parseSizeFunc (print_operand (sizeOperand p) @ r) = Ok (sizeOperand p, r)"
  using parseAttrPath_print[of p "tok tokRParen '')'' # r"] by (simp add: parseSizeFunc_def)

lemma parseLeft_print:
  assumes "left_ok p" and "stop r"
  shows "\<exists>t u. print_operand p = t # u \<and> \<not> is_kw ''NOT'' t \<and> kind t \<noteq> tokLParen \<and> funcOf t = parseComparison
    \<and> (if is_kw ''SIZE'' t then parseSizeFunc (print_operand p @ r) else parseAttrPath (print_operand p @ r)) = Ok (p, r)"
proof (cases "path_ok p")
  case True
  then obtain t u where t: "print_operand p = t # u" "\<not> is_kw ''SIZE'' t" "\<not> is_kw ''NOT'' t" "funcOf t = parseComparison"
    "kind t = tokNameRef \<or> kind t = tokIdent" using path_head by blast
  moreover have "kind t \<noteq> tokLParen" using t(5) by auto
  ultimately show ?thesis using parseAttrPath_print[OF True assms(2)] by fastforce
next
  case False
  then obtain q where q: "p = sizeOperand q" "path_ok q" using assms(1) by (cases p) auto
  have "funcOf (kw ''size'') = parseComparison" by (simp add: funcOf_def kw_def strings_ToLower_def lower_def)
  with q parseSizeFunc_print[of q r] show ?thesis by simp
qed

lemma parseOperand_print:
  assumes "right_ok p" and "stop r"
  shows "parseOperand (print_operand p @ r) = Ok (p, r)"
proof (cases "path_ok p")
  case True
  then obtain t u where t: "print_operand p = t # u" "\<not> is_kw ''SIZE'' t"
    "kind t = tokNameRef \<or> kind t = tokIdent" using path_head by blast
  have "kind t \<noteq> tokValRef" using t(3) by auto
  with t show ?thesis using parseAttrPath_print[OF True assms(2)] by (auto simp: parseOperand_def)
next
  case False
  show ?thesis
  proof (cases p)
    case (valRefOperand x)
    then show ?thesis by (simp add: parseOperand_def is_kw_def)
  next
    case (sizeOperand q)
    with parseSizeFunc_print[of q r] assms(1) show ?thesis by (simp add: parseOperand_def)
  qed (use False assms(1) in auto)
qed

section \<open>Reading conditions back\<close>

lemma inLoop_print:
  "list_all right_ok xs \<Longrightarrow> length vs + length xs \<le> 100 \<Longrightarrow>
    inLoop vs (concat (map (\<lambda>x. tok tokComma '','' # print_operand x) xs) @ tok tokRParen '')'' # r) = Ok (vs @ xs, tok tokRParen '')'' # r)"
proof (induction xs arbitrary: vs)
  case Nil
  then show ?case by (simp add: inLoop.simps)
next
  case (Cons x xs)
  let ?rest = "concat (map (\<lambda>x. tok tokComma '','' # print_operand x) xs) @ tok tokRParen '')'' # r"
  have "stop ?rest" by (cases xs) auto
  then have "parseOperand (print_operand x @ ?rest) = Ok (x, ?rest)" using Cons.prems(1) by (intro parseOperand_print) auto
  with Cons show ?case by (simp add: inLoop.simps[of vs "tok tokComma '','' # _"])
qed

lemma parseIn_print:
  assumes "xs \<noteq> []" and "length xs \<le> 100" and "list_all right_ok xs"
  shows "parseIn left (tl (print_call ''IN'' (map print_operand xs)) @ r) = Ok (inCondNode left xs, r)"
proof -
  obtain x ys where xs: "xs = x # ys" using assms(1) by (cases xs) auto
  let ?rest = "concat (map (\<lambda>x. tok tokComma '','' # print_operand x) ys) @ tok tokRParen '')'' # r"
  have "stop ?rest" by (cases ys) auto
  then have "parseOperand (print_operand x @ ?rest) = Ok (x, ?rest)" using assms(3) xs by (intro parseOperand_print) auto
  with inLoop_print[of ys "[x]" r] assms xs show ?thesis by (simp add: parseIn_def print_call_def comp_def)
qed

lemma op_tok_cases:
  assumes "op \<in> {''='', ''<>'', ''<'', ''<='', ''>'', ''>=''}"
  shows "cmpOpOf (kind (op_tok op)) = Some op \<and> \<not> is_kw w (op_tok op)"
  using assms by (auto simp: op_tok_def cmpOpOf_def is_kw_def)

lemma parsePair_print:
  "path_ok p \<Longrightarrow> right_ok q \<Longrightarrow> parsePairFunc mk (print_call f [print_operand p, print_operand q] @ r) = Ok (mk p q, r)"
  using parseAttrPath_print[of p "tok tokComma '','' # print_operand q @ tok tokRParen '')'' # r"]
    parseOperand_print[of q "tok tokRParen '')'' # r"]
  by (simp add: parsePairFunc_def print_call_def)

lemma parseAttrExists_print:
  "path_ok p \<Longrightarrow> parseAttrExistsFunc b (print_call f [print_operand p] @ r) = Ok (attrExistsCondNode p b, r)"
  using parseAttrPath_print[of p "tok tokRParen '')'' # r"] by (simp add: parseAttrExistsFunc_def print_call_def)

text \<open>A condition that starts with an operand.\<close>

lemma parsePrimary_left:
  assumes "left_ok a" and "stop s" and "parseRelation a s = Ok (c, r)"
  shows "parsePrimary (print_operand a @ s) = Ok (c, r) \<and> \<not> is_kw ''NOT'' (hd (print_operand a @ s))"
proof -
  obtain t u where t: "print_operand a = t # u" "\<not> is_kw ''NOT'' t" "kind t \<noteq> tokLParen" "funcOf t = parseComparison"
    "(if is_kw ''SIZE'' t then parseSizeFunc (print_operand a @ s) else parseAttrPath (print_operand a @ s)) = Ok (a, s)"
    using parseLeft_print[OF assms(1,2)] by blast
  have "parseComparison (t # u @ s) = Ok (c, r)"
    using t(5) assms(3) unfolding t(1) by (cases "is_kw ''SIZE'' t") (simp_all add: parseComparison_def)
  then show ?thesis using t by (simp add: parsePrimary_Cons)
qed

fun is_leaf :: "condNode \<Rightarrow> bool" where
  "is_leaf (andCondNode _ _) = False" | "is_leaf (orCondNode _ _) = False" | "is_leaf (notCondNode _) = False" | "is_leaf _ = True"

lemma func_kw [simp]:
  "funcOf (kw ''attribute_exists'') = parseAttrExistsFunc False" "funcOf (kw ''attribute_not_exists'') = parseAttrExistsFunc True"
  "funcOf (kw ''begins_with'') = parseBeginsWithFunc" "funcOf (kw ''contains'') = parseContainsFunc"
  "\<not> is_kw ''NOT'' (kw ''attribute_exists'')" "\<not> is_kw ''NOT'' (kw ''attribute_not_exists'')"
  "\<not> is_kw ''NOT'' (kw ''begins_with'')" "\<not> is_kw ''NOT'' (kw ''contains'')"
  by (simp_all add: funcOf_def kw_def strings_ToLower_def lower_def is_kw_def strings_ToUpper_def upper_def)

lemma print_call_Cons: "print_call f args = kw f # tl (print_call f args)"
  by (simp add: print_call_def)

lemma parsePrimary_call:
  assumes "funcOf (kw f) (print_call f args @ r) = Ok (c, r)" and "\<not> is_kw ''NOT'' (kw f)"
  shows "parsePrimary (print_call f args @ r) = Ok (c, r) \<and> \<not> is_kw ''NOT'' (hd (print_call f args @ r))"
proof -
  have c: "print_call f args @ r = kw f # tl (print_call f args) @ r" by (simp add: print_call_def)
  show ?thesis using assms unfolding c by (simp add: parsePrimary_Cons)
qed

lemma parsePrimary_leaf:
  assumes "printable c" and "is_leaf c" and "stop r"
  shows "parsePrimary (print_cond n c @ r) = Ok (c, r) \<and> \<not> is_kw ''NOT'' (hd (print_cond n c @ r))"
proof (cases c)
  case (cmpCondNode a op b)
  with assms op_tok_cases[of op] parseOperand_print[of b r]
  have "parseRelation a (op_tok op # print_operand b @ r) = Ok (c, r)" by (simp add: parseRelation_def)
  then have "parsePrimary (print_operand a @ op_tok op # print_operand b @ r) = Ok (c, r)
      \<and> \<not> is_kw ''NOT'' (hd (print_operand a @ op_tok op # print_operand b @ r))"
    using assms cmpCondNode tok_kinds(5)[of op] by (intro parsePrimary_left) auto
  then show ?thesis using cmpCondNode by simp
next
  case (betweenCondNode a lo hi)
  with assms parseOperand_print[of lo "kw ''AND'' # print_operand hi @ r"] parseOperand_print[of hi r]
  have "parseRelation a (kw ''BETWEEN'' # print_operand lo @ kw ''AND'' # print_operand hi @ r) = Ok (c, r)"
    by (simp add: parseRelation_def parseBetween_def)
  then have "parsePrimary (print_operand a @ kw ''BETWEEN'' # print_operand lo @ kw ''AND'' # print_operand hi @ r) = Ok (c, r)
      \<and> \<not> is_kw ''NOT'' (hd (print_operand a @ kw ''BETWEEN'' # print_operand lo @ kw ''AND'' # print_operand hi @ r))"
    using assms betweenCondNode by (intro parsePrimary_left) auto
  then show ?thesis using betweenCondNode by simp
next
  case (inCondNode a xs)
  let ?s = "tl (print_call ''IN'' (map print_operand xs)) @ r"
  have "parseRelation a (kw ''IN'' # ?s) = Ok (c, r)"
    using inCondNode assms parseIn_print[of xs a r] by (simp add: parseRelation_def)
  then have "parsePrimary (print_operand a @ kw ''IN'' # ?s) = Ok (c, r) \<and> \<not> is_kw ''NOT'' (hd (print_operand a @ kw ''IN'' # ?s))"
    using assms inCondNode by (intro parsePrimary_left) auto
  then show ?thesis using inCondNode print_call_Cons[of "''IN''" "map print_operand xs"] by (metis append.assoc append_Cons print_cond.simps(9))
next
  case (attrExistsCondNode p b)
  let ?f = "if b then ''attribute_not_exists'' else ''attribute_exists''"
  have "funcOf (kw ?f) (print_call ?f [print_operand p] @ r) = Ok (c, r)" "\<not> is_kw ''NOT'' (kw ?f)"
    using attrExistsCondNode assms(1) parseAttrExists_print[of p b ?f r] by auto
  from parsePrimary_call[OF this] show ?thesis unfolding attrExistsCondNode print_cond.simps .
next
  case (beginsWithCondNode p q)
  with parsePrimary_call[of "''begins_with''" "[print_operand p, print_operand q]" r c] assms(1)
    parsePair_print[of p q beginsWithCondNode "''begins_with''" r]
  show ?thesis by (simp add: parseBeginsWithFunc_def)
next
  case (containsCondNode p q)
  with parsePrimary_call[of "''contains''" "[print_operand p, print_operand q]" r c] assms(1)
    parsePair_print[of p q containsCondNode "''contains''" r]
  show ?thesis by (simp add: parseContainsFunc_def)
qed (use assms(2) in auto)

text \<open>The parsing functions on a printed condition, each at the level of precedence that it reads.\<close>

definition reads_back :: "condNode \<Rightarrow> bool" where
  "reads_back c \<longleftrightarrow> (\<forall>r. stop r \<longrightarrow>
      parsePrimary (print_cond 3 c @ r) = Ok (c, r) \<and> parseNot (print_cond 2 c @ r) = Ok (c, r)
    \<and> parseAnd (print_cond 1 c @ r) = andLoop c r
    \<and> (\<not> is_kw ''AND'' (hd r) \<longrightarrow> parseOr (print_cond 0 c @ r) = orLoop c r))"

lemma parse_level:
  assumes "stop r"
  shows "ts \<noteq> [] \<Longrightarrow> parseNot (ts @ r) = Ok (c, r) \<Longrightarrow> parseAnd (ts @ r) = andLoop c r"
    and "ts \<noteq> [] \<Longrightarrow> \<not> is_kw ''AND'' (hd r) \<Longrightarrow> parseAnd (ts @ r) = andLoop c r \<Longrightarrow> parseOr (ts @ r) = orLoop c r"
    and "parseOr (ts @ [tok tokRParen '')''] @ r) = orLoop c ([tok tokRParen '')''] @ r) \<Longrightarrow> parsePrimary (parens ts @ r) = Ok (c, r)"
    and "\<not> is_kw ''NOT'' (hd (ts @ r)) \<Longrightarrow> parsePrimary (ts @ r) = Ok (c, r) \<Longrightarrow> parseNot (ts @ r) = Ok (c, r)"
proof -
  obtain t u where r: "r = t # u" using assms by (cases r) auto
  show "ts \<noteq> [] \<Longrightarrow> parseNot (ts @ r) = Ok (c, r) \<Longrightarrow> parseAnd (ts @ r) = andLoop c r"
    by (simp add: parseAnd.simps[of "ts @ r"])
  show "ts \<noteq> [] \<Longrightarrow> \<not> is_kw ''AND'' (hd r) \<Longrightarrow> parseAnd (ts @ r) = andLoop c r \<Longrightarrow> parseOr (ts @ r) = orLoop c r"
    unfolding r by (simp add: parseOr.simps[of "ts @ t # u"] andLoop_Cons)
  show "parseOr (ts @ [tok tokRParen '')''] @ r) = orLoop c ([tok tokRParen '')''] @ r) \<Longrightarrow> parsePrimary (parens ts @ r) = Ok (c, r)"
    by (simp add: parens_def parsePrimary_Cons orLoop_Cons is_kw_def)
  show "\<not> is_kw ''NOT'' (hd (ts @ r)) \<Longrightarrow> parsePrimary (ts @ r) = Ok (c, r) \<Longrightarrow> parseNot (ts @ r) = Ok (c, r)"
    using r by (cases ts) (simp_all add: parseNot_Cons)
qed

lemma paren_stop [simp]: "stop (tok tokRParen '')'' # r)" "\<not> is_kw w (tok tokRParen '')'')" "\<not> is_kw w (tok tokLParen ''('')"
  by (simp_all add: is_kw_def)

lemma parens_hd [simp]: "\<not> is_kw w (hd (parens ts))" "parens ts \<noteq> []"
  by (simp_all add: parens_def is_kw_def)

lemma print_operand_not_Nil: "left_ok p \<Longrightarrow> print_operand p \<noteq> []"
  using parseLeft_print[of p "[tok tokEOF '''']"] by auto

lemma print_not_Nil: "printable c \<Longrightarrow> print_cond n c \<noteq> []"
  by (cases c) (auto simp: print_call_def print_operand_not_Nil)

lemma leaf_reads_back:
  assumes "printable c" and "is_leaf c"
  shows "reads_back c"
  unfolding reads_back_def
proof (intro allI impI)
  fix r assume r: "stop r"
  have A: "parsePrimary (print_cond n c @ r) = Ok (c, r)" "\<not> is_kw ''NOT'' (hd (print_cond n c @ r))" for n
    using parsePrimary_leaf[OF assms r, of n] by auto
  have B: "parseNot (print_cond n c @ r) = Ok (c, r)" for n using A[of n] by (intro parse_level(4)[OF r])
  have C: "parseAnd (print_cond n c @ r) = andLoop c r" for n
    using B[of n] print_not_Nil[OF assms(1)] by (intro parse_level(1)[OF r])
  show "parsePrimary (print_cond 3 c @ r) = Ok (c, r) \<and> parseNot (print_cond 2 c @ r) = Ok (c, r) \<and>
      parseAnd (print_cond 1 c @ r) = andLoop c r \<and> (\<not> is_kw ''AND'' (hd r) \<longrightarrow> parseOr (print_cond 0 c @ r) = orLoop c r)"
    using A B C parse_level(2)[OF r, of "print_cond 0 c" c] print_not_Nil[OF assms(1)] by simp
qed

lemma printed_reads_back: "printable c \<Longrightarrow> reads_back c"
proof (induction c)
  case (orCondNode a b)
  then have ab: "reads_back a" "reads_back b" "printable a" "printable b" by auto
  show ?case unfolding reads_back_def
  proof (intro allI impI)
    fix r assume r: "stop r"
    let ?o = "print_cond 0 a @ [kw ''OR''] @ print_cond 1 b"
    have D: "parseOr (?o @ s) = orLoop (orCondNode a b) s" if s: "stop s" "\<not> is_kw ''AND'' (hd s)" for s
    proof -
      obtain t u where tu: "s = t # u" using s by (cases s) auto
      have "parseOr (?o @ s) = orLoop a (kw ''OR'' # print_cond 1 b @ s)" using ab(1) by (simp add: reads_back_def)
      also have "\<dots> = orLoop (orCondNode a b) s"
        using ab(2) s tu print_not_Nil[OF ab(4), of 1] by (simp add: reads_back_def orLoop_Cons andLoop_Cons)
      finally show ?thesis .
    qed
    have A: "parsePrimary (parens ?o @ r) = Ok (orCondNode a b, r)" using D by (intro parse_level(3)[OF r]) simp
    have B: "parseNot (parens ?o @ r) = Ok (orCondNode a b, r)" using A by (intro parse_level(4)[OF r]) simp_all
    have C: "parseAnd (parens ?o @ r) = andLoop (orCondNode a b) r" using B by (intro parse_level(1)[OF r]) simp_all
    show "parsePrimary (print_cond 3 (orCondNode a b) @ r) = Ok (orCondNode a b, r) \<and>
         parseNot (print_cond 2 (orCondNode a b) @ r) = Ok (orCondNode a b, r) \<and>
         parseAnd (print_cond 1 (orCondNode a b) @ r) = andLoop (orCondNode a b) r \<and>
         (\<not> is_kw ''AND'' (hd r) \<longrightarrow> parseOr (print_cond 0 (orCondNode a b) @ r) = orLoop (orCondNode a b) r)"
      using A B C D[OF r] by simp
  qed
next
  case (andCondNode a b)
  then have ab: "reads_back a" "reads_back b" "printable a" "printable b" by auto
  show ?case unfolding reads_back_def
  proof (intro allI impI)
    fix r assume r: "stop r"
    let ?o = "print_cond 1 a @ [kw ''AND''] @ print_cond 2 b"
    have C: "parseAnd (?o @ s) = andLoop (andCondNode a b) s" if s: "stop s" for s
    proof -
      have "parseAnd (?o @ s) = andLoop a (kw ''AND'' # print_cond 2 b @ s)" using ab(1) by (simp add: reads_back_def)
      also have "\<dots> = andLoop (andCondNode a b) s"
        using ab(2) s print_not_Nil[OF ab(4), of 2] by (simp add: reads_back_def andLoop_Cons)
      finally show ?thesis .
    qed
    have D: "parseOr (?o @ s) = orLoop (andCondNode a b) s" if "stop s" "\<not> is_kw ''AND'' (hd s)" for s
      using C[OF that(1)] that(2) by (intro parse_level(2)[OF that(1)]) simp_all
    have A: "parsePrimary (parens ?o @ r) = Ok (andCondNode a b, r)" using D by (intro parse_level(3)[OF r]) simp
    have B: "parseNot (parens ?o @ r) = Ok (andCondNode a b, r)" using A by (intro parse_level(4)[OF r]) simp_all
    show "parsePrimary (print_cond 3 (andCondNode a b) @ r) = Ok (andCondNode a b, r) \<and>
         parseNot (print_cond 2 (andCondNode a b) @ r) = Ok (andCondNode a b, r) \<and>
         parseAnd (print_cond 1 (andCondNode a b) @ r) = andLoop (andCondNode a b) r \<and>
         (\<not> is_kw ''AND'' (hd r) \<longrightarrow> parseOr (print_cond 0 (andCondNode a b) @ r) = orLoop (andCondNode a b) r)"
      using A B C[OF r] D[OF r] by simp
  qed
next
  case (notCondNode a)
  then have a: "reads_back a" "printable a" by auto
  show ?case unfolding reads_back_def
  proof (intro allI impI)
    fix r assume r: "stop r"
    let ?o = "kw ''NOT'' # print_cond 3 a"
    have B: "parseNot (?o @ s) = Ok (notCondNode a, s)" if "stop s" for s
      using a that by (simp add: reads_back_def parseNot_Cons)
    have C: "parseAnd (?o @ s) = andLoop (notCondNode a) s" if "stop s" for s
      using B[OF that] by (intro parse_level(1)[OF that]) simp_all
    have D: "parseOr (?o @ s) = orLoop (notCondNode a) s" if "stop s" "\<not> is_kw ''AND'' (hd s)" for s
      using C[OF that(1)] that(2) by (intro parse_level(2)[OF that(1)]) simp_all
    have A: "parsePrimary (parens ?o @ r) = Ok (notCondNode a, r)" using D by (intro parse_level(3)[OF r]) simp
    show "parsePrimary (print_cond 3 (notCondNode a) @ r) = Ok (notCondNode a, r) \<and>
         parseNot (print_cond 2 (notCondNode a) @ r) = Ok (notCondNode a, r) \<and>
         parseAnd (print_cond 1 (notCondNode a) @ r) = andLoop (notCondNode a) r \<and>
         (\<not> is_kw ''AND'' (hd r) \<longrightarrow> parseOr (print_cond 0 (notCondNode a) @ r) = orLoop (notCondNode a) r)"
      using A B[OF r] C[OF r] D[OF r] by simp
  qed
qed (use leaf_reads_back in force)+

section \<open>Text\<close>

definition token_text :: "exprToken \<Rightarrow> string" where
  "token_text t = (if kind t = tokListIdx then ''['' @ val t @ '']'' else val t)"

definition render :: "exprToken list \<Rightarrow> string" where
  "render ts = concat (map (\<lambda>t. token_text t @ '' '') ts)"

definition word :: "string \<Rightarrow> bool" where
  "word w \<longleftrightarrow> w \<noteq> [] \<and> list_all isExprWord w"

text \<open>The tokens that have a text.\<close>

definition lex_ok :: "exprToken \<Rightarrow> bool" where
  "lex_ok t =
     (case kind t of
        tokIdent \<Rightarrow> word (val t) \<and> isExprLetter (hd (val t))
      | tokNameRef \<Rightarrow> has_prefix ''#'' (val t) \<and> word (tl (val t))
      | tokValRef \<Rightarrow> has_prefix '':'' (val t) \<and> word (tl (val t))
      | tokListIdx \<Rightarrow> val t \<noteq> [] \<and> list_all isExprDigit (val t)
      | tokLParen \<Rightarrow> val t = ''('' | tokRParen \<Rightarrow> val t = '')'' | tokComma \<Rightarrow> val t = '',''
      | tokEQ \<Rightarrow> val t = ''='' | tokNEQ \<Rightarrow> val t = ''<>'' | tokLT \<Rightarrow> val t = ''<'' | tokLTE \<Rightarrow> val t = ''<=''
      | tokGT \<Rightarrow> val t = ''>'' | tokGTE \<Rightarrow> val t = ''>='' | tokDot \<Rightarrow> val t = ''.'' | tokEOF \<Rightarrow> False)"

lemma span_space:
  assumes "list_all P w" and "\<not> P c"
  shows "takeWhile P (w @ c # s) = w" and "drop (length w) (w @ c # s) = c # s"
proof -
  show "takeWhile P (w @ c # s) = w" using assms by (induction w) auto
qed simp

lemma not_word [simp]: "\<not> isExprWord (CHR '' '')" "\<not> isExprDigit (CHR '']'')"
  by (simp_all add: isExprWord_def isExprLetter_def isExprDigit_def is_digit_def)

lemma letter_not_special:
  "isExprLetter c \<Longrightarrow> c \<notin> set '' (),=<>#:.['' \<and> c \<noteq> CHR 0x09 \<and> c \<noteq> CHR 0x0A \<and> c \<noteq> CHR 0x0D"
  by (auto simp: isExprLetter_def)

lemma tokenize_space: "tokenize_at i (CHR '' '' # s) = tokenize_at (i + 1) s"
  by (simp add: tokenize_at.simps(2))

lemma tokenize_token:
  assumes "lex_ok t"
  shows "tokenize_at i (token_text t @ '' '' @ s) = mapOk ((#) t) (tokenize_at (i + length (token_text t) + 1) s)"
proof -
  note tk = tokenize_at.simps(2) tokenize_space token_text_def
  obtain k v where t: "t = tok k v" by (cases t) auto
  show ?thesis
  proof (cases k)
    case tokIdent
    then obtain c w where v: "v = c # w" "isExprLetter c" "list_all isExprWord w"
      using assms t by (cases v) (auto simp: lex_ok_def word_def)
    then show ?thesis using letter_not_special[OF v(2)] span_space[OF v(3), of "CHR '' ''" s]
      by (simp add: t tokIdent tk)
  next
    case tokNameRef
    then obtain w where v: "v = CHR ''#'' # w" "w \<noteq> []" "list_all isExprWord w"
      using assms t by (cases v) (auto simp: lex_ok_def word_def has_prefix_def)
    then show ?thesis using span_space[OF v(3), of "CHR '' ''" s] by (simp add: t tokNameRef tk)
  next
    case tokValRef
    then obtain w where v: "v = CHR '':'' # w" "w \<noteq> []" "list_all isExprWord w"
      using assms t by (cases v) (auto simp: lex_ok_def word_def has_prefix_def)
    then show ?thesis using span_space[OF v(3), of "CHR '' ''" s] by (simp add: t tokValRef tk)
  next
    case tokListIdx
    then have v: "v \<noteq> []" "list_all isExprDigit v" using assms t by (auto simp: lex_ok_def)
    then show ?thesis using span_space[OF v(2), of "CHR '']''" "'' '' @ s"] by (simp add: t tokListIdx tk has_prefix_def)
  qed (use assms in \<open>simp_all add: t lex_ok_def tk has_prefix_def\<close>)
qed

lemma tokenize_render: "list_all lex_ok ts \<Longrightarrow> tokenize_at i (render ts) = Ok (ts @ [tok tokEOF ''''])"
proof (induction ts arbitrary: i)
  case (Cons t ts)
  then show ?case using tokenize_token[of t i "render ts"] by (simp add: render_def)
qed (simp add: render_def)

lemma parse_render:
  assumes "printable c" and "list_all lex_ok (print_cond 0 c)"
  shows "parseFilterExpr (render (print_cond 0 c)) = Ok c"
proof -
  have "tokenizeExpr (render (print_cond 0 c)) = Ok (print_cond 0 c @ [tok tokEOF ''''])"
    using tokenize_render[OF assms(2)] by (simp add: tokenizeExpr_def)
  moreover have "parseOr (print_cond 0 c @ [tok tokEOF '''']) = Ok (c, [tok tokEOF ''''])"
    using printed_reads_back[OF assms(1)] by (simp add: reads_back_def orLoop_Cons is_kw_def)
  ultimately show ?thesis by (simp add: parseFilterExpr_def)
qed

section \<open>Properties\<close>

text \<open>
  C13. Parsing a filter or condition expression always stops with a syntax tree or an error: the
  parser never reads past its tokens, whatever the text is.
\<close>

theorem parseFilterExpr_never_panics: "parseFilterExpr expr \<noteq> Panic"
  using parseFilterExpr_result[of expr] by (auto split: res.splits)

text \<open>
  C14. The parser reads back every condition that the printer writes, so \<open>OR\<close>, \<open>AND\<close> and \<open>NOT\<close> have the
  intended precedence, \<open>OR\<close> and \<open>AND\<close> associate to the left and parentheses override both, for
  every comparison, function, \<open>BETWEEN\<close> and \<open>IN\<close> form with document paths of up to 32 steps.
\<close>

theorem parse_print_roundtrip:
  assumes "printable c" and "list_all lex_ok (print_cond 0 c)"
  shows "parseFilterExpr (render (print_cond 0 c)) = Ok c"
  using assms by (rule parse_render)

definition demo_cond :: condNode where
  "demo_cond =
     andCondNode
       (orCondNode (cmpCondNode (plainOperand ''a'') ''='' (valRefOperand '':v''))
                   (notCondNode (attrExistsCondNode (nameRefOperand ''#n'') False)))
       (betweenCondNode (sizeOperand (pathOperand [seg_attr ''b'', seg_index 2, seg_attr ''c''])) (valRefOperand '':lo'') (valRefOperand '':hi''))"

theorem parse_print_roundtrip_witness:
  "render (print_cond 0 demo_cond)
     = ''( a = :v OR NOT attribute_exists ( #n ) ) AND size ( b [2] . c ) BETWEEN :lo AND :hi ''
   \<and> parseFilterExpr (render (print_cond 0 demo_cond)) = Ok demo_cond"
proof
  show "render (print_cond 0 demo_cond)
     = ''( a = :v OR NOT attribute_exists ( #n ) ) AND size ( b [2] . c ) BETWEEN :lo AND :hi ''" by code_simp
  have "printable demo_cond" by code_simp
  moreover have "list_all lex_ok (print_cond 0 demo_cond)" by code_simp
  ultimately show "parseFilterExpr (render (print_cond 0 demo_cond)) = Ok demo_cond" by (rule parse_print_roundtrip)
qed

text \<open>
  C15. Evaluating a parsed expression whose references are all defined, on an item whose values are
  typed values, gives a truth value or the one error that \<open>size\<close> reports for a type without a
  size: it never panics and never meets an undefined reference or an unknown operator.
\<close>

theorem evalFilterExpr_typed:
  assumes "parseFilterExpr expr = Ok node" and "validateExprRefs expr names vals = Ok ()" and "item_typed item"
  shows "(\<exists>b. evalFilterExpr expr item names vals = Ok b) \<or> evalFilterExpr expr item names vals = Err SizeUnsupported"
proof -
  obtain toks where t: "tokenizeExpr expr = Ok toks" "cond_ok (set toks) node"
    using parseFilterExpr_result[of expr] assms(1) by auto
  then have "refs_defined names vals (set toks)" using assms(2) by (simp add: validateExprRefs_def firstMissing_Ok)
  from eval_sound[OF this assms(3) t(2)] show ?thesis using assms(1,2) by (simp add: evalFilterExpr_def sound_def)
qed

definition demo_item :: gmap where
  "demo_item = [(''pk'', tS ''k''), (''m'', GMap [(''M'', GMap [(''n'', tN ''5''), (''l'', GMap [(''L'', GSlice [tS ''x''])])])])]"

theorem evalFilterExpr_typed_witness:
  "evalFilterExpr ''m.n >= :lo AND #m.l[0] = :x'' demo_item [(''#m'', ''m'')] [('':lo'', tN ''3''), ('':x'', tS ''x'')] = Ok True
   \<and> ((\<exists>b. evalFilterExpr ''m.n >= :lo AND #m.l[0] = :x'' demo_item [(''#m'', ''m'')] [('':lo'', tN ''3''), ('':x'', tS ''x'')] = Ok b)
      \<or> evalFilterExpr ''m.n >= :lo AND #m.l[0] = :x'' demo_item [(''#m'', ''m'')] [('':lo'', tN ''3''), ('':x'', tS ''x'')] = Err SizeUnsupported)"
proof
  let ?e = "''m.n >= :lo AND #m.l[0] = :x''" and ?n = "[(''#m'', ''m'')]" and ?v = "[('':lo'', tN ''3''), ('':x'', tS ''x'')]"
  show "evalFilterExpr ?e demo_item ?n ?v = Ok True" by code_simp
  obtain node where p: "parseFilterExpr ?e = Ok node"
  proof -
    have "(case parseFilterExpr ?e of Ok _ \<Rightarrow> True | _ \<Rightarrow> False)" by code_simp
    with that show ?thesis by (auto split: res.splits)
  qed
  have "validateExprRefs ?e ?n ?v = Ok ()" by code_simp
  moreover have "item_typed demo_item" by code_simp
  ultimately show "(\<exists>b. evalFilterExpr ?e demo_item ?n ?v = Ok b) \<or> evalFilterExpr ?e demo_item ?n ?v = Err SizeUnsupported"
    by (rule evalFilterExpr_typed[OF p])
qed

text \<open>
  C16. The equality of conditions is equality of values: \<open>a = b\<close> holds of two decoded values exactly
  when they are the same up to the order of the entries of their maps, at every depth.
\<close>

theorem condition_equality:
  assumes "gany_ok a" and "gany_ok b"
  shows "cmpOp ''='' a b = Ok (canon a = canon b)"
  using json_same_iff[OF assms] by (simp add: cmpOp_def)

theorem condition_equality_witness:
  "cmpOp ''='' (GMap [(''M'', GMap [(''x'', tN ''1''), (''y'', tS ''b'')])]) (GMap [(''M'', GMap [(''y'', tS ''b''), (''x'', tN ''1'')])]) = Ok True"
proof -
  have "gany_ok (GMap [(''M'', GMap [(''x'', tN ''1''), (''y'', tS ''b'')])])"
    "gany_ok (GMap [(''M'', GMap [(''y'', tS ''b''), (''x'', tN ''1'')])])" by code_simp+
  from condition_equality[OF this] show ?thesis by (rule trans) code_simp
qed

text \<open>
  C17. Numbers compare by value: two decimal integers of at most 53 bits are ordered by
  \<open>dynamoValueCmp\<close> as integers, although the code converts them to \<open>float64\<close>.
\<close>

theorem number_order_exact:
  assumes "\<bar>i\<bar> < 2 ^ 53" and "\<bar>j\<bar> < 2 ^ 53"
  shows "dynamoValueCmp (tN (strconv_Itoa i)) (tN (strconv_Itoa j)) = Inr (sgn (i - j))"
  using assms by (rule cmp_int)

theorem number_order_exact_witness:
  "dynamoValueCmp (tN ''9'') (tN ''10'') = Inr (-1) \<and> dynamoValueCmp (tN ''-3'') (tN ''-20'') = Inr 1"
proof
  have "strconv_Itoa 9 = ''9''" "strconv_Itoa 10 = ''10''" "strconv_Itoa (-3) = ''-3''" "strconv_Itoa (-20) = ''-20''"
    by code_simp+
  then show "dynamoValueCmp (tN ''9'') (tN ''10'') = Inr (-1)" "dynamoValueCmp (tN ''-3'') (tN ''-20'') = Inr 1"
    using number_order_exact[of 9 10] number_order_exact[of "-3" "-20"] by simp_all
qed

end
