(* ===== verification/Go_FS.thy ===== *)
theory Go_FS
  imports Go_Strings
begin

text \<open>
  The file system below a service's storage root, as \<open>os.Root\<close> and \<open>path/filepath\<close> present it.
  A disk holds an association list from cleaned paths to nodes, in directory order, and a fault
  predicate that says which system call fails on which path during a request; both are
  arbitrary in the theorems, so every error branch of the storage code is reachable. File
  contents are typed values of a service (the JSON text of \<open>json.Marshal\<close> read back by
  \<open>json.Unmarshal\<close>); \<open>File None\<close> is a file that was truncated by \<open>O_TRUNC\<close> and whose write did
  not complete.
\<close>

section \<open>filepath.Join\<close>

type_synonym path = "string list"

fun split_slash :: "string \<Rightarrow> string list" where
  "split_slash [] = [[]]"
| "split_slash (c # cs) =
     (if c = CHR ''/'' then [] # split_slash cs
      else case split_slash cs of [] \<Rightarrow> [[c]] | w # ws \<Rightarrow> (c # w) # ws)"

text \<open>One component of the lexical cleaning; the components kept so far are in reverse.\<close>

definition clean_step :: "path \<Rightarrow> string \<Rightarrow> path" where
  "clean_step st c =
     (if c = '''' \<or> c = ''.'' then st
      else if c = ''..'' then
        (case st of [] \<Rightarrow> [''..''] | t # ts \<Rightarrow> if t = ''..'' then ''..'' # st else ts)
      else c # st)"

text \<open>The elements joined here never start with a slash in first position, so the result is a
  relative path.\<close>

definition filepath_Join :: "string list \<Rightarrow> path" where
  "filepath_Join es = rev (foldl clean_step [] (concat (map split_slash es)))"

definition plain_elem :: "string \<Rightarrow> bool" where
  "plain_elem e \<longleftrightarrow> e \<noteq> '''' \<and> e \<noteq> ''.'' \<and> e \<noteq> ''..'' \<and> CHR ''/'' \<notin> set e"

definition clean_path :: "path \<Rightarrow> bool" where
  "clean_path p \<longleftrightarrow> list_all plain_elem (dropWhile (\<lambda>c. c = ''..'') p)"

definition escapes :: "path \<Rightarrow> bool" where
  "escapes p \<longleftrightarrow> (case p of [] \<Rightarrow> False | c # _ \<Rightarrow> c = ''..'')"

lemma split_slash_plain: "CHR ''/'' \<notin> set e \<Longrightarrow> split_slash e = [e]"
  by (induction e) auto

lemma split_slash_no_slash: "w \<in> set (split_slash s) \<Longrightarrow> CHR ''/'' \<notin> set w"
proof (induction s arbitrary: w)
  case Nil
  then show ?case by simp
next
  case (Cons c cs)
  then show ?case by (fastforce split: if_splits list.splits)
qed

lemma filepath_Join_plain: "list_all plain_elem es \<Longrightarrow> filepath_Join es = es"
proof -
  have "list_all plain_elem es \<Longrightarrow> foldl clean_step st (concat (map split_slash es)) = rev es @ st" for st
    by (induction es arbitrary: st) (auto simp: split_slash_plain plain_elem_def clean_step_def)
  then show "list_all plain_elem es \<Longrightarrow> filepath_Join es = es"
    by (simp add: filepath_Join_def)
qed

definition clean_rev :: "path \<Rightarrow> bool" where
  "clean_rev st \<longleftrightarrow> (\<exists>a n. st = a @ replicate n ''..'' \<and> list_all plain_elem a)"

lemma clean_revI: "list_all plain_elem a \<Longrightarrow> clean_rev (a @ replicate n ''..'')"
  by (auto simp: clean_rev_def)

lemma clean_step_clean_rev:
  assumes "clean_rev st" and "CHR ''/'' \<notin> set c"
  shows "clean_rev (clean_step st c)"
proof -
  obtain a n where st: "st = a @ replicate n ''..''" and a: "list_all plain_elem a"
    using assms(1) by (auto simp: clean_rev_def)
  consider "c = '''' \<or> c = ''.''" | "c = ''..''" | "plain_elem c"
    using assms(2) by (auto simp: plain_elem_def)
  then show ?thesis
  proof cases
    case 1
    then show ?thesis using assms(1) by (auto simp: clean_step_def)
  next
    case 2
    show ?thesis
    proof (cases a)
      case Nil
      then have "clean_step st c = replicate (Suc n) ''..''"
        using 2 st by (cases n) (simp_all add: clean_step_def)
      then show ?thesis using clean_revI[of "[]" "Suc n"] by simp
    next
      case (Cons t ts)
      then have "clean_step st c = ts @ replicate n ''..''"
        using 2 st a by (simp add: clean_step_def plain_elem_def)
      then show ?thesis using a Cons clean_revI[of ts n] by simp
    qed
  next
    case 3
    then have "clean_step st c = (c # a) @ replicate n ''..''"
      using st by (simp add: clean_step_def plain_elem_def)
    then show ?thesis using a 3 clean_revI[of "c # a" n] by simp
  qed
qed

lemma clean_path_Join: "clean_path (filepath_Join es)"
proof -
  have fold: "clean_rev st \<Longrightarrow> (\<And>c. c \<in> set cs \<Longrightarrow> CHR ''/'' \<notin> set c) \<Longrightarrow> clean_rev (foldl clean_step st cs)" for st cs
    by (induction cs arbitrary: st) (auto simp: clean_step_clean_rev)
  have "clean_rev []" by (auto simp: clean_rev_def)
  then have "clean_rev (foldl clean_step [] (concat (map split_slash es)))"
    by (rule fold) (auto dest: split_slash_no_slash)
  then obtain a n where e: "foldl clean_step [] (concat (map split_slash es)) = a @ replicate n ''..''"
    and a: "list_all plain_elem a" by (auto simp: clean_rev_def)
  have "filepath_Join es = replicate n ''..'' @ rev a" by (simp add: filepath_Join_def e)
  moreover have "dropWhile (\<lambda>c. c = ''..'') (replicate n ''..'' @ rev a) = dropWhile (\<lambda>c. c = ''..'') (rev a)"
    by (induction n) auto
  moreover have "list_all plain_elem (dropWhile (\<lambda>c. c = ''..'') (rev a))"
    using a by (auto simp: list_all_iff dest: set_dropWhileD)
  ultimately show ?thesis by (simp add: clean_path_def)
qed

lemma clean_path_plain: "clean_path p \<Longrightarrow> \<not> escapes p \<Longrightarrow> list_all plain_elem p"
  by (cases p) (auto simp: clean_path_def escapes_def)

section \<open>Disks\<close>

datatype 'c node = Dir | File "'c option"

text \<open>The classes of error that \<open>errors.Is\<close> tells apart.\<close>

datatype ioerr = ENotExist | EExist | EOther

datatype iop = OpStat | OpOpen | OpRead | OpReadDir | OpCreate | OpWrite | OpClose | OpMkdir | OpRemove | OpRename

record 'c disk =
  d_fs :: "(path \<times> 'c node) list"
  d_fault :: "iop \<Rightarrow> path \<Rightarrow> bool"

definition look :: "('c, 'm) disk_scheme \<Rightarrow> path \<Rightarrow> 'c node option" where
  "look d p = (if p = [] then Some Dir else map_of (d_fs d) p)"

definition put :: "path \<Rightarrow> 'c node \<Rightarrow> ('c, 'm) disk_scheme \<Rightarrow> ('c, 'm) disk_scheme" where
  "put p n d = d\<lparr>d_fs := AList.update p n (d_fs d)\<rparr>"

definition del :: "path \<Rightarrow> ('c, 'm) disk_scheme \<Rightarrow> ('c, 'm) disk_scheme" where
  "del p d = d\<lparr>d_fs := AList.delete p (d_fs d)\<rparr>"

text \<open>A path component that is a plain file stops the walk with \<open>ENOTDIR\<close>.\<close>

definition blocked :: "('c, 'm) disk_scheme \<Rightarrow> path \<Rightarrow> bool" where
  "blocked d p \<longleftrightarrow>
     list_ex (\<lambda>k. case look d (take k p) of Some (File _) \<Rightarrow> True | _ \<Rightarrow> False) [1..<length p]"

definition root_walk :: "('c, 'm) disk_scheme \<Rightarrow> path \<Rightarrow> ioerr + 'c node" where
  "root_walk d p =
     (if escapes p \<or> blocked d p then Inl EOther
      else case look d p of None \<Rightarrow> Inl ENotExist | Some n \<Rightarrow> Inr n)"

definition entries :: "('c, 'm) disk_scheme \<Rightarrow> path \<Rightarrow> (string \<times> bool) list" where
  "entries d p = map (\<lambda>(q, n). (last q, n = Dir)) (filter (\<lambda>(q, n). q \<noteq> [] \<and> butlast q = p) (d_fs d))"

definition root_Stat :: "('c, 'm) disk_scheme \<Rightarrow> path \<Rightarrow> ioerr + 'c node" where
  "root_Stat d p = (if d_fault d OpStat p then Inl EOther else root_walk d p)"

text \<open>\<open>root.Open\<close>, then \<open>io.ReadAll\<close>\<close>

definition root_ReadFile :: "('c, 'm) disk_scheme \<Rightarrow> path \<Rightarrow> ioerr + 'c option" where
  "root_ReadFile d p =
     (if d_fault d OpOpen p then Inl EOther
      else case root_walk d p of
             Inl e \<Rightarrow> Inl e
           | Inr Dir \<Rightarrow> Inl EOther
           | Inr (File c) \<Rightarrow> if d_fault d OpRead p then Inl EOther else Inr c)"

text \<open>\<open>root.Open\<close>, then \<open>ReadDir(-1)\<close>: the entries in directory order, with \<open>IsDir\<close>.\<close>

definition root_ReadDir :: "('c, 'm) disk_scheme \<Rightarrow> path \<Rightarrow> ioerr + (string \<times> bool) list" where
  "root_ReadDir d p =
     (if d_fault d OpReadDir p then Inl EOther
      else case root_walk d p of
             Inl e \<Rightarrow> Inl e
           | Inr Dir \<Rightarrow> Inr (entries d p)
           | Inr (File _) \<Rightarrow> Inl EOther)"

definition root_Mkdir ::
  "path \<Rightarrow> ('c, 'm) disk_scheme \<Rightarrow> ioerr option \<times> ('c, 'm) disk_scheme" where
  "root_Mkdir p d =
     (if d_fault d OpMkdir p \<or> escapes p then (Some EOther, d)
      else case root_walk d (butlast p) of
             Inl e \<Rightarrow> (Some e, d)
           | Inr (File _) \<Rightarrow> (Some EOther, d)
           | Inr Dir \<Rightarrow>
               (case look d p of Some _ \<Rightarrow> (Some EExist, d) | None \<Rightarrow> (None, put p Dir d)))"

definition root_Remove ::
  "path \<Rightarrow> ('c, 'm) disk_scheme \<Rightarrow> ioerr option \<times> ('c, 'm) disk_scheme" where
  "root_Remove p d =
     (if d_fault d OpRemove p then (Some EOther, d)
      else case root_walk d p of
             Inl e \<Rightarrow> (Some e, d)
           | Inr Dir \<Rightarrow> if p = [] \<or> entries d p \<noteq> [] then (Some EOther, d) else (None, del p d)
           | Inr (File _) \<Rightarrow> (None, del p d))"

text \<open>\<open>OpenFile\<close> with \<open>O_WRONLY|O_CREATE|O_TRUNC\<close>, \<open>Write\<close>, \<open>Close\<close>\<close>

definition root_WriteFile ::
  "path \<Rightarrow> 'c \<Rightarrow> ('c, 'm) disk_scheme \<Rightarrow> ioerr option \<times> ('c, 'm) disk_scheme" where
  "root_WriteFile p c d =
     (if d_fault d OpCreate p \<or> escapes p then (Some EOther, d)
      else case root_walk d (butlast p) of
             Inl e \<Rightarrow> (Some e, d)
           | Inr (File _) \<Rightarrow> (Some EOther, d)
           | Inr Dir \<Rightarrow>
               if look d p = Some Dir then (Some EOther, d)
               else if d_fault d OpWrite p then (Some EOther, put p (File None) d)
               else (if d_fault d OpClose p then Some EOther else None, put p (File (Some c)) d))"

text \<open>\<open>Rename\<close> of a file over the name of another file, or a free name.\<close>

definition root_Rename ::
  "path \<Rightarrow> path \<Rightarrow> ('c, 'm) disk_scheme \<Rightarrow> ioerr option \<times> ('c, 'm) disk_scheme" where
  "root_Rename p q d =
     (if d_fault d OpRename p \<or> escapes q then (Some EOther, d)
      else case root_walk d p of
             Inl e \<Rightarrow> (Some e, d)
           | Inr Dir \<Rightarrow> (Some EOther, d)
           | Inr (File c) \<Rightarrow>
               (case root_walk d (butlast q) of
                  Inl e \<Rightarrow> (Some e, d)
                | Inr (File _) \<Rightarrow> (Some EOther, d)
                | Inr Dir \<Rightarrow>
                    if look d q = Some Dir then (Some EOther, d)
                    else (None, put q (File c) (if p = q then d else del p d))))"

section \<open>What a path holds after an operation\<close>

lemma look_Nil [simp]: "look d [] = Some Dir"
  by (simp add: look_def)

lemma look_put [fs_simps]: "look (put p n d) q = (if q = p \<and> q \<noteq> [] then Some n else look d q)"
  by (simp add: look_def put_def)

lemma look_del [fs_simps]: "look (del p d) q = (if q = p \<and> q \<noteq> [] then None else look d q)"
  by (simp add: look_def del_def)

lemma fault_put [simp]: "d_fault (put p n d) = d_fault d"
  by (simp add: put_def)

lemma fault_del [simp]: "d_fault (del p d) = d_fault d"
  by (simp add: del_def)

definition disk_wf :: "('c, 'm) disk_scheme \<Rightarrow> bool" where
  "disk_wf d \<longleftrightarrow> distinct (map fst (d_fs d)) \<and> [] \<notin> fst ` set (d_fs d)
     \<and> (\<forall>p. look d p \<noteq> None \<longrightarrow> list_all plain_elem p \<and> look d (butlast p) = Some Dir)"

definition quiet :: "('c, 'm) disk_scheme \<Rightarrow> bool" where
  "quiet d \<longleftrightarrow> (\<forall>op p. \<not> d_fault d op p)"

lemma disk_wf_parent: "disk_wf d \<Longrightarrow> look d p = Some n \<Longrightarrow> look d (butlast p) = Some Dir"
  by (auto simp: disk_wf_def)

lemma disk_wf_plain: "disk_wf d \<Longrightarrow> look d p = Some n \<Longrightarrow> list_all plain_elem p"
  by (auto simp: disk_wf_def)

lemma disk_wf_prefix: "disk_wf d \<Longrightarrow> look d (p @ q) = Some n \<Longrightarrow> q \<noteq> [] \<Longrightarrow> look d p = Some Dir"
proof (induction q arbitrary: n rule: rev_induct)
  case Nil
  then show ?case by simp
next
  case (snoc x q)
  from disk_wf_parent[OF snoc.prems(1,2)] have "look d (p @ q) = Some Dir" by (simp add: butlast_append)
  with snoc show ?case by (cases "q = []") auto
qed

lemma plain_not_escapes: "list_all plain_elem p \<Longrightarrow> \<not> escapes p"
  by (cases p) (auto simp: escapes_def plain_elem_def)

lemma root_walk_Some: "disk_wf d \<Longrightarrow> look d p = Some n \<Longrightarrow> root_walk d p = Inr n"
proof -
  assume wf: "disk_wf d" and n: "look d p = Some n"
  have "look d (take k p) = Some Dir" if "k < length p" for k
    by (rule disk_wf_prefix[OF wf, of _ "drop k p" n]) (use n that in auto)
  then have "\<not> blocked d p" by (auto simp: blocked_def list_ex_iff)
  with n plain_not_escapes[OF disk_wf_plain[OF wf n]] show ?thesis by (simp add: root_walk_def)
qed

lemma root_walk_Inr: "root_walk d p = Inr n \<Longrightarrow> look d p = Some n \<and> \<not> escapes p"
  by (auto simp: root_walk_def split: if_splits option.splits)

lemma root_walk_iff: "disk_wf d \<Longrightarrow> root_walk d p = Inr n \<longleftrightarrow> look d p = Some n"
  using root_walk_Some root_walk_Inr by blast

text \<open>A missing entry of an existing directory is \<open>fs.ErrNotExist\<close>.\<close>

lemma root_walk_missing:
  assumes "disk_wf d" and "look d p = Some Dir" and "look d (p @ [x]) = None" and "\<not> escapes (p @ [x])"
  shows "root_walk d (p @ [x]) = Inl ENotExist"
proof -
  have dir: "look d (take k (p @ [x])) = Some Dir" if "k < length (p @ [x])" for k
  proof (cases "k = length p")
    case False
    with that have "k < length p" by simp
    then show ?thesis using disk_wf_prefix[OF assms(1), of "take k p" "drop k p" Dir] assms(2) by simp
  qed (use assms(2) in simp)
  have "\<not> (case look d (take k (p @ [x])) of Some (File _) \<Rightarrow> True | _ \<Rightarrow> False)"
    if "k \<in> set [1..<length (p @ [x])]" for k
  proof -
    have "k < length (p @ [x])" using that by (simp only: set_upt atLeastLessThan_iff)
    then show ?thesis by (simp only: dir option.case node.case not_False_eq_True)
  qed
  then have "\<not> blocked d (p @ [x])" unfolding blocked_def list_ex_iff by blast
  with assms show ?thesis by (simp add: root_walk_def)
qed

lemma set_d_fs: "disk_wf d \<Longrightarrow> (p, n) \<in> set (d_fs d) \<longleftrightarrow> p \<noteq> [] \<and> look d p = Some n"
proof -
  assume wf: "disk_wf d"
  then have d: "distinct (map fst (d_fs d))" by (simp add: disk_wf_def)
  have "p \<noteq> []" if "(p, n) \<in> set (d_fs d)"
    using that wf by (force simp: disk_wf_def)
  then show ?thesis using d by (auto simp: look_def)
qed

lemma entries_mem:
  assumes "disk_wf d"
  shows "(x, b) \<in> set (entries d p) \<longleftrightarrow> (\<exists>n. look d (p @ [x]) = Some n \<and> b = (n = Dir))"
proof
  assume "(x, b) \<in> set (entries d p)"
  then obtain q n where "(q, n) \<in> set (d_fs d)" "q \<noteq> []" "butlast q = p" "x = last q" "b = (n = Dir)"
    by (auto simp: entries_def)
  then show "\<exists>n. look d (p @ [x]) = Some n \<and> b = (n = Dir)"
    using set_d_fs[OF assms] by (metis append_butlast_last_id)
next
  assume "\<exists>n. look d (p @ [x]) = Some n \<and> b = (n = Dir)"
  then obtain n where n: "look d (p @ [x]) = Some n" and b: "b = (n = Dir)" by blast
  then have "(p @ [x], n) \<in> set (d_fs d)" using set_d_fs[OF assms] by simp
  then show "(x, b) \<in> set (entries d p)"
    using b by (force simp: entries_def)
qed

lemma distinct_entries: "disk_wf d \<Longrightarrow> distinct (map fst (entries d p))"
proof -
  assume "disk_wf d"
  then have "distinct (map fst (filter (\<lambda>(q, n). q \<noteq> [] \<and> butlast q = p) (d_fs d)))"
    by (auto simp: disk_wf_def intro: distinct_map_filter)
  moreover have "inj_on last (fst ` set (filter (\<lambda>(q, n). q \<noteq> [] \<and> butlast q = p) (d_fs d)))"
    by (rule inj_onI) (auto, metis append_butlast_last_id)
  ultimately have "distinct (map last (map fst (filter (\<lambda>(q, n). q \<noteq> [] \<and> butlast q = p) (d_fs d))))"
    unfolding distinct_map by simp
  moreover have "map fst (entries d p) = map last (map fst (filter (\<lambda>(q, n). q \<noteq> [] \<and> butlast q = p) (d_fs d)))"
    by (simp add: entries_def split_beta)
  ultimately show ?thesis by simp
qed

section \<open>Operations keep the tree well formed\<close>

lemma disk_wf_put:
  assumes "disk_wf d" and "list_all plain_elem p" and "look d (butlast p) = Some Dir"
    and "p \<noteq> []" and "look d p = Some Dir \<longrightarrow> n = Dir"
  shows "disk_wf (put p n d)"
proof -
  have "look (put p n d) (butlast q) = Some Dir" if "look (put p n d) q \<noteq> None" for q
  proof (cases "q = p")
    case True
    moreover have "butlast p \<noteq> p" using assms(4) by (metis append_butlast_last_id not_Cons_self2 self_append_conv)
    ultimately show ?thesis using assms(3,4) by (simp add: look_put)
  next
    case False
    with that assms(1) have q: "look d (butlast q) = Some Dir" by (auto simp: look_put disk_wf_def split: if_splits)
    then show ?thesis using assms(5) by (auto simp: look_put)
  qed
  moreover have "list_all plain_elem q" if "look (put p n d) q \<noteq> None" for q
    using that assms(1,2) by (auto simp: look_put disk_wf_def split: if_splits)
  moreover have "distinct (map fst (d_fs (put p n d)))"
    using assms(1) by (simp add: put_def disk_wf_def distinct_update)
  moreover have "[] \<notin> fst ` set (d_fs (put p n d))"
    using assms(1,4) by (simp add: put_def disk_wf_def dom_update)
  ultimately show ?thesis by (simp add: disk_wf_def)
qed

lemma disk_wf_del:
  assumes "disk_wf d" and "look d p = Some Dir \<longrightarrow> entries d p = []"
  shows "disk_wf (del p d)"
proof -
  have "look (del p d) (butlast q) = Some Dir" if "look (del p d) q \<noteq> None" for q
  proof -
    from that obtain n where n: "look d q = Some n" and "q \<noteq> p \<or> q = []" by (auto simp: look_del split: if_splits)
    have par: "look d (butlast q) = Some Dir" by (rule disk_wf_parent[OF assms(1) n])
    show ?thesis
    proof (cases "butlast q = p \<and> p \<noteq> []")
      case True
      then have "q \<noteq> []" by auto
      then have "look d (p @ [last q]) = Some n" using True n by (metis append_butlast_last_id)
      then have "(last q, n = Dir) \<in> set (entries d p)" using entries_mem[OF assms(1)] by blast
      moreover have "look d p = Some Dir" using True par by simp
      ultimately show ?thesis using assms(2) by auto
    next
      case False
      then show ?thesis using par by (auto simp: look_del)
    qed
  qed
  moreover have "list_all plain_elem q" if "look (del p d) q \<noteq> None" for q
    using that assms(1) by (auto simp: look_del disk_wf_def split: if_splits)
  moreover have "distinct (map fst (d_fs (del p d)))"
    using assms(1) by (simp add: del_def disk_wf_def distinct_delete)
  moreover have "[] \<notin> fst ` set (d_fs (del p d))"
    using assms(1) by (auto simp: del_def disk_wf_def set_delete)
  ultimately show ?thesis by (simp add: disk_wf_def)
qed

end
