(* ===== verification/Go_FS_Frame.thy ===== *)
theory Go_FS_Frame
  imports Go_FS
begin

text \<open>
  What the file operations leave alone, and that they keep a directory tree: shared by the storage
  proofs of the services. \<open>fault_free d p\<close> says that no system call fails on \<open>p\<close>; the outcome of an
  operation on such a path is determined by the tree.
\<close>

definition fault_free :: "('c, 'm) disk_scheme \<Rightarrow> path \<Rightarrow> bool" where
  "fault_free d p \<longleftrightarrow> (\<forall>op. \<not> d_fault d op p)"

lemma fault_freeD [simp]: "fault_free d p \<Longrightarrow> \<not> d_fault d op p"
  by (simp add: fault_free_def)

lemma quiet_fault_free: "quiet d \<Longrightarrow> fault_free d p"
  by (simp add: quiet_def fault_free_def)

lemma fault_free_put_del [simp]:
  "fault_free (put p n d) q = fault_free d q" "fault_free (del p d) q = fault_free d q"
  by (simp_all add: fault_free_def)

lemma root_walk_Nil [simp]: "root_walk d [] = Inr Dir"
  by (simp add: root_walk_def escapes_def blocked_def)

section \<open>Other paths\<close>

lemma write_other: "root_WriteFile p c d = (r, d') \<Longrightarrow> q \<noteq> p \<Longrightarrow> look d' q = look d q"
  by (auto simp: root_WriteFile_def fs_simps split: sum.splits node.splits if_splits)

lemma remove_other: "root_Remove p d = (r, d') \<Longrightarrow> q \<noteq> p \<Longrightarrow> look d' q = look d q"
  by (auto simp: root_Remove_def fs_simps split: sum.splits node.splits if_splits)

lemma mkdir_other: "root_Mkdir p d = (r, d') \<Longrightarrow> q \<noteq> p \<Longrightarrow> look d' q = look d q"
  by (auto simp: root_Mkdir_def fs_simps split: sum.splits node.splits if_splits option.splits)

lemma rename_other: "root_Rename p p' d = (r, d') \<Longrightarrow> q \<noteq> p \<Longrightarrow> q \<noteq> p' \<Longrightarrow> look d' q = look d q"
  by (auto simp: root_Rename_def fs_simps split: sum.splits node.splits if_splits)

section \<open>The path itself\<close>

lemma write_same:
  assumes "root_WriteFile p c d = (r, d')" and "fault_free d p" and "p \<noteq> []"
  shows "(r = None \<and> look d' p = Some (File (Some c))) \<or> (r \<noteq> None \<and> d' = d)"
  using assms by (auto simp: root_WriteFile_def fs_simps split: sum.splits node.splits if_splits)

lemma write_None: "root_WriteFile p c d = (None, d') \<Longrightarrow> look d' p = Some (File (Some c)) \<and> p \<noteq> []"
  by (cases "p = []") (auto simp: root_WriteFile_def fs_simps split: sum.splits node.splits if_splits)

lemma remove_same:
  assumes "root_Remove p d = (r, d')" and "fault_free d p"
  shows "(r = None \<and> look d' p = None) \<or> (r \<noteq> None \<and> d' = d)"
  using assms by (auto simp: root_Remove_def fs_simps split: sum.splits node.splits if_splits)

lemma remove_None: "root_Remove p d = (None, d') \<Longrightarrow> look d' p = None \<and> p \<noteq> []"
  by (auto simp: root_Remove_def fs_simps split: sum.splits node.splits if_splits)

lemma remove_missing: "disk_wf d \<Longrightarrow> look d p = None \<Longrightarrow> root_Remove p d = (r, d') \<Longrightarrow> d' = d"
  by (auto simp: root_Remove_def dest!: root_walk_Inr split: sum.splits node.splits if_splits)

lemma remove_file:
  "disk_wf d \<Longrightarrow> fault_free d p \<Longrightarrow> look d p = Some (File c) \<Longrightarrow> root_Remove p d = (None, del p d)"
  by (simp add: root_Remove_def root_walk_Some)

lemma write_file:
  assumes "disk_wf d" and "fault_free d p" and "look d (butlast p) = Some Dir"
    and "look d p \<noteq> Some Dir" and "\<not> escapes p"
  shows "root_WriteFile p c d = (None, put p (File (Some c)) d)"
  using assms by (simp add: root_WriteFile_def root_walk_Some)

section \<open>Well-formed trees\<close>

lemma clean_child:
  assumes "clean_path p" and "\<not> escapes p"
  shows "list_all plain_elem p"
  by (rule clean_path_plain[OF assms])

lemma wf_write:
  assumes "disk_wf d" and "clean_path p" and "root_WriteFile p c d = (r, d')"
  shows "disk_wf d'"
proof -
  have "disk_wf (put p (File x) d)" if "root_walk d (butlast p) = Inr Dir" "look d p \<noteq> Some Dir" "\<not> escapes p" for x
    by (rule disk_wf_put[OF assms(1) clean_path_plain[OF assms(2) that(3)]])
      (use that root_walk_Inr in auto)
  then show ?thesis
    using assms(1,3) by (auto simp: root_WriteFile_def split: sum.splits node.splits if_splits)
qed

lemma wf_remove:
  assumes "disk_wf d" and "root_Remove p d = (r, d')"
  shows "disk_wf d'"
  using assms disk_wf_del[OF assms(1), of p] root_walk_Inr[of d p]
  by (auto simp: root_Remove_def split: sum.splits node.splits if_splits)

lemma wf_mkdir:
  assumes "disk_wf d" and "clean_path p" and "root_Mkdir p d = (r, d')"
  shows "disk_wf d'"
proof -
  have "disk_wf (put p Dir d)" if "root_walk d (butlast p) = Inr Dir" "look d p = None" "\<not> escapes p"
    by (rule disk_wf_put[OF assms(1) clean_path_plain[OF assms(2) that(3)]])
      (use that root_walk_Inr in auto)
  then show ?thesis
    using assms(1,3) by (auto simp: root_Mkdir_def split: sum.splits node.splits if_splits option.splits)
qed

end
