(* ===== verification/Ddb_Types.thy ===== *)
theory Ddb_Types
  imports Go_FS Ddb_Projection
begin

text \<open>
  The data of the DynamoDB service (\<open>internal/dynamodb/storage_types.go\<close>, \<open>errors.go\<close> and the record
  types of \<open>storage_streams.go\<close> and \<open>storage_transaction.go\<close>) and the state of its storage: a disk
  of table metadata, items and stream files, the stream buffers in memory, the sequence counter
  and the clock that a request reads. \<open>md5hex\<close> stands for \<open>hex(md5.Sum(_))\<close>.
\<close>

section \<open>Tables\<close>

record KeySchemaElement =
  ks_AttributeName :: string
  ks_KeyType :: string

record AttributeDefinition =
  ad_AttributeName :: string
  ad_AttributeType :: string

record TTLSpec =
  ttl_AttributeName :: string
  ttl_Enabled :: bool

record PITRStatus =
  pitr_Enabled :: bool
  pitr_EnabledAt :: "int option"

record KinesisDestination =
  kd_StreamARN :: string
  kd_Status :: string
  kd_Precision :: string

record ProvisionedThroughput =
  pt_ReadCapacityUnits :: int
  pt_WriteCapacityUnits :: int

record GlobalSecondaryIndex =
  gsi_IndexName :: string
  gsi_KeySchema :: "KeySchemaElement list"
  gsi_Projection :: gmap
  gsi_ProvisionedThroughput :: "ProvisionedThroughput option"

record LocalSecondaryIndex =
  lsi_IndexName :: string
  lsi_KeySchema :: "KeySchemaElement list"
  lsi_Projection :: gmap

record StreamSpecification =
  ss_StreamEnabled :: bool
  ss_StreamViewType :: string

record TableMetadata =
  tm_Name :: string
  tm_KeySchema :: "KeySchemaElement list"
  tm_AttributeDefinitions :: "AttributeDefinition list"
  tm_BillingMode :: string
  tm_BillingModeUpdatedAt :: "int option"
  tm_ProvisionedThroughput :: "ProvisionedThroughput option"
  tm_GlobalSecondaryIndexes :: "GlobalSecondaryIndex list"
  tm_LocalSecondaryIndexes :: "LocalSecondaryIndex list"
  tm_Status :: string
  tm_CreatedAt :: int
  tm_TTL :: "TTLSpec option"
  tm_Tags :: smap
  tm_PITR :: "PITRStatus option"
  tm_KinesisDestinations :: "KinesisDestination list"
  tm_StreamSpec :: "StreamSpecification option"
  tm_StreamLabel :: string

section \<open>Streams\<close>

record streamRecord =
  sr_EventID :: string
  sr_EventName :: string
  sr_Keys :: gmap
  sr_NewImage :: "gmap option"
  sr_OldImage :: "gmap option"
  sr_SeqNum :: "64 word"
  sr_CreatedAt :: int
  sr_ViewType :: string

text \<open>The flag \<open>deleted\<close> of a buffer is only seen by a goroutine that still holds a buffer which was taken
  out of the map; requests are modelled one after the other, so a buffer in the map is not deleted.\<close>

record streamBuffer =
  sb_label :: string
  sb_shardID :: string
  sb_records :: "streamRecord list"

text \<open>A line of a stream file: a record, or the part of one that a failed append left without a line end.\<close>

datatype streamLine = LRecord streamRecord | LTorn

section \<open>Errors\<close>

datatype update_error =
    UPath path_error
  | UValueMissing string
  | UUnsupportedExpression string
  | UInvalidClause string string
  | UInvalidListAppend string
  | UInvalidIfNotExists string
  | UAddDelta | UAddNumber string | UAddNotTyped | UAddNotNumber | UAddExisting string | UAddMismatch string | UAddType
  | UDeleteDelta | UDeleteNotTyped | UDeleteMismatch string | UDeleteType
  | UNotList string
  | UInvalidDocumentPath
  | UUnsupportedKeyCondition string
  | UUnsupportedSortOperator string
  | UUnsupportedSortCondition string
  | UInvalidBeginsWith string

datatype validation =
    VExpr expr_error
  | VMissingKey string
  | VUpdate update_error
  | VDuplicateTarget
  | VIndexMissing string
  | VIndexHashKey string string string
  | VSequenceNumber string
  | VIteratorType string
  | VIterator

record CancellationReason =
  cr_Code :: string
  cr_Message :: string
  cr_Item :: "gmap option"

datatype ddb_error =
    ErrTableNotFound
  | ErrTableAlreadyExists
  | ErrValidationException validation
  | ErrConditionalCheckFailed "gmap option"
  | ErrKinesisLimitExceeded
  | ErrKinesisDestinationNotFound
  | ErrTagLimitExceeded
  | ErrStreamNotFound
  | ErrTransactionCanceled "CancellationReason list"
  | ErrIO ioerr

section \<open>The state\<close>

datatype ddb_content = CTable TableMetadata | CItem gmap | CStream "streamLine list"

record ddb = "ddb_content disk" +
  md5hex :: "string \<Rightarrow> string"
  streams :: "(string \<times> streamBuffer) list"
  seqNum :: "64 word"
  clock :: int

record ConditionCheck =
  cc_Expr :: string
  cc_Names :: smap
  cc_Values :: gmap

section \<open>Files\<close>

definition tableMetaPath :: "string \<Rightarrow> path" where
  "tableMetaPath name = filepath_Join [name @ ''.table.json'']"

definition streamFilePath :: "string \<Rightarrow> path" where
  "streamFilePath name = filepath_Join [name @ ''.stream.jsonl'']"

definition tableDir :: "string \<Rightarrow> path" where
  "tableDir name = filepath_Join [name]"

definition itemPath :: "string \<Rightarrow> string \<Rightarrow> path" where
  "itemPath name k = filepath_Join [name, k @ ''.json'']"

text \<open>\<open>readJSON[TableMetadata]\<close> and \<open>readJSON[map[string]any]\<close>: a file that does not hold such a value does
  not decode.\<close>

definition readTableMeta :: "ddb \<Rightarrow> string \<Rightarrow> ioerr + TableMetadata" where
  "readTableMeta s name =
     (case root_ReadFile s (tableMetaPath name) of
        Inl e \<Rightarrow> Inl e
      | Inr (Some (CTable m)) \<Rightarrow> Inr m
      | Inr _ \<Rightarrow> Inl EOther)"

definition readItem :: "ddb \<Rightarrow> path \<Rightarrow> ioerr + gmap" where
  "readItem s p =
     (case root_ReadFile s p of
        Inl e \<Rightarrow> Inl e
      | Inr (Some (CItem m)) \<Rightarrow> Inr m
      | Inr _ \<Rightarrow> Inl EOther)"

definition tableExistsLocked :: "ddb \<Rightarrow> string \<Rightarrow> bool" where
  "tableExistsLocked s name = (case root_Stat s (tableMetaPath name) of Inr _ \<Rightarrow> True | Inl _ \<Rightarrow> False)"

definition writeTableMeta :: "string \<Rightarrow> TableMetadata \<Rightarrow> ddb \<Rightarrow> ioerr option \<times> ddb" where
  "writeTableMeta name m s = root_WriteFile (tableMetaPath name) (CTable m) s"

text \<open>\<open>writeJSON\<close> of an item. When \<open>json.Marshal\<close> fails its error is ignored and an empty file is written.\<close>

definition writeEmpty :: "path \<Rightarrow> ddb \<Rightarrow> ioerr option \<times> ddb" where
  "writeEmpty p s =
     (if d_fault s OpCreate p \<or> escapes p then (Some EOther, s)
      else case root_walk s (butlast p) of
             Inl e \<Rightarrow> (Some e, s)
           | Inr (File _) \<Rightarrow> (Some EOther, s)
           | Inr Dir \<Rightarrow>
               if look s p = Some Dir then (Some EOther, s)
               else (if d_fault s OpWrite p \<or> d_fault s OpClose p then Some EOther else None, put p (File None) s))"

definition writeItem :: "path \<Rightarrow> gmap option \<Rightarrow> ddb \<Rightarrow> ioerr option \<times> ddb" where
  "writeItem p oi s =
     (case oi of
        Some item \<Rightarrow> root_WriteFile p (CItem item) s
      | None \<Rightarrow> writeEmpty p s)"

text \<open>\<open>readTableMeta\<close> with \<open>os.ErrNotExist\<close> turned into \<open>ErrTableNotFound\<close>\<close>

definition tableMeta :: "ddb \<Rightarrow> string \<Rightarrow> (ddb_error, TableMetadata) res" where
  "tableMeta s name =
     (case readTableMeta s name of
        Inr m \<Rightarrow> Ok m
      | Inl e \<Rightarrow> Err (if e = ENotExist then ErrTableNotFound else ErrIO e))"

text \<open>The file of an item, \<open>None\<close> when it does not exist.\<close>

definition readOld :: "ddb \<Rightarrow> path \<Rightarrow> (ddb_error, gmap option) res" where
  "readOld s p =
     (case readItem s p of
        Inr m \<Rightarrow> Ok (Some m)
      | Inl e \<Rightarrow> if e = ENotExist then Ok None else Err (ErrIO e))"

text \<open>The parts whose JSON text is hashed: \<open>[{"n": name, "v": value}, ...]\<close>\<close>

fun keyParts :: "gmap \<Rightarrow> KeySchemaElement list \<Rightarrow> (ddb_error, gany list) res" where
  "keyParts item [] = Ok []"
| "keyParts item (k # ks) =
     (case map_of item (ks_AttributeName k) of
        None \<Rightarrow> Err (ErrValidationException (VMissingKey (ks_AttributeName k)))
      | Some v \<Rightarrow> mapOk ((#) (GMap [(''n'', GStr (ks_AttributeName k)), (''v'', v)])) (keyParts item ks))"

definition itemKey :: "(string \<Rightarrow> string) \<Rightarrow> gmap \<Rightarrow> KeySchemaElement list \<Rightarrow> (ddb_error, string) res" where
  "itemKey h item schema = mapOk (\<lambda>parts. h (json_Marshal (GSlice parts))) (keyParts item schema)"

fun readEntries :: "ddb \<Rightarrow> path \<Rightarrow> (string \<times> bool) list \<Rightarrow> gmap list" where
  "readEntries s d [] = []"
| "readEntries s d (e # es) =
     (if \<not> has_suffix ''.json'' (fst e) then readEntries s d es
      else case readItem s (d @ [fst e]) of
             Inl _ \<Rightarrow> readEntries s d es
           | Inr item \<Rightarrow> item # readEntries s d es)"

definition readAllItemsLocked :: "ddb \<Rightarrow> string \<Rightarrow> (ddb_error, gmap list) res" where
  "readAllItemsLocked s name =
     (case root_ReadDir s (tableDir name) of
        Inl e \<Rightarrow> Err (ErrIO e)
      | Inr es \<Rightarrow> Ok (readEntries s (tableDir name) es))"

end
