(* ===== verification/Ddb_Update.thy ===== *)
theory Ddb_Update
  imports Ddb_Types
begin

text \<open>
  Update and key condition expressions (\<open>internal/dynamodb/handler_helpers.go\<close>). An update expression
  is cut into its \<open>SET\<close>, \<open>REMOVE\<close>, \<open>ADD\<close> and \<open>DELETE\<close> sections and gives a map from attribute names (or
  the text of a nested path) to operations. The definitions are polymorphic in the values of
  \<open>ExpressionAttributeValues\<close>: the storage applies the operations to values in memory that may be
  shared, the theory \<open>Ddb_Heap\<close>.
\<close>

section \<open>Splitting\<close>

definition depth_step :: "char \<Rightarrow> int \<Rightarrow> int" where
  "depth_step c d = (if c = CHR ''('' then d + 1 else if c = CHR '')'' then d - 1 else d)"

text \<open>At every comma outside parentheses.\<close>

fun splitCommas :: "int \<Rightarrow> string \<Rightarrow> string list" where
  "splitCommas d [] = [[]]"
| "splitCommas d (c # cs) =
     (if c = CHR '','' \<and> d = 0 then [] # splitCommas d cs
      else case splitCommas (depth_step c d) cs of [] \<Rightarrow> [[c]] | w # ws \<Rightarrow> (c # w) # ws)"

definition splitSetAssignments :: "string \<Rightarrow> string list" where
  "splitSetAssignments s = splitCommas 0 s"

fun closeFrom :: "int \<Rightarrow> nat \<Rightarrow> string \<Rightarrow> nat option" where
  "closeFrom d i [] = None"
| "closeFrom d i (c # cs) =
     (if c = CHR '')'' \<and> d = 1 then Some i else closeFrom (depth_step c d) (i + 1) cs)"

text \<open>\<open>findClose\<close>; -1 is \<open>None\<close>\<close>

definition findClose :: "string \<Rightarrow> nat \<Rightarrow> nat option" where
  "findClose s idx = closeFrom 0 idx (drop idx s)"

fun firstComma :: "int \<Rightarrow> nat \<Rightarrow> string \<Rightarrow> nat option" where
  "firstComma d i [] = None"
| "firstComma d i (c # cs) = (if c = CHR '','' \<and> d = 0 then Some i else firstComma (depth_step c d) (i + 1) cs)"

definition splitTwoArgs :: "string \<Rightarrow> (string \<times> string) option" where
  "splitTwoArgs s = map_option (\<lambda>i. (strings_TrimSpace (take i s), strings_TrimSpace (drop (i + 1) s))) (firstComma 0 0 s)"

section \<open>Operations\<close>

datatype 'v setOperand =
    setLiteral 'v
  | setAttrRef "projSegment list"
  | ifNotExistsOp "projSegment list" "'v setOperand"

datatype 'v setValue =
    SetPlain 'v
  | SetIfNotExists "projSegment list" "'v setOperand"
  | SetListAppend "'v setOperand" "'v setOperand"

datatype 'v updateOp =
    OpSet "'v setValue"
  | OpRemove
  | OpAdd 'v
  | OpDelete 'v
  | OpNestedSet "projSegment list" "'v setValue"
  | OpNestedRemove "projSegment list"

type_synonym 'v updates = "(string \<times> 'v updateOp) list"

definition valueRef :: "(string \<times> 'v) list \<Rightarrow> string \<Rightarrow> (update_error, 'v) res" where
  "valueRef vals r = (case map_of vals r of None \<Rightarrow> Err (UValueMissing r) | Some v \<Rightarrow> Ok v)"

text \<open>
  \<open>parseIfNotExists\<close> and \<open>parseOperand\<close> call each other on arguments of the call, which are shorter; an
  argument of \<open>if_not_exists\<close> may not be another one, so two levels are all there are.
\<close>

function parseIfNotExists :: "smap \<Rightarrow> (string \<times> 'v) list \<Rightarrow> string \<Rightarrow> (update_error, projSegment list \<times> 'v setOperand) res"
  and parseSetOperand :: "smap \<Rightarrow> (string \<times> 'v) list \<Rightarrow> string \<Rightarrow> (update_error, 'v setOperand) res" where
  "parseIfNotExists names vals rhs =
     (let openIdx = length ''if_not_exists''
      in case findClose rhs openIdx of
           None \<Rightarrow> Err (UInvalidIfNotExists rhs)
         | Some closeIdx \<Rightarrow>
             if closeIdx + 1 \<noteq> length rhs then Err (UInvalidIfNotExists rhs)
             else case splitTwoArgs (take (closeIdx - (openIdx + 1)) (drop (openIdx + 1) rhs)) of
                    None \<Rightarrow> Err (UInvalidIfNotExists rhs)
                  | Some (pathStr, operandStr) \<Rightarrow>
                      if has_prefix '':'' pathStr \<or> CHR ''('' \<in> set pathStr then Err (UInvalidIfNotExists pathStr)
                      else if has_prefix ''if_not_exists('' operandStr then Err (UInvalidIfNotExists operandStr)
                      else andThen (mapErr UPath (parseUpdatePath pathStr names)) (\<lambda>segs.
                             if length operandStr < length rhs
                             then mapOk (\<lambda>op. (segs, op)) (parseSetOperand names vals operandStr) else Panic))"
| "parseSetOperand names vals ref =
     (if has_prefix '':'' ref then mapOk setLiteral (valueRef vals ref)
      else if has_prefix ''if_not_exists('' ref then mapOk (\<lambda>(segs, op). ifNotExistsOp segs op) (parseIfNotExists names vals ref)
      else mapOk setAttrRef (mapErr UPath (parseUpdatePath ref names)))"
  by pat_completeness auto
termination
  by (relation "measures [\<lambda>x. case x of Inl a \<Rightarrow> length (snd (snd a)) | Inr a \<Rightarrow> length (snd (snd a)),
        \<lambda>x. case x of Inl a \<Rightarrow> 0 | Inr a \<Rightarrow> 1]") auto

declare parseIfNotExists.simps [simp del] parseSetOperand.simps [simp del]

definition parseListAppend :: "smap \<Rightarrow> (string \<times> 'v) list \<Rightarrow> string \<Rightarrow> (update_error, 'v setValue) res" where
  "parseListAppend names vals rhs =
     (let openIdx = length ''list_append''
      in case findClose rhs openIdx of
           None \<Rightarrow> Err (UInvalidListAppend rhs)
         | Some closeIdx \<Rightarrow>
             if closeIdx + 1 \<noteq> length rhs then Err (UInvalidListAppend rhs)
             else case splitTwoArgs (take (closeIdx - (openIdx + 1)) (drop (openIdx + 1) rhs)) of
                    None \<Rightarrow> Err (UInvalidListAppend rhs)
                  | Some (l, r) \<Rightarrow>
                      andThen (parseSetOperand names vals l) (\<lambda>left.
                        mapOk (SetListAppend left) (parseSetOperand names vals r)))"

definition parseSetValue :: "smap \<Rightarrow> (string \<times> 'v) list \<Rightarrow> string \<Rightarrow> (update_error, 'v setValue) res" where
  "parseSetValue names vals rhs =
     (if has_prefix ''if_not_exists('' rhs then mapOk (\<lambda>(segs, op). SetIfNotExists segs op) (parseIfNotExists names vals rhs)
      else if has_prefix ''list_append('' rhs then parseListAppend names vals rhs
      else mapOk SetPlain (valueRef vals rhs))"

definition parseAssignment :: "smap \<Rightarrow> (string \<times> 'v) list \<Rightarrow> 'v updates \<Rightarrow> string \<Rightarrow> (update_error, 'v updates) res" where
  "parseAssignment names vals ups assignment =
     (case cut ''='' (strings_TrimSpace assignment) of
        None \<Rightarrow> Err (UInvalidClause ''SET'' assignment)
      | Some (l, r) \<Rightarrow>
          let lhs = strings_TrimSpace l; rhs = strings_TrimSpace r
          in andThen (mapErr UPath (parseUpdatePath lhs names)) (\<lambda>segs.
             andThen (parseSetValue names vals rhs) (\<lambda>v.
               if length segs = 1 then Ok (AList.update (attr (hd segs)) (OpSet v) ups)
               else Ok (AList.update lhs (OpNestedSet segs v) ups))))"

definition parseRemoval :: "smap \<Rightarrow> 'v updates \<Rightarrow> string \<Rightarrow> (update_error, 'v updates) res" where
  "parseRemoval names ups token =
     (let t = strings_TrimSpace token
      in andThen (mapErr UPath (parseUpdatePath t names)) (\<lambda>segs.
           if length segs = 1 then Ok (AList.update (attr (hd segs)) OpRemove ups)
           else Ok (AList.update t (OpNestedRemove segs) ups)))"

text \<open>\<open>ADD\<close> and \<open>DELETE\<close> pairs: a name and a value reference.\<close>

definition parsePair :: "string \<Rightarrow> ('v \<Rightarrow> 'v updateOp) \<Rightarrow> smap \<Rightarrow> (string \<times> 'v) list \<Rightarrow> 'v updates \<Rightarrow> string
    \<Rightarrow> (update_error, 'v updates) res" where
  "parsePair kw mk names vals ups pair =
     (case strings_Fields (strings_TrimSpace pair) of
        [n, r] \<Rightarrow>
          andThen (mapErr UPath (resolveAttrName n names)) (\<lambda>name.
            mapOk (\<lambda>v. AList.update name (mk v) ups) (valueRef vals r))
      | _ \<Rightarrow> Err (UInvalidClause kw pair))"

definition updateExprKeywords :: "string list" where
  "updateExprKeywords = [''SET'', ''REMOVE'', ''ADD'', ''DELETE'']"

text \<open>The section of a keyword: from its first occurrence to the next occurrence of any keyword.\<close>

definition sectionOf :: "string \<Rightarrow> string \<Rightarrow> (string \<times> string) list" where
  "sectionOf expr kw =
     (let up = strings_ToUpper expr
      in case strings_Index up (kw @ '' '') of
           None \<Rightarrow> []
         | Some idx \<Rightarrow>
             let from = idx + length kw + 1;
                 cands = List.map_filter (\<lambda>kw2. map_option ((+) from) (strings_Index (drop from up) (kw2 @ '' ''))) updateExprKeywords;
                 end = foldl min (length expr) cands
             in [(kw, strings_TrimSpace (take (end - from) (drop from expr)))])"

definition parseSection :: "smap \<Rightarrow> (string \<times> 'v) list \<Rightarrow> 'v updates \<Rightarrow> string \<times> string \<Rightarrow> (update_error, 'v updates) res" where
  "parseSection names vals ups sec =
     (case sec of (kw, content) \<Rightarrow>
        if kw = ''SET'' then foldRes (parseAssignment names vals) ups (splitSetAssignments content)
        else if kw = ''REMOVE'' then foldRes (parseRemoval names) ups (split_char (CHR '','') content)
        else if kw = ''ADD'' then foldRes (parsePair ''ADD'' OpAdd names vals) ups (split_char (CHR '','') content)
        else foldRes (parsePair ''DELETE'' OpDelete names vals) ups (split_char (CHR '','') content))"

definition parseUpdateExpression :: "string \<Rightarrow> smap \<Rightarrow> (string \<times> 'v) list \<Rightarrow> (update_error, 'v updates) res" where
  "parseUpdateExpression expr names vals =
     (let sections = concat (map (sectionOf expr) updateExprKeywords)
      in if sections = [] then Err (UUnsupportedExpression expr)
         else foldRes (parseSection names vals) [] sections)"

section \<open>Key conditions\<close>

record SortKeyCondition =
  sk_Name :: string
  sk_Operator :: string
  sk_Value :: gany
  sk_Value2 :: gany

definition skCond :: "string \<Rightarrow> string \<Rightarrow> gany \<Rightarrow> gany \<Rightarrow> SortKeyCondition" where
  "skCond n op v w = \<lparr>sk_Name = n, sk_Operator = op, sk_Value = v, sk_Value2 = w\<rparr>"

definition parseSortKeyCondition :: "string \<Rightarrow> smap \<Rightarrow> gmap \<Rightarrow> (update_error, SortKeyCondition) res" where
  "parseSortKeyCondition expr names vals =
     (if has_prefix ''begins_with('' expr then
        (case cut '','' (strings_TrimSuffix (strings_TrimPrefix expr ''begins_with('') '')'') of
           None \<Rightarrow> Err (UInvalidBeginsWith expr)
         | Some (a, b) \<Rightarrow>
             andThen (mapErr UPath (resolveAttrName (strings_TrimSpace a) names)) (\<lambda>skName.
               mapOk (\<lambda>v. skCond skName ''begins_with'' v GNil) (valueRef vals (strings_TrimSpace b))))
      else
        (case strings_Fields expr of
           [n, op, r] \<Rightarrow>
             andThen (mapErr UPath (resolveAttrName n names)) (\<lambda>skName.
               if op \<notin> {''='', ''<'', ''<='', ''>'', ''>=''} then Err (UUnsupportedSortOperator op)
               else mapOk (\<lambda>v. skCond skName op v GNil) (valueRef vals r))
         | [n, b, lo, a, hi] \<Rightarrow>
             if strings_ToUpper b = ''BETWEEN'' \<and> strings_ToUpper a = ''AND'' then
               andThen (mapErr UPath (resolveAttrName n names)) (\<lambda>skName.
                 andThen (valueRef vals lo) (\<lambda>l. mapOk (\<lambda>h. skCond skName ''BETWEEN'' l h) (valueRef vals hi)))
             else Err (UUnsupportedSortCondition expr)
         | _ \<Rightarrow> Err (UUnsupportedSortCondition expr)))"

definition parseKeyConditionExpression ::
  "string \<Rightarrow> smap \<Rightarrow> gmap \<Rightarrow> (update_error, string \<times> gany \<times> SortKeyCondition option) res" where
  "parseKeyConditionExpression expr names vals =
     (let (first, more) = (case cut '' AND '' (strings_TrimSpace expr) of
                             None \<Rightarrow> (strings_TrimSpace expr, None) | Some (a, b) \<Rightarrow> (a, Some b))
      in case strings_Fields (strings_TrimSpace first) of
           [n, eq, r] \<Rightarrow>
             if eq \<noteq> ''='' then Err (UUnsupportedKeyCondition expr)
             else andThen (mapErr UPath (resolveAttrName n names)) (\<lambda>name.
                  andThen (valueRef vals r) (\<lambda>v.
                    case more of
                      None \<Rightarrow> Ok (name, v, None)
                    | Some sk \<Rightarrow> mapOk (\<lambda>c. (name, v, Some c)) (parseSortKeyCondition (strings_TrimSpace sk) names vals)))
         | _ \<Rightarrow> Err (UUnsupportedKeyCondition expr))"

end
