(* ===== verification/Ddb_Heap.thy ===== *)
theory Ddb_Heap
  imports Ddb_Update
begin

text \<open>
  Values in memory and the update operations on them (\<open>internal/dynamodb/storage_item.go\<close> and the
  operations of \<open>handler_helpers.go\<close>). Go maps are references: \<open>UpdateItem\<close> copies only the top level of an
  item before it changes nested maps in place, and \<open>if_not_exists\<close> stores a reference to an existing
  value. So the model keeps maps in a heap and values hold their addresses. A list value is kept in
  the map that holds it: the code writes its elements and its length only through that map.
\<close>

section \<open>The heap\<close>

datatype hval = HNil | HBool bool | HNum string | HStr string | HSlice "hval list" | HRef nat

type_synonym hmap = "(string \<times> hval) list"
type_synonym heap = "hmap list"

text \<open>Decoding allocates every map.\<close>

fun runAll :: "('s \<Rightarrow> 'a \<times> 's) list \<Rightarrow> 's \<Rightarrow> 'a list \<times> 's" where
  "runAll [] s = ([], s)"
| "runAll (f # fs) s = (case f s of (x, s1) \<Rightarrow> case runAll fs s1 of (xs, s2) \<Rightarrow> (x # xs, s2))"

primrec store :: "gany \<Rightarrow> heap \<Rightarrow> hval \<times> heap" where
  "store GNil = (\<lambda>h. (HNil, h))"
| "store (GBool b) = (\<lambda>h. (HBool b, h))"
| "store (GNum s) = (\<lambda>h. (HNum s, h))"
| "store (GStr s) = (\<lambda>h. (HStr s, h))"
| "store (GSlice xs) = (\<lambda>h. case runAll (map store xs) h of (vs, h') \<Rightarrow> (HSlice vs, h'))"
| "store (GMap m) =
     (\<lambda>h. case runAll (map snd (map (map_prod id store) m)) h of
            (vs, h') \<Rightarrow> (HRef (length h'), h' @ [zip (map fst m) vs]))"

definition storeMap :: "gmap \<Rightarrow> heap \<Rightarrow> nat \<times> heap" where
  "storeMap m h = (case store (GMap m) h of (_, h') \<Rightarrow> (length h' - 1, h'))"

text \<open>
  What \<open>json.Marshal\<close> sees of a value: the tree below it, or nothing when it runs into a cycle. A
  path without a repeated map passes through at most as many maps as the heap has, so the depth
  may be bounded by that number.
\<close>

fun load :: "nat \<Rightarrow> heap \<Rightarrow> hval \<Rightarrow> gany option"
  and loads :: "nat \<Rightarrow> heap \<Rightarrow> hval list \<Rightarrow> gany list option" where
  "load n h HNil = Some GNil"
| "load n h (HBool b) = Some (GBool b)"
| "load n h (HNum s) = Some (GNum s)"
| "load n h (HStr s) = Some (GStr s)"
| "load n h (HSlice xs) = map_option GSlice (loads n h xs)"
| "load 0 h (HRef a) = None"
| "load (Suc n) h (HRef a) =
     (if a < length h then map_option (\<lambda>vs. GMap (zip (map fst (h ! a)) vs)) (loads n h (map snd (h ! a))) else None)"
| "loads n h [] = Some []"
| "loads n h (x # xs) =
     (case load n h x of None \<Rightarrow> None | Some v \<Rightarrow> map_option ((#) v) (loads n h xs))"

definition loadMap :: "heap \<Rightarrow> nat \<Rightarrow> gmap option" where
  "loadMap h a = (case load (length h) h (HRef a) of Some (GMap m) \<Rightarrow> Some m | _ \<Rightarrow> None)"

definition mget :: "heap \<Rightarrow> nat \<Rightarrow> string \<Rightarrow> hval option" where
  "mget h a k = (if a < length h then map_of (h ! a) k else None)"

definition mput :: "nat \<Rightarrow> string \<Rightarrow> hval \<Rightarrow> heap \<Rightarrow> heap" where
  "mput a k v h = (if a < length h then h[a := AList.update k v (h ! a)] else h)"

definition mdel :: "nat \<Rightarrow> string \<Rightarrow> heap \<Rightarrow> heap" where
  "mdel a k h = (if a < length h then h[a := AList.delete k (h ! a)] else h)"

text \<open>\<open>item[attr]\<close>: nil when there is none\<close>

definition mget0 :: "heap \<Rightarrow> nat \<Rightarrow> string \<Rightarrow> hval" where
  "mget0 h a k = (case mget h a k of None \<Rightarrow> HNil | Some v \<Rightarrow> v)"

definition href :: "hval \<Rightarrow> nat option" where
  "href v = (case v of HRef a \<Rightarrow> Some a | _ \<Rightarrow> None)"

definition hslice :: "hval \<Rightarrow> hval list option" where
  "hslice v = (case v of HSlice xs \<Rightarrow> Some xs | _ \<Rightarrow> None)"

definition hstr :: "hval \<Rightarrow> string option" where
  "hstr v = (case v of HStr s \<Rightarrow> Some s | _ \<Rightarrow> None)"

text \<open>A map literal \<open>map[string]any{k: v}\<close>\<close>

definition newMap :: "hmap \<Rightarrow> heap \<Rightarrow> hval \<times> heap" where
  "newMap m h = (HRef (length h), h @ [m])"

section \<open>Nested paths\<close>

fun setAtDynamoValue :: "hval \<Rightarrow> projSegment list \<Rightarrow> hval \<Rightarrow> heap \<Rightarrow> (update_error, heap) res" where
  "setAtDynamoValue dv [] v h = Panic"
| "setAtDynamoValue dv (seg # rest) v h =
     (case href dv of
        None \<Rightarrow> Panic
      | Some m \<Rightarrow>
          if attr seg \<noteq> '''' then
            (case mget h m ''M'' of
               None \<Rightarrow> Err UInvalidDocumentPath
             | Some mRaw \<Rightarrow>
                 (case href mRaw of
                    None \<Rightarrow> Panic
                  | Some mm \<Rightarrow>
                      if rest = [] then Ok (mput mm (attr seg) v h)
                      else case mget h mm (attr seg) of
                             None \<Rightarrow> Err UInvalidDocumentPath
                           | Some child \<Rightarrow> setAtDynamoValue child rest v h))
          else
            (case mget h m ''L'' of
               None \<Rightarrow> Err UInvalidDocumentPath
             | Some lRaw \<Rightarrow>
                 (case hslice lRaw of
                    None \<Rightarrow> Panic
                  | Some l \<Rightarrow>
                      if rest = [] then
                        (if index seg < int (length l)
                         then (if index seg < 0 then Panic else Ok (mput m ''L'' (HSlice (l[nat (index seg) := v])) h))
                         else Ok (mput m ''L'' (HSlice (l @ [v])) h))
                      else if index seg \<ge> int (length l) then Err UInvalidDocumentPath
                      else if index seg < 0 then Panic
                      else setAtDynamoValue (l ! nat (index seg)) rest v h)))"

definition applyNestedSet :: "nat \<Rightarrow> projSegment list \<Rightarrow> hval \<Rightarrow> heap \<Rightarrow> (update_error, heap) res" where
  "applyNestedSet item segs v h =
     (case segs of
        [] \<Rightarrow> Panic
      | seg # rest \<Rightarrow>
          (case mget h item (attr seg) of
             None \<Rightarrow> Err UInvalidDocumentPath
           | Some parent \<Rightarrow> setAtDynamoValue parent rest v h))"

fun removeAtDynamoValue :: "hval \<Rightarrow> projSegment list \<Rightarrow> heap \<Rightarrow> (update_error, heap) res" where
  "removeAtDynamoValue dv [] h = Panic"
| "removeAtDynamoValue dv (seg # rest) h =
     (case href dv of
        None \<Rightarrow> Panic
      | Some m \<Rightarrow>
          if attr seg \<noteq> '''' then
            (case mget h m ''M'' of
               None \<Rightarrow> Ok h
             | Some mRaw \<Rightarrow>
                 (case href mRaw of
                    None \<Rightarrow> Panic
                  | Some mm \<Rightarrow>
                      if rest = [] then Ok (mdel mm (attr seg) h)
                      else case mget h mm (attr seg) of
                             None \<Rightarrow> Ok h
                           | Some child \<Rightarrow> removeAtDynamoValue child rest h))
          else
            (case mget h m ''L'' of
               None \<Rightarrow> Ok h
             | Some lRaw \<Rightarrow>
                 (case hslice lRaw of
                    None \<Rightarrow> Panic
                  | Some l \<Rightarrow>
                      if index seg \<ge> int (length l) then Ok h
                      else if index seg < 0 then Panic
                      else if rest = []
                      then Ok (mput m ''L'' (HSlice (take (nat (index seg)) l @ drop (nat (index seg) + 1) l)) h)
                      else removeAtDynamoValue (l ! nat (index seg)) rest h)))"

definition applyNestedRemove :: "nat \<Rightarrow> projSegment list \<Rightarrow> heap \<Rightarrow> (update_error, heap) res" where
  "applyNestedRemove item segs h =
     (case segs of
        [] \<Rightarrow> Panic
      | seg # rest \<Rightarrow>
          (case mget h item (attr seg) of
             None \<Rightarrow> Ok h
           | Some parent \<Rightarrow> removeAtDynamoValue parent rest h))"

fun walkUpdate :: "heap \<Rightarrow> projSegment list \<Rightarrow> hval \<Rightarrow> (update_error, hval) res" where
  "walkUpdate h [] v = Ok v"
| "walkUpdate h (seg # segs) v =
     (case href v of
        None \<Rightarrow> Panic
      | Some m \<Rightarrow>
          if attr seg \<noteq> '''' then
            (case mget h m ''M'' of
               None \<Rightarrow> Ok HNil
             | Some mRaw \<Rightarrow>
                 (case href mRaw of
                    None \<Rightarrow> Panic
                  | Some mm \<Rightarrow> (case mget h mm (attr seg) of None \<Rightarrow> Ok HNil | Some w \<Rightarrow> walkUpdate h segs w)))
          else
            (case mget h m ''L'' of
               None \<Rightarrow> Ok HNil
             | Some lRaw \<Rightarrow>
                 (case hslice lRaw of
                    None \<Rightarrow> Panic
                  | Some l \<Rightarrow>
                      if index seg \<ge> int (length l) then Ok HNil
                      else if index seg < 0 then Panic
                      else walkUpdate h segs (l ! nat (index seg)))))"

definition resolveUpdatePath :: "heap \<Rightarrow> nat \<Rightarrow> projSegment list \<Rightarrow> (update_error, hval) res" where
  "resolveUpdatePath h item segs =
     (case segs of
        [] \<Rightarrow> Ok HNil
      | seg # rest \<Rightarrow> (case mget h item (attr seg) of None \<Rightarrow> Ok HNil | Some v \<Rightarrow> walkUpdate h rest v))"

section \<open>Operations\<close>

fun resolveSet :: "hval setOperand \<Rightarrow> heap \<Rightarrow> nat \<Rightarrow> (update_error, hval) res" where
  "resolveSet (setLiteral v) h item = Ok v"
| "resolveSet (setAttrRef segs) h item = resolveUpdatePath h item segs"
| "resolveSet (ifNotExistsOp segs operand) h item =
     andThen (resolveUpdatePath h item segs) (\<lambda>v. if v \<noteq> HNil then Ok v else resolveSet operand h item)"

definition toListAttr :: "heap \<Rightarrow> string \<Rightarrow> hval \<Rightarrow> (update_error, hval list) res" where
  "toListAttr h side v =
     (case href v of
        None \<Rightarrow> Err (UNotList side)
      | Some m \<Rightarrow> (case hslice (mget0 h m ''L'') of None \<Rightarrow> Err (UNotList side) | Some l \<Rightarrow> Ok l))"

definition applyListAppendOp :: "hval setOperand \<Rightarrow> hval setOperand \<Rightarrow> nat \<Rightarrow> heap \<Rightarrow> (update_error, hval \<times> heap) res" where
  "applyListAppendOp l r item h =
     andThen (resolveSet l h item) (\<lambda>lv.
     andThen (toListAttr h ''left'' lv) (\<lambda>ll.
     andThen (resolveSet r h item) (\<lambda>rv.
     andThen (toListAttr h ''right'' rv) (\<lambda>rl. Ok (newMap [(''L'', HSlice (ll @ rl))] h)))))"

text \<open>The text of a value for the set operations; a value with a cycle has the empty text.\<close>

definition hjson :: "heap \<Rightarrow> hval \<Rightarrow> string" where
  "hjson h v = (case load (length h) h v of None \<Rightarrow> '''' | Some g \<Rightarrow> json_Marshal g)"

fun addNew :: "heap \<Rightarrow> string list \<Rightarrow> hval list \<Rightarrow> hval list" where
  "addNew h seen [] = []"
| "addNew h seen (v # vs) = (if hjson h v \<in> set seen then addNew h seen vs else v # addNew h (hjson h v # seen) vs)"

definition setUnion :: "heap \<Rightarrow> hval list \<Rightarrow> hval list \<Rightarrow> hval list" where
  "setUnion h a b = addNew h [] (a @ b)"

definition setDifference :: "heap \<Rightarrow> hval list \<Rightarrow> hval list \<Rightarrow> hval list" where
  "setDifference h a b = filter (\<lambda>v. hjson h v \<notin> set (map (hjson h) b)) a"

definition applyAddNumber :: "hval \<Rightarrow> string \<Rightarrow> heap \<Rightarrow> (update_error, hval \<times> heap) res" where
  "applyAddNumber current dn h =
     (case strconv_ParseFloat dn of
        (dv, True) \<Rightarrow> Err (UAddNumber dn)
      | (dv, False) \<Rightarrow>
          if current = HNil then Ok (newMap [(''N'', HStr (strconv_FormatFloat (fadd (FNum False 0 0) dv)))] h)
          else (case href current of
                  None \<Rightarrow> Err UAddNotTyped
                | Some cm \<Rightarrow>
                    (case hstr (mget0 h cm ''N'') of
                       None \<Rightarrow> Err UAddNotNumber
                     | Some cn \<Rightarrow>
                         (case strconv_ParseFloat cn of
                            (cv, True) \<Rightarrow> Err (UAddExisting cn)
                          | (cv, False) \<Rightarrow> Ok (newMap [(''N'', HStr (strconv_FormatFloat (fadd cv dv)))] h)))))"

definition setKeyOf :: "heap \<Rightarrow> nat \<Rightarrow> string option" where
  "setKeyOf h dm = find (\<lambda>k. mget h dm k \<noteq> None) [''SS'', ''NS'', ''BS'']"

text \<open>\<open>deltaSlice, _ := deltaElems.([]any)\<close>\<close>

definition sliceOr :: "hval \<Rightarrow> hval list" where
  "sliceOr v = (case hslice v of None \<Rightarrow> [] | Some l \<Rightarrow> l)"

definition applyAddOp :: "hval \<Rightarrow> hval \<Rightarrow> heap \<Rightarrow> (update_error, hval \<times> heap) res" where
  "applyAddOp current delta h =
     (case href delta of
        None \<Rightarrow> Err UAddDelta
      | Some dm \<Rightarrow>
          (case hstr (mget0 h dm ''N'') of
             Some dn \<Rightarrow> applyAddNumber current dn h
           | None \<Rightarrow>
               (case setKeyOf h dm of
                  None \<Rightarrow> Err UAddType
                | Some k \<Rightarrow>
                    let deltaSlice = sliceOr (mget0 h dm k)
                    in if current = HNil then Ok (newMap [(k, HSlice (setUnion h [] deltaSlice))] h)
                       else (case href current of
                               None \<Rightarrow> Err UAddNotTyped
                             | Some cm \<Rightarrow>
                                 (case hslice (mget0 h cm k) of
                                    None \<Rightarrow> Err (UAddMismatch k)
                                  | Some ce \<Rightarrow> Ok (newMap [(k, HSlice (setUnion h ce deltaSlice))] h))))))"

text \<open>\<open>HNil\<close>: the attribute is removed.\<close>

definition applyDeleteOp :: "hval \<Rightarrow> hval \<Rightarrow> heap \<Rightarrow> (update_error, hval \<times> heap) res" where
  "applyDeleteOp current delta h =
     (if current = HNil then Ok (HNil, h)
      else case href delta of
        None \<Rightarrow> Err UDeleteDelta
      | Some dm \<Rightarrow>
          (case setKeyOf h dm of
             None \<Rightarrow> Err UDeleteType
           | Some k \<Rightarrow>
               (case href current of
                  None \<Rightarrow> Err UDeleteNotTyped
                | Some cm \<Rightarrow>
                    (case hslice (mget0 h cm k) of
                       None \<Rightarrow> Err (UDeleteMismatch k)
                     | Some ce \<Rightarrow>
                         let result = setDifference h ce (sliceOr (mget0 h dm k))
                         in if result = [] then Ok (HNil, h) else Ok (newMap [(k, HSlice result)] h)))))"

definition resolveSetValue :: "hval setValue \<Rightarrow> nat \<Rightarrow> heap \<Rightarrow> (update_error, hval \<times> heap) res" where
  "resolveSetValue sv item h =
     (case sv of
        SetPlain v \<Rightarrow> Ok (v, h)
      | SetIfNotExists segs operand \<Rightarrow> mapOk (\<lambda>v. (v, h)) (resolveSet (ifNotExistsOp segs operand) h item)
      | SetListAppend l r \<Rightarrow> applyListAppendOp l r item h)"

text \<open>
  One turn of the loop over the updates. A plain value that is nil (a JSON null) removes the
  attribute like \<open>REMOVE\<close>; a value that \<open>if_not_exists\<close> resolves to nil is stored.
\<close>

definition applyUpdate :: "nat \<Rightarrow> heap \<Rightarrow> string \<times> hval updateOp \<Rightarrow> (update_error, heap) res" where
  "applyUpdate item h u =
     (case u of (a, op) \<Rightarrow>
        (case op of
           OpRemove \<Rightarrow> Ok (mdel item a h)
         | OpAdd d \<Rightarrow> mapOk (\<lambda>(v, h'). mput item a v h') (applyAddOp (mget0 h item a) d h)
         | OpDelete d \<Rightarrow>
             mapOk (\<lambda>(v, h'). if v = HNil then mdel item a h' else mput item a v h') (applyDeleteOp (mget0 h item a) d h)
         | OpSet sv \<Rightarrow>
             if sv = SetPlain HNil then Ok (mdel item a h)
             else mapOk (\<lambda>(v, h'). mput item a v h') (resolveSetValue sv item h)
         | OpNestedSet segs sv \<Rightarrow> andThen (resolveSetValue sv item h) (\<lambda>(v, h'). applyNestedSet item segs v h')
         | OpNestedRemove segs \<Rightarrow> applyNestedRemove item segs h))"

definition applyUpdates :: "nat \<Rightarrow> hval updates \<Rightarrow> heap \<Rightarrow> (update_error, heap) res" where
  "applyUpdates item ups h = foldRes (applyUpdate item) h ups"

end
