(* ===== verification/Ddb_Streams.thy ===== *)
theory Ddb_Streams
  imports Ddb_Heap
begin

text \<open>
  DynamoDB Streams (\<open>internal/dynamodb/storage_streams.go\<close>): one buffer of change records per table in
  memory, a file with one JSON line per record, their loading and trimming, and the readers. A
  shard iterator is the decoded state that its token carries (\<open>None\<close> for a token that does not
  decode). Times are nanoseconds since the epoch.
\<close>

definition streamRetentionPeriod :: int where
  "streamRetentionPeriod = 24 * 3600 * 1000000000"

section \<open>Labels\<close>

text \<open>The date of a day number: \<open>time.Time.Date\<close> for the proleptic Gregorian calendar.\<close>

definition civil :: "int \<Rightarrow> int \<times> int \<times> int" where
  "civil days =
     (let z = days + 719468; era = z div 146097; doe = z - era * 146097;
          yoe = (doe - doe div 1460 + doe div 36524 - doe div 146096) div 365;
          doy = doe - (365 * yoe + yoe div 4 - yoe div 100);
          mp = (5 * doy + 2) div 153;
          d = doy - (153 * mp + 2) div 5 + 1;
          m = (if mp < 10 then mp + 3 else mp - 9)
      in (yoe + era * 400 + (if m \<le> 2 then 1 else 0), m, d))"

definition digits :: "nat \<Rightarrow> int \<Rightarrow> string" where
  "digits n i = pad_left n (dec_str i)"

text \<open>\<open>time.Now().UTC().Format("2006-01-02T15:04:05.000000000")\<close>\<close>

definition newStreamLabel :: "int \<Rightarrow> string" where
  "newStreamLabel t =
     (let secs = t div 1000000000; days = secs div 86400; r = secs mod 86400; (y, m, d) = civil days
      in digits 4 y @ ''-'' @ digits 2 m @ ''-'' @ digits 2 d @ ''T'' @ digits 2 (r div 3600) @ '':''
         @ digits 2 (r mod 3600 div 60) @ '':'' @ digits 2 (r mod 60) @ ''.'' @ digits 9 (t mod 1000000000))"

definition streamARN :: "string \<Rightarrow> string \<Rightarrow> string" where
  "streamARN name label = ''arn:aws:dynamodb:us-east-1:000000000000:table/'' @ name @ ''/stream/'' @ label"

definition shardID :: "(string \<Rightarrow> string) \<Rightarrow> string \<Rightarrow> string \<Rightarrow> string" where
  "shardID h name label = ''shardId-00000000000000000001-'' @ take 8 (h (name @ ''-'' @ label))"

definition parseStreamARN :: "string \<Rightarrow> (string \<times> string) option" where
  "parseStreamARN arn =
     (let n = length ''arn:aws:dynamodb:us-east-1:000000000000:table/''
      in if length arn \<le> n then None
         else case cut ''/stream/'' (drop n arn) of
                None \<Rightarrow> None
              | Some (name, label) \<Rightarrow> if name = '''' \<or> label = '''' then None else Some (name, label))"

definition hex_pad :: "nat \<Rightarrow> 64 word \<Rightarrow> string" where
  "hex_pad n w = (let bs = map (\<lambda>i. (ucast (drop_bit (8 * i) w) :: u8)) (rev [0..<8]);
                      t = dropWhile (\<lambda>c. c = CHR ''0'') (hex bs)
                  in pad_left n (if t = [] then ''0'' else t))"

definition seqNumStr :: "64 word \<Rightarrow> string" where
  "seqNumStr w = pad_left 21 (dec_str (uint w))"

text \<open>\<open>strconv.ParseUint(s, 10, 64)\<close>\<close>

definition parseSeqNum :: "string \<Rightarrow> (64 word) option" where
  "parseSeqNum s =
     (if s = '''' then None
      else case digits_val 0 s of None \<Rightarrow> None | Some n \<Rightarrow> if n < 2 ^ 64 then Some (of_nat n) else None)"

section \<open>Stream files\<close>

text \<open>The lines of a stream file; an empty file has none.\<close>

definition streamLines :: "ddb_content option \<Rightarrow> streamLine list option" where
  "streamLines c = (case c of None \<Rightarrow> Some [] | Some (CStream ls) \<Rightarrow> Some ls | Some _ \<Rightarrow> None)"

definition appendToStreamFile :: "string \<Rightarrow> streamRecord \<Rightarrow> ddb \<Rightarrow> ddb" where
  "appendToStreamFile name rec s =
     (let p = streamFilePath name; line = (if d_fault s OpWrite p then LTorn else LRecord rec)
      in if d_fault s OpCreate p \<or> escapes p then s
         else case root_walk s (butlast p) of
                Inr Dir \<Rightarrow>
                  (case look s p of
                     None \<Rightarrow> put p (File (Some (CStream [line]))) s
                   | Some Dir \<Rightarrow> s
                   | Some (File c) \<Rightarrow>
                       (case streamLines c of
                          Some ls \<Rightarrow> put p (File (Some (CStream (ls @ [line])))) s
                        | None \<Rightarrow> put p (File None) s))
              | _ \<Rightarrow> s)"

text \<open>The removal and the writes whose errors are only logged.\<close>

definition removeQuietly :: "path \<Rightarrow> ddb \<Rightarrow> ddb" where
  "removeQuietly p s = snd (root_Remove p s)"

text \<open>Whether \<open>OpenFile\<close> with \<open>O_CREATE\<close> succeeds.\<close>

definition opens :: "path \<Rightarrow> ddb \<Rightarrow> bool" where
  "opens p s \<longleftrightarrow> \<not> d_fault s OpCreate p \<and> \<not> escapes p \<and> root_walk s (butlast p) = Inr Dir \<and> look s p \<noteq> Some Dir"

definition streamTempPath :: "string \<Rightarrow> path" where
  "streamTempPath name = filepath_Join [name @ ''.stream.jsonl'' @ ''.tmp'']"

definition rewriteStreamFile :: "string \<Rightarrow> streamRecord list \<Rightarrow> ddb \<Rightarrow> ddb" where
  "rewriteStreamFile name recs s =
     (if recs = [] then removeQuietly (streamFilePath name) s
      else let tmp = streamTempPath name
           in if \<not> opens tmp s then s
              else case root_WriteFile tmp (CStream (map LRecord recs)) s of
                     (Some e, s1) \<Rightarrow> removeQuietly tmp s1
                   | (None, s1) \<Rightarrow>
                       (case root_Rename tmp (streamFilePath name) s1 of
                          (None, s2) \<Rightarrow> s2
                        | (Some e, s2) \<Rightarrow> removeQuietly tmp s2))"

text \<open>
  The records that decode, and whether a line did not: a torn line has no end, so that the record
  appended after it is on the same line and is lost with it.
\<close>

fun goodLines :: "bool \<Rightarrow> streamLine list \<Rightarrow> streamRecord list \<times> bool" where
  "goodLines torn [] = ([], torn)"
| "goodLines torn (LTorn # ls) = goodLines True ls"
| "goodLines torn (LRecord r # ls) =
     (case goodLines False ls of (rs, bad) \<Rightarrow> if torn then (rs, True) else (r # rs, bad))"

definition loadStreamRecordsFromDisk :: "string \<Rightarrow> ddb \<Rightarrow> streamRecord list \<times> ddb" where
  "loadStreamRecordsFromDisk name s =
     (case root_ReadFile s (streamFilePath name) of
        Inl e \<Rightarrow> ([], s)
      | Inr c \<Rightarrow>
          (case streamLines c of
             None \<Rightarrow> ([], removeQuietly (streamFilePath name) s)
           | Some ls \<Rightarrow>
               let (rs, bad) = goodLines False ls; cutoff = clock s - streamRetentionPeriod;
                   keep = filter (\<lambda>r. sr_CreatedAt r > cutoff) rs
               in (keep, if bad \<or> length keep \<noteq> length rs then rewriteStreamFile name keep s else s)))"

section \<open>Buffers\<close>

definition ensureStreamBuffer :: "string \<Rightarrow> string \<Rightarrow> ddb \<Rightarrow> ddb" where
  "ensureStreamBuffer name label s =
     (case map_of (streams s) name of
        Some _ \<Rightarrow> s
      | None \<Rightarrow>
          (case loadStreamRecordsFromDisk name s of
             (recs, s1) \<Rightarrow>
               s1\<lparr>streams := AList.update name \<lparr>sb_label = label, sb_shardID = shardID (md5hex s) name label, sb_records = recs\<rparr> (streams s1)\<rparr>))"

definition getStreamBuffer :: "ddb \<Rightarrow> string \<Rightarrow> streamBuffer option" where
  "getStreamBuffer s name = map_of (streams s) name"

definition deleteStreamBuffer :: "string \<Rightarrow> ddb \<Rightarrow> ddb" where
  "deleteStreamBuffer name s = removeQuietly (streamFilePath name) (s\<lparr>streams := AList.delete name (streams s)\<rparr>)"

text \<open>The images that a view type includes: the old one, the new one.\<close>

definition wantsOld :: "string \<Rightarrow> bool" where
  "wantsOld vt \<longleftrightarrow> vt \<notin> {''KEYS_ONLY'', ''NEW_IMAGE''}"

definition wantsNew :: "string \<Rightarrow> bool" where
  "wantsNew vt \<longleftrightarrow> vt \<notin> {''KEYS_ONLY'', ''OLD_IMAGE''}"

definition emitStreamRecord :: "string \<Rightarrow> string \<Rightarrow> string \<Rightarrow> gmap \<Rightarrow> gmap option \<Rightarrow> gmap option \<Rightarrow> ddb \<Rightarrow> ddb" where
  "emitStreamRecord name eventName viewType keys oldImage newImage s =
     (case getStreamBuffer s name of
        None \<Rightarrow> s
      | Some buf \<Rightarrow>
          let n = seqNum s + 1;
              rec = \<lparr>sr_EventID = hex_pad 32 n, sr_EventName = eventName, sr_Keys = keys,
                     sr_NewImage = (if wantsNew viewType then newImage else None),
                     sr_OldImage = (if wantsOld viewType then oldImage else None),
                     sr_SeqNum = n, sr_CreatedAt = clock s, sr_ViewType = viewType\<rparr>
          in appendToStreamFile name rec
               (s\<lparr>seqNum := n, streams := AList.update name (buf\<lparr>sb_records := sb_records buf @ [rec]\<rparr>) (streams s)\<rparr>))"

definition extractKeys :: "gmap \<Rightarrow> KeySchemaElement list \<Rightarrow> gmap" where
  "extractKeys item schema =
     foldl (\<lambda>m k. case map_of item (ks_AttributeName k) of None \<Rightarrow> m | Some v \<Rightarrow> AList.update (ks_AttributeName k) v m) [] schema"

definition streamOn :: "TableMetadata \<Rightarrow> bool" where
  "streamOn m = (case tm_StreamSpec m of None \<Rightarrow> False | Some sp \<Rightarrow> ss_StreamEnabled sp)"

definition viewType :: "TableMetadata \<Rightarrow> string" where
  "viewType m = (case tm_StreamSpec m of None \<Rightarrow> '''' | Some sp \<Rightarrow> ss_StreamViewType sp)"

text \<open>The record of a write, when the table has a stream: \<open>INSERT\<close> or \<open>MODIFY\<close> by whether the item was there.\<close>

definition emitWrite :: "string \<Rightarrow> TableMetadata \<Rightarrow> gmap \<Rightarrow> gmap option \<Rightarrow> ddb \<Rightarrow> ddb" where
  "emitWrite name meta new old s =
     (if streamOn meta
      then emitStreamRecord name (if old = None then ''INSERT'' else ''MODIFY'') (viewType meta)
             (extractKeys new (tm_KeySchema meta)) old (Some new) s
      else s)"

definition emitRemove :: "string \<Rightarrow> TableMetadata \<Rightarrow> gmap option \<Rightarrow> ddb \<Rightarrow> ddb" where
  "emitRemove name meta old s =
     (case old of
        None \<Rightarrow> s
      | Some o1 \<Rightarrow>
          if streamOn meta
          then emitStreamRecord name ''REMOVE'' (viewType meta) (extractKeys o1 (tm_KeySchema meta)) (Some o1) None s
          else s)"

section \<open>Trimming and start-up\<close>

definition trimStreamForTable :: "string \<Rightarrow> int \<Rightarrow> ddb \<Rightarrow> ddb" where
  "trimStreamForTable name cutoff s =
     (case getStreamBuffer s name of
        None \<Rightarrow> s
      | Some buf \<Rightarrow>
          let trimmed = filter (\<lambda>r. sr_CreatedAt r > cutoff) (sb_records buf)
          in if length trimmed = length (sb_records buf) then s
             else rewriteStreamFile name trimmed
                    (s\<lparr>streams := AList.update name (buf\<lparr>sb_records := trimmed\<rparr>) (streams s)\<rparr>))"

definition trimAllStreams :: "ddb \<Rightarrow> ddb" where
  "trimAllStreams s =
     foldl (\<lambda>s' t. trimStreamForTable t (clock s - streamRetentionPeriod) s') s (map fst (streams s))"

definition loadStream :: "ddb \<Rightarrow> string \<times> bool \<Rightarrow> ddb" where
  "loadStream s e =
     (if snd e \<or> \<not> has_suffix ''.table.json'' (fst e) then s
      else let name = strings_TrimSuffix (fst e) ''.table.json''
           in case readTableMeta s name of
                Inl _ \<Rightarrow> s
              | Inr m \<Rightarrow> if streamOn m \<and> tm_StreamLabel m \<noteq> '''' then ensureStreamBuffer name (tm_StreamLabel m) s else s)"

definition loadAllStreamBuffers :: "ddb \<Rightarrow> ddb" where
  "loadAllStreamBuffers s = (case root_ReadDir s [] of Inl _ \<Rightarrow> s | Inr es \<Rightarrow> foldl loadStream s es)"

definition maxSeq :: "ddb \<Rightarrow> 64 word" where
  "maxSeq s = foldl max 0 (concat (map (\<lambda>(t, b). map sr_SeqNum (sb_records b)) (streams s)))"

text \<open>
  Opening the storage on what is on the disk: the sequence counter starts at the clock's
  milliseconds, or beyond every restored record when that is more.
\<close>

definition newDdb :: "ddb \<Rightarrow> ddb" where
  "newDdb s =
     (let s1 = loadAllStreamBuffers (s\<lparr>streams := [], seqNum := of_int (clock s div 1000000)\<rparr>)
      in if maxSeq s1 > seqNum s1 then s1\<lparr>seqNum := maxSeq s1\<rparr> else s1)"

section \<open>Descriptions\<close>

record StreamEntry =
  se_StreamARN :: string
  se_StreamLabel :: string
  se_TableName :: string

fun streamEntries :: "ddb \<Rightarrow> string \<Rightarrow> (string \<times> bool) list \<Rightarrow> (ddb_error, StreamEntry list) res" where
  "streamEntries s wanted [] = Ok []"
| "streamEntries s wanted ((n, isdir) # es) =
     (if \<not> isdir \<or> (wanted \<noteq> '''' \<and> n \<noteq> wanted) then streamEntries s wanted es
      else case readTableMeta s n of
             Inl e \<Rightarrow> if e = ENotExist then streamEntries s wanted es else Err (ErrIO e)
           | Inr m \<Rightarrow>
               if \<not> streamOn m \<or> tm_StreamLabel m = '''' then streamEntries s wanted es
               else mapOk ((#) \<lparr>se_StreamARN = streamARN n (tm_StreamLabel m), se_StreamLabel = tm_StreamLabel m, se_TableName = n\<rparr>)
                      (streamEntries s wanted es))"

definition ListStreamARNs :: "string \<Rightarrow> ddb \<Rightarrow> (ddb_error, StreamEntry list) res" where
  "ListStreamARNs wanted s =
     andThen (if wanted = '''' then Ok () else mapOk (\<lambda>_. ()) (tableMeta s wanted)) (\<lambda>_.
       case root_ReadDir s [] of Inl e \<Rightarrow> Err (ErrIO e) | Inr es \<Rightarrow> streamEntries s wanted es)"

text \<open>The description without \<open>CreationRequestDateTime\<close>, the label read back as a time.\<close>

record StreamDesc =
  sd_StreamARN :: string
  sd_StreamLabel :: string
  sd_StreamStatus :: string
  sd_StreamViewType :: string
  sd_TableName :: string
  sd_KeySchema :: "KeySchemaElement list"
  sd_ShardID :: string
  sd_StartingSequenceNumber :: string

definition DescribeStream :: "string \<Rightarrow> ddb \<Rightarrow> (ddb_error, StreamDesc) res" where
  "DescribeStream arn s =
     (case parseStreamARN arn of
        None \<Rightarrow> Err ErrStreamNotFound
      | Some (name, label) \<Rightarrow>
          (case readTableMeta s name of
             Inl _ \<Rightarrow> Err ErrStreamNotFound
           | Inr m \<Rightarrow>
               if tm_StreamSpec m = None \<or> tm_StreamLabel m \<noteq> label then Err ErrStreamNotFound
               else Ok \<lparr>sd_StreamARN = arn, sd_StreamLabel = label,
                        sd_StreamStatus = (if streamOn m then ''ENABLED'' else ''DISABLED''),
                        sd_StreamViewType = viewType m, sd_TableName = name, sd_KeySchema = tm_KeySchema m,
                        sd_ShardID = shardID (md5hex s) name label,
                        sd_StartingSequenceNumber =
                          (case getStreamBuffer s name of
                             Some b \<Rightarrow> (case sb_records b of [] \<Rightarrow> '''' | r # _ \<Rightarrow> seqNumStr (sr_SeqNum r))
                           | None \<Rightarrow> '''')\<rparr>))"

section \<open>Readers\<close>

record shardIterState =
  it_Table :: string
  it_Position :: int

fun findSeqPos :: "streamRecord list \<Rightarrow> 64 word \<Rightarrow> bool \<Rightarrow> nat" where
  "findSeqPos [] seq after = 0"
| "findSeqPos (r # rs) seq after =
     (if sr_SeqNum r = seq then (if after then 1 else 0)
      else if sr_SeqNum r > seq then 0
      else Suc (findSeqPos rs seq after))"

definition bufRecords :: "ddb \<Rightarrow> string \<Rightarrow> streamRecord list" where
  "bufRecords s name = (case getStreamBuffer s name of None \<Rightarrow> [] | Some b \<Rightarrow> sb_records b)"

definition GetShardIterator :: "ddb \<Rightarrow> string \<Rightarrow> string \<Rightarrow> string \<Rightarrow> string \<Rightarrow> (ddb_error, shardIterState) res" where
  "GetShardIterator s arn shard iterType seqInput =
     (case parseStreamARN arn of
        None \<Rightarrow> Err ErrStreamNotFound
      | Some (name, label) \<Rightarrow>
          (case readTableMeta s name of
             Inl _ \<Rightarrow> Err ErrStreamNotFound
           | Inr m \<Rightarrow>
               if tm_StreamSpec m = None \<or> tm_StreamLabel m \<noteq> label \<or> shardID (md5hex s) name label \<noteq> shard
               then Err ErrStreamNotFound
               else if iterType = ''TRIM_HORIZON'' then Ok \<lparr>it_Table = name, it_Position = 0\<rparr>
               else if iterType = ''LATEST'' then Ok \<lparr>it_Table = name, it_Position = int (length (bufRecords s name))\<rparr>
               else if iterType = ''AT_SEQUENCE_NUMBER'' \<or> iterType = ''AFTER_SEQUENCE_NUMBER'' then
                 (case parseSeqNum seqInput of
                    None \<Rightarrow> Err (ErrValidationException (VSequenceNumber seqInput))
                  | Some seq \<Rightarrow>
                      Ok \<lparr>it_Table = name,
                          it_Position = int (findSeqPos (bufRecords s name) seq (iterType = ''AFTER_SEQUENCE_NUMBER''))\<rparr>)
               else Err (ErrValidationException (VIteratorType iterType))))"

text \<open>\<open>limit\<close> is not positive when no limit is set.\<close>

definition GetStreamRecords :: "ddb \<Rightarrow> shardIterState option \<Rightarrow> int \<Rightarrow> (ddb_error, streamRecord list \<times> shardIterState) res" where
  "GetStreamRecords s it limit =
     (case it of
        None \<Rightarrow> Err (ErrValidationException VIterator)
      | Some st \<Rightarrow>
          (case getStreamBuffer s (it_Table st) of
             None \<Rightarrow> Ok ([], st)
           | Some buf \<Rightarrow>
               let n = int (length (sb_records buf));
                   start = min (max (it_Position st) 0) n;
                   end = (if limit > 0 \<and> start + limit < n then start + limit else n)
               in Ok (take (nat (end - start)) (drop (nat start) (sb_records buf)), st\<lparr>it_Position := end\<rparr>)))"

end
