(* ===== verification/Ddb_Tables.thy ===== *)
theory Ddb_Tables
  imports Ddb_Streams
begin

text \<open>
  The table operations of the storage (\<open>internal/dynamodb/storage_table.go\<close>, \<open>storage_tag.go\<close>,
  \<open>storage_backup.go\<close>): creation and deletion with the clean-up of half-made tables, updates of the
  metadata, tags, time to live, point-in-time recovery and Kinesis destinations. A request runs
  under the storage lock, so an operation is a function from the state to its result and the new
  state.
\<close>

type_synonym 'a outcome = "(ddb_error, 'a) res \<times> ddb"

section \<open>Shared steps\<close>

text \<open>\<open>tableExistsLocked\<close>, then \<open>readTableMeta\<close>\<close>

definition existingMeta :: "ddb \<Rightarrow> string \<Rightarrow> (ddb_error, TableMetadata) res" where
  "existingMeta s name =
     (if \<not> tableExistsLocked s name then Err ErrTableNotFound
      else case readTableMeta s name of Inl e \<Rightarrow> Err (ErrIO e) | Inr m \<Rightarrow> Ok m)"

text \<open>Run the rest of an operation on a value that was read, or stop with its error.\<close>

definition onOk :: "(ddb_error, 'a) res \<Rightarrow> ddb \<Rightarrow> ('a \<Rightarrow> 'b outcome) \<Rightarrow> 'b outcome" where
  "onOk r s k = (case r of Ok x \<Rightarrow> k x | Err e \<Rightarrow> (Err e, s) | Panic \<Rightarrow> (Panic, s))"

definition saveMeta :: "string \<Rightarrow> TableMetadata \<Rightarrow> 'a \<Rightarrow> ddb \<Rightarrow> 'a outcome" where
  "saveMeta name m x s =
     (case writeTableMeta name m s of (None, s') \<Rightarrow> (Ok x, s') | (Some e, s') \<Rightarrow> (Err (ErrIO e), s'))"

text \<open>A removal for which a missing file is no error.\<close>

definition removeIfThere :: "path \<Rightarrow> ddb \<Rightarrow> ioerr option \<times> ddb" where
  "removeIfThere p s =
     (case root_Remove p s of (Some e, s') \<Rightarrow> (if e = ENotExist then None else Some e, s') | (None, s') \<Rightarrow> (None, s'))"

section \<open>Tables\<close>

definition CreateTable :: "TableMetadata \<Rightarrow> ddb \<Rightarrow> unit outcome" where
  "CreateTable meta0 s =
     (let name = tm_Name meta0;
          meta1 = meta0\<lparr>tm_Status := ''ACTIVE'', tm_CreatedAt := clock s\<rparr>;
          meta = (if streamOn meta1 \<and> tm_StreamLabel meta1 = '''' then meta1\<lparr>tm_StreamLabel := newStreamLabel (clock s)\<rparr> else meta1)
      in if tableExistsLocked s name then (Err ErrTableAlreadyExists, s)
         else case root_Mkdir (tableDir name) s of
                (e, s1) \<Rightarrow>
                  if e \<noteq> None \<and> e \<noteq> Some EExist then (Err (ErrIO (the e)), s1)
                  else (case writeTableMeta name meta s1 of
                          (Some e', s2) \<Rightarrow> (Err (ErrIO e'), snd (root_Remove (tableDir name) s2))
                        | (None, s2) \<Rightarrow>
                            (Ok (), if streamOn meta then ensureStreamBuffer name (tm_StreamLabel meta) s2 else s2)))"

fun removeEntries :: "path \<Rightarrow> (string \<times> bool) list \<Rightarrow> ddb \<Rightarrow> ioerr option \<times> ddb" where
  "removeEntries d [] s = (None, s)"
| "removeEntries d (e # es) s =
     (case removeIfThere (d @ [fst e]) s of
        (Some err, s') \<Rightarrow> (Some err, s')
      | (None, s') \<Rightarrow> removeEntries d es s')"

definition DeleteTable :: "string \<Rightarrow> ddb \<Rightarrow> unit outcome" where
  "DeleteTable name s =
     (if \<not> tableExistsLocked s name then (Err ErrTableNotFound, s)
      else
        let listing = (case root_ReadDir s (tableDir name) of
                         Inr es \<Rightarrow> Inr es
                       | Inl e \<Rightarrow> if e = ENotExist then Inr [] else Inl e)
        in case listing of
             Inl e \<Rightarrow> (Err (ErrIO e), s)
           | Inr es \<Rightarrow>
               (case removeEntries (tableDir name) es s of
                  (Some e, s1) \<Rightarrow> (Err (ErrIO e), s1)
                | (None, s1) \<Rightarrow>
                    (case removeIfThere (tableDir name) s1 of
                       (Some e, s2) \<Rightarrow> (Err (ErrIO e), s2)
                     | (None, s2) \<Rightarrow>
                         (case removeIfThere (tableMetaPath name) s2 of
                            (Some e, s3) \<Rightarrow> (Err (ErrIO e), s3)
                          | (None, s3) \<Rightarrow> (Ok (), deleteStreamBuffer name s3)))))"

definition DescribeTable :: "string \<Rightarrow> ddb \<Rightarrow> (ddb_error, TableMetadata) res" where
  "DescribeTable name s = existingMeta s name"

fun listNames :: "ddb \<Rightarrow> (string \<times> bool) list \<Rightarrow> (ddb_error, string list) res" where
  "listNames s [] = Ok []"
| "listNames s ((n, isdir) # es) =
     (if \<not> isdir then listNames s es
      else case root_Stat s (tableMetaPath n) of
             Inl e \<Rightarrow> if e = ENotExist then listNames s es else Err (ErrIO e)
           | Inr _ \<Rightarrow> mapOk ((#) n) (listNames s es))"

definition ListTables :: "ddb \<Rightarrow> (ddb_error, string list) res" where
  "ListTables s = (case root_ReadDir s [] of Inl e \<Rightarrow> Err (ErrIO e) | Inr es \<Rightarrow> listNames s es)"

record UpdateTableInput =
  ui_BillingMode :: string
  ui_ProvisionedThroughput :: "ProvisionedThroughput option"
  ui_AttributeDefinitions :: "AttributeDefinition list"
  ui_GSICreates :: "GlobalSecondaryIndex list"
  ui_GSIUpdates :: "(string \<times> ProvisionedThroughput) list"
  ui_GSIDeletes :: "string list"
  ui_StreamSpec :: "StreamSpecification option"

text \<open>The definitions of new attributes, at most one of each name.\<close>

fun mergeAttrs :: "AttributeDefinition list \<Rightarrow> AttributeDefinition list \<Rightarrow> AttributeDefinition list" where
  "mergeAttrs old [] = old"
| "mergeAttrs old (a # as) =
     mergeAttrs (if ad_AttributeName a \<in> set (map ad_AttributeName old) then old else old @ [a]) as"

definition updateGSIs :: "UpdateTableInput \<Rightarrow> GlobalSecondaryIndex list \<Rightarrow> GlobalSecondaryIndex list" where
  "updateGSIs inp gs =
     map (\<lambda>g. case map_of (ui_GSIUpdates inp) (gsi_IndexName g) of
                None \<Rightarrow> g
              | Some pt \<Rightarrow> g\<lparr>gsi_ProvisionedThroughput := Some pt\<rparr>)
         (filter (\<lambda>g. gsi_IndexName g \<notin> set (ui_GSIDeletes inp)) gs) @ ui_GSICreates inp"

definition updateStreamSpec :: "int \<Rightarrow> StreamSpecification option \<Rightarrow> TableMetadata \<Rightarrow> TableMetadata" where
  "updateStreamSpec now sp m =
     (case sp of
        None \<Rightarrow> m
      | Some spec \<Rightarrow>
          let rotate = ss_StreamEnabled spec \<and> (\<not> streamOn m \<or> ss_StreamViewType spec \<noteq> viewType m)
          in (if rotate then m\<lparr>tm_StreamLabel := newStreamLabel now\<rparr> else m)\<lparr>tm_StreamSpec := Some spec\<rparr>)"

definition updateMeta :: "int \<Rightarrow> UpdateTableInput \<Rightarrow> TableMetadata \<Rightarrow> TableMetadata" where
  "updateMeta now inp m =
     (let m1 = (if ui_BillingMode inp \<noteq> '''' \<and> ui_BillingMode inp \<noteq> tm_BillingMode m
                then m\<lparr>tm_BillingMode := ui_BillingMode inp, tm_BillingModeUpdatedAt := Some now\<rparr> else m);
          m2 = (case ui_ProvisionedThroughput inp of None \<Rightarrow> m1 | Some pt \<Rightarrow> m1\<lparr>tm_ProvisionedThroughput := Some pt\<rparr>);
          m3 = m2\<lparr>tm_AttributeDefinitions := mergeAttrs (tm_AttributeDefinitions m2) (ui_AttributeDefinitions inp),
                  tm_GlobalSecondaryIndexes := updateGSIs inp (tm_GlobalSecondaryIndexes m2)\<rparr>
      in updateStreamSpec now (ui_StreamSpec inp) m3)"

definition UpdateTable :: "string \<Rightarrow> UpdateTableInput \<Rightarrow> ddb \<Rightarrow> TableMetadata outcome" where
  "UpdateTable name inp s =
     onOk (existingMeta s name) s (\<lambda>m0.
       let m = updateMeta (clock s) inp m0
       in case writeTableMeta name m s of
            (Some e, s') \<Rightarrow> (Err (ErrIO e), s')
          | (None, s') \<Rightarrow>
              (Ok m, if streamOn m then ensureStreamBuffer name (tm_StreamLabel m) s' else deleteStreamBuffer name s'))"

section \<open>Tags and time to live\<close>

definition tableARNPrefix :: string where
  "tableARNPrefix = ''arn:aws:dynamodb:us-east-1:000000000000:table/''"

definition tableNameFromARN :: "string \<Rightarrow> string option" where
  "tableNameFromARN arn =
     (if \<not> has_prefix tableARNPrefix arn then None
      else let rest = strings_TrimPrefix arn tableARNPrefix;
               n = (case strings_Index rest ''/index/'' of Some i \<Rightarrow> take i rest | None \<Rightarrow> rest)
           in if n = '''' then None else Some n)"

definition tagMaxCount :: nat where
  "tagMaxCount = 50"

text \<open>The table that a resource ARN names, and its metadata.\<close>

definition taggedMeta :: "ddb \<Rightarrow> string \<Rightarrow> (ddb_error, string \<times> TableMetadata) res" where
  "taggedMeta s arn =
     (case tableNameFromARN arn of
        None \<Rightarrow> Err ErrTableNotFound
      | Some name \<Rightarrow> mapOk (Pair name) (existingMeta s name))"

definition TagResource_ddb :: "string \<Rightarrow> smap \<Rightarrow> ddb \<Rightarrow> unit outcome" where
  "TagResource_ddb arn tags s =
     onOk (taggedMeta s arn) s (\<lambda>(name, m).
       let newCount = length (filter (\<lambda>(k, v). map_of (tm_Tags m) k = None) tags)
       in if length (tm_Tags m) + newCount > tagMaxCount then (Err ErrTagLimitExceeded, s)
          else saveMeta name (m\<lparr>tm_Tags := foldl (\<lambda>t (k, v). AList.update k v t) (tm_Tags m) tags\<rparr>) () s)"

definition UntagResource_ddb :: "string \<Rightarrow> string list \<Rightarrow> ddb \<Rightarrow> unit outcome" where
  "UntagResource_ddb arn ks s =
     onOk (taggedMeta s arn) s (\<lambda>(name, m).
       saveMeta name (m\<lparr>tm_Tags := foldl (\<lambda>t k. AList.delete k t) (tm_Tags m) ks\<rparr>) () s)"

definition ListTagsOfResource :: "string \<Rightarrow> ddb \<Rightarrow> (ddb_error, smap) res" where
  "ListTagsOfResource arn s = mapOk (\<lambda>(name, m). tm_Tags m) (taggedMeta s arn)"

definition UpdateTimeToLive :: "string \<Rightarrow> TTLSpec \<Rightarrow> ddb \<Rightarrow> TTLSpec outcome" where
  "UpdateTimeToLive name spec s =
     onOk (existingMeta s name) s (\<lambda>m. saveMeta name (m\<lparr>tm_TTL := Some spec\<rparr>) spec s)"

definition DescribeTimeToLive :: "string \<Rightarrow> ddb \<Rightarrow> (ddb_error, string \<times> TTLSpec option) res" where
  "DescribeTimeToLive name s =
     mapOk (\<lambda>m. (if case_option True (\<lambda>t. \<not> ttl_Enabled t) (tm_TTL m) then ''DISABLED'' else ''ENABLED'', tm_TTL m))
       (existingMeta s name)"

section \<open>Backups and Kinesis destinations\<close>

definition DescribeContinuousBackups :: "string \<Rightarrow> ddb \<Rightarrow> (ddb_error, TableMetadata) res" where
  "DescribeContinuousBackups name s = existingMeta s name"

definition UpdateContinuousBackups :: "string \<Rightarrow> bool \<Rightarrow> ddb \<Rightarrow> TableMetadata outcome" where
  "UpdateContinuousBackups name enabled s =
     onOk (existingMeta s name) s (\<lambda>m.
       let pitr = (if enabled
                   then (if case_option False pitr_Enabled (tm_PITR m) then tm_PITR m
                         else Some \<lparr>pitr_Enabled = True, pitr_EnabledAt = Some (clock s)\<rparr>)
                   else Some \<lparr>pitr_Enabled = False, pitr_EnabledAt = None\<rparr>);
           m' = m\<lparr>tm_PITR := pitr\<rparr>
       in saveMeta name m' m' s)"

definition maxKinesisDestinations :: nat where
  "maxKinesisDestinations = 2"

definition DescribeKinesisStreamingDestination :: "string \<Rightarrow> ddb \<Rightarrow> (ddb_error, KinesisDestination list) res" where
  "DescribeKinesisStreamingDestination name s = mapOk tm_KinesisDestinations (existingMeta s name)"

text \<open>The first destination with an ARN, by its position.\<close>

definition findDest :: "string \<Rightarrow> KinesisDestination list \<Rightarrow> (nat \<times> KinesisDestination) option" where
  "findDest arn ds = find (\<lambda>(i, d). kd_StreamARN d = arn) (zip [0..<length ds] ds)"

definition EnableKinesisStreamingDestination :: "string \<Rightarrow> string \<Rightarrow> string \<Rightarrow> ddb \<Rightarrow> (KinesisDestination \<times> bool) outcome" where
  "EnableKinesisStreamingDestination name arn precision s =
     onOk (existingMeta s name) s (\<lambda>m.
       case findDest arn (tm_KinesisDestinations m) of
         Some (i, d) \<Rightarrow>
           let dest = d\<lparr>kd_Precision := precision, kd_Status := ''ACTIVE''\<rparr>
           in saveMeta name (m\<lparr>tm_KinesisDestinations := (tm_KinesisDestinations m)[i := dest]\<rparr>)
                (dest, kd_Status d = ''ACTIVE'') s
       | None \<Rightarrow>
           if length (tm_KinesisDestinations m) \<ge> maxKinesisDestinations then (Err ErrKinesisLimitExceeded, s)
           else let dest = \<lparr>kd_StreamARN = arn, kd_Status = ''ACTIVE'', kd_Precision = precision\<rparr>
                in saveMeta name (m\<lparr>tm_KinesisDestinations := tm_KinesisDestinations m @ [dest]\<rparr>) (dest, False) s)"

definition DisableKinesisStreamingDestination :: "string \<Rightarrow> string \<Rightarrow> ddb \<Rightarrow> KinesisDestination outcome" where
  "DisableKinesisStreamingDestination name arn s =
     onOk (existingMeta s name) s (\<lambda>m.
       case findDest arn (tm_KinesisDestinations m) of
         Some (i, d) \<Rightarrow>
           let dest = d\<lparr>kd_Status := ''DISABLED''\<rparr>
           in saveMeta name (m\<lparr>tm_KinesisDestinations := (tm_KinesisDestinations m)[i := dest]\<rparr>) dest s
       | None \<Rightarrow> (Err ErrKinesisDestinationNotFound, s))"

end
