(* ===== verification/Ddb_Items.thy ===== *)
theory Ddb_Items
  imports Ddb_Tables
begin

text \<open>
  The item operations of the storage (\<open>internal/dynamodb/storage_item.go\<close>). An item is a file named
  by the hash of its key attributes. \<open>UpdateItem\<close> works on values in memory: the item that is read,
  its shallow copy \<open>before\<close> and the values of the request share maps, as in the code, so it takes
  the heap that holds the request's values. The updates come in the order in which the code's loop
  over the map visits them.
\<close>

section \<open>Conditions and expiry\<close>

definition fge :: "float64 \<Rightarrow> float64 \<Rightarrow> bool" where
  "fge x y \<longleftrightarrow> x \<noteq> FNaN \<and> y \<noteq> FNaN \<and> \<not> flt x y"

definition float_of_int :: "int \<Rightarrow> float64" where
  "float_of_int i = round64 (i < 0) \<bar>i\<bar> 1"

definition isTTLExpired :: "int \<Rightarrow> gmap \<Rightarrow> TTLSpec option \<Rightarrow> bool" where
  "isTTLExpired now item ttl =
     (case ttl of
        None \<Rightarrow> False
      | Some t \<Rightarrow>
          if \<not> ttl_Enabled t \<or> ttl_AttributeName t = '''' then False
          else case map_of item (ttl_AttributeName t) of
                 None \<Rightarrow> False
               | Some attrVal \<Rightarrow>
                   (case as_map attrVal of
                      None \<Rightarrow> False
                    | Some nMap \<Rightarrow>
                        (case as_str (get0 nMap ''N'') of
                           None \<Rightarrow> False
                         | Some nStr \<Rightarrow>
                             (case strconv_ParseFloat nStr of
                                (expiry, failed) \<Rightarrow> \<not> failed \<and> fge (float_of_int (now div 1000000000)) expiry))))"

text \<open>A condition expression on the item as it is, \<open>None\<close> when there is none.\<close>

definition evalCond :: "ConditionCheck option \<Rightarrow> gmap option \<Rightarrow> (ddb_error, unit) res" where
  "evalCond cond old =
     (case cond of
        None \<Rightarrow> Ok ()
      | Some c \<Rightarrow>
          if cc_Expr c = '''' then Ok ()
          else case evalFilterExpr (cc_Expr c) (case old of None \<Rightarrow> [] | Some m \<Rightarrow> m) (cc_Names c) (cc_Values c) of
                 Err e \<Rightarrow> Err (ErrValidationException (VExpr e))
               | Panic \<Rightarrow> Panic
               | Ok True \<Rightarrow> Ok ()
               | Ok False \<Rightarrow> Err (ErrConditionalCheckFailed old))"

text \<open>The metadata of the table and the path of an item's file.\<close>

definition locate :: "ddb \<Rightarrow> string \<Rightarrow> gmap \<Rightarrow> (ddb_error, TableMetadata \<times> path) res" where
  "locate s name key =
     andThen (tableMeta s name) (\<lambda>meta.
       mapOk (\<lambda>k. (meta, itemPath name k)) (itemKey (md5hex s) key (tm_KeySchema meta)))"

section \<open>Single items\<close>

definition PutItem :: "string \<Rightarrow> gmap \<Rightarrow> ConditionCheck option \<Rightarrow> ddb \<Rightarrow> gmap option outcome" where
  "PutItem name item cond s =
     onOk (locate s name item) s (\<lambda>(meta, p).
     onOk (readOld s p) s (\<lambda>old.
     onOk (evalCond cond old) s (\<lambda>_.
       case writeItem p (Some item) s of
         (Some e, s') \<Rightarrow> (Err (ErrIO e), s')
       | (None, s') \<Rightarrow> (Ok old, emitWrite name meta item old s'))))"

definition GetItem :: "string \<Rightarrow> gmap \<Rightarrow> ddb \<Rightarrow> (ddb_error, gmap option) res" where
  "GetItem name key s =
     andThen (locate s name key) (\<lambda>(meta, p).
     andThen (readOld s p) (\<lambda>old.
       Ok (case old of
             None \<Rightarrow> None
           | Some item \<Rightarrow> if isTTLExpired (clock s) item (tm_TTL meta) then None else Some item)))"

definition DeleteItem :: "string \<Rightarrow> gmap \<Rightarrow> ConditionCheck option \<Rightarrow> ddb \<Rightarrow> gmap option outcome" where
  "DeleteItem name key cond s =
     onOk (locate s name key) s (\<lambda>(meta, p).
     onOk (readOld s p) s (\<lambda>old.
     onOk (evalCond cond old) s (\<lambda>_.
       case root_Remove p s of
         (Some e, s') \<Rightarrow> (if e = ENotExist then Ok None else Err (ErrIO e), s')
       | (None, s') \<Rightarrow> (Ok old, emitRemove name meta old s'))))"

text \<open>A map in memory after the updates: the tree of its values, or one with a cycle.\<close>

datatype loaded = Tree gmap | Cyclic

definition loadedMap :: "heap \<Rightarrow> nat \<Rightarrow> loaded" where
  "loadedMap h a = (case loadMap h a of Some m \<Rightarrow> Tree m | None \<Rightarrow> Cyclic)"

fun tree :: "loaded \<Rightarrow> gmap option" where
  "tree (Tree m) = Some m"
| "tree Cyclic = None"

text \<open>
  \<open>UpdateItem\<close>: the item of the key, or one that has only the key; the new top-level map \<open>before\<close>
  has the same values. With a stream the images are cloned, which does not end on a cycle and
  exhausts the stack.
\<close>

definition emitUpdate :: "string \<Rightarrow> TableMetadata \<Rightarrow> loaded \<Rightarrow> loaded option \<Rightarrow> ddb \<Rightarrow> (loaded option \<times> loaded) outcome" where
  "emitUpdate name meta after before s =
     (if streamOn meta then
        (case (after, before) of
           (Tree new, None) \<Rightarrow> (Ok (before, after), emitWrite name meta new None s)
         | (Tree new, Some (Tree old)) \<Rightarrow> (Ok (before, after), emitWrite name meta new (Some old) s)
         | _ \<Rightarrow> (Panic, s))
      else (Ok (before, after), s))"

definition UpdateItem ::
  "string \<Rightarrow> gmap \<Rightarrow> hval updates \<Rightarrow> heap \<Rightarrow> ConditionCheck option \<Rightarrow> ddb \<Rightarrow> (loaded option \<times> loaded) outcome" where
  "UpdateItem name key ups h0 cond s =
     onOk (locate s name key) s (\<lambda>(meta, p).
     onOk (readOld s p) s (\<lambda>old.
     onOk (evalCond cond old) s (\<lambda>_.
       case storeMap (case old of None \<Rightarrow> key | Some m \<Rightarrow> m) h0 of
         (item, h1) \<Rightarrow>
           let before = length h1; h2 = h1 @ [h1 ! item]
           in onOk (mapErr (\<lambda>e. ErrValidationException (VUpdate e)) (applyUpdates item ups h2)) s (\<lambda>h3.
                case writeItem p (loadMap h3 item) s of
                  (Some e, s') \<Rightarrow> (Err (ErrIO e), s')
                | (None, s') \<Rightarrow>
                    emitUpdate name meta (loadedMap h3 item)
                      (if old = None then None else Some (loadedMap h3 before)) s'))))"

section \<open>Batches\<close>

fun batchGet :: "ddb \<Rightarrow> string \<Rightarrow> TableMetadata \<Rightarrow> gmap list \<Rightarrow> (ddb_error, gmap list) res" where
  "batchGet s name meta [] = Ok []"
| "batchGet s name meta (key # keys) =
     andThen (itemKey (md5hex s) key (tm_KeySchema meta)) (\<lambda>k.
     andThen (readOld s (itemPath name k)) (\<lambda>old.
       case old of
         None \<Rightarrow> batchGet s name meta keys
       | Some item \<Rightarrow>
           if isTTLExpired (clock s) item (tm_TTL meta) then batchGet s name meta keys
           else mapOk ((#) item) (batchGet s name meta keys)))"

definition BatchGetItems :: "string \<Rightarrow> gmap list \<Rightarrow> ddb \<Rightarrow> (ddb_error, gmap list) res" where
  "BatchGetItems name keys s = andThen (tableMeta s name) (\<lambda>meta. batchGet s name meta keys)"

text \<open>The old item is read only for the stream.\<close>

definition oldForStream :: "ddb \<Rightarrow> TableMetadata \<Rightarrow> path \<Rightarrow> (ddb_error, gmap option) res" where
  "oldForStream s meta p = (if streamOn meta then readOld s p else Ok None)"

fun batchPuts :: "string \<Rightarrow> TableMetadata \<Rightarrow> gmap list \<Rightarrow> ddb \<Rightarrow> unit outcome" where
  "batchPuts name meta [] s = (Ok (), s)"
| "batchPuts name meta (item # items) s =
     onOk (itemKey (md5hex s) item (tm_KeySchema meta)) s (\<lambda>k.
     onOk (oldForStream s meta (itemPath name k)) s (\<lambda>old.
       case writeItem (itemPath name k) (Some item) s of
         (Some e, s') \<Rightarrow> (Err (ErrIO e), s')
       | (None, s') \<Rightarrow> batchPuts name meta items (emitWrite name meta item old s')))"

fun batchDeletes :: "string \<Rightarrow> TableMetadata \<Rightarrow> gmap list \<Rightarrow> ddb \<Rightarrow> unit outcome" where
  "batchDeletes name meta [] s = (Ok (), s)"
| "batchDeletes name meta (key # keys) s =
     onOk (itemKey (md5hex s) key (tm_KeySchema meta)) s (\<lambda>k.
     onOk (oldForStream s meta (itemPath name k)) s (\<lambda>old.
       case root_Remove (itemPath name k) s of
         (Some e, s') \<Rightarrow> if e = ENotExist then batchDeletes name meta keys s' else (Err (ErrIO e), s')
       | (None, s') \<Rightarrow> batchDeletes name meta keys (emitRemove name meta old s')))"

definition BatchWriteItems :: "string \<Rightarrow> gmap list \<Rightarrow> gmap list \<Rightarrow> ddb \<Rightarrow> unit outcome" where
  "BatchWriteItems name puts deletes s =
     onOk (tableMeta s name) s (\<lambda>meta.
       case batchPuts name meta puts s of
         (Ok _, s') \<Rightarrow> batchDeletes name meta deletes s'
       | (Err e, s') \<Rightarrow> (Err e, s')
       | (Panic, s') \<Rightarrow> (Panic, s'))"

end
