(* ===== verification/Ddb_Query.thy ===== *)
theory Ddb_Query
  imports Ddb_Items
begin

text \<open>
  \<open>Scan\<close> and \<open>Query\<close> of the storage (\<open>internal/dynamodb/storage_query.go\<close>). \<open>sort.Slice\<close> and
  \<open>sort.SliceStable\<close> sort by a comparison; the items of a table have different hashes, so the order
  of a scan does not depend on the algorithm, and \<open>SliceStable\<close> keeps the directory order of equal
  keys. The model sorts by insertion, which is stable.
\<close>

section \<open>Sorting\<close>

fun insertBy :: "('a \<Rightarrow> 'a \<Rightarrow> bool) \<Rightarrow> 'a \<Rightarrow> 'a list \<Rightarrow> 'a list" where
  "insertBy lt x [] = [x]"
| "insertBy lt x (y # ys) = (if lt y x then y # insertBy lt x ys else x # y # ys)"

definition sortBy :: "('a \<Rightarrow> 'a \<Rightarrow> bool) \<Rightarrow> 'a list \<Rightarrow> 'a list" where
  "sortBy lt xs = foldr (insertBy lt) xs []"

section \<open>Sort keys\<close>

definition matchesSortKey :: "gany \<Rightarrow> SortKeyCondition \<Rightarrow> bool" where
  "matchesSortKey itemVal cond =
     (let op = sk_Operator cond; c = dynamoValueCmp itemVal (sk_Value cond)
      in if op = ''='' then json_Marshal itemVal = json_Marshal (sk_Value cond)
         else if op = ''<'' then (case c of Inl _ \<Rightarrow> False | Inr i \<Rightarrow> i < 0)
         else if op = ''<='' then (case c of Inl _ \<Rightarrow> False | Inr i \<Rightarrow> i \<le> 0)
         else if op = ''>'' then (case c of Inl _ \<Rightarrow> False | Inr i \<Rightarrow> i > 0)
         else if op = ''>='' then (case c of Inl _ \<Rightarrow> False | Inr i \<Rightarrow> i \<ge> 0)
         else if op = ''BETWEEN'' then
           (case (c, dynamoValueCmp itemVal (sk_Value2 cond)) of
              (Inr c1, Inr c2) \<Rightarrow> c1 \<ge> 0 \<and> c2 \<le> 0
            | _ \<Rightarrow> False)
         else if op = ''begins_with'' then
           (case (as_map itemVal, as_map (sk_Value cond)) of
              (Some am, Some bm) \<Rightarrow>
                (case (as_str (get0 am ''S''), as_str (get0 bm ''S'')) of
                   (Some a, Some b) \<Rightarrow> has_prefix b a
                 | _ \<Rightarrow> False)
            | _ \<Rightarrow> False)
         else False)"

definition extractPrimaryKey :: "gmap \<Rightarrow> KeySchemaElement list \<Rightarrow> gmap" where
  "extractPrimaryKey item schema =
     foldl (\<lambda>key k. AList.update (ks_AttributeName k) (get0 item (ks_AttributeName k)) key) [] schema"

section \<open>Scan\<close>

record ScanOptions =
  sc_Limit :: "int option"
  sc_ExclusiveStartKey :: gmap
  sc_Segment :: "int option"
  sc_TotalSegments :: "int option"

text \<open>\<open>k, _ := itemKey(item, schema)\<close>: the empty string when a key attribute is missing\<close>

definition keyOf :: "(string \<Rightarrow> string) \<Rightarrow> KeySchemaElement list \<Rightarrow> gmap \<Rightarrow> string" where
  "keyOf h schema item = (case itemKey h item schema of Ok k \<Rightarrow> k | _ \<Rightarrow> '''')"

text \<open>\<open>i % total\<close> panics when \<open>total\<close> is 0.\<close>

definition segmentItems :: "int option \<Rightarrow> int option \<Rightarrow> gmap list \<Rightarrow> (ddb_error, gmap list) res" where
  "segmentItems seg tot items =
     (case (seg, tot) of
        (Some g, Some t) \<Rightarrow>
          if t = 0 \<and> items \<noteq> [] then Panic
          else Ok (map snd (filter (\<lambda>(i, item). int i mod \<bar>t\<bar> = g) (zip [0..<length items] items)))
      | _ \<Rightarrow> Ok items)"

text \<open>The position after the start key, or that of the first later hash.\<close>

fun resumeAt :: "(string \<Rightarrow> string) \<Rightarrow> KeySchemaElement list \<Rightarrow> string \<Rightarrow> gmap list \<Rightarrow> gmap list" where
  "resumeAt h schema esk [] = []"
| "resumeAt h schema esk (item # items) =
     (case itemKey h item schema of
        Ok k \<Rightarrow> if k = esk then items else if k > esk then item # items else resumeAt h schema esk items
      | _ \<Rightarrow> resumeAt h schema esk items)"

text \<open>The page of a limit and its last key; a slice out of range panics.\<close>

definition limitItems :: "int option \<Rightarrow> KeySchemaElement list \<Rightarrow> gmap list \<Rightarrow> (ddb_error, gmap list \<times> gmap option) res" where
  "limitItems lim schema items =
     (case lim of
        None \<Rightarrow> Ok (items, None)
      | Some l \<Rightarrow>
          if int (length items) \<le> l then Ok (items, None)
          else if l < 1 then Panic
          else Ok (take (nat l) items, Some (extractPrimaryKey (items ! (nat l - 1)) schema)))"

definition liveItems :: "int \<Rightarrow> TTLSpec option \<Rightarrow> gmap list \<Rightarrow> gmap list" where
  "liveItems now ttl items = filter (\<lambda>item. \<not> isTTLExpired now item ttl) items"

definition Scan :: "string \<Rightarrow> ScanOptions \<Rightarrow> ddb \<Rightarrow> (ddb_error, gmap list \<times> gmap option) res" where
  "Scan name opts s =
     andThen (existingMeta s name) (\<lambda>meta.
     andThen (readAllItemsLocked s name) (\<lambda>all0.
       let schema = tm_KeySchema meta;
           all1 = liveItems (clock s) (tm_TTL meta) all0;
           all2 = sortBy (\<lambda>a b. keyOf (md5hex s) schema a < keyOf (md5hex s) schema b) all1
       in andThen (segmentItems (sc_Segment opts) (sc_TotalSegments opts) all2) (\<lambda>all3.
          andThen (if sc_ExclusiveStartKey opts = [] then Ok all3
                   else mapOk (\<lambda>esk. resumeAt (md5hex s) schema esk all3)
                          (itemKey (md5hex s) (sc_ExclusiveStartKey opts) schema)) (\<lambda>all4.
            limitItems (sc_Limit opts) schema all4))))"

section \<open>Query\<close>

record QueryOptions =
  qo_ScanIndexForward :: bool
  qo_Limit :: "int option"
  qo_ExclusiveStartKey :: gmap
  qo_IndexName :: string

definition findIndexDef :: "TableMetadata \<Rightarrow> string \<Rightarrow> (ddb_error, KeySchemaElement list \<times> gmap) res" where
  "findIndexDef meta idx =
     (case find (\<lambda>g. gsi_IndexName g = idx) (tm_GlobalSecondaryIndexes meta) of
        Some g \<Rightarrow> Ok (gsi_KeySchema g, gsi_Projection g)
      | None \<Rightarrow>
          (case find (\<lambda>l. lsi_IndexName l = idx) (tm_LocalSecondaryIndexes meta) of
             Some l \<Rightarrow> Ok (lsi_KeySchema l, lsi_Projection l)
           | None \<Rightarrow> Err (ErrValidationException (VIndexMissing idx))))"

fun mergeInto :: "KeySchemaElement list \<Rightarrow> KeySchemaElement list \<Rightarrow> KeySchemaElement list" where
  "mergeInto acc [] = acc"
| "mergeInto acc (k # ks) =
     mergeInto (if ks_AttributeName k \<in> set (map ks_AttributeName acc) then acc else acc @ [k]) ks"

definition mergeKeySchemas :: "KeySchemaElement list \<Rightarrow> KeySchemaElement list \<Rightarrow> KeySchemaElement list" where
  "mergeKeySchemas tableSchema indexSchema = mergeInto (mergeInto [] indexSchema) tableSchema"

text \<open>The attributes that an index keeps: those of the keys, and the included ones.\<close>

definition keptAttrs :: "gmap \<Rightarrow> string list \<Rightarrow> string list" where
  "keptAttrs projection keyAttrNames =
     remdups (keyAttrNames @
       (if str_at projection ''ProjectionType'' = Some ''INCLUDE''
        then (case slice_at projection ''NonKeyAttributes'' of None \<Rightarrow> [] | Some l \<Rightarrow> List.map_filter as_str l)
        else []))"

definition applyIndexProjection :: "gmap list \<Rightarrow> gmap \<Rightarrow> string list \<Rightarrow> gmap list" where
  "applyIndexProjection items projection keyAttrNames =
     (case str_at projection ''ProjectionType'' of
        None \<Rightarrow> items
      | Some t \<Rightarrow>
          if t = '''' \<or> t = ''ALL'' then items
          else map (\<lambda>item. List.map_filter (\<lambda>a. map_option (Pair a) (map_of item a)) (keptAttrs projection keyAttrNames)) items)"

text \<open>The last key of a type in a schema, the empty name when there is none (an index), and the first one (a table).\<close>

definition lastKeyOfType :: "string \<Rightarrow> KeySchemaElement list \<Rightarrow> string" where
  "lastKeyOfType t schema = foldl (\<lambda>n k. if ks_KeyType k = t then ks_AttributeName k else n) '''' schema"

definition firstKeyOfType :: "string \<Rightarrow> KeySchemaElement list \<Rightarrow> string" where
  "firstKeyOfType t schema = (case find (\<lambda>k. ks_KeyType k = t) schema of None \<Rightarrow> '''' | Some k \<Rightarrow> ks_AttributeName k)"

text \<open>The sort key, the schema of the last evaluated key and the projection of a query.\<close>

definition queryPlan :: "TableMetadata \<Rightarrow> string \<Rightarrow> string \<Rightarrow> (ddb_error, string \<times> KeySchemaElement list \<times> gmap) res" where
  "queryPlan meta idx hashKeyName =
     (if idx = '''' then Ok (firstKeyOfType ''RANGE'' (tm_KeySchema meta), tm_KeySchema meta, [])
      else andThen (findIndexDef meta idx) (\<lambda>(schema, proj).
             let h = lastKeyOfType ''HASH'' schema
             in if hashKeyName \<noteq> h then Err (ErrValidationException (VIndexHashKey hashKeyName idx h))
                else Ok (lastKeyOfType ''RANGE'' schema, mergeKeySchemas (tm_KeySchema meta) schema, proj)))"

definition queryMatches :: "string \<Rightarrow> gany \<Rightarrow> SortKeyCondition option \<Rightarrow> gmap \<Rightarrow> bool" where
  "queryMatches hashKeyName hashKeyValue skc item =
     (case map_of item hashKeyName of
        None \<Rightarrow> False
      | Some v \<Rightarrow>
          json_Marshal v = json_Marshal hashKeyValue \<and>
          (case skc of
             None \<Rightarrow> True
           | Some c \<Rightarrow> (case map_of item (sk_Name c) of None \<Rightarrow> False | Some skVal \<Rightarrow> matchesSortKey skVal c)))"

definition sortLess :: "bool \<Rightarrow> string \<Rightarrow> gmap \<Rightarrow> gmap \<Rightarrow> bool" where
  "sortLess forward skName a b =
     (case dynamoValueCmp (get0 a skName) (get0 b skName) of
        Inl _ \<Rightarrow> False
      | Inr c \<Rightarrow> if forward then c < 0 else c > 0)"

text \<open>The items beyond the sort key of the start key.\<close>

definition beyond :: "bool \<Rightarrow> string \<Rightarrow> gany \<Rightarrow> gmap \<Rightarrow> bool" where
  "beyond forward skName esk item =
     (case dynamoValueCmp (get0 item skName) esk of
        Inl _ \<Rightarrow> False
      | Inr c \<Rightarrow> if forward then c > 0 else c < 0)"

definition queryResume :: "bool \<Rightarrow> string \<Rightarrow> gmap \<Rightarrow> gmap list \<Rightarrow> gmap list" where
  "queryResume forward skName esk matched =
     (if esk = [] then matched
      else if skName = '''' then []
      else case map_of esk skName of
             None \<Rightarrow> []
           | Some v \<Rightarrow> dropWhile (\<lambda>item. \<not> beyond forward skName v item) matched)"

definition Query ::
  "string \<Rightarrow> string \<Rightarrow> gany \<Rightarrow> SortKeyCondition option \<Rightarrow> QueryOptions \<Rightarrow> ddb \<Rightarrow> (ddb_error, gmap list \<times> gmap option) res" where
  "Query name hashKeyName hashKeyValue skc opts s =
     andThen (existingMeta s name) (\<lambda>meta.
     andThen (queryPlan meta (qo_IndexName opts) hashKeyName) (\<lambda>(skName, lekSchema, proj).
     andThen (readAllItemsLocked s name) (\<lambda>all.
       let fwd = qo_ScanIndexForward opts;
           matched = filter (queryMatches hashKeyName hashKeyValue skc) (liveItems (clock s) (tm_TTL meta) all);
           sorted = (if skName = '''' then matched else sortBy (sortLess fwd skName) matched)
       in andThen (limitItems (qo_Limit opts) lekSchema (queryResume fwd skName (qo_ExclusiveStartKey opts) sorted))
            (\<lambda>(items, lek).
               Ok (if qo_IndexName opts = '''' then items
                   else applyIndexProjection items proj (map ks_AttributeName lekSchema), lek)))))"

end
