(* ===== verification/Ddb_Transaction.thy ===== *)
theory Ddb_Transaction
  imports Ddb_Query
begin

text \<open>
  Transactions of the storage (\<open>internal/dynamodb/storage_transaction.go\<close>). A write transaction first
  rejects two actions on one item, then evaluates every condition, then applies the writes one by
  one with a snapshot of each file, and restores the snapshots when a write fails. An action has
  exactly one of its four parts; an update carries the values of its own expression.
\<close>

record TransactGetInput =
  tg_TableName :: string
  tg_Key :: gmap

datatype TransactWriteAction =
    ActPut string gmap "ConditionCheck option" string
  | ActDelete string gmap "ConditionCheck option" string
  | ActUpdate string gmap "hval updates" heap "ConditionCheck option" string
  | ActConditionCheck string gmap "ConditionCheck option" string
  | ActNone

text \<open>The table and the key of an action, its condition and what it returns when that fails.\<close>

fun target :: "TransactWriteAction \<Rightarrow> (string \<times> gmap) option" where
  "target (ActPut t item c r) = Some (t, item)"
| "target (ActDelete t key c r) = Some (t, key)"
| "target (ActUpdate t key ups h c r) = Some (t, key)"
| "target (ActConditionCheck t key c r) = Some (t, key)"
| "target ActNone = None"

fun actCond :: "TransactWriteAction \<Rightarrow> ConditionCheck option" where
  "actCond (ActPut t item c r) = c"
| "actCond (ActDelete t key c r) = c"
| "actCond (ActUpdate t key ups h c r) = c"
| "actCond (ActConditionCheck t key c r) = c"
| "actCond ActNone = None"

fun transactActionReturnsOldOnFailure :: "TransactWriteAction \<Rightarrow> bool" where
  "transactActionReturnsOldOnFailure (ActPut t item c r) = (r = ''ALL_OLD'')"
| "transactActionReturnsOldOnFailure (ActDelete t key c r) = (r = ''ALL_OLD'')"
| "transactActionReturnsOldOnFailure (ActUpdate t key ups h c r) = (r = ''ALL_OLD'')"
| "transactActionReturnsOldOnFailure (ActConditionCheck t key c r) = (r = ''ALL_OLD'')"
| "transactActionReturnsOldOnFailure ActNone = False"

fun writes :: "TransactWriteAction \<Rightarrow> bool" where
  "writes (ActConditionCheck t key c r) = False"
| "writes ActNone = False"
| "writes _ = True"

section \<open>Reading\<close>

fun transactGets :: "ddb \<Rightarrow> (string \<times> string) list \<Rightarrow> TransactGetInput list \<Rightarrow> (ddb_error, gmap option list) res" where
  "transactGets s seen [] = Ok []"
| "transactGets s seen (g # gs) =
     andThen (tableMeta s (tg_TableName g)) (\<lambda>meta.
     andThen (itemKey (md5hex s) (tg_Key g) (tm_KeySchema meta)) (\<lambda>k.
       if (tg_TableName g, k) \<in> set seen then Err (ErrValidationException VDuplicateTarget)
       else andThen (readOld s (itemPath (tg_TableName g) k)) (\<lambda>old.
              mapOk ((#) old) (transactGets s ((tg_TableName g, k) # seen) gs))))"

definition TransactGetItems :: "TransactGetInput list \<Rightarrow> ddb \<Rightarrow> (ddb_error, gmap option list) res" where
  "TransactGetItems gets s = transactGets s [] gets"

section \<open>Phase 0 and phase 1\<close>

fun duplicateFrom :: "ddb \<Rightarrow> (string \<times> string) list \<Rightarrow> TransactWriteAction list \<Rightarrow> (ddb_error, unit) res" where
  "duplicateFrom s seen [] = Ok ()"
| "duplicateFrom s seen (a # as) =
     (case target a of
        None \<Rightarrow> duplicateFrom s seen as
      | Some (t, key) \<Rightarrow>
          andThen (tableMeta s t) (\<lambda>meta.
          andThen (itemKey (md5hex s) key (tm_KeySchema meta)) (\<lambda>k.
            if (t, k) \<in> set seen then Err (ErrValidationException VDuplicateTarget)
            else duplicateFrom s ((t, k) # seen) as)))"

definition checkDuplicateKeysLocked :: "ddb \<Rightarrow> TransactWriteAction list \<Rightarrow> (ddb_error, unit) res" where
  "checkDuplicateKeysLocked s as = duplicateFrom s [] as"

definition readExistingItemLocked :: "ddb \<Rightarrow> string \<Rightarrow> gmap \<Rightarrow> TableMetadata \<Rightarrow> (ddb_error, gmap option) res" where
  "readExistingItemLocked s t key meta =
     andThen (itemKey (md5hex s) key (tm_KeySchema meta)) (\<lambda>k. readOld s (itemPath t k))"

text \<open>The current item of an action, before its condition is evaluated.\<close>

definition currentItem :: "ddb \<Rightarrow> TransactWriteAction \<Rightarrow> (ddb_error, gmap option) res" where
  "currentItem s a =
     (case target a of
        None \<Rightarrow> Ok None
      | Some (t, key) \<Rightarrow> andThen (tableMeta s t) (readExistingItemLocked s t key))"

definition reasonNone :: CancellationReason where
  "reasonNone = \<lparr>cr_Code = ''None'', cr_Message = '''', cr_Item = None\<rparr>"

definition reasonFailed :: "TransactWriteAction \<Rightarrow> gmap option \<Rightarrow> CancellationReason" where
  "reasonFailed a current =
     \<lparr>cr_Code = ''ConditionalCheckFailed'', cr_Message = ''The conditional request failed'',
      cr_Item = (if transactActionReturnsOldOnFailure a then current else None)\<rparr>"

text \<open>The reason of an action: that of a failed condition, or none; any other error stops the transaction.\<close>

definition checkTransactActionCondLocked :: "ddb \<Rightarrow> TransactWriteAction \<Rightarrow> (ddb_error, CancellationReason) res" where
  "checkTransactActionCondLocked s a =
     andThen (currentItem s a) (\<lambda>current.
       case evalCond (actCond a) current of
         Ok _ \<Rightarrow> Ok reasonNone
       | Err (ErrConditionalCheckFailed _) \<Rightarrow> Ok (reasonFailed a current)
       | Err e \<Rightarrow> Err e
       | Panic \<Rightarrow> Panic)"

definition checkConditions :: "ddb \<Rightarrow> TransactWriteAction list \<Rightarrow> (ddb_error, unit) res" where
  "checkConditions s as =
     andThen (mapRes (checkTransactActionCondLocked s) as) (\<lambda>reasons.
       if list_all (\<lambda>r. cr_Code r = ''None'') reasons then Ok () else Err (ErrTransactionCanceled reasons))"

section \<open>Phase 2\<close>

definition readTableMetaRaw :: "ddb \<Rightarrow> string \<Rightarrow> (ddb_error, TableMetadata) res" where
  "readTableMetaRaw s t = (case readTableMeta s t of Inl e \<Rightarrow> Err (ErrIO e) | Inr m \<Rightarrow> Ok m)"

text \<open>\<open>None\<close> is the empty path of an action that writes nothing.\<close>

definition itemPathForTransactActionLocked :: "ddb \<Rightarrow> TransactWriteAction \<Rightarrow> (ddb_error, path option) res" where
  "itemPathForTransactActionLocked s a =
     (case target a of
        None \<Rightarrow> Ok None
      | Some (t, key) \<Rightarrow>
          if \<not> writes a then Ok None
          else andThen (readTableMetaRaw s t) (\<lambda>meta.
               mapOk (\<lambda>k. Some (itemPath t k)) (itemKey (md5hex s) key (tm_KeySchema meta))))"

text \<open>\<open>readJSON[json.RawMessage]\<close>: the text of a file, which has to be JSON\<close>

definition readRaw :: "ddb \<Rightarrow> path \<Rightarrow> (ddb_error, ddb_content option) res" where
  "readRaw s p =
     (case root_ReadFile s p of
        Inl e \<Rightarrow> if e = ENotExist then Ok None else Err (ErrIO e)
      | Inr None \<Rightarrow> Err (ErrIO EOther)
      | Inr (Some c) \<Rightarrow> Ok (Some c))"

definition ioDone :: "ioerr option \<times> ddb \<Rightarrow> unit outcome" where
  "ioDone r = (case r of (None, s) \<Rightarrow> (Ok (), s) | (Some e, s) \<Rightarrow> (Err (ErrIO e), s))"

definition applyPath :: "ddb \<Rightarrow> string \<Rightarrow> gmap \<Rightarrow> (ddb_error, path) res" where
  "applyPath s t key =
     andThen (readTableMetaRaw s t) (\<lambda>meta. mapOk (itemPath t) (itemKey (md5hex s) key (tm_KeySchema meta)))"

fun applyTransactActionLocked :: "TransactWriteAction \<Rightarrow> ddb \<Rightarrow> unit outcome" where
  "applyTransactActionLocked (ActPut t item c r) s =
     onOk (applyPath s t item) s (\<lambda>p. ioDone (writeItem p (Some item) s))"
| "applyTransactActionLocked (ActDelete t key c r) s =
     onOk (applyPath s t key) s (\<lambda>p. ioDone (removeIfThere p s))"
| "applyTransactActionLocked (ActUpdate t key ups h0 c r) s =
     onOk (applyPath s t key) s (\<lambda>p.
     onOk (readOld s p) s (\<lambda>old.
       case storeMap (case old of None \<Rightarrow> key | Some m \<Rightarrow> m) h0 of
         (item, h1) \<Rightarrow>
           onOk (mapErr (\<lambda>e. ErrValidationException (VUpdate e)) (applyUpdates item ups h1)) s (\<lambda>h2.
             ioDone (writeItem p (loadMap h2 item) s))))"
| "applyTransactActionLocked (ActConditionCheck t key c r) s = (Ok (), s)"
| "applyTransactActionLocked ActNone s = (Ok (), s)"

record itemSnapshot =
  sn_path :: path
  sn_content :: "ddb_content option"

type_synonym transactWriteRecord = "TransactWriteAction \<times> itemSnapshot"

text \<open>One snapshot put back; an error of the removal or the write is only logged.\<close>

definition restore :: "itemSnapshot \<Rightarrow> ddb \<Rightarrow> ddb" where
  "restore sn s =
     (case sn_content sn of
        None \<Rightarrow> snd (root_Remove (sn_path sn) s)
      | Some c \<Rightarrow> snd (root_WriteFile (sn_path sn) c s))"

definition rollbackLocked :: "itemSnapshot list \<Rightarrow> ddb \<Rightarrow> ddb" where
  "rollbackLocked snaps s = foldr restore snaps s"

text \<open>The writes, with the records of those that were applied; a failure rolls them back. A panic does not.\<close>

fun applyWrites :: "transactWriteRecord list \<Rightarrow> TransactWriteAction list \<Rightarrow> ddb \<Rightarrow> transactWriteRecord list outcome" where
  "applyWrites applied [] s = (Ok applied, s)"
| "applyWrites applied (a # as) s =
     (case andThen (itemPathForTransactActionLocked s a) (\<lambda>op.
             case op of None \<Rightarrow> Ok None | Some p \<Rightarrow> mapOk (\<lambda>raw. Some (p, raw)) (readRaw s p)) of
        Err e \<Rightarrow> (Err e, rollbackLocked (map snd applied) s)
      | Panic \<Rightarrow> (Panic, s)
      | Ok None \<Rightarrow> applyWrites applied as s
      | Ok (Some (p, raw)) \<Rightarrow>
          (case applyTransactActionLocked a s of
             (Err e, s') \<Rightarrow> (Err e, rollbackLocked (map snd applied) s')
           | (Panic, s') \<Rightarrow> (Panic, s')
           | (Ok _, s') \<Rightarrow> applyWrites (applied @ [(a, \<lparr>sn_path = p, sn_content = raw\<rparr>)]) as s'))"

text \<open>\<open>json.Unmarshal(r.snap.content, &old)\<close>\<close>

definition snapItem :: "itemSnapshot \<Rightarrow> gmap option" where
  "snapItem sn = (case sn_content sn of Some (CItem m) \<Rightarrow> Some m | _ \<Rightarrow> None)"

definition emitTransact :: "transactWriteRecord \<Rightarrow> ddb \<Rightarrow> ddb" where
  "emitTransact r s =
     (case r of (a, sn) \<Rightarrow>
        (case target a of
           None \<Rightarrow> s
         | Some (t, key) \<Rightarrow>
             (case readTableMeta s t of
                Inl _ \<Rightarrow> s
              | Inr meta \<Rightarrow>
                  (case a of
                     ActPut _ item _ _ \<Rightarrow> emitWrite t meta item (snapItem sn) s
                   | ActDelete _ _ _ _ \<Rightarrow> emitRemove t meta (snapItem sn) s
                   | ActUpdate _ _ _ _ _ _ \<Rightarrow>
                       (case readItem s (sn_path sn) of
                          Inl _ \<Rightarrow> s
                        | Inr new \<Rightarrow> emitWrite t meta new (snapItem sn) s)
                   | _ \<Rightarrow> s))))"

definition emitTransactStreamEvents :: "transactWriteRecord list \<Rightarrow> ddb \<Rightarrow> ddb" where
  "emitTransactStreamEvents rs s = foldl (\<lambda>s r. emitTransact r s) s rs"

definition TransactWriteItems :: "TransactWriteAction list \<Rightarrow> ddb \<Rightarrow> unit outcome" where
  "TransactWriteItems as s =
     onOk (checkDuplicateKeysLocked s as) s (\<lambda>_.
     onOk (checkConditions s as) s (\<lambda>_.
       case applyWrites [] as s of
         (Ok applied, s') \<Rightarrow> (Ok (), emitTransactStreamEvents applied s')
       | (Err e, s') \<Rightarrow> (Err e, s')
       | (Panic, s') \<Rightarrow> (Panic, s')))"

end
