(* ===== verification/Ddb_Frame.thy ===== *)
theory Ddb_Frame
  imports Go_FS_Frame Ddb_Transaction
begin

text \<open>
  What the DynamoDB storage operations change. \<open>frame P s s'\<close> says that a step from \<open>s\<close> to \<open>s'\<close> changes
  at most the paths in \<open>P\<close> on the disk, keeps the directory tree and the parameters of the request;
  \<open>same_mem\<close> that it leaves the stream buffers and the sequence counter alone.
\<close>

definition frame :: "path set \<Rightarrow> ddb \<Rightarrow> ddb \<Rightarrow> bool" where
  "frame P s s' \<longleftrightarrow>
     md5hex s' = md5hex s \<and> clock s' = clock s \<and> d_fault s' = d_fault s
     \<and> (\<forall>q. q \<notin> P \<longrightarrow> look s' q = look s q) \<and> (disk_wf s \<longrightarrow> disk_wf s')"

definition same_mem :: "ddb \<Rightarrow> ddb \<Rightarrow> bool" where
  "same_mem s s' \<longleftrightarrow> streams s' = streams s \<and> seqNum s' = seqNum s"

lemma frame_refl [simp, intro]: "frame P s s"
  by (simp add: frame_def)

lemma frame_trans [trans]: "frame P s s' \<Longrightarrow> frame P s' s'' \<Longrightarrow> frame P s s''"
  by (simp add: frame_def)

lemma frame_mono: "frame P s s' \<Longrightarrow> P \<subseteq> Q \<Longrightarrow> frame Q s s'"
  by (auto simp: frame_def)

lemma frame_fields:
  assumes "frame P s s'"
  shows "md5hex s' = md5hex s" "clock s' = clock s" "d_fault s' = d_fault s"
    "q \<notin> P \<Longrightarrow> look s' q = look s q" "disk_wf s \<Longrightarrow> disk_wf s'" "fault_free s' q = fault_free s q" "quiet s' = quiet s"
  using assms by (auto simp: frame_def fault_free_def quiet_def)

lemma same_mem_refl [simp, intro]: "same_mem s s"
  by (simp add: same_mem_def)

lemma same_mem_trans: "same_mem s s' \<Longrightarrow> same_mem s' s'' \<Longrightarrow> same_mem s s''"
  by (simp add: same_mem_def)

lemma mem_put_del [simp]:
  fixes s :: ddb
  shows "streams (put p n s) = streams s" "seqNum (put p n s) = seqNum s" "clock (put p n s) = clock s"
    "md5hex (put p n s) = md5hex s" "streams (del p s) = streams s" "seqNum (del p s) = seqNum s"
    "clock (del p s) = clock s" "md5hex (del p s) = md5hex s"
  by (simp_all add: put_def del_def)

lemma look_mem [simp]: "look (s\<lparr>seqNum := n\<rparr>) q = look s q" "look (s\<lparr>streams := b\<rparr>) q = look s q"
  by (simp_all add: look_def)

lemma wf_mem [simp]: "disk_wf (s\<lparr>seqNum := n\<rparr>) = disk_wf s" "disk_wf (s\<lparr>streams := b\<rparr>) = disk_wf s"
  unfolding disk_wf_def look_mem by simp_all

section \<open>File operations\<close>

lemma write_step:
  fixes s :: ddb
  assumes "clean_path p" and "root_WriteFile p c s = (r, s')"
  shows "frame {p} s s'" and "same_mem s s'"
proof -
  have "md5hex s' = md5hex s \<and> clock s' = clock s \<and> d_fault s' = d_fault s \<and> same_mem s s'"
    using assms(2) by (auto simp: root_WriteFile_def same_mem_def split: sum.splits node.splits if_splits)
  then show "frame {p} s s'" "same_mem s s'"
    using write_other[OF assms(2)] wf_write[OF _ assms(1,2)] by (auto simp: frame_def)
qed

lemma remove_step:
  fixes s :: ddb
  assumes "root_Remove p s = (r, s')"
  shows "frame {p} s s'" and "same_mem s s'"
proof -
  have "md5hex s' = md5hex s \<and> clock s' = clock s \<and> d_fault s' = d_fault s \<and> same_mem s s'"
    using assms by (auto simp: root_Remove_def same_mem_def split: sum.splits node.splits if_splits)
  then show "frame {p} s s'" "same_mem s s'"
    using remove_other[OF assms] wf_remove[OF _ assms] by (auto simp: frame_def)
qed

lemma mkdir_step:
  fixes s :: ddb
  assumes "clean_path p" and "root_Mkdir p s = (r, s')"
  shows "frame {p} s s'" and "same_mem s s'"
proof -
  have "md5hex s' = md5hex s \<and> clock s' = clock s \<and> d_fault s' = d_fault s \<and> same_mem s s'"
    using assms by (auto simp: root_Mkdir_def same_mem_def split: sum.splits node.splits if_splits option.splits)
  then show "frame {p} s s'" "same_mem s s'"
    using mkdir_other[OF assms(2)] wf_mkdir[OF _ assms] by (auto simp: frame_def)
qed

lemma rename_step:
  fixes s :: ddb
  assumes "clean_path q" and "root_Rename p q s = (r, s')"
  shows "frame {p, q} s s'" and "same_mem s s'"
proof -
  have same: "md5hex s' = md5hex s \<and> clock s' = clock s \<and> d_fault s' = d_fault s \<and> same_mem s s'"
    using assms by (auto simp: root_Rename_def same_mem_def split: sum.splits node.splits if_splits)
  have "disk_wf s'" if wf: "disk_wf s"
  proof -
    have "disk_wf (put q (File c) (if p = q then s else del p s))"
      if w: "root_walk s p = Inr (File c)" "root_walk s (butlast q) = Inr Dir" "look s q \<noteq> Some Dir" "\<not> escapes q" for c
    proof (rule disk_wf_put)
      show "disk_wf (if p = q then s else del p s)" using wf disk_wf_del[OF wf, of p] root_walk_Inr[OF w(1)] by auto
      show "list_all plain_elem q" by (rule clean_path_plain[OF assms(1) w(4)])
      show "look (if p = q then s else del p s) (butlast q) = Some Dir"
        using root_walk_Inr[OF w(1)] root_walk_Inr[OF w(2)] by (auto simp: look_del)
      show "q \<noteq> []" using w(3) by auto
      show "look (if p = q then s else del p s) q = Some Dir \<longrightarrow> File c = Dir" using w(3) by (auto simp: look_del)
    qed
    then show ?thesis using assms(2) wf by (auto simp: root_Rename_def split: sum.splits node.splits if_splits)
  qed
  then show "frame {p, q} s s'" "same_mem s s'"
    using same rename_other[OF assms(2)] by (auto simp: frame_def)
qed

section \<open>Paths\<close>

lemma clean_paths [simp, intro]:
  "clean_path (tableMetaPath t)" "clean_path (streamFilePath t)" "clean_path (tableDir t)" "clean_path (itemPath t k)"
  by (simp_all add: tableMetaPath_def streamFilePath_def tableDir_def itemPath_def clean_path_Join)

definition hex_digest :: "(string \<Rightarrow> string) \<Rightarrow> bool" where
  "hex_digest h \<longleftrightarrow> (\<forall>x. length (h x) = 32 \<and> list_all is_hexdig (h x))"

lemma plain_append:
  assumes "CHR ''/'' \<notin> set e" and "CHR ''/'' \<notin> set x" and "length x > 2"
  shows "plain_elem (e @ x)"
proof -
  have "length (e @ x) > 2" using assms(3) by simp
  then have "e @ x \<noteq> ''''" "e @ x \<noteq> ''.''" "e @ x \<noteq> ''..''" by (force dest: arg_cong[where f = length])+
  with assms show ?thesis by (simp add: plain_elem_def)
qed

lemma plain_table:
  assumes "plain_elem t"
  shows "tableMetaPath t = [t @ ''.table.json'']" "streamFilePath t = [t @ ''.stream.jsonl'']" "tableDir t = [t]"
  using assms plain_append[of t "''.table.json''"] plain_append[of t "''.stream.jsonl''"]
  by (simp_all add: tableMetaPath_def streamFilePath_def tableDir_def filepath_Join_plain plain_elem_def)

lemma plain_item:
  assumes "plain_elem t" and "hex_digest h"
  shows "itemPath t (h x) = [t, h x @ ''.json'']"
proof -
  have "\<not> is_hexdig (CHR ''/'')" by (simp add: is_hexdig_def)
  then have "CHR ''/'' \<notin> set (h x)"
    using assms(2) unfolding hex_digest_def list_all_iff by blast
  then have "plain_elem (h x @ ''.json'')" by (intro plain_append) auto
  with assms(1) show ?thesis by (simp add: itemPath_def filepath_Join_plain)
qed

lemma itemKey_hash: "itemKey h item schema = Ok k \<Longrightarrow> \<exists>x. k = h x"
  by (auto simp: itemKey_def mapOk_Ok)

section \<open>Items and streams\<close>

lemma empty_step:
  assumes "clean_path p" and "writeEmpty p s = (r, s')"
  shows "frame {p} s s'" and "same_mem s s'"
proof -
  have "disk_wf (put p (File None) s)" if "disk_wf s" "root_walk s (butlast p) = Inr Dir" "look s p \<noteq> Some Dir" "\<not> escapes p"
    by (rule disk_wf_put[OF that(1) clean_path_plain[OF assms(1) that(4)]]) (use that root_walk_Inr in auto)
  then show "frame {p} s s'" "same_mem s s'"
    using assms(2) by (auto simp: writeEmpty_def frame_def same_mem_def fs_simps split: sum.splits node.splits if_splits)
qed

lemma writeItem_step:
  assumes "clean_path p" and "writeItem p oi s = (r, s')"
  shows "frame {p} s s'" and "same_mem s s'"
  using assms write_step[OF assms(1)] empty_step[OF assms(1)] by (auto simp: writeItem_def split: option.splits)

text \<open>A write that fails without an I/O error on its own path has changed nothing.\<close>

lemma writeItem_failed:
  assumes "writeItem p oi s = (Some e, s')" and "fault_free s p"
  shows "s' = s"
  using assms by (auto simp: writeItem_def writeEmpty_def root_WriteFile_def split: option.splits sum.splits node.splits if_splits)

text \<open>A write does not replace a directory.\<close>

lemma writeItem_dirs:
  assumes "writeItem p oi s = (r, s')"
  shows "look s' q = Some Dir \<longleftrightarrow> look s q = Some Dir"
  using assms by (auto simp: writeItem_def writeEmpty_def root_WriteFile_def fs_simps split: option.splits sum.splits node.splits if_splits)

lemma writeItem_None:
  assumes "writeItem p (Some item) s = (None, s')"
  shows "look s' p = Some (File (Some (CItem item)))" "p \<noteq> []"
  using write_None[of p "CItem item" s s'] assms by (auto simp: writeItem_def)

lemma append_step:
  shows "frame {streamFilePath t} s (appendToStreamFile t rec s)" and "same_mem s (appendToStreamFile t rec s)"
proof -
  let ?p = "streamFilePath t"
  have "disk_wf (put ?p (File c) s)" if "disk_wf s" "root_walk s (butlast ?p) = Inr Dir" "look s ?p \<noteq> Some Dir" "\<not> escapes ?p" for c
    by (rule disk_wf_put[OF that(1) clean_path_plain[OF clean_paths(2) that(4)]]) (use that root_walk_Inr in auto)
  then show "frame {?p} s (appendToStreamFile t rec s)" "same_mem s (appendToStreamFile t rec s)"
    by (auto simp: appendToStreamFile_def Let_def frame_def same_mem_def fs_simps
        split: sum.splits node.splits option.splits if_splits)
qed

lemma emit_frame: "frame {streamFilePath t} s (emitStreamRecord t ev vt ks old new s)"
proof (cases "getStreamBuffer s t")
  case None
  then show ?thesis by (simp add: emitStreamRecord_def)
next
  case (Some buf)
  have "frame {streamFilePath t} s (s\<lparr>seqNum := n, streams := b\<rparr>)" for n b
    by (simp add: frame_def)
  then have "frame {streamFilePath t} s (appendToStreamFile t rec (s\<lparr>seqNum := n, streams := b\<rparr>))" for rec n b
    by (rule frame_trans[OF _ append_step(1)])
  with Some show ?thesis by (simp only: emitStreamRecord_def Let_def option.case)
qed

lemma emitWrite_frame: "frame {streamFilePath t} s (emitWrite t meta new old s)"
  by (simp add: emitWrite_def emit_frame)

lemma emitRemove_frame: "frame {streamFilePath t} s (emitRemove t meta old s)"
  by (auto simp: emitRemove_def emit_frame split: option.splits)

end
