(* ===== verification/Ddb_Demo.thy ===== *)
theory Ddb_Demo
  imports Ddb_Frame
begin

text \<open>
  A small database on which the theorems are applied: one table \<open>t\<close> with a string hash key \<open>pk\<close> and a
  stream of both images, on a disk without faults. The hash of the demonstration counts characters;
  it stands for MD5 and tells apart the keys that are used.
\<close>

definition demo_md5 :: "string \<Rightarrow> string" where
  "demo_md5 x = replicate 31 (CHR ''0'') @ [hexdig (length x mod 16)]"

definition demo_schema :: "KeySchemaElement list" where
  "demo_schema = [\<lparr>ks_AttributeName = ''pk'', ks_KeyType = ''HASH''\<rparr>]"

definition demo_meta :: TableMetadata where
  "demo_meta = \<lparr>tm_Name = ''t'', tm_KeySchema = demo_schema,
     tm_AttributeDefinitions = [\<lparr>ad_AttributeName = ''pk'', ad_AttributeType = ''S''\<rparr>],
     tm_BillingMode = ''PAY_PER_REQUEST'', tm_BillingModeUpdatedAt = None, tm_ProvisionedThroughput = None,
     tm_GlobalSecondaryIndexes = [], tm_LocalSecondaryIndexes = [], tm_Status = ''ACTIVE'', tm_CreatedAt = 0,
     tm_TTL = None, tm_Tags = [], tm_PITR = None, tm_KinesisDestinations = [],
     tm_StreamSpec = Some \<lparr>ss_StreamEnabled = True, ss_StreamViewType = ''NEW_AND_OLD_IMAGES''\<rparr>,
     tm_StreamLabel = ''L''\<rparr>"

definition demo_buffer :: streamBuffer where
  "demo_buffer = \<lparr>sb_label = ''L'', sb_shardID = ''x'', sb_records = []\<rparr>"

definition demo_db :: ddb where
  "demo_db = \<lparr>d_fs = [([''t''], Dir), ([''t.table.json''], File (Some (CTable demo_meta)))],
     d_fault = (\<lambda>_ _. False), md5hex = demo_md5, streams = [(''t'', demo_buffer)], seqNum = 7, clock = 0\<rparr>"

definition demo_key :: "string \<Rightarrow> gmap" where
  "demo_key v = [(''pk'', GMap [(''S'', GStr v)])]"

definition demo_row :: "string \<Rightarrow> string \<Rightarrow> gmap" where
  "demo_row v n = [(''pk'', GMap [(''S'', GStr v)]), (''n'', GMap [(''N'', GStr n)])]"

lemma outcomeI: "fst x = a \<Longrightarrow> x = (a, snd x)"
  by (cases x) simp

lemma db_hex_digest: "hex_digest demo_md5"
  by (auto simp: hex_digest_def demo_md5_def list_all_iff is_hexdig_hexdig) (simp add: is_hexdig_def)

lemma db_quiet: "quiet demo_db"
  by (simp add: quiet_def demo_db_def)

lemma db_wf: "disk_wf demo_db"
  by (auto simp: disk_wf_def demo_db_def look_def plain_elem_def split: if_splits)

lemma db_plain: "plain_elem ''t''"
  by (simp add: plain_elem_def)

lemma db_tableMeta: "tableMeta demo_db ''t'' = Ok demo_meta"
  by (simp add: tableMeta_def readTableMeta_def plain_table[OF db_plain] root_ReadFile_def root_walk_def
      escapes_def blocked_def look_def demo_db_def)

lemma db_hash: "hex_digest (md5hex demo_db)"
  using db_hex_digest by (simp add: demo_db_def)

lemmas db_facts = db_wf db_quiet db_plain db_hash

text \<open>The same database on a disk that cannot write the file of one key.\<close>

definition demo_bad :: ddb where
  "demo_bad = demo_db\<lparr>d_fault := (\<lambda>op p. op = OpWrite \<and> p = [''t'', demo_md5 (replicate 27 CHR ''x'') @ ''.json''])\<rparr>"

lemma db_bad_wf: "disk_wf demo_bad"
  by (auto simp: disk_wf_def demo_bad_def demo_db_def look_def plain_elem_def split: if_splits)

end
