(* ===== verification/Undo_Log.thy ===== *)
theory Undo_Log
  imports Main
begin

text \<open>
  The contract of an undo log: a client records the old value of a place before each change and
  puts the records back in reverse order. \<open>undo\<close> may fail on places that are not \<open>sure\<close>; on the others
  the first record of a place decides, whatever was changed and however often.
\<close>

locale undo_log =
  fixes get :: "'s \<Rightarrow> 'p \<Rightarrow> 'v"
    and undo :: "'r \<Rightarrow> 's \<Rightarrow> 's"
    and place :: "'r \<Rightarrow> 'p"
    and old :: "'r \<Rightarrow> 'v"
    and ok :: "'s \<Rightarrow> bool"
    and rec_ok :: "'r \<Rightarrow> bool"
    and sure :: "'p \<Rightarrow> bool"
  assumes undo_ok: "ok s \<Longrightarrow> rec_ok r \<Longrightarrow> ok (undo r s)"
    and undo_get: "ok s \<Longrightarrow> rec_ok r \<Longrightarrow> sure q \<Longrightarrow> get (undo r s) q = (if q = place r then old r else get s q)"
begin

lemma undo_all_ok: "ok s \<Longrightarrow> list_all rec_ok rs \<Longrightarrow> ok (foldr undo rs s)"
  by (induction rs) (auto intro: undo_ok)

lemma undo_all_get:
  assumes "ok s" and "list_all rec_ok rs" and "sure q"
  shows "get (foldr undo rs s) q = (case find (\<lambda>r. place r = q) rs of None \<Rightarrow> get s q | Some r \<Rightarrow> old r)"
  using assms(2) by (induction rs) (auto simp: undo_get undo_all_ok assms)

text \<open>The records cover the changes since \<open>s0\<close>: what has no record is as it was, and a record has the value of \<open>s0\<close>.\<close>

definition covers :: "'s \<Rightarrow> 'r list \<Rightarrow> 's \<Rightarrow> bool" where
  "covers s0 rs s \<longleftrightarrow> (\<forall>q. (case find (\<lambda>r. place r = q) rs of None \<Rightarrow> get s q | Some r \<Rightarrow> old r) = get s0 q)"

lemma covers_start: "covers s [] s"
  by (simp add: covers_def)

lemma covers_step:
  assumes "covers s0 rs s" and "old r = get s (place r)" and "\<And>q. q \<noteq> place r \<Longrightarrow> get s' q = get s q"
  shows "covers s0 (rs @ [r]) s'"
proof -
  have snoc: "find P (rs @ [r]) = (case find P rs of Some x \<Rightarrow> Some x | None \<Rightarrow> if P r then Some r else None)" for P
    by (induction rs) auto
  show ?thesis
    unfolding covers_def
  proof
    fix q
    show "(case find (\<lambda>x. place x = q) (rs @ [r]) of None \<Rightarrow> get s' q | Some x \<Rightarrow> old x) = get s0 q"
    proof (cases "find (\<lambda>x. place x = q) rs")
      case None
      with assms(1) have "get s q = get s0 q" unfolding covers_def by (metis option.case(1))
      then show ?thesis using assms(2,3) None by (simp add: snoc)
    next
      case (Some x)
      with assms(1) have "old x = get s0 q" unfolding covers_def by (metis option.case(2))
      then show ?thesis using Some by (simp add: snoc)
    qed
  qed
qed

lemma covers_undone:
  assumes "covers s0 rs s" and "ok s" and "list_all rec_ok rs" and "sure q"
  shows "get (foldr undo rs s) q = get s0 q"
  using assms by (simp add: undo_all_get covers_def)

end

end
