(* ===== verification/Ddb_Transaction_Theorems.thy ===== *)
theory Ddb_Transaction_Theorems
  imports Ddb_Demo Undo_Log
begin

text \<open>
  Write transactions: a transaction that returns an error has changed no file on which the
  operating system did not fail, a failed condition changes nothing at all, and a successful one
  has applied every action. The rollback is an undo log on the files of the disk.
\<close>

section \<open>Snapshots as an undo log\<close>

definition snap_node :: "itemSnapshot \<Rightarrow> ddb_content node option" where
  "snap_node sn = map_option (\<lambda>c. File (Some c)) (sn_content sn)"

text \<open>The directories and the faults do not change during a transaction.\<close>

definition tx_ok :: "path set \<Rightarrow> (iop \<Rightarrow> path \<Rightarrow> bool) \<Rightarrow> ddb \<Rightarrow> bool" where
  "tx_ok D F s \<longleftrightarrow> disk_wf s \<and> {q. look s q = Some Dir} = D \<and> d_fault s = F"

definition snap_ok :: "path set \<Rightarrow> itemSnapshot \<Rightarrow> bool" where
  "snap_ok D sn \<longleftrightarrow> clean_path (sn_path sn) \<and> sn_path sn \<notin> D
     \<and> (sn_content sn \<noteq> None \<longrightarrow> butlast (sn_path sn) \<in> D \<and> \<not> escapes (sn_path sn))"

lemma remove_dirs:
  assumes "root_Remove p s = (r, s')" and "look s p \<noteq> Some Dir"
  shows "look s' q = Some Dir \<longleftrightarrow> look s q = Some Dir"
  using assms by (auto simp: root_Remove_def fs_simps dest!: root_walk_Inr split: sum.splits node.splits if_splits)

lemma restore_step:
  assumes "tx_ok D F s" and "snap_ok D sn"
  shows "tx_ok D F (restore sn s)" and "frame {sn_path sn} s (restore sn s)" and "same_mem s (restore sn s)"
proof -
  have nd: "look s (sn_path sn) \<noteq> Some Dir" and cp: "clean_path (sn_path sn)" using assms by (auto simp: tx_ok_def snap_ok_def)
  have "frame {sn_path sn} s (restore sn s) \<and> same_mem s (restore sn s)
        \<and> (\<forall>q. look (restore sn s) q = Some Dir \<longleftrightarrow> look s q = Some Dir)"
  proof (cases "sn_content sn")
    case None
    obtain r s' where r: "root_Remove (sn_path sn) s = (r, s')" by fastforce
    with None have "restore sn s = s'" by (simp add: restore_def)
    then show ?thesis using remove_step[OF r] remove_dirs[OF r nd] by simp
  next
    case (Some c)
    obtain r s' where r: "root_WriteFile (sn_path sn) c s = (r, s')" by fastforce
    with Some have "restore sn s = s'" by (simp add: restore_def)
    moreover have "look s' q = Some Dir \<longleftrightarrow> look s q = Some Dir" for q
      using r by (auto simp: root_WriteFile_def fs_simps split: sum.splits node.splits if_splits)
    ultimately show ?thesis using write_step[OF cp r] by simp
  qed
  then show "tx_ok D F (restore sn s)" "frame {sn_path sn} s (restore sn s)" "same_mem s (restore sn s)"
    using assms(1) by (auto simp: tx_ok_def frame_def)
qed

lemma restore_get:
  assumes "tx_ok D F s" and "snap_ok D sn" and "\<And>op. \<not> F op (sn_path sn)"
  shows "look (restore sn s) (sn_path sn) = snap_node sn"
proof -
  have ff: "fault_free s (sn_path sn)" and wf: "disk_wf s" and nd: "look s (sn_path sn) \<noteq> Some Dir"
    using assms by (auto simp: tx_ok_def snap_ok_def fault_free_def)
  then have ne: "sn_path sn \<noteq> []" by auto
  show ?thesis
  proof (cases "sn_content sn")
    case None
    show ?thesis
    proof (cases "look s (sn_path sn)")
      case None
      then have "snd (root_Remove (sn_path sn) s) = s" using remove_missing[OF wf None] by (metis prod.collapse)
      with None \<open>sn_content sn = None\<close> show ?thesis by (simp add: restore_def snap_node_def)
    next
      case (Some n)
      with nd obtain c where "look s (sn_path sn) = Some (File c)" by (cases n) auto
      then show ?thesis using remove_file[OF wf ff] \<open>sn_content sn = None\<close> ne
        by (simp add: restore_def snap_node_def look_del)
    qed
  next
    case (Some c)
    with assms(1,2) have "look s (butlast (sn_path sn)) = Some Dir" "\<not> escapes (sn_path sn)"
      by (auto simp: tx_ok_def snap_ok_def)
    then show ?thesis using write_file[OF wf ff _ nd] Some ne by (simp add: restore_def snap_node_def look_put)
  qed
qed

interpretation item_log: undo_log look restore sn_path snap_node "tx_ok D F" "snap_ok D" "\<lambda>q. \<forall>op. \<not> F op q" for D F
proof
  fix s :: ddb and r q
  assume a: "tx_ok D F s" "snap_ok D r"
  then show "tx_ok D F (restore r s)" by (rule restore_step(1))
  assume q: "\<forall>op. \<not> F op q"
  show "look (restore r s) q = (if q = sn_path r then snap_node r else look s q)"
    using restore_get[OF a] q frame_fields(4)[OF restore_step(2)[OF a], of q] by auto
qed

section \<open>The writes\<close>

lemma onOk_simps [simp]:
  "onOk (Ok x) s k = k x" "onOk (Err e) s k = (Err e, s)" "onOk Panic s k = (Panic, s)"
  by (simp_all add: onOk_def)

lemma onOk_cases:
  assumes "onOk r s k = (res, s')"
  obtains (ok) x where "r = Ok x" "k x = (res, s')" | (err) e where "r = Err e" "res = Err e" "s' = s"
    | (panic) "r = Panic" "res = Panic" "s' = s"
  using assms by (cases r) auto

lemma path_of_action:
  "itemPathForTransactActionLocked s a =
     (case target a of
        None \<Rightarrow> Ok None
      | Some (t, key) \<Rightarrow> if writes a then mapOk Some (applyPath s t key) else Ok None)"
  by (auto simp: itemPathForTransactActionLocked_def applyPath_def mapOk_def andThen_def split: option.splits res.splits)

lemma applyPath_clean: "applyPath s t key = Ok p \<Longrightarrow> clean_path p"
  by (auto simp: applyPath_def andThen_Ok mapOk_Ok)

text \<open>An action changes only its own file, never a directory, and nothing when it fails without a fault there.\<close>

definition acts_on :: "path \<Rightarrow> ddb \<Rightarrow> unit outcome \<Rightarrow> bool" where
  "acts_on p s out \<longleftrightarrow>
     (case out of (r, s') \<Rightarrow>
        frame {p} s s' \<and> same_mem s s' \<and> (\<forall>q. look s' q = Some Dir \<longleftrightarrow> look s q = Some Dir)
        \<and> (\<forall>e. r = Err e \<longrightarrow> fault_free s p \<longrightarrow> s' = s))"

lemma acts_on_write:
  assumes "clean_path p"
  shows "acts_on p s (ioDone (writeItem p oi s))"
proof -
  obtain r s' where w: "writeItem p oi s = (r, s')" by fastforce
  then show ?thesis
    using writeItem_step[OF assms w] writeItem_dirs[OF w] writeItem_failed[of p oi s _ s']
    by (auto simp: acts_on_def ioDone_def split: option.splits)
qed

lemma acts_on_remove:
  assumes "look s p \<noteq> Some Dir"
  shows "acts_on p s (ioDone (removeIfThere p s))"
proof -
  obtain r s' where w: "root_Remove p s = (r, s')" by fastforce
  then show ?thesis
    using remove_step[OF w] remove_dirs[OF w assms] remove_same[OF w]
    by (auto simp: acts_on_def ioDone_def removeIfThere_def split: option.splits)
qed

lemma acts_on_refl [simp]: "acts_on p s (r, s)"
  by (simp add: acts_on_def)

lemma action_acts_on:
  assumes "itemPathForTransactActionLocked s a = Ok (Some p)" and "look s p \<noteq> Some Dir"
  shows "acts_on p s (applyTransactActionLocked a s)"
proof -
  obtain t key where t: "target a = Some (t, key)" "writes a" and p: "applyPath s t key = Ok p"
    using assms(1) by (auto simp: path_of_action mapOk_Ok split: option.splits if_splits)
  note c = applyPath_clean[OF p]
  show ?thesis
  proof (cases a)
    case (ActPut t' item c' r)
    then show ?thesis using p t acts_on_write[OF c] by simp
  next
    case (ActDelete t' key' c' r)
    then show ?thesis using p t acts_on_remove[OF assms(2)] by simp
  next
    case (ActUpdate t' key' ups h c' r)
    then show ?thesis
      using p t acts_on_write[OF c] by (auto simp: onOk_def split: res.splits prod.splits)
  qed (use t in auto)
qed

lemma readRaw_Ok:
  assumes "readRaw s p = Ok raw"
  shows "look s p = map_option (\<lambda>c. File (Some c)) raw" and "raw \<noteq> None \<Longrightarrow> \<not> escapes p"
proof -
  have missing: "look s p = None" if "root_walk s p = Inl ENotExist"
    using that by (auto simp: root_walk_def split: if_splits option.splits)
  show "look s p = map_option (\<lambda>c. File (Some c)) raw" "raw \<noteq> None \<Longrightarrow> \<not> escapes p"
    using assms missing
    by (auto simp: readRaw_def root_ReadFile_def dest!: root_walk_Inr split: sum.splits option.splits node.splits if_splits)
qed

lemma snap_of_read:
  assumes "tx_ok D F s" and "clean_path p" and "readRaw s p = Ok raw"
  shows "snap_ok D \<lparr>sn_path = p, sn_content = raw\<rparr>" and "snap_node \<lparr>sn_path = p, sn_content = raw\<rparr> = look s p"
proof -
  note r = readRaw_Ok[OF assms(3)]
  have "look s (butlast p) = Some Dir" if "raw \<noteq> None"
    using that r(1) assms(1) disk_wf_parent[of s p] by (auto simp: tx_ok_def)
  moreover have "look s p \<noteq> Some Dir" using r(1) by (cases raw) auto
  ultimately show "snap_ok D \<lparr>sn_path = p, sn_content = raw\<rparr>"
    using assms(1,2) r(2) unfolding snap_ok_def tx_ok_def by auto
  show "snap_node \<lparr>sn_path = p, sn_content = raw\<rparr> = look s p" using r(1) by (simp add: snap_node_def)
qed

section \<open>A failed transaction\<close>

lemma rollback_mem:
  assumes "tx_ok D F s" and "list_all (snap_ok D) rs"
  shows "same_mem s (rollbackLocked rs s)"
  using assms(2)
proof (induction rs)
  case (Cons r rs)
  then have "tx_ok D F (foldr restore rs s)" using item_log.undo_all_ok[OF assms(1)] by simp
  then show ?case using Cons restore_step(3)[of D F "foldr restore rs s" r] same_mem_trans
    by (auto simp: rollbackLocked_def)
qed (simp add: rollbackLocked_def)

lemma rollback_undone:
  assumes "tx_ok D F s" and "list_all (snap_ok D) (map snd applied)" and "item_log.covers s0 (map snd applied) s"
    and "\<forall>op. \<not> F op q"
  shows "look (rollbackLocked (map snd applied) s) q = look s0 q"
  using item_log.covers_undone[OF assms(3,1,2,4)] by (simp add: rollbackLocked_def)

lemma applyWrites_failed:
  assumes "applyWrites applied as s = (Err e, s')"
    and "tx_ok D F s" and "list_all (snap_ok D) (map snd applied)" and "item_log.covers s0 (map snd applied) s"
  shows "((\<forall>op. \<not> F op q) \<longrightarrow> look s' q = look s0 q) \<and> same_mem s s'"
  using assms
proof (induction applied as s rule: applyWrites.induct)
  case (1 applied s)
  then show ?case by simp
next
  case (2 applied a as s)
  let ?start = "andThen (itemPathForTransactActionLocked s a)
    (\<lambda>op. case op of None \<Rightarrow> Ok None | Some p \<Rightarrow> mapOk (\<lambda>raw. Some (p, raw)) (readRaw s p))"
  have undone: "(\<forall>op. \<not> F op q) \<longrightarrow> look (rollbackLocked (map snd applied) s) q = look s0 q"
    using rollback_undone[OF 2(4-6)] by blast
  show ?case
  proof (cases ?start)
    case (Err e')
    then show ?thesis using 2(3) undone rollback_mem[OF 2(4,5)] by simp
  next
    case Panic
    then show ?thesis using 2(3) by simp
  next
    case (Ok o1)
    show ?thesis
    proof (cases o1)
      case None
      then show ?thesis using 2 Ok by simp
    next
      case (Some pr)
      obtain p raw where pr: "pr = (p, raw)" by fastforce
      have path: "itemPathForTransactActionLocked s a = Ok (Some p)" and raw: "readRaw s p = Ok raw"
        using Ok Some pr by (auto simp: andThen_Ok mapOk_Ok split: option.splits)
      have "clean_path p" using path by (auto simp: path_of_action mapOk_Ok applyPath_clean split: option.splits if_splits)
      note snap = snap_of_read[OF 2(4) this raw]
      have nd: "look s p \<noteq> Some Dir" using readRaw_Ok(1)[OF raw] by (cases raw) auto
      obtain r1 s1 where out: "applyTransactActionLocked a s = (r1, s1)" by fastforce
      have act: "acts_on p s (r1, s1)" using action_acts_on[OF path nd] out by simp
      then have ok1: "tx_ok D F s1" and mem1: "same_mem s s1" and other: "q' \<noteq> p \<Longrightarrow> look s1 q' = look s q'" for q'
        using 2(4) by (auto simp: acts_on_def tx_ok_def frame_def)
      show ?thesis
      proof (cases r1)
        case (Ok u)
        let ?rec = "(a, \<lparr>sn_path = p, sn_content = raw\<rparr>)"
        have "applyWrites (applied @ [?rec]) as s1 = (Err e, s')"
          using 2(3) \<open>?start = Ok o1\<close> Some pr out Ok by simp
        moreover have "item_log.covers s0 (map snd (applied @ [?rec])) s1"
          using item_log.covers_step[OF 2(6), of "snd ?rec" s1] snap(2) other by simp
        ultimately have "((\<forall>op. \<not> F op q) \<longrightarrow> look s' q = look s0 q) \<and> same_mem s1 s'"
          using 2(2)[OF \<open>?start = Ok o1\<close> Some pr[symmetric] out[symmetric] Ok] ok1 2(5) snap(1) by simp
        then show ?thesis using mem1 same_mem_trans by blast
      next
        case (Err e')
        have s': "s' = rollbackLocked (map snd applied) s1"
          using 2(3) \<open>?start = Ok o1\<close> Some pr out Err by simp
        have "look (rollbackLocked (map snd applied) s1) q = look (rollbackLocked (map snd applied) s) q" if F: "\<forall>op. \<not> F op q"
        proof -
          have "look s1 q = look s q"
            using F act Err other 2(4) by (cases "q = p") (auto simp: acts_on_def tx_ok_def fault_free_def)
          then show ?thesis
            using item_log.undo_all_get[OF ok1 2(5) F] item_log.undo_all_get[OF 2(4,5) F]
            by (simp add: rollbackLocked_def split: option.splits)
        qed
        then show ?thesis
          using undone s' rollback_mem[OF ok1 2(5)] mem1 same_mem_trans by metis
      next
        case Panic
        then show ?thesis using 2(3) \<open>?start = Ok o1\<close> Some pr out by simp
      qed
    qed
  qed
qed

text \<open>
  C18. A write transaction that returns an error is undone: on a directory tree, every file on which
  the operating system reports no failure is as it was before the transaction, and no stream record
  was emitted, however many of the actions had been applied when one failed.
\<close>

theorem transact_write_atomic:
  assumes "disk_wf s" and "TransactWriteItems as s = (Err e, s')"
  shows "(\<forall>q. (\<forall>op. \<not> d_fault s op q) \<longrightarrow> look s' q = look s q) \<and> streams s' = streams s \<and> seqNum s' = seqNum s"
proof -
  let ?D = "{q. look s q = Some Dir}"
  have ok: "tx_ok ?D (d_fault s) s" using assms(1) by (simp add: tx_ok_def)
  have *: "((\<forall>op. \<not> d_fault s op q) \<longrightarrow> look s1 q = look s q) \<and> same_mem s s1"
    if "applyWrites [] as s = (Err e, s1)" for q s1
    by (rule applyWrites_failed[OF that ok]) (simp_all add: item_log.covers_start)
  show ?thesis
    using assms(2) *
    by (auto simp: TransactWriteItems_def same_mem_def elim!: onOk_cases split: res.splits prod.splits)
qed

definition demo_puts :: "TransactWriteAction list" where
  "demo_puts = [ActPut ''t'' (demo_row ''a'' ''1'') None '''', ActPut ''t'' (demo_row ''bb'' ''2'') None '''']"

theorem transact_write_atomic_witness:
  "fst (TransactWriteItems demo_puts demo_bad) = Err (ErrIO EOther)
   \<and> look (snd (TransactWriteItems demo_puts demo_bad)) [''t'', ''0000000000000000000000000000000a.json''] = None
   \<and> seqNum (snd (TransactWriteItems demo_puts demo_bad)) = 7"
proof -
  have e: "fst (TransactWriteItems demo_puts demo_bad) = Err (ErrIO EOther)" by code_simp
  have "demo_md5 (replicate 27 CHR ''x'') = ''0000000000000000000000000000000b''" by code_simp
  then have "\<forall>op. \<not> d_fault demo_bad op [''t'', ''0000000000000000000000000000000a.json'']"
    by (simp add: demo_bad_def)
  moreover have "look demo_bad [''t'', ''0000000000000000000000000000000a.json''] = None" "seqNum demo_bad = 7"
    by (simp_all add: demo_bad_def demo_db_def look_def)
  ultimately show ?thesis
    using transact_write_atomic[OF db_bad_wf outcomeI[OF e]] e by simp
qed

end
