(* ===== verification/Ddb_Item_Theorems.thy ===== *)
theory Ddb_Item_Theorems
  imports Ddb_Transaction_Theorems
begin

text \<open>
  What a client sees of the item operations: a write is read back, under exactly the keys that
  hash to the same file, and nothing else changes; a write that is refused or fails on a healthy
  disk changes nothing.
\<close>

section \<open>Reads\<close>

lemma read_top:
  assumes "look s' [x] = look s [x]" and "d_fault s' = d_fault s"
  shows "root_ReadFile s' [x] = root_ReadFile s [x]" "root_Stat s' [x] = root_Stat s [x]"
proof -
  have w: "root_walk s' [x] = root_walk s [x]" using assms by (simp add: root_walk_def blocked_def)
  show "root_ReadFile s' [x] = root_ReadFile s [x]" unfolding root_ReadFile_def w assms(2) ..
  show "root_Stat s' [x] = root_Stat s [x]" unfolding root_Stat_def w assms(2) ..
qed

lemma read_two:
  assumes "look s' [t, f] = look s [t, f]" and "look s' [t] = look s [t]" and "d_fault s' = d_fault s"
  shows "root_ReadFile s' [t, f] = root_ReadFile s [t, f]"
proof -
  have w: "root_walk s' [t, f] = root_walk s [t, f]" using assms by (simp add: root_walk_def blocked_def upt_rec)
  show ?thesis unfolding root_ReadFile_def w assms(3) ..
qed

lemma tableMeta_frame:
  assumes "frame P s s'" and "plain_elem t" and "[t @ ''.table.json''] \<notin> P"
  shows "readTableMeta s' t = readTableMeta s t" "tableMeta s' t = tableMeta s t"
    "tableExistsLocked s' t = tableExistsLocked s t" "existingMeta s' t = existingMeta s t"
proof -
  note r = read_top[OF frame_fields(4)[OF assms(1,3)] frame_fields(3)[OF assms(1)]]
  show "readTableMeta s' t = readTableMeta s t" "tableMeta s' t = tableMeta s t"
    "tableExistsLocked s' t = tableExistsLocked s t" "existingMeta s' t = existingMeta s t"
    by (simp_all add: readTableMeta_def tableMeta_def tableExistsLocked_def existingMeta_def plain_table[OF assms(2)] r)
qed

lemma readOld_frame:
  assumes "frame P s s'" and "[t, f] \<notin> P" and "[t] \<notin> P"
  shows "readItem s' [t, f] = readItem s [t, f]" "readOld s' [t, f] = readOld s [t, f]"
  using read_two[OF frame_fields(4)[OF assms(1,2)] frame_fields(4)[OF assms(1,3)] frame_fields(3)[OF assms(1)]]
  by (simp_all add: readItem_def readOld_def)

lemma readOld_File:
  assumes "disk_wf s" and "quiet s" and "look s p = Some (File (Some (CItem item)))"
  shows "readOld s p = Ok (Some item)"
  using assms root_walk_Some[OF assms(1,3)] by (simp add: readOld_def readItem_def root_ReadFile_def quiet_def)

lemma readOld_missing:
  assumes "disk_wf s" and "quiet s" and "look s [t] = Some Dir" and "look s [t, f] = None" and "plain_elem t"
  shows "readOld s [t, f] = Ok None"
proof -
  have "root_walk s ([t] @ [f]) = Inl ENotExist"
    by (rule root_walk_missing[OF assms(1,3)]) (use assms in \<open>auto simp: escapes_def plain_elem_def\<close>)
  then show ?thesis using assms(2) by (simp add: readOld_def readItem_def root_ReadFile_def quiet_def)
qed

lemma locate_Ok:
  "locate s t key = Ok (meta, p) \<longleftrightarrow>
     (\<exists>k. tableMeta s t = Ok meta \<and> itemKey (md5hex s) key (tm_KeySchema meta) = Ok k \<and> p = itemPath t k)"
  by (auto simp: locate_def andThen_Ok mapOk_Ok)

lemma locate_path:
  assumes "locate s t key = Ok (meta, p)" and "plain_elem t" and "hex_digest (md5hex s)"
  obtains k where "itemKey (md5hex s) key (tm_KeySchema meta) = Ok k" "p = [t, k @ ''.json'']" "tableMeta s t = Ok meta"
proof -
  from assms(1) obtain k where k: "tableMeta s t = Ok meta" "itemKey (md5hex s) key (tm_KeySchema meta) = Ok k" "p = itemPath t k"
    by (auto simp: locate_Ok)
  obtain x where "k = md5hex s x" using itemKey_hash[OF k(2)] by blast
  then show thesis using that k plain_item[OF assms(2,3)] by simp
qed

lemma tableMeta_Ok: "tableMeta s t = Ok meta \<longleftrightarrow> readTableMeta s t = Inr meta"
  by (auto simp: tableMeta_def split: sum.splits if_splits)

text \<open>The file names of a table, its metadata and its stream are different.\<close>

lemma name_lengths [simp]: "t \<noteq> t @ ''.stream.jsonl''" "t @ ''.table.json'' \<noteq> t' @ ''.stream.jsonl''"
  "t' @ ''.stream.jsonl'' \<noteq> t @ ''.table.json''"
proof -
  show "t @ ''.table.json'' \<noteq> t' @ ''.stream.jsonl''"
    by (rule notI) (drule arg_cong[where f = last], simp)
  then show "t' @ ''.stream.jsonl'' \<noteq> t @ ''.table.json''" by metis
qed simp

section \<open>What a write of one item does\<close>

definition one_item :: "string \<Rightarrow> string \<Rightarrow> ddb \<Rightarrow> ddb \<Rightarrow> bool" where
  "one_item t k s s' \<longleftrightarrow> frame {[t, k @ ''.json''], [t @ ''.stream.jsonl'']} s s'"

text \<open>How a read of table \<open>t\<close> sees the state after a change of one item.\<close>

lemma get_after:
  assumes "one_item t k s s'" and "plain_elem t" and "hex_digest (md5hex s)" and "tableMeta s t = Ok meta"
    and "itemKey (md5hex s) key (tm_KeySchema meta) = Ok k'"
  shows "GetItem t key s' =
     (if k' = k then
        andThen (readOld s' [t, k @ ''.json'']) (\<lambda>old.
          Ok (case old of None \<Rightarrow> None | Some item \<Rightarrow> if isTTLExpired (clock s) item (tm_TTL meta) then None else Some item))
      else GetItem t key s)"
proof -
  note fr = assms(1)[unfolded one_item_def]
  obtain x where x: "k' = md5hex s x" using itemKey_hash[OF assms(5)] by blast
  then have p: "itemPath t k' = [t, k' @ ''.json'']" using plain_item[OF assms(2,3)] by simp
  have loc: "locate s t key = Ok (meta, [t, k' @ ''.json''])" "locate s' t key = Ok (meta, [t, k' @ ''.json''])"
    using assms(4,5) tableMeta_frame(2)[OF fr assms(2)] frame_fields(1)[OF fr] p by (auto simp: locate_Ok)
  show ?thesis
  proof (cases "k' = k")
    case True
    then show ?thesis unfolding GetItem_def loc(2) frame_fields(2)[OF fr] by simp
  next
    case False
    then have "readOld s' [t, k' @ ''.json''] = readOld s [t, k' @ ''.json'']" by (intro readOld_frame(2)[OF fr]) auto
    then show ?thesis unfolding GetItem_def loc frame_fields(2)[OF fr] using False by simp
  qed
qed

lemma one_itemI:
  assumes "frame {[t, k @ ''.json'']} s s1" and "frame {streamFilePath t} s1 s2" and "plain_elem t"
  shows "one_item t k s s2"
  unfolding one_item_def
  by (rule frame_trans[OF frame_mono[OF assms(1)] frame_mono[OF assms(2)]])
    (use assms(3) in \<open>auto simp: plain_table\<close>)

lemma item_kept:
  assumes "frame {streamFilePath t} s s'" and "plain_elem t"
  shows "look s' [t, f] = look s [t, f]" "look s' [t] = look s [t]"
  using frame_fields(4)[OF assms(1), of "[t, f]"] frame_fields(4)[OF assms(1), of "[t]"] assms(2)
  by (simp_all add: plain_table)

lemma put_effect:
  assumes "PutItem t item cond s = (Ok old, s')" and "plain_elem t" and "hex_digest (md5hex s)"
  obtains meta k where "tableMeta s t = Ok meta" "itemKey (md5hex s) item (tm_KeySchema meta) = Ok k"
    "one_item t k s s'" "look s' [t, k @ ''.json''] = Some (File (Some (CItem item)))"
    "readOld s [t, k @ ''.json''] = Ok old" "evalCond cond old = Ok ()"
proof -
  obtain meta p where l: "locate s t item = Ok (meta, p)" and o: "readOld s p = Ok old" and c: "evalCond cond old = Ok ()"
    and w: "(case writeItem p (Some item) s of (Some e, s') \<Rightarrow> (Err (ErrIO e), s') | (None, s') \<Rightarrow> (Ok old, emitWrite t meta item old s')) = (Ok old, s')"
    using assms(1) by (auto simp: PutItem_def elim!: onOk_cases split: option.splits prod.splits)
  then obtain s1 where s1: "writeItem p (Some item) s = (None, s1)" and s': "s' = emitWrite t meta item old s1"
    by (auto split: option.splits prod.splits)
  obtain k where k: "itemKey (md5hex s) item (tm_KeySchema meta) = Ok k" "p = [t, k @ ''.json'']" "tableMeta s t = Ok meta"
    by (rule locate_path[OF l assms(2,3)])
  have "clean_path p" using l by (auto simp: locate_Ok)
  then have f: "frame {[t, k @ ''.json'']} s s1" using writeItem_step(1)[OF _ s1] k(2) by simp
  note e = emitWrite_frame[of t s1 meta item old]
  show thesis
    by (rule that[OF k(3,1)]) (use one_itemI[OF f e assms(2)] item_kept(1)[OF e assms(2)] writeItem_None(1)[OF s1] o c k s' in auto)
qed

lemma quiet_after:
  assumes "one_item t k s s'" and "disk_wf s" and "quiet s"
  shows "disk_wf s'" "quiet s'"
  using assms frame_fields(5,7)[OF assms(1)[unfolded one_item_def]] by auto

lemma delete_effect:
  assumes "DeleteItem t key cond s = (Ok old, s')" and "plain_elem t" and "hex_digest (md5hex s)"
    and "disk_wf s" and "quiet s"
  obtains meta k where "tableMeta s t = Ok meta" "itemKey (md5hex s) key (tm_KeySchema meta) = Ok k"
    "one_item t k s s'" "readOld s' [t, k @ ''.json''] = Ok None"
    "readOld s [t, k @ ''.json''] = Ok old" "evalCond cond old = Ok ()"
proof -
  obtain meta p old' where l: "locate s t key = Ok (meta, p)" and o: "readOld s p = Ok old'" and c: "evalCond cond old' = Ok ()"
    and w: "(case root_Remove p s of (Some e, s') \<Rightarrow> (if e = ENotExist then Ok None else Err (ErrIO e), s')
             | (None, s') \<Rightarrow> (Ok old', emitRemove t meta old' s')) = (Ok old, s')"
    using assms(1) by (auto simp: DeleteItem_def elim!: onOk_cases)
  obtain k where k: "itemKey (md5hex s) key (tm_KeySchema meta) = Ok k" "p = [t, k @ ''.json'']" "tableMeta s t = Ok meta"
    by (rule locate_path[OF l assms(2,3)])
  obtain r s1 where r: "root_Remove p s = (r, s1)" by fastforce
  show thesis
  proof (cases r)
    case None
    then have s': "s' = emitRemove t meta old' s1" and old: "old = old'" using w r by auto
    have f: "frame {[t, k @ ''.json'']} s s1" using remove_step(1)[OF r] k(2) by simp
    note e = emitRemove_frame[of t s1 meta old']
    note one = one_itemI[OF f e assms(2)]
    have gone: "look s' [t, k @ ''.json''] = None"
      using remove_None[of p s s1] r None item_kept(1)[OF e assms(2)] k(2) s' by simp
    have "look s p \<noteq> None" using r None by (auto simp: root_Remove_def dest!: root_walk_Inr split: sum.splits node.splits if_splits)
    then have "look s [t] = Some Dir" using disk_wf_parent[OF assms(4), of p] k(2) by auto
    then have "look s' [t] = Some Dir" using frame_fields(4)[OF one[unfolded one_item_def], of "[t]"] s' by simp
    then have "readOld s' [t, k @ ''.json''] = Ok None"
      using readOld_missing[OF _ _ _ gone assms(2)] quiet_after[OF one assms(4,5)] s' by simp
    then show thesis using that[OF k(3,1)] one s' o c k(2) old by simp
  next
    case (Some e)
    then have e: "e = ENotExist" "old = None" "s' = s1" using w r by (auto split: if_splits)
    have walk: "root_walk s p = Inl ENotExist" and s1: "s1 = s"
      using r Some e(1) assms(5) by (auto simp: root_Remove_def quiet_def split: sum.splits node.splits if_splits)
    have "readOld s p = Ok None" using walk assms(5) by (simp add: readOld_def readItem_def root_ReadFile_def quiet_def)
    then show thesis using that[OF k(3,1)] o c k(2) e s1 by (simp add: one_item_def)
  qed
qed

lemma update_effect:
  assumes "UpdateItem t key ups h cond s = (Ok (before, Tree after), s')" and "plain_elem t" and "hex_digest (md5hex s)"
  obtains meta k old where "tableMeta s t = Ok meta" "itemKey (md5hex s) key (tm_KeySchema meta) = Ok k"
    "one_item t k s s'" "look s' [t, k @ ''.json''] = Some (File (Some (CItem after)))"
    "readOld s [t, k @ ''.json''] = Ok old" "evalCond cond old = Ok ()"
proof -
  obtain meta p old where l: "locate s t key = Ok (meta, p)" and o: "readOld s p = Ok old" and c: "evalCond cond old = Ok ()"
    and w: "(case storeMap (case old of None \<Rightarrow> key | Some m \<Rightarrow> m) h of
         (item, h1) \<Rightarrow>
           let bef = length h1; h2 = h1 @ [h1 ! item]
           in onOk (mapErr (\<lambda>e. ErrValidationException (VUpdate e)) (applyUpdates item ups h2)) s (\<lambda>h3.
                case writeItem p (loadMap h3 item) s of
                  (Some e, s') \<Rightarrow> (Err (ErrIO e), s')
                | (None, s') \<Rightarrow>
                    emitUpdate t meta (loadedMap h3 item)
                      (if old = None then None else Some (loadedMap h3 bef)) s')) = (Ok (before, Tree after), s')"
    using assms(1) by (auto simp: UpdateItem_def elim!: onOk_cases)
  then obtain item h3 s1 b where s1: "writeItem p (loadMap h3 item) s = (None, s1)"
    and e: "emitUpdate t meta (loadedMap h3 item) b s1 = (Ok (before, Tree after), s')"
    by (auto simp: Let_def elim!: onOk_cases split: prod.splits option.splits)
  have lm: "loadedMap h3 item = Tree after"
    using e by (auto simp: emitUpdate_def split: loaded.splits option.splits if_splits)
  then have ld: "loadMap h3 item = Some after" by (auto simp: loadedMap_def split: option.splits)
  have fe: "frame {streamFilePath t} s1 s'"
    using e emitWrite_frame by (auto simp: emitUpdate_def lm split: loaded.splits option.splits if_splits)
  obtain k where k: "itemKey (md5hex s) key (tm_KeySchema meta) = Ok k" "p = [t, k @ ''.json'']" "tableMeta s t = Ok meta"
    by (rule locate_path[OF l assms(2,3)])
  have "clean_path p" using l by (auto simp: locate_Ok)
  then have f: "frame {[t, k @ ''.json'']} s s1" using writeItem_step(1)[OF _ s1] k(2) by simp
  show thesis
    by (rule that[OF k(3,1)])
      (use one_itemI[OF f fe assms(2)] item_kept(1)[OF fe assms(2)] writeItem_None(1)[of p after s s1] s1 ld o c k in auto)
qed

section \<open>Failures\<close>

lemma failed_put: "quiet s \<Longrightarrow> PutItem t item cond s = (Err e, s') \<Longrightarrow> s' = s"
  by (auto simp: PutItem_def elim!: onOk_cases dest: writeItem_failed[OF _ quiet_fault_free] split: option.splits prod.splits)

lemma failed_delete: "quiet s \<Longrightarrow> DeleteItem t key cond s = (Err e, s') \<Longrightarrow> s' = s"
  by (auto simp: DeleteItem_def elim!: onOk_cases dest!: remove_same[OF _ quiet_fault_free] split: option.splits prod.splits if_splits)

lemma failed_update: "quiet s \<Longrightarrow> UpdateItem t key ups h cond s = (Err e, s') \<Longrightarrow> s' = s"
  by (auto simp: UpdateItem_def Let_def emitUpdate_def elim!: onOk_cases dest!: writeItem_failed[OF _ quiet_fault_free]
      split: option.splits prod.splits if_splits loaded.splits)

section \<open>What a client sees\<close>

text \<open>
  C19. \<open>GetItem\<close> after a successful \<open>PutItem\<close>: under every key with the same hash as the item's the new
  item is returned, unless its time to live is over; under every other key of the table the answer
  is what it was before.
\<close>

theorem put_item_read_back:
  assumes "disk_wf s" and "quiet s" and "plain_elem t" and "hex_digest (md5hex s)"
    and "PutItem t item cond s = (Ok old, s')" and "tableMeta s t = Ok meta"
    and "itemKey (md5hex s) key (tm_KeySchema meta) = Ok k"
  shows "GetItem t key s' =
     (if itemKey (md5hex s) item (tm_KeySchema meta) = Ok k
      then Ok (if isTTLExpired (clock s) item (tm_TTL meta) then None else Some item)
      else GetItem t key s)"
proof -
  obtain meta' k0 where m: "tableMeta s t = Ok meta'" and k0: "itemKey (md5hex s) item (tm_KeySchema meta') = Ok k0"
    and one: "one_item t k0 s s'" and l: "look s' [t, k0 @ ''.json''] = Some (File (Some (CItem item)))"
    by (rule put_effect[OF assms(5,3,4)])
  have "readOld s' [t, k0 @ ''.json''] = Ok (Some item)" using readOld_File[OF quiet_after[OF one assms(1,2)] l] .
  then show ?thesis using get_after[OF one assms(3,4,6,7)] m k0 assms(6) by auto
qed

theorem put_item_read_back_witness:
  "GetItem ''t'' (demo_key ''a'') (snd (PutItem ''t'' (demo_row ''a'' ''1'') None demo_db)) = Ok (Some (demo_row ''a'' ''1''))"
proof -
  have p: "fst (PutItem ''t'' (demo_row ''a'' ''1'') None demo_db) = Ok None" by code_simp
  have k: "itemKey (md5hex demo_db) (demo_key ''a'') (tm_KeySchema demo_meta) = Ok ''0000000000000000000000000000000a''"
    "itemKey (md5hex demo_db) (demo_row ''a'' ''1'') (tm_KeySchema demo_meta) = Ok ''0000000000000000000000000000000a''"
    by code_simp+
  have ttl: "\<not> isTTLExpired (clock demo_db) (demo_row ''a'' ''1'') (tm_TTL demo_meta)" by code_simp
  show ?thesis
    using put_item_read_back[OF db_facts(1-4) outcomeI[OF p] db_tableMeta k(1)] k ttl by simp
qed




definition demo_update :: "(loaded option \<times> loaded) outcome" where
  "demo_update = UpdateItem ''t'' (demo_key ''a'') [(''n'', OpSet (SetPlain (HRef 0)))] [[(''N'', HStr ''2'')]] None demo_db"


text \<open>
  C22. On a disk without faults a write of one item that returns an error (a missing table, a missing
  key attribute, a condition that is false or does not parse, an invalid update) has changed
  neither the disk nor the streams.
\<close>

theorem failed_write_changes_nothing:
  assumes "quiet s"
  shows "(PutItem t item cond s = (Err e, s') \<longrightarrow> s' = s)
       \<and> (DeleteItem t key cond s = (Err e, s') \<longrightarrow> s' = s)
       \<and> (UpdateItem t key ups h cond s = (Err e, s') \<longrightarrow> s' = s)"
  using failed_put failed_delete failed_update assms by blast

theorem failed_write_changes_nothing_witness:
  "fst (PutItem ''t'' [] None demo_db) = Err (ErrValidationException (VMissingKey ''pk''))
   \<and> snd (PutItem ''t'' [] None demo_db) = demo_db"
proof -
  have p: "fst (PutItem ''t'' [] None demo_db) = Err (ErrValidationException (VMissingKey ''pk''))" by code_simp
  then show ?thesis
    using failed_write_changes_nothing[OF db_quiet] outcomeI[OF p] by blast
qed

end
