(* ===== verification/Ddb_Commit.thy ===== *)
theory Ddb_Commit
  imports Ddb_Item_Theorems
begin

text \<open>
  Write transactions that commit, and those whose conditions fail: the reasons of a cancelled
  transaction are those of its conditions on the unchanged database, and a transaction that
  succeeds found every condition true and has applied every write.
\<close>

section \<open>Conditions\<close>

lemma applyPath_not_canceled: "applyPath s t key \<noteq> Err (ErrTransactionCanceled rs)"
proof -
  have "keyParts i sch \<noteq> Err (ErrTransactionCanceled rs)" for i sch
    by (induction sch) (auto simp: mapOk_def andThen_def split: option.splits res.splits)
  then show ?thesis
    by (auto simp: applyPath_def readTableMetaRaw_def itemKey_def mapOk_def andThen_def split: sum.splits res.splits)
qed

lemma action_not_canceled: "applyTransactActionLocked a s \<noteq> (Err (ErrTransactionCanceled rs), s')"
  by (cases a) (auto simp: onOk_def ioDone_def readOld_def applyPath_not_canceled mapErr_def
      split: res.splits prod.splits option.splits sum.splits if_splits)

lemma writes_not_canceled: "applyWrites applied as s \<noteq> (Err (ErrTransactionCanceled rs), s')"
proof (induction applied as s rule: applyWrites.induct)
  case (2 applied a as s)
  have "andThen (itemPathForTransactActionLocked s a)
      (\<lambda>op. case op of None \<Rightarrow> Ok None | Some p \<Rightarrow> mapOk (\<lambda>raw. Some (p, raw)) (readRaw s p)) \<noteq> Err (ErrTransactionCanceled rs)"
    by (auto simp: path_of_action readRaw_def andThen_def mapOk_def applyPath_not_canceled
        split: res.splits option.splits sum.splits if_splits)
  then show ?case
    using 2 action_not_canceled[of a s rs] by (auto split: res.splits option.splits prod.splits)
qed simp

lemma keyParts_err: "keyParts item sch = Err e \<Longrightarrow> \<exists>n. e = ErrValidationException (VMissingKey n)"
  by (induction sch) (auto simp: mapOk_def andThen_def split: option.splits res.splits)

lemma duplicate_not_canceled: "duplicateFrom s seen as \<noteq> Err (ErrTransactionCanceled rs)"
proof (induction as arbitrary: seen)
  case (Cons a as)
  have "tableMeta s t \<noteq> Err (ErrTransactionCanceled rs)" for t
    by (simp add: tableMeta_def split: sum.splits)
  moreover have "itemKey h key sch \<noteq> Err (ErrTransactionCanceled rs)" for h key sch
    using keyParts_err[of key sch] by (auto simp: itemKey_def mapOk_def andThen_def split: res.splits)
  ultimately show ?case
    using Cons by (auto simp: andThen_def split: option.splits res.splits)
qed simp

text \<open>The reason of one action.\<close>

definition reason_of :: "ddb \<Rightarrow> TransactWriteAction \<Rightarrow> CancellationReason \<Rightarrow> bool" where
  "reason_of s a r \<longleftrightarrow>
     (\<exists>cur. currentItem s a = Ok cur \<and>
        (evalCond (actCond a) cur = Ok () \<and> r = reasonNone
         \<or> evalCond (actCond a) cur = Err (ErrConditionalCheckFailed cur) \<and> r = reasonFailed a cur))"

lemma evalCond_failed: "evalCond c cur = Err (ErrConditionalCheckFailed m) \<Longrightarrow> m = cur"
  by (auto simp: evalCond_def split: option.splits if_splits res.splits bool.splits)

lemma reason_of_check:
  assumes "checkTransactActionCondLocked s a = Ok r"
  shows "reason_of s a r"
proof -
  obtain cur where cur: "currentItem s a = Ok cur"
    and r: "(case evalCond (actCond a) cur of Ok _ \<Rightarrow> Ok reasonNone | Err (ErrConditionalCheckFailed _) \<Rightarrow> Ok (reasonFailed a cur)
             | Err e \<Rightarrow> Err e | Panic \<Rightarrow> Panic) = (Ok r :: (ddb_error, CancellationReason) res)"
    using assms by (auto simp: checkTransactActionCondLocked_def andThen_Ok)
  show ?thesis
  proof (cases "evalCond (actCond a) cur")
    case (Ok u)
    then show ?thesis using r cur by (auto simp: reason_of_def)
  next
    case (Err e)
    then obtain m where "e = ErrConditionalCheckFailed m" "r = reasonFailed a cur" using r by (cases e) auto
    then show ?thesis using Err cur evalCond_failed[of "actCond a" cur m] by (auto simp: reason_of_def)
  next
    case Panic
    then show ?thesis using r by simp
  qed
qed

lemma reason_codes: "reason_of s a r \<Longrightarrow> cr_Code r = ''None'' \<longleftrightarrow> r = reasonNone"
  by (auto simp: reason_of_def reasonNone_def reasonFailed_def)

text \<open>
  C23. A transaction that is cancelled has changed nothing, and its reasons tell, action by action in
  the order of the request, whether the condition held on the item as it is stored; at least one did not.
\<close>

theorem transact_canceled_reasons:
  assumes "TransactWriteItems as s = (Err (ErrTransactionCanceled rs), s')"
  shows "s' = s \<and> list_all2 (reason_of s) as rs \<and> (\<exists>r\<in>set rs. cr_Code r = ''ConditionalCheckFailed'')"
proof -
  have c: "checkConditions s as = Err (ErrTransactionCanceled rs) \<and> s' = s"
    using assms duplicate_not_canceled[of s "[]" as rs] writes_not_canceled[of "[]" as s rs]
    by (auto simp: TransactWriteItems_def checkDuplicateKeysLocked_def elim!: onOk_cases split: res.splits prod.splits)
  have cond: "evalCond c cur \<noteq> Err (ErrTransactionCanceled rs)" for c cur
    by (auto simp: evalCond_def split: option.splits if_splits res.splits bool.splits)
  have cur: "currentItem s a \<noteq> Err (ErrTransactionCanceled rs)" for a
    using keyParts_err
    by (fastforce simp: currentItem_def readExistingItemLocked_def tableMeta_def itemKey_def readOld_def andThen_def mapOk_def
        split: option.splits res.splits sum.splits if_splits)
  have check: "checkTransactActionCondLocked s a \<noteq> Err (ErrTransactionCanceled rs)" for a
  proof (cases "currentItem s a")
    case (Ok c)
    show ?thesis
    proof (cases "evalCond (actCond a) c")
      case (Err e)
      then show ?thesis using Ok cond[of "actCond a" c] by (cases e) (auto simp: checkTransactActionCondLocked_def)
    qed (use Ok in \<open>auto simp: checkTransactActionCondLocked_def\<close>)
  qed (use cur[of a] in \<open>auto simp: checkTransactActionCondLocked_def\<close>)
  have "mapRes (checkTransactActionCondLocked s) xs \<noteq> Err (ErrTransactionCanceled rs)" for xs
    by (induction xs) (auto simp: andThen_def check split: res.splits)
  then have m: "mapRes (checkTransactActionCondLocked s) as = Ok rs" and bad: "\<not> list_all (\<lambda>r. cr_Code r = ''None'') rs"
    using c by (auto simp: checkConditions_def andThen_def split: res.splits if_splits)
  then have all: "list_all2 (reason_of s) as rs"
    by (auto simp: mapRes_Ok intro: list_all2_mono reason_of_check)
  from bad obtain r where r: "r \<in> set rs" "cr_Code r \<noteq> ''None''" by (auto simp: list_all_iff)
  then obtain a where "reason_of s a r" using all by (metis in_set_conv_nth list_all2_conv_all_nth)
  with r have "cr_Code r = ''ConditionalCheckFailed''" by (auto simp: reason_of_def reasonNone_def reasonFailed_def)
  with c all r show ?thesis by blast
qed

definition demo_check :: "TransactWriteAction list" where
  "demo_check = [ActPut ''t'' (demo_row ''a'' ''1'') None '''',
     ActConditionCheck ''t'' (demo_key ''bb'') (Some \<lparr>cc_Expr = ''attribute_exists(pk)'', cc_Names = [], cc_Values = []\<rparr>) '''']"

theorem transact_canceled_reasons_witness:
  "fst (TransactWriteItems demo_check demo_db) = Err (ErrTransactionCanceled [reasonNone, reasonFailed (demo_check ! 1) None])
   \<and> snd (TransactWriteItems demo_check demo_db) = demo_db"
proof -
  have e: "fst (TransactWriteItems demo_check demo_db) = Err (ErrTransactionCanceled [reasonNone, reasonFailed (demo_check ! 1) None])"
    by code_simp
  then show ?thesis using transact_canceled_reasons[OF outcomeI[OF e]] by blast
qed

section \<open>Commits\<close>

definition plain_action :: "TransactWriteAction \<Rightarrow> bool" where
  "plain_action a \<longleftrightarrow> (case target a of None \<Rightarrow> True | Some (t, key) \<Rightarrow> plain_elem t)"

text \<open>The file of the item that an action is about.\<close>

definition act_path :: "ddb \<Rightarrow> TransactWriteAction \<Rightarrow> path option" where
  "act_path s a =
     (case target a of
        None \<Rightarrow> None
      | Some (t, key) \<Rightarrow>
          (case readTableMeta s t of
             Inl _ \<Rightarrow> None
           | Inr meta \<Rightarrow>
               (case itemKey (md5hex s) key (tm_KeySchema meta) of Ok k \<Rightarrow> Some [t, k @ ''.json''] | _ \<Rightarrow> None)))"

text \<open>The item after an update of \<open>old\<close>, \<open>None\<close> for one that has a cycle.\<close>

definition updated :: "gmap \<Rightarrow> hval updates \<Rightarrow> heap \<Rightarrow> gmap option \<Rightarrow> (update_error, gmap option) res" where
  "updated key ups h old =
     (case storeMap (case old of None \<Rightarrow> key | Some m \<Rightarrow> m) h of
        (item, h1) \<Rightarrow> mapOk (\<lambda>h2. loadMap h2 item) (applyUpdates item ups h1))"

fun applied_at :: "ddb \<Rightarrow> TransactWriteAction \<Rightarrow> path \<Rightarrow> ddb \<Rightarrow> bool" where
  "applied_at s0 (ActPut t item c r) p s \<longleftrightarrow> look s p = Some (File (Some (CItem item)))"
| "applied_at s0 (ActDelete t key c r) p s \<longleftrightarrow> look s p = None"
| "applied_at s0 (ActUpdate t key ups h c r) p s \<longleftrightarrow>
     (\<exists>old oi. readOld s0 p = Ok old \<and> updated key ups h old = Ok oi \<and> look s p = Some (File (map_option CItem oi)))"
| "applied_at s0 _ p s \<longleftrightarrow> True"

lemma applied_at_cong: "look s' p = look s p \<Longrightarrow> readOld s0' p = readOld s0 p \<Longrightarrow> applied_at s0 a p s \<Longrightarrow> applied_at s0' a p s'"
  by (cases a) auto

lemma path_plain:
  assumes "itemPathForTransactActionLocked s a = Ok (Some p)" and "plain_action a" and "hex_digest (md5hex s)"
  shows "act_path s a = Some p" and "writes a" and "\<exists>t f. p = [t, f]"
    and "\<exists>t key. target a = Some (t, key) \<and> applyPath s t key = Ok p"
proof -
  obtain t key where t: "target a = Some (t, key)" "writes a" "applyPath s t key = Ok p"
    using assms(1) by (auto simp: path_of_action mapOk_Ok split: option.splits if_splits)
  then obtain meta k where m: "readTableMeta s t = Inr meta" and k: "itemKey (md5hex s) key (tm_KeySchema meta) = Ok k" "p = itemPath t k"
    by (auto simp: applyPath_def readTableMetaRaw_def andThen_Ok mapOk_Ok split: sum.splits)
  obtain x where "k = md5hex s x" using itemKey_hash[OF k(1)] by blast
  then have "p = [t, k @ ''.json'']" using plain_item[OF _ assms(3)] assms(2) t(1) k(2) by (simp add: plain_action_def)
  then show "act_path s a = Some p" "writes a" "\<exists>t f. p = [t, f]" "\<exists>t key. target a = Some (t, key) \<and> applyPath s t key = Ok p"
    using t m k by (auto simp: act_path_def)
qed

lemma act_path_frame:
  assumes "frame P s s'" and "plain_action a" and "\<And>q. q \<in> P \<Longrightarrow> length q = 2"
  shows "act_path s' a = act_path s a"
proof -
  have "readTableMeta s' t = readTableMeta s t" if "plain_elem t" for t
    using tableMeta_frame(1)[OF assms(1) that] assms(3)[of "[t @ ''.table.json'']"] by fastforce
  then show ?thesis
    using assms(2) unfolding act_path_def frame_fields(1)[OF assms(1)] by (auto simp: plain_action_def split: option.splits)
qed

lemma action_applied:
  assumes "itemPathForTransactActionLocked s a = Ok (Some p)" and "readRaw s p = Ok raw"
    and "applyTransactActionLocked a s = (Ok u, s')" and "quiet s" and "plain_action a" and "hex_digest (md5hex s)"
  shows "applied_at s a p s'"
proof -
  obtain t key where t: "target a = Some (t, key)" and p: "applyPath s t key = Ok p"
    using path_plain(4)[OF assms(1,5,6)] by blast
  show ?thesis
  proof (cases a)
    case (ActPut t' item c r)
    then have "writeItem p (Some item) s = (None, s')"
      using assms(3) p t by (auto simp: ioDone_def split: prod.splits option.splits)
    then show ?thesis using writeItem_None(1) ActPut by simp
  next
    case (ActDelete t' key' c r)
    then have "removeIfThere p s = (None, s')"
      using assms(3) p t by (auto simp: ioDone_def split: prod.splits option.splits)
    then have "look s' p = None"
      using remove_None[of p s s'] readRaw_Ok(1)[OF assms(2)] assms(4)
      by (auto simp: removeIfThere_def root_Remove_def root_walk_def quiet_def
          split: prod.splits option.splits if_splits sum.splits node.splits)
    then show ?thesis using ActDelete by simp
  next
    case (ActUpdate t' key' ups h c r)
    then obtain old item h1 h2 where old: "readOld s p = Ok old"
      and st: "storeMap (case old of None \<Rightarrow> key | Some m \<Rightarrow> m) h = (item, h1)"
      and h2: "applyUpdates item ups h1 = Ok h2" and w: "writeItem p (loadMap h2 item) s = (None, s')"
      using assms(3) p t by (auto simp: ioDone_def elim!: onOk_cases split: prod.splits option.splits)
    have "look s' p = Some (File (map_option CItem (loadMap h2 item)))"
    proof (cases "loadMap h2 item")
      case None
      then show ?thesis using w by (cases "p = []")
          (auto simp: writeItem_def writeEmpty_def fs_simps split: if_splits sum.splits node.splits)
    next
      case (Some m)
      then show ?thesis using writeItem_None(1)[of p m s s'] w by simp
    qed
    then show ?thesis using ActUpdate t old st h2 by (auto simp: updated_def)
  qed (use assms(1) in \<open>auto simp: path_of_action\<close>)
qed

lemma applyWrites_Ok:
  assumes "applyWrites applied as s = (Ok res, s')" and "disk_wf s" and "quiet s" and "hex_digest (md5hex s)"
    and "list_all plain_action as" and "distinct (map (act_path s) (filter writes as))"
  shows "(\<forall>a\<in>set as. writes a \<longrightarrow> (\<exists>p. act_path s a = Some p \<and> applied_at s a p s'))
       \<and> frame {p. Some p \<in> act_path s ` set (filter writes as) \<and> length p = 2} s s'"
  using assms
proof (induction applied as s rule: applyWrites.induct)
  case (1 applied s)
  then show ?case by simp
next
  case (2 applied a as s)
  let ?start = "andThen (itemPathForTransactActionLocked s a)
    (\<lambda>op. case op of None \<Rightarrow> Ok None | Some p \<Rightarrow> mapOk (\<lambda>raw. Some (p, raw)) (readRaw s p))"
  obtain o1 where o1: "?start = Ok o1" using 2(3) by (cases ?start) auto
  show ?case
  proof (cases o1)
    case None
    then have nw: "\<not> writes a" using o1
      by (cases a) (auto simp: path_of_action andThen_Ok mapOk_Ok split: option.splits)
    have "applyWrites applied as s = (Ok res, s')" using 2(3) o1 None by simp
    then show ?thesis using 2(1)[OF o1 None] 2(4-8) nw by simp
  next
    case (Some pr)
    obtain p raw where pr: "pr = (p, raw)" by fastforce
    have path: "itemPathForTransactActionLocked s a = Ok (Some p)" and raw: "readRaw s p = Ok raw"
      using o1 Some pr by (auto simp: andThen_Ok mapOk_Ok split: option.splits)
    have pa: "plain_action a" "list_all plain_action as" using 2(7) by auto
    note pp = path_plain[OF path pa(1) 2(6)]
    obtain r1 s1 where out: "applyTransactActionLocked a s = (r1, s1)" by fastforce
    obtain u where r1: "r1 = Ok u" using 2(3) o1 Some pr out by (cases r1) auto
    have nd: "look s p \<noteq> Some Dir" using readRaw_Ok(1)[OF raw] by (cases raw) auto
    have fr: "frame {p} s s1" using action_acts_on[OF path nd] out by (simp add: acts_on_def)
    have len: "\<And>q. q \<in> {p} \<Longrightarrow> length q = 2" using pp(3) by auto
    have same: "act_path s1 b = act_path s b" if "b \<in> set as" for b
      using act_path_frame[OF fr _ len] pa(2) that by (auto simp: list_all_iff)
    have maps: "map (act_path s1) (filter writes as) = map (act_path s) (filter writes as)"
      using same by (intro map_cong) auto
    have dist: "distinct (map (act_path s1) (filter writes as))"
      using 2(8) pp(2) by (simp add: maps split: if_splits)
    have img: "act_path s1 ` set (filter writes as) = act_path s ` set (filter writes as)"
      using same by (intro image_cong) auto
    have IH: "(\<forall>b\<in>set as. writes b \<longrightarrow> (\<exists>q. act_path s1 b = Some q \<and> applied_at s1 b q s'))
       \<and> frame {q. Some q \<in> act_path s1 ` set (filter writes as) \<and> length q = 2} s1 s'"
      using 2(2)[OF o1 Some pr[symmetric] out[symmetric] r1] 2(3) o1 Some pr out r1 frame_fields[OF fr] 2(4-6) pa(2) dist
      by simp
    have new: "Some p \<notin> act_path s ` set (filter writes as)" using 2(8) pp(1,2) by auto
    have keep: "look s' p = look s1 p" using IH img new by (auto simp: frame_def)
    have here: "applied_at s a p s'"
      by (rule applied_at_cong[OF keep _ action_applied[OF path raw _ 2(5) pa(1) 2(6)]]) (use out r1 in auto)
    have "applied_at s b q s'" if b: "b \<in> set as" "writes b" and q: "act_path s1 b = Some q" "applied_at s1 b q s'" for b q
    proof -
      have "q \<noteq> p" using b q same new by force
      moreover obtain t f where "q = [t, f]" using q(1) by (auto simp: act_path_def split: option.splits sum.splits res.splits)
      ultimately have "readOld s q = readOld s1 q" using readOld_frame(2)[OF fr, of t f] pp(3) by force
      then show ?thesis using applied_at_cong[OF refl _ q(2), of s] by simp
    qed
    moreover have "frame {q. Some q \<in> act_path s ` set (filter writes (a # as)) \<and> length q = 2} s s'"
      by (rule frame_trans[OF frame_mono[OF fr] frame_mono[OF conjunct2[OF IH]]]) (use pp(1-3) img in auto)
    ultimately show ?thesis using IH here pp(1) same by fastforce
  qed
qed

lemma applyWrites_records: "applyWrites applied as s = (Ok res, s') \<Longrightarrow> fst ` set res \<subseteq> fst ` set applied \<union> set as"
proof (induction applied as s rule: applyWrites.induct)
  case (2 applied a as s)
  let ?start = "andThen (itemPathForTransactActionLocked s a)
    (\<lambda>op. case op of None \<Rightarrow> Ok None | Some p \<Rightarrow> mapOk (\<lambda>raw. Some (p, raw)) (readRaw s p))"
  obtain o1 where o1: "?start = Ok o1" using 2(3) by (cases ?start) auto
  show ?case
  proof (cases o1)
    case None
    then show ?thesis using 2(1)[OF o1 None] 2(3) o1 by auto
  next
    case (Some pr)
    obtain p raw where pr: "pr = (p, raw)" by fastforce
    obtain r1 s1 where out: "applyTransactActionLocked a s = (r1, s1)" by fastforce
    obtain u where r1: "r1 = Ok u" using 2(3) o1 Some pr out by (cases r1) auto
    show ?thesis using 2(2)[OF o1 Some pr[symmetric] out[symmetric] r1] 2(3) o1 Some pr out r1 by auto
  qed
qed simp

lemma list_all2_mem: "list_all2 P xs ys \<Longrightarrow> x \<in> set xs \<Longrightarrow> \<exists>y\<in>set ys. P x y"
  by (induction xs ys rule: list_all2_induct) auto

lemma committed:
  assumes "TransactWriteItems as s = (Ok (), s')"
  obtains res s1 where "duplicateFrom s [] as = Ok ()" "checkConditions s as = Ok ()"
    "applyWrites [] as s = (Ok res, s1)" "s' = emitTransactStreamEvents res s1"
proof -
  have d: "duplicateFrom s [] as = Ok ()"
    using assms by (cases "duplicateFrom s [] as") (simp_all add: TransactWriteItems_def checkDuplicateKeysLocked_def)
  have c: "checkConditions s as = Ok ()"
    using assms d by (cases "checkConditions s as") (simp_all add: TransactWriteItems_def checkDuplicateKeysLocked_def)
  obtain r s1 where w: "applyWrites [] as s = (r, s1)" by fastforce
  show thesis
    using assms d c w that by (cases r) (simp_all add: TransactWriteItems_def checkDuplicateKeysLocked_def)
qed

lemma emitTransact_frame: "plain_action (fst r) \<Longrightarrow> frame {q. length q = 1} s (emitTransact r s)"
proof -
  assume pl: "plain_action (fst r)"
  have "frame {q. length q = 1} s (emitWrite t meta new old s)" "frame {q. length q = 1} s (emitRemove t meta old s)"
    if "target (fst r) = Some (t, key)" for t key meta new old
    using pl that frame_mono[OF emitWrite_frame[of t s meta new old]] frame_mono[OF emitRemove_frame[of t s meta old]]
    by (auto simp: plain_action_def plain_table)
  then show ?thesis
    by (auto simp: emitTransact_def split: prod.splits option.splits sum.splits TransactWriteAction.splits)
qed

lemma emit_all_frame:
  "list_all (\<lambda>r. plain_action (fst r)) rs \<Longrightarrow> frame {q. length q = 1} s (emitTransactStreamEvents rs s)"
proof (induction rs arbitrary: s)
  case (Cons r rs)
  then show ?case
    using frame_trans[OF emitTransact_frame[of r s] Cons.IH[of "emitTransact r s"]] by (simp add: emitTransactStreamEvents_def)
qed (simp add: emitTransactStreamEvents_def)

lemma duplicateFrom_distinct:
  assumes "duplicateFrom s seen as = Ok ()"
  shows "distinct (map (act_path s) (filter writes as)) \<and>
    (\<forall>a\<in>set as. \<forall>t k. act_path s a = Some [t, k @ ''.json''] \<longrightarrow> (t, k) \<notin> set seen)"
  using assms
proof (induction as arbitrary: seen)
  case (Cons a as)
  show ?case
  proof (cases "target a")
    case None
    then have "\<not> writes a" "act_path s a = None" by (cases a; simp add: act_path_def)+
    then show ?thesis using Cons None by simp
  next
    case (Some tk)
    obtain t key where tk: "tk = (t, key)" by fastforce
    obtain meta k where m: "readTableMeta s t = Inr meta" and k: "itemKey (md5hex s) key (tm_KeySchema meta) = Ok k"
      and fresh: "(t, k) \<notin> set seen" and rest: "duplicateFrom s ((t, k) # seen) as = Ok ()"
      using Cons.prems Some tk by (auto simp: andThen_Ok tableMeta_Ok split: if_splits)
    have p: "act_path s a = Some [t, k @ ''.json'']" using Some tk m k by (simp add: act_path_def)
    note IH = Cons.IH[OF rest]
    have "act_path s a \<noteq> act_path s b" if "b \<in> set as" for b using IH that p by fastforce
    then show ?thesis using IH fresh p by auto
  qed
qed simp

text \<open>
  C24. A transaction that commits on a disk without faults: every condition was true of the stored
  item, every put, delete and update has taken effect on the file of its own item, the update on the
  item as it was before the transaction, and no other item of any table has changed.
\<close>

theorem transact_commit:
  assumes "disk_wf s" and "quiet s" and "hex_digest (md5hex s)" and "list_all plain_action as"
    and "TransactWriteItems as s = (Ok (), s')"
  shows "(\<forall>a\<in>set as. (\<exists>cur. currentItem s a = Ok cur \<and> evalCond (actCond a) cur = Ok ())
            \<and> (writes a \<longrightarrow> (\<exists>p. act_path s a = Some p \<and> applied_at s a p s')))
       \<and> (\<forall>t f. Some [t, f] \<notin> act_path s ` set as \<longrightarrow> look s' [t, f] = look s [t, f])"
proof -
  obtain res s1 where dup: "duplicateFrom s [] as = Ok ()" and cond: "checkConditions s as = Ok ()"
    and w: "applyWrites [] as s = (Ok res, s1)" and s': "s' = emitTransactStreamEvents res s1"
    by (rule committed[OF assms(5)])
  obtain rs where "mapRes (checkTransactActionCondLocked s) as = Ok rs" and none: "list_all (\<lambda>r. cr_Code r = ''None'') rs"
    using cond by (auto simp: checkConditions_def andThen_Ok split: if_splits)
  then have all: "list_all2 (reason_of s) as rs" by (auto simp: mapRes_Ok intro: list_all2_mono reason_of_check)
  have held: "\<exists>cur. currentItem s a = Ok cur \<and> evalCond (actCond a) cur = Ok ()" if a: "a \<in> set as" for a
  proof -
    obtain r where "r \<in> set rs" "reason_of s a r" using list_all2_mem[OF all a] by blast
    then show ?thesis using none by (auto simp: list_all_iff reason_of_def reasonFailed_def)
  qed
  have W: "(\<forall>a\<in>set as. writes a \<longrightarrow> (\<exists>p. act_path s a = Some p \<and> applied_at s a p s1))
       \<and> frame {p. Some p \<in> act_path s ` set (filter writes as) \<and> length p = 2} s s1"
    using applyWrites_Ok[OF w assms(1-4)] duplicateFrom_distinct[OF dup] by blast
  have "list_all (\<lambda>r. plain_action (fst r)) res"
    using applyWrites_records[OF w] assms(4) by (force simp: list_all_iff)
  then have E: "frame {q. length q = 1} s1 s'" using emit_all_frame s' by blast
  have look2: "look s' [t, f] = look s1 [t, f]" for t f using frame_fields(4)[OF E, of "[t, f]"] by simp
  have "applied_at s a p s'" if act: "act_path s a = Some p" "applied_at s a p s1" for a p
  proof -
    obtain t f where p: "p = [t, f]" using act(1) by (auto simp: act_path_def split: option.splits sum.splits res.splits)
    show ?thesis using applied_at_cong[OF look2 refl act(2)[unfolded p]] p by simp
  qed
  moreover have "look s' [t, f] = look s [t, f]" if "Some [t, f] \<notin> act_path s ` set as" for t f
    using look2[of t f] frame_fields(4)[OF conjunct2[OF W], of "[t, f]"] that by auto
  ultimately show ?thesis using W held by blast
qed

theorem transact_commit_witness:
  "fst (TransactWriteItems demo_puts demo_db) = Ok ()
   \<and> (\<exists>p. look (snd (TransactWriteItems demo_puts demo_db)) p = Some (File (Some (CItem (demo_row ''bb'' ''2'')))))"
proof -
  have e: "fst (TransactWriteItems demo_puts demo_db) = Ok ()" by code_simp
  have pl: "list_all plain_action demo_puts" by (simp add: demo_puts_def plain_action_def db_plain)
  show ?thesis
    using transact_commit[OF db_wf db_quiet db_hash pl outcomeI[OF e]] e by (auto simp: demo_puts_def)
qed

end
