(* ===== verification/Ddb_Partiql.thy ===== *)
theory Ddb_Partiql
  imports Ddb_Transaction
begin

text \<open>
  PartiQL statements (\<open>internal/dynamodb/partiql.go\<close>): the tokenizer, the recursive-descent parser that puts the
  parameters in place of \<open>?\<close>, and the helpers that turn a \<open>WHERE\<close> clause into keys, sort key conditions and a filter
  expression.

  The parser's state is the list of tokens and the list of parameters that are left. Its loops go on with what an earlier
  call left over; where that is not a plain consequence of the call, the next round is made under the test that the
  rest is shorter, and \<open>Ddb_Partiql_Theorems\<close> shows that the test never fails. A parameter is a JSON object.
  The code makes an empty list literal as a nil slice, which is written as \<open>null\<close>: \<open>GNil\<close> (only the image of such an item in a
  stream record, where the slice is copied, shows an empty list).
\<close>

section \<open>Statements\<close>

datatype pqStmtKind = pqSelect | pqInsert | pqUpdate | pqDelete

record pqCond =
  pc_attr :: string
  pc_op :: string
  pc_val :: gmap
  pc_val2 :: gmap
  pc_vals :: "gmap list"

record pqSet =
  pe_attr :: string
  pe_val :: gmap

record pqStmt =
  ps_kind :: pqStmtKind
  ps_tableName :: string
  ps_where :: "pqCond list"
  ps_item :: gmap
  ps_sets :: "pqSet list"
  ps_stmtLimit :: "int option"

datatype pq_error =
    PqUnexpectedChar char nat
  | PqUnterminated char nat
  | PqExpectedKeyword string string
  | PqExpectedPunct string
  | PqTooFewParameters
  | PqExpectedStatement string
  | PqUnsupportedStatement string
  | PqExpectedLimit string
  | PqInvalidLimit string
  | PqWhereRequired
  | PqExpectedName string
  | PqExpectedOperator string
  | PqExpectedValue string

section \<open>The tokenizer\<close>

datatype pqTokKind = pqTokEOF | pqTokIdent | pqTokStr | pqTokNum | pqTokStar | pqTokComma | pqTokLParen | pqTokRParen
  | pqTokLBrace | pqTokRBrace | pqTokLBrack | pqTokRBrack | pqTokEq | pqTokLt | pqTokGt | pqTokLe | pqTokGe | pqTokNe
  | pqTokColon | pqTokQ | pqTokDot

record pqTok =
  pk_kind :: pqTokKind
  pk_val :: string
  pk_strVal :: string

abbreviation pqtok :: "pqTokKind \<Rightarrow> string \<Rightarrow> pqTok" where
  "pqtok k v \<equiv> \<lparr>pk_kind = k, pk_val = v, pk_strVal = []\<rparr>"

text \<open>\<open>unicode.IsLetter\<close> of one byte as a code point: the letters of ASCII and of Latin-1\<close>

definition pqIsLetter :: "char \<Rightarrow> bool" where
  "pqIsLetter c \<longleftrightarrow>
     (let n = of_char c :: nat
      in (97 \<le> n \<and> n \<le> 122) \<or> (65 \<le> n \<and> n \<le> 90) \<or> n \<in> {170, 181, 186} \<or> (192 \<le> n \<and> n \<noteq> 215 \<and> n \<noteq> 247))"

definition pqIsWord :: "char \<Rightarrow> bool" where
  "pqIsWord c \<longleftrightarrow> pqIsLetter c \<or> is_digit c \<or> c = CHR ''_''"

definition pqPunct :: "char \<Rightarrow> pqTokKind option" where
  "pqPunct c =
     map_of [(CHR ''*'', pqTokStar), (CHR '','', pqTokComma), (CHR ''('', pqTokLParen), (CHR '')'', pqTokRParen),
       (CHR ''{'', pqTokLBrace), (CHR ''}'', pqTokRBrace), (CHR ''['', pqTokLBrack), (CHR '']'', pqTokRBrack),
       (CHR '':'', pqTokColon), (CHR ''?'', pqTokQ), (CHR ''.'', pqTokDot), (CHR ''='', pqTokEq)] c"

text \<open>After the opening quote of a string: its value and what follows the closing quote; two quotes stand for one.\<close>

fun pqString :: "string \<Rightarrow> (string \<times> string) option" where
  "pqString [] = None"
| "pqString (c # cs) =
     (if c = CHR 0x27 then
        (case cs of
           d # ds \<Rightarrow> if d = CHR 0x27 then map_option (apfst ((#) c)) (pqString ds) else Some ([], cs)
         | [] \<Rightarrow> Some ([], cs))
      else map_option (apfst ((#) c)) (pqString cs))"

text \<open>The length of a number: digits and at most one dot.\<close>

fun pqNumLen :: "bool \<Rightarrow> string \<Rightarrow> nat" where
  "pqNumLen hasDot [] = 0"
| "pqNumLen hasDot (c # cs) =
     (if is_digit c then Suc (pqNumLen hasDot cs)
      else if c = CHR ''.'' \<and> \<not> hasDot then Suc (pqNumLen True cs)
      else 0)"

lemma pqString_shorter: "pqString s = Some (v, r) \<Longrightarrow> length r < length s"
  by (induction s arbitrary: v r rule: pqString.induct) (fastforce split: if_splits list.splits)+

text \<open>The token at the front of a text that does not begin with a blank, and its length.\<close>

definition pqNext :: "nat \<Rightarrow> char \<Rightarrow> string \<Rightarrow> (pq_error, pqTok \<times> nat) res" where
  "pqNext i c cs =
     (case pqPunct c of
        Some k \<Rightarrow> Ok (pqtok k [c], 1)
      | None \<Rightarrow>
     if c = CHR ''<'' then
       (if has_prefix ''='' cs then Ok (pqtok pqTokLe ''<='', 2)
        else if has_prefix ''>'' cs then Ok (pqtok pqTokNe ''<>'', 2)
        else Ok (pqtok pqTokLt ''<'', 1))
     else if c = CHR ''>'' then
       (if has_prefix ''='' cs then Ok (pqtok pqTokGe ''>='', 2) else Ok (pqtok pqTokGt ''>'', 1))
     else if c = CHR ''!'' then
       (if has_prefix ''='' cs then Ok (pqtok pqTokNe ''!='', 2) else Err (PqUnexpectedChar c i))
     else if c = CHR 0x27 then
       (case pqString cs of
          None \<Rightarrow> Err (PqUnterminated c i)
        | Some (v, r) \<Rightarrow>
            let n = length cs - length r in Ok (\<lparr>pk_kind = pqTokStr, pk_val = c # take n cs, pk_strVal = v\<rparr>, n + 1))
     else if c = CHR 0x22 \<or> c = CHR 0x60 then
       (let w = takeWhile (\<lambda>d. d \<noteq> c) cs
        in if length w = length cs then Err (PqUnterminated c i)
           else Ok (\<lparr>pk_kind = pqTokStr, pk_val = c # w @ [c], pk_strVal = w\<rparr>, length w + 2))
     else if is_digit c then
       (let n = pqNumLen False (c # cs) in Ok (pqtok pqTokNum (take n (c # cs)), n))
     else if c = CHR ''-'' \<and> cs \<noteq> [] \<and> is_digit (hd cs) then
       (let n = pqNumLen False cs in Ok (pqtok pqTokNum (c # take n cs), n + 1))
     else if pqIsLetter c \<or> c = CHR ''_'' then
       (let w = takeWhile pqIsWord (c # cs) in Ok (pqtok pqTokIdent w, length w))
     else Err (PqUnexpectedChar c i))"

lemma pqNext_pos: "pqNext i c cs = Ok (t, n) \<Longrightarrow> 0 < n"
  by (auto simp: pqNext_def Let_def pqIsWord_def split: option.splits if_splits prod.splits)

function pqTokenize_at :: "nat \<Rightarrow> string \<Rightarrow> (pq_error, pqTok list) res" where
  "pqTokenize_at i [] = Ok [pqtok pqTokEOF []]"
| "pqTokenize_at i (c # cs) =
     (if c \<in> {CHR '' '', CHR 0x09, CHR 0x0A, CHR 0x0D} then pqTokenize_at (i + 1) cs
      else andThen (pqNext i c cs) (\<lambda>(t, n). mapOk ((#) t) (pqTokenize_at (i + n) (drop n (c # cs)))))"
  by pat_completeness auto
termination by (relation "measure (length \<circ> snd)") (auto dest: pqNext_pos)

declare pqTokenize_at.simps(2) [simp del]

definition pqTokenize :: "string \<Rightarrow> (pq_error, pqTok list) res" where
  "pqTokenize s = pqTokenize_at 0 s"

section \<open>The parser\<close>

type_synonym pqState = "pqTok list \<times> gmap list"
type_synonym 'a pqParser = "pqState \<Rightarrow> (pq_error, 'a \<times> pqState) res"

definition pqPeek :: "pqState \<Rightarrow> pqTok" where
  "pqPeek st = (case fst st of [] \<Rightarrow> pqtok pqTokEOF [] | t # _ \<Rightarrow> t)"

definition pqConsume :: "pqState \<Rightarrow> pqState" where
  "pqConsume st = (tl (fst st), snd st)"

text \<open>\<open>strings.EqualFold\<close> and \<open>strings.ToUpper\<close> of a token against a keyword of ASCII letters\<close>

definition pqIsKeyword :: "string \<Rightarrow> pqTok \<Rightarrow> bool" where
  "pqIsKeyword kw t \<longleftrightarrow> pk_kind t = pqTokIdent \<and> strings_ToUpper (pk_val t) = kw"

definition pqExpectIdent :: "string \<Rightarrow> pqState \<Rightarrow> (pq_error, pqState) res" where
  "pqExpectIdent kw st =
     (if pqIsKeyword kw (pqPeek st) then Ok (pqConsume st) else Err (PqExpectedKeyword kw (pk_val (pqPeek st))))"

definition pqExpectPunct :: "pqTokKind \<Rightarrow> pqState \<Rightarrow> (pq_error, pqState) res" where
  "pqExpectPunct k st = (if pk_kind (pqPeek st) \<noteq> k then Err (PqExpectedPunct (pk_val (pqPeek st))) else Ok (pqConsume st))"

definition pqNextParam :: "gmap pqParser" where
  "pqNextParam st = (case snd st of [] \<Rightarrow> Err PqTooFewParameters | p # ps \<Rightarrow> Ok (p, (fst st, ps)))"

definition pqParseName :: "string pqParser" where
  "pqParseName st =
     (let t = pqPeek st
      in if pk_kind t = pqTokStr then Ok (pk_strVal t, pqConsume st)
         else if pk_kind t = pqTokIdent then Ok (pk_val t, pqConsume st)
         else Err (PqExpectedName (pk_val t)))"

text \<open>A comma that may follow an element\<close>

definition pqSkipComma :: "pqState \<Rightarrow> pqState" where
  "pqSkipComma st = (if pk_kind (pqPeek st) = pqTokComma then pqConsume st else st)"

definition pqShorter :: "pqState \<Rightarrow> pqState \<Rightarrow> bool" where
  "pqShorter a b \<longleftrightarrow> length (fst a) < length (fst b)"

lemma pqPeek_Nil: "pk_kind (pqPeek st) \<noteq> pqTokEOF \<Longrightarrow> fst st \<noteq> []"
  by (auto simp: pqPeek_def)

lemma pqConsume_shorter: "pk_kind (pqPeek st) \<noteq> pqTokEOF \<Longrightarrow> pqShorter (pqConsume st) st"
  using pqPeek_Nil[of st] by (auto simp: pqShorter_def pqConsume_def)

lemma pqConsume_length: "pk_kind (pqPeek (ts, ps)) = k \<Longrightarrow> k \<noteq> pqTokEOF \<Longrightarrow> length (fst (pqConsume (ts, ps))) < length ts"
  using pqConsume_shorter[of "(ts, ps)"] by (simp add: pqShorter_def)

lemma pqParseName_shorter: "pqParseName st = Ok (x, st') \<Longrightarrow> pqShorter st' st"
  using pqConsume_shorter[of st] by (auto simp: pqParseName_def Let_def split: if_splits)

lemma pqExpectPunct_shorter: "pqExpectPunct k st = Ok st' \<Longrightarrow> k \<noteq> pqTokEOF \<Longrightarrow> pqShorter st' st"
  using pqConsume_shorter[of st] by (auto simp: pqExpectPunct_def split: if_splits)

lemma pqSkipComma_le: "length (fst (pqSkipComma st)) \<le> length (fst st)"
  by (auto simp: pqSkipComma_def pqConsume_def)

text \<open>
  Values. \<open>pqDocLoop\<close> and \<open>pqListLoop\<close> are the loops of \<open>parseDocMap\<close> and \<open>parseList\<close> after the opening bracket.
\<close>

definition pqNot :: "pqTokKind \<Rightarrow> pqState \<Rightarrow> bool" where
  "pqNot close st \<longleftrightarrow> pk_kind (pqPeek st) \<noteq> close \<and> pk_kind (pqPeek st) \<noteq> pqTokEOF"

definition pqLiteral :: "pqTok \<Rightarrow> gmap option" where
  "pqLiteral t =
     (if pk_kind t = pqTokNum then Some [(''N'', GStr (pk_val t))]
      else if pk_kind t = pqTokStr then Some [(''S'', GStr (pk_strVal t))]
      else if pqIsKeyword ''TRUE'' t then Some [(''BOOL'', GBool True)]
      else if pqIsKeyword ''FALSE'' t then Some [(''BOOL'', GBool False)]
      else if pqIsKeyword ''NULL'' t \<or> pqIsKeyword ''MISSING'' t then Some [(''NULL'', GBool True)]
      else None)"

definition pqListValue :: "gmap list \<Rightarrow> gmap" where
  "pqListValue items = [(''L'', if items = [] then GNil else GSlice (map GMap items))]"

function pqParseValue :: "gmap pqParser"
  and pqDocLoop :: "gmap \<Rightarrow> gmap pqParser"
  and pqListLoop :: "gmap list \<Rightarrow> gmap list pqParser"
where
  "pqParseValue st =
     (let t = pqPeek st
      in if pk_kind t = pqTokQ then pqNextParam (pqConsume st)
         else if pk_kind t = pqTokLBrace then
           andThen (pqDocLoop [] (pqConsume st)) (\<lambda>(m, st'). Ok ([(''M'', GMap m)], st'))
         else if pk_kind t = pqTokLBrack then
           andThen (pqListLoop [] (pqConsume st)) (\<lambda>(items, st'). Ok (pqListValue items, st'))
         else case pqLiteral t of None \<Rightarrow> Err (PqExpectedValue (pk_val t)) | Some v \<Rightarrow> Ok (v, pqConsume st))"
| "pqDocLoop m st =
     (if pqNot pqTokRBrace st then
        andThen (pqParseName st) (\<lambda>(key, st1).
        andThen (pqExpectPunct pqTokColon st1) (\<lambda>st2.
        andThen (pqParseValue st2) (\<lambda>(v, st3).
          if pqShorter (pqSkipComma st3) st then pqDocLoop (AList.update key (GMap v) m) (pqSkipComma st3) else Panic)))
      else andThen (pqExpectPunct pqTokRBrace st) (\<lambda>st'. Ok (m, st')))"
| "pqListLoop items st =
     (if pqNot pqTokRBrack st then
        andThen (pqParseValue st) (\<lambda>(v, st1).
          if pqShorter (pqSkipComma st1) st then pqListLoop (items @ [v]) (pqSkipComma st1) else Panic)
      else andThen (pqExpectPunct pqTokRBrack st) (\<lambda>st'. Ok (items, st')))"
  by pat_completeness auto
termination
  by (relation "measures [\<lambda>x. case x of Inl a \<Rightarrow> length (fst a) | Inr (Inl b) \<Rightarrow> length (fst (snd b)) | Inr (Inr b) \<Rightarrow> length (fst (snd b)),
        \<lambda>x. case x of Inl a \<Rightarrow> 0 | Inr b \<Rightarrow> (1::nat)]")
     (auto simp: pqShorter_def dest!: pqParseName_shorter pqExpectPunct_shorter dest: pqConsume_length)

declare pqParseValue.simps [simp del] pqDocLoop.simps [simp del] pqListLoop.simps [simp del]

definition pqParseDocMap :: "gmap pqParser" where
  "pqParseDocMap st = andThen (pqExpectPunct pqTokLBrace st) (pqDocLoop [])"

text \<open>Conditions\<close>

function pqInLoop :: "gmap list \<Rightarrow> gmap list pqParser" where
  "pqInLoop vals st =
     (if pqNot pqTokRParen st then
        andThen (pqParseValue st) (\<lambda>(v, st1).
          if pqShorter (pqSkipComma st1) st then pqInLoop (vals @ [v]) (pqSkipComma st1) else Panic)
      else andThen (pqExpectPunct pqTokRParen st) (\<lambda>st'. Ok (vals, st')))"
  by pat_completeness auto
termination by (relation "measure (length \<circ> fst \<circ> snd)") (auto simp: pqShorter_def)

declare pqInLoop.simps [simp del]

definition pqIsComparison :: "pqTok \<Rightarrow> bool" where
  "pqIsComparison t \<longleftrightarrow> pk_kind t \<in> {pqTokEq, pqTokNe, pqTokLt, pqTokLe, pqTokGt, pqTokGe}"

definition pqParseOneCondition :: "pqCond pqParser" where
  "pqParseOneCondition st =
     andThen (pqParseName st) (\<lambda>(a, st1).
       let t = pqPeek st1
       in if pqIsComparison t then
            andThen (pqParseValue (pqConsume st1)) (\<lambda>(v, st2).
              Ok (\<lparr>pc_attr = a, pc_op = pk_val t, pc_val = v, pc_val2 = [], pc_vals = []\<rparr>, st2))
          else if pqIsKeyword ''BETWEEN'' t then
            andThen (pqParseValue (pqConsume st1)) (\<lambda>(lo, st2).
            andThen (pqExpectIdent ''AND'' st2) (\<lambda>st3.
            andThen (pqParseValue st3) (\<lambda>(hi, st4).
              Ok (\<lparr>pc_attr = a, pc_op = ''BETWEEN'', pc_val = lo, pc_val2 = hi, pc_vals = []\<rparr>, st4))))
          else if pqIsKeyword ''IN'' t then
            andThen (pqExpectPunct pqTokLParen (pqConsume st1)) (\<lambda>st2.
            andThen (pqInLoop [] st2) (\<lambda>(vs, st3).
              Ok (\<lparr>pc_attr = a, pc_op = ''IN'', pc_val = [], pc_val2 = [], pc_vals = vs\<rparr>, st3)))
          else Err (PqExpectedOperator (pk_val t)))"

function pqAndLoop :: "pqCond list \<Rightarrow> pqCond list pqParser" where
  "pqAndLoop conds st =
     (if pqIsKeyword ''AND'' (pqPeek st) then
        andThen (pqParseOneCondition (pqConsume st)) (\<lambda>(c, st1).
          if pqShorter st1 st then pqAndLoop (conds @ [c]) st1 else Panic)
      else Ok (conds, st))"
  by pat_completeness auto
termination by (relation "measure (length \<circ> fst \<circ> snd)") (auto simp: pqShorter_def)

declare pqAndLoop.simps [simp del]

definition pqParseConditions :: "pqCond list pqParser" where
  "pqParseConditions st = andThen (pqParseOneCondition st) (\<lambda>(c, st1). pqAndLoop [c] st1)"

text \<open>Assignments\<close>

definition pqParseOneSet :: "pqSet pqParser" where
  "pqParseOneSet st =
     andThen (pqParseName st) (\<lambda>(a, st1).
     andThen (pqExpectPunct pqTokEq st1) (\<lambda>st2.
     andThen (pqParseValue st2) (\<lambda>(v, st3). Ok (\<lparr>pe_attr = a, pe_val = v\<rparr>, st3))))"

function pqSetLoop :: "pqSet list \<Rightarrow> pqSet list pqParser" where
  "pqSetLoop sets st =
     (if pk_kind (pqPeek st) = pqTokComma then
        andThen (pqParseOneSet (pqConsume st)) (\<lambda>(x, st1).
          if pqShorter st1 st then pqSetLoop (sets @ [x]) st1 else Panic)
      else Ok (sets, st))"
  by pat_completeness auto
termination by (relation "measure (length \<circ> fst \<circ> snd)") (auto simp: pqShorter_def)

declare pqSetLoop.simps [simp del]

definition pqParseSetList :: "pqSet list pqParser" where
  "pqParseSetList st = andThen (pqParseOneSet st) (\<lambda>(x, st1). pqSetLoop [x] st1)"

text \<open>Statements; the parser does not look at the tokens that follow one.\<close>

definition pqStmtOf :: "pqStmtKind \<Rightarrow> string \<Rightarrow> pqStmt" where
  "pqStmtOf k t = \<lparr>ps_kind = k, ps_tableName = t, ps_where = [], ps_item = [], ps_sets = [], ps_stmtLimit = None\<rparr>"

definition pqSkipProjection :: "pqState \<Rightarrow> pqState" where
  "pqSkipProjection st =
     (dropWhile (\<lambda>t. pk_kind t \<noteq> pqTokEOF \<and> strings_ToUpper (pk_val t) \<noteq> ''FROM'') (fst st), snd st)"

definition pqSkipOrder :: "pqState \<Rightarrow> (pq_error, pqState) res" where
  "pqSkipOrder st =
     (if pqIsKeyword ''ORDER'' (pqPeek st) then
        andThen (pqExpectIdent ''BY'' (pqConsume st)) (\<lambda>st1.
        andThen (pqParseName st1) (\<lambda>(_, st2).
          Ok (if pqIsKeyword ''ASC'' (pqPeek st2) \<or> pqIsKeyword ''DESC'' (pqPeek st2) then pqConsume st2 else st2)))
      else Ok st)"

definition pqParseLimit :: "int option pqParser" where
  "pqParseLimit st =
     (if pqIsKeyword ''LIMIT'' (pqPeek st) then
        (let t = pqPeek (pqConsume st)
         in if pk_kind t \<noteq> pqTokNum then Err (PqExpectedLimit (pk_val t))
            else case strconv_Atoi (pk_val t) of
                   None \<Rightarrow> Err (PqInvalidLimit (pk_val t))
                 | Some n \<Rightarrow> Ok (Some n, pqConsume (pqConsume st)))
      else Ok (None, st))"

definition pqParseSelect :: "pqState \<Rightarrow> (pq_error, pqStmt) res" where
  "pqParseSelect st =
     andThen (pqExpectIdent ''SELECT'' st) (\<lambda>st1.
     andThen (pqExpectIdent ''FROM'' (pqSkipProjection st1)) (\<lambda>st2.
     andThen (pqParseName st2) (\<lambda>(t, st3).
     andThen (if pqIsKeyword ''WHERE'' (pqPeek st3) then pqParseConditions (pqConsume st3) else Ok ([], st3)) (\<lambda>(conds, st4).
     andThen (pqSkipOrder st4) (\<lambda>st5.
     andThen (pqParseLimit st5) (\<lambda>(lim, _). Ok ((pqStmtOf pqSelect t)\<lparr>ps_where := conds, ps_stmtLimit := lim\<rparr>)))))))"

definition pqParseInsert :: "pqState \<Rightarrow> (pq_error, pqStmt) res" where
  "pqParseInsert st =
     andThen (pqExpectIdent ''INSERT'' st) (\<lambda>st1.
     andThen (pqExpectIdent ''INTO'' st1) (\<lambda>st2.
     andThen (pqParseName st2) (\<lambda>(t, st3).
     andThen (pqExpectIdent ''VALUE'' st3) (\<lambda>st4.
     andThen (pqParseDocMap st4) (\<lambda>(item, _). Ok ((pqStmtOf pqInsert t)\<lparr>ps_item := item\<rparr>))))))"

definition pqRequiredWhere :: "pqCond list pqParser" where
  "pqRequiredWhere st =
     (if pqIsKeyword ''WHERE'' (pqPeek st) then pqParseConditions (pqConsume st) else Err PqWhereRequired)"

definition pqParseUpdate :: "pqState \<Rightarrow> (pq_error, pqStmt) res" where
  "pqParseUpdate st =
     andThen (pqExpectIdent ''UPDATE'' st) (\<lambda>st1.
     andThen (pqParseName st1) (\<lambda>(t, st2).
     andThen (pqExpectIdent ''SET'' st2) (\<lambda>st3.
     andThen (pqParseSetList st3) (\<lambda>(sets, st4).
     andThen (pqRequiredWhere st4) (\<lambda>(conds, _). Ok ((pqStmtOf pqUpdate t)\<lparr>ps_sets := sets, ps_where := conds\<rparr>))))))"

definition pqParseDelete :: "pqState \<Rightarrow> (pq_error, pqStmt) res" where
  "pqParseDelete st =
     andThen (pqExpectIdent ''DELETE'' st) (\<lambda>st1.
     andThen (pqExpectIdent ''FROM'' st1) (\<lambda>st2.
     andThen (pqParseName st2) (\<lambda>(t, st3).
     andThen (pqRequiredWhere st3) (\<lambda>(conds, _). Ok ((pqStmtOf pqDelete t)\<lparr>ps_where := conds\<rparr>)))))"

definition pqParseStatement :: "pqState \<Rightarrow> (pq_error, pqStmt) res" where
  "pqParseStatement st =
     (let t = pqPeek st
      in if pk_kind t \<noteq> pqTokIdent then Err (PqExpectedStatement (pk_val t))
         else if pqIsKeyword ''SELECT'' t then pqParseSelect st
         else if pqIsKeyword ''INSERT'' t then pqParseInsert st
         else if pqIsKeyword ''UPDATE'' t then pqParseUpdate st
         else if pqIsKeyword ''DELETE'' t then pqParseDelete st
         else Err (PqUnsupportedStatement (pk_val t)))"

definition parsePartiQL :: "string \<Rightarrow> gmap list \<Rightarrow> (pq_error, pqStmt) res" where
  "parsePartiQL stmt params = andThen (pqTokenize stmt) (\<lambda>toks. pqParseStatement (toks, params))"

section \<open>Helpers\<close>

text \<open>The primary key from the equalities of a \<open>WHERE\<close> clause; \<open>Err\<close> names the key attribute that has none.\<close>

fun extractExactKey :: "pqCond list \<Rightarrow> KeySchemaElement list \<Rightarrow> (string, gmap) res" where
  "extractExactKey conds [] = Ok []"
| "extractExactKey conds (k # ks) =
     (case find (\<lambda>c. pc_attr c = ks_AttributeName k \<and> pc_op c = ''='') conds of
        None \<Rightarrow> Err (ks_AttributeName k)
      | Some c \<Rightarrow> mapOk (\<lambda>key. (ks_AttributeName k, GMap (pc_val c)) # AList.delete (ks_AttributeName k) key) (extractExactKey conds ks))"

definition pqCondToSortKey :: "pqCond \<Rightarrow> SortKeyCondition option" where
  "pqCondToSortKey c =
     (if pc_op c \<in> {''='', ''<'', ''<='', ''>'', ''>=''} then
        Some \<lparr>sk_Name = pc_attr c, sk_Operator = pc_op c, sk_Value = GMap (pc_val c), sk_Value2 = GNil\<rparr>
      else if pc_op c = ''BETWEEN'' then
        Some \<lparr>sk_Name = pc_attr c, sk_Operator = ''BETWEEN'', sk_Value = GMap (pc_val c), sk_Value2 = GMap (pc_val2 c)\<rparr>
      else None)"

definition pqIdx :: "nat \<Rightarrow> string" where
  "pqIdx i = strconv_Itoa (int i)"

fun pqJoin :: "string \<Rightarrow> string list \<Rightarrow> string" where
  "pqJoin sep [] = []"
| "pqJoin sep [x] = x"
| "pqJoin sep (x # y # ys) = x @ sep @ pqJoin sep (y # ys)"

text \<open>The filter text of the condition at position \<open>i\<close>, with the values it refers to; any other operator has no text.\<close>

definition pqPart :: "nat \<Rightarrow> pqCond \<Rightarrow> string list \<times> gmap" where
  "pqPart i c =
     (let nameRef = ''#pqf'' @ pqIdx i; valRef = '':pqf'' @ pqIdx i
      in if pc_op c \<in> {''='', ''<>'', ''!='', ''<'', ''<='', ''>'', ''>=''} then
           ([nameRef @ '' '' @ (if pc_op c = ''!='' then ''<>'' else pc_op c) @ '' '' @ valRef], [(valRef, GMap (pc_val c))])
         else if pc_op c = ''BETWEEN'' then
           ([nameRef @ '' BETWEEN '' @ valRef @ ''lo AND '' @ valRef @ ''hi''],
            [(valRef @ ''lo'', GMap (pc_val c)), (valRef @ ''hi'', GMap (pc_val2 c))])
         else if pc_op c = ''IN'' then
           (let refs = map (\<lambda>j. valRef @ ''_'' @ pqIdx j) [0..<length (pc_vals c)]
            in ([nameRef @ '' IN ('' @ pqJoin '', '' refs @ '')''], zip refs (map GMap (pc_vals c))))
         else ([], []))"

definition pqCondsToFilterExpr :: "pqCond list \<Rightarrow> string \<times> smap \<times> gmap" where
  "pqCondsToFilterExpr conds =
     (let parts = map (\<lambda>(i, c). pqPart i c) (zip [0..<length conds] conds)
      in (pqJoin '' AND '' (concat (map fst parts)),
          map (\<lambda>(i, c). (''#pqf'' @ pqIdx i, pc_attr c)) (zip [0..<length conds] conds),
          concat (map snd parts)))"

definition pqMinLimit :: "int option \<Rightarrow> int option \<Rightarrow> int option" where
  "pqMinLimit a b =
     (case (a, b) of (None, _) \<Rightarrow> b | (_, None) \<Rightarrow> a | (Some x, Some y) \<Rightarrow> if x \<le> y then a else b)"

end
