(* ===== verification/Pagination.thy ===== *)
theory Pagination
  imports Kumolo_Prelude
begin

text \<open>
  The contract of the paginated list operations. A page operation takes the full sorted result,
  a limit and a marker (a string, or the key of an item) and returns a page with the next marker,
  the empty one when nothing is left; \<open>None\<close> is the rejection of a marker. The locale states what a client relies on: the
  first page starts at the front, and the marker a page returns continues right after its last
  element. The consequence, proved once here and used by every list operation through an
  interpretation, is that following the markers visits every element exactly once, in order,
  and stops after \<open>length xs / limit\<close> pages (rounded up).
\<close>

text \<open>A client that follows the markers, for at most \<open>fuel\<close> pages.\<close>

fun page_walk ::
  "('a list \<Rightarrow> nat \<Rightarrow> 'm list \<Rightarrow> ('a list \<times> 'm list) option) \<Rightarrow> nat \<Rightarrow> 'a list \<Rightarrow> nat \<Rightarrow> 'm list \<Rightarrow> 'a list option"
where
  "page_walk page 0 xs n m = None"
| "page_walk page (Suc fuel) xs n m =
     (case page xs n m of
        None \<Rightarrow> None
      | Some (ps, m') \<Rightarrow>
          if m' = [] then Some ps else map_option ((@) ps) (page_walk page fuel xs n m'))"

locale marker_pager =
  fixes page :: "'a list \<Rightarrow> nat \<Rightarrow> 'm list \<Rightarrow> ('a list \<times> 'm list) option"
    and mark :: "'a list \<Rightarrow> nat \<Rightarrow> 'm list"
    and ok :: "'a list \<Rightarrow> bool"
  assumes page_start:
    "ok xs \<Longrightarrow> 0 < n \<Longrightarrow>
       page xs n [] = Some (take n xs, if n < length xs then mark xs (n - 1) else [])"
  and page_next:
    "ok xs \<Longrightarrow> 0 < n \<Longrightarrow> i < length xs \<Longrightarrow>
       page xs n (mark xs i) =
         Some (take n (drop (Suc i) xs), if n < length xs - Suc i then mark xs (i + n) else [])"
  and mark_nonempty: "ok xs \<Longrightarrow> i < length xs \<Longrightarrow> mark xs i \<noteq> []"
begin

lemma walk_from:
  assumes "ok xs" and "0 < n" and "i < length xs" and "length xs - Suc i \<le> fuel * n" and "0 < fuel"
  shows "page_walk page fuel xs n (mark xs i) = Some (drop (Suc i) xs)"
  using assms
proof (induction fuel arbitrary: i)
  case 0
  then show ?case by simp
next
  case (Suc fuel)
  note step = page_next[OF Suc.prems(1-3)]
  show ?case
  proof (cases "n < length xs - Suc i")
    case False
    with step show ?thesis by simp
  next
    case True
    have left: "length xs - Suc (i + n) \<le> fuel * n" using Suc.prems(4) by simp
    have "0 < fuel" using True Suc.prems(4) by (cases fuel) auto
    moreover have lt: "i + n < length xs" using True by simp
    ultimately have "page_walk page fuel xs n (mark xs (i + n)) = Some (drop (Suc (i + n)) xs)"
      using Suc.IH[OF Suc.prems(1,2)] left by blast
    moreover have "take n (drop (Suc i) xs) @ drop (Suc (i + n)) xs = drop (Suc i) xs"
      by (metis add.commute add_Suc_right append_take_drop_id drop_drop)
    ultimately show ?thesis using step True mark_nonempty[OF Suc.prems(1) lt] by simp
  qed
qed

lemma walk_complete:
  assumes "ok xs" and "0 < n" and "length xs \<le> fuel * n" and "0 < fuel"
  shows "page_walk page fuel xs n [] = Some xs"
proof (cases "n < length xs")
  case False
  with page_start[OF assms(1,2)] assms(4) show ?thesis by (cases fuel) simp_all
next
  case True
  obtain f where f: "fuel = Suc f" using assms(4) by (cases fuel) auto
  have lt: "n - 1 < length xs" and n: "Suc (n - 1) = n" using True assms(2) by auto
  have "0 < f" using True assms(3) f by (cases f) auto
  then have "page_walk page f xs n (mark xs (n - 1)) = Some (drop n xs)"
    using walk_from[OF assms(1,2) lt, of f] assms(3) f n by simp
  then show ?thesis
    using page_start[OF assms(1,2)] True f mark_nonempty[OF assms(1) lt] by simp
qed

lemma page_bounded:
  assumes "ok xs" and "0 < n" and "page xs n [] = Some (ps, m)"
  shows "length ps \<le> n"
  using page_start[OF assms(1,2)] assms(3) by auto

end

section \<open>Markers that name an element\<close>

text \<open>
  The scan that the key, alias and grant lists share: continue after the element whose name is
  the marker; when there is none, at the first name that is not smaller (\<open>sort.Search\<close>).
\<close>

definition resume_index :: "('a \<Rightarrow> string) \<Rightarrow> 'a list \<Rightarrow> string \<Rightarrow> nat" where
  "resume_index name xs m =
     (case find_index (\<lambda>x. name x = m) xs of
        Some i \<Rightarrow> i + 1
      | None \<Rightarrow> sort_Search (length xs) (\<lambda>i. m \<le> name (xs ! i)))"

lemma resume_index_mark:
  "distinct (map name xs) \<Longrightarrow> i < length xs \<Longrightarrow> resume_index name xs (name (xs ! i)) = Suc i"
  by (simp add: resume_index_def find_index_key)

lemma resume_index_le: "sorted (map name xs) \<Longrightarrow> resume_index name xs m \<le> length xs"
proof -
  assume s: "sorted (map name xs)"
  show ?thesis
  proof (cases "find_index (\<lambda>x. name x = m) xs")
    case None
    then show ?thesis using sort_Search_sorted(1)[OF s] by (simp add: resume_index_def)
  next
    case (Some i)
    then show ?thesis using find_index_Some[OF Some] by (simp add: resume_index_def)
  qed
qed

text \<open>Whether or not the marker is still present, the listing resumes at the names above it.\<close>

lemma resume_index_above:
  assumes "sorted (map name xs)" and "distinct (map name xs)"
  shows "drop (resume_index name xs m) xs = filter (\<lambda>x. m < name x) xs"
proof -
  let ?r = "resume_index name xs m"
  have low: "\<not> m < name (xs ! k)" if "k < ?r" for k
  proof (cases "find_index (\<lambda>x. name x = m) xs")
    case None
    then show ?thesis using sort_Search_sorted(2)[OF assms(1), of k m] that by (simp add: resume_index_def)
  next
    case (Some i)
    then have "i < length xs" and "name (xs ! i) = m" and "k \<le> i"
      using find_index_Some[OF Some] that by (auto simp: resume_index_def)
    then show ?thesis using sorted_nth_mono[OF assms(1), of k i] by simp
  qed
  have high: "m < name (xs ! k)" if "?r \<le> k" "k < length xs" for k
  proof (cases "find_index (\<lambda>x. name x = m) xs")
    case None
    then have "m \<le> name (xs ! k)" using sort_Search_sorted(3)[OF assms(1)] that by (simp add: resume_index_def)
    moreover have "name (xs ! k) \<noteq> m" using None that(2) by (auto simp: find_index_None)
    ultimately show ?thesis by simp
  next
    case (Some i)
    then have i: "i < length xs" "name (xs ! i) = m" "i < k"
      using find_index_Some[OF Some] that by (auto simp: resume_index_def)
    then have "name (xs ! i) \<le> name (xs ! k)" using sorted_nth_mono[OF assms(1), of i k] that by simp
    moreover have "name (xs ! i) \<noteq> name (xs ! k)"
      using assms(2) i that(2) by (auto simp: distinct_conv_nth)
    ultimately show ?thesis using i by simp
  qed
  have "filter (\<lambda>x. m < name x) (take ?r xs) = []"
    using low by (auto simp: filter_empty_conv in_set_conv_nth)
  moreover have "filter (\<lambda>x. m < name x) (drop ?r xs) = drop ?r xs"
    using high resume_index_le[OF assms(1), of m] by (auto simp: filter_id_conv in_set_conv_nth)
  ultimately show ?thesis by (metis append_Nil append_take_drop_id filter_append)
qed

end
