(* ===== verification/Ddb_Query_Theorems.thy ===== *)
theory Ddb_Query_Theorems
  imports Ddb_Item_Theorems Pagination "HOL-Library.Multiset"
begin

text \<open>
  Scans: the file layout of a table is an invariant of the item operations, so that a scan returns
  the live items of the table once each, sorted by the hash of their keys; a client that follows
  \<open>LastEvaluatedKey\<close> page by page gets the same list, and the segments of a parallel scan make up
  the whole.
\<close>

section \<open>The layout of a table\<close>

definition table_ok :: "ddb \<Rightarrow> string \<Rightarrow> TableMetadata \<Rightarrow> bool" where
  "table_ok s t meta \<longleftrightarrow>
     (\<forall>f n. look s [t, f] = Some n \<longrightarrow>
        (\<exists>k item. f = k @ ''.json'' \<and> n = File (Some (CItem item)) \<and> itemKey (md5hex s) item (tm_KeySchema meta) = Ok k))"

lemma table_ok_one:
  assumes "table_ok s t meta" and "one_item t k s s'"
    and "look s' [t, k @ ''.json''] = None \<or>
      (\<exists>item. look s' [t, k @ ''.json''] = Some (File (Some (CItem item))) \<and> itemKey (md5hex s) item (tm_KeySchema meta) = Ok k)"
  shows "table_ok s' t meta"
  unfolding table_ok_def
proof (intro allI impI)
  fix f n
  assume n: "look s' [t, f] = Some n"
  have fr: "frame {[t, k @ ''.json''], [t @ ''.stream.jsonl'']} s s'" using assms(2) by (simp add: one_item_def)
  show "\<exists>k item. f = k @ ''.json'' \<and> n = File (Some (CItem item)) \<and> itemKey (md5hex s') item (tm_KeySchema meta) = Ok k"
  proof (cases "f = k @ ''.json''")
    case True
    then show ?thesis using assms(3) n frame_fields(1)[OF fr] by auto
  next
    case False
    then have "look s [t, f] = Some n" using frame_fields(4)[OF fr, of "[t, f]"] n by simp
    then show ?thesis using assms(1) frame_fields(1)[OF fr] by (simp add: table_ok_def)
  qed
qed

lemma readOld_None_look:
  assumes "disk_wf s" and "readOld s p = Ok None"
  shows "look s p = None"
proof (rule ccontr)
  assume "look s p \<noteq> None"
  then obtain n where "root_walk s p = Inr n" using root_walk_Some[OF assms(1)] by blast
  then show False
    using assms(2) by (auto simp: readOld_def readItem_def root_ReadFile_def split: sum.splits node.splits option.splits if_splits ddb_content.splits)
qed

lemma put_layout:
  assumes "plain_elem t" and "hex_digest (md5hex s)" and "quiet s" and "tableMeta s t = Ok meta" and "table_ok s t meta"
    and "PutItem t item cond s = (r, s')"
  shows "table_ok s' t meta"
proof (cases r)
  case (Ok old)
  obtain meta' k where "tableMeta s t = Ok meta'" "itemKey (md5hex s) item (tm_KeySchema meta') = Ok k" "one_item t k s s'"
    "look s' [t, k @ ''.json''] = Some (File (Some (CItem item)))"
    by (rule put_effect[OF assms(6)[unfolded Ok] assms(1,2)])
  then show ?thesis using table_ok_one[OF assms(5)] assms(4) by auto
next
  case (Err e)
  then show ?thesis using failed_put[OF assms(3)] assms(5,6) by blast
next
  case Panic
  then have "s' = s"
    using assms(6) by (auto simp: PutItem_def elim!: onOk_cases split: option.splits prod.splits)
  then show ?thesis using assms(5) by simp
qed

lemma delete_layout:
  assumes "plain_elem t" and "hex_digest (md5hex s)" and "quiet s" and "disk_wf s" and "tableMeta s t = Ok meta"
    and "table_ok s t meta" and "DeleteItem t key cond s = (r, s')"
  shows "table_ok s' t meta"
proof (cases r)
  case (Ok old)
  obtain meta' k where "one_item t k s s'" and r: "readOld s' [t, k @ ''.json''] = Ok None"
    by (rule delete_effect[OF assms(7)[unfolded Ok] assms(1,2,4,3)])
  moreover have "look s' [t, k @ ''.json''] = None"
    by (rule readOld_None_look[OF quiet_after(1)[OF \<open>one_item t k s s'\<close> assms(4,3)] r])
  ultimately show ?thesis using table_ok_one[OF assms(6)] by auto
next
  case (Err e)
  then show ?thesis using failed_delete[OF assms(3)] assms(6,7) by blast
next
  case Panic
  then have "s' = s"
    using assms(7) by (auto simp: DeleteItem_def elim!: onOk_cases split: option.splits prod.splits if_splits)
  then show ?thesis using assms(6) by simp
qed


lemma db_table_ok: "table_ok demo_db ''t'' demo_meta"
  by (auto simp: table_ok_def demo_db_def look_def)


section \<open>Listing a table\<close>

lemma sortBy_key: "sortBy (\<lambda>a b. f a < f b) xs = sort_key f xs" for f :: "'a \<Rightarrow> 'b::linorder"
proof -
  have "insertBy (\<lambda>a b. f a < f b) x ys = insort_key f x ys" for x ys
    by (induction ys) (auto simp: not_less)
  then show ?thesis by (induction xs) (simp_all add: sortBy_def)
qed

lemma readEntries_spec:
  assumes "\<And>e. e \<in> set es \<Longrightarrow> \<exists>k item. fst e = k @ ''.json'' \<and> readItem s (d @ [fst e]) = Inr item \<and> itemKey h item sch = Ok k"
  shows "map (\<lambda>i. keyOf h sch i @ ''.json'') (readEntries s d es) = map fst es
    \<and> set (readEntries s d es) = {i. \<exists>e\<in>set es. readItem s (d @ [fst e]) = Inr i}
    \<and> (\<forall>i\<in>set (readEntries s d es). \<exists>k. itemKey h i sch = Ok k)"
  using assms
proof (induction es)
  case (Cons e es)
  obtain k item where e: "fst e = k @ ''.json''" "readItem s (d @ [fst e]) = Inr item" "itemKey h item sch = Ok k"
    using Cons.prems[of e] by auto
  have "has_suffix ''.json'' (k @ ''.json'')" by (simp add: has_suffix_def has_prefix_iff)
  then show ?case using Cons e by (auto simp: keyOf_def)
qed simp

text \<open>The items of a table that are not expired.\<close>

definition live :: "ddb \<Rightarrow> string \<Rightarrow> TableMetadata \<Rightarrow> gmap set" where
  "live s t meta = {item. \<exists>f. look s [t, f] = Some (File (Some (CItem item))) \<and> \<not> isTTLExpired (clock s) item (tm_TTL meta)}"

definition scan_order :: "ddb \<Rightarrow> TableMetadata \<Rightarrow> gmap list \<Rightarrow> bool" where
  "scan_order s meta xs \<longleftrightarrow>
     sorted (map (keyOf (md5hex s) (tm_KeySchema meta)) xs) \<and> distinct (map (keyOf (md5hex s) (tm_KeySchema meta)) xs)
     \<and> (\<forall>i\<in>set xs. \<exists>k. itemKey (md5hex s) i (tm_KeySchema meta) = Ok k)"

definition sortedItems :: "ddb \<Rightarrow> TableMetadata \<Rightarrow> gmap list \<Rightarrow> gmap list" where
  "sortedItems s meta items =
     sort_key (keyOf (md5hex s) (tm_KeySchema meta)) (liveItems (clock s) (tm_TTL meta) items)"

lemma list_table:
  assumes "disk_wf s" and "quiet s" and "plain_elem t" and "look s [t] = Some Dir" and "table_ok s t meta"
  obtains items where "readAllItemsLocked s t = Ok items" "scan_order s meta (sortedItems s meta items)"
    "set (sortedItems s meta items) = live s t meta"
proof -
  let ?h = "md5hex s" and ?sch = "tm_KeySchema meta"
  let ?es = "entries s [t]"
  have walk: "root_walk s [t] = Inr Dir" using root_walk_Some[OF assms(1,4)] .
  have read: "readItem s ([t] @ [f]) = Inr item" if "look s [t, f] = Some (File (Some (CItem item)))" for f item
    using that root_walk_Some[OF assms(1) that] assms(2) by (simp add: readItem_def root_ReadFile_def quiet_def)
  have mem: "(f, b) \<in> set ?es \<longleftrightarrow> (\<exists>n. look s [t, f] = Some n \<and> b = (n = Dir))" for f b
    using entries_mem[OF assms(1), of f b "[t]"] by simp
  have ok: "\<exists>k item. fst e = k @ ''.json'' \<and> readItem s ([t] @ [fst e]) = Inr item \<and> itemKey ?h item ?sch = Ok k"
    if e: "e \<in> set ?es" for e
  proof -
    obtain n where n: "look s [t, fst e] = Some n" using mem[of "fst e" "snd e"] e by auto
    obtain k item where "fst e = k @ ''.json''" "n = File (Some (CItem item))" "itemKey ?h item ?sch = Ok k"
      using assms(5) n unfolding table_ok_def by blast
    then show ?thesis using read n by blast
  qed
  let ?all = "readEntries s [t] ?es"
  have spec: "map (\<lambda>i. keyOf ?h ?sch i @ ''.json'') ?all = map fst ?es"
    "set ?all = {i. \<exists>e\<in>set ?es. readItem s ([t] @ [fst e]) = Inr i}" "\<forall>i\<in>set ?all. \<exists>k. itemKey ?h i ?sch = Ok k"
    using readEntries_spec[of ?es s "[t]", OF ok] by blast+
  have all: "readAllItemsLocked s t = Ok ?all"
    using walk assms(2,3) by (simp add: readAllItemsLocked_def root_ReadDir_def plain_table quiet_def)
  have "distinct (map (\<lambda>i. keyOf ?h ?sch i @ ''.json'') ?all)" using spec(1) distinct_entries[OF assms(1)] by simp
  then have dist: "distinct (map (keyOf ?h ?sch) ?all)" by (simp add: distinct_map inj_on_def)
  have items: "set ?all = {item. \<exists>f. look s [t, f] = Some (File (Some (CItem item)))}"
  proof -
    have "readItem s ([t] @ [f]) = Inr item \<longleftrightarrow> look s [t, f] = Some (File (Some (CItem item)))" for f item
      using read[of f item] by (auto simp: readItem_def root_ReadFile_def dest!: root_walk_Inr
          split: if_splits sum.splits node.splits option.splits ddb_content.splits)
    then show ?thesis using spec(2) mem by (auto simp: image_iff) force
  qed
  have "scan_order s meta (sortedItems s meta ?all)"
    using dist spec(3) by (auto simp: scan_order_def sortedItems_def liveItems_def distinct_map intro: inj_on_subset)
  moreover have "set (sortedItems s meta ?all) = live s t meta"
    using items by (auto simp: sortedItems_def liveItems_def live_def)
  ultimately show thesis using that[OF all] by blast
qed

section \<open>Pages\<close>

text \<open>A page of a sorted list of items, as \<open>Scan\<close> cuts it; an empty start key is the first page, an empty
  last key the end.\<close>

definition scan_page :: "(string \<Rightarrow> string) \<Rightarrow> KeySchemaElement list \<Rightarrow> gmap list \<Rightarrow> nat \<Rightarrow> gmap \<Rightarrow> (gmap list \<times> gmap) option" where
  "scan_page h sch xs n esk =
     (case andThen (if esk = [] then Ok xs else mapOk (\<lambda>k. resumeAt h sch k xs) (itemKey h esk sch))
             (limitItems (Some (int n)) sch) of
        Ok (items, lek) \<Rightarrow> Some (items, case lek of None \<Rightarrow> [] | Some k \<Rightarrow> k)
      | _ \<Rightarrow> None)"

definition page_ok :: "(string \<Rightarrow> string) \<Rightarrow> KeySchemaElement list \<Rightarrow> gmap list \<Rightarrow> bool" where
  "page_ok h sch xs \<longleftrightarrow> sch \<noteq> [] \<and> sorted (map (keyOf h sch) xs) \<and> distinct (map (keyOf h sch) xs)
     \<and> (\<forall>i\<in>set xs. \<exists>k. itemKey h i sch = Ok k)"

lemma map_of_extract:
  "map_of (foldl (\<lambda>key k. AList.update (ks_AttributeName k) (get0 item (ks_AttributeName k)) key) m sch) a =
     (if a \<in> ks_AttributeName ` set sch then Some (get0 item a) else map_of m a)"
  by (induction sch arbitrary: m) auto

lemma keyParts_cong:
  "(\<And>a. a \<in> ks_AttributeName ` set sch \<Longrightarrow> map_of x a = map_of y a) \<Longrightarrow> keyParts x sch = keyParts y sch"
  by (induction sch) (auto split: option.splits)

lemma keyParts_present: "keyParts x sch = Ok ps \<Longrightarrow> a \<in> ks_AttributeName ` set sch \<Longrightarrow> map_of x a = Some (get0 x a)"
  by (induction sch arbitrary: ps) (auto simp: mapOk_Ok get0_def split: option.splits)

lemma itemKey_extract: "itemKey h item sch = Ok k \<Longrightarrow> itemKey h (extractPrimaryKey item sch) sch = Ok k"
proof -
  assume "itemKey h item sch = Ok k"
  then obtain ps where ps: "keyParts item sch = Ok ps" by (auto simp: itemKey_def mapOk_Ok)
  have "keyParts (extractPrimaryKey item sch) sch = keyParts item sch"
    by (rule keyParts_cong) (simp add: extractPrimaryKey_def map_of_extract keyParts_present[OF ps])
  then show ?thesis using \<open>itemKey h item sch = Ok k\<close> by (simp add: itemKey_def)
qed

lemma extract_not_Nil: "sch \<noteq> [] \<Longrightarrow> extractPrimaryKey item sch \<noteq> []"
proof -
  assume "sch \<noteq> []"
  then have "map_of (extractPrimaryKey item sch) (ks_AttributeName (hd sch)) \<noteq> None"
    by (simp add: extractPrimaryKey_def map_of_extract)
  then show ?thesis by auto
qed

lemma resumeAt_drop:
  assumes "sorted (map (keyOf h sch) xs)" and "distinct (map (keyOf h sch) xs)" and "\<forall>i\<in>set xs. \<exists>k. itemKey h i sch = Ok k"
    and "i < length xs" and "itemKey h (xs ! i) sch = Ok k"
  shows "resumeAt h sch k xs = drop (Suc i) xs"
  using assms
proof (induction xs arbitrary: i)
  case (Cons x xs)
  obtain kx where kx: "itemKey h x sch = Ok kx" using Cons.prems(3) by auto
  show ?case
  proof (cases i)
    case 0
    then show ?thesis using Cons.prems(5) kx by simp
  next
    case (Suc j)
    have j: "j < length xs" "itemKey h (xs ! j) sch = Ok k" using Cons.prems(4,5) Suc by auto
    have "keyOf h sch (xs ! j) = k" using j(2) by (simp add: keyOf_def)
    then have "k \<in> keyOf h sch ` set xs" using j(1) by force
    then have "kx \<le> k" "kx \<noteq> k" using Cons.prems(1,2) kx by (auto simp: keyOf_def)
    then have "\<not> k < kx" by (simp add: not_less)
    with \<open>kx \<noteq> k\<close> have "resumeAt h sch k (x # xs) = resumeAt h sch k xs" using kx by simp
    then show ?thesis using Cons.IH[of j] Cons.prems(1-3) j Suc by auto
  qed
qed simp

interpretation scan_pager: marker_pager "scan_page h sch" "\<lambda>xs i. extractPrimaryKey (xs ! i) sch" "page_ok h sch" for h sch
proof
  fix xs :: "gmap list" and n i :: nat
  assume ok: "page_ok h sch xs"
  show "extractPrimaryKey (xs ! i) sch \<noteq> []" using ok extract_not_Nil by (simp add: page_ok_def)
  assume n: "0 < n"
  show "scan_page h sch xs n [] = Some (take n xs, if n < length xs then extractPrimaryKey (xs ! (n - 1)) sch else [])"
    using n by (simp add: scan_page_def limitItems_def)
  assume i: "i < length xs"
  obtain k where k: "itemKey h (xs ! i) sch = Ok k" using ok nth_mem[OF i] unfolding page_ok_def by blast
  have r: "resumeAt h sch k xs = drop (Suc i) xs"
    using resumeAt_drop[OF _ _ _ i k] ok by (auto simp: page_ok_def)
  show "scan_page h sch xs n (extractPrimaryKey (xs ! i) sch) =
    Some (take n (drop (Suc i) xs), if n < length xs - Suc i then extractPrimaryKey (xs ! (i + n)) sch else [])"
    using n k r ok itemKey_extract[OF k] extract_not_Nil[of sch "xs ! i"]
    by (simp add: scan_page_def limitItems_def page_ok_def)
qed

text \<open>A client that follows the last evaluated keys of \<open>Scan\<close>.\<close>

definition scanOpts :: "int option \<Rightarrow> gmap \<Rightarrow> (int \<times> int) option \<Rightarrow> ScanOptions" where
  "scanOpts lim esk seg = \<lparr>sc_Limit = lim, sc_ExclusiveStartKey = esk, sc_Segment = map_option fst seg, sc_TotalSegments = map_option snd seg\<rparr>"

fun scan_all :: "nat \<Rightarrow> string \<Rightarrow> nat \<Rightarrow> gmap \<Rightarrow> ddb \<Rightarrow> gmap list option" where
  "scan_all 0 t n esk s = None"
| "scan_all (Suc fuel) t n esk s =
     (case Scan t (scanOpts (Some (int n)) esk None) s of
        Ok (items, None) \<Rightarrow> Some items
      | Ok (items, Some lek) \<Rightarrow> map_option ((@) items) (scan_all fuel t n lek s)
      | _ \<Rightarrow> None)"

lemma Scan_eq:
  assumes "existingMeta s t = Ok meta" and "readAllItemsLocked s t = Ok items"
  shows "Scan t (scanOpts lim esk None) s =
     andThen (if esk = [] then Ok (sortedItems s meta items)
              else mapOk (\<lambda>k. resumeAt (md5hex s) (tm_KeySchema meta) k (sortedItems s meta items)) (itemKey (md5hex s) esk (tm_KeySchema meta)))
       (limitItems lim (tm_KeySchema meta))"
    "Scan t (scanOpts lim esk (Some (g, T))) s =
     andThen (segmentItems (Some g) (Some T) (sortedItems s meta items)) (\<lambda>xs.
       andThen (if esk = [] then Ok xs
              else mapOk (\<lambda>k. resumeAt (md5hex s) (tm_KeySchema meta) k xs) (itemKey (md5hex s) esk (tm_KeySchema meta)))
       (limitItems lim (tm_KeySchema meta)))"
  using assms by (simp_all add: Scan_def scanOpts_def sortedItems_def segmentItems_def sortBy_key Let_def)

lemma limit_some: "limitItems lim sch xs = Ok (items, Some lek) \<Longrightarrow> sch \<noteq> [] \<Longrightarrow> lek \<noteq> []"
  by (auto simp: limitItems_def extract_not_Nil split: option.splits if_splits)

lemma scan_all_pages:
  assumes "existingMeta s t = Ok meta" and "readAllItemsLocked s t = Ok items" and "tm_KeySchema meta \<noteq> []"
  shows "scan_all fuel t n esk s = page_walk (scan_page (md5hex s) (tm_KeySchema meta)) fuel (sortedItems s meta items) n esk"
proof (induction fuel arbitrary: esk)
  case (Suc fuel)
  let ?r = "Scan t (scanOpts (Some (int n)) esk None) s"
  have p: "scan_page (md5hex s) (tm_KeySchema meta) (sortedItems s meta items) n esk =
      (case ?r of Ok (its, lek) \<Rightarrow> Some (its, case lek of None \<Rightarrow> [] | Some k \<Rightarrow> k) | _ \<Rightarrow> None)"
    by (simp add: Scan_eq[OF assms(1,2)] scan_page_def)
  have ne: "?r = Ok (its, Some lek) \<Longrightarrow> lek \<noteq> []" for its lek
    unfolding Scan_eq(1)[OF assms(1,2)] andThen_Ok using limit_some[OF _ assms(3)] by blast
  show ?case
  proof (cases ?r)
    case (Ok x)
    obtain its lek where x: "x = (its, lek)" by fastforce
    show ?thesis using Ok x p Suc ne by (cases lek) auto
  qed (use p in auto)
qed simp

lemma existing_quiet:
  assumes "disk_wf s" and "quiet s" and "plain_elem t" and "tableMeta s t = Ok meta"
  shows "existingMeta s t = Ok meta"
proof -
  have r: "readTableMeta s t = Inr meta" using assms(4) by (simp add: tableMeta_Ok)
  then obtain n where "root_walk s [t @ ''.table.json''] = Inr n"
    by (auto simp: readTableMeta_def root_ReadFile_def plain_table[OF assms(3)] split: if_splits sum.splits)
  then have "tableExistsLocked s t" using assms(2) by (simp add: tableExistsLocked_def root_Stat_def plain_table[OF assms(3)] quiet_def)
  then show ?thesis using r by (simp add: existingMeta_def)
qed


definition demo_two :: ddb where
  "demo_two = demo_db\<lparr>d_fs := d_fs demo_db @
     [([''t'', ''0000000000000000000000000000000b.json''], File (Some (CItem (demo_row ''bb'' ''2'')))),
      ([''t'', ''0000000000000000000000000000000a.json''], File (Some (CItem (demo_row ''a'' ''1''))))]\<rparr>"

lemma db_two_look:
  "look demo_two [''t'', f] = Some n \<longleftrightarrow>
     f = ''0000000000000000000000000000000b.json'' \<and> n = File (Some (CItem (demo_row ''bb'' ''2''))) \<or>
     f = ''0000000000000000000000000000000a.json'' \<and> n = File (Some (CItem (demo_row ''a'' ''1'')))"
  by (auto simp: demo_two_def demo_db_def look_def)

lemma db_two_keys:
  "itemKey demo_md5 (demo_row ''bb'' ''2'') demo_schema = Ok ''0000000000000000000000000000000b''"
  "itemKey demo_md5 (demo_row ''a'' ''1'') demo_schema = Ok ''0000000000000000000000000000000a''"
  by code_simp+

lemma db_two_facts:
  "disk_wf demo_two" "quiet demo_two" "tableMeta demo_two ''t'' = Ok demo_meta" "look demo_two [''t''] = Some Dir"
  "table_ok demo_two ''t'' demo_meta" "live demo_two ''t'' demo_meta = {demo_row ''a'' ''1'', demo_row ''bb'' ''2''}"
proof -
  show "disk_wf demo_two"
    by (auto simp: disk_wf_def demo_two_def demo_db_def look_def plain_elem_def split: if_splits)
  show "quiet demo_two" "look demo_two [''t''] = Some Dir" by (simp_all add: quiet_def demo_two_def demo_db_def look_def)
  show "tableMeta demo_two ''t'' = Ok demo_meta"
    by (simp add: tableMeta_def readTableMeta_def plain_table[OF db_plain] root_ReadFile_def root_walk_def
      escapes_def blocked_def look_def demo_db_def demo_two_def)
  have h: "md5hex demo_two = demo_md5" "tm_KeySchema demo_meta = demo_schema" "tm_TTL demo_meta = None"
    by (simp_all add: demo_two_def demo_db_def demo_meta_def)
  show "table_ok demo_two ''t'' demo_meta"
    unfolding table_ok_def h using db_two_look db_two_keys by auto
  show "live demo_two ''t'' demo_meta = {demo_row ''a'' ''1'', demo_row ''bb'' ''2''}"
    by (auto simp: live_def db_two_look h isTTLExpired_def)
qed


section \<open>Segments\<close>

lemma sum_filter_mod:
  fixes T :: nat
  assumes "0 < T"
  shows "(\<Sum>g<T. mset (map snd (filter (\<lambda>(i, x). int i mod int T = int g) L))) = mset (map snd L)"
proof (induction L)
  case (Cons p L)
  obtain i x where p: "p = (i, x)" by fastforce
  have eq: "int i mod int T = int g \<longleftrightarrow> g = i mod T" for g by (metis of_nat_eq_iff zmod_int)
  have "mset (map snd (filter (\<lambda>(i, x). int i mod int T = int g) (p # L))) =
      (if g = i mod T then {#x#} else {#}) + mset (map snd (filter (\<lambda>(i, x). int i mod int T = int g) L))" for g
    using p eq[of g] by simp
  then have "(\<Sum>g<T. mset (map snd (filter (\<lambda>(i, x). int i mod int T = int g) (p # L)))) =
      (\<Sum>g<T. if g = i mod T then {#x#} else {#}) + mset (map snd L)"
    using Cons by (simp add: sum.distrib)
  moreover have "(\<Sum>g<T. if g = i mod T then {#x#} else {#}) = {#x#}" using assms by simp
  ultimately show ?case using p by simp
qed simp

text \<open>
  C27. A parallel scan is a partition: the segments \<open>0\<close> to \<open>T - 1\<close> of a scan in \<open>T\<close> segments all succeed
  and together return exactly what the scan of the whole table returns, with multiplicity.
\<close>

theorem parallel_scan_partition:
  assumes "0 < T" and "Scan t (scanOpts None [] None) s = Ok (xs, lek)"
  shows "\<exists>parts. length parts = T
     \<and> (\<forall>g<T. Scan t (scanOpts None [] (Some (int g, int T))) s = Ok (parts ! g, None))
     \<and> sum_list (map mset parts) = mset xs"
proof -
  obtain meta items where e: "existingMeta s t = Ok meta" and r: "readAllItemsLocked s t = Ok items"
    using assms(2) by (auto simp: Scan_def andThen_Ok)
  have xs: "xs = sortedItems s meta items" using assms(2) by (simp add: Scan_eq[OF e r] limitItems_def)
  let ?L = "zip [0..<length xs] xs"
  let ?part = "\<lambda>g. map snd (filter (\<lambda>(i, x). int i mod int T = int g) ?L)"
  have "Scan t (scanOpts None [] (Some (int g, int T))) s = Ok (?part g, None)" for g
    using assms(1) by (simp add: Scan_eq(2)[OF e r] segmentItems_def limitItems_def xs)
  moreover have "sum_list (map mset (map ?part [0..<T])) = mset xs"
  proof -
    have "sum_list (map mset (map ?part [0..<T])) = (\<Sum>g<T. mset (?part g))"
      by (simp add: sum_list_distinct_conv_sum_set atLeast0LessThan comp_def)
    then show ?thesis using sum_filter_mod[OF assms(1), of ?L] by simp
  qed
  ultimately show ?thesis by (intro exI[of _ "map ?part [0..<T]"]) simp
qed

theorem parallel_scan_partition_witness:
  "\<exists>parts. length parts = 3 \<and> (\<forall>g<3. Scan ''t'' (scanOpts None [] (Some (int g, int 3))) demo_two = Ok (parts ! g, None))
     \<and> sum_list (map mset parts) = {#demo_row ''a'' ''1'', demo_row ''bb'' ''2''#}"
proof -
  have "Scan ''t'' (scanOpts None [] None) demo_two = Ok ([demo_row ''a'' ''1'', demo_row ''bb'' ''2''], None)" by code_simp
  then show ?thesis using parallel_scan_partition[of 3 "''t''" demo_two "[demo_row ''a'' ''1'', demo_row ''bb'' ''2'']" None] by simp
qed

end
