(* ===== verification/S3_Types.thy ===== *)
theory S3_Types
  imports Go_FS Go_Result
begin

text \<open>
  The data of the S3 service (\<open>internal/s3/types.go\<close>, \<open>errors.go\<close>) and the way \<open>storage.go\<close> reads and
  writes files. Objects of clients and the JSON files of the storage share one directory tree and are
  told apart by their names only, so the content of a file is either bytes of a client (\<open>Raw\<close>) or
  a value the storage wrote as JSON, and both can be read as the other: the text of a JSON value and
  the decoding of foreign bytes are fields of \<open>s3lib\<close>, with MD5 and the decoding of the XML documents
  that the service looks into. A failing write or read transfers a prefix whose length is a field of the
  state, so what a client finds after an interrupted transfer is determined. Times are nanoseconds
  since the epoch. Fields with \<open>omitempty\<close> do not distinguish an empty slice or map from \<open>nil\<close> once
  written; parameters that do are options.
\<close>

section \<open>Data\<close>

record CORSRule =
  cr_ID :: string
  cr_AllowedOrigins :: "string list"
  cr_AllowedMethods :: "string list"
  cr_AllowedHeaders :: "string list"
  cr_ExposeHeaders :: "string list"
  cr_MaxAgeSeconds :: int

record ObjectRetention =
  r_Mode :: string
  r_RetainUntilDate :: int

record ObjectLegalHold =
  h_Status :: string

record ObjectMetadata =
  o_ContentType :: string
  o_ETag :: string
  o_LastModified :: int
  o_Size :: int
  o_UserMetadata :: "(string \<times> string) list"
  o_VersionID :: string
  o_IsDeleteMarker :: bool
  o_SSEAlgorithm :: string
  o_SSEKMSKeyID :: string
  o_SSEBucketKeyEnabled :: bool
  o_SSECKeyMD5 :: string
  o_StorageClass :: string
  o_RestoreInitiated :: bool
  o_Retention :: "ObjectRetention option"
  o_LegalHold :: "ObjectLegalHold option"
  o_NoncurrentSince :: "int option"
  o_ReplicationStatus :: string
  o_ACL :: string

record VersionInfo =
  v_Key :: string
  v_VersionID :: string
  v_IsLatest :: bool
  v_LastModified :: int
  v_ETag :: string
  v_Size :: int
  v_StorageClass :: string
  v_NoncurrentSince :: "int option"

record DeleteMarkerInfo =
  d_Key :: string
  d_VersionID :: string
  d_IsLatest :: bool
  d_LastModified :: int
  d_NoncurrentSince :: "int option"

record S3Tag =
  t_Key :: string
  t_Value :: string

record BucketInfo =
  bi_Name :: string
  bi_Region :: string

record ObjectInfo =
  oi_Key :: string
  oi_Metadata :: ObjectMetadata

record CompletePart =
  cp_PartNumber :: int
  cp_ETag :: string

record MultipartUploadInfo =
  mu_UploadID :: string
  mu_Key :: string
  mu_Initiated :: int
  mu_StorageClass :: string

record PartInfo =
  pi_PartNumber :: int
  pi_ETag :: string
  pi_Size :: int

record bucketMeta =
  b_Region :: string
  b_Tags :: "S3Tag list"
  b_VersioningStatus :: string
  b_CORSRules :: "CORSRule list"
  b_Policy :: string
  b_PublicAccessBlock :: string
  b_Encryption :: string
  b_OwnershipControls :: string
  b_Notification :: string
  b_Lifecycle :: string
  b_LifecycleTransitionMinSize :: string
  b_Website :: string
  b_Logging :: string
  b_Accelerate :: string
  b_Replication :: string
  b_RequestPayment :: string
  b_ObjectLock :: string
  b_ACL :: string

record uploadMeta =
  u_Bucket :: string
  u_Key :: string
  u_ContentType :: string
  u_Initiated :: int
  u_SSEAlgorithm :: string
  u_SSEKMSKeyID :: string
  u_SSEBucketKeyEnabled :: bool
  u_SSECKeyMD5 :: string
  u_StorageClass :: string
  u_Retention :: "ObjectRetention option"
  u_LegalHold :: "ObjectLegalHold option"
  u_Tagging :: "S3Tag list"

record partMeta =
  p_ETag :: string
  p_Size :: int

record lifecycleExpiration =
  le_Days :: int
  le_Date :: "int option"
  le_ExpiredObjectDeleteMarker :: bool

record lifecycleRule =
  lr_Status :: string
  lr_Prefix :: string
  lr_Filter :: "string option"
  lr_Expiration :: "lifecycleExpiration option"
  lr_NoncurrentVersionExpiration :: "int option"
  lr_NoncurrentVersionTransition :: "(int \<times> string) option"
  lr_AbortIncompleteMultipartUpload :: "int option"

record replicationFilter =
  rf_Prefix :: string
  rf_Tag :: "S3Tag option"
  rf_And :: "(string \<times> S3Tag list) option"

record replicationRule =
  rr_Status :: string
  rr_Prefix :: string
  rr_Filter :: "replicationFilter option"
  rr_Bucket :: string
  rr_StorageClass :: string
  rr_DeleteMarkerReplication :: "string option"

datatype s3_error =
    ErrBucketNotFound
  | ErrBucketNotEmpty
  | ErrObjectNotFound
  | ErrUploadNotFound
  | ErrInvalidPart
  | ErrInvalidPartOrder
  | ErrNoCORSConfiguration
  | ErrNoBucketPolicy
  | ErrNoObjectRetention
  | ErrNoObjectLegalHold
  | ErrObjectLocked
  | ObjectAlreadyExistsError string
  | ErrInvalidBucketState
  | ErrEntityTooSmall
  | DeleteMarkerError string
  | ErrRandom
  | ErrReplicationStatus
  | ErrFile ioerr

text \<open>\<open>bucketMeta{}\<close> and \<open>ObjectMetadata{}\<close>\<close>

definition noBucketMeta :: bucketMeta where
  "noBucketMeta = \<lparr>b_Region = [], b_Tags = [], b_VersioningStatus = [], b_CORSRules = [], b_Policy = [],
     b_PublicAccessBlock = [], b_Encryption = [], b_OwnershipControls = [], b_Notification = [],
     b_Lifecycle = [], b_LifecycleTransitionMinSize = [], b_Website = [], b_Logging = [],
     b_Accelerate = [], b_Replication = [], b_RequestPayment = [], b_ObjectLock = [], b_ACL = []\<rparr>"

definition noObjectMetadata :: ObjectMetadata where
  "noObjectMetadata = \<lparr>o_ContentType = [], o_ETag = [], o_LastModified = 0, o_Size = 0, o_UserMetadata = [],
     o_VersionID = [], o_IsDeleteMarker = False, o_SSEAlgorithm = [], o_SSEKMSKeyID = [],
     o_SSEBucketKeyEnabled = False, o_SSECKeyMD5 = [], o_StorageClass = [], o_RestoreInitiated = False,
     o_Retention = None, o_LegalHold = None, o_NoncurrentSince = None, o_ReplicationStatus = [], o_ACL = []\<rparr>"

section \<open>The state\<close>

datatype s3_content =
    Raw bytes
  | JMeta ObjectMetadata
  | JTags "S3Tag list"
  | JBucket bucketMeta
  | JUpload uploadMeta
  | JPart partMeta

record s3lib =
  md5 :: "bytes \<Rightarrow> bytes"
  json_text :: "s3_content \<Rightarrow> bytes"
  json_meta :: "bytes \<Rightarrow> ObjectMetadata option"
  json_tags :: "bytes \<Rightarrow> S3Tag list option"
  json_bucket :: "bytes \<Rightarrow> bucketMeta option"
  json_upload :: "bytes \<Rightarrow> uploadMeta option"
  json_part :: "bytes \<Rightarrow> partMeta option"
  xml_lock :: "string \<Rightarrow> string option"
  xml_retention :: "string \<Rightarrow> (string \<times> int \<times> int) option"
  xml_lifecycle :: "string \<Rightarrow> lifecycleRule list option"
  xml_replication :: "string \<Rightarrow> replicationRule list option"

record s3 = "s3_content disk" +
  lib :: s3lib
  s3_rand :: "bytes option list"
  s3_clock :: int
  short :: "iop \<Rightarrow> path \<Rightarrow> nat"

type_synonym 'a s3_result = "(s3_error + 'a) \<times> s3"

definition bindS :: "'a s3_result \<Rightarrow> ('a \<Rightarrow> s3 \<Rightarrow> 'b s3_result) \<Rightarrow> 'b s3_result" where
  "bindS r k = (case r of (Inl e, s) \<Rightarrow> (Inl e, s) | (Inr a, s) \<Rightarrow> k a s)"

text \<open>\<open>if err != nil { return err }\<close> after a call that returns only an error\<close>

definition fileErr :: "ioerr option \<times> s3 \<Rightarrow> unit s3_result" where
  "fileErr r = (case r of (Some e, s) \<Rightarrow> (Inl (ErrFile e), s) | (None, s) \<Rightarrow> (Inr (), s))"

text \<open>\<open>if err != nil { if errors.Is(err, os.ErrNotExist) { return missing }; return err }\<close>\<close>

definition orMissing :: "s3_error \<Rightarrow> ioerr + 'a \<Rightarrow> s3_error + 'a" where
  "orMissing missing r = (case r of Inr a \<Rightarrow> Inr a | Inl e \<Rightarrow> Inl (if e = ENotExist then missing else ErrFile e))"

section \<open>Paths\<close>

text \<open>Appending to the text of a cleaned path appends to its last element; \<open>.\<close> is the empty path.\<close>

definition addSuffix :: "path \<Rightarrow> string \<Rightarrow> path" where
  "addSuffix p x = (if p = [] then [''.'' @ x] else butlast p @ [last p @ x])"

definition objPathOf :: "string \<Rightarrow> string \<Rightarrow> path" where
  "objPathOf bucket key = filepath_Join [bucket, key]"

definition metaPath :: "path \<Rightarrow> path" where "metaPath p = addSuffix p ''.meta.json''"
definition tagsPath :: "path \<Rightarrow> path" where "tagsPath p = addSuffix p ''.tags.json''"
definition bucketPath :: "string \<Rightarrow> path" where "bucketPath bucket = filepath_Join [bucket]"

definition bucketMetaPath :: "string \<Rightarrow> path" where
  "bucketMetaPath bucket = filepath_Join [bucket @ ''.bucket.json'']"

definition verDir :: "string \<Rightarrow> path" where "verDir bucket = filepath_Join [bucket, ''.ver'']"

definition verPath :: "string \<Rightarrow> string \<Rightarrow> string \<Rightarrow> path" where
  "verPath bucket key versionID = filepath_Join [bucket, ''.ver'', key, versionID]"

section \<open>Reading and writing files\<close>

definition content_bytes :: "s3 \<Rightarrow> s3_content \<Rightarrow> bytes" where
  "content_bytes s c = (case c of Raw b \<Rightarrow> b | _ \<Rightarrow> json_text (lib s) c)"

text \<open>\<open>root.Open\<close> gives a handle on a directory too; reading from it fails.\<close>

definition rootOpen :: "s3 \<Rightarrow> path \<Rightarrow> ioerr + s3_content node" where
  "rootOpen s p = (if d_fault s OpOpen p then Inl EOther else root_walk s p)"

definition readFrom :: "s3 \<Rightarrow> path \<Rightarrow> bytes \<times> bool" where
  "readFrom s p =
     (case look s p of
        Some (File (Some c)) \<Rightarrow>
          if d_fault s OpRead p then (take (short s OpRead p) (content_bytes s c), False)
          else (content_bytes s c, True)
      | _ \<Rightarrow> ([], False))"

text \<open>What \<open>io.Copy\<close> reads: a request body that ends or fails after some bytes, opened files one after
  the other (\<open>io.MultiReader\<close>), a file from an offset on up to a limit.\<close>

datatype reader = RBody bytes bool | RFiles "path list" | RRange path nat nat

fun readFiles :: "s3 \<Rightarrow> path list \<Rightarrow> bytes \<times> bool" where
  "readFiles s [] = ([], True)"
| "readFiles s (p # ps) =
     (case readFrom s p of
        (b, False) \<Rightarrow> (b, False)
      | (b, True) \<Rightarrow> (case readFiles s ps of (c, done) \<Rightarrow> (b @ c, done)))"

definition readAll :: "s3 \<Rightarrow> reader \<Rightarrow> bytes \<times> bool" where
  "readAll s r =
     (case r of
        RBody b done \<Rightarrow> (b, done)
      | RFiles ps \<Rightarrow> readFiles s ps
      | RRange p start len \<Rightarrow>
          (case readFrom s p of (b, done) \<Rightarrow>
             (take len (drop start b), done \<or> start + len \<le> length b)))"

text \<open>\<open>openFile\<close> with \<open>O_WRONLY|O_CREATE|O_TRUNC\<close>\<close>

definition openFile :: "path \<Rightarrow> s3 \<Rightarrow> ioerr option \<times> s3" where
  "openFile p s =
     (if d_fault s OpCreate p \<or> escapes p then (Some EOther, s)
      else case root_walk s (butlast p) of
             Inl e \<Rightarrow> (Some e, s)
           | Inr (File _) \<Rightarrow> (Some EOther, s)
           | Inr Dir \<Rightarrow> if look s p = Some Dir then (Some EOther, s) else (None, put p (File (Some (Raw []))) s))"

definition closeFile :: "path \<Rightarrow> s3 \<Rightarrow> ioerr option" where
  "closeFile p s = (if d_fault s OpClose p then Some EOther else None)"

definition fileWrite :: "path \<Rightarrow> s3_content \<Rightarrow> s3 \<Rightarrow> ioerr option \<times> s3" where
  "fileWrite p c s =
     (if d_fault s OpWrite p
      then (Some EOther, put p (File (Some (Raw (take (short s OpWrite p) (content_bytes s c))))) s)
      else (None, put p (File (Some c)) s))"

text \<open>\<open>io.Copy\<close> into an open file: the bytes that were copied, or the first error\<close>

definition ioCopy :: "path \<Rightarrow> reader \<Rightarrow> s3 \<Rightarrow> (ioerr + bytes) \<times> s3" where
  "ioCopy p r s =
     (case readAll s r of (b, done) \<Rightarrow>
        if b \<noteq> [] \<and> d_fault s OpWrite p
        then (Inl EOther, put p (File (Some (Raw (take (short s OpWrite p) b)))) s)
        else (if done then Inr b else Inl EOther, put p (File (Some (Raw b))) s))"

definition writeJSON_s3 :: "path \<Rightarrow> s3_content \<Rightarrow> s3 \<Rightarrow> ioerr option \<times> s3" where
  "writeJSON_s3 p c s =
     (case openFile p s of
        (Some e, s) \<Rightarrow> (Some e, s)
      | (None, s) \<Rightarrow>
          (case fileWrite p c s of
             (Some e, s) \<Rightarrow> (Some e, s)
           | (None, s) \<Rightarrow> (closeFile p s, s)))"

definition readJSON_s3 :: "(s3_content \<Rightarrow> 'a option) \<Rightarrow> s3 \<Rightarrow> path \<Rightarrow> ioerr + 'a" where
  "readJSON_s3 decode s p =
     (case root_ReadFile s p of
        Inl e \<Rightarrow> Inl e
      | Inr None \<Rightarrow> Inl EOther
      | Inr (Some c) \<Rightarrow> (case decode c of None \<Rightarrow> Inl EOther | Some v \<Rightarrow> Inr v))"

definition decodeMeta :: "s3 \<Rightarrow> s3_content \<Rightarrow> ObjectMetadata option" where
  "decodeMeta s c = (case c of JMeta m \<Rightarrow> Some m | _ \<Rightarrow> json_meta (lib s) (content_bytes s c))"

definition decodeTags :: "s3 \<Rightarrow> s3_content \<Rightarrow> S3Tag list option" where
  "decodeTags s c = (case c of JTags t \<Rightarrow> Some t | _ \<Rightarrow> json_tags (lib s) (content_bytes s c))"

definition decodeBucket :: "s3 \<Rightarrow> s3_content \<Rightarrow> bucketMeta option" where
  "decodeBucket s c = (case c of JBucket m \<Rightarrow> Some m | _ \<Rightarrow> json_bucket (lib s) (content_bytes s c))"

definition decodeUpload :: "s3 \<Rightarrow> s3_content \<Rightarrow> uploadMeta option" where
  "decodeUpload s c = (case c of JUpload m \<Rightarrow> Some m | _ \<Rightarrow> json_upload (lib s) (content_bytes s c))"

definition decodePart :: "s3 \<Rightarrow> s3_content \<Rightarrow> partMeta option" where
  "decodePart s c = (case c of JPart m \<Rightarrow> Some m | _ \<Rightarrow> json_part (lib s) (content_bytes s c))"

definition readMeta :: "s3 \<Rightarrow> path \<Rightarrow> ioerr + ObjectMetadata" where
  "readMeta s p = readJSON_s3 (decodeMeta s) s (metaPath p)"

definition writeMeta :: "path \<Rightarrow> ObjectMetadata \<Rightarrow> s3 \<Rightarrow> ioerr option \<times> s3" where
  "writeMeta p m s = writeJSON_s3 (metaPath p) (JMeta m) s"

definition readTags :: "s3 \<Rightarrow> path \<Rightarrow> ioerr + S3Tag list" where
  "readTags s p = readJSON_s3 (decodeTags s) s (tagsPath p)"

definition readBucketMeta :: "s3 \<Rightarrow> string \<Rightarrow> ioerr + bucketMeta" where
  "readBucketMeta s bucket = readJSON_s3 (decodeBucket s) s (bucketMetaPath bucket)"

definition writeBucketMeta :: "string \<Rightarrow> bucketMeta \<Rightarrow> s3 \<Rightarrow> ioerr option \<times> s3" where
  "writeBucketMeta bucket m s = writeJSON_s3 (bucketMetaPath bucket) (JBucket m) s"

text \<open>\<open>root.MkdirAll\<close>: the missing directories of the path, from the top\<close>

fun mkdirs :: "path \<Rightarrow> path \<Rightarrow> s3 \<Rightarrow> ioerr option \<times> s3" where
  "mkdirs p [] s = (None, s)"
| "mkdirs p (x # xs) s =
     (case look s (p @ [x]) of
        Some Dir \<Rightarrow> mkdirs (p @ [x]) xs s
      | Some (File _) \<Rightarrow> (Some EOther, s)
      | None \<Rightarrow> (case root_Mkdir (p @ [x]) s of
                  (Some e, s) \<Rightarrow> (Some e, s)
                | (None, s) \<Rightarrow> mkdirs (p @ [x]) xs s))"

definition mkdirAll :: "path \<Rightarrow> s3 \<Rightarrow> ioerr option \<times> s3" where
  "mkdirAll p s = (if escapes p then (Some EOther, s) else mkdirs [] p s)"

text \<open>A removal whose error is ignored or only logged.\<close>

definition tryRemove :: "path \<Rightarrow> s3 \<Rightarrow> s3" where
  "tryRemove p s = snd (root_Remove p s)"

text \<open>A removal of a file that may be missing.\<close>

definition removeExisting :: "path \<Rightarrow> s3 \<Rightarrow> ioerr option \<times> s3" where
  "removeExisting p s = (case root_Remove p s of (e, s) \<Rightarrow> (if e = Some ENotExist then None else e, s))"

definition randRead_s3 :: "nat \<Rightarrow> s3 \<Rightarrow> bytes s3_result" where
  "randRead_s3 n s =
     (case s3_rand s of
        [] \<Rightarrow> (Inl ErrRandom, s)
      | None # rs \<Rightarrow> (Inl ErrRandom, s\<lparr>s3_rand := rs\<rparr>)
      | Some b # rs \<Rightarrow> (Inr (take n b @ replicate (n - length b) 0), s\<lparr>s3_rand := rs\<rparr>))"

section \<open>Calendar\<close>

text \<open>\<open>time.AddDate\<close> in UTC on whole days since the epoch: the civil date of a day in the
  proleptic Gregorian calendar (eras of 400 years that start in March) and back.\<close>

definition days_from_civil :: "int \<Rightarrow> int \<Rightarrow> int \<Rightarrow> int" where
  "days_from_civil y0 m d =
     (let y = (if m \<le> 2 then y0 - 1 else y0);
          era = y div 400;
          yoe = y mod 400;
          doy = (153 * (if m > 2 then m - 3 else m + 9) + 2) div 5 + d - 1;
          doe = yoe * 365 + yoe div 4 - yoe div 100 + doy
      in era * 146097 + doe - 719468)"

definition civil_from_days :: "int \<Rightarrow> int \<times> int \<times> int" where
  "civil_from_days z0 =
     (let z = z0 + 719468;
          era = z div 146097;
          doe = z mod 146097;
          yoe = (doe - doe div 1460 + doe div 36524 - doe div 146096) div 365;
          doy = doe - (365 * yoe + yoe div 4 - yoe div 100);
          mp = (5 * doy + 2) div 153;
          d = doy - (153 * mp + 2) div 5 + 1;
          m = (if mp < 10 then mp + 3 else mp - 9)
      in (yoe + era * 400 + (if m \<le> 2 then 1 else 0), m, d))"

definition day_ns :: int where "day_ns = 86400000000000"

definition time_AddDate :: "int \<Rightarrow> int \<Rightarrow> int \<Rightarrow> int" where
  "time_AddDate years days t =
     (case civil_from_days (t div day_ns) of (y, m, d) \<Rightarrow>
        (days_from_civil (y + years) m 1 + d - 1 + days) * day_ns + t mod day_ns)"

end
