(* ===== verification/S3_Storage.thy ===== *)
theory S3_Storage
  imports S3_Types
begin

text \<open>
  Buckets, objects, versions and listings of \<open>internal/s3/storage.go\<close>. The current version of an object
  is the file \<open>bucket/key\<close>, its metadata and tags are the files with the suffixes \<open>.meta.json\<close> and
  \<open>.tags.json\<close>, and a superseded version is kept below \<open>bucket/.ver/key\<close> under its version id. Every
  exported method is one atomic step: its error or value and the new state. The walks of a
  directory tree recurse on the directories that are left below the one they read.
\<close>

section \<open>Directories\<close>

definition bucketExistsLocked :: "s3 \<Rightarrow> string \<Rightarrow> bool" where
  "bucketExistsLocked s bucket = (case root_Stat s (bucketPath bucket) of Inr Dir \<Rightarrow> True | _ \<Rightarrow> False)"

definition below :: "s3 \<Rightarrow> path \<Rightarrow> nat" where
  "below s p = length (filter (\<lambda>(q, _). take (length p) q = p \<and> length p < length q) (d_fs s))"

lemma below_entry: "(x, b) \<in> set (entries s p) \<Longrightarrow> below s (p @ [x]) < below s p"
proof -
  assume "(x, b) \<in> set (entries s p)"
  then obtain q n where q: "(q, n) \<in> set (d_fs s)" "q \<noteq> []" "butlast q = p" "last q = x"
    by (auto simp: entries_def)
  then have e: "q = p @ [x]" by (metis append_butlast_last_id)
  let ?P = "\<lambda>(q, _). take (length p) q = p \<and> length p < length q"
  let ?Q = "\<lambda>(q, _). take (length (p @ [x])) q = p @ [x] \<and> length (p @ [x]) < length q"
  have "filter ?Q (d_fs s) = filter ?Q (filter ?P (d_fs s))"
  proof -
    have "?P r" if "?Q r" for r
      using that by (cases r) (auto simp: take_Suc_conv_app_nth)
    then show ?thesis by (metis (mono_tags, lifting) filter_cong filter_filter)
  qed
  moreover have "(q, n) \<in> set (filter ?P (d_fs s))" using q e by auto
  moreover have "\<not> ?Q (q, n)" using e by simp
  ultimately show ?thesis unfolding below_def
    by (metis (no_types, lifting) length_filter_less)
qed

lemma readDir_below: "root_ReadDir s p = Inr es \<Longrightarrow> (x, b) \<in> set es \<Longrightarrow> below s (p @ [x]) < below s p"
  by (auto simp: root_ReadDir_def below_entry split: if_splits sum.splits node.splits)

function verDirIsEmpty :: "s3 \<Rightarrow> path \<Rightarrow> bool" where
  "verDirIsEmpty s dir =
     (case root_ReadDir s dir of
        Inl _ \<Rightarrow> True
      | Inr es \<Rightarrow> list_all (\<lambda>(name, isDir). isDir \<and> verDirIsEmpty s (dir @ [name])) es)"
  by auto
termination
  by (relation "measure (\<lambda>(s, p). below s p)") (auto dest: readDir_below)

declare verDirIsEmpty.simps [simp del]

text \<open>The tree is at most as deep as it has entries, which bounds the recursion of \<open>removeAllDir\<close>.\<close>

fun removeAllFuel :: "nat \<Rightarrow> path \<Rightarrow> s3 \<Rightarrow> s3" where
  "removeAllFuel 0 dir s = s"
| "removeAllFuel (Suc n) dir s =
     (case root_ReadDir s dir of
        Inl _ \<Rightarrow> s
      | Inr es \<Rightarrow>
          tryRemove dir
            (fold (\<lambda>(name, isDir) s.
               if isDir then removeAllFuel n (dir @ [name]) s else tryRemove (dir @ [name]) s) es s))"

definition removeAllDir :: "path \<Rightarrow> s3 \<Rightarrow> s3" where
  "removeAllDir dir s = removeAllFuel (Suc (length (d_fs s))) dir s"

section \<open>Buckets\<close>

definition objectLockEnabledXML :: string where
  "objectLockEnabledXML = ''<ObjectLockConfiguration xmlns=\"http://s3.amazonaws.com/doc/2006-03-01/\"><ObjectLockEnabled>Enabled</ObjectLockEnabled></ObjectLockConfiguration>''"

definition CreateBucket :: "string \<Rightarrow> string \<Rightarrow> bool \<Rightarrow> s3 \<Rightarrow> unit s3_result" where
  "CreateBucket bucket region objectLockEnabled s =
     bindS (fileErr (root_Mkdir (bucketPath bucket) s)) (\<lambda>_ s.
       let m0 = noBucketMeta\<lparr>b_Region := region\<rparr>;
           m = (if objectLockEnabled
                then m0\<lparr>b_VersioningStatus := ''Enabled'', b_ObjectLock := objectLockEnabledXML\<rparr> else m0)
       in case writeBucketMeta bucket m s of
            (Some e, s) \<Rightarrow> (Inl (ErrFile e), tryRemove (bucketPath bucket) s)
          | (None, s) \<Rightarrow> (Inr (), s))"

definition DeleteBucket :: "string \<Rightarrow> s3 \<Rightarrow> unit s3_result" where
  "DeleteBucket bucket s =
     (case root_ReadDir s (bucketPath bucket) of
        Inl e \<Rightarrow> (Inl (if e = ENotExist then ErrBucketNotFound else ErrFile e), s)
      | Inr es \<Rightarrow>
          if list_ex (\<lambda>(name, _). name \<noteq> ''.ver'') es then (Inl ErrBucketNotEmpty, s)
          else if \<not> verDirIsEmpty s (verDir bucket) then (Inl ErrBucketNotEmpty, s)
          else fileErr (root_Remove (bucketPath bucket)
                 (tryRemove (bucketMetaPath bucket) (removeAllDir (verDir bucket) s))))"

definition BucketExists :: "string \<Rightarrow> s3 \<Rightarrow> bool" where
  "BucketExists bucket s = bucketExistsLocked s bucket"

text \<open>The creation date is the modification time of the directory, which is not modelled.\<close>

definition ListBuckets :: "s3 \<Rightarrow> s3_error + BucketInfo list" where
  "ListBuckets s =
     (case root_ReadDir s [] of
        Inl e \<Rightarrow> Inl (ErrFile e)
      | Inr es \<Rightarrow>
          Inr (sort_key bi_Name
            (map (\<lambda>(name, _). \<lparr>bi_Name = name,
                    bi_Region = (case readBucketMeta s name of Inr m \<Rightarrow> b_Region m | Inl _ \<Rightarrow> [])\<rparr>)
               (filter (\<lambda>(name, isDir). isDir \<and> \<not> has_prefix ''.'' name) es))))"

definition GetBucketRegion :: "string \<Rightarrow> s3 \<Rightarrow> s3_error + string" where
  "GetBucketRegion bucket s =
     (if \<not> bucketExistsLocked s bucket then Inl ErrBucketNotFound
      else case readBucketMeta s bucket of
             Inr m \<Rightarrow> Inr (b_Region m)
           | Inl e \<Rightarrow> if e = ENotExist then Inr [] else Inl (ErrFile e))"

section \<open>Versions\<close>

definition newVersionID :: "s3 \<Rightarrow> string s3_result" where
  "newVersionID s = bindS (randRead_s3 8 s) (\<lambda>b s. (Inr (hex b), s))"

definition isVersioningEnabledLocked :: "s3 \<Rightarrow> string \<Rightarrow> s3_error + bool" where
  "isVersioningEnabledLocked s bucket =
     (case readBucketMeta s bucket of
        Inr m \<Rightarrow> Inr (b_VersioningStatus m = ''Enabled'')
      | Inl e \<Rightarrow> if e = ENotExist then Inr False else Inl (ErrFile e))"

text \<open>The body, the metadata and the tags of the current version are copied in this order; whatever
  fails, the part of the copy that was made is removed again.\<close>

definition archiveTags :: "path \<Rightarrow> path \<Rightarrow> s3 \<Rightarrow> unit s3_result" where
  "archiveTags objPath vp s =
     (case readTags s objPath of
        Inr tags \<Rightarrow>
          (case writeJSON_s3 (tagsPath vp) (JTags tags) s of
             (None, s) \<Rightarrow> (Inr (), s)
           | (Some e, s) \<Rightarrow>
               (Inl (ErrFile e), tryRemove (tagsPath vp) (tryRemove (metaPath vp) (tryRemove vp s))))
      | Inl e \<Rightarrow>
          if e = ENotExist then (Inr (), s)
          else (Inl (ErrFile e), tryRemove (metaPath vp) (tryRemove vp s)))"

definition archiveAs :: "path \<Rightarrow> path \<Rightarrow> ObjectMetadata \<Rightarrow> s3 \<Rightarrow> unit s3_result" where
  "archiveAs vp objPath m s =
     bindS (fileErr (mkdirAll (butlast vp) s)) (\<lambda>_ s.
       case rootOpen s objPath of
         Inl e \<Rightarrow> if e = ENotExist then (Inr (), s) else (Inl (ErrFile e), s)
       | Inr _ \<Rightarrow>
           bindS (fileErr (openFile vp s)) (\<lambda>_ s.
             case ioCopy vp (RFiles [objPath]) s of (r, s) \<Rightarrow>
               (case (case r of Inl e \<Rightarrow> Some e | Inr _ \<Rightarrow> closeFile vp s) of
                  Some e \<Rightarrow> (Inl (ErrFile e), tryRemove vp s)
                | None \<Rightarrow>
                    (case writeJSON_s3 (metaPath vp) (JMeta (m\<lparr>o_NoncurrentSince := Some (s3_clock s)\<rparr>)) s of
                       (Some e, s) \<Rightarrow> (Inl (ErrFile e), tryRemove vp s)
                     | (None, s) \<Rightarrow> archiveTags objPath vp s))))"

definition archiveCurrentVersionLocked :: "string \<Rightarrow> string \<Rightarrow> path \<Rightarrow> s3 \<Rightarrow> unit s3_result" where
  "archiveCurrentVersionLocked bucket key objPath s =
     (case readMeta s objPath of
        Inl e \<Rightarrow> if e = ENotExist then (Inr (), s) else (Inl (ErrFile e), s)
      | Inr m \<Rightarrow>
          bindS (if o_VersionID m = [] then newVersionID s else (Inr (o_VersionID m), s)) (\<lambda>vid s.
            archiveAs (verPath bucket key vid) objPath (m\<lparr>o_VersionID := vid\<rparr>) s))"

text \<open>The version id of the object that is about to be written, after the current version was archived.\<close>

definition nextVersion :: "string \<Rightarrow> string \<Rightarrow> path \<Rightarrow> s3 \<Rightarrow> string s3_result" where
  "nextVersion bucket key objPath s =
     (case isVersioningEnabledLocked s bucket of
        Inl e \<Rightarrow> (Inl e, s)
      | Inr False \<Rightarrow> (Inr [], s)
      | Inr True \<Rightarrow> bindS (archiveCurrentVersionLocked bucket key objPath s) (\<lambda>_ s. newVersionID s))"

section \<open>Default retention\<close>

definition objectLockIsEnabled :: "s3lib \<Rightarrow> string \<Rightarrow> bool" where
  "objectLockIsEnabled l xmlBody =
     (xmlBody \<noteq> [] \<and> (case xml_lock l xmlBody of None \<Rightarrow> True | Some v \<Rightarrow> v = ''Enabled''))"

definition parseBucketDefaultRetention :: "s3lib \<Rightarrow> string \<Rightarrow> int \<Rightarrow> ObjectRetention option" where
  "parseBucketDefaultRetention l xmlBody now =
     (if xmlBody = [] then None
      else case xml_retention l xmlBody of
             None \<Rightarrow> None
           | Some (mode, days, years) \<Rightarrow>
               if mode \<noteq> ''GOVERNANCE'' \<and> mode \<noteq> ''COMPLIANCE'' then None
               else if 0 < days \<and> days \<le> 36500
               then Some \<lparr>r_Mode = mode, r_RetainUntilDate = time_AddDate 0 days now\<rparr>
               else if 0 < years \<and> years \<le> 100
               then Some \<lparr>r_Mode = mode, r_RetainUntilDate = time_AddDate years 0 now\<rparr>
               else None)"

definition bucketDefaultRetentionLocked :: "s3 \<Rightarrow> string \<Rightarrow> ObjectRetention option" where
  "bucketDefaultRetentionLocked s bucket =
     (case readBucketMeta s bucket of
        Inl _ \<Rightarrow> None
      | Inr m \<Rightarrow> parseBucketDefaultRetention (lib s) (b_ObjectLock m) (s3_clock s))"

section \<open>Writing objects\<close>

text \<open>The parameters of \<open>PutObject\<close> after the reader; \<open>po_userMetadata\<close> and \<open>po_tags\<close> (of \<open>CopyObject\<close>) may be \<open>nil\<close>.\<close>

record putOpts =
  po_contentType :: string
  po_userMetadata :: "(string \<times> string) list option"
  po_sseAlgorithm :: string
  po_sseKMSKeyID :: string
  po_sseBucketKeyEnabled :: bool
  po_ssecKeyMD5 :: string
  po_retention :: "ObjectRetention option"
  po_legalHold :: "ObjectLegalHold option"
  po_storageClass :: string

definition newObjectMeta :: "putOpts \<Rightarrow> string \<Rightarrow> int \<Rightarrow> int \<Rightarrow> string \<Rightarrow> ObjectMetadata" where
  "newObjectMeta po etag now sz versionID = noObjectMetadata
     \<lparr>o_ContentType := po_contentType po, o_ETag := etag, o_LastModified := now, o_Size := sz,
      o_UserMetadata := (case po_userMetadata po of None \<Rightarrow> [] | Some u \<Rightarrow> u), o_VersionID := versionID,
      o_SSEAlgorithm := po_sseAlgorithm po, o_SSEKMSKeyID := po_sseKMSKeyID po,
      o_SSEBucketKeyEnabled := po_sseBucketKeyEnabled po, o_SSECKeyMD5 := po_ssecKeyMD5 po,
      o_StorageClass := po_storageClass po, o_Retention := po_retention po, o_LegalHold := po_legalHold po\<rparr>"

definition quoted :: "string \<Rightarrow> string" where
  "quoted x = ''\"'' @ x @ ''\"''"

definition writeObject :: "path \<Rightarrow> reader \<Rightarrow> string \<Rightarrow> string \<Rightarrow> putOpts \<Rightarrow> s3 \<Rightarrow> ObjectMetadata s3_result" where
  "writeObject objPath r etag versionID po s =
     bindS (fileErr (openFile objPath s)) (\<lambda>_ s.
       case ioCopy objPath r s of
         (Inl e, s) \<Rightarrow> (Inl (ErrFile e), s)
       | (Inr b, s) \<Rightarrow>
           let tag = (if etag = [] then quoted (hex (md5 (lib s) b)) else etag);
               m = newObjectMeta po tag (s3_clock s) (int (length b)) versionID
           in (case writeMeta objPath m s of
                 (Some e, s) \<Rightarrow> (Inl (ErrFile e), tryRemove objPath s)
               | (None, s) \<Rightarrow>
                   (case closeFile objPath s of Some e \<Rightarrow> (Inl (ErrFile e), s) | None \<Rightarrow> (Inr m, s))))"

text \<open>\<open>if dir := filepath.Dir(objPath); dir != bucket { root.MkdirAll(dir) }\<close>\<close>

definition ensureDir :: "string \<Rightarrow> path \<Rightarrow> s3 \<Rightarrow> unit s3_result" where
  "ensureDir bucket objPath s =
     (if butlast objPath = bucketPath bucket then (Inr (), s) else fileErr (mkdirAll (butlast objPath) s))"

definition defaultRetention :: "s3 \<Rightarrow> string \<Rightarrow> putOpts \<Rightarrow> putOpts" where
  "defaultRetention s bucket po =
     (if po_retention po = None then po\<lparr>po_retention := bucketDefaultRetentionLocked s bucket\<rparr> else po)"

definition PutObject :: "string \<Rightarrow> string \<Rightarrow> reader \<Rightarrow> putOpts \<Rightarrow> s3 \<Rightarrow> ObjectMetadata s3_result" where
  "PutObject bucket key r po s =
     (if \<not> bucketExistsLocked s bucket then (Inl ErrBucketNotFound, s)
      else let po = defaultRetention s bucket po;
               objPath = objPathOf bucket key
           in bindS (ensureDir bucket objPath s) (\<lambda>_ s.
                bindS (nextVersion bucket key objPath s) (\<lambda>versionID s.
                  writeObject objPath r [] versionID po s)))"

definition PutObjectIfNotExists :: "string \<Rightarrow> string \<Rightarrow> reader \<Rightarrow> putOpts \<Rightarrow> s3 \<Rightarrow> ObjectMetadata s3_result" where
  "PutObjectIfNotExists bucket key r po s =
     (if \<not> bucketExistsLocked s bucket then (Inl ErrBucketNotFound, s)
      else let po = defaultRetention s bucket po;
               objPath = objPathOf bucket key;
               write = bindS (ensureDir bucket objPath s) (\<lambda>_ s.
                         bindS (nextVersion bucket key objPath s) (\<lambda>versionID s.
                           writeObject objPath r [] versionID po s))
           in (case readMeta s objPath of
                 Inr m \<Rightarrow> if o_IsDeleteMarker m then write else (Inl (ObjectAlreadyExistsError (o_ETag m)), s)
               | Inl e \<Rightarrow> if e = ENotExist then write else (Inl (ErrFile e), s)))"

end
