(* ===== verification/S3_Objects.thy ===== *)
theory S3_Objects
  imports S3_Storage
begin

text \<open>
  Reading, copying, deleting and listing objects and their versions (\<open>internal/s3/storage.go\<close>). A
  file that is returned to the caller is given by what reading it yields (\<open>readFrom\<close>: the bytes, and
  whether they end without an error).
\<close>

type_synonym handle = "bytes \<times> bool"

section \<open>Reading\<close>

definition openHandle :: "s3 \<Rightarrow> path \<Rightarrow> s3_error + handle" where
  "openHandle s p = (case orMissing ErrObjectNotFound (rootOpen s p) of Inl e \<Rightarrow> Inl e | Inr _ \<Rightarrow> Inr (readFrom s p))"

definition GetObject :: "string \<Rightarrow> string \<Rightarrow> s3 \<Rightarrow> s3_error + (handle \<times> ObjectMetadata)" where
  "GetObject bucket key s =
     (if \<not> bucketExistsLocked s bucket then Inl ErrBucketNotFound
      else let objPath = objPathOf bucket key
           in case orMissing ErrObjectNotFound (readMeta s objPath) of
                Inl e \<Rightarrow> Inl e
              | Inr m \<Rightarrow>
                  if o_IsDeleteMarker m then Inl (DeleteMarkerError (o_VersionID m))
                  else (case openHandle s objPath of Inl e \<Rightarrow> Inl e | Inr h \<Rightarrow> Inr (h, m)))"

definition HeadObject :: "string \<Rightarrow> string \<Rightarrow> s3 \<Rightarrow> s3_error + ObjectMetadata" where
  "HeadObject bucket key s =
     (if \<not> bucketExistsLocked s bucket then Inl ErrBucketNotFound
      else case orMissing ErrObjectNotFound (readMeta s (objPathOf bucket key)) of
             Inl e \<Rightarrow> Inl e
           | Inr m \<Rightarrow> if o_IsDeleteMarker m then Inl (DeleteMarkerError (o_VersionID m)) else Inr m)"

text \<open>The file that holds a version: the current one when its id matches, the archive otherwise.\<close>

definition versionPath :: "s3 \<Rightarrow> string \<Rightarrow> string \<Rightarrow> string \<Rightarrow> s3_error + (path \<times> ObjectMetadata)" where
  "versionPath s bucket key versionID =
     (let objPath = objPathOf bucket key;
          vp = verPath bucket key versionID;
          archived = (case orMissing ErrObjectNotFound (readMeta s vp) of Inl e \<Rightarrow> Inl e | Inr m \<Rightarrow> Inr (vp, m))
      in case readMeta s objPath of
           Inr m \<Rightarrow> if o_VersionID m = versionID then Inr (objPath, m) else archived
         | Inl _ \<Rightarrow> archived)"

definition GetObjectVersion :: "string \<Rightarrow> string \<Rightarrow> string \<Rightarrow> s3 \<Rightarrow> s3_error + (handle \<times> ObjectMetadata)" where
  "GetObjectVersion bucket key versionID s =
     (if \<not> bucketExistsLocked s bucket then Inl ErrBucketNotFound
      else case versionPath s bucket key versionID of
             Inl e \<Rightarrow> Inl e
           | Inr (p, m) \<Rightarrow>
               if o_IsDeleteMarker m then Inl (DeleteMarkerError versionID)
               else (case openHandle s p of Inl e \<Rightarrow> Inl e | Inr h \<Rightarrow> Inr (h, m)))"

definition HeadObjectVersion :: "string \<Rightarrow> string \<Rightarrow> string \<Rightarrow> s3 \<Rightarrow> s3_error + ObjectMetadata" where
  "HeadObjectVersion bucket key versionID s =
     (if \<not> bucketExistsLocked s bucket then Inl ErrBucketNotFound
      else case versionPath s bucket key versionID of
             Inl e \<Rightarrow> Inl e
           | Inr (_, m) \<Rightarrow> if o_IsDeleteMarker m then Inl (DeleteMarkerError versionID) else Inr m)"

section \<open>Deleting\<close>

definition checkObjectLockLocked :: "s3 \<Rightarrow> path \<Rightarrow> bool \<Rightarrow> s3_error option" where
  "checkObjectLockLocked s objPath bypassGovernance =
     (case readMeta s objPath of
        Inl _ \<Rightarrow> None
      | Inr m \<Rightarrow>
          if (case o_LegalHold m of Some h \<Rightarrow> h_Status h = ''ON'' | None \<Rightarrow> False) then Some ErrObjectLocked
          else (case o_Retention m of
                  None \<Rightarrow> None
                | Some r \<Rightarrow>
                    if s3_clock s < r_RetainUntilDate r
                    then (if r_Mode r = ''COMPLIANCE'' \<or> \<not> bypassGovernance then Some ErrObjectLocked else None)
                    else None))"

function pruneEmptyDirsUpTo :: "path \<Rightarrow> path \<Rightarrow> s3 \<Rightarrow> s3" where
  "pruneEmptyDirsUpTo dir stopDir s =
     (if dir = stopDir \<or> dir = [] then s
      else case root_ReadDir s dir of
             Inr [] \<Rightarrow>
               (case root_Remove dir s of
                  (None, s) \<Rightarrow> pruneEmptyDirsUpTo (butlast dir) stopDir s
                | (Some _, s) \<Rightarrow> s)
           | _ \<Rightarrow> s)"
  by auto
termination
  by (relation "measure (\<lambda>(dir, _, _). length dir)") auto

declare pruneEmptyDirsUpTo.simps [simp del]

definition pruneEmptyAncestorsLocked :: "path \<Rightarrow> s3 \<Rightarrow> s3" where
  "pruneEmptyAncestorsLocked objPath s = pruneEmptyDirsUpTo (butlast objPath) (take 1 objPath) s"

definition deleteObjectFilesLocked :: "path \<Rightarrow> s3 \<Rightarrow> unit s3_result" where
  "deleteObjectFilesLocked objPath s =
     (case root_Remove objPath s of
        (Some e, s) \<Rightarrow> (Inl (if e = ENotExist then ErrObjectNotFound else ErrFile e), s)
      | (None, s) \<Rightarrow>
          (Inr (), pruneEmptyAncestorsLocked objPath (tryRemove (tagsPath objPath) (tryRemove (metaPath objPath) s))))"

definition DeleteObject :: "string \<Rightarrow> string \<Rightarrow> bool \<Rightarrow> s3 \<Rightarrow> unit s3_result" where
  "DeleteObject bucket key bypassGovernance s =
     (if \<not> bucketExistsLocked s bucket then (Inl ErrBucketNotFound, s)
      else case checkObjectLockLocked s (objPathOf bucket key) bypassGovernance of
             Some e \<Rightarrow> (Inl e, s)
           | None \<Rightarrow> deleteObjectFilesLocked (objPathOf bucket key) s)"

definition writeDeleteMarker :: "path \<Rightarrow> string \<Rightarrow> s3 \<Rightarrow> (string \<times> bool) s3_result" where
  "writeDeleteMarker objPath vid s =
     bindS (fileErr (openFile objPath s)) (\<lambda>_ s.
       case closeFile objPath s of
         Some e \<Rightarrow> (Inl (ErrFile e), s)
       | None \<Rightarrow>
           (case writeMeta objPath (noObjectMetadata\<lparr>o_LastModified := s3_clock s, o_VersionID := vid,
                   o_IsDeleteMarker := True\<rparr>) s of
              (Some e, s) \<Rightarrow> (Inl (ErrFile e), tryRemove objPath s)
            | (None, s) \<Rightarrow> (Inr (vid, True), s)))"

definition DeleteObjectVersioned :: "string \<Rightarrow> string \<Rightarrow> bool \<Rightarrow> s3 \<Rightarrow> (string \<times> bool) s3_result" where
  "DeleteObjectVersioned bucket key bypassGovernance s =
     (if \<not> bucketExistsLocked s bucket then (Inl ErrBucketNotFound, s)
      else let objPath = objPathOf bucket key
           in case isVersioningEnabledLocked s bucket of
                Inl e \<Rightarrow> (Inl e, s)
              | Inr False \<Rightarrow>
                  (case checkObjectLockLocked s objPath bypassGovernance of
                     Some e \<Rightarrow> (Inl e, s)
                   | None \<Rightarrow>
                       (case deleteObjectFilesLocked objPath s of
                          (Inl e, s) \<Rightarrow> (if e = ErrObjectNotFound then Inr ([], False) else Inl e, s)
                        | (Inr _, s) \<Rightarrow> (Inr ([], False), s)))
              | Inr True \<Rightarrow>
                  bindS (archiveCurrentVersionLocked bucket key objPath s) (\<lambda>_ s.
                    bindS (newVersionID s) (\<lambda>vid s. writeDeleteMarker objPath vid s)))"

definition removeVersion :: "string \<Rightarrow> path \<Rightarrow> bool \<Rightarrow> s3 \<Rightarrow> bool s3_result" where
  "removeVersion bucket vp isMarker s =
     bindS (fileErr (removeExisting vp s)) (\<lambda>_ s.
       (Inr isMarker, pruneEmptyDirsUpTo (butlast vp) (verDir bucket)
          (tryRemove (tagsPath vp) (tryRemove (metaPath vp) s))))"

definition DeleteObjectVersion :: "string \<Rightarrow> string \<Rightarrow> string \<Rightarrow> bool \<Rightarrow> s3 \<Rightarrow> bool s3_result" where
  "DeleteObjectVersion bucket key versionID bypassGovernance s =
     (if \<not> bucketExistsLocked s bucket then (Inl ErrBucketNotFound, s)
      else let objPath = objPathOf bucket key; vp = verPath bucket key versionID;
               archived =
                 (case orMissing ErrObjectNotFound (readMeta s vp) of
                    Inl e \<Rightarrow> (Inl e, s)
                  | Inr vm \<Rightarrow>
                      (case (if o_IsDeleteMarker vm then None else checkObjectLockLocked s vp bypassGovernance) of
                         Some e \<Rightarrow> (Inl e, s)
                       | None \<Rightarrow> removeVersion bucket vp (o_IsDeleteMarker vm) s))
           in case readMeta s objPath of
                Inl _ \<Rightarrow> archived
              | Inr cm \<Rightarrow>
                  if o_VersionID cm \<noteq> versionID then archived
                  else (case (if o_IsDeleteMarker cm then None else checkObjectLockLocked s objPath bypassGovernance) of
                          Some e \<Rightarrow> (Inl e, s)
                        | None \<Rightarrow>
                            (case deleteObjectFilesLocked objPath s of
                               (Inl e, s) \<Rightarrow> (if e = ErrObjectNotFound then Inr (o_IsDeleteMarker cm) else Inl e, s)
                             | (Inr _, s) \<Rightarrow> (Inr (o_IsDeleteMarker cm), s))))"

section \<open>Copying\<close>

definition applyTagsLocked :: "path \<Rightarrow> S3Tag list \<Rightarrow> s3 \<Rightarrow> unit s3_result" where
  "applyTagsLocked objPath tags s =
     (if tags \<noteq> [] then fileErr (writeJSON_s3 (tagsPath objPath) (JTags tags) s)
      else fileErr (removeExisting (tagsPath objPath) s))"

definition copySource :: "s3 \<Rightarrow> string \<Rightarrow> string \<Rightarrow> string \<Rightarrow> s3_error + (path \<times> ObjectMetadata)" where
  "copySource s srcBucket srcKey srcVersionID =
     (case (if srcVersionID \<noteq> [] then versionPath s srcBucket srcKey srcVersionID
            else (case orMissing ErrObjectNotFound (readMeta s (objPathOf srcBucket srcKey)) of
                    Inl e \<Rightarrow> Inl e | Inr m \<Rightarrow> Inr (objPathOf srcBucket srcKey, m))) of
        Inl e \<Rightarrow> Inl e
      | Inr (p, m) \<Rightarrow> if o_IsDeleteMarker m then Inl ErrObjectNotFound else Inr (p, m))"

text \<open>The copy of an object onto itself in a bucket without versions rewrites its metadata only.\<close>

definition refreshObject :: "path \<Rightarrow> ObjectMetadata \<Rightarrow> putOpts \<Rightarrow> S3Tag list option \<Rightarrow> s3 \<Rightarrow> ObjectMetadata s3_result" where
  "refreshObject dstPath srcMeta po tags s =
     (let m = srcMeta\<lparr>o_LastModified := s3_clock s, o_ContentType := po_contentType po,
                o_UserMetadata := (case po_userMetadata po of None \<Rightarrow> [] | Some u \<Rightarrow> u),
                o_SSEAlgorithm := po_sseAlgorithm po, o_SSEKMSKeyID := po_sseKMSKeyID po,
                o_SSEBucketKeyEnabled := po_sseBucketKeyEnabled po, o_SSECKeyMD5 := po_ssecKeyMD5 po,
                o_StorageClass := po_storageClass po, o_Retention := po_retention po, o_LegalHold := po_legalHold po\<rparr>
      in bindS (fileErr (writeMeta dstPath m s)) (\<lambda>_ s.
           case tags of
             None \<Rightarrow> (Inr m, s)
           | Some t \<Rightarrow> bindS (applyTagsLocked dstPath t s) (\<lambda>_ s. (Inr m, s))))"

definition copyTags :: "path \<Rightarrow> path \<Rightarrow> S3Tag list option \<Rightarrow> s3 \<Rightarrow> unit s3_result" where
  "copyTags srcPath dstPath tags s =
     (case (case tags of
              Some t \<Rightarrow> Inr t
            | None \<Rightarrow> (case readTags s srcPath of Inl e \<Rightarrow> if e = ENotExist then Inr [] else Inl e | Inr t \<Rightarrow> Inr t)) of
        Inl e \<Rightarrow> (Inl (ErrFile e), snd (deleteObjectFilesLocked dstPath s))
      | Inr t \<Rightarrow>
          (case applyTagsLocked dstPath t s of
             (Inl e, s) \<Rightarrow> (Inl e, snd (deleteObjectFilesLocked dstPath s))
           | (Inr _, s) \<Rightarrow> (Inr (), s)))"

definition inherited :: "ObjectMetadata \<Rightarrow> putOpts \<Rightarrow> putOpts" where
  "inherited srcMeta po = po
     \<lparr>po_userMetadata := (case po_userMetadata po of None \<Rightarrow> Some (o_UserMetadata srcMeta) | Some u \<Rightarrow> Some u),
      po_contentType := (if po_contentType po = [] then o_ContentType srcMeta else po_contentType po),
      po_storageClass := (if po_storageClass po = [] then o_StorageClass srcMeta else po_storageClass po)\<rparr>"

definition CopyObject ::
  "string \<Rightarrow> string \<Rightarrow> string \<Rightarrow> string \<Rightarrow> string \<Rightarrow> putOpts \<Rightarrow> S3Tag list option \<Rightarrow> s3 \<Rightarrow> ObjectMetadata s3_result" where
  "CopyObject srcBucket srcKey srcVersionID dstBucket dstKey po tags s =
     (if \<not> bucketExistsLocked s srcBucket then (Inl ErrBucketNotFound, s)
      else case copySource s srcBucket srcKey srcVersionID of
             Inl e \<Rightarrow> (Inl e, s)
           | Inr (srcPath, srcMeta) \<Rightarrow>
               if \<not> bucketExistsLocked s dstBucket then (Inl ErrBucketNotFound, s)
               else let po = inherited srcMeta (defaultRetention s dstBucket po);
                        dstPath = objPathOf dstBucket dstKey
                    in bindS (nextVersion dstBucket dstKey dstPath s) (\<lambda>dstVersionID s.
                         if srcPath = dstPath \<and> dstVersionID = [] then refreshObject dstPath srcMeta po tags s
                         else case orMissing ErrObjectNotFound (rootOpen s srcPath) of
                                Inl e \<Rightarrow> (Inl e, s)
                              | Inr _ \<Rightarrow>
                                  bindS (ensureDir dstBucket dstPath s) (\<lambda>_ s.
                                    bindS (writeObject dstPath (RFiles [srcPath]) (o_ETag srcMeta) dstVersionID po s) (\<lambda>m s.
                                      bindS (copyTags srcPath dstPath tags s) (\<lambda>_ s. (Inr m, s))))))"

section \<open>Fields of the metadata\<close>

definition updateObjectMeta :: "string \<Rightarrow> string \<Rightarrow> (ObjectMetadata \<Rightarrow> ObjectMetadata) \<Rightarrow> s3 \<Rightarrow> unit s3_result" where
  "updateObjectMeta bucket key f s =
     (if \<not> bucketExistsLocked s bucket then (Inl ErrBucketNotFound, s)
      else case orMissing ErrObjectNotFound (readMeta s (objPathOf bucket key)) of
             Inl e \<Rightarrow> (Inl e, s)
           | Inr m \<Rightarrow> fileErr (writeMeta (objPathOf bucket key) (f m) s))"

definition SetObjectRestoreInitiated :: "string \<Rightarrow> string \<Rightarrow> s3 \<Rightarrow> unit s3_result" where
  "SetObjectRestoreInitiated bucket key s = updateObjectMeta bucket key (\<lambda>m. m\<lparr>o_RestoreInitiated := True\<rparr>) s"

definition SetObjectReplicationStatus :: "string \<Rightarrow> string \<Rightarrow> string \<Rightarrow> s3 \<Rightarrow> unit s3_result" where
  "SetObjectReplicationStatus bucket key status s =
     (if status \<notin> {''COMPLETED'', ''REPLICA'', ''PENDING'', ''FAILED''} then (Inl ErrReplicationStatus, s)
      else updateObjectMeta bucket key (\<lambda>m. m\<lparr>o_ReplicationStatus := status\<rparr>) s)"

definition SetObjectVersionStorageClass :: "string \<Rightarrow> string \<Rightarrow> string \<Rightarrow> string \<Rightarrow> s3 \<Rightarrow> unit s3_result" where
  "SetObjectVersionStorageClass bucket key versionID storageClass s =
     (if \<not> bucketExistsLocked s bucket then (Inl ErrBucketNotFound, s)
      else case versionPath s bucket key versionID of
             Inl e \<Rightarrow> (Inl e, s)
           | Inr (p, m) \<Rightarrow> fileErr (writeMeta p (m\<lparr>o_StorageClass := storageClass\<rparr>) s))"

definition PutObjectACL :: "string \<Rightarrow> string \<Rightarrow> string \<Rightarrow> s3 \<Rightarrow> unit s3_result" where
  "PutObjectACL bucket key xmlBody s = updateObjectMeta bucket key (\<lambda>m. m\<lparr>o_ACL := xmlBody\<rparr>) s"

definition GetObjectACL :: "string \<Rightarrow> string \<Rightarrow> s3 \<Rightarrow> s3_error + string" where
  "GetObjectACL bucket key s =
     (if \<not> bucketExistsLocked s bucket then Inl ErrBucketNotFound
      else case orMissing ErrObjectNotFound (readMeta s (objPathOf bucket key)) of
             Inl e \<Rightarrow> Inl e | Inr m \<Rightarrow> Inr (o_ACL m))"

definition resolveObjectMetaLocked :: "s3 \<Rightarrow> string \<Rightarrow> string \<Rightarrow> string \<Rightarrow> s3_error + (path \<times> ObjectMetadata)" where
  "resolveObjectMetaLocked s bucket key versionID =
     (if versionID = []
      then (case orMissing ErrObjectNotFound (readMeta s (objPathOf bucket key)) of
              Inl e \<Rightarrow> Inl e
            | Inr m \<Rightarrow> if o_IsDeleteMarker m then Inl (DeleteMarkerError (o_VersionID m)) else Inr (objPathOf bucket key, m))
      else (case versionPath s bucket key versionID of
              Inl e \<Rightarrow> Inl e
            | Inr (p, m) \<Rightarrow> if o_IsDeleteMarker m then Inl (DeleteMarkerError versionID) else Inr (p, m)))"

definition PutObjectRetention :: "string \<Rightarrow> string \<Rightarrow> string \<Rightarrow> ObjectRetention \<Rightarrow> s3 \<Rightarrow> unit s3_result" where
  "PutObjectRetention bucket key versionID retention s =
     (if \<not> bucketExistsLocked s bucket then (Inl ErrBucketNotFound, s)
      else case resolveObjectMetaLocked s bucket key versionID of
             Inl e \<Rightarrow> (Inl e, s)
           | Inr (p, m) \<Rightarrow> fileErr (writeMeta p (m\<lparr>o_Retention := Some retention\<rparr>) s))"

definition GetObjectRetention :: "string \<Rightarrow> string \<Rightarrow> string \<Rightarrow> s3 \<Rightarrow> s3_error + ObjectRetention" where
  "GetObjectRetention bucket key versionID s =
     (if \<not> bucketExistsLocked s bucket then Inl ErrBucketNotFound
      else case resolveObjectMetaLocked s bucket key versionID of
             Inl e \<Rightarrow> Inl e
           | Inr (_, m) \<Rightarrow> (case o_Retention m of None \<Rightarrow> Inl ErrNoObjectRetention | Some r \<Rightarrow> Inr r))"

definition PutObjectLegalHold :: "string \<Rightarrow> string \<Rightarrow> string \<Rightarrow> string \<Rightarrow> s3 \<Rightarrow> unit s3_result" where
  "PutObjectLegalHold bucket key versionID status s =
     (if \<not> bucketExistsLocked s bucket then (Inl ErrBucketNotFound, s)
      else case resolveObjectMetaLocked s bucket key versionID of
             Inl e \<Rightarrow> (Inl e, s)
           | Inr (p, m) \<Rightarrow> fileErr (writeMeta p (m\<lparr>o_LegalHold := Some \<lparr>h_Status = status\<rparr>\<rparr>) s))"

definition GetObjectLegalHold :: "string \<Rightarrow> string \<Rightarrow> string \<Rightarrow> s3 \<Rightarrow> s3_error + string" where
  "GetObjectLegalHold bucket key versionID s =
     (if \<not> bucketExistsLocked s bucket then Inl ErrBucketNotFound
      else case resolveObjectMetaLocked s bucket key versionID of
             Inl e \<Rightarrow> Inl e
           | Inr (_, m) \<Rightarrow> (case o_LegalHold m of None \<Rightarrow> Inl ErrNoObjectLegalHold | Some h \<Rightarrow> Inr (h_Status h)))"

end
