(* ===== verification/S3_Config.thy ===== *)
theory S3_Config
  imports S3_Objects
begin

text \<open>
  Tags of objects and the configuration of buckets (\<open>internal/s3/storage.go\<close>). The configuration documents
  that the storage does not look into are strings of the bucket's metadata; their methods are
  \<open>putBucketConfigField\<close> and \<open>getBucketConfigField\<close> at one field, so they are one datatype
  of fields here with its two accessors.
\<close>

section \<open>Tags of objects\<close>

definition PutObjectTagging :: "string \<Rightarrow> string \<Rightarrow> S3Tag list \<Rightarrow> s3 \<Rightarrow> unit s3_result" where
  "PutObjectTagging bucket key tags s =
     (if \<not> bucketExistsLocked s bucket then (Inl ErrBucketNotFound, s)
      else case orMissing ErrObjectNotFound (readMeta s (objPathOf bucket key)) of
             Inl e \<Rightarrow> (Inl e, s)
           | Inr _ \<Rightarrow> fileErr (writeJSON_s3 (tagsPath (objPathOf bucket key)) (JTags tags) s))"

definition GetObjectTagging :: "string \<Rightarrow> string \<Rightarrow> s3 \<Rightarrow> s3_error + S3Tag list" where
  "GetObjectTagging bucket key s =
     (if \<not> bucketExistsLocked s bucket then Inl ErrBucketNotFound
      else case orMissing ErrObjectNotFound (readMeta s (objPathOf bucket key)) of
             Inl e \<Rightarrow> Inl e
           | Inr _ \<Rightarrow>
               (case readTags s (objPathOf bucket key) of
                  Inr t \<Rightarrow> Inr t
                | Inl e \<Rightarrow> if e = ENotExist then Inr [] else Inl (ErrFile e)))"

definition DeleteObjectTagging :: "string \<Rightarrow> string \<Rightarrow> s3 \<Rightarrow> unit s3_result" where
  "DeleteObjectTagging bucket key s =
     (if \<not> bucketExistsLocked s bucket then (Inl ErrBucketNotFound, s)
      else case orMissing ErrObjectNotFound (readMeta s (objPathOf bucket key)) of
             Inl e \<Rightarrow> (Inl e, s)
           | Inr _ \<Rightarrow> fileErr (removeExisting (tagsPath (objPathOf bucket key)) s))"

section \<open>Metadata of buckets\<close>

text \<open>The metadata that a change starts from; a missing file counts as empty metadata.\<close>

definition bucketMetaOrNew :: "s3 \<Rightarrow> string \<Rightarrow> s3_error + bucketMeta" where
  "bucketMetaOrNew s bucket =
     (case readBucketMeta s bucket of
        Inr m \<Rightarrow> Inr m
      | Inl e \<Rightarrow> if e = ENotExist then Inr noBucketMeta else Inl (ErrFile e))"

definition putBucketConfigField :: "string \<Rightarrow> (bucketMeta \<Rightarrow> bucketMeta) \<Rightarrow> s3 \<Rightarrow> unit s3_result" where
  "putBucketConfigField bucket f s =
     (if \<not> bucketExistsLocked s bucket then (Inl ErrBucketNotFound, s)
      else case bucketMetaOrNew s bucket of
             Inl e \<Rightarrow> (Inl e, s)
           | Inr m \<Rightarrow> fileErr (writeBucketMeta bucket (f m) s))"

definition getBucketConfigField :: "string \<Rightarrow> (bucketMeta \<Rightarrow> string) \<Rightarrow> s3 \<Rightarrow> s3_error + string" where
  "getBucketConfigField bucket get s =
     (if \<not> bucketExistsLocked s bucket then Inl ErrBucketNotFound
      else case readBucketMeta s bucket of
             Inr m \<Rightarrow> Inr (get m)
           | Inl e \<Rightarrow> if e = ENotExist then Inr [] else Inl (ErrFile e))"

text \<open>A deletion that writes only when there is something to delete.\<close>

definition clearBucketField ::
  "string \<Rightarrow> (bucketMeta \<Rightarrow> bool) \<Rightarrow> (bucketMeta \<Rightarrow> bucketMeta) \<Rightarrow> s3 \<Rightarrow> unit s3_result" where
  "clearBucketField bucket unset f s =
     (if \<not> bucketExistsLocked s bucket then (Inl ErrBucketNotFound, s)
      else case readBucketMeta s bucket of
             Inl e \<Rightarrow> if e = ENotExist then (Inr (), s) else (Inl (ErrFile e), s)
           | Inr m \<Rightarrow> if unset m then (Inr (), s) else fileErr (writeBucketMeta bucket (f m) s))"

definition PutBucketTagging :: "string \<Rightarrow> S3Tag list \<Rightarrow> s3 \<Rightarrow> unit s3_result" where
  "PutBucketTagging bucket tags s = putBucketConfigField bucket (\<lambda>m. m\<lparr>b_Tags := tags\<rparr>) s"

definition GetBucketTagging :: "string \<Rightarrow> s3 \<Rightarrow> s3_error + S3Tag list" where
  "GetBucketTagging bucket s =
     (if \<not> bucketExistsLocked s bucket then Inl ErrBucketNotFound
      else case readBucketMeta s bucket of
             Inr m \<Rightarrow> Inr (b_Tags m)
           | Inl e \<Rightarrow> if e = ENotExist then Inr [] else Inl (ErrFile e))"

definition DeleteBucketTagging :: "string \<Rightarrow> s3 \<Rightarrow> unit s3_result" where
  "DeleteBucketTagging bucket s = clearBucketField bucket (\<lambda>m. b_Tags m = []) (\<lambda>m. m\<lparr>b_Tags := []\<rparr>) s"

definition PutBucketVersioning :: "string \<Rightarrow> string \<Rightarrow> s3 \<Rightarrow> unit s3_result" where
  "PutBucketVersioning bucket status s =
     (if \<not> bucketExistsLocked s bucket then (Inl ErrBucketNotFound, s)
      else case bucketMetaOrNew s bucket of
             Inl e \<Rightarrow> (Inl e, s)
           | Inr m \<Rightarrow>
               if status = ''Suspended'' \<and> objectLockIsEnabled (lib s) (b_ObjectLock m)
               then (Inl ErrInvalidBucketState, s)
               else fileErr (writeBucketMeta bucket (m\<lparr>b_VersioningStatus := status\<rparr>) s))"

definition GetBucketVersioning :: "string \<Rightarrow> s3 \<Rightarrow> s3_error + string" where
  "GetBucketVersioning bucket s = getBucketConfigField bucket b_VersioningStatus s"

definition PutBucketCors :: "string \<Rightarrow> CORSRule list \<Rightarrow> s3 \<Rightarrow> unit s3_result" where
  "PutBucketCors bucket rules s = putBucketConfigField bucket (\<lambda>m. m\<lparr>b_CORSRules := rules\<rparr>) s"

definition GetBucketCors :: "string \<Rightarrow> s3 \<Rightarrow> s3_error + CORSRule list" where
  "GetBucketCors bucket s =
     (if \<not> bucketExistsLocked s bucket then Inl ErrBucketNotFound
      else case orMissing ErrNoCORSConfiguration (readBucketMeta s bucket) of
             Inl e \<Rightarrow> Inl e
           | Inr m \<Rightarrow> if b_CORSRules m = [] then Inl ErrNoCORSConfiguration else Inr (b_CORSRules m))"

definition DeleteBucketCors :: "string \<Rightarrow> s3 \<Rightarrow> unit s3_result" where
  "DeleteBucketCors bucket s = clearBucketField bucket (\<lambda>m. b_CORSRules m = []) (\<lambda>m. m\<lparr>b_CORSRules := []\<rparr>) s"

definition PutBucketPolicy :: "string \<Rightarrow> string \<Rightarrow> s3 \<Rightarrow> unit s3_result" where
  "PutBucketPolicy bucket policy s = putBucketConfigField bucket (\<lambda>m. m\<lparr>b_Policy := policy\<rparr>) s"

definition GetBucketPolicy :: "string \<Rightarrow> s3 \<Rightarrow> s3_error + string" where
  "GetBucketPolicy bucket s =
     (if \<not> bucketExistsLocked s bucket then Inl ErrBucketNotFound
      else case orMissing ErrNoBucketPolicy (readBucketMeta s bucket) of
             Inl e \<Rightarrow> Inl e
           | Inr m \<Rightarrow> if b_Policy m = [] then Inl ErrNoBucketPolicy else Inr (b_Policy m))"

definition DeleteBucketPolicy :: "string \<Rightarrow> s3 \<Rightarrow> unit s3_result" where
  "DeleteBucketPolicy bucket s = clearBucketField bucket (\<lambda>m. b_Policy m = []) (\<lambda>m. m\<lparr>b_Policy := []\<rparr>) s"

definition PutBucketObjectLock :: "string \<Rightarrow> string \<Rightarrow> s3 \<Rightarrow> unit s3_result" where
  "PutBucketObjectLock bucket xmlBody s =
     (if \<not> bucketExistsLocked s bucket then (Inl ErrBucketNotFound, s)
      else case bucketMetaOrNew s bucket of
             Inl e \<Rightarrow> (Inl e, s)
           | Inr m \<Rightarrow>
               if b_VersioningStatus m \<noteq> ''Enabled'' then (Inl ErrInvalidBucketState, s)
               else fileErr (writeBucketMeta bucket (m\<lparr>b_ObjectLock := xmlBody\<rparr>) s))"

definition GetBucketObjectLock :: "string \<Rightarrow> s3 \<Rightarrow> s3_error + string" where
  "GetBucketObjectLock bucket s = getBucketConfigField bucket b_ObjectLock s"

text \<open>The documents that are stored and returned as they are: \<open>Put\<close>, \<open>Get\<close> and \<open>Delete\<close> (a \<open>Put\<close> of the
  empty string) of each are \<open>putBucketConfigField\<close> and \<open>getBucketConfigField\<close> with the same accessors.\<close>

datatype configField =
  PublicAccessBlock | Encryption | OwnershipControls | Notification | Website | Logging | Accelerate
| Replication | RequestPayment | BucketACL

fun setField :: "configField \<Rightarrow> string \<Rightarrow> bucketMeta \<Rightarrow> bucketMeta" where
  "setField PublicAccessBlock x m = m\<lparr>b_PublicAccessBlock := x\<rparr>"
| "setField Encryption x m = m\<lparr>b_Encryption := x\<rparr>"
| "setField OwnershipControls x m = m\<lparr>b_OwnershipControls := x\<rparr>"
| "setField Notification x m = m\<lparr>b_Notification := x\<rparr>"
| "setField Website x m = m\<lparr>b_Website := x\<rparr>"
| "setField Logging x m = m\<lparr>b_Logging := x\<rparr>"
| "setField Accelerate x m = m\<lparr>b_Accelerate := x\<rparr>"
| "setField Replication x m = m\<lparr>b_Replication := x\<rparr>"
| "setField RequestPayment x m = m\<lparr>b_RequestPayment := x\<rparr>"
| "setField BucketACL x m = m\<lparr>b_ACL := x\<rparr>"

fun getField :: "configField \<Rightarrow> bucketMeta \<Rightarrow> string" where
  "getField PublicAccessBlock m = b_PublicAccessBlock m"
| "getField Encryption m = b_Encryption m"
| "getField OwnershipControls m = b_OwnershipControls m"
| "getField Notification m = b_Notification m"
| "getField Website m = b_Website m"
| "getField Logging m = b_Logging m"
| "getField Accelerate m = b_Accelerate m"
| "getField Replication m = b_Replication m"
| "getField RequestPayment m = b_RequestPayment m"
| "getField BucketACL m = b_ACL m"

definition PutBucketDocument :: "configField \<Rightarrow> string \<Rightarrow> string \<Rightarrow> s3 \<Rightarrow> unit s3_result" where
  "PutBucketDocument c bucket xmlBody s = putBucketConfigField bucket (setField c xmlBody) s"

definition GetBucketDocument :: "configField \<Rightarrow> string \<Rightarrow> s3 \<Rightarrow> s3_error + string" where
  "GetBucketDocument c bucket s = getBucketConfigField bucket (getField c) s"

definition DeleteBucketDocument :: "configField \<Rightarrow> string \<Rightarrow> s3 \<Rightarrow> unit s3_result" where
  "DeleteBucketDocument c bucket s = putBucketConfigField bucket (setField c []) s"

definition PutBucketLifecycleConfig :: "string \<Rightarrow> string \<Rightarrow> string \<Rightarrow> s3 \<Rightarrow> unit s3_result" where
  "PutBucketLifecycleConfig bucket xmlBody transitionMinSize s =
     putBucketConfigField bucket (\<lambda>m. m\<lparr>b_Lifecycle := xmlBody, b_LifecycleTransitionMinSize := transitionMinSize\<rparr>) s"

definition GetBucketLifecycle :: "string \<Rightarrow> s3 \<Rightarrow> s3_error + string" where
  "GetBucketLifecycle bucket s = getBucketConfigField bucket b_Lifecycle s"

definition GetBucketLifecycleTransitionMinSize :: "string \<Rightarrow> s3 \<Rightarrow> s3_error + string" where
  "GetBucketLifecycleTransitionMinSize bucket s = getBucketConfigField bucket b_LifecycleTransitionMinSize s"

definition DeleteBucketLifecycle :: "string \<Rightarrow> s3 \<Rightarrow> unit s3_result" where
  "DeleteBucketLifecycle bucket s =
     putBucketConfigField bucket (\<lambda>m. m\<lparr>b_Lifecycle := [], b_LifecycleTransitionMinSize := []\<rparr>) s"

section \<open>Access logs\<close>

definition accessLogOpts :: putOpts where
  "accessLogOpts = \<lparr>po_contentType = ''text/plain'', po_userMetadata = None, po_sseAlgorithm = [],
     po_sseKMSKeyID = [], po_sseBucketKeyEnabled = False, po_ssecKeyMD5 = [], po_retention = None,
     po_legalHold = None, po_storageClass = ''STANDARD''\<rparr>"

definition WriteAccessLog :: "string \<Rightarrow> string \<Rightarrow> string \<Rightarrow> s3 \<Rightarrow> unit s3_result" where
  "WriteAccessLog targetBucket key txt s =
     (if \<not> bucketExistsLocked s targetBucket then (Inl ErrBucketNotFound, s)
      else let objPath = objPathOf targetBucket key
           in bindS (ensureDir targetBucket objPath s) (\<lambda>_ s.
                bindS (writeObject objPath (RBody (bytes_of_string txt) True) [] [] accessLogOpts s) (\<lambda>_ s.
                  (Inr (), s))))"

section \<open>Listings\<close>

fun joinSlash :: "path \<Rightarrow> string" where
  "joinSlash [] = []"
| "joinSlash [x] = x"
| "joinSlash (x # y # xs) = x @ ''/'' @ joinSlash (y # xs)"

definition isSidecar :: "string \<Rightarrow> bool" where
  "isSidecar name \<longleftrightarrow> has_suffix ''.meta.json'' name \<or> has_suffix ''.tags.json'' name"

fun collectE :: "('a \<Rightarrow> ioerr + 'b list) \<Rightarrow> 'a list \<Rightarrow> ioerr + 'b list" where
  "collectE f [] = Inr []"
| "collectE f (x # xs) =
     (case f x of
        Inl e \<Rightarrow> Inl e
      | Inr a \<Rightarrow> (case collectE f xs of Inl e \<Rightarrow> Inl e | Inr b \<Rightarrow> Inr (a @ b)))"

lemma collectE_cong [fundef_cong]:
  "xs = ys \<Longrightarrow> (\<And>x. x \<in> set ys \<Longrightarrow> f x = g x) \<Longrightarrow> collectE f xs = collectE g ys"
  by (induction ys arbitrary: xs) (auto split: sum.splits)

text \<open>The current objects below a directory with their metadata, delete markers included; a file
  whose metadata cannot be read is skipped.\<close>

function collectVersionEntries :: "s3 \<Rightarrow> path \<Rightarrow> path \<Rightarrow> ioerr + (string \<times> ObjectMetadata) list" where
  "collectVersionEntries s bucket dir =
     (case root_ReadDir s dir of
        Inl e \<Rightarrow> Inl e
      | Inr es \<Rightarrow>
          collectE (\<lambda>(name, isDir).
            if isDir then (if name = ''.mpu'' \<or> name = ''.ver'' then Inr []
                           else collectVersionEntries s bucket (dir @ [name]))
            else if isSidecar name then Inr []
            else (case readMeta s (dir @ [name]) of
                    Inl _ \<Rightarrow> Inr []
                  | Inr m \<Rightarrow> Inr [(joinSlash (drop (length bucket) (dir @ [name])), m)])) es)"
  by auto
termination
  by (relation "measure (\<lambda>(s, _, p). below s p)") (auto dest: readDir_below)

declare collectVersionEntries.simps [simp del]

text \<open>\<open>walkDir\<close> is the same walk without the delete markers.\<close>

function walkDir :: "s3 \<Rightarrow> path \<Rightarrow> path \<Rightarrow> ioerr + ObjectInfo list" where
  "walkDir s bucket dir =
     (case root_ReadDir s dir of
        Inl e \<Rightarrow> Inl e
      | Inr es \<Rightarrow>
          collectE (\<lambda>(name, isDir).
            if isDir then (if name = ''.mpu'' \<or> name = ''.ver'' then Inr [] else walkDir s bucket (dir @ [name]))
            else if isSidecar name then Inr []
            else (case readMeta s (dir @ [name]) of
                    Inl _ \<Rightarrow> Inr []
                  | Inr m \<Rightarrow>
                      if o_IsDeleteMarker m then Inr []
                      else Inr [\<lparr>oi_Key = joinSlash (drop (length bucket) (dir @ [name])), oi_Metadata = m\<rparr>])) es)"
  by auto
termination
  by (relation "measure (\<lambda>(s, _, p). below s p)") (auto dest: readDir_below)

declare walkDir.simps [simp del]

definition ListObjects :: "string \<Rightarrow> s3 \<Rightarrow> s3_error + ObjectInfo list" where
  "ListObjects bucket s =
     (if \<not> bucketExistsLocked s bucket then Inl ErrBucketNotFound
      else case walkDir s (bucketPath bucket) (bucketPath bucket) of
             Inl e \<Rightarrow> Inl (ErrFile e)
           | Inr os \<Rightarrow> Inr (sort_key oi_Key os))"

text \<open>The archived versions below \<open>.ver\<close>: the key is the directory of the file.\<close>

function collectArchivedEntries :: "s3 \<Rightarrow> path \<Rightarrow> path \<Rightarrow> ioerr + (string \<times> ObjectMetadata) list" where
  "collectArchivedEntries s baseVerDir relPath =
     (case root_ReadDir s (baseVerDir @ relPath) of
        Inl e \<Rightarrow> Inl e
      | Inr es \<Rightarrow>
          collectE (\<lambda>(name, isDir).
            if isDir then collectArchivedEntries s baseVerDir (relPath @ [name])
            else if isSidecar name then Inr []
            else (case readMeta s (baseVerDir @ relPath @ [name]) of
                    Inl _ \<Rightarrow> Inr []
                  | Inr m \<Rightarrow> Inr [(if relPath = [] then ''.'' else joinSlash relPath, m)])) es)"
  by auto
termination
  by (relation "measure (\<lambda>(s, b, p). below s (b @ p))") (auto dest: readDir_below)

declare collectArchivedEntries.simps [simp del]

definition versionLabel :: "ObjectMetadata \<Rightarrow> string" where
  "versionLabel m = (if o_VersionID m = [] then ''null'' else o_VersionID m)"

text \<open>The first entry of every key is the latest one.\<close>

fun labelVersions ::
  "string list \<Rightarrow> (string \<times> ObjectMetadata) list \<Rightarrow> VersionInfo list \<times> DeleteMarkerInfo list" where
  "labelVersions seen [] = ([], [])"
| "labelVersions seen ((key, m) # es) =
     (case labelVersions (key # seen) es of (vs, ds) \<Rightarrow>
        if o_IsDeleteMarker m
        then (vs, \<lparr>d_Key = key, d_VersionID = versionLabel m, d_IsLatest = key \<notin> set seen,
                   d_LastModified = o_LastModified m, d_NoncurrentSince = o_NoncurrentSince m\<rparr> # ds)
        else (\<lparr>v_Key = key, v_VersionID = versionLabel m, v_IsLatest = key \<notin> set seen,
               v_LastModified = o_LastModified m, v_ETag = o_ETag m, v_Size = o_Size m,
               v_StorageClass = o_StorageClass m, v_NoncurrentSince = o_NoncurrentSince m\<rparr> # vs, ds))"

text \<open>By key, and the most recent first: the stable sort of the entries by date, then by key. (The order
  of entries with equal key and date is not specified by \<open>slices.SortFunc\<close>.)\<close>

definition sortEntries :: "(string \<times> ObjectMetadata) list \<Rightarrow> (string \<times> ObjectMetadata) list" where
  "sortEntries es = sort_key fst (sort_key (\<lambda>(_, m). - o_LastModified m) es)"

definition ListObjectVersions :: "string \<Rightarrow> s3 \<Rightarrow> s3_error + (VersionInfo list \<times> DeleteMarkerInfo list)" where
  "ListObjectVersions bucket s =
     (if \<not> bucketExistsLocked s bucket then Inl ErrBucketNotFound
      else case collectVersionEntries s (bucketPath bucket) (bucketPath bucket) of
             Inl e \<Rightarrow> Inl (ErrFile e)
           | Inr cur \<Rightarrow>
               (case collectArchivedEntries s (verDir bucket) [] of
                  Inl e \<Rightarrow> if e = ENotExist then Inr (labelVersions [] (sortEntries cur)) else Inl (ErrFile e)
                | Inr arc \<Rightarrow> Inr (labelVersions [] (sortEntries (cur @ arc)))))"

end
