(* ===== verification/S3_Multipart.thy ===== *)
theory S3_Multipart
  imports S3_Config
begin

text \<open>
  Multipart uploads (\<open>internal/s3/storage.go\<close>). An upload is a directory of \<open>.mpu\<close> with its description
  \<open>upload.json\<close>, and for every part the file \<open><n>.part\<close> with \<open><n>.part.meta.json\<close>. Completing the upload checks
  the list of parts against these files and writes the object from the parts, read one after the
  other.
\<close>

section \<open>Files\<close>

definition mpuDir :: string where "mpuDir = ''.mpu''"

definition uploadDir :: "string \<Rightarrow> path" where "uploadDir uploadID = filepath_Join [mpuDir, uploadID]"

definition uploadJSON :: "string \<Rightarrow> path" where
  "uploadJSON uploadID = filepath_Join [mpuDir, uploadID, ''upload.json'']"

definition partPath :: "string \<Rightarrow> int \<Rightarrow> path" where
  "partPath uploadID n = filepath_Join [mpuDir, uploadID, strconv_Itoa n @ ''.part'']"

definition partMetaPath :: "string \<Rightarrow> int \<Rightarrow> path" where
  "partMetaPath uploadID n = filepath_Join [mpuDir, uploadID, strconv_Itoa n @ ''.part.meta.json'']"

definition minPartSize :: int where "minPartSize = 5 * 1024 * 1024"

definition readUploadMeta :: "s3 \<Rightarrow> string \<Rightarrow> ioerr + uploadMeta" where
  "readUploadMeta s uploadID = readJSON_s3 (decodeUpload s) s (uploadJSON uploadID)"

definition readPartMeta :: "s3 \<Rightarrow> string \<Rightarrow> int \<Rightarrow> ioerr + partMeta" where
  "readPartMeta s uploadID n = readJSON_s3 (decodePart s) s (partMetaPath uploadID n)"

fun removeFiles :: "path \<Rightarrow> string list \<Rightarrow> s3 \<Rightarrow> ioerr option \<times> s3" where
  "removeFiles dir [] s = (None, s)"
| "removeFiles dir (x # xs) s =
     (case removeExisting (dir @ [x]) s of
        (Some e, s) \<Rightarrow> (Some e, s)
      | (None, s) \<Rightarrow> removeFiles dir xs s)"

definition removeUploadDir :: "path \<Rightarrow> s3 \<Rightarrow> ioerr option \<times> s3" where
  "removeUploadDir dir s =
     (case root_ReadDir s dir of
        Inl e \<Rightarrow> (Some e, s)
      | Inr es \<Rightarrow>
          (case removeFiles dir (map fst es) s of
             (Some e, s) \<Rightarrow> (Some e, s)
           | (None, s) \<Rightarrow> root_Remove dir s))"

section \<open>Starting an upload and sending parts\<close>

definition CreateMultipartUpload ::
  "string \<Rightarrow> string \<Rightarrow> putOpts \<Rightarrow> S3Tag list \<Rightarrow> s3 \<Rightarrow> string s3_result" where
  "CreateMultipartUpload bucket key po tagging s =
     (if \<not> bucketExistsLocked s bucket then (Inl ErrBucketNotFound, s)
      else let po = defaultRetention s bucket po
           in bindS (randRead_s3 16 s) (\<lambda>b s.
                let uploadID = hex b;
                    m = \<lparr>u_Bucket = bucket, u_Key = key, u_ContentType = po_contentType po, u_Initiated = s3_clock s,
                         u_SSEAlgorithm = po_sseAlgorithm po, u_SSEKMSKeyID = po_sseKMSKeyID po,
                         u_SSEBucketKeyEnabled = po_sseBucketKeyEnabled po, u_SSECKeyMD5 = po_ssecKeyMD5 po,
                         u_StorageClass = po_storageClass po, u_Retention = po_retention po,
                         u_LegalHold = po_legalHold po, u_Tagging = tagging\<rparr>
                in bindS (fileErr (mkdirAll (uploadDir uploadID) s)) (\<lambda>_ s.
                     case writeJSON_s3 (uploadJSON uploadID) (JUpload m) s of
                       (Some e, s) \<Rightarrow> (Inl (ErrFile e), snd (removeUploadDir (uploadDir uploadID) s))
                     | (None, s) \<Rightarrow> (Inr uploadID, s))))"

definition uploadExists :: "s3 \<Rightarrow> string \<Rightarrow> s3_error option" where
  "uploadExists s uploadID =
     (case orMissing ErrUploadNotFound (root_Stat s (uploadJSON uploadID)) of Inl e \<Rightarrow> Some e | Inr _ \<Rightarrow> None)"

text \<open>The data of a part and its description; the error of closing the data is only logged.\<close>

definition writePart :: "string \<Rightarrow> int \<Rightarrow> reader \<Rightarrow> s3 \<Rightarrow> string s3_result" where
  "writePart uploadID n r s =
     bindS (fileErr (openFile (partPath uploadID n) s)) (\<lambda>_ s.
       case ioCopy (partPath uploadID n) r s of
         (Inl e, s) \<Rightarrow> (Inl (ErrFile e), s)
       | (Inr b, s) \<Rightarrow>
           let etag = quoted (hex (md5 (lib s) b))
           in bindS (fileErr (writeJSON_s3 (partMetaPath uploadID n) (JPart \<lparr>p_ETag = etag, p_Size = int (length b)\<rparr>) s))
                (\<lambda>_ s. (Inr etag, s)))"

definition UploadPart :: "string \<Rightarrow> int \<Rightarrow> reader \<Rightarrow> s3 \<Rightarrow> string s3_result" where
  "UploadPart uploadID n r s =
     (case uploadExists s uploadID of Some e \<Rightarrow> (Inl e, s) | None \<Rightarrow> writePart uploadID n r s)"

definition DeletePart :: "string \<Rightarrow> int \<Rightarrow> s3 \<Rightarrow> unit s3_result" where
  "DeletePart uploadID n s = fileErr (root_Remove (partPath uploadID n) (tryRemove (partMetaPath uploadID n) s))"

definition partSource :: "s3 \<Rightarrow> string \<Rightarrow> string \<Rightarrow> string \<Rightarrow> s3_error + (path \<times> ObjectMetadata)" where
  "partSource s srcBucket srcKey srcVersionID =
     (case (if srcVersionID = [] then Inr () else
              case readMeta s (objPathOf srcBucket srcKey) of
                Inl e \<Rightarrow> if e = ENotExist then Inr () else Inl (ErrFile e) | Inr _ \<Rightarrow> Inr ()) of
        Inl e \<Rightarrow> Inl e
      | Inr _ \<Rightarrow> copySource s srcBucket srcKey srcVersionID)"

definition UploadPartCopy ::
  "string \<Rightarrow> int \<Rightarrow> string \<Rightarrow> string \<Rightarrow> string \<Rightarrow> (int \<times> int) option \<Rightarrow> s3 \<Rightarrow> (string \<times> int \<times> string) s3_result" where
  "UploadPartCopy uploadID n srcBucket srcKey srcVersionID br s =
     (case uploadExists s uploadID of
        Some e \<Rightarrow> (Inl e, s)
      | None \<Rightarrow>
          if \<not> bucketExistsLocked s srcBucket then (Inl ErrBucketNotFound, s)
          else case partSource s srcBucket srcKey srcVersionID of
                 Inl e \<Rightarrow> (Inl e, s)
               | Inr (srcPath, srcMeta) \<Rightarrow>
                   (case orMissing ErrObjectNotFound (rootOpen s srcPath) of
                      Inl e \<Rightarrow> (Inl e, s)
                    | Inr _ \<Rightarrow>
                        (case (case br of
                                 None \<Rightarrow> Inr (RFiles [srcPath])
                               | Some (start, end') \<Rightarrow>
                                   if start < 0 then Inl EOther
                                   else Inr (RRange srcPath (nat start) (nat (end' - start + 1)))) of
                           Inl e \<Rightarrow> (Inl (ErrFile e), s)
                         | Inr r \<Rightarrow>
                             bindS (writePart uploadID n r s) (\<lambda>etag s. (Inr (etag, s3_clock s, o_VersionID srcMeta), s)))))"

section \<open>Completing and aborting\<close>

text \<open>\<open>hex.DecodeString\<close> returns the bytes before the first error.\<close>

definition hexValue :: "char \<Rightarrow> nat option" where
  "hexValue c =
     (let n = of_char c
      in if 48 \<le> n \<and> n \<le> 57 then Some (n - 48)
         else if 97 \<le> n \<and> n \<le> 102 then Some (n - 87)
         else if 65 \<le> n \<and> n \<le> 70 then Some (n - 55) else None)"

fun hexDecode :: "string \<Rightarrow> bytes" where
  "hexDecode (a # b # xs) =
     (case (hexValue a, hexValue b) of (Some x, Some y) \<Rightarrow> of_nat (16 * x + y) # hexDecode xs | _ \<Rightarrow> [])"
| "hexDecode _ = []"

fun checkParts :: "s3 \<Rightarrow> string \<Rightarrow> int option \<Rightarrow> CompletePart list \<Rightarrow> s3_error option" where
  "checkParts s uploadID prev [] = None"
| "checkParts s uploadID prev (p # ps) =
     (if (case prev of Some q \<Rightarrow> cp_PartNumber p \<le> q | None \<Rightarrow> False) then Some ErrInvalidPartOrder
      else case orMissing ErrInvalidPart (readPartMeta s uploadID (cp_PartNumber p)) of
             Inl e \<Rightarrow> Some e
           | Inr pm \<Rightarrow>
               if p_ETag pm \<noteq> cp_ETag p then Some ErrInvalidPart
               else if ps \<noteq> [] \<and> p_Size pm < minPartSize then Some ErrEntityTooSmall
               else checkParts s uploadID (Some (cp_PartNumber p)) ps)"

fun openParts :: "s3 \<Rightarrow> string \<Rightarrow> CompletePart list \<Rightarrow> ioerr option" where
  "openParts s uploadID [] = None"
| "openParts s uploadID (p # ps) =
     (case rootOpen s (partPath uploadID (cp_PartNumber p)) of
        Inl e \<Rightarrow> Some e
      | Inr _ \<Rightarrow> openParts s uploadID ps)"

definition trimQuotes :: "string \<Rightarrow> string" where
  "trimQuotes x = rev (dropWhile (\<lambda>c. c = CHR 0x22) (rev (dropWhile (\<lambda>c. c = CHR 0x22) x)))"

definition multipartETag :: "s3lib \<Rightarrow> CompletePart list \<Rightarrow> string" where
  "multipartETag l parts =
     quoted (hex (md5 l (concat (map (\<lambda>p. hexDecode (trimQuotes (cp_ETag p))) parts))) @ ''-''
             @ strconv_Itoa (int (length parts)))"

definition uploadOpts :: "uploadMeta \<Rightarrow> putOpts" where
  "uploadOpts u = \<lparr>po_contentType = u_ContentType u, po_userMetadata = None, po_sseAlgorithm = u_SSEAlgorithm u,
     po_sseKMSKeyID = u_SSEKMSKeyID u, po_sseBucketKeyEnabled = u_SSEBucketKeyEnabled u,
     po_ssecKeyMD5 = u_SSECKeyMD5 u, po_retention = u_Retention u, po_legalHold = u_LegalHold u,
     po_storageClass = u_StorageClass u\<rparr>"

definition uploadTags :: "path \<Rightarrow> S3Tag list \<Rightarrow> s3 \<Rightarrow> unit s3_result" where
  "uploadTags objPath tags s =
     (if tags = [] then (Inr (), s)
      else case applyTagsLocked objPath tags s of
             (Inl e, s) \<Rightarrow> (Inl e, snd (deleteObjectFilesLocked objPath s))
           | (Inr _, s) \<Rightarrow> (Inr (), s))"

definition CompleteMultipartUpload :: "string \<Rightarrow> CompletePart list \<Rightarrow> s3 \<Rightarrow> ObjectMetadata s3_result" where
  "CompleteMultipartUpload uploadID parts s =
     (case orMissing ErrUploadNotFound (readUploadMeta s uploadID) of
        Inl e \<Rightarrow> (Inl e, s)
      | Inr u \<Rightarrow>
          if \<not> bucketExistsLocked s (u_Bucket u) then (Inl ErrBucketNotFound, s)
          else if parts = [] then (Inl ErrInvalidPart, s)
          else case checkParts s uploadID None parts of
                 Some e \<Rightarrow> (Inl e, s)
               | None \<Rightarrow>
                   (case openParts s uploadID parts of
                      Some e \<Rightarrow> (Inl (ErrFile e), s)
                    | None \<Rightarrow>
                        let objPath = objPathOf (u_Bucket u) (u_Key u)
                        in bindS (ensureDir (u_Bucket u) objPath s) (\<lambda>_ s.
                             bindS (nextVersion (u_Bucket u) (u_Key u) objPath s) (\<lambda>versionID s.
                               bindS (writeObject objPath (RFiles (map (\<lambda>p. partPath uploadID (cp_PartNumber p)) parts))
                                        (multipartETag (lib s) parts) versionID (uploadOpts u) s) (\<lambda>m s.
                                 bindS (uploadTags objPath (u_Tagging u) s) (\<lambda>_ s.
                                   (Inr m, snd (removeUploadDir (uploadDir uploadID) s))))))))"

definition AbortMultipartUpload :: "string \<Rightarrow> s3 \<Rightarrow> unit s3_result" where
  "AbortMultipartUpload uploadID s =
     (case uploadExists s uploadID of
        Some e \<Rightarrow> (Inl e, s)
      | None \<Rightarrow> fileErr (removeUploadDir (uploadDir uploadID) s))"

section \<open>Listings\<close>

definition GetUploadMeta :: "string \<Rightarrow> s3 \<Rightarrow> s3_error + uploadMeta" where
  "GetUploadMeta uploadID s = orMissing ErrUploadNotFound (readUploadMeta s uploadID)"

definition ListMultipartUploads :: "string \<Rightarrow> s3 \<Rightarrow> s3_error + MultipartUploadInfo list" where
  "ListMultipartUploads bucket s =
     (if \<not> bucketExistsLocked s bucket then Inl ErrBucketNotFound
      else case root_ReadDir s [mpuDir] of
             Inl e \<Rightarrow> if e = ENotExist then Inr [] else Inl (ErrFile e)
           | Inr es \<Rightarrow>
               Inr (concat (map (\<lambda>(name, isDir).
                 if \<not> isDir then [] else
                   case readUploadMeta s name of
                     Inl _ \<Rightarrow> []
                   | Inr u \<Rightarrow>
                       if u_Bucket u \<noteq> bucket then []
                       else [\<lparr>mu_UploadID = name, mu_Key = u_Key u, mu_Initiated = u_Initiated u,
                              mu_StorageClass = u_StorageClass u\<rparr>]) es)))"

text \<open>\<open>fmt.Sscanf(name, "%d.part.meta.json", &n)\<close>\<close>

definition isDecimal :: "char \<Rightarrow> bool" where
  "isDecimal c \<longleftrightarrow> 48 \<le> (of_char c :: nat) \<and> (of_char c :: nat) \<le> 57"

definition scanPart :: "string \<Rightarrow> int option" where
  "scanPart name =
     (let (sign, rest) = (case name of c # cs \<Rightarrow> if c = CHR ''-'' \<or> c = CHR ''+'' then ([c], cs) else ([], name) | [] \<Rightarrow> ([], []));
          ds = takeWhile isDecimal rest
      in if ds \<noteq> [] \<and> has_prefix ''.part.meta.json'' (dropWhile isDecimal rest) then strconv_Atoi (sign @ ds) else None)"

text \<open>The date of a part is the modification time of its file, which is not modelled.\<close>

definition ListParts :: "string \<Rightarrow> s3 \<Rightarrow> s3_error + (uploadMeta \<times> PartInfo list)" where
  "ListParts uploadID s =
     (case orMissing ErrUploadNotFound (readUploadMeta s uploadID) of
        Inl e \<Rightarrow> Inl e
      | Inr u \<Rightarrow>
          (case root_ReadDir s (uploadDir uploadID) of
             Inl e \<Rightarrow> Inl (ErrFile e)
           | Inr es \<Rightarrow>
               Inr (u, sort_key pi_PartNumber (concat (map (\<lambda>(name, isDir).
                 if isDir \<or> \<not> has_suffix ''.part.meta.json'' name then []
                 else case scanPart name of
                        None \<Rightarrow> []
                      | Some n \<Rightarrow>
                          (case readPartMeta s uploadID n of
                             Inl _ \<Rightarrow> []
                           | Inr pm \<Rightarrow> [\<lparr>pi_PartNumber = n, pi_ETag = p_ETag pm, pi_Size = p_Size pm\<rparr>])) es)))))"

end
