(* ===== verification/S3_Frame.thy ===== *)
theory S3_Frame
  imports S3_Multipart Go_FS_Frame
begin

text \<open>
  What the file operations of the S3 storage change. \<open>grows W s s'\<close>: the state went from \<open>s\<close> to \<open>s'\<close>
  with writes to the paths of \<open>W\<close> only; elsewhere directories may have been made, no directory is gone,
  and the settings are the same. The composite operations are chains of such steps.
\<close>

section \<open>Paths\<close>

lemma plain_addSuffix: "list_all plain_elem p \<Longrightarrow> plain_elem (x # y # z) \<Longrightarrow> list_all plain_elem (addSuffix p (x # y # z))"
  by (induction p rule: rev_induct) (auto simp: addSuffix_def plain_elem_def append_eq_Cons_conv)

lemma escapes_append: "p \<noteq> [] \<Longrightarrow> escapes (p @ q) = escapes p"
  by (cases p) (auto simp: escapes_def)

lemma butlast_addSuffix [simp]: "butlast (addSuffix p x) = butlast p"
  by (simp add: addSuffix_def)

lemma addSuffix_not_Nil [simp]: "addSuffix p x \<noteq> []"
  by (simp add: addSuffix_def)

lemma addSuffix_inj: "p \<noteq> [] \<Longrightarrow> q \<noteq> [] \<Longrightarrow> addSuffix p x = addSuffix q x \<longleftrightarrow> p = q"
  by (auto simp: addSuffix_def) (metis append_butlast_last_id)

lemma length_addSuffix: "length (addSuffix p x) = max 1 (length p)"
  by (cases p) (auto simp: addSuffix_def)

lemma addSuffix_same: "x \<noteq> [] \<Longrightarrow> addSuffix p x \<noteq> p"
proof
  assume x: "x \<noteq> []" and e: "addSuffix p x = p"
  then have "p \<noteq> []" by (metis addSuffix_not_Nil)
  then have "last (addSuffix p x) = last p @ x" by (simp add: addSuffix_def)
  with e x show False by simp
qed

lemma addSuffix_eq_last:
  "addSuffix p x = addSuffix q y \<Longrightarrow> length x = length y \<Longrightarrow> x = y"
proof -
  assume e: "addSuffix p x = addSuffix q y" and l: "length x = length y"
  obtain u v where "last (addSuffix p x) = u @ x" "last (addSuffix q y) = v @ y"
    by (metis addSuffix_def last.simps last_snoc)
  with e l show ?thesis by simp
qed

lemma sidecars_distinct [simp]:
  "metaPath p \<noteq> p" "p \<noteq> metaPath p" "tagsPath p \<noteq> p" "p \<noteq> tagsPath p" "metaPath p \<noteq> tagsPath q" "tagsPath q \<noteq> metaPath p"
  using addSuffix_same[of "''.meta.json''" p] addSuffix_same[of "''.tags.json''" p]
    addSuffix_eq_last[of p "''.meta.json''" q "''.tags.json''"]
  by (auto simp: metaPath_def tagsPath_def)

lemma metaPath_inj: "p \<noteq> [] \<Longrightarrow> q \<noteq> [] \<Longrightarrow> metaPath p = metaPath q \<longleftrightarrow> p = q"
  by (simp add: metaPath_def addSuffix_inj)

lemma sidecar_not_Nil [simp]: "metaPath p \<noteq> []" "tagsPath p \<noteq> []"
  by (simp_all add: metaPath_def tagsPath_def)

lemma sidecar_butlast [simp]: "butlast (metaPath p) = butlast p" "butlast (tagsPath p) = butlast p"
  by (simp_all add: metaPath_def tagsPath_def)

lemma plain_sidecar: "list_all plain_elem p \<Longrightarrow> list_all plain_elem (metaPath p) \<and> list_all plain_elem (tagsPath p)"
  unfolding metaPath_def tagsPath_def by (auto intro!: plain_addSuffix simp: plain_elem_def)

section \<open>Growing\<close>

definition same_settings :: "s3 \<Rightarrow> s3 \<Rightarrow> bool" where
  "same_settings s s' \<longleftrightarrow> d_fault s' = d_fault s \<and> lib s' = lib s \<and> s3_clock s' = s3_clock s \<and> short s' = short s"

definition grows :: "path set \<Rightarrow> s3 \<Rightarrow> s3 \<Rightarrow> bool" where
  "grows W s s' \<longleftrightarrow> same_settings s s' \<and> (disk_wf s \<longrightarrow> disk_wf s')
     \<and> (\<forall>q. look s q = Some Dir \<longrightarrow> look s' q = Some Dir)
     \<and> (\<forall>q. q \<notin> W \<longrightarrow> look s' q = look s q \<or> (look s q = None \<and> look s' q = Some Dir))"

lemma grows_refl [simp]: "grows W s s"
  by (auto simp: grows_def same_settings_def)

lemma grows_trans: "grows V s t \<Longrightarrow> grows W t u \<Longrightarrow> grows (V \<union> W) s u"
  unfolding grows_def same_settings_def by (metis UnCI)

lemma grows_then: "grows W s t \<Longrightarrow> grows W t u \<Longrightarrow> grows W s u"
  using grows_trans[of W s t W u] by simp

lemma grows_mono: "grows V s t \<Longrightarrow> V \<subseteq> W \<Longrightarrow> grows W s t"
  by (auto simp: grows_def)

lemma growsD:
  assumes "grows W s s'"
  shows "disk_wf s \<Longrightarrow> disk_wf s'" "d_fault s' = d_fault s" "lib s' = lib s" "s3_clock s' = s3_clock s" "short s' = short s"
    "look s q = Some Dir \<Longrightarrow> look s' q = Some Dir"
    "q \<notin> W \<Longrightarrow> look s q = Some n \<Longrightarrow> look s' q = Some n"
    "q \<notin> W \<Longrightarrow> look s' q = Some (File c) \<Longrightarrow> look s q = Some (File c)"
  using assms by (auto simp: grows_def same_settings_def)

lemma grows_quiet: "grows W s s' \<Longrightarrow> quiet s \<Longrightarrow> quiet s'"
  by (simp add: grows_def same_settings_def quiet_def)

lemma put_fields [simp]:
  "lib (put p n s) = lib s" "s3_clock (put p n s) = s3_clock s" "short (put p n s) = short s" "s3_rand (put p n s) = s3_rand s"
  by (simp_all add: put_def)

lemma grows_put:
  assumes "clean_path p" and "\<not> escapes p" and "look s (butlast p) = Some Dir" and "look s p \<noteq> Some Dir"
  shows "grows {p} s (put p (File c) s)"
proof -
  have "p \<noteq> []" using assms(4) by auto
  then have "disk_wf s \<longrightarrow> disk_wf (put p (File c) s)"
    using disk_wf_put[of s p "File c"] clean_path_plain[OF assms(1,2)] assms(3,4) by auto
  then show ?thesis using assms(4) by (auto simp: grows_def same_settings_def fs_simps)
qed

section \<open>File operations\<close>

lemma openFile_grows:
  assumes "openFile p s = (r, s')" and "clean_path p"
  shows "grows {p} s s' \<and> (r = None \<longrightarrow> look s' p = Some (File (Some (Raw []))) \<and> \<not> escapes p
           \<and> look s (butlast p) = Some Dir \<and> look s p \<noteq> Some Dir \<and> p \<noteq> [])"
  using assms grows_put[of p s "Some (Raw [])"] root_walk_Inr[of s "butlast p" Dir]
  by (cases "p = []") (auto simp: openFile_def fs_simps split: if_splits sum.splits node.splits)

lemma rewrite_grows:
  assumes "clean_path p" and "\<not> escapes p" and "p \<noteq> []" and "look s p = Some (File d)"
  shows "grows {p} s (put p (File c) s)"
proof (cases "disk_wf s")
  case True
  then show ?thesis using grows_put[OF assms(1,2), of s c] disk_wf_parent[OF True assms(4)] assms(4) by simp
next
  case False
  then show ?thesis using assms by (auto simp: grows_def same_settings_def fs_simps)
qed

lemma fileWrite_grows:
  assumes "fileWrite p c s = (r, s')" and "clean_path p" and "\<not> escapes p" and "p \<noteq> []" and "look s p = Some (File d)"
  shows "grows {p} s s' \<and> (r = None \<longrightarrow> look s' p = Some (File (Some c)))"
  using assms(1) rewrite_grows[OF assms(2-5)] assms(4) by (auto simp: fileWrite_def fs_simps split: if_splits)

lemma ioCopy_grows:
  assumes "ioCopy p r s = (x, s')" and "clean_path p" and "\<not> escapes p" and "p \<noteq> []" and "look s p = Some (File d)"
  shows "grows {p} s s' \<and> (\<forall>b. x = Inr b \<longrightarrow> look s' p = Some (File (Some (Raw b))) \<and> readAll s r = (b, True))"
  using assms(1) rewrite_grows[OF assms(2-5)] assms(4)
  by (auto simp: ioCopy_def fs_simps split: if_splits prod.splits)

lemma writeJSON_grows:
  assumes "writeJSON_s3 p c s = (r, s')" and "clean_path p"
  shows "grows {p} s s' \<and> (r = None \<longrightarrow> look s' p = Some (File (Some c)))"
proof -
  obtain r1 s1 where o: "openFile p s = (r1, s1)" by (cases "openFile p s")
  show ?thesis
  proof (cases r1)
    case None
    obtain r2 s2 where w: "fileWrite p c s1 = (r2, s2)" by (cases "fileWrite p c s1")
    from openFile_grows[OF o assms(2)] None
    have g: "grows {p} s s1" "look s1 p = Some (File (Some (Raw [])))" "\<not> escapes p" "p \<noteq> []" by auto
    from fileWrite_grows[OF w assms(2) g(3,4,2)] grows_then[OF g(1)] show ?thesis
      using assms(1) o None w by (auto simp: writeJSON_s3_def split: option.splits)
  next
    case (Some e)
    then show ?thesis using assms(1) openFile_grows[OF o assms(2)] o by (auto simp: writeJSON_s3_def)
  qed
qed

lemma grows_mkdir:
  assumes "root_Mkdir p s = (r, s')" and "clean_path p"
  shows "grows {} s s' \<and> (r = None \<longrightarrow> look s' p = Some Dir)"
proof -
  have "disk_wf s \<longrightarrow> disk_wf s'" using wf_mkdir[OF _ assms(2,1)] by blast
  moreover have "s' = s \<or> (look s p = None \<and> s' = put p Dir s)"
    using assms(1) by (auto simp: root_Mkdir_def split: if_splits sum.splits node.splits option.splits)
  ultimately show ?thesis using assms(1)
    by (auto simp: grows_def same_settings_def fs_simps root_Mkdir_def split: if_splits sum.splits node.splits option.splits)
qed

lemma clean_take: "clean_path (p @ q) \<Longrightarrow> clean_path p"
proof (induction p)
  case (Cons x p)
  then show ?case by (cases "x = ''..''") (auto simp: clean_path_def dropWhile_append)
qed (simp add: clean_path_def)

lemma mkdirs_grows:
  assumes "mkdirs p xs s = (r, s')" and "clean_path (p @ xs)"
  shows "grows {} s s' \<and> (r = None \<longrightarrow> look s p = Some Dir \<longrightarrow> look s' (p @ xs) = Some Dir)"
  using assms
proof (induction p xs s rule: mkdirs.induct)
  case (2 p x xs s)
  have c: "clean_path ((p @ [x]) @ xs)" using 2(4) by simp
  show ?case
  proof (cases "look s (p @ [x])")
    case None
    obtain r1 s1 where m: "root_Mkdir (p @ [x]) s = (r1, s1)" by (cases "root_Mkdir (p @ [x]) s")
    from grows_mkdir[OF m clean_take[OF c]] have g: "grows {} s s1" "r1 = None \<Longrightarrow> look s1 (p @ [x]) = Some Dir" by auto
    show ?thesis
    proof (cases r1)
      case None
      then have "mkdirs (p @ [x]) xs s1 = (r, s')" using 2(3) \<open>look s (p @ [x]) = None\<close> m by simp
      from 2(1)[OF \<open>look s (p @ [x]) = None\<close> m[symmetric] None this c] g None show ?thesis
        using grows_then[OF g(1)] by auto
    qed (use 2(3) g(1) m \<open>look s (p @ [x]) = None\<close> in auto)
  next
    case (Some n)
    then show ?thesis using 2 c by (cases n) auto
  qed
qed simp

lemma mkdirAll_grows: "mkdirAll p s = (r, s') \<Longrightarrow> clean_path p \<Longrightarrow> grows {} s s' \<and> (r = None \<longrightarrow> look s' p = Some Dir)"
  using mkdirs_grows[of "[]" p s r s'] by (auto simp: mkdirAll_def split: if_splits)

lemma randRead_grows: "randRead_s3 n s = (r, s') \<Longrightarrow> grows {} s s' \<and> d_fs s' = d_fs s"
  by (auto simp: randRead_s3_def grows_def same_settings_def look_def disk_wf_def split: list.splits option.splits)

section \<open>Chains of steps\<close>

lemma bindS_Inr: "bindS r k = (Inr b, s') \<longleftrightarrow> (\<exists>a t. r = (Inr a, t) \<and> k a t = (Inr b, s'))"
  by (auto simp: bindS_def split: prod.splits sum.splits)

lemma fileErr_Inr: "fileErr r = (Inr u, s') \<longleftrightarrow> r = (None, s')"
  by (auto simp: fileErr_def split: prod.splits option.splits)

lemma orMissing_Inr [simp]: "orMissing e r = Inr a \<longleftrightarrow> r = Inr a"
  by (auto simp: orMissing_def split: sum.splits)

lemma newVersionID_grows: "newVersionID s = (Inr v, s') \<Longrightarrow> grows {} s s' \<and> d_fs s' = d_fs s"
  by (auto simp: newVersionID_def bindS_Inr dest: randRead_grows)

section \<open>Clean paths\<close>

lemma clean_plain: "list_all plain_elem p \<Longrightarrow> clean_path p"
  by (cases p) (auto simp: clean_path_def plain_elem_def)

lemma clean_dots [simp]: "clean_path (''..'' # p) = clean_path p"
  by (simp add: clean_path_def)

lemma clean_addSuffix:
  assumes "clean_path p" and "plain_elem (x # y # z)"
  shows "clean_path (addSuffix p (x # y # z))"
  using assms(1)
proof (induction p)
  case Nil
  then show ?case using plain_addSuffix[of "[]"] assms(2) by (auto intro: clean_plain)
next
  case (Cons a p)
  show ?case
  proof (cases "a = ''..''")
    case False
    then have "list_all plain_elem (a # p)" using Cons.prems by (simp add: clean_path_def)
    then show ?thesis using plain_addSuffix assms(2) clean_plain by blast
  next
    case True
    show ?thesis
    proof (cases p)
      case Nil
      then show ?thesis using True assms(2) by (auto simp: addSuffix_def plain_elem_def intro!: clean_plain)
    next
      case (Cons b q)
      then have "addSuffix (a # p) (x # y # z) = ''..'' # addSuffix p (x # y # z)" using True by (simp add: addSuffix_def)
      then show ?thesis using Cons.prems Cons.IH True by simp
    qed
  qed
qed

lemma clean_sidecar: "clean_path p \<Longrightarrow> clean_path (metaPath p) \<and> clean_path (tagsPath p)"
  unfolding metaPath_def tagsPath_def by (auto intro!: clean_addSuffix simp: plain_elem_def)

lemma clean_paths_s3 [simp]:
  "clean_path (objPathOf b k)" "clean_path (verPath b k v)" "clean_path (bucketPath b)" "clean_path (bucketMetaPath b)"
  "clean_path (verDir b)" "clean_path (uploadDir i)" "clean_path (uploadJSON i)" "clean_path (partPath i n)"
  "clean_path (partMetaPath i n)" "clean_path (metaPath (objPathOf b k))" "clean_path (tagsPath (objPathOf b k))"
  "clean_path (metaPath (verPath b k v))" "clean_path (tagsPath (verPath b k v))"
  by (simp_all add: objPathOf_def verPath_def bucketPath_def bucketMetaPath_def verDir_def uploadDir_def uploadJSON_def
      partPath_def partMetaPath_def clean_path_Join clean_sidecar)

lemma clean_butlast: "clean_path p \<Longrightarrow> clean_path (butlast p)"
  by (metis append_butlast_last_id butlast.simps(1) clean_take)

section \<open>Keys\<close>

definition versionFiles :: "string \<Rightarrow> string \<Rightarrow> string \<Rightarrow> path set" where
  "versionFiles b k v = {verPath b k v, metaPath (verPath b k v), tagsPath (verPath b k v)}"

definition archive :: "string \<Rightarrow> string \<Rightarrow> path set" where
  "archive b k = (\<Union>v. versionFiles b k v)"

text \<open>A key whose elements, cleaned, stay below the bucket.\<close>

definition plain_key :: "string \<Rightarrow> bool" where
  "plain_key k \<longleftrightarrow> filepath_Join [k] \<noteq> [] \<and> list_all plain_elem (filepath_Join [k])"

lemma clean_step_dots: "''..'' \<in> set st \<Longrightarrow> ''..'' \<in> set (clean_step st w)"
  by (auto simp: clean_step_def split: list.splits)

lemma clean_fold_dots: "''..'' \<in> set st \<Longrightarrow> ''..'' \<in> set (foldl clean_step st ws)"
  by (induction ws arbitrary: st) (auto simp: clean_step_dots)

lemma clean_fold_base:
  assumes "''..'' \<notin> set (foldl clean_step [] ws)" and "''..'' \<notin> set st"
  shows "foldl clean_step st ws = foldl clean_step [] ws @ st"
  using assms(1)
proof (induction ws rule: rev_induct)
  case (snoc w ws)
  let ?r = "foldl clean_step [] ws"
  have r: "''..'' \<notin> set ?r" using snoc.prems clean_step_dots[of ?r w] by auto
  moreover have "w = ''..'' \<longrightarrow> ?r \<noteq> []"
  proof (intro impI notI)
    assume "w = ''..''" and "?r = []"
    then have "foldl clean_step [] (ws @ [w]) = [''..'']" by (simp add: clean_step_def[of "[]"])
    with snoc.prems show False by simp
  qed
  ultimately have "clean_step (?r @ st) w = clean_step ?r w @ st"
    by (cases ?r) (auto simp: clean_step_def)
  with snoc.IH[OF r] show ?case by simp
qed simp

lemma join_plain:
  assumes "list_all plain_elem bs" and "plain_key k" and "list_all plain_elem vs"
  shows "filepath_Join (bs @ k # vs) = bs @ filepath_Join [k] @ vs"
proof -
  have split: "concat (map split_slash es) = es" if "list_all plain_elem es" for es
    using that by (induction es) (auto simp: split_slash_plain plain_elem_def)
  have plain: "foldl clean_step st es = rev es @ st" if "list_all plain_elem es" for es st
    using that by (induction es arbitrary: st) (auto simp: clean_step_def plain_elem_def)
  have "''..'' \<notin> set (foldl clean_step [] (split_slash k))"
    using assms(2) by (auto simp: plain_key_def filepath_Join_def plain_elem_def list_all_iff)
  moreover have "''..'' \<notin> set (rev bs)" using assms(1) by (auto simp: list_all_iff plain_elem_def)
  ultimately have "foldl clean_step (rev bs) (split_slash k) = foldl clean_step [] (split_slash k) @ rev bs"
    by (rule clean_fold_base)
  then show ?thesis using assms by (simp add: filepath_Join_def split plain)
qed

lemma object_paths:
  assumes "plain_elem b" and "plain_key k" and "plain_elem v"
  shows "objPathOf b k = b # filepath_Join [k]" "verPath b k v = b # ''.ver'' # filepath_Join [k] @ [v]" "bucketPath b = [b]"
  using join_plain[of "[b]" k "[]"] join_plain[of "[b, ''.ver'']" k "[v]"] filepath_Join_plain[of "[b]"] assms
  by (simp_all add: objPathOf_def verPath_def bucketPath_def plain_elem_def)

lemma version_paths_disjoint:
  assumes "plain_elem b" and "plain_key k" and "plain_elem v"
  shows "{objPathOf b k, metaPath (objPathOf b k), tagsPath (objPathOf b k)} \<inter> versionFiles b k v = {}"
proof -
  have "length q = Suc (length (filepath_Join [k]))" if "q \<in> {objPathOf b k, metaPath (objPathOf b k), tagsPath (objPathOf b k)}" for q
    using that object_paths[OF assms] by (auto simp: metaPath_def tagsPath_def length_addSuffix)
  moreover have "length q = Suc (Suc (Suc (length (filepath_Join [k]))))" if "q \<in> versionFiles b k v" for q
    using that object_paths[OF assms] by (auto simp: versionFiles_def metaPath_def tagsPath_def length_addSuffix)
  ultimately show ?thesis by fastforce
qed

section \<open>Reading from a quiet disk\<close>

lemma quiet_open: "disk_wf s \<Longrightarrow> quiet s \<Longrightarrow> rootOpen s p = Inr n \<longleftrightarrow> look s p = Some n"
  by (simp add: rootOpen_def quiet_def root_walk_iff)

lemma quiet_read_file: "disk_wf s \<Longrightarrow> quiet s \<Longrightarrow> root_ReadFile s p = Inr c \<longleftrightarrow> look s p = Some (File c)"
  by (auto simp: root_ReadFile_def quiet_def root_walk_iff[symmetric] split: sum.splits node.splits)

lemma readJSON_s3_Inr:
  "disk_wf s \<Longrightarrow> quiet s \<Longrightarrow> readJSON_s3 f s p = Inr v \<longleftrightarrow> (\<exists>c. look s p = Some (File (Some c)) \<and> f c = Some v)"
  by (auto simp: readJSON_s3_def quiet_read_file[symmetric] split: sum.splits option.splits)

lemma readMeta_JMeta: "disk_wf s \<Longrightarrow> quiet s \<Longrightarrow> look s (metaPath p) = Some (File (Some (JMeta m))) \<Longrightarrow> readMeta s p = Inr m"
  by (simp add: readMeta_def readJSON_s3_Inr decodeMeta_def)

lemma quiet_readFrom: "quiet s \<Longrightarrow> look s p = Some (File (Some c)) \<Longrightarrow> readFrom s p = (content_bytes s c, True)"
  by (simp add: readFrom_def quiet_def)

lemma quiet_stat: "disk_wf s \<Longrightarrow> quiet s \<Longrightarrow> bucketExistsLocked s b \<longleftrightarrow> look s (bucketPath b) = Some Dir"
  by (auto simp: bucketExistsLocked_def root_Stat_def quiet_def root_walk_iff[symmetric] split: sum.splits node.splits)

lemma openHandle_file:
  "disk_wf s \<Longrightarrow> quiet s \<Longrightarrow> look s p = Some (File (Some c)) \<Longrightarrow> openHandle s p = Inr (content_bytes s c, True)"
  using quiet_open[of s p "File (Some c)"] by (auto simp: openHandle_def orMissing_def quiet_readFrom)

lemma content_bytes_lib: "lib s' = lib s \<Longrightarrow> content_bytes s' c = content_bytes s c"
  by (cases c) (simp_all add: content_bytes_def)

lemma decodeMeta_lib: "lib s' = lib s \<Longrightarrow> decodeMeta s' c = decodeMeta s c"
  using content_bytes_lib[of s' s] by (cases c) (simp_all add: decodeMeta_def)

section \<open>Archiving and writing\<close>

lemma archiveTags_grows: "archiveTags p vp s = (Inr u, s') \<Longrightarrow> clean_path vp \<Longrightarrow> grows {tagsPath vp} s s'"
  using clean_sidecar[of vp]
  by (auto simp: archiveTags_def dest!: writeJSON_grows split: sum.splits prod.splits option.splits if_splits)

text \<open>Either there is no body to copy, or its bytes and the metadata are in the archive.\<close>

lemma archiveAs_effect:
  assumes "archiveAs vp p m s = (Inr x, s')" and "clean_path vp"
  shows "grows {vp, metaPath vp, tagsPath vp} s s' \<and> ((\<exists>t. grows {} s t \<and> rootOpen t p = Inl ENotExist)
    \<or> (\<exists>b t. look s' vp = Some (File (Some (Raw b))) \<and> readFrom t p = (b, True) \<and> grows {vp} s t
         \<and> look s' (metaPath vp) = Some (File (Some (JMeta (m\<lparr>o_NoncurrentSince := Some (s3_clock s)\<rparr>))))))"
proof -
  from assms(1) obtain s1 where mk: "mkdirAll (butlast vp) s = (None, s1)"
    by (auto simp: archiveAs_def bindS_Inr fileErr_Inr)
  then have g: "grows {} s s1" using mkdirAll_grows[OF mk] clean_butlast[OF assms(2)] by simp
  show ?thesis
  proof (cases "rootOpen s1 p")
    case (Inl e)
    then have "e = ENotExist \<and> s' = s1" using assms(1) mk by (auto simp: archiveAs_def bindS_Inr fileErr_Inr split: if_splits)
    then show ?thesis using g Inl grows_mono[OF g, of "{vp, metaPath vp, tagsPath vp}"] by auto
  next
    case (Inr n)
    with assms(1) mk obtain t where op: "openFile vp s1 = (None, t)"
      and k: "(case ioCopy vp (RFiles [p]) t of (r, s) \<Rightarrow>
               (case (case r of Inl e \<Rightarrow> Some e | Inr _ \<Rightarrow> closeFile vp s) of
                  Some e \<Rightarrow> (Inl (ErrFile e), tryRemove vp s)
                | None \<Rightarrow>
                    (case writeJSON_s3 (metaPath vp) (JMeta (m\<lparr>o_NoncurrentSince := Some (s3_clock s)\<rparr>)) s of
                       (Some e, s) \<Rightarrow> (Inl (ErrFile e), tryRemove vp s)
                     | (None, s) \<Rightarrow> archiveTags p vp s))) = (Inr x, s')"
      by (auto simp: archiveAs_def bindS_Inr fileErr_Inr)
    from k op obtain b u v where st: "openFile vp s1 = (None, t)" "ioCopy vp (RFiles [p]) t = (Inr b, u)"
      "writeJSON_s3 (metaPath vp) (JMeta (m\<lparr>o_NoncurrentSince := Some (s3_clock u)\<rparr>)) u = (None, v)"
      "archiveTags p vp v = (Inr x, s')"
      by (auto split: prod.split_asm sum.split_asm option.split_asm)
    from openFile_grows[OF st(1) assms(2)] have o: "grows {vp} s1 t" "look t vp = Some (File (Some (Raw [])))" "\<not> escapes vp" "vp \<noteq> []"
      by auto
    from ioCopy_grows[OF st(2) assms(2) o(3,4,2)] have c: "grows {vp} t u" "look u vp = Some (File (Some (Raw b)))"
      "readAll t (RFiles [p]) = (b, True)" by auto
    from writeJSON_grows[OF st(3)] clean_sidecar[OF assms(2)]
    have w: "grows {metaPath vp} u v" "look v (metaPath vp) = Some (File (Some (JMeta (m\<lparr>o_NoncurrentSince := Some (s3_clock u)\<rparr>))))"
      by auto
    from archiveTags_grows[OF st(4) assms(2)] have t: "grows {tagsPath vp} v s'" .
    have st: "grows {vp} s t" using grows_trans[OF g o(1)] by simp
    have "grows {vp, metaPath vp, tagsPath vp} s s'"
      using grows_trans[OF grows_trans[OF grows_trans[OF st c(1)] w(1)] t] by (simp add: insert_commute)
    moreover have "look s' vp = Some (File (Some (Raw b)))" using growsD(7)[OF t] growsD(7)[OF w(1)] c(2) by simp
    moreover have "look s' (metaPath vp) = Some (File (Some (JMeta (m\<lparr>o_NoncurrentSince := Some (s3_clock s)\<rparr>))))"
      using growsD(7)[OF t] w(2) growsD(4)[OF c(1)] growsD(4)[OF st] by simp
    moreover have "readFrom t p = (b, True)" using c(3) by (auto simp: readAll_def split: prod.splits bool.splits)
    ultimately show ?thesis using st by blast
  qed
qed

lemma archive_effect:
  assumes "archiveCurrentVersionLocked b k p s = (Inr x, s')"
  shows "grows (archive b k) s s'"
proof (cases "readMeta s p")
  case (Inl e)
  then show ?thesis using assms by (auto simp: archiveCurrentVersionLocked_def split: if_splits)
next
  case (Inr m)
  then obtain vid t where v: "(if o_VersionID m = [] then newVersionID s else (Inr (o_VersionID m), s)) = (Inr vid, t)"
    and a: "archiveAs (verPath b k vid) p (m\<lparr>o_VersionID := vid\<rparr>) t = (Inr x, s')"
    using assms unfolding archiveCurrentVersionLocked_def by (simp add: bindS_Inr) blast
  then have t: "grows {} s t" by (auto split: if_splits dest!: newVersionID_grows)
  have "grows (versionFiles b k vid) t s'" using archiveAs_effect[OF a] by (simp add: versionFiles_def)
  from grows_trans[OF t this] show ?thesis by (rule grows_mono) (auto simp: archive_def)
qed

lemma nextVersion_grows: "nextVersion b k p s = (Inr v, s') \<Longrightarrow> grows (archive b k) s s'"
  by (auto simp: nextVersion_def bindS_Inr split: sum.splits bool.splits
      dest!: archive_effect newVersionID_grows intro: grows_then grows_mono[of "{}"])

lemma ensureDir_grows: "ensureDir b p s = (Inr u, s') \<Longrightarrow> clean_path p \<Longrightarrow> grows {} s s'"
  by (auto simp: ensureDir_def fileErr_Inr clean_butlast dest!: mkdirAll_grows split: if_splits)

text \<open>The object and its metadata after a successful write, the bytes being those read after the file was emptied.\<close>

lemma writeObject_effect:
  assumes "writeObject p r etag v po s = (Inr m, s')" and "clean_path p"
  shows "grows {p, metaPath p} s s' \<and> p \<noteq> [] \<and> (\<exists>b t. grows {p} s t \<and> look t p = Some (File (Some (Raw [])))
    \<and> readAll t r = (b, True) \<and> look s' p = Some (File (Some (Raw b))) \<and> look s' (metaPath p) = Some (File (Some (JMeta m)))
    \<and> m = newObjectMeta po (if etag = [] then quoted (hex (md5 (lib s) b)) else etag) (s3_clock s) (int (length b)) v)"
proof -
  from assms(1) obtain t where op: "openFile p s = (None, t)"
    and k: "(case ioCopy p r t of
         (Inl e, s) \<Rightarrow> (Inl (ErrFile e), s)
       | (Inr b, s) \<Rightarrow>
           let tag = (if etag = [] then quoted (hex (md5 (lib s) b)) else etag);
               m = newObjectMeta po tag (s3_clock s) (int (length b)) v
           in (case writeMeta p m s of
                 (Some e, s) \<Rightarrow> (Inl (ErrFile e), tryRemove p s)
               | (None, s) \<Rightarrow>
                   (case closeFile p s of Some e \<Rightarrow> (Inl (ErrFile e), s) | None \<Rightarrow> (Inr m, s)))) = (Inr m, s')"
    by (auto simp: writeObject_def bindS_Inr fileErr_Inr)
  from k op obtain b u where st: "openFile p s = (None, t)" "ioCopy p r t = (Inr b, u)"
    "writeMeta p m u = (None, s')"
    "m = newObjectMeta po (if etag = [] then quoted (hex (md5 (lib u) b)) else etag) (s3_clock u) (int (length b)) v"
    by (auto simp: Let_def split: prod.split_asm sum.split_asm option.split_asm)
  from openFile_grows[OF st(1) assms(2)] have o: "grows {p} s t" "look t p = Some (File (Some (Raw [])))" "\<not> escapes p" "p \<noteq> []"
    by auto
  from ioCopy_grows[OF st(2) assms(2) o(3,4,2)] have c: "grows {p} t u" "look u p = Some (File (Some (Raw b)))"
    "readAll t r = (b, True)" by auto
  from writeJSON_grows[of "metaPath p"] st(3) clean_sidecar[OF assms(2)]
  have w: "grows {metaPath p} u s'" "look s' (metaPath p) = Some (File (Some (JMeta m)))" unfolding writeMeta_def by auto
  have "grows {p, metaPath p} s s'" using grows_trans[OF grows_trans[OF o(1) c(1)] w(1)] by (simp add: insert_commute)
  moreover have "look s' p = Some (File (Some (Raw b)))" using growsD(7)[OF w(1)] c(2) by simp
  moreover have "lib u = lib s" "s3_clock u = s3_clock s" by (simp_all add: growsD(3,4)[OF c(1)] growsD(3,4)[OF o(1)])
  ultimately show ?thesis using o c w st(4) by auto
qed

lemma marker_effect:
  assumes "writeDeleteMarker p v s = (Inr (v', x), s')" and "clean_path p"
  shows "grows {p, metaPath p} s s' \<and> look s' (metaPath p) = Some (File (Some (JMeta (noObjectMetadata
    \<lparr>o_LastModified := s3_clock s, o_VersionID := v, o_IsDeleteMarker := True\<rparr>))))"
proof -
  from assms(1) obtain t where st: "openFile p s = (None, t)"
    "writeMeta p (noObjectMetadata\<lparr>o_LastModified := s3_clock t, o_VersionID := v, o_IsDeleteMarker := True\<rparr>) t = (None, s')"
    by (auto simp: writeDeleteMarker_def bindS_Inr fileErr_Inr split: option.split_asm prod.split_asm)
  from openFile_grows[OF st(1) assms(2)] have o: "grows {p} s t" by simp
  from writeJSON_grows[OF st(2)[unfolded writeMeta_def]] clean_sidecar[OF assms(2)] grows_trans[OF o] growsD(4)[OF o]
  show ?thesis by (simp add: insert_commute)
qed

lemma putObject_effect:
  assumes "PutObject b k r po s = (Inr m, s')"
  shows "\<exists>t v. grows (archive b k) s t \<and> writeObject (objPathOf b k) r [] v (defaultRetention s b po) t = (Inr m, s')
    \<and> bucketExistsLocked s b \<and> (\<exists>u. grows {} s u \<and> nextVersion b k (objPathOf b k) u = (Inr v, t))"
proof -
  from assms obtain u v t where st: "bucketExistsLocked s b" "ensureDir b (objPathOf b k) s = (Inr (), u)"
    "nextVersion b k (objPathOf b k) u = (Inr v, t)"
    "writeObject (objPathOf b k) r [] v (defaultRetention s b po) t = (Inr m, s')"
    by (auto simp: PutObject_def bindS_Inr Let_def split: if_splits)
  from ensureDir_grows[OF st(2)] have g: "grows {} s u" by simp
  from grows_trans[OF g nextVersion_grows[OF st(3)]] have "grows (archive b k) s t" by simp
  with st g show ?thesis by blast
qed

end
