(* ===== verification/S3_Demo.thy ===== *)
theory S3_Demo
  imports S3_Frame
begin

text \<open>
  A small storage on which the theorems are applied: a bucket \<open>b\<close> with versions that holds one object \<open>k\<close> in
  version \<open>v0\<close>, on a disk without faults. MD5 is stood for by the first two bytes; the other
  fields of the library are the ones that refuse foreign text.
\<close>

definition demo_lib :: s3lib where
  "demo_lib = \<lparr>md5 = take 2, json_text = (\<lambda>_. [0]), json_meta = (\<lambda>_. None), json_tags = (\<lambda>_. None),
     json_bucket = (\<lambda>_. None), json_upload = (\<lambda>_. None), json_part = (\<lambda>_. None),
     xml_lock = (\<lambda>x. if x = objectLockEnabledXML then Some ''Enabled'' else None), xml_retention = (\<lambda>_. None),
     xml_lifecycle = (\<lambda>_. None), xml_replication = (\<lambda>_. None)\<rparr>"

definition demo_object :: ObjectMetadata where
  "demo_object = noObjectMetadata\<lparr>o_ETag := ''e'', o_Size := 2, o_VersionID := ''v0''\<rparr>"

definition demo_s3 :: s3 where
  "demo_s3 = \<lparr>d_fs = [([''b''], Dir),
       ([''b.bucket.json''], File (Some (JBucket (noBucketMeta\<lparr>b_VersioningStatus := ''Enabled''\<rparr>)))),
       ([''b'', ''k''], File (Some (Raw [1, 2]))), ([''b'', ''k.meta.json''], File (Some (JMeta demo_object)))],
     d_fault = (\<lambda>_ _. False), lib = demo_lib, s3_rand = [Some [1, 2, 3, 4, 5, 6, 7, 8], Some [9]],
     s3_clock = 5, short = (\<lambda>_ _. 0)\<rparr>"

definition demo_opts :: putOpts where
  "demo_opts = \<lparr>po_contentType = ''text/plain'', po_userMetadata = None, po_sseAlgorithm = [], po_sseKMSKeyID = [],
     po_sseBucketKeyEnabled = False, po_ssecKeyMD5 = [], po_retention = None, po_legalHold = None, po_storageClass = []\<rparr>"

lemma s3_quiet: "quiet demo_s3"
  by (simp add: quiet_def demo_s3_def)

lemma s3_wf: "disk_wf demo_s3"
  by (auto simp: disk_wf_def demo_s3_def look_def plain_elem_def split: if_splits)

lemma s3_plain: "plain_elem ''b''" "plain_elem ''v0''"
  by (simp_all add: plain_elem_def)

lemma s3_key: "plain_key ''k''"
  by (simp add: plain_key_def filepath_Join_def clean_step_def plain_elem_def)

lemmas s3_facts = s3_wf s3_quiet s3_plain s3_key

lemma result_of: "(case fst x of Inr a \<Rightarrow> P a | Inl _ \<Rightarrow> False) \<Longrightarrow> \<exists>a. x = (Inr a, snd x) \<and> P a"
  by (cases x) (auto split: sum.splits)

end
