(* ===== verification/S3_Object_Theorems.thy ===== *)
theory S3_Object_Theorems
  imports S3_Demo
begin

text \<open>
  What a client reads after a write: the object that was put, and the version that it replaced.
\<close>

section \<open>The object that was put\<close>

lemma get_file:
  assumes "disk_wf s" and "quiet s" and "look s (bucketPath b) = Some Dir"
    and "look s (objPathOf b k) = Some (File (Some c))" and "look s (metaPath (objPathOf b k)) = Some (File (Some (JMeta m)))"
    and "\<not> o_IsDeleteMarker m"
  shows "GetObject b k s = Inr ((content_bytes s c, True), m)"
  using assms by (simp add: GetObject_def quiet_stat readMeta_JMeta orMissing_def openHandle_file)



section \<open>The version that was replaced\<close>

lemma get_Inr:
  assumes "disk_wf s" and "quiet s" and "GetObject b k s = Inr ((c, True), m)"
  shows "readMeta s (objPathOf b k) = Inr m \<and> \<not> o_IsDeleteMarker m \<and> look s (bucketPath b) = Some Dir
    \<and> (\<exists>x. look s (objPathOf b k) = Some (File (Some x)) \<and> content_bytes s x = c)"
  using assms
  by (auto simp: GetObject_def Let_def quiet_stat openHandle_def readFrom_def
      split: if_splits sum.splits option.splits node.splits)

text \<open>Once the current version is archived, it is found under its id until a file of it is touched.\<close>

lemma archived_version:
  assumes "disk_wf s" and "quiet s" and "plain_elem b" and "plain_key k" and "plain_elem v"
    and "GetObject b k s = Inr ((c, True), m0)" and "o_VersionID m0 = v"
    and "grows {} s u" and "archiveCurrentVersionLocked b k (objPathOf b k) u = (Inr x, t)"
    and "grows {objPathOf b k, metaPath (objPathOf b k)} t s'"
    and "look s' (metaPath (objPathOf b k)) = Some (File (Some (JMeta m)))" and "o_VersionID m \<noteq> v"
  shows "GetObjectVersion b k v s' = Inr ((c, True), m0\<lparr>o_NoncurrentSince := Some (s3_clock s)\<rparr>)"
proof -
  let ?p = "objPathOf b k" and ?vp = "verPath b k v"
  from get_Inr[OF assms(1,2,6)] obtain y where y: "readMeta s ?p = Inr m0" "\<not> o_IsDeleteMarker m0"
    "look s (bucketPath b) = Some Dir" "look s ?p = Some (File (Some y))" "content_bytes s y = c" by blast
  have u: "disk_wf u" "quiet u" "lib u = lib s" "s3_clock u = s3_clock s"
    using growsD(1,3,4)[OF assms(8)] grows_quiet[OF assms(8)] assms(1,2) by auto
  have p: "?p \<noteq> ?vp" "?p \<notin> versionFiles b k v" "metaPath ?p \<notin> versionFiles b k v"
    using version_paths_disjoint[OF assms(3-5)] by (auto simp: versionFiles_def)
  have "readMeta u ?p = Inr m0"
    using y(1) growsD(7)[OF assms(8), of "metaPath ?p"] decodeMeta_lib[OF u(3)]
    by (auto simp: readMeta_def readJSON_s3_Inr assms(1,2) u(1,2))
  with assms(5,7,9) have a: "archiveAs ?vp ?p m0 u = (Inr x, t)"
    by (auto simp: archiveCurrentVersionLocked_def bindS_def plain_elem_def)
  have there: "rootOpen w ?p = Inr (File (Some y))" if "grows W u w" "?p \<notin> W" for w W
    using growsD(1,7)[OF that(1)] grows_quiet[OF that(1)] that(2) u growsD(7)[OF assms(8), of ?p] y(4) by (simp add: quiet_open)
  from archiveAs_effect[OF a] obtain d w where e: "grows (versionFiles b k v) u t"
    "look t ?vp = Some (File (Some (Raw d)))" "readFrom w ?p = (d, True)" "grows {?vp} u w"
    "look t (metaPath ?vp) = Some (File (Some (JMeta (m0\<lparr>o_NoncurrentSince := Some (s3_clock s)\<rparr>))))"
    using there[of "{}"] u(4) by (fastforce simp: versionFiles_def)
  have "look w ?p = Some (File (Some y))" using growsD(7)[OF e(4)] growsD(7)[OF assms(8), of ?p] y(4) p(1) by simp
  then have "d = content_bytes w y" using e(3) by (simp add: readFrom_def split: if_splits)
  then have d: "d = c" using content_bytes_lib[of w s y] growsD(3)[OF e(4)] u(3) y(5) by simp
  note g = grows_trans[OF grows_trans[OF assms(8) e(1)] assms(10)]
  have s': "disk_wf s'" "quiet s'" using growsD(1)[OF g] grows_quiet[OF g] assms(1,2) by auto
  have "look s' ?vp = Some (File (Some (Raw c)))" "look s' (metaPath ?vp) = Some (File (Some (JMeta (m0\<lparr>o_NoncurrentSince := Some (s3_clock s)\<rparr>))))"
    using growsD(7)[OF assms(10)] e(2,5) d version_paths_disjoint[OF assms(3-5)] by (auto simp: versionFiles_def)
  moreover have "look s' (bucketPath b) = Some Dir" by (rule growsD(6)[OF g y(3)])
  ultimately show ?thesis using s' y(2) assms(11,12)
    by (simp add: GetObjectVersion_def versionPath_def quiet_stat readMeta_JMeta orMissing_def openHandle_file content_bytes_def)
qed

lemma nextVersion_enabled:
  assumes "isVersioningEnabledLocked s b = Inr True" and "disk_wf s" and "quiet s" and "grows {} s u"
    and "nextVersion b k p u = (Inr v, t)"
  shows "\<exists>w. archiveCurrentVersionLocked b k p u = (Inr (), w) \<and> grows {} w t"
proof -
  have u: "disk_wf u" "quiet u" "lib u = lib s"
    using growsD(1,3)[OF assms(4)] grows_quiet[OF assms(4)] assms(2,3) by auto
  from assms(1-3) obtain c m where "look s (bucketMetaPath b) = Some (File (Some c))" "decodeBucket s c = Some m" "b_VersioningStatus m = ''Enabled''"
    by (auto simp: isVersioningEnabledLocked_def readBucketMeta_def readJSON_s3_Inr split: sum.splits if_splits)
  then have "isVersioningEnabledLocked u b = Inr True"
    using growsD(7)[OF assms(4), of "bucketMetaPath b"] u
    by (cases c) (auto simp: isVersioningEnabledLocked_def readBucketMeta_def readJSON_s3_def quiet_read_file root_ReadFile_def
        quiet_def root_walk_Some decodeBucket_def content_bytes_def)
  then show ?thesis using assms(5) by (auto simp: nextVersion_def bindS_Inr dest!: newVersionID_grows)
qed

text \<open>
  C35. In a bucket with versions the current version of an object survives the object that is put over it:
  the version is still read under its id, with its bytes and its metadata, which now says since
  when it is noncurrent, and the new object is read under the new id.\<close>

theorem replaced_version_survives:
  assumes "disk_wf s" and "quiet s" and "plain_elem b" and "plain_key k" and "plain_elem v"
    and "isVersioningEnabledLocked s b = Inr True"
    and "GetObject b k s = Inr ((c, True), m0)" and "o_VersionID m0 = v"
    and "PutObject b k (RBody body True) po s = (Inr m, s')" and "o_VersionID m \<noteq> v"
  shows "GetObjectVersion b k v s' = Inr ((c, True), m0\<lparr>o_NoncurrentSince := Some (s3_clock s)\<rparr>)
    \<and> GetObjectVersion b k (o_VersionID m) s' = Inr ((body, True), m)"
proof -
  let ?p = "objPathOf b k"
  from putObject_effect[OF assms(9)] obtain t x u where t: "grows (archive b k) s t" and b: "bucketExistsLocked s b"
    and w: "writeObject ?p (RBody body True) [] x (defaultRetention s b po) t = (Inr m, s')"
    and u: "grows {} s u" and n: "nextVersion b k ?p u = (Inr x, t)" by blast
  from writeObject_effect[OF w] have e: "grows {?p, metaPath ?p} t s'" "look s' ?p = Some (File (Some (Raw body)))"
    "look s' (metaPath ?p) = Some (File (Some (JMeta m)))" "\<not> o_IsDeleteMarker m"
    by (auto simp: readAll_def newObjectMeta_def noObjectMetadata_def)
  from nextVersion_enabled[OF assms(6,1,2) u n] obtain z where z: "archiveCurrentVersionLocked b k ?p u = (Inr (), z)" "grows {} z t"
    by blast
  have "grows {?p, metaPath ?p} z s'" using grows_trans[OF z(2) e(1)] by simp
  from archived_version[OF assms(1-5,7,8) u z(1) this e(3) assms(10)]
  have "GetObjectVersion b k v s' = Inr ((c, True), m0\<lparr>o_NoncurrentSince := Some (s3_clock s)\<rparr>)" .
  moreover note g = grows_trans[OF t e(1)]
  have "disk_wf s'" "quiet s'" "look s' (bucketPath b) = Some Dir"
    using growsD(1,6)[OF g] grows_quiet[OF g] assms(1,2) b by (auto simp: quiet_stat)
  then have "GetObjectVersion b k (o_VersionID m) s' = Inr ((body, True), m)" using e
    by (simp add: GetObjectVersion_def versionPath_def quiet_stat readMeta_JMeta openHandle_file content_bytes_def)
  ultimately show ?thesis ..
qed

lemma demo_get: "GetObject ''b'' ''k'' demo_s3 = Inr (([1, 2], True), demo_object)"
  by code_simp

lemma demo_versioning: "isVersioningEnabledLocked demo_s3 ''b'' = Inr True"
  by code_simp

lemma demo_version: "o_VersionID demo_object = ''v0''"
  by code_simp

theorem replaced_version_survives_witness:
  "GetObjectVersion ''b'' ''k'' ''v0'' (snd (PutObject ''b'' ''k'' (RBody [7] True) demo_opts demo_s3))
     = Inr (([1, 2], True), demo_object\<lparr>o_NoncurrentSince := Some (s3_clock demo_s3)\<rparr>)"
proof -
  have "case fst (PutObject ''b'' ''k'' (RBody [7] True) demo_opts demo_s3) of Inr m \<Rightarrow> o_VersionID m \<noteq> ''v0'' | Inl _ \<Rightarrow> False"
    by code_simp
  from result_of[OF this] show ?thesis
    using replaced_version_survives[OF s3_wf s3_quiet s3_plain(1) s3_key s3_plain(2) demo_versioning demo_get demo_version] by blast
qed

text \<open>
  C36. Deleting an object of a bucket with versions hides it behind a delete marker and loses nothing: the key
  answers with the id of the marker, so does the marker's own id, and the version that was current
  is still read under its id with its bytes and its metadata.\<close>

theorem delete_marker_hides_version:
  assumes "disk_wf s" and "quiet s" and "plain_elem b" and "plain_key k" and "plain_elem v"
    and "isVersioningEnabledLocked s b = Inr True"
    and "GetObject b k s = Inr ((c, True), m0)" and "o_VersionID m0 = v"
    and "DeleteObjectVersioned b k bypass s = (Inr (new, marker), s')" and "new \<noteq> v"
  shows "marker \<and> GetObject b k s' = Inl (DeleteMarkerError new)
    \<and> GetObjectVersion b k new s' = Inl (DeleteMarkerError new)
    \<and> GetObjectVersion b k v s' = Inr ((c, True), m0\<lparr>o_NoncurrentSince := Some (s3_clock s)\<rparr>)"
proof -
  let ?p = "objPathOf b k"
  from assms(6,9) obtain t u x where b: "bucketExistsLocked s b" and t: "archiveCurrentVersionLocked b k ?p s = (Inr x, t)"
    and u: "newVersionID t = (Inr new, u)" and w: "writeDeleteMarker ?p new u = (Inr (new, marker), s')" and m: marker
    by (auto simp: DeleteObjectVersioned_def Let_def bindS_Inr writeDeleteMarker_def fileErr_Inr
        split: if_splits option.splits prod.splits)
  let ?m = "noObjectMetadata\<lparr>o_LastModified := s3_clock s, o_VersionID := new, o_IsDeleteMarker := True\<rparr>"
  have tu: "grows {} t u" using newVersionID_grows[OF u] by simp
  have su: "grows (archive b k) s u" using grows_trans[OF archive_effect[OF t] tu] by simp
  from marker_effect[OF w] growsD(4)[OF su]
  have e: "grows {?p, metaPath ?p} u s'" "look s' (metaPath ?p) = Some (File (Some (JMeta ?m)))" by simp_all
  have "grows {?p, metaPath ?p} t s'" using grows_trans[OF tu e(1)] by simp
  from archived_version[OF assms(1-5,7,8) _ t this e(2)] assms(10)
  have "GetObjectVersion b k v s' = Inr ((c, True), m0\<lparr>o_NoncurrentSince := Some (s3_clock s)\<rparr>)" by simp
  moreover note g = grows_trans[OF su e(1)]
  have s': "disk_wf s'" "quiet s'" "look s' (bucketPath b) = Some Dir"
    using growsD(1,6)[OF g] grows_quiet[OF g] assms(1,2) b by (auto simp: quiet_stat)
  then have "GetObject b k s' = Inl (DeleteMarkerError new)" "GetObjectVersion b k new s' = Inl (DeleteMarkerError new)"
    using readMeta_JMeta[OF s'(1,2) e(2)]
    by (simp_all add: GetObject_def GetObjectVersion_def versionPath_def quiet_stat orMissing_def Let_def)
  ultimately show ?thesis using m by blast
qed

theorem delete_marker_hides_version_witness:
  "GetObject ''b'' ''k'' (snd (DeleteObjectVersioned ''b'' ''k'' False demo_s3)) = Inl (DeleteMarkerError ''0102030405060708'')
    \<and> GetObjectVersion ''b'' ''k'' ''v0'' (snd (DeleteObjectVersioned ''b'' ''k'' False demo_s3))
     = Inr (([1, 2], True), demo_object\<lparr>o_NoncurrentSince := Some (s3_clock demo_s3)\<rparr>)"
proof -
  have "case fst (DeleteObjectVersioned ''b'' ''k'' False demo_s3) of Inr r \<Rightarrow> r = (''0102030405060708'', True) | Inl _ \<Rightarrow> False"
    by code_simp
  from result_of[OF this] show ?thesis
    using delete_marker_hides_version[OF s3_wf s3_quiet s3_plain(1) s3_key s3_plain(2) demo_versioning demo_get demo_version] by auto
qed

end
