(* ===== verification/S3_Lock_Theorems.thy ===== *)
theory S3_Lock_Theorems
  imports S3_Demo
begin

text \<open>
  Object lock: which versions a client cannot delete. The rule is stated on the metadata and the time
  alone (\<open>protects\<close>) and is compared with what the methods that delete objects do, on any disk.
\<close>

definition protects :: "ObjectMetadata \<Rightarrow> int \<Rightarrow> bool \<Rightarrow> bool" where
  "protects m now bypass \<longleftrightarrow>
     o_LegalHold m = Some \<lparr>h_Status = ''ON''\<rparr>
     \<or> (\<exists>r. o_Retention m = Some r \<and> now < r_RetainUntilDate r \<and> (r_Mode r = ''COMPLIANCE'' \<or> \<not> bypass))"

lemma check_protects:
  "readMeta s p = Inr m \<Longrightarrow> checkObjectLockLocked s p bypass = (if protects m (s3_clock s) bypass then Some ErrObjectLocked else None)"
  by (auto simp: checkObjectLockLocked_def protects_def split: option.splits)

lemma files_not_locked: "fst (deleteObjectFilesLocked p s) \<noteq> Inl ErrObjectLocked"
  by (auto simp: deleteObjectFilesLocked_def split: prod.splits option.splits)

lemma remove_not_locked: "fst (removeVersion b p x s) \<noteq> Inl ErrObjectLocked"
  by (auto simp: removeVersion_def bindS_def fileErr_def split: prod.splits sum.splits option.splits)

lemma versionPath_meta: "versionPath s b k v = Inr (p, m) \<Longrightarrow> readMeta s p = Inr m"
  by (auto simp: versionPath_def Let_def split: sum.splits if_splits)

lemma delete_version_locked:
  assumes "versionPath s b k v = Inr (p, m)" and "bucketExistsLocked s b" and "\<not> o_IsDeleteMarker m"
  shows "DeleteObjectVersion b k v bypass s = (Inl ErrObjectLocked, s) \<longleftrightarrow> protects m (s3_clock s) bypass"
    and "fst (DeleteObjectVersion b k v bypass s) = Inl ErrObjectLocked \<longleftrightarrow> protects m (s3_clock s) bypass"
proof -
  consider (cur) "readMeta s (objPathOf b k) = Inr m" "o_VersionID m = v"
    | (arc) "readMeta s (verPath b k v) = Inr m" "\<forall>cm. readMeta s (objPathOf b k) = Inr cm \<longrightarrow> o_VersionID cm \<noteq> v"
    using assms(1) by (auto simp: versionPath_def Let_def split: sum.splits if_splits)
  then have r: "DeleteObjectVersion b k v bypass s =
      (if protects m (s3_clock s) bypass then (Inl ErrObjectLocked, s) else DeleteObjectVersion b k v bypass s)
    \<and> (\<not> protects m (s3_clock s) bypass \<longrightarrow> fst (DeleteObjectVersion b k v bypass s) \<noteq> Inl ErrObjectLocked)"
  proof cases
    case cur
    then show ?thesis using assms(2,3) check_protects[OF cur(1)] files_not_locked[of "objPathOf b k" s]
      by (auto simp: DeleteObjectVersion_def Let_def split: prod.splits sum.splits)
  next
    case arc
    then show ?thesis using assms(2,3) check_protects[OF arc(1)] remove_not_locked[of b "verPath b k v" False s]
      by (auto simp: DeleteObjectVersion_def Let_def orMissing_def split: prod.splits sum.splits)
  qed
  then show "fst (DeleteObjectVersion b k v bypass s) = Inl ErrObjectLocked \<longleftrightarrow> protects m (s3_clock s) bypass"
    by (metis fst_conv)
  from r show "DeleteObjectVersion b k v bypass s = (Inl ErrObjectLocked, s) \<longleftrightarrow> protects m (s3_clock s) bypass"
    by (metis fst_conv)
qed

text \<open>
  C37. A version under a legal hold, or under a retention that has not ended, cannot be deleted: \<open>DeleteObjectVersion\<close>
  answers \<open>ErrObjectLocked\<close> exactly for such versions, current or archived, and changes nothing then; a governance
  retention gives way to the bypass privilege, a compliance retention and a legal hold do not. The
  same holds for \<open>DeleteObject\<close> of the current version, and for the deletion in a bucket without versions.\<close>

theorem locked_version_not_deleted:
  assumes "bucketExistsLocked s b" and "versionPath s b k v = Inr (p, m)" and "\<not> o_IsDeleteMarker m"
  shows "(fst (DeleteObjectVersion b k v bypass s) = Inl ErrObjectLocked \<longleftrightarrow> protects m (s3_clock s) bypass)
    \<and> (protects m (s3_clock s) bypass \<longrightarrow> DeleteObjectVersion b k v bypass s = (Inl ErrObjectLocked, s))
    \<and> (protects m (s3_clock s) bypass \<and> p = objPathOf b k \<longrightarrow>
         DeleteObject b k bypass s = (Inl ErrObjectLocked, s)
         \<and> (isVersioningEnabledLocked s b = Inr False \<longrightarrow> DeleteObjectVersioned b k bypass s = (Inl ErrObjectLocked, s)))"
  using delete_version_locked[OF assms(2,1,3)] assms(1) check_protects[OF versionPath_meta[OF assms(2)], of bypass]
  by (auto simp: DeleteObject_def DeleteObjectVersioned_def Let_def)

definition demo_locked :: s3 where
  "demo_locked = snd (PutObjectRetention ''b'' ''k'' ''v0'' \<lparr>r_Mode = ''COMPLIANCE'', r_RetainUntilDate = 9\<rparr> demo_s3)"

theorem locked_version_not_deleted_witness:
  "DeleteObjectVersion ''b'' ''k'' ''v0'' True demo_locked = (Inl ErrObjectLocked, demo_locked)"
proof -
  have b: "bucketExistsLocked demo_locked ''b''" by code_simp
  have v: "versionPath demo_locked ''b'' ''k'' ''v0'' = Inr ([''b'', ''k''],
      demo_object\<lparr>o_Retention := Some \<lparr>r_Mode = ''COMPLIANCE'', r_RetainUntilDate = 9\<rparr>\<rparr>)" by code_simp
  have c: "s3_clock demo_locked = 5" by code_simp
  show ?thesis using locked_version_not_deleted[OF b v] c
    by (simp add: protects_def demo_object_def noObjectMetadata_def)
qed

end
