(* ===== verification/S3_Multipart_Theorems.thy ===== *)
theory S3_Multipart_Theorems
  imports S3_Object_Theorems
begin

text \<open>
  A completed multipart upload is the object made of its parts, in the order of their numbers, and the
  upload is gone. The files of an upload lie below \<open>.mpu\<close>, so the object is separate from them when its
  bucket has another name.
\<close>

section \<open>Operations within a bucket\<close>

definition within :: "string \<Rightarrow> s3 \<Rightarrow> s3 \<Rightarrow> bool" where
  "within b s s' \<longleftrightarrow> (\<forall>q. take 1 q \<noteq> [b] \<longrightarrow> look s' q = look s q)"

lemma within_refl [simp]: "within b s s"
  by (simp add: within_def)

lemma within_trans: "within b s t \<Longrightarrow> within b t u \<Longrightarrow> within b s u"
  by (simp add: within_def)

lemma within_bind: "within b s (snd r) \<Longrightarrow> (\<And>a t. within b t (snd (k a t))) \<Longrightarrow> within b s (snd (bindS r k))"
  using within_trans by (cases r) (auto simp: bindS_def split: sum.splits)

lemma within_fileErr: "within b s (snd r) \<Longrightarrow> within b s (snd (fileErr r))"
  by (cases r) (auto simp: fileErr_def split: option.splits)

lemma within_put [simp]: "take 1 p = [b] \<Longrightarrow> within b s (put p n s)"
  by (auto simp: within_def fs_simps)

lemma within_del [simp]: "take 1 p = [b] \<Longrightarrow> within b s (del p s)"
  by (auto simp: within_def fs_simps)

lemma take1_sidecar [simp]: "take 1 p = [b] \<Longrightarrow> tl p \<noteq> [] \<Longrightarrow> take 1 (metaPath p) = [b] \<and> take 1 (tagsPath p) = [b]"
  by (cases p) (auto simp: metaPath_def tagsPath_def addSuffix_def)

lemma within_files:
  assumes "take 1 p = [b]"
  shows "within b s (snd (openFile p s))" "within b s (snd (fileWrite p c s))" "within b s (snd (ioCopy p r s))"
    "within b s (snd (root_Mkdir p s))" "within b s (snd (root_Remove p s))" "within b s (tryRemove p s)"
    "within b s (snd (removeExisting p s))"
proof -
  show rm: "within b s (snd (root_Remove p s))"
    using assms by (auto simp: root_Remove_def split: sum.splits node.splits)
  show "within b s (snd (openFile p s))" "within b s (snd (fileWrite p c s))" "within b s (snd (ioCopy p r s))"
    "within b s (snd (root_Mkdir p s))"
    using assms by (auto simp: openFile_def fileWrite_def ioCopy_def root_Mkdir_def
        split: sum.splits node.splits prod.splits option.splits)
  show "within b s (tryRemove p s)" "within b s (snd (removeExisting p s))"
    using rm by (auto simp: tryRemove_def removeExisting_def split: prod.splits)
qed

lemma within_writeJSON: "take 1 p = [b] \<Longrightarrow> within b s (snd (writeJSON_s3 p c s))"
  using within_files(1)[of p b s] within_files(2)[of p b "snd (openFile p s)" c] within_trans
  by (fastforce simp: writeJSON_s3_def split: prod.splits option.splits)

lemma within_mkdirs: "take 1 (p @ xs) = [b] \<Longrightarrow> within b s (snd (mkdirs p xs s))"
proof (induction p xs s rule: mkdirs.induct)
  case (2 p x xs s)
  have t: "take 1 (p @ [x]) = [b]" using 2(3) by (cases p) auto
  obtain r u where m: "root_Mkdir (p @ [x]) s = (r, u)" by (cases "root_Mkdir (p @ [x]) s")
  have "within b s u" using within_files(4)[OF t, of s] m by simp
  then show ?case using 2 t m within_trans by (auto split: option.splits node.splits)
qed simp

lemma within_mkdirAll: "p = [] \<or> take 1 p = [b] \<Longrightarrow> within b s (snd (mkdirAll p s))"
  using within_mkdirs[of "[]" p b s] by (auto simp: mkdirAll_def)

lemma within_rand: "within b s (snd (randRead_s3 n s))"
  by (auto simp: within_def randRead_s3_def look_def split: list.splits option.splits)

lemma within_newVersionID: "within b s (snd (newVersionID s))"
  unfolding newVersionID_def by (rule within_bind[OF within_rand]) simp

lemma within_removes: "within b s t \<Longrightarrow> take 1 p = [b] \<Longrightarrow> within b s (tryRemove p t)"
  using within_trans within_files(6) by blast

lemma within_archiveTags:
  assumes "take 1 vp = [b]" and "tl vp \<noteq> []"
  shows "within b s (snd (archiveTags p vp s))"
  using within_writeJSON[of "tagsPath vp" b s] take1_sidecar[OF assms] assms(1)
  by (auto simp: archiveTags_def split: sum.splits prod.splits option.splits intro!: within_removes)
    (metis snd_conv)+

lemma within_archiveAs:
  assumes "take 1 vp = [b]" and "tl vp \<noteq> []"
  shows "within b s (snd (archiveAs vp p m s))"
proof -
  have mk: "within b u (snd (fileErr (mkdirAll (butlast vp) u)))" for u
    using assms by (intro within_fileErr within_mkdirAll) (cases vp, auto)
  have op: "within b u (snd (fileErr (openFile vp u)))" for u
    using within_fileErr[OF within_files(1)[OF assms(1)]] .
  have "within b u (snd (case ioCopy vp (RFiles [p]) u of (r, s) \<Rightarrow>
           (case (case r of Inl e \<Rightarrow> Some e | Inr _ \<Rightarrow> closeFile vp s) of
              Some e \<Rightarrow> (Inl (ErrFile e), tryRemove vp s)
            | None \<Rightarrow>
                (case writeJSON_s3 (metaPath vp) (JMeta (m\<lparr>o_NoncurrentSince := Some (s3_clock s)\<rparr>)) s of
                   (Some e, s) \<Rightarrow> (Inl (ErrFile e), tryRemove vp s)
                 | (None, s) \<Rightarrow> archiveTags p vp s))))" for u
  proof -
    obtain r w where c: "ioCopy vp (RFiles [p]) u = (r, w)" by (cases "ioCopy vp (RFiles [p]) u")
    then have w: "within b u w" using within_files(3)[OF assms(1), of u "RFiles [p]"] by simp
    obtain e x where j: "writeJSON_s3 (metaPath vp) (JMeta (m\<lparr>o_NoncurrentSince := Some (s3_clock w)\<rparr>)) w = (e, x)"
      by (cases "writeJSON_s3 (metaPath vp) (JMeta (m\<lparr>o_NoncurrentSince := Some (s3_clock w)\<rparr>)) w")
    then have x: "within b u x" using within_writeJSON[of "metaPath vp" b w] take1_sidecar[OF assms] within_trans[OF w] by (metis snd_conv)
    show ?thesis using c j within_removes[OF w assms(1)] within_removes[OF x assms(1)]
        within_trans[OF x within_archiveTags[OF assms]]
      by (auto split: option.splits)
  qed
  then show ?thesis unfolding archiveAs_def
    by (intro within_bind[OF mk]) (auto intro!: within_bind[OF op] split: sum.splits)
qed

text \<open>The version ids in use are single path elements: hexadecimal, or what the metadata holds.\<close>

definition sound_id :: "s3 \<Rightarrow> path \<Rightarrow> bool" where
  "sound_id s p \<longleftrightarrow> (\<forall>m. readMeta s p = Inr m \<longrightarrow> o_VersionID m = [] \<or> plain_elem (o_VersionID m))"

lemma plain_hex: "length bs = 8 \<Longrightarrow> plain_elem (hex bs)"
proof -
  assume l: "length bs = 8"
  then have "length (hex bs) = 16" by simp
  then have "hex bs \<noteq> []" "hex bs \<noteq> ''.''" "hex bs \<noteq> ''..''" by (auto simp del: length_hex)
  moreover have "CHR ''/'' \<notin> set (hex bs)" using hex_all_hexdig[of "CHR ''/''" bs] by (auto simp: is_hexdig_def)
  ultimately show ?thesis by (simp add: plain_elem_def)
qed

lemma newVersionID_plain: "newVersionID s = (Inr v, s') \<Longrightarrow> plain_elem v"
  by (auto simp: newVersionID_def bindS_Inr randRead_s3_def intro!: plain_hex split: list.splits option.splits)

lemma within_archive:
  assumes "plain_elem b" and "plain_key k" and "sound_id s p"
  shows "within b s (snd (archiveCurrentVersionLocked b k p s))"
proof (cases "readMeta s p")
  case (Inl e)
  then show ?thesis by (simp add: archiveCurrentVersionLocked_def)
next
  case (Inr m)
  have v: "within b t (snd (archiveAs (verPath b k v) p m' t))" if "plain_elem v" for v m' t
    using object_paths(2)[OF assms(1,2) that] by (intro within_archiveAs) auto
  show ?thesis
  proof (cases "o_VersionID m = []")
    case True
    obtain r t where n: "newVersionID s = (r, t)" by (cases "newVersionID s")
    then have "within b s t" using within_newVersionID[of b s] by simp
    then show ?thesis using Inr True n v within_trans newVersionID_plain[of s _ t]
      by (cases r) (auto simp: archiveCurrentVersionLocked_def bindS_def)
  next
    case False
    then show ?thesis using Inr v assms(3) by (auto simp: archiveCurrentVersionLocked_def bindS_def sound_id_def)
  qed
qed

lemma within_nextVersion:
  assumes "plain_elem b" and "plain_key k" and "sound_id s p"
  shows "within b s (snd (nextVersion b k p s))"
  using within_bind[OF within_archive[OF assms], of "\<lambda>_ s. newVersionID s"] within_newVersionID
  by (auto simp: nextVersion_def split: sum.splits bool.splits)

lemma within_writeObject:
  assumes "take 1 p = [b]" and "tl p \<noteq> []"
  shows "within b s (snd (writeObject p r etag v po s))"
proof -
  have op: "within b u (snd (fileErr (openFile p u)))" for u
    using within_fileErr[OF within_files(1)[OF assms(1)]] .
  have "within b u (snd (case ioCopy p r u of
         (Inl e, s) \<Rightarrow> (Inl (ErrFile e), s)
       | (Inr c, s) \<Rightarrow>
           let tag = (if etag = [] then quoted (hex (md5 (lib s) c)) else etag);
               m = newObjectMeta po tag (s3_clock s) (int (length c)) v
           in (case writeMeta p m s of
                 (Some e, s) \<Rightarrow> (Inl (ErrFile e), tryRemove p s)
               | (None, s) \<Rightarrow>
                   (case closeFile p s of Some e \<Rightarrow> (Inl (ErrFile e), s) | None \<Rightarrow> (Inr m, s)))))" for u
  proof -
    obtain x w where c: "ioCopy p r u = (x, w)" by (cases "ioCopy p r u")
    then have w: "within b u w" using within_files(3)[OF assms(1), of u r] by simp
    have j: "within b u y" if "writeMeta p m w = (e, y)" for m e y
      using within_writeJSON[of "metaPath p" b w "JMeta m"] take1_sidecar[OF assms] within_trans[OF w] that
      by (simp add: writeMeta_def)
    show ?thesis using c w j within_removes[OF j assms(1)] by (auto simp: Let_def split: sum.splits prod.splits option.splits)
  qed
  then show ?thesis unfolding writeObject_def by (intro within_bind[OF op])
qed

section \<open>Paths of uploads\<close>

lemma digit_plain: "k < 10 \<Longrightarrow> CHR ''/'' \<noteq> char_of (48 + k :: nat)"
proof
  assume k: "k < 10" and e: "CHR ''/'' = char_of (48 + k)"
  have "(of_char (CHR ''/'') :: nat) = of_char (char_of (48 + k) :: char)" using e by (rule arg_cong)
  with k show False by simp
qed

lemma nat_str_plain: "CHR ''/'' \<notin> set (nat_str m)"
proof -
  obtain c where c: "c = CHR ''/''" by simp
  have "c \<notin> set (nat_str m)"
  proof (induction m rule: nat_str.induct)
    case (1 n)
    then show ?case using digit_plain[folded c] by (subst nat_str.simps) auto
  qed
  then show ?thesis by (simp add: c)
qed

lemma upload_paths:
  assumes "plain_elem i"
  shows "uploadDir i = [''.mpu'', i]" "uploadJSON i = [''.mpu'', i, ''upload.json'']"
    "partPath i n = [''.mpu'', i, strconv_Itoa n @ ''.part'']"
proof -
  have "plain_elem (strconv_Itoa n @ ''.part'')"
    using nat_str_plain by (auto simp: plain_elem_def strconv_Itoa_def append_eq_Cons_conv)
  with assms show "uploadDir i = [''.mpu'', i]" "uploadJSON i = [''.mpu'', i, ''upload.json'']"
    "partPath i n = [''.mpu'', i, strconv_Itoa n @ ''.part'']"
    unfolding uploadDir_def uploadJSON_def partPath_def mpuDir_def
    by (auto intro!: filepath_Join_plain) (simp_all add: plain_elem_def)
qed

section \<open>Removing an upload\<close>

lemma remove_settings: "root_Remove p s = (r, s') \<Longrightarrow> same_settings s s'"
  by (auto simp: root_Remove_def same_settings_def del_def split: if_splits sum.splits node.splits)

text \<open>Files of a directory without subdirectories are all removed.\<close>

lemma removeFiles_effect:
  assumes "disk_wf s" and "quiet s" and "distinct xs" and "\<And>x. x \<in> set xs \<Longrightarrow> \<exists>c. look s (dir @ [x]) = Some (File c)"
  shows "\<exists>s'. removeFiles dir xs s = (None, s') \<and> disk_wf s' \<and> same_settings s s'
    \<and> (\<forall>q. look s' q = (if q \<in> (\<lambda>x. dir @ [x]) ` set xs then None else look s q))"
  using assms
proof (induction xs arbitrary: s)
  case Nil
  then show ?case by (auto simp: same_settings_def)
next
  case (Cons x xs)
  then obtain c where c: "look s (dir @ [x]) = Some (File c)" by (meson list.set_intros(1))
  let ?t = "del (dir @ [x]) s"
  have rm: "root_Remove (dir @ [x]) s = (None, ?t)"
    using remove_file[OF Cons.prems(1) quiet_fault_free[OF Cons.prems(2)] c] .
  have t: "disk_wf ?t" "same_settings s ?t" "quiet ?t"
    using wf_remove[OF Cons.prems(1) rm] remove_settings[OF rm] Cons.prems(2) by (auto simp: quiet_def)
  have "\<exists>c. look ?t (dir @ [y]) = Some (File c)" if "y \<in> set xs" for y
    using Cons.prems(3,4) that by (auto simp: fs_simps)
  with Cons.IH[OF t(1,3)] Cons.prems(3) obtain s' where "removeFiles dir xs ?t = (None, s')" "disk_wf s'" "same_settings ?t s'"
    "\<And>q. look s' q = (if q \<in> (\<lambda>x. dir @ [x]) ` set xs then None else look ?t q)" by auto
  then show ?case using rm t(2) by (auto simp: removeExisting_def same_settings_def fs_simps)
qed

lemma removeUploadDir_effect:
  assumes "disk_wf s" and "quiet s" and "look s dir = Some Dir" and "dir \<noteq> []" and "\<And>x. look s (dir @ [x]) \<noteq> Some Dir"
  shows "\<exists>s'. removeUploadDir dir s = (None, s') \<and> disk_wf s' \<and> same_settings s s'
    \<and> (\<forall>q. look s' q = (if q = dir \<or> butlast q = dir \<and> q \<noteq> [] then None else look s q))"
proof -
  have rd: "root_ReadDir s dir = Inr (entries s dir)"
    using assms(1-3) by (simp add: root_ReadDir_def quiet_def root_walk_Some)
  have filed: "\<exists>c. look s (dir @ [x]) = Some (File c)" if "x \<in> set (map fst (entries s dir))" for x
  proof -
    from that obtain bb where "(x, bb) \<in> set (entries s dir)" by auto
    then obtain n where "look s (dir @ [x]) = Some n" using entries_mem[OF assms(1)] by blast
    then show ?thesis using assms(5)[of x] by (cases n) auto
  qed
  from removeFiles_effect[OF assms(1,2) distinct_entries[OF assms(1)] filed]
  obtain t where t: "removeFiles dir (map fst (entries s dir)) s = (None, t)" "disk_wf t" "same_settings s t"
    "\<And>q. look t q = (if q \<in> (\<lambda>x. dir @ [x]) ` set (map fst (entries s dir)) then None else look s q)" by blast
  have gone: "look t (dir @ [x]) = None" for x
  proof (cases "look s (dir @ [x])")
    case None
    then show ?thesis using t(4)[of "dir @ [x]"] by simp
  next
    case (Some n)
    then have "(x, n = Dir) \<in> set (entries s dir)" using entries_mem[OF assms(1)] by blast
    then have "x \<in> set (map fst (entries s dir))" by force
    then show ?thesis using t(4)[of "dir @ [x]"] by simp
  qed
  have dir: "look t dir = Some Dir" using t(4)[of dir] assms(3) by auto
  have "(x, y) \<notin> set (entries t dir)" for x y using entries_mem[OF t(2)] gone by auto
  then have "entries t dir = []" by (metis list.set_intros(1) neq_Nil_conv surj_pair)
  moreover have "quiet t" using t(3) assms(2) by (simp add: quiet_def same_settings_def)
  ultimately have rm: "root_Remove dir t = (None, del dir t)"
    using dir assms(4) root_walk_Some[OF t(2) dir] by (simp add: root_Remove_def quiet_def)
  have "look (del dir t) q = (if q = dir \<or> butlast q = dir \<and> q \<noteq> [] then None else look s q)" for q
  proof (cases "butlast q = dir \<and> q \<noteq> []")
    case True
    then have "q = dir @ [last q]" by (metis append_butlast_last_id)
    then show ?thesis using gone True assms(4) by (metis look_del)
  next
    case False
    then have "q \<notin> (\<lambda>x. dir @ [x]) ` set (map fst (entries s dir))" by auto
    then show ?thesis using t(4)[of q] False assms(4) by (auto simp: look_del)
  qed
  then show ?thesis using rd t(1,3) rm wf_remove[OF t(2) rm] remove_settings[OF rm]
    by (auto simp: removeUploadDir_def same_settings_def)
qed

section \<open>The parts\<close>

definition partBody :: "s3 \<Rightarrow> string \<Rightarrow> CompletePart \<Rightarrow> bytes" where
  "partBody s i p = fst (readFrom s (partPath i (cp_PartNumber p)))"

text \<open>What a list of parts has to satisfy: ascending numbers, the tags of the uploaded parts, and no short part but the last.\<close>

definition parts_ok :: "s3 \<Rightarrow> string \<Rightarrow> CompletePart list \<Rightarrow> bool" where
  "parts_ok s i parts \<longleftrightarrow> sorted_wrt (<) (map cp_PartNumber parts)
     \<and> (\<forall>p \<in> set parts. \<exists>pm. readPartMeta s i (cp_PartNumber p) = Inr pm \<and> p_ETag pm = cp_ETag p)
     \<and> (\<forall>p \<in> set (butlast parts). \<forall>pm. readPartMeta s i (cp_PartNumber p) = Inr pm \<longrightarrow> minPartSize \<le> p_Size pm)"

lemma checkParts_prev:
  "checkParts s i prev parts = None \<Longrightarrow> (\<forall>p \<in> set parts. \<forall>q. prev = Some q \<longrightarrow> q < cp_PartNumber p) \<and> parts_ok s i parts"
proof (induction parts arbitrary: prev)
  case (Cons p ps)
  then have "checkParts s i (Some (cp_PartNumber p)) ps = None" by (auto split: if_splits sum.splits)
  from Cons.IH[OF this] Cons.prems show ?case
    by (cases prev) (fastforce simp: parts_ok_def split: if_splits sum.splits)+
qed (simp add: parts_ok_def)

lemma readFrom_same:
  assumes "look t q = look s q" and "same_settings s t"
  shows "readFrom t q = readFrom s q"
proof -
  have l: "lib t = lib s" "d_fault t = d_fault s" "short t = short s" using assms(2) by (auto simp: same_settings_def)
  show ?thesis using assms(1) l(2,3) content_bytes_lib[OF l(1)] unfolding readFrom_def by presburger
qed

lemma readFrom_grows: "grows W s t \<Longrightarrow> q \<notin> W \<Longrightarrow> readFrom t q = readFrom s q"
proof -
  assume g: "grows W s t" and q: "q \<notin> W"
  then have "look t q = look s q \<or> look s q = None \<and> look t q = Some Dir" by (auto simp: grows_def)
  moreover have "readFrom t q = readFrom s q" if "look t q = look s q"
    using readFrom_same[OF that] g by (simp add: grows_def)
  ultimately show ?thesis by (auto simp: readFrom_def)
qed

lemma readFiles_True: "readFiles s ps = (b, True) \<Longrightarrow> b = concat (map (\<lambda>p. fst (readFrom s p)) ps)"
  by (induction ps arbitrary: b) (auto split: prod.splits bool.splits)

lemma uploadTags_effect:
  assumes "uploadTags p ts s = (Inr u, s')" and "clean_path p"
  shows "grows {tagsPath p} s s'"
  using assms clean_sidecar[OF assms(2)]
  by (auto simp: uploadTags_def applyTagsLocked_def fileErr_Inr dest!: writeJSON_grows split: if_splits sum.splits prod.splits)

lemma within_uploadTags:
  "uploadTags p ts s = (Inr u, s') \<Longrightarrow> take 1 p = [b] \<Longrightarrow> tl p \<noteq> [] \<Longrightarrow> within b s s'"
  using within_writeJSON[of "tagsPath p" b s "JTags ts"] take1_sidecar[of p b]
  by (auto simp: uploadTags_def applyTagsLocked_def fileErr_def split: if_splits sum.splits prod.splits option.splits)

section \<open>Completing the upload\<close>

lemma orMissing_Eq: "orMissing e (Inr a) = Inr a"
  by simp

lemma complete_steps:
  assumes "CompleteMultipartUpload i parts s = (Inr m, s')" and "GetUploadMeta i s = Inr u"
  shows "\<exists>a b v c d. bucketExistsLocked s (u_Bucket u) \<and> parts \<noteq> [] \<and> checkParts s i None parts = None
    \<and> ensureDir (u_Bucket u) (objPathOf (u_Bucket u) (u_Key u)) s = (Inr (), a)
    \<and> nextVersion (u_Bucket u) (u_Key u) (objPathOf (u_Bucket u) (u_Key u)) a = (Inr v, b)
    \<and> writeObject (objPathOf (u_Bucket u) (u_Key u)) (RFiles (map (\<lambda>p. partPath i (cp_PartNumber p)) parts))
        (multipartETag (lib b) parts) v (uploadOpts u) b = (Inr m, c)
    \<and> uploadTags (objPathOf (u_Bucket u) (u_Key u)) (u_Tagging u) c = (Inr (), d)
    \<and> s' = snd (removeUploadDir (uploadDir i) d)"
  using assms
  by (auto simp: CompleteMultipartUpload_def GetUploadMeta_def orMissing_Eq bindS_Inr Let_def split: if_splits option.splits)

lemma sound_id_grows:
  assumes "grows {} s t" and "disk_wf s" and "quiet s" and "sound_id s p"
  shows "sound_id t p"
proof -
  have "readMeta s p = Inr m" if "readMeta t p = Inr m" for m
    using that assms(2,3) growsD(1)[OF assms(1)] grows_quiet[OF assms(1)] growsD(8)[OF assms(1), of "metaPath p"]
      decodeMeta_lib[OF growsD(3)[OF assms(1)]]
    by (auto simp: readMeta_def readJSON_s3_Inr)
  with assms(4) show ?thesis by (auto simp: sound_id_def)
qed

lemma upload_gone:
  assumes "plain_elem i" and "quiet s" and "look s [''.mpu''] = Some Dir" and "look s [''.mpu'', i] = None"
    and "look s [''.mpu'', i, ''upload.json''] = None"
  shows "GetUploadMeta i s = Inl ErrUploadNotFound"
proof -
  have "[Suc 0..<3] = [1, 2]" by code_simp
  then have "\<not> blocked s [''.mpu'', i, ''upload.json'']" using assms(3,4) by (simp add: blocked_def)
  then have "root_ReadFile s (uploadJSON i) = Inl ENotExist"
    using assms upload_paths(2)[OF assms(1)] by (simp add: root_ReadFile_def root_walk_def quiet_def escapes_def)
  then show ?thesis by (simp add: GetUploadMeta_def readUploadMeta_def readJSON_s3_def orMissing_def)
qed

text \<open>
  C38. A multipart upload that completes is the concatenation of the listed parts: the list was not empty, its
  numbers ascend, every tag is the one that the part was uploaded with and every part but the last has the
  minimal size; the object that is then read consists of the bytes of the parts in this order, its entity
  tag is derived from theirs, and the upload does not exist any more. (The bucket is not the directory of
  the uploads itself, and the upload holds no directory.)\<close>

theorem multipart_concatenates_parts:
  assumes "disk_wf s" and "quiet s" and "GetUploadMeta i s = Inr u" and "plain_elem i"
    and "plain_elem (u_Bucket u)" and "u_Bucket u \<noteq> ''.mpu''" and "plain_key (u_Key u)"
    and "sound_id s (objPathOf (u_Bucket u) (u_Key u))" and "\<And>x. look s (uploadDir i @ [x]) \<noteq> Some Dir"
    and "CompleteMultipartUpload i parts s = (Inr m, s')"
  shows "parts \<noteq> [] \<and> parts_ok s i parts
    \<and> GetObject (u_Bucket u) (u_Key u) s' = Inr ((concat (map (partBody s i) parts), True), m)
    \<and> o_ETag m = multipartETag (lib s) parts \<and> GetUploadMeta i s' = Inl ErrUploadNotFound"
proof -
  let ?b = "u_Bucket u" and ?p = "objPathOf (u_Bucket u) (u_Key u)"
  from complete_steps[OF assms(10,3)] obtain a b v c d where st: "bucketExistsLocked s ?b" "parts \<noteq> []"
    "checkParts s i None parts = None" "ensureDir ?b ?p s = (Inr (), a)" "nextVersion ?b (u_Key u) ?p a = (Inr v, b)"
    "writeObject ?p (RFiles (map (\<lambda>p. partPath i (cp_PartNumber p)) parts)) (multipartETag (lib b) parts) v (uploadOpts u) b = (Inr m, c)"
    "uploadTags ?p (u_Tagging u) c = (Inr (), d)" "s' = snd (removeUploadDir (uploadDir i) d)" by blast
  have p: "?p = ?b # filepath_Join [u_Key u]" "filepath_Join [u_Key u] \<noteq> []"
    using join_plain[of "[?b]" "u_Key u" "[]"] assms(5,7) by (auto simp: objPathOf_def plain_key_def)
  then have pt: "take 1 ?p = [?b]" "tl ?p \<noteq> []" by auto
  have ga: "grows {} s a" using ensureDir_grows[OF st(4)] by simp
  have gb: "grows (archive ?b (u_Key u)) a b" by (rule nextVersion_grows[OF st(5)])
  from writeObject_effect[OF st(6)] obtain w t where e: "grows {?p, metaPath ?p} b c" "grows {?p} b t"
    "readFiles t (map (\<lambda>p. partPath i (cp_PartNumber p)) parts) = (w, True)" "look c ?p = Some (File (Some (Raw w)))"
    "look c (metaPath ?p) = Some (File (Some (JMeta m)))" "o_ETag m = multipartETag (lib b) parts" "\<not> o_IsDeleteMarker m"
    by (auto simp: readAll_def newObjectMeta_def noObjectMetadata_def multipartETag_def quoted_def)
  have gd: "grows {tagsPath ?p} c d" using uploadTags_effect[OF st(7)] by simp
  note g = grows_trans[OF grows_trans[OF grows_trans[OF ga gb] e(1)] gd]
  have d: "disk_wf d" "quiet d" using growsD(1)[OF g] grows_quiet[OF g] assms(1,2) by auto
  have wa: "within ?b s a" using st(4) within_fileErr[OF within_mkdirAll[of "butlast ?p" ?b s]] p
    by (auto simp: ensureDir_def split: if_splits)
  have wb: "within ?b a b" using within_nextVersion[OF assms(5,7) sound_id_grows[OF ga assms(1,2,8)]] st(5) by (metis snd_conv)
  have wc: "within ?b b c" using within_writeObject[OF pt] st(6) by (metis snd_conv)
  have sb: "within ?b s b" and sd: "within ?b s d"
    using within_trans[OF wa wb] within_trans[OF within_trans[OF wa wb] within_trans[OF wc within_uploadTags[OF st(7) pt]]] by auto
  have "readFrom t (partPath i n) = readFrom s (partPath i n)" for n
  proof -
    have q: "take 1 (partPath i n) \<noteq> [?b]" using upload_paths(3)[OF assms(4)] assms(6) by simp
    then have "partPath i n \<noteq> ?p" using pt(1) by metis
    then have "readFrom t (partPath i n) = readFrom b (partPath i n)" using readFrom_grows[OF e(2)] by simp
    also have "\<dots> = readFrom s (partPath i n)"
      using readFrom_same[of b "partPath i n" s] sb q grows_trans[OF ga gb] by (auto simp: within_def grows_def)
    finally show ?thesis .
  qed
  then have w: "w = concat (map (partBody s i) parts)"
    using readFiles_True[OF e(3)] by (simp add: partBody_def[abs_def] comp_def)
  have up: "look d (uploadDir i @ xs) = look s (uploadDir i @ xs)" for xs
    using sd upload_paths(1)[OF assms(4)] assms(6) by (auto simp: within_def)
  obtain x where "look s (uploadJSON i) = Some (File x)"
    using assms(1-3) by (auto simp: GetUploadMeta_def readUploadMeta_def readJSON_s3_Inr)
  then have dir: "look s (uploadDir i) = Some Dir" "look s [''.mpu''] = Some Dir"
    using disk_wf_prefix[OF assms(1), of "[''.mpu'']"] disk_wf_parent[OF assms(1)] upload_paths[OF assms(4)] by fastforce+
  have ud: "uploadDir i = [''.mpu'', i]" by (rule upload_paths(1)[OF assms(4)])
  from removeUploadDir_effect[OF d, of "uploadDir i"] up[of "[]"] up[of "[_]"] dir(1) assms(9) ud st(8)
  have s': "disk_wf s'" "same_settings d s'"
    "\<And>q. look s' q = (if q = uploadDir i \<or> butlast q = uploadDir i \<and> q \<noteq> [] then None else look d q)" by auto
  have q: "quiet s'" using s'(2) d(2) by (simp add: quiet_def same_settings_def)
  have keep: "look s' q = look d q" if "take 1 q = [?b]" for q
    using that assms(6) ud by (cases q rule: rev_cases) (auto simp: s'(3) take_Cons')
  have "look s' ?p = Some (File (Some (Raw w)))" "look s' (metaPath ?p) = Some (File (Some (JMeta m)))"
    using keep[of ?p] keep[of "metaPath ?p"] take1_sidecar[OF pt] pt growsD(7)[OF gd] e(4,5) by simp_all
  moreover have "look s' (bucketPath ?b) = Some Dir"
    using keep[of "bucketPath ?b"] growsD(6)[OF g] st(1) filepath_Join_plain[of "[?b]"] assms(1,2,5)
    by (simp add: quiet_stat bucketPath_def)
  ultimately have "GetObject ?b (u_Key u) s' = Inr ((concat (map (partBody s i) parts), True), m)"
    using get_file[OF s'(1) q] e(7) w by (simp add: content_bytes_def)
  moreover have "GetUploadMeta i s' = Inl ErrUploadNotFound"
    using upload_gone[OF assms(4) q, of] s'(3) ud sd dir(2) assms(6) by (simp add: within_def)
  ultimately show ?thesis
    using st(2) checkParts_prev[OF st(3)] e(6) growsD(3)[OF grows_trans[OF ga gb]] by simp
qed

text \<open>An upload of one part, stored and completed.\<close>

definition demo_upload :: s3 where
  "demo_upload = demo_s3\<lparr>d_fs := d_fs demo_s3 @ [([''.mpu''], Dir), ([''.mpu'', ''u''], Dir),
     ([''.mpu'', ''u'', ''upload.json''], File (Some (JUpload \<lparr>u_Bucket = ''b'', u_Key = ''z'', u_ContentType = [], u_Initiated = 0,
        u_SSEAlgorithm = [], u_SSEKMSKeyID = [], u_SSEBucketKeyEnabled = False, u_SSECKeyMD5 = [], u_StorageClass = [],
        u_Retention = None, u_LegalHold = None, u_Tagging = []\<rparr>))),
     ([''.mpu'', ''u'', ''1.part''], File (Some (Raw [8, 9]))),
     ([''.mpu'', ''u'', ''1.part.meta.json''], File (Some (JPart \<lparr>p_ETag = ''e'', p_Size = 2\<rparr>)))]\<rparr>"

lemma upload_wf: "disk_wf demo_upload"
  by (auto simp: disk_wf_def demo_upload_def demo_s3_def look_def plain_elem_def split: if_splits)

lemma upload_quiet: "quiet demo_upload"
  by (simp add: quiet_def demo_upload_def demo_s3_def)

lemma upload_no_dir: "look demo_upload (uploadDir ''u'' @ [x]) \<noteq> Some Dir"
  by (simp add: upload_paths plain_elem_def demo_upload_def demo_s3_def look_def)

theorem multipart_concatenates_parts_witness:
  "\<exists>m s'. CompleteMultipartUpload ''u'' [\<lparr>cp_PartNumber = 1, cp_ETag = ''e''\<rparr>] demo_upload = (Inr m, s')
     \<and> GetObject ''b'' ''z'' s' = Inr (([8, 9], True), m) \<and> GetUploadMeta ''u'' s' = Inl ErrUploadNotFound"
proof -
  let ?p = "[\<lparr>cp_PartNumber = 1, cp_ETag = ''e''\<rparr>]"
  have "case fst (CompleteMultipartUpload ''u'' ?p demo_upload) of Inr _ \<Rightarrow> True | Inl _ \<Rightarrow> False" by code_simp
  from result_of[OF this] obtain m s' where r: "CompleteMultipartUpload ''u'' ?p demo_upload = (Inr m, s')" by blast
  have "case GetUploadMeta ''u'' demo_upload of Inr u \<Rightarrow> u_Bucket u = ''b'' \<and> u_Key u = ''z'' | Inl _ \<Rightarrow> False" by code_simp
  then obtain u where u: "GetUploadMeta ''u'' demo_upload = Inr u" "u_Bucket u = ''b''" "u_Key u = ''z''"
    by (auto split: sum.splits)
  have "case readMeta demo_upload (objPathOf ''b'' ''z'') of Inr _ \<Rightarrow> False | Inl _ \<Rightarrow> True" by code_simp
  then have i: "sound_id demo_upload (objPathOf ''b'' ''z'')" by (auto simp: sound_id_def)
  have b: "concat (map (partBody demo_upload ''u'') ?p) = [8, 9]" by code_simp
  have "plain_elem ''u''" "plain_elem (u_Bucket u)" "u_Bucket u \<noteq> ''.mpu''" "plain_key (u_Key u)"
    using u by (simp_all add: plain_elem_def plain_key_def filepath_Join_def clean_step_def)
  from multipart_concatenates_parts[OF upload_wf upload_quiet u(1) this _ upload_no_dir r] i u(2,3) b r show ?thesis by auto
qed

end
