(* ===== verification/S3_List_Theorems.thy ===== *)
theory S3_List_Theorems
  imports S3_Demo
begin

text \<open>
  The listing of a bucket against the objects that can be read. A key is the text of a path below the
  bucket; the listing walks the directories, so it knows the keys in their cleaned form, leaves out the
  directories of versions and uploads, and takes the files with the suffixes of the sidecars for what they are named.
\<close>

section \<open>Keys and paths\<close>

lemma split_slash_app: "CHR ''/'' \<notin> set x \<Longrightarrow> split_slash (x @ CHR ''/'' # r) = x # split_slash r"
  by (induction x) auto

lemma split_joinSlash: "list_all plain_elem ks \<Longrightarrow> ks \<noteq> [] \<Longrightarrow> split_slash (joinSlash ks) = ks"
  by (induction ks rule: joinSlash.induct) (auto simp: split_slash_plain split_slash_app plain_elem_def)

lemma join_joinSlash:
  assumes "list_all plain_elem ks" and "ks \<noteq> []"
  shows "filepath_Join [joinSlash ks] = ks"
proof -
  have "concat (map split_slash ks) = ks" using assms(1) by (induction ks) (auto simp: split_slash_plain plain_elem_def)
  then have "concat (map split_slash [joinSlash ks]) = concat (map split_slash ks)" using assms by (simp add: split_joinSlash)
  then show ?thesis using filepath_Join_plain[OF assms(1)] by (simp add: filepath_Join_def)
qed

definition listable :: "string \<Rightarrow> bool" where
  "listable k \<longleftrightarrow> plain_key k \<and> joinSlash (filepath_Join [k]) = k
     \<and> list_all (\<lambda>d. d \<noteq> ''.mpu'' \<and> d \<noteq> ''.ver'') (butlast (filepath_Join [k])) \<and> \<not> isSidecar (last (filepath_Join [k]))"

section \<open>The walk\<close>

lemma collectE_Inr:
  "collectE f xs = Inr ys \<Longrightarrow> (\<forall>x \<in> set xs. \<exists>a. f x = Inr a) \<and> (\<forall>y. y \<in> set ys \<longleftrightarrow> (\<exists>x \<in> set xs. \<exists>a. f x = Inr a \<and> y \<in> set a))"
  by (induction xs arbitrary: ys) (auto split: sum.splits)

lemma collectE_pairs:
  "collectE f es = Inr os \<Longrightarrow> ob \<in> set os \<longleftrightarrow> (\<exists>x d. (x, d) \<in> set es \<and> (\<exists>a. f (x, d) = Inr a \<and> ob \<in> set a))"
  by (frule collectE_Inr) auto

definition listed :: "s3 \<Rightarrow> path \<Rightarrow> path \<Rightarrow> ObjectMetadata \<Rightarrow> bool" where
  "listed s dir ks m \<longleftrightarrow> ks \<noteq> [] \<and> (\<exists>c. look s (dir @ ks) = Some (File c))
     \<and> list_all (\<lambda>d. d \<noteq> ''.mpu'' \<and> d \<noteq> ''.ver'') (butlast ks) \<and> \<not> isSidecar (last ks)
     \<and> readMeta s (dir @ ks) = Inr m \<and> \<not> o_IsDeleteMarker m"

lemma listed_Cons:
  assumes "disk_wf s"
  shows "listed s dir (x # ks) m \<longleftrightarrow>
    (if ks = [] then (\<exists>c. look s (dir @ [x]) = Some (File c)) \<and> \<not> isSidecar x \<and> readMeta s (dir @ [x]) = Inr m \<and> \<not> o_IsDeleteMarker m
     else look s (dir @ [x]) = Some Dir \<and> x \<noteq> ''.mpu'' \<and> x \<noteq> ''.ver'' \<and> listed s (dir @ [x]) ks m)"
  using disk_wf_prefix[OF assms, of "dir @ [x]" ks] by (auto simp: listed_def)

lemma walkDir_listed:
  assumes "walkDir s b dir = Inr os" and "disk_wf s" and "quiet s"
  shows "ob \<in> set os \<longleftrightarrow> (\<exists>ks m. listed s dir ks m \<and> ob = \<lparr>oi_Key = joinSlash (drop (length b) (dir @ ks)), oi_Metadata = m\<rparr>)"
  using assms
proof (induction s b dir arbitrary: os rule: walkDir.induct)
  case (1 s b dir)
  from 1(2) obtain es where rd: "root_ReadDir s dir = Inr es" by (subst (asm) walkDir.simps) (auto split: sum.splits)
  then have es: "es = entries s dir" using 1(4) by (auto simp: root_ReadDir_def split: if_splits sum.splits node.splits)
  let ?f = "\<lambda>(name, isDir).
            if isDir then (if name = ''.mpu'' \<or> name = ''.ver'' then Inr [] else walkDir s b (dir @ [name]))
            else if isSidecar name then Inr []
            else (case readMeta s (dir @ [name]) of
                    Inl _ \<Rightarrow> Inr []
                  | Inr m \<Rightarrow>
                      if o_IsDeleteMarker m then Inr []
                      else Inr [\<lparr>oi_Key = joinSlash (drop (length b) (dir @ [name])), oi_Metadata = m\<rparr>])"
  have c: "collectE ?f es = Inr os" using 1(2) rd by (subst (asm) walkDir.simps) simp
  have mem: "(x, d) \<in> set es \<longleftrightarrow> (\<exists>n. look s (dir @ [x]) = Some n \<and> d = (n = Dir))" for x d
    using entries_mem[OF 1(3)] es by simp
  note ih = 1(1)[OF rd]
  have one: "(\<exists>a. ?f (x, d) = Inr a \<and> ob \<in> set a) \<longleftrightarrow>
      (\<exists>ks m. listed s dir (x # ks) m \<and> ob = \<lparr>oi_Key = joinSlash (drop (length b) (dir @ x # ks)), oi_Metadata = m\<rparr>)"
    if "(x, d) \<in> set es" for x d
  proof (cases d)
    case True
    with that mem have dr: "look s (dir @ [x]) = Some Dir" by auto
    show ?thesis
    proof (cases "x = ''.mpu'' \<or> x = ''.ver''")
      case True
      then show ?thesis using dr \<open>d\<close> by (auto simp: listed_Cons[OF 1(3)])
    next
      case False
      from collectE_Inr[OF c] that obtain a where "?f (x, d) = Inr a" by blast
      then have a: "walkDir s b (dir @ [x]) = Inr a" using False \<open>d\<close> by simp
      have "listed s (dir @ [x]) ks m \<Longrightarrow> ks \<noteq> []" for ks m by (simp add: listed_def)
      with ih[OF that refl \<open>d\<close> False a 1(3,4)] show ?thesis using a False \<open>d\<close> dr
        by (auto simp: listed_Cons[OF 1(3)])
    qed
  next
    case False
    with that mem obtain n where "look s (dir @ [x]) = Some (File n)" by (metis node.exhaust)
    then show ?thesis using False
      by (auto simp: listed_Cons[OF 1(3)] split: sum.splits)
  qed
  have "ob \<in> set os \<longleftrightarrow> (\<exists>x d. (x, d) \<in> set es \<and> (\<exists>a. ?f (x, d) = Inr a \<and> ob \<in> set a))"
    by (rule collectE_pairs[OF c])
  also have "\<dots> \<longleftrightarrow> (\<exists>x d. (x, d) \<in> set es \<and> (\<exists>ks m. listed s dir (x # ks) m \<and> ob = \<lparr>oi_Key = joinSlash (drop (length b) (dir @ x # ks)), oi_Metadata = m\<rparr>))"
    by (intro ex_cong1 conj_cong refl) (rule one)
  also have "\<dots> \<longleftrightarrow> (\<exists>ks m. listed s dir ks m \<and> ob = \<lparr>oi_Key = joinSlash (drop (length b) (dir @ ks)), oi_Metadata = m\<rparr>)"
  proof -
    have "\<exists>d. (x, d) \<in> set es" if "listed s dir (x # ks) m" for x ks m
      using that mem by (auto simp: listed_Cons[OF 1(3)] split: if_splits)
    moreover have "ks \<noteq> []" if "listed s dir ks m" for ks m using that by (simp add: listed_def)
    ultimately show ?thesis by (metis list.exhaust)
  qed
  finally show ?case .
qed

section \<open>The listing\<close>

lemma listed_get:
  assumes "disk_wf s" and "quiet s" and "plain_elem b" and "look s [b] = Some Dir" and "\<And>p. look s p \<noteq> Some (File None)"
    and "plain_key k"
  shows "listed s [b] (filepath_Join [k]) m \<longleftrightarrow> list_all (\<lambda>d. d \<noteq> ''.mpu'' \<and> d \<noteq> ''.ver'') (butlast (filepath_Join [k]))
    \<and> \<not> isSidecar (last (filepath_Join [k])) \<and> (\<exists>c. GetObject b k s = Inr ((c, True), m))"
proof -
  have p: "objPathOf b k = [b] @ filepath_Join [k]" "bucketPath b = [b]"
    using join_plain[of "[b]" k "[]"] filepath_Join_plain[of "[b]"] assms(3,6) by (simp_all add: objPathOf_def bucketPath_def)
  have "(\<exists>c. GetObject b k s = Inr ((c, True), m)) \<longleftrightarrow>
      (\<exists>c. look s ([b] @ filepath_Join [k]) = Some (File c)) \<and> readMeta s ([b] @ filepath_Join [k]) = Inr m \<and> \<not> o_IsDeleteMarker m"
    (is "?l \<longleftrightarrow> ?r")
  proof
    assume ?l
    then show ?r using assms(1,2,4) p
      by (auto simp: GetObject_def Let_def quiet_stat openHandle_def readFrom_def
          split: if_splits sum.splits option.splits node.splits)
  next
    assume r: ?r
    then obtain c where "look s ([b] @ filepath_Join [k]) = Some (File (Some c))" using assms(5) by (metis option.exhaust)
    then show ?l using r assms(1,2,4) p by (simp add: GetObject_def quiet_stat openHandle_file orMissing_def)
  qed
  then show ?thesis using assms(6) by (auto simp: listed_def plain_key_def)
qed

text \<open>
  C39. The listing of a bucket is sorted by key and shows exactly the objects that can be read: a key is listed with
  some metadata if and only if reading the key returns an object with this metadata, as long as the key
  is in its cleaned form, does not lead into the directories of versions and uploads and does not end like a sidecar file.\<close>

theorem listing_shows_readable_objects:
  assumes "disk_wf s" and "quiet s" and "plain_elem b" and "\<And>p. look s p \<noteq> Some (File None)" and "ListObjects b s = Inr os"
  shows "sorted (map oi_Key os) \<and> (\<lparr>oi_Key = k, oi_Metadata = m\<rparr> \<in> set os \<longleftrightarrow>
    listable k \<and> (\<exists>c. GetObject b k s = Inr ((c, True), m)))"
proof -
  have b: "bucketPath b = [b]" using filepath_Join_plain[of "[b]"] assms(3) by (simp add: bucketPath_def)
  from assms(5) obtain ws where w: "look s [b] = Some Dir" "walkDir s [b] [b] = Inr ws" "os = sort_key oi_Key ws"
    using quiet_stat[OF assms(1,2)] b by (auto simp: ListObjects_def split: if_splits sum.splits)
  have "\<lparr>oi_Key = k, oi_Metadata = m\<rparr> \<in> set os \<longleftrightarrow> (\<exists>ks. listed s [b] ks m \<and> k = joinSlash ks)"
    using walkDir_listed[OF w(2) assms(1,2)] w(3) by auto
  also have "\<dots> \<longleftrightarrow> plain_key k \<and> joinSlash (filepath_Join [k]) = k \<and> listed s [b] (filepath_Join [k]) m"
  proof
    assume "\<exists>ks. listed s [b] ks m \<and> k = joinSlash ks"
    then obtain ks where k: "listed s [b] ks m" "k = joinSlash ks" by blast
    then have "list_all plain_elem ks" "ks \<noteq> []"
      using disk_wf_plain[OF assms(1), of "[b] @ ks"] by (auto simp: listed_def)
    then show "plain_key k \<and> joinSlash (filepath_Join [k]) = k \<and> listed s [b] (filepath_Join [k]) m"
      using k join_joinSlash[of ks] by (simp add: plain_key_def)
  qed metis
  also have "\<dots> \<longleftrightarrow> listable k \<and> (\<exists>c. GetObject b k s = Inr ((c, True), m))"
    using listed_get[OF assms(1-3) w(1) assms(4)] by (auto simp: listable_def)
  finally show ?thesis using w(3) by simp
qed

lemma s3_whole: "look demo_s3 p \<noteq> Some (File None)"
  by (simp add: demo_s3_def look_def)

theorem listing_shows_readable_objects_witness:
  "\<lparr>oi_Key = ''k'', oi_Metadata = demo_object\<rparr> \<in> set [\<lparr>oi_Key = ''k'', oi_Metadata = demo_object\<rparr>]
    \<longleftrightarrow> listable ''k'' \<and> (\<exists>c. GetObject ''b'' ''k'' demo_s3 = Inr ((c, True), demo_object))"
proof -
  have "ListObjects ''b'' demo_s3 = Inr [\<lparr>oi_Key = ''k'', oi_Metadata = demo_object\<rparr>]" by code_simp
  from listing_shows_readable_objects[OF s3_wf s3_quiet s3_plain(1) s3_whole this] show ?thesis by blast
qed

end
