(* ===== verification/S3_Lifecycle.thy ===== *)
theory S3_Lifecycle
  imports S3_Multipart
begin

text \<open>
  The lifecycle rules (\<open>internal/s3/lifecycle.go\<close>) and the replication of objects (\<open>internal/s3/replication.go\<close>). Both
  only call exported methods of the storage and log their errors, so a run is a sequence of atomic
  steps; the goroutine that starts the runs is not modelled. \<open>AddDate\<close> is the one of UTC.
\<close>

section \<open>Lifecycle\<close>

definition effectivePrefix :: "lifecycleRule \<Rightarrow> string" where
  "effectivePrefix r = (case lr_Filter r of Some p \<Rightarrow> p | None \<Rightarrow> lr_Prefix r)"

definition noncurrentBefore :: "int option \<Rightarrow> int \<Rightarrow> int \<Rightarrow> bool" where
  "noncurrentBefore noncurrentSince lastModified cutoff =
     (case noncurrentSince of Some t \<Rightarrow> t < cutoff | None \<Rightarrow> lastModified < cutoff)"

definition matchPrefix :: "string \<Rightarrow> string \<Rightarrow> bool" where
  "matchPrefix key prefix \<longleftrightarrow> prefix = [] \<or> has_prefix prefix key"

text \<open>A loop whose body logs its errors and goes on.\<close>

definition forEach :: "('a \<Rightarrow> bool) \<Rightarrow> ('a \<Rightarrow> s3 \<Rightarrow> 'b \<times> s3) \<Rightarrow> 'a list \<Rightarrow> s3 \<Rightarrow> s3" where
  "forEach skip f xs s = fold (\<lambda>x s. if skip x then s else snd (f x s)) xs s"

definition enforceExpiration :: "string \<Rightarrow> string \<Rightarrow> int \<Rightarrow> bool \<Rightarrow> s3 \<Rightarrow> s3" where
  "enforceExpiration bucket prefix cutoff versioned s =
     (if \<not> versioned
      then (case ListObjects bucket s of
              Inl _ \<Rightarrow> s
            | Inr objects \<Rightarrow>
                forEach (\<lambda>ob. \<not> matchPrefix (oi_Key ob) prefix \<or> \<not> o_LastModified (oi_Metadata ob) < cutoff)
                  (\<lambda>ob. DeleteObject bucket (oi_Key ob) False) objects s)
      else (case ListObjectVersions bucket s of
              Inl _ \<Rightarrow> s
            | Inr (versions, _) \<Rightarrow>
                forEach (\<lambda>v. \<not> v_IsLatest v \<or> \<not> matchPrefix (v_Key v) prefix \<or> \<not> v_LastModified v < cutoff)
                  (\<lambda>v. DeleteObjectVersioned bucket (v_Key v) False) versions s))"

definition enforceNoncurrentExpiration :: "string \<Rightarrow> string \<Rightarrow> int \<Rightarrow> int \<Rightarrow> s3 \<Rightarrow> s3" where
  "enforceNoncurrentExpiration bucket prefix noncurrentDays now s =
     (let cutoff = time_AddDate 0 (- noncurrentDays) now
      in case ListObjectVersions bucket s of
           Inl _ \<Rightarrow> s
         | Inr (versions, markers) \<Rightarrow>
             forEach (\<lambda>m. d_IsLatest m \<or> \<not> matchPrefix (d_Key m) prefix
                        \<or> \<not> noncurrentBefore (d_NoncurrentSince m) (d_LastModified m) cutoff)
               (\<lambda>m. DeleteObjectVersion bucket (d_Key m) (d_VersionID m) False) markers
               (forEach (\<lambda>v. v_IsLatest v \<or> \<not> matchPrefix (v_Key v) prefix
                          \<or> \<not> noncurrentBefore (v_NoncurrentSince v) (v_LastModified v) cutoff)
                 (\<lambda>v. DeleteObjectVersion bucket (v_Key v) (v_VersionID v) False) versions s))"

definition enforceNoncurrentTransition :: "string \<Rightarrow> string \<Rightarrow> int \<Rightarrow> string \<Rightarrow> int \<Rightarrow> s3 \<Rightarrow> s3" where
  "enforceNoncurrentTransition bucket prefix noncurrentDays storageClass now s =
     (let cutoff = time_AddDate 0 (- noncurrentDays) now
      in case ListObjectVersions bucket s of
           Inl _ \<Rightarrow> s
         | Inr (versions, _) \<Rightarrow>
             forEach (\<lambda>v. v_IsLatest v \<or> \<not> matchPrefix (v_Key v) prefix
                        \<or> \<not> noncurrentBefore (v_NoncurrentSince v) (v_LastModified v) cutoff
                        \<or> v_StorageClass v = storageClass)
               (\<lambda>v. SetObjectVersionStorageClass bucket (v_Key v) (v_VersionID v) storageClass) versions s)"

definition enforceAbortIncomplete :: "string \<Rightarrow> string \<Rightarrow> int \<Rightarrow> int \<Rightarrow> s3 \<Rightarrow> s3" where
  "enforceAbortIncomplete bucket prefix daysAfterInitiation now s =
     (let cutoff = time_AddDate 0 (- daysAfterInitiation) now
      in case ListMultipartUploads bucket s of
           Inl _ \<Rightarrow> s
         | Inr uploads \<Rightarrow>
             forEach (\<lambda>u. \<not> matchPrefix (mu_Key u) prefix \<or> \<not> mu_Initiated u < cutoff)
               (\<lambda>u. AbortMultipartUpload (mu_UploadID u)) uploads s)"

definition enforceExpiredObjectDeleteMarker :: "string \<Rightarrow> string \<Rightarrow> s3 \<Rightarrow> s3" where
  "enforceExpiredObjectDeleteMarker bucket prefix s =
     (case ListObjectVersions bucket s of
        Inl _ \<Rightarrow> s
      | Inr (versions, markers) \<Rightarrow>
          forEach (\<lambda>m. \<not> d_IsLatest m \<or> \<not> matchPrefix (d_Key m) prefix \<or> d_Key m \<in> set (map v_Key versions))
            (\<lambda>m. DeleteObjectVersion bucket (d_Key m) (d_VersionID m) False) markers s)"

definition enforceRule :: "string \<Rightarrow> bool \<Rightarrow> int \<Rightarrow> lifecycleRule \<Rightarrow> s3 \<Rightarrow> s3" where
  "enforceRule bucket versioned now rule s =
     (if lr_Status rule \<noteq> ''Enabled'' then s
      else let prefix = effectivePrefix rule;
               s1 = (case lr_Expiration rule of
                       None \<Rightarrow> s
                     | Some ex \<Rightarrow>
                         let a = (if 0 < le_Days ex then enforceExpiration bucket prefix (time_AddDate 0 (- le_Days ex) now) versioned s else s);
                             b = (case le_Date ex of
                                    Some d \<Rightarrow> if now < d then a else enforceExpiration bucket prefix now versioned a
                                  | None \<Rightarrow> a)
                         in if le_ExpiredObjectDeleteMarker ex then enforceExpiredObjectDeleteMarker bucket prefix b else b);
               s2 = (case lr_NoncurrentVersionExpiration rule of
                       Some d \<Rightarrow> if 0 < d then enforceNoncurrentExpiration bucket prefix d now s1 else s1
                     | None \<Rightarrow> s1);
               s3 = (case lr_NoncurrentVersionTransition rule of
                       Some (d, c) \<Rightarrow> if 0 < d \<and> c \<noteq> [] then enforceNoncurrentTransition bucket prefix d c now s2 else s2
                     | None \<Rightarrow> s2)
           in (case lr_AbortIncompleteMultipartUpload rule of
                 Some d \<Rightarrow> if 0 < d then enforceAbortIncomplete bucket prefix d now s3 else s3
               | None \<Rightarrow> s3))"

definition enforceBucket :: "string \<Rightarrow> s3 \<Rightarrow> s3" where
  "enforceBucket bucket s =
     (case GetBucketLifecycle bucket s of
        Inl _ \<Rightarrow> s
      | Inr xmlBody \<Rightarrow>
          if xmlBody = [] then s
          else case xml_lifecycle (lib s) xmlBody of
                 None \<Rightarrow> s
               | Some rules \<Rightarrow>
                   let versioned = (case GetBucketVersioning bucket s of Inr v \<Rightarrow> v = ''Enabled'' | Inl _ \<Rightarrow> False);
                       now = s3_clock s
                   in fold (enforceRule bucket versioned now) rules s)"

definition runOnce :: "s3 \<Rightarrow> s3" where
  "runOnce s = (case ListBuckets s of Inl _ \<Rightarrow> s | Inr bs \<Rightarrow> fold (\<lambda>b. enforceBucket (bi_Name b)) bs s)"

section \<open>Replication\<close>

definition ruleKeyPrefix :: "replicationRule \<Rightarrow> string" where
  "ruleKeyPrefix rule =
     (case rr_Filter rule of
        Some f \<Rightarrow> (case rf_And f of Some (p, _) \<Rightarrow> p | None \<Rightarrow> rf_Prefix f)
      | None \<Rightarrow> rr_Prefix rule)"

definition ruleHasTagFilter :: "replicationRule \<Rightarrow> bool" where
  "ruleHasTagFilter rule =
     (case rr_Filter rule of
        None \<Rightarrow> False
      | Some f \<Rightarrow> rf_Tag f \<noteq> None \<or> (case rf_And f of Some (_, ts) \<Rightarrow> ts \<noteq> [] | None \<Rightarrow> False))"

definition tagSetContains :: "S3Tag list \<Rightarrow> S3Tag \<Rightarrow> bool" where
  "tagSetContains tags want = list_ex (\<lambda>t. t_Key t = t_Key want \<and> t_Value t = t_Value want) tags"

definition ruleMatchesTags :: "replicationRule \<Rightarrow> S3Tag list \<Rightarrow> bool" where
  "ruleMatchesTags rule objTags =
     (case rr_Filter rule of
        None \<Rightarrow> True
      | Some f \<Rightarrow>
          (case rf_Tag f of
             Some t \<Rightarrow> tagSetContains objTags t
           | None \<Rightarrow> (case rf_And f of Some (_, ts) \<Rightarrow> list_all (tagSetContains objTags) ts | None \<Rightarrow> True)))"

text \<open>\<open>strings.SplitN(arn, ":", 6)\<close>: what follows the fifth colon\<close>

fun afterColons :: "nat \<Rightarrow> string \<Rightarrow> string option" where
  "afterColons 0 s = Some s"
| "afterColons (Suc n) [] = None"
| "afterColons (Suc n) (c # cs) = afterColons (if c = CHR '':'' then n else Suc n) cs"

definition bucketNameFromARN :: "string \<Rightarrow> string" where
  "bucketNameFromARN arn = (case afterColons 5 arn of Some b \<Rightarrow> b | None \<Rightarrow> arn)"

definition replicaOpts :: "ObjectMetadata \<Rightarrow> string \<Rightarrow> putOpts" where
  "replicaOpts m storageClass = \<lparr>po_contentType = o_ContentType m,
     po_userMetadata = (if o_UserMetadata m = [] then None else Some (o_UserMetadata m)),
     po_sseAlgorithm = o_SSEAlgorithm m, po_sseKMSKeyID = o_SSEKMSKeyID m, po_sseBucketKeyEnabled = o_SSEBucketKeyEnabled m,
     po_ssecKeyMD5 = [], po_retention = o_Retention m, po_legalHold = o_LegalHold m, po_storageClass = storageClass\<rparr>"

text \<open>The tags are read when the first rule asks for them and kept for the rules after it.\<close>

definition replicateRule ::
  "string \<Rightarrow> string \<Rightarrow> ObjectMetadata \<Rightarrow> replicationRule \<Rightarrow> S3Tag list option \<times> s3 \<Rightarrow> S3Tag list option \<times> s3" where
  "replicateRule bucket key srcMeta rule st =
     (case st of (loaded, s) \<Rightarrow>
        if rr_Status rule \<noteq> ''Enabled'' \<or> \<not> has_prefix (ruleKeyPrefix rule) key then (loaded, s)
        else let loaded' = (if \<not> ruleHasTagFilter rule then loaded
                            else case loaded of
                                   Some t \<Rightarrow> Some t
                                 | None \<Rightarrow> Some (case GetObjectTagging bucket key s of Inr t \<Rightarrow> t | Inl _ \<Rightarrow> []))
             in if ruleHasTagFilter rule \<and> \<not> ruleMatchesTags rule (case loaded' of Some t \<Rightarrow> t | None \<Rightarrow> []) then (loaded', s)
                else let destBucket = bucketNameFromARN (rr_Bucket rule)
                     in if destBucket = [] then (loaded', s)
                        else (case CopyObject bucket key (o_VersionID srcMeta) destBucket key
                                     (replicaOpts srcMeta (rr_StorageClass rule)) None s of
                                (Inl _, s) \<Rightarrow> (loaded', s)
                              | (Inr _, s) \<Rightarrow>
                                  (loaded', snd (SetObjectReplicationStatus bucket key ''COMPLETED''
                                     (snd (SetObjectReplicationStatus destBucket key ''REPLICA'' s))))))"

definition replicateObject :: "string \<Rightarrow> string \<Rightarrow> ObjectMetadata \<Rightarrow> s3 \<Rightarrow> s3" where
  "replicateObject bucket key srcMeta s =
     (if o_ReplicationStatus srcMeta = ''REPLICA'' then s
      else case GetBucketDocument Replication bucket s of
             Inl _ \<Rightarrow> s
           | Inr cfgXML \<Rightarrow>
               if cfgXML = [] then s
               else case xml_replication (lib s) cfgXML of
                      None \<Rightarrow> s
                    | Some rules \<Rightarrow> snd (fold (replicateRule bucket key srcMeta) rules (None, s)))"

definition replicateDeleteMarker :: "string \<Rightarrow> string \<Rightarrow> s3 \<Rightarrow> s3" where
  "replicateDeleteMarker bucket key s =
     (case GetBucketDocument Replication bucket s of
        Inl _ \<Rightarrow> s
      | Inr cfgXML \<Rightarrow>
          if cfgXML = [] then s
          else case xml_replication (lib s) cfgXML of
                 None \<Rightarrow> s
               | Some rules \<Rightarrow>
                   forEach (\<lambda>rule. rr_Status rule \<noteq> ''Enabled'' \<or> rr_DeleteMarkerReplication rule \<noteq> Some ''Enabled''
                              \<or> ruleHasTagFilter rule \<or> \<not> has_prefix (ruleKeyPrefix rule) key
                              \<or> bucketNameFromARN (rr_Bucket rule) = [])
                     (\<lambda>rule. DeleteObjectVersioned (bucketNameFromARN (rr_Bucket rule)) key False) rules s)"

end
