(* ===== verification/Go_Encoding.thy ===== *)
theory Go_Encoding
  imports Go_Strings
begin

text \<open>
  Encodings of bytes and numbers as text: \<open>encoding/base64\<close> and \<open>encoding/base32\<close> as splitting a string of
  bits into groups, and \<open>math/big\<close> integers as text and bytes. All of them give back what was encoded.
\<close>

section \<open>Bits in groups\<close>

definition byteBits :: "u8 \<Rightarrow> bool list" where
  "byteBits b = map (bit b) [7, 6, 5, 4, 3, 2, 1, 0]"

definition bitsNat :: "bool list \<Rightarrow> nat" where
  "bitsNat bs = foldl (\<lambda>n b. 2 * n + of_bool b) 0 bs"

primrec natBits :: "nat \<Rightarrow> nat \<Rightarrow> bool list" where
  "natBits 0 n = []"
| "natBits (Suc k) n = natBits k (n div 2) @ [odd n]"

text \<open>The bits in groups of \<open>k\<close>, the last one filled with zeros.\<close>

function bitGroups :: "nat \<Rightarrow> bool list \<Rightarrow> bool list list" where
  "bitGroups k bs =
     (if bs = [] \<or> k = 0 then []
      else if length bs < k then [bs @ replicate (k - length bs) False]
      else take k bs # bitGroups k (drop k bs))"
  by pat_completeness auto
termination by (relation "measure (length \<circ> snd)") auto

declare bitGroups.simps [simp del]

text \<open>The bytes of a string of bits; the bits after the last full byte are dropped.\<close>

function bitsBytes :: "bool list \<Rightarrow> bytes" where
  "bitsBytes bs = (if length bs < 8 then [] else of_nat (bitsNat (take 8 bs)) # bitsBytes (drop 8 bs))"
  by pat_completeness auto
termination by (relation "measure length") auto

declare bitsBytes.simps [simp del]

definition encodeBits :: "nat \<Rightarrow> string \<Rightarrow> bytes \<Rightarrow> string" where
  "encodeBits k alphabet b = map (\<lambda>g. alphabet ! bitsNat g) (bitGroups k (concat (map byteBits b)))"

fun decodeChars :: "nat \<Rightarrow> string \<Rightarrow> string \<Rightarrow> bool list option" where
  "decodeChars k alphabet [] = Some []"
| "decodeChars k alphabet (c # cs) =
     (case find_index (\<lambda>a. a = c) alphabet of
        None \<Rightarrow> None
      | Some i \<Rightarrow> map_option ((@) (natBits k i)) (decodeChars k alphabet cs))"

definition decodeBits :: "nat \<Rightarrow> string \<Rightarrow> string \<Rightarrow> bytes option" where
  "decodeBits k alphabet s = map_option bitsBytes (decodeChars k alphabet s)"

section \<open>base64 and base32\<close>

definition alnum64 :: string where
  "alnum64 = ''ABCDEFGHIJKLMNOPQRSTUVWXYZabcdefghijklmnopqrstuvwxyz0123456789''"

definition noNewline :: "string \<Rightarrow> string" where
  "noNewline s = filter (\<lambda>c. c \<noteq> CHR 0x0A \<and> c \<noteq> CHR 0x0D) s"

text \<open>\<open>base64.RawURLEncoding\<close>\<close>

definition b64url :: "bytes \<Rightarrow> string" where
  "b64url b = encodeBits 6 (alnum64 @ ''-_'') b"

definition b64urlDecode :: "string \<Rightarrow> bytes option" where
  "b64urlDecode s =
     (let t = noNewline s in if length t mod 4 = 1 then None else decodeBits 6 (alnum64 @ ''-_'') t)"

text \<open>\<open>base64.StdEncoding\<close>, with padding\<close>

definition b64std :: "bytes \<Rightarrow> string" where
  "b64std b = (let s = encodeBits 6 (alnum64 @ ''+/'') b in s @ replicate ((4 - length s mod 4) mod 4) (CHR ''=''))"

definition dropPad :: "string \<Rightarrow> string" where
  "dropPad s = (if s \<noteq> [] \<and> last s = CHR ''='' then butlast s else s)"

definition b64stdDecode :: "string \<Rightarrow> bytes option" where
  "b64stdDecode s =
     (let t = noNewline s
      in if length t mod 4 \<noteq> 0 then None else decodeBits 6 (alnum64 @ ''+/'') (dropPad (dropPad t)))"

text \<open>\<open>base32.StdEncoding.WithPadding(base32.NoPadding)\<close>: a last quantum of one, three or six characters
  is checked and gives nothing.\<close>

definition alpha32 :: string where "alpha32 = ''ABCDEFGHIJKLMNOPQRSTUVWXYZ234567''"

definition b32 :: "bytes \<Rightarrow> string" where
  "b32 b = encodeBits 5 alpha32 b"

definition b32Decode :: "string \<Rightarrow> bytes option" where
  "b32Decode s =
     (let t = noNewline s; r = length t mod 8
      in case decodeChars 5 alpha32 t of
           None \<Rightarrow> None
         | Some bs \<Rightarrow> Some (bitsBytes (if r \<in> {1, 3, 6} then take (5 * (length t - r)) bs else bs)))"

section \<open>Decoding what was encoded\<close>

lemma bitsNat_append: "bitsNat (xs @ [b]) = 2 * bitsNat xs + of_bool b"
  by (simp add: bitsNat_def)

lemma bitsNat_less: "bitsNat xs < 2 ^ length xs"
proof (induction xs rule: rev_induct)
  case (snoc b xs)
  have "2 * bitsNat xs + of_bool b < 2 * (bitsNat xs + 1)" by simp
  also have "\<dots> \<le> 2 * 2 ^ length xs" using snoc by (simp del: One_nat_def)
  finally show ?case by (simp add: bitsNat_append)
qed (simp add: bitsNat_def)

lemma natBits_bitsNat: "length xs = k \<Longrightarrow> natBits k (bitsNat xs) = xs"
proof (induction k arbitrary: xs)
  case (Suc k)
  then obtain ys b where xs: "xs = ys @ [b]" by (cases xs rule: rev_cases) auto
  with Suc show ?case by (simp add: bitsNat_append)
qed simp

lemma length_groups_elem: "g \<in> set (bitGroups k bs) \<Longrightarrow> length g = k"
proof (induction k bs rule: bitGroups.induct)
  case (1 k bs)
  then show ?case by (auto simp: bitGroups.simps[of k bs] split: if_splits)
qed

lemma groups_concat: "0 < k \<Longrightarrow> \<exists>n<k. concat (bitGroups k bs) = bs @ replicate n False"
proof (induction k bs rule: bitGroups.induct)
  case (1 k bs)
  show ?case
  proof (cases "bs = [] \<or> length bs < k")
    case True
    then show ?thesis using "1.prems" by (auto simp: bitGroups.simps[of k bs] intro: exI[of _ 0] exI[of _ "k - length bs"])
  next
    case False
    with 1 obtain n where "n < k" "concat (bitGroups k (drop k bs)) = drop k bs @ replicate n False" by auto
    with False "1.prems" show ?thesis by (auto simp: bitGroups.simps[of k bs] intro!: exI[of _ n])
  qed
qed

lemma find_index_nth: "distinct xs \<Longrightarrow> i < length xs \<Longrightarrow> find_index (\<lambda>a. a = xs ! i) xs = Some i"
  using find_index_key[of id xs i] by simp

lemma decodeChars_encode:
  assumes "distinct alphabet" and "length alphabet = 2 ^ k" and "\<forall>g\<in>set gs. length g = k"
  shows "decodeChars k alphabet (map (\<lambda>g. alphabet ! bitsNat g) gs) = Some (concat gs)"
  using assms(3)
proof (induction gs)
  case (Cons g gs)
  then have "bitsNat g < length alphabet" using bitsNat_less[of g] assms(2) by simp
  with Cons assms(1) show ?case by (simp add: find_index_nth natBits_bitsNat)
qed simp

lemma bitsNat_horner: "bitsNat xs = horner_sum of_bool 2 (rev xs)"
  by (induction xs rule: rev_induct) (simp_all add: bitsNat_append, simp add: bitsNat_def)

lemma bitsNat_byteBits: "bitsNat (byteBits b) = unat b"
proof -
  have "rev (byteBits b) = map (bit (unat b)) [0..<8]"
    by (simp add: byteBits_def bit_unsigned_iff upt_rec numeral_eq_Suc)
  then have "bitsNat (byteBits b) = take_bit 8 (unat b)"
    by (simp only: bitsNat_horner horner_sum_bit_eq_take_bit)
  then show ?thesis using unat_u8_less[of b] by (simp add: take_bit_nat_eq_self)
qed

lemma bitsBytes_concat:
  "n < 8 \<Longrightarrow> bitsBytes (concat (map byteBits b) @ replicate n False) = b"
proof (induction b)
  case Nil
  then show ?case by (simp add: bitsBytes.simps)
next
  case (Cons x b)
  have "length (byteBits x) = 8" by (simp add: byteBits_def)
  with Cons show ?case by (simp add: bitsBytes.simps[of "byteBits x @ _"] bitsNat_byteBits)
qed

lemma decodeBits_encodeBits:
  assumes "distinct alphabet" and "length alphabet = 2 ^ k" and "0 < k" and "k \<le> 8"
  shows "decodeBits k alphabet (encodeBits k alphabet b) = Some b"
proof -
  obtain n where n: "n < k" "concat (bitGroups k (concat (map byteBits b))) = concat (map byteBits b) @ replicate n False"
    using groups_concat[OF assms(3)] by blast
  have "decodeChars k alphabet (encodeBits k alphabet b) = Some (concat (map byteBits b) @ replicate n False)"
    using decodeChars_encode[OF assms(1,2), of "bitGroups k (concat (map byteBits b))"] n(2)
    by (simp add: encodeBits_def length_groups_elem)
  then show ?thesis using n(1) assms(4) by (simp add: decodeBits_def bitsBytes_concat)
qed

lemma length_groups: "0 < k \<Longrightarrow> length (bitGroups k bs) = (length bs + k - 1) div k"
proof (induction k bs rule: bitGroups.induct)
  case (1 k bs)
  consider "bs = []" | "bs \<noteq> []" "length bs < k" | "k \<le> length bs" "bs \<noteq> []" by fastforce
  then show ?case
  proof cases
    case 2
    moreover from this have "(length bs + k - 1) div k = 1" by (intro div_nat_eqI) (simp_all, cases bs, simp_all)
    ultimately show ?thesis by (simp add: bitGroups.simps[of k bs])
  next
    case 3
    then have "length bs + k - 1 = (length bs - k + k - 1) + k" using "1.prems" by simp
    then have "(length bs + k - 1) div k = Suc ((length bs - k + k - 1) div k)" using "1.prems" by (simp only: div_add_self2)
    with 3 1 show ?thesis by (auto simp: bitGroups.simps[of k bs])
  qed (use "1.prems" in \<open>simp add: bitGroups.simps[of k "[]"]\<close>)
qed

lemma length_encodeBits: "0 < k \<Longrightarrow> length (encodeBits k alphabet b) = (8 * length b + k - 1) div k"
proof -
  have "length (concat (map byteBits b)) = 8 * length b" by (induction b) (simp_all add: byteBits_def)
  then show "0 < k \<Longrightarrow> ?thesis" by (simp add: encodeBits_def length_groups)
qed

lemma set_encodeBits:
  assumes "length alphabet = 2 ^ k" and "0 < k"
  shows "set (encodeBits k alphabet b) \<subseteq> set alphabet"
proof -
  have "alphabet ! bitsNat g \<in> set alphabet" if "length g = k" for g
    using bitsNat_less[of g] that assms(1) by simp
  then show ?thesis by (auto simp: encodeBits_def dest: length_groups_elem)
qed

lemma alphabets:
  "distinct (alnum64 @ ''-_'')" "length (alnum64 @ ''-_'') = 2 ^ 6"
  "distinct (alnum64 @ ''+/'')" "length (alnum64 @ ''+/'') = 2 ^ 6"
  "distinct alpha32" "length alpha32 = 2 ^ 5"
  by (simp_all add: alnum64_def alpha32_def)

lemma noNewline_id: "CHR 0x0A \<notin> set s \<Longrightarrow> CHR 0x0D \<notin> set s \<Longrightarrow> noNewline s = s"
  by (auto simp: noNewline_def intro: filter_True)

lemma b64url_chars: "c \<in> set (b64url b) \<Longrightarrow> c \<in> set (alnum64 @ ''-_'')"
  using set_encodeBits[OF alphabets(2)] by (auto simp: b64url_def)

lemma b64url_no_dot: "CHR ''.'' \<notin> set (b64url b)"
  using b64url_chars[of "CHR ''.''" b] by (auto simp: alnum64_def)

lemma b64url_roundtrip: "b64urlDecode (b64url b) = Some b"
proof -
  have "noNewline (b64url b) = b64url b"
    by (rule noNewline_id) (auto simp: alnum64_def dest!: b64url_chars)
  moreover have "length (b64url b) mod 4 \<noteq> 1"
    by (simp add: b64url_def length_encodeBits) presburger
  ultimately show ?thesis
    by (simp add: b64urlDecode_def Let_def) (simp add: b64url_def decodeBits_encodeBits[OF alphabets(1,2)])
qed

lemma div_mod_form: "0 < k \<Longrightarrow> \<exists>q r. n = k * q + r \<and> r < (k :: nat)"
  by (rule exI[of _ "n div k"], rule exI[of _ "n mod k"]) simp

lemma pad4: "(n + (4 - n mod 4) mod 4) mod 4 = (0 :: nat)"
proof -
  obtain q r where n: "n = 4 * q + r" and r: "r < 4" using div_mod_form[of 4 n] by auto
  from r have "r = 0 \<or> r = 1 \<or> r = 2 \<or> r = 3" by linarith
  then show ?thesis by (auto simp: n)
qed

lemma length_encode6: "length (encodeBits 6 alphabet b) mod 4 \<in> {0, 2, 3}"
proof -
  obtain q r where n: "length b = 3 * q + r" and r: "r < 3" using div_mod_form[of 3 "length b"] by auto
  from r have "r = 0 \<or> r = 1 \<or> r = 2" by linarith
  then have "length (encodeBits 6 alphabet b) = 4 * q + (if r = 0 then 0 else r + 1)"
    by (auto simp: length_encodeBits n)
  then show ?thesis using r by auto
qed

lemma b64std_roundtrip: "b64stdDecode (b64std b) = Some b"
proof -
  let ?e = "encodeBits 6 (alnum64 @ ''+/'') b"
  have chars: "c \<in> set (alnum64 @ ''+/'')" if "c \<in> set ?e" for c
    using set_encodeBits[OF alphabets(4)] that by auto
  then have pad: "CHR ''='' \<notin> set ?e" by (auto simp: alnum64_def)
  have "CHR 0x0A \<notin> set ?e" "CHR 0x0D \<notin> set ?e" using chars by (auto simp: alnum64_def)
  then have no: "noNewline (b64std b) = b64std b"
    by (intro noNewline_id) (auto simp: b64std_def Let_def)
  have len: "length (b64std b) mod 4 = 0" using pad4[of "length ?e"] by (simp add: b64std_def Let_def)
  define n where "n = (4 - length ?e mod 4) mod 4"
  have n: "n \<le> 2" using length_encode6[of "alnum64 @ ''+/''" b] by (auto simp: n_def)
  have last: "dropPad ?e = ?e" using pad by (auto simp: dropPad_def dest: last_in_set)
  have one: "dropPad (?e @ replicate (Suc m) (CHR ''='')) = ?e @ replicate m (CHR ''='')" for m
    by (simp add: dropPad_def butlast_append flip: replicate_append_same)
  have "dropPad (dropPad (?e @ replicate n (CHR ''=''))) = ?e"
    using n one[of 1] one[of 0] last by (cases n; cases "n - 1") (auto simp: numeral_2_eq_2)
  with no len show ?thesis
    by (simp add: b64stdDecode_def Let_def) (simp add: b64std_def Let_def n_def decodeBits_encodeBits[OF alphabets(3,4)])
qed

lemma b32_roundtrip: "b32Decode (b32 b) = Some b"
proof -
  have "noNewline (b32 b) = b32 b"
    by (rule noNewline_id) (use set_encodeBits[OF alphabets(6), of b] in \<open>auto simp: alpha32_def b32_def\<close>)
  moreover have "length (b32 b) mod 8 \<notin> {1, 3, 6}"
    by (simp add: b32_def length_encodeBits) presburger
  moreover have "decodeBits 5 alpha32 (b32 b) = Some b"
    by (simp add: b32_def decodeBits_encodeBits[OF alphabets(5,6)])
  ultimately show ?thesis by (auto simp: b32Decode_def Let_def decodeBits_def split: option.splits)
qed

section \<open>Numbers as text and bytes\<close>

text \<open>\<open>big.Int.SetBytes\<close>, \<open>Text(16)\<close>, \<open>SetString(s, 16)\<close> and \<open>hex.DecodeString\<close>\<close>

definition bigSetBytes :: "bytes \<Rightarrow> nat" where
  "bigSetBytes b = foldl (\<lambda>n x. 256 * n + unat x) 0 b"

fun bigText :: "nat \<Rightarrow> string" where
  "bigText n = (if n < 16 then [hexdig n] else bigText (n div 16) @ [hexdig (n mod 16)])"

declare bigText.simps [simp del]

definition hexDigitValue :: "char \<Rightarrow> nat option" where
  "hexDigitValue c =
     (let n = of_char c
      in if 48 \<le> n \<and> n \<le> 57 then Some (n - 48)
         else if 97 \<le> n \<and> n \<le> 102 then Some (n - 87)
         else if 65 \<le> n \<and> n \<le> 70 then Some (n - 55)
         else None)"

fun hexNumber :: "nat \<Rightarrow> string \<Rightarrow> nat option" where
  "hexNumber acc [] = Some acc"
| "hexNumber acc (c # cs) = (case hexDigitValue c of None \<Rightarrow> None | Some d \<Rightarrow> hexNumber (16 * acc + d) cs)"

definition bigSetString :: "string \<Rightarrow> int option" where
  "bigSetString s =
     (case s of
        [] \<Rightarrow> None
      | c # cs \<Rightarrow>
          if c = CHR ''+'' then (if cs = [] then None else map_option int (hexNumber 0 cs))
          else if c = CHR ''-'' then (if cs = [] then None else map_option (\<lambda>n. - int n) (hexNumber 0 cs))
          else map_option int (hexNumber 0 s))"

fun hexDecodeString :: "string \<Rightarrow> bytes option" where
  "hexDecodeString [] = Some []"
| "hexDecodeString [c] = None"
| "hexDecodeString (c # d # cs) =
     (case (hexDigitValue c, hexDigitValue d) of
        (Some h, Some l) \<Rightarrow> map_option ((#) (of_nat (16 * h + l))) (hexDecodeString cs)
      | _ \<Rightarrow> None)"

lemma hexDigitValue_hexdig: "n < 16 \<Longrightarrow> hexDigitValue (hexdig n) = Some n"
  by (auto simp: hexDigitValue_def of_char_hexdig Let_def)

lemma hexNumber_append:
  "hexNumber acc (xs @ ys) = (case hexNumber acc xs of None \<Rightarrow> None | Some n \<Rightarrow> hexNumber n ys)"
  by (induction xs arbitrary: acc) (auto split: option.splits)

lemma hexNumber_bigText: "hexNumber 0 (bigText n) = Some n"
proof (induction n rule: bigText.induct)
  case (1 n)
  then show ?case by (simp add: bigText.simps[of n] hexNumber_append hexDigitValue_hexdig)
qed

lemma bigText_hexdig: "c \<in> set (bigText n) \<Longrightarrow> is_hexdig c"
proof (induction n rule: bigText.induct)
  case (1 n)
  then show ?case by (auto simp: bigText.simps[of n] is_hexdig_hexdig split: if_splits)
qed

lemma hexdig_of_digit: "is_hexdig c \<Longrightarrow> \<exists>d<16. hexDigitValue c = Some d \<and> c = hexdig d"
proof -
  assume c: "is_hexdig c"
  define n where "n = (of_char c :: nat)"
  have cn: "c = char_of n" by (simp add: n_def)
  from c show ?thesis
    unfolding is_hexdig_def n_def[symmetric]
    by (elim disjE conjE) (auto simp: hexDigitValue_def n_def[symmetric] hexdig_def cn)
qed

lemma bigText_not_Nil [simp]: "bigText n \<noteq> []"
  by (simp add: bigText.simps[of n])

lemma bigSetString_digits:
  assumes "s \<noteq> []" and "\<forall>c\<in>set s. is_hexdig c"
  shows "bigSetString s = map_option int (hexNumber 0 s)"
proof -
  have "\<not> is_hexdig (CHR ''+'')" "\<not> is_hexdig (CHR ''-'')" by (simp_all add: is_hexdig_def)
  with assms show ?thesis by (cases s) (auto simp: bigSetString_def)
qed

lemma bigSetString_bigText [simp]: "bigSetString (bigText n) = Some (int n)"
  using bigSetString_digits[of "bigText n"] bigText_hexdig by (auto simp: hexNumber_bigText)

lemma hexNumber_hex: "hexNumber acc (hex b) = Some (foldl (\<lambda>n x. 256 * n + unat x) acc b)"
proof (induction b arbitrary: acc)
  case (Cons x b)
  have "unat x div 16 < 16" using unat_u8_less[of x] by simp
  moreover have "16 * (16 * acc + unat x div 16) + unat x mod 16 = 256 * acc + unat x" by presburger
  ultimately show ?case using Cons by (simp add: hex_def hex_byte_def hexDigitValue_hexdig algebra_simps)
qed (simp add: hex_def)

lemma bigSetString_hex: "b \<noteq> [] \<Longrightarrow> bigSetString (hex b) = Some (int (bigSetBytes b))"
proof -
  assume b: "b \<noteq> []"
  have "hex b \<noteq> []" using b length_hex[of b] by fastforce
  then show ?thesis
    using bigSetString_digits[of "hex b"] hex_all_hexdig hexNumber_hex[of 0 b] by (simp add: bigSetBytes_def)
qed

text \<open>Decoding an even number of digits gives bytes with the same value.\<close>

lemma hexDecodeString_digits:
  assumes "\<forall>c\<in>set s. is_hexdig c" and "even (length s)"
  shows "\<exists>b. hexDecodeString s = Some b \<and> hex b = s"
  using assms
proof (induction s rule: hexDecodeString.induct)
  case (3 c d cs)
  obtain h l where h: "h < 16" "hexDigitValue c = Some h" "c = hexdig h" and l: "l < 16" "hexDigitValue d = Some l" "d = hexdig l"
    using 3 hexdig_of_digit[of c] hexdig_of_digit[of d] by auto
  from 3 obtain b where b: "hexDecodeString cs = Some b" "hex b = cs" using "3.IH"[OF refl h(2) l(2)] by auto
  have u: "unat (of_nat (16 * h + l) :: u8) = 16 * h + l"
    using h(1) l(1) by (simp add: unat_of_nat del: of_nat_add of_nat_mult)
  have "hex (of_nat (16 * h + l) # b) = c # d # cs"
    unfolding hex_def using b(2) h l(1,3) by (simp add: hex_byte_def u hex_def del: of_nat_add of_nat_mult)
  then show ?case using b(1) h(2) l(2) by auto
qed (auto simp: hex_def)

end
