(* ===== verification/Cog_Types.thy ===== *)
theory Cog_Types
  imports Go_FS Go_Result Go_Encoding
begin

text \<open>
  The data of the Cognito service (\<open>internal/cognito\<close>): the records that \<open>storage*.go\<close> keep as JSON files, the
  errors, and the state. A file holds a value of the kind that was written; reading it as another kind (two
  names can clean to the same path) decodes its text, which is a field of \<open>coglib\<close>. So are the cryptographic
  primitives (SHA-256, HMAC, bcrypt, RSA, AES-GCM), the JSON text of JWT headers and claims, and of the raw
  documents that a pool or a client keeps unparsed. Times are milliseconds since the epoch; the code holds
  them as seconds in a \<open>float64\<close>. Random bytes are a list of reads, each of which may fail.
\<close>

section \<open>Data\<close>

record AttributeType =
  at_Name :: string
  at_Value :: string

record UserMetadata =
  us_Username :: string
  us_Sub :: string
  us_Status :: string
  us_Enabled :: bool
  us_PasswordHash :: string
  us_SRPSalt :: string
  us_SRPVerifier :: string
  us_Attributes :: "AttributeType list"
  us_ConfirmationCode :: string
  us_VerificationCodes :: smap
  us_PasswordResetCode :: string
  us_PendingTOTPSecret :: string
  us_TOTPSecret :: string
  us_SoftwareTokenMFAEnabled :: bool
  us_PreferredMfaSetting :: string
  us_CreatedAt :: int
  us_UpdatedAt :: int

record userIndexEntry =
  ue_Username :: string
  ue_Sub :: string

record refreshTokenData =
  rt_Token :: string
  rt_PoolID :: string
  rt_ClientID :: string
  rt_Username :: string
  rt_Sub :: string
  rt_IssuedAt :: int
  rt_ExpiresAt :: int
  rt_OriginJTI :: string

record clientIndexEntry =
  ce_PoolID :: string
  ce_ClientID :: string

record GroupMetadata =
  gm_GroupName :: string
  gm_UserPoolId :: string
  gm_Description :: string
  gm_Precedence :: "int option"
  gm_RoleArn :: string
  gm_CreationDate :: int
  gm_LastModifiedDate :: int

record memberMarker =
  mm_Username :: string
  mm_GroupName :: string

record poolKeys =
  pk_KeyID :: string
  pk_PrivateKeyPEM :: string

text \<open>A \<open>json.RawMessage\<close>: the text of a document, empty when it is absent.\<close>

type_synonym raw = string

record UserPoolMetadata =
  up_ID :: string
  up_Name :: string
  up_Arn :: string
  up_Status :: string
  up_CreationDate :: int
  up_LastModifiedDate :: int
  up_MfaConfiguration :: string
  up_DeletionProtection :: string
  up_SchemaAttributes :: raw
  up_AliasAttributes :: "string list"
  up_AutoVerifiedAttributes :: "string list"
  up_UsernameAttributes :: "string list"
  up_UsernameConfiguration :: raw
  up_Policies :: raw
  up_LambdaConfig :: raw
  up_EmailConfiguration :: raw
  up_SmsConfiguration :: raw
  up_DeviceConfiguration :: raw
  up_AdminCreateUserConfig :: raw
  up_AccountRecoverySetting :: raw
  up_UserAttributeUpdateSettings :: raw
  up_UserPoolAddOns :: raw
  up_VerificationMessageTemplate :: raw
  up_UserPoolTags :: smap
  up_UserPoolTier :: string
  up_EmailVerificationMessage :: string
  up_EmailVerificationSubject :: string
  up_SmsAuthenticationMessage :: string
  up_SmsVerificationMessage :: string
  up_SoftwareTokenMfaConfigEnabled :: "bool option"

record UserPoolClientMetadata =
  uc_UserPoolID :: string
  uc_ClientID :: string
  uc_ClientName :: string
  uc_ClientSecret :: string
  uc_CreationDate :: int
  uc_LastModifiedDate :: int
  uc_RefreshTokenValidity :: int
  uc_AccessTokenValidity :: int
  uc_IdTokenValidity :: int
  uc_AuthSessionValidity :: int
  uc_TokenValidityUnits :: raw
  uc_ExplicitAuthFlows :: "string list"
  uc_AllowedOAuthFlows :: "string list"
  uc_AllowedOAuthScopes :: "string list"
  uc_AllowedOAuthFlowsUserPoolClient :: bool
  uc_CallbackURLs :: "string list"
  uc_LogoutURLs :: "string list"
  uc_DefaultRedirectURI :: string
  uc_SupportedIdentityProviders :: "string list"
  uc_ReadAttributes :: "string list"
  uc_WriteAttributes :: "string list"
  uc_PreventUserExistenceErrors :: string
  uc_EnableTokenRevocation :: bool
  uc_EnablePropagateAdditionalUserContextData :: bool
  uc_AnalyticsConfiguration :: raw
  uc_RefreshTokenRotation :: raw

record passwordPolicyOverlay =
  po_MinimumLength :: "int option"
  po_RequireUppercase :: "bool option"
  po_RequireLowercase :: "bool option"
  po_RequireNumbers :: "bool option"
  po_RequireSymbols :: "bool option"
  po_TemporaryPasswordValidityDays :: "int option"

record tokenValidityUnits =
  tv_AccessToken :: string
  tv_IdToken :: string
  tv_RefreshToken :: string

record recoveryMechanism =
  rm_Name :: string
  rm_Priority :: int

record schemaAttr =
  sa_AttributeDataType :: string
  sa_DeveloperOnlyAttribute :: bool
  sa_Mutable :: bool
  sa_Name :: string
  sa_Required :: bool
  sa_StringAttributeConstraints :: "(string \<times> string) option"
  sa_NumberAttributeConstraints :: "(string \<times> string) option"

text \<open>The claims of a JWT, as \<open>map[string]any\<close>; a number is what \<open>int64()\<close> makes of it.\<close>

datatype claim = CStr string | CNum int | CStrs "string list" | COther

type_synonym claims = "(string \<times> claim) list"

section \<open>Errors\<close>

datatype cog_error =
    UserNotFound
  | UsernameExists
  | RefreshTokenNotFound
  | UserPoolNotFound
  | InvalidNextToken
  | DeletionProtectionActive
  | UserPoolClientNotFound
  | GroupNotFound
  | GroupExists
  | KeysNotExist
  | NotUnconfirmed string
  | CodeMismatch
  | WrongChallengeStatus
  | NoPendingTOTPSecret
  | TOTPNotVerified
  | MFACannotDisable
  | PreviousPassword
  | TagLimitExceeded
  | NoEntropy
  | BadMaxResults
  | FileError ioerr
  | BadKey

section \<open>The state\<close>

datatype cog_content =
    JUser UserMetadata
  | JUserIndex userIndexEntry
  | JRefresh refreshTokenData
  | JRevoked int
  | JClientIndex clientIndexEntry
  | JGroup GroupMetadata
  | JMember memberMarker
  | JKeys poolKeys
  | JPool UserPoolMetadata
  | JClient UserPoolClientMetadata

type_synonym rsa_key = bytes

record coglib =
  sha256 :: "bytes \<Rightarrow> bytes"
  hmac256 :: "bytes \<Rightarrow> bytes \<Rightarrow> bytes"
  hmac1 :: "bytes \<Rightarrow> bytes \<Rightarrow> bytes"
  bcryptHash :: "bytes \<Rightarrow> bytes \<Rightarrow> string"
  bcryptCheck :: "string \<Rightarrow> bytes \<Rightarrow> bool"
  rsaGenerate :: "bytes \<Rightarrow> rsa_key"
  rsaN :: "rsa_key \<Rightarrow> bytes"
  rsaE :: "rsa_key \<Rightarrow> bytes"
  rsaD :: "rsa_key \<Rightarrow> bytes"
  rsaSign :: "rsa_key \<Rightarrow> bytes \<Rightarrow> bytes option"
  rsaVerify :: "rsa_key \<Rightarrow> bytes \<Rightarrow> bytes \<Rightarrow> bool"
  pemEncode :: "rsa_key \<Rightarrow> string"
  pemDecode :: "string \<Rightarrow> rsa_key option"
  gcmSeal :: "bytes \<Rightarrow> bytes \<Rightarrow> bytes \<Rightarrow> bytes"
  gcmOpen :: "bytes \<Rightarrow> bytes \<Rightarrow> bytes \<Rightarrow> bytes option"
  headerJSON :: "string \<Rightarrow> bytes"
  claimsJSON :: "claims \<Rightarrow> bytes"
  parseClaims :: "bytes \<Rightarrow> claims option"
  parsePolicies :: "raw \<Rightarrow> passwordPolicyOverlay option"
  parseUnits :: "raw \<Rightarrow> tokenValidityUnits"
  parseRecovery :: "raw \<Rightarrow> recoveryMechanism list option"
  recoveryJSON :: "recoveryMechanism list \<Rightarrow> raw"
  parseSchema :: "raw \<Rightarrow> schemaAttr list option"
  schemaJSON :: "schemaAttr list \<Rightarrow> raw"
  policiesJSON :: "passwordPolicyOverlay \<Rightarrow> raw"
  runeUpper :: "string \<Rightarrow> bool"
  runeLower :: "string \<Rightarrow> bool"
  runeNumber :: "string \<Rightarrow> bool"
  runeLetter :: "string \<Rightarrow> bool"
  runeSpace :: "string \<Rightarrow> bool"
  asUser :: "cog_content \<Rightarrow> UserMetadata option"
  asUserIndex :: "cog_content \<Rightarrow> userIndexEntry option"
  asRefresh :: "cog_content \<Rightarrow> refreshTokenData option"
  asClientIndex :: "cog_content \<Rightarrow> clientIndexEntry option"
  asGroup :: "cog_content \<Rightarrow> GroupMetadata option"
  asMember :: "cog_content \<Rightarrow> memberMarker option"
  asKeys :: "cog_content \<Rightarrow> poolKeys option"
  asPool :: "cog_content \<Rightarrow> UserPoolMetadata option"
  asClient :: "cog_content \<Rightarrow> UserPoolClientMetadata option"

record cog = "cog_content disk" +
  clib :: coglib
  cog_rand :: "bytes option list"
  cog_now :: int

type_synonym 'a cog_result = "(cog_error + 'a) \<times> cog"

definition bindC :: "'a cog_result \<Rightarrow> ('a \<Rightarrow> cog \<Rightarrow> 'b cog_result) \<Rightarrow> 'b cog_result" where
  "bindC r k = (case r of (Inl e, s) \<Rightarrow> (Inl e, s) | (Inr a, s) \<Rightarrow> k a s)"

lemma bindC_simps [simp]: "bindC (Inl e, s) k = (Inl e, s)" "bindC (Inr a, s) k = k a s"
  by (simp_all add: bindC_def)

text \<open>\<open>if err != nil { return err }\<close> after a system call\<close>

definition fileDone :: "ioerr option \<times> cog \<Rightarrow> unit cog_result" where
  "fileDone r = (case r of (Some e, s) \<Rightarrow> (Inl (FileError e), s) | (None, s) \<Rightarrow> (Inr (), s))"

text \<open>A missing file is the given error, any other one is passed on.\<close>

definition missingAs :: "cog_error \<Rightarrow> ioerr + 'a \<Rightarrow> cog_error + 'a" where
  "missingAs e0 r = (case r of Inr a \<Rightarrow> Inr a | Inl e \<Rightarrow> Inl (if e = ENotExist then e0 else FileError e))"

section \<open>Randomness and time\<close>

definition randRead_cog :: "nat \<Rightarrow> cog \<Rightarrow> bytes cog_result" where
  "randRead_cog n s =
     (case cog_rand s of
        [] \<Rightarrow> (Inl NoEntropy, s)
      | None # rs \<Rightarrow> (Inl NoEntropy, s\<lparr>cog_rand := rs\<rparr>)
      | Some b # rs \<Rightarrow> (Inr (take n b @ replicate (n - length b) 0), s\<lparr>cog_rand := rs\<rparr>))"

text \<open>Reading again until the bytes are acceptable (\<open>rand.Int\<close> and the loops that avoid a modular bias)\<close>

fun readUntil :: "nat \<Rightarrow> (bytes \<Rightarrow> bool) \<Rightarrow> bytes option list \<Rightarrow> (cog_error + bytes) \<times> bytes option list" where
  "readUntil n ok [] = (Inl NoEntropy, [])"
| "readUntil n ok (None # rs) = (Inl NoEntropy, rs)"
| "readUntil n ok (Some b # rs) =
     (let x = take n b @ replicate (n - length b) 0 in if ok x then (Inr x, rs) else readUntil n ok rs)"

definition randUntil :: "nat \<Rightarrow> (bytes \<Rightarrow> bool) \<Rightarrow> cog \<Rightarrow> bytes cog_result" where
  "randUntil n ok s = (case readUntil n ok (cog_rand s) of (r, rs) \<Rightarrow> (r, s\<lparr>cog_rand := rs\<rparr>))"

definition nowUnix :: "cog \<Rightarrow> int" where "nowUnix s = cog_now s"

definition unixSeconds :: "cog \<Rightarrow> int" where "unixSeconds s = cog_now s div 1000"

definition generateTokenID :: "cog \<Rightarrow> string cog_result" where
  "generateTokenID s = bindC (randRead_cog 32 s) (\<lambda>b s. (Inr (hex b), s))"

definition uuidText :: "bytes \<Rightarrow> string" where
  "uuidText b0 =
     (let b1 = b0[6 := or (and (b0 ! 6) 0x0f) 0x40];
          b = b1[8 := or (and (b1 ! 8) 0x3f) 0x80]
      in hex (take 4 b) @ ''-'' @ hex (take 2 (drop 4 b)) @ ''-'' @ hex (take 2 (drop 6 b)) @ ''-''
         @ hex (take 2 (drop 8 b)) @ ''-'' @ hex (drop 10 b))"

definition generateUUID :: "cog \<Rightarrow> string cog_result" where
  "generateUUID s = bindC (randRead_cog 16 s) (\<lambda>b s. (Inr (uuidText b), s))"

text \<open>\<open>fmt.Sprintf("%06d", n)\<close>\<close>

definition sixDigits :: "nat \<Rightarrow> string" where
  "sixDigits n = replicate (6 - length (nat_str n)) (CHR ''0'') @ nat_str n"

definition generateConfirmationCodeFrom :: "cog \<Rightarrow> string cog_result" where
  "generateConfirmationCodeFrom s =
     bindC (randRead_cog 4 s) (\<lambda>b s. (Inr (sixDigits (bigSetBytes b mod 1000000)), s))"

section \<open>Reading and writing JSON files\<close>

definition readJSON_cog :: "(cog_content \<Rightarrow> 'a option) \<Rightarrow> cog \<Rightarrow> path \<Rightarrow> ioerr + 'a" where
  "readJSON_cog decode s p =
     (case root_ReadFile s p of
        Inl e \<Rightarrow> Inl e
      | Inr None \<Rightarrow> Inl EOther
      | Inr (Some c) \<Rightarrow> (case decode c of None \<Rightarrow> Inl EOther | Some v \<Rightarrow> Inr v))"

definition writeJSON_cog :: "path \<Rightarrow> cog_content \<Rightarrow> cog \<Rightarrow> unit cog_result" where
  "writeJSON_cog p c s = fileDone (root_WriteFile p c s)"

definition decodeUser :: "cog \<Rightarrow> cog_content \<Rightarrow> UserMetadata option" where
  "decodeUser s c = (case c of JUser v \<Rightarrow> Some v | _ \<Rightarrow> asUser (clib s) c)"

definition decodeUserIndex :: "cog \<Rightarrow> cog_content \<Rightarrow> userIndexEntry option" where
  "decodeUserIndex s c = (case c of JUserIndex v \<Rightarrow> Some v | _ \<Rightarrow> asUserIndex (clib s) c)"

definition decodeRefresh :: "cog \<Rightarrow> cog_content \<Rightarrow> refreshTokenData option" where
  "decodeRefresh s c = (case c of JRefresh v \<Rightarrow> Some v | _ \<Rightarrow> asRefresh (clib s) c)"

definition decodeClientIndex :: "cog \<Rightarrow> cog_content \<Rightarrow> clientIndexEntry option" where
  "decodeClientIndex s c = (case c of JClientIndex v \<Rightarrow> Some v | _ \<Rightarrow> asClientIndex (clib s) c)"

definition decodeGroup :: "cog \<Rightarrow> cog_content \<Rightarrow> GroupMetadata option" where
  "decodeGroup s c = (case c of JGroup v \<Rightarrow> Some v | _ \<Rightarrow> asGroup (clib s) c)"

definition decodeMember :: "cog \<Rightarrow> cog_content \<Rightarrow> memberMarker option" where
  "decodeMember s c = (case c of JMember v \<Rightarrow> Some v | _ \<Rightarrow> asMember (clib s) c)"

definition decodeKeys :: "cog \<Rightarrow> cog_content \<Rightarrow> poolKeys option" where
  "decodeKeys s c = (case c of JKeys v \<Rightarrow> Some v | _ \<Rightarrow> asKeys (clib s) c)"

definition decodePool :: "cog \<Rightarrow> cog_content \<Rightarrow> UserPoolMetadata option" where
  "decodePool s c = (case c of JPool v \<Rightarrow> Some v | _ \<Rightarrow> asPool (clib s) c)"

definition decodeClient :: "cog \<Rightarrow> cog_content \<Rightarrow> UserPoolClientMetadata option" where
  "decodeClient s c = (case c of JClient v \<Rightarrow> Some v | _ \<Rightarrow> asClient (clib s) c)"

text \<open>\<open>mkdirFn\<close> of a directory that may exist, and \<open>removeFile\<close> of a file that may be missing\<close>

definition mkdirOk :: "path \<Rightarrow> cog \<Rightarrow> unit cog_result" where
  "mkdirOk p s = (case root_Mkdir p s of (Some EExist, s) \<Rightarrow> (Inr (), s) | r \<Rightarrow> fileDone r)"

definition removeOk :: "path \<Rightarrow> cog \<Rightarrow> unit cog_result" where
  "removeOk p s = (case root_Remove p s of (Some ENotExist, s) \<Rightarrow> (Inr (), s) | r \<Rightarrow> fileDone r)"

end
