(* ===== verification/Cog_Storage.thy ===== *)
theory Cog_Storage
  imports Cog_Types
begin

text \<open>
  The storage of the Cognito service: user pools and their clients (\<open>storage_user_pool.go\<close>,
  \<open>storage_user_pool_client.go\<close>), users (\<open>storage_user.go\<close>), groups (\<open>storage_group.go\<close>), the signing keys
  (\<open>storage_keys.go\<close>), refresh tokens and revocations (\<open>storage_token.go\<close>). An update takes the closure of its
  caller as a function that may fail or read random bytes; where the caller keeps the updated value, it is the
  result of the update.
\<close>

section \<open>Paths\<close>

definition userIndexKey :: "cog \<Rightarrow> string \<Rightarrow> string" where
  "userIndexKey s username = hex (sha256 (clib s) (bytes_of_string (strings_ToLower username)))"

definition userIndexPath :: "cog \<Rightarrow> string \<Rightarrow> string \<Rightarrow> path" where
  "userIndexPath s poolID username = filepath_Join [''pools'', poolID, ''user_index'', userIndexKey s username @ ''.json'']"

definition userPath :: "string \<Rightarrow> string \<Rightarrow> path" where
  "userPath poolID sub = filepath_Join [''pools'', poolID, ''users'', sub @ ''.json'']"

definition refreshTokenPath :: "string \<Rightarrow> string \<Rightarrow> path" where
  "refreshTokenPath poolID token = filepath_Join [''pools'', poolID, ''refresh_tokens'', token @ ''.json'']"

definition revokedJTIPath :: "string \<Rightarrow> string \<Rightarrow> path" where
  "revokedJTIPath poolID jti = filepath_Join [''pools'', poolID, ''revoked_jtis'', jti @ ''.json'']"

definition groupKey :: "cog \<Rightarrow> string \<Rightarrow> string" where
  "groupKey s groupName = hex (sha256 (clib s) (bytes_of_string groupName))"

definition groupPath :: "cog \<Rightarrow> string \<Rightarrow> string \<Rightarrow> path" where
  "groupPath s poolID groupName = filepath_Join [''pools'', poolID, ''groups'', groupKey s groupName @ ''.json'']"

definition memberPath :: "cog \<Rightarrow> string \<Rightarrow> string \<Rightarrow> string \<Rightarrow> path" where
  "memberPath s poolID groupName username =
     filepath_Join [''pools'', poolID, ''group_members'', groupKey s groupName, groupKey s username @ ''.json'']"

definition userGroupPath :: "cog \<Rightarrow> string \<Rightarrow> string \<Rightarrow> string \<Rightarrow> path" where
  "userGroupPath s poolID username groupName =
     filepath_Join [''pools'', poolID, ''user_groups'', groupKey s username, groupKey s groupName @ ''.json'']"

definition keysPath :: "string \<Rightarrow> path" where
  "keysPath poolID = filepath_Join [''pools'', poolID, ''keys.json'']"

definition poolPath :: "string \<Rightarrow> path" where
  "poolPath poolID = filepath_Join [''pools'', poolID, ''meta.json'']"

definition clientPath :: "string \<Rightarrow> string \<Rightarrow> path" where
  "clientPath poolID clientID = filepath_Join [''pools'', poolID, ''clients'', clientID @ ''.json'']"

definition clientIndexPath :: "string \<Rightarrow> path" where
  "clientIndexPath clientID = filepath_Join [''client_index'', clientID @ ''.json'']"

section \<open>Pages of a sorted list\<close>

text \<open>The elements after the one that the token names, at most \<open>maxResults\<close> of them, and the next token.
  The lists of pools cut at any length; the others only when \<open>maxResults\<close> is positive.\<close>

definition pageOf :: "('a \<Rightarrow> string) \<Rightarrow> bool \<Rightarrow> int \<Rightarrow> string \<Rightarrow> 'a list \<Rightarrow> cog_error + ('a list \<times> string)" where
  "pageOf key always maxResults nextToken xs =
     (case (if nextToken = [] then Some xs
            else map_option (\<lambda>i. drop (Suc i) xs) (find_index (\<lambda>x. key x = nextToken) xs)) of
        None \<Rightarrow> Inl InvalidNextToken
      | Some ys \<Rightarrow>
          if (always \<or> 0 < maxResults) \<and> maxResults < int (length ys)
          then (if maxResults \<le> 0 then Inl BadMaxResults
                else Inr (take (nat maxResults) ys, key (ys ! nat (maxResults - 1))))
          else Inr (ys, []))"

section \<open>Directories\<close>

fun removeFlatEntries :: "path \<Rightarrow> (string \<times> bool) list \<Rightarrow> cog \<Rightarrow> unit cog_result" where
  "removeFlatEntries dir [] s = (Inr (), s)"
| "removeFlatEntries dir ((name, d) # es) s = bindC (removeOk (dir @ [name]) s) (\<lambda>_ s. removeFlatEntries dir es s)"

definition deleteFlatDirLocked :: "path \<Rightarrow> cog \<Rightarrow> unit cog_result" where
  "deleteFlatDirLocked dir s =
     (case root_ReadDir s dir of
        Inl e \<Rightarrow> (if e = ENotExist then Inr () else Inl (FileError e), s)
      | Inr es \<Rightarrow> bindC (removeFlatEntries dir es s) (\<lambda>_ s. removeOk dir s))"

fun removeNested :: "path \<Rightarrow> (string \<times> bool) list \<Rightarrow> cog \<Rightarrow> unit cog_result" where
  "removeNested dir [] s = (Inr (), s)"
| "removeNested dir ((name, isDir) # es) s =
     bindC (if isDir then deleteFlatDirLocked (dir @ [name]) s else removeOk (dir @ [name]) s)
       (\<lambda>_ s. removeNested dir es s)"

definition deleteNestedDirLocked :: "path \<Rightarrow> cog \<Rightarrow> unit cog_result" where
  "deleteNestedDirLocked dir s =
     (case root_ReadDir s dir of
        Inl e \<Rightarrow> (if e = ENotExist then Inr () else Inl (FileError e), s)
      | Inr es \<Rightarrow> bindC (removeNested dir es s) (\<lambda>_ s. removeOk dir s))"

section \<open>User pools\<close>

definition GetUserPool :: "string \<Rightarrow> cog \<Rightarrow> cog_error + UserPoolMetadata" where
  "GetUserPool poolID s = missingAs UserPoolNotFound (readJSON_cog (decodePool s) s (poolPath poolID))"

definition CreateUserPool :: "UserPoolMetadata \<Rightarrow> cog \<Rightarrow> unit cog_result" where
  "CreateUserPool meta s =
     (case fileDone (root_Mkdir (filepath_Join [''pools'', up_ID meta]) s) of
        (Inl e, s) \<Rightarrow> (Inl e, s)
      | (Inr _, s) \<Rightarrow> writeJSON_cog (poolPath (up_ID meta)) (JPool meta) s)"

definition UpdateUserPool ::
  "string \<Rightarrow> (UserPoolMetadata \<Rightarrow> cog_error + UserPoolMetadata) \<Rightarrow> cog \<Rightarrow> UserPoolMetadata cog_result" where
  "UpdateUserPool poolID fn s =
     (case GetUserPool poolID s of
        Inl e \<Rightarrow> (Inl e, s)
      | Inr meta \<Rightarrow>
          (case fn meta of
             Inl e \<Rightarrow> (Inl e, s)
           | Inr meta \<Rightarrow>
               let meta = meta\<lparr>up_LastModifiedDate := nowUnix s\<rparr>
               in bindC (writeJSON_cog (poolPath poolID) (JPool meta) s) (\<lambda>_ s. (Inr meta, s))))"

definition deleteClientIndexLocked :: "string \<Rightarrow> cog \<Rightarrow> unit cog_result" where
  "deleteClientIndexLocked clientID s = removeOk (clientIndexPath clientID) s"

fun deleteClientFiles :: "path \<Rightarrow> (string \<times> bool) list \<Rightarrow> cog \<Rightarrow> unit cog_result" where
  "deleteClientFiles dir [] s = (Inr (), s)"
| "deleteClientFiles dir ((name, d) # es) s =
     bindC (deleteClientIndexLocked (strings_TrimSuffix name ''.json'') s) (\<lambda>_ s.
     bindC (removeOk (dir @ [name]) s) (\<lambda>_ s. deleteClientFiles dir es s))"

definition deleteClientsDirLocked :: "string \<Rightarrow> cog \<Rightarrow> unit cog_result" where
  "deleteClientsDirLocked poolID s =
     (let dir = filepath_Join [''pools'', poolID, ''clients'']
      in case root_ReadDir s dir of
           Inl e \<Rightarrow> (if e = ENotExist then Inr () else Inl (FileError e), s)
         | Inr es \<Rightarrow> bindC (deleteClientFiles dir es s) (\<lambda>_ s. removeOk dir s))"

definition DeleteUserPool :: "string \<Rightarrow> cog \<Rightarrow> unit cog_result" where
  "DeleteUserPool poolID s =
     (case GetUserPool poolID s of
        Inl e \<Rightarrow> (Inl e, s)
      | Inr meta \<Rightarrow>
          if up_DeletionProtection meta = ''ACTIVE'' then (Inl DeletionProtectionActive, s)
          else let sub = (\<lambda>d. filepath_Join [''pools'', poolID, d])
               in bindC (deleteClientsDirLocked poolID s) (\<lambda>_ s.
                  bindC (deleteFlatDirLocked (sub ''users'') s) (\<lambda>_ s.
                  bindC (deleteFlatDirLocked (sub ''user_index'') s) (\<lambda>_ s.
                  bindC (deleteFlatDirLocked (sub ''refresh_tokens'') s) (\<lambda>_ s.
                  bindC (deleteFlatDirLocked (sub ''revoked_jtis'') s) (\<lambda>_ s.
                  bindC (deleteFlatDirLocked (sub ''groups'') s) (\<lambda>_ s.
                  bindC (deleteNestedDirLocked (sub ''group_members'') s) (\<lambda>_ s.
                  bindC (deleteNestedDirLocked (sub ''user_groups'') s) (\<lambda>_ s.
                  bindC (removeOk (keysPath poolID) s) (\<lambda>_ s.
                  bindC (removeOk (poolPath poolID) s) (\<lambda>_ s.
                  removeOk (filepath_Join [''pools'', poolID]) s)))))))))))"

definition ListUserPools :: "int \<Rightarrow> string \<Rightarrow> cog \<Rightarrow> cog_error + (UserPoolMetadata list \<times> string)" where
  "ListUserPools maxResults nextToken s =
     (case root_ReadDir s [''pools''] of
        Inl e \<Rightarrow> if e = ENotExist then Inr ([], []) else Inl (FileError e)
      | Inr es \<Rightarrow>
          (case pageOf id True maxResults nextToken (sort (map fst (filter snd es))) of
             Inl e \<Rightarrow> Inl e
           | Inr (ids, next) \<Rightarrow>
               Inr (List.map_filter (\<lambda>i. case readJSON_cog (decodePool s) s [''pools'', i, ''meta.json''] of
                                           Inr m \<Rightarrow> Some m | Inl _ \<Rightarrow> None) ids, next)))"

section \<open>Clients\<close>

definition writeClientIndexLocked :: "string \<Rightarrow> string \<Rightarrow> cog \<Rightarrow> unit cog_result" where
  "writeClientIndexLocked poolID clientID s =
     writeJSON_cog (clientIndexPath clientID) (JClientIndex \<lparr>ce_PoolID = poolID, ce_ClientID = clientID\<rparr>) s"

text \<open>A second write that fails takes the first one back; the error is that of the write.\<close>

definition orRollback :: "path \<Rightarrow> unit cog_result \<Rightarrow> unit cog_result" where
  "orRollback p r = (case r of (Inl e, s) \<Rightarrow> (Inl e, snd (root_Remove p s)) | (Inr u, s) \<Rightarrow> (Inr u, s))"

definition CreateUserPoolClient :: "UserPoolClientMetadata \<Rightarrow> cog \<Rightarrow> unit cog_result" where
  "CreateUserPoolClient meta s =
     (case GetUserPool (uc_UserPoolID meta) s of
        Inl e \<Rightarrow> (Inl e, s)
      | Inr _ \<Rightarrow>
          let p = clientPath (uc_UserPoolID meta) (uc_ClientID meta)
          in bindC (mkdirOk (filepath_Join [''pools'', uc_UserPoolID meta, ''clients'']) s) (\<lambda>_ s.
             bindC (writeJSON_cog p (JClient meta) s) (\<lambda>_ s.
             orRollback p (writeClientIndexLocked (uc_UserPoolID meta) (uc_ClientID meta) s))))"

definition GetUserPoolClient :: "string \<Rightarrow> string \<Rightarrow> cog \<Rightarrow> cog_error + UserPoolClientMetadata" where
  "GetUserPoolClient poolID clientID s =
     missingAs UserPoolClientNotFound (readJSON_cog (decodeClient s) s (clientPath poolID clientID))"

definition UpdateUserPoolClient ::
  "string \<Rightarrow> string \<Rightarrow> (UserPoolClientMetadata \<Rightarrow> UserPoolClientMetadata) \<Rightarrow> cog \<Rightarrow> UserPoolClientMetadata cog_result" where
  "UpdateUserPoolClient poolID clientID fn s =
     (case GetUserPoolClient poolID clientID s of
        Inl e \<Rightarrow> (Inl e, s)
      | Inr meta \<Rightarrow>
          let meta = (fn meta)\<lparr>uc_LastModifiedDate := nowUnix s\<rparr>
          in bindC (writeJSON_cog (clientPath poolID clientID) (JClient meta) s) (\<lambda>_ s. (Inr meta, s)))"

definition DeleteUserPoolClient :: "string \<Rightarrow> string \<Rightarrow> cog \<Rightarrow> unit cog_result" where
  "DeleteUserPoolClient poolID clientID s =
     (case root_Remove (clientPath poolID clientID) s of
        (Some e, s) \<Rightarrow> (Inl (if e = ENotExist then UserPoolClientNotFound else FileError e), s)
      | (None, s) \<Rightarrow> deleteClientIndexLocked clientID s)"

fun readClients :: "cog \<Rightarrow> path \<Rightarrow> string list \<Rightarrow> cog_error + UserPoolClientMetadata list" where
  "readClients s dir [] = Inr []"
| "readClients s dir (i # ids) =
     (case readJSON_cog (decodeClient s) s (dir @ [i @ ''.json'']) of
        Inl e \<Rightarrow> Inl (FileError e)
      | Inr m \<Rightarrow> map_sum id ((#) m) (readClients s dir ids))"

definition ListUserPoolClients ::
  "string \<Rightarrow> int \<Rightarrow> string \<Rightarrow> cog \<Rightarrow> cog_error + (UserPoolClientMetadata list \<times> string)" where
  "ListUserPoolClients poolID maxResults nextToken s =
     (if maxResults \<le> 0 then Inl (FileError EOther)
      else case GetUserPool poolID s of
        Inl e \<Rightarrow> Inl e
      | Inr _ \<Rightarrow>
          let dir = filepath_Join [''pools'', poolID, ''clients'']
          in case root_ReadDir s dir of
               Inl e \<Rightarrow> if e = ENotExist then Inr ([], []) else Inl (FileError e)
             | Inr es \<Rightarrow>
                 (case pageOf id True maxResults nextToken
                         (sort (map (\<lambda>(n, _). strings_TrimSuffix n ''.json'')
                                  (filter (\<lambda>(n, d). \<not> d \<and> has_suffix ''.json'' n) es))) of
                    Inl e \<Rightarrow> Inl e
                  | Inr (ids, next) \<Rightarrow> map_sum id (\<lambda>cs. (cs, next)) (readClients s dir ids)))"

text \<open>\<open>^[a-z0-9]{26}$\<close>\<close>

definition reClientID :: "string \<Rightarrow> bool" where
  "reClientID c \<longleftrightarrow> length c = 26 \<and> list_all (\<lambda>x. x \<in> set ''abcdefghijklmnopqrstuvwxyz0123456789'') c"

definition GetPoolIDForClient :: "string \<Rightarrow> cog \<Rightarrow> cog_error + string" where
  "GetPoolIDForClient clientID s =
     (if \<not> reClientID clientID then Inl UserPoolClientNotFound
      else map_sum id ce_PoolID
             (missingAs UserPoolClientNotFound (readJSON_cog (decodeClientIndex s) s (clientIndexPath clientID))))"

end
