(* ===== verification/Cog_Users.thy ===== *)
theory Cog_Users
  imports Cog_Storage
begin

text \<open>
  Users, groups, signing keys, refresh tokens and revoked tokens of a pool (\<open>storage_user.go\<close>,
  \<open>storage_group.go\<close>, \<open>storage_keys.go\<close>, \<open>storage_token.go\<close>).
\<close>

section \<open>Users\<close>

definition GetUser :: "string \<Rightarrow> string \<Rightarrow> cog \<Rightarrow> cog_error + UserMetadata" where
  "GetUser poolID username s =
     (case missingAs UserNotFound (readJSON_cog (decodeUserIndex s) s (userIndexPath s poolID username)) of
        Inl e \<Rightarrow> Inl e
      | Inr idx \<Rightarrow> missingAs UserNotFound (readJSON_cog (decodeUser s) s (userPath poolID (ue_Sub idx))))"

definition GetUserBySub :: "string \<Rightarrow> string \<Rightarrow> cog \<Rightarrow> cog_error + UserMetadata" where
  "GetUserBySub poolID sub s = missingAs UserNotFound (readJSON_cog (decodeUser s) s (userPath poolID sub))"

definition CreateUser :: "string \<Rightarrow> UserMetadata \<Rightarrow> cog \<Rightarrow> unit cog_result" where
  "CreateUser poolID user s =
     (let idxPath = userIndexPath s poolID (us_Username user)
      in case root_Stat s idxPath of
           Inr _ \<Rightarrow> (Inl UsernameExists, s)
         | Inl _ \<Rightarrow>
             bindC (mkdirOk (filepath_Join [''pools'', poolID, ''users'']) s) (\<lambda>_ s.
             bindC (mkdirOk (filepath_Join [''pools'', poolID, ''user_index'']) s) (\<lambda>_ s.
             bindC (writeJSON_cog (userPath poolID (us_Sub user)) (JUser user) s) (\<lambda>_ s.
             orRollback (userPath poolID (us_Sub user))
               (writeJSON_cog idxPath (JUserIndex \<lparr>ue_Username = us_Username user, ue_Sub = us_Sub user\<rparr>) s)))))"

definition DeleteUser_cog :: "string \<Rightarrow> string \<Rightarrow> cog \<Rightarrow> unit cog_result" where
  "DeleteUser_cog poolID username s =
     (case missingAs UserNotFound (readJSON_cog (decodeUserIndex s) s (userIndexPath s poolID username)) of
        Inl e \<Rightarrow> (Inl e, s)
      | Inr idx \<Rightarrow>
          bindC (removeOk (userPath poolID (ue_Sub idx)) s) (\<lambda>_ s. removeOk (userIndexPath s poolID username) s))"

definition readAllIn :: "(cog_content \<Rightarrow> 'a option) \<Rightarrow> cog \<Rightarrow> path \<Rightarrow> (string \<times> bool) list \<Rightarrow> 'a list" where
  "readAllIn decode s dir es =
     List.map_filter (\<lambda>(n, d). if d then None
                               else case readJSON_cog decode s (dir @ [n]) of Inr v \<Rightarrow> Some v | Inl _ \<Rightarrow> None) es"

definition ListUsers ::
  "string \<Rightarrow> (UserMetadata \<Rightarrow> bool) \<Rightarrow> int \<Rightarrow> string \<Rightarrow> cog \<Rightarrow> cog_error + (UserMetadata list \<times> string)" where
  "ListUsers poolID want maxResults nextToken s =
     (let dir = filepath_Join [''pools'', poolID, ''users'']
      in case root_ReadDir s dir of
           Inl e \<Rightarrow> if e = ENotExist then Inr ([], []) else Inl (FileError e)
         | Inr es \<Rightarrow>
             pageOf us_Username False maxResults nextToken
               (sort_key us_Username (filter want (readAllIn (decodeUser s) s dir es))))"

definition UpdateUser ::
  "string \<Rightarrow> string \<Rightarrow> (UserMetadata \<Rightarrow> cog \<Rightarrow> UserMetadata cog_result) \<Rightarrow> cog \<Rightarrow> UserMetadata cog_result" where
  "UpdateUser poolID username fn s =
     (case GetUser poolID username s of
        Inl e \<Rightarrow> (Inl e, s)
      | Inr user \<Rightarrow>
          bindC (fn user s) (\<lambda>user s.
            let user = user\<lparr>us_UpdatedAt := nowUnix s\<rparr>
            in bindC (writeJSON_cog (userPath poolID (us_Sub user)) (JUser user) s) (\<lambda>_ s. (Inr user, s))))"

section \<open>Groups\<close>

definition GetGroup :: "string \<Rightarrow> string \<Rightarrow> cog \<Rightarrow> cog_error + GroupMetadata" where
  "GetGroup poolID groupName s =
     missingAs GroupNotFound (readJSON_cog (decodeGroup s) s (groupPath s poolID groupName))"

definition CreateGroup :: "string \<Rightarrow> GroupMetadata \<Rightarrow> cog \<Rightarrow> unit cog_result" where
  "CreateGroup poolID grp s =
     (let gPath = groupPath s poolID (gm_GroupName grp)
      in case root_Stat s gPath of
           Inr _ \<Rightarrow> (Inl GroupExists, s)
         | Inl _ \<Rightarrow>
             bindC (mkdirOk (filepath_Join [''pools'', poolID, ''groups'']) s) (\<lambda>_ s.
             writeJSON_cog gPath (JGroup grp) s))"

definition UpdateGroup ::
  "string \<Rightarrow> string \<Rightarrow> (GroupMetadata \<Rightarrow> GroupMetadata) \<Rightarrow> cog \<Rightarrow> GroupMetadata cog_result" where
  "UpdateGroup poolID groupName fn s =
     (case GetGroup poolID groupName s of
        Inl e \<Rightarrow> (Inl e, s)
      | Inr grp \<Rightarrow>
          let grp = (fn grp)\<lparr>gm_LastModifiedDate := nowUnix s\<rparr>
          in bindC (writeJSON_cog (groupPath s poolID groupName) (JGroup grp) s) (\<lambda>_ s. (Inr grp, s)))"

fun removeUserGroups :: "string \<Rightarrow> string \<Rightarrow> (string \<times> bool) list \<Rightarrow> cog \<Rightarrow> unit cog_result" where
  "removeUserGroups poolID groupName [] s = (Inr (), s)"
| "removeUserGroups poolID groupName ((n, d) # es) s =
     (if d then removeUserGroups poolID groupName es s
      else bindC (removeOk (filepath_Join [''pools'', poolID, ''user_groups'', strings_TrimSuffix n ''.json'',
                                           groupKey s groupName @ ''.json'']) s)
             (\<lambda>_ s. removeUserGroups poolID groupName es s))"

definition DeleteGroup :: "string \<Rightarrow> string \<Rightarrow> cog \<Rightarrow> unit cog_result" where
  "DeleteGroup poolID groupName s =
     (let gPath = groupPath s poolID groupName;
          memberDir = filepath_Join [''pools'', poolID, ''group_members'', groupKey s groupName]
      in case root_Stat s gPath of
           Inl e \<Rightarrow> (Inl (if e = ENotExist then GroupNotFound else FileError e), s)
         | Inr _ \<Rightarrow>
             (case (case root_ReadDir s memberDir of
                      Inl e \<Rightarrow> if e = ENotExist then Inr [] else Inl (FileError e)
                    | Inr es \<Rightarrow> Inr es) of
                Inl e \<Rightarrow> (Inl e, s)
              | Inr es \<Rightarrow>
                  bindC (removeUserGroups poolID groupName es s) (\<lambda>_ s.
                  bindC (deleteFlatDirLocked memberDir s) (\<lambda>_ s. fileDone (root_Remove gPath s)))))"

definition ListGroups :: "string \<Rightarrow> int \<Rightarrow> string \<Rightarrow> cog \<Rightarrow> cog_error + (GroupMetadata list \<times> string)" where
  "ListGroups poolID maxResults nextToken s =
     (let dir = filepath_Join [''pools'', poolID, ''groups'']
      in case root_ReadDir s dir of
           Inl e \<Rightarrow> if e = ENotExist then Inr ([], []) else Inl (FileError e)
         | Inr es \<Rightarrow>
             pageOf gm_GroupName False maxResults nextToken
               (sort_key gm_GroupName (readAllIn (decodeGroup s) s dir es)))"

definition AddUserToGroup :: "string \<Rightarrow> string \<Rightarrow> string \<Rightarrow> cog \<Rightarrow> unit cog_result" where
  "AddUserToGroup poolID groupName username s =
     (let marker = JMember \<lparr>mm_Username = username, mm_GroupName = groupName\<rparr>
      in bindC (mkdirOk (filepath_Join [''pools'', poolID, ''group_members'']) s) (\<lambda>_ s.
         bindC (mkdirOk (filepath_Join [''pools'', poolID, ''group_members'', groupKey s groupName]) s) (\<lambda>_ s.
         bindC (mkdirOk (filepath_Join [''pools'', poolID, ''user_groups'']) s) (\<lambda>_ s.
         bindC (mkdirOk (filepath_Join [''pools'', poolID, ''user_groups'', groupKey s username]) s) (\<lambda>_ s.
         bindC (writeJSON_cog (memberPath s poolID groupName username) marker s) (\<lambda>_ s.
         orRollback (memberPath s poolID groupName username)
           (writeJSON_cog (userGroupPath s poolID username groupName) marker s)))))))"

definition RemoveUserFromGroup :: "string \<Rightarrow> string \<Rightarrow> string \<Rightarrow> cog \<Rightarrow> unit cog_result" where
  "RemoveUserFromGroup poolID groupName username s =
     bindC (removeOk (memberPath s poolID groupName username) s) (\<lambda>_ s.
     removeOk (userGroupPath s poolID username groupName) s)"

text \<open>The groups of the markers; those of deleted groups are left out.\<close>

fun groupsOf :: "cog \<Rightarrow> string \<Rightarrow> memberMarker list \<Rightarrow> cog_error + (memberMarker \<times> GroupMetadata) list" where
  "groupsOf s poolID [] = Inr []"
| "groupsOf s poolID (m # ms) =
     (case GetGroup poolID (mm_GroupName m) s of
        Inr g \<Rightarrow> map_sum id ((#) (m, g)) (groupsOf s poolID ms)
      | Inl GroupNotFound \<Rightarrow> groupsOf s poolID ms
      | Inl e \<Rightarrow> Inl e)"

definition userGroupMarkers :: "string \<Rightarrow> string \<Rightarrow> cog \<Rightarrow> cog_error + memberMarker list" where
  "userGroupMarkers poolID username s =
     (let dir = filepath_Join [''pools'', poolID, ''user_groups'', groupKey s username]
      in case root_ReadDir s dir of
           Inl e \<Rightarrow> if e = ENotExist then Inr [] else Inl (FileError e)
         | Inr es \<Rightarrow> Inr (readAllIn (decodeMember s) s dir es))"

definition ListGroupsForUser ::
  "string \<Rightarrow> string \<Rightarrow> int \<Rightarrow> string \<Rightarrow> cog \<Rightarrow> cog_error + (GroupMetadata list \<times> string)" where
  "ListGroupsForUser poolID username maxResults nextToken s =
     (case root_ReadDir s (filepath_Join [''pools'', poolID, ''user_groups'', groupKey s username]) of
        Inl ENotExist \<Rightarrow> Inr ([], [])
      | _ \<Rightarrow>
          (case userGroupMarkers poolID username s of
             Inl e \<Rightarrow> Inl e
           | Inr ms \<Rightarrow>
               (case groupsOf s poolID ms of
                  Inl e \<Rightarrow> Inl e
                | Inr gs \<Rightarrow> pageOf gm_GroupName False maxResults nextToken (sort_key gm_GroupName (map snd gs)))))"

definition GetGroupsForUser :: "string \<Rightarrow> string \<Rightarrow> cog \<Rightarrow> cog_error + string list" where
  "GetGroupsForUser poolID username s =
     (case userGroupMarkers poolID username s of
        Inl e \<Rightarrow> Inl e
      | Inr ms \<Rightarrow> map_sum id (\<lambda>gs. sort (map (mm_GroupName \<circ> fst) gs)) (groupsOf s poolID ms))"

fun usersOf :: "cog \<Rightarrow> string \<Rightarrow> memberMarker list \<Rightarrow> cog_error + UserMetadata list" where
  "usersOf s poolID [] = Inr []"
| "usersOf s poolID (m # ms) =
     (case GetUser poolID (mm_Username m) s of
        Inr u \<Rightarrow> map_sum id ((#) u) (usersOf s poolID ms)
      | Inl UserNotFound \<Rightarrow> usersOf s poolID ms
      | Inl e \<Rightarrow> Inl e)"

definition ListUsersInGroup ::
  "string \<Rightarrow> string \<Rightarrow> int \<Rightarrow> string \<Rightarrow> cog \<Rightarrow> cog_error + (UserMetadata list \<times> string)" where
  "ListUsersInGroup poolID groupName maxResults nextToken s =
     (let dir = filepath_Join [''pools'', poolID, ''group_members'', groupKey s groupName]
      in case root_ReadDir s dir of
           Inl e \<Rightarrow> if e = ENotExist then Inr ([], []) else Inl (FileError e)
         | Inr es \<Rightarrow>
             (case usersOf s poolID (readAllIn (decodeMember s) s dir es) of
                Inl e \<Rightarrow> Inl e
              | Inr us \<Rightarrow> pageOf us_Username False maxResults nextToken (sort_key us_Username us)))"

section \<open>Signing keys\<close>

definition rsaKeyFromPEM :: "cog \<Rightarrow> string \<Rightarrow> cog_error + rsa_key" where
  "rsaKeyFromPEM s pem = (case pemDecode (clib s) pem of None \<Rightarrow> Inl BadKey | Some k \<Rightarrow> Inr k)"

definition GetPoolKeys :: "string \<Rightarrow> cog \<Rightarrow> cog_error + (poolKeys \<times> rsa_key)" where
  "GetPoolKeys poolID s =
     (case missingAs KeysNotExist (readJSON_cog (decodeKeys s) s (keysPath poolID)) of
        Inl e \<Rightarrow> Inl e
      | Inr keys \<Rightarrow> map_sum id (Pair keys) (rsaKeyFromPEM s (pk_PrivateKeyPEM keys)))"

definition GetOrCreatePoolKeys :: "string \<Rightarrow> cog \<Rightarrow> (poolKeys \<times> rsa_key) cog_result" where
  "GetOrCreatePoolKeys poolID s =
     (case GetPoolKeys poolID s of
        Inl KeysNotExist \<Rightarrow>
          bindC (randRead_cog 256 s) (\<lambda>seed s.
            let key = rsaGenerate (clib s) seed
            in bindC (generateTokenID s) (\<lambda>keyID s.
               let keys = \<lparr>pk_KeyID = keyID, pk_PrivateKeyPEM = pemEncode (clib s) key\<rparr>
               in bindC (writeJSON_cog (keysPath poolID) (JKeys keys) s) (\<lambda>_ s. (Inr (keys, key), s))))
      | r \<Rightarrow> (r, s))"

section \<open>Refresh tokens and revocation\<close>

definition CreateRefreshToken :: "refreshTokenData \<Rightarrow> cog \<Rightarrow> unit cog_result" where
  "CreateRefreshToken rt s =
     bindC (mkdirOk (filepath_Join [''pools'', rt_PoolID rt, ''refresh_tokens'']) s) (\<lambda>_ s.
     writeJSON_cog (refreshTokenPath (rt_PoolID rt) (rt_Token rt)) (JRefresh rt) s)"

definition GetRefreshToken :: "string \<Rightarrow> string \<Rightarrow> cog \<Rightarrow> cog_error + refreshTokenData" where
  "GetRefreshToken poolID token s =
     missingAs RefreshTokenNotFound (readJSON_cog (decodeRefresh s) s (refreshTokenPath poolID token))"

definition DeleteRefreshToken :: "string \<Rightarrow> string \<Rightarrow> cog \<Rightarrow> unit cog_result" where
  "DeleteRefreshToken poolID token s =
     (case root_Remove (refreshTokenPath poolID token) s of
        (Some e, s) \<Rightarrow> (Inl (if e = ENotExist then RefreshTokenNotFound else FileError e), s)
      | (None, s) \<Rightarrow> (Inr (), s))"

definition ensureRevokedJTIsDir :: "string \<Rightarrow> cog \<Rightarrow> unit cog_result" where
  "ensureRevokedJTIsDir poolID s = mkdirOk (filepath_Join [''pools'', poolID, ''revoked_jtis'']) s"

definition RevokeAccessToken :: "string \<Rightarrow> string \<Rightarrow> int \<Rightarrow> cog \<Rightarrow> unit cog_result" where
  "RevokeAccessToken poolID jti expiresAt s =
     bindC (ensureRevokedJTIsDir poolID s) (\<lambda>_ s. writeJSON_cog (revokedJTIPath poolID jti) (JRevoked expiresAt) s)"

definition IsAccessTokenRevoked :: "string \<Rightarrow> string \<Rightarrow> cog \<Rightarrow> cog_error + bool" where
  "IsAccessTokenRevoked poolID jti s =
     (case root_Stat s (revokedJTIPath poolID jti) of
        Inr _ \<Rightarrow> Inr True
      | Inl e \<Rightarrow> if e = ENotExist then Inr False else Inl (FileError e))"

fun deleteTokensOf :: "string \<Rightarrow> string \<Rightarrow> (string \<times> bool) list \<Rightarrow> cog \<Rightarrow> unit cog_result" where
  "deleteTokensOf poolID sub [] s = (Inr (), s)"
| "deleteTokensOf poolID sub ((n, d) # es) s =
     (if d then deleteTokensOf poolID sub es s
      else let p = refreshTokenPath poolID (strings_TrimSuffix n ''.json'')
           in case readJSON_cog (decodeRefresh s) s p of
                Inl e \<Rightarrow> (Inl (FileError e), s)
              | Inr rt \<Rightarrow>
                  if rt_Sub rt = sub
                  then bindC (fileDone (root_Remove p s)) (\<lambda>_ s. deleteTokensOf poolID sub es s)
                  else deleteTokensOf poolID sub es s)"

definition DeleteRefreshTokensBySub :: "string \<Rightarrow> string \<Rightarrow> cog \<Rightarrow> unit cog_result" where
  "DeleteRefreshTokensBySub poolID sub s =
     (case root_ReadDir s (filepath_Join [''pools'', poolID, ''refresh_tokens'']) of
        Inl e \<Rightarrow> (if e = ENotExist then Inr () else Inl (FileError e), s)
      | Inr es \<Rightarrow> deleteTokensOf poolID sub es s)"

fun revokeTokensOf :: "string \<Rightarrow> string \<Rightarrow> int \<Rightarrow> bool \<Rightarrow> (string \<times> bool) list \<Rightarrow> cog \<Rightarrow> unit cog_result" where
  "revokeTokensOf poolID sub expiresAt ensured [] s = (Inr (), s)"
| "revokeTokensOf poolID sub expiresAt ensured ((n, d) # es) s =
     (if d then revokeTokensOf poolID sub expiresAt ensured es s
      else case readJSON_cog (decodeRefresh s) s (refreshTokenPath poolID (strings_TrimSuffix n ''.json'')) of
             Inl e \<Rightarrow> (Inl (FileError e), s)
           | Inr rt \<Rightarrow>
               if rt_Sub rt \<noteq> sub \<or> rt_OriginJTI rt = [] then revokeTokensOf poolID sub expiresAt ensured es s
               else bindC (if ensured then (Inr (), s) else ensureRevokedJTIsDir poolID s) (\<lambda>_ s.
                    bindC (writeJSON_cog (revokedJTIPath poolID (rt_OriginJTI rt)) (JRevoked expiresAt) s) (\<lambda>_ s.
                    revokeTokensOf poolID sub expiresAt True es s)))"

definition RevokeOriginJTIsForSub :: "string \<Rightarrow> string \<Rightarrow> int \<Rightarrow> cog \<Rightarrow> unit cog_result" where
  "RevokeOriginJTIsForSub poolID sub expiresAt s =
     (case root_ReadDir s (filepath_Join [''pools'', poolID, ''refresh_tokens'']) of
        Inl e \<Rightarrow> (if e = ENotExist then Inr () else Inl (FileError e), s)
      | Inr es \<Rightarrow> revokeTokensOf poolID sub expiresAt False es s)"

end
