(* ===== verification/Cog_Crypto.thy ===== *)
theory Cog_Crypto
  imports Cog_Users
begin

text \<open>
  Tokens, passwords and codes of the Cognito service: \<open>jwt.go\<close>, \<open>password_policy.go\<close>, the password hashes of
  \<open>handler_password.go\<close>, \<open>totp.go\<close>, \<open>srpmath.go\<close>, the arithmetic of \<open>srp.go\<close> and the client of \<open>srptest\<close>. The
  numbers of SRP are natural numbers; \<open>big.Int.Exp\<close> is the remainder of the power. A rune is the string of its
  bytes; which runes are letters, digits and spaces is given by \<open>coglib\<close>.
\<close>

section \<open>JSON web tokens\<close>

definition claimStr :: "claims \<Rightarrow> string \<Rightarrow> string" where
  "claimStr cl k = (case map_of cl k of Some (CStr x) \<Rightarrow> x | _ \<Rightarrow> [])"

definition claimNum :: "claims \<Rightarrow> string \<Rightarrow> int option" where
  "claimNum cl k = (case map_of cl k of Some (CNum n) \<Rightarrow> Some n | _ \<Rightarrow> None)"

definition buildJWT :: "coglib \<Rightarrow> rsa_key \<Rightarrow> string \<Rightarrow> claims \<Rightarrow> string option" where
  "buildJWT lib privateKey keyID cl =
     (let signingInput = b64url (headerJSON lib keyID) @ ''.'' @ b64url (claimsJSON lib cl)
      in case rsaSign lib privateKey (sha256 lib (bytes_of_string signingInput)) of
           None \<Rightarrow> None
         | Some sig \<Rightarrow> Some (signingInput @ ''.'' @ b64url sig))"

definition verifyJWT :: "coglib \<Rightarrow> string \<Rightarrow> rsa_key \<Rightarrow> claims option" where
  "verifyJWT lib tokenStr key =
     (case split_char (CHR ''.'') tokenStr of
        [h, c, g] \<Rightarrow>
          (case b64urlDecode g of
             None \<Rightarrow> None
           | Some sig \<Rightarrow>
               if \<not> rsaVerify lib key (sha256 lib (bytes_of_string (h @ ''.'' @ c))) sig then None
               else Option.bind (b64urlDecode c) (parseClaims lib))
      | _ \<Rightarrow> None)"

definition parseRawClaims :: "coglib \<Rightarrow> string \<Rightarrow> claims option" where
  "parseRawClaims lib tokenStr =
     (case split_char (CHR ''.'') tokenStr of
        [h, c, g] \<Rightarrow> Option.bind (b64urlDecode c) (parseClaims lib)
      | _ \<Rightarrow> None)"

definition buildJWKS :: "coglib \<Rightarrow> rsa_key \<Rightarrow> string \<Rightarrow> smap" where
  "buildJWKS lib key keyID =
     [(''kty'', ''RSA''), (''use'', ''sig''), (''alg'', ''RS256''), (''kid'', keyID),
      (''n'', b64url (rsaN lib key)), (''e'', b64url (rsaE lib key))]"

definition regionFromPoolID :: "string \<Rightarrow> string" where
  "regionFromPoolID poolID =
     (case cut ''_'' poolID of Some (r, _) \<Rightarrow> if r = [] then ''us-east-1'' else r | None \<Rightarrow> ''us-east-1'')"

definition issuerURL :: "string \<Rightarrow> string" where
  "issuerURL poolID = ''https://cognito-idp.'' @ regionFromPoolID poolID @ ''.amazonaws.com/'' @ poolID"

definition extractPoolID :: "string \<Rightarrow> string" where
  "extractPoolID iss =
     (if \<not> has_prefix ''https://cognito-idp.'' iss then []
      else case cut ''/'' (drop (length ''https://'') iss) of
             None \<Rightarrow> []
           | Some (host, poolID) \<Rightarrow>
               (case split_char (CHR ''.'') host of
                  p0 # p1 # p2 # ps \<Rightarrow>
                    if ps = [''com''] \<and> p0 = ''cognito-idp'' \<and> p1 \<noteq> [] \<and> p2 = ''amazonaws''
                       \<and> poolID \<noteq> [] \<and> CHR ''/'' \<notin> set poolID
                    then poolID else []
                | _ \<Rightarrow> []))"

definition parseSessionToken :: "coglib \<Rightarrow> int \<Rightarrow> string \<Rightarrow> rsa_key \<Rightarrow> claims option" where
  "parseSessionToken lib now tokenStr key =
     (case verifyJWT lib tokenStr key of
        None \<Rightarrow> None
      | Some cl \<Rightarrow> (case claimNum cl ''exp'' of Some e \<Rightarrow> if e < now then None else Some cl | None \<Rightarrow> None))"

text \<open>The extra claims come first; the fixed ones overwrite them.\<close>

definition sessionClaims :: "int \<Rightarrow> string \<Rightarrow> string \<Rightarrow> string \<Rightarrow> string \<Rightarrow> claims \<Rightarrow> claims" where
  "sessionClaims now poolID clientID username challengeName extraClaims =
     AList.updates [''pool_id'', ''client_id'', ''username'', ''challenge'', ''iat'', ''exp'']
       [CStr poolID, CStr clientID, CStr username, CStr challengeName, CNum now, CNum (now + 180)] extraClaims"

definition buildSessionToken ::
  "cog \<Rightarrow> rsa_key \<Rightarrow> string \<Rightarrow> string \<Rightarrow> string \<Rightarrow> string \<Rightarrow> string \<Rightarrow> claims \<Rightarrow> string option" where
  "buildSessionToken s privateKey keyID poolID clientID username challengeName extraClaims =
     buildJWT (clib s) privateKey keyID
       (sessionClaims (unixSeconds s) poolID clientID username challengeName extraClaims)"

definition namedUnitSeconds :: "string \<Rightarrow> int option" where
  "namedUnitSeconds unit =
     (if unit = ''seconds'' then Some 1 else if unit = ''minutes'' then Some 60
      else if unit = ''hours'' then Some 3600 else if unit = ''days'' then Some 86400 else None)"

definition unitSeconds :: "string \<Rightarrow> string \<Rightarrow> int" where
  "unitSeconds unit defaultUnit =
     (case namedUnitSeconds unit of
        Some n \<Rightarrow> n
      | None \<Rightarrow> (case namedUnitSeconds defaultUnit of Some n \<Rightarrow> n | None \<Rightarrow> 0))"

definition resolveValiditySeconds :: "int \<Rightarrow> string \<Rightarrow> string \<Rightarrow> int \<Rightarrow> int" where
  "resolveValiditySeconds value unit defaultUnit fallbackSeconds =
     (if value \<le> 0 then fallbackSeconds else value * unitSeconds unit defaultUnit)"

definition parseTokenValidityUnits :: "coglib \<Rightarrow> raw \<Rightarrow> tokenValidityUnits" where
  "parseTokenValidityUnits lib r =
     (if r = [] then \<lparr>tv_AccessToken = [], tv_IdToken = [], tv_RefreshToken = []\<rparr> else parseUnits lib r)"

definition accessClaimsOf ::
  "int \<Rightarrow> int \<Rightarrow> string \<Rightarrow> string \<Rightarrow> UserMetadata \<Rightarrow> string list \<Rightarrow> string \<Rightarrow> string \<Rightarrow> claims" where
  "accessClaimsOf now exp poolID clientID user groups originJTI accessJTI =
     [(''sub'', CStr (us_Sub user)), (''iss'', CStr (issuerURL poolID)), (''version'', CNum 2),
      (''client_id'', CStr clientID), (''origin_jti'', CStr originJTI), (''token_use'', CStr ''access''),
      (''scope'', CStr ''aws.cognito.signin.user.admin''), (''auth_time'', CNum now), (''exp'', CNum exp),
      (''iat'', CNum now), (''jti'', CStr accessJTI), (''username'', CStr (us_Username user))]
     @ (if groups = [] then [] else [(''cognito:groups'', CStrs groups)])"

definition reservedClaims :: "string list" where
  "reservedClaims = [''sub'', ''iss'', ''aud'', ''token_use'', ''cognito:username'', ''origin_jti'', ''auth_time'',
                     ''exp'', ''iat'', ''jti'']"

definition idClaimsOf ::
  "int \<Rightarrow> int \<Rightarrow> string \<Rightarrow> string \<Rightarrow> UserMetadata \<Rightarrow> string list \<Rightarrow> string \<Rightarrow> string \<Rightarrow> claims" where
  "idClaimsOf now exp poolID clientID user groups originJTI idJTI =
     (let fixed = [(''sub'', CStr (us_Sub user)), (''iss'', CStr (issuerURL poolID)), (''aud'', CStr clientID),
                   (''token_use'', CStr ''id''), (''cognito:username'', CStr (us_Username user)),
                   (''origin_jti'', CStr originJTI), (''auth_time'', CNum now), (''exp'', CNum exp),
                   (''iat'', CNum now), (''jti'', CStr idJTI)];
          attrs = filter (\<lambda>a. at_Name a \<notin> set reservedClaims \<and> \<not> has_prefix ''cognito:'' (at_Name a)) (us_Attributes user);
          withAttrs = fold (\<lambda>a m. AList.update (at_Name a) (CStr (at_Value a)) m) attrs fixed
      in if groups = [] then withAttrs else AList.update ''cognito:groups'' (CStrs groups) withAttrs)"

record issuedTokens =
  is_AccessToken :: string
  is_IdToken :: string
  is_RefreshToken :: string
  is_AccessJTI :: string
  is_OriginJTI :: string

definition issueTokens ::
  "rsa_key \<Rightarrow> string \<Rightarrow> string \<Rightarrow> string \<Rightarrow> UserMetadata \<Rightarrow> string list \<Rightarrow> string \<Rightarrow> int \<Rightarrow> int \<Rightarrow> cog \<Rightarrow> issuedTokens cog_result" where
  "issueTokens privateKey keyID poolID clientID user groups originJTI accessExpirySeconds idExpirySeconds s0 =
     (let now = unixSeconds s0
      in bindC (if originJTI = [] then generateUUID s0 else (Inr originJTI, s0)) (\<lambda>origin s.
         bindC (generateUUID s) (\<lambda>accessJTI s.
         bindC (generateUUID s) (\<lambda>idJTI s.
         bindC (generateTokenID s) (\<lambda>refreshToken s.
           case (buildJWT (clib s) privateKey keyID
                   (accessClaimsOf now (now + accessExpirySeconds) poolID clientID user groups origin accessJTI),
                 buildJWT (clib s) privateKey keyID
                   (idClaimsOf now (now + idExpirySeconds) poolID clientID user groups origin idJTI)) of
             (Some accessToken, Some idToken) \<Rightarrow>
               (Inr \<lparr>is_AccessToken = accessToken, is_IdToken = idToken, is_RefreshToken = refreshToken,
                     is_AccessJTI = accessJTI, is_OriginJTI = origin\<rparr>, s)
           | _ \<Rightarrow> (Inl BadKey, s))))))"

section \<open>Passwords\<close>

function runes :: "string \<Rightarrow> string list" where
  "runes [] = []"
| "runes (c # cs) = (let n = max 1 (utf8_size (c # cs)) in take n (c # cs) # runes (drop n (c # cs)))"
  by pat_completeness auto
termination by (relation "measure length") (auto simp: Let_def max_def)

record passwordPolicy =
  pp_MinimumLength :: int
  pp_RequireUppercase :: bool
  pp_RequireLowercase :: bool
  pp_RequireNumbers :: bool
  pp_RequireSymbols :: bool
  pp_TemporaryPasswordValidityDays :: int

definition defaultPasswordPolicy :: passwordPolicy where
  "defaultPasswordPolicy = \<lparr>pp_MinimumLength = 8, pp_RequireUppercase = True, pp_RequireLowercase = True,
     pp_RequireNumbers = True, pp_RequireSymbols = True, pp_TemporaryPasswordValidityDays = 7\<rparr>"

definition overlaid :: "'a option \<Rightarrow> 'a \<Rightarrow> 'a" where
  "overlaid x d = (case x of Some v \<Rightarrow> v | None \<Rightarrow> d)"

definition passwordPolicyFromPool :: "coglib \<Rightarrow> UserPoolMetadata \<Rightarrow> passwordPolicy" where
  "passwordPolicyFromPool lib meta =
     (if up_Policies meta = [] then defaultPasswordPolicy
      else case parsePolicies lib (up_Policies meta) of
             None \<Rightarrow> defaultPasswordPolicy
           | Some ov \<Rightarrow>
               \<lparr>pp_MinimumLength = (case po_MinimumLength ov of Some n \<Rightarrow> if 0 < n then n else 8 | None \<Rightarrow> 8),
                pp_RequireUppercase = overlaid (po_RequireUppercase ov) True,
                pp_RequireLowercase = overlaid (po_RequireLowercase ov) True,
                pp_RequireNumbers = overlaid (po_RequireNumbers ov) True,
                pp_RequireSymbols = overlaid (po_RequireSymbols ov) True,
                pp_TemporaryPasswordValidityDays = overlaid (po_TemporaryPasswordValidityDays ov) 7\<rparr>)"

definition containsRune :: "string \<Rightarrow> (string \<Rightarrow> bool) \<Rightarrow> bool" where
  "containsRune s p = list_ex p (runes s)"

definition isSymbolRune :: "coglib \<Rightarrow> string \<Rightarrow> bool" where
  "isSymbolRune lib r \<longleftrightarrow> \<not> runeLetter lib r \<and> \<not> runeNumber lib r \<and> \<not> runeSpace lib r"

definition validatePassword :: "coglib \<Rightarrow> passwordPolicy \<Rightarrow> string \<Rightarrow> bool" where
  "validatePassword lib policy password \<longleftrightarrow>
     (let minLen = (if pp_MinimumLength policy \<le> 0 then 8 else pp_MinimumLength policy);
          n = int (length (runes password))
      in \<not> (n < minLen \<or> 256 < n
            \<or> pp_RequireUppercase policy \<and> \<not> containsRune password (runeUpper lib)
            \<or> pp_RequireLowercase policy \<and> \<not> containsRune password (runeLower lib)
            \<or> pp_RequireNumbers policy \<and> \<not> containsRune password (runeNumber lib)
            \<or> pp_RequireSymbols policy \<and> \<not> containsRune password (isSymbolRune lib)))"

definition prehashPassword :: "coglib \<Rightarrow> string \<Rightarrow> bytes" where
  "prehashPassword lib password = bytes_of_string (b64std (sha256 lib (bytes_of_string password)))"

definition hashPassword :: "string \<Rightarrow> cog \<Rightarrow> string cog_result" where
  "hashPassword password s =
     bindC (randRead_cog 16 s) (\<lambda>salt s. (Inr (bcryptHash (clib s) salt (prehashPassword (clib s) password)), s))"

definition verifyPassword :: "coglib \<Rightarrow> string \<Rightarrow> string \<Rightarrow> bool" where
  "verifyPassword lib h password \<longleftrightarrow> bcryptCheck lib h (prehashPassword lib password)"

section \<open>Time-based codes\<close>

definition generateTOTPSecret :: "cog \<Rightarrow> string cog_result" where
  "generateTOTPSecret s = bindC (randRead_cog 20 s) (\<lambda>b s. (Inr (b32 b), s))"

text \<open>\<open>binary.BigEndian.PutUint64\<close>\<close>

definition be64 :: "nat \<Rightarrow> bytes" where
  "be64 n = map (\<lambda>i. of_nat (n div 256 ^ i)) [7, 6, 5, 4, 3, 2, 1, 0]"

definition totpCodeAt :: "coglib \<Rightarrow> string \<Rightarrow> nat \<Rightarrow> string option" where
  "totpCodeAt lib secret counter =
     (case b32Decode secret of
        None \<Rightarrow> None
      | Some key \<Rightarrow>
          let sum = hmac1 lib key (be64 counter);
              off = unat (and (last sum) 0x0f);
              code = unat (and (sum ! off) 0x7f) * 2 ^ 24 + unat (sum ! (off + 1)) * 2 ^ 16
                     + unat (sum ! (off + 2)) * 2 ^ 8 + unat (sum ! (off + 3))
          in Some (sixDigits (code mod 1000000)))"

definition totpStep :: "int \<Rightarrow> nat" where
  "totpStep unixTime = nat unixTime div 30"

fun verifyDeltas :: "coglib \<Rightarrow> string \<Rightarrow> string \<Rightarrow> nat \<Rightarrow> int list \<Rightarrow> bool" where
  "verifyDeltas lib secret userCode step [] = False"
| "verifyDeltas lib secret userCode step (d # ds) =
     (if d < 0 \<and> nat (- d) > step then verifyDeltas lib secret userCode step ds
      else case totpCodeAt lib secret (nat (int step + d)) of
             None \<Rightarrow> False
           | Some code \<Rightarrow> code = userCode \<or> verifyDeltas lib secret userCode step ds)"

definition verifyTOTP :: "coglib \<Rightarrow> string \<Rightarrow> string \<Rightarrow> int \<Rightarrow> bool" where
  "verifyTOTP lib secret userCode unixTime = verifyDeltas lib secret userCode (totpStep unixTime) [-1, 0, 1]"

section \<open>Secure remote password\<close>

definition nHex :: string where
  "nHex = ''FFFFFFFFFFFFFFFFC90FDAA22168C234C4C6628B80DC1CD1''
     @ ''29024E088A67CC74020BBEA63B139B22514A08798E3404DD''
     @ ''EF9519B3CD3A431B302B0A6DF25F14374FE1356D6D51C245''
     @ ''E485B576625E7EC6F44C42E9A637ED6B0BFF5CB6F406B7ED''
     @ ''EE386BFB5A899FA5AE9F24117C4B1FE649286651ECE45B3D''
     @ ''C2007CB8A163BF0598DA48361C55D39A69163FA8FD24CF5F''
     @ ''83655D23DCA3AD961C62F356208552BB9ED529077096966D''
     @ ''670C354E4ABC9804F1746C08CA18217C32905E462E36CE3B''
     @ ''E39E772C180E86039B2783A2EC07A28FB5C55DF06F4C52C9''
     @ ''DE2BCBF6955817183995497CEA956AE515D2261898FA0510''
     @ ''15728E5A8AAAC42DAD33170D04507A33A85521ABDF1CBA64''
     @ ''ECFB850458DBEF0A8AEA71575D060C7DB3970F85A6E1E4C7''
     @ ''ABF5AE8CDB0933D71E8C94E04A25619DCEE3D2261AD2EE6B''
     @ ''F12FFA06D98A0864D87602733EC86A64521F2B18177B200C''
     @ ''BBE117577A615D6C770988C0BAD946E208E24FA074E5AB31''
     @ ''43DB5BFCE0FD108E4B82D120A93AD2CAFFFFFFFFFFFFFFFF''"

definition srpN :: nat where
  "srpN = (case hexNumber 0 nHex of Some n \<Rightarrow> n | None \<Rightarrow> 0)"

definition srpG :: nat where "srpG = 2"

definition PadHex :: "nat \<Rightarrow> bytes" where
  "PadHex n =
     (let h = bigText n;
          h = (if odd (length h) then CHR ''0'' # h else h)
      in case hexDecodeString h of
           Some (b # bs) \<Rightarrow> if 0x80 \<le> b then 0 # b # bs else b # bs
         | _ \<Rightarrow> [])"

definition SHA256Concat :: "coglib \<Rightarrow> bytes list \<Rightarrow> bytes" where
  "SHA256Concat lib parts = sha256 lib (concat parts)"

definition srpK :: "coglib \<Rightarrow> nat" where
  "srpK lib = bigSetBytes (SHA256Concat lib [PadHex srpN, PadHex srpG])"

definition DeriveSessionKey :: "coglib \<Rightarrow> nat \<Rightarrow> nat \<Rightarrow> bytes" where
  "DeriveSessionKey lib u S =
     (let prk = hmac256 lib (PadHex u) (PadHex S)
      in take 16 (hmac256 lib prk (bytes_of_string ''Caldera Derived Key'' @ [1])))"

definition bigExp :: "nat \<Rightarrow> nat \<Rightarrow> nat \<Rightarrow> nat" where
  "bigExp x y m = x ^ y mod m"

definition userPoolNameFromID :: "string \<Rightarrow> string" where
  "userPoolNameFromID poolID = (case cut ''_'' poolID of Some (_, name) \<Rightarrow> name | None \<Rightarrow> poolID)"

text \<open>The private exponent of a password, on the server and on the client.\<close>

definition srpX :: "coglib \<Rightarrow> bytes \<Rightarrow> string \<Rightarrow> string \<Rightarrow> string \<Rightarrow> nat" where
  "srpX lib saltPadded poolName username password =
     bigSetBytes (SHA256Concat lib
       [saltPadded, SHA256Concat lib [bytes_of_string (poolName @ username @ '':'' @ password)]])"

definition srpVerifierFor :: "string \<Rightarrow> string \<Rightarrow> string \<Rightarrow> cog \<Rightarrow> (string \<times> string) cog_result" where
  "srpVerifierFor poolID username password s =
     bindC (randRead_cog 16 s) (\<lambda>saltBytes s.
       let saltPadded = PadHex (bigSetBytes saltBytes);
           x = srpX (clib s) saltPadded (userPoolNameFromID poolID) username password
       in (Inr (hex saltPadded, bigText (bigExp srpG x srpN)), s))"

definition derivePasswordCredentials :: "string \<Rightarrow> string \<Rightarrow> string \<Rightarrow> cog \<Rightarrow> (string \<times> string \<times> string) cog_result" where
  "derivePasswordCredentials poolID username password s =
     bindC (hashPassword password s) (\<lambda>h s.
     bindC (srpVerifierFor poolID username password s) (\<lambda>(salt, verifier) s. (Inr (h, salt, verifier), s)))"

definition computeSRPB :: "coglib \<Rightarrow> nat \<Rightarrow> nat \<Rightarrow> nat" where
  "computeSRPB lib v b = (srpK lib * v + bigExp srpG b srpN) mod srpN"

text \<open>What the server expects as the signature, with the key that both sides derive.\<close>

definition serverKey :: "coglib \<Rightarrow> nat \<Rightarrow> nat \<Rightarrow> nat \<Rightarrow> nat \<Rightarrow> bytes" where
  "serverKey lib A v u b =
     (let vu = bigExp v u srpN; avu = A * vu mod srpN
      in DeriveSessionKey lib u (bigExp avu b srpN))"

definition srpU :: "coglib \<Rightarrow> nat \<Rightarrow> nat \<Rightarrow> nat" where
  "srpU lib A B = bigSetBytes (SHA256Concat lib [PadHex A, PadHex B])"

definition claimMac :: "coglib \<Rightarrow> bytes \<Rightarrow> string \<Rightarrow> string \<Rightarrow> bytes \<Rightarrow> string \<Rightarrow> bytes" where
  "claimMac lib key poolName username secretBlock timestamp =
     hmac256 lib key (bytes_of_string poolName @ bytes_of_string username @ secretBlock @ bytes_of_string timestamp)"

definition srpSessionKey :: "coglib \<Rightarrow> rsa_key \<Rightarrow> bytes" where
  "srpSessionKey lib privateKey = sha256 lib (bytes_of_string ''kumolo-cognito-srp-b-key:'' @ rsaD lib privateKey)"

definition encryptSRPPrivB :: "rsa_key \<Rightarrow> nat \<Rightarrow> cog \<Rightarrow> string cog_result" where
  "encryptSRPPrivB privateKey b s =
     bindC (randRead_cog 12 s) (\<lambda>nonce s.
       (Inr (b64std (nonce @ gcmSeal (clib s) (srpSessionKey (clib s) privateKey) nonce (PadHex b))), s))"

definition decryptSRPPrivB :: "coglib \<Rightarrow> rsa_key \<Rightarrow> string \<Rightarrow> nat option" where
  "decryptSRPPrivB lib privateKey encoded =
     (case b64stdDecode encoded of
        None \<Rightarrow> None
      | Some sealed \<Rightarrow>
          if length sealed < 12 then None
          else map_option bigSetBytes (gcmOpen lib (srpSessionKey lib privateKey) (take 12 sealed) (drop 12 sealed)))"

subsection \<open>The client\<close>

text \<open>A negative number makes \<open>PadHex\<close> panic; \<^term>\<open>None\<close> stands for that as for the errors.\<close>

definition clientA :: "nat \<Rightarrow> nat" where "clientA a = bigExp srpG a srpN"

definition ComputeSignature ::
  "coglib \<Rightarrow> nat \<Rightarrow> string \<Rightarrow> string \<Rightarrow> string \<Rightarrow> string \<Rightarrow> string \<Rightarrow> string \<Rightarrow> string \<Rightarrow> string option" where
  "ComputeSignature lib a userPoolName username password saltHex serverBHex secretBlockB64 timestamp =
     (case (bigSetString saltHex, bigSetString serverBHex) of
        (Some salt, Some serverB) \<Rightarrow>
          let u = srpU lib (clientA a) (nat serverB);
              x = srpX lib (PadHex (nat salt)) userPoolName username password;
              gx = bigExp srpG x srpN;
              base = nat ((serverB - int (srpK lib * gx)) mod int srpN);
              S = bigExp base (a + u * x) srpN
          in if salt < 0 \<or> serverB < 0 \<or> u = 0 \<or> base = 0 then None
             else map_option (\<lambda>blk. b64std (claimMac lib (DeriveSessionKey lib u S) userPoolName username blk timestamp))
                    (b64stdDecode secretBlockB64)
      | _ \<Rightarrow> None)"

end
