(* ===== verification/Cog_Auth.thy ===== *)
theory Cog_Auth
  imports Cog_Crypto
begin

text \<open>
  Signing up and signing in (\<open>handler_auth.go\<close>, \<open>handler_mfa.go\<close>, the two SRP handlers of \<open>srp.go\<close>). A handler
  takes the decoded request, or \<open>None\<close> when the body does not decode, and gives a response and the new
  state. Error responses keep their status and type. Maps of parameters are association lists; a missing
  parameter reads as the empty string.
\<close>

section \<open>Responses\<close>

record codeDeliveryDetails =
  cd_AttributeName :: string
  cd_DeliveryMedium :: string
  cd_Destination :: string

record authResult =
  ar_AccessToken :: string
  ar_ExpiresIn :: int
  ar_IdToken :: string
  ar_RefreshToken :: string
  ar_TokenType :: string

record userView =
  uv_Username :: string
  uv_Attributes :: "AttributeType list"
  uv_CreateDate :: int
  uv_LastModifiedDate :: int
  uv_Enabled :: bool
  uv_Status :: string

datatype cog_body =
    BEmpty
  | BAuth authResult
  | BChallenge string smap string
  | BSignUp string codeDeliveryDetails
  | BDelivery "codeDeliveryDetails list"
  | BSecret string string
  | BStatus string string
  | BUser userView
  | BAdminUser userView "string list" string
  | BGetUser string "AttributeType list" "string list" string
  | BUsers "userView list" string
  | BGroup GroupMetadata
  | BGroups "GroupMetadata list" string
  | BPool UserPoolMetadata
  | BPools "UserPoolMetadata list" string
  | BClient UserPoolClientMetadata
  | BClients "UserPoolClientMetadata list" string
  | BMfaConfig string "bool option"
  | BTags smap
  | BJWKS smap

datatype cog_response = COk cog_body | CErr nat string | CNotFound | CDropped

definition internalErrorException :: cog_response where "internalErrorException = CErr 500 ''InternalErrorException''"
definition invalidParameter :: cog_response where "invalidParameter = CErr 400 ''InvalidParameterException''"
definition notAuthorized :: cog_response where "notAuthorized = CErr 400 ''NotAuthorizedException''"
definition userNotFound :: cog_response where "userNotFound = CErr 400 ''UserNotFoundException''"
definition userNotConfirmed :: cog_response where "userNotConfirmed = CErr 400 ''UserNotConfirmedException''"
definition resourceNotFound_cog :: cog_response where "resourceNotFound_cog = CErr 400 ''ResourceNotFoundException''"
definition codeMismatch :: cog_response where "codeMismatch = CErr 400 ''CodeMismatchException''"
definition invalidPassword :: cog_response where "invalidPassword = CErr 400 ''InvalidPasswordException''"

definition reply :: "'a cog_result \<Rightarrow> (cog_error \<Rightarrow> cog_response) \<Rightarrow> ('a \<Rightarrow> cog \<Rightarrow> cog_response \<times> cog) \<Rightarrow> cog_response \<times> cog" where
  "reply r onError k = (case r of (Inl e, s) \<Rightarrow> (onError e, s) | (Inr a, s) \<Rightarrow> k a s)"

lemma reply_simps [simp]: "reply (Inl e, s) onError k = (onError e, s)" "reply (Inr a, s) onError k = k a s"
  by (simp_all add: reply_def)

definition internal :: "cog_error \<Rightarrow> cog_response" where "internal e = internalErrorException"

definition userErr :: "cog_error \<Rightarrow> cog_response" where
  "userErr e = (if e = UserNotFound then userNotFound else internalErrorException)"

definition clientErr :: "cog_error \<Rightarrow> cog_response" where
  "clientErr e = (if e = UserPoolClientNotFound then resourceNotFound_cog else internalErrorException)"

definition poolErr :: "cog_error \<Rightarrow> cog_response" where
  "poolErr e = (if e = UserPoolNotFound then resourceNotFound_cog else internalErrorException)"

definition param :: "smap \<Rightarrow> string \<Rightarrow> string" where
  "param m k = (case map_of m k of Some v \<Rightarrow> v | None \<Rightarrow> [])"

section \<open>Attributes\<close>

definition getAttr :: "AttributeType list \<Rightarrow> string \<Rightarrow> string option" where
  "getAttr attrs name = map_option at_Value (find (\<lambda>a. at_Name a = name) attrs)"

fun setAttr :: "AttributeType list \<Rightarrow> string \<Rightarrow> string \<Rightarrow> AttributeType list" where
  "setAttr [] name v = [\<lparr>at_Name = name, at_Value = v\<rparr>]"
| "setAttr (a # attrs) name v = (if at_Name a = name then a\<lparr>at_Value := v\<rparr> # attrs else a # setAttr attrs name v)"

definition deleteAttr :: "AttributeType list \<Rightarrow> string \<Rightarrow> AttributeType list" where
  "deleteAttr attrs name = filter (\<lambda>a. at_Name a \<noteq> name) attrs"

definition attrValue :: "AttributeType list \<Rightarrow> string \<Rightarrow> string" where
  "attrValue attrs name = (case getAttr attrs name of Some v \<Rightarrow> v | None \<Rightarrow> [])"

definition defaultVerifiedAttrs :: "AttributeType list \<Rightarrow> AttributeType list" where
  "defaultVerifiedAttrs attrs =
     fold (\<lambda>contact attrs.
             if getAttr attrs contact = None \<or> getAttr attrs (contact @ ''_verified'') \<noteq> None then attrs
             else setAttr attrs (contact @ ''_verified'') ''false'')
       [''email'', ''phone_number''] attrs"

definition autoVerifyAttrs :: "AttributeType list \<Rightarrow> string list \<Rightarrow> AttributeType list" where
  "autoVerifyAttrs attrs autoVerified =
     fold (\<lambda>name attrs.
             if name \<noteq> ''email'' \<and> name \<noteq> ''phone_number'' \<or> getAttr attrs name = None then attrs
             else setAttr attrs (name @ ''_verified'') ''true'')
       autoVerified attrs"

definition prependSub :: "AttributeType list \<Rightarrow> string \<Rightarrow> AttributeType list" where
  "prependSub attrs sub = \<lparr>at_Name = ''sub'', at_Value = sub\<rparr> # filter (\<lambda>a. at_Name a \<noteq> ''sub'') attrs"

definition maskEmail :: "string \<Rightarrow> string" where
  "maskEmail email =
     (case find_index (\<lambda>c. c = CHR ''@'') email of
        Some (Suc n) \<Rightarrow> take 1 email @ ''***'' @ drop (Suc n) email
      | _ \<Rightarrow> ''***'')"

definition maskPhone :: "string \<Rightarrow> string" where
  "maskPhone phone =
     (if length phone \<le> 5 then ''***'' else take 1 phone @ ''***'' @ drop (length phone - 4) phone)"

definition deliveryFor :: "string \<Rightarrow> string \<Rightarrow> codeDeliveryDetails" where
  "deliveryFor name v =
     (if name = ''phone_number''
      then \<lparr>cd_AttributeName = name, cd_DeliveryMedium = ''SMS'', cd_Destination = maskPhone v\<rparr>
      else \<lparr>cd_AttributeName = name, cd_DeliveryMedium = ''EMAIL'', cd_Destination = maskEmail v\<rparr>)"

definition resendDeliveryDetails :: "AttributeType list \<Rightarrow> codeDeliveryDetails" where
  "resendDeliveryDetails attrs =
     (case find (\<lambda>a. at_Name a = ''email'') attrs of
        Some a \<Rightarrow> deliveryFor ''email'' (at_Value a)
      | None \<Rightarrow>
          (case find (\<lambda>a. at_Name a = ''phone_number'') attrs of
             Some a \<Rightarrow> deliveryFor ''phone_number'' (at_Value a)
           | None \<Rightarrow> \<lparr>cd_AttributeName = ''email'', cd_DeliveryMedium = ''EMAIL'', cd_Destination = ''***''\<rparr>))"

section \<open>Signing up\<close>

record signUpRequest =
  sr_ClientID :: string
  sr_Username :: string
  sr_Password :: string
  sr_UserAttributes :: "AttributeType list"

text \<open>A new user record; fields that are not given are empty.\<close>

definition newUser :: "string \<Rightarrow> string \<Rightarrow> string \<Rightarrow> string \<times> string \<times> string \<Rightarrow> AttributeType list \<Rightarrow> string \<Rightarrow> int \<Rightarrow> UserMetadata" where
  "newUser username sub status cred attrs code ts =
     \<lparr>us_Username = username, us_Sub = sub, us_Status = status, us_Enabled = True, us_PasswordHash = fst cred,
      us_SRPSalt = fst (snd cred), us_SRPVerifier = snd (snd cred), us_Attributes = attrs, us_ConfirmationCode = code,
      us_VerificationCodes = [], us_PasswordResetCode = [], us_PendingTOTPSecret = [], us_TOTPSecret = [],
      us_SoftwareTokenMFAEnabled = False, us_PreferredMfaSetting = [], us_CreatedAt = ts, us_UpdatedAt = ts\<rparr>"

definition withCredentials :: "string \<times> string \<times> string \<Rightarrow> UserMetadata \<Rightarrow> UserMetadata" where
  "withCredentials cred u =
     u\<lparr>us_PasswordHash := fst cred, us_SRPSalt := fst (snd cred), us_SRPVerifier := snd (snd cred)\<rparr>"

definition handleSignUp :: "signUpRequest option \<Rightarrow> cog \<Rightarrow> cog_response \<times> cog" where
  "handleSignUp body s =
     (case body of
        None \<Rightarrow> (invalidParameter, s)
      | Some req \<Rightarrow>
          reply (GetPoolIDForClient (sr_ClientID req) s, s) clientErr (\<lambda>poolID s.
          reply (GetUserPool poolID s, s) internal (\<lambda>pool s.
          if \<not> validatePassword (clib s) (passwordPolicyFromPool (clib s) pool) (sr_Password req) then (invalidPassword, s)
          else reply (generateUUID s) internal (\<lambda>sub s.
          reply (generateConfirmationCodeFrom s) internal (\<lambda>code s.
          reply (if sr_Password req \<noteq> [] then derivePasswordCredentials poolID (sr_Username req) (sr_Password req) s
                  else (Inr ([], [], []), s)) internal (\<lambda>cred s.
          reply (CreateUser poolID
                    (newUser (sr_Username req) sub ''UNCONFIRMED'' cred (defaultVerifiedAttrs (sr_UserAttributes req)) code (nowUnix s)) s)
            (\<lambda>e. if e = UsernameExists then CErr 400 ''UsernameExistsException'' else internalErrorException) (\<lambda>_ s.
          (COk (BSignUp sub \<lparr>cd_AttributeName = ''email'', cd_DeliveryMedium = ''EMAIL'',
                  cd_Destination = (case getAttr (sr_UserAttributes req) ''email'' of Some v \<Rightarrow> maskEmail v | None \<Rightarrow> ''***'')\<rparr>), s))))))))"

definition confirmWithCode :: "string \<Rightarrow> UserPoolMetadata \<Rightarrow> UserMetadata \<Rightarrow> cog_error + UserMetadata" where
  "confirmWithCode code pool u =
     (if us_Status u \<noteq> ''UNCONFIRMED'' then Inl (NotUnconfirmed (us_Status u))
      else if code \<noteq> us_ConfirmationCode u then Inl CodeMismatch
      else Inr (u\<lparr>us_Status := ''CONFIRMED'', us_ConfirmationCode := [],
                  us_Attributes := autoVerifyAttrs (us_Attributes u) (up_AutoVerifiedAttributes pool)\<rparr>))"

definition pureUpdate :: "(UserMetadata \<Rightarrow> cog_error + UserMetadata) \<Rightarrow> UserMetadata \<Rightarrow> cog \<Rightarrow> UserMetadata cog_result" where
  "pureUpdate f u s = (f u, s)"

definition handleConfirmSignUp :: "(string \<times> string \<times> string) option \<Rightarrow> cog \<Rightarrow> cog_response \<times> cog" where
  "handleConfirmSignUp body s =
     (case body of
        None \<Rightarrow> (invalidParameter, s)
      | Some (clientID, username, code) \<Rightarrow>
          reply (GetPoolIDForClient clientID s, s) clientErr (\<lambda>poolID s.
          reply (GetUserPool poolID s, s) internal (\<lambda>pool s.
          reply (UpdateUser poolID username (pureUpdate (confirmWithCode code pool)) s)
            (\<lambda>e. case e of UserNotFound \<Rightarrow> userNotFound | NotUnconfirmed _ \<Rightarrow> notAuthorized
                     | CodeMismatch \<Rightarrow> codeMismatch | _ \<Rightarrow> internalErrorException)
            (\<lambda>_ s. (COk BEmpty, s)))))"

definition handleResendConfirmationCode :: "(string \<times> string) option \<Rightarrow> cog \<Rightarrow> cog_response \<times> cog" where
  "handleResendConfirmationCode body s =
     (case body of
        None \<Rightarrow> (invalidParameter, s)
      | Some (clientID, username) \<Rightarrow>
          reply (GetPoolIDForClient clientID s, s) clientErr (\<lambda>poolID s.
          reply (generateConfirmationCodeFrom s) internal (\<lambda>code s.
          reply (UpdateUser poolID username
                    (pureUpdate (\<lambda>u. if us_Status u \<noteq> ''UNCONFIRMED'' then Inl (NotUnconfirmed (us_Status u))
                                     else Inr (u\<lparr>us_ConfirmationCode := code\<rparr>))) s)
            (\<lambda>e. case e of UserNotFound \<Rightarrow> userNotFound | NotUnconfirmed _ \<Rightarrow> notAuthorized | _ \<Rightarrow> internalErrorException)
            (\<lambda>u s. (COk (BDelivery [resendDeliveryDetails (us_Attributes u)]), s)))))"

section \<open>Issuing tokens\<close>

definition writeAuthResult ::
  "string \<Rightarrow> string \<Rightarrow> UserMetadata \<Rightarrow> rsa_key \<Rightarrow> string \<Rightarrow> bool \<Rightarrow> string \<Rightarrow> cog \<Rightarrow> cog_response \<times> cog" where
  "writeAuthResult poolID clientID user privateKey keyID includeRefreshToken originJTI s =
     reply (GetGroupsForUser poolID (us_Username user) s, s) internal (\<lambda>groups s.
     reply (GetUserPoolClient poolID clientID s, s) internal (\<lambda>client s.
       let units = parseTokenValidityUnits (clib s) (uc_TokenValidityUnits client);
           accessExp = resolveValiditySeconds (uc_AccessTokenValidity client) (tv_AccessToken units) ''hours'' 3600;
           idExp = resolveValiditySeconds (uc_IdTokenValidity client) (tv_IdToken units) ''hours'' 3600
       in reply (issueTokens privateKey keyID poolID clientID user groups originJTI accessExp idExp s) internal (\<lambda>tok s.
          reply (if includeRefreshToken
                  then let refreshExp = resolveValiditySeconds (uc_RefreshTokenValidity client) (tv_RefreshToken units) ''days''
                                          (30 * 86400)
                       in CreateRefreshToken
                            \<lparr>rt_Token = is_RefreshToken tok, rt_PoolID = poolID, rt_ClientID = clientID,
                             rt_Username = us_Username user, rt_Sub = us_Sub user, rt_IssuedAt = nowUnix s,
                             rt_ExpiresAt = nowUnix s + 1000 * refreshExp, rt_OriginJTI = is_OriginJTI tok\<rparr> s
                  else (Inr (), s)) internal (\<lambda>_ s.
          (COk (BAuth \<lparr>ar_AccessToken = is_AccessToken tok, ar_ExpiresIn = accessExp, ar_IdToken = is_IdToken tok,
                        ar_RefreshToken = (if includeRefreshToken then is_RefreshToken tok else []),
                        ar_TokenType = ''Bearer''\<rparr>), s)))))"

definition challengeSession ::
  "rsa_key \<Rightarrow> string \<Rightarrow> string \<Rightarrow> string \<Rightarrow> string \<Rightarrow> string \<Rightarrow> claims \<Rightarrow> (string \<Rightarrow> cog_body) \<Rightarrow> cog \<Rightarrow> cog_response \<times> cog" where
  "challengeSession privateKey keyID poolID clientID username challenge extraClaims respond s =
     (case buildSessionToken s privateKey keyID poolID clientID username challenge extraClaims of
        None \<Rightarrow> (internalErrorException, s)
      | Some session \<Rightarrow> (COk (respond session), s))"

definition writeChallengeResponse ::
  "rsa_key \<Rightarrow> string \<Rightarrow> string \<Rightarrow> string \<Rightarrow> string \<Rightarrow> string \<Rightarrow> smap \<Rightarrow> cog \<Rightarrow> cog_response \<times> cog" where
  "writeChallengeResponse privateKey keyID poolID clientID username challenge extraParams s =
     challengeSession privateKey keyID poolID clientID username challenge []
       (BChallenge challenge ((''USER_ID_FOR_SRP'', username) # extraParams)) s"

definition completeAuth :: "string \<Rightarrow> string \<Rightarrow> UserMetadata \<Rightarrow> rsa_key \<Rightarrow> string \<Rightarrow> cog \<Rightarrow> cog_response \<times> cog" where
  "completeAuth poolID clientID user privateKey keyID s =
     reply (GetUser poolID (us_Username user) s, s) userErr (\<lambda>user s.
     if \<not> us_Enabled user then (notAuthorized, s)
     else if us_SoftwareTokenMFAEnabled user
     then writeChallengeResponse privateKey keyID poolID clientID (us_Username user) ''SOFTWARE_TOKEN_MFA'' [] s
     else reply (GetUserPool poolID s, s) internal (\<lambda>pool s.
     if up_MfaConfiguration pool = ''ON''
     then (if us_TOTPSecret user \<noteq> []
           then writeChallengeResponse privateKey keyID poolID clientID (us_Username user) ''SOFTWARE_TOKEN_MFA'' [] s
           else writeChallengeResponse privateKey keyID poolID clientID (us_Username user) ''MFA_SETUP''
                  [(''MFAS_CAN_SETUP'', ''['' @ [CHR 0x22] @ ''SOFTWARE_TOKEN_MFA'' @ [CHR 0x22] @ '']'')] s)
     else writeAuthResult poolID clientID user privateKey keyID True [] s))"

definition newPasswordChallenge ::
  "rsa_key \<Rightarrow> string \<Rightarrow> string \<Rightarrow> string \<Rightarrow> string \<Rightarrow> cog \<Rightarrow> cog_response \<times> cog" where
  "newPasswordChallenge privateKey keyID poolID clientID username s =
     challengeSession privateKey keyID poolID clientID username ''NEW_PASSWORD_REQUIRED'' []
       (BChallenge ''NEW_PASSWORD_REQUIRED''
          [(''USER_ID_FOR_SRP'', username), (''requiredAttributes'', ''[]''), (''userAttributes'', ''{}'')]) s"

section \<open>InitiateAuth\<close>

definition handleUserPasswordAuth :: "string \<Rightarrow> string \<Rightarrow> smap \<Rightarrow> cog \<Rightarrow> cog_response \<times> cog" where
  "handleUserPasswordAuth poolID clientID params s =
     (let username = param params ''USERNAME''; password = param params ''PASSWORD''
      in if username = [] \<or> password = [] then (invalidParameter, s)
         else reply (GetUser poolID username s, s) userErr (\<lambda>user s.
         if \<not> us_Enabled user then (notAuthorized, s)
         else if us_Status user = ''UNCONFIRMED'' then (userNotConfirmed, s)
         else if \<not> verifyPassword (clib s) (us_PasswordHash user) password then (notAuthorized, s)
         else reply (GetOrCreatePoolKeys poolID s) internal (\<lambda>(keys, privateKey) s.
         if us_Status user = ''FORCE_CHANGE_PASSWORD''
         then newPasswordChallenge privateKey (pk_KeyID keys) poolID clientID username s
         else completeAuth poolID clientID user privateKey (pk_KeyID keys) s)))"

definition handleRefreshTokenAuth :: "string \<Rightarrow> string \<Rightarrow> smap \<Rightarrow> cog \<Rightarrow> cog_response \<times> cog" where
  "handleRefreshTokenAuth poolID clientID params s =
     (let token = param params ''REFRESH_TOKEN''
      in if token = [] then (invalidParameter, s)
         else reply (GetRefreshToken poolID token s, s) (\<lambda>_. notAuthorized) (\<lambda>rt s.
         if rt_ClientID rt \<noteq> clientID then (notAuthorized, s)
         else if 0 < rt_ExpiresAt rt \<and> rt_ExpiresAt rt < nowUnix s then (notAuthorized, s)
         else reply (GetUserBySub poolID (rt_Sub rt) s, s) (\<lambda>_. userNotFound) (\<lambda>user s.
         if \<not> us_Enabled user then (notAuthorized, s)
         else reply (GetOrCreatePoolKeys poolID s) internal (\<lambda>(keys, privateKey) s.
         writeAuthResult poolID clientID user privateKey (pk_KeyID keys) False (rt_OriginJTI rt) s))))"

definition handleUserSRPAuth :: "string \<Rightarrow> string \<Rightarrow> smap \<Rightarrow> cog \<Rightarrow> cog_response \<times> cog" where
  "handleUserSRPAuth poolID clientID params s =
     (let username = param params ''USERNAME''; srpAHex = param params ''SRP_A''
      in if username = [] \<or> srpAHex = [] then (invalidParameter, s)
         else case bigSetString srpAHex of
                None \<Rightarrow> (invalidParameter, s)
              | Some Ai \<Rightarrow>
                  if Ai < 0 then (invalidParameter, s)
                  else if nat Ai mod srpN = 0 then (invalidParameter, s)
                  else reply (GetUser poolID username s, s) userErr (\<lambda>user s.
                  if \<not> us_Enabled user then (notAuthorized, s)
                  else if us_Status user = ''UNCONFIRMED'' then (userNotConfirmed, s)
                  else if us_SRPVerifier user = [] then (notAuthorized, s)
                  else case bigSetString (us_SRPVerifier user) of
                         None \<Rightarrow> (internalErrorException, s)
                       | Some v \<Rightarrow>
                           reply (randUntil 384 (\<lambda>x. bigSetBytes x < srpN) s) internal (\<lambda>seed s.
                             let b0 = bigSetBytes seed;
                                 b = (if b0 = 0 then 1 else b0);
                                 B = computeSRPB (clib s) (nat v) b
                             in reply (randRead_cog 32 s) internal (\<lambda>secretBlock s.
                                reply (GetOrCreatePoolKeys poolID s) internal (\<lambda>(keys, privateKey) s.
                                reply (encryptSRPPrivB privateKey b s) internal (\<lambda>encryptedB s.
                                challengeSession privateKey (pk_KeyID keys) poolID clientID username ''PASSWORD_VERIFIER''
                                  [(''srp_a'', CStr (hex (PadHex (nat Ai)))), (''srp_b_priv'', CStr encryptedB)]
                                  (BChallenge ''PASSWORD_VERIFIER''
                                     [(''SALT'', us_SRPSalt user), (''SRP_B'', hex (PadHex B)),
                                      (''SECRET_BLOCK'', b64std secretBlock), (''USER_ID_FOR_SRP'', username)]) s))))))"

record initiateAuthRequest =
  ia_ClientID :: string
  ia_AuthFlow :: string
  ia_AuthParameters :: smap

definition handleInitiateAuth :: "initiateAuthRequest option \<Rightarrow> cog \<Rightarrow> cog_response \<times> cog" where
  "handleInitiateAuth body s =
     (case body of
        None \<Rightarrow> (invalidParameter, s)
      | Some req \<Rightarrow>
          reply (GetPoolIDForClient (ia_ClientID req) s, s) clientErr (\<lambda>poolID s.
          if ia_AuthFlow req = ''USER_PASSWORD_AUTH''
          then handleUserPasswordAuth poolID (ia_ClientID req) (ia_AuthParameters req) s
          else if ia_AuthFlow req = ''USER_SRP_AUTH''
          then handleUserSRPAuth poolID (ia_ClientID req) (ia_AuthParameters req) s
          else if ia_AuthFlow req = ''REFRESH_TOKEN_AUTH'' \<or> ia_AuthFlow req = ''REFRESH_TOKEN''
          then handleRefreshTokenAuth poolID (ia_ClientID req) (ia_AuthParameters req) s
          else (invalidParameter, s)))"

section \<open>RespondToAuthChallenge\<close>

text \<open>The session must be signed, unexpired, and made for this pool, client and challenge; a username in the
  responses must be the one of the session. The four handlers check this the same way.\<close>

definition sessionUser :: "claims \<Rightarrow> string \<Rightarrow> string \<Rightarrow> string \<Rightarrow> smap \<Rightarrow> string option" where
  "sessionUser cl poolID clientID challenge responses =
     (if claimStr cl ''pool_id'' \<noteq> poolID \<or> claimStr cl ''client_id'' \<noteq> clientID
         \<or> claimStr cl ''challenge'' \<noteq> challenge then None
      else let username = param responses ''USERNAME''
           in if username = [] \<or> username = claimStr cl ''username'' then Some (claimStr cl ''username'') else None)"

definition withSession ::
  "string \<Rightarrow> string \<Rightarrow> (poolKeys \<Rightarrow> rsa_key \<Rightarrow> claims \<Rightarrow> cog \<Rightarrow> cog_response \<times> cog) \<Rightarrow> cog \<Rightarrow> cog_response \<times> cog" where
  "withSession poolID sessionToken k s =
     reply (GetOrCreatePoolKeys poolID s) internal (\<lambda>(keys, privateKey) s.
       case parseSessionToken (clib s) (unixSeconds s) sessionToken privateKey of
         None \<Rightarrow> (notAuthorized, s)
       | Some cl \<Rightarrow> k keys privateKey cl s)"

definition handleNewPasswordRequired :: "string \<Rightarrow> string \<Rightarrow> string \<Rightarrow> smap \<Rightarrow> cog \<Rightarrow> cog_response \<times> cog" where
  "handleNewPasswordRequired poolID clientID sessionToken responses s =
     withSession poolID sessionToken (\<lambda>keys privateKey cl s.
       case sessionUser cl poolID clientID ''NEW_PASSWORD_REQUIRED'' responses of
         None \<Rightarrow> (notAuthorized, s)
       | Some username \<Rightarrow>
           let newPassword = param responses ''NEW_PASSWORD''
           in if newPassword = [] then (invalidParameter, s)
              else reply (GetUserPool poolID s, s) internal (\<lambda>pool s.
              if \<not> validatePassword (clib s) (passwordPolicyFromPool (clib s) pool) newPassword then (invalidPassword, s)
              else reply (UpdateUser poolID username
                             (\<lambda>u s. if us_Status u \<noteq> ''FORCE_CHANGE_PASSWORD'' then (Inl WrongChallengeStatus, s)
                                    else bindC (derivePasswordCredentials poolID username newPassword s) (\<lambda>cred s.
                                         (Inr ((withCredentials cred u)\<lparr>us_Status := ''CONFIRMED''\<rparr>), s))) s)
                     (\<lambda>e. case e of UserNotFound \<Rightarrow> userNotFound | WrongChallengeStatus \<Rightarrow> notAuthorized | _ \<Rightarrow> internalErrorException)
                     (\<lambda>user s. completeAuth poolID clientID user privateKey (pk_KeyID keys) s))) s"

text \<open>\<open>handlePasswordVerifierChallenge\<close> reads \<open>srp_a\<close> and \<open>srp_b_priv\<close> from the session before it reads the user.\<close>

definition checkClaimSignature ::
  "string \<Rightarrow> string \<Rightarrow> UserMetadata \<Rightarrow> nat \<Rightarrow> nat \<Rightarrow> string \<Rightarrow> string \<Rightarrow> string \<Rightarrow> cog \<Rightarrow> cog_response option" where
  "checkClaimSignature poolID username user A b secretBlockB64 timestamp signatureB64 s =
     (if us_SRPVerifier user = [] then Some notAuthorized
      else case bigSetString (us_SRPVerifier user) of
             None \<Rightarrow> Some internalErrorException
           | Some v \<Rightarrow>
               let u = srpU (clib s) A (computeSRPB (clib s) (nat v) b)
               in if u = 0 then Some notAuthorized
                  else case b64stdDecode secretBlockB64 of
                         None \<Rightarrow> Some invalidParameter
                       | Some secretBlock \<Rightarrow>
                           (if b64stdDecode signatureB64
                               = Some (claimMac (clib s) (serverKey (clib s) A (nat v) u b) (userPoolNameFromID poolID)
                                         username secretBlock timestamp)
                            then None else Some notAuthorized))"

definition handlePasswordVerifierChallenge :: "string \<Rightarrow> string \<Rightarrow> string \<Rightarrow> smap \<Rightarrow> cog \<Rightarrow> cog_response \<times> cog" where
  "handlePasswordVerifierChallenge poolID clientID sessionToken responses s =
     (let secretBlockB64 = param responses ''PASSWORD_CLAIM_SECRET_BLOCK'';
          timestamp = param responses ''TIMESTAMP'';
          signatureB64 = param responses ''PASSWORD_CLAIM_SIGNATURE''
      in if secretBlockB64 = [] \<or> timestamp = [] \<or> signatureB64 = [] then (invalidParameter, s)
         else withSession poolID sessionToken (\<lambda>keys privateKey cl s.
           case sessionUser cl poolID clientID ''PASSWORD_VERIFIER'' responses of
             None \<Rightarrow> (notAuthorized, s)
           | Some username \<Rightarrow>
               (case (bigSetString (claimStr cl ''srp_a''), decryptSRPPrivB (clib s) privateKey (claimStr cl ''srp_b_priv'')) of
                  (Some A, Some b) \<Rightarrow>
                    reply (GetUser poolID username s, s) userErr (\<lambda>user s.
                    case checkClaimSignature poolID username user (nat A) b secretBlockB64 timestamp signatureB64 s of
                      Some err \<Rightarrow> (err, s)
                    | None \<Rightarrow>
                        if us_Status user = ''FORCE_CHANGE_PASSWORD''
                        then newPasswordChallenge privateKey (pk_KeyID keys) poolID clientID username s
                        else completeAuth poolID clientID user privateKey (pk_KeyID keys) s)
                | _ \<Rightarrow> (internalErrorException, s))) s)"

definition handleSoftwareTokenMFAChallenge :: "string \<Rightarrow> string \<Rightarrow> string \<Rightarrow> smap \<Rightarrow> cog \<Rightarrow> cog_response \<times> cog" where
  "handleSoftwareTokenMFAChallenge poolID clientID sessionToken responses s =
     withSession poolID sessionToken (\<lambda>keys privateKey cl s.
       case sessionUser cl poolID clientID ''SOFTWARE_TOKEN_MFA'' responses of
         None \<Rightarrow> (notAuthorized, s)
       | Some username \<Rightarrow>
           let code = param responses ''SOFTWARE_TOKEN_MFA_CODE''
           in if code = [] then (invalidParameter, s)
              else reply (GetUser poolID username s, s) userErr (\<lambda>user s.
              reply (if us_SoftwareTokenMFAEnabled user then (Inr True, s)
                      else (map_sum id (\<lambda>pool. up_MfaConfiguration pool = ''ON'') (GetUserPool poolID s), s))
                internal (\<lambda>allowed s.
              if us_TOTPSecret user = [] \<or> \<not> allowed then (notAuthorized, s)
              else if \<not> us_Enabled user then (notAuthorized, s)
              else if \<not> verifyTOTP (clib s) (us_TOTPSecret user) code (unixSeconds s) then (codeMismatch, s)
              else let healed = (\<lambda>u. u\<lparr>us_SoftwareTokenMFAEnabled := True, us_PreferredMfaSetting := ''SOFTWARE_TOKEN_MFA''\<rparr>)
                   in reply (if us_SoftwareTokenMFAEnabled user then (Inr user, s)
                              else map_prod (map_sum id (\<lambda>_. healed user)) id
                                     (UpdateUser poolID username (pureUpdate (\<lambda>u. Inr (healed u))) s))
                        userErr (\<lambda>user s.
                      writeAuthResult poolID clientID user privateKey (pk_KeyID keys) True [] s)))) s"

definition handleMFASetupChallenge :: "string \<Rightarrow> string \<Rightarrow> string \<Rightarrow> smap \<Rightarrow> cog \<Rightarrow> cog_response \<times> cog" where
  "handleMFASetupChallenge poolID clientID sessionToken responses s =
     withSession poolID sessionToken (\<lambda>keys privateKey cl s.
       let verifiedSecret = claimStr cl ''verified_totp_secret''
       in case (if verifiedSecret = [] then None else sessionUser cl poolID clientID ''MFA_SETUP'' responses) of
            None \<Rightarrow> (notAuthorized, s)
          | Some username \<Rightarrow>
              reply (GetUser poolID username s, s) userErr (\<lambda>user s.
              if \<not> us_Enabled user then (notAuthorized, s)
              else reply (UpdateUser poolID username
                             (pureUpdate (\<lambda>u. Inr (u\<lparr>us_TOTPSecret := verifiedSecret, us_SoftwareTokenMFAEnabled := True,
                                                     us_PreferredMfaSetting := ''SOFTWARE_TOKEN_MFA''\<rparr>))) s)
                     userErr (\<lambda>user s.
                   writeAuthResult poolID clientID user privateKey (pk_KeyID keys) True [] s))) s"

record respondRequest =
  ra_ClientID :: string
  ra_ChallengeName :: string
  ra_Session :: string
  ra_ChallengeResponses :: smap

definition handleRespondToAuthChallenge :: "respondRequest option \<Rightarrow> cog \<Rightarrow> cog_response \<times> cog" where
  "handleRespondToAuthChallenge body s =
     (case body of
        None \<Rightarrow> (invalidParameter, s)
      | Some req \<Rightarrow>
          if ra_Session req = [] then (invalidParameter, s)
          else reply (GetPoolIDForClient (ra_ClientID req) s, s) clientErr (\<lambda>poolID s.
          let go = (\<lambda>h. h poolID (ra_ClientID req) (ra_Session req) (ra_ChallengeResponses req) s)
          in if ra_ChallengeName req = ''NEW_PASSWORD_REQUIRED'' then go handleNewPasswordRequired
             else if ra_ChallengeName req = ''PASSWORD_VERIFIER'' then go handlePasswordVerifierChallenge
             else if ra_ChallengeName req = ''SOFTWARE_TOKEN_MFA'' then go handleSoftwareTokenMFAChallenge
             else if ra_ChallengeName req = ''MFA_SETUP'' then go handleMFASetupChallenge
             else (invalidParameter, s)))"

section \<open>RevokeToken and JWKS\<close>

definition handleRevokeToken :: "(string \<times> string) option \<Rightarrow> cog \<Rightarrow> cog_response \<times> cog" where
  "handleRevokeToken body s =
     (case body of
        None \<Rightarrow> (invalidParameter, s)
      | Some (clientID, token) \<Rightarrow>
          reply (GetPoolIDForClient clientID s, s)
            (\<lambda>e. if e = UserPoolClientNotFound then CErr 400 ''UnauthorizedException'' else internalErrorException) (\<lambda>poolID s.
          reply (GetRefreshToken poolID token s, s)
            (\<lambda>e. if e = RefreshTokenNotFound then COk BEmpty else internalErrorException) (\<lambda>rt s.
          if rt_ClientID rt \<noteq> clientID then (CErr 400 ''UnauthorizedException'', s)
          else reply (if rt_OriginJTI rt \<noteq> [] then RevokeAccessToken poolID (rt_OriginJTI rt) (nowUnix s + 3600000) s
                       else (Inr (), s)) internal (\<lambda>_ s.
          reply (DeleteRefreshToken poolID token s)
            (\<lambda>e. if e = RefreshTokenNotFound then COk BEmpty else internalErrorException) (\<lambda>_ s. (COk BEmpty, s))))))"

definition handleJWKS :: "string \<Rightarrow> cog \<Rightarrow> cog_response \<times> cog" where
  "handleJWKS path s =
     (let poolID = hd (split_char (CHR ''/'') (strings_TrimPrefix path ''/''))
      in if poolID = [] then (invalidParameter, s)
         else reply (GetUserPool poolID s, s) (\<lambda>e. if e = UserPoolNotFound then CNotFound else internalErrorException) (\<lambda>_ s.
         reply (GetOrCreatePoolKeys poolID s) internal (\<lambda>(keys, privateKey) s.
         (COk (BJWKS (buildJWKS (clib s) privateKey (pk_KeyID keys))), s))))"

end
