(* ===== verification/Cog_Handlers.thy ===== *)
theory Cog_Handlers
  imports Cog_Auth
begin

text \<open>
  The other requests of the Cognito service: those of a user with an access token (\<open>handler_user.go\<close>,
  \<open>handler_mfa.go\<close>, \<open>handler_password.go\<close>), those of an administrator (\<open>handler_admin.go\<close>, \<open>handler_group.go\<close>),
  user pools and clients (\<open>handler_user_pool.go\<close>, \<open>handler_user_pool_client.go\<close>, \<open>handler_tagging.go\<close>).
\<close>

section \<open>Access tokens\<close>

definition poolIDFromToken :: "string \<Rightarrow> cog \<Rightarrow> string option" where
  "poolIDFromToken token s =
     (case parseRawClaims (clib s) token of
        None \<Rightarrow> None
      | Some cl \<Rightarrow> let poolID = extractPoolID (claimStr cl ''iss'') in if poolID = [] then None else Some poolID)"

definition poolKey :: "string \<Rightarrow> cog \<Rightarrow> cog_response + rsa_key" where
  "poolKey poolID s =
     (case GetPoolKeys poolID s of
        Inl e \<Rightarrow> Inl (if e = KeysNotExist then notAuthorized else internalErrorException)
      | Inr (_, key) \<Rightarrow> Inr key)"

text \<open>The subject, the JTI and the origin JTI of a valid access token\<close>

definition validateAccessJWT :: "string \<Rightarrow> rsa_key \<Rightarrow> cog \<Rightarrow> (string \<times> string \<times> string) option" where
  "validateAccessJWT token key s =
     (case verifyJWT (clib s) token key of
        None \<Rightarrow> None
      | Some cl \<Rightarrow>
          (case claimNum cl ''exp'' of
             None \<Rightarrow> None
           | Some e \<Rightarrow>
               if e \<le> unixSeconds s \<or> claimStr cl ''token_use'' \<noteq> ''access'' \<or> claimStr cl ''sub'' = []
                  \<or> claimStr cl ''jti'' = [] then None
               else Some (claimStr cl ''sub'', claimStr cl ''jti'', claimStr cl ''origin_jti'')))"

fun notRevoked :: "string \<Rightarrow> string list \<Rightarrow> cog \<Rightarrow> cog_response option" where
  "notRevoked poolID [] s = None"
| "notRevoked poolID (k # ks) s =
     (if k = [] then notRevoked poolID ks s
      else case IsAccessTokenRevoked poolID k s of
             Inl _ \<Rightarrow> Some internalErrorException
           | Inr True \<Rightarrow> Some notAuthorized
           | Inr False \<Rightarrow> notRevoked poolID ks s)"

definition checkTokenNotRevoked :: "string \<Rightarrow> string \<Rightarrow> string \<Rightarrow> cog \<Rightarrow> cog_response option" where
  "checkTokenNotRevoked poolID jti originJTI s = notRevoked poolID [jti, originJTI] s"

text \<open>The checks with which every request that carries an access token starts.\<close>

definition withToken ::
  "string \<Rightarrow> (string \<Rightarrow> string \<Rightarrow> string \<Rightarrow> cog \<Rightarrow> cog_response \<times> cog) \<Rightarrow> cog \<Rightarrow> cog_response \<times> cog" where
  "withToken token k s =
     (case poolIDFromToken token s of
        None \<Rightarrow> (notAuthorized, s)
      | Some poolID \<Rightarrow>
          (case poolKey poolID s of
             Inl r \<Rightarrow> (r, s)
           | Inr key \<Rightarrow>
               (case validateAccessJWT token key s of
                  None \<Rightarrow> (notAuthorized, s)
                | Some (sub, jti, originJTI) \<Rightarrow>
                    (case checkTokenNotRevoked poolID jti originJTI s of
                       Some r \<Rightarrow> (r, s)
                     | None \<Rightarrow> k poolID sub originJTI s))))"

definition withTokenUser ::
  "string \<Rightarrow> (string \<Rightarrow> UserMetadata \<Rightarrow> cog \<Rightarrow> cog_response \<times> cog) \<Rightarrow> cog \<Rightarrow> cog_response \<times> cog" where
  "withTokenUser token k s =
     withToken token (\<lambda>poolID sub originJTI s. reply (GetUserBySub poolID sub s, s) userErr (\<lambda>user s. k poolID user s)) s"

section \<open>Requests of a user\<close>

definition userMFASettingList :: "UserMetadata \<Rightarrow> string list" where
  "userMFASettingList u = (if us_SoftwareTokenMFAEnabled u then [''SOFTWARE_TOKEN_MFA''] else [])"

definition handleGetUser :: "string option \<Rightarrow> cog \<Rightarrow> cog_response \<times> cog" where
  "handleGetUser body s =
     (case body of
        None \<Rightarrow> (invalidParameter, s)
      | Some token \<Rightarrow>
          withTokenUser token (\<lambda>poolID user s.
            (COk (BGetUser (us_Username user) (prependSub (us_Attributes user) (us_Sub user)) (userMFASettingList user)
                    (us_PreferredMfaSetting user)), s)) s)"

definition verifiableAttr :: "string \<Rightarrow> bool" where
  "verifiableAttr attrName \<longleftrightarrow> attrName = ''email'' \<or> attrName = ''phone_number''"

definition handleGetUserAttributeVerificationCode :: "(string \<times> string) option \<Rightarrow> cog \<Rightarrow> cog_response \<times> cog" where
  "handleGetUserAttributeVerificationCode body s =
     (case body of
        None \<Rightarrow> (invalidParameter, s)
      | Some (token, name) \<Rightarrow>
          if \<not> verifiableAttr name then (invalidParameter, s)
          else withTokenUser token (\<lambda>poolID user s.
            let v = attrValue (us_Attributes user) name
            in if v = [] then (invalidParameter, s)
               else reply (generateConfirmationCodeFrom s) internal (\<lambda>code s.
               reply (UpdateUser poolID (us_Username user)
                         (pureUpdate (\<lambda>u. Inr (u\<lparr>us_VerificationCodes := AList.update name code (us_VerificationCodes u)\<rparr>))) s)
                 userErr (\<lambda>_ s. (COk (BDelivery [deliveryFor name v]), s)))) s)"

definition verifyAttr :: "string \<Rightarrow> string \<Rightarrow> UserMetadata \<Rightarrow> cog_error + UserMetadata" where
  "verifyAttr name code u =
     (if code \<noteq> param (us_VerificationCodes u) name then Inl CodeMismatch
      else Inr (u\<lparr>us_Attributes := setAttr (us_Attributes u) (name @ ''_verified'') ''true'',
                  us_VerificationCodes := AList.delete name (us_VerificationCodes u)\<rparr>))"

definition codeErr :: "cog_error \<Rightarrow> cog_response" where
  "codeErr e = (case e of UserNotFound \<Rightarrow> userNotFound | CodeMismatch \<Rightarrow> codeMismatch | _ \<Rightarrow> internalErrorException)"

definition handleVerifyUserAttribute :: "(string \<times> string \<times> string) option \<Rightarrow> cog \<Rightarrow> cog_response \<times> cog" where
  "handleVerifyUserAttribute body s =
     (case body of
        None \<Rightarrow> (invalidParameter, s)
      | Some (token, name, code) \<Rightarrow>
          if \<not> verifiableAttr name then (invalidParameter, s)
          else withTokenUser token (\<lambda>poolID user s.
            reply (UpdateUser poolID (us_Username user) (pureUpdate (verifyAttr name code)) s) codeErr
              (\<lambda>_ s. (COk BEmpty, s))) s)"

definition handleDeleteUser :: "string option \<Rightarrow> cog \<Rightarrow> cog_response \<times> cog" where
  "handleDeleteUser body s =
     (case body of
        None \<Rightarrow> (invalidParameter, s)
      | Some token \<Rightarrow>
          withTokenUser token (\<lambda>poolID user s.
            reply (DeleteUser_cog poolID (us_Username user) s) userErr (\<lambda>_ s. (COk BEmpty, s))) s)"

definition handleGlobalSignOut :: "string option \<Rightarrow> cog \<Rightarrow> cog_response \<times> cog" where
  "handleGlobalSignOut body s =
     (case body of
        None \<Rightarrow> (invalidParameter, s)
      | Some token \<Rightarrow>
          withToken token (\<lambda>poolID sub originJTI s.
            let revokeExp = nowUnix s + 3600000
            in reply (RevokeOriginJTIsForSub poolID sub revokeExp s) internal (\<lambda>_ s.
               reply (if originJTI \<noteq> [] then RevokeAccessToken poolID originJTI revokeExp s else (Inr (), s)) internal (\<lambda>_ s.
               reply (DeleteRefreshTokensBySub poolID sub s) internal (\<lambda>_ s. (COk BEmpty, s))))) s)"

subsection \<open>Attributes\<close>

record attrChange =
  ac_name :: string
  ac_value :: string
  ac_delete :: bool
  ac_verifyCode :: string
  ac_clearCode :: bool
  ac_clearCodeOnly :: bool

definition setChange :: "string \<Rightarrow> string \<Rightarrow> attrChange" where
  "setChange name v = \<lparr>ac_name = name, ac_value = v, ac_delete = False, ac_verifyCode = [], ac_clearCode = False, ac_clearCodeOnly = False\<rparr>"

fun planAttributeChanges ::
  "AttributeType list \<Rightarrow> AttributeType list \<Rightarrow> cog \<Rightarrow> (attrChange list \<times> codeDeliveryDetails list) cog_result" where
  "planAttributeChanges current [] s = (Inr ([], []), s)"
| "planAttributeChanges current (a # requested) s =
     (let go = (\<lambda>c ds s. bindC (planAttributeChanges current requested s) (\<lambda>(cs, dss) s. (Inr (c # cs, ds @ dss), s)))
      in if at_Value a = [] then go ((setChange (at_Name a) [])\<lparr>ac_delete := True\<rparr>) [] s
         else if \<not> verifiableAttr (at_Name a) \<or> attrValue current (at_Name a) = at_Value a
         then go (setChange (at_Name a) (at_Value a)) [] s
         else bindC (generateConfirmationCodeFrom s) (\<lambda>code s.
                go ((setChange (at_Name a) (at_Value a))\<lparr>ac_verifyCode := code\<rparr>) [deliveryFor (at_Name a) (at_Value a)] s))"

definition applyChange :: "attrChange \<Rightarrow> UserMetadata \<Rightarrow> UserMetadata" where
  "applyChange c u =
     (if ac_delete c
      then (let u1 = u\<lparr>us_Attributes := deleteAttr (us_Attributes u) (ac_name c)\<rparr>
            in if verifiableAttr (ac_name c)
               then u1\<lparr>us_Attributes := deleteAttr (us_Attributes u1) (ac_name c @ ''_verified''),
                       us_VerificationCodes := AList.delete (ac_name c) (us_VerificationCodes u1)\<rparr>
               else u1)
      else if ac_clearCodeOnly c then u\<lparr>us_VerificationCodes := AList.delete (ac_name c) (us_VerificationCodes u)\<rparr>
      else let u1 = u\<lparr>us_Attributes := setAttr (us_Attributes u) (ac_name c) (ac_value c)\<rparr>
           in if ac_verifyCode c \<noteq> []
              then u1\<lparr>us_Attributes := setAttr (us_Attributes u1) (ac_name c @ ''_verified'') ''false'',
                      us_VerificationCodes := AList.update (ac_name c) (ac_verifyCode c) (us_VerificationCodes u1)\<rparr>
              else if ac_clearCode c then u1\<lparr>us_VerificationCodes := AList.delete (ac_name c) (us_VerificationCodes u1)\<rparr>
              else u1)"

definition applyAttributeChanges :: "attrChange list \<Rightarrow> UserMetadata \<Rightarrow> UserMetadata" where
  "applyAttributeChanges cs u = fold applyChange cs u"

definition namesSub :: "AttributeType list \<Rightarrow> bool" where
  "namesSub attrs = list_ex (\<lambda>a. at_Name a = ''sub'') attrs"

definition handleUpdateUserAttributes :: "(string \<times> AttributeType list) option \<Rightarrow> cog \<Rightarrow> cog_response \<times> cog" where
  "handleUpdateUserAttributes body s =
     (case body of
        None \<Rightarrow> (invalidParameter, s)
      | Some (token, attrs) \<Rightarrow>
          if attrs = [] \<or> namesSub attrs then (invalidParameter, s)
          else withTokenUser token (\<lambda>poolID user s.
            reply (planAttributeChanges (us_Attributes user) attrs s) internal (\<lambda>(changes, deliveries) s.
            reply (UpdateUser poolID (us_Username user) (pureUpdate (\<lambda>u. Inr (applyAttributeChanges changes u))) s) userErr
              (\<lambda>_ s. (COk (BDelivery deliveries), s)))) s)"

subsection \<open>Software tokens\<close>

definition resolveMFASetupSession ::
  "string \<Rightarrow> (string \<Rightarrow> poolKeys \<Rightarrow> rsa_key \<Rightarrow> claims \<Rightarrow> cog \<Rightarrow> cog_response \<times> cog) \<Rightarrow> cog \<Rightarrow> cog_response \<times> cog" where
  "resolveMFASetupSession sessionToken k s =
     (case parseRawClaims (clib s) sessionToken of
        None \<Rightarrow> (notAuthorized, s)
      | Some rawClaims \<Rightarrow>
          let poolID = claimStr rawClaims ''pool_id''
          in if poolID = [] then (notAuthorized, s)
             else case GetPoolKeys poolID s of
                    Inl e \<Rightarrow> (if e = KeysNotExist then notAuthorized else internalErrorException, s)
                  | Inr (keys, privateKey) \<Rightarrow>
                      (case parseSessionToken (clib s) (unixSeconds s) sessionToken privateKey of
                         None \<Rightarrow> (notAuthorized, s)
                       | Some cl \<Rightarrow>
                           if claimStr cl ''challenge'' \<noteq> ''MFA_SETUP'' then (notAuthorized, s)
                           else k poolID keys privateKey cl s))"

definition handleAssociateSoftwareTokenSession :: "string \<Rightarrow> cog \<Rightarrow> cog_response \<times> cog" where
  "handleAssociateSoftwareTokenSession sessionToken s =
     resolveMFASetupSession sessionToken (\<lambda>poolID keys privateKey cl s.
       let username = claimStr cl ''username''
       in reply (GetUser poolID username s, s) userErr (\<lambda>_ s.
          reply (generateTOTPSecret s) internal (\<lambda>secret s.
          challengeSession privateKey (pk_KeyID keys) poolID (claimStr cl ''client_id'') username ''MFA_SETUP''
            [(''pending_totp_secret'', CStr secret)] (BSecret secret) s))) s"

definition handleAssociateSoftwareToken :: "(string \<times> string) option \<Rightarrow> cog \<Rightarrow> cog_response \<times> cog" where
  "handleAssociateSoftwareToken body s =
     (case body of
        None \<Rightarrow> (invalidParameter, s)
      | Some (token, session) \<Rightarrow>
          if token \<noteq> [] \<and> session \<noteq> [] then (invalidParameter, s)
          else if session \<noteq> [] then handleAssociateSoftwareTokenSession session s
          else if token = [] then (invalidParameter, s)
          else withTokenUser token (\<lambda>poolID user s.
            reply (generateTOTPSecret s) internal (\<lambda>secret s.
            reply (UpdateUser poolID (us_Username user) (pureUpdate (\<lambda>u. Inr (u\<lparr>us_PendingTOTPSecret := secret\<rparr>))) s) userErr
              (\<lambda>_ s. (COk (BSecret secret []), s)))) s)"

definition mfaNotFound :: cog_response where "mfaNotFound = CErr 400 ''SoftwareTokenMFANotFoundException''"

definition handleVerifySoftwareTokenSession :: "string \<Rightarrow> string \<Rightarrow> cog \<Rightarrow> cog_response \<times> cog" where
  "handleVerifySoftwareTokenSession sessionToken userCode s =
     resolveMFASetupSession sessionToken (\<lambda>poolID keys privateKey cl s.
       let username = claimStr cl ''username''; pendingSecret = claimStr cl ''pending_totp_secret''
       in reply (GetUser poolID username s, s) userErr (\<lambda>_ s.
          if pendingSecret = [] then (mfaNotFound, s)
          else if \<not> verifyTOTP (clib s) pendingSecret userCode (unixSeconds s) then (codeMismatch, s)
          else challengeSession privateKey (pk_KeyID keys) poolID (claimStr cl ''client_id'') username ''MFA_SETUP''
                 [(''verified_totp_secret'', CStr pendingSecret)] (BStatus ''SUCCESS'') s)) s"

definition handleVerifySoftwareToken :: "(string \<times> string \<times> string) option \<Rightarrow> cog \<Rightarrow> cog_response \<times> cog" where
  "handleVerifySoftwareToken body s =
     (case body of
        None \<Rightarrow> (invalidParameter, s)
      | Some (token, session, userCode) \<Rightarrow>
          if token \<noteq> [] \<and> session \<noteq> [] then (invalidParameter, s)
          else if session \<noteq> [] then handleVerifySoftwareTokenSession session userCode s
          else if token = [] then (invalidParameter, s)
          else withTokenUser token (\<lambda>poolID user s.
            reply (UpdateUser poolID (us_Username user)
                      (\<lambda>u s. if us_PendingTOTPSecret u = [] then (Inl NoPendingTOTPSecret, s)
                             else if \<not> verifyTOTP (clib s) (us_PendingTOTPSecret u) userCode (unixSeconds s) then (Inl CodeMismatch, s)
                             else (Inr (u\<lparr>us_TOTPSecret := us_PendingTOTPSecret u, us_PendingTOTPSecret := []\<rparr>), s)) s)
              (\<lambda>e. if e = NoPendingTOTPSecret then mfaNotFound else codeErr e)
              (\<lambda>_ s. (COk (BStatus ''SUCCESS'' []), s))) s)"

definition setPreference :: "(bool \<times> bool) option \<Rightarrow> UserPoolMetadata \<Rightarrow> UserMetadata \<Rightarrow> cog_error + UserMetadata" where
  "setPreference settings pool u =
     (case settings of
        None \<Rightarrow> Inr u
      | Some (enabled, preferred) \<Rightarrow>
          if enabled \<and> us_TOTPSecret u = [] then Inl TOTPNotVerified
          else if \<not> enabled \<and> us_SoftwareTokenMFAEnabled u \<and> up_MfaConfiguration pool = ''ON'' then Inl MFACannotDisable
          else Inr (u\<lparr>us_SoftwareTokenMFAEnabled := enabled,
                      us_PreferredMfaSetting :=
                        (if \<not> enabled \<or> \<not> preferred
                         then (if us_PreferredMfaSetting u = ''SOFTWARE_TOKEN_MFA'' then [] else us_PreferredMfaSetting u)
                         else ''SOFTWARE_TOKEN_MFA'')\<rparr>))"

definition handleSetUserMFAPreference :: "(string \<times> (bool \<times> bool) option) option \<Rightarrow> cog \<Rightarrow> cog_response \<times> cog" where
  "handleSetUserMFAPreference body s =
     (case body of
        None \<Rightarrow> (invalidParameter, s)
      | Some (token, settings) \<Rightarrow>
          withTokenUser token (\<lambda>poolID user s.
            reply (GetUserPool poolID s, s) internal (\<lambda>pool s.
            reply (UpdateUser poolID (us_Username user) (pureUpdate (setPreference settings pool)) s)
              (\<lambda>e. case e of UserNotFound \<Rightarrow> userNotFound | TOTPNotVerified \<Rightarrow> invalidParameter
                       | MFACannotDisable \<Rightarrow> invalidParameter | _ \<Rightarrow> internalErrorException)
              (\<lambda>_ s. (COk BEmpty, s)))) s)"

section \<open>Passwords\<close>

definition defaultRecoveryMechanisms :: "recoveryMechanism list" where
  "defaultRecoveryMechanisms =
     [\<lparr>rm_Name = ''verified_phone_number'', rm_Priority = 1\<rparr>, \<lparr>rm_Name = ''verified_email'', rm_Priority = 2\<rparr>]"

definition sortedRecoveryMechanisms :: "coglib \<Rightarrow> raw \<Rightarrow> recoveryMechanism list" where
  "sortedRecoveryMechanisms lib r =
     sort_key rm_Priority
       (if r = [] then defaultRecoveryMechanisms
        else case parseRecovery lib r of
               Some (m # ms) \<Rightarrow> m # ms
             | _ \<Rightarrow> defaultRecoveryMechanisms)"

fun firstDelivery :: "AttributeType list \<Rightarrow> recoveryMechanism list \<Rightarrow> codeDeliveryDetails option" where
  "firstDelivery attrs [] = None"
| "firstDelivery attrs (m # ms) =
     (if rm_Name m = ''verified_email'' \<and> attrValue attrs ''email_verified'' = ''true''
      then Some (deliveryFor ''email'' (attrValue attrs ''email''))
      else if rm_Name m = ''verified_phone_number'' \<and> attrValue attrs ''phone_number_verified'' = ''true''
      then Some (deliveryFor ''phone_number'' (attrValue attrs ''phone_number''))
      else firstDelivery attrs ms)"

definition forgotPasswordDeliveryDetails :: "coglib \<Rightarrow> AttributeType list \<Rightarrow> raw \<Rightarrow> codeDeliveryDetails option" where
  "forgotPasswordDeliveryDetails lib attrs r = firstDelivery attrs (sortedRecoveryMechanisms lib r)"

definition handleForgotPassword :: "(string \<times> string) option \<Rightarrow> cog \<Rightarrow> cog_response \<times> cog" where
  "handleForgotPassword body s =
     (case body of
        None \<Rightarrow> (invalidParameter, s)
      | Some (clientID, username) \<Rightarrow>
          reply (GetPoolIDForClient clientID s, s) clientErr (\<lambda>poolID s.
          reply (GetUserPool poolID s, s) internal (\<lambda>pool s.
          reply (GetUser poolID username s, s) userErr (\<lambda>user s.
          case forgotPasswordDeliveryDetails (clib s) (us_Attributes user) (up_AccountRecoverySetting pool) of
            None \<Rightarrow> (invalidParameter, s)
          | Some delivery \<Rightarrow>
              reply (generateConfirmationCodeFrom s) internal (\<lambda>code s.
              reply (UpdateUser poolID (us_Username user) (pureUpdate (\<lambda>u. Inr (u\<lparr>us_PasswordResetCode := code\<rparr>))) s) userErr
                (\<lambda>_ s. (COk (BDelivery [delivery]), s)))))))"

record confirmForgotRequest =
  cf_ClientID :: string
  cf_Username :: string
  cf_ConfirmationCode :: string
  cf_Password :: string

definition resetPassword :: "string \<Rightarrow> confirmForgotRequest \<Rightarrow> UserMetadata \<Rightarrow> cog \<Rightarrow> UserMetadata cog_result" where
  "resetPassword poolID req u s =
     (if us_Status u = ''UNCONFIRMED'' then (Inl (NotUnconfirmed (us_Status u)), s)
      else if cf_ConfirmationCode req \<noteq> us_PasswordResetCode u then (Inl CodeMismatch, s)
      else bindC (derivePasswordCredentials poolID (cf_Username req) (cf_Password req) s) (\<lambda>cred s.
           (Inr ((withCredentials cred u)\<lparr>us_PasswordResetCode := []\<rparr>), s)))"

definition handleConfirmForgotPassword :: "confirmForgotRequest option \<Rightarrow> cog \<Rightarrow> cog_response \<times> cog" where
  "handleConfirmForgotPassword body s =
     (case body of
        None \<Rightarrow> (invalidParameter, s)
      | Some req \<Rightarrow>
          reply (GetPoolIDForClient (cf_ClientID req) s, s) clientErr (\<lambda>poolID s.
          reply (GetUserPool poolID s, s) internal (\<lambda>pool s.
          if \<not> validatePassword (clib s) (passwordPolicyFromPool (clib s) pool) (cf_Password req) then (invalidPassword, s)
          else reply (UpdateUser poolID (cf_Username req) (resetPassword poolID req) s)
                 (\<lambda>e. case e of NotUnconfirmed _ \<Rightarrow> userNotConfirmed | _ \<Rightarrow> codeErr e)
                 (\<lambda>_ s. (COk BEmpty, s)))))"

definition handleChangePassword :: "(string \<times> string \<times> string) option \<Rightarrow> cog \<Rightarrow> cog_response \<times> cog" where
  "handleChangePassword body s =
     (case body of
        None \<Rightarrow> (invalidParameter, s)
      | Some (token, previous, proposed) \<Rightarrow>
          withTokenUser token (\<lambda>poolID user s.
            reply (GetUserPool poolID s, s) internal (\<lambda>pool s.
            if \<not> validatePassword (clib s) (passwordPolicyFromPool (clib s) pool) proposed then (invalidPassword, s)
            else reply (UpdateUser poolID (us_Username user)
                           (\<lambda>u s. if us_PasswordHash u \<noteq> [] \<and>
                                     (previous = [] \<or> \<not> verifyPassword (clib s) (us_PasswordHash u) previous)
                                  then (Inl PreviousPassword, s)
                                  else bindC (derivePasswordCredentials poolID (us_Username u) proposed s)
                                         (\<lambda>cred s. (Inr (withCredentials cred u), s))) s)
                   (\<lambda>e. if e = PreviousPassword then notAuthorized else userErr e)
                   (\<lambda>_ s. (COk BEmpty, s)))) s)"

end
