(* ===== verification/Cog_Admin.thy ===== *)
theory Cog_Admin
  imports Cog_Handlers
begin

text \<open>
  The requests of an administrator (\<open>handler_admin.go\<close>, \<open>handler_group.go\<close>), user pools and their clients
  (\<open>handler_user_pool.go\<close>, \<open>handler_user_pool_client.go\<close>), tags (\<open>handler_tagging.go\<close>) and the dispatch
  of \<open>router.go\<close>. The region of a new pool is an argument: it comes from the signature of the request or from
  the environment.
\<close>

definition withPool :: "string \<Rightarrow> (UserPoolMetadata \<Rightarrow> cog \<Rightarrow> cog_response \<times> cog) \<Rightarrow> cog \<Rightarrow> cog_response \<times> cog" where
  "withPool poolID k s = reply (GetUserPool poolID s, s) poolErr k"

section \<open>Users\<close>

definition newUserTypeResponse :: "UserMetadata \<Rightarrow> userView" where
  "newUserTypeResponse u =
     \<lparr>uv_Username = us_Username u, uv_Attributes = prependSub (us_Attributes u) (us_Sub u), uv_CreateDate = us_CreatedAt u,
      uv_LastModifiedDate = us_UpdatedAt u, uv_Enabled = us_Enabled u, uv_Status = us_Status u\<rparr>"

record adminCreateUserRequest =
  ad_UserPoolID :: string
  ad_Username :: string
  ad_TemporaryPassword :: string
  ad_UserAttributes :: "AttributeType list"
  ad_MessageAction :: string

definition handleAdminCreateUser :: "adminCreateUserRequest option \<Rightarrow> cog \<Rightarrow> cog_response \<times> cog" where
  "handleAdminCreateUser body s =
     (case body of
        None \<Rightarrow> (invalidParameter, s)
      | Some req \<Rightarrow>
          withPool (ad_UserPoolID req) (\<lambda>pool s.
            let pw = ad_TemporaryPassword req
            in if pw \<noteq> [] \<and> \<not> validatePassword (clib s) (passwordPolicyFromPool (clib s) pool) pw then (invalidPassword, s)
               else if ad_MessageAction req = ''RESEND''
               then reply (GetUser (ad_UserPoolID req) (ad_Username req) s, s) userErr
                      (\<lambda>user s. (COk (BUser (newUserTypeResponse user)), s))
               else reply (generateUUID s) internal (\<lambda>sub s.
               reply (if pw \<noteq> [] then derivePasswordCredentials (ad_UserPoolID req) (ad_Username req) pw s
                       else (Inr ([], [], []), s)) internal (\<lambda>cred s.
               let user = newUser (ad_Username req) sub (if pw \<noteq> [] then ''FORCE_CHANGE_PASSWORD'' else ''CONFIRMED'') cred
                            (ad_UserAttributes req) [] (nowUnix s)
               in reply (CreateUser (ad_UserPoolID req) user s)
                    (\<lambda>e. if e = UsernameExists then CErr 400 ''UsernameExistsException'' else internalErrorException)
                    (\<lambda>_ s. (COk (BUser (newUserTypeResponse user)), s))))) s)"

definition handleAdminGetUser :: "(string \<times> string) option \<Rightarrow> cog \<Rightarrow> cog_response \<times> cog" where
  "handleAdminGetUser body s =
     (case body of
        None \<Rightarrow> (invalidParameter, s)
      | Some (poolID, username) \<Rightarrow>
          withPool poolID (\<lambda>_ s.
            reply (GetUser poolID username s, s) userErr (\<lambda>user s.
              (COk (BAdminUser (newUserTypeResponse user) (userMFASettingList user) (us_PreferredMfaSetting user)), s))) s)"

record adminSetPasswordRequest =
  ap_UserPoolID :: string
  ap_Username :: string
  ap_Password :: string
  ap_Permanent :: bool

definition handleAdminSetUserPassword :: "adminSetPasswordRequest option \<Rightarrow> cog \<Rightarrow> cog_response \<times> cog" where
  "handleAdminSetUserPassword body s =
     (case body of
        None \<Rightarrow> (invalidParameter, s)
      | Some req \<Rightarrow>
          withPool (ap_UserPoolID req) (\<lambda>pool s.
            if \<not> validatePassword (clib s) (passwordPolicyFromPool (clib s) pool) (ap_Password req) then (invalidPassword, s)
            else reply (derivePasswordCredentials (ap_UserPoolID req) (ap_Username req) (ap_Password req) s) internal (\<lambda>cred s.
            reply (UpdateUser (ap_UserPoolID req) (ap_Username req)
                      (pureUpdate (\<lambda>u. Inr ((withCredentials cred u)
                         \<lparr>us_Status := (if ap_Permanent req then ''CONFIRMED'' else ''FORCE_CHANGE_PASSWORD'')\<rparr>))) s) userErr
              (\<lambda>_ s. (COk BEmpty, s)))) s)"

definition adminConfirm :: "UserPoolMetadata \<Rightarrow> UserMetadata \<Rightarrow> UserMetadata" where
  "adminConfirm pool u =
     (if us_Status u = ''UNCONFIRMED''
      then u\<lparr>us_Status := ''CONFIRMED'', us_Attributes := autoVerifyAttrs (us_Attributes u) (up_AutoVerifiedAttributes pool)\<rparr>
      else u)"

definition handleAdminConfirmSignUp :: "(string \<times> string) option \<Rightarrow> cog \<Rightarrow> cog_response \<times> cog" where
  "handleAdminConfirmSignUp body s =
     (case body of
        None \<Rightarrow> (invalidParameter, s)
      | Some (poolID, username) \<Rightarrow>
          withPool poolID (\<lambda>pool s.
            reply (UpdateUser poolID username (pureUpdate (\<lambda>u. Inr (adminConfirm pool u))) s) userErr
              (\<lambda>_ s. (COk BEmpty, s))) s)"

definition handleAdminDeleteUser :: "(string \<times> string) option \<Rightarrow> cog \<Rightarrow> cog_response \<times> cog" where
  "handleAdminDeleteUser body s =
     (case body of
        None \<Rightarrow> (invalidParameter, s)
      | Some (poolID, username) \<Rightarrow>
          withPool poolID (\<lambda>_ s. reply (DeleteUser_cog poolID username s) userErr (\<lambda>_ s. (COk BEmpty, s))) s)"

definition handleAdminDisableUser :: "(string \<times> string) option \<Rightarrow> cog \<Rightarrow> cog_response \<times> cog" where
  "handleAdminDisableUser body s =
     (case body of
        None \<Rightarrow> (invalidParameter, s)
      | Some (poolID, username) \<Rightarrow>
          withPool poolID (\<lambda>_ s.
            reply (UpdateUser poolID username (pureUpdate (\<lambda>u. Inr (u\<lparr>us_Enabled := False\<rparr>))) s) userErr (\<lambda>u s.
            reply (RevokeOriginJTIsForSub poolID (us_Sub u) (nowUnix s + 3600000) s) internal (\<lambda>_ s.
            reply (DeleteRefreshTokensBySub poolID (us_Sub u) s) internal (\<lambda>_ s. (COk BEmpty, s))))) s)"

definition handleAdminEnableUser :: "(string \<times> string) option \<Rightarrow> cog \<Rightarrow> cog_response \<times> cog" where
  "handleAdminEnableUser body s =
     (case body of
        None \<Rightarrow> (invalidParameter, s)
      | Some (poolID, username) \<Rightarrow>
          withPool poolID (\<lambda>_ s.
            reply (UpdateUser poolID username (pureUpdate (\<lambda>u. Inr (u\<lparr>us_Enabled := True\<rparr>))) s) userErr
              (\<lambda>_ s. (COk BEmpty, s))) s)"

text \<open>An attribute \<open>email_verified\<close> of the value \<open>true\<close> waives the verification of \<open>email\<close>; the last one counts.\<close>

definition bypassed :: "AttributeType list \<Rightarrow> string \<Rightarrow> bool" where
  "bypassed requested name =
     (case find (\<lambda>a. at_Name a = name @ ''_verified'') (rev requested) of Some a \<Rightarrow> at_Value a = ''true'' | None \<Rightarrow> False)"

fun planAdminChanges :: "AttributeType list \<Rightarrow> AttributeType list \<Rightarrow> AttributeType list \<Rightarrow> cog \<Rightarrow> attrChange list cog_result" where
  "planAdminChanges current requested [] s = (Inr [], s)"
| "planAdminChanges current requested (a # as) s =
     (let go = (\<lambda>c s. bindC (planAdminChanges current requested as s) (\<lambda>cs s. (Inr (c # cs), s)));
          c = setChange (at_Name a) (at_Value a)
      in if at_Value a = [] then go (c\<lparr>ac_delete := True\<rparr>) s
         else if \<not> verifiableAttr (at_Name a) then go c s
         else if bypassed requested (at_Name a) then go (c\<lparr>ac_clearCode := True\<rparr>) s
         else if attrValue current (at_Name a) = at_Value a then go c s
         else bindC (generateConfirmationCodeFrom s) (\<lambda>code s. go (c\<lparr>ac_verifyCode := code\<rparr>) s))"

definition planAdminAttributeChanges :: "AttributeType list \<Rightarrow> AttributeType list \<Rightarrow> cog \<Rightarrow> attrChange list cog_result" where
  "planAdminAttributeChanges current requested s =
     bindC (planAdminChanges current requested requested s) (\<lambda>cs s.
       (Inr (cs @ map (\<lambda>n. (setChange n [])\<lparr>ac_clearCodeOnly := True\<rparr>)
                    (filter (\<lambda>n. bypassed requested n \<and> \<not> list_ex (\<lambda>a. at_Name a = n) requested) [''email'', ''phone_number''])), s))"

definition handleAdminUpdateUserAttributes :: "(string \<times> string \<times> AttributeType list) option \<Rightarrow> cog \<Rightarrow> cog_response \<times> cog" where
  "handleAdminUpdateUserAttributes body s =
     (case body of
        None \<Rightarrow> (invalidParameter, s)
      | Some (poolID, username, attrs) \<Rightarrow>
          if attrs = [] \<or> namesSub attrs then (invalidParameter, s)
          else withPool poolID (\<lambda>_ s.
            reply (UpdateUser poolID username
                      (\<lambda>u s. bindC (planAdminAttributeChanges (us_Attributes u) attrs s)
                               (\<lambda>changes s. (Inr (applyAttributeChanges changes u), s))) s) userErr
              (\<lambda>_ s. (COk BEmpty, s))) s)"

subsection \<open>ListUsers\<close>

definition re_space :: "char \<Rightarrow> bool" where
  "re_space c \<longleftrightarrow> c \<in> {CHR 0x09, CHR 0x0A, CHR 0x0C, CHR 0x0D, CHR '' ''}"

definition re_word :: "char \<Rightarrow> bool" where
  "re_word c \<longleftrightarrow> is_alnum c \<or> c = CHR ''_'' \<or> c = CHR '':''"

text \<open>\<open>^\s*([\w:]+)\s*(\^?=)\s*"(.*)"\s*$\<close>: the name, whether the operator is \<open>^=\<close>, and the value\<close>

definition reUserFilter :: "string \<Rightarrow> (string \<times> bool \<times> string) option" where
  "reUserFilter str =
     (let t = dropWhile re_space str;
          name = takeWhile re_word t;
          r = dropWhile re_space (dropWhile re_word t);
          caret = has_prefix ''^'' r;
          r1 = (if caret then tl r else r)
      in if name = [] \<or> \<not> has_prefix ''='' r1 then None
         else let q = dropWhile re_space (tl r1);
                  v = rev (dropWhile re_space (rev (tl q)))
              in if q = [] \<or> hd q \<noteq> CHR 0x22 \<or> v = [] \<or> last v \<noteq> CHR 0x22 \<or> CHR 0x0A \<in> set (butlast v) then None
                 else Some (name, caret, butlast v))"

definition filterValue :: "string \<Rightarrow> UserMetadata \<Rightarrow> string option" where
  "filterValue name u =
     (if name = ''username'' then Some (us_Username u)
      else if name = ''sub'' then Some (us_Sub u)
      else if name = ''cognito:user_status'' then Some (strings_ToLower (us_Status u))
      else if name = ''status'' then Some (if us_Enabled u then ''true'' else ''false'')
      else getAttr (us_Attributes u) name)"

definition filterNames :: "string list" where
  "filterNames = [''username'', ''sub'', ''cognito:user_status'', ''status'', ''email'', ''phone_number'', ''name'',
                  ''given_name'', ''family_name'', ''preferred_username'']"

definition parseUserFilter :: "string \<Rightarrow> (UserMetadata \<Rightarrow> bool) option" where
  "parseUserFilter str =
     (if str = [] then Some (\<lambda>_. True)
      else case reUserFilter str of
             None \<Rightarrow> None
           | Some (name, caret, v) \<Rightarrow>
               if name \<notin> set filterNames then None
               else let v = (if name = ''cognito:user_status'' then strings_ToLower v else v)
                    in Some (\<lambda>u. case filterValue name u of
                                   None \<Rightarrow> False
                                 | Some x \<Rightarrow> if caret then has_prefix v x else x = v))"

definition pageErr :: "cog_error \<Rightarrow> cog_response" where
  "pageErr e = (case e of InvalidNextToken \<Rightarrow> invalidParameter | BadMaxResults \<Rightarrow> CDropped | _ \<Rightarrow> internalErrorException)"

record listUsersRequest =
  lu_UserPoolID :: string
  lu_Filter :: string
  lu_Limit :: "int option"
  lu_PaginationToken :: string

definition handleListUsers :: "listUsersRequest option \<Rightarrow> cog \<Rightarrow> cog_response \<times> cog" where
  "handleListUsers body s =
     (case body of
        None \<Rightarrow> (invalidParameter, s)
      | Some req \<Rightarrow>
          withPool (lu_UserPoolID req) (\<lambda>_ s.
            let limit = (case lu_Limit req of Some n \<Rightarrow> n | None \<Rightarrow> 60)
            in if limit < 1 \<or> 60 < limit then (invalidParameter, s)
               else case parseUserFilter (lu_Filter req) of
                      None \<Rightarrow> (invalidParameter, s)
                    | Some want \<Rightarrow>
                        reply (ListUsers (lu_UserPoolID req) want limit (lu_PaginationToken req) s, s) pageErr
                          (\<lambda>(us, next) s. (COk (BUsers (map newUserTypeResponse us) next), s))) s)"

section \<open>Groups\<close>

record groupRequest =
  gq_UserPoolID :: string
  gq_GroupName :: string
  gq_Description :: "string option"
  gq_Precedence :: "int option"
  gq_RoleArn :: "string option"

definition groupErr :: "cog_error \<Rightarrow> cog_response" where
  "groupErr e = (if e = GroupNotFound then resourceNotFound_cog else internalErrorException)"

definition handleCreateGroup :: "groupRequest option \<Rightarrow> cog \<Rightarrow> cog_response \<times> cog" where
  "handleCreateGroup body s =
     (case body of
        None \<Rightarrow> (invalidParameter, s)
      | Some req \<Rightarrow>
          withPool (gq_UserPoolID req) (\<lambda>_ s.
            let grp = \<lparr>gm_GroupName = gq_GroupName req, gm_UserPoolId = gq_UserPoolID req,
                       gm_Description = overlaid (gq_Description req) [], gm_Precedence = gq_Precedence req,
                       gm_RoleArn = overlaid (gq_RoleArn req) [], gm_CreationDate = nowUnix s, gm_LastModifiedDate = nowUnix s\<rparr>
            in reply (CreateGroup (gq_UserPoolID req) grp s)
                 (\<lambda>e. if e = GroupExists then CErr 400 ''GroupExistsException'' else internalErrorException)
                 (\<lambda>_ s. (COk (BGroup grp), s))) s)"

definition handleDeleteGroup :: "(string \<times> string) option \<Rightarrow> cog \<Rightarrow> cog_response \<times> cog" where
  "handleDeleteGroup body s =
     (case body of
        None \<Rightarrow> (invalidParameter, s)
      | Some (poolID, groupName) \<Rightarrow>
          withPool poolID (\<lambda>_ s. reply (DeleteGroup poolID groupName s) groupErr (\<lambda>_ s. (COk BEmpty, s))) s)"

definition handleGetGroup :: "(string \<times> string) option \<Rightarrow> cog \<Rightarrow> cog_response \<times> cog" where
  "handleGetGroup body s =
     (case body of
        None \<Rightarrow> (invalidParameter, s)
      | Some (poolID, groupName) \<Rightarrow>
          withPool poolID (\<lambda>_ s. reply (GetGroup poolID groupName s, s) groupErr (\<lambda>g s. (COk (BGroup g), s))) s)"

definition handleUpdateGroup :: "groupRequest option \<Rightarrow> cog \<Rightarrow> cog_response \<times> cog" where
  "handleUpdateGroup body s =
     (case body of
        None \<Rightarrow> (invalidParameter, s)
      | Some req \<Rightarrow>
          withPool (gq_UserPoolID req) (\<lambda>_ s.
            reply (UpdateGroup (gq_UserPoolID req) (gq_GroupName req)
                      (\<lambda>g. g\<lparr>gm_Description := overlaid (gq_Description req) (gm_Description g),
                             gm_Precedence := (if gq_Precedence req = None then gm_Precedence g else gq_Precedence req),
                             gm_RoleArn := overlaid (gq_RoleArn req) (gm_RoleArn g)\<rparr>) s) groupErr
              (\<lambda>g s. (COk (BGroup g), s))) s)"

definition groupLimit :: "int \<Rightarrow> int" where
  "groupLimit n = (if n \<le> 0 \<or> 60 < n then 60 else n)"

definition handleListGroups :: "(string \<times> int \<times> string) option \<Rightarrow> cog \<Rightarrow> cog_response \<times> cog" where
  "handleListGroups body s =
     (case body of
        None \<Rightarrow> (invalidParameter, s)
      | Some (poolID, limit, nextToken) \<Rightarrow>
          withPool poolID (\<lambda>_ s.
            reply (ListGroups poolID (groupLimit limit) nextToken s, s) pageErr (\<lambda>(gs, next) s. (COk (BGroups gs next), s))) s)"

definition parseGroupMembershipRequest ::
  "(string \<times> string \<times> string) option \<Rightarrow> (string \<Rightarrow> string \<Rightarrow> string \<Rightarrow> cog \<Rightarrow> cog_response \<times> cog) \<Rightarrow> cog \<Rightarrow> cog_response \<times> cog" where
  "parseGroupMembershipRequest body k s =
     (case body of
        None \<Rightarrow> (invalidParameter, s)
      | Some (poolID, groupName, username) \<Rightarrow>
          withPool poolID (\<lambda>_ s.
            reply (GetGroup poolID groupName s, s) groupErr (\<lambda>_ s.
            reply (GetUser poolID username s, s) userErr (\<lambda>_ s. k poolID groupName username s))) s)"

definition handleAdminAddUserToGroup :: "(string \<times> string \<times> string) option \<Rightarrow> cog \<Rightarrow> cog_response \<times> cog" where
  "handleAdminAddUserToGroup body s =
     parseGroupMembershipRequest body (\<lambda>poolID groupName username s.
       reply (AddUserToGroup poolID groupName username s) internal (\<lambda>_ s. (COk BEmpty, s))) s"

definition handleAdminRemoveUserFromGroup :: "(string \<times> string \<times> string) option \<Rightarrow> cog \<Rightarrow> cog_response \<times> cog" where
  "handleAdminRemoveUserFromGroup body s =
     parseGroupMembershipRequest body (\<lambda>poolID groupName username s.
       reply (RemoveUserFromGroup poolID groupName username s) internal (\<lambda>_ s. (COk BEmpty, s))) s"

definition handleAdminListGroupsForUser :: "(string \<times> string \<times> int \<times> string) option \<Rightarrow> cog \<Rightarrow> cog_response \<times> cog" where
  "handleAdminListGroupsForUser body s =
     (case body of
        None \<Rightarrow> (invalidParameter, s)
      | Some (poolID, username, limit, nextToken) \<Rightarrow>
          withPool poolID (\<lambda>_ s.
            reply (GetUser poolID username s, s) userErr (\<lambda>_ s.
            reply (ListGroupsForUser poolID username (groupLimit limit) nextToken s, s) pageErr
              (\<lambda>(gs, next) s. (COk (BGroups gs next), s)))) s)"

definition handleListUsersInGroup :: "(string \<times> string \<times> int \<times> string) option \<Rightarrow> cog \<Rightarrow> cog_response \<times> cog" where
  "handleListUsersInGroup body s =
     (case body of
        None \<Rightarrow> (invalidParameter, s)
      | Some (poolID, groupName, limit, nextToken) \<Rightarrow>
          withPool poolID (\<lambda>_ s.
            reply (GetGroup poolID groupName s, s) groupErr (\<lambda>_ s.
            reply (ListUsersInGroup poolID groupName (groupLimit limit) nextToken s, s) pageErr
              (\<lambda>(us, next) s. (COk (BUsers (map newUserTypeResponse us) next), s)))) s)"

section \<open>Identifiers\<close>

text \<open>One random byte for every character; bytes from the limit on are read again.\<close>

fun randomChars :: "string \<Rightarrow> nat \<Rightarrow> cog \<Rightarrow> string cog_result" where
  "randomChars chars 0 s = (Inr [], s)"
| "randomChars chars (Suc k) s =
     bindC (randUntil 1 (\<lambda>x. unat (hd x) < 256 div length chars * length chars) s) (\<lambda>x s.
     bindC (randomChars chars k s) (\<lambda>cs s. (Inr (chars ! (unat (hd x) mod length chars) # cs), s)))"

definition generatePoolID :: "string \<Rightarrow> cog \<Rightarrow> string cog_result" where
  "generatePoolID region s = bindC (randomChars alnum64 9 s) (\<lambda>cs s. (Inr (region @ ''_'' @ cs), s))"

definition generateClientID :: "cog \<Rightarrow> string cog_result" where
  "generateClientID s = randomChars ''abcdefghijklmnopqrstuvwxyz0123456789'' 26 s"

definition generateClientSecret :: "cog \<Rightarrow> string cog_result" where
  "generateClientSecret s = randomChars alnum64 51 s"

definition resolveRegion :: "string \<Rightarrow> string \<Rightarrow> string \<Rightarrow> string" where
  "resolveRegion sigRegion awsRegion awsDefaultRegion =
     (if sigRegion \<noteq> [] then sigRegion else if awsRegion \<noteq> [] then awsRegion
      else if awsDefaultRegion \<noteq> [] then awsDefaultRegion else ''us-east-1'')"

definition arnPartition :: "string \<Rightarrow> string" where
  "arnPartition region = (if has_prefix ''us-gov-'' region then ''aws-us-gov'' else ''aws'')"

definition poolARN :: "string \<Rightarrow> string" where
  "poolARN poolID =
     (let region = regionFromPoolID poolID
      in ''arn:'' @ arnPartition region @ '':cognito-idp:'' @ region @ '':000000000000:userpool/'' @ poolID)"

section \<open>User pools\<close>

definition strAttr :: "string \<Rightarrow> bool \<Rightarrow> bool \<Rightarrow> string \<Rightarrow> string \<Rightarrow> schemaAttr" where
  "strAttr name req mut minLen maxLen =
     \<lparr>sa_AttributeDataType = ''String'', sa_DeveloperOnlyAttribute = False, sa_Mutable = mut, sa_Name = name,
      sa_Required = req, sa_StringAttributeConstraints = Some (maxLen, minLen), sa_NumberAttributeConstraints = None\<rparr>"

definition boolAttr :: "string \<Rightarrow> schemaAttr" where
  "boolAttr name =
     \<lparr>sa_AttributeDataType = ''Boolean'', sa_DeveloperOnlyAttribute = False, sa_Mutable = True, sa_Name = name,
      sa_Required = False, sa_StringAttributeConstraints = None, sa_NumberAttributeConstraints = None\<rparr>"

definition standardSchemaAttrs :: "schemaAttr list" where
  "standardSchemaAttrs =
     (let str = (\<lambda>name. strAttr name False True ''0'' ''2048'')
      in [strAttr ''sub'' True False ''1'' ''2048''] @ map str [''name'', ''given_name'', ''family_name'', ''middle_name'',
            ''nickname'', ''preferred_username'', ''profile'', ''picture'', ''website'', ''email'']
         @ [boolAttr ''email_verified'', str ''gender'', strAttr ''birthdate'' False True ''10'' ''10'', str ''zoneinfo'', str ''locale'',
            str ''phone_number'', boolAttr ''phone_number_verified'', str ''address'',
            \<lparr>sa_AttributeDataType = ''Number'', sa_DeveloperOnlyAttribute = False, sa_Mutable = True, sa_Name = ''updated_at'',
             sa_Required = False, sa_StringAttributeConstraints = None, sa_NumberAttributeConstraints = Some ([], ''0'')\<rparr>])"

definition buildSchemaAttributes :: "coglib \<Rightarrow> raw \<Rightarrow> raw option" where
  "buildSchemaAttributes lib customSchema =
     (if customSchema = [] then Some (schemaJSON lib standardSchemaAttrs)
      else map_option (\<lambda>custom. schemaJSON lib (standardSchemaAttrs @ custom)) (parseSchema lib customSchema))"

definition defaultStr :: "string \<Rightarrow> string \<Rightarrow> string" where
  "defaultStr v fallback = (if v = [] then fallback else v)"

definition defaultPolicies :: "coglib \<Rightarrow> raw" where
  "defaultPolicies lib =
     policiesJSON lib \<lparr>po_MinimumLength = Some 8, po_RequireUppercase = Some True, po_RequireLowercase = Some True,
       po_RequireNumbers = Some True, po_RequireSymbols = Some True, po_TemporaryPasswordValidityDays = Some 7\<rparr>"

definition defaultAdminCreateUserConfig :: raw where
  \<open>defaultAdminCreateUserConfig = ''{"AllowAdminCreateUserOnly":false,"UnusedAccountValidityDays":7}''\<close>

definition defaultAccountRecoverySetting :: "coglib \<Rightarrow> raw" where
  "defaultAccountRecoverySetting lib = recoveryJSON lib defaultRecoveryMechanisms"

text \<open>The request has the fields of the pool that a client may give; the lists and tags of an update are
  \<open>None\<close> when they are absent.\<close>

record poolRequest =
  pr_UserPoolId :: string
  pr_PoolName :: string
  pr_MfaConfiguration :: string
  pr_DeletionProtection :: string
  pr_Policies :: raw
  pr_Schema :: raw
  pr_AliasAttributes :: "string list"
  pr_AutoVerifiedAttributes :: "string list option"
  pr_UsernameAttributes :: "string list"
  pr_UsernameConfiguration :: raw
  pr_LambdaConfig :: raw
  pr_EmailConfiguration :: raw
  pr_SmsConfiguration :: raw
  pr_DeviceConfiguration :: raw
  pr_AdminCreateUserConfig :: raw
  pr_AccountRecoverySetting :: raw
  pr_UserAttributeUpdateSettings :: raw
  pr_UserPoolAddOns :: raw
  pr_VerificationMessageTemplate :: raw
  pr_UserPoolTags :: "smap option"
  pr_UserPoolTier :: string
  pr_EmailVerificationMessage :: string
  pr_EmailVerificationSubject :: string
  pr_SmsAuthenticationMessage :: string
  pr_SmsVerificationMessage :: string

definition handleCreateUserPool :: "string \<Rightarrow> poolRequest option \<Rightarrow> cog \<Rightarrow> cog_response \<times> cog" where
  "handleCreateUserPool region body s =
     (case body of
        None \<Rightarrow> (invalidParameter, s)
      | Some req \<Rightarrow>
          reply (generatePoolID region s) internal (\<lambda>poolID s.
          case buildSchemaAttributes (clib s) (pr_Schema req) of
            None \<Rightarrow> (invalidParameter, s)
          | Some schemaAttrs \<Rightarrow>
              let meta =
                \<lparr>up_ID = poolID, up_Name = pr_PoolName req, up_Arn = poolARN poolID, up_Status = ''Active'',
                 up_CreationDate = nowUnix s, up_LastModifiedDate = nowUnix s,
                 up_MfaConfiguration = defaultStr (pr_MfaConfiguration req) ''OFF'',
                 up_DeletionProtection = pr_DeletionProtection req, up_SchemaAttributes = schemaAttrs,
                 up_AliasAttributes = pr_AliasAttributes req,
                 up_AutoVerifiedAttributes = overlaid (pr_AutoVerifiedAttributes req) [],
                 up_UsernameAttributes = pr_UsernameAttributes req, up_UsernameConfiguration = pr_UsernameConfiguration req,
                 up_Policies = defaultStr (pr_Policies req) (defaultPolicies (clib s)),
                 up_LambdaConfig = pr_LambdaConfig req, up_EmailConfiguration = pr_EmailConfiguration req,
                 up_SmsConfiguration = pr_SmsConfiguration req, up_DeviceConfiguration = pr_DeviceConfiguration req,
                 up_AdminCreateUserConfig = defaultStr (pr_AdminCreateUserConfig req) defaultAdminCreateUserConfig,
                 up_AccountRecoverySetting =
                   (if pr_AccountRecoverySetting req = [] \<or> pr_AccountRecoverySetting req = ''null''
                    then defaultAccountRecoverySetting (clib s) else pr_AccountRecoverySetting req),
                 up_UserAttributeUpdateSettings = pr_UserAttributeUpdateSettings req,
                 up_UserPoolAddOns = pr_UserPoolAddOns req,
                 up_VerificationMessageTemplate = pr_VerificationMessageTemplate req,
                 up_UserPoolTags = overlaid (pr_UserPoolTags req) [],
                 up_UserPoolTier = defaultStr (pr_UserPoolTier req) ''ESSENTIALS'',
                 up_EmailVerificationMessage = pr_EmailVerificationMessage req,
                 up_EmailVerificationSubject = pr_EmailVerificationSubject req,
                 up_SmsAuthenticationMessage = pr_SmsAuthenticationMessage req,
                 up_SmsVerificationMessage = pr_SmsVerificationMessage req,
                 up_SoftwareTokenMfaConfigEnabled = None\<rparr>
              in reply (CreateUserPool meta s) internal (\<lambda>_ s. (COk (BPool meta), s))))"

definition handleDescribeUserPool :: "string option \<Rightarrow> cog \<Rightarrow> cog_response \<times> cog" where
  "handleDescribeUserPool body s =
     (case body of
        None \<Rightarrow> (invalidParameter, s)
      | Some poolID \<Rightarrow> withPool poolID (\<lambda>meta s. (COk (BPool (meta\<lparr>up_SoftwareTokenMfaConfigEnabled := None\<rparr>)), s)) s)"

definition applyPoolUpdate :: "poolRequest \<Rightarrow> UserPoolMetadata \<Rightarrow> UserPoolMetadata" where
  "applyPoolUpdate req m =
     m\<lparr>up_Name := defaultStr (pr_PoolName req) (up_Name m),
       up_MfaConfiguration := defaultStr (pr_MfaConfiguration req) (up_MfaConfiguration m),
       up_DeletionProtection := defaultStr (pr_DeletionProtection req) (up_DeletionProtection m),
       up_Policies := defaultStr (pr_Policies req) (up_Policies m),
       up_AutoVerifiedAttributes := overlaid (pr_AutoVerifiedAttributes req) (up_AutoVerifiedAttributes m),
       up_LambdaConfig := defaultStr (pr_LambdaConfig req) (up_LambdaConfig m),
       up_EmailConfiguration := defaultStr (pr_EmailConfiguration req) (up_EmailConfiguration m),
       up_SmsConfiguration := defaultStr (pr_SmsConfiguration req) (up_SmsConfiguration m),
       up_DeviceConfiguration := defaultStr (pr_DeviceConfiguration req) (up_DeviceConfiguration m),
       up_AdminCreateUserConfig := defaultStr (pr_AdminCreateUserConfig req) (up_AdminCreateUserConfig m),
       up_AccountRecoverySetting := defaultStr (pr_AccountRecoverySetting req) (up_AccountRecoverySetting m),
       up_UserAttributeUpdateSettings := defaultStr (pr_UserAttributeUpdateSettings req) (up_UserAttributeUpdateSettings m),
       up_UserPoolAddOns := defaultStr (pr_UserPoolAddOns req) (up_UserPoolAddOns m),
       up_VerificationMessageTemplate := defaultStr (pr_VerificationMessageTemplate req) (up_VerificationMessageTemplate m),
       up_UserPoolTags := overlaid (pr_UserPoolTags req) (up_UserPoolTags m),
       up_UserPoolTier := defaultStr (pr_UserPoolTier req) (up_UserPoolTier m),
       up_EmailVerificationMessage := defaultStr (pr_EmailVerificationMessage req) (up_EmailVerificationMessage m),
       up_EmailVerificationSubject := defaultStr (pr_EmailVerificationSubject req) (up_EmailVerificationSubject m),
       up_SmsAuthenticationMessage := defaultStr (pr_SmsAuthenticationMessage req) (up_SmsAuthenticationMessage m),
       up_SmsVerificationMessage := defaultStr (pr_SmsVerificationMessage req) (up_SmsVerificationMessage m)\<rparr>"

definition handleUpdateUserPool :: "poolRequest option \<Rightarrow> cog \<Rightarrow> cog_response \<times> cog" where
  "handleUpdateUserPool body s =
     (case body of
        None \<Rightarrow> (invalidParameter, s)
      | Some req \<Rightarrow>
          reply (UpdateUserPool (pr_UserPoolId req) (\<lambda>m. Inr (applyPoolUpdate req m)) s) poolErr (\<lambda>_ s. (COk BEmpty, s)))"

definition handleGetUserPoolMfaConfig :: "string option \<Rightarrow> cog \<Rightarrow> cog_response \<times> cog" where
  "handleGetUserPoolMfaConfig body s =
     (case body of
        None \<Rightarrow> (invalidParameter, s)
      | Some poolID \<Rightarrow>
          withPool poolID (\<lambda>m s. (COk (BMfaConfig (up_MfaConfiguration m) (up_SoftwareTokenMfaConfigEnabled m)), s)) s)"

definition handleSetUserPoolMfaConfig :: "(string \<times> string \<times> bool option) option \<Rightarrow> cog \<Rightarrow> cog_response \<times> cog" where
  "handleSetUserPoolMfaConfig body s =
     (case body of
        None \<Rightarrow> (invalidParameter, s)
      | Some (poolID, mfa, softwareToken) \<Rightarrow>
          reply (UpdateUserPool poolID (\<lambda>m. Inr (m\<lparr>up_MfaConfiguration := defaultStr mfa (up_MfaConfiguration m),
                                                    up_SoftwareTokenMfaConfigEnabled := softwareToken\<rparr>)) s) poolErr
            (\<lambda>m s. (COk (BMfaConfig (up_MfaConfiguration m) (up_SoftwareTokenMfaConfigEnabled m)), s)))"

definition handleDeleteUserPool :: "string option \<Rightarrow> cog \<Rightarrow> cog_response \<times> cog" where
  "handleDeleteUserPool body s =
     (case body of
        None \<Rightarrow> (invalidParameter, s)
      | Some poolID \<Rightarrow>
          reply (DeleteUserPool poolID s) (\<lambda>e. if e = DeletionProtectionActive then invalidParameter else poolErr e)
            (\<lambda>_ s. (COk BEmpty, s)))"

definition handleListUserPools :: "(int \<times> string) option \<Rightarrow> cog \<Rightarrow> cog_response \<times> cog" where
  "handleListUserPools body s =
     (case body of
        None \<Rightarrow> (invalidParameter, s)
      | Some (maxResults, nextToken) \<Rightarrow>
          reply (ListUserPools maxResults nextToken s, s) pageErr (\<lambda>(ps, next) s. (COk (BPools ps next), s)))"

section \<open>Clients\<close>

record clientRequest =
  cq_UserPoolId :: string
  cq_ClientId :: string
  cq_ClientName :: string
  cq_GenerateSecret :: bool
  cq_ClientSecret :: string
  cq_RefreshTokenValidity :: int
  cq_AccessTokenValidity :: int
  cq_IdTokenValidity :: int
  cq_AuthSessionValidity :: int
  cq_TokenValidityUnits :: raw
  cq_ExplicitAuthFlows :: "string list"
  cq_AllowedOAuthFlows :: "string list"
  cq_AllowedOAuthScopes :: "string list"
  cq_AllowedOAuthFlowsUserPoolClient :: "bool option"
  cq_CallbackURLs :: "string list"
  cq_LogoutURLs :: "string list"
  cq_DefaultRedirectURI :: string
  cq_SupportedIdentityProviders :: "string list"
  cq_ReadAttributes :: "string list"
  cq_WriteAttributes :: "string list"
  cq_PreventUserExistenceErrors :: string
  cq_EnableTokenRevocation :: "bool option"
  cq_EnablePropagateAdditionalUserContextData :: "bool option"
  cq_AnalyticsConfiguration :: raw
  cq_RefreshTokenRotation :: raw

text \<open>The fields that creating and updating a client take over from the request.\<close>

definition clientFields :: "clientRequest \<Rightarrow> UserPoolClientMetadata \<Rightarrow> UserPoolClientMetadata" where
  "clientFields req m =
     m\<lparr>uc_RefreshTokenValidity := cq_RefreshTokenValidity req, uc_AccessTokenValidity := cq_AccessTokenValidity req,
       uc_IdTokenValidity := cq_IdTokenValidity req, uc_AuthSessionValidity := cq_AuthSessionValidity req,
       uc_TokenValidityUnits := cq_TokenValidityUnits req, uc_ExplicitAuthFlows := cq_ExplicitAuthFlows req,
       uc_AllowedOAuthFlows := cq_AllowedOAuthFlows req, uc_AllowedOAuthScopes := cq_AllowedOAuthScopes req,
       uc_AllowedOAuthFlowsUserPoolClient := overlaid (cq_AllowedOAuthFlowsUserPoolClient req) False,
       uc_CallbackURLs := cq_CallbackURLs req, uc_LogoutURLs := cq_LogoutURLs req,
       uc_DefaultRedirectURI := cq_DefaultRedirectURI req,
       uc_SupportedIdentityProviders := cq_SupportedIdentityProviders req, uc_ReadAttributes := cq_ReadAttributes req,
       uc_WriteAttributes := cq_WriteAttributes req, uc_PreventUserExistenceErrors := cq_PreventUserExistenceErrors req,
       uc_EnableTokenRevocation := overlaid (cq_EnableTokenRevocation req) True,
       uc_EnablePropagateAdditionalUserContextData := overlaid (cq_EnablePropagateAdditionalUserContextData req) False,
       uc_AnalyticsConfiguration := cq_AnalyticsConfiguration req, uc_RefreshTokenRotation := cq_RefreshTokenRotation req\<rparr>"

definition buildUserPoolClientMeta :: "clientRequest \<Rightarrow> string \<Rightarrow> string \<Rightarrow> int \<Rightarrow> UserPoolClientMetadata" where
  "buildUserPoolClientMeta req clientID secret ts =
     clientFields req
       \<lparr>uc_UserPoolID = cq_UserPoolId req, uc_ClientID = clientID, uc_ClientName = cq_ClientName req, uc_ClientSecret = secret,
        uc_CreationDate = ts, uc_LastModifiedDate = ts, uc_RefreshTokenValidity = 0, uc_AccessTokenValidity = 0,
        uc_IdTokenValidity = 0, uc_AuthSessionValidity = 0, uc_TokenValidityUnits = [], uc_ExplicitAuthFlows = [],
        uc_AllowedOAuthFlows = [], uc_AllowedOAuthScopes = [], uc_AllowedOAuthFlowsUserPoolClient = False,
        uc_CallbackURLs = [], uc_LogoutURLs = [], uc_DefaultRedirectURI = [], uc_SupportedIdentityProviders = [],
        uc_ReadAttributes = [], uc_WriteAttributes = [], uc_PreventUserExistenceErrors = [],
        uc_EnableTokenRevocation = False, uc_EnablePropagateAdditionalUserContextData = False,
        uc_AnalyticsConfiguration = [], uc_RefreshTokenRotation = []\<rparr>"

definition handleCreateUserPoolClient :: "clientRequest option \<Rightarrow> cog \<Rightarrow> cog_response \<times> cog" where
  "handleCreateUserPoolClient body s =
     (case body of
        None \<Rightarrow> (invalidParameter, s)
      | Some req \<Rightarrow>
          if cq_GenerateSecret req \<and> cq_ClientSecret req \<noteq> [] then (invalidParameter, s)
          else reply (generateClientID s) internal (\<lambda>clientID s.
          reply (if cq_GenerateSecret req then generateClientSecret s else (Inr (cq_ClientSecret req), s)) internal (\<lambda>secret s.
          let meta = buildUserPoolClientMeta req clientID secret (nowUnix s)
          in reply (CreateUserPoolClient meta s) poolErr (\<lambda>_ s. (COk (BClient meta), s)))))"

definition handleDescribeUserPoolClient :: "(string \<times> string) option \<Rightarrow> cog \<Rightarrow> cog_response \<times> cog" where
  "handleDescribeUserPoolClient body s =
     (case body of
        None \<Rightarrow> (invalidParameter, s)
      | Some (poolID, clientID) \<Rightarrow>
          if \<not> reClientID clientID then (resourceNotFound_cog, s)
          else reply (GetUserPoolClient poolID clientID s, s) clientErr (\<lambda>m s. (COk (BClient m), s)))"

definition handleUpdateUserPoolClient :: "clientRequest option \<Rightarrow> cog \<Rightarrow> cog_response \<times> cog" where
  "handleUpdateUserPoolClient body s =
     (case body of
        None \<Rightarrow> (invalidParameter, s)
      | Some req \<Rightarrow>
          if \<not> reClientID (cq_ClientId req) then (resourceNotFound_cog, s)
          else reply (UpdateUserPoolClient (cq_UserPoolId req) (cq_ClientId req)
                         (\<lambda>m. clientFields req (m\<lparr>uc_ClientName := defaultStr (cq_ClientName req) (uc_ClientName m)\<rparr>)) s)
                 clientErr (\<lambda>m s. (COk (BClient m), s)))"

definition handleDeleteUserPoolClient :: "(string \<times> string) option \<Rightarrow> cog \<Rightarrow> cog_response \<times> cog" where
  "handleDeleteUserPoolClient body s =
     (case body of
        None \<Rightarrow> (invalidParameter, s)
      | Some (poolID, clientID) \<Rightarrow>
          if \<not> reClientID clientID then (resourceNotFound_cog, s)
          else reply (DeleteUserPoolClient poolID clientID s) clientErr (\<lambda>_ s. (COk BEmpty, s)))"

definition handleListUserPoolClients :: "(string \<times> int option \<times> string) option \<Rightarrow> cog \<Rightarrow> cog_response \<times> cog" where
  "handleListUserPoolClients body s =
     (case body of
        None \<Rightarrow> (invalidParameter, s)
      | Some (poolID, maxResults, nextToken) \<Rightarrow>
          reply (ListUserPoolClients poolID (overlaid maxResults 60) nextToken s, s)
            (\<lambda>e. if e = UserPoolNotFound then resourceNotFound_cog else if e = InvalidNextToken then invalidParameter else internalErrorException)
            (\<lambda>(cs, next) s. (COk (BClients cs next), s)))"

section \<open>Tags\<close>

definition poolIDFromARN :: "string \<Rightarrow> string option" where
  "poolIDFromARN arn =
     (if length arn < 20 \<or> 2048 < length arn then None
      else case split_char (CHR '':'') arn of
             p0 # p1 # p2 # p3 # p4 # p5 # ps \<Rightarrow>
               if p0 \<noteq> ''arn'' \<or> p2 \<noteq> ''cognito-idp'' \<or> \<not> has_prefix ''userpool/'' p5 then None
               else let i = drop 9 p5 @ concat (map (\<lambda>p. '':'' @ p) ps) in if i = [] then None else Some i
           | _ \<Rightarrow> None)"

definition tagErr :: "cog_error \<Rightarrow> cog_response" where
  "tagErr e = (case e of UserPoolNotFound \<Rightarrow> resourceNotFound_cog | TagLimitExceeded \<Rightarrow> invalidParameter | _ \<Rightarrow> internalErrorException)"

definition addPoolTags :: "smap \<Rightarrow> UserPoolMetadata \<Rightarrow> cog_error + UserPoolMetadata" where
  "addPoolTags tags m =
     (let newCount = length (filter (\<lambda>(k, _). map_of (up_UserPoolTags m) k = None) tags)
      in if 50 < length (up_UserPoolTags m) + newCount then Inl TagLimitExceeded
         else Inr (m\<lparr>up_UserPoolTags := fold (\<lambda>(k, v) t. AList.update k v t) tags (up_UserPoolTags m)\<rparr>))"

definition handleTagResource_cog :: "(string \<times> smap) option \<Rightarrow> cog \<Rightarrow> cog_response \<times> cog" where
  "handleTagResource_cog body s =
     (case body of
        None \<Rightarrow> (invalidParameter, s)
      | Some (arn, tags) \<Rightarrow>
          (case poolIDFromARN arn of
             None \<Rightarrow> (invalidParameter, s)
           | Some poolID \<Rightarrow>
               if tags = [] then (invalidParameter, s)
               else reply (UpdateUserPool poolID (addPoolTags tags) s) tagErr (\<lambda>_ s. (COk BEmpty, s))))"

definition handleUntagResource_cog :: "(string \<times> string list) option \<Rightarrow> cog \<Rightarrow> cog_response \<times> cog" where
  "handleUntagResource_cog body s =
     (case body of
        None \<Rightarrow> (invalidParameter, s)
      | Some (arn, keys) \<Rightarrow>
          (case poolIDFromARN arn of
             None \<Rightarrow> (invalidParameter, s)
           | Some poolID \<Rightarrow>
               if keys = [] then (invalidParameter, s)
               else reply (UpdateUserPool poolID (\<lambda>m. Inr (m\<lparr>up_UserPoolTags := fold AList.delete keys (up_UserPoolTags m)\<rparr>)) s)
                      tagErr (\<lambda>_ s. (COk BEmpty, s))))"

definition handleListTagsForResource_cog :: "string option \<Rightarrow> cog \<Rightarrow> cog_response \<times> cog" where
  "handleListTagsForResource_cog body s =
     (case body of
        None \<Rightarrow> (invalidParameter, s)
      | Some arn \<Rightarrow>
          (case poolIDFromARN arn of
             None \<Rightarrow> (invalidParameter, s)
           | Some poolID \<Rightarrow> reply (GetUserPool poolID s, s) tagErr (\<lambda>m s. (COk (BTags (up_UserPoolTags m)), s))))"

section \<open>The router\<close>

text \<open>
  The operations of the switch in \<open>dispatch\<close>, group by group, each with the arguments its handler decodes from the
  body (\<^term>\<open>None\<close> when the body is not decodable).
\<close>

datatype pool_request =
    QCreateUserPool string "poolRequest option"
  | QDescribeUserPool "string option"
  | QUpdateUserPool "poolRequest option"
  | QDeleteUserPool "string option"
  | QListUserPools "(int \<times> string) option"
  | QGetUserPoolMfaConfig "string option"
  | QSetUserPoolMfaConfig "(string \<times> string \<times> bool option) option"

primrec dispatch_pool :: "pool_request \<Rightarrow> cog \<Rightarrow> cog_response \<times> cog" where
  "dispatch_pool (QCreateUserPool r b) s = handleCreateUserPool r b s"
| "dispatch_pool (QDescribeUserPool b) s = handleDescribeUserPool b s"
| "dispatch_pool (QUpdateUserPool b) s = handleUpdateUserPool b s"
| "dispatch_pool (QDeleteUserPool b) s = handleDeleteUserPool b s"
| "dispatch_pool (QListUserPools b) s = handleListUserPools b s"
| "dispatch_pool (QGetUserPoolMfaConfig b) s = handleGetUserPoolMfaConfig b s"
| "dispatch_pool (QSetUserPoolMfaConfig b) s = handleSetUserPoolMfaConfig b s"

datatype client_request =
    QCreateUserPoolClient "clientRequest option"
  | QDescribeUserPoolClient "(string \<times> string) option"
  | QUpdateUserPoolClient "clientRequest option"
  | QDeleteUserPoolClient "(string \<times> string) option"
  | QListUserPoolClients "(string \<times> int option \<times> string) option"

primrec dispatch_client :: "client_request \<Rightarrow> cog \<Rightarrow> cog_response \<times> cog" where
  "dispatch_client (QCreateUserPoolClient b) s = handleCreateUserPoolClient b s"
| "dispatch_client (QDescribeUserPoolClient b) s = handleDescribeUserPoolClient b s"
| "dispatch_client (QUpdateUserPoolClient b) s = handleUpdateUserPoolClient b s"
| "dispatch_client (QDeleteUserPoolClient b) s = handleDeleteUserPoolClient b s"
| "dispatch_client (QListUserPoolClients b) s = handleListUserPoolClients b s"

datatype account_request =
    QSignUp "signUpRequest option"
  | QConfirmSignUp "(string \<times> string \<times> string) option"
  | QResendConfirmationCode "(string \<times> string) option"
  | QForgotPassword "(string \<times> string) option"
  | QConfirmForgotPassword "confirmForgotRequest option"
  | QChangePassword "(string \<times> string \<times> string) option"

primrec dispatch_account :: "account_request \<Rightarrow> cog \<Rightarrow> cog_response \<times> cog" where
  "dispatch_account (QSignUp b) s = handleSignUp b s"
| "dispatch_account (QConfirmSignUp b) s = handleConfirmSignUp b s"
| "dispatch_account (QResendConfirmationCode b) s = handleResendConfirmationCode b s"
| "dispatch_account (QForgotPassword b) s = handleForgotPassword b s"
| "dispatch_account (QConfirmForgotPassword b) s = handleConfirmForgotPassword b s"
| "dispatch_account (QChangePassword b) s = handleChangePassword b s"

datatype login_request =
    QInitiateAuth "initiateAuthRequest option"
  | QRespondToAuthChallenge "respondRequest option"
  | QRevokeToken "(string \<times> string) option"
  | QGlobalSignOut "string option"

primrec dispatch_login :: "login_request \<Rightarrow> cog \<Rightarrow> cog_response \<times> cog" where
  "dispatch_login (QInitiateAuth b) s = handleInitiateAuth b s"
| "dispatch_login (QRespondToAuthChallenge b) s = handleRespondToAuthChallenge b s"
| "dispatch_login (QRevokeToken b) s = handleRevokeToken b s"
| "dispatch_login (QGlobalSignOut b) s = handleGlobalSignOut b s"

datatype profile_request =
    QGetUser "string option"
  | QUpdateUserAttributes "(string \<times> AttributeType list) option"
  | QDeleteUser "string option"
  | QGetUserAttributeVerificationCode "(string \<times> string) option"
  | QVerifyUserAttribute "(string \<times> string \<times> string) option"

primrec dispatch_profile :: "profile_request \<Rightarrow> cog \<Rightarrow> cog_response \<times> cog" where
  "dispatch_profile (QGetUser b) s = handleGetUser b s"
| "dispatch_profile (QUpdateUserAttributes b) s = handleUpdateUserAttributes b s"
| "dispatch_profile (QDeleteUser b) s = handleDeleteUser b s"
| "dispatch_profile (QGetUserAttributeVerificationCode b) s = handleGetUserAttributeVerificationCode b s"
| "dispatch_profile (QVerifyUserAttribute b) s = handleVerifyUserAttribute b s"

datatype admin_request =
    QAdminCreateUser "adminCreateUserRequest option"
  | QAdminGetUser "(string \<times> string) option"
  | QAdminSetUserPassword "adminSetPasswordRequest option"
  | QAdminConfirmSignUp "(string \<times> string) option"
  | QAdminDeleteUser "(string \<times> string) option"
  | QAdminDisableUser "(string \<times> string) option"
  | QAdminEnableUser "(string \<times> string) option"
  | QAdminUpdateUserAttributes "(string \<times> string \<times> AttributeType list) option"
  | QListUsers "listUsersRequest option"

primrec dispatch_admin :: "admin_request \<Rightarrow> cog \<Rightarrow> cog_response \<times> cog" where
  "dispatch_admin (QAdminCreateUser b) s = handleAdminCreateUser b s"
| "dispatch_admin (QAdminGetUser b) s = handleAdminGetUser b s"
| "dispatch_admin (QAdminSetUserPassword b) s = handleAdminSetUserPassword b s"
| "dispatch_admin (QAdminConfirmSignUp b) s = handleAdminConfirmSignUp b s"
| "dispatch_admin (QAdminDeleteUser b) s = handleAdminDeleteUser b s"
| "dispatch_admin (QAdminDisableUser b) s = handleAdminDisableUser b s"
| "dispatch_admin (QAdminEnableUser b) s = handleAdminEnableUser b s"
| "dispatch_admin (QAdminUpdateUserAttributes b) s = handleAdminUpdateUserAttributes b s"
| "dispatch_admin (QListUsers b) s = handleListUsers b s"

datatype membership_request =
    QCreateGroup "groupRequest option"
  | QDeleteGroup "(string \<times> string) option"
  | QGetGroup "(string \<times> string) option"
  | QUpdateGroup "groupRequest option"
  | QListGroups "(string \<times> int \<times> string) option"
  | QAdminAddUserToGroup "(string \<times> string \<times> string) option"
  | QAdminRemoveUserFromGroup "(string \<times> string \<times> string) option"
  | QAdminListGroupsForUser "(string \<times> string \<times> int \<times> string) option"
  | QListUsersInGroup "(string \<times> string \<times> int \<times> string) option"

primrec dispatch_membership :: "membership_request \<Rightarrow> cog \<Rightarrow> cog_response \<times> cog" where
  "dispatch_membership (QCreateGroup b) s = handleCreateGroup b s"
| "dispatch_membership (QDeleteGroup b) s = handleDeleteGroup b s"
| "dispatch_membership (QGetGroup b) s = handleGetGroup b s"
| "dispatch_membership (QUpdateGroup b) s = handleUpdateGroup b s"
| "dispatch_membership (QListGroups b) s = handleListGroups b s"
| "dispatch_membership (QAdminAddUserToGroup b) s = handleAdminAddUserToGroup b s"
| "dispatch_membership (QAdminRemoveUserFromGroup b) s = handleAdminRemoveUserFromGroup b s"
| "dispatch_membership (QAdminListGroupsForUser b) s = handleAdminListGroupsForUser b s"
| "dispatch_membership (QListUsersInGroup b) s = handleListUsersInGroup b s"

datatype mfa_request =
    QAssociateSoftwareToken "(string \<times> string) option"
  | QVerifySoftwareToken "(string \<times> string \<times> string) option"
  | QSetUserMFAPreference "(string \<times> (bool \<times> bool) option) option"

primrec dispatch_mfa :: "mfa_request \<Rightarrow> cog \<Rightarrow> cog_response \<times> cog" where
  "dispatch_mfa (QAssociateSoftwareToken b) s = handleAssociateSoftwareToken b s"
| "dispatch_mfa (QVerifySoftwareToken b) s = handleVerifySoftwareToken b s"
| "dispatch_mfa (QSetUserMFAPreference b) s = handleSetUserMFAPreference b s"

datatype tag_request =
    QTagResource "(string \<times> smap) option"
  | QUntagResource "(string \<times> string list) option"
  | QListTagsForResource "string option"

primrec dispatch_tag :: "tag_request \<Rightarrow> cog \<Rightarrow> cog_response \<times> cog" where
  "dispatch_tag (QTagResource b) s = handleTagResource_cog b s"
| "dispatch_tag (QUntagResource b) s = handleUntagResource_cog b s"
| "dispatch_tag (QListTagsForResource b) s = handleListTagsForResource_cog b s"

datatype cog_request =
    Q_pool pool_request
  | Q_client client_request
  | Q_account account_request
  | Q_login login_request
  | Q_profile profile_request
  | Q_admin admin_request
  | Q_membership membership_request
  | Q_mfa mfa_request
  | Q_tag tag_request
  | QJWKS string
  | QOther string

primrec dispatch_cog :: "cog_request \<Rightarrow> cog \<Rightarrow> cog_response \<times> cog" where
  "dispatch_cog (Q_pool q) s = dispatch_pool q s"
| "dispatch_cog (Q_client q) s = dispatch_client q s"
| "dispatch_cog (Q_account q) s = dispatch_account q s"
| "dispatch_cog (Q_login q) s = dispatch_login q s"
| "dispatch_cog (Q_profile q) s = dispatch_profile q s"
| "dispatch_cog (Q_admin q) s = dispatch_admin q s"
| "dispatch_cog (Q_membership q) s = dispatch_membership q s"
| "dispatch_cog (Q_mfa q) s = dispatch_mfa q s"
| "dispatch_cog (Q_tag q) s = dispatch_tag q s"
| "dispatch_cog (QJWKS p) s = handleJWKS p s"
| "dispatch_cog (QOther t) s = (CErr 400 ''UnknownOperationException'', s)"

end
