(* ===== verification/Cog_Demo.thy ===== *)
theory Cog_Demo
  imports Cog_Auth
begin

text \<open>
  A small instance of the Cognito service for the examples: a library whose functions compute, and a state with one pool, one
  client, the keys of the pool and some users.
\<close>

section \<open>A library\<close>

text \<open>Numbers in unary, texts with their length, claims with a tag: an encoding of claims that can be read back.\<close>

definition encNat :: "nat \<Rightarrow> bytes" where "encNat n = replicate n 1 @ [0]"

fun decNat :: "bytes \<Rightarrow> (nat \<times> bytes) option" where
  "decNat [] = None"
| "decNat (b # bs) = (if b = 0 then Some (0, bs) else map_option (\<lambda>(n, r). (Suc n, r)) (decNat bs))"

definition encText :: "string \<Rightarrow> bytes" where "encText x = encNat (length x) @ bytes_of_string x"

definition decText :: "bytes \<Rightarrow> (string \<times> bytes) option" where
  "decText b = map_option (\<lambda>(n, r). (string_of_bytes (take n r), drop n r)) (decNat b)"

primrec decMany :: "(bytes \<Rightarrow> ('a \<times> bytes) option) \<Rightarrow> nat \<Rightarrow> bytes \<Rightarrow> ('a list \<times> bytes) option" where
  "decMany f 0 b = Some ([], b)"
| "decMany f (Suc n) b = (case f b of None \<Rightarrow> None | Some (x, r) \<Rightarrow> map_option (\<lambda>(xs, r). (x # xs, r)) (decMany f n r))"

definition encMany :: "('a \<Rightarrow> bytes) \<Rightarrow> 'a list \<Rightarrow> bytes" where
  "encMany f xs = encNat (length xs) @ concat (map f xs)"

definition encClaim :: "string \<times> claim \<Rightarrow> bytes" where
  "encClaim kc = (case kc of (k, c) \<Rightarrow> encText k @
     (case c of CStr x \<Rightarrow> 1 # encText x
      | CNum n \<Rightarrow> (if n < 0 then 3 # encNat (nat (- n)) else 2 # encNat (nat n))
      | CStrs xs \<Rightarrow> 4 # encMany encText xs | COther \<Rightarrow> [5]))"

definition decValue :: "bytes \<Rightarrow> (claim \<times> bytes) option" where
  "decValue b = (case b of
       [] \<Rightarrow> None
     | t # r \<Rightarrow>
         if t = 1 then map_option (\<lambda>(x, r). (CStr x, r)) (decText r)
         else if t = 2 then map_option (\<lambda>(n, r). (CNum (int n), r)) (decNat r)
         else if t = 3 then map_option (\<lambda>(n, r). (CNum (- int n), r)) (decNat r)
         else if t = 4 then Option.bind (decNat r) (\<lambda>(n, r). map_option (\<lambda>(xs, r). (CStrs xs, r)) (decMany decText n r))
         else Some (COther, r))"

definition decClaim :: "bytes \<Rightarrow> ((string \<times> claim) \<times> bytes) option" where
  "decClaim b = Option.bind (decText b) (\<lambda>(k, r). map_option (\<lambda>(c, r). ((k, c), r)) (decValue r))"

definition encClaims :: "claims \<Rightarrow> bytes" where "encClaims cl = encMany encClaim cl"

definition decClaims :: "bytes \<Rightarrow> claims option" where
  "decClaims b = Option.bind (decNat b) (\<lambda>(n, r). map_option fst (decMany decClaim n r))"

lemma decNat_enc: "decNat (encNat n @ r) = Some (n, r)"
  by (induction n) (auto simp: encNat_def)

lemma decText_enc: "decText (encText x @ r) = Some (x, r)"
  by (simp add: decText_def encText_def decNat_enc)

lemma decMany_enc: "(\<And>x r. x \<in> set xs \<Longrightarrow> f (g x @ r) = Some (x, r)) \<Longrightarrow> decMany f (length xs) (concat (map g xs) @ r) = Some (xs, r)"
  by (induction xs arbitrary: r) auto

lemma decClaim_enc: "decClaim (encClaim kc @ r) = Some (kc, r)"
  by (cases kc; cases "snd kc")
     (auto simp: decClaim_def encClaim_def decText_enc decValue_def decNat_enc encMany_def decMany_enc)

lemma decClaims_enc: "decClaims (encClaims cl) = Some cl"
  using decMany_enc[of cl decClaim encClaim "[]"] by (simp add: decClaims_def encClaims_def encMany_def decNat_enc decClaim_enc)

definition toyLib :: coglib where
  "toyLib = \<lparr>sha256 = id, hmac256 = (\<lambda>k m. replicate 32 0), hmac1 = (\<lambda>k m. replicate 20 0),
     bcryptHash = (\<lambda>salt x. string_of_bytes x), bcryptCheck = (\<lambda>h x. h = string_of_bytes x),
     rsaGenerate = take 1, rsaN = id, rsaE = (\<lambda>_. [1, 0, 1]), rsaD = id,
     rsaSign = (\<lambda>k d. Some k), rsaVerify = (\<lambda>k d sig. sig = k),
     pemEncode = string_of_bytes, pemDecode = (\<lambda>x. Some (bytes_of_string x)),
     gcmSeal = (\<lambda>k n x. x), gcmOpen = (\<lambda>k n x. Some x),
     headerJSON = (\<lambda>_. []), claimsJSON = encClaims, parseClaims = decClaims,
     parsePolicies = (\<lambda>_. None), parseUnits = (\<lambda>_. \<lparr>tv_AccessToken = [], tv_IdToken = [], tv_RefreshToken = []\<rparr>),
     parseRecovery = (\<lambda>_. None), recoveryJSON = (\<lambda>_. []), parseSchema = (\<lambda>_. None), schemaJSON = (\<lambda>_. []), policiesJSON = (\<lambda>_. []),
     runeUpper = (\<lambda>r. r = ''A''), runeLower = (\<lambda>r. r = ''a''), runeNumber = (\<lambda>r. r = ''1''), runeLetter = (\<lambda>r. r = ''A'' \<or> r = ''a''),
     runeSpace = (\<lambda>r. r = '' ''),
     asUser = (\<lambda>_. None), asUserIndex = (\<lambda>_. None), asRefresh = (\<lambda>_. None), asClientIndex = (\<lambda>_. None), asGroup = (\<lambda>_. None),
     asMember = (\<lambda>_. None), asKeys = (\<lambda>_. None), asPool = (\<lambda>_. None), asClient = (\<lambda>_. None)\<rparr>"

section \<open>A pool with a user\<close>

definition toyPool :: string where "toyPool = ''r_p''"
definition toyClient :: string where "toyClient = replicate 26 (CHR ''c'')"

definition toyUser :: "string \<Rightarrow> string \<Rightarrow> UserMetadata" where
  "toyUser name pw =
     \<lparr>us_Username = name, us_Sub = name, us_Status = ''CONFIRMED'', us_Enabled = True,
      us_PasswordHash = string_of_bytes (prehashPassword toyLib pw), us_SRPSalt = [], us_SRPVerifier = [], us_Attributes = [],
      us_ConfirmationCode = [], us_VerificationCodes = [], us_PasswordResetCode = [], us_PendingTOTPSecret = [], us_TOTPSecret = [],
      us_SoftwareTokenMFAEnabled = False, us_PreferredMfaSetting = [], us_CreatedAt = 0, us_UpdatedAt = 0\<rparr>"

definition toyPoolMeta :: UserPoolMetadata where
  "toyPoolMeta =
     \<lparr>up_ID = toyPool, up_Name = ''p'', up_Arn = [], up_Status = ''Active'', up_CreationDate = 0, up_LastModifiedDate = 0,
      up_MfaConfiguration = ''OFF'', up_DeletionProtection = [], up_SchemaAttributes = [], up_AliasAttributes = [],
      up_AutoVerifiedAttributes = [], up_UsernameAttributes = [], up_UsernameConfiguration = [], up_Policies = [],
      up_LambdaConfig = [], up_EmailConfiguration = [], up_SmsConfiguration = [], up_DeviceConfiguration = [],
      up_AdminCreateUserConfig = [], up_AccountRecoverySetting = [], up_UserAttributeUpdateSettings = [], up_UserPoolAddOns = [],
      up_VerificationMessageTemplate = [], up_UserPoolTags = [], up_UserPoolTier = [], up_EmailVerificationMessage = [],
      up_EmailVerificationSubject = [], up_SmsAuthenticationMessage = [], up_SmsVerificationMessage = [],
      up_SoftwareTokenMfaConfigEnabled = None\<rparr>"

definition toyClientMeta :: UserPoolClientMetadata where
  "toyClientMeta =
     \<lparr>uc_UserPoolID = toyPool, uc_ClientID = toyClient, uc_ClientName = ''c'', uc_ClientSecret = [], uc_CreationDate = 0,
      uc_LastModifiedDate = 0, uc_RefreshTokenValidity = 0, uc_AccessTokenValidity = 0, uc_IdTokenValidity = 0,
      uc_AuthSessionValidity = 3, uc_TokenValidityUnits = [], uc_ExplicitAuthFlows = [], uc_AllowedOAuthFlows = [],
      uc_AllowedOAuthScopes = [], uc_AllowedOAuthFlowsUserPoolClient = False, uc_CallbackURLs = [], uc_LogoutURLs = [],
      uc_DefaultRedirectURI = [], uc_SupportedIdentityProviders = [], uc_ReadAttributes = [], uc_WriteAttributes = [],
      uc_PreventUserExistenceErrors = [], uc_EnableTokenRevocation = True, uc_EnablePropagateAdditionalUserContextData = False,
      uc_AnalyticsConfiguration = [], uc_RefreshTokenRotation = []\<rparr>"

definition toyKeys :: poolKeys where "toyKeys = \<lparr>pk_KeyID = ''k'', pk_PrivateKeyPEM = ''K''\<rparr>"

definition toyDisk :: "coglib \<Rightarrow> UserMetadata list \<Rightarrow> (path \<times> cog_content node) list" where
  "toyDisk lib users =
     [([''pools''], Dir), ([''client_index''], Dir), (clientIndexPath toyClient, File (Some (JClientIndex \<lparr>ce_PoolID = toyPool, ce_ClientID = toyClient\<rparr>))),
      ([''pools'', toyPool], Dir), (poolPath toyPool, File (Some (JPool toyPoolMeta))), (keysPath toyPool, File (Some (JKeys toyKeys))),
      ([''pools'', toyPool, ''clients''], Dir), (clientPath toyPool toyClient, File (Some (JClient toyClientMeta))),
      ([''pools'', toyPool, ''users''], Dir), ([''pools'', toyPool, ''user_index''], Dir)]
     @ map (\<lambda>u. (userPath toyPool (us_Sub u), File (Some (JUser u)))) users
     @ map (\<lambda>u. ([''pools'', toyPool, ''user_index'', hex (sha256 lib (bytes_of_string (strings_ToLower (us_Username u)))) @ ''.json''],
                 File (Some (JUserIndex \<lparr>ue_Username = us_Username u, ue_Sub = us_Sub u\<rparr>)))) users"

definition toyState :: "coglib \<Rightarrow> UserMetadata list \<Rightarrow> bytes option list \<Rightarrow> cog" where
  "toyState lib users rnd = \<lparr>d_fs = toyDisk lib users, d_fault = (\<lambda>_ _. False), clib = lib, cog_rand = rnd, cog_now = 0\<rparr>"

end
