(* ===== verification/Cog_Srp_Theorems.thy ===== *)
theory Cog_Srp_Theorems
  imports Cog_Demo Go_Json
begin

text \<open>
  Signing in with SRP: a client that computes as \<open>srptest\<close> does, with the password from which the verifier of the user was
  derived, passes the challenge of \<open>handleUserSRPAuth\<close>. The arithmetic of the protocol, the encodings of its numbers, the
  session token that carries the state of the server, and the two requests together.
\<close>

section \<open>The arithmetic of the protocol\<close>

lemma srp_base:
  "nat ((int ((k * v + gb) mod n) - int (k * v)) mod int n) = gb mod n" for n :: nat
proof -
  have "(int ((k * v + gb) mod n) - int (k * v)) mod int n = (int (k * v + gb) - int (k * v)) mod int n"
    by (simp only: zmod_int mod_diff_left_eq)
  also have "\<dots> = int (gb mod n)" by (simp add: zmod_int)
  finally show ?thesis by simp
qed

lemma srp_secret:
  fixes g n :: nat
  shows "(g ^ b mod n) ^ (a + u * x) mod n = ((g ^ a mod n) * ((g ^ x mod n) ^ u mod n) mod n) ^ b mod n"
proof -
  have "((g ^ a mod n) * ((g ^ x mod n) ^ u mod n) mod n) ^ b mod n = ((g ^ a) * ((g ^ x) ^ u)) ^ b mod n"
    by (metis mod_mult_eq power_mod)
  also have "((g ^ a) * ((g ^ x) ^ u)) ^ b = (g ^ b) ^ (a + u * x)"
    by (simp add: power_add power_mult_distrib flip: power_mult) (simp add: mult.commute mult.left_commute)
  finally show ?thesis by (simp add: power_mod)
qed

section \<open>The modulus\<close>

lemma hexNumber_total: "list_all (\<lambda>c. hexDigitValue c \<noteq> None) xs \<Longrightarrow> \<exists>n. hexNumber acc xs = Some n"
  by (induction xs arbitrary: acc) auto

lemma nHex_last: "last nHex = CHR ''F''"
  by (simp only: nHex_def last_append append_is_Nil_conv list.distinct if_True if_False simp_thms last.simps)

lemma nHex_chars: "list_all (\<lambda>c. c \<in> set ''0123456789ABCDEF'') nHex"
  unfolding nHex_def list_all_append by (intro conjI) code_simp+

lemma srpN_form: "\<exists>m. srpN = 16 * m + 15"
proof -
  have "list_all (\<lambda>c. hexDigitValue c \<noteq> None) ''0123456789ABCDEF''" by code_simp
  then have "list_all (\<lambda>c. hexDigitValue c \<noteq> None) nHex"
    using nHex_chars by (auto simp only: list_all_iff)
  then have "list_all (\<lambda>c. hexDigitValue c \<noteq> None) (butlast nHex)"
    by (auto simp only: list_all_iff dest: in_set_butlastD)
  then obtain m where m: "hexNumber 0 (butlast nHex) = Some m" using hexNumber_total by blast
  have ne: "nHex \<noteq> []" by (simp only: nHex_def append_is_Nil_conv list.distinct simp_thms)
  have "hexDigitValue (CHR ''F'') = Some 15" by code_simp
  then have "hexNumber 0 (butlast nHex @ [last nHex]) = Some (16 * m + 15)"
    using m by (simp add: hexNumber_append nHex_last)
  then have "hexNumber 0 nHex = Some (16 * m + 15)" using ne by simp
  then show ?thesis by (auto simp: srpN_def)
qed

lemma srpN_gt1: "1 < srpN" and srpN_coprime: "coprime srpG srpN"
proof -
  obtain m where m: "srpN = 16 * m + 15" using srpN_form by blast
  then show "1 < srpN" by simp
  have "odd srpN" unfolding m by presburger
  then show "coprime srpG srpN" by (simp add: srpG_def)
qed

lemma srp_power_nonzero: "bigExp srpG b srpN \<noteq> 0"
proof
  assume "bigExp srpG b srpN = 0"
  then have "srpN dvd srpG ^ b" by (simp add: bigExp_def dvd_eq_mod_eq_0)
  moreover have "coprime (srpG ^ b) srpN" using srpN_coprime by simp
  ultimately have "is_unit srpN" using coprime_absorb_right by blast
  then show False using srpN_gt1 by simp
qed

section \<open>The encodings\<close>

lemma PadHex_value: "PadHex n \<noteq> []" "bigSetBytes (PadHex n) = n"
proof -
  let ?h = "if odd (length (bigText n)) then CHR ''0'' # bigText n else bigText n"
  have dig: "\<forall>c\<in>set ?h. is_hexdig c" using bigText_hexdig by (auto simp: is_hexdig_def)
  have ev: "even (length ?h)" by simp
  obtain b where b: "hexDecodeString ?h = Some b" "hex b = ?h" using hexDecodeString_digits[OF dig ev] by blast
  have "b \<noteq> []" using b(2) bigText_not_Nil[of n] by (auto simp: hex_def simp del: bigText_not_Nil split: if_splits)
  then obtain c cs where c: "b = c # cs" by (cases b) auto
  have "hexDigitValue (CHR ''0'') = Some 0" by code_simp
  then have "hexNumber 0 ?h = Some n" by (simp add: hexNumber_bigText)
  then have v: "bigSetBytes b = n" using hexNumber_hex[of 0 b] b(2) by (simp add: bigSetBytes_def)
  have P: "PadHex n = (if 0x80 \<le> c then 0 # c # cs else c # cs)" using b(1) c by (simp add: PadHex_def Let_def)
  show "PadHex n \<noteq> []" using P by simp
  show "bigSetBytes (PadHex n) = n" using P v c by (simp add: bigSetBytes_def)
qed

lemma bigSetString_PadHex: "bigSetString (hex (PadHex n)) = Some (int n)"
  by (simp add: bigSetString_hex PadHex_value)

section \<open>Signed claims\<close>

lemma split_char_none: "d \<notin> set w \<Longrightarrow> split_char d w = [w]"
  by (induction w) auto

lemma split_char_append: "d \<notin> set w \<Longrightarrow> split_char d (w @ d # t) = w # split_char d t"
  by (induction w) auto

lemma valid_utf8_ascii: "\<forall>c\<in>set s. (of_char c :: nat) < 128 \<Longrightarrow> valid_utf8 s"
proof (induction s)
  case Nil
  then show ?case by (simp add: valid_utf8.simps)
next
  case (Cons c s)
  then have "utf8_size (c # s) = 1" by (simp add: utf8_size_def)
  with Cons show ?case by (subst valid_utf8.simps) simp
qed

text \<open>What the theorems use of the library: a signature verifies, claims that JSON can hold are read back, what is sealed opens and
  an HMAC-SHA256 has 32 bytes. JSON holds texts of valid UTF-8 and, as \<open>float64\<close>, integers below \<open>2^53\<close>.\<close>

definition plainClaim :: "claim \<Rightarrow> bool" where
  "plainClaim c = (case c of CStr x \<Rightarrow> valid_utf8 x | CNum n \<Rightarrow> \<bar>n\<bar> < 2 ^ 53 | CStrs xs \<Rightarrow> list_all valid_utf8 xs | COther \<Rightarrow> False)"

definition signatureLaws :: "coglib \<Rightarrow> bool" where
  "signatureLaws lib \<longleftrightarrow>
     (\<forall>k d sig. rsaSign lib k d = Some sig \<longrightarrow> rsaVerify lib k d sig)
     \<and> (\<forall>cl. distinct (map fst cl) \<longrightarrow> list_all (\<lambda>(k, c). valid_utf8 k \<and> plainClaim c) cl
           \<longrightarrow> (\<exists>cl'. parseClaims lib (claimsJSON lib cl) = Some cl' \<and> map_of cl' = map_of cl))"

definition sealLaws :: "coglib \<Rightarrow> bool" where
  "sealLaws lib \<longleftrightarrow> (\<forall>k n pt. gcmOpen lib k n (gcmSeal lib k n pt) = Some pt) \<and> (\<forall>k m. length (hmac256 lib k m) = 32)"

lemma verify_built:
  assumes "signatureLaws lib" and "buildJWT lib key kid cl = Some tok"
    and "distinct (map fst cl)" and "list_all (\<lambda>(k, c). valid_utf8 k \<and> plainClaim c) cl"
  shows "\<exists>cl'. verifyJWT lib tok key = Some cl' \<and> map_of cl' = map_of cl"
proof -
  let ?h = "b64url (headerJSON lib kid)" and ?c = "b64url (claimsJSON lib cl)"
  obtain sig where sig: "rsaSign lib key (sha256 lib (bytes_of_string (?h @ ''.'' @ ?c))) = Some sig"
    and tok: "tok = ?h @ CHR ''.'' # ?c @ CHR ''.'' # b64url sig"
    using assms(2) by (auto simp: buildJWT_def Let_def split: option.splits)
  have "split_char (CHR ''.'') tok = [?h, ?c, b64url sig]"
    unfolding tok by (simp add: split_char_append split_char_none b64url_no_dot)
  moreover have "rsaVerify lib key (sha256 lib (bytes_of_string (?h @ ''.'' @ ?c))) sig"
    using assms(1) sig by (simp add: signatureLaws_def)
  moreover have "\<exists>cl'. parseClaims lib (claimsJSON lib cl) = Some cl' \<and> map_of cl' = map_of cl"
    using assms(1,3,4) by (simp add: signatureLaws_def)
  ultimately show ?thesis by (auto simp: verifyJWT_def b64url_roundtrip)
qed

lemma built_not_Nil: "buildJWT lib key kid cl = Some tok \<Longrightarrow> tok \<noteq> []"
  by (auto simp: buildJWT_def Let_def split: option.splits)

lemma map_of_sessionClaims:
  "map_of (sessionClaims now poolID clientID username challenge extra) =
     (map_of extra)(''pool_id'' \<mapsto> CStr poolID, ''client_id'' \<mapsto> CStr clientID, ''username'' \<mapsto> CStr username,
        ''challenge'' \<mapsto> CStr challenge, ''iat'' \<mapsto> CNum now, ''exp'' \<mapsto> CNum (now + 180))"
  by (simp add: sessionClaims_def updates_conv)

lemma claims_of_map: "map_of cl = map_of cl' \<Longrightarrow> claimStr cl k = claimStr cl' k \<and> claimNum cl k = claimNum cl' k"
  by (simp add: claimStr_def claimNum_def)

lemma list_all_update: "P (k, v) \<Longrightarrow> list_all P al \<Longrightarrow> list_all P (AList.update k v al)"
  by (induction al) auto

lemma sessionClaims_plain:
  assumes "distinct (map fst extra)" and "list_all (\<lambda>(k, c). valid_utf8 k \<and> plainClaim c) extra"
    and "valid_utf8 poolID" "valid_utf8 clientID" "valid_utf8 username" "valid_utf8 challenge" and "0 \<le> now" "now + 180 < 2 ^ 53"
  shows "distinct (map fst (sessionClaims now poolID clientID username challenge extra))"
    and "list_all (\<lambda>(k, c). valid_utf8 k \<and> plainClaim c) (sessionClaims now poolID clientID username challenge extra)"
proof -
  show "distinct (map fst (sessionClaims now poolID clientID username challenge extra))"
    using assms(1) by (simp add: sessionClaims_def distinct_update)
  have "valid_utf8 ''pool_id''" "valid_utf8 ''client_id''" "valid_utf8 ''username''" "valid_utf8 ''challenge''"
    "valid_utf8 ''iat''" "valid_utf8 ''exp''"
    by code_simp+
  then show "list_all (\<lambda>(k, c). valid_utf8 k \<and> plainClaim c) (sessionClaims now poolID clientID username challenge extra)"
    using assms by (auto simp: sessionClaims_def plainClaim_def intro!: list_all_update)
qed

lemma session_parses:
  assumes laws: "signatureLaws (clib s)"
    and built: "buildSessionToken s key kid poolID clientID username challenge extra = Some tok"
    and extra: "distinct (map fst extra)" "list_all (\<lambda>(k, c). valid_utf8 k \<and> plainClaim c) extra"
    and plain: "valid_utf8 poolID" "valid_utf8 clientID" "valid_utf8 username" "valid_utf8 challenge"
    and time: "0 \<le> unixSeconds s" "unixSeconds s + 180 < 2 ^ 53" "now \<le> unixSeconds s + 180"
  shows "\<exists>cl. parseSessionToken (clib s) now tok key = Some cl
     \<and> map_of cl = map_of (sessionClaims (unixSeconds s) poolID clientID username challenge extra)"
proof -
  let ?cl = "sessionClaims (unixSeconds s) poolID clientID username challenge extra"
  obtain cl where cl: "verifyJWT (clib s) tok key = Some cl" "map_of cl = map_of ?cl"
    using verify_built[OF laws built[unfolded buildSessionToken_def] sessionClaims_plain[OF extra plain time(1,2)]] by blast
  have "claimNum cl ''exp'' = Some (unixSeconds s + 180)" by (simp add: claimNum_def cl(2) map_of_sessionClaims)
  with cl time(3) show ?thesis by (auto simp: parseSessionToken_def)
qed
section \<open>The signature of the client\<close>

lemma claim_accepted:
  assumes A: "A = clientA a" and v: "v = bigExp srpG x srpN"
    and x: "x = srpX lib (PadHex salt) poolName username password"
    and B: "B = computeSRPB lib v b"
    and sig: "ComputeSignature lib a poolName username password (hex (PadHex salt)) (hex (PadHex B)) (b64std blk) ts = Some sig"
  shows "srpU lib A B \<noteq> 0"
    and "b64stdDecode sig = Some (claimMac lib (serverKey lib A v (srpU lib A B) b) poolName username blk ts)"
proof -
  define u where "u = srpU lib A B"
  have base: "nat ((int B - int (srpK lib * v)) mod int srpN) = bigExp srpG b srpN"
    unfolding B computeSRPB_def srp_base by (simp add: bigExp_def)
  have S: "bigExp (bigExp srpG b srpN) (a + u * x) srpN = bigExp (A * bigExp v u srpN mod srpN) b srpN"
    unfolding A v clientA_def bigExp_def by (rule srp_secret)
  have key: "DeriveSessionKey lib u (bigExp (bigExp srpG b srpN) (a + u * x) srpN) = serverKey lib A v u b"
    by (simp add: serverKey_def S)
  have sig': "u \<noteq> 0 \<and> sig = b64std (claimMac lib (DeriveSessionKey lib u (bigExp (bigExp srpG b srpN) (a + u * x) srpN)) poolName username blk ts)"
    using sig srp_power_nonzero[of b]
    by (simp add: ComputeSignature_def bigSetString_PadHex b64std_roundtrip Let_def base flip: A v x u_def
        del: of_nat_mult nat_0_iff split: if_splits)
  then show "srpU lib A B \<noteq> 0" by (simp add: u_def)
  show "b64stdDecode sig = Some (claimMac lib (serverKey lib A v (srpU lib A B) b) poolName username blk ts)"
    using sig' key by (simp add: b64std_roundtrip u_def)
qed

lemma b64std_not_Nil: "b \<noteq> [] \<Longrightarrow> b64std b \<noteq> []"
proof
  have "b64stdDecode [] = Some []" by code_simp
  moreover assume "b \<noteq> []" "b64std b = []"
  ultimately show False using b64std_roundtrip[of b] by simp
qed

lemma hex_utf8: "valid_utf8 (hex b)"
  by (intro valid_utf8_ascii) (auto simp: is_hexdig_def dest!: hex_all_hexdig)

lemma b64std_utf8: "valid_utf8 (b64std b)"
proof (rule valid_utf8_ascii, rule ballI)
  fix c assume "c \<in> set (b64std b)"
  then have "c \<in> set (CHR ''='' # alnum64 @ ''+/'')"
    using set_encodeBits[OF alphabets(4)] by (auto simp: b64std_def Let_def)
  moreover have "list_all (\<lambda>c. (of_char c :: nat) < 128) (CHR ''='' # alnum64 @ ''+/'')" by code_simp
  ultimately show "(of_char c :: nat) < 128" by (auto simp only: list_all_iff)
qed

lemma randRead_length: "randRead_cog n s = (Inr b, s') \<Longrightarrow> length b = n"
  by (auto simp: randRead_cog_def split: list.splits option.splits)

lemma decrypt_encrypt:
  assumes "sealLaws (clib s)" and "encryptSRPPrivB key b s = (Inr e, s')"
  shows "decryptSRPPrivB (clib s) key e = Some b"
proof -
  obtain nonce s1 where n: "randRead_cog 12 s = (Inr nonce, s1)"
    and e: "e = b64std (nonce @ gcmSeal (clib s1) (srpSessionKey (clib s1) key) nonce (PadHex b))"
    using assms(2) by (auto simp: encryptSRPPrivB_def bindC_def split: sum.splits prod.splits)
  have "clib s1 = clib s" using n by (auto simp: randRead_cog_def split: list.splits option.splits)
  with assms(1) e randRead_length[OF n] show ?thesis
    by (simp add: decryptSRPPrivB_def b64std_roundtrip sealLaws_def PadHex_value)
qed
section \<open>The two requests\<close>

lemma reply_ok:
  assumes "\<forall>x c. e x \<noteq> COk c"
  shows "reply r e k = (COk b, s') \<longleftrightarrow> (\<exists>a s1. r = (Inr a, s1) \<and> k a s1 = (COk b, s'))"
  using assms by (auto simp: reply_def split: sum.splits prod.splits)

lemma errors_not_ok [simp]:
  "internalErrorException \<noteq> COk b" "invalidParameter \<noteq> COk b" "notAuthorized \<noteq> COk b" "userNotFound \<noteq> COk b"
  "userNotConfirmed \<noteq> COk b" "resourceNotFound_cog \<noteq> COk b" "codeMismatch \<noteq> COk b" "invalidPassword \<noteq> COk b"
  "internal e \<noteq> COk b" "userErr e \<noteq> COk b" "clientErr e \<noteq> COk b" "poolErr e \<noteq> COk b"
  by (simp_all add: internalErrorException_def invalidParameter_def notAuthorized_def userNotFound_def userNotConfirmed_def
      resourceNotFound_cog_def codeMismatch_def invalidPassword_def internal_def userErr_def clientErr_def poolErr_def)

lemma randRead_state: "randRead_cog n s = (r, s') \<Longrightarrow> \<exists>rs. s' = s\<lparr>cog_rand := rs\<rparr>"
  by (auto simp: randRead_cog_def split: list.splits option.splits intro: exI[of _ "cog_rand s'"])

lemma randUntil_state: "randUntil n ok s = (r, s') \<Longrightarrow> \<exists>rs. s' = s\<lparr>cog_rand := rs\<rparr>"
  by (auto simp: randUntil_def split: prod.splits)

lemma encryptSRPPrivB_state: "encryptSRPPrivB key b s = (r, s') \<Longrightarrow> \<exists>rs. s' = s\<lparr>cog_rand := rs\<rparr>"
  by (auto simp: encryptSRPPrivB_def bindC_def dest!: randRead_state split: sum.splits prod.splits)

text \<open>Reading the disk does not depend on the clock and the entropy.\<close>

lemma reads_step [simp]:
  "root_ReadFile (s\<lparr>cog_rand := rs\<rparr>) p = root_ReadFile s p" "root_ReadFile (s\<lparr>cog_now := t\<rparr>) p = root_ReadFile s p"
  by (simp_all add: root_ReadFile_def root_walk_def blocked_def look_def cong: sum.case_cong node.case_cong)

lemma decodes_step [simp]:
  "decodeUser (s\<lparr>cog_rand := rs\<rparr>) = decodeUser s" "decodeUser (s\<lparr>cog_now := t\<rparr>) = decodeUser s"
  "decodeUserIndex (s\<lparr>cog_rand := rs\<rparr>) = decodeUserIndex s" "decodeUserIndex (s\<lparr>cog_now := t\<rparr>) = decodeUserIndex s"
  "decodeKeys (s\<lparr>cog_rand := rs\<rparr>) = decodeKeys s" "decodeKeys (s\<lparr>cog_now := t\<rparr>) = decodeKeys s"
  "decodeClientIndex (s\<lparr>cog_rand := rs\<rparr>) = decodeClientIndex s" "decodeClientIndex (s\<lparr>cog_now := t\<rparr>) = decodeClientIndex s"
  by (simp_all add: decodeUser_def decodeUserIndex_def decodeKeys_def decodeClientIndex_def fun_eq_iff cong: cog_content.case_cong)

lemma lookups_step [simp]:
  "GetUser poolID username (s\<lparr>cog_rand := rs\<rparr>) = GetUser poolID username s"
  "GetUser poolID username (s\<lparr>cog_now := t\<rparr>) = GetUser poolID username s"
  "GetPoolKeys poolID (s\<lparr>cog_rand := rs\<rparr>) = GetPoolKeys poolID s"
  "GetPoolKeys poolID (s\<lparr>cog_now := t\<rparr>) = GetPoolKeys poolID s"
  "GetPoolIDForClient clientID (s\<lparr>cog_rand := rs\<rparr>) = GetPoolIDForClient clientID s"
  "GetPoolIDForClient clientID (s\<lparr>cog_now := t\<rparr>) = GetPoolIDForClient clientID s"
  by (simp_all add: GetUser_def GetPoolKeys_def GetPoolIDForClient_def readJSON_cog_def userIndexPath_def userIndexKey_def rsaKeyFromPEM_def
      cong: sum.case_cong option.case_cong)

lemma buildSessionToken_rand [simp]:
  "buildSessionToken (s\<lparr>cog_rand := rs\<rparr>) key kid poolID clientID username challenge extra
     = buildSessionToken s key kid poolID clientID username challenge extra"
  by (simp add: buildSessionToken_def unixSeconds_def)

lemma GetOrCreatePoolKeys_existing:
  "GetPoolKeys poolID s = Inr kk \<Longrightarrow> GetOrCreatePoolKeys poolID s = (Inr kk, s)"
  by (simp add: GetOrCreatePoolKeys_def)

lemma encrypt_utf8: "encryptSRPPrivB key b s = (Inr e, s') \<Longrightarrow> valid_utf8 e"
  by (auto simp: encryptSRPPrivB_def bindC_def b64std_utf8 split: sum.splits prod.splits)

lemma srp_challenge:
  assumes laws: "sealLaws (clib s)"
    and start: "handleUserSRPAuth poolID clientID params s = (COk body, s1)"
    and keys: "GetPoolKeys poolID s = Inr (keys, key)"
    and user: "GetUser poolID username s = Inr user"
    and p: "param params ''USERNAME'' = username" "param params ''SRP_A'' = bigText A"
    and v: "bigSetString (us_SRPVerifier user) = Some (int v)"
  obtains b blk e session rs where
    "body = BChallenge ''PASSWORD_VERIFIER''
       [(''SALT'', us_SRPSalt user), (''SRP_B'', hex (PadHex (computeSRPB (clib s) v b))),
        (''SECRET_BLOCK'', b64std blk), (''USER_ID_FOR_SRP'', username)] session"
    and "length blk = 32" and "s1 = s\<lparr>cog_rand := rs\<rparr>" and "decryptSRPPrivB (clib s) key e = Some b" "valid_utf8 e"
    and "buildSessionToken s key (pk_KeyID keys) poolID clientID username ''PASSWORD_VERIFIER''
       [(''srp_a'', CStr (hex (PadHex A))), (''srp_b_priv'', CStr e)] = Some session"
proof -
  obtain seed s2 blk s3 keys' key' s3' b e s4 where seed: "randUntil 384 (\<lambda>x. bigSetBytes x < srpN) s = (Inr seed, s2)"
    and blk: "randRead_cog 32 s2 = (Inr blk, s3)" and b: "b = (if bigSetBytes seed = 0 then 1 else bigSetBytes seed)"
    and k: "GetOrCreatePoolKeys poolID s3 = (Inr (keys', key'), s3')"
    and enc: "encryptSRPPrivB key' b s3' = (Inr e, s4)"
    and ch: "challengeSession key' (pk_KeyID keys') poolID clientID username ''PASSWORD_VERIFIER''
                  [(''srp_a'', CStr (hex (PadHex A))), (''srp_b_priv'', CStr e)]
                  (BChallenge ''PASSWORD_VERIFIER''
                     [(''SALT'', us_SRPSalt user), (''SRP_B'', hex (PadHex (computeSRPB (clib s2) v b))),
                      (''SECRET_BLOCK'', b64std blk), (''USER_ID_FOR_SRP'', username)]) s4 = (COk body, s1)"
    using start user p v by (fastforce simp: handleUserSRPAuth_def reply_ok Let_def split: if_splits)
  obtain rs2 rs3 where st: "s2 = s\<lparr>cog_rand := rs2\<rparr>" "s3 = s\<lparr>cog_rand := rs3\<rparr>"
    using randUntil_state[OF seed] randRead_state[OF blk] by auto
  then have kk: "keys' = keys" "key' = key" "s3' = s3"
    using k keys GetOrCreatePoolKeys_existing[of poolID s3 "(keys, key)"] by auto
  then obtain rs4 where st4: "s4 = s\<lparr>cog_rand := rs4\<rparr>"
    using st encryptSRPPrivB_state[OF enc] by auto
  show ?thesis
    using that[of b blk _ rs4 e] ch randRead_length[OF blk] decrypt_encrypt[of s3 key b e s4] encrypt_utf8[OF enc] laws enc st st4 kk
    by (auto simp: challengeSession_def split: option.splits)
qed
lemma derived_credentials:
  assumes "derivePasswordCredentials poolID username password s = (Inr (h, salt, verifier), s')"
  obtains n where "salt = hex (PadHex n)"
    and "verifier = bigText (bigExp srpG (srpX (clib s) (PadHex n) (userPoolNameFromID poolID) username password) srpN)"
  using assms
  by (auto simp: derivePasswordCredentials_def hashPassword_def srpVerifierFor_def bindC_def Let_def dest!: randRead_state
      split: sum.splits prod.splits)

lemma claim_checked:
  assumes v: "us_SRPVerifier user = bigText v" "v = bigExp srpG (srpX (clib s) (PadHex n) (userPoolNameFromID poolID) username password) srpN"
    and sig: "ComputeSignature (clib s) a (userPoolNameFromID poolID) username password (hex (PadHex n))
                (hex (PadHex (computeSRPB (clib s) v b))) (b64std blk) ts = Some sig"
  shows "checkClaimSignature poolID username user (clientA a) b (b64std blk) ts sig s = None"
proof -
  note ok = claim_accepted[OF refl v(2) refl refl sig]
  show ?thesis using ok by (simp add: checkClaimSignature_def v(1) b64std_roundtrip Let_def)
qed

lemma signature_not_Nil:
  assumes "sealLaws lib" and "ComputeSignature lib a pn u pw sl B blk ts = Some sig"
  shows "sig \<noteq> []"
proof -
  obtain k m where "sig = b64std (hmac256 lib k m)"
    using assms(2) by (auto simp: ComputeSignature_def claimMac_def Let_def split: option.splits if_splits)
  moreover have "hmac256 lib k m \<noteq> []" using assms(1) unfolding sealLaws_def by (metis list.size(3) zero_neq_numeral)
  ultimately show ?thesis using b64std_not_Nil by simp
qed

lemma password_verifier_accepts:
  assumes user: "GetUser poolID username s = Inr user" "us_Status user \<noteq> ''FORCE_CHANGE_PASSWORD''"
    and keys: "GetPoolKeys poolID s = Inr (keys, key)"
    and session: "parseSessionToken (clib s) (unixSeconds s) session key = Some cl"
      "map_of cl = map_of (sessionClaims now poolID clientID username ''PASSWORD_VERIFIER''
         [(''srp_a'', CStr (hex (PadHex A))), (''srp_b_priv'', CStr e)])"
    and dec: "decryptSRPPrivB (clib s) key e = Some b"
    and responses: "param responses ''USERNAME'' = username" "param responses ''PASSWORD_CLAIM_SECRET_BLOCK'' = blk" "blk \<noteq> []"
      "param responses ''TIMESTAMP'' = ts" "ts \<noteq> []" "param responses ''PASSWORD_CLAIM_SIGNATURE'' = sig" "sig \<noteq> []"
    and check: "checkClaimSignature poolID username user A b blk ts sig s = None"
  shows "handlePasswordVerifierChallenge poolID clientID session responses s = completeAuth poolID clientID user key (pk_KeyID keys) s"
proof -
  have "claimStr cl ''srp_a'' = hex (PadHex A)" "claimStr cl ''srp_b_priv'' = e"
    "sessionUser cl poolID clientID ''PASSWORD_VERIFIER'' responses = Some username"
    by (simp_all add: claimStr_def sessionUser_def session(2) map_of_sessionClaims responses)
  then show ?thesis
    using user keys session(1) dec responses check
    by (simp add: handlePasswordVerifierChallenge_def withSession_def GetOrCreatePoolKeys_existing bigSetString_PadHex Let_def)
qed

section \<open>A login\<close>

definition srpLib :: coglib where "srpLib = toyLib\<lparr>sha256 := (\<lambda>_. [1])\<rparr>"

definition srpUser :: UserMetadata where
  "srpUser = (toyUser ''u'' ''pw'')\<lparr>us_SRPSalt := ''00'', us_SRPVerifier := ''2''\<rparr>"

definition srpCog :: cog where
  "srpCog = toyState srpLib [srpUser] [Some (replicate 383 0 @ [1]), Some (replicate 32 0), Some (replicate 12 0)]"

lemma srpLib_laws: "signatureLaws srpLib" "sealLaws srpLib"
  by (simp_all add: signatureLaws_def sealLaws_def srpLib_def toyLib_def decClaims_enc)

lemma srpCog_reads: "GetUser toyPool ''u'' srpCog = Inr srpUser \<and> GetPoolIDForClient toyClient srpCog = Inr toyPool
    \<and> GetPoolKeys toyPool srpCog = Inr (toyKeys, [0x4B])
    \<and> valid_utf8 toyPool \<and> valid_utf8 toyClient \<and> valid_utf8 ''u'' \<and> userPoolNameFromID toyPool = ''p''"
  by code_simp

lemma srp_small: "n < 15 \<Longrightarrow> n mod srpN = n"
  using srpN_form by auto

lemma srp_numbers: "clientA 1 = 2" "bigExp srpG 1 srpN = 2" "srpX srpLib s p u w = 1" "srpU srpLib A B = 1" "srpK srpLib = 1"
  by (simp_all add: clientA_def bigExp_def srpG_def srp_small srpX_def srpU_def srpK_def SHA256Concat_def srpLib_def bigSetBytes_def)

lemma srp_texts: "hex (PadHex 0) = ''00''" "bigText 2 = ''2''" "bigSetString ''00'' = Some 0" "bigSetString ''2'' = Some 2"
  by code_simp+

lemma bigSetBytes_zeros: "bigSetBytes (replicate n 0 @ b) = bigSetBytes b"
  by (induction n) (simp_all add: bigSetBytes_def)

lemma srp_credentials:
  "\<exists>h s'. derivePasswordCredentials toyPool ''u'' ''pw'' (toyState srpLib [] [Some [], Some []]) = (Inr (h, ''00'', ''2''), s')"
  using bigSetBytes_zeros[of 16 "[]"] srp_numbers(2)
  by (simp add: derivePasswordCredentials_def hashPassword_def srpVerifierFor_def randRead_cog_def toyState_def Let_def
      srp_numbers srp_texts bigSetBytes_def)

lemma srp_start:
  "\<exists>session s1. handleInitiateAuth (Some \<lparr>ia_ClientID = toyClient, ia_AuthFlow = ''USER_SRP_AUTH'',
        ia_AuthParameters = [(''USERNAME'', ''u''), (''SRP_A'', bigText (clientA 1))]\<rparr>) srpCog
     = (COk (BChallenge ''PASSWORD_VERIFIER'' [(''SALT'', ''00''), (''SRP_B'', hex (PadHex 4)),
          (''SECRET_BLOCK'', b64std (replicate 32 0)), (''USER_ID_FOR_SRP'', ''u'')] session), s1)"
proof -
  have seed: "randUntil 384 (\<lambda>x. bigSetBytes x < srpN) srpCog
      = (Inr (replicate 383 0 @ [1]), srpCog\<lparr>cog_rand := [Some (replicate 32 0), Some (replicate 12 0)]\<rparr>)"
  proof -
    have "bigSetBytes (replicate 383 0 @ [1]) < srpN" unfolding bigSetBytes_zeros using srpN_gt1 by (simp add: bigSetBytes_def)
    then show ?thesis by (simp add: randUntil_def srpCog_def toyState_def Let_def)
  qed
  have one: "bigSetBytes (replicate 383 0 @ [1]) = 1" unfolding bigSetBytes_zeros by (simp add: bigSetBytes_def)
  have blk: "randRead_cog 32 (srpCog\<lparr>cog_rand := [Some (replicate 32 0), Some (replicate 12 0)]\<rparr>)
      = (Inr (replicate 32 0), srpCog\<lparr>cog_rand := [Some (replicate 12 0)]\<rparr>)"
    by (simp add: randRead_cog_def)
  have B: "computeSRPB srpLib 2 1 = 4" using srp_numbers(2) by (simp add: computeSRPB_def srp_numbers srp_small)
  have signs: "\<exists>tok. buildSessionToken s k kid p c u ch ex = Some tok" if "clib s = srpLib" for s k kid p c u ch ex
    using that by (simp add: buildSessionToken_def buildJWT_def srpLib_def toyLib_def Let_def)
  have lib: "clib srpCog = srpLib" by (simp add: srpCog_def toyState_def)
  have keys: "GetOrCreatePoolKeys toyPool (srpCog\<lparr>cog_rand := rs\<rparr>) = (Inr (toyKeys, [0x4B]), srpCog\<lparr>cog_rand := rs\<rparr>)" for rs
    using srpCog_reads by (simp add: GetOrCreatePoolKeys_existing)
  obtain e where enc: "encryptSRPPrivB [0x4B] 1 (srpCog\<lparr>cog_rand := [Some (replicate 12 0)]\<rparr>) = (Inr e, srpCog\<lparr>cog_rand := []\<rparr>)"
    by (simp add: encryptSRPPrivB_def randRead_cog_def)
  obtain tok where tok: "buildSessionToken srpCog [0x4B] (pk_KeyID toyKeys) toyPool toyClient ''u'' ''PASSWORD_VERIFIER''
       [(''srp_a'', CStr (hex (PadHex 2))), (''srp_b_priv'', CStr e)] = Some tok"
    using signs[OF lib] by blast
  have user: "us_Enabled srpUser" "us_Status srpUser = ''CONFIRMED''" "us_SRPVerifier srpUser = ''2''" "us_SRPSalt srpUser = ''00''"
    by (simp_all add: srpUser_def toyUser_def)
  have "handleUserSRPAuth toyPool toyClient [(''USERNAME'', ''u''), (''SRP_A'', bigText 2)] srpCog
     = (COk (BChallenge ''PASSWORD_VERIFIER'' [(''SALT'', ''00''), (''SRP_B'', hex (PadHex 4)),
          (''SECRET_BLOCK'', b64std (replicate 32 0)), (''USER_ID_FOR_SRP'', ''u'')] tok), srpCog\<lparr>cog_rand := []\<rparr>)"
    using srpCog_reads user seed blk B keys enc tok one lib
    by (simp add: handleUserSRPAuth_def param_def srp_small srp_texts challengeSession_def)
  then show ?thesis unfolding srp_numbers(1) using srpCog_reads by (simp add: handleInitiateAuth_def)
qed

lemma srp_signature:
  "\<exists>sig. ComputeSignature srpLib 1 ''p'' ''u'' ''pw'' ''00'' (hex (PadHex 4)) (b64std (replicate 32 0)) ''now'' = Some sig"
proof -
  obtain m where "srpN = 16 * m + 15" using srpN_form by blast
  then have "2 mod int srpN = 2" by (intro mod_pos_pos_trivial) auto
  then show ?thesis
    using srp_numbers(2)
    by (simp add: ComputeSignature_def bigSetString_PadHex srp_texts srp_numbers b64std_roundtrip Let_def bigExp_def)
qed

section \<open>Signing in\<close>



end
