(* ===== verification/Cog_Login_Theorems.thy ===== *)
theory Cog_Login_Theorems
  imports Cog_Admin Cog_Srp_Theorems
begin

text \<open>
  Who gets tokens: no request of the router hands out tokens but \<open>InitiateAuth\<close> and \<open>RespondToAuthChallenge\<close>, and these
  only to a user who is enabled and for whom the request carries one of the proofs of the relation \<open>entitled\<close>.
\<close>

section \<open>Requests that hand out no tokens\<close>

definition tokenless :: "cog_response \<times> cog \<Rightarrow> bool" where
  "tokenless x \<longleftrightarrow> (\<forall>r. fst x \<noteq> COk (BAuth r))"

lemma tokenless_reply [intro!]:
  "(\<And>e r. onError e \<noteq> COk (BAuth r)) \<Longrightarrow> (\<And>a s. tokenless (k a s)) \<Longrightarrow> tokenless (reply x onError k)"
  by (auto simp: tokenless_def reply_def split: sum.splits prod.splits)

lemma tokenless_simps [simp]:
  "tokenless (COk b, s) \<longleftrightarrow> (\<forall>r. b \<noteq> BAuth r)" "tokenless (CErr n t, s)" "tokenless (CNotFound, s)" "tokenless (CDropped, s)"
  "tokenless (internalErrorException, s)" "tokenless (invalidParameter, s)" "tokenless (notAuthorized, s)" "tokenless (userNotFound, s)"
  "tokenless (userNotConfirmed, s)" "tokenless (resourceNotFound_cog, s)" "tokenless (codeMismatch, s)" "tokenless (invalidPassword, s)"
  "tokenless (mfaNotFound, s)"
  by (simp_all add: tokenless_def internalErrorException_def invalidParameter_def notAuthorized_def userNotFound_def
      userNotConfirmed_def resourceNotFound_cog_def codeMismatch_def invalidPassword_def mfaNotFound_def)

lemma more_errors [simp]:
  "mfaNotFound \<noteq> COk b" "codeErr e \<noteq> COk b" "pageErr e \<noteq> COk b" "groupErr e \<noteq> COk b" "tagErr e \<noteq> COk b"
  by (auto simp: mfaNotFound_def codeErr_def pageErr_def groupErr_def tagErr_def split: cog_error.splits)

lemma notRevoked_error: "notRevoked poolID ks s = Some r \<Longrightarrow> r \<noteq> COk b"
  by (induction ks) (auto split: if_splits sum.splits bool.splits)

lemma check_error: "checkTokenNotRevoked poolID j o' s = Some r \<Longrightarrow> r \<noteq> COk b"
  unfolding checkTokenNotRevoked_def by (rule notRevoked_error)

lemma tokenless_withToken [intro!]: "(\<And>p u j t. tokenless (k p u j t)) \<Longrightarrow> tokenless (withToken token k s)"
  by (auto simp: withToken_def poolKey_def tokenless_def
      split: option.splits sum.splits prod.splits if_splits dest: check_error)

lemma tokenless_withTokenUser [intro!]: "(\<And>p u t. tokenless (k p u t)) \<Longrightarrow> tokenless (withTokenUser token k s)"
  unfolding withTokenUser_def by auto

lemma tokenless_withPool [intro!]: "(\<And>p t. tokenless (k p t)) \<Longrightarrow> tokenless (withPool poolID k s)"
  unfolding withPool_def by auto

lemma tokenless_challengeSession [intro!]:
  "(\<And>t r. respond t \<noteq> BAuth r) \<Longrightarrow> tokenless (challengeSession key kid poolID clientID username challenge extra respond s)"
  by (auto simp: challengeSession_def split: option.splits)

lemma tokenless_writeChallenge [intro!]: "tokenless (writeChallengeResponse key kid poolID clientID username challenge extra s)"
  unfolding writeChallengeResponse_def by auto

lemma tokenless_resolveMFASetupSession [intro!]:
  "(\<And>p ks key cl t. tokenless (k p ks key cl t)) \<Longrightarrow> tokenless (resolveMFASetupSession token k s)"
  by (auto simp: resolveMFASetupSession_def Let_def split: option.splits prod.splits if_splits sum.splits)

lemmas handler_splits = option.splits prod.splits if_splits sum.splits cog_error.splits

lemma tokenless_pool: "tokenless (dispatch_pool q s)"
  by (cases q) (auto simp: handleCreateUserPool_def handleDescribeUserPool_def handleUpdateUserPool_def
      handleDeleteUserPool_def handleListUserPools_def handleGetUserPoolMfaConfig_def
      handleSetUserPoolMfaConfig_def Let_def
      split: handler_splits)

lemma tokenless_client: "tokenless (dispatch_client q s)"
  by (cases q) (auto simp: handleCreateUserPoolClient_def handleDescribeUserPoolClient_def
      handleUpdateUserPoolClient_def handleDeleteUserPoolClient_def handleListUserPoolClients_def Let_def
      split: handler_splits)

lemma tokenless_account: "tokenless (dispatch_account q s)"
  by (cases q) (auto simp: handleSignUp_def handleConfirmSignUp_def handleResendConfirmationCode_def
      handleForgotPassword_def handleConfirmForgotPassword_def handleChangePassword_def Let_def
      split: handler_splits)

lemma tokenless_profile: "tokenless (dispatch_profile q s)"
  by (cases q) (auto simp: handleGetUser_def handleUpdateUserAttributes_def handleDeleteUser_def
      handleGetUserAttributeVerificationCode_def handleVerifyUserAttribute_def Let_def
      split: handler_splits)

lemma tokenless_admin: "tokenless (dispatch_admin q s)"
  by (cases q) (auto simp: handleAdminCreateUser_def handleAdminGetUser_def handleAdminSetUserPassword_def
      handleAdminConfirmSignUp_def handleAdminDeleteUser_def handleAdminDisableUser_def handleAdminEnableUser_def
      handleAdminUpdateUserAttributes_def handleListUsers_def Let_def
      split: handler_splits)

lemma tokenless_membership: "tokenless (dispatch_membership q s)"
  by (cases q) (auto simp: handleCreateGroup_def handleDeleteGroup_def handleGetGroup_def handleUpdateGroup_def
      handleListGroups_def handleAdminAddUserToGroup_def handleAdminRemoveUserFromGroup_def
      handleAdminListGroupsForUser_def handleListUsersInGroup_def parseGroupMembershipRequest_def Let_def
      split: handler_splits)

lemma tokenless_mfa: "tokenless (dispatch_mfa q s)"
  by (cases q) (auto simp: handleAssociateSoftwareToken_def handleVerifySoftwareToken_def
      handleSetUserMFAPreference_def handleAssociateSoftwareTokenSession_def handleVerifySoftwareTokenSession_def
      Let_def
      split: handler_splits)

lemma tokenless_tag: "tokenless (dispatch_tag q s)"
  by (cases q) (auto simp: handleTagResource_cog_def handleUntagResource_cog_def handleListTagsForResource_cog_def
      Let_def
      split: handler_splits)

lemma tokenless_others:
  "tokenless (handleRevokeToken b s)" "tokenless (handleGlobalSignOut b' s)" "tokenless (handleJWKS p s)"
  by (auto simp: handleRevokeToken_def handleGlobalSignOut_def handleJWKS_def Let_def split: handler_splits)

section \<open>Who is entitled to tokens\<close>

text \<open>The proofs of identity that the two requests accept. The state \<open>t\<close> is the one in which the tokens are made: the keys of
  the pool may have been created on the way, a new password stored, or the second factor of the user switched on.\<close>

definition singleFactor :: "string \<Rightarrow> UserMetadata \<Rightarrow> cog \<Rightarrow> bool" where
  "singleFactor poolID user s \<longleftrightarrow> \<not> us_SoftwareTokenMFAEnabled user
     \<and> (\<exists>pool. GetUserPool poolID s = Inr pool \<and> up_MfaConfiguration pool \<noteq> ''ON'')"

inductive entitled :: "login_request \<Rightarrow> cog \<Rightarrow> string \<Rightarrow> string \<Rightarrow> cog \<Rightarrow> rsa_key \<Rightarrow> UserMetadata \<Rightarrow> bool" where
  by_password:
    "\<lbrakk>ia_AuthFlow req = ''USER_PASSWORD_AUTH'';
      GetUser poolID (param (ia_AuthParameters req) ''USERNAME'') s = Inr claimed;
      us_Enabled claimed; us_Status claimed \<noteq> ''UNCONFIRMED''; us_Status claimed \<noteq> ''FORCE_CHANGE_PASSWORD'';
      verifyPassword (clib s) (us_PasswordHash claimed) (param (ia_AuthParameters req) ''PASSWORD'');
      GetOrCreatePoolKeys poolID s = (Inr (keys, key), t);
      GetUser poolID (us_Username claimed) t = Inr user; singleFactor poolID user t\<rbrakk>
     \<Longrightarrow> entitled (QInitiateAuth (Some req)) s poolID (ia_ClientID req) t key user"
| by_refresh:
    "\<lbrakk>ia_AuthFlow req = ''REFRESH_TOKEN_AUTH'' \<or> ia_AuthFlow req = ''REFRESH_TOKEN'';
      GetRefreshToken poolID (param (ia_AuthParameters req) ''REFRESH_TOKEN'') s = Inr rt; rt_ClientID rt = ia_ClientID req;
      rt_ExpiresAt rt \<le> 0 \<or> nowUnix s \<le> rt_ExpiresAt rt; GetUserBySub poolID (rt_Sub rt) s = Inr user;
      GetOrCreatePoolKeys poolID s = (Inr (keys, key), t)\<rbrakk>
     \<Longrightarrow> entitled (QInitiateAuth (Some req)) s poolID (ia_ClientID req) t key user"
| by_new_password:
    "\<lbrakk>ra_ChallengeName req = ''NEW_PASSWORD_REQUIRED''; GetOrCreatePoolKeys poolID s = (Inr (keys, key), s1);
      parseSessionToken (clib s1) (unixSeconds s1) (ra_Session req) key = Some cl;
      sessionUser cl poolID (ra_ClientID req) ''NEW_PASSWORD_REQUIRED'' (ra_ChallengeResponses req) = Some username;
      GetUserPool poolID s1 = Inr pool;
      validatePassword (clib s1) (passwordPolicyFromPool (clib s1) pool) (param (ra_ChallengeResponses req) ''NEW_PASSWORD'');
      GetUser poolID username s1 = Inr claimed; us_Status claimed = ''FORCE_CHANGE_PASSWORD'';
      GetUser poolID (us_Username claimed) t = Inr user; singleFactor poolID user t\<rbrakk>
     \<Longrightarrow> entitled (QRespondToAuthChallenge (Some req)) s poolID (ra_ClientID req) t key user"
| by_signature:
    "\<lbrakk>ra_ChallengeName req = ''PASSWORD_VERIFIER''; GetOrCreatePoolKeys poolID s = (Inr (keys, key), t);
      parseSessionToken (clib t) (unixSeconds t) (ra_Session req) key = Some cl;
      sessionUser cl poolID (ra_ClientID req) ''PASSWORD_VERIFIER'' (ra_ChallengeResponses req) = Some username;
      bigSetString (claimStr cl ''srp_a'') = Some A; decryptSRPPrivB (clib t) key (claimStr cl ''srp_b_priv'') = Some b;
      GetUser poolID username t = Inr claimed;
      checkClaimSignature poolID username claimed (nat A) b (param (ra_ChallengeResponses req) ''PASSWORD_CLAIM_SECRET_BLOCK'')
        (param (ra_ChallengeResponses req) ''TIMESTAMP'') (param (ra_ChallengeResponses req) ''PASSWORD_CLAIM_SIGNATURE'') t = None;
      us_Status claimed \<noteq> ''FORCE_CHANGE_PASSWORD'';
      GetUser poolID (us_Username claimed) t = Inr user; singleFactor poolID user t\<rbrakk>
     \<Longrightarrow> entitled (QRespondToAuthChallenge (Some req)) s poolID (ra_ClientID req) t key user"
| by_code:
    "\<lbrakk>ra_ChallengeName req = ''SOFTWARE_TOKEN_MFA''; GetOrCreatePoolKeys poolID s = (Inr (keys, key), s1);
      parseSessionToken (clib s1) (unixSeconds s1) (ra_Session req) key = Some cl;
      sessionUser cl poolID (ra_ClientID req) ''SOFTWARE_TOKEN_MFA'' (ra_ChallengeResponses req) = Some username;
      GetUser poolID username s1 = Inr claimed; us_TOTPSecret claimed \<noteq> [];
      verifyTOTP (clib s1) (us_TOTPSecret claimed) (param (ra_ChallengeResponses req) ''SOFTWARE_TOKEN_MFA_CODE'') (unixSeconds s1);
      user = claimed\<lparr>us_SoftwareTokenMFAEnabled := True, us_PreferredMfaSetting := us_PreferredMfaSetting user\<rparr>\<rbrakk>
     \<Longrightarrow> entitled (QRespondToAuthChallenge (Some req)) s poolID (ra_ClientID req) t key user"
| by_enrolment:
    "\<lbrakk>ra_ChallengeName req = ''MFA_SETUP''; GetOrCreatePoolKeys poolID s = (Inr (keys, key), s1);
      parseSessionToken (clib s1) (unixSeconds s1) (ra_Session req) key = Some cl;
      sessionUser cl poolID (ra_ClientID req) ''MFA_SETUP'' (ra_ChallengeResponses req) = Some username;
      claimStr cl ''verified_totp_secret'' \<noteq> []; GetUser poolID username s1 = Inr claimed; us_Enabled claimed;
      us_Username user = us_Username claimed; us_Sub user = us_Sub claimed; us_Enabled user\<rbrakk>
     \<Longrightarrow> entitled (QRespondToAuthChallenge (Some req)) s poolID (ra_ClientID req) t key user"

definition tokensFor :: "cog \<Rightarrow> rsa_key \<Rightarrow> string \<Rightarrow> string \<Rightarrow> UserMetadata \<Rightarrow> authResult \<Rightarrow> bool" where
  "tokensFor t key poolID clientID user r \<longleftrightarrow>
     (\<exists>keyID exp groups originJTI jti.
        GetGroupsForUser poolID (us_Username user) t = Inr groups
        \<and> buildJWT (clib t) key keyID (accessClaimsOf (unixSeconds t) exp poolID clientID user groups originJTI jti)
            = Some (ar_AccessToken r))"

lemma bindC_ok: "bindC x k = (Inr b, s') \<longleftrightarrow> (\<exists>a s1. x = (Inr a, s1) \<and> k a s1 = (Inr b, s'))"
  by (auto simp: bindC_def split: sum.splits prod.splits)

lemma generated_state:
  "generateUUID s = (Inr u, s') \<Longrightarrow> clib s' = clib s \<and> cog_now s' = cog_now s"
  "generateTokenID s = (Inr u, s') \<Longrightarrow> clib s' = clib s \<and> cog_now s' = cog_now s"
  by (auto simp: generateUUID_def generateTokenID_def bindC_ok dest!: randRead_state)

lemma issueTokens_access:
  assumes "issueTokens key keyID poolID clientID user groups originJTI accessExp idExp s = (Inr tok, s')"
  shows "\<exists>origin jti. buildJWT (clib s) key keyID
      (accessClaimsOf (unixSeconds s) (unixSeconds s + accessExp) poolID clientID user groups origin jti) = Some (is_AccessToken tok)"
proof -
  obtain origin s1 jti s2 idJTI s3 rt s4 where st: "(if originJTI = [] then generateUUID s else (Inr originJTI, s)) = (Inr origin, s1)"
    "generateUUID s1 = (Inr jti, s2)" "generateUUID s2 = (Inr idJTI, s3)" "generateTokenID s3 = (Inr rt, s4)"
    and b0: "(case (buildJWT (clib s4) key keyID
            (accessClaimsOf (unixSeconds s) (unixSeconds s + accessExp) poolID clientID user groups origin jti),
          buildJWT (clib s4) key keyID
            (idClaimsOf (unixSeconds s) (unixSeconds s + idExp) poolID clientID user groups origin idJTI)) of
        (Some accessToken, Some idToken) \<Rightarrow>
          (Inr \<lparr>is_AccessToken = accessToken, is_IdToken = idToken, is_RefreshToken = rt, is_AccessJTI = jti,
             is_OriginJTI = origin\<rparr>, s4)
      | _ \<Rightarrow> (Inl BadKey, s4)) = (Inr tok, s')"
    using assms unfolding issueTokens_def Let_def bindC_ok by blast
  have b: "buildJWT (clib s4) key keyID
      (accessClaimsOf (unixSeconds s) (unixSeconds s + accessExp) poolID clientID user groups origin jti) = Some (is_AccessToken tok)"
    using b0 by (auto split: option.split_asm)
  have "clib s4 = clib s" using st by (auto dest!: generated_state split: if_splits)
  with b show ?thesis by auto
qed

lemma writeAuthResult_tokens:
  assumes "writeAuthResult poolID clientID user key keyID incl originJTI s = (COk (BAuth r), s')"
  shows "tokensFor s key poolID clientID user r"
proof -
  obtain groups client accessExp idExp tok s1 where "GetGroupsForUser poolID (us_Username user) s = Inr groups"
    and "issueTokens key keyID poolID clientID user groups originJTI accessExp idExp s = (Inr tok, s1)"
    and "ar_AccessToken r = is_AccessToken tok"
    using assms by (auto simp: writeAuthResult_def reply_ok Let_def)
  then show ?thesis unfolding tokensFor_def using issueTokens_access by metis
qed

lemma completeAuth_tokens:
  assumes "completeAuth poolID clientID claimed key keyID s = (COk (BAuth r), s')"
  shows "\<exists>user. GetUser poolID (us_Username claimed) s = Inr user \<and> us_Enabled user \<and> singleFactor poolID user s
    \<and> tokensFor s key poolID clientID user r"
proof -
  have no: "writeChallengeResponse key' kid p c u ch ex t \<noteq> (COk (BAuth r), s')" for key' kid p c u ch ex t
    using tokenless_writeChallenge[of key' kid p c u ch ex t] by (auto simp: tokenless_def)
  show ?thesis using assms no
    by (auto simp: completeAuth_def reply_ok singleFactor_def split: if_splits dest: writeAuthResult_tokens)
qed

lemma passwordAuth_tokens:
  assumes "handleUserPasswordAuth poolID clientID params s = (COk (BAuth r), s')"
  obtains claimed keys key t user where "GetUser poolID (param params ''USERNAME'') s = Inr claimed"
    "us_Enabled claimed" "us_Status claimed \<noteq> ''UNCONFIRMED''" "us_Status claimed \<noteq> ''FORCE_CHANGE_PASSWORD''"
    "verifyPassword (clib s) (us_PasswordHash claimed) (param params ''PASSWORD'')"
    "GetOrCreatePoolKeys poolID s = (Inr (keys, key), t)" "GetUser poolID (us_Username claimed) t = Inr user"
    "singleFactor poolID user t" "us_Enabled user" "tokensFor t key poolID clientID user r"
proof -
  have no: "newPasswordChallenge key kid p c u t \<noteq> (COk (BAuth r), s')" for key kid p c u t
    by (auto simp: newPasswordChallenge_def challengeSession_def split: option.splits)
  then show ?thesis using assms that
    by (fastforce simp: handleUserPasswordAuth_def reply_ok Let_def split: if_splits dest: completeAuth_tokens)
qed

lemma refreshAuth_tokens:
  assumes "handleRefreshTokenAuth poolID clientID params s = (COk (BAuth r), s')"
  obtains rt user keys key t where "GetRefreshToken poolID (param params ''REFRESH_TOKEN'') s = Inr rt"
    "rt_ClientID rt = clientID" "rt_ExpiresAt rt \<le> 0 \<or> nowUnix s \<le> rt_ExpiresAt rt"
    "GetUserBySub poolID (rt_Sub rt) s = Inr user" "us_Enabled user"
    "GetOrCreatePoolKeys poolID s = (Inr (keys, key), t)" "tokensFor t key poolID clientID user r"
  using assms that
  by (fastforce simp: handleRefreshTokenAuth_def reply_ok Let_def split: if_splits dest: writeAuthResult_tokens)

lemma srpAuth_tokenless: "tokenless (handleUserSRPAuth poolID clientID params s)"
  by (auto simp: handleUserSRPAuth_def Let_def split: option.splits prod.splits)

lemma initiate_entitled:
  assumes "handleInitiateAuth (Some req) s = (COk (BAuth r), s')"
  shows "\<exists>poolID t key user. GetPoolIDForClient (ia_ClientID req) s = Inr poolID
     \<and> entitled (QInitiateAuth (Some req)) s poolID (ia_ClientID req) t key user \<and> us_Enabled user
     \<and> tokensFor t key poolID (ia_ClientID req) user r"
proof -
  obtain poolID where p: "GetPoolIDForClient (ia_ClientID req) s = Inr poolID"
    using assms by (auto simp: handleInitiateAuth_def reply_ok)
  have no: "handleUserSRPAuth poolID (ia_ClientID req) (ia_AuthParameters req) s \<noteq> (COk (BAuth r), s')"
    using srpAuth_tokenless[of poolID "ia_ClientID req" "ia_AuthParameters req" s] by (auto simp: tokenless_def)
  consider (pw) "ia_AuthFlow req = ''USER_PASSWORD_AUTH''"
      "handleUserPasswordAuth poolID (ia_ClientID req) (ia_AuthParameters req) s = (COk (BAuth r), s')"
    | (rt) "ia_AuthFlow req = ''REFRESH_TOKEN_AUTH'' \<or> ia_AuthFlow req = ''REFRESH_TOKEN''"
      "handleRefreshTokenAuth poolID (ia_ClientID req) (ia_AuthParameters req) s = (COk (BAuth r), s')"
    using assms p no by (auto simp: handleInitiateAuth_def split: if_splits)
  then show ?thesis
  proof cases
    case pw
    from passwordAuth_tokens[OF pw(2)] show ?thesis using p pw(1) by (metis by_password)
  next
    case rt
    from refreshAuth_tokens[OF rt(2)] show ?thesis using p rt(1) by (metis by_refresh)
  qed
qed

lemma withSession_ok:
  assumes "withSession poolID token k s = (COk b, s')"
  obtains keys key t cl where "GetOrCreatePoolKeys poolID s = (Inr (keys, key), t)"
    "parseSessionToken (clib t) (unixSeconds t) token key = Some cl" "k keys key cl t = (COk b, s')"
  using assms that by (fastforce simp: withSession_def reply_ok split: option.splits)

lemma reply_okE:
  assumes "reply r e k = (COk b, s')" and "\<And>x c. e x \<noteq> COk c"
  obtains a t where "r = (Inr a, t)" "k a t = (COk b, s')"
  using assms by (auto simp: reply_ok)

lemma if_okE:
  assumes "(if c then (x, s) else y) = (COk b, s')" and "x \<noteq> COk b"
  obtains "\<not> c" "y = (COk b, s')"
  using assms by (auto split: if_splits)

lemma sessionUser_ok:
  assumes "withSession poolID token (\<lambda>keys key cl s. case sessionUser cl poolID clientID challenge responses of
      None \<Rightarrow> (notAuthorized, s) | Some u \<Rightarrow> k keys key cl u s) s = (COk b, s')"
  obtains keys key t cl u where "GetOrCreatePoolKeys poolID s = (Inr (keys, key), t)"
    "parseSessionToken (clib t) (unixSeconds t) token key = Some cl"
    "sessionUser cl poolID clientID challenge responses = Some u" "k keys key cl u t = (COk b, s')"
  using assms that by (fastforce elim: withSession_ok split: option.splits)

lemma UpdateUser_ok:
  assumes "UpdateUser poolID username fn s = (Inr user, s')"
  obtains old new t where "GetUser poolID username s = Inr old" "fn old s = (Inr new, t)" "user = new\<lparr>us_UpdatedAt := nowUnix t\<rparr>"
  using assms by (auto simp: UpdateUser_def bindC_ok Let_def split: sum.splits)

text \<open>Tokens for a challenge: some user is entitled to them.\<close>

definition earned :: "respondRequest \<Rightarrow> string \<Rightarrow> cog \<Rightarrow> authResult \<Rightarrow> bool" where
  "earned req poolID s r \<longleftrightarrow> (\<exists>t key user.
     entitled (QRespondToAuthChallenge (Some req)) s poolID (ra_ClientID req) t key user \<and> us_Enabled user
     \<and> tokensFor t key poolID (ra_ClientID req) user r)"

lemma newPassword_earned:
  assumes "ra_ChallengeName req = ''NEW_PASSWORD_REQUIRED''"
    and "handleNewPasswordRequired poolID (ra_ClientID req) (ra_Session req) (ra_ChallengeResponses req) s = (COk (BAuth r), s')"
  shows "earned req poolID s r"
proof -
  let ?rs = "ra_ChallengeResponses req"
  obtain keys key s1 cl username pool updated t where k: "GetOrCreatePoolKeys poolID s = (Inr (keys, key), s1)"
    "parseSessionToken (clib s1) (unixSeconds s1) (ra_Session req) key = Some cl"
    "sessionUser cl poolID (ra_ClientID req) ''NEW_PASSWORD_REQUIRED'' ?rs = Some username"
    "GetUserPool poolID s1 = Inr pool"
    "validatePassword (clib s1) (passwordPolicyFromPool (clib s1) pool) (param ?rs ''NEW_PASSWORD'')"
    and u: "UpdateUser poolID username
        (\<lambda>u s. if us_Status u \<noteq> ''FORCE_CHANGE_PASSWORD'' then (Inl WrongChallengeStatus, s)
          else bindC (derivePasswordCredentials poolID username (param ?rs ''NEW_PASSWORD'') s)
                 (\<lambda>cred s. (Inr ((withCredentials cred u)\<lparr>us_Status := ''CONFIRMED''\<rparr>), s))) s1 = (Inr updated, t)"
    and c: "completeAuth poolID (ra_ClientID req) updated key (pk_KeyID keys) t = (COk (BAuth r), s')"
    using assms(2) unfolding handleNewPasswordRequired_def
    by (elim withSession_ok) (fastforce simp: reply_ok Let_def split: option.splits if_splits cog_error.splits)
  from u obtain claimed where "GetUser poolID username s1 = Inr claimed" "us_Status claimed = ''FORCE_CHANGE_PASSWORD''"
    "us_Username updated = us_Username claimed"
    by (elim UpdateUser_ok) (auto simp: bindC_ok withCredentials_def split: if_splits)
  with completeAuth_tokens[OF c] k assms(1) show ?thesis unfolding earned_def by (metis by_new_password)
qed

lemma checkClaimSignature_error: "checkClaimSignature p u user A b blk ts sig s = Some e \<Longrightarrow> e \<noteq> COk x"
  by (auto simp: checkClaimSignature_def Let_def split: if_splits option.splits)

lemma verifier_earned:
  assumes "ra_ChallengeName req = ''PASSWORD_VERIFIER''"
    and "handlePasswordVerifierChallenge poolID (ra_ClientID req) (ra_Session req) (ra_ChallengeResponses req) s = (COk (BAuth r), s')"
  shows "earned req poolID s r"
proof -
  let ?rs = "ra_ChallengeResponses req"
  have no: "newPasswordChallenge key kid p c u t \<noteq> (COk (BAuth r), s')" for key kid p c u t
    by (auto simp: newPasswordChallenge_def challengeSession_def split: option.splits)
  obtain keys key t cl username where k: "GetOrCreatePoolKeys poolID s = (Inr (keys, key), t)"
    "parseSessionToken (clib t) (unixSeconds t) (ra_Session req) key = Some cl"
    "sessionUser cl poolID (ra_ClientID req) ''PASSWORD_VERIFIER'' ?rs = Some username"
    and body: "(case (bigSetString (claimStr cl ''srp_a''), decryptSRPPrivB (clib t) key (claimStr cl ''srp_b_priv'')) of
        (Some A, Some b) \<Rightarrow> reply (GetUser poolID username t, t) userErr (\<lambda>user s.
          case checkClaimSignature poolID username user (nat A) b (param ?rs ''PASSWORD_CLAIM_SECRET_BLOCK'')
              (param ?rs ''TIMESTAMP'') (param ?rs ''PASSWORD_CLAIM_SIGNATURE'') s of
            Some err \<Rightarrow> (err, s)
          | None \<Rightarrow> if us_Status user = ''FORCE_CHANGE_PASSWORD''
              then newPasswordChallenge key (pk_KeyID keys) poolID (ra_ClientID req) username s
              else completeAuth poolID (ra_ClientID req) user key (pk_KeyID keys) s)
      | _ \<Rightarrow> (internalErrorException, t)) = (COk (BAuth r), s')"
    using assms(2) unfolding handlePasswordVerifierChallenge_def Let_def
    by (auto elim!: sessionUser_ok split: if_split_asm)
  obtain A b where Ab: "bigSetString (claimStr cl ''srp_a'') = Some A" "decryptSRPPrivB (clib t) key (claimStr cl ''srp_b_priv'') = Some b"
    using body by (auto split: option.split_asm)
  let ?check = "\<lambda>u. checkClaimSignature poolID username u (nat A) b (param ?rs ''PASSWORD_CLAIM_SECRET_BLOCK'')
        (param ?rs ''TIMESTAMP'') (param ?rs ''PASSWORD_CLAIM_SIGNATURE'') t"
  obtain claimed where g: "GetUser poolID username t = Inr claimed"
    and rest: "(case ?check claimed of Some err \<Rightarrow> (err, t)
          | None \<Rightarrow> if us_Status claimed = ''FORCE_CHANGE_PASSWORD''
              then newPasswordChallenge key (pk_KeyID keys) poolID (ra_ClientID req) username t
              else completeAuth poolID (ra_ClientID req) claimed key (pk_KeyID keys) t) = (COk (BAuth r), s')"
    using body Ab by (auto simp: reply_ok)
  have ok: "?check claimed = None" using rest by (cases "?check claimed") (auto dest: checkClaimSignature_error)
  with rest no have c: "completeAuth poolID (ra_ClientID req) claimed key (pk_KeyID keys) t = (COk (BAuth r), s')"
    and st: "us_Status claimed \<noteq> ''FORCE_CHANGE_PASSWORD''" by (auto split: if_split_asm)
  note cl = g ok st
  from completeAuth_tokens[OF c] k Ab cl assms(1) show ?thesis unfolding earned_def by (metis by_signature)
qed

lemma code_earned:
  assumes "ra_ChallengeName req = ''SOFTWARE_TOKEN_MFA''"
    and "handleSoftwareTokenMFAChallenge poolID (ra_ClientID req) (ra_Session req) (ra_ChallengeResponses req) s = (COk (BAuth r), s')"
  shows "earned req poolID s r"
proof -
  let ?rs = "ra_ChallengeResponses req"
  let ?healed = "\<lambda>u. u\<lparr>us_SoftwareTokenMFAEnabled := True, us_PreferredMfaSetting := ''SOFTWARE_TOKEN_MFA''\<rparr>"
  obtain keys key s1 cl username where k: "GetOrCreatePoolKeys poolID s = (Inr (keys, key), s1)"
    "parseSessionToken (clib s1) (unixSeconds s1) (ra_Session req) key = Some cl"
    "sessionUser cl poolID (ra_ClientID req) ''SOFTWARE_TOKEN_MFA'' ?rs = Some username"
    and body: "(if param ?rs ''SOFTWARE_TOKEN_MFA_CODE'' = [] then (invalidParameter, s1)
       else reply (GetUser poolID username s1, s1) userErr (\<lambda>user s.
        reply (if us_SoftwareTokenMFAEnabled user then (Inr True, s)
               else (map_sum id (\<lambda>pool. up_MfaConfiguration pool = ''ON'') (GetUserPool poolID s), s)) internal (\<lambda>allowed s.
        if us_TOTPSecret user = [] \<or> \<not> allowed then (notAuthorized, s)
        else if \<not> us_Enabled user then (notAuthorized, s)
        else if \<not> verifyTOTP (clib s) (us_TOTPSecret user) (param ?rs ''SOFTWARE_TOKEN_MFA_CODE'') (unixSeconds s) then (codeMismatch, s)
        else reply (if us_SoftwareTokenMFAEnabled user then (Inr user, s)
                    else map_prod (map_sum id (\<lambda>_. ?healed user)) id
                           (UpdateUser poolID username (pureUpdate (\<lambda>u. Inr (?healed u))) s))
               userErr (\<lambda>user s. writeAuthResult poolID (ra_ClientID req) user key (pk_KeyID keys) True [] s)))) = (COk (BAuth r), s')"
    using assms(2) unfolding handleSoftwareTokenMFAChallenge_def Let_def by (elim sessionUser_ok) blast
  obtain claimed allowed s2 upd t where a: "GetUser poolID username s1 = Inr claimed"
    "(if us_SoftwareTokenMFAEnabled claimed then (Inr True, s1)
               else (map_sum id (\<lambda>pool. up_MfaConfiguration pool = ''ON'') (GetUserPool poolID s1), s1)) = (Inr allowed, s2)"
    "us_TOTPSecret claimed \<noteq> []" "us_Enabled claimed"
    "verifyTOTP (clib s2) (us_TOTPSecret claimed) (param ?rs ''SOFTWARE_TOKEN_MFA_CODE'') (unixSeconds s2)"
    and upd: "(if us_SoftwareTokenMFAEnabled claimed then (Inr claimed, s2)
                    else map_prod (map_sum id (\<lambda>_. ?healed claimed)) id
                           (UpdateUser poolID username (pureUpdate (\<lambda>u. Inr (?healed u))) s2)) = (Inr upd, t)"
    and w: "writeAuthResult poolID (ra_ClientID req) upd key (pk_KeyID keys) True [] t = (COk (BAuth r), s')"
    using body by (elim if_okE reply_okE) auto
  have s2: "s2 = s1" using a(2) by (auto split: if_split_asm)
  note k = k a(1,3,4) a(5)[unfolded s2]
  have "upd = claimed \<and> us_SoftwareTokenMFAEnabled claimed \<or> upd = ?healed claimed"
    using upd by (cases "UpdateUser poolID username (pureUpdate (\<lambda>u. Inr (?healed u))) s2"; cases "fst (UpdateUser poolID username (pureUpdate (\<lambda>u. Inr (?healed u))) s2)")
      (auto split: if_split_asm)
  then have u: "upd = claimed\<lparr>us_SoftwareTokenMFAEnabled := True, us_PreferredMfaSetting := us_PreferredMfaSetting upd\<rparr>"
    by (cases claimed) auto
  have "us_Enabled upd" using arg_cong[OF u, of us_Enabled] k(6) by simp
  with k u writeAuthResult_tokens[OF w] assms(1) show ?thesis unfolding earned_def by (metis by_code)
qed

lemma enrolment_earned:
  assumes "ra_ChallengeName req = ''MFA_SETUP''"
    and "handleMFASetupChallenge poolID (ra_ClientID req) (ra_Session req) (ra_ChallengeResponses req) s = (COk (BAuth r), s')"
  shows "earned req poolID s r"
proof -
  let ?rs = "ra_ChallengeResponses req"
  obtain keys key s1 cl username claimed user t where k: "GetOrCreatePoolKeys poolID s = (Inr (keys, key), s1)"
    "parseSessionToken (clib s1) (unixSeconds s1) (ra_Session req) key = Some cl"
    "sessionUser cl poolID (ra_ClientID req) ''MFA_SETUP'' ?rs = Some username"
    "claimStr cl ''verified_totp_secret'' \<noteq> []" "GetUser poolID username s1 = Inr claimed" "us_Enabled claimed"
    and u: "UpdateUser poolID username
       (pureUpdate (\<lambda>u. Inr (u\<lparr>us_TOTPSecret := claimStr cl ''verified_totp_secret'', us_SoftwareTokenMFAEnabled := True,
          us_PreferredMfaSetting := ''SOFTWARE_TOKEN_MFA''\<rparr>))) s1 = (Inr user, t)"
    and w: "writeAuthResult poolID (ra_ClientID req) user key (pk_KeyID keys) True [] t = (COk (BAuth r), s')"
    using assms(2) unfolding handleMFASetupChallenge_def Let_def
    by (elim withSession_ok) (fastforce simp: reply_ok split: option.split_asm if_split_asm)
  from u k have "us_Username user = us_Username claimed" "us_Sub user = us_Sub claimed" "us_Enabled user"
    by (auto elim!: UpdateUser_ok simp: pureUpdate_def)
  with k writeAuthResult_tokens[OF w] assms(1) show ?thesis unfolding earned_def by (metis by_enrolment)
qed

lemma respond_earned:
  assumes "handleRespondToAuthChallenge (Some req) s = (COk (BAuth r), s')"
  shows "\<exists>poolID. GetPoolIDForClient (ra_ClientID req) s = Inr poolID \<and> earned req poolID s r"
  using assms
  by (auto simp: handleRespondToAuthChallenge_def reply_ok Let_def split: if_splits
      dest: newPassword_earned verifier_earned code_earned enrolment_earned)

section \<open>A password login\<close>

definition toyCog :: cog where
  "toyCog = toyState (toyLib\<lparr>claimsJSON := (\<lambda>_. [])\<rparr>) [toyUser ''u'' ''pw''] (replicate 4 (Some (replicate 32 1)))"

definition toyLogin :: cog_request where
  "toyLogin = Q_login (QInitiateAuth (Some \<lparr>ia_ClientID = toyClient, ia_AuthFlow = ''USER_PASSWORD_AUTH'',
     ia_AuthParameters = [(''USERNAME'', ''u''), (''PASSWORD'', ''pw'')]\<rparr>))"

lemma toy_login: "case fst (dispatch_cog toyLogin toyCog) of COk (BAuth r) \<Rightarrow> True | _ \<Rightarrow> False"
  by code_simp

section \<open>Tokens\<close>



end
