(* ===== verification/Cog_SignOut_Theorems.thy ===== *)
theory Cog_SignOut_Theorems
  imports Cog_Login_Theorems Go_FS_Frame
begin

text \<open>
  Signing out everywhere: after \<open>GlobalSignOut\<close> no session of the user goes on. The loops over the refresh tokens of a pool, what
  they write and remove, and what the requests that follow find.
\<close>

section \<open>What a step of the storage touches\<close>

definition only :: "(path \<Rightarrow> bool) \<Rightarrow> cog \<Rightarrow> cog \<Rightarrow> bool" where
  "only P s s' \<longleftrightarrow> disk_wf s' \<and> d_fault s' = d_fault s \<and> clib s' = clib s \<and> cog_now s' = cog_now s
     \<and> (\<forall>p. \<not> P p \<longrightarrow> look s' p = look s p)"

definition keepsFiles :: "cog \<Rightarrow> cog \<Rightarrow> bool" where
  "keepsFiles s s' \<longleftrightarrow> (\<forall>p c. look s p = Some (File c) \<longrightarrow> (\<exists>c'. look s' p = Some (File c')))"

lemma only_refl: "disk_wf s \<Longrightarrow> only P s s" and keepsFiles_refl: "keepsFiles s s"
  by (simp_all add: only_def keepsFiles_def)

lemma only_trans: "only P s t \<Longrightarrow> only P t u \<Longrightarrow> only P s u"
  and keepsFiles_trans: "keepsFiles s t \<Longrightarrow> keepsFiles t u \<Longrightarrow> keepsFiles s u"
  by (auto simp: only_def keepsFiles_def)

lemma only_mono: "only P s t \<Longrightarrow> (\<And>p. P p \<Longrightarrow> Q p) \<Longrightarrow> only Q s t"
  by (auto simp: only_def)

lemma only_read:
  assumes "only P s s'" and "\<And>k. \<not> P (take k p)"
  shows "root_ReadFile s' p = root_ReadFile s p"
proof -
  have l: "look s' (take k p) = look s (take k p)" for k using assms by (simp add: only_def)
  have "look s' p = look s p" using l[of "length p"] by simp
  then show "root_ReadFile s' p = root_ReadFile s p"
    using assms(1) by (simp add: root_ReadFile_def root_walk_def blocked_def l only_def cong: sum.case_cong node.case_cong)
qed

lemma onlyI:
  assumes "disk_wf s'" and "d_fault s' = d_fault s \<and> clib s' = clib s \<and> cog_now s' = cog_now s"
    and "\<And>q. q \<noteq> p \<Longrightarrow> look s' q = look s q" and "P p"
  shows "only P s s'"
  using assms unfolding only_def by metis

lemma write_other_fields:
  "root_WriteFile p c s = (r, s') \<Longrightarrow> d_fault s' = d_fault s \<and> clib s' = clib s \<and> cog_now s' = cog_now s" for s :: cog
  by (auto simp: root_WriteFile_def put_def split: sum.splits node.splits if_splits)

lemma write_only:
  assumes "disk_wf s" and "writeJSON_cog (filepath_Join es) c s = (Inr (), s')" and "P (filepath_Join es)"
  shows "only P s s'" "keepsFiles s s'" "look s' (filepath_Join es) = Some (File (Some c))"
proof -
  let ?p = "filepath_Join es"
  have w: "root_WriteFile ?p c s = (None, s')"
    using assms(2) by (auto simp: writeJSON_cog_def fileDone_def split: prod.splits option.splits)
  show look: "look s' ?p = Some (File (Some c))" using write_None[OF w] by simp
  show "only P s s'"
    by (rule onlyI[where p = ?p]) (use wf_write[OF assms(1) clean_path_Join w] write_other_fields[OF w] write_other[OF w] assms(3) in auto)
  show "keepsFiles s s'" unfolding keepsFiles_def using look write_other[OF w] by metis
qed

lemma mkdir_only:
  assumes "disk_wf s" and "mkdirOk (filepath_Join es) s = (Inr (), s')" and "P (filepath_Join es)"
  shows "only P s s'" "keepsFiles s s'"
proof -
  let ?p = "filepath_Join es"
  obtain r where m: "root_Mkdir ?p s = (r, s')" and r: "r = None \<or> r = Some EExist"
    using assms(2) by (auto simp: mkdirOk_def fileDone_def split: prod.splits option.splits ioerr.splits)
  have o: "d_fault s' = d_fault s \<and> clib s' = clib s \<and> cog_now s' = cog_now s"
    using m by (auto simp: root_Mkdir_def put_def split: sum.splits node.splits if_splits option.splits)
  show "only P s s'" by (rule onlyI[where p = ?p]) (use wf_mkdir[OF assms(1) clean_path_Join m] o mkdir_other[OF m] assms(3) in auto)
  have "look s' ?p = look s ?p \<or> look s ?p = None"
    using m by (auto simp: root_Mkdir_def fs_simps split: sum.splits node.splits if_splits option.splits)
  then show "keepsFiles s s'" unfolding keepsFiles_def using mkdir_other[OF m] by (metis option.distinct(1))
qed

lemma remove_only:
  assumes "disk_wf s" and "fileDone (root_Remove p s) = (Inr (), s')" and "P p"
  shows "only P s s'" "look s' p = None"
proof -
  have m: "root_Remove p s = (None, s')" using assms(2) by (auto simp: fileDone_def split: prod.splits option.splits)
  have o: "d_fault s' = d_fault s \<and> clib s' = clib s \<and> cog_now s' = cog_now s"
    using m by (auto simp: root_Remove_def del_def split: sum.splits node.splits if_splits)
  show "only P s s'" by (rule onlyI[where p = p]) (use wf_remove[OF assms(1) m] o remove_other[OF m] assms(3) in auto)
  show "look s' p = None" using remove_None[OF m] by simp
qed

section \<open>Revoking the sessions of a user\<close>

definition inDir :: "string \<Rightarrow> string \<Rightarrow> path \<Rightarrow> bool" where
  "inDir poolID dir p \<longleftrightarrow> take 3 p = [''pools'', poolID, dir]"

lemma inDir_take: "inDir poolID d p \<Longrightarrow> d' \<noteq> d \<Longrightarrow> \<not> inDir poolID d' (take k p)"
  by (cases "k < 3") (auto simp: inDir_def take_Cons' min_def split: if_splits dest!: arg_cong[of _ _ length])

lemma json_plain: "CHR ''/'' \<notin> set x \<Longrightarrow> plain_elem (x @ ''.json'')"
  by (auto simp: plain_elem_def append_eq_Cons_conv)

lemma plain_paths:
  assumes "plain_elem poolID" and "CHR ''/'' \<notin> set x"
  shows "revokedJTIPath poolID x = [''pools'', poolID, ''revoked_jtis'', x @ ''.json'']"
    and "refreshTokenPath poolID x = [''pools'', poolID, ''refresh_tokens'', x @ ''.json'']"
    and "filepath_Join [''pools'', poolID, ''revoked_jtis''] = [''pools'', poolID, ''revoked_jtis'']"
    and "filepath_Join [''pools'', poolID, ''refresh_tokens''] = [''pools'', poolID, ''refresh_tokens'']"
  using assms json_plain[OF assms(2)]
  by (simp_all add: revokedJTIPath_def refreshTokenPath_def filepath_Join_plain plain_elem_def)

lemma TrimSuffix_set: "set (strings_TrimSuffix x y) \<subseteq> set x"
  by (auto simp: strings_TrimSuffix_def dest: in_set_takeD)

text \<open>The refresh token that an entry of the directory holds\<close>

definition tokenAt :: "string \<Rightarrow> cog \<Rightarrow> string \<Rightarrow> ioerr + refreshTokenData" where
  "tokenAt poolID s n = readJSON_cog (decodeRefresh s) s (refreshTokenPath poolID (strings_TrimSuffix n ''.json''))"

lemma tokenAt_only:
  assumes "only (inDir poolID ''revoked_jtis'') s s'" and "plain_elem poolID" and "CHR ''/'' \<notin> set n"
  shows "tokenAt poolID s' n = tokenAt poolID s n"
proof -
  have n: "CHR ''/'' \<notin> set (strings_TrimSuffix n ''.json'')" using assms(3) TrimSuffix_set by blast
  have u: "inDir poolID ''refresh_tokens'' (refreshTokenPath poolID (strings_TrimSuffix n ''.json''))"
    by (simp add: plain_paths[OF assms(2) n] inDir_def)
  have r: "root_ReadFile s' (refreshTokenPath poolID (strings_TrimSuffix n ''.json''))
      = root_ReadFile s (refreshTokenPath poolID (strings_TrimSuffix n ''.json''))"
    by (rule only_read[OF assms(1)]) (rule inDir_take[OF u], simp)
  have d: "decodeRefresh s' = decodeRefresh s"
    using assms(1) by (simp add: decodeRefresh_def only_def fun_eq_iff cong: cog_content.case_cong)
  show ?thesis by (simp add: tokenAt_def readJSON_cog_def r d)
qed

lemma ensureRevoked_only:
  assumes "disk_wf s" "plain_elem poolID" "(if ens then (Inr (), s) else ensureRevokedJTIsDir poolID s) = (Inr (), s')"
  shows "only (inDir poolID ''revoked_jtis'') s s'" "keepsFiles s s'"
  using assms mkdir_only[OF assms(1), of "[''pools'', poolID, ''revoked_jtis'']" s' "inDir poolID ''revoked_jtis''"]
    plain_paths(3)[OF assms(2), of "[]"]
  by (auto simp: ensureRevokedJTIsDir_def inDir_def only_refl keepsFiles_refl split: if_splits)

lemma revoked_write_only:
  assumes "disk_wf s" "plain_elem poolID" "CHR ''/'' \<notin> set jti"
    and "writeJSON_cog (revokedJTIPath poolID jti) (JRevoked e) s = (Inr (), s')"
  shows "only (inDir poolID ''revoked_jtis'') s s'" "keepsFiles s s'" "\<exists>c. look s' (revokedJTIPath poolID jti) = Some (File c)"
proof -
  have u: "inDir poolID ''revoked_jtis'' (revokedJTIPath poolID jti)" by (simp add: plain_paths[OF assms(2,3)] inDir_def)
  note w = write_only[OF assms(1) assms(4)[unfolded revokedJTIPath_def], of "inDir poolID ''revoked_jtis''", folded revokedJTIPath_def, OF u]
  show "only (inDir poolID ''revoked_jtis'') s s'" "keepsFiles s s'" "\<exists>c. look s' (revokedJTIPath poolID jti) = Some (File c)"
    using w by auto
qed

lemma revokeTokensOf_spec:
  assumes "revokeTokensOf poolID sub e ens es s = (Inr (), s')" and "disk_wf s" and "plain_elem poolID"
    and "\<forall>(n, d)\<in>set es. CHR ''/'' \<notin> set n"
    and "\<forall>n rt. (n, False) \<in> set es \<and> tokenAt poolID s n = Inr rt \<longrightarrow> CHR ''/'' \<notin> set (rt_OriginJTI rt)"
  shows "only (inDir poolID ''revoked_jtis'') s s' \<and> keepsFiles s s'
    \<and> (\<forall>n rt. (n, False) \<in> set es \<and> tokenAt poolID s n = Inr rt \<and> rt_Sub rt = sub \<and> rt_OriginJTI rt \<noteq> []
         \<longrightarrow> (\<exists>c. look s' (revokedJTIPath poolID (rt_OriginJTI rt)) = Some (File c)))"
  using assms
proof (induction es arbitrary: ens s)
  case Nil
  then show ?case by (simp add: only_refl keepsFiles_refl)
next
  case (Cons x es)
  obtain n d where x: "x = (n, d)" by force
  show ?case
  proof (cases d)
    case True
    then show ?thesis using Cons.IH[of ens s] Cons.prems x by auto
  next
    case False
    then obtain rt where rt: "tokenAt poolID s n = Inr rt"
      using Cons.prems(1) x by (auto simp: tokenAt_def split: sum.splits)
    show ?thesis
    proof (cases "rt_Sub rt \<noteq> sub \<or> rt_OriginJTI rt = []")
      case True
      then show ?thesis using Cons.IH[of ens s] Cons.prems x False rt by (auto simp: tokenAt_def)
    next
      case skip: False
      obtain s1 s2 where st: "(if ens then (Inr (), s) else ensureRevokedJTIsDir poolID s) = (Inr (), s1)"
        "writeJSON_cog (revokedJTIPath poolID (rt_OriginJTI rt)) (JRevoked e) s1 = (Inr (), s2)"
        "revokeTokensOf poolID sub e True es s2 = (Inr (), s')"
        using Cons.prems(1) x False rt skip by (auto simp: tokenAt_def bindC_ok)
      have j: "CHR ''/'' \<notin> set (rt_OriginJTI rt)" using Cons.prems(5) x False rt by auto
      note e1 = ensureRevoked_only[OF Cons.prems(2,3) st(1)]
      have wf1: "disk_wf s1" using e1 by (simp add: only_def)
      note w = revoked_write_only[OF wf1 Cons.prems(3) j st(2)]
      have o: "only (inDir poolID ''revoked_jtis'') s s2" using e1(1) w(1) by (rule only_trans)
      have k: "keepsFiles s s2" using e1(2) w(2) by (rule keepsFiles_trans)
      have same: "tokenAt poolID s2 m = tokenAt poolID s m" if "(m, False) \<in> set es" for m
        using that Cons.prems(4) by (intro tokenAt_only[OF o Cons.prems(3)]) auto
      have later: "\<forall>n rt. (n, False) \<in> set es \<and> tokenAt poolID s2 n = Inr rt \<longrightarrow> CHR ''/'' \<notin> set (rt_OriginJTI rt)"
        using same Cons.prems(5) by (metis list.set_intros(2))
      have ih: "only (inDir poolID ''revoked_jtis'') s2 s' \<and> keepsFiles s2 s'
        \<and> (\<forall>n rt. (n, False) \<in> set es \<and> tokenAt poolID s2 n = Inr rt \<and> rt_Sub rt = sub \<and> rt_OriginJTI rt \<noteq> []
             \<longrightarrow> (\<exists>c. look s' (revokedJTIPath poolID (rt_OriginJTI rt)) = Some (File c)))"
        by (rule Cons.IH[OF st(3) _ Cons.prems(3)]) (use o Cons.prems(4) later in \<open>auto simp: only_def\<close>)
      have "\<exists>c. look s' (revokedJTIPath poolID (rt_OriginJTI rt)) = Some (File c)"
        using w(3) ih by (auto simp: keepsFiles_def)
      moreover have "\<exists>c. look s' (revokedJTIPath poolID (rt_OriginJTI rm)) = Some (File c)"
        if "(m, False) \<in> set es" "tokenAt poolID s m = Inr rm" "rt_Sub rm = sub" "rt_OriginJTI rm \<noteq> []" for m rm
        using ih same that by metis
      ultimately show ?thesis using ih o k rt x by (auto intro: only_trans keepsFiles_trans)
    qed
  qed
qed

section \<open>Deleting the refresh tokens of a user\<close>

lemma refresh_path:
  assumes "plain_elem poolID" and "CHR ''/'' \<notin> set n"
  shows "refreshTokenPath poolID (strings_TrimSuffix n ''.json'') = [''pools'', poolID, ''refresh_tokens'', strings_TrimSuffix n ''.json'' @ ''.json'']"
  using plain_paths(2)[OF assms(1)] assms(2) TrimSuffix_set by blast

lemma tokenAt_removed:
  assumes o: "only (\<lambda>p. p = refreshTokenPath poolID (strings_TrimSuffix m ''.json'')) s s'"
    and plain: "plain_elem poolID" "CHR ''/'' \<notin> set n" "CHR ''/'' \<notin> set m"
    and other: "refreshTokenPath poolID (strings_TrimSuffix n ''.json'') \<noteq> refreshTokenPath poolID (strings_TrimSuffix m ''.json'')"
  shows "tokenAt poolID s' n = tokenAt poolID s n"
proof -
  have ne: "take k (refreshTokenPath poolID (strings_TrimSuffix n ''.json'')) \<noteq> refreshTokenPath poolID (strings_TrimSuffix m ''.json'')" for k
    using other refresh_path[OF plain(1,2)] refresh_path[OF plain(1,3)]
    by (cases "k < 4") (auto simp: take_Cons' dest!: arg_cong[of _ _ length])
  have d: "decodeRefresh s' = decodeRefresh s"
    using o by (simp add: decodeRefresh_def only_def fun_eq_iff cong: cog_content.case_cong)
  show ?thesis using only_read[OF o ne] by (simp add: tokenAt_def readJSON_cog_def d)
qed

lemma deleteTokensOf_spec:
  assumes "deleteTokensOf poolID sub es s = (Inr (), s')" and "disk_wf s" and "plain_elem poolID"
    and "\<forall>(n, d)\<in>set es. CHR ''/'' \<notin> set n"
  shows "only (inDir poolID ''refresh_tokens'') s s' \<and> (\<forall>p. look s p = None \<longrightarrow> look s' p = None)
    \<and> (\<forall>n rt. (n, False) \<in> set es \<and> tokenAt poolID s n = Inr rt \<and> rt_Sub rt = sub
         \<longrightarrow> look s' (refreshTokenPath poolID (strings_TrimSuffix n ''.json'')) = None)"
  using assms
proof (induction es arbitrary: s)
  case Nil
  then show ?case by (simp add: only_refl)
next
  case (Cons x es)
  obtain n d where x: "x = (n, d)" by force
  let ?p = "\<lambda>n. refreshTokenPath poolID (strings_TrimSuffix n ''.json'')"
  show ?case
  proof (cases d)
    case True
    then show ?thesis using Cons.IH[of s] Cons.prems x by auto
  next
    case False
    then obtain rt where rt: "tokenAt poolID s n = Inr rt"
      using Cons.prems(1) x by (auto simp: tokenAt_def Let_def split: sum.splits)
    have n: "CHR ''/'' \<notin> set n" using Cons.prems(4) x by auto
    show ?thesis
    proof (cases "rt_Sub rt = sub")
      case other: False
      then show ?thesis using Cons.IH[of s] Cons.prems x False rt by (auto simp: tokenAt_def Let_def)
    next
      case mine: True
      obtain s1 where st: "fileDone (root_Remove (?p n) s) = (Inr (), s1)" "deleteTokensOf poolID sub es s1 = (Inr (), s')"
        using Cons.prems(1) x False rt mine by (auto simp: tokenAt_def bindC_ok Let_def)
      note r = remove_only[OF Cons.prems(2) st(1), of "\<lambda>p. p = ?p n", OF refl]
      have o: "only (inDir poolID ''refresh_tokens'') s s1"
        by (rule only_mono[OF r(1)]) (simp add: refresh_path[OF Cons.prems(3) n] inDir_def)
      have ih: "only (inDir poolID ''refresh_tokens'') s1 s' \<and> (\<forall>p. look s1 p = None \<longrightarrow> look s' p = None)
        \<and> (\<forall>n rt. (n, False) \<in> set es \<and> tokenAt poolID s1 n = Inr rt \<and> rt_Sub rt = sub \<longrightarrow> look s' (?p n) = None)"
        by (rule Cons.IH[OF st(2) _ Cons.prems(3)]) (use r Cons.prems(4) in \<open>auto simp: only_def\<close>)
      have gone: "look s' (?p n) = None" using ih r(2) by blast
      have none: "look s' p = None" if "look s p = None" for p
        using that ih r by (cases "p = ?p n") (auto simp: only_def)
      have "look s' (?p m) = None" if m: "(m, False) \<in> set es" "tokenAt poolID s m = Inr rm" "rt_Sub rm = sub" for m rm
      proof (cases "?p m = ?p n")
        case False
        have "CHR ''/'' \<notin> set m" using m(1) Cons.prems(4) by auto
        then have "tokenAt poolID s1 m = Inr rm" using tokenAt_removed[OF r(1) Cons.prems(3) _ n False] m(2) by simp
        then show ?thesis using ih m by blast
      qed (use gone in simp)
      then show ?thesis using ih o gone none x by (auto intro: only_trans)
    qed
  qed
qed

section \<open>Signing out everywhere\<close>

lemma TrimSuffix_append [simp]: "strings_TrimSuffix (x @ y) y = x"
  by (simp add: strings_TrimSuffix_def has_prefix_def)

lemma entry_of_token:
  assumes wf: "disk_wf s" and plain: "plain_elem poolID" "CHR ''/'' \<notin> set tok"
    and rt: "GetRefreshToken poolID tok s = Inr rt" and es: "root_ReadDir s [''pools'', poolID, ''refresh_tokens''] = Inr es"
  shows "(tok @ ''.json'', False) \<in> set es" "tokenAt poolID s (tok @ ''.json'') = Inr rt"
proof -
  let ?p = "[''pools'', poolID, ''refresh_tokens'', tok @ ''.json'']"
  have r: "readJSON_cog (decodeRefresh s) s (refreshTokenPath poolID tok) = Inr rt"
    using rt by (auto simp: GetRefreshToken_def missingAs_def split: sum.splits if_splits)
  then show "tokenAt poolID s (tok @ ''.json'') = Inr rt" by (simp add: tokenAt_def)
  have "\<exists>c. root_ReadFile s ?p = Inr c" using r plain_paths(2)[OF plain] by (auto simp: readJSON_cog_def split: sum.splits)
  then obtain c where "look s ?p = Some (File c)"
    by (auto simp: root_ReadFile_def dest!: root_walk_Inr split: if_splits sum.splits node.splits)
  moreover have "es = entries s [''pools'', poolID, ''refresh_tokens'']"
    using es by (auto simp: root_ReadDir_def split: if_splits sum.splits node.splits)
  ultimately show "(tok @ ''.json'', False) \<in> set es" using entries_mem[OF wf] by fastforce
qed

lemma entries_no_slash:
  assumes "disk_wf s" and "root_ReadDir s p = Inr es"
  shows "\<forall>(n, d)\<in>set es. CHR ''/'' \<notin> set n"
proof -
  have es: "es = entries s p" using assms(2) by (auto simp: root_ReadDir_def split: if_splits sum.splits node.splits)
  have "CHR ''/'' \<notin> set n" if m: "(n, d) \<in> set es" for n d
  proof -
    obtain x where "look s (p @ [n]) = Some x" using m[unfolded es entries_mem[OF assms(1)]] by blast
    from disk_wf_plain[OF assms(1) this] show ?thesis by (simp add: plain_elem_def)
  qed
  then show ?thesis by blast
qed

lemma revoked_refused:
  assumes "\<exists>c. look s (revokedJTIPath poolID jti) = Some (File c)" and "disk_wf s" and "jti \<noteq> []"
  shows "\<exists>e. checkTokenNotRevoked poolID j jti s = Some e \<and> (e = notAuthorized \<or> e = internalErrorException)"
proof -
  have "IsAccessTokenRevoked poolID jti s = Inr True \<or> (\<exists>e. IsAccessTokenRevoked poolID jti s = Inl e)"
    using assms(1) root_walk_Some[OF assms(2)] by (auto simp: IsAccessTokenRevoked_def root_Stat_def)
  then have one: "\<exists>e. notRevoked poolID [jti] s = Some e \<and> (e = notAuthorized \<or> e = internalErrorException)"
    using assms(3) by auto
  show ?thesis
  proof (cases "j = []")
    case True
    then show ?thesis using one by (simp add: checkTokenNotRevoked_def)
  next
    case False
    show ?thesis
    proof (cases "IsAccessTokenRevoked poolID j s")
      case (Inl e)
      then show ?thesis using False by (simp add: checkTokenNotRevoked_def)
    next
      case (Inr b)
      then show ?thesis using False one by (cases b) (simp_all add: checkTokenNotRevoked_def)
    qed
  qed
qed

definition originsPlain :: "string \<Rightarrow> cog \<Rightarrow> bool" where
  "originsPlain poolID s \<longleftrightarrow>
     list_all (\<lambda>(n, d). d \<or> (case tokenAt poolID s n of Inr rt \<Rightarrow> CHR ''/'' \<notin> set (rt_OriginJTI rt) | Inl _ \<Rightarrow> True))
       (entries s [''pools'', poolID, ''refresh_tokens''])"

lemma withToken_ok:
  assumes "withToken token k s = (COk b, s')" and "poolIDFromToken token s = Some poolID" and "GetPoolKeys poolID s = Inr (keys, key)"
    and "validateAccessJWT token key s = Some (sub, jti, origin)"
  shows "k poolID sub origin s = (COk b, s')"
  using assms by (auto simp: withToken_def poolKey_def dest: check_error split: option.split_asm)

lemma signOut_steps:
  assumes "handleGlobalSignOut (Some token) s = (COk b, s')" and "poolIDFromToken token s = Some poolID"
    and "GetPoolKeys poolID s = Inr (keys, key)" and "validateAccessJWT token key s = Some (sub, jti, origin)"
  obtains s1 s2 e where "RevokeOriginJTIsForSub poolID sub e s = (Inr (), s1)"
    "(if origin \<noteq> [] then RevokeAccessToken poolID origin e s1 else (Inr (), s1)) = (Inr (), s2)"
    "DeleteRefreshTokensBySub poolID sub s2 = (Inr (), s')"
proof -
  have "reply (RevokeOriginJTIsForSub poolID sub (nowUnix s + 3600000) s) internal (\<lambda>_ s'.
      reply (if origin \<noteq> [] then RevokeAccessToken poolID origin (nowUnix s + 3600000) s' else (Inr (), s')) internal (\<lambda>_ s.
      reply (DeleteRefreshTokensBySub poolID sub s) internal (\<lambda>_ s. (COk BEmpty, s)))) = (COk b, s')"
    using withToken_ok[OF _ assms(2-4)] assms(1) by (simp add: handleGlobalSignOut_def Let_def)
  then show ?thesis using that by (auto simp: reply_ok)
qed

lemma RevokeAccessToken_only:
  assumes "disk_wf s" "plain_elem poolID" "CHR ''/'' \<notin> set jti"
    and "(if jti \<noteq> [] then RevokeAccessToken poolID jti e s else (Inr (), s)) = (Inr (), s')"
  shows "only (inDir poolID ''revoked_jtis'') s s'" "keepsFiles s s'"
proof -
  have "only (inDir poolID ''revoked_jtis'') s s' \<and> keepsFiles s s'"
  proof (cases "jti = []")
    case False
    then obtain t where t: "(if False then (Inr (), s) else ensureRevokedJTIsDir poolID s) = (Inr (), t)"
      "writeJSON_cog (revokedJTIPath poolID jti) (JRevoked e) t = (Inr (), s')"
      using assms(4) by (auto simp: RevokeAccessToken_def bindC_ok)
    note e = ensureRevoked_only[OF assms(1,2) t(1)]
    have "disk_wf t" using e(1) by (simp add: only_def)
    note w = revoked_write_only[OF this assms(2,3) t(2)]
    show ?thesis using e w only_trans keepsFiles_trans by blast
  qed (use assms in \<open>simp add: only_refl keepsFiles_refl\<close>)
  then show "only (inDir poolID ''revoked_jtis'') s s'" "keepsFiles s s'" by auto
qed

lemma listing_of_tokens:
  assumes wf: "disk_wf s" and plain: "plain_elem poolID" "CHR ''/'' \<notin> set tok"
    and rt: "GetRefreshToken poolID tok s = Inr rt"
    and ok: "\<And>e. root_ReadDir s [''pools'', poolID, ''refresh_tokens''] = Inl e \<Longrightarrow> e = ENotExist"
  shows "\<exists>es. root_ReadDir s [''pools'', poolID, ''refresh_tokens''] = Inr es"
proof -
  let ?dir = "[''pools'', poolID, ''refresh_tokens'']"
  have "\<exists>c. root_ReadFile s (refreshTokenPath poolID tok) = Inr c"
    using rt by (auto simp: GetRefreshToken_def missingAs_def readJSON_cog_def split: sum.splits if_splits)
  then obtain c where "look s (?dir @ [tok @ ''.json'']) = Some (File c)"
    unfolding plain_paths(2)[OF plain]
    by (auto simp: root_ReadFile_def dest!: root_walk_Inr split: if_splits sum.splits node.splits)
  then have "look s ?dir = Some Dir" using disk_wf_prefix[OF wf, of ?dir "[tok @ ''.json'']"] by simp
  then have "root_walk s ?dir = Inr Dir" by (rule root_walk_Some[OF wf])
  then show ?thesis using ok by (auto simp: root_ReadDir_def split: if_splits)
qed

lemma signed_out:
  assumes out: "handleGlobalSignOut (Some token) s = (COk b, s')"
    and who: "poolIDFromToken token s = Some poolID" "GetPoolKeys poolID s = Inr (keys, key)"
      "validateAccessJWT token key s = Some (sub, jti, origin)"
    and plain: "disk_wf s" "plain_elem poolID" "originsPlain poolID s" "CHR ''/'' \<notin> set origin" "CHR ''/'' \<notin> set tok"
    and rt: "GetRefreshToken poolID tok s = Inr rt" "rt_Sub rt = sub"
  shows "disk_wf s' \<and> look s' (refreshTokenPath poolID tok) = None
    \<and> (rt_OriginJTI rt \<noteq> [] \<longrightarrow> (\<exists>c. look s' (revokedJTIPath poolID (rt_OriginJTI rt)) = Some (File c)))"
proof -
  let ?dir = "[''pools'', poolID, ''refresh_tokens'']"
  note dir = plain_paths(4)[OF plain(2,5)]
  obtain s1 s2 e where st: "RevokeOriginJTIsForSub poolID sub e s = (Inr (), s1)"
    "(if origin \<noteq> [] then RevokeAccessToken poolID origin e s1 else (Inr (), s1)) = (Inr (), s2)"
    "DeleteRefreshTokensBySub poolID sub s2 = (Inr (), s')"
    using signOut_steps[OF out who] by blast
  have eq: "GetRefreshToken poolID tok t = Inr rt \<longleftrightarrow> tokenAt poolID t (tok @ ''.json'') = Inr rt" for t
    by (auto simp: GetRefreshToken_def tokenAt_def missingAs_def split: sum.splits if_splits)
  obtain es where es: "root_ReadDir s ?dir = Inr es"
    using listing_of_tokens[OF plain(1,2,5) rt(1)] st(1) by (auto simp: RevokeOriginJTIsForSub_def dir split: sum.splits if_splits)
  have ent: "es = entries s ?dir" using es by (auto simp: root_ReadDir_def split: if_splits sum.splits node.splits)
  have j: "\<forall>n rt. (n, False) \<in> set es \<and> tokenAt poolID s n = Inr rt \<longrightarrow> CHR ''/'' \<notin> set (rt_OriginJTI rt)"
    using plain(3) by (fastforce simp: originsPlain_def list_all_iff ent)
  have loop: "revokeTokensOf poolID sub e False es s = (Inr (), s1)" using st(1) es by (simp add: RevokeOriginJTIsForSub_def dir)
  note r = revokeTokensOf_spec[OF loop plain(1,2) entries_no_slash[OF plain(1) es] j]
  have wf1: "disk_wf s1" using r by (simp add: only_def)
  note a = RevokeAccessToken_only[OF wf1 plain(2,4) st(2)]
  have o: "only (inDir poolID ''revoked_jtis'') s s2" using r a(1) only_trans by blast
  have wf2: "disk_wf s2" using o by (simp add: only_def)
  have rev: "\<exists>c. look s2 (revokedJTIPath poolID (rt_OriginJTI rt)) = Some (File c)" if "rt_OriginJTI rt \<noteq> []"
    using r a(2) entry_of_token[OF plain(1,2,5) rt(1) es] rt(2) that unfolding keepsFiles_def by blast
  have rt2: "GetRefreshToken poolID tok s2 = Inr rt"
    using rt(1) tokenAt_only[OF o plain(2), of "tok @ ''.json''"] plain(5) by (simp add: eq)
  obtain es2 where es2: "root_ReadDir s2 ?dir = Inr es2"
    using listing_of_tokens[OF wf2 plain(2,5) rt2] st(3) by (auto simp: DeleteRefreshTokensBySub_def dir split: sum.splits if_splits)
  have loop2: "deleteTokensOf poolID sub es2 s2 = (Inr (), s')" using st(3) es2 by (simp add: DeleteRefreshTokensBySub_def dir)
  note d = deleteTokensOf_spec[OF loop2 wf2 plain(2) entries_no_slash[OF wf2 es2]]
  have gone: "look s' (refreshTokenPath poolID tok) = None"
    using d entry_of_token[OF wf2 plain(2,5) rt2 es2] rt(2) TrimSuffix_append[of tok "''.json''"] by metis
  have "\<not> inDir poolID ''refresh_tokens'' (revokedJTIPath poolID (rt_OriginJTI rt))"
  proof -
    have "CHR ''/'' \<notin> set (rt_OriginJTI rt)" using j entry_of_token[OF plain(1,2,5) rt(1) es] by blast
    then show ?thesis using plain_paths(1)[OF plain(2)] by (simp add: inDir_def)
  qed
  then show ?thesis using d gone rev by (auto simp: only_def)
qed

section \<open>A user who signs out\<close>

definition signClaims :: claims where
  "signClaims = accessClaimsOf 0 100 toyPool toyClient (toyUser ''u'' ''pw'') [] ''o'' ''j''"

definition signToken :: string where
  "signToken = b64url [] @ ''.'' @ b64url (encClaims signClaims) @ ''.'' @ b64url [0x4B]"

definition signRefresh :: refreshTokenData where
  "signRefresh = \<lparr>rt_Token = ''t'', rt_PoolID = toyPool, rt_ClientID = toyClient, rt_Username = ''u'', rt_Sub = ''u'',
     rt_IssuedAt = 0, rt_ExpiresAt = 0, rt_OriginJTI = ''o''\<rparr>"

definition signCog :: cog where
  "signCog = \<lparr>d_fs = toyDisk toyLib [toyUser ''u'' ''pw'']
       @ [([''pools'', toyPool, ''refresh_tokens''], Dir), ([''pools'', toyPool, ''refresh_tokens'', ''t.json''], File (Some (JRefresh signRefresh)))],
     d_fault = (\<lambda>_ _. False), clib = toyLib, cog_rand = [], cog_now = 0\<rparr>"

definition disk_check :: "cog \<Rightarrow> bool" where
  "disk_check s \<longleftrightarrow> distinct (map fst (d_fs s)) \<and> list_all (\<lambda>(p, _). p \<noteq> [] \<and> list_all plain_elem p
     \<and> (case look s (butlast p) of Some Dir \<Rightarrow> True | _ \<Rightarrow> False)) (d_fs s)"

lemma disk_check_wf: "disk_check s \<Longrightarrow> disk_wf s"
  unfolding disk_wf_def
proof (intro conjI allI impI)
  assume c: "disk_check s"
  show "distinct (map fst (d_fs s))" using c by (simp add: disk_check_def)
  show "[] \<notin> fst ` set (d_fs s)" using c by (auto simp: disk_check_def list_all_iff)
  have m: "list_all plain_elem p \<and> look s (butlast p) = Some Dir" if l: "look s p \<noteq> None" for p
  proof (cases "p = []")
    case False
    obtain n where "look s p = Some n" using l by blast
    then have "(p, n) \<in> set (d_fs s)" using False by (simp add: look_def map_of_SomeD)
    then show ?thesis using c by (auto simp: disk_check_def list_all_iff split: option.splits node.splits)
  qed simp
  show "list_all plain_elem p" "look s (butlast p) = Some Dir" if "look s p \<noteq> None" for p
    using m[OF that] by auto
qed

lemma toyLib_reads:
  "verifyJWT toyLib (b64url h @ ''.'' @ b64url (encClaims cl) @ ''.'' @ b64url k) k = Some cl"
  "parseRawClaims toyLib (b64url h @ ''.'' @ b64url (encClaims cl) @ ''.'' @ b64url k) = Some cl"
proof -
  have "split_char (CHR ''.'') (b64url h @ ''.'' @ b64url (encClaims cl) @ ''.'' @ b64url k) = [b64url h, b64url (encClaims cl), b64url k]"
    by (simp add: split_char_append split_char_none b64url_no_dot)
  then show "verifyJWT toyLib (b64url h @ ''.'' @ b64url (encClaims cl) @ ''.'' @ b64url k) k = Some cl"
    "parseRawClaims toyLib (b64url h @ ''.'' @ b64url (encClaims cl) @ ''.'' @ b64url k) = Some cl"
    by (simp_all add: verifyJWT_def parseRawClaims_def b64url_roundtrip toyLib_def decClaims_enc)
qed

lemma signCog_facts:
  "disk_check signCog \<and> plain_elem toyPool \<and> originsPlain toyPool signCog
   \<and> GetRefreshToken toyPool ''t'' signCog = Inr signRefresh \<and> GetPoolKeys toyPool signCog = Inr (toyKeys, [0x4B])
   \<and> extractPoolID (claimStr signClaims ''iss'') = toyPool \<and> toyPool \<noteq> []
   \<and> claimNum signClaims ''exp'' = Some 100 \<and> claimStr signClaims ''token_use'' = ''access'' \<and> claimStr signClaims ''sub'' = ''u''
   \<and> claimStr signClaims ''jti'' = ''j'' \<and> claimStr signClaims ''origin_jti'' = ''o''
   \<and> checkTokenNotRevoked toyPool ''j'' ''o'' signCog = None"
  by code_simp

lemma signCog_out:
  "case RevokeOriginJTIsForSub toyPool ''u'' 3600000 signCog of
     (Inr _, s1) \<Rightarrow> (case RevokeAccessToken toyPool ''o'' 3600000 s1 of
        (Inr _, s2) \<Rightarrow> (case DeleteRefreshTokensBySub toyPool ''u'' s2 of (Inr _, _) \<Rightarrow> True | _ \<Rightarrow> False) | _ \<Rightarrow> False) | _ \<Rightarrow> False"
  by code_simp

lemma signCog_token:
  "poolIDFromToken signToken signCog = Some toyPool" "validateAccessJWT signToken [0x4B] signCog = Some (''u'', ''j'', ''o'')"
  "\<exists>s'. handleGlobalSignOut (Some signToken) signCog = (COk BEmpty, s')"
proof -
  have tk: "verifyJWT toyLib signToken [0x4B] = Some signClaims" "parseRawClaims toyLib signToken = Some signClaims"
    unfolding signToken_def by (rule toyLib_reads)+
  have lib: "clib signCog = toyLib" "cog_now signCog = 0" by (simp_all add: signCog_def)
  show p: "poolIDFromToken signToken signCog = Some toyPool"
    using signCog_facts by (simp add: poolIDFromToken_def lib tk)
  show v: "validateAccessJWT signToken [0x4B] signCog = Some (''u'', ''j'', ''o'')"
    using signCog_facts by (simp add: validateAccessJWT_def lib tk unixSeconds_def)
  obtain s1 s2 s3 where "RevokeOriginJTIsForSub toyPool ''u'' 3600000 signCog = (Inr (), s1)"
    "RevokeAccessToken toyPool ''o'' 3600000 s1 = (Inr (), s2)" "DeleteRefreshTokensBySub toyPool ''u'' s2 = (Inr (), s3)"
    using signCog_out by (auto split: prod.split_asm sum.split_asm)
  then show "\<exists>s'. handleGlobalSignOut (Some signToken) signCog = (COk BEmpty, s')"
    using p v signCog_facts by (simp add: handleGlobalSignOut_def withToken_def poolKey_def nowUnix_def lib)
qed

section \<open>The theorem\<close>

text \<open>
  C12. \<open>GlobalSignOut\<close> ends every session of the user. Let it succeed with an access token of a user. Then every refresh token of that
  user that was stored in the pool is refused by \<open>InitiateAuth\<close>, and every access token of the family of such a refresh token
  (the tokens with its origin JTI) is refused by the checks with which all requests with an access token start. The directory is a tree, and
  neither the id of the pool nor the stored origin JTIs hold a path separator.
\<close>

theorem global_sign_out:
  assumes out: "handleGlobalSignOut (Some token) s = (COk b, s')"
    and who: "poolIDFromToken token s = Some poolID" "GetPoolKeys poolID s = Inr (keys, key)"
      "validateAccessJWT token key s = Some (sub, jti, origin)"
    and plain: "disk_wf s" "plain_elem poolID" "originsPlain poolID s" "CHR ''/'' \<notin> set origin" "CHR ''/'' \<notin> set tok"
    and rt: "GetRefreshToken poolID tok s = Inr rt" "rt_Sub rt = sub" "rt_OriginJTI rt \<noteq> []"
  shows "fst (handleRefreshTokenAuth poolID clientID [(''REFRESH_TOKEN'', tok)] s') \<in> {notAuthorized, invalidParameter}
    \<and> (\<forall>token' k keys' key' sub' jti'. poolIDFromToken token' s' = Some poolID \<and> GetPoolKeys poolID s' = Inr (keys', key')
         \<and> validateAccessJWT token' key' s' = Some (sub', jti', rt_OriginJTI rt)
         \<longrightarrow> fst (withToken token' k s') \<in> {notAuthorized, internalErrorException})"
proof -
  note g = signed_out[OF out who plain rt(1,2)]
  have "\<not> (\<exists>x. GetRefreshToken poolID tok s' = Inr x)"
    using g by (auto simp: GetRefreshToken_def missingAs_def readJSON_cog_def root_ReadFile_def dest!: root_walk_Inr
        split: sum.splits if_splits node.splits)
  then have "fst (handleRefreshTokenAuth poolID clientID [(''REFRESH_TOKEN'', tok)] s') \<in> {notAuthorized, invalidParameter}"
    by (cases "GetRefreshToken poolID tok s'") (auto simp: handleRefreshTokenAuth_def param_def)
  moreover have "fst (withToken token' k s') \<in> {notAuthorized, internalErrorException}"
    if t: "poolIDFromToken token' s' = Some poolID" "GetPoolKeys poolID s' = Inr (keys', key')"
      "validateAccessJWT token' key' s' = Some (sub', jti', rt_OriginJTI rt)" for token' k keys' key' sub' jti'
    using revoked_refused[of s' poolID "rt_OriginJTI rt" jti'] g rt(3) t by (auto simp: withToken_def poolKey_def)
  ultimately show ?thesis by blast
qed

theorem global_sign_out_witness:
  "\<exists>s'. handleGlobalSignOut (Some signToken) signCog = (COk BEmpty, s')
    \<and> fst (handleRefreshTokenAuth toyPool toyClient [(''REFRESH_TOKEN'', ''t'')] s') \<in> {notAuthorized, invalidParameter}
    \<and> (\<forall>token' k keys' key' sub' jti'. poolIDFromToken token' s' = Some toyPool \<and> GetPoolKeys toyPool s' = Inr (keys', key')
         \<and> validateAccessJWT token' key' s' = Some (sub', jti', ''o'')
         \<longrightarrow> fst (withToken token' k s') \<in> {notAuthorized, internalErrorException})"
proof -
  obtain s' where s': "handleGlobalSignOut (Some signToken) signCog = (COk BEmpty, s')" using signCog_token(3) by blast
  have "fst (handleRefreshTokenAuth toyPool toyClient [(''REFRESH_TOKEN'', ''t'')] s') \<in> {notAuthorized, invalidParameter}
    \<and> (\<forall>token' k keys' key' sub' jti'. poolIDFromToken token' s' = Some toyPool \<and> GetPoolKeys toyPool s' = Inr (keys', key')
         \<and> validateAccessJWT token' key' s' = Some (sub', jti', rt_OriginJTI signRefresh)
         \<longrightarrow> fst (withToken token' k s') \<in> {notAuthorized, internalErrorException})"
    by (rule global_sign_out[OF s' signCog_token(1) _ signCog_token(2)])
       (use signCog_facts disk_check_wf in \<open>auto simp: signRefresh_def\<close>)
  then show ?thesis using s' by (auto simp: signRefresh_def)
qed

end
