(* ===== verification/Ddb_Stream_Theorems.thy ===== *)
theory Ddb_Stream_Theorems
  imports Ddb_Item_Theorems
begin

text \<open>
  Streams: what a write emits, that the rewriting of a stream file is atomic, that sequence numbers
  increase and that iterators find their position by them, and that a restart restores from the
  files what the buffers held.
\<close>

section \<open>Rewriting a file\<close>

lemma top_plain:
  assumes "CHR ''/'' \<notin> set t"
  shows "tableMetaPath t = [t @ ''.table.json'']" "streamFilePath t = [t @ ''.stream.jsonl'']"
    "streamTempPath t = [t @ ''.stream.jsonl.tmp'']"
  using assms plain_append[of t "''.table.json''"] plain_append[of t "''.stream.jsonl''"] plain_append[of t "''.stream.jsonl.tmp''"]
  by (simp_all add: tableMetaPath_def streamFilePath_def streamTempPath_def filepath_Join_plain)

lemma plain_no_slash: "plain_elem t \<Longrightarrow> CHR ''/'' \<notin> set t"
  by (simp add: plain_elem_def)

lemma clean_temp [simp]: "clean_path (streamTempPath t)"
  by (simp add: streamTempPath_def clean_path_Join)

lemma temp_names [simp]:
  "t @ ''.stream.jsonl.tmp'' \<noteq> t' @ ''.stream.jsonl''" "t @ ''.stream.jsonl.tmp'' \<noteq> t' @ ''.table.json''"
  "t' @ ''.stream.jsonl'' \<noteq> t @ ''.stream.jsonl.tmp''" "t' @ ''.table.json'' \<noteq> t @ ''.stream.jsonl.tmp''"
proof -
  show a: "t @ ''.stream.jsonl.tmp'' \<noteq> t' @ ''.stream.jsonl''" and b: "t @ ''.stream.jsonl.tmp'' \<noteq> t' @ ''.table.json''"
    by (rule notI, drule arg_cong[where f = last], simp)+
  show "t' @ ''.stream.jsonl'' \<noteq> t @ ''.stream.jsonl.tmp''" "t' @ ''.table.json'' \<noteq> t @ ''.stream.jsonl.tmp''"
    using a b by metis+
qed

lemma quietly_step: "frame {p} s (removeQuietly p s)" "same_mem s (removeQuietly p s)"
  using remove_step[of p s] by (cases "root_Remove p s"; simp add: removeQuietly_def)+

lemma rewrite_frame:
  "frame {streamFilePath t, streamTempPath t} s (rewriteStreamFile t recs s)" "same_mem s (rewriteStreamFile t recs s)"
proof -
  let ?P = "{streamFilePath t, streamTempPath t}" and ?tmp = "streamTempPath t" and ?c = "CStream (map LRecord recs)"
  have q: "frame ?P x (removeQuietly (streamFilePath t) x) \<and> same_mem x (removeQuietly (streamFilePath t) x)"
    "frame ?P x (removeQuietly ?tmp x) \<and> same_mem x (removeQuietly ?tmp x)" for x
    using frame_mono[OF quietly_step(1)[of "streamFilePath t" x], of ?P] frame_mono[OF quietly_step(1)[of ?tmp x], of ?P] quietly_step(2) by auto
  obtain r1 s1 where w: "root_WriteFile ?tmp ?c s = (r1, s1)" by fastforce
  have s1: "frame ?P s s1" "same_mem s s1" using write_step[OF clean_temp w] frame_mono[of "{?tmp}" s s1 ?P] by auto
  obtain r2 s2 where n: "root_Rename ?tmp (streamFilePath t) s1 = (r2, s2)" by fastforce
  have "frame ?P s1 s2" "same_mem s1 s2" using rename_step[OF clean_paths(2) n] by (simp_all add: insert_commute)
  then have s2: "frame ?P s s2" "same_mem s s2" using s1 frame_trans same_mem_trans by blast+
  have "frame ?P s (rewriteStreamFile t recs s) \<and> same_mem s (rewriteStreamFile t recs s)"
    using q s1 s2 w n frame_trans same_mem_trans
    by (auto simp: rewriteStreamFile_def Let_def split: option.splits)
  then show "frame ?P s (rewriteStreamFile t recs s)" "same_mem s (rewriteStreamFile t recs s)" by auto
qed

text \<open>
  C28. Rewriting the stream file of a table is atomic, whatever system call fails: afterwards the file is
  as it was, or it holds exactly the new records, one line each; no other file than its temporary
  one is touched.
\<close>

theorem rewrite_stream_atomic:
  assumes "recs \<noteq> []" and "plain_elem t"
  shows "(look (rewriteStreamFile t recs s) (streamFilePath t) = look s (streamFilePath t)
          \<or> look (rewriteStreamFile t recs s) (streamFilePath t) = Some (File (Some (CStream (map LRecord recs)))))
       \<and> (\<forall>q. q \<noteq> streamFilePath t \<longrightarrow> q \<noteq> streamTempPath t \<longrightarrow> look (rewriteStreamFile t recs s) q = look s q)"
proof -
  let ?p = "streamFilePath t" and ?tmp = "streamTempPath t" and ?c = "CStream (map LRecord recs)"
  have ne: "?p \<noteq> ?tmp" using top_plain[OF plain_no_slash[OF assms(2)]] by simp
  obtain r1 s1 where w: "root_WriteFile ?tmp ?c s = (r1, s1)" by fastforce
  have p1: "look s1 ?p = look s ?p" by (rule write_other[OF w ne])
  obtain r2 s2 where n: "root_Rename ?tmp ?p s1 = (r2, s2)" by fastforce
  have keep: "look (removeQuietly ?tmp x) ?p = look x ?p" for x
    using frame_fields(4)[OF quietly_step(1), of ?p ?tmp x] ne by simp
  have "look s2 ?p = look s1 ?p \<or> look s2 ?p = Some (File (Some ?c))" if "r1 = None"
    using n write_None[of ?tmp ?c s s1] w that ne
    by (auto simp: root_Rename_def fs_simps dest!: root_walk_Inr split: sum.splits node.splits if_splits)
  then have "look (rewriteStreamFile t recs s) ?p \<in> {look s ?p, Some (File (Some ?c))}"
    using w n p1 keep assms(1) by (auto simp: rewriteStreamFile_def Let_def split: option.splits)
  then show ?thesis using frame_fields(4)[OF rewrite_frame(1)] by auto
qed

definition demo_record :: "64 word \<Rightarrow> int \<Rightarrow> streamRecord" where
  "demo_record n t = \<lparr>sr_EventID = ''e'', sr_EventName = ''INSERT'', sr_Keys = demo_key ''a'', sr_NewImage = None, sr_OldImage = None,
     sr_SeqNum = n, sr_CreatedAt = t, sr_ViewType = ''KEYS_ONLY''\<rparr>"

theorem rewrite_stream_atomic_witness:
  "look (rewriteStreamFile ''t'' [demo_record 1 0] demo_db) [''t.stream.jsonl''] = Some (File (Some (CStream [LRecord (demo_record 1 0)])))
   \<and> look (rewriteStreamFile ''t'' [demo_record 1 0] demo_db) [''t.table.json''] = look demo_db [''t.table.json'']"
proof -
  have p: "streamFilePath ''t'' = [''t.stream.jsonl'']" "streamTempPath ''t'' = [''t.stream.jsonl.tmp'']"
    using top_plain[OF plain_no_slash[OF db_plain]] by simp_all
  have "look (rewriteStreamFile ''t'' [demo_record 1 0] demo_db) [''t.stream.jsonl''] = Some (File (Some (CStream [LRecord (demo_record 1 0)])))"
    by code_simp
  then show ?thesis using rewrite_stream_atomic[OF _ db_plain, of "[demo_record 1 0]" demo_db] p by simp
qed

section \<open>Sequence numbers\<close>

definition seq_ok :: "ddb \<Rightarrow> bool" where
  "seq_ok s \<longleftrightarrow> (\<forall>t b. getStreamBuffer s t = Some b \<longrightarrow>
     sorted_wrt (<) (map sr_SeqNum (sb_records b)) \<and> (\<forall>r\<in>set (sb_records b). sr_SeqNum r \<le> seqNum s))"

lemma seq_ok_mem: "same_mem s s' \<Longrightarrow> seq_ok s' = seq_ok s"
  by (simp add: seq_ok_def same_mem_def getStreamBuffer_def)

text \<open>The record that an emission appends.\<close>

definition newRecord :: "string \<Rightarrow> string \<Rightarrow> gmap \<Rightarrow> gmap option \<Rightarrow> gmap option \<Rightarrow> ddb \<Rightarrow> streamRecord" where
  "newRecord ev vt keys old new s =
     \<lparr>sr_EventID = hex_pad 32 (seqNum s + 1), sr_EventName = ev, sr_Keys = keys,
      sr_NewImage = (if wantsNew vt then new else None), sr_OldImage = (if wantsOld vt then old else None),
      sr_SeqNum = seqNum s + 1, sr_CreatedAt = clock s, sr_ViewType = vt\<rparr>"

lemma emit_mem:
  assumes "getStreamBuffer s t = Some buf" and "s' = emitStreamRecord t ev vt keys old new s"
  shows "seqNum s' = seqNum s + 1"
    and "getStreamBuffer s' t' = (if t' = t then Some (buf\<lparr>sb_records := sb_records buf @ [newRecord ev vt keys old new s]\<rparr>) else getStreamBuffer s t')"
proof -
  have "same_mem (s\<lparr>seqNum := seqNum s + 1, streams := AList.update t (buf\<lparr>sb_records := sb_records buf @ [newRecord ev vt keys old new s]\<rparr>) (streams s)\<rparr>) s'"
    using assms append_step(2) by (simp add: emitStreamRecord_def newRecord_def Let_def)
  then show "seqNum s' = seqNum s + 1"
    "getStreamBuffer s' t' = (if t' = t then Some (buf\<lparr>sb_records := sb_records buf @ [newRecord ev vt keys old new s]\<rparr>) else getStreamBuffer s t')"
    by (auto simp: same_mem_def getStreamBuffer_def)
qed

lemma word_up: "w < - 1 \<Longrightarrow> w < w + 1" for w :: "64 word"
  by (metis add.commute add_eq_0_iff2 lessI less_irrefl unatSuc word_less_nat_alt)

lemma emit_seq_ok:
  assumes "seq_ok s" and "seqNum s < - 1"
  shows "seq_ok (emitStreamRecord t ev vt keys old new s)"
proof (cases "getStreamBuffer s t")
  case None
  then show ?thesis using assms(1) by (simp add: emitStreamRecord_def)
next
  case (Some buf)
  have up: "seqNum s < seqNum s + 1" using assms(2) by (rule word_up)
  note e = emit_mem[OF Some refl, of ev vt keys old new]
  show ?thesis
    unfolding seq_ok_def e
  proof (intro allI impI)
    fix t' b
    assume b: "(if t' = t then Some (buf\<lparr>sb_records := sb_records buf @ [newRecord ev vt keys old new s]\<rparr>) else getStreamBuffer s t') = Some b"
    show "sorted_wrt (<) (map sr_SeqNum (sb_records b)) \<and> (\<forall>r\<in>set (sb_records b). sr_SeqNum r \<le> seqNum s + 1)"
    proof (cases "t' = t")
      case True
      then show ?thesis using b Some assms(1) up
        by (fastforce simp: seq_ok_def sorted_wrt_append newRecord_def)
    next
      case False
      then show ?thesis using b assms(1) up by (fastforce simp: seq_ok_def)
    qed
  qed
qed

lemma emits_seq_ok:
  assumes "seq_ok s" and "seqNum s < - 1"
  shows "seq_ok (emitWrite t meta new old s)" "seq_ok (emitRemove t meta old s)"
  using assms emit_seq_ok by (auto simp: emitWrite_def emitRemove_def split: option.splits)

text \<open>In memory an item operation does nothing, or emits one record.\<close>

definition emits :: "string \<Rightarrow> ddb \<Rightarrow> ddb \<Rightarrow> bool" where
  "emits t s s' \<longleftrightarrow> same_mem s s' \<or> (\<exists>s1 meta new old. same_mem s s1 \<and> (s' = emitWrite t meta new old s1 \<or> s' = emitRemove t meta old s1))"

lemma emits_seq:
  assumes "emits t s s'" and "seq_ok s" and "seqNum s < - 1"
  shows "seq_ok s'"
proof -
  have "seq_ok s1 \<and> seqNum s1 < - 1" if "same_mem s s1" for s1
    using that assms(2,3) seq_ok_mem[OF that] by (simp add: same_mem_def)
  then show ?thesis using assms(1) emits_seq_ok by (auto simp: emits_def)
qed

lemma emits_same: "same_mem s s' \<Longrightarrow> emits t s s'"
  by (simp add: emits_def)

lemma emits_write: "same_mem s s1 \<Longrightarrow> emits t s (emitWrite t meta new old s1)"
  by (auto simp: emits_def)

lemma emits_remove: "same_mem s s1 \<Longrightarrow> emits t s (emitRemove t meta old s1)"
  by (auto simp: emits_def)

lemma item_mem: "writeItem (itemPath t k) oi s = (r, s') \<Longrightarrow> same_mem s s'"
  by (rule writeItem_step(2)) auto

lemma put_emits: "PutItem t item cond s = (r, s') \<Longrightarrow> emits t s s'"
  by (auto simp: PutItem_def locate_Ok intro: emits_same emits_write dest!: item_mem
      elim!: onOk_cases split: option.splits prod.splits)

lemma delete_emits: "DeleteItem t key cond s = (r, s') \<Longrightarrow> emits t s s'"
  by (auto simp: DeleteItem_def intro: emits_same emits_remove dest!: remove_step(2)
      elim!: onOk_cases split: option.splits prod.splits if_splits)

lemma emitUpdate_emits: "same_mem s s1 \<Longrightarrow> emits t s (snd (emitUpdate t meta a b s1))"
  by (auto simp: emitUpdate_def intro: emits_same emits_write split: loaded.splits option.splits)

lemma update_emits:
  assumes "UpdateItem t key ups h cond s = (r, s')"
  shows "emits t s s'"
proof -
  have e: "emits t s s'" if "same_mem s s1" "emitUpdate t meta a b s1 = (r, s')" for s1 meta a b
    using emitUpdate_emits[OF that(1), of t meta a b] that(2) by simp
  show ?thesis
    using assms
    by (auto simp: UpdateItem_def locate_Ok Let_def emits_same dest!: item_mem
        elim!: onOk_cases split: option.splits prod.splits) (blast dest: e)+
qed

lemma demo_seq_ok: "seq_ok demo_db" "seqNum demo_db < - 1"
  by (auto simp: seq_ok_def getStreamBuffer_def demo_db_def demo_buffer_def split: if_splits)

text \<open>
  C29. The sequence numbers of a stream increase: while the counter is below its maximum of 64 bits, every
  \<open>PutItem\<close>, \<open>DeleteItem\<close> and \<open>UpdateItem\<close>, whatever its outcome and whatever fails, keeps the records of
  every buffer in strictly increasing order, none beyond the counter.
\<close>

theorem stream_sequence_increases:
  assumes "seq_ok s" and "seqNum s < - 1"
  shows "(PutItem t item cond s = (r, s') \<longrightarrow> seq_ok s')
       \<and> (DeleteItem t key cond s = (r, s') \<longrightarrow> seq_ok s')
       \<and> (UpdateItem t key ups h cond s = (r', s') \<longrightarrow> seq_ok s')"
  using put_emits delete_emits update_emits emits_seq[OF _ assms] by metis

theorem stream_sequence_increases_witness:
  "seq_ok demo_db \<and> seqNum demo_db < - 1 \<and> seq_ok (snd (PutItem ''t'' (demo_row ''a'' ''1'') None demo_db))
   \<and> map sr_SeqNum (bufRecords (snd (PutItem ''t'' (demo_row ''a'' ''1'') None demo_db)) ''t'') = [8]"
proof -
  note ok = demo_seq_ok
  have "seq_ok (snd (PutItem ''t'' (demo_row ''a'' ''1'') None demo_db))"
    using stream_sequence_increases[OF ok, of "''t''" "demo_row ''a'' ''1''" None] by (metis surj_pair prod.sel(2))
  moreover have "map sr_SeqNum (bufRecords (snd (PutItem ''t'' (demo_row ''a'' ''1'') None demo_db)) ''t'') = [8]"
    by code_simp
  ultimately show ?thesis using ok by simp
qed

section \<open>Iterators\<close>

lemma findSeqPos_drop:
  assumes "sorted_wrt (<) (map sr_SeqNum rs)"
  shows "drop (findSeqPos rs n after) rs = filter (\<lambda>r. if after then n < sr_SeqNum r else n \<le> sr_SeqNum r) rs"
  using assms
proof (induction rs)
  case (Cons r rs)
  consider (eq) "sr_SeqNum r = n" | (gt) "n < sr_SeqNum r" | (lt) "sr_SeqNum r < n" by force
  then show ?case
  proof cases
    case eq
    then show ?thesis using Cons.prems by (auto intro!: filter_True[symmetric])
  next
    case gt
    then show ?thesis using Cons.prems by (auto intro!: filter_True[symmetric])
  next
    case lt
    then show ?thesis using Cons by auto
  qed
qed simp

lemma findSeqPos_bound: "findSeqPos rs n after \<le> length rs"
  by (induction rs) auto

text \<open>What an iterator of each type is to read.\<close>

definition selected :: "string \<Rightarrow> string \<Rightarrow> streamRecord \<Rightarrow> bool" where
  "selected ty num r \<longleftrightarrow>
     ty = ''TRIM_HORIZON'' \<or> (ty = ''AT_SEQUENCE_NUMBER'' \<and> the (parseSeqNum num) \<le> sr_SeqNum r)
     \<or> (ty = ''AFTER_SEQUENCE_NUMBER'' \<and> the (parseSeqNum num) < sr_SeqNum r)"

lemma iterator_position:
  assumes "GetShardIterator s arn shard ty num = Ok it" and "seq_ok s"
  obtains k label where "parseStreamARN arn = Some (it_Table it, label)" and "it_Position it = int k" and "k \<le> length (bufRecords s (it_Table it))"
    and "drop k (bufRecords s (it_Table it)) = filter (selected ty num) (bufRecords s (it_Table it))"
proof -
  let ?rs = "\<lambda>t. bufRecords s t"
  have srt: "sorted_wrt (<) (map sr_SeqNum (?rs t))" for t
    using assms(2) by (auto simp: seq_ok_def bufRecords_def split: option.splits)
  obtain t label where p: "parseStreamARN arn = Some (t, label)" using assms(1) by (auto simp: GetShardIterator_def split: option.splits)
  have "ty = ''TRIM_HORIZON'' \<and> it = \<lparr>it_Table = t, it_Position = 0\<rparr>
    \<or> ty = ''LATEST'' \<and> it = \<lparr>it_Table = t, it_Position = int (length (?rs t))\<rparr>
    \<or> (\<exists>n. parseSeqNum num = Some n \<and> (ty = ''AT_SEQUENCE_NUMBER'' \<or> ty = ''AFTER_SEQUENCE_NUMBER'')
         \<and> it = \<lparr>it_Table = t, it_Position = int (findSeqPos (?rs t) n (ty = ''AFTER_SEQUENCE_NUMBER''))\<rparr>)"
    using assms(1) unfolding GetShardIterator_def p
    by (simp split: option.splits sum.splits if_split_asm)
  then consider (all) "ty = ''TRIM_HORIZON''" "it = \<lparr>it_Table = t, it_Position = 0\<rparr>"
    | (latest) "ty = ''LATEST''" "it = \<lparr>it_Table = t, it_Position = int (length (?rs t))\<rparr>"
    | (at) n where "parseSeqNum num = Some n" "ty = ''AT_SEQUENCE_NUMBER''" "it = \<lparr>it_Table = t, it_Position = int (findSeqPos (?rs t) n False)\<rparr>"
    | (aft) n where "parseSeqNum num = Some n" "ty = ''AFTER_SEQUENCE_NUMBER''" "it = \<lparr>it_Table = t, it_Position = int (findSeqPos (?rs t) n True)\<rparr>"
    by (elim disjE exE conjE) simp_all
  then show thesis
  proof cases
    case all
    then show thesis using that[of label 0] p by (simp add: selected_def)
  next
    case latest
    then show thesis using that[of label "length (?rs t)"] p by (simp add: selected_def)
  next
    case at
    then show thesis using that[OF _ _ findSeqPos_bound] findSeqPos_drop[OF srt, of t n False] p by (simp add: selected_def cong: filter_cong)
  next
    case aft
    then show thesis using that[OF _ _ findSeqPos_bound] findSeqPos_drop[OF srt, of t n True] p by (simp add: selected_def cong: filter_cong)
  qed
qed

lemma read_from:
  assumes "it_Position it = int k" and "k \<le> length (bufRecords s (it_Table it))"
  shows "\<exists>m it'. GetStreamRecords s (Some it) lim = Ok (take m (drop k (bufRecords s (it_Table it))), it') \<and> it_Table it' = it_Table it
    \<and> (bufRecords s (it_Table it) \<noteq> [] \<longrightarrow> it_Position it' = int (k + m) \<and> k + m \<le> length (bufRecords s (it_Table it)))
    \<and> (lim \<le> 0 \<longrightarrow> k + m = length (bufRecords s (it_Table it))) \<and> (lim > 0 \<longrightarrow> int m \<le> lim)"
proof (cases "getStreamBuffer s (it_Table it)")
  case None
  then show ?thesis using assms by (auto simp: GetStreamRecords_def bufRecords_def intro!: exI[of _ 0])
next
  case (Some b)
  let ?n = "length (sb_records b)" and ?e = "if lim > 0 \<and> int k + lim < int (length (sb_records b)) then k + nat lim else length (sb_records b)"
  have k: "k \<le> ?n" using assms Some by (simp add: bufRecords_def)
  have "GetStreamRecords s (Some it) lim = Ok (take (?e - k) (drop k (sb_records b)), it\<lparr>it_Position := int ?e\<rparr>)"
    using assms Some k by (auto simp: GetStreamRecords_def Let_def nat_diff_distrib nat_add_distrib)
  then show ?thesis using Some k by (intro exI[of _ "?e - k"]) (auto simp: bufRecords_def)
qed

text \<open>
  C30. An iterator reads what its type names: while the sequence numbers of the buffers increase, a shard
  iterator read without a limit returns, in order, all records of the stream for
  \<open>TRIM_HORIZON\<close>, none for \<open>LATEST\<close>, those from the given number on for \<open>AT_SEQUENCE_NUMBER\<close> and those
  beyond it for \<open>AFTER_SEQUENCE_NUMBER\<close>; and a read of at most \<open>n\<close> records followed by one from the
  iterator that it returns gives the same records.
\<close>

theorem iterator_reads_selected:
  assumes "GetShardIterator s arn shard ty num = Ok it" and "seq_ok s"
  shows "(\<exists>it'. GetStreamRecords s (Some it) 0 = Ok (filter (selected ty num) (bufRecords s (it_Table it)), it'))
       \<and> (\<exists>rs it' rs' it''. GetStreamRecords s (Some it) (int n) = Ok (rs, it') \<and> (n > 0 \<longrightarrow> length rs \<le> n)
            \<and> GetStreamRecords s (Some it') 0 = Ok (rs', it'')
            \<and> rs @ rs' = filter (selected ty num) (bufRecords s (it_Table it)))"
proof -
  obtain k label where k: "it_Position it = int k" "k \<le> length (bufRecords s (it_Table it))"
    "drop k (bufRecords s (it_Table it)) = filter (selected ty num) (bufRecords s (it_Table it))"
    by (rule iterator_position[OF assms])
  let ?R = "bufRecords s (it_Table it)"
  obtain m it' where 0: "GetStreamRecords s (Some it) 0 = Ok (take m (drop k ?R), it')" "k + m = length ?R"
    using read_from[OF k(1,2), of 0] by auto
  obtain m1 it1 where 1: "GetStreamRecords s (Some it) (int n) = Ok (take m1 (drop k ?R), it1)" "it_Table it1 = it_Table it"
    "?R \<noteq> [] \<longrightarrow> it_Position it1 = int (k + m1) \<and> k + m1 \<le> length ?R" "int n > 0 \<longrightarrow> int m1 \<le> int n"
    using read_from[OF k(1,2), of "int n"] by auto
  have "\<exists>it2. GetStreamRecords s (Some it1) 0 = Ok (drop (k + m1) ?R, it2)"
  proof (cases "?R = []")
    case True
    then have "getStreamBuffer s (it_Table it1) = None \<or> (\<exists>b. getStreamBuffer s (it_Table it1) = Some b \<and> sb_records b = [])"
      using 1(2) by (auto simp: bufRecords_def split: option.splits)
    then show ?thesis using True by (auto simp: GetStreamRecords_def Let_def)
  next
    case False
    then obtain m2 it2 where "GetStreamRecords s (Some it1) 0 = Ok (take m2 (drop (k + m1) ?R), it2)" "k + m1 + m2 = length ?R"
      using read_from[of it1 "k + m1" s 0] 1 by auto
    then show ?thesis by auto
  qed
  moreover have "take m1 (drop k ?R) @ drop (k + m1) ?R = drop k ?R"
    by (metis append_take_drop_id drop_drop add.commute)
  moreover have "take m (drop k ?R) = drop k ?R" using 0(2) by simp
  moreover have "n > 0 \<longrightarrow> length (take m1 (drop k ?R)) \<le> n" using 1(4) by auto
  ultimately show ?thesis using 0(1) 1(1) unfolding k(3)[symmetric] by metis
qed

definition demo_put :: ddb where
  "demo_put = snd (PutItem ''t'' (demo_row ''a'' ''1'') None demo_db)"

theorem iterator_reads_selected_witness:
  "\<exists>it it'. GetShardIterator demo_put (streamARN ''t'' ''L'') (shardID demo_md5 ''t'' ''L'') ''AT_SEQUENCE_NUMBER'' ''8'' = Ok it
    \<and> GetStreamRecords demo_put (Some it) 0 = Ok (filter (selected ''AT_SEQUENCE_NUMBER'' ''8'') (bufRecords demo_put (it_Table it)), it')
    \<and> length (filter (selected ''AT_SEQUENCE_NUMBER'' ''8'') (bufRecords demo_put (it_Table it))) = 1"
proof -
  have n: "parseSeqNum ''8'' = Some 8" by (simp add: parseSeqNum_def)
  have p: "parseStreamARN (streamARN ''t'' ''L'') = Some (''t'', ''L'')" by code_simp
  have m: "readTableMeta demo_put ''t'' = Inr demo_meta" by code_simp
  have r: "map sr_SeqNum (bufRecords demo_put ''t'') = [8]" by code_simp
  then obtain r0 where r0: "bufRecords demo_put ''t'' = [r0]" "sr_SeqNum r0 = 8" by auto
  have "PutItem ''t'' (demo_row ''a'' ''1'') None demo_db = (Ok None, demo_put)"
    unfolding demo_put_def by (rule outcomeI) code_simp
  then obtain k where "one_item ''t'' k demo_db demo_put" by (rule put_effect[OF _ db_plain db_hash])
  then have h: "md5hex demo_put = demo_md5"
    using frame_fields(1) by (fastforce simp: one_item_def demo_db_def)
  have "GetShardIterator demo_put (streamARN ''t'' ''L'') (shardID demo_md5 ''t'' ''L'') ''AT_SEQUENCE_NUMBER'' ''8''
      = Ok \<lparr>it_Table = ''t'', it_Position = 0\<rparr>"
    by (simp add: GetShardIterator_def n p m r0 demo_meta_def h)
  moreover have "seq_ok demo_put"
    using emits_seq[OF put_emits[OF outcomeI[OF refl]] demo_seq_ok] by (simp add: demo_put_def)
  moreover have "length (filter (selected ''AT_SEQUENCE_NUMBER'' ''8'') (bufRecords demo_put ''t'')) = 1"
    by (simp add: r0 selected_def n)
  ultimately show ?thesis using iterator_reads_selected[of demo_put] by (metis shardIterState.select_convs(1))
qed

section \<open>Restart\<close>

text \<open>The file of a stream holds the records of its buffer, one line each; there is none when there are no records.\<close>

definition mirrored :: "ddb \<Rightarrow> string \<Rightarrow> bool" where
  "mirrored s t \<longleftrightarrow>
     (look s (streamFilePath t) = Some (File (Some (CStream (map LRecord (bufRecords s t)))))
      \<or> look s (streamFilePath t) = None \<and> bufRecords s t = [])"

lemma goodLines_records: "goodLines False (map LRecord rs) = (rs, False)"
  by (induction rs) auto

definition unexpired :: "ddb \<Rightarrow> streamRecord list \<Rightarrow> streamRecord list" where
  "unexpired s = filter (\<lambda>r. sr_CreatedAt r > clock s - streamRetentionPeriod)"

lemma load_mirrored:
  assumes "look s (streamFilePath t) = Some (File (Some (CStream (map LRecord rs)))) \<or> look s (streamFilePath t) = None \<and> rs = []"
    and "plain_elem t" and "quiet s"
  shows "fst (loadStreamRecordsFromDisk t s) = unexpired s rs"
proof -
  have p: "streamFilePath t = [t @ ''.stream.jsonl'']" by (rule top_plain(2)[OF plain_no_slash[OF assms(2)]])
  show ?thesis
    using assms(1,3) 
    by (auto simp: root_ReadFile_def root_walk_def escapes_def blocked_def quiet_def loadStreamRecordsFromDisk_def p goodLines_records streamLines_def unexpired_def Let_def)
qed

lemma load_frame:
  "frame {streamFilePath t, streamTempPath t} s (snd (loadStreamRecordsFromDisk t s))" "same_mem s (snd (loadStreamRecordsFromDisk t s))"
  using rewrite_frame frame_mono[OF quietly_step(1)[of "streamFilePath t" s], of "{streamFilePath t, streamTempPath t}"] quietly_step(2)
  by (auto simp: loadStreamRecordsFromDisk_def Let_def split: sum.splits option.splits prod.splits)

text \<open>A state on the way through the entries: the stream of \<open>t\<close> is loaded, or its file is as it was.\<close>

definition loading :: "ddb \<Rightarrow> string \<Rightarrow> streamRecord list \<Rightarrow> ddb \<Rightarrow> bool" where
  "loading s t recs s' \<longleftrightarrow>
     clock s' = clock s \<and> d_fault s' = d_fault s \<and> look s' (tableMetaPath t) = look s (tableMetaPath t)
     \<and> (case getStreamBuffer s' t of
          None \<Rightarrow> look s' (streamFilePath t) = look s (streamFilePath t)
        | Some b \<Rightarrow> sb_records b = recs)"

lemma ensure_other:
  assumes "loading s t recs s'" and "CHR ''/'' \<notin> set t" and "CHR ''/'' \<notin> set t'" and "t' \<noteq> t"
  shows "loading s t recs (ensureStreamBuffer t' label s')"
proof -
  have "streamFilePath t \<notin> {streamFilePath t', streamTempPath t'}" "tableMetaPath t \<notin> {streamFilePath t', streamTempPath t'}"
    using top_plain[OF assms(2)] top_plain[OF assms(3)] assms(4) by auto
  then have "look (snd (loadStreamRecordsFromDisk t' s')) (streamFilePath t) = look s' (streamFilePath t)"
    "look (snd (loadStreamRecordsFromDisk t' s')) (tableMetaPath t) = look s' (tableMetaPath t)"
    using frame_fields(4)[OF load_frame(1)[of t' s']] by blast+
  then show ?thesis
    using assms(1,4) frame_fields(2,3)[OF load_frame(1)[of t' s']] load_frame(2)[of s' t']
    by (auto simp: loading_def ensureStreamBuffer_def getStreamBuffer_def same_mem_def split: option.splits prod.splits)
qed

lemma ensure_self:
  assumes "loading s t (unexpired s rs) s'" and "plain_elem t" and "quiet s"
    and "look s (streamFilePath t) = Some (File (Some (CStream (map LRecord rs)))) \<or> look s (streamFilePath t) = None \<and> rs = []"
  shows "loading s t (unexpired s rs) (ensureStreamBuffer t label s')" "getStreamBuffer (ensureStreamBuffer t label s') t \<noteq> None"
proof -
  have q: "quiet s'" using assms(1,3) by (simp add: loading_def quiet_def)
  have m: "tableMetaPath t \<notin> {streamFilePath t, streamTempPath t}"
    using top_plain[OF plain_no_slash[OF assms(2)]] by auto
  have "fst (loadStreamRecordsFromDisk t s') = unexpired s rs" if "getStreamBuffer s' t = None"
    using load_mirrored[OF _ assms(2) q, of rs] assms(1,4) that by (auto simp: loading_def unexpired_def)
  then show "loading s t (unexpired s rs) (ensureStreamBuffer t label s')"
    using assms(1) frame_fields(2,3)[OF load_frame(1)[of t s']] frame_fields(4)[OF load_frame(1)[of t s'] m]
    by (auto simp: loading_def ensureStreamBuffer_def getStreamBuffer_def split: option.splits prod.splits)
  show "getStreamBuffer (ensureStreamBuffer t label s') t \<noteq> None"
    by (auto simp: ensureStreamBuffer_def getStreamBuffer_def split: option.splits prod.splits)
qed

lemma trim_suffix_append [simp]: "strings_TrimSuffix (t @ x) x = t"
  by (simp add: strings_TrimSuffix_def)

lemma loadStream_step:
  assumes "loading s t (unexpired s rs) s'" and "plain_elem t" and "quiet s" and "CHR ''/'' \<notin> set (fst e)"
    and "look s (streamFilePath t) = Some (File (Some (CStream (map LRecord rs)))) \<or> look s (streamFilePath t) = None \<and> rs = []"
  shows "loading s t (unexpired s rs) (loadStream s' e)"
proof -
  let ?t' = "strings_TrimSuffix (fst e) ''.table.json''"
  have "CHR ''/'' \<notin> set ?t'" using assms(4) by (auto simp: strings_TrimSuffix_def dest: in_set_takeD)
  then show ?thesis
    using assms(1) ensure_self(1)[OF assms(1-3,5)] ensure_other[OF assms(1) plain_no_slash[OF assms(2)], of ?t']
    by (cases "?t' = t") (auto simp: loadStream_def Let_def split: sum.splits)
qed

lemma ensure_keeps: "\<exists>b. getStreamBuffer s t = Some b \<Longrightarrow> \<exists>b. getStreamBuffer (ensureStreamBuffer t' l s) t = Some b"
  using load_frame(2)[of s t']
  by (auto simp: ensureStreamBuffer_def getStreamBuffer_def same_mem_def split: option.splits prod.splits)

lemma loadStream_keeps: "getStreamBuffer s t \<noteq> None \<Longrightarrow> getStreamBuffer (loadStream s e) t \<noteq> None"
  by (auto simp: loadStream_def Let_def ensure_keeps split: sum.splits)

lemma loadStream_self:
  assumes "loading s t recs s'" and "plain_elem t" and "readTableMeta s t = Inr meta" and "streamOn meta" and "tm_StreamLabel meta \<noteq> ''''"
  shows "getStreamBuffer (loadStream s' (t @ ''.table.json'', False)) t \<noteq> None"
proof -
  have "readTableMeta s' t = Inr meta"
    using read_top(1)[of s' "t @ ''.table.json''" s] assms(1-3) by (simp add: readTableMeta_def loading_def plain_table)
  moreover have "getStreamBuffer (ensureStreamBuffer t label s') t \<noteq> None" for label
    by (auto simp: ensureStreamBuffer_def getStreamBuffer_def split: option.splits prod.splits)
  ultimately show ?thesis using assms(4,5) by (simp add: loadStream_def has_suffix_def has_prefix_iff)
qed

lemma load_all:
  assumes "plain_elem t" and "quiet s" and "readTableMeta s t = Inr meta" and "streamOn meta" and "tm_StreamLabel meta \<noteq> ''''"
    and onDisk: "look s (streamFilePath t) = Some (File (Some (CStream (map LRecord rs)))) \<or> look s (streamFilePath t) = None \<and> rs = []"
    and start: "loading s t (unexpired s rs) s'"
    and "\<forall>e\<in>set es. CHR ''/'' \<notin> set (fst e)"
  shows "loading s t (unexpired s rs) (foldl loadStream s' es)
    \<and> ((t @ ''.table.json'', False) \<in> set es \<or> getStreamBuffer s' t \<noteq> None \<longrightarrow> getStreamBuffer (foldl loadStream s' es) t \<noteq> None)"
  using start assms(8)
proof (induction es arbitrary: s')
  case (Cons e es)
  have l: "loading s t (unexpired s rs) (loadStream s' e)"
    using Cons.prems by (intro loadStream_step[OF _ assms(1,2) _ onDisk]) auto
  show ?case
    using Cons.IH[OF l] Cons.prems loadStream_self[OF _ assms(1,3-5), of "unexpired s rs" s'] loadStream_keeps[of s' t e] by auto
qed auto

lemma maxSeq_ge:
  assumes "r \<in> set (bufRecords s t)"
  shows "sr_SeqNum r \<le> maxSeq s"
proof -
  have up: "a \<le> foldl max a ws" for a and ws :: "64 word list"
    by (induction ws arbitrary: a) (auto intro: order_trans[OF max.cobounded1])
  have ge: "w \<le> foldl max a ws" if "w \<in> set ws" for w a and ws :: "64 word list"
    using that by (induction ws arbitrary: a) (auto intro: order_trans[OF max.cobounded2 up])
  obtain b where "(t, b) \<in> set (streams s)" "r \<in> set (sb_records b)"
    using assms by (auto simp: bufRecords_def getStreamBuffer_def dest!: map_of_SomeD[OF sym] split: option.splits)
  then have "sr_SeqNum r \<in> set (concat (map (\<lambda>(t, b). map sr_SeqNum (sb_records b)) (streams s)))" by fastforce
  then show ?thesis unfolding maxSeq_def by (rule ge)
qed

text \<open>
  C31. A restart restores the streams: when the file of a table's stream holds the records of its buffer, opening
  the storage on that disk gives a buffer with exactly the records not older than the retention
  period, in order, and the sequence counter is not below the number of any record that was
  restored for any table, so that new records come after them.
\<close>

theorem restart_restores_stream:
  assumes "disk_wf s" and "quiet s" and "plain_elem t" and "mirrored s t"
    and "readTableMeta s t = Inr meta" and "streamOn meta" and "tm_StreamLabel meta \<noteq> ''''"
  shows "bufRecords (newDdb s) t = unexpired s (bufRecords s t)
       \<and> (\<forall>t'. \<forall>r\<in>set (bufRecords (newDdb s) t'). sr_SeqNum r \<le> seqNum (newDdb s))"
proof -
  let ?s0 = "s\<lparr>streams := [], seqNum := of_int (clock s div 1000000)\<rparr>" and ?rs = "bufRecords s t" and ?es = "entries s []"
  have es: "loadAllStreamBuffers ?s0 = foldl loadStream ?s0 ?es"
    using assms(2) by (simp add: loadAllStreamBuffers_def root_ReadDir_def quiet_def entries_def)
  have start: "loading s t (unexpired s ?rs) ?s0" by (simp add: loading_def getStreamBuffer_def)
  have names: "\<forall>e\<in>set ?es. CHR ''/'' \<notin> set (fst e)"
  proof
    fix e assume "e \<in> set ?es"
    then obtain n where "look s [fst e] = Some n" using entries_mem[OF assms(1), of "fst e" "snd e" "[]"] by auto
    then show "CHR ''/'' \<notin> set (fst e)" using disk_wf_plain[OF assms(1)] plain_no_slash by fastforce
  qed
  have "\<exists>c. look s [t @ ''.table.json''] = Some (File c)"
    using assms(5) by (auto simp: readTableMeta_def plain_table[OF assms(3)] root_ReadFile_def dest!: root_walk_Inr split: sum.splits node.splits if_splits)
  then have mem: "(t @ ''.table.json'', False) \<in> set ?es" using entries_mem[OF assms(1), of _ _ "[]"] by auto
  note l = load_all[OF assms(3,2,5-7) assms(4)[unfolded mirrored_def] start names]
  have "bufRecords (foldl loadStream ?s0 ?es) t = unexpired s ?rs"
    using l mem by (auto simp: loading_def bufRecords_def)
  moreover have new: "bufRecords (newDdb s) t' = bufRecords (foldl loadStream ?s0 ?es) t'" for t'
    by (simp add: newDdb_def es Let_def bufRecords_def getStreamBuffer_def)
  moreover have "\<forall>r\<in>set (bufRecords (newDdb s) t'). sr_SeqNum r \<le> seqNum (newDdb s)" for t'
  proof
    fix r assume "r \<in> set (bufRecords (newDdb s) t')"
    then have "sr_SeqNum r \<le> maxSeq (foldl loadStream ?s0 ?es)" by (intro maxSeq_ge[of r _ t']) (simp add: new)
    also have "\<dots> \<le> seqNum (newDdb s)" by (simp add: newDdb_def es Let_def linorder_not_less)
    finally show "sr_SeqNum r \<le> seqNum (newDdb s)" .
  qed
  ultimately show ?thesis by simp
qed

theorem restart_restores_stream_witness:
  "mirrored demo_put ''t'' \<and> bufRecords (newDdb demo_put) ''t'' = bufRecords demo_put ''t''
   \<and> length (bufRecords demo_put ''t'') = 1"
proof -
  have "PutItem ''t'' (demo_row ''a'' ''1'') None demo_db = (Ok None, demo_put)"
    unfolding demo_put_def by (rule outcomeI) code_simp
  then obtain k where "one_item ''t'' k demo_db demo_put" by (rule put_effect[OF _ db_plain db_hash])
  then have wf: "disk_wf demo_put" "quiet demo_put" by (auto intro: quiet_after[OF _ db_wf db_quiet])
  have "look demo_put (streamFilePath ''t'') = Some (File (Some (CStream (map LRecord (bufRecords demo_put ''t'')))))"
    by code_simp
  then have m: "mirrored demo_put ''t''" by (simp add: mirrored_def)
  have r: "readTableMeta demo_put ''t'' = Inr demo_meta" by code_simp
  have "unexpired demo_put (bufRecords demo_put ''t'') = bufRecords demo_put ''t''" by code_simp
  moreover have "length (bufRecords demo_put ''t'') = 1" by code_simp
  ultimately show ?thesis
    using restart_restores_stream[OF wf db_plain m r] m by (simp add: demo_meta_def streamOn_def)
qed

end
