(* ===== verification/Ddb_Handlers.thy ===== *)
theory Ddb_Handlers
  imports Ddb_Transaction
begin

text \<open>
  The DynamoDB request handlers for items, batches, queries and transactions
  (\<open>internal/dynamodb/handler_item.go\<close>, \<open>handler_batch.go\<close>, \<open>handler_query.go\<close>, \<open>handler_transaction.go\<close>).
  A handler takes the decoded request (\<open>None\<close> when \<open>json.Unmarshal\<close> rejects the body) and the storage
  state and gives the response and the new state. An error response keeps its HTTP status and its
  \<open>__type\<close>, not the message for people. A map of a request is the association list in the order in
  which the code's loop visits it. The order in which the storage visits the updates of an item is an
  argument \<open>ord\<close>, as Go leaves it open.
\<close>

section \<open>Responses\<close>

text \<open>\<open>buildConsumedCapacity\<close>: the table, and whether the part for the table itself is included; one unit is always reported.\<close>

record ConsumedCapacity =
  cap_TableName :: string
  cap_Table :: bool

definition buildConsumedCapacity :: "string \<Rightarrow> string \<Rightarrow> ConsumedCapacity option" where
  "buildConsumedCapacity t mode =
     (if mode = '''' \<or> mode = ''NONE'' then None else Some \<lparr>cap_TableName = t, cap_Table = (mode = ''INDEXES'')\<rparr>)"

definition validateReturnConsumedCapacity :: "string \<Rightarrow> bool" where
  "validateReturnConsumedCapacity mode \<longleftrightarrow> mode \<in> {'''', ''NONE'', ''TOTAL'', ''INDEXES''}"

record billingModeSummary =
  bms_BillingMode :: string
  bms_LastUpdate :: "int option"

record warmThroughput =
  wt_ReadUnitsPerSecond :: int
  wt_WriteUnitsPerSecond :: int
  wt_Status :: string

record indexDescription =
  id_IndexName :: string
  id_IndexStatus :: string
  id_KeySchema :: "KeySchemaElement list"
  id_Projection :: gmap
  id_ProvisionedThroughput :: "ProvisionedThroughput option"

text \<open>Times are seconds since the epoch; the counts of items and bytes, which are always zero, are left out.\<close>

record tableDescription =
  td_TableName :: string
  td_TableStatus :: string
  td_TableArn :: string
  td_CreationDateTime :: int
  td_KeySchema :: "KeySchemaElement list"
  td_AttributeDefinitions :: "AttributeDefinition list"
  td_BillingModeSummary :: "billingModeSummary option"
  td_ProvisionedThroughput :: "ProvisionedThroughput option"
  td_GlobalSecondaryIndexes :: "indexDescription list"
  td_LocalSecondaryIndexes :: "indexDescription list"
  td_WarmThroughput :: warmThroughput
  td_StreamSpecification :: "StreamSpecification option"
  td_LatestStreamArn :: string
  td_LatestStreamLabel :: string

record pitrDescription =
  pd_Status :: string
  pd_Earliest :: "int option"
  pd_Latest :: "int option"

record recordOut =
  ro_EventID :: string
  ro_EventName :: string
  ro_CreatedAt :: int
  ro_Keys :: gmap
  ro_NewImage :: "gmap option"
  ro_OldImage :: "gmap option"
  ro_SequenceNumber :: string
  ro_StreamViewType :: string

text \<open>An entry of the response to a batch of PartiQL statements: the item of a read, or the code of an error.\<close>

record batchStmtError =
  be_Code :: string
  be_Item :: "gmap option"

record batchStmtResp =
  bs_Item :: "gmap option"
  bs_Error :: "batchStmtError option"
  bs_TableName :: string

text \<open>
  The JSON object of a success. \<open>BodyItems\<close> has no items for \<open>Select=COUNT\<close>. An update that made a
  cyclic value has a response that the encoder may reject; what it writes then is left open.
\<close>

datatype ddb_body =
    BodyEmpty
  | BodyAttributes "gmap option" "ConsumedCapacity option"
  | BodyCyclic
  | BodyItem "gmap option" "ConsumedCapacity option"
  | BodyItems "gmap list option" nat nat "gmap option" "ConsumedCapacity option"
  | BodyResponses "(string \<times> gmap list) list" "ConsumedCapacity list"
  | BodyUnprocessed "ConsumedCapacity list"
  | BodyTransactGet "gmap option list" "ConsumedCapacity list"
  | BodyTransactWrite "ConsumedCapacity list"
  | BodyTable tableDescription
  | BodyTableNames "string list" "string option"
  | BodyTags smap
  | BodyTTL TTLSpec
  | BodyTTLDescription string "string option"
  | BodyLimits
  | BodyEndpoints
  | BodyBackups pitrDescription
  | BodyKinesis string "KinesisDestination list"
  | BodyKinesisStatus string string string "string option"
  | BodyStreams "StreamEntry list" "string option"
  | BodyStream StreamDesc bool
  | BodyIterator shardIterState
  | BodyRecords "recordOut list" shardIterState
  | BodyStatement "gmap list option" "gmap option" "ConsumedCapacity option"
  | BodyBatchStatements "batchStmtResp list" "ConsumedCapacity list"

text \<open>\<open>DErrItem\<close> is an error that shows the item on which a condition failed.\<close>

datatype ddb_response = DErr nat string | DErrItem nat string gmap | DOk ddb_body | DCanceled "CancellationReason list" | DPanic

definition errType :: "string \<Rightarrow> string" where
  "errType t = ''com.amazonaws.dynamodb.v20120810#'' @ t"

definition dBad :: "string \<Rightarrow> ddb_response" where
  "dBad t = DErr 400 (errType t)"

definition dValidation :: ddb_response where
  "dValidation = dBad ''ValidationException''"

definition dInternal :: ddb_response where
  "dInternal = DErr 500 (errType ''InternalServerError'')"

definition dNotFound :: ddb_response where
  "dNotFound = dBad ''ResourceNotFoundException''"

text \<open>The translations of storage errors.\<close>

definition tableError :: "ddb_error \<Rightarrow> ddb_response" where
  "tableError e = (if e = ErrTableNotFound then dNotFound else dInternal)"

definition readError :: "ddb_error \<Rightarrow> ddb_response" where
  "readError e = (case e of ErrValidationException _ \<Rightarrow> dValidation | _ \<Rightarrow> tableError e)"

definition writeError :: "ddb_error \<Rightarrow> ddb_response" where
  "writeError e = (case e of ErrConditionalCheckFailed _ \<Rightarrow> dBad ''ConditionalCheckFailedException'' | _ \<Rightarrow> readError e)"

section \<open>Composing\<close>

type_synonym handled = "ddb_response \<times> ddb"

text \<open>The response to the result of a storage call, and the next step after a validation that may fail.\<close>

definition answer :: "(ddb_error \<Rightarrow> ddb_response) \<Rightarrow> ('a \<Rightarrow> ddb_response) \<Rightarrow> 'a outcome \<Rightarrow> handled" where
  "answer err ok r = (case r of (Ok x, s) \<Rightarrow> (ok x, s) | (Err e, s) \<Rightarrow> (err e, s) | (Panic, s) \<Rightarrow> (DPanic, s))"

definition validated :: "('e, 'a) res \<Rightarrow> ddb \<Rightarrow> ('a \<Rightarrow> handled) \<Rightarrow> handled" where
  "validated r s k = (case r of Ok x \<Rightarrow> k x | Err _ \<Rightarrow> (dValidation, s) | Panic \<Rightarrow> (DPanic, s))"

definition require :: "bool \<Rightarrow> ddb \<Rightarrow> handled \<Rightarrow> handled" where
  "require b s k = (if b then k else (dValidation, s))"

text \<open>\<open>json.Unmarshal\<close> of the body, and the check of \<open>TableName\<close>\<close>

definition decoded :: "'r option \<Rightarrow> ddb \<Rightarrow> ('r \<Rightarrow> handled) \<Rightarrow> handled" where
  "decoded body s k = (case body of None \<Rightarrow> (dValidation, s) | Some req \<Rightarrow> k req)"

definition condOf :: "string \<Rightarrow> smap \<Rightarrow> gmap \<Rightarrow> ConditionCheck option" where
  "condOf expr names vals = (if expr = '''' then None else Some \<lparr>cc_Expr = expr, cc_Names = names, cc_Values = vals\<rparr>)"

section \<open>Items\<close>

record WriteItemRequest =
  wr_TableName :: string
  wr_Item :: gmap
  wr_ReturnValues :: string
  wr_ReturnConsumedCapacity :: string
  wr_ConditionExpression :: string
  wr_Names :: smap
  wr_Values :: gmap

text \<open>\<open>PutItem\<close> and \<open>DeleteItem\<close> validate alike and answer alike; \<open>wr_Item\<close> is the item or the key.\<close>

definition handleWrite :: "(string \<Rightarrow> gmap \<Rightarrow> ConditionCheck option \<Rightarrow> ddb \<Rightarrow> gmap option outcome)
    \<Rightarrow> WriteItemRequest option \<Rightarrow> ddb \<Rightarrow> handled" where
  "handleWrite call body s =
     decoded body s (\<lambda>req.
     require (wr_TableName req \<noteq> '''') s
    (require (wr_ReturnValues req \<in> {'''', ''NONE'', ''ALL_OLD''}) s
    (require (validateReturnConsumedCapacity (wr_ReturnConsumedCapacity req)) s
    (validated (validateUnusedExprRefs (wr_Names req) (wr_Values req) [wr_ConditionExpression req]) s (\<lambda>_.
       answer writeError
         (\<lambda>old. DOk (BodyAttributes (if wr_ReturnValues req = ''ALL_OLD'' then old else None)
                       (buildConsumedCapacity (wr_TableName req) (wr_ReturnConsumedCapacity req))))
         (call (wr_TableName req) (wr_Item req) (condOf (wr_ConditionExpression req) (wr_Names req) (wr_Values req)) s))))))"

definition handlePutItem :: "WriteItemRequest option \<Rightarrow> ddb \<Rightarrow> handled" where
  "handlePutItem = handleWrite PutItem"

definition handleDeleteItem :: "WriteItemRequest option \<Rightarrow> ddb \<Rightarrow> handled" where
  "handleDeleteItem = handleWrite DeleteItem"

record GetItemRequest =
  gr_TableName :: string
  gr_Key :: gmap
  gr_ProjectionExpression :: string
  gr_Names :: smap
  gr_ReturnConsumedCapacity :: string

definition handleGetItem :: "GetItemRequest option \<Rightarrow> ddb \<Rightarrow> handled" where
  "handleGetItem body s =
     decoded body s (\<lambda>req.
     require (gr_TableName req \<noteq> '''') s
    (require (validateReturnConsumedCapacity (gr_ReturnConsumedCapacity req)) s
    (validated (validateUnusedExprRefs (gr_Names req) [] [gr_ProjectionExpression req]) s (\<lambda>_.
       case GetItem (gr_TableName req) (gr_Key req) s of
         Err e \<Rightarrow> (readError e, s)
       | Panic \<Rightarrow> (DPanic, s)
       | Ok found \<Rightarrow>
           let cc = buildConsumedCapacity (gr_TableName req) (gr_ReturnConsumedCapacity req)
           in case found of
                None \<Rightarrow> (DOk (BodyItem None cc), s)
              | Some item \<Rightarrow>
                  validated (applyProjection item (gr_ProjectionExpression req) (gr_Names req)) s
                    (\<lambda>item'. (DOk (BodyItem (Some item') cc), s))))))"

text \<open>An entry of \<open>AttributeUpdates\<close>: its action and its value.\<close>

record UpdateItemRequest =
  ur_TableName :: string
  ur_Key :: gmap
  ur_UpdateExpression :: string
  ur_ConditionExpression :: string
  ur_Names :: smap
  ur_Values :: gmap
  ur_ReturnValues :: string
  ur_ReturnConsumedCapacity :: string
  ur_AttributeUpdates :: "(string \<times> string \<times> gany) list"

text \<open>The values of a request as the decoder leaves them in memory, every one stored once.\<close>

definition storeValues :: "gmap \<Rightarrow> (string \<times> hval) list \<times> heap" where
  "storeValues vals = (case runAll (map (\<lambda>(k, v). store v) vals) [] of (hs, h) \<Rightarrow> (zip (map fst vals) hs, h))"

fun legacyUpdates :: "(string \<times> string \<times> gany) list \<Rightarrow> heap \<Rightarrow> (hval updates \<times> heap) option" where
  "legacyUpdates [] h = Some ([], h)"
| "legacyUpdates ((name, action, v) # us) h =
     (if action = ''PUT'' \<or> action = '''' then
        (case store v h of (hv, h1) \<Rightarrow>
           map_option (\<lambda>(ups, h2). ((name, OpSet (SetPlain hv)) # ups, h2)) (legacyUpdates us h1))
      else if action = ''DELETE'' then map_option (\<lambda>(ups, h1). ((name, OpRemove) # ups, h1)) (legacyUpdates us h)
      else None)"

definition requestedUpdates :: "UpdateItemRequest \<Rightarrow> (unit, hval updates \<times> heap) res" where
  "requestedUpdates req =
     (if ur_UpdateExpression req \<noteq> '''' then
        (case storeValues (ur_Values req) of (vals, h) \<Rightarrow>
           mapErr (\<lambda>_. ()) (mapOk (\<lambda>ups. (ups, h)) (parseUpdateExpression (ur_UpdateExpression req) (ur_Names req) vals)))
      else case legacyUpdates (ur_AttributeUpdates req) [] of None \<Rightarrow> Err () | Some r \<Rightarrow> Ok r)"

definition updatedAttrs :: "hval updates \<Rightarrow> gmap \<Rightarrow> gmap option" where
  "updatedAttrs ups m =
     (let attrs = filter (\<lambda>(k, v). k \<in> fst ` set ups) m in if attrs = [] then None else Some attrs)"

definition updateBody :: "string \<Rightarrow> hval updates \<Rightarrow> loaded option \<times> loaded \<Rightarrow> ConsumedCapacity option \<Rightarrow> ddb_body" where
  "updateBody rv ups r cc =
     (case r of (before, after) \<Rightarrow>
        if rv = ''ALL_NEW'' then (case after of Tree m \<Rightarrow> BodyAttributes (Some m) cc | Cyclic \<Rightarrow> BodyCyclic)
        else if rv = ''ALL_OLD'' then
          (case before of None \<Rightarrow> BodyAttributes None cc | Some (Tree m) \<Rightarrow> BodyAttributes (Some m) cc | Some Cyclic \<Rightarrow> BodyCyclic)
        else if rv = ''UPDATED_NEW'' then (case after of Tree m \<Rightarrow> BodyAttributes (updatedAttrs ups m) cc | Cyclic \<Rightarrow> BodyCyclic)
        else if rv = ''UPDATED_OLD'' then
          (case before of None \<Rightarrow> BodyAttributes None cc | Some (Tree m) \<Rightarrow> BodyAttributes (updatedAttrs ups m) cc | Some Cyclic \<Rightarrow> BodyCyclic)
        else BodyAttributes None cc)"

definition handleUpdateItem :: "(hval updates \<Rightarrow> hval updates) \<Rightarrow> UpdateItemRequest option \<Rightarrow> ddb \<Rightarrow> handled" where
  "handleUpdateItem ord body s =
     decoded body s (\<lambda>req.
     require (ur_TableName req \<noteq> '''') s
    (require (ur_ReturnValues req \<in> {'''', ''NONE'', ''ALL_OLD'', ''ALL_NEW'', ''UPDATED_OLD'', ''UPDATED_NEW''}) s
    (require (validateReturnConsumedCapacity (ur_ReturnConsumedCapacity req)) s
    (validated (validateUnusedExprRefs (ur_Names req) (ur_Values req) [ur_UpdateExpression req, ur_ConditionExpression req]) s (\<lambda>_.
     validated (requestedUpdates req) s (\<lambda>(ups, h).
       answer writeError
         (\<lambda>r. DOk (updateBody (ur_ReturnValues req) ups r (buildConsumedCapacity (ur_TableName req) (ur_ReturnConsumedCapacity req))))
         (UpdateItem (ur_TableName req) (ur_Key req) (ord ups) h
            (condOf (ur_ConditionExpression req) (ur_Names req) (ur_Values req)) s)))))))"

section \<open>Batches\<close>

record BatchGetRequest =
  bg_Keys :: "gmap list"
  bg_ProjectionExpression :: string
  bg_Names :: smap

fun batchGetTables :: "(string \<times> BatchGetRequest) list \<Rightarrow> ddb \<Rightarrow> (ddb_response, (string \<times> gmap list) list) res" where
  "batchGetTables [] s = Ok []"
| "batchGetTables ((t, r) # rs) s =
     andThen (mapErr (\<lambda>_. dValidation) (validateUnusedExprRefs (bg_Names r) [] [bg_ProjectionExpression r])) (\<lambda>_.
     andThen (mapErr readError (BatchGetItems t (bg_Keys r) s)) (\<lambda>items.
     andThen (mapErr (\<lambda>_. dValidation) (applyProjectionToItems items (bg_ProjectionExpression r) (bg_Names r))) (\<lambda>items'.
       mapOk ((#) (t, items')) (batchGetTables rs s))))"

definition capacities :: "string list \<Rightarrow> string \<Rightarrow> ConsumedCapacity list" where
  "capacities ts mode = List.map_filter (\<lambda>t. buildConsumedCapacity t mode) ts"

definition handleBatchGetItem :: "((string \<times> BatchGetRequest) list \<times> string) option \<Rightarrow> ddb \<Rightarrow> handled" where
  "handleBatchGetItem body s =
     decoded body s (\<lambda>(items, mode).
     require (items \<noteq> []) s
    (require (sum_list (map (\<lambda>(t, r). length (bg_Keys r)) items) \<le> 100) s
    (require (validateReturnConsumedCapacity mode) s
    (case batchGetTables items s of
       Ok rs \<Rightarrow> (DOk (BodyResponses rs (capacities (map fst items) mode)), s)
     | Err r \<Rightarrow> (r, s)
     | Panic \<Rightarrow> (DPanic, s)))))"

text \<open>A write request of a batch: it has a put, a delete, both (the put counts) or none.\<close>

record BatchWriteEntry =
  bw_Put :: "gmap option"
  bw_Delete :: "gmap option"

definition putsOf :: "BatchWriteEntry list \<Rightarrow> gmap list" where
  "putsOf ws = List.map_filter bw_Put ws"

definition deletesOf :: "BatchWriteEntry list \<Rightarrow> gmap list" where
  "deletesOf ws = List.map_filter (\<lambda>w. if bw_Put w = None then bw_Delete w else None) ws"

fun batchWriteTables :: "(string \<times> BatchWriteEntry list) list \<Rightarrow> ddb \<Rightarrow> unit outcome" where
  "batchWriteTables [] s = (Ok (), s)"
| "batchWriteTables ((t, ws) # rs) s =
     (case BatchWriteItems t (putsOf ws) (deletesOf ws) s of
        (Ok _, s') \<Rightarrow> batchWriteTables rs s'
      | (Err e, s') \<Rightarrow> (Err e, s')
      | (Panic, s') \<Rightarrow> (Panic, s'))"

definition handleBatchWriteItem :: "((string \<times> BatchWriteEntry list) list \<times> string) option \<Rightarrow> ddb \<Rightarrow> handled" where
  "handleBatchWriteItem body s =
     decoded body s (\<lambda>(items, mode).
     require (items \<noteq> []) s
    (require (sum_list (map (\<lambda>(t, ws). length ws) items) \<le> 25) s
    (require (validateReturnConsumedCapacity mode) s
    (answer readError (\<lambda>_. DOk (BodyUnprocessed (capacities (map fst items) mode))) (batchWriteTables items s)))))"

section \<open>Scan and Query\<close>

definition validateSelectCommon :: "string \<Rightarrow> string \<Rightarrow> bool" where
  "validateSelectCommon sel proj \<longleftrightarrow>
     (sel \<in> {'''', ''ALL_PROJECTED_ATTRIBUTES''} \<or> (sel \<in> {''ALL_ATTRIBUTES'', ''COUNT''} \<and> proj = '''')
      \<or> (sel = ''SPECIFIC_ATTRIBUTES'' \<and> proj \<noteq> ''''))"

text \<open>The filter, the projection and the response that both share; \<open>last\<close> is the key to go on from.\<close>

definition pageResponse ::
  "gmap list \<Rightarrow> gmap option \<Rightarrow> string \<Rightarrow> string \<Rightarrow> smap \<Rightarrow> gmap \<Rightarrow> string \<Rightarrow> ConsumedCapacity option \<Rightarrow> ddb \<Rightarrow> handled" where
  "pageResponse items lastKey fexpr proj names vals sel cc s =
     validated (applyFilterExpression items fexpr names vals) s (\<lambda>items1.
     validated (applyProjectionToItems items1 proj names) s (\<lambda>items2.
       (DOk (BodyItems (if sel = ''COUNT'' then None else Some items2) (length items2) (length items) lastKey cc), s)))"

record ScanRequest =
  sq_TableName :: string
  sq_Select :: string
  sq_FilterExpression :: string
  sq_ProjectionExpression :: string
  sq_Names :: smap
  sq_Values :: gmap
  sq_Limit :: "int option"
  sq_ExclusiveStartKey :: gmap
  sq_Segment :: "int option"
  sq_TotalSegments :: "int option"
  sq_ReturnConsumedCapacity :: string

definition validSegments :: "int option \<Rightarrow> int option \<Rightarrow> bool" where
  "validSegments seg tot =
     (case (seg, tot) of
        (None, None) \<Rightarrow> True
      | (Some i, Some n) \<Rightarrow> 0 \<le> i \<and> i \<le> 999999 \<and> 1 \<le> n \<and> n \<le> 1000000 \<and> i < n
      | _ \<Rightarrow> False)"

definition validLimit :: "int option \<Rightarrow> bool" where
  "validLimit lim = (case lim of None \<Rightarrow> True | Some l \<Rightarrow> 1 \<le> l)"

definition handleScan :: "ScanRequest option \<Rightarrow> ddb \<Rightarrow> handled" where
  "handleScan body s =
     decoded body s (\<lambda>req.
     require (sq_TableName req \<noteq> '''') s
    (require (validLimit (sq_Limit req)) s
    (require (validateSelectCommon (sq_Select req) (sq_ProjectionExpression req)) s
    (require (sq_Select req \<noteq> ''ALL_PROJECTED_ATTRIBUTES'') s
    (require (validSegments (sq_Segment req) (sq_TotalSegments req)) s
    (require (validateReturnConsumedCapacity (sq_ReturnConsumedCapacity req)) s
    (validated (validateUnusedExprRefs (sq_Names req) (sq_Values req) [sq_FilterExpression req, sq_ProjectionExpression req]) s (\<lambda>_.
       case Scan (sq_TableName req)
              \<lparr>sc_Limit = sq_Limit req, sc_ExclusiveStartKey = sq_ExclusiveStartKey req, sc_Segment = sq_Segment req,
               sc_TotalSegments = sq_TotalSegments req\<rparr> s of
         Err e \<Rightarrow> (readError e, s)
       | Panic \<Rightarrow> (DPanic, s)
       | Ok (items, lastKey) \<Rightarrow>
           pageResponse items lastKey (sq_FilterExpression req) (sq_ProjectionExpression req) (sq_Names req) (sq_Values req)
             (sq_Select req) (buildConsumedCapacity (sq_TableName req) (sq_ReturnConsumedCapacity req)) s))))))))"

record QueryRequest =
  qr_TableName :: string
  qr_IndexName :: string
  qr_Select :: string
  qr_KeyConditionExpression :: string
  qr_FilterExpression :: string
  qr_ProjectionExpression :: string
  qr_Names :: smap
  qr_Values :: gmap
  qr_ScanIndexForward :: "bool option"
  qr_Limit :: "int option"
  qr_ExclusiveStartKey :: gmap
  qr_ReturnConsumedCapacity :: string

definition handleQuery :: "QueryRequest option \<Rightarrow> ddb \<Rightarrow> handled" where
  "handleQuery body s =
     decoded body s (\<lambda>req.
     require (qr_TableName req \<noteq> '''') s
    (require (qr_KeyConditionExpression req \<noteq> '''') s
    (require (validateReturnConsumedCapacity (qr_ReturnConsumedCapacity req)) s
    (validated (validateUnusedExprRefs (qr_Names req) (qr_Values req)
                  [qr_KeyConditionExpression req, qr_FilterExpression req, qr_ProjectionExpression req]) s (\<lambda>_.
     validated (parseKeyConditionExpression (qr_KeyConditionExpression req) (qr_Names req) (qr_Values req)) s (\<lambda>(name, v, sk).
     require (validateSelectCommon (qr_Select req) (qr_ProjectionExpression req)) s
    (require (qr_Select req = ''ALL_PROJECTED_ATTRIBUTES'' \<longrightarrow> qr_IndexName req \<noteq> '''' \<and> qr_ProjectionExpression req = '''') s
    (require (validLimit (qr_Limit req)) s
    (case Query (qr_TableName req) name v sk
            \<lparr>qo_ScanIndexForward = (case qr_ScanIndexForward req of None \<Rightarrow> True | Some b \<Rightarrow> b), qo_Limit = qr_Limit req,
             qo_ExclusiveStartKey = qr_ExclusiveStartKey req, qo_IndexName = qr_IndexName req\<rparr> s of
       Err e \<Rightarrow> (readError e, s)
     | Panic \<Rightarrow> (DPanic, s)
     | Ok (items, lastKey) \<Rightarrow>
         pageResponse items lastKey (qr_FilterExpression req) (qr_ProjectionExpression req) (qr_Names req) (qr_Values req)
           (qr_Select req) (buildConsumedCapacity (qr_TableName req) (qr_ReturnConsumedCapacity req)) s)))))))))"

section \<open>Transactions\<close>

record TransactGetEntry =
  te_TableName :: string
  te_Key :: gmap
  te_ProjectionExpression :: string
  te_Names :: smap

fun checkGets :: "TransactGetEntry option list \<Rightarrow> (unit, TransactGetEntry list) res" where
  "checkGets [] = Ok []"
| "checkGets (None # es) = Err ()"
| "checkGets (Some e # es) =
     andThen (mapErr (\<lambda>_. ()) (validateUnusedExprRefs (te_Names e) [] [te_ProjectionExpression e])) (\<lambda>_.
       mapOk ((#) e) (checkGets es))"

fun projectEach :: "TransactGetEntry list \<Rightarrow> gmap option list \<Rightarrow> (path_error, gmap option list) res" where
  "projectEach (e # es) (None # items) = mapOk ((#) None) (projectEach es items)"
| "projectEach (e # es) (Some item # items) =
     andThen (applyProjection item (te_ProjectionExpression e) (te_Names e)) (\<lambda>item'.
       mapOk ((#) (Some item')) (projectEach es items))"
| "projectEach es items = Ok []"

text \<open>The tables in the order of their first use.\<close>

definition firstUses :: "string list \<Rightarrow> string list" where
  "firstUses ts = rev (remdups (rev ts))"

definition handleTransactGetItems :: "(TransactGetEntry option list \<times> string) option \<Rightarrow> ddb \<Rightarrow> handled" where
  "handleTransactGetItems body s =
     decoded body s (\<lambda>(items, mode).
     require (items \<noteq> []) s
    (require (length items \<le> 100) s
    (require (validateReturnConsumedCapacity mode) s
    (validated (checkGets items) s (\<lambda>es.
       case TransactGetItems (map (\<lambda>e. \<lparr>tg_TableName = te_TableName e, tg_Key = te_Key e\<rparr>) es) s of
         Err e \<Rightarrow> (readError e, s)
       | Panic \<Rightarrow> (DPanic, s)
       | Ok found \<Rightarrow>
           validated (projectEach es found) s (\<lambda>rs.
             (DOk (BodyTransactGet rs (capacities (firstUses (map te_TableName es)) mode)), s)))))))"

record TransactPart =
  tp_TableName :: string
  tp_Key :: gmap
  tp_UpdateExpression :: string
  tp_ConditionExpression :: string
  tp_Names :: smap
  tp_Values :: gmap
  tp_ReturnValuesOnConditionCheckFailure :: string

text \<open>One entry: the parts that it has; the first of them in this order counts.\<close>

record TransactEntry =
  tx_Put :: "TransactPart option"
  tx_Delete :: "TransactPart option"
  tx_Update :: "TransactPart option"
  tx_ConditionCheck :: "TransactPart option"

definition partCond :: "TransactPart \<Rightarrow> ConditionCheck option" where
  "partCond p = condOf (tp_ConditionExpression p) (tp_Names p) (tp_Values p)"

definition partRefs :: "TransactPart \<Rightarrow> string list \<Rightarrow> (unit, unit) res" where
  "partRefs p exprs = mapErr (\<lambda>_. ()) (validateUnusedExprRefs (tp_Names p) (tp_Values p) exprs)"

definition toAction :: "(hval updates \<Rightarrow> hval updates) \<Rightarrow> TransactEntry \<Rightarrow> (unit, TransactWriteAction) res" where
  "toAction ord e =
     (case tx_Put e of
        Some p \<Rightarrow>
          mapOk (\<lambda>_. ActPut (tp_TableName p) (tp_Key p) (partCond p) (tp_ReturnValuesOnConditionCheckFailure p))
            (partRefs p [tp_ConditionExpression p])
      | None \<Rightarrow>
     (case tx_Delete e of
        Some p \<Rightarrow>
          mapOk (\<lambda>_. ActDelete (tp_TableName p) (tp_Key p) (partCond p) (tp_ReturnValuesOnConditionCheckFailure p))
            (partRefs p [tp_ConditionExpression p])
      | None \<Rightarrow>
     (case tx_Update e of
        Some p \<Rightarrow>
          andThen (partRefs p [tp_UpdateExpression p, tp_ConditionExpression p]) (\<lambda>_.
            case storeValues (tp_Values p) of (vals, h) \<Rightarrow>
              mapErr (\<lambda>_. ())
                (mapOk (\<lambda>ups. ActUpdate (tp_TableName p) (tp_Key p) (ord ups) h (partCond p) (tp_ReturnValuesOnConditionCheckFailure p))
                  (parseUpdateExpression (tp_UpdateExpression p) (tp_Names p) vals)))
      | None \<Rightarrow>
     (case tx_ConditionCheck e of
        Some p \<Rightarrow>
          if tp_ConditionExpression p = '''' then Err ()
          else mapOk (\<lambda>_. ActConditionCheck (tp_TableName p) (tp_Key p) (partCond p) (tp_ReturnValuesOnConditionCheckFailure p))
                 (partRefs p [tp_ConditionExpression p])
      | None \<Rightarrow> Err ()))))"

definition transactError :: "ddb_error \<Rightarrow> ddb_response" where
  "transactError e = (case e of ErrTransactionCanceled reasons \<Rightarrow> DCanceled reasons | _ \<Rightarrow> readError e)"

definition handleTransactWriteItems ::
  "(hval updates \<Rightarrow> hval updates) \<Rightarrow> (TransactEntry list \<times> string) option \<Rightarrow> ddb \<Rightarrow> handled" where
  "handleTransactWriteItems ord body s =
     decoded body s (\<lambda>(items, mode).
     require (items \<noteq> []) s
    (require (length items \<le> 100) s
    (require (validateReturnConsumedCapacity mode) s
    (validated (mapRes (toAction ord) items) s (\<lambda>as.
       answer transactError
         (\<lambda>_. DOk (BodyTransactWrite (capacities (firstUses (filter (\<lambda>t. t \<noteq> '''') (map fst (List.map_filter target as)))) mode)))
         (TransactWriteItems as s))))))"

end
