(* ===== verification/Ddb_Partiql_Handlers.thy ===== *)
theory Ddb_Partiql_Handlers
  imports Ddb_Partiql Ddb_Handlers
begin

text \<open>
  The execution of PartiQL statements on the storage and the handlers of \<open>ExecuteStatement\<close>, \<open>BatchExecuteStatement\<close> and
  \<open>ExecuteTransaction\<close> (\<open>internal/dynamodb/handler_partiql.go\<close>). A \<open>NextToken\<close> is the Base64 text of the JSON text of a key: in
  a request it is \<open>None\<close> when there is none and \<open>Some None\<close> when it does not decode, in a response it is the key.
\<close>

section \<open>Errors\<close>

datatype pq_exec_error =
    PqStorage ddb_error
  | PqKeyMissing string
  | PqNextToken
  | PqFilter expr_error
  | PqStatementKind

type_synonym 'a pqOutcome = "(pq_exec_error, 'a) res \<times> ddb"

definition pqValidation :: "pq_exec_error \<Rightarrow> bool" where
  "pqValidation e = (case e of PqStorage (ErrValidationException _) \<Rightarrow> True | PqStorage _ \<Rightarrow> False | _ \<Rightarrow> True)"

text \<open>The item of a failed condition, when the request asks for it\<close>

definition pqFailedItem :: "string \<Rightarrow> gmap option \<Rightarrow> gmap option" where
  "pqFailedItem rv old = (if rv = ''ALL_OLD'' \<and> old \<noteq> Some [] then old else None)"

definition writeConditionalCheckFailedError :: "gmap option \<Rightarrow> ddb_response" where
  "writeConditionalCheckFailedError item =
     (case item of None \<Rightarrow> dBad ''ConditionalCheckFailedException'' | Some m \<Rightarrow> DErrItem 400 (errType ''ConditionalCheckFailedException'') m)"

definition pqWriteStorageError :: "string \<Rightarrow> pq_exec_error \<Rightarrow> ddb_response" where
  "pqWriteStorageError rv e =
     (case e of
        PqStorage ErrTableNotFound \<Rightarrow> dNotFound
      | PqStorage (ErrConditionalCheckFailed old) \<Rightarrow> writeConditionalCheckFailedError (pqFailedItem rv old)
      | _ \<Rightarrow> if pqValidation e then dValidation else dInternal)"

definition pqWriteTransactError :: "pq_exec_error \<Rightarrow> ddb_response" where
  "pqWriteTransactError e =
     (case e of PqStorage (ErrTransactionCanceled reasons) \<Rightarrow> DCanceled reasons | _ \<Rightarrow> pqWriteStorageError '''' e)"

definition pqStorageErrToBatchError :: "string \<Rightarrow> pq_exec_error \<Rightarrow> batchStmtError" where
  "pqStorageErrToBatchError rv e =
     (case e of
        PqStorage ErrTableNotFound \<Rightarrow> \<lparr>be_Code = ''ResourceNotFoundException'', be_Item = None\<rparr>
      | PqStorage (ErrConditionalCheckFailed old) \<Rightarrow> \<lparr>be_Code = ''ConditionalCheckFailed'', be_Item = pqFailedItem rv old\<rparr>
      | _ \<Rightarrow> \<lparr>be_Code = if pqValidation e then ''ValidationException'' else ''InternalServerError'', be_Item = None\<rparr>)"

section \<open>Reading\<close>

definition pqEncodeToken :: "gmap option \<Rightarrow> gmap option" where
  "pqEncodeToken lek = (case lek of None \<Rightarrow> None | Some m \<Rightarrow> if m = [] then None else Some m)"

definition pqDecodeToken :: "gmap option option \<Rightarrow> (pq_exec_error, gmap) res" where
  "pqDecodeToken token = (case token of None \<Rightarrow> Ok [] | Some None \<Rightarrow> Err PqNextToken | Some (Some m) \<Rightarrow> Ok m)"

text \<open>The last equality on the hash key, the last condition on the sort key, and the other conditions in their order.\<close>

fun pqSplitWhere :: "string \<Rightarrow> string \<Rightarrow> pqCond option \<Rightarrow> pqCond option \<Rightarrow> pqCond list
    \<Rightarrow> pqCond option \<times> pqCond option \<times> pqCond list" where
  "pqSplitWhere hk sk h c [] = (h, c, [])"
| "pqSplitWhere hk sk h c (x # xs) =
     (if pc_attr x = hk \<and> pc_op x = ''='' then pqSplitWhere hk sk (Some x) c xs
      else if sk \<noteq> '''' \<and> pc_attr x = sk \<and> pqCondToSortKey x \<noteq> None then pqSplitWhere hk sk h (Some x) xs
      else (case pqSplitWhere hk sk h c xs of (h', c', fs) \<Rightarrow> (h', c', x # fs)))"

text \<open>The items before the filter: a scan without an equality on the hash key, a lookup, or a query.\<close>

definition pqFetch :: "string \<Rightarrow> string \<Rightarrow> string \<Rightarrow> pqCond option \<Rightarrow> pqCond option \<Rightarrow> int option \<Rightarrow> gmap \<Rightarrow> ddb
    \<Rightarrow> (ddb_error, gmap list \<times> gmap option) res" where
  "pqFetch t hk sk hashEq sortCond lim esk s =
     (case hashEq of
        None \<Rightarrow> Scan t \<lparr>sc_Limit = lim, sc_ExclusiveStartKey = esk, sc_Segment = None, sc_TotalSegments = None\<rparr> s
      | Some h \<Rightarrow>
          if sk \<noteq> '''' \<and> (case sortCond of None \<Rightarrow> False | Some c \<Rightarrow> pc_op c = ''='') then
            mapOk (\<lambda>found. (case found of None \<Rightarrow> [] | Some item \<Rightarrow> [item], None))
              (GetItem t (AList.update sk (GMap (pc_val (the sortCond))) [(hk, GMap (pc_val h))]) s)
          else
            Query t hk (GMap (pc_val h)) (Option.bind sortCond pqCondToSortKey)
              \<lparr>qo_ScanIndexForward = True, qo_Limit = lim, qo_ExclusiveStartKey = esk, qo_IndexName = ''''\<rparr> s)"

definition pqFilterItems :: "pqCond list \<Rightarrow> gmap list \<Rightarrow> (expr_error, gmap list) res" where
  "pqFilterItems conds items =
     (if conds = [] \<or> items = [] then Ok items
      else case pqCondsToFilterExpr conds of
             (fexpr, names, vals) \<Rightarrow> if fexpr = '''' then Ok items else applyFilterExpression items fexpr names vals)"

definition executePartiQLSelect ::
  "pqStmt \<Rightarrow> int option \<Rightarrow> gmap option option \<Rightarrow> ddb \<Rightarrow> (pq_exec_error, gmap list \<times> gmap option) res" where
  "executePartiQLSelect stmt apiLimit nextToken s =
     andThen (mapErr PqStorage (DescribeTable (ps_tableName stmt) s)) (\<lambda>meta.
       let hk = lastKeyOfType ''HASH'' (tm_KeySchema meta);
           sk = lastKeyOfType ''RANGE'' (tm_KeySchema meta);
           lim = pqMinLimit apiLimit (ps_stmtLimit stmt)
       in case pqSplitWhere hk sk None None (ps_where stmt) of
            (hashEq, sortCond, filters) \<Rightarrow>
              andThen (pqDecodeToken nextToken) (\<lambda>esk.
              andThen (mapErr PqStorage (pqFetch (ps_tableName stmt) hk sk hashEq sortCond lim esk s)) (\<lambda>(items, lek).
              andThen (mapErr PqFilter (pqFilterItems filters items)) (\<lambda>items'.
                Ok (items', pqEncodeToken lek)))))"

section \<open>Writing\<close>

definition hashKeyName :: "string \<Rightarrow> ddb \<Rightarrow> (pq_exec_error, string) res" where
  "hashKeyName t s = mapOk (\<lambda>meta. firstKeyOfType ''HASH'' (tm_KeySchema meta)) (mapErr PqStorage (DescribeTable t s))"

text \<open>The key that the \<open>WHERE\<close> clause of a statement fixes\<close>

definition pqKeyOf :: "pqStmt \<Rightarrow> ddb \<Rightarrow> (pq_exec_error, gmap) res" where
  "pqKeyOf stmt s =
     andThen (mapErr PqStorage (DescribeTable (ps_tableName stmt) s)) (\<lambda>meta.
       mapErr PqKeyMissing (extractExactKey (ps_where stmt) (tm_KeySchema meta)))"

definition pqNotExists :: "string \<Rightarrow> ConditionCheck" where
  "pqNotExists hk = \<lparr>cc_Expr = ''attribute_not_exists(#pk)'', cc_Names = [(''#pk'', hk)], cc_Values = []\<rparr>"

text \<open>The assignments of an update as the values the storage gets: the last one of an attribute counts.\<close>

definition pqUpdates :: "pqSet list \<Rightarrow> hval updates \<times> heap" where
  "pqUpdates sets =
     (case storeValues (foldl (\<lambda>m x. AList.update (pe_attr x) (GMap (pe_val x)) m) [] sets) of
        (vals, h) \<Rightarrow> (map (\<lambda>(a, v). (a, OpSet (SetPlain v))) vals, h))"

definition pqDone :: "'a outcome \<Rightarrow> unit pqOutcome" where
  "pqDone r = (case r of (x, s) \<Rightarrow> (mapErr PqStorage (mapOk (\<lambda>_. ()) x), s))"

definition pqOnOk :: "(pq_exec_error, 'a) res \<Rightarrow> ddb \<Rightarrow> ('a \<Rightarrow> 'b pqOutcome) \<Rightarrow> 'b pqOutcome" where
  "pqOnOk r s k = (case r of Ok x \<Rightarrow> k x | Err e \<Rightarrow> (Err e, s) | Panic \<Rightarrow> (Panic, s))"

definition executePartiQLInsert :: "pqStmt \<Rightarrow> ddb \<Rightarrow> unit pqOutcome" where
  "executePartiQLInsert stmt s =
     pqOnOk (hashKeyName (ps_tableName stmt) s) s (\<lambda>hk.
       pqDone (PutItem (ps_tableName stmt) (ps_item stmt) (Some (pqNotExists hk)) s))"

definition executePartiQLUpdate :: "(hval updates \<Rightarrow> hval updates) \<Rightarrow> pqStmt \<Rightarrow> ddb \<Rightarrow> unit pqOutcome" where
  "executePartiQLUpdate ord stmt s =
     pqOnOk (pqKeyOf stmt s) s (\<lambda>key.
       case pqUpdates (ps_sets stmt) of (ups, h) \<Rightarrow> pqDone (UpdateItem (ps_tableName stmt) key (ord ups) h None s))"

definition executePartiQLDelete :: "pqStmt \<Rightarrow> ddb \<Rightarrow> unit pqOutcome" where
  "executePartiQLDelete stmt s =
     pqOnOk (pqKeyOf stmt s) s (\<lambda>key. pqDone (DeleteItem (ps_tableName stmt) key None s))"

text \<open>A statement that is not a \<open>SELECT\<close>\<close>

definition pqWrite :: "(hval updates \<Rightarrow> hval updates) \<Rightarrow> pqStmt \<Rightarrow> ddb \<Rightarrow> unit pqOutcome" where
  "pqWrite ord stmt s =
     (case ps_kind stmt of
        pqInsert \<Rightarrow> executePartiQLInsert stmt s
      | pqUpdate \<Rightarrow> executePartiQLUpdate ord stmt s
      | _ \<Rightarrow> executePartiQLDelete stmt s)"

section \<open>Transactions\<close>

definition executePartiQLTransactReads :: "pqStmt list \<Rightarrow> ddb \<Rightarrow> (pq_exec_error, gmap option list) res" where
  "executePartiQLTransactReads stmts s =
     andThen (mapRes (\<lambda>stmt. mapOk (\<lambda>key. \<lparr>tg_TableName = ps_tableName stmt, tg_Key = key\<rparr>) (pqKeyOf stmt s)) stmts) (\<lambda>gets.
       mapErr PqStorage (TransactGetItems gets s))"

definition pqAction :: "(hval updates \<Rightarrow> hval updates) \<Rightarrow> ddb \<Rightarrow> pqStmt \<times> string \<Rightarrow> (pq_exec_error, TransactWriteAction) res" where
  "pqAction ord s x =
     (case x of (stmt, rv) \<Rightarrow>
        (case ps_kind stmt of
           pqInsert \<Rightarrow>
             mapOk (\<lambda>hk. ActPut (ps_tableName stmt) (ps_item stmt) (Some (pqNotExists hk)) rv) (hashKeyName (ps_tableName stmt) s)
         | pqUpdate \<Rightarrow>
             mapOk (\<lambda>key. case pqUpdates (ps_sets stmt) of (ups, h) \<Rightarrow> ActUpdate (ps_tableName stmt) key (ord ups) h None rv) (pqKeyOf stmt s)
         | pqDelete \<Rightarrow> mapOk (\<lambda>key. ActDelete (ps_tableName stmt) key None rv) (pqKeyOf stmt s)
         | pqSelect \<Rightarrow> Err PqStatementKind))"

definition executePartiQLTransactWrites ::
  "(hval updates \<Rightarrow> hval updates) \<Rightarrow> (pqStmt \<times> string) list \<Rightarrow> ddb \<Rightarrow> unit pqOutcome" where
  "executePartiQLTransactWrites ord stmts s =
     pqOnOk (mapRes (pqAction ord s) stmts) s (\<lambda>actions. pqDone (TransactWriteItems actions s))"

definition validatePQBatchKind :: "pqStmt list \<Rightarrow> bool" where
  "validatePQBatchKind stmts =
     (case stmts of [] \<Rightarrow> True | x # xs \<Rightarrow> list_all (\<lambda>y. (ps_kind y = pqSelect) = (ps_kind x = pqSelect)) xs)"

section \<open>Handlers\<close>

record ExecuteStatementRequest =
  es_Statement :: string
  es_Parameters :: "gmap list"
  es_Limit :: "int option"
  es_NextToken :: "gmap option option"
  es_ReturnConsumedCapacity :: string
  es_ReturnValuesOnConditionCheckFailure :: string

definition pqAnswer :: "(pq_exec_error \<Rightarrow> ddb_response) \<Rightarrow> ('a \<Rightarrow> ddb_response) \<Rightarrow> 'a pqOutcome \<Rightarrow> handled" where
  "pqAnswer err ok r = (case r of (Ok x, s) \<Rightarrow> (ok x, s) | (Err e, s) \<Rightarrow> (err e, s) | (Panic, s) \<Rightarrow> (DPanic, s))"

definition handleExecuteStatement :: "(hval updates \<Rightarrow> hval updates) \<Rightarrow> ExecuteStatementRequest option \<Rightarrow> ddb \<Rightarrow> handled" where
  "handleExecuteStatement ord body s =
     decoded body s (\<lambda>req.
     require (es_Statement req \<noteq> '''') s
    (require (length (es_Statement req) \<le> 8192) s
    (require (validLimit (es_Limit req)) s
    (require (validateReturnConsumedCapacity (es_ReturnConsumedCapacity req)) s
    (validated (parsePartiQL (es_Statement req) (es_Parameters req)) s (\<lambda>stmt.
       let cc = buildConsumedCapacity (ps_tableName stmt) (es_ReturnConsumedCapacity req)
       in if ps_kind stmt = pqSelect then
            pqAnswer (pqWriteStorageError '''') (\<lambda>(items, token). DOk (BodyStatement (Some items) token cc))
              (executePartiQLSelect stmt (es_Limit req) (es_NextToken req) s, s)
          else
            pqAnswer (pqWriteStorageError (es_ReturnValuesOnConditionCheckFailure req)) (\<lambda>_. DOk (BodyStatement None None cc))
              (pqWrite ord stmt s)))))))"

record StatementEntry =
  se_Statement :: string
  se_Parameters :: "gmap list"
  se_ReturnValuesOnConditionCheckFailure :: string

definition pqParseAll :: "StatementEntry list \<Rightarrow> (pq_error, pqStmt list) res" where
  "pqParseAll es = mapRes (\<lambda>e. parsePartiQL (se_Statement e) (se_Parameters e)) es"

text \<open>One statement of a batch: its response, or a panic. A \<open>SELECT\<close> must fix the whole key.\<close>

definition pqBatchError :: "string \<Rightarrow> string \<Rightarrow> pq_exec_error \<Rightarrow> batchStmtResp" where
  "pqBatchError t rv e = \<lparr>bs_Item = None, bs_Error = Some (pqStorageErrToBatchError rv e), bs_TableName = t\<rparr>"

definition pqBatchRead :: "pqStmt \<Rightarrow> ddb \<Rightarrow> (pq_exec_error, gmap option) res" where
  "pqBatchRead stmt s =
     andThen (pqKeyOf stmt s) (\<lambda>_.
       mapOk (\<lambda>(items, _). case items of [] \<Rightarrow> None | item # _ \<Rightarrow> Some item) (executePartiQLSelect stmt None None s))"

definition pqBatchItem :: "(hval updates \<Rightarrow> hval updates) \<Rightarrow> pqStmt \<times> string \<Rightarrow> ddb \<Rightarrow> (unit, batchStmtResp) res \<times> ddb" where
  "pqBatchItem ord x s =
     (case x of (stmt, rv) \<Rightarrow>
        (case if ps_kind stmt = pqSelect then (pqBatchRead stmt s, s)
              else (case pqWrite ord stmt s of (r, s') \<Rightarrow> (mapOk (\<lambda>_. None) r, s')) of
           (Ok item, s') \<Rightarrow> (Ok \<lparr>bs_Item = item, bs_Error = None, bs_TableName = ps_tableName stmt\<rparr>, s')
         | (Err e, s') \<Rightarrow> (Ok (pqBatchError (ps_tableName stmt) (if ps_kind stmt = pqSelect then '''' else rv) e), s')
         | (Panic, s') \<Rightarrow> (Panic, s')))"

fun pqBatchLoop :: "(hval updates \<Rightarrow> hval updates) \<Rightarrow> (pqStmt \<times> string) list \<Rightarrow> ddb \<Rightarrow> (unit, batchStmtResp list) res \<times> ddb" where
  "pqBatchLoop ord [] s = (Ok [], s)"
| "pqBatchLoop ord (x # xs) s =
     (case pqBatchItem ord x s of
        (Ok r, s1) \<Rightarrow> (case pqBatchLoop ord xs s1 of (rs, s2) \<Rightarrow> (mapOk ((#) r) rs, s2))
      | (Err e, s1) \<Rightarrow> (Err e, s1)
      | (Panic, s1) \<Rightarrow> (Panic, s1))"

definition handleBatchExecuteStatement ::
  "(hval updates \<Rightarrow> hval updates) \<Rightarrow> (StatementEntry list \<times> string) option \<Rightarrow> ddb \<Rightarrow> handled" where
  "handleBatchExecuteStatement ord body s =
     decoded body s (\<lambda>(es, mode).
     require (es \<noteq> []) s
    (require (length es \<le> 25) s
    (require (validateReturnConsumedCapacity mode) s
    (validated (pqParseAll es) s (\<lambda>stmts.
     require (validatePQBatchKind stmts) s
    (case pqBatchLoop ord (zip stmts (map se_ReturnValuesOnConditionCheckFailure es)) s of
       (Ok rs, s') \<Rightarrow> (DOk (BodyBatchStatements rs (capacities (firstUses (map ps_tableName stmts)) mode)), s')
     | (_, s') \<Rightarrow> (DPanic, s')))))))"

definition handleExecuteTransaction ::
  "(hval updates \<Rightarrow> hval updates) \<Rightarrow> (StatementEntry list \<times> string) option \<Rightarrow> ddb \<Rightarrow> handled" where
  "handleExecuteTransaction ord body s =
     decoded body s (\<lambda>(es, mode).
     require (es \<noteq> []) s
    (require (length es \<le> 100) s
    (require (validateReturnConsumedCapacity mode) s
    (validated (pqParseAll es) s (\<lambda>stmts.
     require (validatePQBatchKind stmts) s
    (let caps = capacities (firstUses (map ps_tableName stmts)) mode
     in if ps_kind (hd stmts) = pqSelect then
          pqAnswer pqWriteTransactError (\<lambda>items. DOk (BodyTransactGet items caps)) (executePartiQLTransactReads stmts s, s)
        else
          pqAnswer pqWriteTransactError (\<lambda>_. DOk (BodyTransactGet (replicate (length stmts) None) caps))
            (executePartiQLTransactWrites ord (zip stmts (map se_ReturnValuesOnConditionCheckFailure es)) s)))))))"

end
