(* ===== verification/Ddb_Router.thy ===== *)
theory Ddb_Router
  imports Ddb_Partiql_Handlers
begin

text \<open>
  The DynamoDB handlers for tables, tags, time to live, backups and Kinesis destinations
  (\<open>handler_table.go\<close>, \<open>handler_tag.go\<close>, \<open>handler_backup.go\<close>), the streams handlers (\<open>handler_streams.go\<close>)
  and the two routers (\<open>router.go\<close>, \<open>streams_router.go\<close>): one request per value of the \<open>X-Amz-Target\<close>
  header, with the body as its handler decodes it.
\<close>

section \<open>Table descriptions\<close>

text \<open>\<open>t.Unix()\<close> of a time in nanoseconds\<close>

definition unix :: "int \<Rightarrow> int" where
  "unix t = t div 1000000000"

definition newWarmThroughput :: "ProvisionedThroughput option \<Rightarrow> warmThroughput" where
  "newWarmThroughput pt =
     (case pt of
        None \<Rightarrow> \<lparr>wt_ReadUnitsPerSecond = 0, wt_WriteUnitsPerSecond = 0, wt_Status = ''ACTIVE''\<rparr>
      | Some p \<Rightarrow> \<lparr>wt_ReadUnitsPerSecond = pt_ReadCapacityUnits p, wt_WriteUnitsPerSecond = pt_WriteCapacityUnits p, wt_Status = ''ACTIVE''\<rparr>)"

definition toTableDescription :: "TableMetadata \<Rightarrow> tableDescription" where
  "toTableDescription m =
     \<lparr>td_TableName = tm_Name m, td_TableStatus = tm_Status m, td_TableArn = tableARNPrefix @ tm_Name m,
      td_CreationDateTime = unix (tm_CreatedAt m), td_KeySchema = tm_KeySchema m,
      td_AttributeDefinitions = tm_AttributeDefinitions m,
      td_BillingModeSummary =
        (if tm_BillingMode m = '''' then None
         else Some \<lparr>bms_BillingMode = tm_BillingMode m, bms_LastUpdate = map_option unix (tm_BillingModeUpdatedAt m)\<rparr>),
      td_ProvisionedThroughput = tm_ProvisionedThroughput m,
      td_GlobalSecondaryIndexes =
        map (\<lambda>g. \<lparr>id_IndexName = gsi_IndexName g, id_IndexStatus = ''ACTIVE'', id_KeySchema = gsi_KeySchema g,
                  id_Projection = gsi_Projection g, id_ProvisionedThroughput = gsi_ProvisionedThroughput g\<rparr>)
          (tm_GlobalSecondaryIndexes m),
      td_LocalSecondaryIndexes =
        map (\<lambda>l. \<lparr>id_IndexName = lsi_IndexName l, id_IndexStatus = ''ACTIVE'', id_KeySchema = lsi_KeySchema l,
                  id_Projection = lsi_Projection l, id_ProvisionedThroughput = tm_ProvisionedThroughput m\<rparr>)
          (tm_LocalSecondaryIndexes m),
      td_WarmThroughput = newWarmThroughput (tm_ProvisionedThroughput m),
      td_StreamSpecification = tm_StreamSpec m,
      td_LatestStreamArn =
        (if tm_StreamSpec m \<noteq> None \<and> tm_StreamLabel m \<noteq> '''' then streamARN (tm_Name m) (tm_StreamLabel m) else ''''),
      td_LatestStreamLabel = (if tm_StreamSpec m \<noteq> None then tm_StreamLabel m else '''')\<rparr>"

section \<open>Tables\<close>

definition validateStreamViewType :: "string \<Rightarrow> bool" where
  "validateStreamViewType vt \<longleftrightarrow> vt \<in> {''KEYS_ONLY'', ''NEW_IMAGE'', ''OLD_IMAGE'', ''NEW_AND_OLD_IMAGES''}"

definition keyAttrsDefined :: "AttributeDefinition list \<Rightarrow> KeySchemaElement list \<Rightarrow> bool" where
  "keyAttrsDefined defs ks \<longleftrightarrow> list_all (\<lambda>k. ks_AttributeName k \<in> set (map ad_AttributeName defs)) ks"

fun validLSIs :: "AttributeDefinition list \<Rightarrow> string \<Rightarrow> string list \<Rightarrow> LocalSecondaryIndex list \<Rightarrow> bool" where
  "validLSIs defs tableHashKey names [] = True"
| "validLSIs defs tableHashKey names (l # ls) =
     (lsi_IndexName l \<notin> set names \<and> keyAttrsDefined defs (lsi_KeySchema l)
      \<and> lastKeyOfType ''HASH'' (lsi_KeySchema l) = tableHashKey
      \<and> list_ex (\<lambda>k. ks_KeyType k = ''RANGE'') (lsi_KeySchema l)
      \<and> validLSIs defs tableHashKey (lsi_IndexName l # names) ls)"

definition validateTableIndexes ::
  "KeySchemaElement list \<Rightarrow> AttributeDefinition list \<Rightarrow> GlobalSecondaryIndex list \<Rightarrow> LocalSecondaryIndex list \<Rightarrow> bool" where
  "validateTableIndexes ks defs gsis lsis \<longleftrightarrow>
     keyAttrsDefined defs ks \<and> length lsis \<le> 5
     \<and> list_all (\<lambda>g. keyAttrsDefined defs (gsi_KeySchema g) \<and> list_ex (\<lambda>k. ks_KeyType k = ''HASH'') (gsi_KeySchema g)) gsis
     \<and> distinct (map gsi_IndexName gsis)
     \<and> validLSIs defs (lastKeyOfType ''HASH'' ks) (map gsi_IndexName gsis) lsis"

text \<open>The \<open>StreamSpecification\<close> of a request: \<open>StreamEnabled\<close> must be there, and the view type valid when it is true.\<close>

definition checkStreamSpec :: "(bool option \<times> string) option \<Rightarrow> (unit, StreamSpecification option) res" where
  "checkStreamSpec sp =
     (case sp of
        None \<Rightarrow> Ok None
      | Some (None, vt) \<Rightarrow> Err ()
      | Some (Some en, vt) \<Rightarrow>
          if en \<and> \<not> validateStreamViewType vt then Err () else Ok (Some \<lparr>ss_StreamEnabled = en, ss_StreamViewType = vt\<rparr>))"

record CreateTableRequest =
  ct_TableName :: string
  ct_KeySchema :: "KeySchemaElement list"
  ct_AttributeDefinitions :: "AttributeDefinition list"
  ct_BillingMode :: string
  ct_ProvisionedThroughput :: "ProvisionedThroughput option"
  ct_StreamSpecification :: "(bool option \<times> string) option"
  ct_GlobalSecondaryIndexes :: "GlobalSecondaryIndex list"
  ct_LocalSecondaryIndexes :: "LocalSecondaryIndex list"
  ct_Tags :: smap

definition maxTableUserTags :: nat where
  "maxTableUserTags = 50"

definition newMeta :: "CreateTableRequest \<Rightarrow> StreamSpecification option \<Rightarrow> TableMetadata" where
  "newMeta req spec =
     \<lparr>tm_Name = ct_TableName req, tm_KeySchema = ct_KeySchema req, tm_AttributeDefinitions = ct_AttributeDefinitions req,
      tm_BillingMode = ct_BillingMode req, tm_BillingModeUpdatedAt = None,
      tm_ProvisionedThroughput = ct_ProvisionedThroughput req,
      tm_GlobalSecondaryIndexes = ct_GlobalSecondaryIndexes req, tm_LocalSecondaryIndexes = ct_LocalSecondaryIndexes req,
      tm_Status = '''', tm_CreatedAt = 0, tm_TTL = None, tm_Tags = [], tm_PITR = None, tm_KinesisDestinations = [],
      tm_StreamSpec = spec, tm_StreamLabel = ''''\<rparr>"

text \<open>A list of pairs as a Go map: the last value of a key counts.\<close>

definition toMap :: "(string \<times> 'v) list \<Rightarrow> (string \<times> 'v) list" where
  "toMap ps = foldl (\<lambda>m (k, v). AList.update k v m) [] ps"

definition describeCreated :: "string \<Rightarrow> ddb \<Rightarrow> handled" where
  "describeCreated t s =
     (case DescribeTable t s of Ok m \<Rightarrow> (DOk (BodyTable (toTableDescription m)), s) | _ \<Rightarrow> (dInternal, s))"

definition handleCreateTable :: "CreateTableRequest option \<Rightarrow> ddb \<Rightarrow> handled" where
  "handleCreateTable body s =
     decoded body s (\<lambda>req.
     require (ct_TableName req \<noteq> '''') s
    (validated (checkStreamSpec (ct_StreamSpecification req)) s (\<lambda>spec.
     require (validateTableIndexes (ct_KeySchema req) (ct_AttributeDefinitions req) (ct_GlobalSecondaryIndexes req)
                (ct_LocalSecondaryIndexes req)) s
    (if length (ct_Tags req) > maxTableUserTags then (dBad ''LimitExceededException'', s)
     else
       (case CreateTable (newMeta req spec) s of
          (Err e, s1) \<Rightarrow> (if e = ErrTableAlreadyExists then dBad ''ResourceInUseException'' else dInternal, s1)
        | (Panic, s1) \<Rightarrow> (DPanic, s1)
        | (Ok _, s1) \<Rightarrow>
            if ct_Tags req = [] then describeCreated (ct_TableName req) s1
            else (case TagResource_ddb (tableARNPrefix @ ct_TableName req) (toMap (ct_Tags req)) s1 of
                    (Ok _, s2) \<Rightarrow> describeCreated (ct_TableName req) s2
                  | (_, s2) \<Rightarrow> (dInternal, snd (DeleteTable (ct_TableName req) s2))))))))"

definition handleDeleteTable :: "string option \<Rightarrow> ddb \<Rightarrow> handled" where
  "handleDeleteTable body s =
     decoded body s (\<lambda>t.
     require (t \<noteq> '''') s
    (case DescribeTable t s of
       Err e \<Rightarrow> (tableError e, s)
     | Panic \<Rightarrow> (DPanic, s)
     | Ok m \<Rightarrow>
         answer (\<lambda>_. dInternal) (\<lambda>_. DOk (BodyTable ((toTableDescription m)\<lparr>td_TableStatus := ''DELETING''\<rparr>))) (DeleteTable t s)))"

definition handleDescribeTable :: "string option \<Rightarrow> ddb \<Rightarrow> handled" where
  "handleDescribeTable body s =
     decoded body s (\<lambda>t.
     require (t \<noteq> '''') s
    (answer tableError (\<lambda>m. DOk (BodyTable (toTableDescription m))) (DescribeTable t s, s)))"

text \<open>The names after a cursor in sorted order: beyond the cursor itself, or from the first greater name on.\<close>

fun namesAfter :: "string \<Rightarrow> string list \<Rightarrow> string list" where
  "namesAfter cursor [] = []"
| "namesAfter cursor (n # ns) =
     (if n = cursor then ns else if strings_Compare cursor n < 0 then n # ns else namesAfter cursor ns)"

definition listTablesPage :: "nat \<Rightarrow> string \<Rightarrow> string list \<Rightarrow> string list \<times> string option" where
  "listTablesPage limit cursor names =
     (let sorted = sortBy (\<lambda>a b. strings_Compare a b < 0) names;
          rest = (if cursor = '''' then sorted else namesAfter cursor sorted)
      in if length rest > limit then (take limit rest, Some (rest ! (limit - 1))) else (rest, None))"

definition handleListTables :: "(int option \<times> string) option \<Rightarrow> ddb \<Rightarrow> handled" where
  "handleListTables body s =
     decoded body s (\<lambda>(limit, cursor).
     require (case limit of None \<Rightarrow> True | Some l \<Rightarrow> 1 \<le> l \<and> l \<le> 100) s
    (answer (\<lambda>_. dInternal)
       (\<lambda>names. case listTablesPage (case limit of None \<Rightarrow> 100 | Some l \<Rightarrow> nat l) cursor names of
                  (page, lastName) \<Rightarrow> DOk (BodyTableNames page lastName))
       (ListTables s, s)))"

text \<open>A change of the global secondary indexes: the parts it has; the first of create, update, delete counts.\<close>

record GSIUpdate =
  gu_Create :: "GlobalSecondaryIndex option"
  gu_Update :: "(string \<times> ProvisionedThroughput) option"
  gu_Delete :: "string option"

record UpdateTableRequest =
  ut_TableName :: string
  ut_BillingMode :: string
  ut_AttributeDefinitions :: "AttributeDefinition list"
  ut_ProvisionedThroughput :: "ProvisionedThroughput option"
  ut_StreamSpecification :: "(bool option \<times> string) option"
  ut_GSIUpdates :: "GSIUpdate list"

definition updateInput :: "UpdateTableRequest \<Rightarrow> StreamSpecification option \<Rightarrow> UpdateTableInput" where
  "updateInput req spec =
     \<lparr>ui_BillingMode = ut_BillingMode req, ui_ProvisionedThroughput = ut_ProvisionedThroughput req,
      ui_AttributeDefinitions = ut_AttributeDefinitions req,
      ui_GSICreates = List.map_filter gu_Create (ut_GSIUpdates req),
      ui_GSIUpdates = toMap (List.map_filter (\<lambda>u. if gu_Create u = None then gu_Update u else None) (ut_GSIUpdates req)),
      ui_GSIDeletes = List.map_filter (\<lambda>u. if gu_Create u = None \<and> gu_Update u = None then gu_Delete u else None) (ut_GSIUpdates req),
      ui_StreamSpec = spec\<rparr>"

definition handleUpdateTable :: "UpdateTableRequest option \<Rightarrow> ddb \<Rightarrow> handled" where
  "handleUpdateTable body s =
     decoded body s (\<lambda>req.
     require (ut_TableName req \<noteq> '''') s
    (validated (checkStreamSpec (ut_StreamSpecification req)) s (\<lambda>spec.
       answer tableError (\<lambda>m. DOk (BodyTable (toTableDescription m))) (UpdateTable (ut_TableName req) (updateInput req spec) s))))"

section \<open>Tags and time to live\<close>

text \<open>\<open>utf8.RuneCountInString\<close> of a decoded JSON string, which is valid UTF-8: the bytes that do not continue a rune.\<close>

definition runeCount :: "string \<Rightarrow> nat" where
  "runeCount t = length (filter (\<lambda>c. \<not> (128 \<le> (of_char c :: nat) \<and> (of_char c :: nat) < 192)) t)"

definition tagKeyMaxLength :: nat where "tagKeyMaxLength = 128"
definition tagValueMaxLength :: nat where "tagValueMaxLength = 256"

definition validTag :: "string \<times> string \<Rightarrow> bool" where
  "validTag kv \<longleftrightarrow> 1 \<le> runeCount (fst kv) \<and> runeCount (fst kv) \<le> tagKeyMaxLength \<and> runeCount (snd kv) \<le> tagValueMaxLength"

definition tagError :: "ddb_error \<Rightarrow> ddb_response" where
  "tagError e = (if e = ErrTagLimitExceeded then dBad ''LimitExceededException'' else tableError e)"

definition handleTagResource_ddb :: "(string \<times> smap) option \<Rightarrow> ddb \<Rightarrow> handled" where
  "handleTagResource_ddb body s =
     decoded body s (\<lambda>(arn, tags).
     require (arn \<noteq> '''') s
    (require (list_all validTag tags) s
    (answer tagError (\<lambda>_. DOk BodyEmpty) (TagResource_ddb arn (toMap tags) s))))"

definition handleUntagResource_ddb :: "(string \<times> string list) option \<Rightarrow> ddb \<Rightarrow> handled" where
  "handleUntagResource_ddb body s =
     decoded body s (\<lambda>(arn, ks).
     require (arn \<noteq> '''') s
    (require (list_all (\<lambda>k. k \<noteq> '''') ks) s
    (answer tableError (\<lambda>_. DOk BodyEmpty) (UntagResource_ddb arn ks s))))"

definition handleListTagsOfResource :: "string option \<Rightarrow> ddb \<Rightarrow> handled" where
  "handleListTagsOfResource body s =
     decoded body s (\<lambda>arn.
     require (arn \<noteq> '''') s
    (answer tableError (\<lambda>tags. DOk (BodyTags tags)) (ListTagsOfResource arn s, s)))"

definition handleUpdateTimeToLive :: "(string \<times> TTLSpec) option \<Rightarrow> ddb \<Rightarrow> handled" where
  "handleUpdateTimeToLive body s =
     decoded body s (\<lambda>(t, spec).
     require (t \<noteq> '''') s
    (answer tableError (\<lambda>sp. DOk (BodyTTL sp)) (UpdateTimeToLive t spec s)))"

definition handleDescribeTimeToLive :: "string option \<Rightarrow> ddb \<Rightarrow> handled" where
  "handleDescribeTimeToLive body s =
     decoded body s (\<lambda>t.
     require (t \<noteq> '''') s
    (answer tableError (\<lambda>(status, spec). DOk (BodyTTLDescription status (map_option ttl_AttributeName spec))) (DescribeTimeToLive t s, s)))"

section \<open>Backups and Kinesis destinations\<close>

definition minutes5 :: int where "minutes5 = 300 * 1000000000"

definition toContinuousBackupsDescription :: "int \<Rightarrow> PITRStatus option \<Rightarrow> pitrDescription" where
  "toContinuousBackupsDescription now pitr =
     (case pitr of
        None \<Rightarrow> \<lparr>pd_Status = ''DISABLED'', pd_Earliest = None, pd_Latest = None\<rparr>
      | Some p \<Rightarrow>
          if \<not> pitr_Enabled p then \<lparr>pd_Status = ''DISABLED'', pd_Earliest = None, pd_Latest = None\<rparr>
          else (case pitr_EnabledAt p of
                  None \<Rightarrow> \<lparr>pd_Status = ''ENABLED'', pd_Earliest = None, pd_Latest = None\<rparr>
                | Some t \<Rightarrow> \<lparr>pd_Status = ''ENABLED'', pd_Earliest = Some (unix (t + minutes5)), pd_Latest = Some (unix (now - minutes5))\<rparr>))"

definition backupError :: "ddb_error \<Rightarrow> ddb_response" where
  "backupError e = (if e = ErrTableNotFound then dBad ''TableNotFoundException'' else dInternal)"

definition handleDescribeContinuousBackups :: "string option \<Rightarrow> ddb \<Rightarrow> handled" where
  "handleDescribeContinuousBackups body s =
     decoded body s (\<lambda>t.
     require (t \<noteq> '''') s
    (answer backupError (\<lambda>m. DOk (BodyBackups (toContinuousBackupsDescription (clock s) (tm_PITR m)))) (DescribeContinuousBackups t s, s)))"

definition handleUpdateContinuousBackups :: "(string \<times> bool option) option \<Rightarrow> ddb \<Rightarrow> handled" where
  "handleUpdateContinuousBackups body s =
     decoded body s (\<lambda>(t, spec).
     require (t \<noteq> '''') s
    (case spec of
       None \<Rightarrow> (dValidation, s)
     | Some en \<Rightarrow>
         answer backupError (\<lambda>m. DOk (BodyBackups (toContinuousBackupsDescription (clock s) (tm_PITR m)))) (UpdateContinuousBackups t en s)))"

text \<open>\<open>^arn:(?:aws|aws-cn|aws-us-gov):kinesis:[a-z0-9-]+:\d{12}:stream/\S+$\<close>\<close>

definition regionChar :: "char \<Rightarrow> bool" where
  "regionChar c \<longleftrightarrow> (CHR ''a'' \<le> c \<and> c \<le> CHR ''z'') \<or> (CHR ''0'' \<le> c \<and> c \<le> CHR ''9'') \<or> c = CHR ''-''"

definition accountStream :: "string \<Rightarrow> bool" where
  "accountStream t \<longleftrightarrow>
     length (take 12 t) = 12 \<and> list_all (\<lambda>c. CHR ''0'' \<le> c \<and> c \<le> CHR ''9'') (take 12 t)
     \<and> has_prefix '':stream/'' (drop 12 t) \<and> drop 20 t \<noteq> ''''
     \<and> list_all (\<lambda>c. c \<notin> {CHR '' '', CHR 0x09, CHR 0x0A, CHR 0x0C, CHR 0x0D}) (drop 20 t)"

definition kinesisRegion :: "string \<Rightarrow> bool" where
  "kinesisRegion t \<longleftrightarrow>
     (let region = takeWhile regionChar t; rest = drop (length region) t
      in region \<noteq> '''' \<and> has_prefix '':'' rest \<and> accountStream (drop 1 rest))"

definition kinesisStreamARN :: "string \<Rightarrow> bool" where
  "kinesisStreamARN arn \<longleftrightarrow>
     list_ex (\<lambda>p. has_prefix p arn \<and> kinesisRegion (drop (length p) arn))
       [''arn:aws:kinesis:'', ''arn:aws-cn:kinesis:'', ''arn:aws-us-gov:kinesis:'']"

definition handleDescribeKinesisStreamingDestination :: "string option \<Rightarrow> ddb \<Rightarrow> handled" where
  "handleDescribeKinesisStreamingDestination body s =
     decoded body s (\<lambda>t.
     require (t \<noteq> '''') s
    (answer tableError (\<lambda>ds. DOk (BodyKinesis t ds)) (DescribeKinesisStreamingDestination t s, s)))"

definition enableError :: "ddb_error \<Rightarrow> ddb_response" where
  "enableError e = (if e = ErrKinesisLimitExceeded then dBad ''LimitExceededException'' else tableError e)"

definition handleEnableKinesisStreamingDestination :: "(string \<times> string \<times> string option) option \<Rightarrow> ddb \<Rightarrow> handled" where
  "handleEnableKinesisStreamingDestination body s =
     decoded body s (\<lambda>(t, arn, conf).
     require (t \<noteq> '''') s
    (require (arn \<noteq> '''') s
    (require (kinesisStreamARN arn) s
    (let p = (case conf of None \<Rightarrow> '''' | Some p \<Rightarrow> p)
     in require (p \<in> {'''', ''MILLISECOND'', ''MICROSECOND''}) s
       (answer enableError
          (\<lambda>(d, wasActive). DOk (BodyKinesisStatus t (kd_StreamARN d) (if wasActive then ''UPDATING'' else ''ENABLING'') (Some (kd_Precision d))))
          (EnableKinesisStreamingDestination t arn (if p = '''' then ''MILLISECOND'' else p) s))))))"

definition disableError :: "ddb_error \<Rightarrow> ddb_response" where
  "disableError e = (if e = ErrKinesisDestinationNotFound then dNotFound else tableError e)"

definition handleDisableKinesisStreamingDestination :: "(string \<times> string) option \<Rightarrow> ddb \<Rightarrow> handled" where
  "handleDisableKinesisStreamingDestination body s =
     decoded body s (\<lambda>(t, arn).
     require (t \<noteq> '''') s
    (require (arn \<noteq> '''') s
    (require (kinesisStreamARN arn) s
    (answer disableError (\<lambda>d. DOk (BodyKinesisStatus t (kd_StreamARN d) ''DISABLING'' None)) (DisableKinesisStreamingDestination t arn s)))))"

section \<open>Streams\<close>

fun entriesAfter :: "string \<Rightarrow> StreamEntry list \<Rightarrow> StreamEntry list" where
  "entriesAfter arn [] = []"
| "entriesAfter arn (e # es) = (if se_StreamARN e = arn then es else entriesAfter arn es)"

definition handleListStreams :: "(string \<times> int option \<times> string) option \<Rightarrow> ddb \<Rightarrow> handled" where
  "handleListStreams body s =
     decoded body s (\<lambda>(t, limit, cursor).
     require (case limit of None \<Rightarrow> True | Some l \<Rightarrow> 1 \<le> l \<and> l \<le> 100) s
    (answer tableError
       (\<lambda>es. let lim = (case limit of None \<Rightarrow> 100 | Some l \<Rightarrow> nat l); rest = (if cursor = '''' then es else entriesAfter cursor es)
             in DOk (if length rest > lim then BodyStreams (take lim rest) (Some (se_StreamARN (rest ! (lim - 1)))) else BodyStreams rest None))
       (ListStreamARNs t s, s)))"

definition streamError :: "ddb_error \<Rightarrow> ddb_response" where
  "streamError e = (if e = ErrStreamNotFound then dNotFound else dInternal)"

text \<open>Whether the one shard is listed: not when the cursor names it.\<close>

definition handleDescribeStream :: "(string \<times> string \<times> int option) option \<Rightarrow> ddb \<Rightarrow> handled" where
  "handleDescribeStream body s =
     decoded body s (\<lambda>(arn, startShard, limit).
     require (arn \<noteq> '''') s
    (require (case limit of None \<Rightarrow> True | Some l \<Rightarrow> 1 \<le> l \<and> l \<le> 100) s
    (answer streamError (\<lambda>d. DOk (BodyStream d (startShard = '''' \<or> startShard \<noteq> sd_ShardID d))) (DescribeStream arn s, s))))"

definition iteratorError :: "ddb_error \<Rightarrow> ddb_response" where
  "iteratorError e = (case e of ErrValidationException _ \<Rightarrow> dValidation | _ \<Rightarrow> streamError e)"

definition handleGetShardIterator :: "(string \<times> string \<times> string \<times> string) option \<Rightarrow> ddb \<Rightarrow> handled" where
  "handleGetShardIterator body s =
     decoded body s (\<lambda>(arn, shard, ty, num).
     require (arn \<noteq> '''' \<and> shard \<noteq> '''' \<and> ty \<noteq> '''') s
    (answer iteratorError (\<lambda>it. DOk (BodyIterator it)) (GetShardIterator s arn shard ty num, s)))"

definition toRecordOut :: "streamRecord \<Rightarrow> recordOut" where
  "toRecordOut r =
     \<lparr>ro_EventID = sr_EventID r, ro_EventName = sr_EventName r, ro_CreatedAt = unix (sr_CreatedAt r), ro_Keys = sr_Keys r,
      ro_NewImage = sr_NewImage r, ro_OldImage = sr_OldImage r, ro_SequenceNumber = seqNumStr (sr_SeqNum r),
      ro_StreamViewType = sr_ViewType r\<rparr>"

text \<open>The iterator token of the request: missing, or what it decodes to.\<close>

definition handleGetRecords :: "(shardIterState option option \<times> int option) option \<Rightarrow> ddb \<Rightarrow> handled" where
  "handleGetRecords body s =
     decoded body s (\<lambda>(tok, limit).
       case tok of
         None \<Rightarrow> (dValidation, s)
       | Some it \<Rightarrow>
           if case_option False (\<lambda>l. 1000 < l) limit then (dBad ''LimitExceededException'', s)
           else require (validLimit limit) s
             (answer (\<lambda>e. case e of ErrValidationException _ \<Rightarrow> dNotFound | _ \<Rightarrow> dInternal)
                (\<lambda>(rs, it'). DOk (BodyRecords (map toRecordOut rs) it'))
                (GetStreamRecords s it (case limit of None \<Rightarrow> 1000 | Some l \<Rightarrow> l), s)))"

section \<open>The routers\<close>

datatype ddb_request =
    RqUnreadable_ddb
  | RqCreateTable "CreateTableRequest option"
  | RqDeleteTable "string option"
  | RqDescribeTable "string option"
  | RqListTables "(int option \<times> string) option"
  | RqPutItem "WriteItemRequest option"
  | RqGetItem "GetItemRequest option"
  | RqDeleteItem "WriteItemRequest option"
  | RqScan "ScanRequest option"
  | RqUpdateItem "UpdateItemRequest option"
  | RqQuery "QueryRequest option"
  | RqBatchGetItem "((string \<times> BatchGetRequest) list \<times> string) option"
  | RqBatchWriteItem "((string \<times> BatchWriteEntry list) list \<times> string) option"
  | RqUpdateTable "UpdateTableRequest option"
  | RqUpdateTimeToLive "(string \<times> TTLSpec) option"
  | RqDescribeTimeToLive "string option"
  | RqTagResource_ddb "(string \<times> smap) option"
  | RqUntagResource_ddb "(string \<times> string list) option"
  | RqListTagsOfResource "string option"
  | RqTransactGetItems "(TransactGetEntry option list \<times> string) option"
  | RqTransactWriteItems "(TransactEntry list \<times> string) option"
  | RqDescribeContinuousBackups "string option"
  | RqUpdateContinuousBackups "(string \<times> bool option) option"
  | RqDescribeKinesisStreamingDestination "string option"
  | RqEnableKinesisStreamingDestination "(string \<times> string \<times> string option) option"
  | RqDisableKinesisStreamingDestination "(string \<times> string) option"
  | RqExecuteStatement "ExecuteStatementRequest option"
  | RqBatchExecuteStatement "(StatementEntry list \<times> string) option"
  | RqExecuteTransaction "(StatementEntry list \<times> string) option"
  | RqDescribeLimits
  | RqDescribeEndpoints
  | RqListStreams "(string \<times> int option \<times> string) option"
  | RqDescribeStream "(string \<times> string \<times> int option) option"
  | RqGetShardIterator "(string \<times> string \<times> string \<times> string) option"
  | RqGetRecords "(shardIterState option option \<times> int option) option"
  | RqOther_ddb string

text \<open>
  Both routers: the four operations on streams belong to the streams router; each of the two answers the
  other's operations as not implemented.
\<close>

fun serveDdb :: "(hval updates \<Rightarrow> hval updates) \<Rightarrow> ddb_request \<Rightarrow> ddb \<Rightarrow> handled" where
  "serveDdb ord RqUnreadable_ddb s = (dValidation, s)"
| "serveDdb ord (RqCreateTable b) s = handleCreateTable b s"
| "serveDdb ord (RqDeleteTable b) s = handleDeleteTable b s"
| "serveDdb ord (RqDescribeTable b) s = handleDescribeTable b s"
| "serveDdb ord (RqListTables b) s = handleListTables b s"
| "serveDdb ord (RqPutItem b) s = handlePutItem b s"
| "serveDdb ord (RqGetItem b) s = handleGetItem b s"
| "serveDdb ord (RqDeleteItem b) s = handleDeleteItem b s"
| "serveDdb ord (RqScan b) s = handleScan b s"
| "serveDdb ord (RqUpdateItem b) s = handleUpdateItem ord b s"
| "serveDdb ord (RqQuery b) s = handleQuery b s"
| "serveDdb ord (RqBatchGetItem b) s = handleBatchGetItem b s"
| "serveDdb ord (RqBatchWriteItem b) s = handleBatchWriteItem b s"
| "serveDdb ord (RqUpdateTable b) s = handleUpdateTable b s"
| "serveDdb ord (RqUpdateTimeToLive b) s = handleUpdateTimeToLive b s"
| "serveDdb ord (RqDescribeTimeToLive b) s = handleDescribeTimeToLive b s"
| "serveDdb ord (RqTagResource_ddb b) s = handleTagResource_ddb b s"
| "serveDdb ord (RqUntagResource_ddb b) s = handleUntagResource_ddb b s"
| "serveDdb ord (RqListTagsOfResource b) s = handleListTagsOfResource b s"
| "serveDdb ord (RqTransactGetItems b) s = handleTransactGetItems b s"
| "serveDdb ord (RqTransactWriteItems b) s = handleTransactWriteItems ord b s"
| "serveDdb ord (RqDescribeContinuousBackups b) s = handleDescribeContinuousBackups b s"
| "serveDdb ord (RqUpdateContinuousBackups b) s = handleUpdateContinuousBackups b s"
| "serveDdb ord (RqDescribeKinesisStreamingDestination b) s = handleDescribeKinesisStreamingDestination b s"
| "serveDdb ord (RqEnableKinesisStreamingDestination b) s = handleEnableKinesisStreamingDestination b s"
| "serveDdb ord (RqDisableKinesisStreamingDestination b) s = handleDisableKinesisStreamingDestination b s"
| "serveDdb ord (RqExecuteStatement b) s = handleExecuteStatement ord b s"
| "serveDdb ord (RqBatchExecuteStatement b) s = handleBatchExecuteStatement ord b s"
| "serveDdb ord (RqExecuteTransaction b) s = handleExecuteTransaction ord b s"
| "serveDdb ord RqDescribeLimits s = (DOk BodyLimits, s)"
| "serveDdb ord RqDescribeEndpoints s = (DOk BodyEndpoints, s)"
| "serveDdb ord (RqListStreams b) s = handleListStreams b s"
| "serveDdb ord (RqDescribeStream b) s = handleDescribeStream b s"
| "serveDdb ord (RqGetShardIterator b) s = handleGetShardIterator b s"
| "serveDdb ord (RqGetRecords b) s = handleGetRecords b s"
| "serveDdb ord (RqOther_ddb op) s = (DErr 501 (errType ''NotImplemented''), s)"

end
