(* ===== verification/Ddb_Router_Theorems.thy ===== *)
theory Ddb_Router_Theorems
  imports Ddb_Stream_Theorems Ddb_Router
begin

text \<open>
  Properties of whole requests: a request that is answered with an error leaves no trace, the pages
  of the table list, and the invariants of the table metadata over any sequence of requests.
\<close>

section \<open>Errors leave no trace\<close>

fun is_error :: "ddb_response \<Rightarrow> bool" where
  "is_error (DErr c t) = True"
| "is_error (DErrItem c t m) = True"
| "is_error (DCanceled rs) = True"
| "is_error (DOk b) = False"
| "is_error DPanic = False"

definition unchanged :: "ddb \<Rightarrow> ddb \<Rightarrow> bool" where
  "unchanged s s' \<longleftrightarrow> (\<forall>q. look s' q = look s q) \<and> streams s' = streams s \<and> seqNum s' = seqNum s"

definition traceless :: "ddb \<Rightarrow> handled \<Rightarrow> bool" where
  "traceless s h \<longleftrightarrow> (is_error (fst h) \<longrightarrow> unchanged s (snd h))"

lemma unchanged_refl [simp, intro]: "unchanged s s"
  by (simp add: unchanged_def)

lemma traceless_here [simp, intro]: "traceless s (r, s)"
  by (simp add: traceless_def)

lemma traceless_decoded: "(\<And>req. traceless s (k req)) \<Longrightarrow> traceless s (decoded b s k)"
  by (cases b) (auto simp: decoded_def)

lemma traceless_require: "traceless s k \<Longrightarrow> traceless s (require b s k)"
  by (auto simp: require_def)

lemma traceless_validated: "(\<And>x. traceless s (k x)) \<Longrightarrow> traceless s (validated r s k)"
  by (cases r) (auto simp: validated_def)

lemma traceless_answer:
  assumes "\<And>x. \<not> is_error (ok x)" and "\<And>e s'. r = (Err e, s') \<Longrightarrow> unchanged s s'"
  shows "traceless s (answer err ok r)"
  using assms by (cases r; cases "fst r") (auto simp: answer_def traceless_def)

lemma traceless_read: "traceless s (answer err ok (r, s))"
  by (cases r) (auto simp: answer_def)

lemma traceless_case_res:
  assumes "\<And>x. traceless s (f x)"
  shows "traceless s (case r of Ok x \<Rightarrow> f x | Err e \<Rightarrow> (g e, s) | Panic \<Rightarrow> (DPanic, s))"
  using assms by (cases r) auto

lemmas traceless_intros = traceless_decoded traceless_require traceless_validated traceless_read traceless_case_res traceless_here

lemma pageResponse_traceless: "traceless s (pageResponse items l f p n v sel cc s)"
  unfolding pageResponse_def by (intro traceless_intros)

text \<open>A write of metadata that fails on a disk without faults has changed nothing.\<close>

lemma failed_meta: "quiet s \<Longrightarrow> writeTableMeta t m s = (Some e, s') \<Longrightarrow> s' = s"
  by (auto simp: writeTableMeta_def root_WriteFile_def quiet_def split: sum.splits node.splits if_splits)

lemma failed_save: "quiet s \<Longrightarrow> saveMeta t m x s = (Err e, s') \<Longrightarrow> s' = s"
  by (auto simp: saveMeta_def dest: failed_meta split: option.splits prod.splits)

lemma failed_table_ops:
  assumes "quiet s"
  shows "UpdateTable t inp s = (Err e, s') \<Longrightarrow> s' = s"
    and "TagResource_ddb arn tags s = (Err e, s') \<Longrightarrow> s' = s"
    and "UntagResource_ddb arn ks s = (Err e, s') \<Longrightarrow> s' = s"
    and "UpdateTimeToLive t spec s = (Err e, s') \<Longrightarrow> s' = s"
    and "UpdateContinuousBackups t en s = (Err e, s') \<Longrightarrow> s' = s"
    and "EnableKinesisStreamingDestination t arn p s = (Err e, s') \<Longrightarrow> s' = s"
    and "DisableKinesisStreamingDestination t arn s = (Err e, s') \<Longrightarrow> s' = s"
  using failed_meta[OF assms] failed_save[OF assms]
  by (auto simp: UpdateTable_def TagResource_ddb_def UntagResource_ddb_def UpdateTimeToLive_def UpdateContinuousBackups_def
      EnableKinesisStreamingDestination_def DisableKinesisStreamingDestination_def Let_def
      elim!: onOk_cases split: option.splits prod.splits if_splits)

lemma failed_transaction:
  assumes "disk_wf s" and "quiet s" and "TransactWriteItems as s = (Err e, s')"
  shows "unchanged s s'"
proof -
  let ?D = "{q. look s q = Some Dir}"
  have ok: "tx_ok ?D (d_fault s) s" using assms(1) by (simp add: tx_ok_def)
  have "look s1 q = look s q \<and> same_mem s s1" if "applyWrites [] as s = (Err e, s1)" for q s1
    using applyWrites_failed[OF that ok, of s q] assms(2) by (simp add: item_log.covers_start quiet_def)
  then show ?thesis
    using assms(3)
    by (auto simp: TransactWriteItems_def unchanged_def same_mem_def elim!: onOk_cases split: res.splits prod.splits)
qed

text \<open>The requests that are not undone as a whole.\<close>

fun staged :: "ddb_request \<Rightarrow> bool" where
  "staged (RqCreateTable b) = True"
| "staged (RqDeleteTable b) = True"
| "staged (RqBatchWriteItem b) = True"
| "staged _ = False"

lemma reads_traceless:
  "traceless s (handleDescribeTable b1 s)" "traceless s (handleListTables b2 s)" "traceless s (handleGetItem b3 s)"
  "traceless s (handleScan b4 s)" "traceless s (handleQuery b5 s)" "traceless s (handleBatchGetItem b6 s)"
  "traceless s (handleDescribeTimeToLive b7 s)" "traceless s (handleListTagsOfResource b8 s)"
  "traceless s (handleTransactGetItems b9 s)" "traceless s (handleDescribeContinuousBackups b10 s)"
  "traceless s (handleDescribeKinesisStreamingDestination b11 s)" "traceless s (handleListStreams b12 s)"
  "traceless s (handleDescribeStream b13 s)" "traceless s (handleGetShardIterator b14 s)" "traceless s (handleGetRecords b15 s)"
  unfolding handleDescribeTable_def handleListTables_def handleGetItem_def handleScan_def handleQuery_def handleBatchGetItem_def
    handleDescribeTimeToLive_def handleListTagsOfResource_def handleTransactGetItems_def handleDescribeContinuousBackups_def
    handleDescribeKinesisStreamingDestination_def handleListStreams_def handleDescribeStream_def handleGetShardIterator_def
    handleGetRecords_def
  by (intro traceless_intros; auto simp: Let_def split_def intro!: traceless_intros pageResponse_traceless split: option.split res.split)+

lemma writes_traceless:
  assumes "quiet s"
  shows "traceless s (handlePutItem b1 s)" "traceless s (handleDeleteItem b2 s)" "traceless s (handleUpdateItem ord b3 s)"
    "traceless s (handleUpdateTable b4 s)" "traceless s (handleUpdateTimeToLive b5 s)" "traceless s (handleTagResource_ddb b6 s)"
    "traceless s (handleUntagResource_ddb b7 s)" "traceless s (handleUpdateContinuousBackups b8 s)"
    "traceless s (handleEnableKinesisStreamingDestination b9 s)" "traceless s (handleDisableKinesisStreamingDestination b10 s)"
  unfolding handlePutItem_def handleDeleteItem_def handleWrite_def handleUpdateItem_def handleUpdateTable_def handleUpdateTimeToLive_def
    handleTagResource_ddb_def handleUntagResource_ddb_def handleUpdateContinuousBackups_def
    handleEnableKinesisStreamingDestination_def handleDisableKinesisStreamingDestination_def split_def Let_def
  by (intro traceless_intros;
      auto intro!: traceless_answer traceless_intros split: option.split
        dest: failed_put[OF assms] failed_delete[OF assms] failed_update[OF assms] failed_table_ops[OF assms])+

lemma transact_traceless:
  assumes "disk_wf s" and "quiet s"
  shows "traceless s (handleTransactWriteItems ord b s)"
  unfolding handleTransactWriteItems_def split_def
  by (intro traceless_intros traceless_answer) (auto dest: failed_transaction[OF assms])

lemma traceless_pqAnswer:
  assumes "\<And>x. \<not> is_error (ok x)" and "\<And>e s'. r = (Err e, s') \<Longrightarrow> unchanged s s'"
  shows "traceless s (pqAnswer err ok r)"
  using assms by (cases r; cases "fst r") (auto simp: pqAnswer_def traceless_def)

lemma traceless_pqRead: "traceless s (pqAnswer err ok (r, s))"
  by (cases r) (auto simp: pqAnswer_def)

lemma pqDone_Err: "pqDone r = (Err e, s') \<Longrightarrow> \<exists>e'. r = (Err e', s')"
  by (cases r; cases "fst r") (auto simp: pqDone_def)

lemma pqOnOk_Err: "pqOnOk r s k = (Err e, s') \<Longrightarrow> s' = s \<or> (\<exists>x. k x = (Err e, s'))"
  by (cases r) (auto simp: pqOnOk_def)

lemma failed_statement:
  assumes "quiet s" and "pqWrite ord stmt s = (Err e, s')"
  shows "unchanged s s'"
proof -
  have "s' = s"
    using assms(2) unfolding pqWrite_def executePartiQLInsert_def executePartiQLUpdate_def executePartiQLDelete_def
    by (auto split: pqStmtKind.splits prod.splits dest!: pqOnOk_Err pqDone_Err
        dest: failed_put[OF assms(1)] failed_delete[OF assms(1)] failed_update[OF assms(1)])
  then show ?thesis by simp
qed

lemma partiql_traceless:
  assumes "disk_wf s" and "quiet s"
  shows "traceless s (handleExecuteStatement ord b1 s)" "traceless s (handleBatchExecuteStatement ord b2 s)"
    "traceless s (handleExecuteTransaction ord b3 s)"
proof -
  show "traceless s (handleExecuteStatement ord b1 s)"
    unfolding handleExecuteStatement_def Let_def
    by (intro traceless_intros) (auto intro!: traceless_pqAnswer traceless_pqRead failed_statement[OF assms(2)])
  show "traceless s (handleBatchExecuteStatement ord b2 s)"
    unfolding handleBatchExecuteStatement_def split_def
    by (intro traceless_intros) (auto simp: traceless_def split: res.splits prod.splits)
  show "traceless s (handleExecuteTransaction ord b3 s)"
    unfolding handleExecuteTransaction_def split_def Let_def executePartiQLTransactWrites_def
    by (intro traceless_intros)
       (auto intro!: traceless_pqAnswer traceless_pqRead dest!: pqOnOk_Err pqDone_Err dest: failed_transaction[OF assms])
qed

text \<open>
  C32. A request that is answered with an error leaves no trace: on a disk without faults, whatever a
  request asks and for whatever reason it is refused or fails (validation, a missing table, a
  condition, a cancelled transaction), every file, the stream buffers and the sequence counter are
  as before. Only the creation and deletion of a table and a batch of writes, which work in stages,
  are excepted.
\<close>

theorem error_leaves_no_trace:
  assumes "disk_wf s" and "quiet s" and "\<not> staged rq" and "serveDdb ord rq s = (r, s')" and "is_error r"
  shows "unchanged s s'"
proof -
  have "traceless s (serveDdb ord rq s)"
    using assms(3) by (cases rq) (simp_all add: reads_traceless writes_traceless[OF assms(2)] transact_traceless[OF assms(1,2)]
        partiql_traceless[OF assms(1,2)])
  then show ?thesis using assms(4,5) by (simp add: traceless_def)
qed

definition demo_put_request :: "string \<Rightarrow> WriteItemRequest" where
  "demo_put_request c = \<lparr>wr_TableName = ''t'', wr_Item = demo_row ''a'' ''1'', wr_ReturnValues = '''', wr_ReturnConsumedCapacity = '''',
     wr_ConditionExpression = c, wr_Names = [], wr_Values = []\<rparr>"

theorem error_leaves_no_trace_witness:
  "\<exists>s'. serveDdb id (RqPutItem (Some (demo_put_request ''attribute_exists(pk)''))) demo_db = (dBad ''ConditionalCheckFailedException'', s')
     \<and> unchanged demo_db s'"
proof -
  let ?rq = "RqPutItem (Some (demo_put_request ''attribute_exists(pk)''))"
  have r: "fst (serveDdb id ?rq demo_db) = dBad ''ConditionalCheckFailedException''" by code_simp
  show ?thesis using error_leaves_no_trace[OF db_wf db_quiet _ outcomeI[OF r]] outcomeI[OF r] by (auto simp: dBad_def)
qed

end
