(* ===== verification/Ddb_Meta_Theorems.thy ===== *)
theory Ddb_Meta_Theorems
  imports Ddb_Router_Theorems
begin

text \<open>
  The invariant of the table metadata over every sequence of requests, restarts and trims, with any
  faults of the disk: \<open>sound Q s s'\<close> says that a step keeps a property \<open>Q\<close> of all table metadata
  that is on the disk, and that the disk stays a tree.
\<close>

section \<open>What the files hold\<close>

definition files_ok :: "(TableMetadata \<Rightarrow> bool) \<Rightarrow> ddb \<Rightarrow> bool" where
  "files_ok Q s \<longleftrightarrow> (\<forall>p m. look s p = Some (File (Some (CTable m))) \<longrightarrow> Q m)"

definition sound :: "(TableMetadata \<Rightarrow> bool) \<Rightarrow> ddb \<Rightarrow> ddb \<Rightarrow> bool" where
  "sound Q s s' \<longleftrightarrow> (files_ok Q s \<longrightarrow> files_ok Q s') \<and> (disk_wf s \<longrightarrow> disk_wf s')"

lemma sound_refl [simp, intro]: "sound Q s s"
  by (simp add: sound_def)

lemma sound_trans [trans]: "sound Q s s' \<Longrightarrow> sound Q s' s'' \<Longrightarrow> sound Q s s''"
  by (simp add: sound_def)

lemma sound_mem [simp]:
  "sound Q s (s'\<lparr>streams := b\<rparr>) = sound Q s s'" "sound Q s (s'\<lparr>seqNum := n\<rparr>) = sound Q s s'"
  "sound Q (s\<lparr>streams := b\<rparr>) s' = sound Q s s'" "sound Q (s\<lparr>seqNum := n\<rparr>) s' = sound Q s s'"
  by (simp_all add: sound_def files_ok_def)

lemma files_put: "files_ok Q s \<Longrightarrow> (\<And>m. n = File (Some (CTable m)) \<Longrightarrow> Q m) \<Longrightarrow> files_ok Q (put p n s)"
  by (simp add: files_ok_def fs_simps)

lemma files_del: "files_ok Q s \<Longrightarrow> files_ok Q (del p s)"
  by (simp add: files_ok_def fs_simps)

lemma files_read: "files_ok Q s \<Longrightarrow> root_ReadFile s p = Inr (Some (CTable m)) \<Longrightarrow> Q m"
  by (auto simp: files_ok_def root_ReadFile_def dest!: root_walk_Inr split: if_splits sum.splits node.splits)

lemma sound_write:
  assumes "root_WriteFile p c s = (r, s')" and "clean_path p" and "files_ok Q s \<Longrightarrow> (\<And>m. c = CTable m \<Longrightarrow> Q m)"
  shows "sound Q s s'"
proof -
  have "files_ok Q s'" if "files_ok Q s"
    using assms(1) assms(3)[OF that] that
    by (auto simp: root_WriteFile_def intro!: files_put split: sum.splits node.splits if_splits)
  then show ?thesis using frame_fields(5)[OF write_step(1)[OF assms(2,1)]] by (simp add: sound_def)
qed

lemma sound_remove: "root_Remove p s = (r, s') \<Longrightarrow> sound Q s s'"
  using frame_fields(5)[OF remove_step(1)] files_del[of Q s p]
  by (auto simp: sound_def root_Remove_def split: sum.splits node.splits if_splits)

lemma sound_mkdir: "root_Mkdir (tableDir t) s = (r, s') \<Longrightarrow> sound Q s s'"
  using frame_fields(5)[OF mkdir_step(1)[of "tableDir t"]] files_put[of Q s Dir "tableDir t"]
  by (fastforce simp: sound_def root_Mkdir_def split: sum.splits node.splits if_splits option.splits)

lemma sound_rename:
  assumes "root_Rename p q s = (r, s')" and "clean_path q"
  shows "sound Q s s'"
proof -
  have "files_ok Q s'" if "files_ok Q s"
  proof -
    consider "s' = s" | c where "look s p = Some (File c)" "s' = put q (File c) (if p = q then s else del p s)"
      using assms(1) by (auto simp: root_Rename_def dest!: root_walk_Inr split: sum.splits node.splits if_splits)
    then show ?thesis
    proof cases
      case 2
      have "Q m" if "File c = File (Some (CTable m))" for m using that 2(1) \<open>files_ok Q s\<close> by (auto simp: files_ok_def)
      then show ?thesis unfolding 2(2) by (intro files_put) (simp_all add: that files_del)
    qed (use that in simp)
  qed
  then show ?thesis using frame_fields(5)[OF rename_step(1)[OF assms(2,1)]] by (simp add: sound_def)
qed

lemma sound_item:
  assumes "writeItem (itemPath t k) oi s = (r, s')"
  shows "sound Q s s'"
proof (cases oi)
  case None
  have "files_ok Q s'" if "files_ok Q s"
    using assms that None by (auto simp: writeItem_def writeEmpty_def intro!: files_put split: sum.splits node.splits if_splits)
  then show ?thesis using frame_fields(5)[OF writeItem_step(1)[OF _ assms]] by (auto simp: sound_def)
next
  case (Some item)
  then show ?thesis using assms sound_write[of "itemPath t k" "CItem item" s r s' Q] by (simp add: writeItem_def)
qed

lemma sound_save: "writeTableMeta t m s = (r, s') \<Longrightarrow> (files_ok Q s \<Longrightarrow> Q m) \<Longrightarrow> sound Q s s'"
  unfolding writeTableMeta_def by (rule sound_write) auto

section \<open>Streams and items\<close>

lemma sound_quietly: "sound Q s (removeQuietly p s)"
  using sound_remove[of p s] by (cases "root_Remove p s") (simp add: removeQuietly_def)

lemma sound_append: "sound Q s (appendToStreamFile t rec s)"
proof -
  have "files_ok Q (appendToStreamFile t rec s)" if "files_ok Q s"
    using that by (auto simp: appendToStreamFile_def Let_def intro!: files_put split: sum.splits node.splits option.splits if_splits)
  then show ?thesis using frame_fields(5)[OF append_step(1)] by (auto simp: sound_def)
qed

lemma sound_rewrite: "sound Q s (rewriteStreamFile t recs s)"
proof -
  let ?tmp = "streamTempPath t" and ?c = "CStream (map LRecord recs)"
  obtain r1 s1 where w: "root_WriteFile ?tmp ?c s = (r1, s1)" by fastforce
  have 1: "sound Q s s1" by (rule sound_write[OF w]) auto
  obtain r2 s2 where n: "root_Rename ?tmp (streamFilePath t) s1 = (r2, s2)" by fastforce
  have 2: "sound Q s s2" by (rule sound_trans[OF 1 sound_rename[OF n]]) auto
  show ?thesis
    using 1 2 w n sound_quietly sound_trans by (auto simp: rewriteStreamFile_def Let_def split: option.splits)
qed

lemma sound_emit: "sound Q s (emitStreamRecord t ev vt ks old new s)"
  using sound_append[of Q "s\<lparr>seqNum := n, streams := b\<rparr>" for n b]
  by (auto simp: emitStreamRecord_def Let_def split: option.splits)

lemma sound_emits: "sound Q s (emitWrite t meta new old s)" "sound Q s (emitRemove t meta old s)"
  using sound_emit by (auto simp: emitWrite_def emitRemove_def split: option.splits)

lemma sound_load: "sound Q s (snd (loadStreamRecordsFromDisk t s))"
  using sound_rewrite sound_quietly
  by (auto simp: loadStreamRecordsFromDisk_def Let_def split: sum.splits option.splits prod.splits)

lemma sound_ensure: "sound Q s (ensureStreamBuffer t l s)"
  using sound_load[of Q s t] by (auto simp: ensureStreamBuffer_def split: option.splits prod.splits)

lemma sound_deleteBuffer: "sound Q s (deleteStreamBuffer t s)"
  using sound_quietly[of Q "s\<lparr>streams := b\<rparr>" for b] by (simp add: deleteStreamBuffer_def)

lemma sound_foldl: "(\<And>s x. sound Q s (f s x)) \<Longrightarrow> sound Q s (foldl f s xs)"
  by (induction xs arbitrary: s) (auto intro: sound_trans)

lemma sound_restart: "sound Q s (newDdb s)"
proof -
  have "sound Q s (loadStream s e)" for s e
    using sound_ensure by (auto simp: loadStream_def Let_def split: sum.splits)
  then have "sound Q s (loadAllStreamBuffers s)" for s
    by (auto simp: loadAllStreamBuffers_def intro: sound_foldl split: sum.splits)
  then have "sound Q (s\<lparr>streams := [], seqNum := n\<rparr>) (loadAllStreamBuffers (s\<lparr>streams := [], seqNum := n\<rparr>))" for n .
  then show ?thesis by (simp add: newDdb_def Let_def)
qed

lemma sound_trim: "sound Q s (trimAllStreams s)"
proof -
  have "sound Q s (trimStreamForTable t c s)" for t c s
    using sound_rewrite[of Q "s\<lparr>streams := b\<rparr>" for b] by (auto simp: trimStreamForTable_def Let_def split: option.splits)
  then show ?thesis unfolding trimAllStreams_def by (rule sound_foldl)
qed

lemma sound_put: "PutItem t item cond s = (r, s') \<Longrightarrow> sound Q s s'"
  by (auto simp: PutItem_def locate_Ok intro: sound_trans[OF sound_item sound_emits(1)] sound_item
      elim!: onOk_cases split: option.splits prod.splits)

lemma sound_deleteItem: "DeleteItem t key cond s = (r, s') \<Longrightarrow> sound Q s s'"
  by (auto simp: DeleteItem_def intro: sound_trans[OF sound_remove sound_emits(2)] sound_remove
      elim!: onOk_cases split: option.splits prod.splits if_splits)

lemma sound_updateItem:
  assumes "UpdateItem t key ups h cond s = (r, s')"
  shows "sound Q s s'"
proof -
  have e: "sound Q s s'" if "sound Q s s1" "emitUpdate t meta a b s1 = (r, s')" for s1 meta a b
    using that sound_trans[OF that(1) sound_emits(1)] by (auto simp: emitUpdate_def split: loaded.splits option.splits if_splits)
  show ?thesis
    using assms
    by (auto simp: UpdateItem_def locate_Ok Let_def dest!: sound_item[where Q = Q] elim!: onOk_cases split: option.splits prod.splits)
      (blast dest: e)+
qed

lemma sound_batchPuts: "batchPuts t meta items s = (r, s') \<Longrightarrow> sound Q s s'"
proof (induction items arbitrary: s)
  case (Cons item items)
  then show ?case
    by (auto dest!: sound_item[where Q = Q] elim!: onOk_cases split: option.splits prod.splits) (metis sound_trans sound_emits(1))+
qed simp

lemma sound_batchDeletes: "batchDeletes t meta keys s = (r, s') \<Longrightarrow> sound Q s s'"
proof (induction keys arbitrary: s)
  case (Cons key keys)
  then show ?case
    by (auto dest!: sound_remove[where Q = Q] elim!: onOk_cases split: option.splits prod.splits if_splits)
      (metis sound_trans sound_emits(2))+
qed simp

lemma sound_batch: "BatchWriteItems t puts dels s = (r, s') \<Longrightarrow> sound Q s s'"
  by (auto simp: BatchWriteItems_def intro: sound_trans[OF sound_batchPuts sound_batchDeletes] sound_batchPuts
      elim!: onOk_cases split: res.splits prod.splits)

lemma sound_batchTables: "batchWriteTables items s = (r, s') \<Longrightarrow> sound Q s s'"
proof (induction items s rule: batchWriteTables.induct)
  case (2 t ws rs s)
  then show ?case by (auto intro: sound_trans[OF sound_batch] sound_batch split: res.splits prod.splits)
qed simp

section \<open>Transactions\<close>

definition snaps_ok :: "(TableMetadata \<Rightarrow> bool) \<Rightarrow> transactWriteRecord list \<Rightarrow> bool" where
  "snaps_ok Q applied \<longleftrightarrow>
     (\<forall>sn\<in>snd ` set applied. clean_path (sn_path sn) \<and> (\<forall>m. sn_content sn = Some (CTable m) \<longrightarrow> Q m))"

lemma sound_rollback:
  assumes "snaps_ok Q applied"
  shows "sound Q s (rollbackLocked (map snd applied) s)"
proof -
  have r: "sound Q s (restore sn s)" if "clean_path (sn_path sn)" "\<forall>m. sn_content sn = Some (CTable m) \<longrightarrow> Q m" for sn s
    using that sound_remove[of "sn_path sn" s] sound_write[of "sn_path sn" _ s _ _ Q]
    by (auto simp: restore_def split: option.splits) (metis prod.collapse)+
  have "sound Q s (foldr restore sns s)" if "\<forall>sn\<in>set sns. clean_path (sn_path sn) \<and> (\<forall>m. sn_content sn = Some (CTable m) \<longrightarrow> Q m)" for sns
    using that by (induction sns) (auto intro: sound_trans r)
  then show ?thesis using assms by (auto simp: rollbackLocked_def snaps_ok_def)
qed

lemma sound_action: "applyTransactActionLocked a s = (r, s') \<Longrightarrow> sound Q s s'"
  by (cases a)
    (auto simp: applyPath_def ioDone_def removeIfThere_def mapOk_Ok andThen_Ok dest!: sound_item[where Q = Q] sound_remove[where Q = Q]
      elim!: onOk_cases split: option.splits prod.splits if_splits)

lemma raw_ok: "files_ok Q s \<Longrightarrow> readRaw s p = Ok (Some (CTable m)) \<Longrightarrow> Q m"
  by (auto simp: readRaw_def dest: files_read split: sum.splits if_splits option.splits)

lemma action_path_clean: "itemPathForTransactActionLocked s a = Ok (Some p) \<Longrightarrow> clean_path p"
  by (auto simp: path_of_action applyPath_def mapOk_Ok andThen_Ok split: option.splits if_splits)

lemma sound_applyWrites:
  assumes "applyWrites applied as s = (r, s')" and "files_ok Q s" and "disk_wf s" and "snaps_ok Q applied"
  shows "files_ok Q s' \<and> disk_wf s'"
  using assms
proof (induction applied as s rule: applyWrites.induct)
  case (2 applied a as s)
  let ?start = "andThen (itemPathForTransactActionLocked s a) (\<lambda>op. case op of None \<Rightarrow> Ok None | Some p \<Rightarrow> mapOk (\<lambda>raw. Some (p, raw)) (readRaw s p))"
  have roll: "files_ok Q (rollbackLocked (map snd applied) s1) \<and> disk_wf (rollbackLocked (map snd applied) s1)"
    if "sound Q s s1" for s1
    using sound_trans[OF that sound_rollback[OF 2(6)]] 2(4,5) by (simp add: sound_def)
  show ?case
  proof (cases ?start)
    case (Ok st)
    show ?thesis
    proof (cases st)
      case None
      then show ?thesis using 2 Ok by simp
    next
      case (Some pr)
      obtain p raw where pr: "pr = (p, raw)" by fastforce
      have p: "itemPathForTransactActionLocked s a = Ok (Some p)" "readRaw s p = Ok raw"
        using Ok Some pr by (auto simp: andThen_Ok mapOk_Ok split: option.splits)
      obtain r1 s1 where act: "applyTransactActionLocked a s = (r1, s1)" by fastforce
      note snd1 = sound_action[OF act, of Q]
      have sn: "snaps_ok Q (applied @ [(a, \<lparr>sn_path = p, sn_content = raw\<rparr>)])"
        using 2(4,6) p action_path_clean[OF p(1)] raw_ok[of Q s p] by (auto simp: snaps_ok_def)
      show ?thesis
        using 2(2)[OF Ok Some pr[symmetric] act[symmetric]] 2(3-5) roll[OF snd1] snd1 sn Ok Some pr act
        by (cases r1) (auto simp: sound_def)
    qed
  qed (use 2 roll[of s] in auto)
qed simp

lemma sound_transact:
  assumes "TransactWriteItems as s = (r, s')" and "files_ok Q s" and "disk_wf s"
  shows "files_ok Q s' \<and> disk_wf s'"
proof -
  have "sound Q s (emitTransact x s)" for x s
    using sound_emits by (auto simp: emitTransact_def split: option.splits sum.splits TransactWriteAction.splits prod.splits)
  then have e: "sound Q s (emitTransactStreamEvents xs s)" for xs s
    unfolding emitTransactStreamEvents_def by (rule sound_foldl)
  have a: "files_ok Q s1 \<and> disk_wf s1" if "applyWrites [] as s = (r1, s1)" for r1 s1
    using sound_applyWrites[OF that assms(2,3)] by (simp add: snaps_ok_def)
  show ?thesis
    using assms a e by (auto simp: TransactWriteItems_def sound_def elim!: onOk_cases split: res.splits prod.splits)
qed

section \<open>Table metadata\<close>

definition lsi_ok :: "AttributeDefinition list \<Rightarrow> KeySchemaElement list \<Rightarrow> LocalSecondaryIndex \<Rightarrow> bool" where
  "lsi_ok defs ks l \<longleftrightarrow> keyAttrsDefined defs (lsi_KeySchema l)
     \<and> lastKeyOfType ''HASH'' (lsi_KeySchema l) = lastKeyOfType ''HASH'' ks
     \<and> list_ex (\<lambda>k. ks_KeyType k = ''RANGE'') (lsi_KeySchema l)"

definition meta_ok :: "TableMetadata \<Rightarrow> bool" where
  "meta_ok m \<longleftrightarrow>
     keyAttrsDefined (tm_AttributeDefinitions m) (tm_KeySchema m)
     \<and> length (tm_LocalSecondaryIndexes m) \<le> 5 \<and> list_all (lsi_ok (tm_AttributeDefinitions m) (tm_KeySchema m)) (tm_LocalSecondaryIndexes m)
     \<and> distinct (map fst (tm_Tags m)) \<and> length (tm_Tags m) \<le> tagMaxCount
     \<and> distinct (map kd_StreamARN (tm_KinesisDestinations m)) \<and> length (tm_KinesisDestinations m) \<le> maxKinesisDestinations
     \<and> (streamOn m \<longrightarrow> tm_StreamLabel m \<noteq> '''' \<and> validateStreamViewType (viewType m))"

lemma existing_ok: "files_ok Q s \<Longrightarrow> existingMeta s t = Ok m \<Longrightarrow> Q m"
  by (auto simp: existingMeta_def readTableMeta_def dest: files_read split: if_splits sum.splits option.splits ddb_content.splits)

lemma tagged_ok: "files_ok Q s \<Longrightarrow> taggedMeta s arn = Ok (t, m) \<Longrightarrow> Q m"
  by (auto simp: taggedMeta_def mapOk_Ok dest: existing_ok split: option.splits)

lemma sound_saveMeta: "saveMeta t m x s = (r, s') \<Longrightarrow> (files_ok Q s \<Longrightarrow> Q m) \<Longrightarrow> sound Q s s'"
  by (auto simp: saveMeta_def intro: sound_save split: prod.splits option.splits)

lemma label_not_empty: "newStreamLabel t \<noteq> ''''"
  by (simp add: newStreamLabel_def Let_def split: prod.split)

lemma update_tags_length:
  assumes "distinct (map fst tags)"
  shows "length (foldl (\<lambda>t (k, v). AList.update k v t) m tags) = length m + length (filter (\<lambda>(k, v). map_of m k = None) tags)"
  using assms
proof (induction tags arbitrary: m)
  case (Cons kv tags)
  obtain k v where kv: "kv = (k, v)" by fastforce
  have len: "length (AList.update k v m) = length m + (if map_of m k = None then 1 else 0)"
    by (induction m) (auto split: if_splits)
  have "filter (\<lambda>(k', v'). map_of (AList.update k v m) k' = None) tags = filter (\<lambda>(k', v'). map_of m k' = None) tags"
    using Cons.prems kv by (intro filter_cong) (auto simp: update_conv image_iff)
  then show ?case using Cons.IH[of "AList.update k v m"] Cons.prems kv len by auto
qed auto

lemma update_tags_distinct:
  "distinct (map fst m) \<Longrightarrow> distinct (map fst (foldl (\<lambda>t (k, v). AList.update k v t) m tags))"
  by (induction tags arbitrary: m) (auto simp: distinct_update)

lemma delete_tags_length: "length (foldl (\<lambda>t k. AList.delete k t) m ks) \<le> length m"
  by (induction ks arbitrary: m) (auto intro: order_trans length_delete_le)

lemma delete_tags_distinct: "distinct (map fst m) \<Longrightarrow> distinct (map fst (foldl (\<lambda>t k. AList.delete k t) m ks))"
  by (induction ks arbitrary: m) (auto simp: distinct_delete)

lemma toMap_distinct: "distinct (map fst (toMap ps))"
  by (simp add: toMap_def update_tags_distinct)

lemma meta_fields:
  "meta_ok (m\<lparr>tm_TTL := x1\<rparr>) = meta_ok m" "meta_ok (m\<lparr>tm_PITR := x2\<rparr>) = meta_ok m"
  by (simp_all add: meta_ok_def streamOn_def viewType_def)

lemma meta_tags: "meta_ok m \<Longrightarrow> distinct (map fst ts) \<Longrightarrow> length ts \<le> tagMaxCount \<Longrightarrow> meta_ok (m\<lparr>tm_Tags := ts\<rparr>)"
  by (simp add: meta_ok_def streamOn_def viewType_def)

lemma meta_kinesis:
  "meta_ok m \<Longrightarrow> distinct (map kd_StreamARN ds) \<Longrightarrow> length ds \<le> maxKinesisDestinations \<Longrightarrow> meta_ok (m\<lparr>tm_KinesisDestinations := ds\<rparr>)"
  by (simp add: meta_ok_def streamOn_def viewType_def)

lemma tags_added:
  assumes "meta_ok m" and "distinct (map fst tags)" and "length (tm_Tags m) + length (filter (\<lambda>(k, v). map_of (tm_Tags m) k = None) tags) \<le> tagMaxCount"
  shows "meta_ok (m\<lparr>tm_Tags := foldl (\<lambda>t (k, v). AList.update k v t) (tm_Tags m) tags\<rparr>)"
  by (rule meta_tags) (use assms update_tags_length[OF assms(2), of "tm_Tags m"] in \<open>auto simp: meta_ok_def intro: update_tags_distinct\<close>)

lemma tags_removed: "meta_ok m \<Longrightarrow> meta_ok (m\<lparr>tm_Tags := foldl (\<lambda>t k. AList.delete k t) (tm_Tags m) ks\<rparr>)"
  by (rule meta_tags) (auto simp: meta_ok_def intro: delete_tags_distinct order_trans[OF delete_tags_length])

lemma sound_tag: "TagResource_ddb arn tags s = (r, s') \<Longrightarrow> distinct (map fst tags) \<Longrightarrow> sound meta_ok s s'"
  by (auto simp: TagResource_ddb_def Let_def not_less intro!: tags_added dest: tagged_ok elim!: onOk_cases sound_saveMeta split: if_splits)

lemma sound_untag: "UntagResource_ddb arn ks s = (r, s') \<Longrightarrow> sound meta_ok s s'"
  by (auto simp: UntagResource_ddb_def intro: tags_removed dest: tagged_ok elim!: onOk_cases sound_saveMeta)

lemma sound_ttl: "UpdateTimeToLive t spec s = (r, s') \<Longrightarrow> sound meta_ok s s'"
  by (auto simp: UpdateTimeToLive_def meta_fields elim!: onOk_cases sound_saveMeta dest: existing_ok)

lemma sound_pitr: "UpdateContinuousBackups t en s = (r, s') \<Longrightarrow> sound meta_ok s s'"
  by (auto simp: UpdateContinuousBackups_def Let_def meta_fields elim!: onOk_cases sound_saveMeta dest: existing_ok split: if_splits)

lemma findDest_Some: "findDest arn ds = Some (i, d) \<Longrightarrow> i < length ds \<and> ds ! i = d \<and> kd_StreamARN d = arn"
  by (auto simp: findDest_def find_Some_iff)

lemma findDest_None: "findDest arn ds = None \<Longrightarrow> arn \<notin> kd_StreamARN ` set ds"
  by (auto simp: findDest_def find_None_iff in_set_conv_nth)

lemma kinesis_replaced:
  assumes "findDest arn ds = Some (i, d)" and "kd_StreamARN d' = kd_StreamARN d"
  shows "map kd_StreamARN (ds[i := d']) = map kd_StreamARN ds"
  using findDest_Some[OF assms(1)] assms(2) by (simp add: map_update list_update_same_conv)

lemma sound_kinesis:
  shows "EnableKinesisStreamingDestination t arn p s = (r1, s') \<Longrightarrow> sound meta_ok s s'"
    and "DisableKinesisStreamingDestination t arn s = (r2, s') \<Longrightarrow> sound meta_ok s s'"
proof -
  have old: "meta_ok (m\<lparr>tm_KinesisDestinations := (tm_KinesisDestinations m)[i := d']\<rparr>)"
    if "meta_ok m" "findDest arn (tm_KinesisDestinations m) = Some (i, d)" "kd_StreamARN d' = kd_StreamARN d" for m i d d'
    using that kinesis_replaced[OF that(2,3)] by (intro meta_kinesis) (simp_all add: meta_ok_def)
  have new: "meta_ok (m\<lparr>tm_KinesisDestinations := tm_KinesisDestinations m @ [d]\<rparr>)"
    if "meta_ok m" "findDest arn (tm_KinesisDestinations m) = None" "kd_StreamARN d = arn" "length (tm_KinesisDestinations m) < maxKinesisDestinations" for m d
    using that findDest_None[OF that(2)] by (intro meta_kinesis) (auto simp: meta_ok_def)
  show "EnableKinesisStreamingDestination t arn p s = (r1, s') \<Longrightarrow> sound meta_ok s s'"
    by (auto simp: EnableKinesisStreamingDestination_def Let_def elim!: onOk_cases sound_saveMeta intro!: old new dest: existing_ok
        split: option.splits prod.splits if_splits)
  show "DisableKinesisStreamingDestination t arn s = (r2, s') \<Longrightarrow> sound meta_ok s s'"
    by (auto simp: DisableKinesisStreamingDestination_def Let_def elim!: onOk_cases sound_saveMeta intro!: old dest: existing_ok
        split: option.splits prod.splits if_splits)
qed

lemma merge_attrs: "set (map ad_AttributeName as) \<subseteq> set (map ad_AttributeName (mergeAttrs as bs))"
proof (induction as bs rule: mergeAttrs.induct)
  case (2 old a as)
  then show ?case by (auto split: if_splits)
qed simp

lemma meta_update:
  assumes "meta_ok m" and "case ui_StreamSpec inp of None \<Rightarrow> True | Some sp \<Rightarrow> ss_StreamEnabled sp \<longrightarrow> validateStreamViewType (ss_StreamViewType sp)"
  shows "meta_ok (updateMeta now inp m)"
proof -
  have k: "keyAttrsDefined as ks \<Longrightarrow> keyAttrsDefined (mergeAttrs as bs) ks" for as bs ks
    using merge_attrs[of as bs] by (auto simp: keyAttrsDefined_def list_all_iff)
  have spec: "meta_ok (updateStreamSpec now sp m')"
    if "meta_ok m'" "case sp of None \<Rightarrow> True | Some sp \<Rightarrow> ss_StreamEnabled sp \<longrightarrow> validateStreamViewType (ss_StreamViewType sp)" for m' sp
    using that label_not_empty
    by (auto simp: updateStreamSpec_def Let_def meta_ok_def streamOn_def viewType_def split: option.splits if_splits)
  show ?thesis
    unfolding updateMeta_def Let_def
    by (rule spec) (use assms k in \<open>auto simp: meta_ok_def lsi_ok_def streamOn_def viewType_def list_all_iff split: option.splits\<close>)
qed

lemma sound_updateTable:
  assumes "UpdateTable t inp s = (r, s')"
    and "case ui_StreamSpec inp of None \<Rightarrow> True | Some sp \<Rightarrow> ss_StreamEnabled sp \<longrightarrow> validateStreamViewType (ss_StreamViewType sp)"
  shows "sound meta_ok s s'"
proof -
  have w: "sound meta_ok s s1" if "writeTableMeta t (updateMeta (clock s) inp m) s = (r1, s1)" "existingMeta s t = Ok m" for m r1 s1
    by (rule sound_save[OF that(1)]) (rule meta_update[OF existing_ok[OF _ that(2)] assms(2)])
  show ?thesis
    using assms(1)
    by (auto simp: UpdateTable_def Let_def elim!: onOk_cases split: prod.splits option.splits if_splits)
      (meson w sound_trans sound_ensure sound_deleteBuffer)+
qed

lemma sound_removeIfThere: "removeIfThere p s = (r, s') \<Longrightarrow> sound Q s s'"
  by (auto simp: removeIfThere_def intro: sound_remove split: prod.splits option.splits)

lemma sound_removeEntries: "removeEntries d es s = (r, s') \<Longrightarrow> sound Q s s'"
proof (induction es arbitrary: s)
  case (Cons e es)
  then show ?case by (auto intro: sound_trans[OF sound_removeIfThere] sound_removeIfThere split: prod.splits option.splits)
qed simp

lemma sound_deleteTable: "DeleteTable t s = (r, s') \<Longrightarrow> sound Q s s'"
  by (auto simp: DeleteTable_def Let_def dest!: sound_removeEntries[where Q = Q] sound_removeIfThere[where Q = Q]
      intro: sound_trans[OF _ sound_deleteBuffer] split: sum.splits prod.splits option.splits if_splits) (blast intro: sound_trans sound_deleteBuffer)+

lemma sound_createTable:
  assumes "CreateTable m s = (r, s')" and "meta_ok m \<or> (tm_StreamLabel m = '''' \<and> meta_ok (m\<lparr>tm_StreamLabel := ''x''\<rparr>))"
  shows "sound meta_ok s s'"
proof -
  let ?m1 = "m\<lparr>tm_Status := ''ACTIVE'', tm_CreatedAt := clock s\<rparr>"
  let ?m = "if streamOn ?m1 \<and> tm_StreamLabel ?m1 = '''' then ?m1\<lparr>tm_StreamLabel := newStreamLabel (clock s)\<rparr> else ?m1"
  have ok: "meta_ok ?m"
    using assms(2) label_not_empty by (auto simp: meta_ok_def streamOn_def viewType_def split: option.splits)
  have rm: "sound meta_ok s (snd (root_Remove p s1))" if "sound meta_ok s s1" for s1 p
    using sound_trans[OF that sound_remove[of p s1 "fst (root_Remove p s1)" "snd (root_Remove p s1)"]] by simp
  show ?thesis
    using assms(1) ok unfolding CreateTable_def Let_def
    by (auto dest!: sound_mkdir[where Q = meta_ok] sound_save[where Q = meta_ok] intro: rm sound_trans sound_trans[OF sound_trans sound_ensure]
        split: if_splits prod.splits option.splits)
qed

section \<open>Requests\<close>

definition db_inv :: "ddb \<Rightarrow> bool" where
  "db_inv s \<longleftrightarrow> files_ok meta_ok s \<and> disk_wf s"

definition keeps :: "ddb \<Rightarrow> handled \<Rightarrow> bool" where
  "keeps s h \<longleftrightarrow> (db_inv s \<longrightarrow> db_inv (snd h))"

lemma keeps_here [simp, intro]: "keeps s (r, s)"
  by (simp add: keeps_def)

lemma keeps_decoded: "(\<And>req. keeps s (k req)) \<Longrightarrow> keeps s (decoded b s k)"
  by (cases b) (auto simp: decoded_def)

lemma keeps_require: "(b \<Longrightarrow> keeps s k) \<Longrightarrow> keeps s (require b s k)"
  by (auto simp: require_def)

lemma keeps_validated: "(\<And>x. r = Ok x \<Longrightarrow> keeps s (k x)) \<Longrightarrow> keeps s (validated r s k)"
  by (cases r) (auto simp: validated_def)

lemma keeps_answer: "(\<And>r' s'. r = (r', s') \<Longrightarrow> sound meta_ok s s') \<Longrightarrow> keeps s (answer err ok r)"
  by (cases r; cases "fst r") (auto simp: answer_def keeps_def db_inv_def sound_def)

lemma keeps_read: "keeps s (answer err ok (r, s))"
  by (cases r) (auto simp: answer_def)

lemma keeps_case_res:
  assumes "\<And>x. r = Ok x \<Longrightarrow> keeps s (f x)"
  shows "keeps s (case r of Ok x \<Rightarrow> f x | Err e \<Rightarrow> (g e, s) | Panic \<Rightarrow> (DPanic, s))"
  using assms by (cases r) auto

lemmas keeps_intros = keeps_decoded keeps_require keeps_validated keeps_read keeps_case_res keeps_here

lemma pageResponse_keeps: "keeps s (pageResponse items l f p n v sel cc s)"
  unfolding pageResponse_def by (intro keeps_intros)

lemma reads_keep:
  "keeps s (handleDescribeTable b1 s)" "keeps s (handleListTables b2 s)" "keeps s (handleGetItem b3 s)"
  "keeps s (handleScan b4 s)" "keeps s (handleQuery b5 s)" "keeps s (handleBatchGetItem b6 s)"
  "keeps s (handleDescribeTimeToLive b7 s)" "keeps s (handleListTagsOfResource b8 s)"
  "keeps s (handleTransactGetItems b9 s)" "keeps s (handleDescribeContinuousBackups b10 s)"
  "keeps s (handleDescribeKinesisStreamingDestination b11 s)" "keeps s (handleListStreams b12 s)"
  "keeps s (handleDescribeStream b13 s)" "keeps s (handleGetShardIterator b14 s)" "keeps s (handleGetRecords b15 s)"
  unfolding handleDescribeTable_def handleListTables_def handleGetItem_def handleScan_def handleQuery_def handleBatchGetItem_def
    handleDescribeTimeToLive_def handleListTagsOfResource_def handleTransactGetItems_def handleDescribeContinuousBackups_def
    handleDescribeKinesisStreamingDestination_def handleListStreams_def handleDescribeStream_def handleGetShardIterator_def
    handleGetRecords_def
  by (intro keeps_intros; auto simp: Let_def split_def intro!: keeps_intros pageResponse_keeps split: option.split res.split)+

lemma checked_spec:
  "checkStreamSpec sp = Ok spec \<Longrightarrow> case spec of None \<Rightarrow> True | Some x \<Rightarrow> ss_StreamEnabled x \<longrightarrow> validateStreamViewType (ss_StreamViewType x)"
  by (auto simp: checkStreamSpec_def split: option.splits if_splits)

lemma writes_keep:
  "keeps s (handlePutItem b1 s)" "keeps s (handleDeleteItem b2 s)" "keeps s (handleUpdateItem ord b3 s)"
  "keeps s (handleUpdateTimeToLive b5 s)" "keeps s (handleTagResource_ddb b6 s)"
  "keeps s (handleUntagResource_ddb b7 s)" "keeps s (handleUpdateContinuousBackups b8 s)"
  "keeps s (handleEnableKinesisStreamingDestination b9 s)" "keeps s (handleDisableKinesisStreamingDestination b10 s)"
  "keeps s (handleBatchWriteItem b11 s)" "keeps s (handleDeleteTable b12 s)"
  unfolding handlePutItem_def handleDeleteItem_def handleWrite_def handleUpdateItem_def handleUpdateTimeToLive_def
    handleTagResource_ddb_def handleUntagResource_ddb_def handleUpdateContinuousBackups_def handleBatchWriteItem_def handleDeleteTable_def
    handleEnableKinesisStreamingDestination_def handleDisableKinesisStreamingDestination_def split_def Let_def
  by (intro keeps_intros;
      auto intro!: keeps_answer keeps_intros split: option.split simp: toMap_distinct
        dest: sound_put sound_deleteItem sound_updateItem sound_ttl sound_tag sound_untag sound_pitr sound_kinesis sound_batchTables sound_deleteTable)+

lemma updateTable_keeps: "keeps s (handleUpdateTable b s)"
  unfolding handleUpdateTable_def
  by (intro keeps_intros keeps_answer) (auto simp: updateInput_def elim!: sound_updateTable dest!: checked_spec)

lemma transact_keeps: "keeps s (handleTransactWriteItems ord b s)"
proof -
  have "keeps s (answer err ok (TransactWriteItems as s))" for err ok as
    using sound_transact[of as s] by (cases "TransactWriteItems as s"; cases "fst (TransactWriteItems as s)") (auto simp: answer_def keeps_def db_inv_def)
  then show ?thesis unfolding handleTransactWriteItems_def split_def by (intro keeps_intros)
qed

text \<open>PartiQL statements\<close>

lemma sound_pqDone: "pqDone r = (x, s') \<Longrightarrow> (\<And>y. r = (y, s') \<Longrightarrow> sound Q s s') \<Longrightarrow> sound Q s s'"
  by (cases r) (auto simp: pqDone_def)

lemma sound_pqOnOk: "pqOnOk r s k = (x, s') \<Longrightarrow> (\<And>y. k y = (x, s') \<Longrightarrow> sound Q s s') \<Longrightarrow> sound Q s s'"
  by (cases r) (auto simp: pqOnOk_def sound_def)

lemma sound_pqWrite: "pqWrite ord stmt s = (r, s') \<Longrightarrow> sound Q s s'"
  unfolding pqWrite_def executePartiQLInsert_def executePartiQLUpdate_def executePartiQLDelete_def
  by (auto split: pqStmtKind.splits prod.splits elim!: sound_pqOnOk sound_pqDone dest: sound_put sound_deleteItem sound_updateItem)

lemma sound_pqBatchItem: "pqBatchItem ord x s = (r, s') \<Longrightarrow> sound Q s s'"
  by (auto simp: pqBatchItem_def sound_def split: prod.splits if_splits res.splits dest: sound_pqWrite[where Q = Q])

lemma sound_pqBatch: "pqBatchLoop ord xs s = (r, s') \<Longrightarrow> sound Q s s'"
proof (induction xs arbitrary: s r)
  case (Cons x xs)
  obtain r1 s1 where item: "pqBatchItem ord x s = (r1, s1)" by force
  then have "sound Q s1 s' \<or> s' = s1"
    using Cons.prems Cons.IH[of s1] by (cases r1) (auto split: prod.splits)
  then show ?case using sound_pqBatchItem[OF item, of Q] sound_trans by blast
qed (simp add: sound_def)

lemma keeps_pqAnswer: "(\<And>r' s'. r = (r', s') \<Longrightarrow> sound meta_ok s s') \<Longrightarrow> keeps s (pqAnswer err ok r)"
  by (cases r; cases "fst r") (auto simp: pqAnswer_def keeps_def db_inv_def sound_def)

lemma keeps_pqRead: "keeps s (pqAnswer err ok (r, s))"
  by (cases r) (auto simp: pqAnswer_def)

lemma keeps_pqTransact: "keeps s (pqAnswer err ok (executePartiQLTransactWrites ord xs s))"
proof -
  have "keeps s (pqAnswer err ok (pqDone (TransactWriteItems as s)))" for as
    using sound_transact[of as s] by (cases "TransactWriteItems as s"; cases "fst (TransactWriteItems as s)")
      (auto simp: pqAnswer_def pqDone_def keeps_def db_inv_def)
  then show ?thesis unfolding executePartiQLTransactWrites_def
    by (cases "mapRes (pqAction ord s) xs") (auto simp: pqOnOk_def pqAnswer_def)
qed

lemma partiql_keep:
  "keeps s (handleExecuteStatement ord b1 s)" "keeps s (handleBatchExecuteStatement ord b2 s)" "keeps s (handleExecuteTransaction ord b3 s)"
proof -
  show "keeps s (handleExecuteStatement ord b1 s)"
    unfolding handleExecuteStatement_def Let_def
    by (intro keeps_intros) (auto intro!: keeps_pqAnswer keeps_pqRead dest: sound_pqWrite)
  have "keeps s (case pqBatchLoop ord xs s of (Ok rs, s') \<Rightarrow> (f rs, s') | (_, s') \<Rightarrow> (DPanic, s'))" for xs f
    using sound_pqBatch[of ord xs s, where Q = meta_ok]
    by (cases "pqBatchLoop ord xs s"; cases "fst (pqBatchLoop ord xs s)") (auto simp: keeps_def db_inv_def sound_def)
  then show "keeps s (handleBatchExecuteStatement ord b2 s)"
    unfolding handleBatchExecuteStatement_def split_def by (intro keeps_intros)
  show "keeps s (handleExecuteTransaction ord b3 s)"
    unfolding handleExecuteTransaction_def Let_def
    by (auto intro!: keeps_intros keeps_pqRead keeps_pqTransact)
qed

lemma validLSIs_ok: "validLSIs defs h names ls \<Longrightarrow> h = lastKeyOfType ''HASH'' ks \<Longrightarrow> list_all (lsi_ok defs ks) ls"
  by (induction defs h names ls rule: validLSIs.induct) (auto simp: lsi_ok_def)

lemma newMeta_ok:
  assumes "checkStreamSpec sp = Ok spec"
    and "validateTableIndexes (ct_KeySchema req) (ct_AttributeDefinitions req) (ct_GlobalSecondaryIndexes req) (ct_LocalSecondaryIndexes req)"
  shows "meta_ok ((newMeta req spec)\<lparr>tm_StreamLabel := ''x''\<rparr>)" "tm_StreamLabel (newMeta req spec) = ''''"
  using assms(2) checked_spec[OF assms(1)] validLSIs_ok[OF _ refl]
  by (auto simp: meta_ok_def newMeta_def validateTableIndexes_def streamOn_def viewType_def split: option.splits)

lemma describeCreated_keeps: "db_inv s \<Longrightarrow> db_inv (snd (describeCreated t s))"
  by (simp add: describeCreated_def split: res.split)

lemma createTable_keeps: "keeps s (handleCreateTable b s)"
proof -
  have c: "db_inv s1" if "CreateTable (newMeta req spec) s = (r, s1)" "checkStreamSpec sp = Ok spec"
    "validateTableIndexes (ct_KeySchema req) (ct_AttributeDefinitions req) (ct_GlobalSecondaryIndexes req) (ct_LocalSecondaryIndexes req)"
    "db_inv s" for req spec sp r s1
    using sound_createTable[OF that(1)] newMeta_ok[OF that(2,3)] that(4) by (auto simp: db_inv_def sound_def)
  have t: "db_inv s2" if "TagResource_ddb arn (toMap ts) s1 = (r, s2)" "db_inv s1" for arn ts r s1 s2
    using sound_tag[OF that(1) toMap_distinct] that(2) by (auto simp: db_inv_def sound_def)
  have d: "db_inv (snd (DeleteTable n s1))" if "db_inv s1" for n s1
    using sound_deleteTable[of n s1 "fst (DeleteTable n s1)" "snd (DeleteTable n s1)" meta_ok] that by (auto simp: db_inv_def sound_def)
  show ?thesis
    unfolding handleCreateTable_def
    by (intro keeps_intros) (auto simp: keeps_def intro!: d describeCreated_keeps dest: c t split: prod.splits res.splits)
qed

lemma serve_keeps: "db_inv s \<Longrightarrow> db_inv (snd (serveDdb ord rq s))"
  by (cases rq)
    (simp_all add: reads_keep[unfolded keeps_def] writes_keep[unfolded keeps_def] updateTable_keeps[unfolded keeps_def]
      transact_keeps[unfolded keeps_def] createTable_keeps[unfolded keeps_def] partiql_keep[unfolded keeps_def])

section \<open>Reachable states\<close>

text \<open>
  The states of the service: it starts on an empty directory; the disk may start or stop failing and time
  passes before every request; old stream records are trimmed; the process may be restarted.
\<close>

inductive ddb_reach :: "(string \<Rightarrow> string) \<Rightarrow> ddb \<Rightarrow> bool" for h where
  start: "ddb_reach h (newDdb \<lparr>d_fs = [], d_fault = f, md5hex = h, streams = [], seqNum = 0, clock = now\<rparr>)"
| environment: "ddb_reach h s \<Longrightarrow> ddb_reach h (s\<lparr>d_fault := f, clock := now\<rparr>)"
| request: "ddb_reach h s \<Longrightarrow> serveDdb ord rq s = (r, s') \<Longrightarrow> ddb_reach h s'"
| trim: "ddb_reach h s \<Longrightarrow> ddb_reach h (trimAllStreams s)"
| restart: "ddb_reach h s \<Longrightarrow> ddb_reach h (newDdb s)"

lemma inv_environment: "db_inv s \<Longrightarrow> db_inv (s\<lparr>d_fault := f, clock := now\<rparr>)"
proof -
  have "look (s\<lparr>d_fault := f, clock := now\<rparr>) p = look s p" for p by (simp add: look_def)
  then show "db_inv s \<Longrightarrow> ?thesis" by (simp add: db_inv_def files_ok_def disk_wf_def)
qed

lemma inv_sound: "db_inv s \<Longrightarrow> sound meta_ok s s' \<Longrightarrow> db_inv s'"
  by (simp add: db_inv_def sound_def)

text \<open>
  C33. In every state that requests, restarts, trims and disk faults can lead to, the directory is a tree and
  all table metadata on it is well-formed: the key attributes are defined, there are at most 5
  local secondary indexes, each with the table's hash key, a range key and defined attributes, at
  most 50 tags with distinct keys and at most 2 Kinesis destinations with distinct streams, and an
  enabled stream has a label and a valid view type.
\<close>

theorem table_metadata_invariant:
  assumes "ddb_reach h s"
  shows "disk_wf s \<and> (\<forall>p m. look s p = Some (File (Some (CTable m))) \<longrightarrow> meta_ok m)"
proof -
  have "db_inv s"
    using assms
  proof (induction rule: ddb_reach.induct)
    case (start f now)
    have "db_inv \<lparr>d_fs = [], d_fault = f, md5hex = h, streams = [], seqNum = 0, clock = now\<rparr>"
      by (simp add: db_inv_def files_ok_def disk_wf_def look_def)
    then show ?case by (rule inv_sound[OF _ sound_restart])
  next
    case (request s ord rq r s')
    then show ?case using serve_keeps[of s ord rq] by simp
  qed (auto intro: inv_environment inv_sound[OF _ sound_trim] inv_sound[OF _ sound_restart])
  then show ?thesis by (simp add: db_inv_def files_ok_def)
qed

definition demo_create :: CreateTableRequest where
  "demo_create = \<lparr>ct_TableName = ''t'', ct_KeySchema = demo_schema,
     ct_AttributeDefinitions = [\<lparr>ad_AttributeName = ''pk'', ad_AttributeType = ''S''\<rparr>], ct_BillingMode = ''PAY_PER_REQUEST'',
     ct_ProvisionedThroughput = None, ct_StreamSpecification = Some (Some True, ''KEYS_ONLY''),
     ct_GlobalSecondaryIndexes = [], ct_LocalSecondaryIndexes = [], ct_Tags = [(''k'', ''v'')]\<rparr>"

definition demo_empty :: ddb where
  "demo_empty = newDdb \<lparr>d_fs = [], d_fault = (\<lambda>_ _. False), md5hex = demo_md5, streams = [], seqNum = 0, clock = 0\<rparr>"

theorem table_metadata_invariant_witness:
  "\<exists>s' m. ddb_reach demo_md5 s' \<and> look s' [''t.table.json''] = Some (File (Some (CTable m))) \<and> tm_Tags m = [(''k'', ''v'')] \<and> meta_ok m"
proof -
  let ?s = "snd (serveDdb id (RqCreateTable (Some demo_create)) demo_empty)"
  have r: "ddb_reach demo_md5 ?s"
    by (rule ddb_reach.request[OF _ surjective_pairing]) (unfold demo_empty_def, rule ddb_reach.start)
  have "case look ?s [''t.table.json''] of Some (File (Some (CTable m))) \<Rightarrow> tm_Tags m = [(''k'', ''v'')] | _ \<Rightarrow> False" by code_simp
  then obtain m where "look ?s [''t.table.json''] = Some (File (Some (CTable m)))" "tm_Tags m = [(''k'', ''v'')]"
    by (auto split: option.split_asm node.split_asm ddb_content.split_asm) (metis ddb_content.exhaust)
  then show ?thesis using table_metadata_invariant[OF r] r by blast
qed

end
