(* ===== verification/Kms_Types.thy ===== *)
theory Kms_Types
  imports Go_FS
begin

text \<open>
  The data of the KMS service (\<open>internal/kms/storage_types.go\<close>, \<open>errors.go\<close>): the records that are
  stored as JSON files, the tables of key specs and usages, the references by which clients name
  keys (key ID, key ARN, alias name, alias ARN) and the errors of the storage layer. Field names
  carry the record's initials as a prefix. Times are Unix seconds; the code keeps them as
  \<open>float64\<close> holding whole numbers, here they are integers.
\<close>

section \<open>Records stored by the service\<close>

definition fixedAccount :: string where "fixedAccount = ''000000000000''"

definition fixedRegion :: string where "fixedRegion = ''us-east-1''"

definition defaultPolicy :: string where
  \<open>defaultPolicy = ''{"Version":"2012-10-17","Id":"key-default-1","Statement":[{"Sid":"Enable IAM User Permissions","Effect":"Allow","Principal":{"AWS":"arn:aws:iam::000000000000:root"},"Action":"kms:*","Resource":"*"}]}''\<close>

record KeyMetadata =
  km_KeyID :: string
  km_Arn :: string
  km_AWSAccountID :: string
  km_Description :: string
  km_KeySpec :: string
  km_CustomerMasterKeySpec :: string
  km_KeyUsage :: string
  km_KeyState :: string
  km_Enabled :: bool
  km_KeyManager :: string
  km_Origin :: string
  km_MultiRegion :: bool
  km_CreationDate :: int
  km_DeletionDate :: "int option"
  km_EncryptionAlgorithms :: "string list"
  km_SigningAlgorithms :: "string list"
  km_KeyAgreementAlgorithms :: "string list"
  km_MacAlgorithms :: "string list"

record KeyRotationConfig =
  rc_Enabled :: bool
  rc_RotationPeriodInDays :: int
  rc_NextRotationDate :: int

record AliasEntry =
  ae_AliasName :: string
  ae_AliasArn :: string
  ae_TargetKeyId :: string
  ae_CreationDate :: int
  ae_LastUpdatedDate :: int

record GrantConstraints =
  gc_EncryptionContextEquals :: smap
  gc_EncryptionContextSubset :: smap

record Grant =
  gr_GrantId :: string
  gr_GrantToken :: string
  gr_KeyId :: string
  gr_GranteePrincipal :: string
  gr_RetiringPrincipal :: string
  gr_Operations :: "string list"
  gr_Constraints :: "GrantConstraints option"
  gr_Name :: string
  gr_IssuingAccount :: string
  gr_CreationDate :: int

record grantListEntry =
  gl_GrantId :: string
  gl_KeyId :: string
  gl_GranteePrincipal :: string
  gl_RetiringPrincipal :: string
  gl_Operations :: "string list"
  gl_Constraints :: "GrantConstraints option"
  gl_Name :: string
  gl_IssuingAccount :: string
  gl_CreationDate :: int

definition toGrantListEntry :: "Grant \<Rightarrow> grantListEntry" where
  "toGrantListEntry g =
     \<lparr>gl_GrantId = gr_GrantId g, gl_KeyId = gr_KeyId g, gl_GranteePrincipal = gr_GranteePrincipal g,
      gl_RetiringPrincipal = gr_RetiringPrincipal g, gl_Operations = gr_Operations g,
      gl_Constraints = gr_Constraints g, gl_Name = gr_Name g, gl_IssuingAccount = gr_IssuingAccount g,
      gl_CreationDate = gr_CreationDate g\<rparr>"

record CreateGrantInput =
  gi_GranteePrincipal :: string
  gi_Operations :: "string list"
  gi_RetiringPrincipal :: string
  gi_Constraints :: "GrantConstraints option"
  gi_Name :: string

record RotationRecord =
  rr_KeyID :: string
  rr_RotationDate :: int
  rr_RotationType :: string

record TagEntry =
  te_TagKey :: string
  te_TagValue :: string

record KeyMaterial =
  mt_KeyBytes :: bytes
  mt_PrivateKeyDER :: bytes
  mt_KeyMaterialID :: string

record CreateKeyInput =
  ci_Description :: string
  ci_KeySpec :: string
  ci_KeyUsage :: string
  ci_MultiRegion :: bool
  ci_Origin :: string
  ci_Policy :: string
  ci_keyManager :: string

text \<open>What a JSON file of the KMS data directory holds.\<close>

datatype content =
    CMeta KeyMetadata
  | CMaterial KeyMaterial
  | CPolicy string
  | CRotation KeyRotationConfig
  | CTags smap
  | CHistory "RotationRecord list"
  | CGrant Grant
  | CAlias AliasEntry

datatype kms_error =
    ErrKeyNotFound | ErrKeyMaterialNotFound | ErrKeyMaterialCorrupted
  | ErrAliasNotFound | ErrAliasAlreadyExists | ErrAliasLimitExceeded
  | ErrKeyDisabled | ErrKeyPendingDeletion | ErrInvalidKeyState | ErrUnsupportedOp
  | ErrTagLimitExceeded | ErrInvalidSignature | ErrOnDemandRotationLimit | ErrInvalidMarker
  | ErrGrantNotFound | ErrGrantLimitExceeded
  | ErrIO ioerr \<comment> \<open>an operating-system error, wrapped with \<open>%w\<close>\<close>
  | ErrRand \<comment> \<open>the random source failed\<close>
  | ErrKeyGen \<comment> \<open>key pair generation failed\<close>

section \<open>Key references\<close>

definition keyARN :: "string \<Rightarrow> string" where
  "keyARN keyID = ''arn:aws:kms:'' @ fixedRegion @ '':'' @ fixedAccount @ '':key/'' @ keyID"

definition aliasARN :: "string \<Rightarrow> string" where
  "aliasARN aliasName = ''arn:aws:kms:'' @ fixedRegion @ '':'' @ fixedAccount @ '':'' @ aliasName"

text \<open>The pair \<open>(name, true)\<close> of the code is \<open>Some name\<close>, \<open>("", false)\<close> is \<open>None\<close>.\<close>

definition normalizeAliasRef :: "string \<Rightarrow> string option" where
  "normalizeAliasRef ref =
     (if has_prefix ''alias/'' ref then Some ref
      else if has_prefix ''arn:'' ref then
        (case strings_SplitN2 ref '':alias/'' of
           [_, rest] \<Rightarrow> if rest \<noteq> '''' then Some (''alias/'' @ rest) else None
         | _ \<Rightarrow> None)
      else None)"

definition resolveKeyID :: "string \<Rightarrow> string option" where
  "resolveKeyID keyID =
     (if has_prefix ''arn:'' keyID then
        (case strings_SplitN2 keyID '':key/'' of
           [_, rest] \<Rightarrow> if rest \<noteq> '''' then Some rest else None
         | _ \<Rightarrow> None)
      else if has_prefix ''alias/'' keyID then None
      else Some keyID)"

definition isAliasRef :: "string \<Rightarrow> bool" where
  "isAliasRef keyID \<longleftrightarrow> has_prefix ''alias/'' keyID \<or>
     (has_prefix ''arn:'' keyID \<and> strings_Contains keyID '':alias/'')"

section \<open>Key specs and usages\<close>

definition validKeySpecs :: "string list" where
  "validKeySpecs =
     [''SYMMETRIC_DEFAULT'', ''RSA_2048'', ''RSA_3072'', ''RSA_4096'', ''ECC_NIST_P256'', ''ECC_NIST_P384'',
      ''ECC_NIST_P521'', ''ECC_SECG_P256K1'', ''ECC_NIST_EDWARDS25519'', ''ML_DSA_44'', ''ML_DSA_65'',
      ''ML_DSA_87'', ''HMAC_224'', ''HMAC_256'', ''HMAC_384'', ''HMAC_512'', ''SM2'']"

definition defaultKeyUsage :: "(string \<times> string) list" where
  "defaultKeyUsage =
     [(''SYMMETRIC_DEFAULT'', ''ENCRYPT_DECRYPT''), (''RSA_2048'', ''ENCRYPT_DECRYPT''),
      (''RSA_3072'', ''ENCRYPT_DECRYPT''), (''RSA_4096'', ''ENCRYPT_DECRYPT''),
      (''ECC_NIST_P256'', ''SIGN_VERIFY''), (''ECC_NIST_P384'', ''SIGN_VERIFY''),
      (''ECC_NIST_P521'', ''SIGN_VERIFY''), (''ECC_SECG_P256K1'', ''SIGN_VERIFY''),
      (''ECC_NIST_EDWARDS25519'', ''SIGN_VERIFY''), (''ML_DSA_44'', ''SIGN_VERIFY''),
      (''ML_DSA_65'', ''SIGN_VERIFY''), (''ML_DSA_87'', ''SIGN_VERIFY''),
      (''HMAC_224'', ''GENERATE_VERIFY_MAC''), (''HMAC_256'', ''GENERATE_VERIFY_MAC''),
      (''HMAC_384'', ''GENERATE_VERIFY_MAC''), (''HMAC_512'', ''GENERATE_VERIFY_MAC''),
      (''SM2'', ''ENCRYPT_DECRYPT'')]"

definition validKeyUsages :: "(string \<times> string list) list" where
  "validKeyUsages =
     [(''SYMMETRIC_DEFAULT'', [''ENCRYPT_DECRYPT'']),
      (''RSA_2048'', [''ENCRYPT_DECRYPT'', ''SIGN_VERIFY'']),
      (''RSA_3072'', [''ENCRYPT_DECRYPT'', ''SIGN_VERIFY'']),
      (''RSA_4096'', [''ENCRYPT_DECRYPT'', ''SIGN_VERIFY'']),
      (''ECC_NIST_P256'', [''SIGN_VERIFY'', ''KEY_AGREEMENT'']),
      (''ECC_NIST_P384'', [''SIGN_VERIFY'', ''KEY_AGREEMENT'']),
      (''ECC_NIST_P521'', [''SIGN_VERIFY'', ''KEY_AGREEMENT'']),
      (''ECC_SECG_P256K1'', [''SIGN_VERIFY'']),
      (''ECC_NIST_EDWARDS25519'', [''SIGN_VERIFY'']),
      (''ML_DSA_44'', [''SIGN_VERIFY'']), (''ML_DSA_65'', [''SIGN_VERIFY'']), (''ML_DSA_87'', [''SIGN_VERIFY'']),
      (''HMAC_224'', [''GENERATE_VERIFY_MAC'']), (''HMAC_256'', [''GENERATE_VERIFY_MAC'']),
      (''HMAC_384'', [''GENERATE_VERIFY_MAC'']), (''HMAC_512'', [''GENERATE_VERIFY_MAC'']),
      (''SM2'', [''ENCRYPT_DECRYPT'', ''SIGN_VERIFY'', ''KEY_AGREEMENT''])]"

text \<open>A Go map lookup of a missing key gives the zero value.\<close>

definition isValidKeyUsageForSpec :: "string \<Rightarrow> string \<Rightarrow> bool" where
  "isValidKeyUsageForSpec spec usage \<longleftrightarrow>
     list_ex (\<lambda>v. v = usage) (case map_of validKeyUsages spec of None \<Rightarrow> [] | Some vs \<Rightarrow> vs)"

definition encryptionAlgorithmsForKey :: "string \<Rightarrow> string \<Rightarrow> string list" where
  "encryptionAlgorithmsForKey spec usage =
     (if usage \<noteq> ''ENCRYPT_DECRYPT'' then []
      else if spec = ''SYMMETRIC_DEFAULT'' then [''SYMMETRIC_DEFAULT'']
      else if spec \<in> {''RSA_2048'', ''RSA_3072'', ''RSA_4096''}
        then [''RSAES_OAEP_SHA_1'', ''RSAES_OAEP_SHA_256'']
      else if spec = ''SM2'' then [''SM2PKE'']
      else [])"

definition signingAlgorithmsForKey :: "string \<Rightarrow> string \<Rightarrow> string list" where
  "signingAlgorithmsForKey spec usage =
     (if usage \<noteq> ''SIGN_VERIFY'' then []
      else if spec \<in> {''RSA_2048'', ''RSA_3072'', ''RSA_4096''}
        then [''RSASSA_PKCS1_V1_5_SHA_256'', ''RSASSA_PKCS1_V1_5_SHA_384'', ''RSASSA_PKCS1_V1_5_SHA_512'',
              ''RSASSA_PSS_SHA_256'', ''RSASSA_PSS_SHA_384'', ''RSASSA_PSS_SHA_512'']
      else if spec \<in> {''ECC_NIST_P256'', ''ECC_SECG_P256K1''} then [''ECDSA_SHA_256'']
      else if spec = ''ECC_NIST_P384'' then [''ECDSA_SHA_384'']
      else if spec = ''ECC_NIST_P521'' then [''ECDSA_SHA_512'']
      else if spec = ''ECC_NIST_EDWARDS25519'' then [''ED25519_SHA_512'', ''ED25519_PH_SHA_512'']
      else if spec = ''ML_DSA_44'' then [''ML_DSA_44'']
      else if spec = ''ML_DSA_65'' then [''ML_DSA_65'']
      else if spec = ''ML_DSA_87'' then [''ML_DSA_87'']
      else if spec = ''SM2'' then [''SM2DSA'']
      else [])"

definition keyAgreementAlgorithmsForKey :: "string \<Rightarrow> string \<Rightarrow> string list" where
  "keyAgreementAlgorithmsForKey spec usage =
     (if usage \<noteq> ''KEY_AGREEMENT'' then []
      else if spec \<in> {''ECC_NIST_P256'', ''ECC_NIST_P384'', ''ECC_NIST_P521'', ''ECC_NIST_EDWARDS25519''}
        then [''ECDH'']
      else if spec = ''SM2'' then [''SM2KE'']
      else [])"

definition validGrantOperations :: "string list" where
  "validGrantOperations =
     [''CreateGrant'', ''Decrypt'', ''DescribeKey'', ''Encrypt'', ''GenerateDataKey'', ''GenerateDataKeyPair'',
      ''GenerateDataKeyPairWithoutPlaintext'', ''GenerateDataKeyWithoutPlaintext'', ''GenerateMac'',
      ''GetPublicKey'', ''ReEncryptFrom'', ''ReEncryptTo'', ''RetireGrant'', ''Sign'', ''Verify'',
      ''VerifyMac'', ''DeriveSharedSecret'']"

definition hmacKeySize :: "string \<Rightarrow> nat" where
  "hmacKeySize spec =
     (if spec = ''HMAC_224'' then 28 else if spec = ''HMAC_256'' then 32
      else if spec = ''HMAC_384'' then 48 else if spec = ''HMAC_512'' then 64 else 0)"

definition macAlgorithmsForKey :: "string \<Rightarrow> string list" where
  "macAlgorithmsForKey spec =
     (if spec = ''HMAC_224'' then [''HMAC_SHA_224''] else if spec = ''HMAC_256'' then [''HMAC_SHA_256'']
      else if spec = ''HMAC_384'' then [''HMAC_SHA_384''] else if spec = ''HMAC_512'' then [''HMAC_SHA_512'']
      else [])"

definition isHMACSpec :: "string \<Rightarrow> bool" where
  "isHMACSpec spec \<longleftrightarrow> spec \<in> {''HMAC_224'', ''HMAC_256'', ''HMAC_384'', ''HMAC_512''}"

section \<open>Cryptographic library\<close>

text \<open>
  The primitives of Go's \<open>crypto\<close> packages are parameters: a record of functions that is an
  argument of the operations that call them. Key generation, signing and the AEAD are given by
  their results; what the service relies on is stated as a named hypothesis where it is used.
\<close>

datatype crypto_hash = NoHash | SHA256 | SHA384 | SHA512

datatype private_key = RSAKey bytes | ECDSAKey bytes | Ed25519Key bytes | OtherKey

record crypto =
  cr_GenerateRSA :: "nat \<Rightarrow> bytes option"
  cr_GenerateECDSA :: "string \<Rightarrow> bytes option"
  cr_GenerateEd25519 :: "bytes option"
  cr_Seal :: "bytes \<Rightarrow> bytes \<Rightarrow> bytes \<Rightarrow> bytes \<Rightarrow> bytes"
  cr_Open :: "bytes \<Rightarrow> bytes \<Rightarrow> bytes \<Rightarrow> bytes \<Rightarrow> bytes option"
  cr_Hmac :: "string \<Rightarrow> bytes \<Rightarrow> bytes \<Rightarrow> bytes"
  cr_Sum :: "crypto_hash \<Rightarrow> bytes \<Rightarrow> bytes"
  cr_ParsePKCS8 :: "bytes \<Rightarrow> private_key option"
  cr_MarshalPKIX :: "private_key \<Rightarrow> bytes option"
  cr_SignPSS :: "bytes \<Rightarrow> crypto_hash \<Rightarrow> bytes \<Rightarrow> bytes option"
  cr_SignPKCS1v15 :: "bytes \<Rightarrow> crypto_hash \<Rightarrow> bytes \<Rightarrow> bytes option"
  cr_SignASN1 :: "bytes \<Rightarrow> bytes \<Rightarrow> bytes option"
  cr_SignEd25519 :: "bytes \<Rightarrow> bytes \<Rightarrow> bytes"
  cr_VerifyPSS :: "bytes \<Rightarrow> crypto_hash \<Rightarrow> bytes \<Rightarrow> bytes \<Rightarrow> bool"
  cr_VerifyPKCS1v15 :: "bytes \<Rightarrow> crypto_hash \<Rightarrow> bytes \<Rightarrow> bytes \<Rightarrow> bool"
  cr_VerifyASN1 :: "bytes \<Rightarrow> bytes \<Rightarrow> bytes \<Rightarrow> bool"
  cr_VerifyEd25519 :: "bytes \<Rightarrow> bytes \<Rightarrow> bytes \<Rightarrow> bool"

section \<open>Properties of references and tables\<close>

lemma normalizeAliasRef_alias:
  "normalizeAliasRef ref = Some a \<Longrightarrow> \<exists>rest. a = ''alias/'' @ rest"
  by (auto simp: normalizeAliasRef_def has_prefix_iff split: if_splits list.splits)

text \<open>A reference that is not an alias form is taken as a key ID unchanged.\<close>

lemma resolveKeyID_plain:
  "\<not> has_prefix ''arn:'' k \<Longrightarrow> \<not> has_prefix ''alias/'' k \<Longrightarrow> resolveKeyID k = Some k"
  by (simp add: resolveKeyID_def)

lemma hmacKeySize_pos: "0 < hmacKeySize spec \<longleftrightarrow> isHMACSpec spec"
  by (auto simp: hmacKeySize_def isHMACSpec_def)

end
