(* ===== verification/Kms_Storage.thy ===== *)
theory Kms_Storage
  imports Kms_Types Pagination
begin

unbundle bit_operations_syntax

text \<open>
  The filesystem-backed KMS storage (\<open>internal/kms/storage.go\<close>). The state is the disk below
  \<open>dataDir/kms\<close> with the storage's own settings: the alias limit, the results that the random
  source will give (\<open>None\<close> is an error, a short list a short read) and the current time. Every
  exported method of \<open>Storage\<close> is one definition that returns its error or value together with
  the new state; the mutex makes each of them one atomic step. A call whose error is only logged
  (\<open>slog.Warn\<close>) keeps the state it produced.
\<close>

section \<open>State and JSON files\<close>

record kms = "content disk" +
  maxAliasesPerKey :: nat
  rnd :: "bytes option list"
  clock :: int

type_synonym 'a kms_result = "(kms_error + 'a) \<times> kms"

definition aliasLimitPerKey :: nat where "aliasLimitPerKey = 256"
definition maxTagsPerKey :: nat where "maxTagsPerKey = 50"
definition secondsPerDay :: int where "secondsPerDay = 86400"
definition maxOnDemandRotations :: nat where "maxOnDemandRotations = 25"
definition maxGrantsPerKey :: nat where "maxGrantsPerKey = 50000"

definition keyStateEnabled :: string where "keyStateEnabled = ''Enabled''"
definition keyStateDisabled :: string where "keyStateDisabled = ''Disabled''"
definition keyStatePendingDeletion :: string where "keyStatePendingDeletion = ''PendingDeletion''"
definition keySpecSymmetricDefault :: string where "keySpecSymmetricDefault = ''SYMMETRIC_DEFAULT''"

lemma keyState_distinct [simp]:
  "keyStateEnabled \<noteq> keyStateDisabled" "keyStateDisabled \<noteq> keyStateEnabled"
  "keyStateEnabled \<noteq> keyStatePendingDeletion" "keyStatePendingDeletion \<noteq> keyStateEnabled"
  "keyStateDisabled \<noteq> keyStatePendingDeletion" "keyStatePendingDeletion \<noteq> keyStateDisabled"
  by (simp_all add: keyStateEnabled_def keyStateDisabled_def keyStatePendingDeletion_def)

fun asMeta :: "content \<Rightarrow> KeyMetadata option" where
  "asMeta (CMeta m) = Some m" | "asMeta _ = None"
fun asMaterial :: "content \<Rightarrow> KeyMaterial option" where
  "asMaterial (CMaterial m) = Some m" | "asMaterial _ = None"
fun asPolicy :: "content \<Rightarrow> string option" where
  "asPolicy (CPolicy m) = Some m" | "asPolicy _ = None"
fun asRotation :: "content \<Rightarrow> KeyRotationConfig option" where
  "asRotation (CRotation m) = Some m" | "asRotation _ = None"
fun asTags :: "content \<Rightarrow> smap option" where
  "asTags (CTags m) = Some m" | "asTags _ = None"
fun asHistory :: "content \<Rightarrow> RotationRecord list option" where
  "asHistory (CHistory m) = Some m" | "asHistory _ = None"
fun asGrant :: "content \<Rightarrow> Grant option" where
  "asGrant (CGrant m) = Some m" | "asGrant _ = None"
fun asAlias :: "content \<Rightarrow> AliasEntry option" where
  "asAlias (CAlias m) = Some m" | "asAlias _ = None"

text \<open>\<open>readJSON[T]\<close>: the decoder plays the role of the type argument; a truncated file or a file
  of another type does not decode.\<close>

definition readJSON :: "(content \<Rightarrow> 'a option) \<Rightarrow> kms \<Rightarrow> path \<Rightarrow> ioerr + 'a" where
  "readJSON dec s p =
     (case root_ReadFile s p of
        Inl e \<Rightarrow> Inl e
      | Inr None \<Rightarrow> Inl EOther
      | Inr (Some c) \<Rightarrow> (case dec c of None \<Rightarrow> Inl EOther | Some v \<Rightarrow> Inr v))"

definition writeJSON :: "path \<Rightarrow> content \<Rightarrow> kms \<Rightarrow> ioerr option \<times> kms" where
  "writeJSON p c s = root_WriteFile p c s"

definition write_result :: "'a \<Rightarrow> ioerr option \<times> kms \<Rightarrow> 'a kms_result" where
  "write_result v r = (case r of (Some e, s) \<Rightarrow> (Inl (ErrIO e), s) | (None, s) \<Rightarrow> (Inr v, s))"

text \<open>A removal whose error is only logged.\<close>

definition removeLogged :: "path \<Rightarrow> kms \<Rightarrow> kms" where
  "removeLogged p s = snd (root_Remove p s)"

definition keyDir :: "string \<Rightarrow> path" where
  "keyDir keyID = filepath_Join [''keys'', keyID]"

definition keyFile :: "string \<Rightarrow> string \<Rightarrow> path" where
  "keyFile keyID f = filepath_Join [''keys'', keyID, f]"

text \<open>\<open>len(name) >= k && name[len(name)-5:] == ".json"\<close>\<close>

definition has_json_suffix :: "nat \<Rightarrow> string \<Rightarrow> bool" where
  "has_json_suffix k name \<longleftrightarrow> k \<le> length name \<and> drop (length name - 5) name = ''.json''"

section \<open>Random source\<close>

text \<open>One call of \<open>randRead\<close> on a buffer of \<open>n\<close> zero bytes: the count and the buffer.\<close>

definition randRead :: "nat \<Rightarrow> kms \<Rightarrow> (nat \<times> bytes) option \<times> kms" where
  "randRead n s =
     (case rnd s of
        [] \<Rightarrow> (None, s)
      | None # rs \<Rightarrow> (None, s\<lparr>rnd := rs\<rparr>)
      | Some bs # rs \<Rightarrow>
          let got = take n bs
          in (Some (length got, got @ replicate (n - length got) 0), s\<lparr>rnd := rs\<rparr>))"

definition uuid_of_bytes :: "bytes \<Rightarrow> string" where
  "uuid_of_bytes b0 =
     (let b = b0[6 := (b0 ! 6 AND 0x0f) OR 0x40, 8 := (b0 ! 8 AND 0x3f) OR 0x80]
      in hex (take 4 b) @ ''-'' @ hex (take 2 (drop 4 b)) @ ''-'' @ hex (take 2 (drop 6 b)) @ ''-''
         @ hex (take 2 (drop 8 b)) @ ''-'' @ hex (take 6 (drop 10 b)))"

definition newKeyID :: "kms \<Rightarrow> string option \<times> kms" where
  "newKeyID s = (case randRead 16 s of
      (None, s) \<Rightarrow> (None, s)
    | (Some (_, b), s) \<Rightarrow> (Some (uuid_of_bytes b), s))"

definition newGrantID :: "kms \<Rightarrow> string option \<times> kms" where "newGrantID s = newKeyID s"
definition newGrantToken :: "kms \<Rightarrow> string option \<times> kms" where "newGrantToken s = newKeyID s"

section \<open>Opening the storage\<close>

text \<open>\<open>os.MkdirAll\<close> on a directory right below the storage root.\<close>

definition os_MkdirAll :: "path \<Rightarrow> kms \<Rightarrow> ioerr option \<times> kms" where
  "os_MkdirAll p s =
     (if d_fault s OpMkdir p then (Some EOther, s)
      else case look s p of
             None \<Rightarrow> (None, put p Dir s)
           | Some Dir \<Rightarrow> (None, s)
           | Some (File _) \<Rightarrow> (Some EOther, s))"

text \<open>\<open>newStorage\<close> on whatever an earlier run left in the data directory.\<close>

definition newStorage :: "kms \<Rightarrow> unit kms_result" where
  "newStorage s =
     (case os_MkdirAll [''keys''] s of
        (Some e, s) \<Rightarrow> (Inl (ErrIO e), s)
      | (None, s) \<Rightarrow>
          (case os_MkdirAll [''aliases''] s of
             (Some e, s) \<Rightarrow> (Inl (ErrIO e), s)
           | (None, s) \<Rightarrow>
               if d_fault s OpOpen [] then (Inl (ErrIO EOther), s)
               else (Inr (), s\<lparr>maxAliasesPerKey := aliasLimitPerKey\<rparr>)))"

section \<open>Keys\<close>

definition keyExistsLocked :: "kms \<Rightarrow> string \<Rightarrow> kms_error option" where
  "keyExistsLocked s keyID = (case root_Stat s (keyFile keyID ''meta.json'') of
      Inl ENotExist \<Rightarrow> Some ErrKeyNotFound
    | Inl e \<Rightarrow> Some (ErrIO e)
    | Inr _ \<Rightarrow> None)"

definition readKeyMeta :: "kms \<Rightarrow> string \<Rightarrow> kms_error + KeyMetadata" where
  "readKeyMeta s keyID = (case readJSON asMeta s (keyFile keyID ''meta.json'') of
      Inl ENotExist \<Rightarrow> Inl ErrKeyNotFound
    | Inl e \<Rightarrow> Inl (ErrIO e)
    | Inr m \<Rightarrow> Inr m)"

text \<open>\<open>generateKeyPair\<close>: \<open>Inl\<close> is an error, \<open>Inr None\<close> the nil result for unsupported specs.\<close>

definition generateKeyPair :: "crypto \<Rightarrow> string \<Rightarrow> unit + bytes option" where
  "generateKeyPair cr spec =
     (let gen = (\<lambda>r. case r of None \<Rightarrow> Inl () | Some der \<Rightarrow> Inr (Some der))
      in if spec = ''RSA_2048'' then gen (cr_GenerateRSA cr 2048)
         else if spec = ''RSA_3072'' then gen (cr_GenerateRSA cr 3072)
         else if spec = ''RSA_4096'' then gen (cr_GenerateRSA cr 4096)
         else if spec = ''ECC_NIST_P256'' then gen (cr_GenerateECDSA cr ''P256'')
         else if spec = ''ECC_NIST_P384'' then gen (cr_GenerateECDSA cr ''P384'')
         else if spec = ''ECC_NIST_P521'' then gen (cr_GenerateECDSA cr ''P521'')
         else if spec = ''ECC_NIST_EDWARDS25519'' then gen (cr_GenerateEd25519 cr)
         else Inr None)"

definition newKeyMetadata :: "CreateKeyInput \<Rightarrow> string \<Rightarrow> int \<Rightarrow> KeyMetadata" where
  "newKeyMetadata inp keyID now =
     \<lparr>km_KeyID = keyID, km_Arn = keyARN keyID, km_AWSAccountID = fixedAccount,
      km_Description = ci_Description inp, km_KeySpec = ci_KeySpec inp,
      km_CustomerMasterKeySpec = ci_KeySpec inp, km_KeyUsage = ci_KeyUsage inp,
      km_KeyState = keyStateEnabled, km_Enabled = True,
      km_KeyManager = (if ci_keyManager inp = '''' then ''CUSTOMER'' else ci_keyManager inp),
      km_Origin = ci_Origin inp, km_MultiRegion = ci_MultiRegion inp, km_CreationDate = now,
      km_DeletionDate = None,
      km_EncryptionAlgorithms = encryptionAlgorithmsForKey (ci_KeySpec inp) (ci_KeyUsage inp),
      km_SigningAlgorithms = signingAlgorithmsForKey (ci_KeySpec inp) (ci_KeyUsage inp),
      km_KeyAgreementAlgorithms = keyAgreementAlgorithmsForKey (ci_KeySpec inp) (ci_KeyUsage inp),
      km_MacAlgorithms = macAlgorithmsForKey (ci_KeySpec inp)\<rparr>"

text \<open>The clean-up sequences of \<open>CreateKey\<close>: the metadata file, the material file, the directory.\<close>

definition cleanMetaDir :: "string \<Rightarrow> kms \<Rightarrow> kms" where
  "cleanMetaDir keyID s = removeLogged (keyDir keyID) (removeLogged (keyFile keyID ''meta.json'') s)"

definition cleanMetaMaterialDir :: "string \<Rightarrow> kms \<Rightarrow> kms" where
  "cleanMetaMaterialDir keyID s =
     removeLogged (keyDir keyID)
       (removeLogged (keyFile keyID ''material.json'') (removeLogged (keyFile keyID ''meta.json'') s))"

text \<open>The branch of \<open>CreateKey\<close> for \<open>SYMMETRIC_DEFAULT\<close> and HMAC specs.\<close>

definition createSymmetricMaterial :: "string \<Rightarrow> string \<Rightarrow> kms \<Rightarrow> unit kms_result" where
  "createSymmetricMaterial keyID spec s =
     (let keySize = (if 0 < hmacKeySize spec then hmacKeySize spec else 32)
      in case randRead keySize s of
           (None, s) \<Rightarrow> (Inl ErrRand, cleanMetaDir keyID s)
         | (Some (_, keyBytes), s) \<Rightarrow>
             (case randRead 32 s of
                (None, s) \<Rightarrow> (Inl ErrRand, cleanMetaDir keyID s)
              | (Some (_, matID), s) \<Rightarrow>
                  (case writeJSON (keyFile keyID ''material.json'')
                          (CMaterial \<lparr>mt_KeyBytes = keyBytes, mt_PrivateKeyDER = [], mt_KeyMaterialID = hex matID\<rparr>) s of
                     (Some e, s) \<Rightarrow> (Inl (ErrIO e), cleanMetaMaterialDir keyID s)
                   | (None, s) \<Rightarrow> (Inr (), s))))"

text \<open>The branch of \<open>CreateKey\<close> for the other specs; no file is written when the generator gives nil.\<close>

definition createAsymmetricMaterial :: "crypto \<Rightarrow> string \<Rightarrow> string \<Rightarrow> kms \<Rightarrow> unit kms_result" where
  "createAsymmetricMaterial cr keyID spec s =
     (case generateKeyPair cr spec of
        Inl _ \<Rightarrow> (Inl ErrKeyGen, cleanMetaDir keyID s)
      | Inr None \<Rightarrow> (Inr (), s)
      | Inr (Some der) \<Rightarrow>
          (case randRead 32 s of
             (None, s) \<Rightarrow> (Inl ErrRand, cleanMetaDir keyID s)
           | (Some (_, matID), s) \<Rightarrow>
               (case writeJSON (keyFile keyID ''material.json'')
                       (CMaterial \<lparr>mt_KeyBytes = [], mt_PrivateKeyDER = der, mt_KeyMaterialID = hex matID\<rparr>) s of
                  (Some e, s) \<Rightarrow> (Inl (ErrIO e), cleanMetaMaterialDir keyID s)
                | (None, s) \<Rightarrow> (Inr (), s))))"

definition CreateKey :: "crypto \<Rightarrow> CreateKeyInput \<Rightarrow> kms \<Rightarrow> KeyMetadata kms_result" where
  "CreateKey cr inp s =
     (case newKeyID s of
        (None, s) \<Rightarrow> (Inl ErrRand, s)
      | (Some keyID, s) \<Rightarrow>
          let meta = newKeyMetadata inp keyID (clock s)
          in case root_Mkdir (keyDir keyID) s of
               (Some e, s) \<Rightarrow> (Inl (ErrIO e), s)
             | (None, s) \<Rightarrow>
                 (case writeJSON (keyFile keyID ''meta.json'') (CMeta meta) s of
                    (Some e, s) \<Rightarrow> (Inl (ErrIO e), cleanMetaDir keyID s)
                  | (None, s) \<Rightarrow>
                      (case (if ci_KeySpec inp = keySpecSymmetricDefault \<or> isHMACSpec (ci_KeySpec inp)
                             then createSymmetricMaterial keyID (ci_KeySpec inp) s
                             else createAsymmetricMaterial cr keyID (ci_KeySpec inp) s) of
                         (Inl e, s) \<Rightarrow> (Inl e, s)
                       | (Inr _, s) \<Rightarrow>
                           let policy = (if ci_Policy inp = '''' then defaultPolicy else ci_Policy inp)
                           in case writeJSON (keyFile keyID ''policy.json'') (CPolicy policy) s of
                                (Some e, s) \<Rightarrow> (Inl (ErrIO e), cleanMetaMaterialDir keyID s)
                              | (None, s) \<Rightarrow> (Inr meta, s))))"

definition GetKeyMetadata :: "kms \<Rightarrow> string \<Rightarrow> kms_error + KeyMetadata" where
  "GetKeyMetadata s keyID = readKeyMeta s keyID"

text \<open>The loop over the entries of \<open>keys/\<close>: directories with a \<open>meta.json\<close>.\<close>

fun collectKeyIDs :: "kms \<Rightarrow> (string \<times> bool) list \<Rightarrow> ioerr + string list" where
  "collectKeyIDs s [] = Inr []"
| "collectKeyIDs s ((name, isDir) # es) =
     (if \<not> isDir then collectKeyIDs s es
      else case root_Stat s (keyFile name ''meta.json'') of
             Inl ENotExist \<Rightarrow> collectKeyIDs s es
           | Inl e \<Rightarrow> Inl e
           | Inr _ \<Rightarrow> (case collectKeyIDs s es of Inl e \<Rightarrow> Inl e | Inr ids \<Rightarrow> Inr (name # ids)))"

definition listKeyIDsLocked :: "kms \<Rightarrow> kms_error + string list" where
  "listKeyIDsLocked s = (case root_ReadDir s [''keys''] of
      Inl e \<Rightarrow> Inl (ErrIO e)
    | Inr es \<Rightarrow> (case collectKeyIDs s es of Inl e \<Rightarrow> Inl (ErrIO e) | Inr ids \<Rightarrow> Inr ids))"

definition ListKeyIDs :: "kms \<Rightarrow> kms_error + string list" where
  "ListKeyIDs s = (case root_ReadDir s [''keys''] of
      Inl e \<Rightarrow> Inl (ErrIO e)
    | Inr es \<Rightarrow> (case collectKeyIDs s es of Inl e \<Rightarrow> Inl (ErrIO e) | Inr ids \<Rightarrow> Inr (sort ids)))"

definition GetKeyPolicy :: "kms \<Rightarrow> string \<Rightarrow> kms_error + string" where
  "GetKeyPolicy s keyID = (case keyExistsLocked s keyID of
      Some e \<Rightarrow> Inl e
    | None \<Rightarrow> (case readJSON asPolicy s (keyFile keyID ''policy.json'') of
                 Inl e \<Rightarrow> Inl (ErrIO e) | Inr p \<Rightarrow> Inr p))"

definition PutKeyPolicy :: "string \<Rightarrow> string \<Rightarrow> kms \<Rightarrow> unit kms_result" where
  "PutKeyPolicy keyID policy s = (case keyExistsLocked s keyID of
      Some e \<Rightarrow> (Inl e, s)
    | None \<Rightarrow> write_result () (writeJSON (keyFile keyID ''policy.json'') (CPolicy policy) s))"

definition GetKeyMaterial :: "kms \<Rightarrow> string \<Rightarrow> kms_error + KeyMaterial" where
  "GetKeyMaterial s keyID = (case keyExistsLocked s keyID of
      Some e \<Rightarrow> Inl e
    | None \<Rightarrow>
        (case readJSON asMaterial s (keyFile keyID ''material.json'') of
           Inl ENotExist \<Rightarrow> Inl ErrKeyMaterialNotFound
         | Inl e \<Rightarrow> Inl (ErrIO e)
         | Inr mat \<Rightarrow>
             (case readKeyMeta s keyID of
                Inl e \<Rightarrow> Inl e
              | Inr meta \<Rightarrow>
                  let n = hmacKeySize (km_KeySpec meta)
                  in if 0 < n \<and> length (mt_KeyBytes mat) \<noteq> n then Inl ErrKeyMaterialCorrupted
                     else Inr mat)))"

section \<open>Aliases\<close>

definition aliasFilename :: "string \<Rightarrow> string" where
  "aliasFilename aliasName = url_PathEscape aliasName @ ''.json''"

definition aliasPath :: "string \<Rightarrow> path" where
  "aliasPath aliasName = filepath_Join [''aliases'', aliasFilename aliasName]"

fun countAliases :: "kms \<Rightarrow> string \<Rightarrow> (string \<times> bool) list \<Rightarrow> kms_error + nat" where
  "countAliases s target [] = Inr 0"
| "countAliases s target ((name, isDir) # es) =
     (if isDir \<or> \<not> has_json_suffix 5 name then countAliases s target es
      else case readJSON asAlias s (filepath_Join [''aliases'', name]) of
             Inl e \<Rightarrow> Inl (ErrIO e)
           | Inr a \<Rightarrow>
               (case countAliases s target es of
                  Inl e \<Rightarrow> Inl e
                | Inr n \<Rightarrow> Inr (if ae_TargetKeyId a = target then n + 1 else n)))"

definition countAliasesForKeyLocked :: "kms \<Rightarrow> string \<Rightarrow> kms_error + nat" where
  "countAliasesForKeyLocked s target = (case root_ReadDir s [''aliases''] of
      Inl e \<Rightarrow> Inl (ErrIO e)
    | Inr es \<Rightarrow> countAliases s target es)"

definition CreateAlias :: "string \<Rightarrow> string \<Rightarrow> kms \<Rightarrow> unit kms_result" where
  "CreateAlias aliasName targetKeyID s =
     (case keyExistsLocked s targetKeyID of
        Some e \<Rightarrow> (Inl e, s)
      | None \<Rightarrow>
          (case readKeyMeta s targetKeyID of
             Inl e \<Rightarrow> (Inl e, s)
           | Inr meta \<Rightarrow>
               if km_KeyState meta = keyStatePendingDeletion then (Inl ErrKeyPendingDeletion, s)
               else case countAliasesForKeyLocked s targetKeyID of
                      Inl e \<Rightarrow> (Inl e, s)
                    | Inr count \<Rightarrow>
                        if maxAliasesPerKey s \<le> count then (Inl ErrAliasLimitExceeded, s)
                        else case root_Stat s (aliasPath aliasName) of
                               Inr _ \<Rightarrow> (Inl ErrAliasAlreadyExists, s)
                             | Inl _ \<Rightarrow>
                                 write_result () (writeJSON (aliasPath aliasName)
                                   (CAlias \<lparr>ae_AliasName = aliasName, ae_AliasArn = aliasARN aliasName,
                                            ae_TargetKeyId = targetKeyID, ae_CreationDate = clock s,
                                            ae_LastUpdatedDate = clock s\<rparr>) s)))"

definition DeleteAlias :: "string \<Rightarrow> kms \<Rightarrow> unit kms_result" where
  "DeleteAlias aliasName s =
     (if root_Stat s (aliasPath aliasName) = Inl ENotExist then (Inl ErrAliasNotFound, s)
      else case root_Remove (aliasPath aliasName) s of
             (Some ENotExist, s) \<Rightarrow> (Inl ErrAliasNotFound, s)
           | (Some e, s) \<Rightarrow> (Inl (ErrIO e), s)
           | (None, s) \<Rightarrow> (Inr (), s))"

definition UpdateAlias :: "string \<Rightarrow> string \<Rightarrow> kms \<Rightarrow> unit kms_result" where
  "UpdateAlias aliasName targetKeyID s =
     (case readJSON asAlias s (aliasPath aliasName) of
        Inl ENotExist \<Rightarrow> (Inl ErrAliasNotFound, s)
      | Inl e \<Rightarrow> (Inl (ErrIO e), s)
      | Inr existing \<Rightarrow>
          (case keyExistsLocked s targetKeyID of
             Some e \<Rightarrow> (Inl e, s)
           | None \<Rightarrow>
               (case readKeyMeta s targetKeyID of
                  Inl e \<Rightarrow> (Inl e, s)
                | Inr meta \<Rightarrow>
                    if km_KeyState meta = keyStatePendingDeletion then (Inl ErrKeyPendingDeletion, s)
                    else write_result () (writeJSON (aliasPath aliasName)
                           (CAlias (existing\<lparr>ae_TargetKeyId := targetKeyID, ae_LastUpdatedDate := clock s\<rparr>)) s))))"

fun collectAliases :: "kms \<Rightarrow> string \<Rightarrow> (string \<times> bool) list \<Rightarrow> AliasEntry list" where
  "collectAliases s filterKeyID [] = []"
| "collectAliases s filterKeyID ((name, isDir) # es) =
     (if isDir \<or> \<not> has_json_suffix 5 name then collectAliases s filterKeyID es
      else case readJSON asAlias s (filepath_Join [''aliases'', name]) of
             Inl _ \<Rightarrow> collectAliases s filterKeyID es
           | Inr a \<Rightarrow>
               if filterKeyID \<noteq> '''' \<and> ae_TargetKeyId a \<noteq> filterKeyID
               then collectAliases s filterKeyID es
               else a # collectAliases s filterKeyID es)"

definition ListAliases :: "kms \<Rightarrow> string \<Rightarrow> kms_error + AliasEntry list" where
  "ListAliases s filterKeyID = (case root_ReadDir s [''aliases''] of
      Inl e \<Rightarrow> Inl (ErrIO e)
    | Inr es \<Rightarrow> Inr (sort_key ae_AliasName (collectAliases s filterKeyID es)))"

definition ResolveAlias :: "kms \<Rightarrow> string \<Rightarrow> kms_error + string" where
  "ResolveAlias s aliasName = (case readJSON asAlias s (aliasPath aliasName) of
      Inl ENotExist \<Rightarrow> Inl ErrAliasNotFound
    | Inl e \<Rightarrow> Inl (ErrIO e)
    | Inr a \<Rightarrow> Inr (ae_TargetKeyId a))"

end
