(* ===== verification/Kms_Lifecycle.thy ===== *)
theory Kms_Lifecycle
  imports Kms_Storage
begin

text \<open>
  The storage operations that change a key after its creation (\<open>internal/kms/storage.go\<close>, from
  \<open>EnableKey\<close> on): the key state, automatic and on-demand rotation, tags, and the two operations
  that S3 calls to obtain an encryption key. Rotation copies the current material to the
  \<open>materials\<close> directory before it writes the new one, so that old ciphertexts stay readable.
\<close>

section \<open>Key state\<close>

definition EnableKey :: "string \<Rightarrow> kms \<Rightarrow> unit kms_result" where
  "EnableKey keyID s =
     (case readKeyMeta s keyID of
        Inl e \<Rightarrow> (Inl e, s)
      | Inr meta \<Rightarrow>
          if km_KeyState meta = keyStatePendingDeletion then (Inl ErrInvalidKeyState, s)
          else if km_KeyState meta = keyStateEnabled then (Inr (), s)
          else write_result () (writeJSON (keyFile keyID ''meta.json'')
                 (CMeta (meta\<lparr>km_KeyState := keyStateEnabled, km_Enabled := True\<rparr>)) s))"

definition DisableKey :: "string \<Rightarrow> kms \<Rightarrow> unit kms_result" where
  "DisableKey keyID s =
     (case readKeyMeta s keyID of
        Inl e \<Rightarrow> (Inl e, s)
      | Inr meta \<Rightarrow>
          if km_KeyState meta = keyStatePendingDeletion then (Inl ErrInvalidKeyState, s)
          else if km_KeyState meta = keyStateDisabled then (Inr (), s)
          else write_result () (writeJSON (keyFile keyID ''meta.json'')
                 (CMeta (meta\<lparr>km_KeyState := keyStateDisabled, km_Enabled := False\<rparr>)) s))"

text \<open>Go returns the new metadata next to a write error; callers only use it without error.\<close>

definition ScheduleKeyDeletion :: "string \<Rightarrow> int \<Rightarrow> kms \<Rightarrow> KeyMetadata kms_result" where
  "ScheduleKeyDeletion keyID pendingWindowInDays s =
     (case readKeyMeta s keyID of
        Inl e \<Rightarrow> (Inl e, s)
      | Inr meta \<Rightarrow>
          if km_KeyState meta = keyStatePendingDeletion then (Inl ErrInvalidKeyState, s)
          else
            let deletionDate = clock s + pendingWindowInDays * secondsPerDay;
                meta' = meta\<lparr>km_KeyState := keyStatePendingDeletion, km_Enabled := False,
                             km_DeletionDate := Some deletionDate\<rparr>
            in write_result meta' (writeJSON (keyFile keyID ''meta.json'') (CMeta meta') s))"

definition CancelKeyDeletion :: "string \<Rightarrow> kms \<Rightarrow> KeyMetadata kms_result" where
  "CancelKeyDeletion keyID s =
     (case readKeyMeta s keyID of
        Inl e \<Rightarrow> (Inl e, s)
      | Inr meta \<Rightarrow>
          if km_KeyState meta \<noteq> keyStatePendingDeletion then (Inl ErrInvalidKeyState, s)
          else
            let meta' = meta\<lparr>km_KeyState := keyStateDisabled, km_Enabled := False, km_DeletionDate := None\<rparr>
            in write_result meta' (writeJSON (keyFile keyID ''meta.json'') (CMeta meta') s))"

section \<open>Rotation\<close>

definition EnableKeyRotation :: "string \<Rightarrow> int \<Rightarrow> kms \<Rightarrow> unit kms_result" where
  "EnableKeyRotation keyID rotationPeriodInDays s =
     (case readKeyMeta s keyID of
        Inl e \<Rightarrow> (Inl e, s)
      | Inr meta \<Rightarrow>
          if km_KeyState meta = keyStatePendingDeletion then (Inl ErrInvalidKeyState, s)
          else if km_KeyState meta \<noteq> keyStateEnabled then (Inl ErrKeyDisabled, s)
          else if km_KeySpec meta \<noteq> keySpecSymmetricDefault then (Inl ErrUnsupportedOp, s)
          else write_result () (writeJSON (keyFile keyID ''rotation.json'')
                 (CRotation \<lparr>rc_Enabled = True, rc_RotationPeriodInDays = rotationPeriodInDays,
                    rc_NextRotationDate = clock s + rotationPeriodInDays * secondsPerDay\<rparr>) s))"

definition DisableKeyRotation :: "string \<Rightarrow> kms \<Rightarrow> unit kms_result" where
  "DisableKeyRotation keyID s =
     (case readKeyMeta s keyID of
        Inl e \<Rightarrow> (Inl e, s)
      | Inr meta \<Rightarrow>
          if km_KeyState meta = keyStatePendingDeletion then (Inl ErrInvalidKeyState, s)
          else if km_KeyState meta \<noteq> keyStateEnabled then (Inl ErrKeyDisabled, s)
          else if km_KeySpec meta \<noteq> keySpecSymmetricDefault then (Inl ErrUnsupportedOp, s)
          else write_result () (writeJSON (keyFile keyID ''rotation.json'')
                 (CRotation \<lparr>rc_Enabled = False, rc_RotationPeriodInDays = 0, rc_NextRotationDate = 0\<rparr>) s))"

definition GetKeyRotationStatus :: "kms \<Rightarrow> string \<Rightarrow> kms_error + (KeyMetadata \<times> KeyRotationConfig)" where
  "GetKeyRotationStatus s keyID =
     (case readKeyMeta s keyID of
        Inl e \<Rightarrow> Inl e
      | Inr meta \<Rightarrow>
          if km_KeyState meta = keyStatePendingDeletion then Inl ErrInvalidKeyState
          else if km_KeySpec meta \<noteq> keySpecSymmetricDefault then Inl ErrUnsupportedOp
          else case readJSON asRotation s (keyFile keyID ''rotation.json'') of
                 Inl ENotExist \<Rightarrow>
                   Inr (meta, \<lparr>rc_Enabled = False, rc_RotationPeriodInDays = 0, rc_NextRotationDate = 0\<rparr>)
               | Inl e \<Rightarrow> Inl (ErrIO e)
               | Inr cfg \<Rightarrow> Inr (meta, cfg))"

definition readRotationHistoryLocked :: "kms \<Rightarrow> string \<Rightarrow> kms_error + RotationRecord list" where
  "readRotationHistoryLocked s keyID =
     (case readJSON asHistory s (keyFile keyID ''rotation_history.json'') of
        Inl ENotExist \<Rightarrow> Inr []
      | Inl e \<Rightarrow> Inl (ErrIO e)
      | Inr h \<Rightarrow> Inr h)"

definition materialsDir :: "string \<Rightarrow> path" where
  "materialsDir keyID = filepath_Join [''keys'', keyID, ''materials'']"

definition materialFile :: "string \<Rightarrow> string \<Rightarrow> path" where
  "materialFile keyID f = filepath_Join [''keys'', keyID, ''materials'', f]"

definition onDemandCount :: "RotationRecord list \<Rightarrow> nat" where
  "onDemandCount h = length (filter (\<lambda>r. rr_RotationType r = ''ON_DEMAND'') h)"

text \<open>The writes of \<open>RotateKeyOnDemand\<close> once the guards have passed.\<close>

definition rotateMaterial ::
  "string \<Rightarrow> KeyMetadata \<Rightarrow> RotationRecord list \<Rightarrow> KeyMaterial \<Rightarrow> kms \<Rightarrow> KeyMetadata kms_result" where
  "rotateMaterial keyID meta history curMat s =
     (case root_Mkdir (materialsDir keyID) s of
        (mkErr, s) \<Rightarrow>
          if mkErr \<noteq> None \<and> mkErr \<noteq> Some EExist then (Inl (ErrIO (the mkErr)), s)
          else case writeJSON (materialFile keyID (mt_KeyMaterialID curMat @ ''.json'')) (CMaterial curMat) s of
                 (Some e, s) \<Rightarrow> (Inl (ErrIO e), s)
               | (None, s) \<Rightarrow>
                   (case randRead 32 s of
                      (None, s) \<Rightarrow> (Inl ErrRand, s)
                    | (Some (_, newKeyBytes), s) \<Rightarrow>
                        (case randRead 32 s of
                           (None, s) \<Rightarrow> (Inl ErrRand, s)
                         | (Some (_, matID), s) \<Rightarrow>
                             (case writeJSON (keyFile keyID ''material.json'')
                                     (CMaterial \<lparr>mt_KeyBytes = newKeyBytes, mt_PrivateKeyDER = [],
                                                 mt_KeyMaterialID = hex matID\<rparr>) s of
                                (Some e, s) \<Rightarrow> (Inl (ErrIO e), s)
                              | (None, s) \<Rightarrow>
                                  write_result meta (writeJSON (keyFile keyID ''rotation_history.json'')
                                    (CHistory (history @ [\<lparr>rr_KeyID = km_Arn meta, rr_RotationDate = clock s,
                                                           rr_RotationType = ''ON_DEMAND''\<rparr>])) s)))))"

definition RotateKeyOnDemand :: "string \<Rightarrow> kms \<Rightarrow> KeyMetadata kms_result" where
  "RotateKeyOnDemand keyID s =
     (case readKeyMeta s keyID of
        Inl e \<Rightarrow> (Inl e, s)
      | Inr meta \<Rightarrow>
          if km_KeyState meta = keyStatePendingDeletion then (Inl ErrInvalidKeyState, s)
          else if km_KeyState meta \<noteq> keyStateEnabled then (Inl ErrKeyDisabled, s)
          else if km_KeySpec meta \<noteq> keySpecSymmetricDefault then (Inl ErrUnsupportedOp, s)
          else case readRotationHistoryLocked s keyID of
                 Inl e \<Rightarrow> (Inl e, s)
               | Inr history \<Rightarrow>
                   if maxOnDemandRotations \<le> onDemandCount history then (Inl ErrOnDemandRotationLimit, s)
                   else case readJSON asMaterial s (keyFile keyID ''material.json'') of
                          Inl e \<Rightarrow> (Inl (ErrIO e), s)
                        | Inr curMat \<Rightarrow> rotateMaterial keyID meta history curMat s)"

text \<open>The pagination of \<open>ListKeyRotations\<close>: a marker is the decimal index of the last record seen.\<close>

definition rotations_page :: "RotationRecord list \<Rightarrow> nat \<Rightarrow> string \<Rightarrow> (RotationRecord list \<times> string) option" where
  "rotations_page history limit marker =
     (let start =
            (if marker = '''' then Some 0
             else case strconv_Atoi marker of
                    None \<Rightarrow> None
                  | Some idx \<Rightarrow>
                      if idx < 0 \<or> int (length history) \<le> idx then None else Some (nat idx + 1))
      in case start of
           None \<Rightarrow> None
         | Some startIdx \<Rightarrow>
             let rest = drop startIdx history;
                 truncated = (limit < length rest);
                 pg = (if truncated then take limit rest else rest)
             in Some (pg, if truncated then strconv_Itoa (int startIdx + int (length pg) - 1) else ''''))"

definition ListKeyRotations ::
  "kms \<Rightarrow> string \<Rightarrow> nat \<Rightarrow> string \<Rightarrow> kms_error + (RotationRecord list \<times> string)" where
  "ListKeyRotations s keyID limit marker =
     (case readKeyMeta s keyID of
        Inl e \<Rightarrow> Inl e
      | Inr meta \<Rightarrow>
          if km_KeyState meta = keyStatePendingDeletion then Inl ErrInvalidKeyState
          else if km_KeySpec meta \<noteq> keySpecSymmetricDefault then Inl ErrUnsupportedOp
          else case readRotationHistoryLocked s keyID of
                 Inl e \<Rightarrow> Inl e
               | Inr history \<Rightarrow>
                   (case rotations_page history limit marker of
                      None \<Rightarrow> Inl ErrInvalidMarker
                    | Some r \<Rightarrow> Inr r))"

fun collectMaterials :: "kms \<Rightarrow> string \<Rightarrow> (string \<times> bool) list \<Rightarrow> KeyMaterial list" where
  "collectMaterials s keyID [] = []"
| "collectMaterials s keyID ((name, isDir) # es) =
     (if isDir \<or> \<not> has_json_suffix 5 name then collectMaterials s keyID es
      else case readJSON asMaterial s (materialFile keyID name) of
             Inl _ \<Rightarrow> collectMaterials s keyID es
           | Inr m \<Rightarrow> m # collectMaterials s keyID es)"

definition GetPreviousKeyMaterials :: "kms \<Rightarrow> string \<Rightarrow> kms_error + KeyMaterial list" where
  "GetPreviousKeyMaterials s keyID =
     (case keyExistsLocked s keyID of
        Some e \<Rightarrow> Inl e
      | None \<Rightarrow>
          (case root_ReadDir s (materialsDir keyID) of
             Inl ENotExist \<Rightarrow> Inr []
           | Inl e \<Rightarrow> Inl (ErrIO e)
           | Inr es \<Rightarrow> Inr (collectMaterials s keyID es)))"

section \<open>Tags\<close>

definition readTagMap :: "kms \<Rightarrow> string \<Rightarrow> ioerr + smap" where
  "readTagMap s keyID = (case readJSON asTags s (keyFile keyID ''tags.json'') of
      Inl ENotExist \<Rightarrow> Inr []
    | Inl e \<Rightarrow> Inl e
    | Inr m \<Rightarrow> Inr m)"

definition GetTags :: "kms \<Rightarrow> string \<Rightarrow> kms_error + TagEntry list" where
  "GetTags s keyID =
     (case keyExistsLocked s keyID of
        Some e \<Rightarrow> Inl e
      | None \<Rightarrow>
          (case readTagMap s keyID of
             Inl e \<Rightarrow> Inl (ErrIO e)
           | Inr m \<Rightarrow> Inr (map (\<lambda>(k, v). \<lparr>te_TagKey = k, te_TagValue = v\<rparr>) (sort_key fst m))))"

definition addTags :: "smap \<Rightarrow> TagEntry list \<Rightarrow> smap" where
  "addTags m tags = foldl (\<lambda>m t. AList.update (te_TagKey t) (te_TagValue t) m) m tags"

definition removeTags :: "smap \<Rightarrow> string list \<Rightarrow> smap" where
  "removeTags m ks = foldl (\<lambda>m k. AList.delete k m) m ks"

definition TagResource :: "string \<Rightarrow> TagEntry list \<Rightarrow> kms \<Rightarrow> unit kms_result" where
  "TagResource keyID tags s =
     (case readKeyMeta s keyID of
        Inl e \<Rightarrow> (Inl e, s)
      | Inr meta \<Rightarrow>
          if km_KeyState meta = keyStatePendingDeletion then (Inl ErrInvalidKeyState, s)
          else case readTagMap s keyID of
                 Inl e \<Rightarrow> (Inl (ErrIO e), s)
               | Inr existing \<Rightarrow>
                   let m = addTags existing tags
                   in if maxTagsPerKey < length m then (Inl ErrTagLimitExceeded, s)
                      else write_result () (writeJSON (keyFile keyID ''tags.json'') (CTags m) s))"

definition UntagResource :: "string \<Rightarrow> string list \<Rightarrow> kms \<Rightarrow> unit kms_result" where
  "UntagResource keyID tagKeys s =
     (case readKeyMeta s keyID of
        Inl e \<Rightarrow> (Inl e, s)
      | Inr meta \<Rightarrow>
          if km_KeyState meta = keyStatePendingDeletion then (Inl ErrInvalidKeyState, s)
          else case readTagMap s keyID of
                 Inl e \<Rightarrow> (Inl (ErrIO e), s)
               | Inr existing \<Rightarrow>
                   write_result () (writeJSON (keyFile keyID ''tags.json'') (CTags (removeTags existing tagKeys)) s))"

section \<open>The managed key of S3\<close>

definition awsS3KeyInput :: CreateKeyInput where
  "awsS3KeyInput =
     \<lparr>ci_Description = ''Default KMS key used by Amazon S3'', ci_KeySpec = keySpecSymmetricDefault,
      ci_KeyUsage = ''ENCRYPT_DECRYPT'', ci_MultiRegion = False, ci_Origin = ''AWS_KMS'', ci_Policy = '''',
      ci_keyManager = ''AWS''\<rparr>"

definition EnsureAwsS3Key :: "crypto \<Rightarrow> kms \<Rightarrow> string kms_result" where
  "EnsureAwsS3Key cr s =
     (case ResolveAlias s ''alias/aws/s3'' of
        Inr keyID \<Rightarrow>
          (case GetKeyMetadata s keyID of Inl e \<Rightarrow> (Inl e, s) | Inr meta \<Rightarrow> (Inr (km_Arn meta), s))
      | Inl ErrAliasNotFound \<Rightarrow>
          (case CreateKey cr awsS3KeyInput s of
             (Inl e, s) \<Rightarrow> (Inl e, s)
           | (Inr meta, s) \<Rightarrow>
               (case CreateAlias ''alias/aws/s3'' (km_KeyID meta) s of
                  (Inr _, s) \<Rightarrow> (Inr (km_Arn meta), s)
                | (Inl ErrAliasAlreadyExists, s) \<Rightarrow>
                    (case ResolveAlias s ''alias/aws/s3'' of
                       Inl e \<Rightarrow> (Inl e, s)
                     | Inr raceKeyID \<Rightarrow>
                         (case GetKeyMetadata s raceKeyID of
                            Inl e \<Rightarrow> (Inl e, s) | Inr m \<Rightarrow> (Inr (km_Arn m), s)))
                | (Inl e, s) \<Rightarrow> (Inl e, s)))
      | Inl e \<Rightarrow> (Inl e, s))"

text \<open>The last step of \<open>ResolveKeyForEncryption\<close>: only a usable key's ARN is returned.\<close>

definition checkedArn :: "kms \<Rightarrow> string \<Rightarrow> kms_error + string" where
  "checkedArn s keyID =
     (case GetKeyMetadata s keyID of
        Inl e \<Rightarrow> Inl e
      | Inr meta \<Rightarrow>
          if km_KeyState meta = keyStateDisabled then Inl ErrKeyDisabled
          else if km_KeyState meta = keyStatePendingDeletion then Inl ErrKeyPendingDeletion
          else Inr (km_Arn meta))"

definition ResolveKeyForEncryption :: "crypto \<Rightarrow> string \<Rightarrow> kms \<Rightarrow> string kms_result" where
  "ResolveKeyForEncryption cr keyRef s =
     (let (r, s, ref) =
        (if keyRef = '''' \<or> keyRef = ''alias/aws/s3''
         then let (r, s') = EnsureAwsS3Key cr s in (r, s', ''alias/aws/s3'')
         else (Inr '''', s, keyRef))
      in case r of
           Inl e \<Rightarrow> (Inl e, s)
         | Inr _ \<Rightarrow>
             if isAliasRef ref then
               (case normalizeAliasRef ref of
                  None \<Rightarrow> (Inl ErrKeyNotFound, s)
                | Some aliasName \<Rightarrow>
                    let (r2, s) = (if aliasName = ''alias/aws/s3'' then EnsureAwsS3Key cr s else (Inr '''', s))
                    in case r2 of
                         Inl e \<Rightarrow> (Inl e, s)
                       | Inr _ \<Rightarrow>
                           (case ResolveAlias s aliasName of
                              Inl ErrAliasNotFound \<Rightarrow> (Inl ErrKeyNotFound, s)
                            | Inl e \<Rightarrow> (Inl e, s)
                            | Inr keyID \<Rightarrow> (checkedArn s keyID, s)))
             else
               (case resolveKeyID ref of
                  None \<Rightarrow> (Inl ErrKeyNotFound, s)
                | Some keyID \<Rightarrow> (checkedArn s keyID, s)))"

end
