(* ===== verification/Kms_Grants.thy ===== *)
theory Kms_Grants
  imports Kms_Lifecycle
begin

text \<open>
  Grants (\<open>internal/kms/storage.go\<close>, from \<open>newGrantID\<close> on). A grant is a file
  \<open>keys/{keyID}/grants/{grantID}.json\<close>; both IDs come from the request, and \<open>filepath.Join\<close> cleans
  the path they make.
\<close>

definition grantsDir :: "string \<Rightarrow> path" where
  "grantsDir keyID = filepath_Join [''keys'', keyID, ''grants'']"

definition grantPath :: "string \<Rightarrow> string \<Rightarrow> path" where
  "grantPath keyID grantID = filepath_Join [''keys'', keyID, ''grants'', grantID @ ''.json'']"

definition countGrantFiles :: "(string \<times> bool) list \<Rightarrow> nat" where
  "countGrantFiles es = length (filter (\<lambda>(name, isDir). \<not> isDir \<and> has_json_suffix 6 name) es)"

definition CreateGrant :: "string \<Rightarrow> CreateGrantInput \<Rightarrow> kms \<Rightarrow> Grant kms_result" where
  "CreateGrant keyID inp s =
     (case readKeyMeta s keyID of
        Inl e \<Rightarrow> (Inl e, s)
      | Inr meta \<Rightarrow>
          if km_KeyState meta = keyStateDisabled then (Inl ErrKeyDisabled, s)
          else if km_KeyState meta = keyStatePendingDeletion then (Inl ErrInvalidKeyState, s)
          else case root_Mkdir (grantsDir keyID) s of
                 (mkErr, s) \<Rightarrow>
                   if mkErr \<noteq> None \<and> mkErr \<noteq> Some EExist then (Inl (ErrIO (the mkErr)), s)
                   else case root_ReadDir s (grantsDir keyID) of
                          Inl e \<Rightarrow> (Inl (ErrIO e), s)
                        | Inr es \<Rightarrow>
                            if maxGrantsPerKey \<le> countGrantFiles es then (Inl ErrGrantLimitExceeded, s)
                            else case newGrantID s of
                                   (None, s) \<Rightarrow> (Inl ErrRand, s)
                                 | (Some grantID, s) \<Rightarrow>
                                     (case newGrantToken s of
                                        (None, s) \<Rightarrow> (Inl ErrRand, s)
                                      | (Some token, s) \<Rightarrow>
                                          let g = \<lparr>gr_GrantId = grantID, gr_GrantToken = token, gr_KeyId = km_Arn meta,
                                                   gr_GranteePrincipal = gi_GranteePrincipal inp,
                                                   gr_RetiringPrincipal = gi_RetiringPrincipal inp,
                                                   gr_Operations = gi_Operations inp,
                                                   gr_Constraints = gi_Constraints inp, gr_Name = gi_Name inp,
                                                   gr_IssuingAccount = fixedAccount, gr_CreationDate = clock s\<rparr>
                                          in write_result g (writeJSON (grantPath keyID grantID) (CGrant g) s)))"

fun collectGrants :: "kms \<Rightarrow> string \<Rightarrow> (string \<times> bool) list \<Rightarrow> Grant list" where
  "collectGrants s keyID [] = []"
| "collectGrants s keyID ((name, isDir) # es) =
     (if isDir \<or> \<not> has_json_suffix 6 name then collectGrants s keyID es
      else case readJSON asGrant s (filepath_Join [''keys'', keyID, ''grants'', name]) of
             Inl _ \<Rightarrow> collectGrants s keyID es
           | Inr g \<Rightarrow> g # collectGrants s keyID es)"

definition listGrantsForKeyLocked :: "kms \<Rightarrow> string \<Rightarrow> kms_error + Grant list" where
  "listGrantsForKeyLocked s keyID =
     (case root_ReadDir s (grantsDir keyID) of
        Inl ENotExist \<Rightarrow> Inr []
      | Inl e \<Rightarrow> Inl (ErrIO e)
      | Inr es \<Rightarrow> Inr (sort_key gr_GrantId (collectGrants s keyID es)))"

definition applyGrantPagination :: "Grant list \<Rightarrow> nat \<Rightarrow> string \<Rightarrow> Grant list \<times> string" where
  "applyGrantPagination grants limit marker =
     (let grants =
            (if marker \<noteq> '''' then
               (let start = resume_index gr_GrantId grants marker
                in if start < length grants then drop start grants else [])
             else grants);
          truncated = (limit < length grants);
          pg = (if truncated then take limit grants else grants)
      in (pg, if truncated \<and> 0 < length pg then gr_GrantId (last pg) else ''''))"

definition ListGrants ::
  "kms \<Rightarrow> string \<Rightarrow> string \<Rightarrow> string \<Rightarrow> nat \<Rightarrow> string \<Rightarrow> kms_error + (Grant list \<times> string)" where
  "ListGrants s keyID filterGrantID filterGranteePrincipal limit marker =
     (case readKeyMeta s keyID of
        Inl e \<Rightarrow> Inl e
      | Inr meta \<Rightarrow>
          if km_KeyState meta = keyStatePendingDeletion then Inl ErrInvalidKeyState
          else case listGrantsForKeyLocked s keyID of
                 Inl e \<Rightarrow> Inl e
               | Inr grants \<Rightarrow>
                   let grants =
                     (if filterGrantID \<noteq> '''' \<or> filterGranteePrincipal \<noteq> ''''
                      then filter (\<lambda>g. \<not> (filterGrantID \<noteq> '''' \<and> gr_GrantId g \<noteq> filterGrantID)
                                     \<and> \<not> (filterGranteePrincipal \<noteq> ''''
                                          \<and> gr_GranteePrincipal g \<noteq> filterGranteePrincipal)) grants
                      else grants)
                   in Inr (applyGrantPagination grants limit marker))"

definition RevokeGrant :: "string \<Rightarrow> string \<Rightarrow> kms \<Rightarrow> unit kms_result" where
  "RevokeGrant keyID grantID s =
     (case readKeyMeta s keyID of
        Inl e \<Rightarrow> (Inl e, s)
      | Inr meta \<Rightarrow>
          if km_KeyState meta = keyStatePendingDeletion then (Inl ErrInvalidKeyState, s)
          else let p = grantPath keyID grantID
               in if root_Stat s p = Inl ENotExist then (Inl ErrGrantNotFound, s)
                  else case root_Remove p s of
                         (Some ENotExist, s) \<Rightarrow> (Inl ErrGrantNotFound, s)
                       | (Some e, s) \<Rightarrow> (Inl (ErrIO e), s)
                       | (None, s) \<Rightarrow> (Inr (), s))"

text \<open>The nested loops of \<open>RetireGrantByToken\<close>: the first grant with the token is removed.\<close>

fun retireIn :: "string \<Rightarrow> string list \<Rightarrow> kms \<Rightarrow> unit kms_result" where
  "retireIn token [] s = (Inl ErrGrantNotFound, s)"
| "retireIn token (keyID # ids) s =
     (case listGrantsForKeyLocked s keyID of
        Inl e \<Rightarrow> (Inl e, s)
      | Inr grants \<Rightarrow>
          (case List.find (\<lambda>g. gr_GrantToken g = token) grants of
             None \<Rightarrow> retireIn token ids s
           | Some g \<Rightarrow>
               (case root_Remove (grantPath keyID (gr_GrantId g)) s of
                  (Some e, s) \<Rightarrow> (Inl (ErrIO e), s)
                | (None, s) \<Rightarrow> (Inr (), s))))"

definition RetireGrantByToken :: "string \<Rightarrow> kms \<Rightarrow> unit kms_result" where
  "RetireGrantByToken token s =
     (case listKeyIDsLocked s of
        Inl e \<Rightarrow> (Inl e, s)
      | Inr ids \<Rightarrow> retireIn token ids s)"

definition RetireGrantByID :: "string \<Rightarrow> string \<Rightarrow> kms \<Rightarrow> unit kms_result" where
  "RetireGrantByID keyID grantID s = RevokeGrant keyID grantID s"

fun collectRetirable :: "kms \<Rightarrow> string \<Rightarrow> string list \<Rightarrow> kms_error + Grant list" where
  "collectRetirable s rp [] = Inr []"
| "collectRetirable s rp (keyID # ids) =
     (case listGrantsForKeyLocked s keyID of
        Inl e \<Rightarrow> Inl e
      | Inr grants \<Rightarrow>
          (case collectRetirable s rp ids of
             Inl e \<Rightarrow> Inl e
           | Inr rest \<Rightarrow> Inr (filter (\<lambda>g. gr_RetiringPrincipal g = rp) grants @ rest)))"

definition ListRetirableGrants ::
  "kms \<Rightarrow> string \<Rightarrow> nat \<Rightarrow> string \<Rightarrow> kms_error + (Grant list \<times> string)" where
  "ListRetirableGrants s rp limit marker =
     (case listKeyIDsLocked s of
        Inl e \<Rightarrow> Inl e
      | Inr ids \<Rightarrow>
          (case collectRetirable s rp ids of
             Inl e \<Rightarrow> Inl e
           | Inr matching \<Rightarrow> Inr (applyGrantPagination (sort_key gr_GrantId matching) limit marker)))"

end
