(* ===== verification/Kms_Envelope.thy ===== *)
theory Kms_Envelope
  imports Kms_Types Go_Json "HOL-Library.Multiset"
begin

text \<open>
  The ciphertext envelope of the data plane (\<open>internal/kms/handler_dataplane.go\<close>): a version byte,
  the 36 bytes of the key ID, an algorithm byte, a 12-byte nonce and the AES-GCM output; the
  encryption context enters as additional authenticated data in a canonical JSON form. AES-GCM
  itself is a parameter (\<^const>\<open>cr_Seal\<close> and \<^const>\<open>cr_Open\<close>); what the service relies on is
  \<open>aead_correct\<close> and \<open>aead_authentic\<close>.
\<close>

definition envelopeVersion :: u8 where "envelopeVersion = 0x01"
definition algoSymmetricDefault :: u8 where "algoSymmetricDefault = 0x01"
definition envelopeKeyIDOffset :: nat where "envelopeKeyIDOffset = 1"
definition envelopeKeyIDLen :: nat where "envelopeKeyIDLen = 36"
definition envelopeAlgoOffset :: nat where "envelopeAlgoOffset = 37"
definition envelopeNonceOffset :: nat where "envelopeNonceOffset = 38"
definition envelopeNonceLen :: nat where "envelopeNonceLen = 12"
definition envelopeSealedOffset :: nat where "envelopeSealedOffset = 50"

lemmas envelope_offsets = envelopeKeyIDOffset_def envelopeKeyIDLen_def envelopeAlgoOffset_def
  envelopeNonceOffset_def envelopeNonceLen_def envelopeSealedOffset_def

text \<open>\<open>aes.NewCipher\<close> accepts 16, 24 and 32 byte keys.\<close>

definition aesKeySizeOk :: "bytes \<Rightarrow> bool" where
  "aesKeySizeOk k \<longleftrightarrow> length k \<in> {16, 24, 32}"

section \<open>Encryption context\<close>

definition marshalContext :: "smap \<Rightarrow> bytes" where
  "marshalContext ctx = (if ctx = [] then [] else bytes_of_string (json_pairs (sort_key fst ctx)))"

text \<open>The error text is not modelled: \<open>False\<close> stands for a non-nil error.\<close>

definition validateEncryptionContext :: "smap \<Rightarrow> bool" where
  "validateEncryptionContext ctx \<longleftrightarrow>
     list_all (\<lambda>(k, v). length k \<le> 2048 \<and> length v \<le> 2048) ctx
     \<and> length (marshalContext ctx) \<le> 8192"

section \<open>Sealing and opening\<close>

text \<open>\<open>copy(dst[off:], src)\<close> into a buffer: as many bytes as fit.\<close>

definition copy_at :: "nat \<Rightarrow> bytes \<Rightarrow> bytes \<Rightarrow> bytes" where
  "copy_at off src dst =
     (let n = min (length src) (length dst - off)
      in take off dst @ take n src @ drop (off + n) dst)"

definition sealEnvelope :: "crypto \<Rightarrow> string \<Rightarrow> KeyMaterial \<Rightarrow> bytes \<Rightarrow> smap \<Rightarrow> bytes \<Rightarrow> bytes option" where
  "sealEnvelope cr keyID material plaintext context nonce =
     (if \<not> aesKeySizeOk (mt_KeyBytes material) then None
      else
        let aad = marshalContext context;
            sealed = cr_Seal cr (mt_KeyBytes material) nonce plaintext aad;
            out0 = replicate (envelopeSealedOffset + length sealed) 0;
            out1 = out0[0 := envelopeVersion];
            out2 = copy_at envelopeKeyIDOffset (bytes_of_string keyID) out1;
            out3 = out2[envelopeAlgoOffset := algoSymmetricDefault];
            out4 = copy_at envelopeNonceOffset nonce out3
        in Some (copy_at envelopeSealedOffset sealed out4))"

definition envelopeKeyID :: "bytes \<Rightarrow> string" where
  "envelopeKeyID blob = string_of_bytes (take envelopeKeyIDLen (drop envelopeKeyIDOffset blob))"

text \<open>\<open>None\<close> is an error, \<open>Some (embeddedKeyID, plaintext)\<close> success.\<close>

definition openEnvelope :: "crypto \<Rightarrow> bytes \<Rightarrow> KeyMaterial \<Rightarrow> smap \<Rightarrow> (string \<times> bytes) option" where
  "openEnvelope cr blob material context =
     (if length blob < envelopeSealedOffset + 1 then None
      else if blob ! 0 \<noteq> envelopeVersion then None
      else
        let embeddedKeyID = envelopeKeyID blob;
            algo = blob ! envelopeAlgoOffset
        in if algo \<noteq> algoSymmetricDefault then None
           else
             let nonce = take (envelopeSealedOffset - envelopeNonceOffset) (drop envelopeNonceOffset blob);
                 sealed = drop envelopeSealedOffset blob
             in if \<not> aesKeySizeOk (mt_KeyBytes material) then None
                else map_option (\<lambda>pt. (embeddedKeyID, pt))
                       (cr_Open cr (mt_KeyBytes material) nonce sealed (marshalContext context)))"

text \<open>The 8-4-4-4-12 lower-case hexadecimal shape. The code ranges over runes; a multi-byte rune is
  neither a dash nor a hexadecimal digit, so it is rejected where its first byte is.\<close>

definition looksLikeUUID :: "string \<Rightarrow> bool" where
  "looksLikeUUID s \<longleftrightarrow> length s = 36 \<and>
     list_all (\<lambda>i. if i \<in> {8, 13, 18, 23} then s ! i = CHR ''-'' else is_hexdig (s ! i)) [0..<36]"

section \<open>What is assumed of AES-GCM\<close>

text \<open>Opening what was sealed under the same key, nonce and additional data gives the plaintext,
  and the output is at least as long as the 16-byte tag.\<close>

definition aead_correct :: "crypto \<Rightarrow> bool" where
  "aead_correct cr \<longleftrightarrow>
     (\<forall>k n p a. cr_Open cr k n (cr_Seal cr k n p a) a = Some p \<and> 16 \<le> length (cr_Seal cr k n p a))"

text \<open>Authenticity: a sealed message opens only under the key and additional data it was sealed
  with.\<close>

definition aead_authentic :: "crypto \<Rightarrow> bool" where
  "aead_authentic cr \<longleftrightarrow>
     (\<forall>k n p a k' a' q. cr_Open cr k' n (cr_Seal cr k n p a) a' = Some q \<longrightarrow> k' = k \<and> a' = a)"

section \<open>Envelope lemmas\<close>

lemma length_copy_at [simp]: "off + length src \<le> length dst \<Longrightarrow> length (copy_at off src dst) = length dst"
  by (simp add: copy_at_def)

text \<open>The byte layout of an envelope.\<close>

lemma sealEnvelope_layout:
  assumes "length keyID = 36" and "length nonce = 12" and "aesKeySizeOk (mt_KeyBytes mat)"
  shows "sealEnvelope cr keyID mat pt ctx nonce =
    Some (envelopeVersion # bytes_of_string keyID @ algoSymmetricDefault # nonce
          @ cr_Seal cr (mt_KeyBytes mat) nonce pt (marshalContext ctx))"
proof -
  let ?c = "cr_Seal cr (mt_KeyBytes mat) nonce pt (marshalContext ctx)"
  let ?k = "bytes_of_string keyID"
  have l: "length ?k = 36" using assms(1) by simp
  have 1: "(replicate (50 + length ?c) 0)[0 := envelopeVersion] = envelopeVersion # replicate (49 + length ?c) 0"
    by (simp add: replicate_app_Cons_same numeral_eq_Suc)
  have 2: "copy_at 1 ?k (envelopeVersion # replicate (49 + length ?c) 0)
         = envelopeVersion # ?k @ replicate (13 + length ?c) 0"
    using l by (simp add: copy_at_def)
  have 3: "(envelopeVersion # ?k @ replicate (13 + length ?c) 0)[37 := algoSymmetricDefault]
         = envelopeVersion # ?k @ algoSymmetricDefault # replicate (12 + length ?c) 0"
    using l by (simp add: numeral_eq_Suc list_update_append)
  have 4: "copy_at 38 nonce (envelopeVersion # ?k @ algoSymmetricDefault # replicate (12 + length ?c) 0)
         = envelopeVersion # ?k @ algoSymmetricDefault # nonce @ replicate (length ?c) 0"
    using l assms(2) by (simp add: copy_at_def)
  have 5: "copy_at 50 ?c (envelopeVersion # ?k @ algoSymmetricDefault # nonce @ replicate (length ?c) 0)
         = envelopeVersion # ?k @ algoSymmetricDefault # nonce @ ?c"
    using l assms(2) by (simp add: copy_at_def)
  show ?thesis
    using assms(3) 1 2 3 4 5 by (simp add: sealEnvelope_def Let_def envelope_offsets)
qed

lemma openEnvelope_layout:
  assumes "length k = 36" and "length nonce = 12" and "sealed \<noteq> []" and "aesKeySizeOk (mt_KeyBytes mat)"
  shows "openEnvelope cr (envelopeVersion # k @ algoSymmetricDefault # nonce @ sealed) mat ctx =
    map_option (\<lambda>pt. (string_of_bytes k, pt)) (cr_Open cr (mt_KeyBytes mat) nonce sealed (marshalContext ctx))"
proof -
  define b where "b = envelopeVersion # k @ algoSymmetricDefault # nonce @ sealed"
  have "\<not> length b < 51" using assms(1-3) by (cases sealed) (simp_all add: b_def)
  moreover have "b ! 0 = envelopeVersion" by (simp add: b_def)
  moreover have "take 36 (drop 1 b) = k" using assms(1) by (simp add: b_def)
  moreover have "b ! 37 = algoSymmetricDefault" using assms(1) by (simp add: b_def nth_append)
  moreover have "take 12 (drop 38 b) = nonce" "drop 50 b = sealed" using assms(1,2) by (simp_all add: b_def)
  ultimately have "openEnvelope cr b mat ctx =
      map_option (\<lambda>pt. (string_of_bytes k, pt)) (cr_Open cr (mt_KeyBytes mat) nonce sealed (marshalContext ctx))"
    using assms(4) by (simp add: openEnvelope_def envelopeKeyID_def envelope_offsets Let_def)
  then show ?thesis by (simp only: b_def)
qed

lemma envelopeKeyID_layout:
  "length k = 36 \<Longrightarrow> envelopeKeyID (envelopeVersion # k @ rest) = string_of_bytes k"
  by (simp add: envelopeKeyID_def envelope_offsets)

text \<open>Opening an envelope with any material: the plaintext comes back or the open fails.\<close>

lemma openEnvelope_sealed:
  assumes seal: "sealEnvelope cr keyID mat pt ctx nonce = Some blob"
    and len: "length keyID = 36" "length nonce = 12" and aead: "aead_correct cr" "aead_authentic cr"
  shows "openEnvelope cr blob mat ctx = Some (keyID, pt)"
    and "openEnvelope cr blob mat' ctx' = Some (k, q) \<Longrightarrow> mt_KeyBytes mat' = mt_KeyBytes mat \<and> k = keyID \<and> q = pt
           \<and> marshalContext ctx' = marshalContext ctx"
proof -
  let ?c = "cr_Seal cr (mt_KeyBytes mat) nonce pt (marshalContext ctx)"
  have ok: "aesKeySizeOk (mt_KeyBytes mat)" using seal by (simp add: sealEnvelope_def split: if_splits)
  then have blob: "blob = envelopeVersion # bytes_of_string keyID @ algoSymmetricDefault # nonce @ ?c"
    using seal sealEnvelope_layout[OF len] by simp
  have op: "\<And>k n p a. cr_Open cr k n (cr_Seal cr k n p a) a = Some p" and "16 \<le> length ?c"
    using aead(1) unfolding aead_correct_def by simp_all
  then have c: "?c \<noteq> []" by auto
  have l: "length (bytes_of_string keyID) = 36" using len(1) by simp
  show "openEnvelope cr blob mat ctx = Some (keyID, pt)"
    using openEnvelope_layout[OF l len(2) c ok] blob op by simp
  assume o: "openEnvelope cr blob mat' ctx' = Some (k, q)"
  then have ok': "aesKeySizeOk (mt_KeyBytes mat')"
    by (simp add: openEnvelope_def Let_def split: if_splits)
  have q: "cr_Open cr (mt_KeyBytes mat') nonce ?c (marshalContext ctx') = Some q" and k: "k = keyID"
    using o openEnvelope_layout[OF l len(2) c ok'] blob by auto
  from q have "mt_KeyBytes mat' = mt_KeyBytes mat \<and> marshalContext ctx' = marshalContext ctx"
    using aead(2) unfolding aead_authentic_def by blast
  with q k op show "mt_KeyBytes mat' = mt_KeyBytes mat \<and> k = keyID \<and> q = pt
      \<and> marshalContext ctx' = marshalContext ctx" by auto
qed

section \<open>The canonical form of the context\<close>

lemma sort_key_fst_eq:
  assumes "smap_wf c1" and "smap_wf c2" and "map_of c1 = map_of c2"
  shows "sort_key fst c1 = sort_key fst c2"
proof -
  have "set c1 = set c2" using map_of_inject_set[OF assms(1,2)] assms(3) by simp
  then have "mset c1 = mset (sort_key fst c2)"
    using assms(1,2) by (simp add: set_eq_iff_mset_eq_distinct distinct_map)
  moreover have "inj_on fst (set c1)" using assms(1) by (simp add: distinct_map)
  ultimately show ?thesis by (intro sort_key_inj_key_eq) simp_all
qed

lemma bytes_of_string_inj: "bytes_of_string s = bytes_of_string t \<longleftrightarrow> s = t"
  by (metis string_of_bytes_of_string)

lemma json_pairs_not_Nil: "json_pairs ps \<noteq> []"
  by (cases ps) (simp_all add: json_pairs_def)

lemma marshalContext_eq_iff:
  assumes "smap_wf c1" and "smap_wf c2"
    and "\<forall>p\<in>set c1. valid_pair p" and "\<forall>p\<in>set c2. valid_pair p"
  shows "marshalContext c1 = marshalContext c2 \<longleftrightarrow> map_of c1 = map_of c2"
proof
  assume "map_of c1 = map_of c2"
  moreover from this have "c1 = [] \<longleftrightarrow> c2 = []" by (metis map_of_eq_empty_iff)
  ultimately show "marshalContext c1 = marshalContext c2"
    using sort_key_fst_eq[OF assms(1,2)] by (simp add: marshalContext_def)
next
  assume e: "marshalContext c1 = marshalContext c2"
  have nil: "c1 = [] \<longleftrightarrow> c2 = []"
    using e json_pairs_not_Nil by (auto simp: marshalContext_def bytes_of_string_def split: if_splits)
  show "map_of c1 = map_of c2"
  proof (cases "c1 = []")
    case False
    then have "json_pairs (sort_key fst c1) = json_pairs (sort_key fst c2)"
      using e nil by (simp add: marshalContext_def bytes_of_string_inj)
    then have "sort_key fst c1 = sort_key fst c2"
      by (rule json_pairs_inj[rotated 2]) (use assms(3,4) in simp_all)
    then show ?thesis using map_of_sort_key_fst[OF assms(1)] map_of_sort_key_fst[OF assms(2)] by simp
  qed (use nil in simp)
qed

end
