(* ===== verification/Kms_Handlers.thy ===== *)
theory Kms_Handlers
  imports Kms_Grants Kms_Envelope
begin

text \<open>
  The KMS request handlers for keys, policies, key state, rotation and tags
  (\<open>internal/kms/handler.go\<close>, \<open>handler_lifecycle.go\<close>). A handler takes the decoded request
  (\<open>None\<close> when \<open>json.Unmarshal\<close> rejects the body) and the storage state and gives the response and the
  new state. An error response keeps its HTTP status and its \<open>__type\<close>; the human-readable message
  is not modelled. A success response keeps every field of the JSON object.
\<close>

datatype kms_body =
    BEmpty
  | BKeyMetadata KeyMetadata
  | BKeys "(string \<times> string) list" bool string
  | BTags "TagEntry list" bool string
  | BPolicy string
  | BDeletion string string "int option" int
  | BKeyId string
  | BRotationStatus string bool "(int \<times> int) option"
  | BRotations "RotationRecord list" bool string
  | BAliases "AliasEntry list" bool string
  | BCiphertext bytes string
  | BPlaintext bytes string string
  | BDataKey bytes "bytes option" string string
  | BReEncrypt bytes string string string string
  | BRandom bytes
  | BKeyPair string string bytes "bytes option" bytes string
  | BGrant string string
  | BGrants "grantListEntry list" bool string
  | BMac string bytes string
  | BMacValid string string
  | BSignature string bytes string
  | BSignatureValid string string
  | BPublicKey KeyMetadata bytes

datatype response = RErr nat string | ROk kms_body

definition badRequest :: "string \<Rightarrow> response" where "badRequest t = RErr 400 t"

definition internalError :: response where "internalError = RErr 500 ''KMSInternalException''"

definition validationException :: response where "validationException = badRequest ''ValidationException''"

text \<open>Whether a response reports success.\<close>

definition is_ok :: "response \<Rightarrow> bool" where
  "is_ok r \<longleftrightarrow> (case r of ROk _ \<Rightarrow> True | RErr _ _ \<Rightarrow> False)"

definition validateLimit :: "int option \<Rightarrow> int \<Rightarrow> bool" where
  "validateLimit limit mx \<longleftrightarrow> (case limit of None \<Rightarrow> True | Some l \<Rightarrow> \<not> (l < 1 \<or> mx < l))"

definition limitOr :: "nat \<Rightarrow> int option \<Rightarrow> nat" where
  "limitOr dflt limit = (case limit of None \<Rightarrow> dflt | Some l \<Rightarrow> nat l)"

section \<open>Key references\<close>

definition resolveKeyRef :: "kms \<Rightarrow> string \<Rightarrow> response + string" where
  "resolveKeyRef s keyRef =
     (if 2048 < length keyRef then Inl validationException
      else case resolveKeyID keyRef of
             Some k \<Rightarrow> Inr k
           | None \<Rightarrow>
               if isAliasRef keyRef then
                 (case normalizeAliasRef keyRef of
                    None \<Rightarrow> Inl (badRequest ''InvalidArnException'')
                  | Some aliasName \<Rightarrow>
                      (case ResolveAlias s aliasName of
                         Inl ErrAliasNotFound \<Rightarrow> Inl (badRequest ''NotFoundException'')
                       | Inl _ \<Rightarrow> Inl internalError
                       | Inr k \<Rightarrow> Inr k))
               else Inl (badRequest ''InvalidArnException''))"

text \<open>The translation of a failed \<open>GetKeyMetadata\<close>, the same in every handler.\<close>

definition metaError :: "kms_error \<Rightarrow> response" where
  "metaError e = (if e = ErrKeyNotFound then badRequest ''NotFoundException'' else internalError)"

definition resolveKeyMeta :: "kms \<Rightarrow> string \<Rightarrow> response + KeyMetadata" where
  "resolveKeyMeta s keyID =
     (case GetKeyMetadata s keyID of
        Inl e \<Rightarrow> Inl (metaError e)
      | Inr meta \<Rightarrow>
          if km_KeyState meta = keyStatePendingDeletion then Inl (badRequest ''KMSInvalidStateException'')
          else Inr meta)"

section \<open>Error translation\<close>

definition writeTagError :: "kms_error \<Rightarrow> response" where
  "writeTagError e =
     (if e = ErrKeyNotFound then badRequest ''NotFoundException''
      else if e = ErrInvalidKeyState then badRequest ''KMSInvalidStateException''
      else if e = ErrTagLimitExceeded then badRequest ''LimitExceededException''
      else internalError)"

definition writeLifecycleError :: "kms_error \<Rightarrow> response" where
  "writeLifecycleError e =
     (if e = ErrKeyNotFound then badRequest ''NotFoundException''
      else if e = ErrInvalidKeyState then badRequest ''KMSInvalidStateException''
      else internalError)"

definition writeRotationError :: "kms_error \<Rightarrow> response" where
  "writeRotationError e =
     (if e = ErrKeyNotFound then badRequest ''NotFoundException''
      else if e = ErrKeyDisabled then badRequest ''DisabledException''
      else if e = ErrInvalidKeyState then badRequest ''KMSInvalidStateException''
      else if e = ErrUnsupportedOp then badRequest ''UnsupportedOperationException''
      else internalError)"

definition writeListKeyRotationsError :: "kms_error \<Rightarrow> response" where
  "writeListKeyRotationsError e =
     (if e = ErrKeyNotFound then badRequest ''NotFoundException''
      else if e = ErrInvalidKeyState then badRequest ''KMSInvalidStateException''
      else if e = ErrUnsupportedOp then badRequest ''UnsupportedOperationException''
      else if e = ErrInvalidMarker then badRequest ''InvalidMarkerException''
      else internalError)"

definition writeOnDemandRotationError :: "kms_error \<Rightarrow> response" where
  "writeOnDemandRotationError e =
     (if e = ErrKeyNotFound then badRequest ''NotFoundException''
      else if e = ErrKeyDisabled then badRequest ''DisabledException''
      else if e = ErrInvalidKeyState then badRequest ''KMSInvalidStateException''
      else if e = ErrUnsupportedOp then badRequest ''UnsupportedOperationException''
      else if e = ErrOnDemandRotationLimit then badRequest ''LimitExceededException''
      else internalError)"

section \<open>CreateKey, DescribeKey, ListKeys\<close>

definition maxTagKeyLen :: nat where "maxTagKeyLen = 128"
definition maxTagValueLen :: nat where "maxTagValueLen = 256"

text \<open>The validation loop over tag keys; the first offending tag decides.\<close>

definition tagKeyBad :: "string \<Rightarrow> bool" where
  "tagKeyBad k \<longleftrightarrow> has_prefix ''aws:'' k \<or> length k < 1 \<or> maxTagKeyLen < length k"

definition tagBad :: "TagEntry \<Rightarrow> bool" where
  "tagBad t \<longleftrightarrow> tagKeyBad (te_TagKey t) \<or> maxTagValueLen < length (te_TagValue t)"

record CreateKeyRequest =
  rq_Description :: string
  rq_KeySpec :: string
  rq_CustomerMasterKeySpec :: string
  rq_KeyUsage :: string
  rq_MultiRegion :: bool
  rq_Origin :: string
  rq_Policy :: string
  rq_Tags :: "TagEntry list"

definition effectiveKeySpec :: "CreateKeyRequest \<Rightarrow> string" where
  "effectiveKeySpec req =
     (let spec = (if rq_KeySpec req = '''' \<and> rq_CustomerMasterKeySpec req \<noteq> ''''
                  then rq_CustomerMasterKeySpec req else rq_KeySpec req)
      in if spec = '''' then ''SYMMETRIC_DEFAULT'' else spec)"

definition handleCreateKey :: "crypto \<Rightarrow> CreateKeyRequest option \<Rightarrow> kms \<Rightarrow> response \<times> kms" where
  "handleCreateKey cr body s =
     (case body of
        None \<Rightarrow> (validationException, s)
      | Some req \<Rightarrow>
          if 8192 < length (rq_Description req) then (validationException, s)
          else
            let spec = effectiveKeySpec req
            in if spec \<notin> set validKeySpecs then (validationException, s)
               else if spec = ''ECC_SECG_P256K1'' then (badRequest ''UnsupportedOperationException'', s)
               else
                 let usage = (if rq_KeyUsage req = ''''
                              then (case map_of defaultKeyUsage spec of None \<Rightarrow> '''' | Some u \<Rightarrow> u)
                              else rq_KeyUsage req);
                     origin = (if rq_Origin req = '''' then ''AWS_KMS'' else rq_Origin req)
                 in if \<not> isValidKeyUsageForSpec spec usage then (validationException, s)
                    else if origin \<noteq> ''AWS_KMS'' then (badRequest ''UnsupportedOperationException'', s)
                    else if maxTagsPerKey < length (rq_Tags req) then (badRequest ''LimitExceededException'', s)
                    else if list_ex tagBad (rq_Tags req) then (badRequest ''TagException'', s)
                    else
                      case CreateKey cr
                             \<lparr>ci_Description = rq_Description req, ci_KeySpec = spec, ci_KeyUsage = usage,
                              ci_MultiRegion = rq_MultiRegion req, ci_Origin = origin,
                              ci_Policy = rq_Policy req, ci_keyManager = ''''\<rparr> s of
                        (Inl _, s) \<Rightarrow> (internalError, s)
                      | (Inr meta, s) \<Rightarrow>
                          if 0 < length (rq_Tags req) then
                            (case TagResource (km_KeyID meta) (rq_Tags req) s of
                               (Inl e, s) \<Rightarrow> (writeTagError e, s)
                             | (Inr _, s) \<Rightarrow> (ROk (BKeyMetadata meta), s))
                          else (ROk (BKeyMetadata meta), s))"

text \<open>The handlers that take only a key reference start alike: decode, require it, resolve it.\<close>

definition withKeyRef ::
  "string option \<Rightarrow> kms \<Rightarrow> (string \<Rightarrow> response \<times> kms) \<Rightarrow> response \<times> kms" where
  "withKeyRef body s k =
     (case body of
        None \<Rightarrow> (validationException, s)
      | Some ref \<Rightarrow>
          if ref = '''' then (validationException, s)
          else case resolveKeyRef s ref of Inl r \<Rightarrow> (r, s) | Inr keyID \<Rightarrow> k keyID)"

definition handleDescribeKey :: "string option \<Rightarrow> kms \<Rightarrow> response \<times> kms" where
  "handleDescribeKey body s =
     withKeyRef body s (\<lambda>keyID.
       case GetKeyMetadata s keyID of
         Inl e \<Rightarrow> (metaError e, s)
       | Inr meta \<Rightarrow> (ROk (BKeyMetadata meta), s))"

record ListRequest =
  lq_KeyId :: string
  lq_Limit :: "int option"
  lq_Marker :: string

text \<open>The page of \<open>handleListKeys\<close>: the entries, whether more follow, and the next marker;
  \<open>None\<close> rejects the marker.\<close>

definition listKeys_page :: "string list \<Rightarrow> nat \<Rightarrow> string \<Rightarrow> (string list \<times> bool \<times> string) option" where
  "listKeys_page ids limit marker =
     (if marker \<noteq> '''' \<and> \<not> looksLikeUUID marker then None
      else
        let ids = (if marker \<noteq> '''' then drop (resume_index (\<lambda>x. x) ids marker) ids else ids);
            truncated = (limit < length ids);
            ids = (if truncated then take limit ids else ids)
        in Some (ids, truncated, if truncated \<and> 0 < length ids then last ids else ''''))"

definition handleListKeys :: "ListRequest option \<Rightarrow> kms \<Rightarrow> response \<times> kms" where
  "handleListKeys body s =
     (case body of
        None \<Rightarrow> (validationException, s)
      | Some req \<Rightarrow>
          if \<not> validateLimit (lq_Limit req) 1000 then (validationException, s)
          else case ListKeyIDs s of
                 Inl _ \<Rightarrow> (internalError, s)
               | Inr ids \<Rightarrow>
                   (case listKeys_page ids (limitOr 100 (lq_Limit req)) (lq_Marker req) of
                      None \<Rightarrow> (badRequest ''InvalidMarkerException'', s)
                    | Some (pg, truncated, next) \<Rightarrow>
                        (ROk (BKeys (map (\<lambda>i. (i, keyARN i)) pg) truncated next), s)))"

section \<open>Tags\<close>

definition listTags_page :: "TagEntry list \<Rightarrow> nat \<Rightarrow> string \<Rightarrow> (TagEntry list \<times> bool \<times> string) option" where
  "listTags_page tags limit marker =
     (let start = (if marker = '''' then Some 0
                   else map_option Suc (find_index (\<lambda>t. te_TagKey t = marker) tags))
      in case start of
           None \<Rightarrow> None
         | Some n \<Rightarrow>
             let tags = drop n tags;
                 truncated = (limit < length tags);
                 tags = (if truncated then take limit tags else tags)
             in Some (tags, truncated, if truncated \<and> 0 < length tags then te_TagKey (last tags) else ''''))"

definition handleListResourceTags :: "ListRequest option \<Rightarrow> kms \<Rightarrow> response \<times> kms" where
  "handleListResourceTags body s =
     (case body of
        None \<Rightarrow> (validationException, s)
      | Some req \<Rightarrow>
          if lq_KeyId req = '''' then (validationException, s)
          else if \<not> validateLimit (lq_Limit req) 50 then (validationException, s)
          else case resolveKeyRef s (lq_KeyId req) of
                 Inl r \<Rightarrow> (r, s)
               | Inr keyID \<Rightarrow>
                   (case GetTags s keyID of
                      Inl e \<Rightarrow> (metaError e, s)
                    | Inr tags \<Rightarrow>
                        (case listTags_page tags (limitOr 50 (lq_Limit req)) (lq_Marker req) of
                           None \<Rightarrow> (badRequest ''InvalidMarkerException'', s)
                         | Some (pg, truncated, next) \<Rightarrow> (ROk (BTags pg truncated next), s))))"

definition handleTagResource :: "(string \<times> TagEntry list) option \<Rightarrow> kms \<Rightarrow> response \<times> kms" where
  "handleTagResource body s =
     (case body of
        None \<Rightarrow> (validationException, s)
      | Some (ref, tags) \<Rightarrow>
          if ref = '''' then (validationException, s)
          else if tags = [] then (validationException, s)
          else if list_ex tagBad tags then (badRequest ''TagException'', s)
          else case resolveKeyRef s ref of
                 Inl r \<Rightarrow> (r, s)
               | Inr keyID \<Rightarrow>
                   (case TagResource keyID tags s of
                      (Inl e, s) \<Rightarrow> (writeTagError e, s)
                    | (Inr _, s) \<Rightarrow> (ROk BEmpty, s)))"

definition handleUntagResource :: "(string \<times> string list) option \<Rightarrow> kms \<Rightarrow> response \<times> kms" where
  "handleUntagResource body s =
     (case body of
        None \<Rightarrow> (validationException, s)
      | Some (ref, ks) \<Rightarrow>
          if ref = '''' then (validationException, s)
          else if ks = [] then (validationException, s)
          else if list_ex tagKeyBad ks then (badRequest ''TagException'', s)
          else case resolveKeyRef s ref of
                 Inl r \<Rightarrow> (r, s)
               | Inr keyID \<Rightarrow>
                   (case UntagResource keyID ks s of
                      (Inl e, s) \<Rightarrow> (writeTagError e, s)
                    | (Inr _, s) \<Rightarrow> (ROk BEmpty, s)))"

section \<open>Policies\<close>

record PolicyRequest =
  pq_KeyId :: string
  pq_Policy :: string
  pq_PolicyName :: string

definition handleGetKeyPolicy :: "PolicyRequest option \<Rightarrow> kms \<Rightarrow> response \<times> kms" where
  "handleGetKeyPolicy body s =
     (case body of
        None \<Rightarrow> (validationException, s)
      | Some req \<Rightarrow>
          if pq_KeyId req = '''' then (validationException, s)
          else if pq_PolicyName req \<noteq> '''' \<and> pq_PolicyName req \<noteq> ''default'' then (validationException, s)
          else case resolveKeyRef s (pq_KeyId req) of
                 Inl r \<Rightarrow> (r, s)
               | Inr keyID \<Rightarrow>
                   (case resolveKeyMeta s keyID of
                      Inl r \<Rightarrow> (r, s)
                    | Inr _ \<Rightarrow>
                        (case GetKeyPolicy s keyID of
                           Inl e \<Rightarrow> (metaError e, s)
                         | Inr policy \<Rightarrow> (ROk (BPolicy policy), s))))"

definition handlePutKeyPolicy :: "PolicyRequest option \<Rightarrow> kms \<Rightarrow> response \<times> kms" where
  "handlePutKeyPolicy body s =
     (case body of
        None \<Rightarrow> (validationException, s)
      | Some req \<Rightarrow>
          if pq_KeyId req = '''' then (validationException, s)
          else if pq_Policy req = '''' then (validationException, s)
          else if pq_PolicyName req \<noteq> '''' \<and> pq_PolicyName req \<noteq> ''default'' then (validationException, s)
          else if 32768 < length (pq_Policy req) then (badRequest ''LimitExceededException'', s)
          else case resolveKeyRef s (pq_KeyId req) of
                 Inl r \<Rightarrow> (r, s)
               | Inr keyID \<Rightarrow>
                   (case resolveKeyMeta s keyID of
                      Inl r \<Rightarrow> (r, s)
                    | Inr _ \<Rightarrow>
                        (case PutKeyPolicy keyID (pq_Policy req) s of
                           (Inl e, s) \<Rightarrow> (metaError e, s)
                         | (Inr _, s) \<Rightarrow> (ROk BEmpty, s))))"

section \<open>Key state\<close>

definition defaultPendingWindowDays :: int where "defaultPendingWindowDays = 30"
definition minPendingWindowDays :: int where "minPendingWindowDays = 7"
definition maxPendingWindowDays :: int where "maxPendingWindowDays = 30"
definition defaultRotationPeriodDays :: int where "defaultRotationPeriodDays = 365"
definition minRotationPeriodDays :: int where "minRotationPeriodDays = 90"
definition maxRotationPeriodDays :: int where "maxRotationPeriodDays = 2560"

definition handleEnableKey :: "string option \<Rightarrow> kms \<Rightarrow> response \<times> kms" where
  "handleEnableKey body s =
     withKeyRef body s (\<lambda>keyID.
       case EnableKey keyID s of (Inl e, s) \<Rightarrow> (writeLifecycleError e, s) | (Inr _, s) \<Rightarrow> (ROk BEmpty, s))"

definition handleDisableKey :: "string option \<Rightarrow> kms \<Rightarrow> response \<times> kms" where
  "handleDisableKey body s =
     withKeyRef body s (\<lambda>keyID.
       case DisableKey keyID s of (Inl e, s) \<Rightarrow> (writeLifecycleError e, s) | (Inr _, s) \<Rightarrow> (ROk BEmpty, s))"

definition handleScheduleKeyDeletion :: "(string \<times> int option) option \<Rightarrow> kms \<Rightarrow> response \<times> kms" where
  "handleScheduleKeyDeletion body s =
     (case body of
        None \<Rightarrow> (validationException, s)
      | Some (ref, window) \<Rightarrow>
          if ref = '''' then (validationException, s)
          else
            let pendingDays = (case window of None \<Rightarrow> defaultPendingWindowDays | Some d \<Rightarrow> d)
            in if window \<noteq> None \<and> (pendingDays < minPendingWindowDays \<or> maxPendingWindowDays < pendingDays)
               then (validationException, s)
               else case resolveKeyRef s ref of
                      Inl r \<Rightarrow> (r, s)
                    | Inr keyID \<Rightarrow>
                        (case ScheduleKeyDeletion keyID pendingDays s of
                           (Inl e, s) \<Rightarrow> (writeLifecycleError e, s)
                         | (Inr meta, s) \<Rightarrow>
                             (ROk (BDeletion (km_Arn meta) (km_KeyState meta) (km_DeletionDate meta) pendingDays), s)))"

definition handleCancelKeyDeletion :: "string option \<Rightarrow> kms \<Rightarrow> response \<times> kms" where
  "handleCancelKeyDeletion body s =
     withKeyRef body s (\<lambda>keyID.
       case CancelKeyDeletion keyID s of
         (Inl e, s) \<Rightarrow> (writeLifecycleError e, s)
       | (Inr meta, s) \<Rightarrow> (ROk (BKeyId (km_Arn meta)), s))"

section \<open>Rotation\<close>

definition handleEnableKeyRotation :: "(string \<times> int option) option \<Rightarrow> kms \<Rightarrow> response \<times> kms" where
  "handleEnableKeyRotation body s =
     (case body of
        None \<Rightarrow> (validationException, s)
      | Some (ref, period) \<Rightarrow>
          if ref = '''' then (validationException, s)
          else
            let rotationDays = (case period of None \<Rightarrow> defaultRotationPeriodDays | Some d \<Rightarrow> d)
            in if period \<noteq> None \<and> (rotationDays < minRotationPeriodDays \<or> maxRotationPeriodDays < rotationDays)
               then (validationException, s)
               else case resolveKeyRef s ref of
                      Inl r \<Rightarrow> (r, s)
                    | Inr keyID \<Rightarrow>
                        (case EnableKeyRotation keyID rotationDays s of
                           (Inl e, s) \<Rightarrow> (writeRotationError e, s)
                         | (Inr _, s) \<Rightarrow> (ROk BEmpty, s)))"

definition handleDisableKeyRotation :: "string option \<Rightarrow> kms \<Rightarrow> response \<times> kms" where
  "handleDisableKeyRotation body s =
     withKeyRef body s (\<lambda>keyID.
       case DisableKeyRotation keyID s of (Inl e, s) \<Rightarrow> (writeRotationError e, s) | (Inr _, s) \<Rightarrow> (ROk BEmpty, s))"

definition handleGetKeyRotationStatus :: "string option \<Rightarrow> kms \<Rightarrow> response \<times> kms" where
  "handleGetKeyRotationStatus body s =
     withKeyRef body s (\<lambda>keyID.
       case GetKeyRotationStatus s keyID of
         Inl e \<Rightarrow> (writeRotationError e, s)
       | Inr (meta, cfg) \<Rightarrow>
           (ROk (BRotationStatus (km_Arn meta) (rc_Enabled cfg)
                   (if rc_Enabled cfg then Some (rc_RotationPeriodInDays cfg, rc_NextRotationDate cfg) else None)), s))"

definition handleRotateKeyOnDemand :: "string option \<Rightarrow> kms \<Rightarrow> response \<times> kms" where
  "handleRotateKeyOnDemand body s =
     withKeyRef body s (\<lambda>keyID.
       case RotateKeyOnDemand keyID s of
         (Inl e, s) \<Rightarrow> (writeOnDemandRotationError e, s)
       | (Inr meta, s) \<Rightarrow> (ROk (BKeyId (km_Arn meta)), s))"

definition handleListKeyRotations :: "ListRequest option \<Rightarrow> kms \<Rightarrow> response \<times> kms" where
  "handleListKeyRotations body s =
     (case body of
        None \<Rightarrow> (validationException, s)
      | Some req \<Rightarrow>
          if lq_KeyId req = '''' then (validationException, s)
          else if \<not> validateLimit (lq_Limit req) 1000 then (validationException, s)
          else case resolveKeyRef s (lq_KeyId req) of
                 Inl r \<Rightarrow> (r, s)
               | Inr keyID \<Rightarrow>
                   (case ListKeyRotations s keyID (limitOr 100 (lq_Limit req)) (lq_Marker req) of
                      Inl e \<Rightarrow> (writeListKeyRotationsError e, s)
                    | Inr (records, next) \<Rightarrow> (ROk (BRotations records (next \<noteq> '''') next), s)))"

end
