(* ===== verification/Kms_Handlers_Refs.thy ===== *)
theory Kms_Handlers_Refs
  imports Kms_Handlers
begin

text \<open>
  The request handlers for aliases (\<open>internal/kms/handler_alias.go\<close>) and grants
  (\<open>handler_grant.go\<close>), in the conventions of \<open>Kms_Handlers\<close>.
\<close>

section \<open>Aliases\<close>

text \<open>The regular expression \<open>^alias/[a-zA-Z0-9/_-]+$\<close>\<close>

definition reAliasName :: "string \<Rightarrow> bool" where
  "reAliasName a \<longleftrightarrow> has_prefix ''alias/'' a \<and> drop 6 a \<noteq> []
     \<and> list_all (\<lambda>c. is_alnum c \<or> c \<in> set ''/_-'') (drop 6 a)"

definition validateAliasName :: "string \<Rightarrow> bool" where
  "validateAliasName a \<longleftrightarrow> a \<noteq> '''' \<and> length a \<le> 256 \<and> reAliasName a"

definition createAliasError :: "kms_error \<Rightarrow> response" where
  "createAliasError e =
     (if e = ErrKeyPendingDeletion then badRequest ''KMSInvalidStateException''
      else if e = ErrAliasAlreadyExists then badRequest ''AlreadyExistsException''
      else if e = ErrAliasLimitExceeded then badRequest ''LimitExceededException''
      else if e = ErrKeyNotFound then badRequest ''NotFoundException''
      else internalError)"

definition handleCreateAlias :: "(string \<times> string) option \<Rightarrow> kms \<Rightarrow> response \<times> kms" where
  "handleCreateAlias body s =
     (case body of
        None \<Rightarrow> (validationException, s)
      | Some (aliasName, target) \<Rightarrow>
          if \<not> validateAliasName aliasName then (badRequest ''InvalidAliasNameException'', s)
          else if has_prefix ''alias/aws/'' aliasName then (badRequest ''InvalidAliasNameException'', s)
          else if target = '''' then (validationException, s)
          else case resolveKeyID target of
                 None \<Rightarrow> (badRequest ''InvalidArnException'', s)
               | Some targetKeyID \<Rightarrow>
                   (case CreateAlias aliasName targetKeyID s of
                      (Inl e, s) \<Rightarrow> (createAliasError e, s)
                    | (Inr _, s) \<Rightarrow> (ROk BEmpty, s)))"

definition aliasLookupError :: "kms_error \<Rightarrow> response" where
  "aliasLookupError e = (if e = ErrAliasNotFound then badRequest ''NotFoundException'' else internalError)"

definition handleDeleteAlias :: "string option \<Rightarrow> kms \<Rightarrow> response \<times> kms" where
  "handleDeleteAlias body s =
     (case body of
        None \<Rightarrow> (validationException, s)
      | Some aliasName \<Rightarrow>
          if \<not> validateAliasName aliasName then (badRequest ''InvalidAliasNameException'', s)
          else case DeleteAlias aliasName s of
                 (Inl e, s) \<Rightarrow> (aliasLookupError e, s)
               | (Inr _, s) \<Rightarrow> (ROk BEmpty, s))"

definition updateAliasError :: "kms_error \<Rightarrow> response" where
  "updateAliasError e =
     (if e = ErrAliasNotFound then badRequest ''NotFoundException''
      else if e = ErrKeyNotFound then badRequest ''NotFoundException''
      else if e = ErrKeyPendingDeletion then badRequest ''KMSInvalidStateException''
      else internalError)"

definition handleUpdateAlias :: "(string \<times> string) option \<Rightarrow> kms \<Rightarrow> response \<times> kms" where
  "handleUpdateAlias body s =
     (case body of
        None \<Rightarrow> (validationException, s)
      | Some (aliasName, target) \<Rightarrow>
          if \<not> validateAliasName aliasName then (badRequest ''InvalidAliasNameException'', s)
          else if has_prefix ''alias/aws/'' aliasName then (badRequest ''InvalidAliasNameException'', s)
          else if target = '''' then (validationException, s)
          else case resolveKeyID target of
                 None \<Rightarrow> (badRequest ''InvalidArnException'', s)
               | Some newID \<Rightarrow>
                   (case ResolveAlias s aliasName of
                      Inl e \<Rightarrow> (aliasLookupError e, s)
                    | Inr oldID \<Rightarrow>
                        (case GetKeyMetadata s oldID of
                           Inl e \<Rightarrow> (metaError e, s)
                         | Inr oldMeta \<Rightarrow>
                             (case GetKeyMetadata s newID of
                                Inl e \<Rightarrow> (metaError e, s)
                              | Inr newMeta \<Rightarrow>
                                  if km_KeySpec oldMeta \<noteq> km_KeySpec newMeta \<or> km_KeyUsage oldMeta \<noteq> km_KeyUsage newMeta
                                  then (badRequest ''KMSInvalidStateException'', s)
                                  else case UpdateAlias aliasName newID s of
                                         (Inl e, s) \<Rightarrow> (updateAliasError e, s)
                                       | (Inr _, s) \<Rightarrow> (ROk BEmpty, s)))))"

definition listAliases_page ::
  "AliasEntry list \<Rightarrow> nat \<Rightarrow> string \<Rightarrow> (AliasEntry list \<times> bool \<times> string) option" where
  "listAliases_page aliases limit marker =
     (if marker \<noteq> '''' \<and> \<not> has_prefix ''alias/'' marker then None
      else
        let aliases =
              (if marker \<noteq> '''' then
                 (let start = resume_index ae_AliasName aliases marker
                  in if start < length aliases then drop start aliases else [])
               else aliases);
            truncated = (limit < length aliases);
            aliases = (if truncated then take limit aliases else aliases)
        in Some (aliases, truncated,
                 if truncated \<and> 0 < length aliases then ae_AliasName (last aliases) else ''''))"

text \<open>The key filter of \<open>handleListAliases\<close>: the empty string for no filter.\<close>

definition aliasFilter :: "kms \<Rightarrow> string \<Rightarrow> response + string" where
  "aliasFilter s ref =
     (if ref = '''' then Inr ''''
      else case resolveKeyID ref of
             None \<Rightarrow> Inl (badRequest ''InvalidArnException'')
           | Some k \<Rightarrow> (case GetKeyMetadata s k of Inl e \<Rightarrow> Inl (metaError e) | Inr _ \<Rightarrow> Inr k))"

definition handleListAliases :: "ListRequest option \<Rightarrow> kms \<Rightarrow> response \<times> kms" where
  "handleListAliases body s =
     (case body of
        None \<Rightarrow> (validationException, s)
      | Some req \<Rightarrow>
          if \<not> validateLimit (lq_Limit req) 100 then (validationException, s)
          else case aliasFilter s (lq_KeyId req) of
                 Inl r \<Rightarrow> (r, s)
               | Inr filterKeyID \<Rightarrow>
                   (case ListAliases s filterKeyID of
                      Inl _ \<Rightarrow> (internalError, s)
                    | Inr aliases \<Rightarrow>
                        (case listAliases_page aliases (limitOr 50 (lq_Limit req)) (lq_Marker req) of
                           None \<Rightarrow> (badRequest ''InvalidMarkerException'', s)
                         | Some (pg, truncated, next) \<Rightarrow> (ROk (BAliases pg truncated next), s))))"

section \<open>Grants\<close>

definition reGrantName :: "string \<Rightarrow> bool" where
  "reGrantName n \<longleftrightarrow> n \<noteq> [] \<and> list_all (\<lambda>c. is_alnum c \<or> c \<in> set '':/_-'') n"

definition maxGrantNameLen :: nat where "maxGrantNameLen = 256"

record CreateGrantRequest =
  gq_KeyId :: string
  gq_GranteePrincipal :: string
  gq_Operations :: "string list"
  gq_RetiringPrincipal :: string
  gq_Constraints :: "GrantConstraints option"
  gq_Name :: string

definition writeGrantCreateError :: "kms_error \<Rightarrow> response" where
  "writeGrantCreateError e =
     (if e = ErrKeyNotFound then badRequest ''NotFoundException''
      else if e = ErrKeyDisabled then badRequest ''DisabledException''
      else if e = ErrInvalidKeyState then badRequest ''KMSInvalidStateException''
      else if e = ErrGrantLimitExceeded then badRequest ''LimitExceededException''
      else internalError)"

definition writeGrantListError :: "kms_error \<Rightarrow> response" where
  "writeGrantListError e =
     (if e = ErrKeyNotFound then badRequest ''NotFoundException''
      else if e = ErrInvalidKeyState then badRequest ''KMSInvalidStateException''
      else internalError)"

definition writeGrantMutateError :: "kms_error \<Rightarrow> response" where
  "writeGrantMutateError e =
     (if e = ErrKeyNotFound then badRequest ''NotFoundException''
      else if e = ErrGrantNotFound then badRequest ''NotFoundException''
      else if e = ErrInvalidKeyState then badRequest ''KMSInvalidStateException''
      else internalError)"

definition handleCreateGrant :: "CreateGrantRequest option \<Rightarrow> kms \<Rightarrow> response \<times> kms" where
  "handleCreateGrant body s =
     (case body of
        None \<Rightarrow> (validationException, s)
      | Some req \<Rightarrow>
          if gq_KeyId req = '''' then (validationException, s)
          else if gq_GranteePrincipal req = '''' then (validationException, s)
          else if gq_Operations req = [] then (validationException, s)
          else if list_ex (\<lambda>op. op \<notin> set validGrantOperations) (gq_Operations req) then (validationException, s)
          else if gq_Name req \<noteq> '''' \<and> (maxGrantNameLen < length (gq_Name req) \<or> \<not> reGrantName (gq_Name req))
            then (validationException, s)
          else case resolveKeyRef s (gq_KeyId req) of
                 Inl r \<Rightarrow> (r, s)
               | Inr keyID \<Rightarrow>
                   (case CreateGrant keyID
                           \<lparr>gi_GranteePrincipal = gq_GranteePrincipal req, gi_Operations = gq_Operations req,
                            gi_RetiringPrincipal = gq_RetiringPrincipal req,
                            gi_Constraints = gq_Constraints req, gi_Name = gq_Name req\<rparr> s of
                      (Inl e, s) \<Rightarrow> (writeGrantCreateError e, s)
                    | (Inr g, s) \<Rightarrow> (ROk (BGrant (gr_GrantId g) (gr_GrantToken g)), s)))"

record ListGrantsRequest =
  lg_KeyId :: string
  lg_GrantId :: string
  lg_GranteePrincipal :: string
  lg_Limit :: "int option"
  lg_Marker :: string

definition handleListGrants :: "ListGrantsRequest option \<Rightarrow> kms \<Rightarrow> response \<times> kms" where
  "handleListGrants body s =
     (case body of
        None \<Rightarrow> (validationException, s)
      | Some req \<Rightarrow>
          if lg_KeyId req = '''' then (validationException, s)
          else if \<not> validateLimit (lg_Limit req) 100 then (validationException, s)
          else case resolveKeyRef s (lg_KeyId req) of
                 Inl r \<Rightarrow> (r, s)
               | Inr keyID \<Rightarrow>
                   (case ListGrants s keyID (lg_GrantId req) (lg_GranteePrincipal req)
                           (limitOr 50 (lg_Limit req)) (lg_Marker req) of
                      Inl e \<Rightarrow> (writeGrantListError e, s)
                    | Inr (grants, next) \<Rightarrow>
                        (ROk (BGrants (map toGrantListEntry grants) (next \<noteq> '''') next), s)))"

definition handleRevokeGrant :: "(string \<times> string) option \<Rightarrow> kms \<Rightarrow> response \<times> kms" where
  "handleRevokeGrant body s =
     (case body of
        None \<Rightarrow> (validationException, s)
      | Some (ref, grantID) \<Rightarrow>
          if ref = '''' then (validationException, s)
          else if grantID = '''' then (validationException, s)
          else case resolveKeyRef s ref of
                 Inl r \<Rightarrow> (r, s)
               | Inr keyID \<Rightarrow>
                   (case RevokeGrant keyID grantID s of
                      (Inl e, s) \<Rightarrow> (writeGrantMutateError e, s)
                    | (Inr _, s) \<Rightarrow> (ROk BEmpty, s)))"

text \<open>The request is the triple of grant token, key reference and grant ID.\<close>

definition handleRetireGrant :: "(string \<times> string \<times> string) option \<Rightarrow> kms \<Rightarrow> response \<times> kms" where
  "handleRetireGrant body s =
     (case body of
        None \<Rightarrow> (validationException, s)
      | Some (token, ref, grantID) \<Rightarrow>
          if token = '''' \<and> (ref = '''' \<or> grantID = '''') then (validationException, s)
          else if grantID \<noteq> '''' \<and> ref = '''' then (validationException, s)
          else if token \<noteq> '''' then
            (case RetireGrantByToken token s of
               (Inl e, s) \<Rightarrow> (if e = ErrGrantNotFound then badRequest ''NotFoundException'' else internalError, s)
             | (Inr _, s) \<Rightarrow> (ROk BEmpty, s))
          else case resolveKeyRef s ref of
                 Inl r \<Rightarrow> (r, s)
               | Inr keyID \<Rightarrow>
                   (case RetireGrantByID keyID grantID s of
                      (Inl e, s) \<Rightarrow> (writeGrantMutateError e, s)
                    | (Inr _, s) \<Rightarrow> (ROk BEmpty, s)))"

text \<open>The request is the triple of retiring principal, limit and marker.\<close>

definition handleListRetirableGrants :: "(string \<times> int option \<times> string) option \<Rightarrow> kms \<Rightarrow> response \<times> kms" where
  "handleListRetirableGrants body s =
     (case body of
        None \<Rightarrow> (validationException, s)
      | Some (rp, limit, marker) \<Rightarrow>
          if rp = '''' then (validationException, s)
          else if \<not> validateLimit limit 100 then (validationException, s)
          else case ListRetirableGrants s rp (limitOr 50 limit) marker of
                 Inl _ \<Rightarrow> (internalError, s)
               | Inr (grants, next) \<Rightarrow>
                   (ROk (BGrants (map toGrantListEntry grants) (next \<noteq> '''') next), s))"

end
