(* ===== verification/Kms_Dataplane.thy ===== *)
theory Kms_Dataplane
  imports Kms_Handlers
begin

text \<open>
  The data plane of KMS: encryption, decryption and data keys
  (\<open>internal/kms/handler_dataplane.go\<close>), message authentication codes (\<open>handler_mac.go\<close>),
  signatures (\<open>handler_sign.go\<close>) and public keys (\<open>handler_asymmetric.go\<close>). The handlers read the
  storage; only the random source advances.
\<close>

section \<open>Common steps\<close>

text \<open>\<open>readFullRand\<close>: a short read is an error.\<close>

definition readFullRand :: "nat \<Rightarrow> kms \<Rightarrow> bytes option \<times> kms" where
  "readFullRand n s =
     (case randRead n s of
        (None, s) \<Rightarrow> (None, s)
      | (Some (k, bs), s) \<Rightarrow> (if k \<noteq> n then None else Some bs, s))"

text \<open>The guard that the three key-usage checks share: existing, not pending deletion, enabled, with
  the required usage.\<close>

definition usableKey :: "kms \<Rightarrow> string \<Rightarrow> string \<Rightarrow> response + (KeyMetadata \<times> string)" where
  "usableKey s keyIDParam usage =
     (if keyIDParam = '''' then Inl validationException
      else case resolveKeyRef s keyIDParam of
             Inl r \<Rightarrow> Inl r
           | Inr keyID \<Rightarrow>
               (case GetKeyMetadata s keyID of
                  Inl e \<Rightarrow> Inl (metaError e)
                | Inr meta \<Rightarrow>
                    if km_KeyState meta = keyStatePendingDeletion
                    then Inl (badRequest ''KMSInvalidStateException'')
                    else if \<not> km_Enabled meta \<or> km_KeyState meta \<noteq> keyStateEnabled
                    then Inl (badRequest ''DisabledException'')
                    else if km_KeyUsage meta \<noteq> usage then Inl (badRequest ''InvalidKeyUsageException'')
                    else Inr (meta, keyID)))"

definition resolveAndValidateKey :: "kms \<Rightarrow> string \<Rightarrow> response + (KeyMetadata \<times> string)" where
  "resolveAndValidateKey s keyIDParam = usableKey s keyIDParam ''ENCRYPT_DECRYPT''"

definition loadSymmetricMaterial :: "kms \<Rightarrow> KeyMetadata \<Rightarrow> string \<Rightarrow> response + KeyMaterial" where
  "loadSymmetricMaterial s meta keyID =
     (if km_KeySpec meta \<noteq> ''SYMMETRIC_DEFAULT'' then Inl (badRequest ''InvalidKeyUsageException'')
      else case GetKeyMaterial s keyID of
             Inl e \<Rightarrow> Inl (if e = ErrKeyMaterialNotFound then badRequest ''KMSInvalidStateException'' else internalError)
           | Inr mat \<Rightarrow> Inr mat)"

text \<open>The two steps together, as every caller makes them.\<close>

definition symmetricKey :: "kms \<Rightarrow> string \<Rightarrow> response + (KeyMetadata \<times> string \<times> KeyMaterial)" where
  "symmetricKey s ref =
     (case resolveAndValidateKey s ref of
        Inl r \<Rightarrow> Inl r
      | Inr (meta, keyID) \<Rightarrow>
          (case loadSymmetricMaterial s meta keyID of Inl r \<Rightarrow> Inl r | Inr mat \<Rightarrow> Inr (meta, keyID, mat)))"

fun tryMaterials :: "crypto \<Rightarrow> bytes \<Rightarrow> smap \<Rightarrow> KeyMaterial list \<Rightarrow> (KeyMaterial \<times> bytes) option" where
  "tryMaterials cr ct ctx [] = None"
| "tryMaterials cr ct ctx (m # ms) =
     (case openEnvelope cr ct m ctx of Some (_, pt) \<Rightarrow> Some (m, pt) | None \<Rightarrow> tryMaterials cr ct ctx ms)"

text \<open>\<open>None\<close> is the error of the first attempt.\<close>

definition tryDecryptWithFallback ::
  "crypto \<Rightarrow> kms \<Rightarrow> bytes \<Rightarrow> KeyMaterial \<Rightarrow> smap \<Rightarrow> string \<Rightarrow> (KeyMaterial \<times> bytes) option" where
  "tryDecryptWithFallback cr s ct mat ctx keyID =
     (case openEnvelope cr ct mat ctx of
        Some (_, pt) \<Rightarrow> Some (mat, pt)
      | None \<Rightarrow>
          (case GetPreviousKeyMaterials s keyID of
             Inl _ \<Rightarrow> None
           | Inr prevs \<Rightarrow> tryMaterials cr ct ctx prevs))"

section \<open>Encrypt and Decrypt\<close>

record EncryptRequest =
  eq_KeyID :: string
  eq_Plaintext :: bytes
  eq_EncryptionAlgorithm :: string
  eq_EncryptionContext :: smap

definition symmetricAlgorithm :: "string \<Rightarrow> bool" where
  "symmetricAlgorithm a \<longleftrightarrow> \<not> (a \<noteq> '''' \<and> a \<noteq> ''SYMMETRIC_DEFAULT'')"

text \<open>Nonce, seal, respond: the end of \<open>handleEncrypt\<close> and of \<open>handleReEncrypt\<close>.\<close>

definition sealWithNonce ::
  "crypto \<Rightarrow> string \<Rightarrow> KeyMaterial \<Rightarrow> bytes \<Rightarrow> smap \<Rightarrow> kms \<Rightarrow> bytes option \<times> kms" where
  "sealWithNonce cr keyID mat pt ctx s =
     (case readFullRand envelopeNonceLen s of
        (None, s) \<Rightarrow> (None, s)
      | (Some nonce, s) \<Rightarrow> (sealEnvelope cr keyID mat pt ctx nonce, s))"

definition handleEncrypt :: "crypto \<Rightarrow> EncryptRequest option \<Rightarrow> kms \<Rightarrow> response \<times> kms" where
  "handleEncrypt cr body s =
     (case body of
        None \<Rightarrow> (validationException, s)
      | Some req \<Rightarrow>
          if eq_Plaintext req = [] then (validationException, s)
          else if 4096 < length (eq_Plaintext req) then (validationException, s)
          else if \<not> symmetricAlgorithm (eq_EncryptionAlgorithm req) then (badRequest ''InvalidKeyUsageException'', s)
          else if \<not> validateEncryptionContext (eq_EncryptionContext req) then (validationException, s)
          else case symmetricKey s (eq_KeyID req) of
                 Inl r \<Rightarrow> (r, s)
               | Inr (meta, keyID, mat) \<Rightarrow>
                   (case sealWithNonce cr keyID mat (eq_Plaintext req) (eq_EncryptionContext req) s of
                      (None, s) \<Rightarrow> (internalError, s)
                    | (Some ct, s) \<Rightarrow> (ROk (BCiphertext ct (km_Arn meta)), s)))"

record DecryptRequest =
  dq_CiphertextBlob :: bytes
  dq_KeyID :: string
  dq_EncryptionAlgorithm :: string
  dq_EncryptionContext :: smap

text \<open>The checks on the envelope and on the caller's key reference that \<open>Decrypt\<close> and \<open>ReEncrypt\<close>
  make before they touch key material; the result is the embedded key ID.\<close>

definition envelopeGuard :: "kms \<Rightarrow> bytes \<Rightarrow> string \<Rightarrow> response + string" where
  "envelopeGuard s blob ref =
     (if length blob < envelopeSealedOffset + 1 then Inl (badRequest ''InvalidCiphertextException'')
      else if blob ! 0 \<noteq> envelopeVersion then Inl (badRequest ''InvalidCiphertextException'')
      else
        let embedded = envelopeKeyID blob
        in if \<not> looksLikeUUID embedded then Inl (badRequest ''InvalidCiphertextException'')
           else if ref \<noteq> '''' then
             (case resolveKeyRef s ref of
                Inl r \<Rightarrow> Inl r
              | Inr resolved \<Rightarrow> if resolved \<noteq> embedded then Inl (badRequest ''IncorrectKeyException'') else Inr embedded)
           else Inr embedded)"

definition handleDecrypt :: "crypto \<Rightarrow> DecryptRequest option \<Rightarrow> kms \<Rightarrow> response \<times> kms" where
  "handleDecrypt cr body s =
     (case body of
        None \<Rightarrow> (validationException, s)
      | Some req \<Rightarrow>
          if dq_CiphertextBlob req = [] then (validationException, s)
          else if \<not> symmetricAlgorithm (dq_EncryptionAlgorithm req) then (badRequest ''InvalidKeyUsageException'', s)
          else if \<not> validateEncryptionContext (dq_EncryptionContext req) then (validationException, s)
          else case envelopeGuard s (dq_CiphertextBlob req) (dq_KeyID req) of
                 Inl r \<Rightarrow> (r, s)
               | Inr embedded \<Rightarrow>
                   (case symmetricKey s embedded of
                      Inl r \<Rightarrow> (r, s)
                    | Inr (meta, keyID, mat) \<Rightarrow>
                        (case tryDecryptWithFallback cr s (dq_CiphertextBlob req) mat (dq_EncryptionContext req) keyID of
                           None \<Rightarrow> (badRequest ''InvalidCiphertextException'', s)
                         | Some (m, pt) \<Rightarrow> (ROk (BPlaintext pt (km_Arn meta) (mt_KeyMaterialID m)), s))))"

section \<open>ReEncrypt\<close>

record ReEncryptRequest =
  re_CiphertextBlob :: bytes
  re_DestinationKeyId :: string
  re_SourceKeyId :: string
  re_SourceEncryptionAlgorithm :: string
  re_SourceEncryptionContext :: smap
  re_DestinationEncryptionAlgorithm :: string
  re_DestinationEncryptionContext :: smap

definition handleReEncrypt :: "crypto \<Rightarrow> ReEncryptRequest option \<Rightarrow> kms \<Rightarrow> response \<times> kms" where
  "handleReEncrypt cr body s =
     (case body of
        None \<Rightarrow> (validationException, s)
      | Some req \<Rightarrow>
          if re_CiphertextBlob req = [] then (validationException, s)
          else if re_DestinationKeyId req = '''' then (validationException, s)
          else if \<not> symmetricAlgorithm (re_SourceEncryptionAlgorithm req) then (badRequest ''InvalidKeyUsageException'', s)
          else if \<not> symmetricAlgorithm (re_DestinationEncryptionAlgorithm req) then (badRequest ''InvalidKeyUsageException'', s)
          else if \<not> validateEncryptionContext (re_SourceEncryptionContext req) then (validationException, s)
          else if \<not> validateEncryptionContext (re_DestinationEncryptionContext req) then (validationException, s)
          else case envelopeGuard s (re_CiphertextBlob req) (re_SourceKeyId req) of
                 Inl r \<Rightarrow> (r, s)
               | Inr embedded \<Rightarrow>
                   (case symmetricKey s embedded of
                      Inl r \<Rightarrow> (r, s)
                    | Inr (srcMeta, srcKeyID, srcMat) \<Rightarrow>
                        (case tryDecryptWithFallback cr s (re_CiphertextBlob req) srcMat
                                (re_SourceEncryptionContext req) srcKeyID of
                           None \<Rightarrow> (badRequest ''InvalidCiphertextException'', s)
                         | Some (usedMat, pt) \<Rightarrow>
                             (case symmetricKey s (re_DestinationKeyId req) of
                                Inl r \<Rightarrow> (r, s)
                              | Inr (dstMeta, dstKeyID, dstMat) \<Rightarrow>
                                  (case sealWithNonce cr dstKeyID dstMat pt (re_DestinationEncryptionContext req) s of
                                     (None, s) \<Rightarrow> (internalError, s)
                                   | (Some ct, s) \<Rightarrow>
                                       (ROk (BReEncrypt ct (km_Arn dstMeta) (km_Arn srcMeta)
                                               (mt_KeyMaterialID usedMat) (mt_KeyMaterialID dstMat)), s))))))"

section \<open>Random bytes and data keys\<close>

definition handleGenerateRandom :: "(int option \<times> string) option \<Rightarrow> kms \<Rightarrow> response \<times> kms" where
  "handleGenerateRandom body s =
     (case body of
        None \<Rightarrow> (validationException, s)
      | Some (numberOfBytes, customKeyStoreId) \<Rightarrow>
          if customKeyStoreId \<noteq> '''' then (badRequest ''UnsupportedOperationException'', s)
          else case numberOfBytes of
                 None \<Rightarrow> (validationException, s)
               | Some n \<Rightarrow>
                   if n < 1 \<or> 1024 < n then (validationException, s)
                   else case readFullRand (nat n) s of
                          (None, s) \<Rightarrow> (internalError, s)
                        | (Some buf, s) \<Rightarrow> (ROk (BRandom buf), s))"

record DataKeyRequest =
  kq_KeyID :: string
  kq_KeySpec :: string
  kq_NumberOfBytes :: "int option"
  kq_EncryptionContext :: smap

text \<open>The size of the data key from \<open>KeySpec\<close> or \<open>NumberOfBytes\<close>, exactly one of which is given.\<close>

definition dataKeySize :: "DataKeyRequest \<Rightarrow> nat option" where
  "dataKeySize req =
     (if kq_KeySpec req \<noteq> '''' \<and> kq_NumberOfBytes req \<noteq> None then None
      else if kq_KeySpec req = '''' \<and> kq_NumberOfBytes req = None then None
      else if kq_KeySpec req = ''AES_256'' then Some 32
      else if kq_KeySpec req = ''AES_128'' then Some 16
      else if kq_KeySpec req = '''' then
        (case kq_NumberOfBytes req of
           None \<Rightarrow> None
         | Some n \<Rightarrow> if n < 1 \<or> 1024 < n then None else Some (nat n))
      else None)"

definition generateDataKeyCommon ::
  "crypto \<Rightarrow> DataKeyRequest option \<Rightarrow> kms \<Rightarrow> (response + bytes \<times> bytes \<times> string \<times> string) \<times> kms" where
  "generateDataKeyCommon cr body s =
     (case body of
        None \<Rightarrow> (Inl validationException, s)
      | Some req \<Rightarrow>
          (case dataKeySize req of
             None \<Rightarrow> (Inl validationException, s)
           | Some n \<Rightarrow>
               if \<not> validateEncryptionContext (kq_EncryptionContext req) then (Inl validationException, s)
               else case symmetricKey s (kq_KeyID req) of
                      Inl r \<Rightarrow> (Inl r, s)
                    | Inr (meta, keyID, mat) \<Rightarrow>
                        (case readFullRand (n + envelopeNonceLen) s of
                           (None, s) \<Rightarrow> (Inl internalError, s)
                         | (Some combined, s) \<Rightarrow>
                             (case sealEnvelope cr keyID mat (take n combined) (kq_EncryptionContext req) (drop n combined) of
                                None \<Rightarrow> (Inl internalError, s)
                              | Some blob \<Rightarrow> (Inr (take n combined, blob, km_Arn meta, mt_KeyMaterialID mat), s)))))"

definition handleGenerateDataKey :: "crypto \<Rightarrow> DataKeyRequest option \<Rightarrow> kms \<Rightarrow> response \<times> kms" where
  "handleGenerateDataKey cr body s =
     (case generateDataKeyCommon cr body s of
        (Inl r, s) \<Rightarrow> (r, s)
      | (Inr (key, blob, arn, mid), s) \<Rightarrow> (ROk (BDataKey blob (Some key) arn mid), s))"

definition handleGenerateDataKeyWithoutPlaintext :: "crypto \<Rightarrow> DataKeyRequest option \<Rightarrow> kms \<Rightarrow> response \<times> kms" where
  "handleGenerateDataKeyWithoutPlaintext cr body s =
     (case generateDataKeyCommon cr body s of
        (Inl r, s) \<Rightarrow> (r, s)
      | (Inr (_, blob, arn, mid), s) \<Rightarrow> (ROk (BDataKey blob None arn mid), s))"

definition validKeyPairSpecs :: "string list" where
  "validKeyPairSpecs =
     [''RSA_2048'', ''RSA_3072'', ''RSA_4096'', ''ECC_NIST_P256'', ''ECC_NIST_P384'', ''ECC_NIST_P521'',
      ''ECC_SECG_P256K1'', ''SM2'', ''ECC_NIST_EDWARDS25519'']"

definition extractPublicKeyDER :: "crypto \<Rightarrow> bytes \<Rightarrow> bytes option" where
  "extractPublicKeyDER cr der =
     (case cr_ParsePKCS8 cr der of
        None \<Rightarrow> None
      | Some OtherKey \<Rightarrow> None
      | Some k \<Rightarrow> cr_MarshalPKIX cr k)"

record KeyPairRequest =
  pr_KeyID :: string
  pr_KeyPairSpec :: string
  pr_EncryptionContext :: smap

definition generateDataKeyPairCommon ::
  "crypto \<Rightarrow> KeyPairRequest option \<Rightarrow> kms \<Rightarrow>
     (response + bytes \<times> bytes \<times> bytes \<times> string \<times> string \<times> string) \<times> kms" where
  "generateDataKeyPairCommon cr body s =
     (case body of
        None \<Rightarrow> (Inl validationException, s)
      | Some req \<Rightarrow>
          if pr_KeyID req = '''' then (Inl validationException, s)
          else if pr_KeyPairSpec req = '''' then (Inl validationException, s)
          else if pr_KeyPairSpec req \<notin> set validKeyPairSpecs then (Inl validationException, s)
          else if \<not> validateEncryptionContext (pr_EncryptionContext req) then (Inl validationException, s)
          else case symmetricKey s (pr_KeyID req) of
                 Inl r \<Rightarrow> (Inl r, s)
               | Inr (meta, keyID, mat) \<Rightarrow>
                   (case generateKeyPair cr (pr_KeyPairSpec req) of
                      Inl _ \<Rightarrow> (Inl internalError, s)
                    | Inr None \<Rightarrow> (Inl (badRequest ''UnsupportedOperationException''), s)
                    | Inr (Some priv) \<Rightarrow>
                        (case extractPublicKeyDER cr priv of
                           None \<Rightarrow> (Inl internalError, s)
                         | Some pub \<Rightarrow>
                             (case sealWithNonce cr keyID mat priv (pr_EncryptionContext req) s of
                                (None, s) \<Rightarrow> (Inl internalError, s)
                              | (Some blob, s) \<Rightarrow>
                                  (Inr (priv, pub, blob, pr_KeyPairSpec req, km_Arn meta, mt_KeyMaterialID mat), s)))))"

definition handleGenerateDataKeyPair :: "crypto \<Rightarrow> KeyPairRequest option \<Rightarrow> kms \<Rightarrow> response \<times> kms" where
  "handleGenerateDataKeyPair cr body s =
     (case generateDataKeyPairCommon cr body s of
        (Inl r, s) \<Rightarrow> (r, s)
      | (Inr (priv, pub, blob, spec, arn, mid), s) \<Rightarrow> (ROk (BKeyPair arn spec pub (Some priv) blob mid), s))"

definition handleGenerateDataKeyPairWithoutPlaintext ::
  "crypto \<Rightarrow> KeyPairRequest option \<Rightarrow> kms \<Rightarrow> response \<times> kms" where
  "handleGenerateDataKeyPairWithoutPlaintext cr body s =
     (case generateDataKeyPairCommon cr body s of
        (Inl r, s) \<Rightarrow> (r, s)
      | (Inr (_, pub, blob, spec, arn, mid), s) \<Rightarrow> (ROk (BKeyPair arn spec pub None blob mid), s))"

section \<open>Message authentication codes\<close>

definition hmacHashForAlgorithm :: "string \<Rightarrow> string option" where
  "hmacHashForAlgorithm algo =
     (if algo = ''HMAC_SHA_224'' then Some ''sha224'' else if algo = ''HMAC_SHA_256'' then Some ''sha256''
      else if algo = ''HMAC_SHA_384'' then Some ''sha384'' else if algo = ''HMAC_SHA_512'' then Some ''sha512''
      else None)"

definition resolveAndValidateMACKey :: "kms \<Rightarrow> string \<Rightarrow> string \<Rightarrow> response + (KeyMetadata \<times> KeyMaterial)" where
  "resolveAndValidateMACKey s ref algo =
     (case usableKey s ref ''GENERATE_VERIFY_MAC'' of
        Inl r \<Rightarrow> Inl r
      | Inr (meta, keyID) \<Rightarrow>
          if \<not> list_ex (\<lambda>a. a = algo) (km_MacAlgorithms meta) then Inl (badRequest ''InvalidKeyUsageException'')
          else case GetKeyMaterial s keyID of
                 Inl e \<Rightarrow> Inl (if e = ErrKeyMaterialNotFound then badRequest ''KMSInvalidStateException'' else internalError)
               | Inr mat \<Rightarrow> Inr (meta, mat))"

record MacRequest =
  mq_KeyID :: string
  mq_MacAlgorithm :: string
  mq_Message :: bytes
  mq_Mac :: bytes

definition handleGenerateMac :: "crypto \<Rightarrow> MacRequest option \<Rightarrow> kms \<Rightarrow> response \<times> kms" where
  "handleGenerateMac cr body s =
     (case body of
        None \<Rightarrow> (validationException, s)
      | Some req \<Rightarrow>
          if mq_Message req = [] \<or> 4096 < length (mq_Message req) then (validationException, s)
          else if mq_MacAlgorithm req = '''' then (validationException, s)
          else case hmacHashForAlgorithm (mq_MacAlgorithm req) of
                 None \<Rightarrow> (validationException, s)
               | Some h \<Rightarrow>
                   (case resolveAndValidateMACKey s (mq_KeyID req) (mq_MacAlgorithm req) of
                      Inl r \<Rightarrow> (r, s)
                    | Inr (meta, mat) \<Rightarrow>
                        (ROk (BMac (km_Arn meta) (cr_Hmac cr h (mt_KeyBytes mat) (mq_Message req)) (mq_MacAlgorithm req)), s)))"

definition handleVerifyMac :: "crypto \<Rightarrow> MacRequest option \<Rightarrow> kms \<Rightarrow> response \<times> kms" where
  "handleVerifyMac cr body s =
     (case body of
        None \<Rightarrow> (validationException, s)
      | Some req \<Rightarrow>
          if mq_Message req = [] \<or> 4096 < length (mq_Message req) then (validationException, s)
          else if mq_MacAlgorithm req = '''' then (validationException, s)
          else if mq_Mac req = [] \<or> 6144 < length (mq_Mac req) then (validationException, s)
          else case hmacHashForAlgorithm (mq_MacAlgorithm req) of
                 None \<Rightarrow> (validationException, s)
               | Some h \<Rightarrow>
                   (case resolveAndValidateMACKey s (mq_KeyID req) (mq_MacAlgorithm req) of
                      Inl r \<Rightarrow> (r, s)
                    | Inr (meta, mat) \<Rightarrow>
                        if cr_Hmac cr h (mt_KeyBytes mat) (mq_Message req) \<noteq> mq_Mac req
                        then (badRequest ''KMSInvalidMacException'', s)
                        else (ROk (BMacValid (km_Arn meta) (mq_MacAlgorithm req)), s)))"

section \<open>Signatures\<close>

definition hashForSigningAlgorithm :: "string \<Rightarrow> crypto_hash option" where
  "hashForSigningAlgorithm algo =
     (if algo \<in> {''RSASSA_PKCS1_V1_5_SHA_256'', ''RSASSA_PSS_SHA_256'', ''ECDSA_SHA_256''} then Some SHA256
      else if algo \<in> {''RSASSA_PKCS1_V1_5_SHA_384'', ''RSASSA_PSS_SHA_384'', ''ECDSA_SHA_384''} then Some SHA384
      else if algo \<in> {''RSASSA_PKCS1_V1_5_SHA_512'', ''RSASSA_PSS_SHA_512'', ''ECDSA_SHA_512''} then Some SHA512
      else if algo = ''ED25519_SHA_512'' then Some NoHash
      else None)"

fun hashSize :: "crypto_hash \<Rightarrow> nat" where
  "hashSize NoHash = 0" | "hashSize SHA256 = 32" | "hashSize SHA384 = 48" | "hashSize SHA512 = 64"

definition digestMessage :: "crypto \<Rightarrow> crypto_hash \<Rightarrow> bytes \<Rightarrow> bytes" where
  "digestMessage cr h msg = (if h = NoHash then msg else cr_Sum cr h msg)"

definition isPSSAlgorithm :: "string \<Rightarrow> bool" where
  "isPSSAlgorithm algo \<longleftrightarrow> algo \<in> {''RSASSA_PSS_SHA_256'', ''RSASSA_PSS_SHA_384'', ''RSASSA_PSS_SHA_512''}"

definition isUnsupportedSigningAlgorithm :: "string \<Rightarrow> bool" where
  "isUnsupportedSigningAlgorithm algo \<longleftrightarrow> algo \<in> {''SM2DSA'', ''ML_DSA_44'', ''ML_DSA_65'', ''ML_DSA_87''}"

definition signData :: "crypto \<Rightarrow> bytes \<Rightarrow> string \<Rightarrow> crypto_hash \<Rightarrow> bytes \<Rightarrow> bytes option" where
  "signData cr der algo h data =
     (case cr_ParsePKCS8 cr der of
        None \<Rightarrow> None
      | Some (RSAKey k) \<Rightarrow> if isPSSAlgorithm algo then cr_SignPSS cr k h data else cr_SignPKCS1v15 cr k h data
      | Some (ECDSAKey k) \<Rightarrow> cr_SignASN1 cr k data
      | Some (Ed25519Key k) \<Rightarrow> Some (cr_SignEd25519 cr k data)
      | Some OtherKey \<Rightarrow> None)"

text \<open>\<open>None\<close> is success; the error is \<open>ErrInvalidSignature\<close> or another one.\<close>

definition verifyData :: "crypto \<Rightarrow> bytes \<Rightarrow> string \<Rightarrow> crypto_hash \<Rightarrow> bytes \<Rightarrow> bytes \<Rightarrow> kms_error option" where
  "verifyData cr der algo h data sig =
     (let check = (\<lambda>ok. if ok then None else Some ErrInvalidSignature)
      in case cr_ParsePKCS8 cr der of
           None \<Rightarrow> Some (ErrIO EOther)
         | Some (RSAKey k) \<Rightarrow>
             check (if isPSSAlgorithm algo then cr_VerifyPSS cr k h data sig else cr_VerifyPKCS1v15 cr k h data sig)
         | Some (ECDSAKey k) \<Rightarrow> check (cr_VerifyASN1 cr k data sig)
         | Some (Ed25519Key k) \<Rightarrow> check (cr_VerifyEd25519 cr k data sig)
         | Some OtherKey \<Rightarrow> Some (ErrIO EOther))"

definition resolveAndValidateSignKey :: "kms \<Rightarrow> string \<Rightarrow> string \<Rightarrow> response + (KeyMetadata \<times> KeyMaterial)" where
  "resolveAndValidateSignKey s ref algo =
     (case usableKey s ref ''SIGN_VERIFY'' of
        Inl r \<Rightarrow> Inl r
      | Inr (meta, keyID) \<Rightarrow>
          if \<not> list_ex (\<lambda>a. a = algo) (km_SigningAlgorithms meta) then Inl (badRequest ''InvalidKeyUsageException'')
          else case GetKeyMaterial s keyID of
                 Inl e \<Rightarrow> Inl (if e = ErrKeyMaterialNotFound then badRequest ''UnsupportedOperationException'' else internalError)
               | Inr mat \<Rightarrow> Inr (meta, mat))"

record SignRequest =
  sq_KeyID :: string
  sq_Message :: bytes
  sq_Signature :: bytes
  sq_SigningAlgorithm :: string
  sq_MessageType :: string

text \<open>The validation that \<open>Sign\<close> and \<open>Verify\<close> share; the result is the message type and the hash.\<close>

definition signingGuard :: "SignRequest \<Rightarrow> response + (string \<times> crypto_hash)" where
  "signingGuard req =
     (let mt = (if sq_MessageType req = '''' then ''RAW'' else sq_MessageType req);
          algo = sq_SigningAlgorithm req
      in if algo = '''' then Inl validationException
         else if mt \<noteq> ''RAW'' \<and> mt \<noteq> ''DIGEST'' then Inl validationException
         else if algo = ''ED25519_SHA_512'' \<and> mt \<noteq> ''RAW'' then Inl validationException
         else if algo = ''ED25519_PH_SHA_512'' then Inl (badRequest ''UnsupportedOperationException'')
         else if isUnsupportedSigningAlgorithm algo then Inl (badRequest ''UnsupportedOperationException'')
         else case hashForSigningAlgorithm algo of
                None \<Rightarrow> Inl validationException
              | Some h \<Rightarrow>
                  if mt = ''DIGEST'' \<and> h \<noteq> NoHash \<and> length (sq_Message req) \<noteq> hashSize h
                  then Inl validationException
                  else Inr (mt, h))"

definition dataToSign :: "crypto \<Rightarrow> string \<Rightarrow> crypto_hash \<Rightarrow> bytes \<Rightarrow> bytes" where
  "dataToSign cr mt h msg = (if mt = ''DIGEST'' then msg else digestMessage cr h msg)"

definition handleSign :: "crypto \<Rightarrow> SignRequest option \<Rightarrow> kms \<Rightarrow> response \<times> kms" where
  "handleSign cr body s =
     (case body of
        None \<Rightarrow> (validationException, s)
      | Some req \<Rightarrow>
          if sq_Message req = [] \<or> 4096 < length (sq_Message req) then (validationException, s)
          else case signingGuard req of
                 Inl r \<Rightarrow> (r, s)
               | Inr (mt, h) \<Rightarrow>
                   (case resolveAndValidateSignKey s (sq_KeyID req) (sq_SigningAlgorithm req) of
                      Inl r \<Rightarrow> (r, s)
                    | Inr (meta, mat) \<Rightarrow>
                        (case signData cr (mt_PrivateKeyDER mat) (sq_SigningAlgorithm req) h
                                (dataToSign cr mt h (sq_Message req)) of
                           None \<Rightarrow> (internalError, s)
                         | Some sig \<Rightarrow> (ROk (BSignature (km_Arn meta) sig (sq_SigningAlgorithm req)), s))))"

definition handleVerify :: "crypto \<Rightarrow> SignRequest option \<Rightarrow> kms \<Rightarrow> response \<times> kms" where
  "handleVerify cr body s =
     (case body of
        None \<Rightarrow> (validationException, s)
      | Some req \<Rightarrow>
          if sq_Message req = [] \<or> 4096 < length (sq_Message req) then (validationException, s)
          else if sq_Signature req = [] then (validationException, s)
          else case signingGuard req of
                 Inl r \<Rightarrow> (r, s)
               | Inr (mt, h) \<Rightarrow>
                   (case resolveAndValidateSignKey s (sq_KeyID req) (sq_SigningAlgorithm req) of
                      Inl r \<Rightarrow> (r, s)
                    | Inr (meta, mat) \<Rightarrow>
                        (case verifyData cr (mt_PrivateKeyDER mat) (sq_SigningAlgorithm req) h
                                (dataToSign cr mt h (sq_Message req)) (sq_Signature req) of
                           Some e \<Rightarrow> (if e = ErrInvalidSignature then badRequest ''KMSInvalidSignatureException''
                                       else internalError, s)
                         | None \<Rightarrow> (ROk (BSignatureValid (km_Arn meta) (sq_SigningAlgorithm req)), s))))"

section \<open>Public keys\<close>

text \<open>The response carries the ARN, specs, usage and the algorithm lists of the metadata.\<close>

definition handleGetPublicKey :: "crypto \<Rightarrow> string option \<Rightarrow> kms \<Rightarrow> response \<times> kms" where
  "handleGetPublicKey cr body s =
     withKeyRef body s (\<lambda>keyID.
       case GetKeyMetadata s keyID of
         Inl e \<Rightarrow> (metaError e, s)
       | Inr meta \<Rightarrow>
           if km_KeyState meta = keyStatePendingDeletion then (badRequest ''KMSInvalidStateException'', s)
           else if km_KeySpec meta = keySpecSymmetricDefault \<or> isHMACSpec (km_KeySpec meta)
             then (badRequest ''InvalidKeyUsageException'', s)
           else case GetKeyMaterial s keyID of
                  Inl e \<Rightarrow> (if e = ErrKeyMaterialNotFound then badRequest ''UnsupportedOperationException''
                            else internalError, s)
                | Inr mat \<Rightarrow>
                    (case extractPublicKeyDER cr (mt_PrivateKeyDER mat) of
                       None \<Rightarrow> (internalError, s)
                     | Some pub \<Rightarrow> (ROk (BPublicKey meta pub), s)))"

end
