(* ===== verification/Kms_Router.thy ===== *)
theory Kms_Router
  imports Kms_Handlers_Refs Kms_Dataplane
begin

text \<open>
  The KMS router (\<open>internal/kms/router.go\<close>): one request per value of the \<open>X-Amz-Target\<close> header, with
  the body as its handler decodes it, and \<open>serveHTTP\<close>, which dispatches it. A body that cannot be
  read is \<open>RqUnreadable\<close>; any other target is \<open>RqOther\<close>.
\<close>

datatype kms_request =
    RqUnreadable
  | RqCreateKey "CreateKeyRequest option"
  | RqDescribeKey "string option"
  | RqListKeys "ListRequest option"
  | RqGetKeyPolicy "PolicyRequest option"
  | RqPutKeyPolicy "PolicyRequest option"
  | RqEncrypt "EncryptRequest option"
  | RqDecrypt "DecryptRequest option"
  | RqGenerateDataKey "DataKeyRequest option"
  | RqGenerateDataKeyWithoutPlaintext "DataKeyRequest option"
  | RqGenerateDataKeyPair "KeyPairRequest option"
  | RqGenerateDataKeyPairWithoutPlaintext "KeyPairRequest option"
  | RqGenerateRandom "(int option \<times> string) option"
  | RqReEncrypt "ReEncryptRequest option"
  | RqGenerateMac "MacRequest option"
  | RqVerifyMac "MacRequest option"
  | RqSign "SignRequest option"
  | RqVerify "SignRequest option"
  | RqCreateAlias "(string \<times> string) option"
  | RqDeleteAlias "string option"
  | RqUpdateAlias "(string \<times> string) option"
  | RqListAliases "ListRequest option"
  | RqEnableKey "string option"
  | RqDisableKey "string option"
  | RqScheduleKeyDeletion "(string \<times> int option) option"
  | RqCancelKeyDeletion "string option"
  | RqEnableKeyRotation "(string \<times> int option) option"
  | RqDisableKeyRotation "string option"
  | RqGetKeyRotationStatus "string option"
  | RqRotateKeyOnDemand "string option"
  | RqListKeyRotations "ListRequest option"
  | RqGetPublicKey "string option"
  | RqListResourceTags "ListRequest option"
  | RqTagResource "(string \<times> TagEntry list) option"
  | RqUntagResource "(string \<times> string list) option"
  | RqCreateGrant "CreateGrantRequest option"
  | RqListGrants "ListGrantsRequest option"
  | RqRevokeGrant "(string \<times> string) option"
  | RqRetireGrant "(string \<times> string \<times> string) option"
  | RqListRetirableGrants "(string \<times> int option \<times> string) option"
  | RqOther string

fun serveHTTP :: "crypto \<Rightarrow> kms_request \<Rightarrow> kms \<Rightarrow> response \<times> kms" where
  "serveHTTP cr RqUnreadable s = (validationException, s)"
| "serveHTTP cr (RqCreateKey b) s = handleCreateKey cr b s"
| "serveHTTP cr (RqDescribeKey b) s = handleDescribeKey b s"
| "serveHTTP cr (RqListKeys b) s = handleListKeys b s"
| "serveHTTP cr (RqGetKeyPolicy b) s = handleGetKeyPolicy b s"
| "serveHTTP cr (RqPutKeyPolicy b) s = handlePutKeyPolicy b s"
| "serveHTTP cr (RqEncrypt b) s = handleEncrypt cr b s"
| "serveHTTP cr (RqDecrypt b) s = handleDecrypt cr b s"
| "serveHTTP cr (RqGenerateDataKey b) s = handleGenerateDataKey cr b s"
| "serveHTTP cr (RqGenerateDataKeyWithoutPlaintext b) s = handleGenerateDataKeyWithoutPlaintext cr b s"
| "serveHTTP cr (RqGenerateDataKeyPair b) s = handleGenerateDataKeyPair cr b s"
| "serveHTTP cr (RqGenerateDataKeyPairWithoutPlaintext b) s = handleGenerateDataKeyPairWithoutPlaintext cr b s"
| "serveHTTP cr (RqGenerateRandom b) s = handleGenerateRandom b s"
| "serveHTTP cr (RqReEncrypt b) s = handleReEncrypt cr b s"
| "serveHTTP cr (RqGenerateMac b) s = handleGenerateMac cr b s"
| "serveHTTP cr (RqVerifyMac b) s = handleVerifyMac cr b s"
| "serveHTTP cr (RqSign b) s = handleSign cr b s"
| "serveHTTP cr (RqVerify b) s = handleVerify cr b s"
| "serveHTTP cr (RqCreateAlias b) s = handleCreateAlias b s"
| "serveHTTP cr (RqDeleteAlias b) s = handleDeleteAlias b s"
| "serveHTTP cr (RqUpdateAlias b) s = handleUpdateAlias b s"
| "serveHTTP cr (RqListAliases b) s = handleListAliases b s"
| "serveHTTP cr (RqEnableKey b) s = handleEnableKey b s"
| "serveHTTP cr (RqDisableKey b) s = handleDisableKey b s"
| "serveHTTP cr (RqScheduleKeyDeletion b) s = handleScheduleKeyDeletion b s"
| "serveHTTP cr (RqCancelKeyDeletion b) s = handleCancelKeyDeletion b s"
| "serveHTTP cr (RqEnableKeyRotation b) s = handleEnableKeyRotation b s"
| "serveHTTP cr (RqDisableKeyRotation b) s = handleDisableKeyRotation b s"
| "serveHTTP cr (RqGetKeyRotationStatus b) s = handleGetKeyRotationStatus b s"
| "serveHTTP cr (RqRotateKeyOnDemand b) s = handleRotateKeyOnDemand b s"
| "serveHTTP cr (RqListKeyRotations b) s = handleListKeyRotations b s"
| "serveHTTP cr (RqGetPublicKey b) s = handleGetPublicKey cr b s"
| "serveHTTP cr (RqListResourceTags b) s = handleListResourceTags b s"
| "serveHTTP cr (RqTagResource b) s = handleTagResource b s"
| "serveHTTP cr (RqUntagResource b) s = handleUntagResource b s"
| "serveHTTP cr (RqCreateGrant b) s = handleCreateGrant b s"
| "serveHTTP cr (RqListGrants b) s = handleListGrants b s"
| "serveHTTP cr (RqRevokeGrant b) s = handleRevokeGrant b s"
| "serveHTTP cr (RqRetireGrant b) s = handleRetireGrant b s"
| "serveHTTP cr (RqListRetirableGrants b) s = handleListRetirableGrants b s"
| "serveHTTP cr (RqOther op) s = (RErr 501 ''UnsupportedOperationException'', s)"

end
