(* ===== verification/Kms_Layout.thy ===== *)
theory Kms_Layout
  imports Kms_Router
begin

text \<open>
  What the KMS data directory may hold. \<open>layout_ok\<close> says, path by path, which node is allowed
  there: a key's files are below \<open>keys/{uuid}\<close>, each with contents of its own type that agree with
  the path, and an alias file is named after the alias in it. \<open>kms_inv\<close> asks this of every path of
  a well-formed tree. The lemmas here give the locations that the \<open>filepath.Join\<close> calls of the
  storage make and how the file operations keep the invariant, whatever faults occur.
\<close>

section \<open>Paths of the storage\<close>

lemma filepath_Join_snoc: "plain_elem f \<Longrightarrow> filepath_Join (es @ [f]) = filepath_Join es @ [f]"
  by (simp add: filepath_Join_def split_slash_plain plain_elem_def clean_step_def)

lemma keyFile_keyDir: "plain_elem f \<Longrightarrow> keyFile k f = keyDir k @ [f]"
  using filepath_Join_snoc[of f "[''keys'', k]"] by (simp add: keyFile_def keyDir_def)

lemma materialsDir_keyDir: "materialsDir k = keyDir k @ [''materials'']"
  using filepath_Join_snoc[of "''materials''" "[''keys'', k]"]
  by (simp add: materialsDir_def keyDir_def plain_elem_def)

lemma materialFile_keyDir: "plain_elem f \<Longrightarrow> materialFile k f = keyDir k @ [''materials'', f]"
  using filepath_Join_snoc[of f "[''keys'', k, ''materials'']"] materialsDir_keyDir[of k]
  by (simp add: materialFile_def materialsDir_def)

lemma grantsDir_keyDir: "grantsDir k = keyDir k @ [''grants'']"
  using filepath_Join_snoc[of "''grants''" "[''keys'', k]"]
  by (simp add: grantsDir_def keyDir_def plain_elem_def)

lemma plain_json: "CHR ''/'' \<notin> set w \<Longrightarrow> plain_elem (w @ ''.json'')"
  by (cases w) (auto simp: plain_elem_def)

lemma grantPath_keyDir: "CHR ''/'' \<notin> set g \<Longrightarrow> grantPath k g = keyDir k @ [''grants'', g @ ''.json'']"
  using filepath_Join_snoc[OF plain_json, of g "[''keys'', k, ''grants'']"] grantsDir_keyDir[of k]
  by (simp add: grantPath_def grantsDir_def)

lemma aliasPath_eq: "aliasPath a = [''aliases'', aliasFilename a]"
  using filepath_Join_plain[of "[''aliases'', aliasFilename a]"] plain_json[OF url_PathEscape_no_slash, of a]
  by (simp add: aliasPath_def aliasFilename_def plain_elem_def)

lemma aliasFilename_inj: "aliasFilename a = aliasFilename b \<longleftrightarrow> a = b"
  by (simp add: aliasFilename_def url_PathEscape_inj)

lemma keyDir_plain: "plain_elem k \<Longrightarrow> keyDir k = [''keys'', k]"
  unfolding keyDir_def by (rule filepath_Join_plain) (simp add: plain_elem_def)

text \<open>Whatever the grant ID of a request is, the last component of the path ends in \<open>.json\<close>.\<close>

lemma split_slash_json:
  "\<exists>ws w. split_slash (g @ ''.json'') = ws @ [w @ ''.json''] \<and> CHR ''/'' \<notin> set w"
proof (induction g)
  case Nil
  have "split_slash ''.json'' = [] @ [[] @ ''.json'']" by simp
  then show ?case by (metis append_Nil emptyE empty_set)
next
  case (Cons c g)
  then obtain ws w where e: "split_slash (g @ ''.json'') = ws @ [w @ ''.json'']" and w: "CHR ''/'' \<notin> set w"
    by blast
  show ?case
  proof (cases "c = CHR ''/''")
    case True
    then have "split_slash ((c # g) @ ''.json'') = ([] # ws) @ [w @ ''.json'']" using e by simp
    then show ?thesis using w by blast
  next
    case False
    show ?thesis
    proof (cases ws)
      case Nil
      then have "split_slash ((c # g) @ ''.json'') = [] @ [(c # w) @ ''.json'']" using e False by simp
      moreover have "CHR ''/'' \<notin> set (c # w)" using w False by simp
      ultimately show ?thesis by blast
    next
      case (Cons v vs)
      then have "split_slash ((c # g) @ ''.json'') = ((c # v) # vs) @ [w @ ''.json'']" using e False by simp
      then show ?thesis using w by blast
    qed
  qed
qed

lemma grantPath_last: "\<exists>q w. grantPath k g = q @ [w @ ''.json'']"
proof -
  obtain ws w where e: "split_slash (g @ ''.json'') = ws @ [w @ ''.json'']" and w: "CHR ''/'' \<notin> set w"
    using split_slash_json by blast
  have "plain_elem (w @ ''.json'')" using w by (rule plain_json)
  then have "clean_step st (w @ ''.json'') = (w @ ''.json'') # st" for st
    by (auto simp: clean_step_def plain_elem_def)
  then have "grantPath k g = rev (foldl clean_step []
      (concat (map split_slash [''keys'', k, ''grants'']) @ ws)) @ [w @ ''.json'']"
    using e by (simp add: grantPath_def filepath_Join_def)
  then show ?thesis by blast
qed

section \<open>UUIDs and material IDs\<close>

definition hex_id :: "string \<Rightarrow> bool" where
  "hex_id h \<longleftrightarrow> length h = 64 \<and> list_all is_hexdig h"

lemma is_hexdig_plain: "is_hexdig c \<Longrightarrow> c \<noteq> CHR ''/'' \<and> c \<noteq> CHR ''.''"
  by (auto simp: is_hexdig_def)

lemma looksLikeUUID_nth:
  "looksLikeUUID u \<Longrightarrow> i < 36 \<Longrightarrow> u ! i = CHR ''-'' \<or> is_hexdig (u ! i)"
  unfolding looksLikeUUID_def list_all_iff set_upt by (metis atLeastLessThan_iff zero_le)

lemma uuid_chars: "looksLikeUUID u \<Longrightarrow> c \<in> set u \<Longrightarrow> c \<noteq> CHR ''/'' \<and> c \<noteq> CHR ''.''"
proof -
  assume u: "looksLikeUUID u" and c: "c \<in> set u"
  have "length u = 36" using u by (simp add: looksLikeUUID_def)
  then obtain i where "i < 36" "u ! i = c" using c by (auto simp: in_set_conv_nth)
  then have "c = CHR ''-'' \<or> is_hexdig c" using looksLikeUUID_nth[OF u] by blast
  then show ?thesis using is_hexdig_plain[of c] by auto
qed

lemma uuid_plain: "looksLikeUUID u \<Longrightarrow> plain_elem u"
proof -
  assume u: "looksLikeUUID u"
  then have "length u = 36" by (simp add: looksLikeUUID_def)
  then show "plain_elem u" using uuid_chars[OF u] by (auto simp: plain_elem_def)
qed

lemma uuid_not_prefix: "looksLikeUUID u \<Longrightarrow> \<not> has_prefix ''arn:'' u \<and> \<not> has_prefix ''alias/'' u"
proof -
  assume u: "looksLikeUUID u"
  have "is_hexdig (u ! 1)" "is_hexdig (u ! 0)"
    using u unfolding looksLikeUUID_def list_all_iff set_upt by force+
  then have "u ! 1 \<noteq> CHR ''r''" "u ! 1 \<noteq> CHR ''l''" by (auto simp: is_hexdig_def)
  then show ?thesis by (auto simp: has_prefix_iff)
qed

lemma uuid_resolves: "looksLikeUUID u \<Longrightarrow> resolveKeyID u = Some u"
  using uuid_not_prefix resolveKeyID_plain by blast

lemma hex_id_plain: "hex_id h \<Longrightarrow> plain_elem (h @ ''.json'')"
  by (rule plain_json) (auto simp: hex_id_def list_all_iff dest: is_hexdig_plain)

lemma hex_id_hex: "length b = 32 \<Longrightarrow> hex_id (hex b)"
  by (auto simp: hex_id_def list_all_iff intro: hex_all_hexdig)

lemma list_all_shift: "list_all P (map f [a..<b]) \<longleftrightarrow> (\<forall>i. a \<le> i \<and> i < b \<longrightarrow> P (f i))"
  by (auto simp: list_all_iff)

lemma uuid_of_bytes_looks: "length b = 16 \<Longrightarrow> looksLikeUUID (uuid_of_bytes b)"
proof -
  assume l: "length b = 16"
  define c where "c = b[6 := (b ! 6 AND 0x0f) OR 0x40, 8 := (b ! 8 AND 0x3f) OR 0x80]"
  define h1 h2 h3 h4 h5 where "h1 = hex (take 4 c)" and "h2 = hex (take 2 (drop 4 c))"
    and "h3 = hex (take 2 (drop 6 c))" and "h4 = hex (take 2 (drop 8 c))" and "h5 = hex (take 6 (drop 10 c))"
  have len: "length h1 = 8" "length h2 = 4" "length h3 = 4" "length h4 = 4" "length h5 = 12"
    using l by (simp_all add: h1_def h2_def h3_def h4_def h5_def c_def)
  have hx: "is_hexdig (h1 ! i)" if "i < 8" for i using that len hex_all_hexdig h1_def nth_mem by metis
  have hx2: "is_hexdig (h2 ! i)" if "i < 4" for i using that len hex_all_hexdig h2_def nth_mem by metis
  have hx3: "is_hexdig (h3 ! i)" if "i < 4" for i using that len hex_all_hexdig h3_def nth_mem by metis
  have hx4: "is_hexdig (h4 ! i)" if "i < 4" for i using that len hex_all_hexdig h4_def nth_mem by metis
  have hx5: "is_hexdig (h5 ! i)" if "i < 12" for i using that len hex_all_hexdig h5_def nth_mem by metis
  have u: "uuid_of_bytes b = h1 @ ''-'' @ h2 @ ''-'' @ h3 @ ''-'' @ h4 @ ''-'' @ h5"
    by (simp add: uuid_of_bytes_def Let_def h1_def h2_def h3_def h4_def h5_def c_def)
  show ?thesis
    unfolding looksLikeUUID_def u using len
    by (auto simp: list_all_iff nth_append nth_Cons' hx hx2 hx3 hx4 hx5)
qed

section \<open>The layout of the data directory\<close>

definition keyStates :: "string list" where
  "keyStates = [keyStateEnabled, keyStateDisabled, keyStatePendingDeletion]"

text \<open>The metadata of the key \<open>u\<close>: the identifiers agree with the path, the state is one of the three,
  and the derived fields follow from state, spec and usage.\<close>

definition meta_ok :: "string \<Rightarrow> KeyMetadata \<Rightarrow> bool" where
  "meta_ok u m \<longleftrightarrow> km_KeyID m = u \<and> km_Arn m = keyARN u
     \<and> km_KeyState m \<in> set keyStates
     \<and> (km_Enabled m \<longleftrightarrow> km_KeyState m = keyStateEnabled)
     \<and> (km_DeletionDate m \<noteq> None \<longleftrightarrow> km_KeyState m = keyStatePendingDeletion)
     \<and> km_KeySpec m \<in> set validKeySpecs \<and> isValidKeyUsageForSpec (km_KeySpec m) (km_KeyUsage m)
     \<and> km_EncryptionAlgorithms m = encryptionAlgorithmsForKey (km_KeySpec m) (km_KeyUsage m)
     \<and> km_SigningAlgorithms m = signingAlgorithmsForKey (km_KeySpec m) (km_KeyUsage m)
     \<and> km_MacAlgorithms m = macAlgorithmsForKey (km_KeySpec m)"

definition tags_ok :: "smap \<Rightarrow> bool" where
  "tags_ok m \<longleftrightarrow> smap_wf m \<and> length m \<le> maxTagsPerKey"

definition history_ok :: "string \<Rightarrow> RotationRecord list \<Rightarrow> bool" where
  "history_ok u h \<longleftrightarrow> onDemandCount h \<le> maxOnDemandRotations
     \<and> list_all (\<lambda>r. rr_KeyID r = keyARN u \<and> rr_RotationType r = ''ON_DEMAND'') h"

definition rotation_ok :: "KeyRotationConfig \<Rightarrow> bool" where
  "rotation_ok c \<longleftrightarrow> (rc_Enabled c \<longrightarrow> minRotationPeriodDays \<le> rc_RotationPeriodInDays c
                                  \<and> rc_RotationPeriodInDays c \<le> maxRotationPeriodDays)"

definition alias_ok :: "string \<Rightarrow> AliasEntry \<Rightarrow> bool" where
  "alias_ok f a \<longleftrightarrow> f = aliasFilename (ae_AliasName a) \<and> has_prefix ''alias/'' (ae_AliasName a)
     \<and> ae_AliasArn a = aliasARN (ae_AliasName a)"

definition grant_ok :: "string \<Rightarrow> string \<Rightarrow> Grant \<Rightarrow> bool" where
  "grant_ok u f g \<longleftrightarrow> f = gr_GrantId g @ ''.json'' \<and> looksLikeUUID (gr_GrantId g) \<and> gr_KeyId g = keyARN u"

definition material_ok :: "KeyMaterial \<Rightarrow> bool" where
  "material_ok m \<longleftrightarrow> hex_id (mt_KeyMaterialID m)"

text \<open>A file whose contents decode to a value with the property, or one that was cut off.\<close>

fun file_ok :: "(content \<Rightarrow> 'a option) \<Rightarrow> ('a \<Rightarrow> bool) \<Rightarrow> content node \<Rightarrow> bool" where
  "file_ok dec P Dir \<longleftrightarrow> False"
| "file_ok dec P (File None) \<longleftrightarrow> True"
| "file_ok dec P (File (Some c)) \<longleftrightarrow> (case dec c of None \<Rightarrow> False | Some v \<Rightarrow> P v)"

definition key_entry_ok :: "string \<Rightarrow> string \<Rightarrow> content node \<Rightarrow> bool" where
  "key_entry_ok u f n \<longleftrightarrow>
     f = ''meta.json'' \<and> file_ok asMeta (meta_ok u) n
   \<or> f = ''material.json'' \<and> file_ok asMaterial material_ok n
   \<or> f = ''policy.json'' \<and> file_ok asPolicy (\<lambda>_. True) n
   \<or> f = ''rotation.json'' \<and> file_ok asRotation rotation_ok n
   \<or> f = ''rotation_history.json'' \<and> file_ok asHistory (history_ok u) n
   \<or> f = ''tags.json'' \<and> file_ok asTags tags_ok n
   \<or> f \<in> {''materials'', ''grants''} \<and> n = Dir"

fun layout_ok :: "path \<Rightarrow> content node \<Rightarrow> bool" where
  "layout_ok [] n \<longleftrightarrow> n = Dir"
| "layout_ok [a] n \<longleftrightarrow> a \<in> {''keys'', ''aliases''} \<and> n = Dir"
| "layout_ok [a, b] n \<longleftrightarrow>
     a = ''keys'' \<and> looksLikeUUID b \<and> n = Dir
   \<or> a = ''aliases'' \<and> has_prefix ''alias%2F'' b \<and> file_ok asAlias (alias_ok b) n"
| "layout_ok [a, u, f] n \<longleftrightarrow> a = ''keys'' \<and> looksLikeUUID u \<and> key_entry_ok u f n"
| "layout_ok [a, u, d, f] n \<longleftrightarrow> a = ''keys'' \<and> looksLikeUUID u
     \<and> (d = ''materials'' \<and> (\<exists>h. hex_id h \<and> f = h @ ''.json'')
        \<and> file_ok asMaterial (\<lambda>m. f = mt_KeyMaterialID m @ ''.json'' \<and> material_ok m) n
      \<or> d = ''grants'' \<and> (\<exists>g. looksLikeUUID g \<and> f = g @ ''.json'') \<and> file_ok asGrant (grant_ok u f) n)"
| "layout_ok (a # b # c # d # e # p) n \<longleftrightarrow> False"

definition kms_inv :: "kms \<Rightarrow> bool" where
  "kms_inv s \<longleftrightarrow> disk_wf s \<and> look s [''keys''] = Some Dir \<and> look s [''aliases''] = Some Dir
     \<and> (\<forall>p n. look s p = Some n \<longrightarrow> layout_ok p n)"

lemma kms_inv_wf: "kms_inv s \<Longrightarrow> disk_wf s" by (simp add: kms_inv_def)

lemma kms_inv_layout: "kms_inv s \<Longrightarrow> look s p = Some n \<Longrightarrow> layout_ok p n" by (simp add: kms_inv_def)

lemma kms_inv_dirs: "kms_inv s \<Longrightarrow> look s [''keys''] = Some Dir \<and> look s [''aliases''] = Some Dir"
  by (simp add: kms_inv_def)

section \<open>Reading under the invariant\<close>

lemma readJSON_Inr:
  "readJSON dec s p = Inr v \<Longrightarrow> \<exists>c. look s p = Some (File (Some c)) \<and> dec c = Some v"
  by (auto simp: readJSON_def root_ReadFile_def dest!: root_walk_Inr
      split: sum.splits option.splits if_splits node.splits)

lemma plain_names [simp]:
  "plain_elem ''meta.json''" "plain_elem ''material.json''" "plain_elem ''policy.json''"
  "plain_elem ''rotation.json''" "plain_elem ''rotation_history.json''" "plain_elem ''tags.json''"
  "plain_elem ''materials''" "plain_elem ''grants''" "plain_elem ''keys''" "plain_elem ''aliases''"
  by (simp_all add: plain_elem_def)

lemmas key_paths = keyFile_keyDir[OF plain_names(1)] keyFile_keyDir[OF plain_names(2)]
  keyFile_keyDir[OF plain_names(3)] keyFile_keyDir[OF plain_names(4)] keyFile_keyDir[OF plain_names(5)]
  keyFile_keyDir[OF plain_names(6)] materialsDir_keyDir grantsDir_keyDir

lemma not_id_file: "hex_id h \<Longrightarrow> h @ ''.json'' \<noteq> ''meta.json''" "looksLikeUUID g \<Longrightarrow> g @ ''.json'' \<noteq> ''meta.json''"
  by (auto simp: hex_id_def looksLikeUUID_def)

lemma layout_meta:
  assumes "layout_ok (q @ [''meta.json'']) n"
  shows "\<exists>u. q = [''keys'', u] \<and> looksLikeUUID u \<and> file_ok asMeta (meta_ok u) n"
proof -
  consider "q = []" | a where "q = [a]" | a b where "q = [a, b]" | a b c where "q = [a, b, c]"
    | a b c d q' where "q = a # b # c # d # q'"
    by (metis list.exhaust)
  then show ?thesis
  proof cases
    case 5
    with assms show ?thesis by (cases q') auto
  qed (use assms not_id_file in \<open>auto simp: has_prefix_iff key_entry_ok_def looksLikeUUID_def\<close>)
qed

text \<open>A key reference under which \<open>meta.json\<close> exists is the directory of one key.\<close>

lemma key_located:
  assumes "kms_inv s" and "look s (keyFile k ''meta.json'') = Some n"
  obtains u where "keyDir k = [''keys'', u]" "looksLikeUUID u" "file_ok asMeta (meta_ok u) n"
    "look s [''keys'', u] = Some Dir"
proof -
  have l: "look s (keyDir k @ [''meta.json'']) = Some n" using assms(2) by (simp add: key_paths)
  then obtain u where u: "keyDir k = [''keys'', u]" "looksLikeUUID u" "file_ok asMeta (meta_ok u) n"
    using layout_meta kms_inv_layout[OF assms(1)] by blast
  moreover have "look s (keyDir k) = Some Dir"
    using disk_wf_prefix[OF kms_inv_wf[OF assms(1)] l] by simp
  ultimately show ?thesis using that by simp
qed

lemma readKeyMeta_Inr:
  assumes "kms_inv s" and "readKeyMeta s k = Inr m"
  obtains u where "keyDir k = [''keys'', u]" "looksLikeUUID u" "meta_ok u m"
    "look s [''keys'', u] = Some Dir" "look s [''keys'', u, ''meta.json''] = Some (File (Some (CMeta m)))"
proof -
  have r: "readJSON asMeta s (keyFile k ''meta.json'') = Inr m"
    using assms(2) by (auto simp: readKeyMeta_def split: sum.splits ioerr.splits)
  obtain c where c: "look s (keyFile k ''meta.json'') = Some (File (Some c))" "asMeta c = Some m"
    using readJSON_Inr[OF r] by blast
  moreover from c(2) have "c = CMeta m" by (cases c) auto
  moreover obtain u where "keyDir k = [''keys'', u]" "looksLikeUUID u" "file_ok asMeta (meta_ok u) (File (Some c))"
    "look s [''keys'', u] = Some Dir" using key_located[OF assms(1) c(1)] by blast
  ultimately show ?thesis using that by (simp add: key_paths)
qed

lemma keyExists_None:
  assumes "kms_inv s" and "keyExistsLocked s k = None"
  obtains u where "keyDir k = [''keys'', u]" "looksLikeUUID u" "look s [''keys'', u] = Some Dir"
proof -
  obtain n where "look s (keyFile k ''meta.json'') = Some n"
    using assms(2) by (auto simp: keyExistsLocked_def root_Stat_def dest!: root_walk_Inr
        split: sum.splits ioerr.splits if_splits)
  then show ?thesis using key_located[OF assms(1)] that by metis
qed

section \<open>File operations keep the invariant\<close>

lemma kms_inv_cong:
  "kms_inv (s\<lparr>rnd := r\<rparr>) = kms_inv s" "kms_inv (s\<lparr>clock := c\<rparr>) = kms_inv s"
  "kms_inv (s\<lparr>d_fault := f\<rparr>) = kms_inv s" "kms_inv (s\<lparr>maxAliasesPerKey := n\<rparr>) = kms_inv s"
  by (simp_all add: kms_inv_def disk_wf_def look_def)

lemma kms_inv_put:
  assumes inv: "kms_inv s" and par: "look s q = Some Dir" and f: "plain_elem f"
    and n: "layout_ok (q @ [f]) n" and keep: "look s (q @ [f]) = Some Dir \<longrightarrow> n = Dir"
  shows "kms_inv (put (q @ [f]) n s)"
proof -
  have "list_all plain_elem (q @ [f])" using disk_wf_plain[OF kms_inv_wf[OF inv] par] f by simp
  then have "disk_wf (put (q @ [f]) n s)"
    using disk_wf_put[OF kms_inv_wf[OF inv], of "q @ [f]" n] par keep by simp
  moreover have "look (put (q @ [f]) n s) [d] = Some Dir" if "d = ''keys'' \<or> d = ''aliases''" for d
    using that kms_inv_dirs[OF inv] keep by (auto simp: look_put)
  moreover have "layout_ok p m" if "look (put (q @ [f]) n s) p = Some m" for p m
    using that n kms_inv_layout[OF inv] by (auto simp: look_put split: if_splits)
  ultimately show ?thesis by (simp add: kms_inv_def)
qed

lemma kms_inv_del:
  assumes inv: "kms_inv s" and "look s p = Some Dir \<longrightarrow> entries s p = []" and "p \<noteq> [''keys'']" "p \<noteq> [''aliases'']"
  shows "kms_inv (del p s)"
  using assms disk_wf_del[OF kms_inv_wf[OF inv] assms(2)]
  by (auto simp: kms_inv_def look_del split: if_splits)

lemma kms_inv_Remove:
  assumes "kms_inv s" and "p \<noteq> [''keys'']" and "p \<noteq> [''aliases'']"
  shows "kms_inv (snd (root_Remove p s))"
  using assms kms_inv_del[OF assms(1)]
  by (auto simp: root_Remove_def dest!: root_walk_Inr split: sum.splits node.splits)

lemma kms_inv_WriteFile:
  assumes inv: "kms_inv s" and f: "plain_elem f"
    and n: "look s q = Some Dir \<Longrightarrow> layout_ok (q @ [f]) (File (Some c)) \<and> layout_ok (q @ [f]) (File None)"
  shows "kms_inv (snd (writeJSON (q @ [f]) c s))"
proof -
  have "kms_inv (put (q @ [f]) (File x) s)" if "look s q = Some Dir" "look s (q @ [f]) \<noteq> Some Dir"
    "x = None \<or> x = Some c" for x
    using kms_inv_put[OF inv that(1) f] n[OF that(1)] that by auto
  then show ?thesis using inv
    by (auto simp: writeJSON_def root_WriteFile_def dest!: root_walk_Inr split: sum.splits node.splits)
qed

lemma kms_inv_Mkdir:
  assumes inv: "kms_inv s" and f: "plain_elem f" and n: "look s q = Some Dir \<Longrightarrow> layout_ok (q @ [f]) Dir"
  shows "kms_inv (snd (root_Mkdir (q @ [f]) s))"
  using inv kms_inv_put[OF inv _ f n]
  by (auto simp: root_Mkdir_def dest!: root_walk_Inr split: sum.splits node.splits option.splits)

lemma kms_inv_write_result [simp]: "snd (write_result v r) = snd r"
  by (auto simp: write_result_def split: prod.splits option.splits)

lemma kms_inv_randRead: "kms_inv (snd (randRead n s)) = kms_inv s"
  by (auto simp: randRead_def Let_def kms_inv_cong split: list.splits option.splits)

text \<open>Writing one of the files of a key.\<close>

lemma kms_inv_write_key:
  assumes "kms_inv s" and "keyDir k = [''keys'', u]" and "looksLikeUUID u" and "plain_elem f"
    and "key_entry_ok u f (File (Some c))" and "key_entry_ok u f (File None)"
  shows "kms_inv (snd (writeJSON (keyFile k f) c s))"
  using kms_inv_WriteFile[OF assms(1,4), of "[''keys'', u]" c] assms(2,3,5,6)
  by (simp add: keyFile_keyDir[OF assms(4)])

end
