(* ===== verification/Kms_Calls.thy ===== *)
theory Kms_Calls
  imports Kms_Layout
begin

text \<open>
  The storage operations as calls. A request handler changes the state only through the exported
  methods of the storage and the random source; \<open>kms_call\<close> names these calls, \<open>exec\<close> is the state
  after one of them and \<open>call_ok\<close> what the handlers have checked of the arguments before they make
  it. The theory shows that every call keeps the invariant of \<open>Kms_Layout\<close> whatever system calls
  fail on the way.
\<close>

datatype kms_call =
    CallCreateKey CreateKeyInput
  | CallPutKeyPolicy string string
  | CallCreateAlias string string
  | CallDeleteAlias string
  | CallUpdateAlias string string
  | CallEnableKey string
  | CallDisableKey string
  | CallScheduleKeyDeletion string int
  | CallCancelKeyDeletion string
  | CallEnableKeyRotation string int
  | CallDisableKeyRotation string
  | CallRotateKeyOnDemand string
  | CallTagResource string "TagEntry list"
  | CallUntagResource string "string list"
  | CallCreateGrant string CreateGrantInput
  | CallRevokeGrant string string
  | CallRetireGrantByToken string
  | CallRandRead nat

fun exec :: "crypto \<Rightarrow> kms_call \<Rightarrow> kms \<Rightarrow> kms" where
  "exec cr (CallCreateKey i) s = snd (CreateKey cr i s)"
| "exec cr (CallPutKeyPolicy k p) s = snd (PutKeyPolicy k p s)"
| "exec cr (CallCreateAlias a t) s = snd (CreateAlias a t s)"
| "exec cr (CallDeleteAlias a) s = snd (DeleteAlias a s)"
| "exec cr (CallUpdateAlias a t) s = snd (UpdateAlias a t s)"
| "exec cr (CallEnableKey k) s = snd (EnableKey k s)"
| "exec cr (CallDisableKey k) s = snd (DisableKey k s)"
| "exec cr (CallScheduleKeyDeletion k d) s = snd (ScheduleKeyDeletion k d s)"
| "exec cr (CallCancelKeyDeletion k) s = snd (CancelKeyDeletion k s)"
| "exec cr (CallEnableKeyRotation k d) s = snd (EnableKeyRotation k d s)"
| "exec cr (CallDisableKeyRotation k) s = snd (DisableKeyRotation k s)"
| "exec cr (CallRotateKeyOnDemand k) s = snd (RotateKeyOnDemand k s)"
| "exec cr (CallTagResource k ts) s = snd (TagResource k ts s)"
| "exec cr (CallUntagResource k ks) s = snd (UntagResource k ks s)"
| "exec cr (CallCreateGrant k i) s = snd (CreateGrant k i s)"
| "exec cr (CallRevokeGrant k g) s = snd (RevokeGrant k g s)"
| "exec cr (CallRetireGrantByToken t) s = snd (RetireGrantByToken t s)"
| "exec cr (CallRandRead n) s = snd (randRead n s)"

text \<open>What the handlers establish before they call.\<close>

fun call_ok :: "kms \<Rightarrow> kms_call \<Rightarrow> bool" where
  "call_ok s (CallCreateKey i) \<longleftrightarrow>
     ci_KeySpec i \<in> set validKeySpecs \<and> isValidKeyUsageForSpec (ci_KeySpec i) (ci_KeyUsage i)"
| "call_ok s (CallPutKeyPolicy k _) \<longleftrightarrow>
     (case readKeyMeta s k of Inl _ \<Rightarrow> False | Inr m \<Rightarrow> km_KeyState m \<noteq> keyStatePendingDeletion)"
| "call_ok s (CallCreateAlias a _) \<longleftrightarrow> has_prefix ''alias/'' a"
| "call_ok s (CallEnableKeyRotation _ d) \<longleftrightarrow> minRotationPeriodDays \<le> d \<and> d \<le> maxRotationPeriodDays"
| "call_ok s (CallScheduleKeyDeletion _ d) \<longleftrightarrow> minPendingWindowDays \<le> d \<and> d \<le> maxPendingWindowDays"
| "call_ok s _ \<longleftrightarrow> True"

definition run :: "crypto \<Rightarrow> kms_call list \<Rightarrow> kms \<Rightarrow> kms" where
  "run cr cs s = foldl (\<lambda>s c. exec cr c s) s cs"

lemma run_simps [simp]: "run cr [] s = s" "run cr (c # cs) s = run cr cs (exec cr c s)"
  "run cr (cs @ ds) s = run cr ds (run cr cs s)"
  by (simp_all add: run_def)

text \<open>Every call of the sequence is admissible in the state in which it is made.\<close>

fun admissible :: "crypto \<Rightarrow> kms_call list \<Rightarrow> kms \<Rightarrow> bool" where
  "admissible cr [] s \<longleftrightarrow> True"
| "admissible cr (c # cs) s \<longleftrightarrow> call_ok s c \<and> admissible cr cs (exec cr c s)"

lemma admissible_append:
  "admissible cr (cs @ ds) s \<longleftrightarrow> admissible cr cs s \<and> admissible cr ds (run cr cs s)"
  by (induction cs arbitrary: s) simp_all

section \<open>Calls on an existing key\<close>

lemma key_entry_cut: "f \<in> {''meta.json'', ''material.json'', ''policy.json'', ''rotation.json'',
    ''rotation_history.json'', ''tags.json''} \<Longrightarrow> key_entry_ok u f (File None) \<and> plain_elem f"
  by (auto simp: key_entry_ok_def)

lemma inv_meta_write:
  assumes "kms_inv s" and "readKeyMeta s k = Inr m"
    and "f \<in> {''meta.json'', ''material.json'', ''policy.json'', ''rotation.json'', ''rotation_history.json'', ''tags.json''}"
    and "\<And>u. meta_ok u m \<Longrightarrow> keyDir k = [''keys'', u] \<Longrightarrow> key_entry_ok u f (File (Some c))"
  shows "kms_inv (snd (writeJSON (keyFile k f) c s))"
proof -
  obtain u where u: "keyDir k = [''keys'', u]" "looksLikeUUID u" "meta_ok u m"
    using readKeyMeta_Inr[OF assms(1,2)] by metis
  show ?thesis
    using kms_inv_write_key[OF assms(1) u(1,2)] key_entry_cut[OF assms(3)] assms(4)[OF u(3,1)] by blast
qed

lemma inv_PutKeyPolicy: "kms_inv s \<Longrightarrow> kms_inv (snd (PutKeyPolicy k p s))"
proof (cases "keyExistsLocked s k")
  case None
  assume inv: "kms_inv s"
  obtain u where "keyDir k = [''keys'', u]" "looksLikeUUID u" using keyExists_None[OF inv None] by metis
  then show ?thesis
    using None kms_inv_write_key[OF inv, of k u "''policy.json''" "CPolicy p"]
    by (simp add: PutKeyPolicy_def key_entry_ok_def)
qed (simp add: PutKeyPolicy_def)

lemma key_entry_meta: "meta_ok u m \<Longrightarrow> key_entry_ok u ''meta.json'' (File (Some (CMeta m)))"
  by (simp add: key_entry_ok_def)

lemma meta_ok_states:
  assumes "meta_ok u m"
  shows "meta_ok u (m\<lparr>km_KeyState := keyStatePendingDeletion, km_Enabled := False, km_DeletionDate := Some d\<rparr>)"
    and "meta_ok u (m\<lparr>km_KeyState := keyStateDisabled, km_Enabled := False, km_DeletionDate := None\<rparr>)"
    and "km_KeyState m \<noteq> keyStatePendingDeletion \<Longrightarrow> meta_ok u (m\<lparr>km_KeyState := keyStateEnabled, km_Enabled := True\<rparr>)"
    and "km_KeyState m \<noteq> keyStatePendingDeletion \<Longrightarrow> meta_ok u (m\<lparr>km_KeyState := keyStateDisabled, km_Enabled := False\<rparr>)"
  using assms by (simp_all add: meta_ok_def keyStates_def)

lemma inv_EnableKey: "kms_inv s \<Longrightarrow> kms_inv (snd (EnableKey k s))"
  by (auto simp: EnableKey_def intro!: inv_meta_write key_entry_meta meta_ok_states split: sum.splits)

lemma inv_DisableKey: "kms_inv s \<Longrightarrow> kms_inv (snd (DisableKey k s))"
  by (auto simp: DisableKey_def intro!: inv_meta_write key_entry_meta meta_ok_states split: sum.splits)

lemma inv_ScheduleKeyDeletion: "kms_inv s \<Longrightarrow> kms_inv (snd (ScheduleKeyDeletion k d s))"
  by (auto simp: ScheduleKeyDeletion_def Let_def intro!: inv_meta_write key_entry_meta meta_ok_states split: sum.splits)

lemma inv_CancelKeyDeletion: "kms_inv s \<Longrightarrow> kms_inv (snd (CancelKeyDeletion k s))"
  by (auto simp: CancelKeyDeletion_def Let_def intro!: inv_meta_write key_entry_meta meta_ok_states split: sum.splits)

lemma inv_EnableKeyRotation:
  "kms_inv s \<Longrightarrow> call_ok s (CallEnableKeyRotation k d) \<Longrightarrow> kms_inv (snd (EnableKeyRotation k d s))"
  by (auto simp: EnableKeyRotation_def rotation_ok_def key_entry_ok_def intro!: inv_meta_write split: sum.splits)

lemma inv_DisableKeyRotation: "kms_inv s \<Longrightarrow> kms_inv (snd (DisableKeyRotation k s))"
  by (auto simp: DisableKeyRotation_def rotation_ok_def key_entry_ok_def intro!: inv_meta_write split: sum.splits)

section \<open>Tags\<close>

lemma distinct_addTags: "smap_wf m \<Longrightarrow> smap_wf (addTags m ts)"
  by (induction ts arbitrary: m) (simp_all add: addTags_def distinct_update)

lemma distinct_removeTags: "smap_wf m \<Longrightarrow> smap_wf (removeTags m ks)"
  by (induction ks arbitrary: m) (simp_all add: removeTags_def distinct_delete)

lemma length_delete_le: "length (AList.delete k m) \<le> length m"
  by (simp add: AList.delete_eq)

lemma length_removeTags: "length (removeTags m ks) \<le> length m"
proof (induction ks arbitrary: m)
  case Nil
  then show ?case by (simp add: removeTags_def)
next
  case (Cons k ks)
  have "removeTags m (k # ks) = removeTags (AList.delete k m) ks" by (simp add: removeTags_def)
  then show ?case using Cons[of "AList.delete k m"] length_delete_le[of k m] by simp
qed

lemma readTagMap_ok:
  assumes inv: "kms_inv s" and u: "keyDir k = [''keys'', u]" and r: "readTagMap s k = Inr m"
  shows "tags_ok m"
proof -
  consider "m = []" | "readJSON asTags s (keyFile k ''tags.json'') = Inr m"
    using r by (auto simp: readTagMap_def split: sum.splits ioerr.splits)
  then show ?thesis
  proof cases
    case 2
    then obtain c where "look s [''keys'', u, ''tags.json''] = Some (File (Some c))" "asTags c = Some m"
      using readJSON_Inr[OF 2] u by (auto simp: key_paths)
    then show ?thesis using kms_inv_layout[OF inv] by (fastforce simp: key_entry_ok_def)
  qed (simp add: tags_ok_def)
qed

lemma inv_TagResource: "kms_inv s \<Longrightarrow> kms_inv (snd (TagResource k ts s))"
  by (auto simp: TagResource_def Let_def key_entry_ok_def tags_ok_def
      intro!: inv_meta_write distinct_addTags dest: readTagMap_ok[rotated 2] split: sum.splits)

lemma inv_UntagResource: "kms_inv s \<Longrightarrow> kms_inv (snd (UntagResource k ks s))"
  by (auto simp: UntagResource_def Let_def key_entry_ok_def tags_ok_def
      intro!: inv_meta_write distinct_removeTags order_trans[OF length_removeTags]
      dest: readTagMap_ok[rotated 2] split: sum.splits)

section \<open>Rotation\<close>

lemma history_ok_snoc:
  assumes "history_ok u h" and "onDemandCount h < maxOnDemandRotations" and "meta_ok u m"
  shows "history_ok u (h @ [\<lparr>rr_KeyID = km_Arn m, rr_RotationDate = d, rr_RotationType = ''ON_DEMAND''\<rparr>])"
  using assms by (simp add: history_ok_def onDemandCount_def meta_ok_def)

lemma readRotationHistory_ok:
  assumes inv: "kms_inv s" and u: "keyDir k = [''keys'', u]" and r: "readRotationHistoryLocked s k = Inr h"
  shows "history_ok u h"
proof -
  consider "h = []" | "readJSON asHistory s (keyFile k ''rotation_history.json'') = Inr h"
    using r by (auto simp: readRotationHistoryLocked_def split: sum.splits ioerr.splits)
  then show ?thesis
  proof cases
    case 2
    then obtain c where "look s [''keys'', u, ''rotation_history.json''] = Some (File (Some c))" "asHistory c = Some h"
      using readJSON_Inr[OF 2] u by (auto simp: key_paths)
    then show ?thesis using kms_inv_layout[OF inv] by (fastforce simp: key_entry_ok_def)
  qed (simp add: history_ok_def onDemandCount_def)
qed

lemma readMaterial_ok:
  assumes inv: "kms_inv s" and u: "keyDir k = [''keys'', u]"
    and r: "readJSON asMaterial s (keyFile k ''material.json'') = Inr m"
  shows "look s [''keys'', u, ''material.json''] = Some (File (Some (CMaterial m)))" and "material_ok m"
proof -
  obtain c where c: "look s [''keys'', u, ''material.json''] = Some (File (Some c))" "asMaterial c = Some m"
    using readJSON_Inr[OF r] u by (auto simp: key_paths)
  moreover from c(2) have "c = CMaterial m" by (cases c) auto
  ultimately show "look s [''keys'', u, ''material.json''] = Some (File (Some (CMaterial m)))" by simp
  then show "material_ok m" using kms_inv_layout[OF inv] by (fastforce simp: key_entry_ok_def)
qed

lemma length_randRead: "randRead n s = (Some (k, b), s') \<Longrightarrow> length b = n \<and> k \<le> n"
  by (auto simp: randRead_def Let_def split: list.splits option.splits)

lemma look_randRead [simp]: "look (snd (randRead n s)) = look s"
  by (auto simp: randRead_def Let_def look_def fun_eq_iff split: list.splits option.splits)

lemma inv_randRead: "randRead n s = (r, s') \<Longrightarrow> kms_inv s \<Longrightarrow> kms_inv s'"
  using kms_inv_randRead[of n s] by simp

text \<open>The copy of the current material goes to a file named after its ID.\<close>

lemma inv_write_backup:
  assumes "kms_inv s" and "keyDir k = [''keys'', u]" and "looksLikeUUID u" and "material_ok m"
  shows "kms_inv (snd (writeJSON (materialFile k (mt_KeyMaterialID m @ ''.json'')) (CMaterial m) s))"
proof -
  have p: "plain_elem (mt_KeyMaterialID m @ ''.json'')" using assms(4) by (auto simp: material_ok_def intro: hex_id_plain)
  show ?thesis
    using kms_inv_WriteFile[OF assms(1) p, of "[''keys'', u, ''materials'']" "CMaterial m"] assms
    by (auto simp: materialFile_keyDir[OF p] material_ok_def)
qed

lemma inv_Mkdir_key:
  assumes "kms_inv s" and "keyDir k = [''keys'', u]" and "looksLikeUUID u" and "d = ''materials'' \<or> d = ''grants''"
  shows "kms_inv (snd (root_Mkdir (keyDir k @ [d]) s))"
  using kms_inv_Mkdir[OF assms(1), of d "[''keys'', u]"] assms by (auto simp: key_entry_ok_def)

lemma inv_write_material:
  assumes "kms_inv s" and "keyDir k = [''keys'', u]" and "looksLikeUUID u" and "length i = 32"
  shows "kms_inv (snd (writeJSON (keyFile k ''material.json'')
           (CMaterial \<lparr>mt_KeyBytes = b, mt_PrivateKeyDER = d, mt_KeyMaterialID = hex i\<rparr>) s))"
  by (rule kms_inv_write_key[OF assms(1-3)])
    (use assms(4) in \<open>auto simp: key_entry_ok_def material_ok_def intro: hex_id_hex\<close>)

lemma inv_rotateMaterial:
  assumes inv: "kms_inv s" and u: "keyDir k = [''keys'', u]" "looksLikeUUID u" and m: "meta_ok u meta"
    and h: "history_ok u hist" "onDemandCount hist < maxOnDemandRotations" and mat: "material_ok mat"
  shows "kms_inv (snd (rotateMaterial k meta hist mat s))"
proof -
  obtain r1 s1 where e1: "root_Mkdir (materialsDir k) s = (r1, s1)" by fastforce
  have 1: "kms_inv s1" using inv_Mkdir_key[OF inv u, of "''materials''"] e1 by (simp add: materialsDir_keyDir)
  obtain r2 s2 where e2: "writeJSON (materialFile k (mt_KeyMaterialID mat @ ''.json'')) (CMaterial mat) s1 = (r2, s2)"
    by fastforce
  have 2: "kms_inv s2" using inv_write_backup[OF 1 u mat] e2 by simp
  obtain r3 s3 where e3: "randRead 32 s2 = (r3, s3)" by fastforce
  have 3: "kms_inv s3" by (rule inv_randRead[OF e3 2])
  obtain r4 s4 where e4: "randRead 32 s3 = (r4, s4)" by fastforce
  have 4: "kms_inv s4" by (rule inv_randRead[OF e4 3])
  have 5: "kms_inv s'" if "writeJSON (keyFile k ''material.json'')
      (CMaterial \<lparr>mt_KeyBytes = b, mt_PrivateKeyDER = [], mt_KeyMaterialID = hex i\<rparr>) s4 = (r, s')"
    and "randRead 32 s3 = (Some (n, i), s4)" for b i r s' n
    using inv_write_material[OF 4 u, of i b "[]"] length_randRead[OF that(2)] that(1) by simp
  have 6: "kms_inv (snd (writeJSON (keyFile k ''rotation_history.json'')
      (CHistory (hist @ [\<lparr>rr_KeyID = km_Arn meta, rr_RotationDate = clock s', rr_RotationType = ''ON_DEMAND''\<rparr>])) s'))"
    if "kms_inv s'" for s'
    by (rule kms_inv_write_key[OF that u]) (use history_ok_snoc[OF h m] in \<open>auto simp: key_entry_ok_def\<close>)
  show ?thesis
    using 1 2 3 4 5 6 e4 by (auto simp: rotateMaterial_def e1 e2 e3 split: option.splits prod.splits)
qed

lemma inv_RotateKeyOnDemand: "kms_inv s \<Longrightarrow> kms_inv (snd (RotateKeyOnDemand k s))"
proof -
  assume inv: "kms_inv s"
  show ?thesis
  proof (cases "readKeyMeta s k")
    case (Inr m)
    obtain u where u: "keyDir k = [''keys'', u]" "looksLikeUUID u" "meta_ok u m"
      using readKeyMeta_Inr[OF inv Inr] by metis
    show ?thesis
      using inv Inr readRotationHistory_ok[OF inv u(1)] readMaterial_ok(2)[OF inv u(1)]
      by (auto simp: RotateKeyOnDemand_def intro!: inv_rotateMaterial[OF inv u] split: sum.splits)
  qed (simp add: RotateKeyOnDemand_def inv)
qed

section \<open>Aliases\<close>

lemma aliasFilename_prefix: "has_prefix ''alias/'' a \<Longrightarrow> has_prefix ''alias%2F'' (aliasFilename a)"
proof -
  have "char_of (50::nat) = CHR ''2''" "char_of (70::nat) = CHR ''F''" by code_simp+
  then show "has_prefix ''alias/'' a \<Longrightarrow> has_prefix ''alias%2F'' (aliasFilename a)"
    by (auto simp: has_prefix_iff aliasFilename_def url_PathEscape_def escape_char_def path_unescaped_def
        is_alnum_def upper_hex_def)
qed

lemma inv_write_alias:
  assumes "kms_inv s" and "alias_ok (aliasFilename a) e" and "ae_AliasName e = a"
  shows "kms_inv (snd (writeJSON (aliasPath a) (CAlias e) s))"
proof -
  have p: "plain_elem (aliasFilename a)" unfolding aliasFilename_def by (rule plain_json[OF url_PathEscape_no_slash])
  show ?thesis
    using kms_inv_WriteFile[OF assms(1) p, of "[''aliases'']" "CAlias e"] assms aliasFilename_prefix[of a]
    by (auto simp: aliasPath_eq alias_ok_def)
qed

lemma inv_CreateAlias: "kms_inv s \<Longrightarrow> has_prefix ''alias/'' a \<Longrightarrow> kms_inv (snd (CreateAlias a t s))"
  by (auto simp: CreateAlias_def alias_ok_def intro!: inv_write_alias split: option.splits sum.splits)

lemma readAlias_ok:
  assumes "kms_inv s" and "readJSON asAlias s (aliasPath a) = Inr e"
  shows "alias_ok (aliasFilename a) e" and "ae_AliasName e = a"
proof -
  obtain c where c: "look s [''aliases'', aliasFilename a] = Some (File (Some c))" "asAlias c = Some e"
    using readJSON_Inr[OF assms(2)] by (auto simp: aliasPath_eq)
  then show "alias_ok (aliasFilename a) e" using kms_inv_layout[OF assms(1)] by fastforce
  then show "ae_AliasName e = a" by (simp add: alias_ok_def aliasFilename_inj)
qed

lemma inv_UpdateAlias: "kms_inv s \<Longrightarrow> kms_inv (snd (UpdateAlias a t s))"
  by (auto simp: UpdateAlias_def alias_ok_def dest: readAlias_ok intro!: inv_write_alias
      split: option.splits sum.splits ioerr.splits)

lemma inv_DeleteAlias: "kms_inv s \<Longrightarrow> kms_inv (snd (DeleteAlias a s))"
  using kms_inv_Remove[of s "aliasPath a"]
  by (auto simp: DeleteAlias_def aliasPath_eq split: prod.splits option.splits ioerr.splits)

section \<open>Grants\<close>

lemma grantPath_not_top: "grantPath k g \<noteq> [''keys'']" "grantPath k g \<noteq> [''aliases'']"
proof -
  obtain q w where e: "grantPath k g = q @ [w @ ''.json'']" using grantPath_last by blast
  have "last (w @ ''.json'') \<noteq> last ''keys''" "last (w @ ''.json'') \<noteq> last ''aliases''" by simp_all
  then have "w @ ''.json'' \<noteq> ''keys''" "w @ ''.json'' \<noteq> ''aliases''" by metis+
  then show "grantPath k g \<noteq> [''keys'']" "grantPath k g \<noteq> [''aliases'']" using e by auto
qed

lemma inv_Remove_grant: "kms_inv s \<Longrightarrow> kms_inv (snd (root_Remove (grantPath k g) s))"
  by (rule kms_inv_Remove) (simp_all add: grantPath_not_top)

lemma inv_RevokeGrant: "kms_inv s \<Longrightarrow> kms_inv (snd (RevokeGrant k g s))"
  using inv_Remove_grant[of s k g]
  by (auto simp: RevokeGrant_def Let_def split: sum.splits prod.splits option.splits ioerr.splits)

lemma inv_retireIn: "kms_inv s \<Longrightarrow> kms_inv (snd (retireIn t ids s))"
proof (induction ids)
  case (Cons k ids)
  have "kms_inv s'" if "root_Remove (grantPath k g) s = (r, s')" for g r s'
    using inv_Remove_grant[OF Cons.prems, of k g] that by simp
  then show ?case using Cons by (auto split: sum.splits option.splits prod.splits)
qed simp

lemma inv_RetireGrantByToken: "kms_inv s \<Longrightarrow> kms_inv (snd (RetireGrantByToken t s))"
  by (auto simp: RetireGrantByToken_def inv_retireIn split: sum.splits)

lemma newKeyID_uuid: "newKeyID s = (Some u, s') \<Longrightarrow> looksLikeUUID u"
  by (auto simp: newKeyID_def dest!: length_randRead intro!: uuid_of_bytes_looks split: prod.splits option.splits)

lemma look_newKeyID [simp]: "look (snd (newKeyID s)) = look s"
  using look_randRead[of 16 s] by (cases "randRead 16 s") (auto simp: newKeyID_def split: option.splits)

lemma inv_newKeyID: "newKeyID s = (r, s') \<Longrightarrow> kms_inv s \<Longrightarrow> kms_inv s'"
  by (auto simp: newKeyID_def dest: inv_randRead split: prod.splits option.splits)

lemma inv_write_grant:
  assumes "kms_inv s" and "keyDir k = [''keys'', u]" and "looksLikeUUID u" and "looksLikeUUID (gr_GrantId g)"
    and "gr_KeyId g = keyARN u"
  shows "kms_inv (snd (writeJSON (grantPath k (gr_GrantId g)) (CGrant g) s))"
proof -
  have slash: "CHR ''/'' \<notin> set (gr_GrantId g)" using uuid_chars[OF assms(4)] by blast
  show ?thesis
    using kms_inv_WriteFile[OF assms(1) plain_json[OF slash], of "[''keys'', u, ''grants'']" "CGrant g"] assms
    by (auto simp: grantPath_keyDir[OF slash] grant_ok_def)
qed

lemma inv_CreateGrant: "kms_inv s \<Longrightarrow> kms_inv (snd (CreateGrant k i s))"
proof (cases "readKeyMeta s k")
  case (Inr m)
  assume inv: "kms_inv s"
  obtain u where u: "keyDir k = [''keys'', u]" "looksLikeUUID u" "meta_ok u m"
    using readKeyMeta_Inr[OF inv Inr] by metis
  obtain r1 s1 where e1: "root_Mkdir (grantsDir k) s = (r1, s1)" by fastforce
  have 1: "kms_inv s1" using inv_Mkdir_key[OF inv u(1,2), of "''grants''"] e1 by (simp add: grantsDir_keyDir)
  obtain r2 s2 where e2: "newKeyID s1 = (r2, s2)" by fastforce
  have 2: "kms_inv s2" by (rule inv_newKeyID[OF e2 1])
  obtain r3 s3 where e3: "newKeyID s2 = (r3, s3)" by fastforce
  have 3: "kms_inv s3" by (rule inv_newKeyID[OF e3 2])
  have 4: "kms_inv (snd (writeJSON (grantPath k (gr_GrantId g)) (CGrant g) s3))"
    if "gr_KeyId g = km_Arn m" "r2 = Some (gr_GrantId g)" for g
    using inv_write_grant[OF 3 u(1,2)] that u(3) e2 newKeyID_uuid by (simp add: meta_ok_def)
  show ?thesis
    using Inr inv 1 2 3 4[of "Grant.make _ _ _ _ _ _ _ _ _ _"]
    by (auto simp: CreateGrant_def newGrantID_def newGrantToken_def e1 e2 e3 Let_def Grant.defs
        split: option.splits sum.splits)
qed (simp add: CreateGrant_def)

section \<open>CreateKey\<close>

lemma meta_ok_new:
  "call_ok s (CallCreateKey i) \<Longrightarrow> meta_ok u (newKeyMetadata i u now)"
  by (simp add: meta_ok_def newKeyMetadata_def keyStates_def)

lemma keyDir_uuid: "looksLikeUUID u \<Longrightarrow> keyDir u = [''keys'', u]"
  by (rule keyDir_plain[OF uuid_plain])

lemma inv_removeLogged: "kms_inv s \<Longrightarrow> p \<noteq> [''keys''] \<Longrightarrow> p \<noteq> [''aliases''] \<Longrightarrow> kms_inv (removeLogged p s)"
  by (simp add: removeLogged_def kms_inv_Remove)

lemma inv_clean:
  assumes "kms_inv s" and "looksLikeUUID u"
  shows "kms_inv (cleanMetaDir u s)" and "kms_inv (cleanMetaMaterialDir u s)"
  using assms keyDir_uuid[OF assms(2)]
  by (simp_all add: cleanMetaDir_def cleanMetaMaterialDir_def key_paths inv_removeLogged)

lemma inv_createSymmetricMaterial:
  assumes "kms_inv s" and "looksLikeUUID u"
  shows "kms_inv (snd (createSymmetricMaterial u spec s))"
proof -
  obtain r1 s1 where e1: "randRead (if 0 < hmacKeySize spec then hmacKeySize spec else 32) s = (r1, s1)" by fastforce
  have 1: "kms_inv s1" by (rule inv_randRead[OF e1 assms(1)])
  obtain r2 s2 where e2: "randRead 32 s1 = (r2, s2)" by fastforce
  have 2: "kms_inv s2" by (rule inv_randRead[OF e2 1])
  have 3: "kms_inv s'" if "writeJSON (keyFile u ''material.json'')
      (CMaterial \<lparr>mt_KeyBytes = b, mt_PrivateKeyDER = [], mt_KeyMaterialID = hex i\<rparr>) s2 = (r, s')"
    and "randRead 32 s1 = (Some (n, i), s2)" for b i r s' n
    using inv_write_material[OF 2 keyDir_uuid assms(2), of i b "[]"] length_randRead[OF that(2)] that(1) assms(2) by simp
  show ?thesis
    using 1 2 3 e2 inv_clean[OF _ assms(2)]
    by (auto simp: createSymmetricMaterial_def Let_def e1 split: option.splits prod.splits)
qed

lemma inv_createAsymmetricMaterial:
  assumes "kms_inv s" and "looksLikeUUID u"
  shows "kms_inv (snd (createAsymmetricMaterial cr u spec s))"
proof -
  obtain r1 s1 where e1: "randRead 32 s = (r1, s1)" by fastforce
  have 1: "kms_inv s1" by (rule inv_randRead[OF e1 assms(1)])
  have 2: "kms_inv s'" if "writeJSON (keyFile u ''material.json'')
      (CMaterial \<lparr>mt_KeyBytes = [], mt_PrivateKeyDER = d, mt_KeyMaterialID = hex i\<rparr>) s1 = (r, s')"
    and "randRead 32 s = (Some (n, i), s1)" for d i r s' n
    using inv_write_material[OF 1 keyDir_uuid assms(2), of i "[]" d] length_randRead[OF that(2)] that(1) assms(2) by simp
  show ?thesis
    using assms(1) 1 2 e1 inv_clean[OF _ assms(2)]
    by (auto simp: createAsymmetricMaterial_def split: sum.splits option.splits prod.splits)
qed

text \<open>The part of \<open>CreateKey\<close> after the key ID and the metadata file.\<close>

lemma inv_create_material:
  assumes "kms_inv s" and "looksLikeUUID u"
    and "(if b then createSymmetricMaterial u spec s else createAsymmetricMaterial cr u spec s) = (r, s')"
  shows "kms_inv s'"
  using inv_createSymmetricMaterial[OF assms(1,2), of spec] inv_createAsymmetricMaterial[OF assms(1,2), of cr spec] assms(3)
  by (cases b) auto

lemma inv_CreateKey:
  assumes inv: "kms_inv s" and ok: "call_ok s (CallCreateKey i)"
  shows "kms_inv (snd (CreateKey cr i s))"
proof -
  obtain r0 s0 where e0: "newKeyID s = (r0, s0)" by fastforce
  have 0: "kms_inv s0" by (rule inv_newKeyID[OF e0 inv])
  show ?thesis
  proof (cases r0)
    case (Some u)
    have u: "looksLikeUUID u" using newKeyID_uuid e0 Some by blast
    note dir = keyDir_uuid[OF u]
    obtain r1 s1 where e1: "root_Mkdir (keyDir u) s0 = (r1, s1)" by fastforce
    have 1: "kms_inv s1" using kms_inv_Mkdir[OF 0 uuid_plain[OF u], of "[''keys'']"] u e1 dir by simp
    obtain r2 s2 where e2: "writeJSON (keyFile u ''meta.json'') (CMeta (newKeyMetadata i u (clock s0))) s1 = (r2, s2)"
      by fastforce
    have 2: "kms_inv s2"
      using kms_inv_write_key[OF 1 dir u, of "''meta.json''" "CMeta (newKeyMetadata i u (clock s0))"] e2
        meta_ok_new[OF ok] by (simp add: key_entry_ok_def)
    obtain r3 s3 where e3: "(if ci_KeySpec i = keySpecSymmetricDefault \<or> isHMACSpec (ci_KeySpec i)
        then createSymmetricMaterial u (ci_KeySpec i) s2 else createAsymmetricMaterial cr u (ci_KeySpec i) s2) = (r3, s3)"
      by fastforce
    have 3: "kms_inv s3" by (rule inv_create_material[OF 2 u e3])
    have 4: "kms_inv s'" if "writeJSON (keyFile u ''policy.json'') (CPolicy p) s3 = (r, s')" for p r s'
      using kms_inv_write_key[OF 3 dir u, of "''policy.json''" "CPolicy p"] that by (simp add: key_entry_ok_def)
    show ?thesis
      unfolding CreateKey_def e0 Some prod.case option.case Let_def e1 e2 e3
      using 1 2 3 4 inv_clean[OF _ u] by (auto split: option.splits sum.splits prod.splits)
  qed (use 0 in \<open>simp add: CreateKey_def e0\<close>)
qed

section \<open>Every call keeps the invariant\<close>

lemma exec_inv: "kms_inv s \<Longrightarrow> call_ok s c \<Longrightarrow> kms_inv (exec cr c s)"
proof (cases c)
  case (CallCreateKey i)
  then show "kms_inv s \<Longrightarrow> call_ok s c \<Longrightarrow> ?thesis" using inv_CreateKey by simp
next
  case (CallEnableKeyRotation k d)
  then show "kms_inv s \<Longrightarrow> call_ok s c \<Longrightarrow> ?thesis" using inv_EnableKeyRotation by simp
qed (simp_all add: inv_PutKeyPolicy inv_CreateAlias inv_DeleteAlias inv_UpdateAlias inv_EnableKey inv_DisableKey
      inv_ScheduleKeyDeletion inv_CancelKeyDeletion inv_DisableKeyRotation inv_RotateKeyOnDemand
      inv_TagResource inv_UntagResource inv_CreateGrant inv_RevokeGrant inv_RetireGrantByToken kms_inv_randRead)

lemma run_inv: "kms_inv s \<Longrightarrow> admissible cr cs s \<Longrightarrow> kms_inv (run cr cs s)"
  by (induction cs arbitrary: s) (simp_all add: exec_inv)

end
