(* ===== verification/Kms_Frame.thy ===== *)
theory Kms_Frame
  imports Kms_Calls
begin

text \<open>
  Which paths a storage call can change. \<open>touches s c p\<close> is the footprint of the call \<open>c\<close> in the state
  \<open>s\<close>; a path outside of it holds the same node after the call, whatever fails on the way. The
  isolation of keys and aliases from each other, the frozen state of a key that is pending deletion
  and the persistence of key material rest on this.
\<close>

fun touches :: "kms \<Rightarrow> kms_call \<Rightarrow> path \<Rightarrow> bool" where
  "touches s (CallCreateKey _) p \<longleftrightarrow>
     (\<exists>u. looksLikeUUID u \<and> look s [''keys'', u] = None \<and> (p = [''keys'', u] \<or> (\<exists>f. p = [''keys'', u, f])))"
| "touches s (CallPutKeyPolicy k _) p \<longleftrightarrow> p = keyFile k ''policy.json''"
| "touches s (CallCreateAlias a _) p \<longleftrightarrow> p = aliasPath a"
| "touches s (CallDeleteAlias a) p \<longleftrightarrow> p = aliasPath a"
| "touches s (CallUpdateAlias a _) p \<longleftrightarrow> p = aliasPath a"
| "touches s (CallEnableKey k) p \<longleftrightarrow> p = keyFile k ''meta.json''"
| "touches s (CallDisableKey k) p \<longleftrightarrow> p = keyFile k ''meta.json''"
| "touches s (CallScheduleKeyDeletion k _) p \<longleftrightarrow> p = keyFile k ''meta.json''"
| "touches s (CallCancelKeyDeletion k) p \<longleftrightarrow> p = keyFile k ''meta.json''"
| "touches s (CallEnableKeyRotation k _) p \<longleftrightarrow> p = keyFile k ''rotation.json''"
| "touches s (CallDisableKeyRotation k) p \<longleftrightarrow> p = keyFile k ''rotation.json''"
| "touches s (CallRotateKeyOnDemand k) p \<longleftrightarrow>
     p = materialsDir k \<or> p = keyFile k ''material.json'' \<or> p = keyFile k ''rotation_history.json''
     \<or> (\<exists>m. readJSON asMaterial s (keyFile k ''material.json'') = Inr m
           \<and> p = materialFile k (mt_KeyMaterialID m @ ''.json''))"
| "touches s (CallTagResource k _) p \<longleftrightarrow> p = keyFile k ''tags.json''"
| "touches s (CallUntagResource k _) p \<longleftrightarrow> p = keyFile k ''tags.json''"
| "touches s (CallCreateGrant k _) p \<longleftrightarrow> p = grantsDir k \<or> (\<exists>g. looksLikeUUID g \<and> p = grantPath k g)"
| "touches s (CallRevokeGrant k g) p \<longleftrightarrow> p = grantPath k g"
| "touches s (CallRetireGrantByToken _) p \<longleftrightarrow>
     (\<exists>u g. looksLikeUUID g \<and> look s [''keys'', u] = Some Dir \<and> p = [''keys'', u, ''grants'', g @ ''.json''])"
| "touches s (CallRandRead _) p \<longleftrightarrow> False"

section \<open>File operations\<close>

lemma look_write: "look (snd (writeJSON q c s)) p = look s p \<or> p = q"
  by (auto simp: writeJSON_def root_WriteFile_def fs_simps split: sum.splits node.splits)

lemma look_mkdir: "look (snd (root_Mkdir q s)) p = look s p \<or> p = q"
  by (auto simp: root_Mkdir_def fs_simps split: sum.splits node.splits option.splits)

lemma look_remove: "look (snd (root_Remove q s)) p = look s p \<or> p = q"
  by (auto simp: root_Remove_def fs_simps split: sum.splits node.splits)

lemma look_write_eq: "writeJSON q c s = (r, s') \<Longrightarrow> p \<noteq> q \<Longrightarrow> look s' p = look s p"
  using look_write[of q c s p] by simp

lemma look_mkdir_eq: "root_Mkdir q s = (r, s') \<Longrightarrow> p \<noteq> q \<Longrightarrow> look s' p = look s p"
  using look_mkdir[of q s p] by simp

lemma look_remove_eq: "root_Remove q s = (r, s') \<Longrightarrow> p \<noteq> q \<Longrightarrow> look s' p = look s p"
  using look_remove[of q s p] by simp

lemma look_rand_eq: "randRead n s = (r, s') \<Longrightarrow> look s' p = look s p"
  using look_randRead[of n s] by simp

lemma look_newKeyID_eq: "newKeyID s = (r, s') \<Longrightarrow> look s' p = look s p"
  using look_newKeyID[of s] by simp

lemmas look_steps = look_write_eq look_mkdir_eq look_remove_eq look_rand_eq look_newKeyID_eq

section \<open>Footprints\<close>

lemma frame_simple:
  "p \<noteq> keyFile k ''policy.json'' \<Longrightarrow> look (snd (PutKeyPolicy k y s)) p = look s p"
  "p \<noteq> aliasPath a \<Longrightarrow> look (snd (CreateAlias a t s)) p = look s p"
  "p \<noteq> aliasPath a \<Longrightarrow> look (snd (UpdateAlias a t s)) p = look s p"
  "p \<noteq> aliasPath a \<Longrightarrow> look (snd (DeleteAlias a s)) p = look s p"
  "p \<noteq> keyFile k ''meta.json'' \<Longrightarrow> look (snd (EnableKey k s)) p = look s p"
  "p \<noteq> keyFile k ''meta.json'' \<Longrightarrow> look (snd (DisableKey k s)) p = look s p"
  "p \<noteq> keyFile k ''meta.json'' \<Longrightarrow> look (snd (ScheduleKeyDeletion k d s)) p = look s p"
  "p \<noteq> keyFile k ''meta.json'' \<Longrightarrow> look (snd (CancelKeyDeletion k s)) p = look s p"
  "p \<noteq> keyFile k ''rotation.json'' \<Longrightarrow> look (snd (EnableKeyRotation k d s)) p = look s p"
  "p \<noteq> keyFile k ''rotation.json'' \<Longrightarrow> look (snd (DisableKeyRotation k s)) p = look s p"
  "p \<noteq> keyFile k ''tags.json'' \<Longrightarrow> look (snd (TagResource k ts s)) p = look s p"
  "p \<noteq> keyFile k ''tags.json'' \<Longrightarrow> look (snd (UntagResource k ks s)) p = look s p"
  "p \<noteq> grantPath k g \<Longrightarrow> look (snd (RevokeGrant k g s)) p = look s p"
  using look_write[of "keyFile k ''policy.json''"] look_write[of "aliasPath a"]
    look_write[of "keyFile k ''meta.json''"] look_write[of "keyFile k ''rotation.json''"]
    look_write[of "keyFile k ''tags.json''"]
  by (fastforce simp: PutKeyPolicy_def CreateAlias_def UpdateAlias_def DeleteAlias_def EnableKey_def DisableKey_def
      ScheduleKeyDeletion_def CancelKeyDeletion_def EnableKeyRotation_def DisableKeyRotation_def TagResource_def
      UntagResource_def RevokeGrant_def Let_def dest: look_remove_eq
      split: option.splits sum.splits prod.splits ioerr.splits)+

lemma frame_rotateMaterial:
  assumes "p \<noteq> materialsDir k" "p \<noteq> keyFile k ''material.json''" "p \<noteq> keyFile k ''rotation_history.json''"
    "p \<noteq> materialFile k (mt_KeyMaterialID mat @ ''.json'')"
  shows "look (snd (rotateMaterial k meta h mat s)) p = look s p"
proof -
  obtain r1 s1 where e1: "root_Mkdir (materialsDir k) s = (r1, s1)" by fastforce
  obtain r2 s2 where e2: "writeJSON (materialFile k (mt_KeyMaterialID mat @ ''.json'')) (CMaterial mat) s1 = (r2, s2)"
    by fastforce
  obtain r3 s3 where e3: "randRead 32 s2 = (r3, s3)" by fastforce
  obtain r4 s4 where e4: "randRead 32 s3 = (r4, s4)" by fastforce
  have 1: "look s1 p = look s p" and 2: "look s2 p = look s p" and 3: "look s3 p = look s p" and 4: "look s4 p = look s p"
    using look_mkdir_eq[OF e1 assms(1)] look_write_eq[OF e2 assms(4)] look_rand_eq[OF e3] look_rand_eq[OF e4] by simp_all
  have 5: "look s' p = look s p" if "writeJSON (keyFile k ''material.json'') c s4 = (r, s')" for c r s'
    using look_write_eq[OF that assms(2)] 4 by simp
  have 6: "look (snd (writeJSON (keyFile k ''rotation_history.json'') c s')) p = look s' p" for c s'
    using look_write[of "keyFile k ''rotation_history.json''" c s' p] assms(3) by blast
  show ?thesis
    unfolding rotateMaterial_def e1 prod.case e2 e3 e4
    using 1 2 3 4 5 6 by (auto split: option.splits prod.splits)
qed

lemma frame_RotateKeyOnDemand:
  assumes "\<not> touches s (CallRotateKeyOnDemand k) p"
  shows "look (snd (RotateKeyOnDemand k s)) p = look s p"
  using assms by (auto simp: RotateKeyOnDemand_def intro!: frame_rotateMaterial split: sum.splits)

lemma frame_CreateGrant:
  assumes "\<not> touches s (CallCreateGrant k i) p"
  shows "look (snd (CreateGrant k i s)) p = look s p"
proof -
  obtain r1 s1 where e1: "root_Mkdir (grantsDir k) s = (r1, s1)" by fastforce
  obtain r2 s2 where e2: "newKeyID s1 = (r2, s2)" by fastforce
  obtain r3 s3 where e3: "newKeyID s2 = (r3, s3)" by fastforce
  have 1: "look s1 p = look s p" and 2: "look s2 p = look s p" and 3: "look s3 p = look s p"
    using look_mkdir_eq[OF e1] look_newKeyID_eq[OF e2] look_newKeyID_eq[OF e3] assms by simp_all
  have 4: "look (snd (writeJSON (grantPath k g) c s3)) p = look s p" if "r2 = Some g" for g c
    using look_write[of "grantPath k g" c s3 p] 3 assms newKeyID_uuid[of s1 g s2] e2 that by auto
  show ?thesis
    unfolding CreateGrant_def newGrantID_def newGrantToken_def e1 prod.case e2 e3 Let_def
    using 1 2 3 4 by (auto simp: e2 e3 split: option.splits sum.splits)
qed

text \<open>The grants that a listing finds are files of the layout, named after their IDs.\<close>

lemma collectGrants_read:
  "g \<in> set (collectGrants s k es) \<Longrightarrow>
     \<exists>name. (name, False) \<in> set es \<and> readJSON asGrant s (filepath_Join [''keys'', k, ''grants'', name]) = Inr g"
  by (induction s k es rule: collectGrants.induct) (auto split: if_splits sum.splits)

lemma listGrants_uuid:
  assumes inv: "kms_inv s" and u: "plain_elem u" and l: "listGrantsForKeyLocked s u = Inr gs" and g: "g \<in> set gs"
  shows "looksLikeUUID (gr_GrantId g) \<and> look s [''keys'', u] = Some Dir
    \<and> look s [''keys'', u, ''grants'', gr_GrantId g @ ''.json''] = Some (File (Some (CGrant g)))"
proof -
  have dir: "grantsDir u = [''keys'', u, ''grants'']" using keyDir_plain[OF u] by (simp add: grantsDir_keyDir)
  obtain es where es: "root_ReadDir s (grantsDir u) = Inr es" "g \<in> set (collectGrants s u es)"
    using l g by (cases "root_ReadDir s (grantsDir u)") (auto simp: listGrantsForKeyLocked_def split: ioerr.splits)
  obtain name where n: "(name, False) \<in> set es"
    and r: "readJSON asGrant s (filepath_Join [''keys'', u, ''grants'', name]) = Inr g"
    using collectGrants_read[OF es(2)] by blast
  have "es = entries s (grantsDir u)" using es(1) by (auto simp: root_ReadDir_def split: if_splits sum.splits node.splits)
  then obtain nd where nd: "look s [''keys'', u, ''grants'', name] = Some nd"
    using n entries_mem[OF kms_inv_wf[OF inv]] dir by fastforce
  then have pl: "list_all plain_elem [''keys'', u, ''grants'', name]" by (rule disk_wf_plain[OF kms_inv_wf[OF inv]])
  then obtain c where c: "look s [''keys'', u, ''grants'', name] = Some (File (Some c))" "asGrant c = Some g"
    using readJSON_Inr[OF r] filepath_Join_plain[OF pl] by auto
  then have "c = CGrant g" by (cases c) auto
  moreover have "look s [''keys'', u] = Some Dir"
    using disk_wf_prefix[OF kms_inv_wf[OF inv], of "[''keys'', u]" "[''grants'', name]"] c(1) by simp
  moreover have "grant_ok u name g" using kms_inv_layout[OF inv c(1)] c(2) by auto
  ultimately show ?thesis using c(1) by (auto simp: grant_ok_def)
qed

lemma collectKeyIDs_mem:
  "collectKeyIDs s es = Inr ids \<Longrightarrow> k \<in> set ids \<Longrightarrow> (k, True) \<in> set es \<and> (\<exists>n. root_Stat s (keyFile k ''meta.json'') = Inr n)"
proof (induction s es arbitrary: ids rule: collectKeyIDs.induct)
  case (2 s name isDir es)
  then show ?case by (fastforce split: if_splits sum.splits ioerr.splits)
qed simp

lemma listKeyIDs_plain:
  assumes inv: "kms_inv s" and l: "listKeyIDsLocked s = Inr ids" and k: "k \<in> set ids"
  shows "looksLikeUUID k"
proof -
  obtain es where es: "root_ReadDir s [''keys''] = Inr es" "collectKeyIDs s es = Inr ids"
    using l by (auto simp: listKeyIDsLocked_def split: sum.splits)
  have "es = entries s [''keys'']" using es(1) by (auto simp: root_ReadDir_def split: if_splits sum.splits node.splits)
  then obtain n where "look s [''keys'', k] = Some n"
    using collectKeyIDs_mem[OF es(2) k] entries_mem[OF kms_inv_wf[OF inv]] by fastforce
  then show ?thesis using kms_inv_layout[OF inv] by fastforce
qed

lemma frame_retireIn:
  assumes inv: "kms_inv s" and ids: "\<forall>k\<in>set ids. looksLikeUUID k" and p: "\<not> touches s (CallRetireGrantByToken t) p"
  shows "look (snd (retireIn t ids s)) p = look s p"
  using ids
proof (induction ids)
  case (Cons k ids)
  have u: "plain_elem k" using Cons.prems by (simp add: uuid_plain)
  have "look s' p = look s p" if l: "listGrantsForKeyLocked s k = Inr gs" and f: "List.find (\<lambda>g. gr_GrantToken g = t) gs = Some g"
    and r: "root_Remove (grantPath k (gr_GrantId g)) s = (r, s')" for gs g r s'
  proof -
    have "g \<in> set gs" using f by (auto simp: find_Some_iff)
    note g = listGrants_uuid[OF inv u l this]
    then have "CHR ''/'' \<notin> set (gr_GrantId g)" using uuid_chars by blast
    then have "grantPath k (gr_GrantId g) = [''keys'', k, ''grants'', gr_GrantId g @ ''.json'']"
      using keyDir_plain[OF u] by (simp add: grantPath_keyDir)
    then show ?thesis using look_remove_eq[OF r, of p] p g by auto
  qed
  then show ?case using Cons by (auto split: sum.splits option.splits prod.splits)
qed simp

lemma frame_RetireGrantByToken:
  "kms_inv s \<Longrightarrow> \<not> touches s (CallRetireGrantByToken t) p \<Longrightarrow> look (snd (RetireGrantByToken t s)) p = look s p"
  using listKeyIDs_plain frame_retireIn by (auto simp: RetireGrantByToken_def split: sum.splits)

lemma mkdir_outcome:
  "root_Mkdir q s = (r, s') \<Longrightarrow> (r \<noteq> None \<and> s' = s) \<or> (r = None \<and> look s q = None \<and> s' = put q Dir s)"
  by (auto simp: root_Mkdir_def split: if_splits sum.splits node.splits option.splits)

definition own_paths :: "string \<Rightarrow> path set" where
  "own_paths u = {keyDir u, keyFile u ''meta.json'', keyFile u ''material.json'', keyFile u ''policy.json''}"

lemma look_removeLogged: "p \<noteq> q \<Longrightarrow> look (removeLogged q s) p = look s p"
  using look_remove[of q s p] by (auto simp: removeLogged_def)

lemma frame_clean:
  assumes "p \<notin> own_paths u"
  shows "look (cleanMetaDir u s) p = look s p" and "look (cleanMetaMaterialDir u s) p = look s p"
  using assms by (simp_all add: own_paths_def cleanMetaDir_def cleanMetaMaterialDir_def look_removeLogged)

lemma frame_createMaterial:
  assumes p: "p \<notin> own_paths u"
    and r: "(if b then createSymmetricMaterial u spec s else createAsymmetricMaterial cr u spec s) = (r, s')"
  shows "look s' p = look s p"
proof -
  have w: "look t' p = look t p" if "writeJSON (keyFile u ''material.json'') c t = (r, t')" for c t r t'
    using look_write_eq[OF that, of p] p by (simp add: own_paths_def)
  show ?thesis
    using r frame_clean[OF p] w look_rand_eq[of _ _ _ _ p]
    by (fastforce simp: createSymmetricMaterial_def createAsymmetricMaterial_def Let_def
        split: if_splits option.splits sum.splits prod.splits)
qed

lemma frame_CreateKey:
  assumes p: "\<not> touches s (CallCreateKey i) p"
  shows "look (snd (CreateKey cr i s)) p = look s p"
proof -
  obtain r0 s0 where e0: "newKeyID s = (r0, s0)" by fastforce
  have 0: "look s0 q = look s q" for q using look_newKeyID_eq[OF e0] .
  show ?thesis
  proof (cases r0)
    case (Some u)
    have u: "looksLikeUUID u" using newKeyID_uuid e0 Some by blast
    note dir = keyDir_uuid[OF u]
    obtain r1 s1 where e1: "root_Mkdir (keyDir u) s0 = (r1, s1)" by fastforce
    show ?thesis
    proof (cases r1)
      case None
      then have "look s [''keys'', u] = None" using mkdir_outcome[OF e1] 0 dir by simp
      then have far: "p \<notin> own_paths u" using p u dir by (auto simp: own_paths_def key_paths)
      have 1: "look s1 p = look s p" using look_mkdir_eq[OF e1, of p] far 0 by (simp add: own_paths_def)
      have w: "look t' p = look t p" if "writeJSON (keyFile u f) c t = (r, t')" "f \<in> {''meta.json'', ''policy.json''}" for f c t r t'
        using look_write_eq[OF that(1), of p] that(2) far by (auto simp: own_paths_def)
      obtain r2 s2 where e2: "writeJSON (keyFile u ''meta.json'') (CMeta (newKeyMetadata i u (clock s0))) s1 = (r2, s2)"
        by fastforce
      have 2: "look s2 p = look s p" using w[OF e2] 1 by simp
      obtain r3 s3 where e3: "(if ci_KeySpec i = keySpecSymmetricDefault \<or> isHMACSpec (ci_KeySpec i)
          then createSymmetricMaterial u (ci_KeySpec i) s2 else createAsymmetricMaterial cr u (ci_KeySpec i) s2) = (r3, s3)"
        by fastforce
      have 3: "look s3 p = look s p" using frame_createMaterial[OF far e3] 2 by simp
      have 4: "look s' p = look s p" if "writeJSON (keyFile u ''policy.json'') c s3 = (r, s')" for c r s'
        using w[OF that] 3 by simp
      show ?thesis
        unfolding CreateKey_def e0 Some prod.case option.case Let_def e1 None e2 e3
        using 2 3 4 frame_clean[OF far] by (auto split: option.splits sum.splits prod.splits)
    qed (use mkdir_outcome[OF e1] Some e0 e1 0 in \<open>auto simp: CreateKey_def Let_def\<close>)
  qed (use 0 in \<open>simp add: CreateKey_def e0\<close>)
qed


text \<open>A call leaves every path outside its footprint as it was.\<close>

lemma exec_frame: "kms_inv s \<Longrightarrow> \<not> touches s c p \<Longrightarrow> look (exec cr c s) p = look s p"
proof (cases c)
  case (CallCreateKey i)
  then show "\<not> touches s c p \<Longrightarrow> ?thesis" using frame_CreateKey by simp
next
  case (CallRotateKeyOnDemand k)
  then show "\<not> touches s c p \<Longrightarrow> ?thesis" using frame_RotateKeyOnDemand by (simp only: exec.simps)
next
  case (CallCreateGrant k i)
  then show "\<not> touches s c p \<Longrightarrow> ?thesis" using frame_CreateGrant by (simp only: exec.simps)
next
  case (CallRetireGrantByToken t)
  then show "kms_inv s \<Longrightarrow> \<not> touches s c p \<Longrightarrow> ?thesis" using frame_RetireGrantByToken by (simp only: exec.simps)
qed (simp_all add: frame_simple)

section \<open>Settings\<close>

text \<open>No call changes the fault behaviour, the alias limit or the clock.\<close>

definition settings :: "kms \<Rightarrow> (iop \<Rightarrow> path \<Rightarrow> bool) \<times> nat \<times> int" where
  "settings s = (d_fault s, maxAliasesPerKey s, clock s)"

lemma settings_put_del [simp]: "settings (put p n s) = settings s" "settings (del p s) = settings s"
  "settings (s\<lparr>rnd := r\<rparr>) = settings s"
  by (simp_all add: settings_def put_def del_def)

lemma settings_file_ops [simp]:
  "settings (snd (writeJSON q c s)) = settings s" "settings (snd (root_Mkdir q s)) = settings s"
  "settings (snd (root_Remove q s)) = settings s" "settings (snd (randRead n s)) = settings s"
  by (auto simp: writeJSON_def root_WriteFile_def root_Mkdir_def root_Remove_def randRead_def Let_def
      split: sum.splits node.splits option.splits list.splits)

lemma settings_steps:
  "writeJSON q c s = (r, s') \<Longrightarrow> settings s' = settings s"
  "root_Mkdir q s = (r, s') \<Longrightarrow> settings s' = settings s"
  "root_Remove q s = (r, s') \<Longrightarrow> settings s' = settings s"
  "randRead n s = (r2, s') \<Longrightarrow> settings s' = settings s"
  using settings_file_ops(1)[of q c s] settings_file_ops(2)[of q s] settings_file_ops(3)[of q s]
    settings_file_ops(4)[of n s] by simp_all

lemma settings_newKeyID: "newKeyID s = (r, s') \<Longrightarrow> settings s' = settings s"
  by (auto simp: newKeyID_def dest: settings_steps split: prod.splits option.splits)

lemma settings_simple:
  "settings (snd (PutKeyPolicy k y s)) = settings s"
  "settings (snd (CreateAlias a t s)) = settings s"
  "settings (snd (UpdateAlias a t s)) = settings s"
  "settings (snd (DeleteAlias a s)) = settings s"
  "settings (snd (EnableKey k s)) = settings s"
  "settings (snd (DisableKey k s)) = settings s"
  "settings (snd (ScheduleKeyDeletion k d s)) = settings s"
  "settings (snd (CancelKeyDeletion k s)) = settings s"
  "settings (snd (EnableKeyRotation k d s)) = settings s"
  "settings (snd (DisableKeyRotation k s)) = settings s"
  "settings (snd (TagResource k ts s)) = settings s"
  "settings (snd (UntagResource k ks s)) = settings s"
  "settings (snd (RevokeGrant k g s)) = settings s"
  by (auto simp: PutKeyPolicy_def CreateAlias_def UpdateAlias_def DeleteAlias_def EnableKey_def DisableKey_def
      ScheduleKeyDeletion_def CancelKeyDeletion_def EnableKeyRotation_def DisableKeyRotation_def TagResource_def
      UntagResource_def RevokeGrant_def Let_def dest: settings_steps
      split: option.splits sum.splits prod.splits ioerr.splits)

lemma settings_RotateKeyOnDemand: "settings (snd (RotateKeyOnDemand k s)) = settings s"
  by (auto simp: RotateKeyOnDemand_def rotateMaterial_def dest!: settings_steps split: sum.splits option.splits prod.splits)

lemma settings_CreateGrant: "settings (snd (CreateGrant k i s)) = settings s"
  by (auto simp: CreateGrant_def newGrantID_def newGrantToken_def Let_def dest!: settings_steps settings_newKeyID
      split: sum.splits option.splits prod.splits)

lemma settings_retireIn: "settings (snd (retireIn t ids s)) = settings s"
  by (induction ids) (auto dest: settings_steps split: sum.splits option.splits prod.splits)

lemma settings_clean [simp]:
  "settings (cleanMetaDir u s) = settings s" "settings (cleanMetaMaterialDir u s) = settings s"
  by (simp_all add: cleanMetaDir_def cleanMetaMaterialDir_def removeLogged_def)

lemma settings_createMaterial:
  "createSymmetricMaterial u spec s = (r, s') \<Longrightarrow> settings s' = settings s"
  "createAsymmetricMaterial cr u spec s = (r, s') \<Longrightarrow> settings s' = settings s"
  by (auto simp: createSymmetricMaterial_def createAsymmetricMaterial_def Let_def dest!: settings_steps
      split: if_splits option.splits sum.splits prod.splits)

lemma settings_CreateKey: "settings (snd (CreateKey cr i s)) = settings s"
proof -
  obtain r0 s0 where e0: "newKeyID s = (r0, s0)" by fastforce
  show ?thesis
  proof (cases r0)
    case (Some u)
    obtain r1 s1 where e1: "root_Mkdir (keyDir u) s0 = (r1, s1)" by fastforce
    obtain r2 s2 where e2: "writeJSON (keyFile u ''meta.json'') (CMeta (newKeyMetadata i u (clock s0))) s1 = (r2, s2)"
      by fastforce
    obtain r3 s3 where e3: "(if ci_KeySpec i = keySpecSymmetricDefault \<or> isHMACSpec (ci_KeySpec i)
        then createSymmetricMaterial u (ci_KeySpec i) s2 else createAsymmetricMaterial cr u (ci_KeySpec i) s2) = (r3, s3)"
      by fastforce
    have eq: "settings s1 = settings s" "settings s2 = settings s" "settings s3 = settings s"
      using settings_newKeyID[OF e0] settings_steps(2)[OF e1] settings_steps(1)[OF e2] settings_createMaterial e3
      by (auto split: if_splits)
    show ?thesis
      unfolding CreateKey_def e0 Some prod.case option.case Let_def e1 e2 e3
      using eq by (auto dest: settings_steps(1) split: option.splits sum.splits prod.splits)
  qed (use settings_newKeyID[OF e0] in \<open>simp add: CreateKey_def e0\<close>)
qed

lemma exec_settings: "settings (exec cr c s) = settings s"
  by (cases c) (simp_all add: settings_simple settings_RotateKeyOnDemand settings_CreateGrant settings_retireIn
      RetireGrantByToken_def settings_CreateKey split: sum.splits)

end
