(* ===== verification/Kms_Refinement.thy ===== *)
theory Kms_Refinement
  imports Kms_Frame
begin

text \<open>
  Requests refine storage calls: whatever \<open>serveHTTP\<close> and the S3-facing \<open>ResolveKeyForEncryption\<close> do to
  the state is a sequence of admissible calls of \<open>Kms_Calls\<close>. Reachability is a step relation over
  requests, restarts and changes of the environment (faults, random source, clock), and the
  invariant of \<open>Kms_Layout\<close> holds in every reachable state.
\<close>

text \<open>The calls that a request may make; every request may also use the random source.\<close>

definition issued :: "kms_request \<Rightarrow> kms_call \<Rightarrow> bool" where
  "issued req c \<longleftrightarrow> (case c of
      CallCreateKey _ \<Rightarrow> (case req of RqCreateKey _ \<Rightarrow> True | _ \<Rightarrow> False)
    | CallPutKeyPolicy _ _ \<Rightarrow> (case req of RqPutKeyPolicy _ \<Rightarrow> True | _ \<Rightarrow> False)
    | CallCreateAlias _ _ \<Rightarrow> (case req of RqCreateAlias _ \<Rightarrow> True | _ \<Rightarrow> False)
    | CallDeleteAlias _ \<Rightarrow> (case req of RqDeleteAlias _ \<Rightarrow> True | _ \<Rightarrow> False)
    | CallUpdateAlias _ _ \<Rightarrow> (case req of RqUpdateAlias _ \<Rightarrow> True | _ \<Rightarrow> False)
    | CallEnableKey _ \<Rightarrow> (case req of RqEnableKey _ \<Rightarrow> True | _ \<Rightarrow> False)
    | CallDisableKey _ \<Rightarrow> (case req of RqDisableKey _ \<Rightarrow> True | _ \<Rightarrow> False)
    | CallScheduleKeyDeletion _ _ \<Rightarrow> (case req of RqScheduleKeyDeletion _ \<Rightarrow> True | _ \<Rightarrow> False)
    | CallCancelKeyDeletion _ \<Rightarrow> (case req of RqCancelKeyDeletion _ \<Rightarrow> True | _ \<Rightarrow> False)
    | CallEnableKeyRotation _ _ \<Rightarrow> (case req of RqEnableKeyRotation _ \<Rightarrow> True | _ \<Rightarrow> False)
    | CallDisableKeyRotation _ \<Rightarrow> (case req of RqDisableKeyRotation _ \<Rightarrow> True | _ \<Rightarrow> False)
    | CallRotateKeyOnDemand _ \<Rightarrow> (case req of RqRotateKeyOnDemand _ \<Rightarrow> True | _ \<Rightarrow> False)
    | CallTagResource _ _ \<Rightarrow> (case req of RqTagResource _ \<Rightarrow> True | RqCreateKey _ \<Rightarrow> True | _ \<Rightarrow> False)
    | CallUntagResource _ _ \<Rightarrow> (case req of RqUntagResource _ \<Rightarrow> True | _ \<Rightarrow> False)
    | CallCreateGrant _ _ \<Rightarrow> (case req of RqCreateGrant _ \<Rightarrow> True | _ \<Rightarrow> False)
    | CallRevokeGrant _ g \<Rightarrow>
        (case req of RqRevokeGrant (Some (_, g')) \<Rightarrow> g = g' | RqRetireGrant (Some (_, _, g')) \<Rightarrow> g = g' | _ \<Rightarrow> False)
    | CallRetireGrantByToken t \<Rightarrow> (case req of RqRetireGrant (Some (t', _, _)) \<Rightarrow> t = t' | _ \<Rightarrow> False)
    | CallRandRead _ \<Rightarrow> True)"

text \<open>The state \<open>s'\<close> is reached from \<open>s\<close> by admissible calls that satisfy \<open>I\<close>.\<close>

definition by_calls :: "(kms_call \<Rightarrow> bool) \<Rightarrow> crypto \<Rightarrow> kms \<Rightarrow> kms \<Rightarrow> bool" where
  "by_calls I cr s s' \<longleftrightarrow> (\<exists>cs. admissible cr cs s \<and> list_all I cs \<and> s' = run cr cs s)"

lemma by_calls_refl [simp]: "by_calls I cr s s"
  unfolding by_calls_def by (rule exI[of _ "[]"]) simp

lemma by_calls_trans: "by_calls I cr s s' \<Longrightarrow> by_calls I cr s' s'' \<Longrightarrow> by_calls I cr s s''"
  unfolding by_calls_def by (elim exE conjE) (metis admissible_append list_all_append run_simps(3))

lemma by_call: "call_ok s c \<Longrightarrow> I c \<Longrightarrow> exec cr c s = s' \<Longrightarrow> by_calls I cr s s'"
  unfolding by_calls_def by (rule exI[of _ "[c]"]) simp

lemma by_calls_mono: "by_calls I cr s s' \<Longrightarrow> (\<And>c. I c \<Longrightarrow> J c) \<Longrightarrow> by_calls J cr s s'"
  unfolding by_calls_def by (metis list_all_iff)

lemma by_calls_inv: "by_calls I cr s s' \<Longrightarrow> kms_inv s \<Longrightarrow> kms_inv s'"
  unfolding by_calls_def using run_inv by blast

text \<open>A property of states that each admissible call of the kind keeps is kept by the sequence.\<close>

lemma by_calls_keep:
  assumes "by_calls I cr s s'" and "kms_inv s" and "P s"
    and step: "\<And>t c. kms_inv t \<Longrightarrow> P t \<Longrightarrow> call_ok t c \<Longrightarrow> I c \<Longrightarrow> P (exec cr c t)"
  shows "P s'"
proof -
  obtain cs where cs: "admissible cr cs s" "list_all I cs" "s' = run cr cs s" using assms(1) by (auto simp: by_calls_def)
  have "kms_inv t \<Longrightarrow> P t \<Longrightarrow> admissible cr cs t \<Longrightarrow> list_all I cs \<Longrightarrow> P (run cr cs t)" for t
    by (induction cs arbitrary: t) (simp_all add: exec_inv step)
  then show ?thesis using cs assms(2,3) by simp
qed

lemma by_calls_settings: "by_calls I cr s s' \<Longrightarrow> settings s' = settings s"
proof -
  have "settings (run cr cs t) = settings t" for cs t by (induction cs arbitrary: t) (simp_all add: exec_settings)
  then show "by_calls I cr s s' \<Longrightarrow> settings s' = settings s" by (auto simp: by_calls_def)
qed

section \<open>One storage call\<close>

lemma storage_calls:
  "PutKeyPolicy k p s = (r0, s') \<Longrightarrow> readKeyMeta s k = Inr m \<Longrightarrow> km_KeyState m \<noteq> keyStatePendingDeletion \<Longrightarrow> I (CallPutKeyPolicy k p) \<Longrightarrow> by_calls I cr s s'"
  "DeleteAlias a s = (r1, s') \<Longrightarrow> I (CallDeleteAlias a) \<Longrightarrow> by_calls I cr s s'"
  "UpdateAlias a t s = (r2, s') \<Longrightarrow> I (CallUpdateAlias a t) \<Longrightarrow> by_calls I cr s s'"
  "EnableKey k s = (r3, s') \<Longrightarrow> I (CallEnableKey k) \<Longrightarrow> by_calls I cr s s'"
  "DisableKey k s = (r4, s') \<Longrightarrow> I (CallDisableKey k) \<Longrightarrow> by_calls I cr s s'"
  "CancelKeyDeletion k s = (r5, s') \<Longrightarrow> I (CallCancelKeyDeletion k) \<Longrightarrow> by_calls I cr s s'"
  "DisableKeyRotation k s = (r6, s') \<Longrightarrow> I (CallDisableKeyRotation k) \<Longrightarrow> by_calls I cr s s'"
  "RotateKeyOnDemand k s = (r7, s') \<Longrightarrow> I (CallRotateKeyOnDemand k) \<Longrightarrow> by_calls I cr s s'"
  "TagResource k ts s = (r8, s') \<Longrightarrow> I (CallTagResource k ts) \<Longrightarrow> by_calls I cr s s'"
  "UntagResource k ks s = (r9, s') \<Longrightarrow> I (CallUntagResource k ks) \<Longrightarrow> by_calls I cr s s'"
  "CreateGrant k gi s = (r10, s') \<Longrightarrow> I (CallCreateGrant k gi) \<Longrightarrow> by_calls I cr s s'"
  "RevokeGrant k g s = (r11, s') \<Longrightarrow> I (CallRevokeGrant k g) \<Longrightarrow> by_calls I cr s s'"
  "RetireGrantByToken t s = (r12, s') \<Longrightarrow> I (CallRetireGrantByToken t) \<Longrightarrow> by_calls I cr s s'"
  "randRead n s = (r13, s') \<Longrightarrow> I (CallRandRead n) \<Longrightarrow> by_calls I cr s s'"
  "CreateAlias a t s = (r14, s') \<Longrightarrow> has_prefix ''alias/'' a \<Longrightarrow> I (CallCreateAlias a t) \<Longrightarrow> by_calls I cr s s'"
  "ScheduleKeyDeletion k d s = (r15, s') \<Longrightarrow> minPendingWindowDays \<le> d \<Longrightarrow> d \<le> maxPendingWindowDays \<Longrightarrow> I (CallScheduleKeyDeletion k d) \<Longrightarrow> by_calls I cr s s'"
  "EnableKeyRotation k d s = (r16, s') \<Longrightarrow> minRotationPeriodDays \<le> d \<Longrightarrow> d \<le> maxRotationPeriodDays \<Longrightarrow> I (CallEnableKeyRotation k d) \<Longrightarrow> by_calls I cr s s'"
  "CreateKey cr i s = (r17, s') \<Longrightarrow> ci_KeySpec i \<in> set validKeySpecs \<Longrightarrow> isValidKeyUsageForSpec (ci_KeySpec i) (ci_KeyUsage i) \<Longrightarrow> I (CallCreateKey i) \<Longrightarrow> by_calls I cr s s'"
  by (rule by_call[of _ "CallPutKeyPolicy k p"]
      by_call[of _ "CallDeleteAlias a"]
      by_call[of _ "CallUpdateAlias a t"]
      by_call[of _ "CallEnableKey k"]
      by_call[of _ "CallDisableKey k"]
      by_call[of _ "CallCancelKeyDeletion k"]
      by_call[of _ "CallDisableKeyRotation k"]
      by_call[of _ "CallRotateKeyOnDemand k"]
      by_call[of _ "CallTagResource k ts"]
      by_call[of _ "CallUntagResource k ks"]
      by_call[of _ "CallCreateGrant k gi"]
      by_call[of _ "CallRevokeGrant k g"]
      by_call[of _ "CallRetireGrantByToken t"]
      by_call[of _ "CallRandRead n"]
      by_call[of _ "CallCreateAlias a t"]
      by_call[of _ "CallScheduleKeyDeletion k d"]
      by_call[of _ "CallEnableKeyRotation k d"]
      by_call[of _ "CallCreateKey i"];
      simp; fail)+

lemmas result_splits = option.splits sum.splits prod.splits kms_error.splits ioerr.splits

section \<open>Handlers that read\<close>

lemmas read_handler_defs = handleDescribeKey_def handleListKeys_def handleGetKeyPolicy_def handleDecrypt_def
  handleGenerateMac_def handleVerifyMac_def handleSign_def handleVerify_def handleListAliases_def
  handleGetKeyRotationStatus_def handleListKeyRotations_def handleGetPublicKey_def handleListResourceTags_def
  handleListGrants_def handleListRetirableGrants_def

lemma read_handlers:
  "snd (handleDescribeKey b s) = s" "snd (handleListKeys b2 s) = s" "snd (handleGetKeyPolicy b3 s) = s"
  "snd (handleGenerateMac cr b5 s) = s" "snd (handleVerifyMac cr b5 s) = s" "snd (handleSign cr b6 s) = s"
  "snd (handleVerify cr b6 s) = s" "snd (handleListAliases b2 s) = s" "snd (handleGetKeyRotationStatus b s) = s"
  "snd (handleListKeyRotations b2 s) = s" "snd (handleGetPublicKey cr b s) = s"
  "snd (handleListResourceTags b2 s) = s" "snd (handleListGrants b7 s) = s" "snd (handleListRetirableGrants b8 s) = s"
  "snd (handleDecrypt cr b4 s) = s"
  by (simp_all add: read_handler_defs withKeyRef_def split_beta split: option.splits sum.splits)

section \<open>Handlers that write\<close>

lemma write_handlers:
  "(\<And>k p. I (CallPutKeyPolicy k p)) \<Longrightarrow> by_calls I cr s (snd (handlePutKeyPolicy b s))"
  "(\<And>a. I (CallDeleteAlias a)) \<Longrightarrow> by_calls I cr s (snd (handleDeleteAlias b1 s))"
  "(\<And>a t. I (CallUpdateAlias a t)) \<Longrightarrow> by_calls I cr s (snd (handleUpdateAlias b2 s))"
  "(\<And>k. I (CallEnableKey k)) \<Longrightarrow> by_calls I cr s (snd (handleEnableKey b1 s))"
  "(\<And>k. I (CallDisableKey k)) \<Longrightarrow> by_calls I cr s (snd (handleDisableKey b1 s))"
  "(\<And>k. I (CallCancelKeyDeletion k)) \<Longrightarrow> by_calls I cr s (snd (handleCancelKeyDeletion b1 s))"
  "(\<And>k. I (CallDisableKeyRotation k)) \<Longrightarrow> by_calls I cr s (snd (handleDisableKeyRotation b1 s))"
  "(\<And>k. I (CallRotateKeyOnDemand k)) \<Longrightarrow> by_calls I cr s (snd (handleRotateKeyOnDemand b1 s))"
  "(\<And>k ts. I (CallTagResource k ts)) \<Longrightarrow> by_calls I cr s (snd (handleTagResource b3 s))"
  "(\<And>k ks. I (CallUntagResource k ks)) \<Longrightarrow> by_calls I cr s (snd (handleUntagResource b4 s))"
  "(\<And>k i. I (CallCreateGrant k i)) \<Longrightarrow> by_calls I cr s (snd (handleCreateGrant b5 s))"
  "(\<And>k r g. b2 = Some (r, g) \<Longrightarrow> I (CallRevokeGrant k g)) \<Longrightarrow> by_calls I cr s (snd (handleRevokeGrant b2 s))"
  by (auto simp: handlePutKeyPolicy_def handleDeleteAlias_def handleUpdateAlias_def handleEnableKey_def
      handleDisableKey_def handleCancelKeyDeletion_def handleDisableKeyRotation_def handleRotateKeyOnDemand_def
      handleTagResource_def handleUntagResource_def handleCreateGrant_def handleRevokeGrant_def withKeyRef_def
      resolveKeyMeta_def GetKeyMetadata_def
      intro: storage_calls split: option.splits sum.splits prod.splits if_splits)

lemma window_bounds: "minPendingWindowDays \<le> defaultPendingWindowDays" "defaultPendingWindowDays \<le> maxPendingWindowDays"
  "minRotationPeriodDays \<le> defaultRotationPeriodDays" "defaultRotationPeriodDays \<le> maxRotationPeriodDays"
  by (simp_all add: minPendingWindowDays_def defaultPendingWindowDays_def maxPendingWindowDays_def
      minRotationPeriodDays_def defaultRotationPeriodDays_def maxRotationPeriodDays_def)

lemma validateAliasName_prefix: "validateAliasName a \<Longrightarrow> has_prefix ''alias/'' a"
  by (simp add: validateAliasName_def reAliasName_def)

lemma calls_RetireGrant:
  assumes "\<And>k t r g. b = Some (t, r, g) \<Longrightarrow> I (CallRevokeGrant k g)" and "\<And>t r g. b = Some (t, r, g) \<Longrightarrow> I (CallRetireGrantByToken t)"
  shows "by_calls I cr s (snd (handleRetireGrant b s))"
  using assms by (auto simp: handleRetireGrant_def RetireGrantByID_def intro: storage_calls
      split: option.splits sum.splits prod.splits)

lemma calls_CreateAlias: "(\<And>a t. I (CallCreateAlias a t)) \<Longrightarrow> by_calls I cr s (snd (handleCreateAlias b s))"
  by (auto simp: handleCreateAlias_def intro: storage_calls dest: validateAliasName_prefix
      split: option.splits sum.splits prod.splits)

lemma calls_ScheduleKeyDeletion:
  "(\<And>k d. I (CallScheduleKeyDeletion k d)) \<Longrightarrow> by_calls I cr s (snd (handleScheduleKeyDeletion b s))"
  by (auto simp: handleScheduleKeyDeletion_def Let_def not_less window_bounds intro: storage_calls(16)
      split: option.splits sum.splits prod.splits)

lemma calls_EnableKeyRotation:
  "(\<And>k d. I (CallEnableKeyRotation k d)) \<Longrightarrow> by_calls I cr s (snd (handleEnableKeyRotation b s))"
  by (auto simp: handleEnableKeyRotation_def Let_def not_less window_bounds intro: storage_calls(17)
      split: option.splits sum.splits prod.splits)

lemma calls_CreateKey:
  assumes I: "\<And>i. I (CallCreateKey i)" "\<And>k ts. I (CallTagResource k ts)"
  shows "by_calls I cr s (snd (handleCreateKey cr b s))"
proof -
  have step: "by_calls I cr s (snd (case CreateKey cr i s of
        (Inl _, s) \<Rightarrow> (internalError, s)
      | (Inr meta, s) \<Rightarrow>
          if 0 < length ts then
            (case TagResource (km_KeyID meta) ts s of
               (Inl e, s) \<Rightarrow> (writeTagError e, s) | (Inr _, s) \<Rightarrow> (ROk (BKeyMetadata meta), s))
          else (ROk (BKeyMetadata meta), s)))"
    if "ci_KeySpec i \<in> set validKeySpecs" "isValidKeyUsageForSpec (ci_KeySpec i) (ci_KeyUsage i)" for i ts
  proof -
    obtain r1 s1 where e1: "CreateKey cr i s = (r1, s1)" by fastforce
    note 1 = storage_calls(18)[where I = I, OF e1 that I(1)]
    have "by_calls I cr s s2" if "TagResource k ts s1 = (r2, s2)" for k r2 s2
      using by_calls_trans[OF 1 storage_calls(9)[where I = I, OF that I(2)]] .
    then show ?thesis using 1 by (auto simp: e1 split: sum.splits prod.splits)
  qed
  show ?thesis
    unfolding handleCreateKey_def Let_def
    by (cases b) (simp_all only: option.case if_split[where P = "\<lambda>x. by_calls I cr s (snd x)"] snd_conv
        by_calls_refl simp_thms, simp add: step)
qed

section \<open>Handlers that only use the random source\<close>

lemma calls_readFullRand: "readFullRand n s = (r, s') \<Longrightarrow> I (CallRandRead n) \<Longrightarrow> by_calls I cr s s'"
  by (auto simp: readFullRand_def intro: storage_calls(14) split: option.splits prod.splits)

lemma calls_sealWithNonce:
  "sealWithNonce cr k m p c s = (r, s') \<Longrightarrow> (\<And>n. I (CallRandRead n)) \<Longrightarrow> by_calls I cr' s s'"
  by (auto simp: sealWithNonce_def intro: calls_readFullRand split: option.splits prod.splits)

lemma dataplane_handlers:
  "(\<And>n. I (CallRandRead n)) \<Longrightarrow> by_calls I cr s (snd (handleEncrypt cr b1 s))"
  "(\<And>n. I (CallRandRead n)) \<Longrightarrow> by_calls I cr s (snd (handleGenerateRandom b3 s))"
  "(\<And>n. I (CallRandRead n)) \<Longrightarrow> by_calls I cr s (snd (handleReEncrypt cr b2 s))"
  by (auto simp: handleEncrypt_def handleReEncrypt_def handleGenerateRandom_def
      intro: calls_sealWithNonce calls_readFullRand split: option.splits sum.splits prod.splits)

lemma calls_dataKey: "(\<And>n. I (CallRandRead n)) \<Longrightarrow> by_calls I cr s (snd (generateDataKeyCommon cr b s))"
  by (auto simp: generateDataKeyCommon_def intro: calls_readFullRand split: option.splits sum.splits prod.splits)

lemma calls_dataKeyPair: "(\<And>n. I (CallRandRead n)) \<Longrightarrow> by_calls I cr s (snd (generateDataKeyPairCommon cr b s))"
  by (auto simp: generateDataKeyPairCommon_def intro: calls_sealWithNonce split: option.splits sum.splits prod.splits)

lemma data_key_state:
  "snd (handleGenerateDataKey cr b s) = snd (generateDataKeyCommon cr b s)"
  "snd (handleGenerateDataKeyWithoutPlaintext cr b s) = snd (generateDataKeyCommon cr b s)"
  "snd (handleGenerateDataKeyPair cr b' s) = snd (generateDataKeyPairCommon cr b' s)"
  "snd (handleGenerateDataKeyPairWithoutPlaintext cr b' s) = snd (generateDataKeyPairCommon cr b' s)"
  by (auto simp: handleGenerateDataKey_def handleGenerateDataKeyWithoutPlaintext_def handleGenerateDataKeyPair_def
      handleGenerateDataKeyPairWithoutPlaintext_def split: prod.splits sum.splits)

section \<open>The router and the S3 interface\<close>

lemma serveHTTP_calls: "by_calls (issued req) cr s (snd (serveHTTP cr req s))"
  by (cases req) (auto simp: read_handlers data_key_state issued_def intro!: write_handlers calls_RetireGrant
      calls_CreateAlias calls_ScheduleKeyDeletion calls_EnableKeyRotation calls_CreateKey dataplane_handlers
      calls_dataKey calls_dataKeyPair)

fun s3_call :: "kms_call \<Rightarrow> bool" where
  "s3_call (CallCreateKey i) \<longleftrightarrow> i = awsS3KeyInput"
| "s3_call (CallCreateAlias a _) \<longleftrightarrow> a = ''alias/aws/s3''"
| "s3_call _ \<longleftrightarrow> False"

lemma calls_EnsureAwsS3Key: "EnsureAwsS3Key cr s = (r, s') \<Longrightarrow> by_calls s3_call cr s s'"
proof -
  have ok: "ci_KeySpec awsS3KeyInput \<in> set validKeySpecs"
    "isValidKeyUsageForSpec (ci_KeySpec awsS3KeyInput) (ci_KeyUsage awsS3KeyInput)"
    by (simp_all add: awsS3KeyInput_def keySpecSymmetricDefault_def validKeySpecs_def isValidKeyUsageForSpec_def
        validKeyUsages_def)
  have one: "by_calls s3_call cr s s1" if "CreateKey cr awsS3KeyInput s = (q, s1)" for q s1
    by (rule storage_calls(18)[OF that ok]) simp
  have two: "by_calls s3_call cr s s2" if "CreateKey cr awsS3KeyInput s = (q, s1)" "CreateAlias ''alias/aws/s3'' t s1 = (q', s2)" for q s1 t q' s2
    using by_calls_trans[OF one[OF that(1)]] storage_calls(15)[OF that(2), of s3_call] by (simp add: has_prefix_def)
  show "EnsureAwsS3Key cr s = (r, s') \<Longrightarrow> by_calls s3_call cr s s'"
    by (auto simp: EnsureAwsS3Key_def intro: one two split: sum.splits prod.splits kms_error.splits)
qed

lemma calls_ResolveKeyForEncryption: "by_calls s3_call cr s (snd (ResolveKeyForEncryption cr ref s))"
proof -
  obtain r1 s1 where e1: "EnsureAwsS3Key cr s = (r1, s1)" by fastforce
  obtain r2 s2 where e2: "EnsureAwsS3Key cr s1 = (r2, s2)" by fastforce
  have 1: "by_calls s3_call cr s s1" and 2: "by_calls s3_call cr s s2"
    using calls_EnsureAwsS3Key[OF e1] by_calls_trans[OF calls_EnsureAwsS3Key[OF e1] calls_EnsureAwsS3Key[OF e2]] by blast+
  have look: "snd (case ResolveAlias t a of
      Inl ErrAliasNotFound \<Rightarrow> (Inl ErrKeyNotFound, t) | Inl e \<Rightarrow> (Inl e, t) | Inr k \<Rightarrow> (checkedArn t k, t)) = t" for t a
    by (cases "ResolveAlias t a") (simp_all split: kms_error.splits)
  show ?thesis
    unfolding ResolveKeyForEncryption_def Let_def
    by (simp add: e1 e2 1 2 look split: sum.splits option.splits)
qed

section \<open>Reachable states\<close>

text \<open>A system with an initial condition and steps, and an invariant that both respect.\<close>

locale step_invariant =
  fixes init :: "'s \<Rightarrow> bool" and step :: "'s \<Rightarrow> 's \<Rightarrow> bool" and inv :: "'s \<Rightarrow> bool"
  assumes init_inv: "init s \<Longrightarrow> inv s"
    and step_inv: "inv s \<Longrightarrow> step s s' \<Longrightarrow> inv s'"
begin

lemma steps_inv: "step\<^sup>*\<^sup>* s s' \<Longrightarrow> inv s \<Longrightarrow> inv s'"
  by (induction rule: rtranclp_induct) (auto intro: step_inv)

lemma reachable_inv: "init s \<Longrightarrow> step\<^sup>*\<^sup>* s s' \<Longrightarrow> inv s'"
  using steps_inv init_inv by blast

end

text \<open>The first start on an empty data directory.\<close>

definition kms_init :: "kms \<Rightarrow> bool" where
  "kms_init s \<longleftrightarrow> (\<exists>s0. d_fs s0 = [] \<and> newStorage s0 = (Inr (), s))"

inductive kms_step :: "crypto \<Rightarrow> kms \<Rightarrow> kms \<Rightarrow> bool" for cr where
  request: "serveHTTP cr req s = (r, s') \<Longrightarrow> kms_step cr s s'"
| encryption: "ResolveKeyForEncryption cr ref s = (r, s') \<Longrightarrow> kms_step cr s s'"
| restart: "newStorage s = (Inr (), s') \<Longrightarrow> kms_step cr s s'"
| environment: "kms_step cr s (s\<lparr>d_fault := f, rnd := r, clock := c\<rparr>)"

inductive_cases kms_stepE: "kms_step cr s s'"

lemma kms_init_inv: "kms_init s \<Longrightarrow> kms_inv s"
  by (auto simp: kms_init_def newStorage_def os_MkdirAll_def kms_inv_def disk_wf_def look_def put_def plain_elem_def
      split: if_splits option.splits)

lemma newStorage_inv: "kms_inv s \<Longrightarrow> newStorage s = (Inr (), s') \<Longrightarrow> kms_inv s'"
  by (auto simp: newStorage_def os_MkdirAll_def kms_inv_dirs kms_inv_cong split: if_splits)

lemma kms_step_inv: "kms_inv s \<Longrightarrow> kms_step cr s s' \<Longrightarrow> kms_inv s'"
proof (elim kms_stepE)
  fix req r assume "kms_inv s" "serveHTTP cr req s = (r, s')"
  then show "kms_inv s'" using by_calls_inv[OF serveHTTP_calls[of req cr s]] by simp
next
  fix ref r assume "kms_inv s" "ResolveKeyForEncryption cr ref s = (r, s')"
  then show "kms_inv s'" using by_calls_inv[OF calls_ResolveKeyForEncryption[of cr s ref]] by simp
qed (auto simp: newStorage_inv kms_inv_cong)

interpretation kms_system: step_invariant kms_init "kms_step cr" kms_inv for cr
  by unfold_locales (auto intro: kms_init_inv kms_step_inv)

end
