(* ===== verification/Kms_Demo.thy ===== *)
theory Kms_Demo
  imports Kms_Refinement
begin

text \<open>
  A concrete instance of the model's parameters: an AEAD that satisfies what the service relies on,
  a disk without faults and a random source with enough bytes. The properties with hypotheses are
  applied to it.
\<close>

section \<open>A cryptographic library\<close>

text \<open>A prefix-free code of byte strings: the length in unary, then the bytes.\<close>

definition enc_bytes :: "bytes \<Rightarrow> bytes" where
  "enc_bytes b = replicate (length b) 1 @ 0 # b"

definition demo_Seal :: "bytes \<Rightarrow> bytes \<Rightarrow> bytes \<Rightarrow> bytes \<Rightarrow> bytes" where
  "demo_Seal k n p a = replicate 16 0 @ enc_bytes k @ enc_bytes a @ p"

definition demo_Open :: "bytes \<Rightarrow> bytes \<Rightarrow> bytes \<Rightarrow> bytes \<Rightarrow> bytes option" where
  "demo_Open k n c a =
     (let h = replicate 16 0 @ enc_bytes k @ enc_bytes a
      in if take (length h) c = h then Some (drop (length h) c) else None)"

definition demo_crypto :: crypto where
  "demo_crypto =
     \<lparr>cr_GenerateRSA = \<lambda>n. Some [1, of_nat n], cr_GenerateECDSA = \<lambda>c. Some [2], cr_GenerateEd25519 = Some [3],
      cr_Seal = demo_Seal, cr_Open = demo_Open,
      cr_Hmac = \<lambda>h k m. k @ m, cr_Sum = \<lambda>h m. m,
      cr_ParsePKCS8 = \<lambda>d. if d = [3] then Some (Ed25519Key d) else if d = [2] then Some (ECDSAKey d) else Some (RSAKey d),
      cr_MarshalPKIX = \<lambda>k. Some [4],
      cr_SignPSS = \<lambda>k h m. Some (1 # k @ m), cr_SignPKCS1v15 = \<lambda>k h m. Some (1 # k @ m), cr_SignASN1 = \<lambda>k m. Some (1 # k @ m),
      cr_SignEd25519 = \<lambda>k m. 1 # k @ m,
      cr_VerifyPSS = \<lambda>k h m s. s = 1 # k @ m, cr_VerifyPKCS1v15 = \<lambda>k h m s. s = 1 # k @ m,
      cr_VerifyASN1 = \<lambda>k m s. s = 1 # k @ m, cr_VerifyEd25519 = \<lambda>k m s. s = 1 # k @ m\<rparr>"

lemma enc_bytes_prefix_free: "enc_bytes k @ x = enc_bytes k' @ y \<Longrightarrow> k = k' \<and> x = y"
proof -
  assume e: "enc_bytes k @ x = enc_bytes k' @ y"
  have "replicate (length k) (1::u8) @ 0 # k @ x = replicate (length k') 1 @ 0 # k' @ y"
    using e by (simp add: enc_bytes_def)
  moreover have "replicate m (1::u8) @ 0 # v = replicate n 1 @ 0 # w \<Longrightarrow> m = n \<and> v = w" for m n v w
    by (induction m arbitrary: n; case_tac n) auto
  ultimately have "length k = length k' \<and> k @ x = k' @ y" by blast
  then show ?thesis by (auto simp: append_eq_append_conv)
qed

lemma demo_correct: "aead_correct demo_crypto"
  by (simp add: aead_correct_def demo_crypto_def demo_Seal_def demo_Open_def Let_def)

lemma demo_authentic: "aead_authentic demo_crypto"
proof -
  have "k' = k \<and> a' = a" if "demo_Open k' n (demo_Seal k n p a) a' = Some q" for k n p a k' a' q
  proof -
    let ?h = "replicate 16 0 @ enc_bytes k' @ enc_bytes a'"
    have "take (length ?h) (demo_Seal k n p a) = ?h" using that by (auto simp: demo_Open_def Let_def split: if_splits)
    then have "demo_Seal k n p a = ?h @ drop (length ?h) (demo_Seal k n p a)" by (metis append_take_drop_id)
    then have "enc_bytes k @ enc_bytes a @ p = enc_bytes k' @ enc_bytes a' @ drop (length ?h) (demo_Seal k n p a)"
      by (simp add: demo_Seal_def)
    then show ?thesis using enc_bytes_prefix_free by blast
  qed
  then show ?thesis unfolding aead_authentic_def by (simp add: demo_crypto_def)
qed

section \<open>Storage states\<close>

definition demo_disk :: kms where
  "demo_disk = \<lparr>d_fs = [], d_fault = \<lambda>_ _. False, maxAliasesPerKey = 0,
     rnd = map (\<lambda>b. Some (replicate 32 b)) [1, 2, 3, 4, 5, 6, 7, 8, 9, 10], clock = 1000\<rparr>"

definition demo_init :: kms where "demo_init = snd (newStorage demo_disk)"

definition demo_create :: kms_request where
  "demo_create = RqCreateKey (Some \<lparr>rq_Description = ''d'', rq_KeySpec = '''', rq_CustomerMasterKeySpec = '''',
     rq_KeyUsage = '''', rq_MultiRegion = False, rq_Origin = '''', rq_Policy = ''p'', rq_Tags = []\<rparr>)"

definition demo_key :: string where "demo_key = ''01010101-0101-4101-8101-010101010101''"

definition demo_meta :: KeyMetadata where
  "demo_meta = \<lparr>km_KeyID = demo_key, km_Arn = keyARN demo_key, km_AWSAccountID = fixedAccount, km_Description = ''d'',
     km_KeySpec = ''SYMMETRIC_DEFAULT'', km_CustomerMasterKeySpec = ''SYMMETRIC_DEFAULT'',
     km_KeyUsage = ''ENCRYPT_DECRYPT'', km_KeyState = keyStateEnabled, km_Enabled = True, km_KeyManager = ''CUSTOMER'',
     km_Origin = ''AWS_KMS'', km_MultiRegion = False, km_CreationDate = 1000, km_DeletionDate = None,
     km_EncryptionAlgorithms = [''SYMMETRIC_DEFAULT''], km_SigningAlgorithms = [], km_KeyAgreementAlgorithms = [],
     km_MacAlgorithms = []\<rparr>"

definition demo_material :: KeyMaterial where
  "demo_material = \<lparr>mt_KeyBytes = replicate 32 2, mt_PrivateKeyDER = [],
     mt_KeyMaterialID = ''0303030303030303030303030303030303030303030303030303030303030303''\<rparr>"

text \<open>The state after the key has been created.\<close>

definition demo_state :: kms where
  "demo_state = \<lparr>d_fs =
       [([''keys''], Dir), ([''aliases''], Dir), ([''keys'', demo_key], Dir),
        ([''keys'', demo_key, ''meta.json''], File (Some (CMeta demo_meta))),
        ([''keys'', demo_key, ''material.json''], File (Some (CMaterial demo_material))),
        ([''keys'', demo_key, ''policy.json''], File (Some (CPolicy ''p'')))],
     d_fault = \<lambda>_ _. False, maxAliasesPerKey = 256,
     rnd = map (\<lambda>b. Some (replicate 32 b)) [4, 5, 6, 7, 8, 9, 10], clock = 1000\<rparr>"

lemma demo_init_reach: "kms_init demo_init"
proof -
  have "newStorage demo_disk = (Inr (), demo_init)"
    by (simp add: demo_init_def demo_disk_def newStorage_def os_MkdirAll_def look_def put_def)
  then show ?thesis unfolding kms_init_def by (intro exI[of _ demo_disk]) (simp add: demo_disk_def)
qed

definition contents :: "kms \<Rightarrow> (path \<times> content node) list \<times> bytes option list" where
  "contents s = (d_fs s, rnd s)"

lemma kms_eqI: "contents s = contents t \<Longrightarrow> settings s = settings t \<Longrightarrow> (s :: kms) = t"
  by (simp add: contents_def settings_def)

lemma demo_init_eq: "demo_init = \<lparr>d_fs = [([''keys''], Dir), ([''aliases''], Dir)], d_fault = \<lambda>_ _. False,
    maxAliasesPerKey = 256, rnd = map (\<lambda>b. Some (replicate 32 b)) [1, 2, 3, 4, 5, 6, 7, 8, 9, 10], clock = 1000\<rparr>"
  by (simp add: demo_init_def demo_disk_def newStorage_def os_MkdirAll_def look_def put_def aliasLimitPerKey_def)

lemma demo_create_state: "snd (serveHTTP demo_crypto demo_create demo_init) = demo_state"
proof (rule kms_eqI)
  show "contents (snd (serveHTTP demo_crypto demo_create demo_init)) = contents demo_state" by code_simp
  have "settings (snd (serveHTTP demo_crypto demo_create demo_init)) = settings demo_init"
    by (rule by_calls_settings[OF serveHTTP_calls])
  then show "settings (snd (serveHTTP demo_crypto demo_create demo_init)) = settings demo_state"
    by (simp add: demo_init_eq demo_state_def settings_def)
qed

lemma demo_state_reach: "(kms_step demo_crypto)\<^sup>*\<^sup>* demo_init demo_state"
  by (rule r_into_rtranclp, rule kms_step.request[of _ demo_create])
    (simp add: prod_eq_iff demo_create_state)

lemma demo_state_inv: "kms_inv demo_state"
  by (rule kms_system.reachable_inv[OF demo_init_reach demo_state_reach])

lemma demo_quiet: "quiet demo_state" by (simp add: quiet_def demo_state_def)

end
