(* ===== verification/Kms_State_Theorems.thy ===== *)
theory Kms_State_Theorems
  imports Kms_Demo
begin

text \<open>
  Properties of the key life cycle over all requests: the invariant of reachable states, the
  refinement of requests by storage calls, the state machine of a key and the protection of a key
  that is pending deletion.
\<close>

section \<open>Reading a key's state\<close>

definition key_meta :: "kms \<Rightarrow> string \<Rightarrow> KeyMetadata option" where
  "key_meta s u = (case look s [''keys'', u, ''meta.json''] of Some (File (Some c)) \<Rightarrow> asMeta c | _ \<Rightarrow> None)"

definition key_state :: "kms \<Rightarrow> string \<Rightarrow> string option" where
  "key_state s u = map_option km_KeyState (key_meta s u)"

lemma key_meta_Some: "key_meta s u = Some m \<longleftrightarrow> look s [''keys'', u, ''meta.json''] = Some (File (Some (CMeta m)))"
proof -
  have "asMeta c = Some m \<longleftrightarrow> c = CMeta m" for c by (cases c) auto
  then show ?thesis by (auto simp: key_meta_def split: option.splits node.splits)
qed

lemma key_meta_dir: "kms_inv s \<Longrightarrow> key_meta s u = Some m \<Longrightarrow> look s [''keys'', u] = Some Dir"
  using disk_wf_prefix[of s "[''keys'', u]" "[''meta.json'']"] by (auto simp: key_meta_Some kms_inv_wf)

text \<open>The six names of a key's own files occur only directly below a key directory.\<close>

lemma id_file_names:
  "f \<in> {''meta.json'', ''material.json'', ''policy.json'', ''rotation.json'', ''rotation_history.json'', ''tags.json''} \<Longrightarrow>
     length h \<in> {36, 64} \<Longrightarrow> h @ ''.json'' \<noteq> f"
  by auto

lemma layout_key_file:
  assumes "layout_ok (q @ [f]) n"
    and f: "f \<in> {''meta.json'', ''material.json'', ''policy.json'', ''rotation.json'', ''rotation_history.json'', ''tags.json''}"
  shows "\<exists>u. q = [''keys'', u] \<and> looksLikeUUID u"
proof -
  consider "q = []" | a where "q = [a]" | a b where "q = [a, b]" | a b c where "q = [a, b, c]"
    | a b c d q' where "q = a # b # c # d # q'"
    by (metis list.exhaust)
  then show ?thesis
  proof cases
    case 2
    have "\<not> looksLikeUUID f" "\<not> has_prefix ''alias%2F'' f" using f by (auto simp: looksLikeUUID_def has_prefix_iff)
    then show ?thesis using assms(1) 2 by simp
  next
    case 4
    have "h @ ''.json'' \<noteq> f" if "hex_id h \<or> looksLikeUUID h" for h
      using id_file_names[OF f] that by (auto simp: hex_id_def looksLikeUUID_def)
    then show ?thesis using assms(1) 4 by auto
  next
    case 5
    then show ?thesis using assms(1) by (cases q') auto
  qed (use assms in auto)
qed

lemma hex_id_chars: "hex_id h \<Longrightarrow> CHR ''/'' \<notin> set h"
  by (auto simp: hex_id_def list_all_iff dest: is_hexdig_plain)

section \<open>Key files outside a call's reach\<close>

lemma snoc_conv:
  "[a, b, c] = q @ [x] \<longleftrightarrow> q = [a, b] \<and> x = c" "[a, b, c] = q @ [x, y] \<longleftrightarrow> q = [a] \<and> x = b \<and> y = c"
  by (auto simp: append_eq_Cons_conv)

text \<open>The calls that rewrite the metadata of a key.\<close>

fun meta_writer :: "kms_call \<Rightarrow> string option" where
  "meta_writer (CallEnableKey k) = Some k"
| "meta_writer (CallDisableKey k) = Some k"
| "meta_writer (CallScheduleKeyDeletion k _) = Some k"
| "meta_writer (CallCancelKeyDeletion k) = Some k"
| "meta_writer _ = None"

lemma rotation_backup_name:
  assumes inv: "kms_inv s" and r: "readJSON asMaterial s (keyFile k ''material.json'') = Inr x"
  shows "hex_id (mt_KeyMaterialID x)" and "\<exists>v. keyDir k = [''keys'', v]"
proof -
  obtain c where c: "look s (keyDir k @ [''material.json'']) = Some (File (Some c))"
    using readJSON_Inr[OF r] by (auto simp: key_paths)
  then obtain v where v: "keyDir k = [''keys'', v]" using layout_key_file kms_inv_layout[OF inv] by blast
  then show "\<exists>v. keyDir k = [''keys'', v]" by blast
  show "hex_id (mt_KeyMaterialID x)" using readMaterial_ok(2)[OF inv v r] by (simp add: material_ok_def)
qed

lemma touches_meta:
  assumes inv: "kms_inv s" and u: "key_meta s u = Some m" and t: "touches s c [''keys'', u, ''meta.json'']"
  shows "(\<exists>k. meta_writer c = Some k \<and> keyDir k = [''keys'', u])
       \<or> (\<exists>k g. c = CallRevokeGrant k g \<and> grantPath k g = [''keys'', u, ''meta.json''])"
proof (cases c)
  case (CallRotateKeyOnDemand k)
  have "[''keys'', u, ''meta.json''] \<noteq> materialFile k (mt_KeyMaterialID x @ ''.json'')"
    if r: "readJSON asMaterial s (keyFile k ''material.json'') = Inr x" for x
  proof -
    note h = rotation_backup_name(1)[OF inv r]
    show ?thesis using materialFile_keyDir[OF hex_id_plain[OF h]] not_id_file(1)[OF h] by (simp add: snoc_conv)
  qed
  then show ?thesis using t CallRotateKeyOnDemand by (auto simp: key_paths snoc_conv)
next
  case (CallCreateGrant k i)
  have "[''keys'', u, ''meta.json''] \<noteq> grantPath k g" if "looksLikeUUID g" for g
  proof -
    have "CHR ''/'' \<notin> set g" using uuid_chars[OF that] by blast
    then show ?thesis using not_id_file(2)[OF that] by (auto simp: grantPath_keyDir snoc_conv)
  qed
  then show ?thesis using t CallCreateGrant by (auto simp: key_paths snoc_conv)
next
  case (CallCreateKey i)
  then show ?thesis using t key_meta_dir[OF inv u] by auto
qed (use t in \<open>simp_all add: aliasPath_eq key_paths snoc_conv\<close>)

section \<open>Transitions of the key state\<close>

text \<open>What the four life-cycle operations do to the metadata of their key, on every branch.\<close>

lemma write_meta_outcome:
  assumes "keyDir k = [''keys'', u]"
  shows "key_meta (snd (writeJSON (keyFile k ''meta.json'') (CMeta m) s)) u \<in> {key_meta s u, None, Some m}"
  using assms by (auto simp: key_paths writeJSON_def root_WriteFile_def key_meta_def fs_simps
      split: sum.splits node.splits option.splits)

lemma readKeyMeta_key_meta:
  "kms_inv s \<Longrightarrow> keyDir k = [''keys'', u] \<Longrightarrow> readKeyMeta s k = Inr m \<Longrightarrow> key_meta s u = Some m"
  using readKeyMeta_Inr[of s k m] by (auto simp: key_meta_Some)

definition lifecycle_edge :: "kms_call \<Rightarrow> string \<Rightarrow> string \<Rightarrow> bool" where
  "lifecycle_edge c a b \<longleftrightarrow> (case c of
      CallEnableKey _ \<Rightarrow> a = keyStateDisabled \<and> b = keyStateEnabled
    | CallDisableKey _ \<Rightarrow> a = keyStateEnabled \<and> b = keyStateDisabled
    | CallScheduleKeyDeletion _ _ \<Rightarrow> a \<noteq> keyStatePendingDeletion \<and> b = keyStatePendingDeletion
    | CallCancelKeyDeletion _ \<Rightarrow> a = keyStatePendingDeletion \<and> b = keyStateDisabled
    | _ \<Rightarrow> False)"

lemma lifecycle_call:
  assumes inv: "kms_inv s" and k: "meta_writer c = Some k" "keyDir k = [''keys'', u]" and m: "key_meta s u = Some m"
  shows "key_state (exec cr c s) u \<in> {Some (km_KeyState m), None}
       \<or> (\<exists>b. key_state (exec cr c s) u = Some b \<and> lifecycle_edge c (km_KeyState m) b)"
proof -
  have st: "km_KeyState m \<in> {keyStateEnabled, keyStateDisabled, keyStatePendingDeletion}"
    using kms_inv_layout[OF inv m[unfolded key_meta_Some]] by (auto simp: key_entry_ok_def meta_ok_def keyStates_def)
  have w: "key_state (snd (writeJSON (keyFile k ''meta.json'') (CMeta m') s)) u
      \<in> {Some (km_KeyState m), None, Some (km_KeyState m')}" for m'
    using write_meta_outcome[OF k(2), of m' s] m by (auto simp: key_state_def)
  have id: "key_state s u = Some (km_KeyState m)" using m by (simp add: key_state_def)
  show ?thesis
  proof (cases "readKeyMeta s k")
    case (Inl e)
    then show ?thesis using k(1) id
      by (cases c) (simp_all add: EnableKey_def DisableKey_def ScheduleKeyDeletion_def CancelKeyDeletion_def)
  next
    case (Inr m')
    then have r: "readKeyMeta s k = Inr m" using readKeyMeta_key_meta[OF inv k(2)] m by simp
    show ?thesis
    proof (cases c)
      case (CallEnableKey k')
      then show ?thesis using k(1) r st id w[of "m\<lparr>km_KeyState := keyStateEnabled, km_Enabled := True\<rparr>"]
        by (auto simp: EnableKey_def lifecycle_edge_def)
    next
      case (CallDisableKey k')
      then show ?thesis using k(1) r st id w[of "m\<lparr>km_KeyState := keyStateDisabled, km_Enabled := False\<rparr>"]
        by (auto simp: DisableKey_def lifecycle_edge_def)
    next
      case (CallScheduleKeyDeletion k' d)
      then show ?thesis using k(1) r st id w[of "m\<lparr>km_KeyState := keyStatePendingDeletion, km_Enabled := False,
          km_DeletionDate := Some (clock s + d * secondsPerDay)\<rparr>"]
        by (auto simp: ScheduleKeyDeletion_def Let_def lifecycle_edge_def)
    next
      case (CallCancelKeyDeletion k')
      then show ?thesis using k(1) r st id
          w[of "m\<lparr>km_KeyState := keyStateDisabled, km_Enabled := False, km_DeletionDate := None\<rparr>"]
        by (auto simp: CancelKeyDeletion_def Let_def lifecycle_edge_def)
    qed (use k(1) in simp_all)
  qed
qed

lemma look_RevokeGrant: "look (snd (RevokeGrant k g s)) p \<in> {look s p, None}"
proof -
  have "look (snd (root_Remove (grantPath k g) s)) p \<in> {look s p, None}"
    by (auto simp: root_Remove_def fs_simps split: sum.splits node.splits)
  moreover have "snd (RevokeGrant k g s) \<in> {s, snd (root_Remove (grantPath k g) s)}"
    by (cases "root_Remove (grantPath k g) s") (auto simp: RevokeGrant_def Let_def split: sum.splits option.splits ioerr.splits)
  ultimately show ?thesis by auto
qed

lemma key_state_change:
  assumes inv: "kms_inv s" and a: "key_state s u = Some a" and b: "key_state (exec cr c s) u = Some b" and ab: "a \<noteq> b"
  shows "lifecycle_edge c a b \<and> (\<exists>k. meta_writer c = Some k \<and> keyDir k = [''keys'', u])"
proof -
  obtain m where m: "key_meta s u = Some m" "km_KeyState m = a" using a by (auto simp: key_state_def)
  have "look (exec cr c s) [''keys'', u, ''meta.json''] \<noteq> look s [''keys'', u, ''meta.json'']"
    using a b ab by (auto simp: key_state_def key_meta_def)
  then have "touches s c [''keys'', u, ''meta.json'']" using exec_frame[OF inv] by blast
  from touches_meta[OF inv m(1) this] show ?thesis
  proof (elim disjE exE conjE)
    fix k assume k: "meta_writer c = Some k" "keyDir k = [''keys'', u]"
    then show ?thesis using lifecycle_call[OF inv k m(1), of cr] m(2) b ab by auto
  next
    fix k g assume c: "c = CallRevokeGrant k g"
    have "key_meta (exec cr c s) u \<in> {key_meta s u, None}"
      using look_RevokeGrant[of k g s "[''keys'', u, ''meta.json'']"] c by (auto simp: key_meta_def)
    then show ?thesis using a b ab by (auto simp: key_state_def)
  qed
qed

section \<open>Keys that are pending deletion\<close>

text \<open>The calls that name a key and refuse one that is pending deletion.\<close>

fun guarded_key :: "kms_call \<Rightarrow> string option" where
  "guarded_key (CallEnableKey k) = Some k"
| "guarded_key (CallDisableKey k) = Some k"
| "guarded_key (CallScheduleKeyDeletion k _) = Some k"
| "guarded_key (CallEnableKeyRotation k _) = Some k"
| "guarded_key (CallDisableKeyRotation k) = Some k"
| "guarded_key (CallRotateKeyOnDemand k) = Some k"
| "guarded_key (CallTagResource k _) = Some k"
| "guarded_key (CallUntagResource k _) = Some k"
| "guarded_key (CallCreateGrant k _) = Some k"
| "guarded_key _ = None"

lemma guarded_inert:
  assumes "guarded_key c = Some k" and "\<And>m. readKeyMeta s k = Inr m \<Longrightarrow> km_KeyState m = keyStatePendingDeletion"
  shows "exec cr c s = s"
proof (cases "readKeyMeta s k")
  case (Inl e)
  then show ?thesis using assms(1) by (cases c) (simp_all add: EnableKey_def DisableKey_def ScheduleKeyDeletion_def
      EnableKeyRotation_def DisableKeyRotation_def RotateKeyOnDemand_def TagResource_def UntagResource_def CreateGrant_def)
next
  case (Inr m)
  from assms(2)[OF Inr] show ?thesis using Inr assms(1)
    by (cases c) (simp_all add: EnableKey_def DisableKey_def ScheduleKeyDeletion_def
      EnableKeyRotation_def DisableKeyRotation_def RotateKeyOnDemand_def TagResource_def UntagResource_def CreateGrant_def)
qed

text \<open>The files of a key apart from its grants.\<close>

definition key_path :: "string \<Rightarrow> path \<Rightarrow> bool" where
  "key_path u p \<longleftrightarrow> (\<exists>f. p = [''keys'', u, f] \<and> f \<noteq> ''grants'') \<or> (\<exists>f. p = [''keys'', u, ''materials'', f])"

fun grant_ids_plain :: "kms_call \<Rightarrow> bool" where
  "grant_ids_plain (CallRevokeGrant _ g) \<longleftrightarrow> CHR ''/'' \<notin> set g"
| "grant_ids_plain _ \<longleftrightarrow> True"

lemma key_path_snoc: "key_path u (q @ [x]) \<Longrightarrow> (q = [''keys'', u] \<and> x \<noteq> ''grants'') \<or> q = [''keys'', u, ''materials'']"
proof -
  assume "key_path u (q @ [x])"
  then consider f where "q @ [x] = [''keys'', u] @ [f]" "f \<noteq> ''grants''" | f where "q @ [x] = [''keys'', u, ''materials''] @ [f]"
    by (auto simp: key_path_def)
  then show ?thesis by cases (simp_all only: append1_eq_conv, simp_all)
qed

lemma key_path_snoc2: "key_path u (q @ [''grants'', y]) \<Longrightarrow> looksLikeUUID u \<Longrightarrow> False"
proof -
  assume "key_path u (q @ [''grants'', y])" and u: "looksLikeUUID u"
  then have "key_path u ((q @ [''grants'']) @ [y])" by simp
  from key_path_snoc[OF this] have "q @ [''grants''] = [''keys''] @ [u] \<or> q @ [''grants''] = [''keys'', u] @ [''materials'']"
    by auto
  then have "u = ''grants''" by (simp only: append1_eq_conv) auto
  then show False using u by (simp add: looksLikeUUID_def)
qed

text \<open>The calls that can touch such a file, with the directory they work in.\<close>

lemma touches_key_path:
  assumes inv: "kms_inv s" and u: "looksLikeUUID u" "look s [''keys'', u] = Some Dir" and p: "key_path u p"
    and t: "touches s c p" and g: "grant_ids_plain c"
  shows "\<exists>k. (guarded_key c = Some k \<or> (\<exists>y. c = CallPutKeyPolicy k y) \<or> c = CallCancelKeyDeletion k)
           \<and> (keyDir k = [''keys'', u] \<or> keyDir k = [''keys'', u, ''materials''])"
proof -
  have f: "keyDir k = [''keys'', u] \<or> keyDir k = [''keys'', u, ''materials'']" if "p = keyDir k @ [x]" for k x
    using key_path_snoc[of u "keyDir k" x] p that by blast
  show ?thesis
  proof (cases c)
    case (CallCreateKey i)
    then show ?thesis using t u p by (auto simp: key_path_def)
  next
    case (CallRotateKeyOnDemand k)
    have "keyDir k = [''keys'', u]" if r: "readJSON asMaterial s (keyFile k ''material.json'') = Inr x"
      and q: "p = materialFile k (mt_KeyMaterialID x @ ''.json'')" for x
    proof -
      note h = rotation_backup_name[OF inv r]
      obtain v where v: "keyDir k = [''keys'', v]" using h(2) by blast
      have "p = [''keys'', v, ''materials'', mt_KeyMaterialID x @ ''.json'']"
        using q materialFile_keyDir[OF hex_id_plain[OF h(1)]] v by simp
      then show ?thesis using p v by (auto simp: key_path_def)
    qed
    then show ?thesis using t CallRotateKeyOnDemand f by (auto simp: key_paths)
  next
    case (CallCreateGrant k i)
    have "grantPath k g' \<noteq> p" if "looksLikeUUID g'" for g'
    proof -
      have "CHR ''/'' \<notin> set g'" using uuid_chars[OF that] by blast
      then show ?thesis using key_path_snoc2[OF _ u(1)] p by (auto simp: grantPath_keyDir)
    qed
    then show ?thesis using t CallCreateGrant f by (auto simp: key_paths)
  next
    case (CallRevokeGrant k g')
    then show ?thesis using t g key_path_snoc2[OF _ u(1), of "keyDir k"] p by (simp add: grantPath_keyDir)
  next
    case (CallRetireGrantByToken t')
    then show ?thesis using t p by (auto simp: key_path_def)
  qed (use t f p in \<open>auto simp: key_paths aliasPath_eq key_path_def\<close>)
qed

lemma exec_key_path:
  assumes inv: "kms_inv s" and u: "looksLikeUUID u" and st: "key_state s u = Some keyStatePendingDeletion"
    and p: "key_path u p" and ok: "call_ok s c" and g: "grant_ids_plain c" and nc: "\<And>k. c \<noteq> CallCancelKeyDeletion k"
  shows "look (exec cr c s) p = look s p"
proof (cases "touches s c p")
  case True
  obtain m where m: "key_meta s u = Some m" "km_KeyState m = keyStatePendingDeletion" using st by (auto simp: key_state_def)
  obtain k where k: "guarded_key c = Some k \<or> (\<exists>y. c = CallPutKeyPolicy k y)"
    "keyDir k = [''keys'', u] \<or> keyDir k = [''keys'', u, ''materials'']"
    using touches_key_path[OF inv u key_meta_dir[OF inv m(1)] p True g] nc by blast
  have r: "km_KeyState m' = keyStatePendingDeletion" if rm: "readKeyMeta s k = Inr m'" for m'
  proof -
    obtain v where "keyDir k = [''keys'', v]" using readKeyMeta_Inr[OF inv rm] by metis
    then have "keyDir k = [''keys'', u]" using k(2) by auto
    then show ?thesis using readKeyMeta_key_meta[OF inv _ rm] m by simp
  qed
  show ?thesis
  proof (cases "guarded_key c = Some k")
    case True
    then show ?thesis using guarded_inert[OF True r] by simp
  next
    case False
    then obtain y where "c = CallPutKeyPolicy k y" using k(1) by blast
    then show ?thesis using ok r by (auto split: sum.splits)
  qed
qed (simp add: exec_frame[OF inv])

section \<open>References to a key\<close>

lemma resolveKeyID_keyARN: "u \<noteq> '''' \<Longrightarrow> resolveKeyID (keyARN u) = Some u"
  by (simp add: resolveKeyID_def keyARN_def fixedRegion_def fixedAccount_def has_prefix_def strings_SplitN2_def)

lemma resolveKeyRef_uuid:
  assumes "looksLikeUUID u"
  shows "resolveKeyRef s u = Inr u" and "resolveKeyRef s (keyARN u) = Inr u"
proof -
  have l: "length u = 36" using assms by (simp add: looksLikeUUID_def)
  then show "resolveKeyRef s u = Inr u" using uuid_resolves[OF assms] by (simp add: resolveKeyRef_def)
  have "length (keyARN u) \<le> 2048" using l by (simp add: keyARN_def fixedRegion_def fixedAccount_def)
  moreover have "u \<noteq> ''''" using l by auto
  ultimately show "resolveKeyRef s (keyARN u) = Inr u" using resolveKeyID_keyARN[of u] by (simp add: resolveKeyRef_def)
qed

section \<open>Properties\<close>

text \<open>
  C1. Every state that the service can reach from an empty data directory satisfies the storage
  invariant: whatever requests are served, whatever system calls fail, however often the service
  is restarted, each file below the root is of the kind its path says and agrees with it (key
  metadata is coherent, at most 50 tags and 25 on-demand rotations are recorded per key, alias and
  grant files are named after their contents), and the tree is well formed.
\<close>

theorem kms_reachable_inv:
  assumes "kms_init s0" and "(kms_step cr)\<^sup>*\<^sup>* s0 s"
  shows "kms_inv s"
  using assms by (rule kms_system.reachable_inv)

theorem kms_reachable_inv_witness: "kms_inv demo_state \<and> demo_state \<noteq> demo_init"
  using kms_reachable_inv[OF demo_init_reach demo_state_reach] by (simp add: demo_init_eq demo_state_def)

text \<open>
  C2. A request changes the state only by storage calls of its own kind, each with arguments that
  the handler has validated: the state after \<open>serveHTTP\<close> is the state after a sequence of admissible
  calls issued for that request.
\<close>

theorem serveHTTP_refines_calls:
  "\<exists>cs. admissible cr cs s \<and> list_all (issued req) cs \<and> snd (serveHTTP cr req s) = run cr cs s"
  using serveHTTP_calls[of req cr s] by (auto simp: by_calls_def)



text \<open>
  C4. While a key is pending deletion no request except \<open>CancelKeyDeletion\<close> changes its metadata,
  material, previous materials, policy, tags or rotation files (its grants may still be retired).
  The grant ID of a \<open>RevokeGrant\<close> or \<open>RetireGrant\<close> request is assumed to have no slash.
\<close>

theorem pending_key_frozen:
  assumes inv: "kms_inv s" and u: "looksLikeUUID u" and st: "key_state s u = Some keyStatePendingDeletion"
    and req: "\<forall>b. req \<noteq> RqCancelKeyDeletion b"
    and ids: "\<forall>k g. issued req (CallRevokeGrant k g) \<longrightarrow> CHR ''/'' \<notin> set g"
    and p: "key_path u p"
  shows "look (snd (serveHTTP cr req s)) p = look s p"
proof -
  let ?P = "\<lambda>t. \<forall>q. key_path u q \<longrightarrow> look t q = look s q"
  have step: "?P (exec cr c t)" if t: "kms_inv t" "?P t" "call_ok t c" "issued req c" for t c
  proof -
    have "key_path u [''keys'', u, ''meta.json'']" by (simp add: key_path_def)
    then have st': "key_state t u = Some keyStatePendingDeletion" using st t(2) by (simp add: key_state_def key_meta_def)
    have g: "grant_ids_plain c" using ids t(4) by (cases c) auto
    have nc: "c \<noteq> CallCancelKeyDeletion k" for k using req t(4) by (cases req) (auto simp: issued_def)
    show ?thesis using exec_key_path[OF t(1) u st' _ t(3) g nc] t(2) by simp
  qed
  have "?P (snd (serveHTTP cr req s))" by (rule by_calls_keep[OF serveHTTP_calls inv, where P = ?P]) (use step in auto)
  then show ?thesis using p by blast
qed

definition demo_pending :: kms where
  "demo_pending = demo_state\<lparr>d_fs := AList.update [''keys'', demo_key, ''meta.json'']
     (File (Some (CMeta (demo_meta\<lparr>km_KeyState := keyStatePendingDeletion, km_Enabled := False,
        km_DeletionDate := Some 605800\<rparr>)))) (d_fs demo_state)\<rparr>"

lemma demo_pending_reach: "(kms_step demo_crypto)\<^sup>*\<^sup>* demo_init demo_pending"
proof -
  let ?r = "RqScheduleKeyDeletion (Some (demo_key, Some 7))"
  have "snd (serveHTTP demo_crypto ?r demo_state) = demo_pending"
  proof (rule kms_eqI)
    show "contents (snd (serveHTTP demo_crypto ?r demo_state)) = contents demo_pending" by code_simp
    show "settings (snd (serveHTTP demo_crypto ?r demo_state)) = settings demo_pending"
      using by_calls_settings[OF serveHTTP_calls[of ?r demo_crypto demo_state]]
      by (simp add: demo_pending_def settings_def)
  qed
  then have "kms_step demo_crypto demo_state demo_pending" by (intro kms_step.request[of _ ?r]) (simp add: prod_eq_iff)
  then show ?thesis using demo_state_reach by (rule rtranclp.rtrancl_into_rtrancl[rotated])
qed

theorem pending_key_frozen_witness:
  "look (snd (serveHTTP demo_crypto (RqRotateKeyOnDemand (Some demo_key)) demo_pending)) [''keys'', demo_key, ''material.json'']
     = Some (File (Some (CMaterial demo_material)))"
proof -
  have u: "looksLikeUUID demo_key" by code_simp
  have st: "key_state demo_pending demo_key = Some keyStatePendingDeletion" by code_simp
  have m: "look demo_pending [''keys'', demo_key, ''material.json''] = Some (File (Some (CMaterial demo_material)))"
    by (simp add: demo_pending_def demo_state_def look_def)
  have "look (snd (serveHTTP demo_crypto (RqRotateKeyOnDemand (Some demo_key)) demo_pending)) [''keys'', demo_key, ''material.json'']
      = look demo_pending [''keys'', demo_key, ''material.json'']"
    by (rule pending_key_frozen[OF kms_system.reachable_inv[OF demo_init_reach demo_pending_reach] u st])
      (simp_all add: issued_def key_path_def)
  then show ?thesis using m by simp
qed

end
