(* ===== verification/Kms_Material.thy ===== *)
theory Kms_Material
  imports Kms_State_Theorems
begin

text \<open>
  Key material is never lost by a storage call on a disk without faults: the material that was
  current at some point stays the current one or is found among the previous materials, as long as
  no later material draws the same ID from the random source and no grant ID with a slash is
  revoked.
\<close>

section \<open>The random source is consumed\<close>

lemma rnd_put_del [simp]: "rnd (put p n s) = rnd s" "rnd (del p s) = rnd s"
  by (simp_all add: put_def del_def)

lemma rnd_file_ops [simp]:
  "rnd (snd (writeJSON q c s)) = rnd s" "rnd (snd (root_Mkdir q s)) = rnd s" "rnd (snd (root_Remove q s)) = rnd s"
  by (auto simp: writeJSON_def root_WriteFile_def root_Mkdir_def root_Remove_def
      split: sum.splits node.splits option.splits)

lemma rnd_steps:
  "writeJSON q c s = (r, s') \<Longrightarrow> rnd s' = rnd s" "root_Mkdir q s = (r, s') \<Longrightarrow> rnd s' = rnd s"
  "root_Remove q s = (r, s') \<Longrightarrow> rnd s' = rnd s" "randRead n s = (r2, s') \<Longrightarrow> set (rnd s') \<subseteq> set (rnd s)"
  using rnd_file_ops(1)[of q c s] rnd_file_ops(2)[of q s] rnd_file_ops(3)[of q s]
  by (auto simp: randRead_def Let_def split: list.splits option.splits)

lemma rnd_newKeyID: "newKeyID s = (r, s') \<Longrightarrow> set (rnd s') \<subseteq> set (rnd s)"
  by (auto simp: newKeyID_def dest!: rnd_steps split: prod.splits option.splits)

lemma rnd_simple:
  "rnd (snd (PutKeyPolicy k y s)) = rnd s" "rnd (snd (CreateAlias a t s)) = rnd s"
  "rnd (snd (UpdateAlias a t s)) = rnd s" "rnd (snd (DeleteAlias a s)) = rnd s"
  "rnd (snd (EnableKey k s)) = rnd s" "rnd (snd (DisableKey k s)) = rnd s"
  "rnd (snd (ScheduleKeyDeletion k d s)) = rnd s" "rnd (snd (CancelKeyDeletion k s)) = rnd s"
  "rnd (snd (EnableKeyRotation k d s)) = rnd s" "rnd (snd (DisableKeyRotation k s)) = rnd s"
  "rnd (snd (TagResource k ts s)) = rnd s" "rnd (snd (UntagResource k ks s)) = rnd s"
  "rnd (snd (RevokeGrant k g s)) = rnd s"
  by (auto simp: PutKeyPolicy_def CreateAlias_def UpdateAlias_def DeleteAlias_def EnableKey_def DisableKey_def
      ScheduleKeyDeletion_def CancelKeyDeletion_def EnableKeyRotation_def DisableKeyRotation_def TagResource_def
      UntagResource_def RevokeGrant_def Let_def dest: rnd_steps
      split: option.splits sum.splits prod.splits ioerr.splits)

lemma rnd_RotateKeyOnDemand: "set (rnd (snd (RotateKeyOnDemand k s))) \<subseteq> set (rnd s)"
  by (auto simp: RotateKeyOnDemand_def rotateMaterial_def dest!: rnd_steps split: sum.splits option.splits prod.splits)
    (blast+)

lemma rnd_CreateGrant: "set (rnd (snd (CreateGrant k i s))) \<subseteq> set (rnd s)"
  by (auto simp: CreateGrant_def newGrantID_def newGrantToken_def Let_def dest!: rnd_steps rnd_newKeyID
      split: sum.splits option.splits prod.splits)

lemma rnd_retireIn: "rnd (snd (retireIn t ids s)) = rnd s"
  by (induction ids) (auto dest: rnd_steps split: sum.splits option.splits prod.splits)

lemma rnd_clean [simp]: "rnd (cleanMetaDir u s) = rnd s" "rnd (cleanMetaMaterialDir u s) = rnd s"
  by (simp_all add: cleanMetaDir_def cleanMetaMaterialDir_def removeLogged_def)

lemma rnd_createMaterial:
  "createSymmetricMaterial u spec s = (r, s') \<Longrightarrow> set (rnd s') \<subseteq> set (rnd s)"
  "createAsymmetricMaterial cr u spec s = (r, s') \<Longrightarrow> set (rnd s') \<subseteq> set (rnd s)"
  by (auto simp: createSymmetricMaterial_def createAsymmetricMaterial_def Let_def dest!: rnd_steps
      split: if_splits option.splits sum.splits prod.splits)

lemma rnd_CreateKey: "set (rnd (snd (CreateKey cr i s))) \<subseteq> set (rnd s)"
proof -
  obtain r0 s0 where e0: "newKeyID s = (r0, s0)" by fastforce
  note 0 = rnd_newKeyID[OF e0]
  show ?thesis
  proof (cases r0)
    case (Some u)
    obtain r1 s1 where e1: "root_Mkdir (keyDir u) s0 = (r1, s1)" by fastforce
    obtain r2 s2 where e2: "writeJSON (keyFile u ''meta.json'') (CMeta (newKeyMetadata i u (clock s0))) s1 = (r2, s2)"
      by fastforce
    obtain r3 s3 where e3: "(if ci_KeySpec i = keySpecSymmetricDefault \<or> isHMACSpec (ci_KeySpec i)
        then createSymmetricMaterial u (ci_KeySpec i) s2 else createAsymmetricMaterial cr u (ci_KeySpec i) s2) = (r3, s3)"
      by fastforce
    have eq: "rnd s1 = rnd s0" "rnd s2 = rnd s0" "set (rnd s3) \<subseteq> set (rnd s0)"
      using rnd_steps(2)[OF e1] rnd_steps(1)[OF e2] e3 by (auto dest!: rnd_createMaterial split: if_splits)
    show ?thesis
      unfolding CreateKey_def e0 Some prod.case option.case Let_def e1 e2 e3
      using 0 eq by (auto dest!: rnd_steps(1) split: option.splits sum.splits prod.splits)
  qed (use 0 in \<open>simp add: CreateKey_def e0\<close>)
qed

lemma exec_rnd: "set (rnd (exec cr c s)) \<subseteq> set (rnd s)"
proof (cases c)
  case (CallCreateKey i)
  then show ?thesis using rnd_CreateKey by simp
next
  case (CallRotateKeyOnDemand k)
  then show ?thesis using rnd_RotateKeyOnDemand by simp
next
  case (CallCreateGrant k i)
  then show ?thesis using rnd_CreateGrant by simp
next
  case (CallRandRead n)
  then show ?thesis using rnd_steps(4)[of n s] by (cases "randRead n s") auto
qed (auto simp: rnd_simple rnd_retireIn RetireGrantByToken_def split: sum.splits)

section \<open>Quiet disks\<close>

lemma quiet_settings: "settings s' = settings s \<Longrightarrow> quiet s \<Longrightarrow> quiet s'"
  by (simp add: settings_def quiet_def)

lemma exec_quiet: "quiet s \<Longrightarrow> quiet (exec cr c s)"
  using quiet_settings[OF exec_settings] by blast

lemma quiet_write:
  assumes "kms_inv s" and "quiet s" and "look s q = Some Dir" and "look s (q @ [f]) \<noteq> Some Dir" and "\<not> escapes (q @ [f])"
  shows "writeJSON (q @ [f]) c s = (None, put (q @ [f]) (File (Some c)) s)"
  using assms root_walk_Some[OF kms_inv_wf, of s q Dir]
  by (simp add: writeJSON_def root_WriteFile_def quiet_def)

lemma quiet_write_key:
  assumes "kms_inv s" and "quiet s" and "look s [''keys'', u] = Some Dir" and "keyDir k = [''keys'', u]"
    and f: "f \<in> {''meta.json'', ''material.json'', ''policy.json'', ''rotation.json'', ''rotation_history.json'', ''tags.json''}"
  shows "writeJSON (keyFile k f) c s = (None, put [''keys'', u, f] (File (Some c)) s)"
proof -
  have "look s [''keys'', u, f] \<noteq> Some Dir"
    using kms_inv_layout[OF assms(1), of "[''keys'', u, f]" Dir] f by (auto simp: key_entry_ok_def)
  moreover have "plain_elem f" using f by auto
  ultimately show ?thesis
    using quiet_write[OF assms(1-3), of f c] assms(4) by (auto simp: keyFile_keyDir escapes_def)
qed

lemma quiet_read:
  assumes "kms_inv s" and "quiet s" and "look s p = Some (File (Some c))" and "dec c = Some v"
  shows "readJSON dec s p = Inr v"
  using assms root_walk_Some[OF kms_inv_wf, of s p] by (simp add: readJSON_def root_ReadFile_def quiet_def)

section \<open>Material that is kept\<close>

definition current_material :: "kms \<Rightarrow> string \<Rightarrow> KeyMaterial option" where
  "current_material s u = (case look s [''keys'', u, ''material.json''] of Some (File (Some c)) \<Rightarrow> asMaterial c | _ \<Rightarrow> None)"

definition saved_material :: "kms \<Rightarrow> string \<Rightarrow> string \<Rightarrow> KeyMaterial option" where
  "saved_material s u i = (case look s [''keys'', u, ''materials'', i @ ''.json''] of
     Some (File (Some c)) \<Rightarrow> asMaterial c | _ \<Rightarrow> None)"

text \<open>The material \<open>m\<close> is available: it is current, and no other material is saved under its ID, or it is
  saved and the current material has another ID.\<close>

definition material_kept :: "kms \<Rightarrow> string \<Rightarrow> KeyMaterial \<Rightarrow> bool" where
  "material_kept s u m \<longleftrightarrow>
     (case current_material s u of
        None \<Rightarrow> saved_material s u (mt_KeyMaterialID m) = Some m
      | Some c \<Rightarrow>
          if c = m then look s [''keys'', u, ''materials'', mt_KeyMaterialID m @ ''.json''] \<in> {None, Some (File (Some (CMaterial m)))}
          else saved_material s u (mt_KeyMaterialID m) = Some m \<and> mt_KeyMaterialID c \<noteq> mt_KeyMaterialID m)"

text \<open>The random source will not produce the ID of this material again.\<close>

definition id_unused :: "string \<Rightarrow> bytes option list \<Rightarrow> bool" where
  "id_unused i r \<longleftrightarrow> (\<forall>b. Some b \<in> set r \<longrightarrow> hex (take 32 b @ replicate (32 - length (take 32 b)) 0) \<noteq> i)"

lemma id_unused_mono: "id_unused i r \<Longrightarrow> set r' \<subseteq> set r \<Longrightarrow> id_unused i r'"
  by (auto simp: id_unused_def)

lemma id_unused_rand: "id_unused i (rnd s) \<Longrightarrow> randRead 32 s = (Some (n, b), s') \<Longrightarrow> hex b \<noteq> i"
  by (auto simp: id_unused_def randRead_def Let_def split: list.splits option.splits)

lemma current_material_Some:
  "current_material s u = Some m \<longleftrightarrow> look s [''keys'', u, ''material.json''] = Some (File (Some (CMaterial m)))"
proof -
  have "asMaterial c = Some m \<longleftrightarrow> c = CMaterial m" for c by (cases c) auto
  then show ?thesis by (auto simp: current_material_def split: option.splits node.splits)
qed

lemma saved_material_Some:
  "saved_material s u i = Some m \<longleftrightarrow> look s [''keys'', u, ''materials'', i @ ''.json''] = Some (File (Some (CMaterial m)))"
proof -
  have "asMaterial c = Some m \<longleftrightarrow> c = CMaterial m" for c by (cases c) auto
  then show ?thesis by (auto simp: saved_material_def split: option.splits node.splits)
qed

section \<open>Rotation keeps the material\<close>

lemma quiet_materials_dir:
  assumes inv: "kms_inv s" and q: "quiet s" and u: "keyDir k = [''keys'', u]" "look s [''keys'', u] = Some Dir" "looksLikeUUID u"
    and m: "root_Mkdir (materialsDir k) s = (r, s')"
  shows "(r = None \<or> r = Some EExist) \<and> look s' [''keys'', u, ''materials''] = Some Dir \<and> kms_inv s' \<and> quiet s'"
proof -
  have inv': "kms_inv s'" using inv_Mkdir_key[OF inv u(1,3), of "''materials''"] m by (simp add: materialsDir_keyDir)
  have "quiet s'" using quiet_settings[OF settings_steps(2)[OF m] q] .
  moreover have "look s [''keys'', u, ''materials''] = Some n \<Longrightarrow> n = Dir" for n
    using kms_inv_layout[OF inv, of "[''keys'', u, ''materials'']" n] by (auto simp: key_entry_ok_def)
  ultimately show ?thesis
    using m inv' q u root_walk_Some[OF kms_inv_wf[OF inv] u(2)]
    by (auto simp: root_Mkdir_def materialsDir_keyDir quiet_def escapes_def fs_simps split: option.splits)
qed

lemma rotate_outcome:
  assumes inv: "kms_inv s" and q: "quiet s" and u: "keyDir k = [''keys'', u]" "look s [''keys'', u] = Some Dir" "looksLikeUUID u"
    and mat: "material_ok cur" and fresh: "id_unused i (rnd s)" and res: "s' = snd (rotateMaterial k meta hist cur s)"
  shows "look s' [''keys'', u, ''materials'', mt_KeyMaterialID cur @ ''.json''] = Some (File (Some (CMaterial cur)))"
    and "current_material s' u = current_material s u \<or> (\<exists>m. current_material s' u = Some m \<and> mt_KeyMaterialID m \<noteq> i)"
proof -
  let ?b = "[''keys'', u, ''materials''] @ [mt_KeyMaterialID cur @ ''.json'']"
  have h: "hex_id (mt_KeyMaterialID cur)" using mat by (simp add: material_ok_def)
  have mf: "materialFile k (mt_KeyMaterialID cur @ ''.json'') = ?b"
    using materialFile_keyDir[OF hex_id_plain[OF h]] u(1) by simp
  obtain r1 s1 where e1: "root_Mkdir (materialsDir k) s = (r1, s1)" by fastforce
  note 1 = quiet_materials_dir[OF inv q u e1]
  have "look s1 ?b \<noteq> Some Dir" using kms_inv_layout[of s1 ?b Dir] 1 by auto
  then have e2: "writeJSON (materialFile k (mt_KeyMaterialID cur @ ''.json'')) (CMaterial cur) s1 =
      (None, put ?b (File (Some (CMaterial cur))) s1)"
    unfolding mf by (intro quiet_write) (use 1 in \<open>auto simp: escapes_def\<close>)
  define s2 where "s2 = put ?b (File (Some (CMaterial cur))) s1"
  have inv2: "kms_inv s2" using inv_write_backup[OF _ u(1,3) mat, of s1] 1 e2 by (simp add: s2_def)
  have q2: "quiet s2" using 1 by (simp add: s2_def quiet_def)
  have b2: "look s2 ?b = Some (File (Some (CMaterial cur)))" by (simp add: s2_def fs_simps)
  have c2: "look s2 [''keys'', u, ''material.json''] = look s [''keys'', u, ''material.json'']"
    using look_mkdir_eq[OF e1, of "[''keys'', u, ''material.json'']"] u(1) by (simp add: s2_def fs_simps materialsDir_keyDir)
  obtain r3 s3 where e3: "randRead 32 s2 = (r3, s3)" by fastforce
  obtain r4 s4 where e4: "randRead 32 s3 = (r4, s4)" by fastforce
  have l: "look s3 p = look s2 p" "look s4 p = look s2 p" for p using look_rand_eq[OF e3] look_rand_eq[OF e4] by simp_all
  have inv4: "kms_inv s4" using inv_randRead[OF e4 inv_randRead[OF e3 inv2]] .
  have q4: "quiet s4" using quiet_settings settings_steps(4)[OF e4] settings_steps(4)[OF e3] q2 by metis
  have d4: "look s4 [''keys'', u] = Some Dir" using l(2) 1 u(2) look_mkdir_eq[OF e1, of "[''keys'', u]"] u(1)
    by (simp add: s2_def fs_simps materialsDir_keyDir)
  have sub3: "set (rnd s3) \<subseteq> set (rnd s)"
    using rnd_steps(4)[OF e3] rnd_steps(2)[OF e1] by (simp add: s2_def)
  have fresh3: "hex b \<noteq> i" if "r4 = Some (n, b)" for n b
    using id_unused_rand[OF id_unused_mono[OF fresh sub3], of n b s4] e4 that by simp
  have w: "writeJSON (keyFile k ''material.json'') c s4 = (None, put [''keys'', u, ''material.json''] (File (Some c)) s4)" for c
    by (rule quiet_write_key[OF inv4 q4 d4 u(1)]) simp
  have hw: "look (snd (writeJSON (keyFile k ''rotation_history.json'') c t)) p = look t p"
    if "p \<noteq> [''keys'', u, ''rotation_history.json'']" for c t p
    using look_write[of "keyFile k ''rotation_history.json''" c t p] that u(1) by (auto simp: key_paths)
  have s': "s' = (case r3 of None \<Rightarrow> s3 | Some _ \<Rightarrow> (case r4 of None \<Rightarrow> s4 | Some (n, b) \<Rightarrow>
      snd (writeJSON (keyFile k ''rotation_history.json'')
        (CHistory (hist @ [\<lparr>rr_KeyID = km_Arn meta, rr_RotationDate = clock s4, rr_RotationType = ''ON_DEMAND''\<rparr>]))
        (put [''keys'', u, ''material.json'']
          (File (Some (CMaterial \<lparr>mt_KeyBytes = snd (the r3), mt_PrivateKeyDER = [], mt_KeyMaterialID = hex b\<rparr>))) s4))))"
    unfolding res rotateMaterial_def e1 prod.case e2 s2_def[symmetric] option.case e3 e4
    using 1 w by (auto simp: put_def e4 split: option.splits prod.splits)
  show "look s' [''keys'', u, ''materials'', mt_KeyMaterialID cur @ ''.json''] = Some (File (Some (CMaterial cur)))"
    using b2 l unfolding s' by (auto simp: hw fs_simps split: option.splits)
  show "current_material s' u = current_material s u \<or> (\<exists>m. current_material s' u = Some m \<and> mt_KeyMaterialID m \<noteq> i)"
    using c2 l fresh3 unfolding s' by (auto simp: current_material_def hw fs_simps split: option.splits)
qed

lemma kept_rotate:
  assumes inv: "kms_inv s" and q: "quiet s" and u: "keyDir k = [''keys'', u]" and m: "hex_id (mt_KeyMaterialID m)"
    and fresh: "id_unused (mt_KeyMaterialID m) (rnd s)" and kept: "material_kept s u m"
  shows "material_kept (snd (RotateKeyOnDemand k s)) u m"
proof (cases "snd (RotateKeyOnDemand k s) = s")
  case False
  then obtain meta hist cur where r: "readKeyMeta s k = Inr meta" "readJSON asMaterial s (keyFile k ''material.json'') = Inr cur"
    and eq: "RotateKeyOnDemand k s = rotateMaterial k meta hist cur s"
    by (auto simp: RotateKeyOnDemand_def split: sum.splits if_splits)
  let ?s = "snd (rotateMaterial k meta hist cur s)"
  obtain v where "keyDir k = [''keys'', v]" "looksLikeUUID v" "look s [''keys'', v] = Some Dir"
    using readKeyMeta_Inr[OF inv r(1)] by metis
  then have uu: "looksLikeUUID u" "look s [''keys'', u] = Some Dir" using u by auto
  note cur = readMaterial_ok[OF inv u r(2)]
  have c: "current_material s u = Some cur" using cur(1) by (simp add: current_material_Some)
  note out = rotate_outcome[OF inv q u uu(2,1) cur(2) fresh refl, of meta hist]
  show ?thesis
  proof (cases "cur = m")
    case True
    then show ?thesis using out c unfolding eq material_kept_def
      by (auto simp: saved_material_Some split: option.splits)
  next
    case False
    then have sm: "saved_material s u (mt_KeyMaterialID m) = Some m" and id: "mt_KeyMaterialID cur \<noteq> mt_KeyMaterialID m"
      using kept c by (auto simp: material_kept_def)
    let ?p = "[''keys'', u, ''materials'', mt_KeyMaterialID m @ ''.json'']"
    have hc: "hex_id (mt_KeyMaterialID cur)" using cur(2) by (simp add: material_ok_def)
    have "look ?s ?p = look s ?p"
      by (rule frame_rotateMaterial)
        (use u id materialFile_keyDir[OF hex_id_plain[OF hc]] in \<open>auto simp: key_paths\<close>)
    then have "saved_material ?s u (mt_KeyMaterialID m) = Some m" using sm by (simp add: saved_material_def)
    then show ?thesis using out(2) c id False unfolding eq material_kept_def by (auto split: option.splits)
  qed
qed (use kept in simp)

text \<open>Only a rotation of the key touches its material files.\<close>

lemma touches_material:
  assumes inv: "kms_inv s" and u: "looksLikeUUID u" "look s [''keys'', u] = Some Dir" and g: "grant_ids_plain c"
    and p: "p = [''keys'', u, ''material.json''] \<or> (\<exists>h. hex_id h \<and> p = [''keys'', u, ''materials'', h @ ''.json''])"
    and t: "touches s c p"
  shows "\<exists>k. c = CallRotateKeyOnDemand k \<and> keyDir k = [''keys'', u]"
proof -
  have hx: "h @ ''.json'' \<noteq> f" if "hex_id h" "f \<in> {''meta.json'', ''policy.json'', ''rotation.json'', ''tags.json'',
      ''material.json'', ''rotation_history.json''}" for h f
    using id_file_names[of f h] that by (auto simp: hex_id_def)
  have kp: "key_path u p" using p by (auto simp: key_path_def)
  have last: "f = ''material.json'' \<or> (\<exists>h. hex_id h \<and> f = h @ ''.json'')" if "p = q @ [f]" for q f
  proof -
    have "last p = f" using that by simp
    then show ?thesis using p by auto
  qed
  have no: "p \<noteq> keyDir k @ [f]" if "f \<in> {''meta.json'', ''policy.json'', ''rotation.json'', ''tags.json'', ''grants''}" for k f
  proof
    assume "p = keyDir k @ [f]"
    then consider "f = ''material.json''" | h where "hex_id h" "f = h @ ''.json''" using last by blast
    then show False
    proof cases
      case 2
      then have "f \<noteq> ''grants''" by (auto simp: hex_id_def)
      then show False using 2 hx[of h f] that by auto
    qed (use that in auto)
  qed
  obtain k where k: "guarded_key c = Some k \<or> (\<exists>y. c = CallPutKeyPolicy k y) \<or> c = CallCancelKeyDeletion k"
    "keyDir k = [''keys'', u] \<or> keyDir k = [''keys'', u, ''materials'']"
    using touches_key_path[OF inv u kp t g] by blast
  show ?thesis
  proof (cases c)
    case (CallRotateKeyOnDemand k')
    then have "k' = k" using k(1) by simp
    have "keyDir k = [''keys'', u]"
    proof (rule ccontr)
      assume "keyDir k \<noteq> [''keys'', u]"
      then have kd: "keyDir k = [''keys'', u, ''materials'']" using k(2) by blast
      have "readJSON asMaterial s (keyFile k ''material.json'') \<noteq> Inr x" for x
        using rotation_backup_name(2)[OF inv] kd by fastforce
      then have "p = [''keys'', u, ''materials'', ''materials''] \<or> p = [''keys'', u, ''materials'', ''material.json'']
          \<or> p = [''keys'', u, ''materials'', ''rotation_history.json'']"
        using t CallRotateKeyOnDemand \<open>k' = k\<close> kd by (auto simp: key_paths)
      then have "\<exists>h. hex_id h \<and> h @ ''.json'' \<in> {''materials'', ''material.json'', ''rotation_history.json''}" using p by auto
      then obtain h where h: "hex_id h" "h @ ''.json'' \<in> {''materials'', ''material.json'', ''rotation_history.json''}" by blast
      have "h @ ''.json'' \<noteq> ''materials''" using h(1) by (auto simp: hex_id_def)
      then show False using h hx[OF h(1), of "h @ ''.json''"] by auto
    qed
    then show ?thesis using CallRotateKeyOnDemand \<open>k' = k\<close> by blast
  next
    case (CallCreateGrant k' i)
    then have "p \<noteq> grantPath k' g'" if "looksLikeUUID g'" for g'
      using key_path_snoc2[OF _ u(1), of "keyDir k'"] kp uuid_chars[OF that] grantPath_keyDir by metis
    then show ?thesis using t CallCreateGrant no by (auto simp: key_paths)
  qed (use t k(1) no in \<open>auto simp: key_paths\<close>)
qed

lemma kept_exec:
  assumes inv: "kms_inv s" and q: "quiet s" and u: "looksLikeUUID u" "look s [''keys'', u] = Some Dir"
    and m: "hex_id (mt_KeyMaterialID m)" and g: "grant_ids_plain c"
    and fresh: "id_unused (mt_KeyMaterialID m) (rnd s)" and kept: "material_kept s u m"
  shows "material_kept (exec cr c s) u m"
proof (cases "\<exists>k. c = CallRotateKeyOnDemand k \<and> keyDir k = [''keys'', u]")
  case True
  then show ?thesis using kept_rotate[OF inv q _ m fresh kept] by auto
next
  case False
  let ?p = "[''keys'', u, ''material.json'']" and ?q = "[''keys'', u, ''materials'', mt_KeyMaterialID m @ ''.json'']"
  have "look (exec cr c s) ?p = look s ?p" "look (exec cr c s) ?q = look s ?q"
    using touches_material[OF inv u g] False m by (auto intro!: exec_frame[OF inv])
  then have "current_material (exec cr c s) u = current_material s u"
    "saved_material (exec cr c s) u (mt_KeyMaterialID m) = saved_material s u (mt_KeyMaterialID m)"
    "look (exec cr c s) ?q = look s ?q"
    by (simp_all add: current_material_def saved_material_def)
  then show ?thesis using kept unfolding material_kept_def by (simp only:)
qed

section \<open>Any sequence of calls\<close>

lemma not_key_dir: "looksLikeUUID u \<Longrightarrow> f \<in> {''meta.json'', ''policy.json'', ''rotation.json'', ''tags.json'', ''grants'',
    ''materials'', ''material.json'', ''rotation_history.json''} \<Longrightarrow> [''keys'', u] \<noteq> q @ [f]"
  by (cases q) (auto simp: looksLikeUUID_def append_eq_Cons_conv)

lemma exec_key_dir:
  assumes inv: "kms_inv s" and u: "looksLikeUUID u" "look s [''keys'', u] = Some Dir" and g: "grant_ids_plain c"
  shows "look (exec cr c s) [''keys'', u] = Some Dir"
proof -
  have gp: "[''keys'', u] \<noteq> grantPath k g'" if "CHR ''/'' \<notin> set g'" for k g'
    using that by (auto simp: grantPath_keyDir append_eq_Cons_conv)
  have mat: "[''keys'', u] \<noteq> materialFile k (mt_KeyMaterialID x @ ''.json'')"
    if "readJSON asMaterial s (keyFile k ''material.json'') = Inr x" for k x
    using materialFile_keyDir[OF hex_id_plain[OF rotation_backup_name(1)[OF inv that]]] by (auto simp: append_eq_Cons_conv)
  have nk: "[''keys'', u] \<noteq> keyDir k @ [''meta.json'']" "[''keys'', u] \<noteq> keyDir k @ [''policy.json'']"
    "[''keys'', u] \<noteq> keyDir k @ [''rotation.json'']" "[''keys'', u] \<noteq> keyDir k @ [''tags.json'']"
    "[''keys'', u] \<noteq> keyDir k @ [''grants'']" "[''keys'', u] \<noteq> keyDir k @ [''materials'']"
    "[''keys'', u] \<noteq> keyDir k @ [''material.json'']" "[''keys'', u] \<noteq> keyDir k @ [''rotation_history.json'']" for k
    by (rule not_key_dir[OF u(1)], simp)+
  have "\<not> touches s c [''keys'', u]"
  proof (cases c)
    case (CallRotateKeyOnDemand k)
    then show ?thesis using mat by (auto simp: key_paths nk)
  next
    case (CallCreateGrant k i)
    then show ?thesis using gp uuid_chars by (auto simp: key_paths nk)
  next
    case (CallCreateKey i)
    then show ?thesis using u(2) by auto
  qed (use gp g in \<open>simp_all add: key_paths nk aliasPath_eq\<close>)
  then show ?thesis using exec_frame[OF inv] u(2) by simp
qed

lemma kept_run:
  assumes "kms_inv s" and "quiet s" and "looksLikeUUID u" and "look s [''keys'', u] = Some Dir"
    and "hex_id (mt_KeyMaterialID m)" and "id_unused (mt_KeyMaterialID m) (rnd s)" and "material_kept s u m"
    and "admissible cr cs s" and "list_all grant_ids_plain cs"
  shows "material_kept (run cr cs s) u m \<and> kms_inv (run cr cs s) \<and> quiet (run cr cs s)"
  using assms
proof (induction cs arbitrary: s)
  case (Cons c cs)
  have "material_kept (exec cr c s) u m" using kept_exec[OF Cons.prems(1-5) _ Cons.prems(6,7)] Cons.prems(9) by simp
  moreover have "look (exec cr c s) [''keys'', u] = Some Dir" using exec_key_dir[OF Cons.prems(1,3,4)] Cons.prems(9) by simp
  moreover have "id_unused (mt_KeyMaterialID m) (rnd (exec cr c s))" using id_unused_mono[OF Cons.prems(6) exec_rnd] .
  moreover have "kms_inv (exec cr c s)" "quiet (exec cr c s)" "admissible cr cs (exec cr c s)"
    using Cons.prems by (simp_all add: exec_inv exec_quiet)
  ultimately show ?case using Cons.IH[of "exec cr c s"] Cons.prems by simp
qed simp

section \<open>Finding the material again\<close>

lemma collectMaterials_mem:
  "(name, False) \<in> set es \<Longrightarrow> has_json_suffix 5 name \<Longrightarrow> readJSON asMaterial s (materialFile k name) = Inr m \<Longrightarrow>
     m \<in> set (collectMaterials s k es)"
  by (induction s k es rule: collectMaterials.induct) (auto split: sum.splits)

lemma saved_is_previous:
  assumes inv: "kms_inv s" and q: "quiet s" and u: "looksLikeUUID u" and ex: "readKeyMeta s u = Inr meta"
    and m: "saved_material s u (mt_KeyMaterialID m) = Some m" "hex_id (mt_KeyMaterialID m)"
  shows "\<exists>ms. GetPreviousKeyMaterials s u = Inr ms \<and> m \<in> set ms"
proof -
  let ?n = "mt_KeyMaterialID m @ ''.json''"
  have kd: "keyDir u = [''keys'', u]" by (rule keyDir_uuid[OF u])
  have f: "look s [''keys'', u, ''materials'', ?n] = Some (File (Some (CMaterial m)))" using m(1) by (simp add: saved_material_Some)
  then have d: "look s [''keys'', u, ''materials''] = Some Dir"
    using disk_wf_prefix[OF kms_inv_wf[OF inv], of "[''keys'', u, ''materials'']" "[?n]"] by simp
  have "look s [''keys'', u, ''meta.json''] = Some (File (Some (CMeta meta)))"
    using readKeyMeta_Inr[OF inv ex] kd by auto
  then have k: "keyExistsLocked s u = None"
    using q root_walk_Some[OF kms_inv_wf[OF inv]] kd by (simp add: keyExistsLocked_def root_Stat_def quiet_def key_paths)
  have e: "root_ReadDir s (materialsDir u) = Inr (entries s [''keys'', u, ''materials''])"
    using q root_walk_Some[OF kms_inv_wf[OF inv] d] kd by (simp add: root_ReadDir_def quiet_def materialsDir_keyDir)
  have "(?n, False) \<in> set (entries s [''keys'', u, ''materials''])"
    using entries_mem[OF kms_inv_wf[OF inv]] f by fastforce
  moreover have "readJSON asMaterial s (materialFile u ?n) = Inr m"
    using quiet_read[OF inv q f, of asMaterial m] materialFile_keyDir[OF hex_id_plain[OF m(2)]] kd by simp
  moreover have "has_json_suffix 5 ?n" by (simp add: has_json_suffix_def)
  ultimately have "m \<in> set (collectMaterials s u (entries s [''keys'', u, ''materials'']))" by (intro collectMaterials_mem)
  then show ?thesis using k e by (simp add: GetPreviousKeyMaterials_def)
qed

end
