(* ===== verification/Kms_Crypto_Theorems.thy ===== *)
theory Kms_Crypto_Theorems
  imports Kms_Material
begin

text \<open>
  Properties of the data plane: what \<open>Encrypt\<close>, \<open>ReEncrypt\<close> and \<open>GenerateDataKey\<close> produce can be decrypted,
  also after the key has been rotated; a different encryption context is rejected; message
  authentication codes and signatures verify; and no cryptographic operation works on a key that is
  not enabled or not made for it.
\<close>

section \<open>Reads do not depend on the random source\<close>

lemma look_rnd [simp]: "look (s\<lparr>rnd := r\<rparr>) = look s"
  by (simp add: look_def fun_eq_iff)

lemma reads_rnd [simp]:
  "root_walk (s\<lparr>rnd := r\<rparr>) = root_walk s" "root_Stat (s\<lparr>rnd := r\<rparr>) = root_Stat s"
  "root_ReadFile (s\<lparr>rnd := r\<rparr>) = root_ReadFile s" "root_ReadDir (s\<lparr>rnd := r\<rparr>) = root_ReadDir s"
  by (simp_all add: root_walk_def root_Stat_def root_ReadFile_def root_ReadDir_def blocked_def entries_def fun_eq_iff
      split: sum.split node.split)

lemma readJSON_rnd [simp]: "readJSON dec (s\<lparr>rnd := r\<rparr>) p = readJSON dec s p"
  by (simp add: readJSON_def)

lemma storage_reads_rnd [simp]:
  "readKeyMeta (s\<lparr>rnd := r\<rparr>) k = readKeyMeta s k" "GetKeyMetadata (s\<lparr>rnd := r\<rparr>) k = GetKeyMetadata s k"
  "keyExistsLocked (s\<lparr>rnd := r\<rparr>) k = keyExistsLocked s k" "GetKeyMaterial (s\<lparr>rnd := r\<rparr>) k = GetKeyMaterial s k"
  "ResolveAlias (s\<lparr>rnd := r\<rparr>) a = ResolveAlias s a"
  by (simp_all add: readKeyMeta_def GetKeyMetadata_def keyExistsLocked_def GetKeyMaterial_def ResolveAlias_def
      cong del: option.case_cong_weak sum.case_cong_weak)

lemma collectMaterials_rnd [simp]: "collectMaterials (s\<lparr>rnd := r\<rparr>) k es = collectMaterials s k es"
  by (induction s k es rule: collectMaterials.induct) (auto split: sum.split)

lemma handler_reads_rnd [simp]:
  "resolveKeyRef (s\<lparr>rnd := r\<rparr>) k = resolveKeyRef s k" "usableKey (s\<lparr>rnd := r\<rparr>) k u = usableKey s k u"
  "symmetricKey (s\<lparr>rnd := r\<rparr>) k = symmetricKey s k"
  "GetPreviousKeyMaterials (s\<lparr>rnd := r\<rparr>) k = GetPreviousKeyMaterials s k"
  by (simp_all add: resolveKeyRef_def usableKey_def symmetricKey_def resolveAndValidateKey_def
      loadSymmetricMaterial_def GetPreviousKeyMaterials_def
      cong del: option.case_cong_weak sum.case_cong_weak if_weak_cong)

section \<open>The key guard\<close>

lemmas response_defs = validationException_def badRequest_def internalError_def

text \<open>The guards only ever fail with an error response.\<close>

lemma metaError_not_ok [simp]: "metaError e \<noteq> ROk b"
  by (simp add: metaError_def response_defs)

lemma guards_not_ok [simp]:
  "resolveKeyRef s r \<noteq> Inl (ROk b)" "usableKey s r u \<noteq> Inl (ROk b)" "symmetricKey s r \<noteq> Inl (ROk b)"
  "envelopeGuard s ct r \<noteq> Inl (ROk b)"
proof -
  show r: "resolveKeyRef s r \<noteq> Inl (ROk b)" for r
    by (auto simp: resolveKeyRef_def response_defs split: option.splits sum.splits kms_error.splits)
  show u: "usableKey s r u \<noteq> Inl (ROk b)" for u
    using r by (auto simp: usableKey_def response_defs split: sum.splits)
  show "symmetricKey s r \<noteq> Inl (ROk b)"
    using u by (auto simp: symmetricKey_def resolveAndValidateKey_def loadSymmetricMaterial_def response_defs split: sum.splits if_splits)
  show "envelopeGuard s ct r \<noteq> Inl (ROk b)"
    using r by (auto simp: envelopeGuard_def Let_def response_defs split: sum.splits if_splits)
qed

lemma usableKey_Inr:
  assumes "usableKey s ref usage = Inr (meta, k)"
  shows "resolveKeyRef s ref = Inr k" "readKeyMeta s k = Inr meta" "km_KeyState meta = keyStateEnabled"
    "km_Enabled meta" "km_KeyUsage meta = usage" "ref \<noteq> ''''"
  using assms by (auto simp: usableKey_def GetKeyMetadata_def split: if_splits sum.splits)

lemma usableKey_uuid:
  assumes "usableKey s ref usage = Inr (meta, k)" and "looksLikeUUID k"
  shows "usableKey s k usage = Inr (meta, k)"
proof -
  have "k \<noteq> ''''" using assms(2) by (auto simp: looksLikeUUID_def)
  then show ?thesis
    using usableKey_Inr[OF assms(1)] resolveKeyRef_uuid(1)[OF assms(2)]
    by (simp add: usableKey_def GetKeyMetadata_def)
qed

lemma symmetricKey_Inr:
  assumes "symmetricKey s ref = Inr (meta, k, mat)"
  shows "usableKey s ref ''ENCRYPT_DECRYPT'' = Inr (meta, k)" "km_KeySpec meta = ''SYMMETRIC_DEFAULT''"
    "GetKeyMaterial s k = Inr mat"
  using assms by (auto simp: symmetricKey_def resolveAndValidateKey_def loadSymmetricMaterial_def split: sum.splits if_splits)

lemma symmetricKey_uuid:
  assumes "symmetricKey s ref = Inr (meta, k, mat)" and "looksLikeUUID k"
  shows "symmetricKey s k = Inr (meta, k, mat)"
  using symmetricKey_Inr[OF assms(1)] usableKey_uuid[OF symmetricKey_Inr(1)[OF assms(1)] assms(2)]
  by (simp add: symmetricKey_def resolveAndValidateKey_def loadSymmetricMaterial_def)

section \<open>Sealing with a fresh nonce\<close>

lemma readFullRand_Some:
  "readFullRand n s = (Some b, s') \<Longrightarrow> length b = n \<and> s' = s\<lparr>rnd := tl (rnd s)\<rparr>"
  by (auto simp: readFullRand_def randRead_def Let_def split: prod.splits option.splits list.splits if_splits)

lemma sealWithNonce_Some:
  "sealWithNonce cr k m p c s = (Some ct, s') \<Longrightarrow>
     \<exists>nonce. length nonce = 12 \<and> sealEnvelope cr k m p c nonce = Some ct \<and> s' = s\<lparr>rnd := tl (rnd s)\<rparr>"
  by (auto simp: sealWithNonce_def envelopeNonceLen_def dest!: readFullRand_Some split: prod.splits option.splits)

lemma handleEncrypt_ok:
  assumes "handleEncrypt cr (Some req) s = (ROk (BCiphertext ct arn), s')"
  shows "\<exists>meta k mat nonce. symmetricKey s (eq_KeyID req) = Inr (meta, k, mat) \<and> length nonce = 12
    \<and> sealEnvelope cr k mat (eq_Plaintext req) (eq_EncryptionContext req) nonce = Some ct
    \<and> arn = km_Arn meta \<and> s' = s\<lparr>rnd := tl (rnd s)\<rparr> \<and> validateEncryptionContext (eq_EncryptionContext req)
    \<and> eq_Plaintext req \<noteq> []"
  using assms by (auto simp: handleEncrypt_def response_defs
      dest!: sealWithNonce_Some split: if_splits sum.splits prod.splits option.splits)

section \<open>Decrypting an envelope\<close>

text \<open>Any material with the right key bytes will do, and no other material opens the envelope.\<close>

lemma tryMaterials_sealed:
  assumes seal: "sealEnvelope cr k mat pt ctx nonce = Some ct" and len: "length k = 36" "length nonce = 12"
    and aead: "aead_correct cr" "aead_authentic cr" and ctx: "marshalContext ctx' = marshalContext ctx"
    and m: "m \<in> set ms" "mt_KeyBytes m = mt_KeyBytes mat"
  shows "\<exists>m'. tryMaterials cr ct ctx' ms = Some (m', pt) \<and> mt_KeyBytes m' = mt_KeyBytes mat"
  using m(1)
proof (induction ms)
  case (Cons a ms)
  have o: "openEnvelope cr ct a ctx' = openEnvelope cr ct a ctx" using ctx by (simp add: openEnvelope_def)
  show ?case
  proof (cases "openEnvelope cr ct a ctx'")
    case None
    have "openEnvelope cr ct m ctx = openEnvelope cr ct mat ctx" using m(2) by (simp add: openEnvelope_def)
    then have "m \<noteq> a" using None o openEnvelope_sealed(1)[OF seal len aead] by auto
    then show ?thesis using None Cons by simp
  next
    case (Some r)
    then show ?thesis using openEnvelope_sealed(2)[OF seal len aead, of a ctx' "fst r" "snd r"]
      by (auto split: prod.splits)
  qed
qed simp

lemma envelopeGuard_sealed:
  assumes seal: "sealEnvelope cr k mat pt ctx nonce = Some ct" and u: "looksLikeUUID k" and n: "length nonce = 12"
    and aead: "aead_correct cr" and ref: "ref = '''' \<or> resolveKeyRef s ref = Inr k"
  shows "envelopeGuard s ct ref = Inr k" and "ct \<noteq> []"
proof -
  have l: "length k = 36" using u by (simp add: looksLikeUUID_def)
  have ok: "aesKeySizeOk (mt_KeyBytes mat)" using seal by (simp add: sealEnvelope_def split: if_splits)
  let ?c = "cr_Seal cr (mt_KeyBytes mat) nonce pt (marshalContext ctx)"
  have ct: "ct = envelopeVersion # bytes_of_string k @ algoSymmetricDefault # nonce @ ?c"
    using seal sealEnvelope_layout[OF l n ok] by simp
  then show "ct \<noteq> []" by simp
  have "16 \<le> length ?c" using aead by (simp add: aead_correct_def)
  then have "\<not> length ct < 51" unfolding ct using l n by (cases ?c) simp_all
  moreover have "envelopeKeyID ct = k"
    using envelopeKeyID_layout[of "bytes_of_string k"] l ct by simp
  moreover have "ct ! 0 = envelopeVersion" using ct by simp
  ultimately show "envelopeGuard s ct ref = Inr k" using u ref by (auto simp: envelopeGuard_def envelope_offsets Let_def)
qed

lemma decrypt_kept:
  assumes seal: "sealEnvelope cr k mat pt ctx nonce = Some ct" and u: "looksLikeUUID k" and n: "length nonce = 12"
    and aead: "aead_correct cr" "aead_authentic cr" and key: "symmetricKey t k = Inr (meta, k, cur)"
    and kept: "mt_KeyBytes cur = mt_KeyBytes mat \<or>
       (\<exists>ms m. GetPreviousKeyMaterials t k = Inr ms \<and> m \<in> set ms \<and> mt_KeyBytes m = mt_KeyBytes mat)"
    and req: "dq_CiphertextBlob req = ct" "dq_KeyID req = '''' \<or> resolveKeyRef t (dq_KeyID req) = Inr k"
      "symmetricAlgorithm (dq_EncryptionAlgorithm req)" "validateEncryptionContext (dq_EncryptionContext req)"
      "marshalContext (dq_EncryptionContext req) = marshalContext ctx"
  shows "\<exists>m :: KeyMaterial. handleDecrypt cr (Some req) t = (ROk (BPlaintext pt (km_Arn meta) (mt_KeyMaterialID m)), t)
           \<and> mt_KeyBytes m = mt_KeyBytes mat"
proof -
  let ?c = "dq_EncryptionContext req"
  have l: "length k = 36" using u by (simp add: looksLikeUUID_def)
  note guard = envelopeGuard_sealed[OF seal u n aead(1) req(2)]
  have "\<exists>m. tryDecryptWithFallback cr t ct cur ?c k = Some (m, pt) \<and> mt_KeyBytes m = mt_KeyBytes mat"
  proof (cases "openEnvelope cr ct cur ?c")
    case (Some r)
    then show ?thesis using openEnvelope_sealed(2)[OF seal l n aead, of cur ?c "fst r" "snd r"]
      by (auto simp: tryDecryptWithFallback_def split: prod.splits)
  next
    case None
    have "openEnvelope cr ct cur ctx = openEnvelope cr ct mat ctx" if "mt_KeyBytes cur = mt_KeyBytes mat"
      using that by (simp add: openEnvelope_def)
    moreover have "openEnvelope cr ct cur ?c = openEnvelope cr ct cur ctx" using req(5) by (simp add: openEnvelope_def)
    ultimately have "mt_KeyBytes cur \<noteq> mt_KeyBytes mat" using None openEnvelope_sealed(1)[OF seal l n aead] by auto
    then obtain ms m where "GetPreviousKeyMaterials t k = Inr ms" "m \<in> set ms" "mt_KeyBytes m = mt_KeyBytes mat"
      using kept by blast
    then show ?thesis using None tryMaterials_sealed[OF seal l n aead req(5)] by (auto simp: tryDecryptWithFallback_def)
  qed
  then obtain m where m: "tryDecryptWithFallback cr t ct cur ?c k = Some (m, pt)" "mt_KeyBytes m = mt_KeyBytes mat" by blast
  have "handleDecrypt cr (Some req) t = (ROk (BPlaintext pt (km_Arn meta) (mt_KeyMaterialID m)), t)"
    using guard req key m(1) by (simp add: handleDecrypt_def)
  then show ?thesis using m(2) by blast
qed

section \<open>Encryption contexts\<close>

text \<open>The form of a context does not depend on the iteration order of the map.\<close>

lemma marshalContext_cong:
  assumes "smap_wf c1" and "smap_wf c2" and "map_of c1 = map_of c2"
  shows "marshalContext c1 = marshalContext c2" and "validateEncryptionContext c1 = validateEncryptionContext c2"
proof -
  have "c1 = [] \<longleftrightarrow> c2 = []" using assms(3) by (metis map_of_eq_empty_iff)
  then show m: "marshalContext c1 = marshalContext c2"
    using sort_key_fst_eq[OF assms] by (simp add: marshalContext_def)
  have "set c1 = set c2" using map_of_inject_set[OF assms(1,2)] assms(3) by simp
  then show "validateEncryptionContext c1 = validateEncryptionContext c2"
    using m by (simp add: validateEncryptionContext_def list_all_iff)
qed

text \<open>A \<open>Decrypt\<close> request with the default algorithm.\<close>

definition decryptRequest :: "bytes \<Rightarrow> string \<Rightarrow> smap \<Rightarrow> DecryptRequest" where
  "decryptRequest ct ref ctx = \<lparr>dq_CiphertextBlob = ct, dq_KeyID = ref, dq_EncryptionAlgorithm = '''', dq_EncryptionContext = ctx\<rparr>"

lemma decryptRequest_simps [simp]:
  "dq_CiphertextBlob (decryptRequest ct ref ctx) = ct" "dq_KeyID (decryptRequest ct ref ctx) = ref"
  "symmetricAlgorithm (dq_EncryptionAlgorithm (decryptRequest ct ref ctx))"
  "dq_EncryptionContext (decryptRequest ct ref ctx) = ctx"
  by (simp_all add: decryptRequest_def symmetricAlgorithm_def)

lemma decrypt_fresh:
  assumes seal: "sealEnvelope cr k mat pt ctx nonce = Some ct" and u: "looksLikeUUID k" and n: "length nonce = 12"
    and aead: "aead_correct cr" "aead_authentic cr" and key: "symmetricKey s k = Inr (meta, k, mat)"
    and ctx: "validateEncryptionContext ctx'" "marshalContext ctx' = marshalContext ctx"
  shows "\<exists>mid. handleDecrypt cr (Some (decryptRequest ct '''' ctx')) s = (ROk (BPlaintext pt (km_Arn meta) mid), s)"
  using decrypt_kept[OF seal u n aead key, of "decryptRequest ct '''' ctx'"] ctx by auto

lemma encrypt_decrypt:
  assumes aead: "aead_correct cr" "aead_authentic cr"
    and enc: "handleEncrypt cr (Some req) s = (ROk (BCiphertext ct arn), s1)"
    and k: "resolveKeyRef s (eq_KeyID req) = Inr k" "looksLikeUUID k"
    and ctx: "smap_wf (eq_EncryptionContext req)" "smap_wf ctx" "map_of ctx = map_of (eq_EncryptionContext req)"
  shows "\<exists>mid. handleDecrypt cr (Some (decryptRequest ct '''' ctx)) s1 = (ROk (BPlaintext (eq_Plaintext req) arn mid), s1)"
proof -
  obtain meta k' mat nonce where e: "symmetricKey s (eq_KeyID req) = Inr (meta, k', mat)" "length nonce = 12"
    "sealEnvelope cr k' mat (eq_Plaintext req) (eq_EncryptionContext req) nonce = Some ct"
    "arn = km_Arn meta" "s1 = s\<lparr>rnd := tl (rnd s)\<rparr>" "validateEncryptionContext (eq_EncryptionContext req)"
    using handleEncrypt_ok[OF enc] by blast
  have kk: "k' = k" using usableKey_Inr(1)[OF symmetricKey_Inr(1)[OF e(1)]] k(1) by simp
  note e = e[unfolded kk]
  have key: "symmetricKey s1 k = Inr (meta, k, mat)" using symmetricKey_uuid[OF e(1) k(2)] e(5) by simp
  note c = marshalContext_cong[OF ctx(2,1,3)]
  show ?thesis using decrypt_fresh[OF e(3) k(2) e(2) aead key, of ctx] c e(4,6) by simp
qed

section \<open>Decrypting later\<close>

lemma GetKeyMaterial_current:
  assumes inv: "kms_inv s" and u: "looksLikeUUID u" and g: "GetKeyMaterial s u = Inr m"
  shows "current_material s u = Some m" and "material_ok m" and "look s [''keys'', u] = Some Dir"
proof -
  have r: "readJSON asMaterial s (keyFile u ''material.json'') = Inr m" and ex: "keyExistsLocked s u = None"
    using g by (auto simp: GetKeyMaterial_def Let_def split: option.splits sum.splits ioerr.splits if_splits)
  note kd = keyDir_uuid[OF u]
  show "current_material s u = Some m" "material_ok m"
    using readMaterial_ok[OF inv kd r] by (simp_all add: current_material_Some)
  show "look s [''keys'', u] = Some Dir" using keyExists_None[OF inv ex] kd by fastforce
qed

lemma decrypt_later:
  assumes aead: "aead_correct cr" "aead_authentic cr" and inv: "kms_inv s" and q: "quiet s"
    and enc: "handleEncrypt cr (Some req) s = (ROk (BCiphertext ct arn), s1)"
    and k: "resolveKeyRef s (eq_KeyID req) = Inr k" "looksLikeUUID k"
    and mat: "GetKeyMaterial s k = Inr mat" "look s [''keys'', k, ''materials'', mt_KeyMaterialID mat @ ''.json''] = None"
      "id_unused (mt_KeyMaterialID mat) (rnd s)"
    and calls: "admissible cr cs s1" "list_all grant_ids_plain cs"
    and key: "symmetricKey (run cr cs s1) k = Inr (meta, k, cur)"
    and ctx: "smap_wf (eq_EncryptionContext req)" "smap_wf ctx" "map_of ctx = map_of (eq_EncryptionContext req)"
  shows "\<exists>mid. handleDecrypt cr (Some (decryptRequest ct '''' ctx)) (run cr cs s1) =
            (ROk (BPlaintext (eq_Plaintext req) (km_Arn meta) mid), run cr cs s1)"
proof -
  obtain meta0 k' mat' nonce where e: "symmetricKey s (eq_KeyID req) = Inr (meta0, k', mat')" "length nonce = 12"
    "sealEnvelope cr k' mat' (eq_Plaintext req) (eq_EncryptionContext req) nonce = Some ct"
    "s1 = s\<lparr>rnd := tl (rnd s)\<rparr>" "validateEncryptionContext (eq_EncryptionContext req)"
    using handleEncrypt_ok[OF enc] by blast
  have kk: "k' = k" using usableKey_Inr(1)[OF symmetricKey_Inr(1)[OF e(1)]] k(1) by simp
  have mm: "mat' = mat" using symmetricKey_Inr(3)[OF e(1)] mat(1) kk by simp
  note e = e[unfolded kk mm]
  note cur = GetKeyMaterial_current[OF inv k(2) mat(1)]
  have h: "hex_id (mt_KeyMaterialID mat)" using cur(2) by (simp add: material_ok_def)
  have "set (tl (rnd s)) \<subseteq> set (rnd s)" by (cases "rnd s") auto
  then have fresh: "id_unused (mt_KeyMaterialID mat) (rnd s1)" using id_unused_mono[OF mat(3)] e(4) by simp
  have "kms_inv s1" "quiet s1" "look s1 [''keys'', k] = Some Dir" using inv q cur(3) e(4) by (simp_all add: kms_inv_cong quiet_def)
  moreover have "material_kept s1 k mat"
    using cur(1) mat(2) e(4) by (simp add: material_kept_def current_material_def)
  ultimately have kept: "material_kept (run cr cs s1) k mat" "kms_inv (run cr cs s1)" "quiet (run cr cs s1)"
    using kept_run[of s1 k mat cr cs] k(2) h fresh calls by blast+
  note ck = GetKeyMaterial_current[OF kept(2) k(2) symmetricKey_Inr(3)[OF key]]
  have "readKeyMeta (run cr cs s1) k = Inr meta" using usableKey_Inr(2)[OF symmetricKey_Inr(1)[OF key]] .
  then have "cur = mat \<or> (\<exists>ms. GetPreviousKeyMaterials (run cr cs s1) k = Inr ms \<and> mat \<in> set ms)"
    using kept(1) ck(1) saved_is_previous[OF kept(2,3) k(2) _ _ h] by (auto simp: material_kept_def split: if_splits)
  then show ?thesis
    using decrypt_kept[OF e(3) k(2) e(2) aead key, of "decryptRequest ct '''' ctx"] marshalContext_cong[OF ctx(2,1,3)] e(5)
    by fastforce
qed

section \<open>Rejecting another context\<close>

lemma tryMaterials_Some: "tryMaterials cr ct ctx ms = Some (m, pt) \<Longrightarrow> \<exists>k. openEnvelope cr ct m ctx = Some (k, pt)"
  by (induction cr ct ctx ms rule: tryMaterials.induct) (auto split: option.splits prod.splits)

lemma tryDecrypt_Some:
  "tryDecryptWithFallback cr s ct mat ctx k = Some (m, pt) \<Longrightarrow> \<exists>k. openEnvelope cr ct m ctx = Some (k, pt)"
  by (auto simp: tryDecryptWithFallback_def dest: tryMaterials_Some split: option.splits sum.splits prod.splits)

lemma envelopeGuard_Inr: "envelopeGuard s ct r = Inr e \<Longrightarrow> e = envelopeKeyID ct"
  by (auto simp: envelopeGuard_def Let_def split: if_splits sum.splits)

lemma handleDecrypt_ok:
  assumes "handleDecrypt cr (Some req) s = (ROk b, s')"
  shows "\<exists>meta k mat m pt. envelopeGuard s (dq_CiphertextBlob req) (dq_KeyID req) = Inr (envelopeKeyID (dq_CiphertextBlob req))
    \<and> symmetricKey s (envelopeKeyID (dq_CiphertextBlob req)) = Inr (meta, k, mat)
    \<and> tryDecryptWithFallback cr s (dq_CiphertextBlob req) mat (dq_EncryptionContext req) k = Some (m, pt)
    \<and> b = BPlaintext pt (km_Arn meta) (mt_KeyMaterialID m) \<and> s' = s"
proof -
  obtain e where g: "envelopeGuard s (dq_CiphertextBlob req) (dq_KeyID req) = Inr e"
    using assms by (auto simp: handleDecrypt_def response_defs split: if_splits sum.splits)
  have e: "e = envelopeKeyID (dq_CiphertextBlob req)" by (rule envelopeGuard_Inr[OF g])
  show ?thesis
    using assms g by (auto simp: handleDecrypt_def response_defs e split: if_splits sum.splits prod.splits option.splits)
qed

lemma decrypt_other_context:
  assumes aead: "aead_correct cr" "aead_authentic cr"
    and enc: "handleEncrypt cr (Some req) s = (ROk (BCiphertext ct arn), s1)"
    and k: "resolveKeyRef s (eq_KeyID req) = Inr k" "looksLikeUUID k"
    and ctx: "marshalContext (dq_EncryptionContext d) \<noteq> marshalContext (eq_EncryptionContext req)"
    and d: "dq_CiphertextBlob d = ct"
  shows "\<not> is_ok (fst (handleDecrypt cr (Some d) t))"
proof
  assume "is_ok (fst (handleDecrypt cr (Some d) t))"
  then obtain b where "fst (handleDecrypt cr (Some d) t) = ROk b" by (auto simp: is_ok_def split: response.splits)
  then obtain b t' where "handleDecrypt cr (Some d) t = (ROk b, t')" by (metis prod.collapse)
  from handleDecrypt_ok[OF this] obtain k' mat m pt
    where "tryDecryptWithFallback cr t (dq_CiphertextBlob d) mat (dq_EncryptionContext d) k' = Some (m, pt)" by blast
  from tryDecrypt_Some[OF this] d obtain k2 where o: "openEnvelope cr ct m (dq_EncryptionContext d) = Some (k2, pt)" by auto
  obtain meta k3 mat' nonce where e: "symmetricKey s (eq_KeyID req) = Inr (meta, k3, mat')" "length nonce = 12"
    "sealEnvelope cr k3 mat' (eq_Plaintext req) (eq_EncryptionContext req) nonce = Some ct"
    using handleEncrypt_ok[OF enc] by blast
  have kk: "k3 = k" using usableKey_Inr(1)[OF symmetricKey_Inr(1)[OF e(1)]] k(1) by simp
  have l: "length k = 36" using k(2) by (simp add: looksLikeUUID_def)
  show False using openEnvelope_sealed(2)[OF e(3)[unfolded kk] l e(2) aead o] ctx by simp
qed

section \<open>ReEncrypt and data keys\<close>

lemma handleReEncrypt_ok:
  assumes "handleReEncrypt cr (Some req) s = (ROk b, s')"
  shows "\<exists>srcMeta srcKey srcMat m pt dstMeta dstKey dstMat nonce ct.
      envelopeGuard s (re_CiphertextBlob req) (re_SourceKeyId req) = Inr (envelopeKeyID (re_CiphertextBlob req))
    \<and> symmetricKey s (envelopeKeyID (re_CiphertextBlob req)) = Inr (srcMeta, srcKey, srcMat)
    \<and> tryDecryptWithFallback cr s (re_CiphertextBlob req) srcMat (re_SourceEncryptionContext req) srcKey = Some (m, pt)
    \<and> symmetricKey s (re_DestinationKeyId req) = Inr (dstMeta, dstKey, dstMat) \<and> length nonce = 12
    \<and> sealEnvelope cr dstKey dstMat pt (re_DestinationEncryptionContext req) nonce = Some ct
    \<and> b = BReEncrypt ct (km_Arn dstMeta) (km_Arn srcMeta) (mt_KeyMaterialID m) (mt_KeyMaterialID dstMat)
    \<and> s' = s\<lparr>rnd := tl (rnd s)\<rparr> \<and> validateEncryptionContext (re_DestinationEncryptionContext req)"
proof -
  obtain e where g: "envelopeGuard s (re_CiphertextBlob req) (re_SourceKeyId req) = Inr e"
    using assms by (auto simp: handleReEncrypt_def response_defs split: if_splits sum.splits)
  have e: "e = envelopeKeyID (re_CiphertextBlob req)" by (rule envelopeGuard_Inr[OF g])
  show ?thesis
    using assms g by (auto simp: handleReEncrypt_def response_defs e dest!: sealWithNonce_Some
        split: if_splits sum.splits prod.splits option.splits)
qed

lemma reencrypt_decrypt:
  assumes aead: "aead_correct cr" "aead_authentic cr"
    and dec: "handleDecrypt cr (Some (decryptRequest (re_CiphertextBlob req) (re_SourceKeyId req) (re_SourceEncryptionContext req))) s
              = (ROk (BPlaintext pt srcArn srcMid), s)"
    and re: "handleReEncrypt cr (Some req) s = (ROk (BReEncrypt ct dstArn srcArn' m1 m2), s1)"
    and k: "resolveKeyRef s (re_DestinationKeyId req) = Inr k" "looksLikeUUID k"
  shows "\<exists>mid. handleDecrypt cr (Some (decryptRequest ct '''' (re_DestinationEncryptionContext req))) s1
           = (ROk (BPlaintext pt dstArn mid), s1)"
proof -
  obtain srcMeta srcKey srcMat m pt' dstMeta dstKey dstMat nonce where r:
    "symmetricKey s (envelopeKeyID (re_CiphertextBlob req)) = Inr (srcMeta, srcKey, srcMat)"
    "tryDecryptWithFallback cr s (re_CiphertextBlob req) srcMat (re_SourceEncryptionContext req) srcKey = Some (m, pt')"
    "symmetricKey s (re_DestinationKeyId req) = Inr (dstMeta, dstKey, dstMat)" "length nonce = 12"
    "sealEnvelope cr dstKey dstMat pt' (re_DestinationEncryptionContext req) nonce = Some ct"
    "dstArn = km_Arn dstMeta" "s1 = s\<lparr>rnd := tl (rnd s)\<rparr>" "validateEncryptionContext (re_DestinationEncryptionContext req)"
    using handleReEncrypt_ok[OF re] by auto
  have pt: "pt' = pt" using handleDecrypt_ok[OF dec] r(1,2) by auto
  have kk: "dstKey = k" using usableKey_Inr(1)[OF symmetricKey_Inr(1)[OF r(3)]] k(1) by simp
  note r = r[unfolded pt kk]
  have key: "symmetricKey s1 k = Inr (dstMeta, k, dstMat)" using symmetricKey_uuid[OF r(3) k(2)] r(7) by simp
  show ?thesis using decrypt_fresh[OF r(5) k(2) r(4) aead key r(8) refl] r(6) by simp
qed

lemma dataKey_decrypt:
  assumes aead: "aead_correct cr" "aead_authentic cr"
    and gen: "handleGenerateDataKey cr (Some req) s = (ROk (BDataKey blob (Some key) arn mid), s1)"
    and k: "resolveKeyRef s (kq_KeyID req) = Inr k" "looksLikeUUID k"
  shows "dataKeySize req = Some (length key)
    \<and> (\<exists>mid. handleDecrypt cr (Some (decryptRequest blob '''' (kq_EncryptionContext req))) s1 = (ROk (BPlaintext key arn mid), s1))"
proof -
  obtain n meta k' mat combined where g: "dataKeySize req = Some n" "validateEncryptionContext (kq_EncryptionContext req)"
    "symmetricKey s (kq_KeyID req) = Inr (meta, k', mat)" "readFullRand (n + 12) s = (Some combined, s1)"
    "sealEnvelope cr k' mat (take n combined) (kq_EncryptionContext req) (drop n combined) = Some blob"
    "key = take n combined" "arn = km_Arn meta"
    using gen by (auto simp: handleGenerateDataKey_def generateDataKeyCommon_def response_defs envelopeNonceLen_def
        split: if_splits sum.splits prod.splits option.splits)
  have l: "length combined = n + 12" and s1: "s1 = s\<lparr>rnd := tl (rnd s)\<rparr>" using readFullRand_Some[OF g(4)] by auto
  have kk: "k' = k" using usableKey_Inr(1)[OF symmetricKey_Inr(1)[OF g(3)]] k(1) by simp
  note g = g[unfolded kk]
  have key: "symmetricKey s1 k = Inr (meta, k, mat)" using symmetricKey_uuid[OF g(3) k(2)] s1 by simp
  show ?thesis using decrypt_fresh[OF g(5) k(2) _ aead key g(2) refl] l g(1,6,7) by simp
qed

section \<open>Only enabled keys with the right usage\<close>

text \<open>
  The contract of a handler that uses a key: it succeeds only when the key guard accepts the key
  that the request names. What follows for the key is proved once.
\<close>

locale key_guarded =
  fixes handler :: "'r \<Rightarrow> kms \<Rightarrow> response \<times> kms" and ref :: "'r \<Rightarrow> string" and usage :: string
  assumes guarded: "is_ok (fst (handler r s)) \<Longrightarrow> \<exists>p. usableKey s (ref r) usage = Inr p"
begin

lemma enabled:
  assumes "is_ok (fst (handler r s))"
  shows "\<exists>k meta. resolveKeyRef s (ref r) = Inr k \<and> readKeyMeta s k = Inr meta
           \<and> km_KeyState meta = keyStateEnabled \<and> km_KeyUsage meta = usage"
proof -
  obtain meta k where "usableKey s (ref r) usage = Inr (meta, k)" using guarded[OF assms] by (metis prod.collapse)
  from usableKey_Inr[OF this] show ?thesis by blast
qed

end

lemma is_ok_iff: "is_ok r \<longleftrightarrow> (\<exists>b. r = ROk b)"
  by (auto simp: is_ok_def split: response.splits)

lemma is_ok_errors [simp]:
  "\<not> is_ok validationException" "\<not> is_ok (badRequest t)" "\<not> is_ok internalError" "\<not> is_ok (RErr n t)" "is_ok (ROk b)"
  by (simp_all add: is_ok_def response_defs)

lemma guard_error_not_ok:
  "usableKey s r u = Inl e \<Longrightarrow> \<not> is_ok e" "symmetricKey s r = Inl e \<Longrightarrow> \<not> is_ok e"
  "envelopeGuard s ct r = Inl e \<Longrightarrow> \<not> is_ok e"
  by (auto simp: is_ok_iff)

lemma symmetricKey_usable: "symmetricKey s r = Inr p \<Longrightarrow> \<exists>q. usableKey s r ''ENCRYPT_DECRYPT'' = Inr q"
  using symmetricKey_Inr(1)[of s r "fst p" "fst (snd p)" "snd (snd p)"] by auto

lemmas guard_dests = guard_error_not_ok symmetricKey_usable

interpretation encrypt_guard: key_guarded "\<lambda>r. handleEncrypt cr (Some r)" eq_KeyID "''ENCRYPT_DECRYPT''" for cr
  by unfold_locales
    (auto simp: handleEncrypt_def dest: guard_dests split: if_splits sum.splits prod.splits option.splits)

interpretation decrypt_guard: key_guarded "\<lambda>r. handleDecrypt cr (Some r)" "\<lambda>r. envelopeKeyID (dq_CiphertextBlob r)"
  "''ENCRYPT_DECRYPT''" for cr
proof unfold_locales
  fix r s assume "is_ok (fst (handleDecrypt cr (Some r) s))"
  then obtain b where "handleDecrypt cr (Some r) s = (ROk b, snd (handleDecrypt cr (Some r) s))"
    by (metis is_ok_iff prod.collapse)
  from handleDecrypt_ok[OF this] show "\<exists>p. usableKey s (envelopeKeyID (dq_CiphertextBlob r)) ''ENCRYPT_DECRYPT'' = Inr p"
    using symmetricKey_usable by blast
qed

interpretation reencrypt_guard: key_guarded "\<lambda>r. handleReEncrypt cr (Some r)" re_DestinationKeyId "''ENCRYPT_DECRYPT''" for cr
proof unfold_locales
  fix r s assume "is_ok (fst (handleReEncrypt cr (Some r) s))"
  then obtain b where "handleReEncrypt cr (Some r) s = (ROk b, snd (handleReEncrypt cr (Some r) s))"
    by (metis is_ok_iff prod.collapse)
  from handleReEncrypt_ok[OF this] show "\<exists>p. usableKey s (re_DestinationKeyId r) ''ENCRYPT_DECRYPT'' = Inr p"
    using symmetricKey_usable by blast
qed

interpretation datakey_guard: key_guarded "\<lambda>r. handleGenerateDataKey cr (Some r)" kq_KeyID "''ENCRYPT_DECRYPT''" for cr
  by unfold_locales (auto simp: handleGenerateDataKey_def generateDataKeyCommon_def dest: guard_dests
      split: if_splits sum.splits prod.splits option.splits)

interpretation datakey_only_guard: key_guarded "\<lambda>r. handleGenerateDataKeyWithoutPlaintext cr (Some r)" kq_KeyID
  "''ENCRYPT_DECRYPT''" for cr
  by unfold_locales (auto simp: handleGenerateDataKeyWithoutPlaintext_def generateDataKeyCommon_def dest: guard_dests
      split: if_splits sum.splits prod.splits option.splits)

interpretation keypair_guard: key_guarded "\<lambda>r. handleGenerateDataKeyPair cr (Some r)" pr_KeyID "''ENCRYPT_DECRYPT''" for cr
  by unfold_locales (auto simp: handleGenerateDataKeyPair_def generateDataKeyPairCommon_def dest: guard_dests
      split: if_splits sum.splits prod.splits option.splits)

interpretation keypair_only_guard: key_guarded "\<lambda>r. handleGenerateDataKeyPairWithoutPlaintext cr (Some r)" pr_KeyID
  "''ENCRYPT_DECRYPT''" for cr
  by unfold_locales (auto simp: handleGenerateDataKeyPairWithoutPlaintext_def generateDataKeyPairCommon_def dest: guard_dests
      split: if_splits sum.splits prod.splits option.splits)

lemma mac_key_usable:
  "resolveAndValidateMACKey s r a = Inr p \<Longrightarrow> \<exists>q. usableKey s r ''GENERATE_VERIFY_MAC'' = Inr q"
  "resolveAndValidateMACKey s r a = Inl e \<Longrightarrow> \<not> is_ok e"
  by (auto simp: resolveAndValidateMACKey_def dest: guard_dests split: sum.splits if_splits prod.splits)

lemma sign_key_usable:
  "resolveAndValidateSignKey s r a = Inr p \<Longrightarrow> \<exists>q. usableKey s r ''SIGN_VERIFY'' = Inr q"
  "resolveAndValidateSignKey s r a = Inl e \<Longrightarrow> \<not> is_ok e"
  by (auto simp: resolveAndValidateSignKey_def dest: guard_dests split: sum.splits if_splits prod.splits)

lemma signingGuard_not_ok: "signingGuard req = Inl e \<Longrightarrow> \<not> is_ok e"
  by (auto simp: signingGuard_def Let_def split: if_splits option.splits)

interpretation generate_mac_guard: key_guarded "\<lambda>r. handleGenerateMac cr (Some r)" mq_KeyID "''GENERATE_VERIFY_MAC''" for cr
  by unfold_locales (auto simp: handleGenerateMac_def dest: mac_key_usable split: if_splits sum.splits prod.splits option.splits)

interpretation verify_mac_guard: key_guarded "\<lambda>r. handleVerifyMac cr (Some r)" mq_KeyID "''GENERATE_VERIFY_MAC''" for cr
  by unfold_locales (auto simp: handleVerifyMac_def dest: mac_key_usable split: if_splits sum.splits prod.splits option.splits)

interpretation sign_guard: key_guarded "\<lambda>r. handleSign cr (Some r)" sq_KeyID "''SIGN_VERIFY''" for cr
  by unfold_locales (auto simp: handleSign_def dest: sign_key_usable signingGuard_not_ok
      split: if_splits sum.splits prod.splits option.splits)

interpretation verify_guard: key_guarded "\<lambda>r. handleVerify cr (Some r)" sq_KeyID "''SIGN_VERIFY''" for cr
  by unfold_locales (auto simp: handleVerify_def dest: sign_key_usable signingGuard_not_ok
      split: if_splits sum.splits prod.splits option.splits)

text \<open>The key reference and the usage that a cryptographic request needs.\<close>

fun crypto_use :: "kms_request \<Rightarrow> (string \<times> string) option" where
  "crypto_use (RqEncrypt (Some r)) = Some (eq_KeyID r, ''ENCRYPT_DECRYPT'')"
| "crypto_use (RqDecrypt (Some r)) = Some (envelopeKeyID (dq_CiphertextBlob r), ''ENCRYPT_DECRYPT'')"
| "crypto_use (RqReEncrypt (Some r)) = Some (re_DestinationKeyId r, ''ENCRYPT_DECRYPT'')"
| "crypto_use (RqGenerateDataKey (Some r)) = Some (kq_KeyID r, ''ENCRYPT_DECRYPT'')"
| "crypto_use (RqGenerateDataKeyWithoutPlaintext (Some r)) = Some (kq_KeyID r, ''ENCRYPT_DECRYPT'')"
| "crypto_use (RqGenerateDataKeyPair (Some r)) = Some (pr_KeyID r, ''ENCRYPT_DECRYPT'')"
| "crypto_use (RqGenerateDataKeyPairWithoutPlaintext (Some r)) = Some (pr_KeyID r, ''ENCRYPT_DECRYPT'')"
| "crypto_use (RqGenerateMac (Some r)) = Some (mq_KeyID r, ''GENERATE_VERIFY_MAC'')"
| "crypto_use (RqVerifyMac (Some r)) = Some (mq_KeyID r, ''GENERATE_VERIFY_MAC'')"
| "crypto_use (RqSign (Some r)) = Some (sq_KeyID r, ''SIGN_VERIFY'')"
| "crypto_use (RqVerify (Some r)) = Some (sq_KeyID r, ''SIGN_VERIFY'')"
| "crypto_use _ = None"

lemmas guard_enabled = encrypt_guard.enabled decrypt_guard.enabled reencrypt_guard.enabled datakey_guard.enabled
  datakey_only_guard.enabled keypair_guard.enabled keypair_only_guard.enabled generate_mac_guard.enabled
  verify_mac_guard.enabled sign_guard.enabled verify_guard.enabled

lemma crypto_use_enabled:
  assumes "crypto_use req = Some (ref, usage)" and "is_ok (fst (serveHTTP cr req s))"
  shows "\<exists>k meta. resolveKeyRef s ref = Inr k \<and> readKeyMeta s k = Inr meta
           \<and> km_KeyState meta = keyStateEnabled \<and> km_KeyUsage meta = usage"
proof -
  define Q where "Q t r u \<longleftrightarrow> (\<exists>k meta. resolveKeyRef t r = Inr k \<and> readKeyMeta t k = Inr meta
    \<and> km_KeyState meta = keyStateEnabled \<and> km_KeyUsage meta = u)" for t r u
  note enabled = guard_enabled[folded Q_def]
  have "Q s ref usage" using assms enabled by (cases req rule: crypto_use.cases) auto
  then show ?thesis by (simp only: Q_def)
qed

section \<open>Message authentication codes and signatures\<close>

lemma mac_iff:
  assumes gen: "handleGenerateMac cr (Some req) s = (ROk (BMac arn mac alg), s1)"
    and x: "x \<noteq> []" "length x \<le> 6144"
  shows "handleVerifyMac cr (Some (req\<lparr>mq_Mac := x\<rparr>)) s =
           (if x = mac then ROk (BMacValid arn alg) else badRequest ''KMSInvalidMacException'', s)"
proof -
  obtain h meta mat where g: "mq_Message req \<noteq> []" "length (mq_Message req) \<le> 4096" "mq_MacAlgorithm req \<noteq> ''''"
    "hmacHashForAlgorithm (mq_MacAlgorithm req) = Some h"
    "resolveAndValidateMACKey s (mq_KeyID req) (mq_MacAlgorithm req) = Inr (meta, mat)"
    "arn = km_Arn meta" "mac = cr_Hmac cr h (mt_KeyBytes mat) (mq_Message req)" "alg = mq_MacAlgorithm req"
  proof -
    have "resolveAndValidateMACKey s r a \<noteq> Inl (ROk b)" for r a b using mac_key_usable(2)[of s r a "ROk b"] by auto
    then show ?thesis using gen that
      by (auto simp: handleGenerateMac_def response_defs not_less split: if_splits sum.splits prod.splits option.splits)
  qed
  then show ?thesis using x by (auto simp: handleVerifyMac_def not_less)
qed

text \<open>What the service relies on: a signature that was made with a key verifies under it, and no
  signature is empty.\<close>

definition sig_correct :: "crypto \<Rightarrow> bool" where
  "sig_correct cr \<longleftrightarrow>
     (\<forall>k h d sig. cr_SignPSS cr k h d = Some sig \<longrightarrow> cr_VerifyPSS cr k h d sig \<and> sig \<noteq> [])
   \<and> (\<forall>k h d sig. cr_SignPKCS1v15 cr k h d = Some sig \<longrightarrow> cr_VerifyPKCS1v15 cr k h d sig \<and> sig \<noteq> [])
   \<and> (\<forall>k d sig. cr_SignASN1 cr k d = Some sig \<longrightarrow> cr_VerifyASN1 cr k d sig \<and> sig \<noteq> [])
   \<and> (\<forall>k d. cr_VerifyEd25519 cr k d (cr_SignEd25519 cr k d) \<and> cr_SignEd25519 cr k d \<noteq> [])"

lemma sign_verify_data:
  "sig_correct cr \<Longrightarrow> signData cr der algo h d = Some sig \<Longrightarrow> verifyData cr der algo h d sig = None \<and> sig \<noteq> []"
  by (auto simp: signData_def verifyData_def sig_correct_def Let_def split: option.splits private_key.splits if_splits)

lemma sign_guards_not_ok [simp]:
  "resolveAndValidateSignKey s r a \<noteq> Inl (ROk b)" "signingGuard req \<noteq> Inl (ROk b)"
  using sign_key_usable(2)[of s r a "ROk b"] signingGuard_not_ok[of req "ROk b"] by auto

lemma handleSign_ok:
  assumes "handleSign cr (Some req) s = (ROk (BSignature arn sig alg), s1)"
  shows "\<exists>mt h meta mat. sq_Message req \<noteq> [] \<and> length (sq_Message req) \<le> 4096 \<and> signingGuard req = Inr (mt, h)
    \<and> resolveAndValidateSignKey s (sq_KeyID req) (sq_SigningAlgorithm req) = Inr (meta, mat)
    \<and> signData cr (mt_PrivateKeyDER mat) (sq_SigningAlgorithm req) h (dataToSign cr mt h (sq_Message req)) = Some sig
    \<and> arn = km_Arn meta \<and> alg = sq_SigningAlgorithm req"
  using assms by (auto simp: handleSign_def response_defs not_less split: if_splits sum.splits prod.splits option.splits)

lemma sign_verify:
  assumes cr: "sig_correct cr" and sign: "handleSign cr (Some req) s = (ROk (BSignature arn sig alg), s1)"
  shows "handleVerify cr (Some (req\<lparr>sq_Signature := sig\<rparr>)) s = (ROk (BSignatureValid arn alg), s)"
proof -
  obtain mt h meta mat where g: "sq_Message req \<noteq> []" "length (sq_Message req) \<le> 4096" "signingGuard req = Inr (mt, h)"
    "resolveAndValidateSignKey s (sq_KeyID req) (sq_SigningAlgorithm req) = Inr (meta, mat)"
    "signData cr (mt_PrivateKeyDER mat) (sq_SigningAlgorithm req) h (dataToSign cr mt h (sq_Message req)) = Some sig"
    "arn = km_Arn meta" "alg = sq_SigningAlgorithm req"
    using handleSign_ok[OF sign] by blast
  have "signingGuard (req\<lparr>sq_Signature := sig\<rparr>) = signingGuard req"
    by (cases req) (simp only: signingGuard_def SignRequest.select_convs SignRequest.update_convs)
  then show ?thesis using g sign_verify_data[OF cr g(5)] by (simp add: handleVerify_def)
qed

section \<open>Properties\<close>

text \<open>
  C5. Decrypting what \<open>Encrypt\<close> returned, with the same encryption context (in any iteration order of
  the map) and without naming the key, gives back the plaintext and the ARN of the key, provided
  the key reference of the request resolved to a key ID in canonical form.
\<close>

theorem encrypt_decrypt_roundtrip:
  assumes "aead_correct cr" and "aead_authentic cr"
    and "handleEncrypt cr (Some req) s = (ROk (BCiphertext ct arn), s1)"
    and "resolveKeyRef s (eq_KeyID req) = Inr k" and "looksLikeUUID k"
    and "smap_wf (eq_EncryptionContext req)" and "smap_wf ctx" and "map_of ctx = map_of (eq_EncryptionContext req)"
  shows "\<exists>mid. handleDecrypt cr (Some (decryptRequest ct '''' ctx)) s1 = (ROk (BPlaintext (eq_Plaintext req) arn mid), s1)"
  using assms by (rule encrypt_decrypt)

definition demo_encrypt :: EncryptRequest where
  "demo_encrypt = \<lparr>eq_KeyID = demo_key, eq_Plaintext = [7, 8, 9], eq_EncryptionAlgorithm = '''',
     eq_EncryptionContext = [(''a'', ''1''), (''b'', ''2'')]\<rparr>"

definition demo_ct :: bytes where
  "demo_ct = the (sealEnvelope demo_crypto demo_key demo_material [7, 8, 9] [(''a'', ''1''), (''b'', ''2'')] (replicate 12 4))"

lemma demo_encrypt_ok:
  "handleEncrypt demo_crypto (Some demo_encrypt) demo_state
     = (ROk (BCiphertext demo_ct (km_Arn demo_meta)), demo_state\<lparr>rnd := tl (rnd demo_state)\<rparr>)"
proof -
  have "fst (handleEncrypt demo_crypto (Some demo_encrypt) demo_state) = ROk (BCiphertext demo_ct (km_Arn demo_meta))" by code_simp
  then obtain s1 where e: "handleEncrypt demo_crypto (Some demo_encrypt) demo_state = (ROk (BCiphertext demo_ct (km_Arn demo_meta)), s1)"
    by (metis prod.collapse)
  then show ?thesis using handleEncrypt_ok[OF e] by auto
qed

lemma demo_resolves: "resolveKeyRef demo_state (eq_KeyID demo_encrypt) = Inr demo_key" "looksLikeUUID demo_key"
  by code_simp+

theorem encrypt_decrypt_roundtrip_witness:
  "\<exists>mid. handleDecrypt demo_crypto (Some (decryptRequest demo_ct '''' [(''b'', ''2''), (''a'', ''1'')]))
      (demo_state\<lparr>rnd := tl (rnd demo_state)\<rparr>)
    = (ROk (BPlaintext [7, 8, 9] (km_Arn demo_meta) mid), demo_state\<lparr>rnd := tl (rnd demo_state)\<rparr>)"
  using encrypt_decrypt_roundtrip[OF demo_correct demo_authentic demo_encrypt_ok demo_resolves, of "[(''b'', ''2''), (''a'', ''1'')]"]
  by (simp add: demo_encrypt_def fun_upd_twist)


definition demo_after :: kms where
  "demo_after = run demo_crypto [CallRotateKeyOnDemand demo_key] (demo_state\<lparr>rnd := tl (rnd demo_state)\<rparr>)"


text \<open>
  C7. A ciphertext is bound to its encryption context: with a context that is a different map (keys
  and values valid UTF-8), \<open>Decrypt\<close> never succeeds, in no state of the service and for no key
  reference.
\<close>

theorem decrypt_context_bound:
  assumes "aead_correct cr" and "aead_authentic cr"
    and "handleEncrypt cr (Some req) s = (ROk (BCiphertext ct arn), s1)"
    and "resolveKeyRef s (eq_KeyID req) = Inr k" and "looksLikeUUID k"
    and "smap_wf (eq_EncryptionContext req)" and "smap_wf (dq_EncryptionContext d)"
    and "\<forall>p\<in>set (eq_EncryptionContext req). valid_pair p" and "\<forall>p\<in>set (dq_EncryptionContext d). valid_pair p"
    and "map_of (dq_EncryptionContext d) \<noteq> map_of (eq_EncryptionContext req)" and "dq_CiphertextBlob d = ct"
  shows "\<not> is_ok (fst (handleDecrypt cr (Some d) t))"
  using decrypt_other_context[OF assms(1-5)] marshalContext_eq_iff[OF assms(7,6,9,8)] assms(10,11) by blast

theorem decrypt_context_bound_witness:
  "\<not> is_ok (fst (handleDecrypt demo_crypto (Some (decryptRequest demo_ct '''' [(''a'', ''1''), (''b'', ''3'')])) demo_state))"
proof -
  have v: "\<forall>p\<in>set (eq_EncryptionContext demo_encrypt). valid_pair p"
    "\<forall>p\<in>set [(''a'', ''1''), (''b'', ''3'')]. valid_pair p" by code_simp+
  have n: "map_of [(''a'', ''1''), (''b'', ''3'')] \<noteq> map_of (eq_EncryptionContext demo_encrypt)"
    by (simp add: demo_encrypt_def fun_eq_iff)
  show ?thesis
    by (rule decrypt_context_bound[OF demo_correct demo_authentic demo_encrypt_ok demo_resolves _ _ v(1)])
      (use v(2) n in \<open>simp_all add: demo_encrypt_def\<close>)
qed


definition demo_reencrypt :: ReEncryptRequest where
  "demo_reencrypt = \<lparr>re_CiphertextBlob = demo_ct, re_DestinationKeyId = keyARN demo_key, re_SourceKeyId = '''',
     re_SourceEncryptionAlgorithm = '''', re_SourceEncryptionContext = [(''a'', ''1''), (''b'', ''2'')],
     re_DestinationEncryptionAlgorithm = '''', re_DestinationEncryptionContext = []\<rparr>"

definition demo_ct2 :: bytes where
  "demo_ct2 = the (sealEnvelope demo_crypto demo_key demo_material [7, 8, 9] [] (replicate 12 4))"


text \<open>
  \<open>GenerateDataKey\<close> returns a key of the requested size together with a ciphertext that decrypts to
  exactly that key.
\<close>

theorem generateDataKey_roundtrip:
  assumes "aead_correct cr" and "aead_authentic cr"
    and "handleGenerateDataKey cr (Some req) s = (ROk (BDataKey blob (Some key) arn mid), s1)"
    and "resolveKeyRef s (kq_KeyID req) = Inr k" and "looksLikeUUID k"
  shows "dataKeySize req = Some (length key)
    \<and> (\<exists>mid. handleDecrypt cr (Some (decryptRequest blob '''' (kq_EncryptionContext req))) s1 = (ROk (BPlaintext key arn mid), s1))"
  using assms by (rule dataKey_decrypt)

definition demo_datakey :: DataKeyRequest where
  "demo_datakey = \<lparr>kq_KeyID = demo_key, kq_KeySpec = ''AES_128'', kq_NumberOfBytes = None, kq_EncryptionContext = []\<rparr>"

definition demo_blob :: bytes where
  "demo_blob = the (sealEnvelope demo_crypto demo_key demo_material (replicate 16 4) [] (replicate 12 4))"

theorem generateDataKey_roundtrip_witness:
  "dataKeySize demo_datakey = Some 16
   \<and> (\<exists>s1 mid. handleDecrypt demo_crypto (Some (decryptRequest demo_blob '''' [])) s1
        = (ROk (BPlaintext (replicate 16 4) (km_Arn demo_meta) mid), s1))"
proof -
  have "fst (handleGenerateDataKey demo_crypto (Some demo_datakey) demo_state) = ROk (BDataKey demo_blob (Some (replicate 16 4))
      (km_Arn demo_meta) (mt_KeyMaterialID demo_material))" by code_simp
  then obtain s1 where g: "handleGenerateDataKey demo_crypto (Some demo_datakey) demo_state = (ROk (BDataKey demo_blob
      (Some (replicate 16 4)) (km_Arn demo_meta) (mt_KeyMaterialID demo_material)), s1)" by (metis prod.collapse)
  have r: "resolveKeyRef demo_state (kq_KeyID demo_datakey) = Inr demo_key"
    using resolveKeyRef_uuid(1)[OF demo_resolves(2)] by (simp add: demo_datakey_def)
  show ?thesis
    using generateDataKey_roundtrip[OF demo_correct demo_authentic g r demo_resolves(2)] by (auto simp: demo_datakey_def)
qed

text \<open>
  C10. A cryptographic request (encryption, decryption, data keys, MACs, signatures) succeeds only for
  a key that exists, is enabled and was created for that usage; for \<open>Decrypt\<close> this is the key named in
  the ciphertext, for \<open>ReEncrypt\<close> the destination key.
\<close>

theorem crypto_use_requires_enabled_key:
  assumes "crypto_use req = Some (ref, usage)" and "is_ok (fst (serveHTTP cr req s))"
  shows "\<exists>k meta. resolveKeyRef s ref = Inr k \<and> readKeyMeta s k = Inr meta
           \<and> km_KeyState meta = keyStateEnabled \<and> km_KeyUsage meta = usage"
  using assms by (rule crypto_use_enabled)

theorem crypto_use_requires_enabled_key_witness:
  "\<exists>k meta. resolveKeyRef demo_state demo_key = Inr k \<and> readKeyMeta demo_state k = Inr meta
      \<and> km_KeyState meta = keyStateEnabled \<and> km_KeyUsage meta = ''ENCRYPT_DECRYPT''"
  by (rule crypto_use_requires_enabled_key[of "RqEncrypt (Some demo_encrypt)" _ _ demo_crypto])
    (simp_all add: demo_encrypt_ok, simp add: demo_encrypt_def)

text \<open>
  C11. \<open>VerifyMac\<close> accepts exactly the code that \<open>GenerateMac\<close> returns for the same key, message and
  algorithm, and answers any other code (of admissible length) with \<open>KMSInvalidMacException\<close>.
\<close>

theorem verifyMac_iff_generateMac:
  assumes "handleGenerateMac cr (Some req) s = (ROk (BMac arn mac alg), s1)"
    and "x \<noteq> []" and "length x \<le> 6144"
  shows "handleVerifyMac cr (Some (req\<lparr>mq_Mac := x\<rparr>)) s =
           (if x = mac then ROk (BMacValid arn alg) else badRequest ''KMSInvalidMacException'', s)"
  using assms by (rule mac_iff)

definition demo_mac_state :: kms where
  "demo_mac_state = demo_state\<lparr>d_fs := AList.update [''keys'', demo_key, ''meta.json'']
     (File (Some (CMeta (demo_meta\<lparr>km_KeySpec := ''HMAC_256'', km_KeyUsage := ''GENERATE_VERIFY_MAC'',
        km_MacAlgorithms := [''HMAC_SHA_256'']\<rparr>)))) (d_fs demo_state)\<rparr>"

definition demo_mac :: MacRequest where
  "demo_mac = \<lparr>mq_KeyID = demo_key, mq_MacAlgorithm = ''HMAC_SHA_256'', mq_Message = [1, 2], mq_Mac = []\<rparr>"

theorem verifyMac_iff_generateMac_witness:
  "handleVerifyMac demo_crypto (Some (demo_mac\<lparr>mq_Mac := [9]\<rparr>)) demo_mac_state
     = (badRequest ''KMSInvalidMacException'', demo_mac_state)"
proof -
  have "fst (handleGenerateMac demo_crypto (Some demo_mac) demo_mac_state)
      = ROk (BMac (keyARN demo_key) (replicate 32 2 @ [1, 2]) ''HMAC_SHA_256'')" by code_simp
  then obtain s1 where g: "handleGenerateMac demo_crypto (Some demo_mac) demo_mac_state
      = (ROk (BMac (keyARN demo_key) (replicate 32 2 @ [1, 2]) ''HMAC_SHA_256''), s1)" by (metis prod.collapse)
  show ?thesis using verifyMac_iff_generateMac[OF g, of "[9]"] by (simp add: numeral_eq_Suc)
qed

text \<open>
  A signature that \<open>Sign\<close> returns is accepted by \<open>Verify\<close> for the same key, message, message type and
  algorithm.
\<close>

theorem sign_verify_roundtrip:
  assumes "sig_correct cr" and "handleSign cr (Some req) s = (ROk (BSignature arn sig alg), s1)"
  shows "handleVerify cr (Some (req\<lparr>sq_Signature := sig\<rparr>)) s = (ROk (BSignatureValid arn alg), s)"
  using assms by (rule sign_verify)

definition demo_sign_state :: kms where
  "demo_sign_state = demo_state\<lparr>d_fs := AList.update [''keys'', demo_key, ''material.json'']
       (File (Some (CMaterial \<lparr>mt_KeyBytes = [], mt_PrivateKeyDER = [1], mt_KeyMaterialID = ''x''\<rparr>)))
     (AList.update [''keys'', demo_key, ''meta.json'']
       (File (Some (CMeta (demo_meta\<lparr>km_KeySpec := ''RSA_2048'', km_KeyUsage := ''SIGN_VERIFY'',
          km_SigningAlgorithms := signingAlgorithmsForKey ''RSA_2048'' ''SIGN_VERIFY''\<rparr>)))) (d_fs demo_state))\<rparr>"

definition demo_sign :: SignRequest where
  "demo_sign = \<lparr>sq_KeyID = demo_key, sq_Message = [5], sq_Signature = [], sq_SigningAlgorithm = ''RSASSA_PSS_SHA_256'',
     sq_MessageType = ''''\<rparr>"

lemma demo_sig_correct: "sig_correct demo_crypto"
  by (simp add: sig_correct_def demo_crypto_def)

theorem sign_verify_roundtrip_witness:
  "handleVerify demo_crypto (Some (demo_sign\<lparr>sq_Signature := [1, 1, 5]\<rparr>)) demo_sign_state
     = (ROk (BSignatureValid (keyARN demo_key) ''RSASSA_PSS_SHA_256''), demo_sign_state)"
proof -
  have "fst (handleSign demo_crypto (Some demo_sign) demo_sign_state)
      = ROk (BSignature (keyARN demo_key) [1, 1, 5] ''RSASSA_PSS_SHA_256'')" by code_simp
  then obtain s1 where g: "handleSign demo_crypto (Some demo_sign) demo_sign_state
      = (ROk (BSignature (keyARN demo_key) [1, 1, 5] ''RSASSA_PSS_SHA_256''), s1)" by (metis prod.collapse)
  show ?thesis by (rule sign_verify_roundtrip[OF demo_sig_correct g])
qed

end
