(* ===== verification/Findings.thy ===== *)
theory Findings
  imports Ddb_Meta_Theorems Kms_Crypto_Theorems S3_Demo
begin

text \<open>
  Behaviour of the code that its comments or its documentation do not describe, each shown on a concrete
  input.
\<close>

section \<open>DynamoDB\<close>

text \<open>A filter that follows a path below an attribute that is not typed panics.\<close>

lemma filter_below_untyped_value_panics:
  "evalFilterExpr ''a.b = :v'' [(''a'', GStr ''x'')] [] [('':v'', GMap [(''S'', GStr ''x'')])] = Panic"
  by code_simp

text \<open>The keyword search of an update expression cuts inside an attribute name that ends in a keyword.\<close>

lemma update_expression_cut_inside_name:
  "parseUpdateExpression ''SET offset = :v'' [] [('':v'', GStr ''x'')] = Err (UInvalidClause ''SET'' ''off'')"
  by code_simp

definition nested_item :: "string \<Rightarrow> gmap" where
  "nested_item n = [(''pk'', GMap [(''S'', GStr ''a'')]), (''m'', GMap [(''M'', GMap [(''x'', GMap [(''N'', GStr n)])])])]"

definition nested_update :: "string \<Rightarrow> UpdateItemRequest" where
  "nested_update e = \<lparr>ur_TableName = ''t'', ur_Key = Ddb_Demo.demo_key ''a'', ur_UpdateExpression = e, ur_ConditionExpression = '''',
     ur_Names = [], ur_Values = [('':v'', GMap [(''N'', GStr ''2'')])], ur_ReturnValues = ''ALL_OLD'', ur_ReturnConsumedCapacity = '''',
     ur_AttributeUpdates = []\<rparr>"

definition nested_db :: ddb where
  "nested_db = snd (PutItem ''t'' (nested_item ''1'') None demo_db)"

text \<open>
  The copy of an item that an update keeps for \<open>ALL_OLD\<close> and for the stream is shallow: a nested assignment
  changes it too, so the old values that are reported are the new ones.
\<close>

lemma all_old_reports_new_nested_value:
  "fst (serveDdb id (RqUpdateItem (Some (nested_update ''SET m.x = :v''))) nested_db) = DOk (BodyAttributes (Some (nested_item ''2'')) None)"
  by code_simp

text \<open>
  An update that stores an attribute below itself builds a cyclic value: the item's file is written without
  content, and the copy for the stream does not end.
\<close>

lemma cyclic_update_empties_item:
  "fst (serveDdb id (RqUpdateItem (Some (nested_update ''SET m.y = if_not_exists(m, :v)''))) nested_db) = DPanic
   \<and> look (snd (serveDdb id (RqUpdateItem (Some (nested_update ''SET m.y = if_not_exists(m, :v)''))) nested_db))
       [''t'', ''0000000000000000000000000000000a.json''] = Some (File None)"
  by code_simp

section \<open>KMS\<close>

text \<open>A grant id that walks out of the directory of grants removes the metadata of the key.\<close>

lemma revoke_grant_removes_key_metadata:
  "fst (handleRevokeGrant (Some (Kms_Demo.demo_key, ''../meta'')) demo_state) = ROk BEmpty
   \<and> look (snd (handleRevokeGrant (Some (Kms_Demo.demo_key, ''../meta'')) demo_state)) [''keys'', Kms_Demo.demo_key, ''meta.json''] = None"
  by code_simp

section \<open>S3\<close>

text \<open>\<open>CopyObject\<close> in a bucket with versions: the copy of an object onto itself opens the source, then truncates it as the
  destination, and stores an empty object under the entity tag of the source (the comment on the copy within a
  bucket without versions describes the hazard).\<close>

lemma versioned_self_copy_empties_object:
  "case GetObject ''b'' ''k'' (snd (CopyObject ''b'' ''k'' [] ''b'' ''k'' demo_opts None demo_s3)) of
     Inr (h, m) \<Rightarrow> h = ([], True) \<and> o_ETag m = o_ETag demo_object \<and> o_Size m = 0
   | Inl _ \<Rightarrow> False"
  by code_simp

text \<open>\<open>writeObject\<close> truncates the object before it reads the new body; when the body fails, the rest of the new bytes
  stays behind under the metadata of the old object, and \<open>PutObject\<close> reports an error.\<close>

lemma failed_upload_replaces_body:
  "case PutObject ''b'' ''k'' (RBody [7] False) demo_opts demo_s3 of
     (Inl _, s) \<Rightarrow> GetObject ''b'' ''k'' s = Inr (([7], True), demo_object)
   | _ \<Rightarrow> False"
  by code_simp

text \<open>Objects and sidecar files share their names: an object \<open>k.meta.json\<close> replaces the metadata of \<open>k\<close>, which can then not be read.\<close>

lemma sidecar_key_hides_object:
  "case PutObject ''b'' ''k.meta.json'' (RBody [7] True) demo_opts demo_s3 of
     (Inr _, s) \<Rightarrow> GetObject ''b'' ''k'' s = Inl (ErrFile EOther)
   | _ \<Rightarrow> False"
  by code_simp

end
