(* ===== verification/Cog_Findings.thy ===== *)
theory Cog_Findings
  imports Cog_Srp_Theorems
begin

text \<open>
  Behaviour of the Cognito service that its comments or its documentation do not describe.
\<close>

section \<open>Cognito\<close>

text \<open>A session is any token of the pool that has not expired: an ID token carries the attributes of its user under the names the user
  chose, so a user whose attributes are named like the claims of a session can present an ID token as the session of
  another user who enrols a second factor.\<close>

lemma id_token_is_session:
  assumes laws: "signatureLaws lib"
    and attrs: "us_Attributes user = [\<lparr>at_Name = ''pool_id'', at_Value = poolID\<rparr>, \<lparr>at_Name = ''client_id'', at_Value = clientID\<rparr>,
      \<lparr>at_Name = ''username'', at_Value = victim\<rparr>, \<lparr>at_Name = ''challenge'', at_Value = ''MFA_SETUP''\<rparr>,
      \<lparr>at_Name = ''verified_totp_secret'', at_Value = secret\<rparr>]"
    and token: "buildJWT lib key keyID (idClaimsOf now expiry poolID clientID user [] originJTI jti) = Some idToken"
    and plain: "list_all valid_utf8 [poolID, issuerURL poolID, clientID, victim, secret, us_Sub user, us_Username user, originJTI, jti]"
    and time: "0 \<le> now" "now \<le> expiry" "expiry < 2 ^ 53"
  shows "\<exists>cl. parseSessionToken lib now idToken key = Some cl
    \<and> sessionUser cl poolID clientID ''MFA_SETUP'' [(''USERNAME'', victim)] = Some victim
    \<and> claimStr cl ''verified_totp_secret'' = secret"
proof -
  let ?cl = "idClaimsOf now expiry poolID clientID user [] originJTI jti"
  have cl: "?cl = [(''sub'', CStr (us_Sub user)), (''iss'', CStr (issuerURL poolID)), (''aud'', CStr clientID),
      (''token_use'', CStr ''id''), (''cognito:username'', CStr (us_Username user)), (''origin_jti'', CStr originJTI),
      (''auth_time'', CNum now), (''exp'', CNum expiry), (''iat'', CNum now), (''jti'', CStr jti),
      (''pool_id'', CStr poolID), (''client_id'', CStr clientID), (''username'', CStr victim), (''challenge'', CStr ''MFA_SETUP''),
      (''verified_totp_secret'', CStr secret)]"
    by (simp add: idClaimsOf_def attrs reservedClaims_def has_prefix_def Let_def)
  have texts: "list_all valid_utf8 [''sub'', ''iss'', ''aud'', ''token_use'', ''cognito:username'', ''origin_jti'', ''auth_time'', ''exp'',
      ''iat'', ''jti'', ''pool_id'', ''client_id'', ''username'', ''challenge'', ''verified_totp_secret'', ''id'', ''MFA_SETUP'']"
    by code_simp
  obtain c where c: "verifyJWT lib idToken key = Some c" "map_of c = map_of ?cl"
    using verify_built[OF laws token] texts plain time unfolding cl by (auto simp: plainClaim_def)
  then show ?thesis
    using time by (auto simp: parseSessionToken_def claimNum_def claimStr_def sessionUser_def param_def cl Let_def)
qed

text \<open>\<open>DeleteUser\<close> leaves the memberships of the user behind: a new user of the same name is in the groups of the old one.\<close>

definition staff_group :: GroupMetadata where
  "staff_group = \<lparr>gm_GroupName = ''staff'', gm_UserPoolId = toyPool, gm_Description = [], gm_Precedence = None, gm_RoleArn = [],
     gm_CreationDate = 0, gm_LastModifiedDate = 0\<rparr>"

lemma deleted_user_leaves_groups:
  "let s1 = snd (CreateGroup toyPool staff_group (toyState toyLib [toyUser ''u'' ''pw''] []));
       (r2, s2) = AddUserToGroup toyPool ''staff'' ''u'' s1;
       (r3, s3) = DeleteUser_cog toyPool ''u'' s2;
       (r4, s4) = CreateUser toyPool ((toyUser ''u'' ''other'')\<lparr>us_Sub := ''w''\<rparr>) s3
   in r2 = Inr () \<and> r3 = Inr () \<and> r4 = Inr () \<and> GetGroupsForUser toyPool ''u'' s4 = Inr [''staff'']"
  by code_simp

text \<open>User names are compared without case, memberships are stored under the name of the request: a user who is added to a group
  under another spelling of the name is not in it when tokens are issued.\<close>

lemma group_name_is_case_sensitive:
  "let s1 = snd (CreateGroup toyPool staff_group (toyState toyLib [toyUser ''u'' ''pw''] []));
       (r2, s2) = AddUserToGroup toyPool ''staff'' ''U'' s1
   in r2 = Inr () \<and> GetUser toyPool ''U'' s2 = GetUser toyPool ''u'' s2 \<and> GetGroupsForUser toyPool ''U'' s2 = Inr [''staff'']
      \<and> GetGroupsForUser toyPool ''u'' s2 = Inr []"
  by code_simp

end
