(* ===== verification/Spec2Isabelle.thy ===== *)
theory Spec2Isabelle
  imports Ddb_Expr_Print Ddb_Commit Ddb_Partiql Ddb_Query_Theorems S3_Object_Theorems S3_Lock_Theorems S3_Multipart_Theorems
    S3_List_Theorems S3_Lifecycle Cog_SignOut_Theorems Findings Cog_Findings
begin

text \<open>
  A verification development for kumolo, an emulator of AWS services in Go that keeps its state in a
  directory of JSON files. This theory imports all others and holds this overview.

  \<^bold>\<open>The program.\<close> One HTTP server (\<open>internal/server\<close>) dispatches requests to the services \<open>internal/kms\<close>,
  \<open>internal/dynamodb\<close> (with DynamoDB Streams), \<open>internal/s3\<close>, \<open>internal/cognito\<close> and \<open>internal/sts\<close>. A service
  has a router, handlers that decode and validate a request and translate errors, and a storage
  that does the work on files below an \<open>os.Root\<close> under one lock. A request is handled as a whole while
  the lock is held, so the model of an operation is a function from the state to a result and a new
  state; interleavings of requests are sequences of these steps.

  \<^bold>\<open>The foundations.\<close> \<open>Kumolo_Prelude\<close>, \<open>Go_Strings\<close>, \<open>Go_Result\<close>: lists, byte strings, results with errors and
  panics (\<open>Ok\<close>, \<open>Err\<close>, \<open>Panic\<close>). \<open>Go_FS\<close>: the directory tree as the code sees it through \<open>os.Root\<close>, with
  \<open>filepath.Join\<close>, lexical escapes, and a predicate \<open>d_fault\<close> that makes any system call on any path fail;
  it is fixed during a request and arbitrary between requests. \<open>Go_FS_Frame\<close>: what each call leaves
  alone. \<open>Go_Value\<close>: decoded JSON values and \<open>json.Marshal\<close>, with the proof that equal texts mean
  values equal up to the order of maps. \<open>Go_Json\<close>, \<open>Go_Float\<close>: the encoding of string maps, \<open>ParseFloat\<close>
  and the comparison of \<open>float64\<close> values. \<open>Pagination\<close>: the contract of a paginated list (locale
  \<open>marker_pager\<close>) and that following its markers visits every element once. \<open>Undo_Log\<close>: the contract of
  a log of snapshots (locale \<open>undo_log\<close>) and that undoing it restores the state.

  \<^bold>\<open>KMS\<close> (\<open>Kms_*\<close>). \<open>Kms_Types\<close>, \<open>Kms_Storage\<close>, \<open>Kms_Material\<close>, \<open>Kms_Lifecycle\<close>, \<open>Kms_Grants\<close> model \<open>storage.go\<close> and
  \<open>storage_types.go\<close>; \<open>Kms_Envelope\<close> and \<open>Kms_Dataplane\<close> the ciphertext envelope and the cryptographic handlers;
  \<open>Kms_Handlers\<close>, \<open>Kms_Handlers_Refs\<close> and \<open>Kms_Router\<close> the other handlers and the dispatch. The cryptographic
  primitives are fields of a record that is passed in; what the theorems need of them (opening what was
  sealed, tags that verify exactly what was signed) are named hypotheses. \<open>Kms_Calls\<close>, \<open>Kms_Frame\<close>, \<open>Kms_Layout\<close>
  and \<open>Kms_Refinement\<close> hold the storage interface, the frames, the invariant of the directory and the
  abstract state machine of a key; \<open>Kms_State_Theorems\<close> (C1 to C4) the invariant of every reachable state,
  the refinement and the transitions of key states; \<open>Kms_Crypto_Theorems\<close> (C5 to C8, C10, C11) the round trips of
  encryption, also across key rotations, of data keys, signatures and MACs, and what they refuse.

  \<^bold>\<open>DynamoDB expressions\<close> (\<open>expression.go\<close>, part of \<open>handler_helpers.go\<close>). \<open>Ddb_Value\<close>, \<open>Ddb_Expr\<close>, \<open>Ddb_Projection\<close>,
  \<open>Ddb_Update\<close>: the tokenizer, the parser and the evaluator of filter and condition expressions, projections, key
  conditions and update expressions. \<open>Ddb_Expr_Theorems\<close> and \<open>Ddb_Expr_Print\<close> (C13 to C17): the parser never panics
  and reads back what is printed, typed operands never make the evaluation panic, equality and
  the order of numbers are what they should be.

  \<^bold>\<open>DynamoDB storage\<close> (\<open>storage*.go\<close>). \<open>Ddb_Types\<close>, \<open>Ddb_Tables\<close>, \<open>Ddb_Items\<close>, \<open>Ddb_Query\<close>, \<open>Ddb_Transaction\<close>, \<open>Ddb_Streams\<close>; the
  values that \<open>UpdateItem\<close> mutates in place live in an explicit heap (\<open>Ddb_Heap\<close>), because the item, its shallow
  copy and the values of the request share maps. \<open>Ddb_Frame\<close>, \<open>Ddb_Demo\<close>: frames and a small database.
  \<open>Ddb_Transaction_Theorems\<close>, \<open>Ddb_Commit\<close> (C18, C23, C24): a failed transaction is undone, a cancelled one reports
  its reasons, a successful one has the effect of its actions one after another. \<open>Ddb_Item_Theorems\<close>
  (C19 to C22): what is written is read back, what is deleted is gone, what fails changes nothing.
  \<open>Ddb_Query_Theorems\<close> (C25 to C27): the layout of a table, that paging a scan ends and visits every item once,
  that parallel segments partition the scan. \<open>Ddb_Stream_Theorems\<close> (C28 to C31): stream files, sequence
  numbers, iterators and restart.

  \<^bold>\<open>DynamoDB requests\<close> (\<open>handler_*.go\<close>, \<open>router.go\<close>, \<open>streams_router.go\<close>). \<open>Ddb_Handlers\<close>, \<open>Ddb_Router\<close>: every operation but
  PartiQL. \<open>Ddb_Router_Theorems\<close> (C32): a request that is answered with an error leaves no trace.
  \<open>Ddb_Meta_Theorems\<close> (C33): the invariant of the table metadata over all sequences of requests, faults and restarts.

  \<^bold>\<open>S3 storage\<close> (\<open>internal/s3/storage.go\<close>, \<open>types.go\<close>, \<open>errors.go\<close>, \<open>lifecycle.go\<close>, \<open>replication.go\<close>). \<open>S3_Types\<close>: the records, the files (bytes of clients and JSON
  values share one tree and are told apart by their names only), transfers that break off after a prefix, and
  the calendar of \<open>time.AddDate\<close>. \<open>S3_Storage\<close>: buckets, the archive of versions, writing objects; \<open>S3_Objects\<close>: reading, copying,
  deleting, retention and legal holds; \<open>S3_Config\<close>: tags, bucket configuration, access logs, listings; \<open>S3_Multipart\<close>:
  uploads in parts; \<open>S3_Lifecycle\<close>: the runs of the lifecycle rules and replication. \<open>S3_Frame\<close>: what the operations write (\<open>grows\<close>) and where the files of a key lie; \<open>S3_Demo\<close>: a small storage.
  \<open>S3_Object_Theorems\<close> (C34 to C36): a stored object is read back, a version survives what replaces or deletes it.
  \<open>S3_Lock_Theorems\<close> (C37): object lock. \<open>S3_Multipart_Theorems\<close> (C38): a completed upload is the concatenation of its parts.
  \<open>S3_List_Theorems\<close> (C39): the listing shows the objects that can be read.

  \<^bold>\<open>Cognito\<close> (\<open>internal/cognito\<close>). \<open>Go_Encoding\<close>: Base64, Base32, hexadecimal and the text of \<open>big.Int\<close>, with their round trips.
  \<open>Cog_Types\<close>: the records, the files and the state. \<open>Cog_Storage\<close>: pools and clients; \<open>Cog_Users\<close>: users, groups, keys and
  tokens; \<open>Cog_Crypto\<close>: signed tokens, the password policy, TOTP and SRP with the client of \<open>srptest\<close>. \<open>Cog_Auth\<close>: signing up,
  signing in and the challenges; \<open>Cog_Handlers\<close>: the operations of a signed-in user; \<open>Cog_Admin\<close>: the operations of
  an administrator, pools, clients, groups and tags, and the router. Signatures, hashes, HMAC, bcrypt and the JSON text of claims are
  fields of the state (\<open>coglib\<close>); times are in milliseconds, the region of a request is an argument. What the theorems use of
  them are the named hypotheses \<open>signatureLaws\<close> (a signature verifies, JSON gives claims back) and \<open>sealLaws\<close>; \<open>Cog_Demo\<close> has
  functions that satisfy them and a pool with a user. \<open>Cog_Srp_Theorems\<close> (C40): a client that knows the password signs in with SRP.
  \<open>Cog_Login_Theorems\<close> (C9): whatever the router answers, it issues tokens only to an enabled user for whom the request carries
  a proof. \<open>Cog_SignOut_Theorems\<close> (C12): after \<open>GlobalSignOut\<close> the refresh tokens of the user and the access
  tokens of their families are refused.

  \<open>Findings\<close> and \<open>Cog_Findings\<close> show where the code does not do what a comment or the documentation says.

  \<^bold>\<open>Boundaries of the model.\<close> Requests come decoded: a handler takes the fields of its request, or \<open>None\<close> when the
  body does not decode. Error responses keep status and type, not their message. Strings are sequences of
  bytes; \<open>strings.ToUpper\<close> and \<open>strings.Fields\<close> are modelled for ASCII. MD5 is a function argument; theorems that
  need it assume that it gives hexadecimal text. Where Go iterates over a map, the order is an
  argument or the order of the association list. Theorems about one table assume that its name has no path
  separator and is not \<open>.\<close> or \<open>..\<close>, which the code does not check. Loops are total functions; the only bounds
  are the depth of the heap when a value is encoded (no path without a repetition is longer than the heap) and
  the number of pages a client follows (enough pages are shown to suffice), and the depth of the tree that
  \<open>removeAllDir\<close> removes (at most the number of its entries). Writes that a crash cuts in the
  middle are not modelled, failed system calls are. In S3 the text of JSON documents, the decoding of foreign text and
  of the two XML documents the storage looks into are fields of the state (\<open>s3lib\<close>); the theorems on versions and
  uploads assume keys that stay below their bucket once cleaned, which the code does not check.

  \<^bold>\<open>Not modelled\<close>: the handlers of S3 with Select, the input validation of Cognito, STS, the execution of PartiQL statements (\<open>Ddb_Partiql\<close> has the parser), the HTTP dispatch and
  its CORS rules, configuration, logging and the build tools.
\<close>

end
